(* ===== verification/Prelude.thy ===== *)
theory Prelude
  imports Main "HOL-Library.Word" "HOL-Library.Sublist"
begin

section \<open>Prelude: programs, strings, tables\<close>

text \<open>
  The vocabulary every component theory uses.
  \<^item> \<open>app_error\<close>: the exceptions the sources raise
    (\<^verbatim>\<open>core/errors/exceptions.py\<close>, the built-in \<open>ValueError\<close> and
    \<open>RuntimeError\<close>, and the SQLAlchemy exceptions the code relies on).
  \<^item> \<open>prog\<close>: a coroutine of the sources as a function from the state to a result and the
    new state. A raise returns \<open>Inl\<close> with the state reached so far; undoing the writes is
    the business of the transaction that encloses the raise.
  \<^item> \<open>wp\<close> and \<open>maintains\<close>: weakest preconditions and invariance of programs, with
    one rule per combinator, collected so that \<open>simp\<close> and \<open>intro\<close> walk a program.
  \<^item> Python's \<open>str.strip\<close>, \<open>str.lower\<close> and \<open>str(UUID)\<close>. A \<open>char\<close> is
    a code point below 256, so strings are the Latin-1 part of Python's.
  \<^item> rows of a table: selecting, and updating a row found by its key.
\<close>

subsection \<open>Collections of rules\<close>

named_theorems wp_rules \<open>weakest precondition of each program combinator\<close>
named_theorems maintains_rules \<open>invariance of each program combinator\<close>
named_theorems run_rules \<open>what a program combinator returns, read backwards\<close>

subsection \<open>Errors\<close>

datatype app_error =
    BadRequestError string
  | UnauthorizedError string
  | ForbiddenError string
  | NotFoundError string
  | ConflictError string
  | ConflictErrorReason string string
  | TooManyRequestsError string
  | RateLimiterUnavailableError string
  | ValueError string
  | RuntimeError string
  | AttributeError string
  | ErasureExecutionError string
  | ErasureOrchestrationError string
  | ErasureProviderError string
  | PrivacyConfigurationError string
  | PrivacyProcessingDenied string
  | StorageObjectConflictError string
  | StorageObjectStateUnknownError string
  | SubjectDataExportError string
  | IntegrityError
  | MultipleResultsFound

text \<open>
  \<open>ConflictErrorReason d r\<close> is \<open>ConflictError(detail=d, extra={"reason_code": r})\<close>.
  \<open>ErasureProviderError\<close> is the error of any of the erasure providers, which are only caught
  together. The HTTP status is that of an
  \<open>AppError\<close>; the other exceptions are not \<open>AppError\<close>s.
\<close>

fun status_code :: "app_error \<Rightarrow> nat option" where
  "status_code (BadRequestError _) = Some 400"
| "status_code (UnauthorizedError _) = Some 401"
| "status_code (ForbiddenError _) = Some 403"
| "status_code (NotFoundError _) = Some 404"
| "status_code (ConflictError _) = Some 409"
| "status_code (ConflictErrorReason _ _) = Some 409"
| "status_code (TooManyRequestsError _) = Some 429"
| "status_code (RateLimiterUnavailableError _) = Some 503"
| "status_code _ = None"

subsection \<open>Programs\<close>

type_synonym ('s, 'a) prog = "'s \<Rightarrow> (app_error + 'a) \<times> 's"

definition ret :: "'a \<Rightarrow> ('s, 'a) prog" where
  "ret x s = (Inr x, s)"

definition raise :: "app_error \<Rightarrow> ('s, 'a) prog" where
  "raise e s = (Inl e, s)"

definition bind :: "('s, 'a) prog \<Rightarrow> ('a \<Rightarrow> ('s, 'b) prog) \<Rightarrow> ('s, 'b) prog" where
  "bind m f s = (case m s of (Inl e, s') \<Rightarrow> (Inl e, s') | (Inr x, s') \<Rightarrow> f x s')"

text \<open>\<open>ensure b e\<close> is \<open>if not b: raise e\<close>.\<close>

definition ensure :: "bool \<Rightarrow> app_error \<Rightarrow> ('s, unit) prog" where
  "ensure b e s = (if b then Inr () else Inl e, s)"

definition gets :: "('s \<Rightarrow> 'a) \<Rightarrow> ('s, 'a) prog" where
  "gets f s = (Inr (f s), s)"

text \<open>\<open>try: m  except E as exc: h(exc)\<close>, where \<open>catches\<close> says which errors match.\<close>

definition try_except ::
  "('s, 'a) prog \<Rightarrow> (app_error \<Rightarrow> bool) \<Rightarrow> (app_error \<Rightarrow> ('s, 'a) prog) \<Rightarrow> ('s, 'a) prog" where
  "try_except m catches h s =
     (case m s of (Inl e, s') \<Rightarrow> if catches e then h e s' else (Inl e, s') | r \<Rightarrow> r)"

text \<open>A loop over a list whose body returns nothing.\<close>

fun for_each :: "'a list \<Rightarrow> ('a \<Rightarrow> ('s, unit) prog) \<Rightarrow> ('s, unit) prog" where
  "for_each [] body = ret ()"
| "for_each (x # xs) body = bind (body x) (\<lambda>_. for_each xs body)"

text \<open>A loop over a list that collects what its body returns.\<close>

fun map_each :: "'a list \<Rightarrow> ('a \<Rightarrow> ('s, 'b) prog) \<Rightarrow> ('s, 'b list) prog" where
  "map_each [] body = ret []"
| "map_each (x # xs) body = bind (body x) (\<lambda>y. bind (map_each xs body) (\<lambda>ys. ret (y # ys)))"

subsubsection \<open>What a run returns\<close>

lemma ret_run [run_rules]: "ret x s = (r, s') \<longleftrightarrow> r = Inr x \<and> s' = s"
  by (auto simp: ret_def)

lemma raise_run [run_rules]: "raise e s = (r, s') \<longleftrightarrow> r = Inl e \<and> s' = s"
  by (auto simp: raise_def)

lemma gets_run [run_rules]: "gets f s = (r, s') \<longleftrightarrow> r = Inr (f s) \<and> s' = s"
  by (auto simp: gets_def)

lemma ensure_run [run_rules]:
  "ensure b e s = (r, s') \<longleftrightarrow> s' = s \<and> (b \<and> r = Inr () \<or> \<not> b \<and> r = Inl e)"
  by (auto simp: ensure_def)

lemma bind_Inr [run_rules]:
  "bind m f s = (Inr y, s'') \<longleftrightarrow> (\<exists>x s'. m s = (Inr x, s') \<and> f x s' = (Inr y, s''))"
  by (auto simp: bind_def split: prod.splits sum.splits)

lemma bind_Inl:
  "bind m f s = (Inl e, s'') \<longleftrightarrow>
     m s = (Inl e, s'') \<or> (\<exists>x s'. m s = (Inr x, s') \<and> f x s' = (Inl e, s''))"
  by (auto simp: bind_def split: prod.splits sum.splits)

lemma bind_step:
  "m s = (Inr x, s') \<Longrightarrow> bind m f s = f x s'"
  "m s = (Inl e, s') \<Longrightarrow> bind m f s = (Inl e, s')"
  by (auto simp: bind_def)

lemma if_run [run_rules]:
  "(if b then m else n) s = (r, s') \<longleftrightarrow> (b \<and> m s = (r, s') \<or> \<not> b \<and> n s = (r, s'))"
  by auto

text \<open>A handler that only raises another error does not return.\<close>

lemma try_except_raise_run [run_rules]:
  "try_except m c (\<lambda>e. raise (g e)) s = (Inr x, s') \<longleftrightarrow> m s = (Inr x, s')"
  by (auto simp: try_except_def raise_def split: prod.splits sum.splits)

lemma try_except_Inr: "m s = (Inr x, s') \<Longrightarrow> try_except m c h s = (Inr x, s')"
  by (simp add: try_except_def)

lemma ret_bind [simp]: "bind (ret x) f = f x"
  by (auto simp: bind_def ret_def)

lemma raise_bind [simp]: "bind (raise e) f = raise e"
  by (auto simp: bind_def raise_def)

lemma bind_assoc: "bind (bind m f) g = bind m (\<lambda>x. bind (f x) g)"
  by (rule ext) (auto simp: bind_def split: prod.splits sum.splits)

subsubsection \<open>Weakest preconditions\<close>

definition wp :: "('s, 'a) prog \<Rightarrow> ('a \<Rightarrow> 's \<Rightarrow> bool) \<Rightarrow> (app_error \<Rightarrow> 's \<Rightarrow> bool) \<Rightarrow> 's \<Rightarrow> bool" where
  "wp m Q E s = (case m s of (Inl e, s') \<Rightarrow> E e s' | (Inr x, s') \<Rightarrow> Q x s')"

lemma wp_ret [wp_rules]: "wp (ret x) Q E s = Q x s"
  by (simp add: wp_def ret_def)

lemma wp_raise [wp_rules]: "wp (raise e) Q E s = E e s"
  by (simp add: wp_def raise_def)

lemma wp_gets [wp_rules]: "wp (gets f) Q E s = Q (f s) s"
  by (simp add: wp_def gets_def)

lemma wp_ensure [wp_rules]: "wp (ensure b e) Q E s = (if b then Q () s else E e s)"
  by (simp add: wp_def ensure_def)

lemma wp_bind [wp_rules]: "wp (bind m f) Q E s = wp m (\<lambda>x. wp (f x) Q E) E s"
  by (auto simp: wp_def bind_def split: prod.splits sum.splits)

lemma wp_try_except [wp_rules]:
  "wp (try_except m c h) Q E s = wp m Q (\<lambda>e. if c e then wp (h e) Q E else E e) s"
  by (auto simp: wp_def try_except_def split: prod.splits sum.splits)

lemma wp_if [wp_rules]:
  "wp (if b then m else n) Q E s = (if b then wp m Q E s else wp n Q E s)"
  by simp

lemma wp_case_option [wp_rules]:
  "wp (case x of None \<Rightarrow> m | Some y \<Rightarrow> f y) Q E s =
     (case x of None \<Rightarrow> wp m Q E s | Some y \<Rightarrow> wp (f y) Q E s)"
  by (cases x) simp_all

lemma wp_mono:
  assumes "wp m Q E s"
    and "\<And>x t. Q x t \<Longrightarrow> Q' x t" and "\<And>e t. E e t \<Longrightarrow> E' e t"
  shows "wp m Q' E' s"
  using assms by (auto simp: wp_def split: prod.splits sum.splits)

lemma wp_run: "wp m Q E s \<Longrightarrow> m s = (Inr x, s') \<Longrightarrow> Q x s'"
  and wp_run_error: "wp m Q E s \<Longrightarrow> m s = (Inl e, s') \<Longrightarrow> E e s'"
  by (auto simp: wp_def)

subsubsection \<open>Invariance\<close>

definition maintains :: "('s \<Rightarrow> bool) \<Rightarrow> ('s, 'a) prog \<Rightarrow> bool" where
  "maintains I m \<longleftrightarrow> (\<forall>s. I s \<longrightarrow> I (snd (m s)))"

lemma maintainsI: "(\<And>s. I s \<Longrightarrow> I (snd (m s))) \<Longrightarrow> maintains I m"
  by (simp add: maintains_def)

lemma maintainsD: "maintains I m \<Longrightarrow> I s \<Longrightarrow> m s = (r, s') \<Longrightarrow> I s'"
  unfolding maintains_def by (metis snd_conv)

lemma maintains_ret [maintains_rules]: "maintains I (ret x)"
  by (simp add: maintains_def ret_def)

lemma maintains_raise [maintains_rules]: "maintains I (raise e)"
  by (simp add: maintains_def raise_def)

lemma maintains_gets [maintains_rules]: "maintains I (gets f)"
  by (simp add: maintains_def gets_def)

lemma maintains_ensure [maintains_rules]: "maintains I (ensure b e)"
  by (simp add: maintains_def ensure_def)

lemma maintains_bind [maintains_rules]:
  "maintains I m \<Longrightarrow> (\<And>x. maintains I (f x)) \<Longrightarrow> maintains I (bind m f)"
  by (fastforce simp: maintains_def bind_def split: prod.splits sum.splits)

lemma maintains_try_except [maintains_rules]:
  "maintains I m \<Longrightarrow> (\<And>e. maintains I (h e)) \<Longrightarrow> maintains I (try_except m c h)"
  by (fastforce simp: maintains_def try_except_def split: prod.splits sum.splits)

lemma maintains_if [maintains_rules]:
  "(b \<Longrightarrow> maintains I m) \<Longrightarrow> (\<not> b \<Longrightarrow> maintains I n) \<Longrightarrow> maintains I (if b then m else n)"
  by simp

lemma maintains_case_option [maintains_rules]:
  "maintains I m \<Longrightarrow> (\<And>y. maintains I (f y)) \<Longrightarrow>
     maintains I (case x of None \<Rightarrow> m | Some y \<Rightarrow> f y)"
  by (cases x) simp_all

lemma maintains_case_sum: "(\<And>e. maintains I (f e)) \<Longrightarrow> (\<And>x. maintains I (g x)) \<Longrightarrow>
    maintains I (case r of Inl e \<Rightarrow> f e | Inr x \<Rightarrow> g x)"
  by (cases r) simp_all

lemma maintains_for_each [maintains_rules]:
  "(\<And>x. maintains I (body x)) \<Longrightarrow> maintains I (for_each xs body)"
  by (induction xs) (auto intro: maintains_rules)

lemma maintains_map_each [maintains_rules]:
  "(\<And>x. maintains I (body x)) \<Longrightarrow> maintains I (map_each xs body)"
  by (induction xs) (auto intro: maintains_rules)

subsection \<open>Strings\<close>

text \<open>\<open>str.isspace\<close> for the code points below 256.\<close>

definition is_space :: "char \<Rightarrow> bool" where
  "is_space c = (let n = (of_char c :: nat) in
     9 \<le> n \<and> n \<le> 13 \<or> 28 \<le> n \<and> n \<le> 32 \<or> n = 133 \<or> n = 160)"

definition lstrip :: "string \<Rightarrow> string" where
  "lstrip s = dropWhile is_space s"

definition strip :: "string \<Rightarrow> string" where
  "strip s = rev (lstrip (rev (lstrip s)))"

text \<open>\<open>str.lower\<close> for the code points below 256.\<close>

definition lower_char :: "char \<Rightarrow> char" where
  "lower_char c = (let n = (of_char c :: nat) in
     if 65 \<le> n \<and> n \<le> 90 \<or> 192 \<le> n \<and> n \<le> 222 \<and> n \<noteq> 215 then char_of (n + 32) else c)"

definition lower :: "string \<Rightarrow> string" where
  "lower s = map lower_char s"

definition contains_str :: "string \<Rightarrow> string \<Rightarrow> bool" where
  "contains_str pat s = list_ex (prefix pat) (suffixes s)"

lemma lstrip_idem [simp]: "lstrip (lstrip s) = lstrip s"
  by (induction s) (auto simp: lstrip_def)

lemma lstrip_Nil [simp]: "lstrip [] = []"
  by (simp add: lstrip_def)

lemma lstrip_snoc: "lstrip (xs @ [x]) = (if lstrip xs = [] then lstrip [x] else lstrip xs @ [x])"
  by (induction xs) (auto simp: lstrip_def)

lemma lstrip_rev_lstrip: "lstrip s = s \<Longrightarrow> lstrip (rev (lstrip (rev s))) = rev (lstrip (rev s))"
proof (cases s)
  case (Cons c cs)
  assume "lstrip s = s"
  then have c: "\<not> is_space c"
    using Cons by (metis lstrip_def dropWhile_eq_Cons_conv)
  show ?thesis
  proof (cases "lstrip (rev cs) = []")
    case True
    with Cons c show ?thesis by (simp add: lstrip_snoc) (simp add: lstrip_def)
  next
    case False
    with Cons c show ?thesis by (simp add: lstrip_snoc) (simp add: lstrip_def)
  qed
qed simp

lemma strip_idem [simp]: "strip (strip s) = strip s"
  by (simp add: strip_def lstrip_rev_lstrip)

lemma of_char_less_256: "(of_char c :: nat) < 256"
  by simp

lemma of_lower_char:
  "(of_char (lower_char c) :: nat) =
     (let n = of_char c in
      if 65 \<le> n \<and> n \<le> 90 \<or> 192 \<le> n \<and> n \<le> 222 \<and> n \<noteq> 215 then n + 32 else n)"
  by (simp add: lower_char_def Let_def)

lemma lower_char_idem [simp]: "lower_char (lower_char c) = lower_char c"
  unfolding lower_char_def [of "lower_char c"] by (auto simp: of_lower_char Let_def)

lemma lower_idem [simp]: "lower (lower s) = lower s"
  by (simp add: lower_def)

lemma lower_Nil_iff [simp]: "lower s = [] \<longleftrightarrow> s = []"
  by (simp add: lower_def)

lemma is_space_lower_char [simp]: "is_space (lower_char c) = is_space c"
  by (auto simp: is_space_def of_lower_char Let_def)

lemma lstrip_lower: "lstrip (lower s) = lower (lstrip s)"
  by (simp add: lstrip_def lower_def dropWhile_map comp_def)

lemma rev_lower: "rev (lower s) = lower (rev s)"
  by (simp add: lower_def rev_map)

lemma strip_lower: "strip (lower s) = lower (strip s)"
  by (simp add: strip_def lstrip_lower rev_lower)

lemma strip_lower_strip [simp]: "strip (lower (strip s)) = lower (strip s)"
  by (simp add: strip_lower)

subsection \<open>UUIDs and their text\<close>

type_synonym uuid = "128 word"

definition hex_digit :: "int \<Rightarrow> char" where
  "hex_digit n = char_of (if n < 10 then 48 + n else 87 + n)"

definition hex_digits :: "uuid \<Rightarrow> nat list \<Rightarrow> string" where
  "hex_digits u is = map (\<lambda>i. hex_digit (uint u div 16 ^ i mod 16)) is"

text \<open>\<open>str(uuid)\<close>: 32 hexadecimal digits in groups of 8, 4, 4, 4 and 12.\<close>

definition uuid_str :: "uuid \<Rightarrow> string" where
  "uuid_str u =
     hex_digits u (rev [24..<32]) @ ''-'' @ hex_digits u (rev [20..<24]) @ ''-'' @
     hex_digits u (rev [16..<20]) @ ''-'' @ hex_digits u (rev [12..<16]) @ ''-'' @
     hex_digits u (rev [0..<12])"

lemma hex_digit_inj:
  assumes "0 \<le> a" "a < 16" "0 \<le> b" "b < 16" and eq: "hex_digit a = hex_digit b"
  shows "a = b"
proof -
  have code: "(of_char (hex_digit x) :: int) = (if x < 10 then 48 + x else 87 + x)"
    if "0 \<le> x" "x < 16" for x
    using that by (simp add: hex_digit_def)
  have "(if a < 10 then 48 + a else 87 + a) = (if b < 10 then 48 + b else 87 + b)"
    using code [of a] code [of b] assms(1-4) by (simp only: eq)
  then show ?thesis using assms(1-4) by (simp split: if_splits)
qed

lemma hex_digits_eqD:
  assumes "hex_digits u is = hex_digits v is" and "i \<in> set is"
  shows "uint u div 16 ^ i mod 16 = uint v div 16 ^ i mod 16"
proof -
  from assms have "hex_digit (uint u div 16 ^ i mod 16) = hex_digit (uint v div 16 ^ i mod 16)"
    by (auto simp: hex_digits_def)
  then show ?thesis by (rule hex_digit_inj [rotated 4]) simp_all
qed

lemma int_digits_eq:
  fixes a b :: int
  assumes "0 \<le> a" "a < 16 ^ n" "0 \<le> b" "b < 16 ^ n"
    and "\<And>i. i < n \<Longrightarrow> a div 16 ^ i mod 16 = b div 16 ^ i mod 16"
  shows "a = b"
  using assms
proof (induction n arbitrary: a b)
  case 0
  then show ?case by simp
next
  case (Suc n)
  have "a div 16 = b div 16"
  proof (rule Suc.IH)
    show "a div 16 div 16 ^ i mod 16 = b div 16 div 16 ^ i mod 16" if "i < n" for i
      using Suc.prems(5) [of "Suc i"] that by (simp add: zdiv_zmult2_eq)
  qed (use Suc.prems in auto)
  moreover from Suc.prems(5) [of 0] have "a mod 16 = b mod 16" by simp
  ultimately show ?case by (metis div_mult_mod_eq)
qed

lemma hex_digits_length [simp]: "length (hex_digits u is) = length is"
  by (simp add: hex_digits_def)

lemma uuid_str_length [simp]: "length (uuid_str u) = 36"
  by (simp add: uuid_str_def)

lemma uuid_str_inj: "uuid_str u = uuid_str v \<Longrightarrow> u = v"
proof -
  assume eq: "uuid_str u = uuid_str v"
  have parts: "hex_digits u is = hex_digits v is"
    if "is = rev [24..<32] \<or> is = rev [20..<24] \<or> is = rev [16..<20] \<or>
        is = rev [12..<16] \<or> is = rev [0..<12]" for "is"
    using eq that by (auto simp: uuid_str_def)
  have "uint u = uint v"
  proof (rule int_digits_eq [where n = 32])
    show "uint u div 16 ^ i mod 16 = uint v div 16 ^ i mod 16" if "i < 32" for i
    proof -
      have "i \<in> {24..<32} \<or> i \<in> {20..<24} \<or> i \<in> {16..<20} \<or> i \<in> {12..<16} \<or> i \<in> {0..<12}"
        using that by auto
      then obtain "is" where "i \<in> set is"
        and "is = rev [24..<32] \<or> is = rev [20..<24] \<or> is = rev [16..<20] \<or>
             is = rev [12..<16] \<or> is = rev [0..<12]"
        by (metis set_rev set_upt)
      with parts [of "is"] show ?thesis by (blast intro: hex_digits_eqD)
    qed
    show "uint u < 16 ^ 32" using uint_lt2p [of u] by simp
    show "uint v < 16 ^ 32" using uint_lt2p [of v] by simp
  qed simp_all
  then show "u = v" by (rule word_uint_eq_iff [THEN iffD2])
qed

subsection \<open>Rows of a table\<close>

text \<open>\<open>scalar_one_or_none\<close> of the rows a query selects.\<close>

definition scalar_one_or_none :: "'r list \<Rightarrow> ('s, 'r option) prog" where
  "scalar_one_or_none rows = (case rows of
     [] \<Rightarrow> ret None | [r] \<Rightarrow> ret (Some r) | _ \<Rightarrow> raise MultipleResultsFound)"

definition update_where :: "('r \<Rightarrow> bool) \<Rightarrow> ('r \<Rightarrow> 'r) \<Rightarrow> 'r list \<Rightarrow> 'r list" where
  "update_where p f rows = map (\<lambda>r. if p r then f r else r) rows"

definition find_row :: "('r \<Rightarrow> 'k) \<Rightarrow> 'k \<Rightarrow> 'r list \<Rightarrow> 'r option" where
  "find_row key k rows = find (\<lambda>r. key r = k) rows"

lemma maintains_scalar_one_or_none [maintains_rules]: "maintains I (scalar_one_or_none rows)"
  by (auto simp: scalar_one_or_none_def split: list.splits intro: maintains_rules)

lemma take_Suc_0_filter: "take (Suc 0) (filter p xs) = (case find p xs of None \<Rightarrow> [] | Some x \<Rightarrow> [x])"
  by (induction xs) (auto split: option.splits)

text \<open>A query with \<open>.limit(1)\<close> returns the first row that matches, if any.\<close>

lemma scalar_one_limit1 [simp]:
  "scalar_one_or_none (take (Suc 0) (filter p xs)) = ret (find p xs)"
  by (auto simp: scalar_one_or_none_def take_Suc_0_filter split: option.splits)

text \<open>Without a limit the query depends on the rows being unique.\<close>

lemma filter_find_unique:
  assumes "distinct (map f (filter q xs))" and "\<And>x. x \<in> set xs \<Longrightarrow> p x \<longleftrightarrow> q x \<and> f x = k"
  shows "filter p xs = (case find p xs of None \<Rightarrow> [] | Some x \<Rightarrow> [x])"
  using assms
proof (induction xs)
  case (Cons x xs)
  have IH: "filter p xs = (case find p xs of None \<Rightarrow> [] | Some x \<Rightarrow> [x])"
    by (rule Cons.IH) (use Cons.prems in \<open>auto split: if_splits\<close>)
  show ?case
  proof (cases "p x")
    case True
    with Cons.prems have "\<not> p y" if "y \<in> set xs" for y
      using that by (auto split: if_splits simp: image_iff)
    then have "filter p xs = []" by (simp add: filter_empty_conv)
    with True show ?thesis by simp
  qed (simp add: IH)
qed simp

lemma scalar_one_unique:
  assumes "distinct (map f (filter q xs))" and "\<And>x. x \<in> set xs \<Longrightarrow> p x \<longleftrightarrow> q x \<and> f x = k"
  shows "scalar_one_or_none (filter p xs) = ret (find p xs)"
proof -
  have "filter p xs = (case find p xs of None \<Rightarrow> [] | Some x \<Rightarrow> [x])"
    using assms by (rule filter_find_unique)
  then show ?thesis
    by (cases "find p xs") (simp_all add: scalar_one_or_none_def)
qed

lemma set_update_where: "set (update_where p f rows) = (\<lambda>r. if p r then f r else r) ` set rows"
  by (simp add: update_where_def)

lemma length_update_where [simp]: "length (update_where p f rows) = length rows"
  by (simp add: update_where_def)

lemma update_where_Nil [simp]: "update_where p f [] = []"
  by (simp add: update_where_def)

lemma update_where_Cons [simp]:
  "update_where p f (r # rows) = (if p r then f r else r) # update_where p f rows"
  by (simp add: update_where_def)

lemma map_update_where_same:
  "(\<And>r. r \<in> set rows \<Longrightarrow> p r \<Longrightarrow> g (f r) = g r) \<Longrightarrow> map g (update_where p f rows) = map g rows"
  by (induction rows) auto

lemma update_where_none: "(\<And>r. r \<in> set rows \<Longrightarrow> \<not> p r) \<Longrightarrow> update_where p f rows = rows"
  by (induction rows) auto

lemma list_ex_update_where_key:
  "(\<And>r. key (f r) = key r) \<Longrightarrow>
     list_ex (\<lambda>r. key r = k) (update_where p f rows) = list_ex (\<lambda>r. key r = k) rows"
  by (induction rows) auto

lemma filter_update_where_skip:
  "(\<And>r. r \<in> set rows \<Longrightarrow> p r \<Longrightarrow> \<not> q r \<and> \<not> q (f r)) \<Longrightarrow>
     filter q (update_where p f rows) = filter q rows"
  by (induction rows) auto

text \<open>An update that keeps a key leaves the keys of the rows that still qualify.\<close>

lemma distinct_filter_update_where:
  assumes "distinct (map key (filter q rows))"
    and "\<And>r. r \<in> set rows \<Longrightarrow> p r \<Longrightarrow> q (f r) \<Longrightarrow> q r \<and> key (f r) = key r"
  shows "distinct (map key (filter q (update_where p f rows)))"
proof -
  have sub: "key ` set (filter q (update_where p f xs)) \<subseteq> key ` set (filter q xs)"
    if "\<And>r. r \<in> set xs \<Longrightarrow> p r \<Longrightarrow> q (f r) \<Longrightarrow> q r \<and> key (f r) = key r" for xs
    using that by (fastforce simp: set_update_where image_iff)
  show ?thesis using assms
  proof (induction rows)
    case (Cons r rows)
    then show ?case using sub [of rows] by (fastforce split: if_splits)
  qed simp
qed

lemma find_SomeD: "find p xs = Some x \<Longrightarrow> x \<in> set xs \<and> p x"
  by (auto simp: find_Some_iff)

lemma find_NoneD: "find p xs = None \<Longrightarrow> x \<in> set xs \<Longrightarrow> \<not> p x"
  by (auto simp: find_None_iff)

lemma find_ex: "(\<exists>y. find p xs = Some y) \<longleftrightarrow> list_ex p xs"
  by (induction xs) auto

lemma find_row_unique:
  assumes "distinct (map key rows)" and "r \<in> set rows"
  shows "find_row key (key r) rows = Some r"
  using assms by (induction rows) (auto simp: find_row_def)

lemma distinct_key_eq:
  assumes "distinct (map key rows)" "r \<in> set rows" "r' \<in> set rows" "key r = key r'"
  shows "r = r'"
  using assms by (metis distinct_map inj_onD)


text \<open>A condition that fixes the key selects the row that satisfies it.\<close>

lemma find_by_unique_key:
  assumes "distinct (map key rows)" and "\<And>x. x \<in> set rows \<Longrightarrow> p x \<Longrightarrow> key x = k"
  shows "find p rows = Some r \<longleftrightarrow> r \<in> set rows \<and> p r"
proof
  assume "r \<in> set rows \<and> p r"
  then obtain r' where r': "find p rows = Some r'"
    by (metis find_None_iff option.exhaust)
  with \<open>r \<in> set rows \<and> p r\<close> assms have "r' = r"
    by (metis distinct_key_eq find_SomeD)
  with r' show "find p rows = Some r" by simp
qed (rule find_SomeD)

lemma list_ex_by_unique_key:
  assumes "distinct (map key rows)" and "\<And>x. x \<in> set rows \<Longrightarrow> p x \<Longrightarrow> key x = k"
  shows "list_ex (\<lambda>x. p x \<and> q x) rows \<longleftrightarrow> (case find p rows of None \<Rightarrow> False | Some r \<Rightarrow> q r)"
proof (cases "find p rows")
  case None
  then show ?thesis by (auto simp: list_ex_iff dest: find_NoneD)
next
  case (Some r)
  moreover have "x = r" if "x \<in> set rows" "p x" for x
    using find_by_unique_key [of key rows p k x] assms that Some by auto
  ultimately show ?thesis by (auto simp: list_ex_iff dest: find_SomeD)
qed

end
