(* ===== verification/Privacy_Tables.thy ===== *)
theory Privacy_Tables
  imports Prelude
begin

section \<open>The tables of the privacy subsystem\<close>

text \<open>
  The models of \<^verbatim>\<open>privacy/models\<close>: data-subject requests, export artifacts and the
  governance records. The columns that a check constraint restricts to the values of an
  enumeration have that enumeration as their type; \<open>*_value\<close> gives the stored text. The tables are one
  component of the database; their keys, unique indexes, checks and references to each other are
  \<open>privacy_tables_ok\<close>, their references to users are part of \<open>integrity\<close>.
\<close>

subsection \<open>Data-subject requests\<close>

datatype dsr_type =
  DSR_ACCESS | DSR_EXPORT | DSR_ERASE | DSR_RECTIFY | DSR_RESTRICT | DSR_OBJECT | DSR_PORTABILITY

fun dsr_type_value :: "dsr_type \<Rightarrow> string" where
  "dsr_type_value DSR_ACCESS = ''access''"
| "dsr_type_value DSR_EXPORT = ''export''"
| "dsr_type_value DSR_ERASE = ''erase''"
| "dsr_type_value DSR_RECTIFY = ''rectify''"
| "dsr_type_value DSR_RESTRICT = ''restrict''"
| "dsr_type_value DSR_OBJECT = ''object''"
| "dsr_type_value DSR_PORTABILITY = ''portability''"

datatype dsr_status =
  DSR_SUBMITTED | DSR_UNDER_REVIEW | DSR_APPROVED | DSR_REJECTED | DSR_FULFILLED | DSR_CANCELLED

fun dsr_status_value :: "dsr_status \<Rightarrow> string" where
  "dsr_status_value DSR_SUBMITTED = ''submitted''"
| "dsr_status_value DSR_UNDER_REVIEW = ''under_review''"
| "dsr_status_value DSR_APPROVED = ''approved''"
| "dsr_status_value DSR_REJECTED = ''rejected''"
| "dsr_status_value DSR_FULFILLED = ''fulfilled''"
| "dsr_status_value DSR_CANCELLED = ''cancelled''"

datatype dsr_execution_status =
    EXECUTION_NOT_STARTED | EXECUTION_QUEUED | EXECUTION_PROCESSING | EXECUTION_READY
  | EXECUTION_FAILED | EXECUTION_PARTIALLY_FULFILLED | EXECUTION_DELIVERED

datatype dsr_requester_role = REQUESTER_SELF | REQUESTER_REPRESENTATIVE

fun requester_role_value :: "dsr_requester_role \<Rightarrow> string" where
  "requester_role_value REQUESTER_SELF = ''self''"
| "requester_role_value REQUESTER_REPRESENTATIVE = ''authorised_representative''"

datatype dsr_representative_status =
  REP_NOT_REQUIRED | REP_PENDING_VERIFICATION | REP_VERIFIED | REP_REJECTED

fun representative_status_value :: "dsr_representative_status \<Rightarrow> string" where
  "representative_status_value REP_NOT_REQUIRED = ''not_required''"
| "representative_status_value REP_PENDING_VERIFICATION = ''pending_verification''"
| "representative_status_value REP_VERIFIED = ''verified''"
| "representative_status_value REP_REJECTED = ''rejected''"

record data_subject_request =
  dsr_id :: uuid
  dsr_request_type :: dsr_type
  dsr_status :: dsr_status
  dsr_execution_status :: dsr_execution_status
  dsr_requester_role :: dsr_requester_role
  dsr_representative_status :: dsr_representative_status
  dsr_representative_relationship :: "string option"
  dsr_representative_authority_note :: "string option"
  dsr_representative_verified_at :: "int option"
  dsr_representative_verified_by :: "uuid option"
  dsr_representative_rejection_reason :: "string option"
  dsr_requester :: "uuid option"
  dsr_subject :: "uuid option"
  dsr_reviewer :: "uuid option"
  dsr_submitted_at :: int
  dsr_acknowledged_at :: "int option"
  dsr_reviewed_at :: "int option"
  dsr_decided_at :: "int option"
  dsr_fulfilled_at :: "int option"
  dsr_cancelled_at :: "int option"
  dsr_execution_started_at :: "int option"
  dsr_execution_completed_at :: "int option"
  dsr_execution_failed_at :: "int option"
  dsr_execution_failure_reason :: "string option"
  dsr_execution_failure_detail :: "string option"
  dsr_decision_reason :: "string option"
  dsr_rejection_reason :: "string option"
  dsr_requester_note :: "string option"
  dsr_internal_note :: "string option"
  dsr_due_at :: int
  dsr_extended_until :: "int option"
  dsr_extension_reason :: "string option"
  dsr_idempotency_key_hash :: "string option"
  dsr_idempotency_fingerprint :: "string option"
  dsr_idempotency_expires_at :: "int option"
  dsr_export_artifact_id :: "uuid option"
  dsr_erasure_job_id :: "uuid option"
  dsr_created_at :: int
  dsr_updated_at :: int

subsection \<open>Export artifacts\<close>

datatype artifact_status =
  ART_QUEUED | ART_PROCESSING | ART_READY | ART_FAILED | ART_EXPIRED | ART_CANCELLED

fun artifact_status_value :: "artifact_status \<Rightarrow> string" where
  "artifact_status_value ART_QUEUED = ''queued''"
| "artifact_status_value ART_PROCESSING = ''processing''"
| "artifact_status_value ART_READY = ''ready''"
| "artifact_status_value ART_FAILED = ''failed''"
| "artifact_status_value ART_EXPIRED = ''expired''"
| "artifact_status_value ART_CANCELLED = ''cancelled''"

datatype storage_backend = STORAGE_LOCAL | STORAGE_S3_COMPATIBLE

text \<open>The format has one value, \<^verbatim>\<open>json_zip\<close>, and no column of its own here.\<close>

record export_artifact =
  art_id :: uuid
  art_dsr_id :: uuid
  art_subject :: "uuid option"
  art_requester :: "uuid option"
  art_status :: artifact_status
  art_storage_backend :: storage_backend
  art_storage_key :: "string option"
  art_filename :: "string option"
  art_content_type :: "string option"
  art_size_bytes :: "int option"
  art_checksum_sha256 :: "string option"
  art_schema_version :: string
  art_requested_by :: "uuid option"
  art_generated_by :: "uuid option"
  art_failure_reason :: "string option"
  art_failure_detail :: "string option"
  art_queued_at :: int
  art_started_at :: "int option"
  art_processing_token :: "string option"
  art_lease_expires_at :: "int option"
  art_completed_at :: "int option"
  art_failed_at :: "int option"
  art_expires_at :: int
  art_url_issued_at :: "int option"
  art_url_issue_count :: int
  art_downloaded_at :: "int option"
  art_download_count :: int
  art_created_at :: int
  art_updated_at :: int

subsection \<open>Governance records\<close>

datatype lawful_basis =
    BASIS_CONSENT | BASIS_CONTRACT | BASIS_LEGAL_OBLIGATION | BASIS_VITAL_INTERESTS | BASIS_PUBLIC_TASK
  | BASIS_LEGITIMATE_INTERESTS | BASIS_RECOGNISED_LEGITIMATE_INTERESTS

datatype special_category_condition =
    COND_EXPLICIT_CONSENT | COND_EMPLOYMENT | COND_VITAL_INTERESTS | COND_NONPROFIT_BODY
  | COND_MANIFESTLY_PUBLIC | COND_LEGAL_CLAIMS | COND_SUBSTANTIAL_PUBLIC_INTEREST
  | COND_REGULATED_SERVICE | COND_SAFEGUARDING | COND_ARCHIVING_RESEARCH

datatype purpose_family =
    FAMILY_ACCOUNT | FAMILY_INVITE | FAMILY_AUDIT | FAMILY_MARKETING | FAMILY_PRODUCT_ANALYTICS
  | FAMILY_REGULATED_SERVICE | FAMILY_LEGAL_COMPLIANCE

record processing_purpose =
  pps_id :: uuid
  pps_code :: string
  pps_title :: string
  pps_description :: "string option"
  pps_family :: purpose_family
  pps_default_basis :: lawful_basis
  pps_is_special_category :: bool
  pps_default_condition :: "special_category_condition option"
  pps_requires_consent :: bool
  pps_active :: bool
  pps_created_at :: int
  pps_updated_at :: int

record processing_authorization =
  pau_id :: uuid
  pau_subject :: uuid
  pau_purpose_id :: uuid
  pau_basis :: lawful_basis
  pau_condition :: "special_category_condition option"
  pau_active :: bool
  pau_valid_from :: int
  pau_valid_until :: "int option"
  pau_revoked_at :: "int option"
  pau_source :: "string option"
  pau_created_at :: int
  pau_updated_at :: int

record consent_record =
  cns_id :: uuid
  cns_subject :: uuid
  cns_purpose_id :: uuid
  cns_authorization_id :: "uuid option"
  cns_notice_version :: string
  cns_granted_at :: int
  cns_withdrawn_at :: "int option"
  cns_withdrawal_reason :: "string option"
  cns_created_at :: int
  cns_updated_at :: int

record notice_acceptance =
  pna_id :: uuid
  pna_subject :: uuid
  pna_notice_version :: string
  pna_accepted_at :: int
  pna_source :: "string option"
  pna_created_at :: int
  pna_updated_at :: int

subsection \<open>The tables and their own constraints\<close>

record privacy_tables =
  requests :: "data_subject_request list"
  artifacts :: "export_artifact list"
  purposes :: "processing_purpose list"
  authorizations :: "processing_authorization list"
  consents :: "consent_record list"
  notices :: "notice_acceptance list"

definition no_privacy_rows :: privacy_tables where
  "no_privacy_rows = \<lparr>requests = [], artifacts = [], purposes = [], authorizations = [], consents = [], notices = []\<rparr>"

definition privacy_tables_ok :: "privacy_tables \<Rightarrow> bool" where
  "privacy_tables_ok t = (distinct (map dsr_id (requests t)) \<and> distinct (map art_id (artifacts t)) \<and>
     distinct (map pps_id (purposes t)) \<and> distinct (map pps_code (purposes t)) \<and>
     distinct (map pau_id (authorizations t)) \<and> distinct (map cns_id (consents t)) \<and>
     distinct (map pna_id (notices t)) \<and>
     distinct (map (\<lambda>n. (pna_subject n, pna_notice_version n)) (notices t)) \<and>
     list_all (\<lambda>a. list_ex (\<lambda>r. dsr_id r = art_dsr_id a) (requests t)) (artifacts t) \<and>
     list_all (\<lambda>p. pps_is_special_category p \<longrightarrow> pps_default_condition p \<noteq> None) (purposes t) \<and>
     list_all (\<lambda>a. list_ex (\<lambda>p. pps_id p = pau_purpose_id a) (purposes t)) (authorizations t) \<and>
     list_all (\<lambda>c. list_ex (\<lambda>p. pps_id p = cns_purpose_id c) (purposes t) \<and>
       (case cns_authorization_id c of None \<Rightarrow> True
        | Some i \<Rightarrow> list_ex (\<lambda>a. pau_id a = i) (authorizations t))) (consents t))"

text \<open>The users the rows refer to, with their nullable references.\<close>

definition privacy_user_refs :: "privacy_tables \<Rightarrow> uuid option list" where
  "privacy_user_refs t =
     concat (map (\<lambda>r. [dsr_requester r, dsr_subject r, dsr_reviewer r, dsr_representative_verified_by r]) (requests t)) @
     concat (map (\<lambda>a. [art_subject a, art_requester a, art_requested_by a, art_generated_by a]) (artifacts t)) @
     map (\<lambda>a. Some (pau_subject a)) (authorizations t) @ map (\<lambda>c. Some (cns_subject c)) (consents t) @
     map (\<lambda>n. Some (pna_subject n)) (notices t)"

lemma no_privacy_rows [simp]: "privacy_tables_ok no_privacy_rows" "privacy_user_refs no_privacy_rows = []"
  by (simp_all add: privacy_tables_ok_def privacy_user_refs_def no_privacy_rows_def)

end
