(* ===== verification/Data_Model.thy ===== *)
theory Data_Model
  imports Privacy_Tables
begin

section \<open>The database: tables, constraints, sessions\<close>

text \<open>
  The ORM models (\<^verbatim>\<open>*/models/*.py\<close>) as records, one per table, and the database as
  a record of tables, each the list of its rows in insertion order. A time is the number of
  microseconds since the epoch, in UTC; every time the models store is UTC.

  \<open>integrity\<close> is the conjunction of the constraints the models declare: primary keys, unique
  and partial unique indexes, check constraints and foreign keys. Every write reaches the
  database through \<open>flush\<close>, which raises \<open>IntegrityError\<close> when the tables it would leave break
  a constraint; this is what PostgreSQL does, and what the services catch.

  \<open>world\<close> is what a request can touch: the database, whether its session is in a
  transaction, the files of the local object store, Redis, and the sources of time, UUIDs and random tokens. The sources are
  arbitrary sequences and each use takes the next element, so a theorem holds whatever the
  clock shows and whatever the generators return.
\<close>

subsection \<open>JSON values\<close>

text \<open>
  The values of a JSON column, and of a dictionary a caller wants to store in one. A float is
  kept as its text; \<open>JOther\<close> is any Python value that JSON cannot hold, such as a UUID.
\<close>

datatype json =
    JNull
  | JBool bool
  | JInt int
  | JFloat string
  | JStr string
  | JList "json list"
  | JObj "(string \<times> json) list"
  | JOther string

text \<open>
  A nullable JSON column. SQLAlchemy's \<open>JSON\<close> type without \<open>none_as_null\<close> stores a \<open>None\<close> that is
  bound to it as the JSON value \<open>null\<close>, which is not SQL's \<open>NULL\<close>, and reads both as \<open>None\<close>:
  \<open>None\<close> here is SQL's \<open>NULL\<close>, \<open>Some JNull\<close> the JSON value.
\<close>

definition json_column :: "json option \<Rightarrow> json option" where
  "json_column v = Some (case v of None \<Rightarrow> JNull | Some j \<Rightarrow> j)"

definition json_value :: "json option \<Rightarrow> json option" where
  "json_value c = (if c = Some JNull then None else c)"

lemma json_column_simps [simp]: "json_column (Some j) = Some j" "json_column None = Some JNull"
  by (simp_all add: json_column_def)

subsection \<open>Users\<close>

datatype user_status = USER_ACTIVE | USER_SUSPENDED

record user =
  usr_id :: uuid
  external_auth_id :: string
  usr_email :: "string option"
  email_verified :: bool
  first_name :: "string option"
  last_name :: "string option"
  onboarding_completed :: bool
  usr_status :: user_status
  usr_suspended_at :: "int option"
  usr_suspended_reason :: "string option"
  usr_created_at :: int
  usr_updated_at :: int

text \<open>The verified identity a request carries (\<open>AuthenticatedPrincipal\<close>).\<close>

record principal =
  idn_external_auth_id :: string
  idn_email :: "string option"
  idn_email_verified :: bool
  idn_first_name :: "string option"
  idn_last_name :: "string option"

subsection \<open>Organisations\<close>

datatype organisation_status = ORG_ACTIVE | ORG_SUSPENDED

record organisation =
  org_id :: uuid
  org_name :: string
  org_slug :: string
  org_deleted_at :: "int option"
  org_status :: organisation_status
  org_suspended_at :: "int option"
  org_suspended_reason :: "string option"
  org_created_at :: int
  org_updated_at :: int

subsection \<open>Memberships\<close>

datatype membership_role = OWNER | ADMIN | MEMBER

fun role_value :: "membership_role \<Rightarrow> string" where
  "role_value OWNER = ''owner''"
| "role_value ADMIN = ''admin''"
| "role_value MEMBER = ''member''"

record membership =
  mem_id :: uuid
  mem_user_id :: uuid
  mem_organisation_id :: uuid
  mem_role :: membership_role
  mem_is_active :: bool
  mem_created_at :: int
  mem_updated_at :: int

subsection \<open>Invites\<close>

datatype invite_status = INVITE_PENDING | INVITE_ACCEPTED | INVITE_EXPIRED | INVITE_REVOKED

fun invite_status_value :: "invite_status \<Rightarrow> string" where
  "invite_status_value INVITE_PENDING = ''pending''"
| "invite_status_value INVITE_ACCEPTED = ''accepted''"
| "invite_status_value INVITE_EXPIRED = ''expired''"
| "invite_status_value INVITE_REVOKED = ''revoked''"

record invite =
  inv_id :: uuid
  inv_email :: string
  inv_organisation_id :: uuid
  inv_role :: membership_role
  inv_status :: invite_status
  inv_token_hash :: string
  inv_expires_at :: "int option"
  inv_revoked_at :: "int option"
  inv_revoked_by_user_id :: "uuid option"
  inv_created_at :: int
  inv_updated_at :: int

subsection \<open>Platform staff\<close>

datatype platform_staff_role = PLATFORM_ADMIN | SUPPORT_AGENT | COMPLIANCE_OFFICER

fun staff_role_value :: "platform_staff_role \<Rightarrow> string" where
  "staff_role_value PLATFORM_ADMIN = ''platform_admin''"
| "staff_role_value SUPPORT_AGENT = ''support_agent''"
| "staff_role_value COMPLIANCE_OFFICER = ''compliance_officer''"

datatype platform_staff_status = STAFF_ACTIVE | STAFF_SUSPENDED

fun staff_status_value :: "platform_staff_status \<Rightarrow> string" where
  "staff_status_value STAFF_ACTIVE = ''active''"
| "staff_status_value STAFF_SUSPENDED = ''suspended''"

text \<open>The columns \<open>role\<close> and \<open>status\<close> are strings with a check constraint.\<close>

record platform_staff =
  stf_id :: uuid
  stf_user_id :: uuid
  stf_role :: string
  stf_status :: string
  stf_created_by_user_id :: "uuid option"
  stf_suspended_at :: "int option"
  stf_suspended_reason :: "string option"
  stf_created_at :: int
  stf_updated_at :: int

subsection \<open>Audit events\<close>

datatype audit_category =
  AUDIT_TENANT | AUDIT_PLATFORM | AUDIT_SECURITY | AUDIT_COMPLIANCE

datatype audit_action =
    ORGANISATION_UPDATED | ORGANISATION_DELETED | MEMBERSHIP_ROLE_CHANGED | MEMBERSHIP_REMOVED
  | INVITE_CREATED | INVITE_REVOKED_ACTION | INVITE_RESENT
  | USER_SUSPENDED_ACTION | USER_RESTORED
  | ORGANISATION_SUSPENDED | ORGANISATION_RESTORED
  | PLATFORM_STAFF_CREATED | PLATFORM_STAFF_SUSPENDED | PLATFORM_STAFF_RESTORED
  | PLATFORM_STAFF_ROLE_CHANGED
  | CONSENT_GRANTED | CONSENT_WITHDRAWN | PRIVACY_NOTICE_ACCEPTED
  | DATA_SUBJECT_REQUEST_SUBMITTED | DATA_SUBJECT_REQUEST_UNDER_REVIEW
  | DATA_SUBJECT_REQUEST_APPROVED | DATA_SUBJECT_REQUEST_REJECTED
  | DATA_SUBJECT_REQUEST_CANCELLED | DATA_SUBJECT_REQUEST_FULFILLED
  | DATA_SUBJECT_REQUEST_ERASURE_EXECUTED
  | DATA_SUBJECT_REQUEST_REPRESENTATIVE_VERIFIED
  | DATA_SUBJECT_REQUEST_REPRESENTATIVE_REJECTED
  | EXPORT_ARTIFACT_REQUESTED | EXPORT_ARTIFACT_GENERATED | EXPORT_ARTIFACT_FAILED
  | EXPORT_ARTIFACT_DOWNLOAD_URL_CREATED | EXPORT_ARTIFACT_DELIVERY_CONFIRMED
  | EXPORT_ARTIFACT_EXPIRED

datatype audit_target_type =
    TARGET_ORGANISATION | TARGET_MEMBERSHIP | TARGET_INVITE | TARGET_USER
  | TARGET_PLATFORM_STAFF | TARGET_PRIVACY_CONSENT | TARGET_PRIVACY_NOTICE
  | TARGET_DATA_SUBJECT_REQUEST | TARGET_EXPORT_ARTIFACT

record audit_event =
  aud_id :: uuid
  aud_actor_user_id :: "uuid option"
  aud_category :: audit_category
  aud_action :: audit_action
  aud_target_type :: audit_target_type
  aud_target_id :: "uuid option"
  aud_reason :: "string option"
  aud_metadata_json :: "json option"
  aud_ip_address :: "string option"
  aud_user_agent :: "string option"
  aud_legal_hold_until :: "int option"
  aud_created_at :: int

subsection \<open>Outbox\<close>

datatype outbox_status = OUTBOX_PENDING | OUTBOX_PROCESSING | OUTBOX_PROCESSED | OUTBOX_FAILED

datatype outbox_event_type = OUTBOX_INVITE_CREATED | OUTBOX_INVITE_RESEND

fun outbox_event_type_value :: "outbox_event_type \<Rightarrow> string" where
  "outbox_event_type_value OUTBOX_INVITE_CREATED = ''invite.created''"
| "outbox_event_type_value OUTBOX_INVITE_RESEND = ''invite.resent''"

record outbox_event =
  obx_id :: uuid
  obx_event_type :: string
  obx_aggregate_type :: "string option"
  obx_aggregate_id :: "uuid option"
  obx_payload_json :: json
  obx_status :: outbox_status
  obx_attempts :: int
  obx_max_attempts :: int
  obx_next_attempt_at :: "int option"
  obx_locked_at :: "int option"
  obx_processed_at :: "int option"
  obx_last_error :: "string option"
  obx_created_at :: int
  obx_updated_at :: int

record outbox_delivery_claim =
  clm_event_id :: uuid
  clm_claim_token :: string
  clm_claimed_at :: int

subsection \<open>The database and its constraints\<close>

record db =
  users :: "user list"
  organisations :: "organisation list"
  memberships :: "membership list"
  invites :: "invite list"
  staff_rows :: "platform_staff list"
  audit_events :: "audit_event list"
  outbox_events :: "outbox_event list"
  delivery_claims :: "outbox_delivery_claim list"
  privacy :: privacy_tables

definition empty_db :: db where
  "empty_db = \<lparr>users = [], organisations = [], memberships = [], invites = [],
     staff_rows = [], audit_events = [], outbox_events = [], delivery_claims = [],
     privacy = no_privacy_rows\<rparr>"

definition has_user :: "db \<Rightarrow> uuid \<Rightarrow> bool" where
  "has_user d u = list_ex (\<lambda>r. usr_id r = u) (users d)"

definition has_organisation :: "db \<Rightarrow> uuid \<Rightarrow> bool" where
  "has_organisation d oid = list_ex (\<lambda>r. org_id r = oid) (organisations d)"

definition fk_user :: "db \<Rightarrow> uuid option \<Rightarrow> bool" where
  "fk_user d x = (case x of None \<Rightarrow> True | Some u \<Rightarrow> has_user d u)"

definition users_ok :: "db \<Rightarrow> bool" where
  "users_ok d = (distinct (map usr_id (users d)) \<and> distinct (map external_auth_id (users d)))"

definition live :: "organisation \<Rightarrow> bool" where
  "live r = (org_deleted_at r = None)"

definition organisations_ok :: "db \<Rightarrow> bool" where
  "organisations_ok d = (distinct (map org_id (organisations d)) \<and>
     distinct (map org_slug (filter live (organisations d))))"

definition active_owner :: "membership \<Rightarrow> bool" where
  "active_owner m = (mem_role m = OWNER \<and> mem_is_active m)"

definition memberships_ok :: "db \<Rightarrow> bool" where
  "memberships_ok d = (distinct (map mem_id (memberships d)) \<and>
     distinct (map mem_user_id (filter mem_is_active (memberships d))) \<and>
     distinct (map mem_organisation_id (filter active_owner (memberships d))) \<and>
     list_all (\<lambda>m. has_user d (mem_user_id m) \<and> has_organisation d (mem_organisation_id m))
       (memberships d))"

definition pending :: "invite \<Rightarrow> bool" where
  "pending i = (inv_status i = INVITE_PENDING)"

definition invites_ok :: "db \<Rightarrow> bool" where
  "invites_ok d = (distinct (map inv_id (invites d)) \<and>
     distinct (map inv_token_hash (invites d)) \<and>
     distinct (map (\<lambda>i. (inv_organisation_id i, lower (inv_email i))) (filter pending (invites d))) \<and>
     list_all (\<lambda>i. has_organisation d (inv_organisation_id i) \<and>
       fk_user d (inv_revoked_by_user_id i)) (invites d))"

definition staff_ok :: "db \<Rightarrow> bool" where
  "staff_ok d = (distinct (map stf_id (staff_rows d)) \<and>
     distinct (map stf_user_id (staff_rows d)) \<and>
     list_all (\<lambda>s. stf_role s \<in> {''platform_admin'', ''support_agent'', ''compliance_officer''} \<and>
       stf_status s \<in> {''active'', ''suspended''} \<and>
       has_user d (stf_user_id s) \<and> fk_user d (stf_created_by_user_id s)) (staff_rows d))"

definition audit_ok :: "db \<Rightarrow> bool" where
  "audit_ok d = (distinct (map aud_id (audit_events d)) \<and>
     list_all (\<lambda>e. fk_user d (aud_actor_user_id e)) (audit_events d))"

definition outbox_ok :: "db \<Rightarrow> bool" where
  "outbox_ok d = (distinct (map obx_id (outbox_events d)) \<and>
     distinct (map clm_event_id (delivery_claims d)) \<and>
     list_all (\<lambda>c. list_ex (\<lambda>e. obx_id e = clm_event_id c) (outbox_events d)) (delivery_claims d))"

definition privacy_ok :: "db \<Rightarrow> bool" where
  "privacy_ok d = (privacy_tables_ok (privacy d) \<and> list_all (fk_user d) (privacy_user_refs (privacy d)))"

definition integrity :: "db \<Rightarrow> bool" where
  "integrity d = (users_ok d \<and> organisations_ok d \<and> memberships_ok d \<and> invites_ok d \<and>
     staff_ok d \<and> audit_ok d \<and> outbox_ok d \<and> privacy_ok d)"

lemmas constraint_defs =
  users_ok_def organisations_ok_def memberships_ok_def invites_ok_def staff_ok_def audit_ok_def
  outbox_ok_def privacy_ok_def

lemma integrity_empty: "integrity empty_db"
  by (simp add: integrity_def constraint_defs empty_db_def)

lemma integrityD:
  assumes "integrity d"
  shows "distinct (map usr_id (users d))" "distinct (map external_auth_id (users d))"
    and "distinct (map org_id (organisations d))"
    and "distinct (map org_slug (filter live (organisations d)))"
    and "distinct (map mem_id (memberships d))"
    and "distinct (map mem_user_id (filter mem_is_active (memberships d)))"
    and "distinct (map mem_organisation_id (filter active_owner (memberships d)))"
    and "distinct (map inv_id (invites d))" "distinct (map inv_token_hash (invites d))"
    and "distinct (map stf_id (staff_rows d))" "distinct (map stf_user_id (staff_rows d))"
    and "distinct (map aud_id (audit_events d))"
    and "distinct (map obx_id (outbox_events d))"
    and "distinct (map clm_event_id (delivery_claims d))"
  using assms by (simp_all add: integrity_def constraint_defs)

subsection \<open>What a constraint reads\<close>

text \<open>A constraint depends on its own table and on the tables its foreign keys point to.\<close>

lemma has_user_frame [simp]:
  "has_user (organisations_update fo d) u = has_user d u"
  "has_user (memberships_update fm d) u = has_user d u"
  "has_user (invites_update fi d) u = has_user d u"
  "has_user (staff_rows_update fs d) u = has_user d u"
  "has_user (audit_events_update fa d) u = has_user d u"
  "has_user (outbox_events_update fx d) u = has_user d u"
  "has_user (delivery_claims_update fc d) u = has_user d u"
  "has_user (privacy_update fp d) u = has_user d u"
  by (simp_all add: has_user_def)

lemma has_organisation_frame [simp]:
  "has_organisation (users_update fu d) u = has_organisation d u"
  "has_organisation (memberships_update fm d) u = has_organisation d u"
  "has_organisation (invites_update fi d) u = has_organisation d u"
  "has_organisation (staff_rows_update fs d) u = has_organisation d u"
  "has_organisation (audit_events_update fa d) u = has_organisation d u"
  "has_organisation (outbox_events_update fx d) u = has_organisation d u"
  "has_organisation (delivery_claims_update fc d) u = has_organisation d u"
  "has_organisation (privacy_update fp d) u = has_organisation d u"
  by (simp_all add: has_organisation_def)

lemma fk_user_frame [simp]:
  "fk_user (organisations_update fo d) u = fk_user d u"
  "fk_user (memberships_update fm d) u = fk_user d u"
  "fk_user (invites_update fi d) u = fk_user d u"
  "fk_user (staff_rows_update fs d) u = fk_user d u"
  "fk_user (audit_events_update fa d) u = fk_user d u"
  "fk_user (outbox_events_update fx d) u = fk_user d u"
  "fk_user (delivery_claims_update fc d) u = fk_user d u"
  "fk_user (privacy_update fp d) u = fk_user d u"
  by (simp_all add: fk_user_def split: option.splits)

lemma fk_user_None [simp]: "fk_user d None"
  by (simp add: fk_user_def)

lemma fk_user_Some [simp]: "fk_user d (Some u) = has_user d u"
  by (simp add: fk_user_def)

lemma users_ok_frame [simp]:
  "users_ok (organisations_update fo d) = users_ok d"
  "users_ok (memberships_update fm d) = users_ok d"
  "users_ok (invites_update fi d) = users_ok d"
  "users_ok (staff_rows_update fs d) = users_ok d"
  "users_ok (audit_events_update fa d) = users_ok d"
  "users_ok (outbox_events_update fx d) = users_ok d"
  "users_ok (delivery_claims_update fc d) = users_ok d"
  "users_ok (privacy_update fp d) = users_ok d"
  by (simp_all add: users_ok_def)

lemma organisations_ok_frame [simp]:
  "organisations_ok (users_update fu d) = organisations_ok d"
  "organisations_ok (memberships_update fm d) = organisations_ok d"
  "organisations_ok (invites_update fi d) = organisations_ok d"
  "organisations_ok (staff_rows_update fs d) = organisations_ok d"
  "organisations_ok (audit_events_update fa d) = organisations_ok d"
  "organisations_ok (outbox_events_update fx d) = organisations_ok d"
  "organisations_ok (delivery_claims_update fc d) = organisations_ok d"
  "organisations_ok (privacy_update fp d) = organisations_ok d"
  by (simp_all add: organisations_ok_def)

lemma memberships_ok_frame [simp]:
  "memberships_ok (invites_update fi d) = memberships_ok d"
  "memberships_ok (staff_rows_update fs d) = memberships_ok d"
  "memberships_ok (audit_events_update fa d) = memberships_ok d"
  "memberships_ok (outbox_events_update fx d) = memberships_ok d"
  "memberships_ok (delivery_claims_update fc d) = memberships_ok d"
  "memberships_ok (privacy_update fp d) = memberships_ok d"
  by (simp_all add: memberships_ok_def)

lemma invites_ok_frame [simp]:
  "invites_ok (memberships_update fm d) = invites_ok d"
  "invites_ok (staff_rows_update fs d) = invites_ok d"
  "invites_ok (audit_events_update fa d) = invites_ok d"
  "invites_ok (outbox_events_update fx d) = invites_ok d"
  "invites_ok (delivery_claims_update fc d) = invites_ok d"
  "invites_ok (privacy_update fp d) = invites_ok d"
  by (simp_all add: invites_ok_def)

lemma staff_ok_frame [simp]:
  "staff_ok (organisations_update fo d) = staff_ok d"
  "staff_ok (memberships_update fm d) = staff_ok d"
  "staff_ok (invites_update fi d) = staff_ok d"
  "staff_ok (audit_events_update fa d) = staff_ok d"
  "staff_ok (outbox_events_update fx d) = staff_ok d"
  "staff_ok (delivery_claims_update fc d) = staff_ok d"
  "staff_ok (privacy_update fp d) = staff_ok d"
  by (simp_all add: staff_ok_def)

lemma audit_ok_frame [simp]:
  "audit_ok (organisations_update fo d) = audit_ok d"
  "audit_ok (memberships_update fm d) = audit_ok d"
  "audit_ok (invites_update fi d) = audit_ok d"
  "audit_ok (staff_rows_update fs d) = audit_ok d"
  "audit_ok (outbox_events_update fx d) = audit_ok d"
  "audit_ok (delivery_claims_update fc d) = audit_ok d"
  "audit_ok (privacy_update fp d) = audit_ok d"
  by (simp_all add: audit_ok_def)

lemma outbox_ok_frame [simp]:
  "outbox_ok (users_update fu d) = outbox_ok d"
  "outbox_ok (organisations_update fo d) = outbox_ok d"
  "outbox_ok (memberships_update fm d) = outbox_ok d"
  "outbox_ok (invites_update fi d) = outbox_ok d"
  "outbox_ok (staff_rows_update fs d) = outbox_ok d"
  "outbox_ok (audit_events_update fa d) = outbox_ok d"
  "outbox_ok (privacy_update fp d) = outbox_ok d"
  by (simp_all add: outbox_ok_def)

lemma privacy_ok_frame [simp]:
  "privacy_ok (organisations_update fo d) = privacy_ok d"
  "privacy_ok (memberships_update fm d) = privacy_ok d"
  "privacy_ok (invites_update fi d) = privacy_ok d"
  "privacy_ok (staff_rows_update fs d) = privacy_ok d"
  "privacy_ok (audit_events_update fa d) = privacy_ok d"
  "privacy_ok (outbox_events_update fx d) = privacy_ok d"
  "privacy_ok (delivery_claims_update fc d) = privacy_ok d"
  by (simp_all add: privacy_ok_def list_all_iff)

lemma integrity_append_audit:
  assumes "integrity d" and "aud_id e \<notin> set (map aud_id (audit_events d))"
    and "fk_user d (aud_actor_user_id e)"
  shows "integrity (audit_events_update (\<lambda>rows. rows @ [e]) d)"
  using assms by (simp add: integrity_def audit_ok_def)

subsection \<open>What a request can touch\<close>

text \<open>
  What the local object store has under a key: a plain file, or the directory of a key with its
  reservation (the owner's token) and its published object, if any.
\<close>

datatype stored_entry = PlainFile string | KeyDirectory "string option" "string option"

record world =
  db :: db
  in_tx :: bool
  files :: "string \<Rightarrow> stored_entry option"
  redis :: "string \<Rightarrow> int option"
  clock :: "nat \<Rightarrow> int"
  clock_pos :: nat
  uuid_source :: "nat \<Rightarrow> uuid"
  uuid_pos :: nat
  token_source :: "nat \<Rightarrow> string"
  token_pos :: nat

type_synonym 'a app = "(world, 'a) prog"

text \<open>\<open>datetime.now(UTC)\<close>, \<open>uuid4()\<close> and \<open>secrets.token_urlsafe(32)\<close>.\<close>

definition utcnow :: "int app" where
  "utcnow w = (Inr (clock w (clock_pos w)), w\<lparr>clock_pos := Suc (clock_pos w)\<rparr>)"

definition uuid4 :: "uuid app" where
  "uuid4 w = (Inr (uuid_source w (uuid_pos w)), w\<lparr>uuid_pos := Suc (uuid_pos w)\<rparr>)"

definition token_urlsafe :: "string app" where
  "token_urlsafe w = (Inr (token_source w (token_pos w)), w\<lparr>token_pos := Suc (token_pos w)\<rparr>)"

text \<open>Reading the tables, and sending changed rows to the database.\<close>

definition query :: "(db \<Rightarrow> 'a) \<Rightarrow> 'a app" where
  "query f = gets (\<lambda>w. f (db w))"

definition flush :: "(db \<Rightarrow> db) \<Rightarrow> unit app" where
  "flush f w = (let d = f (db w) in
     if integrity d then (Inr (), w\<lparr>db := d\<rparr>) else (Inl IntegrityError, w))"

text \<open>
  \<open>async with session.begin()\<close>: a new transaction, committed when the body returns and
  rolled back when it raises. It may not be nested. \<open>session.begin_nested()\<close> is a savepoint.
\<close>

definition session_begin :: "'a app \<Rightarrow> 'a app" where
  "session_begin m w =
     (if in_tx w
      then (Inl (RuntimeError ''A transaction is already begun on this Session.''), w)
      else case m (w\<lparr>in_tx := True\<rparr>) of
             (Inl e, w') \<Rightarrow> (Inl e, w'\<lparr>in_tx := False, db := db w\<rparr>)
           | (Inr x, w') \<Rightarrow> (Inr x, w'\<lparr>in_tx := False\<rparr>))"

definition begin_nested :: "'a app \<Rightarrow> 'a app" where
  "begin_nested m w =
     (case m w of (Inl e, w') \<Rightarrow> (Inl e, w'\<lparr>db := db w\<rparr>) | (Inr x, w') \<Rightarrow> (Inr x, w'))"

text \<open>
  \<open>if self.session.in_transaction(): return await m  /  async with self.session.begin(): return await m\<close>,
  the shape of the services' public methods.
\<close>

definition in_transaction_or_begin :: "'a app \<Rightarrow> 'a app" where
  "in_transaction_or_begin m w = (if in_tx w then m w else session_begin m w)"

text \<open>A session that is rolled back at its end, as in the dry runs of the jobs.\<close>

definition rolled_back :: "'a app \<Rightarrow> 'a app" where
  "rolled_back m w = (case m w of (r, w') \<Rightarrow> (r, w'\<lparr>db := db w\<rparr>))"

subsubsection \<open>Rules for the primitives\<close>

lemma wp_utcnow [wp_rules]:
  "wp utcnow Q E w = Q (clock w (clock_pos w)) (w\<lparr>clock_pos := Suc (clock_pos w)\<rparr>)"
  by (simp add: wp_def utcnow_def)

lemma wp_uuid4 [wp_rules]:
  "wp uuid4 Q E w = Q (uuid_source w (uuid_pos w)) (w\<lparr>uuid_pos := Suc (uuid_pos w)\<rparr>)"
  by (simp add: wp_def uuid4_def)

lemma wp_token_urlsafe [wp_rules]:
  "wp token_urlsafe Q E w =
     Q (token_source w (token_pos w)) (w\<lparr>token_pos := Suc (token_pos w)\<rparr>)"
  by (simp add: wp_def token_urlsafe_def)

lemma wp_query [wp_rules]: "wp (query f) Q E w = Q (f (db w)) w"
  by (simp add: query_def wp_gets)

lemma wp_flush [wp_rules]:
  "wp (flush f) Q E w =
     (if integrity (f (db w)) then Q () (w\<lparr>db := f (db w)\<rparr>) else E IntegrityError w)"
  by (simp add: wp_def flush_def Let_def)

text \<open>A query for one row: by a unique key, or with \<open>.limit(1)\<close>.\<close>

lemma query_unique:
  fixes T :: "db \<Rightarrow> 'b list"
  assumes "distinct (map f (filter q (T (db w))))"
    and "\<And>x. x \<in> set (T (db w)) \<Longrightarrow> p x \<longleftrightarrow> q x \<and> f x = k"
  shows "bind (query (\<lambda>d. filter p (T d))) scalar_one_or_none w = (Inr (find p (T (db w))), w)"
proof -
  have "(scalar_one_or_none (filter p (T (db w))) :: 'b option app) = ret (find p (T (db w)))"
    using assms by (rule scalar_one_unique)
  then show ?thesis by (simp add: bind_def query_def gets_def ret_def)
qed

lemma query_limit1:
  "bind (query (\<lambda>d. take 1 (filter p (T d)))) scalar_one_or_none = query (\<lambda>d. find p (T d))"
  by (rule ext) (simp add: bind_def query_def gets_def ret_def)

lemma query_run [run_rules]: "query f w = (r, w') \<longleftrightarrow> r = Inr (f (db w)) \<and> w' = w"
  by (auto simp: query_def gets_run)

lemma utcnow_run [run_rules]:
  "utcnow w = (r, w') \<longleftrightarrow>
     r = Inr (clock w (clock_pos w)) \<and> w' = w\<lparr>clock_pos := Suc (clock_pos w)\<rparr>"
  by (auto simp: utcnow_def)

lemma uuid4_run [run_rules]:
  "uuid4 w = (r, w') \<longleftrightarrow>
     r = Inr (uuid_source w (uuid_pos w)) \<and> w' = w\<lparr>uuid_pos := Suc (uuid_pos w)\<rparr>"
  by (auto simp: uuid4_def)

lemma token_urlsafe_run [run_rules]:
  "token_urlsafe w = (r, w') \<longleftrightarrow>
     r = Inr (token_source w (token_pos w)) \<and> w' = w\<lparr>token_pos := Suc (token_pos w)\<rparr>"
  by (auto simp: token_urlsafe_def)

lemma flush_run [run_rules]:
  "flush f w = (Inr x, w') \<longleftrightarrow> integrity (f (db w)) \<and> w' = w\<lparr>db := f (db w)\<rparr>"
  by (auto simp: flush_def Let_def)

lemma flush_error_run [run_rules]:
  "flush f w = (Inl e, w') \<longleftrightarrow> \<not> integrity (f (db w)) \<and> e = IntegrityError \<and> w' = w"
  by (auto simp: flush_def Let_def)

lemma session_begin_Inr [run_rules]:
  "session_begin m w = (Inr x, w') \<longleftrightarrow>
     \<not> in_tx w \<and> (\<exists>v. m (w\<lparr>in_tx := True\<rparr>) = (Inr x, v) \<and> w' = v\<lparr>in_tx := False\<rparr>)"
  by (auto simp: session_begin_def split: prod.splits sum.splits)

lemma session_begin_Inl_db: "session_begin m w = (Inl e, w') \<Longrightarrow> db w' = db w"
  by (auto simp: session_begin_def split: prod.splits sum.splits if_splits)

lemma wp_session_begin [wp_rules]:
  "wp (session_begin m) Q E w =
     (if in_tx w then E (RuntimeError ''A transaction is already begun on this Session.'') w
      else wp m (\<lambda>x v. Q x (v\<lparr>in_tx := False\<rparr>)) (\<lambda>e v. E e (v\<lparr>in_tx := False, db := db w\<rparr>))
             (w\<lparr>in_tx := True\<rparr>))"
  by (auto simp: wp_def session_begin_def split: prod.splits sum.splits)

lemma wp_begin_nested [wp_rules]:
  "wp (begin_nested m) Q E w = wp m Q (\<lambda>e v. E e (v\<lparr>db := db w\<rparr>)) w"
  by (auto simp: wp_def begin_nested_def split: prod.splits sum.splits)

lemma begin_nested_Inr [run_rules]: "begin_nested m w = (Inr x, w') \<longleftrightarrow> m w = (Inr x, w')"
  by (auto simp: begin_nested_def split: prod.splits sum.splits)

lemma wp_in_transaction_or_begin [wp_rules]:
  "wp (in_transaction_or_begin m) Q E w =
     (if in_tx w then wp m Q E w else wp (session_begin m) Q E w)"
  by (simp add: wp_def in_transaction_or_begin_def)

subsection \<open>Invariants of the database\<close>

text \<open>
  \<open>keeps J m\<close>: the program keeps \<open>J\<close> of the database, however it ends. \<open>commits J m\<close>:
  it keeps \<open>J\<close> when it returns; when it raises, the transaction around it undoes its
  writes, so a transaction over a program that commits \<open>J\<close> keeps it.
\<close>

abbreviation keeps :: "(db \<Rightarrow> bool) \<Rightarrow> 'a app \<Rightarrow> bool" where
  "keeps J m \<equiv> maintains (\<lambda>w. J (db w)) m"

definition commits :: "(db \<Rightarrow> bool) \<Rightarrow> 'a app \<Rightarrow> bool" where
  "commits J m \<longleftrightarrow> (\<forall>w x w'. J (db w) \<longrightarrow> m w = (Inr x, w') \<longrightarrow> J (db w'))"

lemma commitsI:
  "(\<And>w x w'. J (db w) \<Longrightarrow> m w = (Inr x, w') \<Longrightarrow> J (db w')) \<Longrightarrow> commits J m"
  by (auto simp: commits_def)

lemma commits_bind: "commits J m \<Longrightarrow> (\<And>x. commits J (f x)) \<Longrightarrow> commits J (bind m f)"
  unfolding commits_def bind_Inr by metis

lemma keeps_commits: "keeps J m \<Longrightarrow> commits J m"
  by (auto simp: commits_def dest: maintainsD)

lemma keeps_utcnow [maintains_rules]: "keeps J utcnow"
  by (simp add: maintains_def utcnow_def)

lemma keeps_uuid4 [maintains_rules]: "keeps J uuid4"
  by (simp add: maintains_def uuid4_def)

lemma keeps_token_urlsafe [maintains_rules]: "keeps J token_urlsafe"
  by (simp add: maintains_def token_urlsafe_def)

lemma maintains_query [maintains_rules]: "maintains I (query f)"
  unfolding query_def by (rule maintains_gets)

lemma keeps_flush: "(\<And>d. J d \<Longrightarrow> integrity (f d) \<Longrightarrow> J (f d)) \<Longrightarrow> keeps J (flush f)"
  by (auto simp: maintains_def flush_def Let_def)

lemma keeps_integrity_flush [maintains_rules]: "keeps integrity (flush f)"
  by (rule keeps_flush)

lemma keeps_begin_nested [maintains_rules]: "keeps J m \<Longrightarrow> keeps J (begin_nested m)"
  by (fastforce simp: maintains_def begin_nested_def split: prod.splits sum.splits)

lemma keeps_session_begin: "commits J m \<Longrightarrow> keeps J (session_begin m)"
proof (rule maintainsI)
  fix w :: world
  assume "commits J m" and "J (db w)"
  then show "J (db (snd (session_begin m w)))"
    by (auto simp: commits_def session_begin_def split: prod.splits sum.splits)
       (metis select_convs(1) surjective update_convs(2))
qed

lemma keeps_session_begin' [maintains_rules]: "keeps J m \<Longrightarrow> keeps J (session_begin m)"
  by (rule keeps_session_begin [OF keeps_commits])

lemma keeps_in_transaction_or_begin [maintains_rules]:
  "keeps J m \<Longrightarrow> keeps J (in_transaction_or_begin m)"
  using keeps_session_begin' [of J m]
  by (simp add: maintains_def in_transaction_or_begin_def)

text \<open>A transaction that raises leaves the database as it found it.\<close>

lemma in_transaction_or_begin_rollback:
  "in_transaction_or_begin m w = (Inl e, w') \<Longrightarrow> \<not> in_tx w \<Longrightarrow> db w' = db w"
  by (auto simp: in_transaction_or_begin_def dest: session_begin_Inl_db)

text \<open>A transaction that returns has committed what its body did.\<close>

lemma in_transaction_or_begin_committed:
  assumes "in_transaction_or_begin m w = (Inr x, w')"
  obtains w0 w1 where "db w0 = db w" and "in_tx w0" and "m w0 = (Inr x, w1)" and "db w' = db w1"
    and "w0 = w\<lparr>in_tx := True\<rparr>"
proof (cases "in_tx w")
  case True
  with assms that [of w w'] show ?thesis by (simp add: in_transaction_or_begin_def)
next
  case False
  with assms obtain v where "m (w\<lparr>in_tx := True\<rparr>) = (Inr x, v)" "w' = v\<lparr>in_tx := False\<rparr>"
    by (auto simp: in_transaction_or_begin_def session_begin_Inr)
  with that [of "w\<lparr>in_tx := True\<rparr>" v] show ?thesis by simp
qed

lemma session_begin_committed:
  assumes "session_begin m w = (Inr x, w')"
  obtains w0 w1 where "db w0 = db w" and "m w0 = (Inr x, w1)" and "db w' = db w1"
    and "w0 = w\<lparr>in_tx := True\<rparr>"
proof -
  from assms obtain v where "m (w\<lparr>in_tx := True\<rparr>) = (Inr x, v)" "w' = v\<lparr>in_tx := False\<rparr>"
    by (auto simp: session_begin_Inr)
  with that [of "w\<lparr>in_tx := True\<rparr>" v] show ?thesis by simp
qed

lemma commits_in_transaction_or_begin: "commits J m \<Longrightarrow> commits J (in_transaction_or_begin m)"
  by (rule commitsI, erule in_transaction_or_begin_committed) (metis commits_def)

text \<open>
  Code that only reads the database, or that does not touch it at all, such as a rate limiter
  that counts in Redis.
\<close>

definition leaves_db :: "'a app \<Rightarrow> bool" where
  "leaves_db m \<longleftrightarrow> (\<forall>w. db (snd (m w)) = db w \<and> in_tx (snd (m w)) = in_tx w)"

lemma leaves_dbD: "leaves_db m \<Longrightarrow> m w = (r, w') \<Longrightarrow> db w' = db w \<and> in_tx w' = in_tx w"
  unfolding leaves_db_def by (metis snd_conv)

lemma leaves_db_keeps: "leaves_db m \<Longrightarrow> keeps J m"
  by (auto simp: maintains_def leaves_db_def)

text \<open>
  Between requests a session is idle. \<open>idle J\<close> is the invariant of a request that starts and
  ends outside a transaction.
\<close>

abbreviation idle :: "(db \<Rightarrow> bool) \<Rightarrow> world \<Rightarrow> bool" where
  "idle J \<equiv> (\<lambda>w. J (db w) \<and> \<not> in_tx w)"

lemma idle_session_begin: "commits J m \<Longrightarrow> maintains (idle J) (session_begin m)"
proof (rule maintainsI)
  fix w :: world
  assume "commits J m" and "idle J w"
  then have "J (db (snd (session_begin m w)))"
    using keeps_session_begin [of J m] by (simp add: maintains_def)
  moreover have "\<not> in_tx (snd (session_begin m w))"
    using \<open>idle J w\<close> by (auto simp: session_begin_def split: prod.splits sum.splits)
  ultimately show "idle J (snd (session_begin m w))" ..
qed

lemma idle_in_transaction_or_begin:
  "commits J m \<Longrightarrow> maintains (idle J) (in_transaction_or_begin m)"
  using idle_session_begin [of J m] by (simp add: maintains_def in_transaction_or_begin_def)

lemma idle_rolled_back: "maintains (idle J) m \<Longrightarrow> maintains (idle J) (rolled_back m)"
  by (fastforce simp: maintains_def rolled_back_def split: prod.splits)

lemma keeps_rolled_back: "keeps J (rolled_back m)"
  by (simp add: maintains_def rolled_back_def split: prod.splits)

lemma idle_leaves_db: "leaves_db m \<Longrightarrow> maintains (idle J) m"
  by (simp add: maintains_def leaves_db_def)

text \<open>Programs that leave the database alone compose.\<close>

lemma leaves_db_ret: "leaves_db (ret x)" and leaves_db_raise: "leaves_db (raise e)"
  and leaves_db_ensure: "leaves_db (ensure b e)" and leaves_db_query: "leaves_db (query f)"
  and leaves_db_utcnow: "leaves_db utcnow" and leaves_db_uuid4: "leaves_db uuid4"
  and leaves_db_token: "leaves_db token_urlsafe"
  by (simp_all add: leaves_db_def ret_def raise_def ensure_def query_def gets_def utcnow_def
      uuid4_def token_urlsafe_def)

lemma leaves_db_bind: "leaves_db m \<Longrightarrow> (\<And>x. leaves_db (f x)) \<Longrightarrow> leaves_db (bind m f)"
  by (simp add: leaves_db_def bind_def split: prod.splits sum.splits) (metis snd_conv)

lemma leaves_db_scalar: "leaves_db (scalar_one_or_none rows)"
  by (auto simp: scalar_one_or_none_def leaves_db_ret leaves_db_raise split: list.splits)

lemma leaves_db_if: "leaves_db m \<Longrightarrow> leaves_db n \<Longrightarrow> leaves_db (if b then m else n)"
  by simp

lemma leaves_db_case_option:
  "leaves_db m \<Longrightarrow> (\<And>y. leaves_db (f y)) \<Longrightarrow> leaves_db (case x of None \<Rightarrow> m | Some y \<Rightarrow> f y)"
  by (cases x) simp_all

lemmas leaves_db_rules =
  leaves_db_ret leaves_db_raise leaves_db_ensure leaves_db_query leaves_db_utcnow leaves_db_uuid4
  leaves_db_token leaves_db_bind leaves_db_scalar leaves_db_if leaves_db_case_option

subsection \<open>Tables as an interface\<close>

text \<open>
  What the repositories rely on when they update a row they found by its primary key: a
  table is read and written as a whole, writing it changes nothing else, and the row with a
  key is the one an update of that key changes.
\<close>

locale table =
  fixes rows :: "db \<Rightarrow> 'r list"
    and put :: "('r list \<Rightarrow> 'r list) \<Rightarrow> db \<Rightarrow> db"
    and key :: "'r \<Rightarrow> uuid"
  assumes rows_put: "rows (put f d) = f (rows d)"
    and put_put: "put f (put g d) = put (\<lambda>r. f (g r)) d"
    and put_const: "put f d = put (\<lambda>_. f (rows d)) d"
    and put_rows: "put (\<lambda>_. rows d) d = d"
    and key_unique: "integrity d \<Longrightarrow> distinct (map key (rows d))"
begin

lemma find_by_key:
  "integrity d \<Longrightarrow> r \<in> set (rows d) \<Longrightarrow> find_row key (key r) (rows d) = Some r"
  by (rule find_row_unique [OF key_unique])

lemma same_key_same_row:
  "integrity d \<Longrightarrow> r \<in> set (rows d) \<Longrightarrow> r' \<in> set (rows d) \<Longrightarrow> key r = key r' \<Longrightarrow> r = r'"
  by (rule distinct_key_eq [OF key_unique])

lemma set_update_by_key:
  assumes "integrity d" and "r \<in> set (rows d)"
  shows "set (rows (put (update_where (\<lambda>x. key x = key r) f) d)) = insert (f r) (set (rows d) - {r})"
proof -
  from assms have "key x = key r \<longleftrightarrow> x = r" if "x \<in> set (rows d)" for x
    using that by (auto intro: same_key_same_row)
  with assms(2) show ?thesis by (auto simp: rows_put set_update_where image_iff)
qed

lemma update_by_key_keeps_length:
  "length (rows (put (update_where p f) d)) = length (rows d)"
  by (simp add: rows_put)

end

interpretation users_table: table users users_update usr_id
  by unfold_locales (auto simp: integrityD intro!: db.equality)

interpretation organisations_table: table organisations organisations_update org_id
  by unfold_locales (auto simp: integrityD intro!: db.equality)

interpretation memberships_table: table memberships memberships_update mem_id
  by unfold_locales (auto simp: integrityD intro!: db.equality)

interpretation invites_table: table invites invites_update inv_id
  by unfold_locales (auto simp: integrityD intro!: db.equality)

interpretation staff_table: table staff_rows staff_rows_update stf_id
  by unfold_locales (auto simp: integrityD intro!: db.equality)

interpretation audit_table: table audit_events audit_events_update aud_id
  by unfold_locales (auto simp: integrityD intro!: db.equality)

interpretation outbox_table: table outbox_events outbox_events_update obx_id
  by unfold_locales (auto simp: integrityD intro!: db.equality)

abbreviation requests_table :: "(data_subject_request list \<Rightarrow> data_subject_request list) \<Rightarrow> db \<Rightarrow> db" where
  "requests_table f \<equiv> privacy_update (requests_update f)"

abbreviation artifacts_table :: "(export_artifact list \<Rightarrow> export_artifact list) \<Rightarrow> db \<Rightarrow> db" where
  "artifacts_table f \<equiv> privacy_update (artifacts_update f)"

interpretation dsr_rows: table "\<lambda>d. requests (privacy d)" requests_table dsr_id
  by unfold_locales
     (auto simp: integrity_def privacy_ok_def privacy_tables_ok_def intro!: db.equality privacy_tables.equality)

interpretation artifact_rows: table "\<lambda>d. artifacts (privacy d)" artifacts_table art_id
  by unfold_locales
     (auto simp: integrity_def privacy_ok_def privacy_tables_ok_def intro!: db.equality privacy_tables.equality)

abbreviation authorizations_table :: "(processing_authorization list \<Rightarrow> processing_authorization list) \<Rightarrow> db \<Rightarrow> db" where
  "authorizations_table f \<equiv> privacy_update (authorizations_update f)"

abbreviation notices_table :: "(notice_acceptance list \<Rightarrow> notice_acceptance list) \<Rightarrow> db \<Rightarrow> db" where
  "notices_table f \<equiv> privacy_update (notices_update f)"

interpretation authorization_rows: table "\<lambda>d. authorizations (privacy d)" authorizations_table pau_id
  by unfold_locales
     (auto simp: integrity_def privacy_ok_def privacy_tables_ok_def intro!: db.equality privacy_tables.equality)

interpretation notice_rows: table "\<lambda>d. notices (privacy d)" notices_table pna_id
  by unfold_locales
     (auto simp: integrity_def privacy_ok_def privacy_tables_ok_def intro!: db.equality privacy_tables.equality)

interpretation claims_table: table delivery_claims delivery_claims_update clm_event_id
  by unfold_locales (auto simp: integrityD intro!: db.equality)

end
