(* ===== verification/Listing.thy ===== *)
theory Listing
  imports Prelude "HOL-Library.Product_Lexorder"
begin

section \<open>Filtered, ordered pages\<close>

text \<open>
  The repositories list rows with the same shape of query: conditions, \<open>ORDER BY created_at
  DESC, id DESC\<close>, \<open>OFFSET\<close> and \<open>LIMIT\<close>, next to a \<open>COUNT\<close> under the same conditions. Text
  filters use \<open>ILIKE '%q%'\<close> with \<open>q\<close> taken from the request as it is.
\<close>

text \<open>SQL \<open>LIKE\<close>: \<open>%\<close> any text, \<open>_\<close> any character, \<open>\\\<close> makes the next character literal.\<close>

function like :: "string \<Rightarrow> string \<Rightarrow> bool" where
  "like [] s = (s = [])"
| "like (c # p) s =
     (if c = CHR ''%'' then like p s \<or> (case s of [] \<Rightarrow> False | _ # s' \<Rightarrow> like (c # p) s')
      else if c = CHR ''_'' then (case s of [] \<Rightarrow> False | _ # s' \<Rightarrow> like p s')
      else if c = CHR 0x5C \<and> p \<noteq> [] then
        (case s of [] \<Rightarrow> False | x # s' \<Rightarrow> x = hd p \<and> like (tl p) s')
      else (case s of [] \<Rightarrow> False | x # s' \<Rightarrow> x = c \<and> like p s'))"
  by pat_completeness auto
termination
  by (relation "measure (\<lambda>(p, s). length p + length s)") auto

declare like.simps(2) [simp del]

definition ilike :: "string \<Rightarrow> string \<Rightarrow> bool" where
  "ilike s pat = like (lower pat) (lower s)"

text \<open>A nullable column: \<open>NULL ILIKE pattern\<close> is not true.\<close>

definition ilike_opt :: "string option \<Rightarrow> string \<Rightarrow> bool" where
  "ilike_opt x pat = (case x of None \<Rightarrow> False | Some s \<Rightarrow> ilike s pat)"

definition like_pattern :: "string \<Rightarrow> string" where
  "like_pattern q = ''%'' @ q @ ''%''"

text \<open>\<open>if q:\<close> is false for \<open>None\<close> and for the empty string.\<close>

definition text_filter :: "string option \<Rightarrow> (string \<Rightarrow> 'r \<Rightarrow> bool) \<Rightarrow> 'r \<Rightarrow> bool" where
  "text_filter q cond r =
     (case q of None \<Rightarrow> True | Some t \<Rightarrow> t = [] \<or> cond (like_pattern t) r)"

definition eq_filter :: "'v option \<Rightarrow> ('r \<Rightarrow> 'v) \<Rightarrow> 'r \<Rightarrow> bool" where
  "eq_filter v col r = (case v of None \<Rightarrow> True | Some x \<Rightarrow> col r = x)"

definition newest_first :: "('r \<Rightarrow> int) \<Rightarrow> ('r \<Rightarrow> uuid) \<Rightarrow> 'r list \<Rightarrow> 'r list" where
  "newest_first created ident rows = rev (sort_key (\<lambda>r. (created r, ident r)) rows)"

definition page :: "nat \<Rightarrow> nat \<Rightarrow> 'r list \<Rightarrow> 'r list" where
  "page limit offset rows = take limit (drop offset rows)"

text \<open>The services turn a blank search text into no search text.\<close>

definition normalised_q :: "string option \<Rightarrow> string option" where
  "normalised_q q = (case q of None \<Rightarrow> None | Some t \<Rightarrow> if strip t = [] then None else Some (strip t))"

subsection \<open>Pages\<close>

lemma length_page: "length (page l n rows) \<le> l"
  by (simp add: page_def)

lemma set_page: "set (page l n rows) \<subseteq> set rows"
  unfolding page_def by (meson in_set_dropD in_set_takeD subsetI)

lemma page_append: "page l n rows @ page l' (n + l) rows = page (l + l') n rows"
  by (simp add: page_def take_add add.commute)

text \<open>Pages of the same size, read one after the other, give every row once.\<close>

lemma pages_cover:
  "concat (map (\<lambda>i. page l (i * l) rows) [0..<k]) = take (k * l) rows"
proof (induction k)
  case (Suc k)
  have "take (k * l) rows @ page l (k * l) rows = take (Suc k * l) rows"
    by (metis add.commute mult_Suc page_def take_add)
  with Suc show ?case by simp
qed simp

lemma set_newest_first [simp]: "set (newest_first c i rows) = set rows"
  by (simp add: newest_first_def)

lemma length_newest_first [simp]: "length (newest_first c i rows) = length rows"
  by (simp add: newest_first_def)

lemma newest_first_sorted:
  "sorted (rev (map (\<lambda>r. (c r, i r)) (newest_first c i rows)))"
  by (simp add: newest_first_def rev_map [symmetric])

subsection \<open>Search text\<close>

definition plain :: "string \<Rightarrow> bool" where
  "plain q = list_all (\<lambda>c. c \<noteq> CHR ''%'' \<and> c \<noteq> CHR ''_'' \<and> c \<noteq> CHR 0x5C) q"

lemma like_any: "like ''%'' s"
  by (induction s) (auto simp: like.simps(2))

lemma like_plain_suffix: "plain q \<Longrightarrow> like (q @ ''%'') s \<longleftrightarrow> prefix q s"
proof (induction q arbitrary: s)
  case (Cons c q)
  then show ?case by (cases s) (auto simp: like.simps(2) plain_def)
qed (simp add: like_any)

lemma like_contains: "plain q \<Longrightarrow> like (''%'' @ q @ ''%'') s \<longleftrightarrow> contains_str q s"
proof (induction s)
  case Nil
  then show ?case using like_plain_suffix [of q "[]"]
    by (simp add: like.simps(2) contains_str_def)
next
  case (Cons x s)
  have "like (''%'' @ q @ ''%'') (x # s) \<longleftrightarrow>
      like (q @ ''%'') (x # s) \<or> like (''%'' @ q @ ''%'') s"
    by (subst append_Cons, subst like.simps(2)) simp
  with Cons like_plain_suffix [OF Cons.prems, of "x # s"] show ?case
    by (simp add: contains_str_def disj_commute)
qed

lemma plain_lower: "plain q \<Longrightarrow> plain (lower q)"
proof -
  have ne: "(of_char c :: nat) \<noteq> of_char d \<Longrightarrow> c \<noteq> d" for c d by auto
  have "lower_char c \<noteq> d" if "c \<noteq> d" and "d = CHR ''%'' \<or> d = CHR ''_'' \<or> d = CHR 0x5C" for c d
  proof (rule ne)
    from that(1) have "(of_char c :: nat) \<noteq> of_char d" by (simp add: of_char_eq_iff)
    with that(2) show "(of_char (lower_char c) :: nat) \<noteq> of_char d"
      by (auto simp: of_lower_char Let_def)
  qed
  then show "plain q \<Longrightarrow> plain (lower q)"
    by (auto simp: plain_def lower_def list_all_iff)
qed

text \<open>A search text without wildcards finds the rows that contain it, whatever the case.\<close>

lemma ilike_contains:
  "plain q \<Longrightarrow> ilike s (like_pattern q) \<longleftrightarrow> contains_str (lower q) (lower s)"
  using like_contains [OF plain_lower, of q "lower s"]
  by (simp add: ilike_def like_pattern_def lower_def lower_char_def)

end
