(* ===== verification/Users.thy ===== *)
theory Users
  imports Data_Model Listing
begin

section \<open>Users: repository, service, guards\<close>

text \<open>
  \<^verbatim>\<open>users/repositories/users.py\<close>, \<^verbatim>\<open>users/services/users.py\<close> and
  \<^verbatim>\<open>access_control/guards.py\<close>. A local user is a projection of the identity provider's
  account: it is created the first time its subject is seen and its profile follows the
  claims. A row the session holds is passed as the record it is; a write through it changes
  the row with its primary key.
\<close>

subsection \<open>Repository\<close>

definition user_get_by_external_auth_id :: "string \<Rightarrow> user option app" where
  "user_get_by_external_auth_id x =
     bind (query (\<lambda>d. filter (\<lambda>u. external_auth_id u = x) (users d))) scalar_one_or_none"

definition user_get_by_id :: "uuid \<Rightarrow> user option app" where
  "user_get_by_id i = bind (query (\<lambda>d. filter (\<lambda>u. usr_id u = i) (users d))) scalar_one_or_none"

definition user_exists_by_id :: "uuid \<Rightarrow> bool app" where
  "user_exists_by_id i =
     bind (query (\<lambda>d. map usr_id (filter (\<lambda>u. usr_id u = i) (users d)))) (\<lambda>ids.
     bind (scalar_one_or_none ids) (\<lambda>r. ret (r \<noteq> None)))"

definition user_get_by_email :: "string \<Rightarrow> user option app" where
  "user_get_by_email e =
     bind (query (\<lambda>d. filter (\<lambda>u. usr_email u = Some e) (users d))) scalar_one_or_none"

definition user_list_conditions :: "user_status option \<Rightarrow> string option \<Rightarrow> user \<Rightarrow> bool" where
  "user_list_conditions status q u =
     (eq_filter status usr_status u \<and>
      text_filter q (\<lambda>p r. ilike_opt (usr_email r) p \<or> ilike_opt (first_name r) p \<or>
        ilike_opt (last_name r) p) u)"

definition user_limited_list_conditions :: "user_status option \<Rightarrow> string option \<Rightarrow> user \<Rightarrow> bool" where
  "user_limited_list_conditions status q u =
     (eq_filter status usr_status u \<and>
      text_filter q (\<lambda>p r. ilike_opt (first_name r) p \<or> ilike_opt (last_name r) p) u)"

definition user_list_paginated ::
  "nat \<Rightarrow> nat \<Rightarrow> user_status option \<Rightarrow> string option \<Rightarrow> (user list \<times> nat) app" where
  "user_list_paginated limit offset status q =
     bind (query (\<lambda>d. filter (user_list_conditions status q) (users d))) (\<lambda>rows.
     ret (page limit offset (newest_first usr_created_at usr_id rows), length rows))"

definition user_list_limited_paginated ::
  "nat \<Rightarrow> nat \<Rightarrow> user_status option \<Rightarrow> string option \<Rightarrow> (user list \<times> nat) app" where
  "user_list_limited_paginated limit offset status q =
     bind (query (\<lambda>d. filter (user_limited_list_conditions status q) (users d))) (\<lambda>rows.
     ret (page limit offset (newest_first usr_created_at usr_id rows), length rows))"

definition user_create ::
  "string \<Rightarrow> string option \<Rightarrow> bool \<Rightarrow> string option \<Rightarrow> string option \<Rightarrow> user app" where
  "user_create ext email verified fname lname =
     bind uuid4 (\<lambda>i. bind utcnow (\<lambda>c. bind utcnow (\<lambda>t.
       let u = \<lparr>usr_id = i, external_auth_id = ext, usr_email = email, email_verified = verified,
                first_name = fname, last_name = lname, onboarding_completed = False,
                usr_status = USER_ACTIVE, usr_suspended_at = None, usr_suspended_reason = None,
                usr_created_at = c, usr_updated_at = t\<rparr>
       in bind (flush (users_update (\<lambda>rows. rows @ [u]))) (\<lambda>_. ret u))))"

text \<open>Attributes of a loaded user are set and flushed; \<open>updated_at\<close> follows (\<open>onupdate\<close>).\<close>

definition user_save :: "user \<Rightarrow> (user \<Rightarrow> user) \<Rightarrow> user app" where
  "user_save u f = bind utcnow (\<lambda>t.
     let g = (\<lambda>r. (f r)\<lparr>usr_updated_at := t\<rparr>)
     in bind (flush (users_update (update_where (\<lambda>r. usr_id r = usr_id u) g))) (\<lambda>_. ret (g u)))"

definition user_update_profile_fields ::
  "user \<Rightarrow> string option \<Rightarrow> bool \<Rightarrow> string option \<Rightarrow> string option \<Rightarrow> user app" where
  "user_update_profile_fields u email verified fname lname =
     user_save u (\<lambda>r. r\<lparr>usr_email := email, email_verified := verified,
       first_name := fname, last_name := lname\<rparr>)"

definition user_update_onboarding_completed :: "user \<Rightarrow> bool \<Rightarrow> user app" where
  "user_update_onboarding_completed u b = user_save u (\<lambda>r. r\<lparr>onboarding_completed := b\<rparr>)"

definition user_set_status ::
  "user \<Rightarrow> user_status \<Rightarrow> int option \<Rightarrow> string option \<Rightarrow> user app" where
  "user_set_status u status at reason =
     user_save u (\<lambda>r. r\<lparr>usr_status := status, usr_suspended_at := at,
       usr_suspended_reason := reason\<rparr>)"

subsection \<open>Guards\<close>

definition ensure_user_active :: "user \<Rightarrow> unit app" where
  "ensure_user_active u =
     ensure (usr_status u \<noteq> USER_SUSPENDED) (ForbiddenError ''User is suspended'')"

definition ensure_organisation_active :: "organisation \<Rightarrow> unit app" where
  "ensure_organisation_active r =
     ensure (org_status r \<noteq> ORG_SUSPENDED) (ForbiddenError ''Organisation is suspended'')"

definition ensure_email_verified :: "principal \<Rightarrow> unit app" where
  "ensure_email_verified p =
     ensure (idn_email_verified p) (ForbiddenError ''Email verification is required'')"

subsection \<open>Service\<close>

definition create_current_user_projection :: "principal \<Rightarrow> user app" where
  "create_current_user_projection p =
     user_create (idn_external_auth_id p) (idn_email p) (idn_email_verified p)
       (idn_first_name p) (idn_last_name p)"

definition profile_matches :: "user \<Rightarrow> principal \<Rightarrow> bool" where
  "profile_matches u p =
     (usr_email u = idn_email p \<and> email_verified u = idn_email_verified p \<and>
      first_name u = idn_first_name p \<and> last_name u = idn_last_name p)"

definition refresh_current_user_profile :: "user \<Rightarrow> principal \<Rightarrow> user app" where
  "refresh_current_user_profile u p =
     (if profile_matches u p then ret u
      else try_except
        (user_update_profile_fields u (idn_email p) (idn_email_verified p)
           (idn_first_name p) (idn_last_name p))
        (\<lambda>e. e = IntegrityError)
        (\<lambda>_. raise (ConflictError ''User profile conflicts with existing data'')))"

definition get_or_create_current_user :: "principal \<Rightarrow> user app" where
  "get_or_create_current_user p =
     bind (user_get_by_external_auth_id (idn_external_auth_id p)) (\<lambda>found.
       case found of
         Some u \<Rightarrow> refresh_current_user_profile u p
       | None \<Rightarrow>
           try_except (begin_nested (create_current_user_projection p))
             (\<lambda>e. e = IntegrityError)
             (\<lambda>_. bind (user_get_by_external_auth_id (idn_external_auth_id p)) (\<lambda>existing.
               case existing of
                 Some u \<Rightarrow> ret u
               | None \<Rightarrow> raise (ConflictError ''Unable to provision local user projection''))))"

definition provision_current_user :: "principal \<Rightarrow> user app" where
  "provision_current_user p = in_transaction_or_begin (get_or_create_current_user p)"

definition get_current_user_by_external_auth_id :: "principal \<Rightarrow> user option app" where
  "get_current_user_by_external_auth_id p =
     user_get_by_external_auth_id (idn_external_auth_id p)"

definition mark_onboarding_completed :: "user \<Rightarrow> user app" where
  "mark_onboarding_completed u =
     (if onboarding_completed u then ret u else user_update_onboarding_completed u True)"

definition get_me_in_transaction :: "principal \<Rightarrow> user app" where
  "get_me_in_transaction p =
     bind (user_get_by_external_auth_id (idn_external_auth_id p)) (\<lambda>found.
       case found of
         Some u \<Rightarrow> bind (ensure_user_active u) (\<lambda>_. refresh_current_user_profile u p)
       | None \<Rightarrow>
           try_except (begin_nested (create_current_user_projection p))
             (\<lambda>e. e = IntegrityError)
             (\<lambda>_. bind (user_get_by_external_auth_id (idn_external_auth_id p)) (\<lambda>existing.
               case existing of
                 Some u \<Rightarrow> bind (ensure_user_active u) (\<lambda>_. refresh_current_user_profile u p)
               | None \<Rightarrow> raise (ConflictError ''Unable to provision local user projection''))))"

definition get_me :: "principal \<Rightarrow> user app" where
  "get_me p = in_transaction_or_begin (get_me_in_transaction p)"

definition get_user_by_id :: "uuid \<Rightarrow> user app" where
  "get_user_by_id i =
     bind (user_get_by_id i) (\<lambda>u.
       case u of None \<Rightarrow> raise (NotFoundError ''User not found'') | Some r \<Rightarrow> ret r)"

lemmas guard_defs =
  ensure_user_active_def ensure_organisation_active_def ensure_email_verified_def

subsection \<open>What the queries return\<close>

lemma user_get_by_external_auth_id_eq:
  assumes "integrity (db w)"
  shows "user_get_by_external_auth_id x w =
    (Inr (find (\<lambda>u. external_auth_id u = x) (users (db w))), w)"
  unfolding user_get_by_external_auth_id_def
  by (rule query_unique [where q = "\<lambda>_. True"]) (use integrityD(2) [OF assms] in simp_all)

lemma user_get_by_id_eq:
  assumes "integrity (db w)"
  shows "user_get_by_id i w = (Inr (find (\<lambda>u. usr_id u = i) (users (db w))), w)"
  unfolding user_get_by_id_def
  by (rule query_unique [where q = "\<lambda>_. True"]) (use integrityD(1) [OF assms] in simp_all)

lemma get_user_by_id_run:
  assumes "integrity (db w)" and "get_user_by_id i w = (r, w')"
  shows "w' = w \<and> r = (case find (\<lambda>u. usr_id u = i) (users (db w)) of
    None \<Rightarrow> Inl (NotFoundError ''User not found'') | Some u \<Rightarrow> Inr u)"
  using assms
  by (auto simp: get_user_by_id_def bind_def user_get_by_id_eq raise_def ret_def
      split: option.splits)

subsection \<open>The tables other components own\<close>

text \<open>User operations write the table of users only.\<close>

definition other_tables :: "db \<Rightarrow> db" where
  "other_tables d = d\<lparr>users := []\<rparr>"

lemma other_tables_users_update [simp]: "other_tables (users_update f d) = other_tables d"
  by (simp add: other_tables_def)

lemma other_tables_eqD:
  assumes "other_tables d = other_tables d'"
  shows "organisations d = organisations d'" "memberships d = memberships d'"
    "invites d = invites d'" "staff_rows d = staff_rows d'"
    "audit_events d = audit_events d'" "outbox_events d = outbox_events d'"
    "delivery_claims d = delivery_claims d'" "privacy d = privacy d'"
  using assms by (cases d; cases d'; simp add: other_tables_def)+

lemma keeps_other_tables_flush [maintains_rules]:
  "keeps (\<lambda>d. other_tables d = c) (flush (users_update f))"
  by (rule keeps_flush) simp

lemmas user_program_defs =
  user_get_by_external_auth_id_def user_get_by_id_def user_create_def user_save_def
  user_update_profile_fields_def user_update_onboarding_completed_def user_set_status_def
  guard_defs create_current_user_projection_def refresh_current_user_profile_def
  get_or_create_current_user_def provision_current_user_def mark_onboarding_completed_def
  get_me_in_transaction_def get_me_def get_user_by_id_def Let_def

text \<open>Whatever a write to the table of users keeps, every user operation keeps.\<close>

lemma keeps_user_programs:
  assumes "\<And>f. keeps J (flush (users_update f))"
  shows "keeps J (provision_current_user p)" and "keeps J (get_or_create_current_user p)"
    and "keeps J (get_me p)" and "keeps J (mark_onboarding_completed u)"
    and "keeps J (user_set_status u s t rr)" and "keeps J (get_user_by_id i)"
    and "keeps J (get_me_in_transaction p)"
  by (unfold user_program_defs) (intro maintains_rules assms | assumption)+

lemmas keeps_other_tables_users = keeps_user_programs [OF keeps_other_tables_flush]

lemmas keeps_integrity_users [maintains_rules] = keeps_user_programs [OF keeps_integrity_flush]


subsection \<open>The local user of an identity\<close>

lemma user_save_run [run_rules]:
  "user_save u f w = (Inr x, w') \<longleftrightarrow>
     (let t = clock w (clock_pos w); g = (\<lambda>r. (f r)\<lparr>usr_updated_at := t\<rparr>);
          d = users_update (update_where (\<lambda>r. usr_id r = usr_id u) g) (db w)
      in integrity d \<and> x = g u \<and> w' = w\<lparr>clock_pos := Suc (clock_pos w), db := d\<rparr>)"
  by (auto simp: user_save_def run_rules Let_def)

lemma refresh_profile_run:
  assumes "refresh_current_user_profile u p w = (Inr x, w')" and "u \<in> set (users (db w))" and "integrity (db w)"
  shows "x \<in> set (users (db w'))" and "external_auth_id x = external_auth_id u" and "usr_id x = usr_id u"
    and "usr_status x = usr_status u" and "profile_matches x p" and "integrity (db w')"
proof -
  let ?g = "\<lambda>r. r\<lparr>usr_email := idn_email p, email_verified := idn_email_verified p,
     first_name := idn_first_name p, last_name := idn_last_name p, usr_updated_at := clock w (clock_pos w)\<rparr>"
  consider "profile_matches u p" "x = u" "w' = w"
    | "x = ?g u" "db w' = users_update (update_where (\<lambda>r. usr_id r = usr_id u) ?g) (db w)" "integrity (db w')"
    using assms(1)
    by (auto simp: refresh_current_user_profile_def user_update_profile_fields_def try_except_raise_run
        user_save_run ret_run if_run Let_def)
  then show "x \<in> set (users (db w'))" "external_auth_id x = external_auth_id u" "usr_id x = usr_id u"
    "usr_status x = usr_status u" "profile_matches x p" "integrity (db w')"
    by (cases; use assms(2,3) in \<open>auto simp: set_update_where profile_matches_def\<close>)+
qed

text \<open>A refresh writes the profile fields of the one account, if they differ, and nothing else.\<close>

definition profile_of :: "principal \<Rightarrow> int \<Rightarrow> user \<Rightarrow> user" where
  "profile_of p t u = u\<lparr>usr_email := idn_email p, email_verified := idn_email_verified p,
     first_name := idn_first_name p, last_name := idn_last_name p, usr_updated_at := t\<rparr>"

definition profile_refreshed :: "principal \<Rightarrow> uuid \<Rightarrow> db \<Rightarrow> db \<Rightarrow> bool" where
  "profile_refreshed p i d d' \<longleftrightarrow>
     d' = d \<or> (\<exists>t. d' = users_update (update_where (\<lambda>r. usr_id r = i) (profile_of p t)) d)"

lemma refresh_profile_db:
  "refresh_current_user_profile u p w = (Inr x, w') \<Longrightarrow> profile_refreshed p (usr_id u) (db w) (db w')"
proof -
  assume "refresh_current_user_profile u p w = (Inr x, w')"
  then have "w' = w \<or> db w' = users_update (update_where (\<lambda>r. usr_id r = usr_id u) (profile_of p (clock w (clock_pos w)))) (db w)"
    by (auto simp: refresh_current_user_profile_def user_update_profile_fields_def try_except_raise_run
        user_save_run ret_run if_run Let_def profile_of_def [abs_def])
  then show ?thesis by (auto simp: profile_refreshed_def)
qed

text \<open>
  Whoever signs in gets the one local user with their subject, with the profile their token
  shows, and it is in the table when the operation returns.
\<close>

lemma get_or_create_known:
  assumes "integrity (db w)" and "v \<in> set (users (db w))" "external_auth_id v = idn_external_auth_id p"
  shows "get_or_create_current_user p w = refresh_current_user_profile v p w"
proof -
  have "find (\<lambda>u. external_auth_id u = idn_external_auth_id p) (users (db w)) = Some v"
    using find_by_unique_key [OF integrityD(2) [OF assms(1)],
        of "\<lambda>u. external_auth_id u = idn_external_auth_id p" "idn_external_auth_id p" v] assms(2,3) by simp
  then show ?thesis
    by (simp add: get_or_create_current_user_def bind_def user_get_by_external_auth_id_eq [OF assms(1)])
qed

lemma get_or_create_new:
  assumes I: "integrity (db w)"
    and fresh: "\<And>v. v \<in> set (users (db w)) \<Longrightarrow> external_auth_id v \<noteq> idn_external_auth_id p"
    and run: "get_or_create_current_user p w = (Inr u, w')"
  shows "create_current_user_projection p w = (Inr u, w')"
proof -
  have none: "find (\<lambda>u. external_auth_id u = idn_external_auth_id p) (users (db w)) = None"
    using fresh by (simp add: find_None_iff)
  have again: "user_get_by_external_auth_id (idn_external_auth_id p) (w1\<lparr>db := db w\<rparr>) =
      (Inr None, w1\<lparr>db := db w\<rparr>)" for w1
    using user_get_by_external_auth_id_eq [of "w1\<lparr>db := db w\<rparr>"] I none by simp
  from run none show ?thesis
    by (auto simp: get_or_create_current_user_def bind_def user_get_by_external_auth_id_eq [OF I]
        try_except_def begin_nested_def again raise_def split: prod.splits sum.splits if_splits)
qed

lemma get_or_create_run:
  assumes I: "integrity (db w)" and run: "get_or_create_current_user p w = (Inr u, w')"
  shows "u \<in> set (users (db w')) \<and> external_auth_id u = idn_external_auth_id p \<and>
    integrity (db w') \<and> profile_matches u p"
proof (cases "\<exists>v\<in>set (users (db w)). external_auth_id v = idn_external_auth_id p")
  case True
  then obtain v where v: "v \<in> set (users (db w))" "external_auth_id v = idn_external_auth_id p" by blast
  from run have "refresh_current_user_profile v p w = (Inr u, w')"
    by (simp add: get_or_create_known [OF I v])
  from refresh_profile_run [OF this v(1) I] v(2) show ?thesis by simp
next
  case False
  with get_or_create_new [OF I _ run] have "create_current_user_projection p w = (Inr u, w')" by blast
  then show ?thesis
    by (auto simp: create_current_user_projection_def user_create_def run_rules Let_def profile_matches_def)
qed

text \<open>Somebody who has an account already gets that one, whatever its status.\<close>

lemma get_or_create_account:
  assumes I: "integrity (db w)" and run: "get_or_create_current_user p w = (Inr u, w')"
    and v: "v \<in> set (users (db w))" "external_auth_id v = idn_external_auth_id p"
  shows "usr_id v = usr_id u \<and> usr_status v = usr_status u"
proof -
  from run have "refresh_current_user_profile v p w = (Inr u, w')"
    by (simp add: get_or_create_known [OF I v])
  from refresh_profile_run [OF this v(1) I] show ?thesis by simp
qed

end
