(* ===== verification/Membership_Repository.thy ===== *)
theory Membership_Repository
  imports Users
begin

section \<open>Membership repository\<close>

text \<open>
  \<^verbatim>\<open>memberships/repositories/memberships.py\<close>. The row locks of
  \<open>lock_active_memberships\<close> order concurrent transactions; a transaction here runs alone, so
  they have no effect of their own. A query with \<open>.limit(1)\<close> takes the first row in the
  table's order.
\<close>

subsection \<open>Operations\<close>

definition repo_create_membership :: "uuid \<Rightarrow> uuid \<Rightarrow> membership_role \<Rightarrow> membership app" where
  "repo_create_membership uid oid role =
     bind uuid4 (\<lambda>i. bind utcnow (\<lambda>c. bind utcnow (\<lambda>t.
       let m = \<lparr>mem_id = i, mem_user_id = uid, mem_organisation_id = oid, mem_role = role,
                mem_is_active = True, mem_created_at = c, mem_updated_at = t\<rparr>
       in bind (flush (memberships_update (\<lambda>rows. rows @ [m]))) (\<lambda>_. ret m))))"

definition active_in :: "uuid \<Rightarrow> membership \<Rightarrow> bool" where
  "active_in oid m = (mem_organisation_id m = oid \<and> mem_is_active m)"

definition list_memberships_for_organisation :: "uuid \<Rightarrow> membership list app" where
  "list_memberships_for_organisation oid = query (\<lambda>d. filter (active_in oid) (memberships d))"

definition list_directory_members_for_organisation ::
  "uuid \<Rightarrow> (string option \<times> string option \<times> membership_role) list app" where
  "list_directory_members_for_organisation oid = query (\<lambda>d.
     concat (map (\<lambda>u. map (\<lambda>m. (first_name u, last_name u, mem_role m))
       (filter (\<lambda>m. mem_user_id m = usr_id u \<and> active_in oid m) (memberships d))) (users d)))"

definition repo_get_membership_for_user :: "uuid \<Rightarrow> membership option app" where
  "repo_get_membership_for_user uid =
     bind (query (\<lambda>d. take 1 (filter (\<lambda>m. mem_user_id m = uid \<and> mem_is_active m) (memberships d))))
       scalar_one_or_none"

definition has_membership :: "uuid \<Rightarrow> uuid \<Rightarrow> bool app" where
  "has_membership uid oid =
     bind (query (\<lambda>d. map mem_id (take 1 (filter (\<lambda>m. mem_user_id m = uid \<and> active_in oid m)
       (memberships d))))) (\<lambda>ids.
     bind (scalar_one_or_none ids) (\<lambda>r. ret (r \<noteq> None)))"

definition get_membership :: "uuid \<Rightarrow> uuid \<Rightarrow> membership option app" where
  "get_membership uid oid =
     bind (query (\<lambda>d. take 1 (filter (\<lambda>m. mem_user_id m = uid \<and> active_in oid m) (memberships d))))
       scalar_one_or_none"

definition get_membership_by_id :: "uuid \<Rightarrow> uuid \<Rightarrow> membership option app" where
  "get_membership_by_id mid oid =
     bind (query (\<lambda>d. take 1 (filter (\<lambda>m. mem_id m = mid \<and> active_in oid m) (memberships d))))
       scalar_one_or_none"

definition has_any_membership_for_user :: "uuid \<Rightarrow> bool app" where
  "has_any_membership_for_user uid =
     bind (repo_get_membership_for_user uid) (\<lambda>m. ret (m \<noteq> None))"

text \<open>Attributes of a loaded membership are set and flushed; \<open>updated_at\<close> follows.\<close>

definition membership_save :: "membership \<Rightarrow> (membership \<Rightarrow> membership) \<Rightarrow> membership app" where
  "membership_save m f = bind utcnow (\<lambda>t.
     let g = (\<lambda>r. (f r)\<lparr>mem_updated_at := t\<rparr>)
     in bind (flush (memberships_update (update_where (\<lambda>r. mem_id r = mem_id m) g))) (\<lambda>_. ret (g m)))"

definition update_role :: "membership \<Rightarrow> membership_role \<Rightarrow> membership app" where
  "update_role m role = membership_save m (\<lambda>r. r\<lparr>mem_role := role\<rparr>)"

definition repo_deactivate_membership :: "membership \<Rightarrow> membership app" where
  "repo_deactivate_membership m = membership_save m (\<lambda>r. r\<lparr>mem_is_active := False\<rparr>)"

definition owners_of :: "uuid \<Rightarrow> db \<Rightarrow> membership list" where
  "owners_of oid d =
     filter (\<lambda>m. mem_organisation_id m = oid \<and> mem_role m = OWNER \<and> mem_is_active m) (memberships d)"

definition count_active_owners :: "uuid \<Rightarrow> nat app" where
  "count_active_owners oid = query (\<lambda>d. length (owners_of oid d))"

definition lock_active_memberships :: "uuid \<Rightarrow> membership list app" where
  "lock_active_memberships oid = query (\<lambda>d. filter (active_in oid) (memberships d))"

definition deactivate_organisation_memberships :: "uuid \<Rightarrow> unit app" where
  "deactivate_organisation_memberships oid = bind utcnow (\<lambda>t.
     flush (memberships_update (update_where (active_in oid)
       (\<lambda>m. m\<lparr>mem_is_active := False, mem_updated_at := t\<rparr>))))"

subsection \<open>What the queries return\<close>

lemma repo_get_membership_for_user_eq:
  "repo_get_membership_for_user uid =
     query (\<lambda>d. find (\<lambda>m. mem_user_id m = uid \<and> mem_is_active m) (memberships d))"
  unfolding repo_get_membership_for_user_def by (rule query_limit1)

lemma get_membership_eq:
  "get_membership uid oid =
     query (\<lambda>d. find (\<lambda>m. mem_user_id m = uid \<and> active_in oid m) (memberships d))"
  unfolding get_membership_def by (rule query_limit1)

lemma get_membership_by_id_eq:
  "get_membership_by_id mid oid =
     query (\<lambda>d. find (\<lambda>m. mem_id m = mid \<and> active_in oid m) (memberships d))"
  unfolding get_membership_by_id_def by (rule query_limit1)

lemma has_membership_run [run_rules]:
  "has_membership uid oid w = (r, w') \<longleftrightarrow>
     w' = w \<and> r = Inr (list_ex (\<lambda>m. mem_user_id m = uid \<and> active_in oid m) (memberships (db w)))"
proof -
  have "(scalar_one_or_none (map mem_id (take 1 (filter p xs))) :: uuid option app) =
      ret (map_option mem_id (find p xs))"
    for p and xs :: "membership list"
    by (cases "find p xs") (simp_all add: scalar_one_or_none_def take_Suc_0_filter)
  then show ?thesis
    by (auto simp: has_membership_def bind_def query_def gets_def ret_def find_ex)
qed

lemmas membership_query_eqs =
  repo_get_membership_for_user_eq get_membership_eq get_membership_by_id_eq

subsection \<open>What the writes do\<close>

lemma membership_save_run [run_rules]:
  "membership_save m f w = (Inr x, w') \<longleftrightarrow>
     (let t = clock w (clock_pos w); g = (\<lambda>r. (f r)\<lparr>mem_updated_at := t\<rparr>);
          d = memberships_update (update_where (\<lambda>r. mem_id r = mem_id m) g) (db w)
      in integrity d \<and> x = g m \<and> w' = w\<lparr>clock_pos := Suc (clock_pos w), db := d\<rparr>)"
  by (auto simp: membership_save_def run_rules Let_def)

lemma repo_create_membership_run [run_rules]:
  "repo_create_membership uid oid role w = (Inr m, w') \<longleftrightarrow>
     m = \<lparr>mem_id = uuid_source w (uuid_pos w), mem_user_id = uid, mem_organisation_id = oid,
          mem_role = role, mem_is_active = True, mem_created_at = clock w (clock_pos w),
          mem_updated_at = clock w (Suc (clock_pos w))\<rparr> \<and>
     integrity (memberships_update (\<lambda>rows. rows @ [m]) (db w)) \<and>
     w' = w\<lparr>uuid_pos := Suc (uuid_pos w), clock_pos := Suc (Suc (clock_pos w)),
            db := memberships_update (\<lambda>rows. rows @ [m]) (db w)\<rparr>"
  by (auto simp: repo_create_membership_def run_rules Let_def)

lemma repo_create_membership_error:
  "repo_create_membership uid oid role w = (Inl e, w') \<Longrightarrow> e = IntegrityError \<and> db w' = db w"
  by (auto simp: repo_create_membership_def run_rules bind_Inl Let_def)

lemma owners_of_append:
  "owners_of oid (memberships_update (\<lambda>rows. rows @ [m]) d) =
     owners_of oid d @ (if mem_organisation_id m = oid \<and> active_owner m then [m] else [])"
  by (auto simp: owners_of_def active_owner_def)

lemma owners_of_frame [simp]:
  "owners_of oid (users_update fu d) = owners_of oid d"
  "owners_of oid (organisations_update fo d) = owners_of oid d"
  "owners_of oid (invites_update fi d) = owners_of oid d"
  "owners_of oid (staff_rows_update fs d) = owners_of oid d"
  "owners_of oid (audit_events_update fa d) = owners_of oid d"
  "owners_of oid (outbox_events_update fx d) = owners_of oid d"
  "owners_of oid (delivery_claims_update fc d) = owners_of oid d"
  "owners_of oid (privacy_update fp d) = owners_of oid d"
  by (simp_all add: owners_of_def)

text \<open>The partial unique index leaves at most one active owner per organisation.\<close>

lemma at_most_one_owner:
  assumes "integrity d"
  shows "length (owners_of oid d) \<le> 1"
proof -
  have "owners_of oid d = (case find (\<lambda>m. mem_organisation_id m = oid \<and> mem_role m = OWNER \<and>
      mem_is_active m) (memberships d) of None \<Rightarrow> [] | Some m \<Rightarrow> [m])"
    unfolding owners_of_def
    by (rule filter_find_unique [OF integrityD(7) [OF assms], of _ oid]) (auto simp: active_owner_def)
  then show ?thesis by (simp split: option.splits)
qed

end
