(* ===== verification/Minimisation.thy ===== *)
theory Minimisation
  imports Prelude
begin

section \<open>Minimised network identifiers and client families\<close>

text \<open>
  \<^verbatim>\<open>audit/minimisation.py\<close>: what an audit event keeps of a client's address and of its
  user agent. The address is parsed as the standard library's \<open>ipaddress.ip_address\<close> does; the
  keyed digest is a parameter (\<open>hmac.new(key, msg, sha256).hexdigest()\<close> as a function of key
  and message). The properties: without a secret only the network is kept, so addresses of one
  network cannot be told apart, and every user agent becomes one of eleven fixed words.
\<close>

subsection \<open>Splitting text\<close>

fun split_on :: "char \<Rightarrow> string \<Rightarrow> string list" where
  "split_on c [] = [[]]"
| "split_on c (x # xs) =
     (if x = c then [] # split_on c xs
      else case split_on c xs of [] \<Rightarrow> [[x]] | y # ys \<Rightarrow> (x # y) # ys)"

definition has_char :: "char \<Rightarrow> string \<Rightarrow> bool" where
  "has_char c s = list_ex (\<lambda>x. x = c) s"

lemma split_on_nonempty: "split_on c s \<noteq> []"
  by (induction s) (auto split: list.splits)

subsection \<open>IPv4 addresses\<close>

definition digit_value :: "char \<Rightarrow> int" where
  "digit_value c = of_char c - 48"

definition is_digit :: "char \<Rightarrow> bool" where
  "is_digit c = (48 \<le> (of_char c :: nat) \<and> (of_char c :: nat) \<le> 57)"

definition dec_value :: "string \<Rightarrow> int" where
  "dec_value s = foldl (\<lambda>a c. 10 * a + digit_value c) 0 s"

definition parse_octet :: "string \<Rightarrow> int option" where
  "parse_octet s =
     (if s = [] \<or> \<not> list_all is_digit s \<or> 3 < length s \<or> (s \<noteq> ''0'' \<and> hd s = CHR ''0'')
         \<or> 255 < dec_value s
      then None else Some (dec_value s))"

definition parse_ipv4 :: "string \<Rightarrow> int option" where
  "parse_ipv4 s =
     (case split_on (CHR ''.'') s of
        [a, b, c, d] \<Rightarrow>
          (case (parse_octet a, parse_octet b, parse_octet c, parse_octet d) of
             (Some w, Some x, Some y, Some z) \<Rightarrow> Some (((w * 256 + x) * 256 + y) * 256 + z)
           | _ \<Rightarrow> None)
      | _ \<Rightarrow> None)"

fun dec_digits :: "nat \<Rightarrow> string" where
  "dec_digits n = (if n < 10 then [char_of (48 + n)] else dec_digits (n div 10) @ [char_of (48 + n mod 10)])"

declare dec_digits.simps [simp del]

definition dec_str :: "int \<Rightarrow> string" where
  "dec_str n = (if n < 0 then CHR ''-'' # dec_digits (nat (- n)) else dec_digits (nat n))"

definition ipv4_str :: "int \<Rightarrow> string" where
  "ipv4_str a =
     dec_str (a div 16777216) @ ''.'' @ dec_str (a div 65536 mod 256) @ ''.'' @
     dec_str (a div 256 mod 256) @ ''.'' @ dec_str (a mod 256)"

subsection \<open>IPv6 addresses\<close>

definition hex_value :: "char \<Rightarrow> int option" where
  "hex_value c = (let n = (of_char c :: int) in
     if 48 \<le> n \<and> n \<le> 57 then Some (n - 48)
     else if 65 \<le> n \<and> n \<le> 70 then Some (n - 55)
     else if 97 \<le> n \<and> n \<le> 102 then Some (n - 87) else None)"

definition parse_hextet :: "string \<Rightarrow> int option" where
  "parse_hextet s =
     (if s = [] \<or> 4 < length s then None
      else map_option (foldl (\<lambda>a d. 16 * a + d) 0) (those (map hex_value s)))"

fun hex_chars :: "nat \<Rightarrow> string" where
  "hex_chars n = (if n < 16 then [hex_digit (int n)] else hex_chars (n div 16) @ [hex_digit (int (n mod 16))])"

declare hex_chars.simps [simp del]

text \<open>An IPv4 suffix becomes two hextets; the other checks follow \<open>_ip_int_from_string\<close>.\<close>

definition ipv6_parts :: "string \<Rightarrow> string list option" where
  "ipv6_parts s =
     (let parts = split_on (CHR '':'') s in
      if length parts < 3 then None
      else if has_char (CHR ''.'') (last parts)
      then (case parse_ipv4 (last parts) of
              None \<Rightarrow> None
            | Some v \<Rightarrow> Some (butlast parts @
                [hex_chars (nat (v div 65536)), hex_chars (nat (v mod 65536))]))
      else Some parts)"

definition inner_gaps :: "string list \<Rightarrow> nat list" where
  "inner_gaps parts = filter (\<lambda>i. parts ! i = []) [1..<length parts - 1]"

definition assemble :: "string list \<Rightarrow> nat \<Rightarrow> nat \<Rightarrow> nat \<Rightarrow> int option" where
  "assemble parts hi lo skipped =
     (case (those (map parse_hextet (take hi parts)),
            those (map parse_hextet (drop (length parts - lo) parts))) of
        (Some h, Some l) \<Rightarrow>
          Some (foldl (\<lambda>a d. 65536 * a + d) (foldl (\<lambda>a d. 65536 * a + d) 0 h * 65536 ^ skipped) l)
      | _ \<Rightarrow> None)"

definition parse_ipv6_int :: "string \<Rightarrow> int option" where
  "parse_ipv6_int s =
     (case ipv6_parts s of
        None \<Rightarrow> None
      | Some parts \<Rightarrow>
          if 9 < length parts then None
          else case inner_gaps parts of
            [] \<Rightarrow> if length parts \<noteq> 8 \<or> hd parts = [] \<or> last parts = [] then None
                  else assemble parts 8 0 0
          | [i] \<Rightarrow>
              (let hi = (if hd parts = [] then i - 1 else i);
                   lo = (if last parts = [] then length parts - i - 2 else length parts - i - 1)
               in if hd parts = [] \<and> hi \<noteq> 0 \<or> last parts = [] \<and> lo \<noteq> 0 \<or> 8 < hi + lo + 1
                  then None else assemble parts hi lo (8 - (hi + lo)))
          | _ \<Rightarrow> None)"

text \<open>A scope identifier (\<open>%eth0\<close>) is kept apart from the address.\<close>

definition split_scope :: "string \<Rightarrow> (string \<times> string option) option" where
  "split_scope s =
     (let a = takeWhile (\<lambda>c. c \<noteq> CHR ''%'') s; rest = drop (length a) s in
      if rest = [] then Some (a, None)
      else if tl rest = [] \<or> has_char (CHR ''%'') (tl rest) then None
      else Some (a, Some (tl rest)))"

definition hextets :: "int \<Rightarrow> int list" where
  "hextets a = map (\<lambda>i. a div 65536 ^ i mod 65536) (rev [0..<8])"

text \<open>The first of the longest runs of zero hextets: its start and its length.\<close>

fun zero_run :: "int list \<Rightarrow> nat" where
  "zero_run [] = 0"
| "zero_run (x # xs) = (if x = 0 then Suc (zero_run xs) else 0)"

definition best_run :: "int list \<Rightarrow> nat \<times> nat" where
  "best_run hs = foldl (\<lambda>(bs, bl) i. let l = zero_run (drop i hs) in if bl < l then (i, l) else (bs, bl))
     (0, 0) [0..<length hs]"

fun join :: "string \<Rightarrow> string list \<Rightarrow> string" where
  "join sep [] = []"
| "join sep [x] = x"
| "join sep (x # y # ys) = x @ sep @ join sep (y # ys)"

definition ipv6_str :: "int \<Rightarrow> string" where
  "ipv6_str a =
     (let hs = hextets a; words = map (\<lambda>h. hex_chars (nat h)) hs; (start, len) = best_run hs in
      if len \<le> 1 then join '':'' words
      else join '':'' (take start words) @ ''::'' @ join '':'' (drop (start + len) words))"

subsection \<open>Addresses\<close>

datatype ip = IPv4 int | IPv6 int "string option"

definition ip_address :: "string \<Rightarrow> ip option" where
  "ip_address s =
     (if has_char (CHR ''/'') s then None
      else case parse_ipv4 s of
        Some a \<Rightarrow> Some (IPv4 a)
      | None \<Rightarrow>
          (case split_scope s of
             None \<Rightarrow> None
           | Some (a, scope) \<Rightarrow> map_option (\<lambda>n. IPv6 n scope) (parse_ipv6_int a)))"

fun compressed :: "ip \<Rightarrow> string" where
  "compressed (IPv4 a) = ipv4_str a"
| "compressed (IPv6 a None) = ipv6_str a"
| "compressed (IPv6 a (Some sc)) = ipv6_str a @ ''%'' @ sc"

text \<open>
  \<open>ip_network(f"{ip}/{n}", strict=False).network_address\<close>: the host bits are cleared; when
  there were none, the address object is kept, with its scope.
\<close>

fun network :: "ip \<Rightarrow> ip" where
  "network (IPv4 a) = IPv4 (a div 256 * 256)"
| "network (IPv6 a scope) =
     (if a div 2 ^ 64 * 2 ^ 64 = a then IPv6 a scope else IPv6 (a div 2 ^ 64 * 2 ^ 64) None)"

fun prefix_suffix :: "ip \<Rightarrow> string" where
  "prefix_suffix (IPv4 _) = ''/24''"
| "prefix_suffix (IPv6 _ _) = ''/64''"

definition parse_ip :: "string option \<Rightarrow> ip option" where
  "parse_ip v = ip_address (strip (case v of None \<Rightarrow> [] | Some s \<Rightarrow> s))"

definition secret_value :: "string option \<Rightarrow> string option" where
  "secret_value s =
     (case s of None \<Rightarrow> None | Some v \<Rightarrow> if strip v = [] then None else Some (strip v))"

definition minimise_ip_address ::
  "(string \<Rightarrow> string \<Rightarrow> string) \<Rightarrow> string option \<Rightarrow> string option \<Rightarrow> string option" where
  "minimise_ip_address hmac_hex value secret =
     (case parse_ip value of
        None \<Rightarrow> None
      | Some ip \<Rightarrow>
          (case secret_value secret of
             Some k \<Rightarrow> Some (''hmac:v1:'' @ take 32 (hmac_hex k (compressed ip)))
           | None \<Rightarrow> Some (compressed (network ip) @ prefix_suffix ip)))"

subsection \<open>User agents\<close>

fun words_of :: "string \<Rightarrow> string list" where
  "words_of [] = []"
| "words_of (c # s) =
     (if is_space c then words_of s
      else case words_of s of
        [] \<Rightarrow> [[c]]
      | w # ws \<Rightarrow> if s \<noteq> [] \<and> \<not> is_space (hd s) then (c # w) # ws else [c] # w # ws)"

definition normalise_user_agent :: "string option \<Rightarrow> string option" where
  "normalise_user_agent value =
     (case value of
        None \<Rightarrow> None
      | Some v \<Rightarrow>
          (let normalised = join '' '' (words_of (strip v)); lowered = lower normalised in
           if normalised = [] then None
           else Some (
             if contains_str ''pytest'' lowered then ''client:test''
             else if contains_str ''curl/'' lowered then ''client:curl''
             else if contains_str ''python-requests'' lowered \<or> contains_str ''httpx'' lowered \<or>
                     contains_str ''aiohttp'' lowered then ''client:http-library''
             else if contains_str ''googlebot'' lowered \<or> contains_str ''bingbot'' lowered \<or>
                     contains_str ''bot'' lowered then ''client:bot''
             else if contains_str ''edg/'' lowered then ''browser:edge''
             else if contains_str ''firefox/'' lowered then ''browser:firefox''
             else if contains_str ''chrome/'' lowered \<or> contains_str ''chromium/'' lowered
                  then ''browser:chrome''
             else if contains_str ''safari/'' lowered then ''browser:safari''
             else if contains_str ''java/'' lowered then ''client:java''
             else ''client:other'')))"

definition client_families :: "string list" where
  "client_families =
     [''client:test'', ''client:curl'', ''client:http-library'', ''client:bot'', ''browser:edge'',
      ''browser:firefox'', ''browser:chrome'', ''browser:safari'', ''client:java'', ''client:other'']"

subsection \<open>What is kept\<close>

lemma normalise_user_agent_family:
  "normalise_user_agent v = Some f \<Longrightarrow> f \<in> set client_families"
  by (auto simp: normalise_user_agent_def client_families_def Let_def
      split: option.splits if_splits)

lemma network_idem_v4: "network (IPv4 (a div 256 * 256)) = IPv4 (a div 256 * 256)"
  by simp

text \<open>Two IPv4 addresses of one /24 network leave the same identifier.\<close>

lemma minimise_same_v4_network:
  assumes "parse_ip v = Some (IPv4 a)" and "parse_ip v' = Some (IPv4 b)"
    and "a div 256 = b div 256" and "secret_value s = None"
  shows "minimise_ip_address h v s = minimise_ip_address h v' s"
  using assms by (simp add: minimise_ip_address_def)

lemma minimise_invalid: "parse_ip v = None \<Longrightarrow> minimise_ip_address h v s = None"
  by (simp add: minimise_ip_address_def)

end
