(* ===== verification/Audit_Log.thy ===== *)
theory Audit_Log
  imports Data_Model Minimisation
begin

section \<open>Audit events\<close>

text \<open>
  \<^verbatim>\<open>audit/context.py\<close> (the context record), \<^verbatim>\<open>audit/services/audit_events.py\<close>,
  \<^verbatim>\<open>audit/repositories/audit_events.py\<close> and \<^verbatim>\<open>audit/maintenance.py\<close>: recording an
  event with checked metadata and minimised request data, listing, and the retention job that
  anonymises old events unless they are under legal hold.

  \<open>externals\<close> holds the code the repository calls and does not contain: the digests of
  \<open>hashlib\<close> and \<open>hmac\<close> over UTF-8 text, as hexadecimal text, and Fernet encryption.
\<close>

record externals =
  sha256_hex :: "string \<Rightarrow> string"
  hmac_sha256_hex :: "string \<Rightarrow> string \<Rightarrow> string"
  fernet_key_ok :: "string \<Rightarrow> bool"
  fernet_encrypt :: "string \<Rightarrow> string \<Rightarrow> string"
  fernet_decrypt :: "string \<Rightarrow> string \<Rightarrow> string option"

record audit_context =
  ctx_actor_user_id :: "uuid option"
  ctx_ip_address :: "string option"
  ctx_user_agent :: "string option"
  ctx_network_identifier_secret :: "string option"

subsection \<open>Metadata\<close>

definition forbidden_keys :: "string list" where
  "forbidden_keys = [''token'', ''raw_token'', ''invite_token'', ''token_hash'', ''authorization'',
     ''password'', ''secret'', ''api_key'', ''headers'', ''cookie'', ''set_cookie'']"

definition forbidden_markers :: "string list" where
  "forbidden_markers = [''token'', ''password'', ''secret'', ''authorization'', ''cookie'']"

definition normalized_key :: "string \<Rightarrow> string" where
  "normalized_key k = map (\<lambda>c. if c = CHR ''-'' then CHR ''_'' else c) (lower k)"

definition forbidden_key :: "string \<Rightarrow> bool" where
  "forbidden_key k =
     (List.member forbidden_keys (normalized_key k) \<or>
      list_ex (\<lambda>m. contains_str m (normalized_key k)) forbidden_markers)"

text \<open>The work list of \<open>_validate_no_forbidden_metadata_keys\<close>, its top first.\<close>

function visits_forbidden_key :: "json list \<Rightarrow> bool" where
  "visits_forbidden_key [] = False"
| "visits_forbidden_key (JObj kvs # stack) =
     (list_ex (\<lambda>kv. forbidden_key (fst kv)) kvs \<or>
      visits_forbidden_key (rev (map snd kvs) @ stack))"
| "visits_forbidden_key (JList xs # stack) = visits_forbidden_key (rev xs @ stack)"
| "visits_forbidden_key (JNull # stack) = visits_forbidden_key stack"
| "visits_forbidden_key (JBool b # stack) = visits_forbidden_key stack"
| "visits_forbidden_key (JInt n # stack) = visits_forbidden_key stack"
| "visits_forbidden_key (JFloat x # stack) = visits_forbidden_key stack"
| "visits_forbidden_key (JStr x # stack) = visits_forbidden_key stack"
| "visits_forbidden_key (JOther x # stack) = visits_forbidden_key stack"
  by pat_completeness auto

lemma size_list_json: "size_list size (xs :: json list) = (\<Sum>x\<leftarrow>xs. Suc (size x))"
  by (induction xs) auto

lemma size_list_snd:
  "(\<Sum>x\<leftarrow>map snd (kvs :: (string \<times> json) list). Suc (size x)) \<le> size_list (size_prod (\<lambda>_. 0) size) kvs"
  by (induction kvs) auto

termination visits_forbidden_key
proof (relation "measure (\<lambda>stack. \<Sum>x\<leftarrow>stack. Suc (size x))")
  fix kvs :: "(string \<times> json) list" and stack :: "json list"
  show "(rev (map snd kvs) @ stack, JObj kvs # stack) \<in> measure (\<lambda>stack. \<Sum>x\<leftarrow>stack. Suc (size x))"
    using size_list_snd [of kvs] by (simp add: rev_map sum_list_rev flip: rev_map)
next
  fix xs stack :: "json list"
  show "(rev xs @ stack, JList xs # stack) \<in> measure (\<lambda>stack. \<Sum>x\<leftarrow>stack. Suc (size x))"
    by (simp add: size_list_json rev_map sum_list_rev flip: rev_map)
qed simp_all

text \<open>\<open>_calculate_json_depth\<close>; \<open>None\<close> is the \<open>ValueError\<close> for an unsupported value.\<close>

definition max_opt :: "nat option \<Rightarrow> nat option \<Rightarrow> nat option" where
  "max_opt x y = (case (x, y) of (Some a, Some b) \<Rightarrow> Some (max a b) | _ \<Rightarrow> None)"

fun json_depth :: "json \<Rightarrow> nat option"
  and json_depth_list :: "json list \<Rightarrow> nat option"
  and json_depth_obj :: "(string \<times> json) list \<Rightarrow> nat option" where
  "json_depth (JObj kvs) = map_option Suc (json_depth_obj kvs)"
| "json_depth (JList xs) = map_option Suc (json_depth_list xs)"
| "json_depth (JOther _) = None"
| "json_depth _ = Some 0"
| "json_depth_list [] = Some 0"
| "json_depth_list (x # xs) = max_opt (json_depth x) (json_depth_list xs)"
| "json_depth_obj [] = Some 0"
| "json_depth_obj ((k, v) # kvs) = max_opt (json_depth v) (json_depth_obj kvs)"

text \<open>\<open>json.dumps(value, ensure_ascii=False)\<close>.\<close>

definition escape_char :: "char \<Rightarrow> string" where
  "escape_char c = (let n = (of_char c :: nat) in
     if n = 34 then [CHR 0x5C, CHR 0x22] else if n = 92 then [CHR 0x5C, CHR 0x5C]
     else if n = 8 then [CHR 0x5C, CHR ''b''] else if n = 12 then [CHR 0x5C, CHR ''f'']
     else if n = 10 then [CHR 0x5C, CHR ''n''] else if n = 13 then [CHR 0x5C, CHR ''r'']
     else if n = 9 then [CHR 0x5C, CHR ''t'']
     else if n < 32 then [CHR 0x5C, CHR ''u'', CHR ''0'', CHR ''0'',
       hex_digit (int (n div 16)), hex_digit (int (n mod 16))]
     else [c])"

definition json_string :: "string \<Rightarrow> string" where
  "json_string s = [CHR 0x22] @ concat (map escape_char s) @ [CHR 0x22]"

fun json_dumps :: "json \<Rightarrow> string"
  and json_dumps_list :: "json list \<Rightarrow> string"
  and json_dumps_obj :: "(string \<times> json) list \<Rightarrow> string" where
  "json_dumps JNull = ''null''"
| "json_dumps (JBool b) = (if b then ''true'' else ''false'')"
| "json_dumps (JInt n) = dec_str n"
| "json_dumps (JFloat t) = t"
| "json_dumps (JStr s) = json_string s"
| "json_dumps (JList xs) = ''['' @ json_dumps_list xs @ '']''"
| "json_dumps (JObj kvs) = ''{'' @ json_dumps_obj kvs @ ''}''"
| "json_dumps (JOther t) = t"
| "json_dumps_list [] = []"
| "json_dumps_list (x # xs) =
     json_dumps x @ (if xs = [] then [] else '', '' @ json_dumps_list xs)"
| "json_dumps_obj [] = []"
| "json_dumps_obj ((k, v) # kvs) =
     json_string k @ '': '' @ json_dumps v @ (if kvs = [] then [] else '', '' @ json_dumps_obj kvs)"

definition utf8_length :: "string \<Rightarrow> nat" where
  "utf8_length s = sum_list (map (\<lambda>c. if (of_char c :: nat) < 128 then 1 else 2) s)"

definition validate_metadata_json :: "json option \<Rightarrow> app_error + json option" where
  "validate_metadata_json metadata =
     (case metadata of
        None \<Rightarrow> Inr None
      | Some m \<Rightarrow>
          if visits_forbidden_key [m] then Inl (ValueError ''Audit metadata contains forbidden keys'')
          else (case json_depth m of
            None \<Rightarrow> Inl (ValueError ''Audit metadata contains unsupported value types'')
          | Some n \<Rightarrow>
              if 3 < n then Inl (ValueError ''Audit metadata exceeds max nesting depth'')
              else if 8192 < utf8_length (json_dumps m)
              then Inl (ValueError ''Audit metadata exceeds max size'')
              else Inr (Some m)))"

subsection \<open>Repository\<close>

definition audit_create ::
  "uuid option \<Rightarrow> audit_category \<Rightarrow> audit_action \<Rightarrow> audit_target_type \<Rightarrow> uuid option \<Rightarrow>
   string option \<Rightarrow> json option \<Rightarrow> string option \<Rightarrow> string option \<Rightarrow> int option \<Rightarrow> audit_event app" where
  "audit_create actor category action ttype tid reason metadata ip ua hold =
     bind uuid4 (\<lambda>i. bind utcnow (\<lambda>c.
       let e = \<lparr>aud_id = i, aud_actor_user_id = actor, aud_category = category, aud_action = action,
                aud_target_type = ttype, aud_target_id = tid, aud_reason = reason,
                aud_metadata_json = json_column metadata, aud_ip_address = ip, aud_user_agent = ua,
                aud_legal_hold_until = hold, aud_created_at = c\<rparr>
       in bind (flush (audit_events_update (\<lambda>rows. rows @ [e]))) (\<lambda>_. ret e)))"

definition audit_list_events ::
  "nat \<Rightarrow> nat \<Rightarrow> audit_category option \<Rightarrow> audit_action option \<Rightarrow> audit_target_type option \<Rightarrow>
   uuid option \<Rightarrow> (audit_event list \<times> nat) app" where
  "audit_list_events limit offset category action ttype tid =
     bind (query (\<lambda>d. filter (\<lambda>e.
         (category = None \<or> Some (aud_category e) = category) \<and>
         (action = None \<or> Some (aud_action e) = action) \<and>
         (ttype = None \<or> Some (aud_target_type e) = ttype) \<and>
         (tid = None \<or> aud_target_id e = tid)) (audit_events d))) (\<lambda>rows.
     ret (take limit (drop offset rows), length rows))"

definition anonymisable :: "audit_category \<Rightarrow> int \<Rightarrow> int \<Rightarrow> audit_event \<Rightarrow> bool" where
  "anonymisable category created_before now e =
     (aud_category e = category \<and> aud_created_at e < created_before \<and>
      (case aud_legal_hold_until e of None \<Rightarrow> True | Some t \<Rightarrow> t \<le> now) \<and>
      (aud_actor_user_id e \<noteq> None \<or> aud_reason e \<noteq> None \<or> aud_metadata_json e \<noteq> None \<or>
       aud_ip_address e \<noteq> None \<or> aud_user_agent e \<noteq> None))"

definition anonymised :: "audit_event \<Rightarrow> audit_event" where
  "anonymised e = e\<lparr>aud_actor_user_id := None, aud_reason := None, aud_metadata_json := json_column None,
     aud_ip_address := None, aud_user_agent := None\<rparr>"

text \<open>The candidates of a batch: the oldest eligible events.\<close>

definition anonymisation_batch ::
  "audit_category \<Rightarrow> int \<Rightarrow> int \<Rightarrow> nat \<Rightarrow> db \<Rightarrow> uuid list" where
  "anonymisation_batch category created_before now batch_size d =
     map aud_id (take batch_size
       (sort_key aud_created_at (sort_key aud_id
         (filter (anonymisable category created_before now) (audit_events d)))))"

definition anonymise_events_older_than ::
  "audit_category \<Rightarrow> int \<Rightarrow> int \<Rightarrow> nat \<Rightarrow> nat app" where
  "anonymise_events_older_than category created_before now batch_size =
     bind (query (anonymisation_batch category created_before now batch_size)) (\<lambda>ids.
       if ids = [] then ret 0
       else
         let hit = (\<lambda>e. List.member ids (aud_id e) \<and> anonymisable category created_before now e)
         in bind (query (\<lambda>d. length (filter hit (audit_events d)))) (\<lambda>rowcount.
            bind (flush (audit_events_update (update_where hit anonymised))) (\<lambda>_. ret rowcount)))"

subsection \<open>Service\<close>

definition record_event ::
  "externals \<Rightarrow> audit_context \<Rightarrow> audit_category \<Rightarrow> audit_action \<Rightarrow> audit_target_type \<Rightarrow>
   uuid option \<Rightarrow> string option \<Rightarrow> json option \<Rightarrow> audit_event app" where
  "record_event X ctx category action ttype tid reason metadata =
     (case validate_metadata_json metadata of
        Inl e \<Rightarrow> raise e
      | Inr m \<Rightarrow>
          audit_create (ctx_actor_user_id ctx) category action ttype tid reason m
            (minimise_ip_address (hmac_sha256_hex X) (ctx_ip_address ctx)
              (ctx_network_identifier_secret ctx))
            (normalise_user_agent (ctx_user_agent ctx)) None)"

record audit_settings =
  retention_days :: int
  security_retention_days :: int
  compliance_retention_days :: int
  anonymisation_batch_size :: nat

definition days_us :: "int \<Rightarrow> int" where
  "days_us n = n * 86400000000"

definition anonymise_expired_events :: "audit_settings \<Rightarrow> int option \<Rightarrow> nat app" where
  "anonymise_expired_events cfg now =
     bind (case now of Some t \<Rightarrow> ret t | None \<Rightarrow> utcnow) (\<lambda>ref.
     let run = (\<lambda>category days. anonymise_events_older_than category (ref - days_us days) ref
                  (anonymisation_batch_size cfg))
     in bind (run AUDIT_TENANT (retention_days cfg)) (\<lambda>a.
        bind (run AUDIT_PLATFORM (retention_days cfg)) (\<lambda>b.
        bind (run AUDIT_SECURITY (security_retention_days cfg)) (\<lambda>c.
        bind (run AUDIT_COMPLIANCE (compliance_retention_days cfg)) (\<lambda>e.
        ret (a + b + c + e))))))"

subsection \<open>Metadata checks\<close>

text \<open>Whether a forbidden key occurs anywhere in a value, by recursion on the value.\<close>

fun mentions_forbidden_key :: "json \<Rightarrow> bool"
  and mentions_forbidden_key_list :: "json list \<Rightarrow> bool"
  and mentions_forbidden_key_obj :: "(string \<times> json) list \<Rightarrow> bool" where
  "mentions_forbidden_key (JObj kvs) = mentions_forbidden_key_obj kvs"
| "mentions_forbidden_key (JList xs) = mentions_forbidden_key_list xs"
| "mentions_forbidden_key _ = False"
| "mentions_forbidden_key_list [] = False"
| "mentions_forbidden_key_list (x # xs) =
     (mentions_forbidden_key x \<or> mentions_forbidden_key_list xs)"
| "mentions_forbidden_key_obj [] = False"
| "mentions_forbidden_key_obj ((k, v) # kvs) =
     (forbidden_key k \<or> mentions_forbidden_key v \<or> mentions_forbidden_key_obj kvs)"

lemma mentions_list_ex: "mentions_forbidden_key_list xs = list_ex mentions_forbidden_key xs"
  by (induction xs) auto

lemma mentions_obj_ex:
  "mentions_forbidden_key_obj kvs =
     (list_ex (\<lambda>kv. forbidden_key (fst kv)) kvs \<or> list_ex mentions_forbidden_key (map snd kvs))"
  by (induction kvs) (auto simp: list_ex_iff)

lemma visits_forbidden_key_iff:
  "visits_forbidden_key stack \<longleftrightarrow> list_ex mentions_forbidden_key stack"
  by (induction stack rule: visits_forbidden_key.induct)
     (auto simp: mentions_list_ex mentions_obj_ex list_ex_iff)

lemma validate_metadata_json_Inr:
  "validate_metadata_json m = Inr m' \<Longrightarrow> m' = m"
  by (auto simp: validate_metadata_json_def split: option.splits if_splits)

lemma validate_metadata_json_safe:
  "validate_metadata_json (Some m) = Inr m' \<Longrightarrow>
     \<not> mentions_forbidden_key m \<and> utf8_length (json_dumps m) \<le> 8192"
  by (auto simp: validate_metadata_json_def visits_forbidden_key_iff split: option.splits if_splits)

subsection \<open>Metadata that is always accepted\<close>

text \<open>The services build flat objects of strings; one is accepted unless it is very long.\<close>

lemma utf8_length_append [simp]: "utf8_length (xs @ ys) = utf8_length xs + utf8_length ys"
  by (simp add: utf8_length_def)

lemma utf8_length_Nil [simp]: "utf8_length [] = 0"
  by (simp add: utf8_length_def)

lemma utf8_length_Cons [simp]:
  "utf8_length (c # cs) = (if (of_char c :: nat) < 128 then 1 else 2) + utf8_length cs"
  by (simp add: utf8_length_def)

lemma hex_digit_ascii: "0 \<le> n \<Longrightarrow> n < 16 \<Longrightarrow> (of_char (hex_digit n) :: nat) < 128"
proof -
  assume "0 \<le> n" "n < 16"
  then have "(of_char (hex_digit n) :: int) < 128" by (simp add: hex_digit_def)
  then show ?thesis
    by (metis int_ops(3) of_nat_less_iff of_nat_of_char)
qed

lemma utf8_length_escape_char: "utf8_length (escape_char c) \<le> 6"
  by (auto simp: escape_char_def utf8_length_def Let_def hex_digit_ascii)

lemma utf8_length_json_string: "utf8_length (json_string s) \<le> 2 + 6 * length s"
proof -
  have "utf8_length (concat (map escape_char s)) \<le> 6 * length s"
  proof (induction s)
    case (Cons c s)
    with utf8_length_escape_char [of c] show ?case by simp
  qed simp
  then show ?thesis by (simp add: json_string_def utf8_length_def)
qed

fun flat_value :: "json \<Rightarrow> bool" where
  "flat_value (JStr _) = True" | "flat_value (JBool _) = True" | "flat_value _ = False"

fun flat_size :: "json \<Rightarrow> nat" where
  "flat_size (JStr s) = length s" | "flat_size _ = 1"

definition flat_metadata :: "(string \<times> json) list \<Rightarrow> bool" where
  "flat_metadata kvs \<longleftrightarrow>
     list_all (\<lambda>(k, v). \<not> forbidden_key k \<and> flat_value v) kvs \<and>
     sum_list (map (\<lambda>(k, v). 10 + 6 * length k + 6 * flat_size v) kvs) \<le> 8000"

lemma flat_depth: "list_all (\<lambda>(k, v). flat_value v) kvs \<Longrightarrow> json_depth_obj kvs = Some 0"
proof (induction kvs)
  case (Cons kv kvs)
  then show ?case by (cases kv; cases "snd kv") (auto simp: max_opt_def)
qed simp

lemma flat_visits:
  "list_all (\<lambda>(k, v). \<not> forbidden_key k \<and> flat_value v) kvs \<Longrightarrow> \<not> mentions_forbidden_key_obj kvs"
proof (induction kvs)
  case (Cons kv kvs)
  then show ?case by (cases kv; cases "snd kv") auto
qed simp

lemma flat_length_value: "flat_value v \<Longrightarrow> utf8_length (json_dumps v) \<le> 2 + 6 * flat_size v"
  using utf8_length_json_string by (cases v) (auto simp: utf8_length_def)

lemma flat_length:
  "list_all (\<lambda>(k, v). flat_value v) kvs \<Longrightarrow>
     utf8_length (json_dumps_obj kvs) \<le> sum_list (map (\<lambda>(k, v). 10 + 6 * length k + 6 * flat_size v) kvs)"
proof (induction kvs)
  case (Cons kv kvs)
  then obtain k v where kv: "kv = (k, v)" and v: "flat_value v" by (cases kv) auto
  with Cons kv flat_length_value [OF v] utf8_length_json_string [of k] show ?case
    by auto
qed simp

lemma validate_flat_metadata:
  assumes "flat_metadata kvs"
  shows "validate_metadata_json (Some (JObj kvs)) = Inr (Some (JObj kvs))"
proof -
  have all: "list_all (\<lambda>(k, v). \<not> forbidden_key k \<and> flat_value v) kvs"
    and size: "sum_list (map (\<lambda>(k, v). 10 + 6 * length k + 6 * flat_size v) kvs) \<le> 8000"
    using assms by (simp_all add: flat_metadata_def)
  then have vals: "list_all (\<lambda>(k, v). flat_value v) kvs"
    by (auto simp: list_all_iff)
  have "utf8_length (json_dumps (JObj kvs)) = 2 + utf8_length (json_dumps_obj kvs)"
    by (simp add: utf8_length_def)
  with flat_length [OF vals] size have "utf8_length (json_dumps (JObj kvs)) \<le> 8192" by simp
  moreover have "\<not> visits_forbidden_key [JObj kvs]"
    using flat_visits [OF all] by (simp add: visits_forbidden_key_iff del: visits_forbidden_key.simps)
  ultimately show ?thesis
    using flat_depth [OF vals]
    by (simp add: validate_metadata_json_def del: visits_forbidden_key.simps json_dumps.simps)
qed

subsection \<open>Recording\<close>

text \<open>What an event says, apart from its identifier and time.\<close>

definition says ::
  "audit_event \<Rightarrow> audit_context \<Rightarrow> audit_category \<Rightarrow> audit_action \<Rightarrow> audit_target_type \<Rightarrow>
   uuid option \<Rightarrow> string option \<Rightarrow> json option \<Rightarrow> bool" where
  "says e ctx category action ttype tid reason metadata =
     (aud_actor_user_id e = ctx_actor_user_id ctx \<and> aud_category e = category \<and>
      aud_action e = action \<and> aud_target_type e = ttype \<and> aud_target_id e = tid \<and>
      aud_reason e = reason \<and> aud_metadata_json e = json_column metadata \<and> aud_legal_hold_until e = None)"

lemma record_event_run:
  assumes "record_event X ctx c a tt tid rs m w = (Inr e, w')"
  shows "says e ctx c a tt tid rs m"
    and "db w' = audit_events_update (\<lambda>rows. rows @ [e]) (db w)"
    and "integrity (db w')"
    and "in_tx w' = in_tx w" and "redis w' = redis w"
    and "clock w' = clock w" and "uuid_source w' = uuid_source w"
    and "token_source w' = token_source w" and "token_pos w' = token_pos w"
  using assms
  by (auto simp: record_event_def audit_create_def run_rules Let_def says_def
      split: sum.splits dest: validate_metadata_json_Inr)

lemma record_event_stored:
  assumes "record_event X ctx c a tt tid rs m w = (Inr e, w')"
  shows "aud_ip_address e = minimise_ip_address (hmac_sha256_hex X) (ctx_ip_address ctx)
           (ctx_network_identifier_secret ctx)"
    and "aud_user_agent e = normalise_user_agent (ctx_user_agent ctx)"
    and "m = Some v \<Longrightarrow> \<not> mentions_forbidden_key v"
  using assms
  by (auto simp: record_event_def audit_create_def run_rules Let_def split: sum.splits
      dest: validate_metadata_json_safe)

text \<open>Recording succeeds when the metadata is accepted, the actor exists and the identifier is new.\<close>

lemma record_event_succeeds:
  assumes "integrity (db w)" and "validate_metadata_json m = Inr m"
    and "fk_user (db w) (ctx_actor_user_id ctx)"
    and "uuid_source w (uuid_pos w) \<notin> set (map aud_id (audit_events (db w)))"
  shows "\<exists>e w'. record_event X ctx c a tt tid rs m w = (Inr e, w')"
  using assms
  by (auto simp: record_event_def audit_create_def bind_def uuid4_def utcnow_def flush_def ret_def
      Let_def intro!: integrity_append_audit)

lemma keeps_record_event:
  assumes "\<And>f d. J (audit_events_update f d) = J d"
  shows "keeps J (record_event X ctx c a tt tid rs m)"
proof -
  have flush: "keeps J (flush (audit_events_update f))" for f
    by (rule keeps_flush) (simp add: assms)
  show ?thesis
    unfolding record_event_def audit_create_def Let_def
    by (cases "validate_metadata_json m") (auto intro!: maintains_rules flush)
qed

lemma keeps_integrity_record_event [maintains_rules]:
  "keeps integrity (record_event X ctx c a tt tid rs m)"
  unfolding record_event_def audit_create_def Let_def
  by (cases "validate_metadata_json m") (auto intro!: maintains_rules)

subsection \<open>Retention\<close>

abbreviation eligible :: "audit_category \<Rightarrow> int \<Rightarrow> int \<Rightarrow> db \<Rightarrow> audit_event list" where
  "eligible category before now d \<equiv> filter (anonymisable category before now) (audit_events d)"

text \<open>
  An event that is old enough and not under a legal hold. Because an emptied metadata column holds
  the JSON value \<open>null\<close>, the update does not take an event out of the selection.
\<close>

definition past_retention :: "audit_category \<Rightarrow> int \<Rightarrow> int \<Rightarrow> audit_event \<Rightarrow> bool" where
  "past_retention category before now e \<longleftrightarrow> aud_category e = category \<and> aud_created_at e < before \<and>
     (\<forall>t. aud_legal_hold_until e = Some t \<longrightarrow> t \<le> now)"

lemma anonymisable_past: "anonymisable c b n e \<Longrightarrow> past_retention c b n e"
  by (auto simp: anonymisable_def past_retention_def split: option.splits)

lemma past_anonymisable: "past_retention c b n e \<Longrightarrow> aud_metadata_json e \<noteq> None \<Longrightarrow> anonymisable c b n e"
  by (auto simp: anonymisable_def past_retention_def split: option.splits)

lemma past_mono: "past_retention c b n e \<Longrightarrow> b \<le> b' \<Longrightarrow> n \<le> n' \<Longrightarrow> past_retention c b' n' e"
  by (auto simp: past_retention_def) 

lemma past_anonymised [simp]: "past_retention c b n (anonymised e) = past_retention c b n e" "aud_metadata_json (anonymised e) \<noteq> None"
  by (simp_all add: past_retention_def anonymised_def)

lemma anonymised_fields [simp]:
  "aud_id (anonymised e) = aud_id e" "aud_category (anonymised e) = aud_category e"
  "aud_action (anonymised e) = aud_action e" "aud_target_type (anonymised e) = aud_target_type e"
  "aud_target_id (anonymised e) = aud_target_id e"
  "aud_legal_hold_until (anonymised e) = aud_legal_hold_until e"
  "aud_created_at (anonymised e) = aud_created_at e" "aud_actor_user_id (anonymised e) = None"
  by (simp_all add: anonymised_def)

lemma integrity_anonymise:
  "integrity d \<Longrightarrow> integrity (audit_events_update (update_where p anonymised) d)"
  by (auto simp: integrity_def audit_ok_def map_update_where_same list_all_iff set_update_where)

lemma length_filter_by_keys:
  assumes keys: "distinct (map key rows)"
    and ys: "distinct ys" "set ys \<subseteq> set rows" "\<And>y. y \<in> set ys \<Longrightarrow> p y"
  shows "length (filter (\<lambda>e. key e \<in> key ` set ys \<and> p e) rows) = length ys"
proof -
  have "e \<in> set ys" if "e \<in> set rows" "key e \<in> key ` set ys" for e
    using that ys(2) distinct_key_eq [OF keys] by (metis imageE subsetD)
  then have "set (filter (\<lambda>e. key e \<in> key ` set ys \<and> p e) rows) = set ys"
    using ys by auto
  moreover have "distinct (filter (\<lambda>e. key e \<in> key ` set ys \<and> p e) rows)"
    using keys by (simp add: distinct_map)
  ultimately show ?thesis using ys(1) by (metis distinct_card)
qed

lemma batch_members:
  assumes "integrity d" and ids: "ids = anonymisation_batch c b n k d"
  shows "length (filter (\<lambda>e. List.member ids (aud_id e) \<and> anonymisable c b n e) (audit_events d)) =
    min k (length (eligible c b n d))"
proof -
  define sorted where "sorted = sort_key aud_created_at (sort_key aud_id (eligible c b n d))"
  have set_sorted: "set sorted = set (eligible c b n d)" by (simp add: sorted_def)
  have dk: "distinct (map aud_id (audit_events d))" by (rule integrityD [OF assms(1)])
  then have "distinct (audit_events d)" by (simp add: distinct_map)
  then have "distinct (take k sorted)" by (simp add: sorted_def)
  moreover have "set (take k sorted) \<subseteq> set (eligible c b n d)"
    using set_take_subset [of k sorted] by (simp only: set_sorted)
  ultimately have "length (filter (\<lambda>e. aud_id e \<in> aud_id ` set (take k sorted) \<and> anonymisable c b n e)
      (audit_events d)) = length (take k sorted)"
    by (intro length_filter_by_keys [OF dk]) auto
  moreover have "ids = map aud_id (take k sorted)"
    by (simp add: ids anonymisation_batch_def sorted_def)
  moreover have "length sorted = length (eligible c b n d)"
    by (simp add: sorted_def)
  ultimately show ?thesis by (simp add: min.commute)
qed

lemma anonymise_run:
  assumes "integrity (db w)" and "anonymise_events_older_than c b n k w = (r, w')"
  obtains ids where "ids = anonymisation_batch c b n k (db w)"
    and "r = Inr (min k (length (eligible c b n (db w))))"
    and "db w' = audit_events_update
      (update_where (\<lambda>e. List.member ids (aud_id e) \<and> anonymisable c b n e) anonymised) (db w)"
    and "integrity (db w')"
proof -
  let ?ids = "anonymisation_batch c b n k (db w)"
  let ?hit = "\<lambda>e. List.member ?ids (aud_id e) \<and> anonymisable c b n e"
  show ?thesis
  proof (cases "?ids = []")
    case True
    with assms(2) have "r = Inr 0" "w' = w"
      by (auto simp: anonymise_events_older_than_def bind_def query_run query_def gets_def ret_def)
    moreover have "min k (length (eligible c b n (db w))) = 0"
      using batch_members [OF assms(1) refl, of c b n k] True by simp
    ultimately show ?thesis using that [of ?ids] assms(1) True by (simp add: update_where_none)
  next
    case False
    with assms have "r = Inr (length (filter ?hit (audit_events (db w))))"
      and "w' = w\<lparr>db := audit_events_update (update_where ?hit anonymised) (db w)\<rparr>"
      by (auto simp: anonymise_events_older_than_def bind_def query_def gets_def ret_def
          flush_def Let_def integrity_anonymise)
    then show ?thesis
      using that [of ?ids] batch_members [OF assms(1) refl, of c b n k] assms(1)
      by (simp add: integrity_anonymise)
  qed
qed

end
