(* ===== verification/Organisations.thy ===== *)
theory Organisations
  imports Membership_Repository Audit_Log
begin

section \<open>Organisations: repository and service\<close>

text \<open>
  \<^verbatim>\<open>organisations/repositories/organisations.py\<close> and
  \<^verbatim>\<open>organisations/services/organisations.py\<close>. A business rate limiter is a program the
  caller passes; it is a parameter here, and what the properties need of it is that it leaves
  the database alone.
\<close>

subsection \<open>Repository\<close>

definition organisation_create :: "string \<Rightarrow> string \<Rightarrow> organisation app" where
  "organisation_create name slug =
     bind uuid4 (\<lambda>i. bind utcnow (\<lambda>c. bind utcnow (\<lambda>t.
       let r = \<lparr>org_id = i, org_name = name, org_slug = slug, org_deleted_at = None,
                org_status = ORG_ACTIVE, org_suspended_at = None, org_suspended_reason = None,
                org_created_at = c, org_updated_at = t\<rparr>
       in bind (flush (organisations_update (\<lambda>rows. rows @ [r]))) (\<lambda>_. ret r))))"

definition organisation_get_by_slug :: "string \<Rightarrow> organisation option app" where
  "organisation_get_by_slug slug =
     bind (query (\<lambda>d. filter (\<lambda>r. org_slug r = slug \<and> org_deleted_at r = None) (organisations d)))
       scalar_one_or_none"

definition organisation_get_by_id :: "uuid \<Rightarrow> bool \<Rightarrow> organisation option app" where
  "organisation_get_by_id oid include_deleted =
     bind (query (\<lambda>d. filter (\<lambda>r. org_id r = oid \<and> (include_deleted \<or> org_deleted_at r = None))
       (organisations d))) scalar_one_or_none"

definition organisation_list_conditions ::
  "bool \<Rightarrow> organisation_status option \<Rightarrow> string option \<Rightarrow> organisation \<Rightarrow> bool" where
  "organisation_list_conditions include_deleted status q r =
     ((include_deleted \<or> org_deleted_at r = None) \<and> eq_filter status org_status r \<and>
      text_filter q (\<lambda>p x. ilike (org_name x) p \<or> ilike (org_slug x) p) r)"

definition organisation_list_paginated ::
  "nat \<Rightarrow> nat \<Rightarrow> bool \<Rightarrow> organisation_status option \<Rightarrow> string option \<Rightarrow>
   (organisation list \<times> nat) app" where
  "organisation_list_paginated limit offset include_deleted status q =
     bind (query (\<lambda>d. filter (organisation_list_conditions include_deleted status q)
       (organisations d))) (\<lambda>rows.
     ret (page limit offset (newest_first org_created_at org_id rows), length rows))"

definition organisation_list_limited_paginated ::
  "nat \<Rightarrow> nat \<Rightarrow> organisation_status option \<Rightarrow> string option \<Rightarrow> (organisation list \<times> nat) app" where
  "organisation_list_limited_paginated limit offset status q =
     bind (query (\<lambda>d. filter (organisation_list_conditions False status q) (organisations d))) (\<lambda>rows.
     ret (page limit offset (newest_first org_created_at org_id rows), length rows))"

definition organisation_save ::
  "organisation \<Rightarrow> (organisation \<Rightarrow> organisation) \<Rightarrow> organisation app" where
  "organisation_save r f = bind utcnow (\<lambda>t.
     let g = (\<lambda>x. (f x)\<lparr>org_updated_at := t\<rparr>)
     in bind (flush (organisations_update (update_where (\<lambda>x. org_id x = org_id r) g)))
          (\<lambda>_. ret (g r)))"

definition organisation_changes ::
  "string option \<Rightarrow> string option \<Rightarrow> organisation \<Rightarrow> organisation" where
  "organisation_changes name slug x =
     (let x1 = (case name of None \<Rightarrow> x | Some n \<Rightarrow> x\<lparr>org_name := n\<rparr>)
      in (case slug of None \<Rightarrow> x1 | Some s \<Rightarrow> x1\<lparr>org_slug := s\<rparr>))"

definition organisation_update_details ::
  "organisation \<Rightarrow> string option \<Rightarrow> string option \<Rightarrow> organisation app" where
  "organisation_update_details r name slug = organisation_save r (organisation_changes name slug)"

definition organisation_set_status ::
  "organisation \<Rightarrow> organisation_status \<Rightarrow> int option \<Rightarrow> string option \<Rightarrow> organisation app" where
  "organisation_set_status r status at reason =
     organisation_save r (\<lambda>x. x\<lparr>org_status := status, org_suspended_at := at,
       org_suspended_reason := reason\<rparr>)"

definition organisation_soft_delete :: "organisation \<Rightarrow> organisation app" where
  "organisation_soft_delete r =
     bind utcnow (\<lambda>now. organisation_save r (\<lambda>x. x\<lparr>org_deleted_at := Some now\<rparr>))"

subsection \<open>Service\<close>

definition ensure_audit_actor_matches :: "uuid \<Rightarrow> audit_context \<Rightarrow> unit app" where
  "ensure_audit_actor_matches actor ctx =
     ensure (ctx_actor_user_id ctx = Some actor) (ValueError ''Audit actor does not match action actor'')"

definition run_business_rate_limiter :: "unit app option \<Rightarrow> unit app" where
  "run_business_rate_limiter limiter = (case limiter of None \<Rightarrow> ret () | Some m \<Rightarrow> m)"

definition normalize_name :: "string \<Rightarrow> app_error + string" where
  "normalize_name raw = (let n = strip raw in
     if n = [] then Inl (BadRequestError ''Organisation name cannot be blank'') else Inr n)"

definition slug_char :: "char \<Rightarrow> bool" where
  "slug_char c = (let n = (of_char c :: nat) in 97 \<le> n \<and> n \<le> 122 \<or> 48 \<le> n \<and> n \<le> 57 \<or> n = 45)"

definition slug_pattern_fullmatch :: "string \<Rightarrow> bool" where
  "slug_pattern_fullmatch s = (s \<noteq> [] \<and> list_all slug_char s)"

definition normalize_slug :: "string \<Rightarrow> app_error + string" where
  "normalize_slug raw = (let s = lower (strip raw) in
     if s = [] then Inl (BadRequestError ''Organisation slug cannot be blank'')
     else if \<not> slug_pattern_fullmatch s
       then Inl (BadRequestError ''Organisation slug may contain only lowercase letters, digits, and hyphens'')
     else Inr s)"

text \<open>A pure helper that may raise, called from a coroutine.\<close>

definition lift :: "app_error + 'a \<Rightarrow> 'a app" where
  "lift r = (case r of Inl e \<Rightarrow> raise e | Inr x \<Rightarrow> ret x)"

definition create_organisation_in_transaction :: "string \<Rightarrow> string \<Rightarrow> organisation app" where
  "create_organisation_in_transaction name slug =
     bind (lift (normalize_name name)) (\<lambda>n.
     bind (lift (normalize_slug slug)) (\<lambda>s.
     bind (organisation_get_by_slug s) (\<lambda>existing.
     bind (ensure (existing = None) (ConflictError ''Organisation slug already exists'')) (\<lambda>_.
     try_except (organisation_create n s) (\<lambda>e. e = IntegrityError)
       (\<lambda>_. raise (ConflictError ''Organisation slug already exists''))))))"

definition create_organisation :: "string \<Rightarrow> string \<Rightarrow> organisation app" where
  "create_organisation name slug =
     in_transaction_or_begin (create_organisation_in_transaction name slug)"

definition get_organisation :: "uuid \<Rightarrow> organisation app" where
  "get_organisation oid =
     bind (organisation_get_by_id oid False) (\<lambda>r.
       case r of None \<Rightarrow> raise (NotFoundError ''Organisation not found'') | Some x \<Rightarrow> ret x)"

text \<open>The second half of \<open>_update_organisation_details\<close>, once the new values are normalised.\<close>

definition apply_organisation_details ::
  "externals \<Rightarrow> audit_context \<Rightarrow> organisation \<Rightarrow> string option \<Rightarrow> string option \<Rightarrow>
   unit app option \<Rightarrow> organisation app" where
  "apply_organisation_details X ctx r nn ns limiter =
     (let name_changed = (case nn of None \<Rightarrow> False | Some n \<Rightarrow> n \<noteq> org_name r);
          slug_changed = (case ns of None \<Rightarrow> False | Some s \<Rightarrow> s \<noteq> org_slug r)
      in if \<not> name_changed \<and> \<not> slug_changed then ret r
        else
     bind (run_business_rate_limiter limiter) (\<lambda>_.
     bind (try_except (organisation_update_details r nn ns) (\<lambda>e. e = IntegrityError)
       (\<lambda>_. raise (ConflictError ''Organisation slug already exists''))) (\<lambda>updated.
     bind (record_event X ctx AUDIT_TENANT ORGANISATION_UPDATED TARGET_ORGANISATION
       (Some (org_id updated)) None
       (Some (JObj ([(''changed_fields'', JList
           ((if name_changed then [JStr ''name''] else []) @
            (if slug_changed then [JStr ''slug''] else [])))] @
         (if slug_changed
          then [(''old_slug'', JStr (org_slug r)), (''new_slug'', JStr (org_slug updated))]
          else []))))) (\<lambda>_.
     ret updated))))"

definition update_organisation_details_in_transaction ::
  "externals \<Rightarrow> uuid \<Rightarrow> uuid \<Rightarrow> audit_context \<Rightarrow> string option \<Rightarrow> string option \<Rightarrow>
   unit app option \<Rightarrow> organisation app" where
  "update_organisation_details_in_transaction X oid actor ctx name slug limiter =
     bind (get_organisation oid) (\<lambda>r.
     bind (get_user_by_id actor) (\<lambda>u.
     bind (ensure_user_active u) (\<lambda>_.
     bind (ensure_organisation_active r) (\<lambda>_.
     bind (get_membership actor oid) (\<lambda>m.
     bind (ensure (case m of None \<Rightarrow> False | Some x \<Rightarrow> mem_role x = OWNER \<or> mem_role x = ADMIN)
       (ForbiddenError ''You are not allowed to update organisation details'')) (\<lambda>_.
     bind (case name of None \<Rightarrow> ret None | Some n \<Rightarrow> bind (lift (normalize_name n)) (\<lambda>x. ret (Some x))) (\<lambda>nn.
     bind (case slug of None \<Rightarrow> ret None | Some s \<Rightarrow> bind (lift (normalize_slug s)) (\<lambda>x. ret (Some x))) (\<lambda>ns.
     apply_organisation_details X ctx r nn ns limiter))))))))"

definition update_organisation_details ::
  "externals \<Rightarrow> uuid \<Rightarrow> uuid \<Rightarrow> audit_context \<Rightarrow> string option \<Rightarrow> string option \<Rightarrow>
   unit app option \<Rightarrow> organisation app" where
  "update_organisation_details X oid actor ctx name slug limiter =
     bind (ensure_audit_actor_matches actor ctx) (\<lambda>_.
     in_transaction_or_begin
       (update_organisation_details_in_transaction X oid actor ctx name slug limiter))"

definition soft_delete_in_transaction ::
  "externals \<Rightarrow> uuid \<Rightarrow> uuid \<Rightarrow> audit_context \<Rightarrow> string option \<Rightarrow> unit app option \<Rightarrow>
   organisation app" where
  "soft_delete_in_transaction X oid actor ctx reason limiter =
     bind (get_organisation oid) (\<lambda>r.
     bind (get_user_by_id actor) (\<lambda>u.
     bind (ensure_user_active u) (\<lambda>_.
     bind (ensure_organisation_active r) (\<lambda>_.
     bind (get_membership actor oid) (\<lambda>m.
     bind (ensure (case m of None \<Rightarrow> False | Some x \<Rightarrow> mem_role x = OWNER)
       (ForbiddenError ''Only owner can delete organisation'')) (\<lambda>_.
     bind (count_active_owners oid) (\<lambda>n.
     bind (ensure (\<not> n < 1) (ConflictError ''Organisation must always have at least one owner'')) (\<lambda>_.
     bind (run_business_rate_limiter limiter) (\<lambda>_.
     bind (deactivate_organisation_memberships oid) (\<lambda>_.
     bind (organisation_soft_delete r) (\<lambda>deleted.
     bind (record_event X ctx AUDIT_TENANT ORGANISATION_DELETED TARGET_ORGANISATION
       (Some (org_id deleted)) reason
       (Some (JObj [(''slug'', JStr (org_slug r)), (''soft_delete'', JBool True)]))) (\<lambda>_.
     ret deleted))))))))))))"

definition soft_delete ::
  "externals \<Rightarrow> uuid \<Rightarrow> uuid \<Rightarrow> audit_context \<Rightarrow> string option \<Rightarrow> unit app option \<Rightarrow>
   organisation app" where
  "soft_delete X oid actor ctx reason limiter =
     bind (ensure_audit_actor_matches actor ctx) (\<lambda>_.
     in_transaction_or_begin (soft_delete_in_transaction X oid actor ctx reason limiter))"

lemma organisation_changes_fields [simp]:
  "org_id (organisation_changes n s r) = org_id r"
  "org_deleted_at (organisation_changes n s r) = org_deleted_at r"
  "org_status (organisation_changes n s r) = org_status r"
  by (simp_all add: organisation_changes_def Let_def split: option.splits)

subsection \<open>What the queries return\<close>

lemma organisation_get_by_id_eq:
  assumes "integrity (db w)"
  shows "organisation_get_by_id oid deleted w =
    (Inr (find (\<lambda>r. org_id r = oid \<and> (deleted \<or> org_deleted_at r = None)) (organisations (db w))), w)"
  unfolding organisation_get_by_id_def
  by (rule query_unique [where q = "\<lambda>r. deleted \<or> org_deleted_at r = None" and f = org_id and k = oid])
     (use integrityD(3) [OF assms] in \<open>auto simp: distinct_map inj_on_def\<close>)

lemma organisation_get_by_slug_eq:
  assumes "integrity (db w)"
  shows "organisation_get_by_slug s w =
    (Inr (find (\<lambda>r. org_slug r = s \<and> org_deleted_at r = None) (organisations (db w))), w)"
  unfolding organisation_get_by_slug_def
  by (rule query_unique [where q = live and f = org_slug and k = s])
     (use integrityD(4) [OF assms] in \<open>auto simp: live_def\<close>)

lemma get_organisation_run:
  assumes "integrity (db w)"
  shows "get_organisation oid w = (Inr r, w') \<longleftrightarrow>
    w' = w \<and> r \<in> set (organisations (db w)) \<and> org_id r = oid \<and> live r"
proof -
  have one: "find (\<lambda>x. org_id x = oid \<and> org_deleted_at x = None) (organisations (db w)) = Some r \<longleftrightarrow>
      r \<in> set (organisations (db w)) \<and> org_id r = oid \<and> live r"
    using find_by_unique_key [OF integrityD(3) [OF assms],
        of "\<lambda>x. org_id x = oid \<and> org_deleted_at x = None" oid r]
    by (simp add: live_def)
  have "get_organisation oid w = (Inr r, w') \<longleftrightarrow> w' = w \<and>
      find (\<lambda>x. org_id x = oid \<and> org_deleted_at x = None) (organisations (db w)) = Some r"
    by (auto simp: get_organisation_def bind_def organisation_get_by_id_eq [OF assms] raise_def ret_def
        split: option.splits)
  then show ?thesis by (simp only: one)
qed

lemma get_organisation_error:
  assumes "integrity (db w)" and "get_organisation oid w = (Inl e, w')"
  shows "w' = w \<and> e = NotFoundError ''Organisation not found'' \<and>
    (\<forall>r\<in>set (organisations (db w)). org_id r = oid \<longrightarrow> \<not> live r)"
  using assms
  by (auto simp: get_organisation_def bind_def organisation_get_by_id_eq raise_def ret_def live_def
      find_None_iff split: option.splits)

lemma organisation_save_run [run_rules]:
  "organisation_save r f w = (Inr x, w') \<longleftrightarrow>
     (let t = clock w (clock_pos w); g = (\<lambda>x. (f x)\<lparr>org_updated_at := t\<rparr>);
          d = organisations_update (update_where (\<lambda>x. org_id x = org_id r) g) (db w)
      in integrity d \<and> x = g r \<and> w' = w\<lparr>clock_pos := Suc (clock_pos w), db := d\<rparr>)"
  by (auto simp: organisation_save_def run_rules Let_def)

lemma lift_run [run_rules]: "lift r w = (Inr x, w') \<longleftrightarrow> r = Inr x \<and> w' = w"
  by (auto simp: lift_def run_rules split: sum.splits)

lemma maintains_lift [maintains_rules]: "maintains I (lift r)"
  by (cases r) (simp_all add: lift_def maintains_rules)

definition limiter_ok :: "unit app option \<Rightarrow> bool" where
  "limiter_ok l \<longleftrightarrow> (\<forall>m. l = Some m \<longrightarrow> leaves_db m)"

lemma limiter_ok_None [simp]: "limiter_ok None"
  by (simp add: limiter_ok_def)

lemma leaves_db_limiter: "limiter_ok l \<Longrightarrow> leaves_db (run_business_rate_limiter l)"
  by (auto simp: run_business_rate_limiter_def limiter_ok_def leaves_db_def ret_def
      split: option.splits)

lemma limiter_run:
  "limiter_ok l \<Longrightarrow> run_business_rate_limiter l w = (r, w') \<Longrightarrow> db w' = db w \<and> in_tx w' = in_tx w"
  by (rule leaves_dbD [OF leaves_db_limiter])

subsection \<open>Names and slugs\<close>

lemma lower_slug_char: "slug_char c \<Longrightarrow> lower_char c = c"
  by (auto simp: slug_char_def lower_char_def Let_def)

lemma slug_not_space: "slug_char c \<Longrightarrow> \<not> is_space c"
  by (auto simp: slug_char_def is_space_def Let_def)

lemma strip_no_space: "list_all (\<lambda>c. \<not> is_space c) s \<Longrightarrow> strip s = s"
proof -
  assume s: "list_all (\<lambda>c. \<not> is_space c) s"
  have "lstrip t = t" if "set t \<subseteq> set s" for t
    using that s by (cases t) (auto simp: lstrip_def list_all_iff)
  then show ?thesis by (simp add: strip_def)
qed

lemma normalize_slug_ok:
  "normalize_slug raw = Inr s \<Longrightarrow> slug_pattern_fullmatch s \<and> normalize_slug s = Inr s"
proof -
  assume a: "normalize_slug raw = Inr s"
  then have pat: "slug_pattern_fullmatch s"
    by (auto simp: normalize_slug_def Let_def split: if_splits)
  then have "strip s = s"
    by (intro strip_no_space) (auto simp: slug_pattern_fullmatch_def list_all_iff dest: slug_not_space)
  moreover have "lower s = s"
    using pat by (auto simp: slug_pattern_fullmatch_def list_all_iff lower_def lower_slug_char
        intro: map_idI)
  ultimately show ?thesis
    using pat by (simp add: normalize_slug_def Let_def slug_pattern_fullmatch_def)
qed

end
