(* ===== verification/Request_Schemas.thy ===== *)
theory Request_Schemas
  imports Organisations
begin

section \<open>Request bodies\<close>

text \<open>
  The checks of \<^verbatim>\<open>organisations/schemas/organisations.py\<close>,
  \<^verbatim>\<open>memberships/schemas/memberships.py\<close>, \<^verbatim>\<open>audit/reasons.py\<close> and of the request
  bodies in \<^verbatim>\<open>invites/schemas/invites.py\<close>. A body is checked before its handler runs; a
  \<open>ValueError\<close> of a validator is FastAPI's response 422.

  The patterns of \<^verbatim>\<open>audit/reasons.py\<close> are regular expressions with look-around; \<open>ends r s i\<close>
  lists the positions at which a match of \<open>r\<close> that starts at \<open>i\<close> may end.
\<close>

subsection \<open>Organisations and memberships\<close>

text \<open>\<open>Field(min_length=lo, max_length=hi)\<close>.\<close>

definition field_length :: "nat \<Rightarrow> nat \<Rightarrow> string \<Rightarrow> app_error + string" where
  "field_length lo hi s = (if lo \<le> length s \<and> length s \<le> hi then Inr s else Inl (ValueError ''String length''))"

text \<open>A validator after another.\<close>

definition then_check :: "app_error + 'a \<Rightarrow> ('a \<Rightarrow> app_error + 'b) \<Rightarrow> app_error + 'b" where
  "then_check r f = (case r of Inl e \<Rightarrow> Inl e | Inr x \<Rightarrow> f x)"

text \<open>A validator of an optional field.\<close>

definition optional_check :: "('a \<Rightarrow> app_error + 'b) \<Rightarrow> 'a option \<Rightarrow> app_error + 'b option" where
  "optional_check f x = (case x of None \<Rightarrow> Inr None | Some y \<Rightarrow> then_check (f y) (\<lambda>z. Inr (Some z)))"

definition normalize_and_validate_slug :: "string \<Rightarrow> app_error + string" where
  "normalize_and_validate_slug value = (let slug = lower (strip value) in
     if slug = [] then Inl (ValueError ''Organisation slug cannot be blank'')
     else if \<not> slug_pattern_fullmatch slug
       then Inl (ValueError ''Slug must contain only lowercase letters, digits, and hyphens'')
     else Inr slug)"

definition validate_name :: "string \<Rightarrow> app_error + string" where
  "validate_name value = (let name = strip value in
     if name = [] then Inl (ValueError ''Organisation name cannot be blank'') else Inr name)"

definition create_organisation_request :: "string \<Rightarrow> string \<Rightarrow> app_error + (string \<times> string)" where
  "create_organisation_request name slug =
     then_check (then_check (field_length 1 255 name) validate_name) (\<lambda>n.
     then_check (then_check (field_length 1 255 slug) normalize_and_validate_slug) (\<lambda>s. Inr (n, s)))"

text \<open>\<open>UpdateOrganisationRequest\<close>, and \<open>PlatformOrganisationPatchRequest\<close> with the same checks.\<close>

definition update_organisation_request ::
  "string option \<Rightarrow> string option \<Rightarrow> app_error + (string option \<times> string option)" where
  "update_organisation_request name slug =
     then_check (optional_check (\<lambda>n. then_check (field_length 1 255 n) validate_name) name) (\<lambda>n.
     then_check (optional_check (\<lambda>s. then_check (field_length 1 255 s) normalize_and_validate_slug) slug) (\<lambda>s.
     if n = None \<and> s = None then Inl (ValueError ''At least one of 'name' or 'slug' must be provided'')
     else Inr (n, s)))"

text \<open>\<open>DeleteOrganisationRequest\<close> and \<open>RemoveMembershipRequest\<close>: a blank reason is no reason.\<close>

definition normalize_reason :: "string option \<Rightarrow> app_error + string option" where
  "normalize_reason value = (case value of
     None \<Rightarrow> Inr None
   | Some v \<Rightarrow> if 500 < length v then Inl (ValueError ''String length'')
               else if strip v = [] then Inr None else Inr (Some (strip v)))"

subsection \<open>Patterns\<close>

datatype pattern =
    Sym "char \<Rightarrow> bool"
  | Cat pattern pattern
  | Alt pattern pattern
  | Opt pattern
  | AtLeast nat "char \<Rightarrow> bool"
  | Boundary
  | NotAfter "char \<Rightarrow> bool"
  | NotBefore "char \<Rightarrow> bool"

definition is_alnum :: "char \<Rightarrow> bool" where
  "is_alnum c = (let n = (of_char c :: nat) in 48 \<le> n \<and> n \<le> 57 \<or> 65 \<le> n \<and> n \<le> 90 \<or> 97 \<le> n \<and> n \<le> 122)"

text \<open>\<open>\w\<close> for the code points below 256.\<close>

definition is_word :: "char \<Rightarrow> bool" where
  "is_word c = (let n = (of_char c :: nat) in is_alnum c \<or> n = 95 \<or> List.member [170, 178, 179, 181, 185, 186, 188, 189, 190] n \<or>
     192 \<le> n \<and> n \<noteq> 215 \<and> n \<noteq> 247)"

definition char_at :: "(char \<Rightarrow> bool) \<Rightarrow> string \<Rightarrow> nat \<Rightarrow> bool" where
  "char_at p s i = (i < length s \<and> p (s ! i))"

definition char_before :: "(char \<Rightarrow> bool) \<Rightarrow> string \<Rightarrow> nat \<Rightarrow> bool" where
  "char_before p s i = (0 < i \<and> char_at p s (i - 1))"

text \<open>The length of the longest run of characters of a class.\<close>

definition run_length :: "(char \<Rightarrow> bool) \<Rightarrow> string \<Rightarrow> nat \<Rightarrow> nat" where
  "run_length p s i = length (takeWhile p (drop i s))"

fun ends :: "pattern \<Rightarrow> string \<Rightarrow> nat \<Rightarrow> nat list" where
  "ends (Sym p) s i = (if char_at p s i then [Suc i] else [])"
| "ends (Cat a b) s i = concat (map (ends b s) (ends a s i))"
| "ends (Alt a b) s i = ends a s i @ ends b s i"
| "ends (Opt a) s i = ends a s i @ [i]"
| "ends (AtLeast n p) s i = map (\<lambda>k. i + k) (rev [n..<Suc (run_length p s i)])"
| "ends Boundary s i = (if char_before is_word s i \<noteq> char_at is_word s i then [i] else [])"
| "ends (NotAfter p) s i = (if char_before p s i then [] else [i])"
| "ends (NotBefore p) s i = (if char_at p s i then [] else [i])"

definition search :: "pattern \<Rightarrow> string \<Rightarrow> bool" where
  "search r s = list_ex (\<lambda>i. ends r s i \<noteq> []) [0..<Suc (length s)]"

text \<open>Case-insensitive text, alternatives and sequences of patterns.\<close>

definition same_letter :: "char \<Rightarrow> char \<Rightarrow> bool" where
  "same_letter c d = (lower_char c = lower_char d)"

fun word_pattern :: "string \<Rightarrow> pattern" where
  "word_pattern [] = NotAfter (\<lambda>_. False)"
| "word_pattern (c # cs) = Cat (Sym (same_letter c)) (word_pattern cs)"

fun any_of :: "pattern list \<Rightarrow> pattern" where
  "any_of [] = Sym (\<lambda>_. False)"
| "any_of (r # rs) = Alt r (any_of rs)"

fun cats :: "pattern list \<Rightarrow> pattern" where
  "cats [] = NotAfter (\<lambda>_. False)"
| "cats (r # rs) = Cat r (cats rs)"

definition one_of :: "string \<Rightarrow> char \<Rightarrow> bool" where
  "one_of cs c = List.member cs c"

definition sensitive_reason_patterns :: "pattern list" where
  "sensitive_reason_patterns =
    [cats [Boundary, any_of [word_pattern ''password'', word_pattern ''passwd'', word_pattern ''pwd'',
       word_pattern ''secret'', cats [word_pattern ''api'', Opt (Sym (one_of ''_-'')), word_pattern ''key''],
       cats [word_pattern ''access'', Opt (Sym (one_of ''_-'')), word_pattern ''token''],
       cats [word_pattern ''refresh'', Opt (Sym (one_of ''_-'')), word_pattern ''token''],
       word_pattern ''jwt''], Boundary],
     cats [Boundary, word_pattern ''bearer'', AtLeast 1 is_space,
       AtLeast 16 (\<lambda>c. is_alnum c \<or> one_of ''._~+/=-'' c), Boundary],
     cats [Boundary, any_of [
       cats [word_pattern ''special'', Opt (Sym (\<lambda>c. c = CHR ''-'' \<or> is_space c)), word_pattern ''category''],
       word_pattern ''protected characteristic'', word_pattern ''biometric'', word_pattern ''genetic'',
       word_pattern ''religion'', word_pattern ''religious belief'', word_pattern ''political opinion'',
       word_pattern ''trade union'', word_pattern ''sexual orientation'', word_pattern ''national identifier''], Boundary],
     cats [Boundary, AtLeast 1 (\<lambda>c. is_word c \<or> one_of ''.+-'' c), Sym (\<lambda>c. c = CHR ''@''),
       AtLeast 1 (\<lambda>c. is_word c \<or> one_of ''.-'' c), Sym (\<lambda>c. c = CHR ''.''),
       AtLeast 2 (\<lambda>c. is_alnum c \<and> \<not> one_of ''0123456789'' c), Boundary],
     cats [Boundary, any_of [cats [word_pattern ''postgres'', Opt (word_pattern ''ql'')], word_pattern ''mysql'',
       word_pattern ''redis'', word_pattern ''mongodb''], word_pattern ''://'', AtLeast 1 (\<lambda>c. \<not> is_space c)],
     cats [NotAfter is_alnum, AtLeast 32 (\<lambda>c. is_alnum c \<or> one_of ''_-'' c), NotBefore is_alnum]]"

definition contains_sensitive_reason_detail :: "string \<Rightarrow> bool" where
  "contains_sensitive_reason_detail value = list_ex (\<lambda>r. search r value) sensitive_reason_patterns"

subsection \<open>Reason codes\<close>

text \<open>\<open>OperationalReasonCode\<close>, the reasons a platform write on users and organisations may give.\<close>

datatype operational_reason_code =
    SECURITY_INCIDENT | COMPLIANCE_REVIEW | POLICY_VIOLATION | USER_REQUEST | ACCOUNT_COMPROMISE
  | BILLING_RISK | DATA_CORRECTION | DUPLICATE_OR_ERROR | OPERATIONAL_MAINTENANCE | OTHER

fun reason_code_value :: "operational_reason_code \<Rightarrow> string" where
  "reason_code_value SECURITY_INCIDENT = ''security_incident''"
| "reason_code_value COMPLIANCE_REVIEW = ''compliance_review''"
| "reason_code_value POLICY_VIOLATION = ''policy_violation''"
| "reason_code_value USER_REQUEST = ''user_request''"
| "reason_code_value ACCOUNT_COMPROMISE = ''account_compromise''"
| "reason_code_value BILLING_RISK = ''billing_risk''"
| "reason_code_value DATA_CORRECTION = ''data_correction''"
| "reason_code_value DUPLICATE_OR_ERROR = ''duplicate_or_error''"
| "reason_code_value OPERATIONAL_MAINTENANCE = ''operational_maintenance''"
| "reason_code_value OTHER = ''other''"

definition reason_codes :: "operational_reason_code list" where
  "reason_codes = [SECURITY_INCIDENT, COMPLIANCE_REVIEW, POLICY_VIOLATION, USER_REQUEST, ACCOUNT_COMPROMISE,
     BILLING_RISK, DATA_CORRECTION, DUPLICATE_OR_ERROR, OPERATIONAL_MAINTENANCE, OTHER]"

text \<open>\<open>OperationalReasonCode(text)\<close>; \<open>None\<close> is its \<open>ValueError\<close>.\<close>

definition reason_code_of :: "string \<Rightarrow> operational_reason_code option" where
  "reason_code_of s = find (\<lambda>c. reason_code_value c = s) reason_codes"

text \<open>The legacy \<open>reason\<close> of a body as a JSON value; \<open>JNull\<close> is its absence.\<close>

definition normalise_legacy_reason :: "json \<Rightarrow> bool \<Rightarrow> app_error + operational_reason_code option" where
  "normalise_legacy_reason value required =
     (let absent = (if required then Inl (ValueError ''reason_code is required'') else Inr None)
      in case value of
        JNull \<Rightarrow> absent
      | JStr s \<Rightarrow>
          (let normalised = strip s
           in if normalised = [] then absent
              else if 500 < length normalised then Inl (ValueError ''reason must be at most 500 characters'')
              else case reason_code_of normalised of
                Some code \<Rightarrow> Inr (Some code)
              | None \<Rightarrow>
                  if contains_sensitive_reason_detail normalised
                  then Inl (ValueError ''reason must not contain secrets, tokens, contact details, special-category personal data, or sensitive operational details'')
                  else Inl (ValueError ''legacy reason must use a structured reason code; free text is not accepted''))
      | _ \<Rightarrow> Inl (ValueError ''reason must be a string''))"

text \<open>\<open>data.get(key)\<close> and \<open>key in data\<close> of a body, an association list with unique keys.\<close>

definition normalise_legacy_reason_payload ::
  "(string \<times> json) list \<Rightarrow> bool \<Rightarrow> app_error + (string \<times> json) list" where
  "normalise_legacy_reason_payload data required =
     (case map_of data ''reason'' of
        None \<Rightarrow> Inr data
      | Some legacy \<Rightarrow>
          let updated = filter (\<lambda>kv. fst kv \<noteq> ''reason'') data
          in case map_of updated ''reason_code'' of
               Some code \<Rightarrow> if code \<noteq> JNull then Inr updated else
                 then_check (normalise_legacy_reason legacy required) (\<lambda>c.
                   Inr (map (\<lambda>kv. if fst kv = ''reason_code''
                     then (''reason_code'', case c of None \<Rightarrow> JNull | Some x \<Rightarrow> JStr (reason_code_value x)) else kv) updated))
             | None \<Rightarrow>
                 then_check (normalise_legacy_reason legacy required) (\<lambda>c.
                   Inr (updated @ [(''reason_code'', case c of None \<Rightarrow> JNull | Some x \<Rightarrow> JStr (reason_code_value x))])))"

text \<open>
  The body of a request that gives a reason code: only the known keys, and a code of the
  enumeration. \<open>RevokeInviteRequest\<close> has an optional code, the platform requests a required one.
\<close>

definition reason_request :: "bool \<Rightarrow> (string \<times> json) list \<Rightarrow> app_error + operational_reason_code option" where
  "reason_request required data =
     then_check (normalise_legacy_reason_payload data required) (\<lambda>body.
     if list_ex (\<lambda>kv. fst kv \<noteq> ''reason_code'') body then Inl (ValueError ''Extra inputs are not permitted'')
     else case map_of body ''reason_code'' of
       None \<Rightarrow> if required then Inl (ValueError ''Field required'') else Inr None
     | Some JNull \<Rightarrow> if required then Inl (ValueError ''Input should be a reason code'') else Inr None
     | Some (JStr s) \<Rightarrow> (case reason_code_of s of
           None \<Rightarrow> Inl (ValueError ''Input should be a reason code'')
         | Some c \<Rightarrow> Inr (Some c))
     | Some _ \<Rightarrow> Inl (ValueError ''Input should be a reason code''))"

subsection \<open>What the checks let through\<close>

lemma reason_code_of_value [simp]: "reason_code_of (reason_code_value c) = Some c"
  by (cases c) (simp_all add: reason_code_of_def reason_codes_def)

lemma reason_code_ofD: "reason_code_of s = Some c \<Longrightarrow> s = reason_code_value c"
  by (auto simp: reason_code_of_def dest: find_SomeD)

lemma then_check_Inr [simp]: "then_check r f = Inr y \<longleftrightarrow> (\<exists>x. r = Inr x \<and> f x = Inr y)"
  by (cases r) (simp_all add: then_check_def)

lemma update_organisation_request_Inr:
  assumes "update_organisation_request name slug = Inr (n, s)"
  shows "n \<noteq> None \<or> s \<noteq> None" "n = Some x \<Longrightarrow> strip x = x \<and> x \<noteq> []" "s = Some y \<Longrightarrow> slug_pattern_fullmatch y"
  using assms
  by (auto simp: update_organisation_request_def optional_check_def validate_name_def
      normalize_and_validate_slug_def Let_def split: option.splits if_splits)

text \<open>The service accepts what the schema returned, unchanged.\<close>

lemma schema_slug_accepted:
  assumes "normalize_and_validate_slug raw = Inr s"
  shows "normalize_slug s = Inr s"
proof -
  have "normalize_slug raw = Inr s" using assms
    by (auto simp: normalize_and_validate_slug_def normalize_slug_def Let_def split: if_splits)
  then show ?thesis by (simp add: normalize_slug_ok)
qed

lemma legacy_reason_is_code:
  assumes "normalise_legacy_reason value required = Inr (Some c)"
  obtains s where "value = JStr s" "strip s = reason_code_value c"
  using assms by (auto simp: normalise_legacy_reason_def Let_def split: json.splits if_splits option.splits
      dest!: reason_code_ofD)

lemma ends_forward: "j \<in> set (ends r s i) \<Longrightarrow> i \<le> j"
  by (induction r arbitrary: i j) (fastforce split: if_splits)+

lemma ends_bounded: "j \<in> set (ends r s i) \<Longrightarrow> i \<le> length s \<Longrightarrow> j \<le> length s"
proof (induction r arbitrary: i j)
  case (AtLeast n p)
  have "run_length p s i \<le> length s - i"
    unfolding run_length_def using length_takeWhile_le [of p "drop i s"] by simp
  with AtLeast show ?case by auto
qed (auto simp: char_at_def split: if_splits)

end
