(* ===== verification/Unit_Of_Work.thy ===== *)
theory Unit_Of_Work
  imports Data_Model
begin

section \<open>Changed rows of a session\<close>

text \<open>
  The part of SQLAlchemy's unit of work the privacy components use: rows are loaded, their
  attributes assigned, and a flush sends an \<open>UPDATE\<close> for every row whose values changed, with a
  new \<open>updated_at\<close> each (\<open>onupdate=utcnow\<close>). A row that was assigned its old values is not
  written. \<open>locked_rows\<close> is the order of \<open>ORDER BY created_at, id\<close>.
\<close>

definition replace_rows :: "('r \<Rightarrow> uuid) \<Rightarrow> 'r list \<Rightarrow> 'r list \<Rightarrow> 'r list" where
  "replace_rows key news rows =
     map (\<lambda>r. case find (\<lambda>n. key n = key r) news of None \<Rightarrow> r | Some n \<Rightarrow> n) rows"

definition stamp_rows :: "(int \<Rightarrow> 'r \<Rightarrow> 'r) \<Rightarrow> 'r list \<Rightarrow> 'r list app" where
  "stamp_rows stamp rows = map_each rows (\<lambda>r. bind utcnow (\<lambda>t. ret (stamp t r)))"

text \<open>
  \<open>save_rows upd key stamp f rows\<close>: the loaded \<open>rows\<close> were assigned as \<open>f\<close> says, then flushed.
\<close>

definition save_rows ::
  "(('r list \<Rightarrow> 'r list) \<Rightarrow> db \<Rightarrow> db) \<Rightarrow> ('r \<Rightarrow> uuid) \<Rightarrow> (int \<Rightarrow> 'r \<Rightarrow> 'r) \<Rightarrow> ('r \<Rightarrow> 'r) \<Rightarrow> 'r list \<Rightarrow> unit app" where
  "save_rows upd key stamp f rows =
     bind (stamp_rows stamp (map f (filter (\<lambda>r. f r \<noteq> r) rows))) (\<lambda>news.
     if news = [] then ret () else flush (upd (replace_rows key news)))"

definition oldest_first :: "('r \<Rightarrow> int) \<Rightarrow> ('r \<Rightarrow> uuid) \<Rightarrow> 'r list \<Rightarrow> 'r list" where
  "oldest_first created key rows = sort_key created (sort_key key rows)"

lemma set_oldest_first [simp]: "set (oldest_first c k rows) = set rows"
  by (simp add: oldest_first_def)

lemma distinct_oldest_first [simp]: "distinct (map key (oldest_first c k rows)) = distinct (map key rows)"
  by (simp add: oldest_first_def distinct_map)

subsection \<open>What a save leaves\<close>

text \<open>
  \<open>rows_changed stamp f p rows rows'\<close>: every row that satisfies \<open>p\<close> has been changed by \<open>f\<close> and
  stamped, unless \<open>f\<close> leaves it alone; the other rows are as before.
\<close>

definition row_changed :: "(int \<Rightarrow> 'r \<Rightarrow> 'r) \<Rightarrow> ('r \<Rightarrow> 'r) \<Rightarrow> ('r \<Rightarrow> bool) \<Rightarrow> 'r \<Rightarrow> 'r \<Rightarrow> bool" where
  "row_changed stamp f p r r' \<longleftrightarrow> (if p r \<and> f r \<noteq> r then \<exists>t. r' = stamp t (f r) else r' = r)"

definition rows_changed ::
  "(int \<Rightarrow> 'r \<Rightarrow> 'r) \<Rightarrow> ('r \<Rightarrow> 'r) \<Rightarrow> ('r \<Rightarrow> bool) \<Rightarrow> 'r list \<Rightarrow> 'r list \<Rightarrow> bool" where
  "rows_changed stamp f p rows rows' = list_all2 (row_changed stamp f p) rows rows'"

lemma rows_changed_refl: "(\<And>r. r \<in> set rows \<Longrightarrow> p r \<Longrightarrow> f r = r) \<Longrightarrow> rows_changed stamp f p rows rows"
  unfolding rows_changed_def by (rule list.rel_refl_strong) (auto simp: row_changed_def)

lemma list_all2_in_set2: "list_all2 R xs ys \<Longrightarrow> y \<in> set ys \<Longrightarrow> \<exists>x \<in> set xs. R x y"
  by (induction rule: list_all2_induct) auto

lemma rows_changed_member:
  assumes "rows_changed stamp f p rows rows'" "r' \<in> set rows'"
  obtains r where "r \<in> set rows" "row_changed stamp f p r r'"
  using assms unfolding rows_changed_def by (metis list_all2_in_set2)

lemma rows_changed_map:
  assumes "rows_changed stamp f p rows rows'" and "\<And>r t. g (stamp t r) = g r" and "\<And>r. p r \<Longrightarrow> g (f r) = g r"
  shows "map g rows' = map g rows"
  using assms(1) unfolding rows_changed_def
  by (induction rule: list_all2_induct) (auto simp: row_changed_def assms(2,3) split: if_splits)

lemma stamp_rows_run:
  assumes "stamp_rows stamp rows w = (r, w')"
  obtains news n where "r = Inr news" "list_all2 (\<lambda>x y. \<exists>t. y = stamp t x) rows news" "w' = w\<lparr>clock_pos := n\<rparr>"
proof -
  have "\<exists>news n. stamp_rows stamp rows w = (Inr news, w\<lparr>clock_pos := n\<rparr>) \<and>
      list_all2 (\<lambda>x y. \<exists>t. y = stamp t x) rows news" for w
  proof (induction rows arbitrary: w)
    case Nil
    show ?case by (auto simp: stamp_rows_def ret_def intro: exI [of _ "clock_pos w"])
  next
    case (Cons x xs)
    from Cons [of "w\<lparr>clock_pos := Suc (clock_pos w)\<rparr>"] show ?case
      by (auto simp: stamp_rows_def bind_def ret_def utcnow_def)
  qed
  with that assms show ?thesis by (metis prod.inject)
qed

lemma find_stamped:
  assumes "list_all2 (\<lambda>x y. \<exists>t. y = stamp t x) xs ys" and "\<And>x t. key (stamp t x) = key x"
    and "distinct (map key xs)" and "x \<in> set xs"
  shows "\<exists>t. find (\<lambda>n. key n = key x) ys = Some (stamp t x)"
  using assms
proof (induction xs ys rule: list_all2_induct)
  case (Cons a as b bs)
  then show ?case by (cases "x = a") (force simp: image_iff)+
qed simp

lemma find_not_stamped:
  assumes "list_all2 (\<lambda>x y. \<exists>t. y = stamp t x) xs ys" and "\<And>x t. key (stamp t x) = key x"
    and "k \<notin> key ` set xs"
  shows "find (\<lambda>n. key n = k) ys = None"
  using assms by (induction xs ys rule: list_all2_induct) auto

lemma replace_rows_changed:
  assumes keys: "distinct (map key tab)" and loaded: "set rows = {r \<in> set tab. p r}" and rk: "distinct (map key rows)"
    and f: "\<And>r. key (f r) = key r" and stamp: "\<And>x t. key (stamp t x) = key x"
    and news: "list_all2 (\<lambda>x y. \<exists>t. y = stamp t x) (map f (filter (\<lambda>r. f r \<noteq> r) rows)) news"
  shows "rows_changed stamp f p tab (replace_rows key news tab)"
  unfolding rows_changed_def replace_rows_def list_all2_map2
proof (rule list.rel_refl_strong)
  fix r assume r: "r \<in> set tab"
  let ?ch = "map f (filter (\<lambda>r. f r \<noteq> r) rows)"
  have dk: "distinct (map key ?ch)"
    using rk f by (simp add: comp_def distinct_map_filter)
  show "row_changed stamp f p r (case find (\<lambda>n. key n = key r) news of None \<Rightarrow> r | Some n \<Rightarrow> n)"
  proof (cases "p r \<and> f r \<noteq> r")
    case True
    then have "f r \<in> set ?ch" using r loaded by auto
    from find_stamped [OF news stamp dk this] True f show ?thesis by (auto simp: row_changed_def)
  next
    case False
    have "key r \<notin> key ` set ?ch"
    proof
      assume "key r \<in> key ` set ?ch"
      then obtain x where x: "x \<in> set rows" "f x \<noteq> x" "key r = key x" using f by auto
      with loaded r keys have "x = r" by (metis (mono_tags, lifting) distinct_key_eq mem_Collect_eq)
      with x False loaded show False by auto
    qed
    from find_not_stamped [OF news stamp this] False show ?thesis by (auto simp: row_changed_def)
  qed
qed

text \<open>
  A table whose rows a session loads, changes and flushes. The rows \<open>p\<close> selects were loaded in
  some order (\<open>rows_loaded\<close>), and \<open>f\<close> keeps their keys.
\<close>

locale stamped_table = table +
  fixes stamp :: "int \<Rightarrow> 'a \<Rightarrow> 'a"
  assumes key_stamp: "key (stamp t r) = key r"
begin

lemma save_rows_run:
  assumes run: "save_rows put key stamp f loaded w = (Inr u, w')" and I: "integrity (db w)"
    and loaded: "set loaded = {r \<in> set (rows (db w)). p r}" "distinct (map key loaded)" and f: "\<And>r. key (f r) = key r"
  shows "\<exists>rs n. w' = w\<lparr>clock_pos := n, db := put (\<lambda>_. rs) (db w)\<rparr> \<and> integrity (db w') \<and>
    rows_changed stamp f p (rows (db w)) rs"
proof -
  let ?ch = "map f (filter (\<lambda>r. f r \<noteq> r) loaded)"
  from run obtain news w1 where s: "stamp_rows stamp ?ch w = (Inr news, w1)"
    and k: "(if news = [] then ret () else flush (put (replace_rows key news))) w1 = (Inr u, w')"
    unfolding save_rows_def bind_Inr by blast
  from s obtain n where n: "list_all2 (\<lambda>x y. \<exists>t. y = stamp t x) ?ch news" "w1 = w\<lparr>clock_pos := n\<rparr>"
    by (rule stamp_rows_run) auto
  show ?thesis
  proof (cases "news = []")
    case True
    with n(1) have "f r = r" if "r \<in> set (rows (db w))" "p r" for r
      using that loaded(1) by (auto simp: filter_empty_conv)
    then have "rows_changed stamp f p (rows (db w)) (rows (db w))" by (rule rows_changed_refl)
    moreover have "put (\<lambda>_. rows (db w)) (db w) = db w"
      using put_put [of "\<lambda>_. rows (db w)" "\<lambda>r. r" "db w"] put_rows by simp
    ultimately show ?thesis using True k n(2) I by (intro exI [of _ "rows (db w)"] exI [of _ n]) (auto simp: ret_def)
  next
    case False
    have "rows_changed stamp f p (rows (db w)) (replace_rows key news (rows (db w)))"
      by (rule replace_rows_changed [OF key_unique [OF I] loaded f key_stamp n(1)])
    moreover have "put (replace_rows key news) (db w) = put (\<lambda>_. replace_rows key news (rows (db w))) (db w)"
      by (rule put_const)
    ultimately show ?thesis using False k n(2)
      by (intro exI [of _ "replace_rows key news (rows (db w))"] exI [of _ n]) (auto simp: flush_run)
  qed
qed

end

interpretation saved_user: stamped_table users users_update usr_id "\<lambda>t r. r\<lparr>usr_updated_at := t\<rparr>"
  by unfold_locales simp

interpretation saved_staff: stamped_table staff_rows staff_rows_update stf_id "\<lambda>t r. r\<lparr>stf_updated_at := t\<rparr>"
  by unfold_locales simp

interpretation saved_invite: stamped_table invites invites_update inv_id "\<lambda>t r. r\<lparr>inv_updated_at := t\<rparr>"
  by unfold_locales simp

interpretation saved_outbox: stamped_table outbox_events outbox_events_update obx_id "\<lambda>t r. r\<lparr>obx_updated_at := t\<rparr>"
  by unfold_locales simp

interpretation saved_dsr: stamped_table "\<lambda>d. requests (privacy d)" requests_table dsr_id "\<lambda>t r. r\<lparr>dsr_updated_at := t\<rparr>"
  by unfold_locales simp

interpretation saved_artifact: stamped_table "\<lambda>d. artifacts (privacy d)" artifacts_table art_id "\<lambda>t r. r\<lparr>art_updated_at := t\<rparr>"
  by unfold_locales simp

interpretation saved_authorization: stamped_table "\<lambda>d. authorizations (privacy d)" authorizations_table pau_id "\<lambda>t r. r\<lparr>pau_updated_at := t\<rparr>"
  by unfold_locales simp

interpretation saved_notice: stamped_table "\<lambda>d. notices (privacy d)" notices_table pna_id "\<lambda>t r. r\<lparr>pna_updated_at := t\<rparr>"
  by unfold_locales simp

text \<open>An audit event has no time of its last change.\<close>

interpretation saved_audit: stamped_table audit_events audit_events_update aud_id "\<lambda>t r. r"
  by unfold_locales simp

end
