(* ===== verification/Data_Subject_Requests.thy ===== *)
theory Data_Subject_Requests
  imports Request_Schemas Users Audit_Log Unit_Of_Work
begin

section \<open>Data-subject requests\<close>

text \<open>
  \<^verbatim>\<open>privacy/repositories/data_subject_requests.py\<close> and
  \<^verbatim>\<open>privacy/services/data_subject_requests.py\<close>: submission with idempotency keys, the
  review workflow as a state machine whose transitions are compare-and-set updates, the review of a
  representative's authority, and fulfilment. The execution of an erasure is in \<open>Erasure\<close>.
\<close>

subsection \<open>Repository\<close>

abbreviation requests_of :: "db \<Rightarrow> data_subject_request list" where
  "requests_of d \<equiv> requests (privacy d)"

text \<open>The defaults of the columns are the identifier and the two times.\<close>

definition dsr_create :: "(uuid \<Rightarrow> int \<Rightarrow> int \<Rightarrow> data_subject_request) \<Rightarrow> data_subject_request app" where
  "dsr_create row =
     bind uuid4 (\<lambda>i. bind utcnow (\<lambda>c. bind utcnow (\<lambda>t.
       let r = row i c t
       in bind (flush (requests_table (\<lambda>rows. rows @ [r]))) (\<lambda>_. ret r))))"

definition dsr_get_by_id :: "uuid \<Rightarrow> data_subject_request option app" where
  "dsr_get_by_id i =
     bind (query (\<lambda>d. filter (\<lambda>r. dsr_id r = i) (requests_of d))) scalar_one_or_none"

definition dsr_get_by_id_for_requester :: "uuid \<Rightarrow> uuid \<Rightarrow> data_subject_request option app" where
  "dsr_get_by_id_for_requester i u =
     bind (query (\<lambda>d. filter (\<lambda>r. dsr_id r = i \<and> dsr_requester r = Some u) (requests_of d))) scalar_one_or_none"

definition dsr_get_by_id_for_subject :: "uuid \<Rightarrow> uuid \<Rightarrow> data_subject_request option app" where
  "dsr_get_by_id_for_subject i u =
     bind (query (\<lambda>d. filter (\<lambda>r. dsr_id r = i \<and> dsr_subject r = Some u) (requests_of d))) scalar_one_or_none"

definition lock_requester_for_idempotency :: "uuid \<Rightarrow> unit app" where
  "lock_requester_for_idempotency u =
     bind (query (\<lambda>d. filter (\<lambda>x. usr_id x = u) (users d))) (\<lambda>_. ret ())"

text \<open>\<open>ORDER BY created_at DESC\<close>.\<close>

definition latest_first :: "('r \<Rightarrow> int) \<Rightarrow> 'r list \<Rightarrow> 'r list" where
  "latest_first created rows = sort_key (\<lambda>r. - created r) rows"

definition key_in_use :: "uuid \<Rightarrow> string \<Rightarrow> int \<Rightarrow> data_subject_request \<Rightarrow> bool" where
  "key_in_use u h now r = (dsr_requester r = Some u \<and> dsr_idempotency_key_hash r = Some h \<and>
     (case dsr_idempotency_expires_at r of None \<Rightarrow> False | Some t \<Rightarrow> now < t))"

definition get_non_expired_by_idempotency_key_hash ::
  "uuid \<Rightarrow> string \<Rightarrow> int \<Rightarrow> data_subject_request option app" where
  "get_non_expired_by_idempotency_key_hash u h now =
     bind (query (\<lambda>d. take 1 (latest_first dsr_created_at (filter (key_in_use u h now) (requests_of d)))))
       scalar_one_or_none"

text \<open>\<open>update(DataSubjectRequest).where(p).values(f).returning(...)\<close>.\<close>

definition dsr_update_returning ::
  "(data_subject_request \<Rightarrow> bool) \<Rightarrow> (data_subject_request \<Rightarrow> data_subject_request) \<Rightarrow>
   data_subject_request option app" where
  "dsr_update_returning p f = bind utcnow (\<lambda>t.
     let g = (\<lambda>r. (f r)\<lparr>dsr_updated_at := t\<rparr>)
     in bind (query (\<lambda>d. filter p (requests_of d))) (\<lambda>rows.
        bind (flush (requests_table (update_where p g))) (\<lambda>_.
        scalar_one_or_none (map g rows))))"

definition approval_representative_statuses :: "dsr_representative_status list" where
  "approval_representative_statuses = [REP_NOT_REQUIRED, REP_VERIFIED]"

definition transition_status_if_current ::
  "uuid \<Rightarrow> dsr_status \<Rightarrow> dsr_status \<Rightarrow> (data_subject_request \<Rightarrow> data_subject_request) \<Rightarrow>
   data_subject_request option app" where
  "transition_status_if_current i expected next values =
     dsr_update_returning (\<lambda>r. dsr_id r = i \<and> dsr_status r = expected \<and>
       (next = DSR_APPROVED \<longrightarrow> List.member approval_representative_statuses (dsr_representative_status r))) values"

definition update_representative_authority_if_current ::
  "uuid \<Rightarrow> dsr_status \<Rightarrow> dsr_representative_status \<Rightarrow> (data_subject_request \<Rightarrow> data_subject_request) \<Rightarrow>
   data_subject_request option app" where
  "update_representative_authority_if_current i expected rep values =
     dsr_update_returning (\<lambda>r. dsr_id r = i \<and> dsr_status r = expected \<and> dsr_representative_status r = rep) values"

text \<open>The attributes of a loaded request were assigned as \<open>f\<close> says; nothing is sent when none changed.\<close>

definition dsr_save ::
  "data_subject_request \<Rightarrow> (data_subject_request \<Rightarrow> data_subject_request) \<Rightarrow> data_subject_request app" where
  "dsr_save r f = (if f r = r then ret r else bind utcnow (\<lambda>t.
     let g = (\<lambda>x. (f x)\<lparr>dsr_updated_at := t\<rparr>)
     in bind (flush (requests_table (update_where (\<lambda>x. dsr_id x = dsr_id r) g))) (\<lambda>_. ret (g r))))"

definition dsr_own_conditions ::
  "uuid \<Rightarrow> dsr_status option \<Rightarrow> dsr_type option \<Rightarrow> data_subject_request \<Rightarrow> bool" where
  "dsr_own_conditions u status type r =
     (dsr_requester r = Some u \<and> eq_filter status dsr_status r \<and> eq_filter type dsr_request_type r)"

definition dsr_list_for_requester ::
  "uuid \<Rightarrow> nat \<Rightarrow> nat \<Rightarrow> dsr_status option \<Rightarrow> dsr_type option \<Rightarrow> data_subject_request list app" where
  "dsr_list_for_requester u limit offset status type =
     query (\<lambda>d. page limit offset (latest_first dsr_created_at (filter (dsr_own_conditions u status type) (requests_of d))))"

definition dsr_count_for_requester :: "uuid \<Rightarrow> dsr_status option \<Rightarrow> dsr_type option \<Rightarrow> nat app" where
  "dsr_count_for_requester u status type =
     query (\<lambda>d. length (filter (dsr_own_conditions u status type) (requests_of d)))"

record dsr_filters =
  flt_status :: "dsr_status option"
  flt_type :: "dsr_type option"
  flt_subject :: "uuid option"
  flt_requester :: "uuid option"
  flt_due_before :: "int option"
  flt_due_after :: "int option"
  flt_representative :: "dsr_representative_status option"

definition dsr_platform_conditions :: "dsr_filters \<Rightarrow> data_subject_request \<Rightarrow> bool" where
  "dsr_platform_conditions f r =
     (eq_filter (flt_status f) dsr_status r \<and> eq_filter (flt_type f) dsr_request_type r \<and>
      (flt_subject f = None \<or> dsr_subject r = flt_subject f) \<and>
      (flt_requester f = None \<or> dsr_requester r = flt_requester f) \<and>
      eq_filter (flt_representative f) dsr_representative_status r \<and>
      (case flt_due_before f of None \<Rightarrow> True | Some t \<Rightarrow> dsr_due_at r \<le> t) \<and>
      (case flt_due_after f of None \<Rightarrow> True | Some t \<Rightarrow> t \<le> dsr_due_at r))"

definition dsr_list_for_platform :: "nat \<Rightarrow> nat \<Rightarrow> dsr_filters \<Rightarrow> data_subject_request list app" where
  "dsr_list_for_platform limit offset f =
     query (\<lambda>d. page limit offset (latest_first dsr_created_at (filter (dsr_platform_conditions f) (requests_of d))))"

definition dsr_count_for_platform :: "dsr_filters \<Rightarrow> nat app" where
  "dsr_count_for_platform f = query (\<lambda>d. length (filter (dsr_platform_conditions f) (requests_of d)))"

end
