(* ===== verification/Outbox_Store.thy ===== *)
theory Outbox_Store
  imports Audit_Log
begin

section \<open>Outbox: repository, publishing, payloads\<close>

text \<open>
  \<^verbatim>\<open>outbox/repositories/outbox_events.py\<close>, \<^verbatim>\<open>outbox/services/outbox.py\<close>,
  \<^verbatim>\<open>outbox/services/payload_crypto.py\<close> and \<^verbatim>\<open>outbox/schemas/payloads.py\<close>. An event is
  written in the transaction of the change it reports; a dispatcher claims due events, a worker
  reserves one, delivers it and records the result. A terminal event loses the parts of its
  payload that only the delivery needed.

  What Pydantic does to a UUID and to an e-mail address is a parameter (\<open>schema_types\<close>).
\<close>

subsection \<open>Payloads\<close>

definition invite_outbox_event_types :: "string list" where
  "invite_outbox_event_types =
     [outbox_event_type_value OUTBOX_INVITE_CREATED, outbox_event_type_value OUTBOX_INVITE_RESEND]"

definition sensitive_invite_payload_keys :: "string list" where
  "sensitive_invite_payload_keys = [''email'', ''encrypted_raw_token'']"

text \<open>\<open>d[k] = v\<close> of a dictionary: in place, or at the end.\<close>

fun dict_set :: "(string \<times> json) list \<Rightarrow> string \<Rightarrow> json \<Rightarrow> (string \<times> json) list" where
  "dict_set [] k v = [(k, v)]"
| "dict_set ((k', v') # kvs) k v = (if k' = k then (k, v) # kvs else (k', v') # dict_set kvs k v)"

definition scrub_sensitive_delivery_payload :: "outbox_event \<Rightarrow> outbox_event" where
  "scrub_sensitive_delivery_payload e =
     (if \<not> List.member invite_outbox_event_types (obx_event_type e) then e
      else case obx_payload_json e of
             JObj kvs \<Rightarrow> e\<lparr>obx_payload_json := JObj (dict_set
               (filter (\<lambda>kv. \<not> List.member sensitive_invite_payload_keys (fst kv)) kvs)
               ''sensitive_payload_scrubbed'' (JBool True))\<rparr>
           | _ \<Rightarrow> e)"

record schema_types =
  uuid_of_text :: "string \<Rightarrow> uuid option"
  valid_email :: "string \<Rightarrow> bool"

record invite_outbox_payload =
  payload_invite_id :: uuid
  payload_organisation_id :: "uuid option"
  payload_email :: "string option"
  payload_encrypted_raw_token :: string
  payload_purpose :: "string option"
  payload_role :: "membership_role option"

definition role_of_text :: "string \<Rightarrow> membership_role option" where
  "role_of_text s = (if s = ''owner'' then Some OWNER else if s = ''admin'' then Some ADMIN
     else if s = ''member'' then Some MEMBER else None)"

text \<open>
  An optional field: absent or null is \<open>None\<close>, a string goes through its type's check, any
  other value is an error. The outer \<open>None\<close> is the validation error.
\<close>

definition optional_field ::
  "(string \<times> json) list \<Rightarrow> string \<Rightarrow> (string \<Rightarrow> 'a option) \<Rightarrow> 'a option option" where
  "optional_field kvs k check = (case map_of kvs k of
     None \<Rightarrow> Some None
   | Some JNull \<Rightarrow> Some None
   | Some (JStr s) \<Rightarrow> (case check s of None \<Rightarrow> None | Some x \<Rightarrow> Some (Some x))
   | Some _ \<Rightarrow> None)"

definition required_field ::
  "(string \<times> json) list \<Rightarrow> string \<Rightarrow> (string \<Rightarrow> 'a option) \<Rightarrow> 'a option" where
  "required_field kvs k check = (case map_of kvs k of Some (JStr s) \<Rightarrow> check s | _ \<Rightarrow> None)"

definition parse_invite_outbox_payload :: "schema_types \<Rightarrow> json \<Rightarrow> invite_outbox_payload option" where
  "parse_invite_outbox_payload S payload = (case payload of
     JObj kvs \<Rightarrow>
       (case (required_field kvs ''invite_id'' (uuid_of_text S),
              optional_field kvs ''organisation_id'' (uuid_of_text S),
              optional_field kvs ''email'' (\<lambda>s. if valid_email S s then Some s else None),
              required_field kvs ''encrypted_raw_token'' (\<lambda>s. if strip s = [] then None else Some s),
              optional_field kvs ''purpose'' (\<lambda>s. if s = ''created'' \<or> s = ''resent'' then Some s else None),
              optional_field kvs ''role'' role_of_text) of
          (Some i, Some oi, Some e, Some t, Some p, Some r) \<Rightarrow>
            Some \<lparr>payload_invite_id = i, payload_organisation_id = oi, payload_email = e,
                  payload_encrypted_raw_token = t, payload_purpose = p, payload_role = r\<rparr>
        | _ \<Rightarrow> None)
   | _ \<Rightarrow> None)"

subsection \<open>The encryption key\<close>

record outbox_settings =
  outbox_token_encryption_key :: "string option"
  app_environment :: string
  invite_delivery_enabled :: bool
  stale_processing_timeout :: int
  recovery_batch_size :: nat

definition local_test_fallback_fernet_key :: string where
  "local_test_fallback_fernet_key = ''MDEyMzQ1Njc4OWFiY2RlZjAxMjM0NTY3ODlhYmNkZWY=''"

definition resolve_outbox_encryption_key :: "outbox_settings \<Rightarrow> app_error + string" where
  "resolve_outbox_encryption_key cfg = (case outbox_token_encryption_key cfg of
     Some k \<Rightarrow> Inr k
   | None \<Rightarrow> if app_environment cfg = ''local'' \<or> app_environment cfg = ''test''
             then Inr local_test_fallback_fernet_key
             else Inl (ValueError ''SECURITY__OUTBOX_TOKEN_ENCRYPTION_KEY must be configured''))"

text \<open>\<open>OutboxPayloadCrypto\<close> is its key; the constructor refuses a key Fernet does not take.\<close>

definition payload_crypto :: "externals \<Rightarrow> outbox_settings \<Rightarrow> app_error + string" where
  "payload_crypto X cfg = (case resolve_outbox_encryption_key cfg of
     Inl e \<Rightarrow> Inl e
   | Inr k \<Rightarrow> if fernet_key_ok X k then Inr k
              else Inl (ValueError ''Invalid SECURITY__OUTBOX_TOKEN_ENCRYPTION_KEY format''))"

definition encrypt_token :: "externals \<Rightarrow> string \<Rightarrow> string \<Rightarrow> string" where
  "encrypt_token X key raw = fernet_encrypt X key raw"

definition decrypt_token :: "externals \<Rightarrow> string \<Rightarrow> string \<Rightarrow> app_error + string" where
  "decrypt_token X key enc = (case fernet_decrypt X key enc of
     None \<Rightarrow> Inl (ValueError ''outbox_payload_decryption_failed'') | Some raw \<Rightarrow> Inr raw)"

subsection \<open>Repository\<close>

definition publish_event ::
  "string \<Rightarrow> string \<Rightarrow> uuid \<Rightarrow> json \<Rightarrow> outbox_event app" where
  "publish_event event_type aggregate_type aggregate_id payload =
     bind uuid4 (\<lambda>i. bind utcnow (\<lambda>c. bind utcnow (\<lambda>t.
       let e = \<lparr>obx_id = i, obx_event_type = event_type, obx_aggregate_type = Some aggregate_type,
                obx_aggregate_id = Some aggregate_id, obx_payload_json = payload,
                obx_status = OUTBOX_PENDING, obx_attempts = 0, obx_max_attempts = 10,
                obx_next_attempt_at = None, obx_locked_at = None, obx_processed_at = None,
                obx_last_error = None, obx_created_at = c, obx_updated_at = t\<rparr>
       in bind (flush (outbox_events_update (\<lambda>rows. rows @ [e]))) (\<lambda>_. ret e))))"

definition outbox_get_by_id :: "uuid \<Rightarrow> outbox_event option app" where
  "outbox_get_by_id i =
     bind (query (\<lambda>d. take 1 (filter (\<lambda>e. obx_id e = i) (outbox_events d)))) scalar_one_or_none"

definition due :: "int \<Rightarrow> outbox_event \<Rightarrow> bool" where
  "due now e = (obx_status e = OUTBOX_PENDING \<and>
     (case obx_next_attempt_at e of None \<Rightarrow> True | Some t \<Rightarrow> t \<le> now))"

definition due_events :: "nat \<Rightarrow> int \<Rightarrow> db \<Rightarrow> outbox_event list" where
  "due_events limit now d = take limit (sort_key obx_created_at (filter (due now) (outbox_events d)))"

definition list_pending_due_events :: "nat \<Rightarrow> outbox_event list app" where
  "list_pending_due_events limit = bind utcnow (\<lambda>now. query (due_events limit now))"

definition clear_delivery_claim :: "uuid \<Rightarrow> unit app" where
  "clear_delivery_claim i = flush (delivery_claims_update (filter (\<lambda>c. clm_event_id c \<noteq> i)))"

definition claimed :: "int \<Rightarrow> outbox_event \<Rightarrow> outbox_event" where
  "claimed now e = e\<lparr>obx_status := OUTBOX_PROCESSING, obx_locked_at := Some now, obx_updated_at := now\<rparr>"

definition claim_due_events :: "nat \<Rightarrow> outbox_event list app" where
  "claim_due_events limit =
     bind utcnow (\<lambda>now.
     bind (query (due_events limit now)) (\<lambda>es.
     bind (for_each es (\<lambda>e. clear_delivery_claim (obx_id e))) (\<lambda>_.
     bind (flush (outbox_events_update (update_where
       (\<lambda>e. List.member (map obx_id es) (obx_id e)) (claimed now)))) (\<lambda>_.
     ret (map (claimed now) es)))))"

text \<open>Attributes of a loaded event are set and flushed.\<close>

definition outbox_save :: "outbox_event \<Rightarrow> (outbox_event \<Rightarrow> outbox_event) \<Rightarrow> outbox_event app" where
  "outbox_save e f =
     bind (flush (outbox_events_update (update_where (\<lambda>x. obx_id x = obx_id e) f))) (\<lambda>_. ret (f e))"

definition claim_processing_event_for_delivery :: "uuid \<Rightarrow> string \<Rightarrow> outbox_event option app" where
  "claim_processing_event_for_delivery i token =
     bind utcnow (\<lambda>now.
     bind (outbox_get_by_id i) (\<lambda>found.
       case found of
         None \<Rightarrow> ret None
       | Some e \<Rightarrow>
           if obx_status e \<noteq> OUTBOX_PROCESSING then ret None
           else
             bind (bind (query (\<lambda>d. take 1 (filter (\<lambda>c. clm_event_id c = i) (delivery_claims d))))
               scalar_one_or_none) (\<lambda>existing.
             if existing \<noteq> None then ret None
             else
               bind (flush (\<lambda>d. outbox_events_update (update_where (\<lambda>x. obx_id x = i)
                   (\<lambda>x. x\<lparr>obx_locked_at := Some now, obx_updated_at := now\<rparr>))
                 (delivery_claims_update (\<lambda>rows. rows @
                   [\<lparr>clm_event_id = i, clm_claim_token = token, clm_claimed_at = now\<rparr>]) d))) (\<lambda>_.
               ret (Some (e\<lparr>obx_locked_at := Some now, obx_updated_at := now\<rparr>))))))"

definition get_delivery_claimed_event :: "uuid \<Rightarrow> string \<Rightarrow> outbox_event option app" where
  "get_delivery_claimed_event i token =
     bind (query (\<lambda>d. take 1 (filter (\<lambda>e. obx_id e = i \<and> obx_status e = OUTBOX_PROCESSING \<and>
       list_ex (\<lambda>c. clm_event_id c = obx_id e \<and> clm_claim_token c = token) (delivery_claims d))
       (outbox_events d)))) scalar_one_or_none"

definition mark_processing :: "outbox_event \<Rightarrow> unit app" where
  "mark_processing e =
     (if obx_status e = OUTBOX_PROCESSED then ret ()
      else bind (clear_delivery_claim (obx_id e)) (\<lambda>_. bind utcnow (\<lambda>now. bind utcnow (\<lambda>t.
        bind (outbox_save e (\<lambda>x. x\<lparr>obx_status := OUTBOX_PROCESSING, obx_locked_at := Some now,
          obx_updated_at := t\<rparr>)) (\<lambda>_. ret ())))))"

definition processed :: "int \<Rightarrow> outbox_event \<Rightarrow> outbox_event" where
  "processed now e = scrub_sensitive_delivery_payload (e\<lparr>obx_status := OUTBOX_PROCESSED,
     obx_processed_at := Some now, obx_locked_at := None, obx_last_error := None,
     obx_updated_at := now\<rparr>)"

definition mark_processed :: "outbox_event \<Rightarrow> unit app" where
  "mark_processed e =
     bind utcnow (\<lambda>now. bind (clear_delivery_claim (obx_id e)) (\<lambda>_.
     bind (outbox_save e (processed now)) (\<lambda>_. ret ())))"

definition seconds_us :: "int \<Rightarrow> int" where
  "seconds_us n = n * 1000000"

definition failed_attempt :: "int \<Rightarrow> string \<Rightarrow> outbox_event \<Rightarrow> outbox_event" where
  "failed_attempt now error e =
     (let attempts = obx_attempts e + 1;
          e1 = e\<lparr>obx_attempts := attempts, obx_locked_at := None,
                 obx_last_error := Some (take 500 error)\<rparr>;
          e2 = (if obx_max_attempts e \<le> attempts
                then scrub_sensitive_delivery_payload
                  (e1\<lparr>obx_status := OUTBOX_FAILED, obx_next_attempt_at := None\<rparr>)
                else e1\<lparr>obx_status := OUTBOX_PENDING,
                        obx_next_attempt_at := Some (now + seconds_us (2 ^ nat attempts))\<rparr>)
      in e2\<lparr>obx_updated_at := now\<rparr>)"

definition mark_failed_attempt :: "outbox_event \<Rightarrow> string \<Rightarrow> outbox_event app" where
  "mark_failed_attempt e error =
     bind utcnow (\<lambda>now. bind (clear_delivery_claim (obx_id e)) (\<lambda>_.
     outbox_save e (failed_attempt now error)))"

definition release_processing_event_for_retry :: "outbox_event \<Rightarrow> string \<Rightarrow> unit app" where
  "release_processing_event_for_retry e error =
     (if obx_status e \<noteq> OUTBOX_PROCESSING then ret ()
      else bind (mark_failed_attempt e error) (\<lambda>_. ret ()))"

definition stale :: "int \<Rightarrow> outbox_event \<Rightarrow> bool" where
  "stale before e = (obx_status e = OUTBOX_PROCESSING \<and>
     (case obx_locked_at e of None \<Rightarrow> False | Some t \<Rightarrow> t < before))"

definition recover_stale_processing_events :: "int \<Rightarrow> nat \<Rightarrow> outbox_event list app" where
  "recover_stale_processing_events timeout limit =
     bind utcnow (\<lambda>now.
     bind (query (\<lambda>d. take limit (sort_key (\<lambda>e. case obx_locked_at e of None \<Rightarrow> 0 | Some t \<Rightarrow> t)
       (filter (stale (now - timeout)) (outbox_events d))))) (\<lambda>es.
     map_each es (\<lambda>e. mark_failed_attempt e ''stale_processing_recovered'')))"


subsection \<open>Scrubbing\<close>

text \<open>An event from which nothing can be delivered any more: no address, no token.\<close>

fun undeliverable :: "json \<Rightarrow> bool" where
  "undeliverable (JObj kvs) = list_all (\<lambda>kv. \<not> List.member sensitive_invite_payload_keys (fst kv)) kvs"
| "undeliverable _ = True"

abbreviation invite_event :: "outbox_event \<Rightarrow> bool" where
  "invite_event e \<equiv> List.member invite_outbox_event_types (obx_event_type e)"

lemma set_dict_set: "set (dict_set kvs k v) \<subseteq> insert (k, v) (set kvs)"
  by (induction kvs) (auto split: if_splits)

lemma scrub_fields [simp]:
  "obx_id (scrub_sensitive_delivery_payload e) = obx_id e"
  "obx_event_type (scrub_sensitive_delivery_payload e) = obx_event_type e"
  "obx_status (scrub_sensitive_delivery_payload e) = obx_status e"
  "obx_attempts (scrub_sensitive_delivery_payload e) = obx_attempts e"
  "obx_max_attempts (scrub_sensitive_delivery_payload e) = obx_max_attempts e"
  "obx_locked_at (scrub_sensitive_delivery_payload e) = obx_locked_at e"
  "obx_next_attempt_at (scrub_sensitive_delivery_payload e) = obx_next_attempt_at e"
  "obx_processed_at (scrub_sensitive_delivery_payload e) = obx_processed_at e"
  "obx_created_at (scrub_sensitive_delivery_payload e) = obx_created_at e"
  by (simp_all add: scrub_sensitive_delivery_payload_def split: json.splits)

lemma scrub_undeliverable:
  "invite_event e \<Longrightarrow> undeliverable (obx_payload_json (scrub_sensitive_delivery_payload e))"
proof (cases "obx_payload_json e")
  case (JObj kvs)
  let ?kept = "filter (\<lambda>kv. \<not> List.member sensitive_invite_payload_keys (fst kv)) kvs"
  assume "invite_event e"
  moreover have "\<not> List.member sensitive_invite_payload_keys ''sensitive_payload_scrubbed''"
    by (simp add: sensitive_invite_payload_keys_def)
  ultimately show ?thesis
    using JObj set_dict_set [of ?kept "''sensitive_payload_scrubbed''" "JBool True"]
    by (auto simp: scrub_sensitive_delivery_payload_def list_all_iff)
qed (simp_all add: scrub_sensitive_delivery_payload_def)

subsection \<open>The life of an event\<close>

text \<open>
  Pending, processing, and then processed, failed or pending again. An erasure fails what is pending
  and marks its payload (\<^verbatim>\<open>privacy/erasures/outbox.py\<close>); privacy retention puts its own mark in the
  place of any other (\<^verbatim>\<open>privacy/maintenance.py\<close>). \<open>event_ok\<close> is what holds of
  one event in every reachable state and \<open>outbox_inv\<close> adds that only an event that is being
  processed carries a delivery claim.
\<close>

definition privacy_marked :: "json \<Rightarrow> bool" where
  "privacy_marked p \<longleftrightarrow> (case p of
     JObj kvs \<Rightarrow> map_of kvs ''privacy_erasure_scrubbed'' = Some (JBool True) \<or>
       map_of kvs ''privacy_retention_scrubbed'' = Some (JBool True)
   | _ \<Rightarrow> False)"

definition event_ok :: "outbox_event \<Rightarrow> bool" where
  "event_ok e \<longleftrightarrow> 0 \<le> obx_attempts e \<and>
     (obx_status e = OUTBOX_PENDING \<or> obx_status e = OUTBOX_PROCESSING \<longrightarrow> obx_attempts e < obx_max_attempts e) \<and>
     (obx_status e = OUTBOX_FAILED \<longrightarrow> obx_attempts e = obx_max_attempts e \<or>
        obx_attempts e < obx_max_attempts e \<and> privacy_marked (obx_payload_json e)) \<and>
     (obx_status e = OUTBOX_PROCESSED \<or> obx_status e = OUTBOX_FAILED \<longrightarrow>
        invite_event e \<longrightarrow> undeliverable (obx_payload_json e)) \<and>
     (obx_locked_at e \<noteq> None \<longleftrightarrow> obx_status e = OUTBOX_PROCESSING)"

definition claims_ok :: "db \<Rightarrow> bool" where
  "claims_ok d \<longleftrightarrow> (\<forall>c\<in>set (delivery_claims d). \<forall>e\<in>set (outbox_events d).
     obx_id e = clm_event_id c \<longrightarrow> obx_status e = OUTBOX_PROCESSING)"

definition outbox_inv :: "db \<Rightarrow> bool" where
  "outbox_inv d \<longleftrightarrow> integrity d \<and> (\<forall>e\<in>set (outbox_events d). event_ok e) \<and> claims_ok d"

lemma outbox_inv_empty: "outbox_inv empty_db"
  using integrity_empty by (simp add: outbox_inv_def claims_ok_def empty_db_def)

lemma event_ok_processed:
  "event_ok e \<Longrightarrow> obx_status e = OUTBOX_PROCESSING \<Longrightarrow> event_ok (processed now e)"
  by (auto simp: event_ok_def processed_def intro!: scrub_undeliverable)

lemma failed_attempt_fields [simp]:
  "obx_id (failed_attempt now er e) = obx_id e"
  "obx_event_type (failed_attempt now er e) = obx_event_type e"
  "obx_max_attempts (failed_attempt now er e) = obx_max_attempts e"
  "obx_attempts (failed_attempt now er e) = obx_attempts e + 1"
  "obx_locked_at (failed_attempt now er e) = None"
  "obx_status (failed_attempt now er e) =
     (if obx_max_attempts e \<le> obx_attempts e + 1 then OUTBOX_FAILED else OUTBOX_PENDING)"
  by (simp_all add: failed_attempt_def Let_def)

lemma event_ok_failed_attempt:
  assumes "event_ok e" and "obx_status e = OUTBOX_PENDING \<or> obx_status e = OUTBOX_PROCESSING"
  shows "event_ok (failed_attempt now er e)"
proof -
  have "undeliverable (obx_payload_json (failed_attempt now er e))"
    if "obx_max_attempts e \<le> obx_attempts e + 1" "invite_event e"
    using that by (simp add: failed_attempt_def Let_def scrub_undeliverable)
  with assms show ?thesis by (auto simp: event_ok_def)
qed


lemma set_outbox_update:
  assumes "integrity d" and "e \<in> set (outbox_events d)"
  shows "set (update_where (\<lambda>x. obx_id x = obx_id e) f (outbox_events d)) =
      insert (f e) (set (outbox_events d) - {e})"
  using outbox_table.set_update_by_key [OF assms, of f] by simp

lemma outbox_inv_save:
  assumes inv: "outbox_inv d" and e: "e \<in> set (outbox_events d)"
    and f: "obx_id (f e) = obx_id e" "event_ok (f e)"
    and claims: "obx_status (f e) = OUTBOX_PROCESSING \<or> (\<forall>c\<in>set (delivery_claims d). clm_event_id c \<noteq> obx_id e)"
    and I: "integrity (outbox_events_update (update_where (\<lambda>x. obx_id x = obx_id e) f) d)"
  shows "outbox_inv (outbox_events_update (update_where (\<lambda>x. obx_id x = obx_id e) f) d)"
proof -
  have "integrity d" using inv by (simp add: outbox_inv_def)
  note rows = set_outbox_update [OF this e]
  show ?thesis
    using inv f claims I e unfolding outbox_inv_def claims_ok_def by (auto simp: rows)
qed

lemma clear_delivery_claim_run [run_rules]:
  "clear_delivery_claim i w = (Inr x, w') \<longleftrightarrow>
     integrity (delivery_claims_update (filter (\<lambda>c. clm_event_id c \<noteq> i)) (db w)) \<and>
     w' = w\<lparr>db := delivery_claims_update (filter (\<lambda>c. clm_event_id c \<noteq> i)) (db w)\<rparr>"
  by (simp add: clear_delivery_claim_def flush_run)

lemma outbox_inv_clear:
  "outbox_inv d \<Longrightarrow> integrity (delivery_claims_update (filter p) d) \<Longrightarrow>
     outbox_inv (delivery_claims_update (filter p) d)"
  by (auto simp: outbox_inv_def claims_ok_def)

lemma outbox_save_run [run_rules]:
  "outbox_save e f w = (Inr x, w') \<longleftrightarrow>
     (let d = outbox_events_update (update_where (\<lambda>x. obx_id x = obx_id e) f) (db w)
      in integrity d \<and> x = f e \<and> w' = w\<lparr>db := d\<rparr>)"
  by (auto simp: outbox_save_def run_rules Let_def)

lemma mark_failed_attempt_run:
  "mark_failed_attempt e er w = (Inr x, w') \<Longrightarrow> integrity (db w') \<and> x = failed_attempt (clock w (clock_pos w)) er e \<and>
     integrity (delivery_claims_update (filter (\<lambda>c. clm_event_id c \<noteq> obx_id e)) (db w)) \<and>
     db w' = outbox_events_update (update_where (\<lambda>x. obx_id x = obx_id e)
         (failed_attempt (clock w (clock_pos w)) er))
       (delivery_claims_update (filter (\<lambda>c. clm_event_id c \<noteq> obx_id e)) (db w))"
  by (auto simp: mark_failed_attempt_def run_rules Let_def)

lemma mark_failed_attempt_inv:
  assumes "outbox_inv (db w)" and "e \<in> set (outbox_events (db w))"
    and "obx_status e = OUTBOX_PENDING \<or> obx_status e = OUTBOX_PROCESSING"
    and "mark_failed_attempt e er w = (Inr x, w')"
  shows "outbox_inv (db w')"
proof -
  let ?d = "delivery_claims_update (filter (\<lambda>c. clm_event_id c \<noteq> obx_id e)) (db w)"
  note run = mark_failed_attempt_run [OF assms(4)]
  have "event_ok e" using assms(1,2) by (simp add: outbox_inv_def)
  then have "event_ok (failed_attempt (clock w (clock_pos w)) er e)"
    using assms(3) by (rule event_ok_failed_attempt)
  moreover have "outbox_inv ?d" using run assms(1) by (blast intro: outbox_inv_clear)
  ultimately show ?thesis
    using run assms(2) by (auto intro!: outbox_inv_save)
qed

lemma mark_processed_inv:
  assumes "outbox_inv (db w)" and "e \<in> set (outbox_events (db w))"
    and "obx_status e = OUTBOX_PROCESSING" and "mark_processed e w = (Inr x, w')"
  shows "outbox_inv (db w')"
proof -
  let ?d = "delivery_claims_update (filter (\<lambda>c. clm_event_id c \<noteq> obx_id e)) (db w)"
  from assms(4) have run: "integrity ?d" "integrity (db w')"
    "db w' = outbox_events_update (update_where (\<lambda>x. obx_id x = obx_id e) (processed (clock w (clock_pos w)))) ?d"
    by (auto simp: mark_processed_def run_rules Let_def)
  have "event_ok (processed (clock w (clock_pos w)) e)"
    using assms(1-3) by (auto simp: outbox_inv_def intro: event_ok_processed)
  moreover have "outbox_inv ?d" by (rule outbox_inv_clear [OF assms(1) run(1)])
  ultimately show ?thesis
    using run(2,3) assms(2) by (auto intro!: outbox_inv_save simp: processed_def)
qed

lemma recover_loop_inv:
  assumes "outbox_inv (db w)" and "distinct (map obx_id es)"
    and "\<And>e. e \<in> set es \<Longrightarrow> e \<in> set (outbox_events (db w)) \<and> obx_status e = OUTBOX_PROCESSING"
    and "map_each es (\<lambda>e. mark_failed_attempt e er) w = (Inr xs, w')"
  shows "outbox_inv (db w') \<and> length xs = length es"
  using assms
proof (induction es arbitrary: w xs)
  case (Cons e es)
  from Cons.prems(4) obtain x w1 ys where step: "mark_failed_attempt e er w = (Inr x, w1)"
    and rest: "map_each es (\<lambda>e. mark_failed_attempt e er) w1 = (Inr ys, w')" and xs: "xs = x # ys"
    by (auto simp: bind_Inr ret_run)
  have inv: "outbox_inv (db w1)"
    by (rule mark_failed_attempt_inv [OF Cons.prems(1) _ _ step]) (use Cons.prems(3) in auto)
  have "e' \<in> set (outbox_events (db w1)) \<and> obx_status e' = OUTBOX_PROCESSING" if "e' \<in> set es" for e'
    using Cons.prems(2,3) that mark_failed_attempt_run [OF step]
    by (force simp: set_update_where image_iff)
  with Cons.IH [OF inv _ _ rest] Cons.prems(2) show ?case by (simp add: xs)
qed (simp add: ret_def)

lemma commits_recover_stale:
  "commits outbox_inv (recover_stale_processing_events timeout limit)"
proof (rule commitsI)
  fix w xs w'
  assume inv: "outbox_inv (db w)" and run: "recover_stale_processing_events timeout limit w = (Inr xs, w')"
  let ?now = "clock w (clock_pos w)"
  let ?es = "take limit (sort_key (\<lambda>e. case obx_locked_at e of None \<Rightarrow> 0 | Some t \<Rightarrow> t)
       (filter (stale (?now - timeout)) (outbox_events (db w))))"
  have keys: "distinct (map obx_id (outbox_events (db w)))"
    using inv by (simp add: outbox_inv_def integrityD)
  have sub: "set ?es \<subseteq> set (filter (stale (?now - timeout)) (outbox_events (db w)))"
    by (metis set_sort set_take_subset)
  from run have loop: "map_each ?es (\<lambda>e. mark_failed_attempt e ''stale_processing_recovered'')
      (w\<lparr>clock_pos := Suc (clock_pos w)\<rparr>) = (Inr xs, w')"
    by (auto simp: recover_stale_processing_events_def bind_Inr utcnow_run query_run)
  have "outbox_inv (db w') \<and> length xs = length ?es"
  proof (rule recover_loop_inv [OF _ _ _ loop])
    show "distinct (map obx_id ?es)"
      using keys sub by (auto simp: distinct_map inj_on_def)
    show "e \<in> set (outbox_events (db (w\<lparr>clock_pos := Suc (clock_pos w)\<rparr>))) \<and> obx_status e = OUTBOX_PROCESSING"
      if "e \<in> set ?es" for e using that sub by (auto simp: stale_def)
  qed (simp add: inv)
  then show "outbox_inv (db w')" ..
qed


lemma clear_claims_run:
  assumes "for_each es (\<lambda>e. clear_delivery_claim (obx_id e)) w = (Inr x, w')"
  shows "db w' = delivery_claims_update (filter (\<lambda>c. clm_event_id c \<notin> obx_id ` set es)) (db w)"
  using assms
proof (induction es arbitrary: w)
  case (Cons e es)
  from Cons.prems obtain w1 where
    w1: "w1 = w\<lparr>db := delivery_claims_update (filter (\<lambda>c. clm_event_id c \<noteq> obx_id e)) (db w)\<rparr>"
    and rest: "for_each es (\<lambda>e. clear_delivery_claim (obx_id e)) w1 = (Inr x, w')"
    by (auto simp: bind_Inr clear_delivery_claim_run)
  have "(\<lambda>rows. filter p (filter q rows)) = filter (\<lambda>c. q c \<and> p c)" for p q :: "outbox_delivery_claim \<Rightarrow> bool"
    by (rule ext) simp
  with Cons.IH [OF rest] show ?case by (simp add: w1 comp_def)
qed (simp add: ret_def)

text \<open>What a claim of due events does to the tables.\<close>

lemma claim_due_events_run:
  assumes "claim_due_events limit w = (Inr es, w')"
  obtains now due_rows where "now = clock w (clock_pos w)" and "due_rows = due_events limit now (db w)"
    and "es = map (claimed now) due_rows" and "integrity (db w')"
    and "db w' = outbox_events_update (update_where (\<lambda>e. List.member (map obx_id due_rows) (obx_id e)) (claimed now))
      (delivery_claims_update (filter (\<lambda>c. clm_event_id c \<notin> obx_id ` set due_rows)) (db w))"
proof -
  let ?now = "clock w (clock_pos w)"
  let ?rows = "due_events limit ?now (db w)"
  from assms obtain w1 where loop: "for_each ?rows (\<lambda>e. clear_delivery_claim (obx_id e))
      (w\<lparr>clock_pos := Suc (clock_pos w)\<rparr>) = (Inr (), w1)"
    and "integrity (outbox_events_update (update_where
      (\<lambda>e. List.member (map obx_id ?rows) (obx_id e)) (claimed ?now)) (db w1))"
    and "db w' = outbox_events_update (update_where
      (\<lambda>e. List.member (map obx_id ?rows) (obx_id e)) (claimed ?now)) (db w1)"
    and "es = map (claimed ?now) ?rows"
    by (auto simp: claim_due_events_def bind_Inr utcnow_run query_run flush_run ret_run)
  with clear_claims_run [OF loop] show ?thesis by (intro that [OF refl refl]) simp_all
qed

lemma due_events_subset: "set (due_events limit now d) \<subseteq> {e \<in> set (outbox_events d). due now e}"
  unfolding due_events_def using set_take_subset by (fastforce dest: in_set_takeD)

lemma commits_claim_due_events: "commits outbox_inv (claim_due_events limit)"
proof (rule commitsI)
  fix w es w'
  assume inv: "outbox_inv (db w)" and run: "claim_due_events limit w = (Inr es, w')"
  obtain now rows where rows: "rows = due_events limit now (db w)" and I: "integrity (db w')"
    and d: "db w' = outbox_events_update (update_where (\<lambda>e. List.member (map obx_id rows) (obx_id e)) (claimed now))
      (delivery_claims_update (filter (\<lambda>c. clm_event_id c \<notin> obx_id ` set rows)) (db w))"
    by (rule claim_due_events_run [OF run])
  have I0: "integrity (db w)" using inv by (simp add: outbox_inv_def)
  have pending: "obx_status e = OUTBOX_PENDING"
    if "e \<in> set (outbox_events (db w))" "obx_id e \<in> obx_id ` set rows" for e
    using that due_events_subset [of limit now "db w"] outbox_table.same_key_same_row [OF I0]
    unfolding rows due_def by blast
  have "event_ok (claimed now e)" if "event_ok e" "obx_status e = OUTBOX_PENDING" for e
    using that by (simp add: event_ok_def claimed_def)
  then have "\<forall>e\<in>set (outbox_events (db w')). event_ok e"
    using inv pending by (auto simp: d outbox_inv_def set_update_where)
  moreover have "claims_ok (db w')"
    using inv by (auto simp: d outbox_inv_def claims_ok_def set_update_where claimed_def)
  ultimately show "outbox_inv (db w')" using I by (simp add: outbox_inv_def)
qed

lemma outbox_get_by_id_eq: "outbox_get_by_id i = query (\<lambda>d. find (\<lambda>e. obx_id e = i) (outbox_events d))"
  unfolding outbox_get_by_id_def by (rule query_limit1)

text \<open>
  A worker reserves an event only while it is being processed and nobody else holds it; the
  reservation it writes is the only one.
\<close>

lemma claim_processing_event_for_delivery_run:
  assumes "claim_processing_event_for_delivery i token w = (Inr (Some e'), w')"
  obtains e now where "now = clock w (clock_pos w)"
    and "e \<in> set (outbox_events (db w))" "obx_id e = i" "obx_status e = OUTBOX_PROCESSING"
    and "\<forall>c\<in>set (delivery_claims (db w)). clm_event_id c \<noteq> i"
    and "e' = e\<lparr>obx_locked_at := Some now, obx_updated_at := now\<rparr>" and "integrity (db w')"
    and "db w' = outbox_events_update (update_where (\<lambda>x. obx_id x = i)
        (\<lambda>x. x\<lparr>obx_locked_at := Some now, obx_updated_at := now\<rparr>))
      (delivery_claims_update (\<lambda>rows. rows @
        [\<lparr>clm_event_id = i, clm_claim_token = token, clm_claimed_at = now\<rparr>]) (db w))"
    and "w' = w\<lparr>clock_pos := Suc (clock_pos w), db := db w'\<rparr>"
proof -
  let ?now = "clock w (clock_pos w)"
  from assms obtain e where e: "find (\<lambda>e. obx_id e = i) (outbox_events (db w)) = Some e"
    and st: "obx_status e = OUTBOX_PROCESSING"
    and free: "find (\<lambda>c. clm_event_id c = i) (delivery_claims (db w)) = None"
    and e': "e' = e\<lparr>obx_locked_at := Some ?now, obx_updated_at := ?now\<rparr>"
    and fl: "flush (\<lambda>d. outbox_events_update (update_where (\<lambda>x. obx_id x = i)
                   (\<lambda>x. x\<lparr>obx_locked_at := Some ?now, obx_updated_at := ?now\<rparr>))
                 (delivery_claims_update (\<lambda>rows. rows @
                   [\<lparr>clm_event_id = i, clm_claim_token = token, clm_claimed_at = ?now\<rparr>]) d))
            (w\<lparr>clock_pos := Suc (clock_pos w)\<rparr>) = (Inr (), w')"
    unfolding claim_processing_event_for_delivery_def outbox_get_by_id_eq query_limit1
    by (auto simp: bind_Inr utcnow_run query_run if_run ret_run split: option.splits)
  from fl have "integrity (db w')" and d: "db w' = outbox_events_update (update_where (\<lambda>x. obx_id x = i)
        (\<lambda>x. x\<lparr>obx_locked_at := Some ?now, obx_updated_at := ?now\<rparr>))
      (delivery_claims_update (\<lambda>rows. rows @
        [\<lparr>clm_event_id = i, clm_claim_token = token, clm_claimed_at = ?now\<rparr>]) (db w))"
    and "w' = w\<lparr>clock_pos := Suc (clock_pos w), db := db w'\<rparr>"
    by (auto simp: flush_run)
  with find_SomeD [OF e] find_NoneD [OF free] st e' show ?thesis
    by (intro that [of ?now e]) auto
qed

lemma claim_processing_none:
  "claim_processing_event_for_delivery i token w = (Inr None, w') \<Longrightarrow> db w' = db w"
  unfolding claim_processing_event_for_delivery_def outbox_get_by_id_eq query_limit1
  by (auto simp: bind_Inr utcnow_run query_run if_run ret_run split: option.splits)

lemma commits_claim_processing: "commits outbox_inv (claim_processing_event_for_delivery i token)"
proof (rule commitsI)
  fix w r w'
  assume inv: "outbox_inv (db w)" and run: "claim_processing_event_for_delivery i token w = (Inr r, w')"
  show "outbox_inv (db w')"
  proof (cases r)
    case None
    with run inv claim_processing_none show ?thesis by metis
  next
    case (Some e')
    with run have run': "claim_processing_event_for_delivery i token w = (Inr (Some e'), w')" by simp
    obtain e now where e: "e \<in> set (outbox_events (db w))" "obx_id e = i" "obx_status e = OUTBOX_PROCESSING"
      and I: "integrity (db w')"
      and d: "db w' = outbox_events_update (update_where (\<lambda>x. obx_id x = i)
        (\<lambda>x. x\<lparr>obx_locked_at := Some now, obx_updated_at := now\<rparr>))
      (delivery_claims_update (\<lambda>rows. rows @
        [\<lparr>clm_event_id = i, clm_claim_token = token, clm_claimed_at = now\<rparr>]) (db w))"
      by (rule claim_processing_event_for_delivery_run [OF run'])
    have I0: "integrity (db w)" using inv by (simp add: outbox_inv_def)
    have "event_ok e" using inv e(1) by (simp add: outbox_inv_def)
    then have ok: "event_ok (e\<lparr>obx_locked_at := Some now, obx_updated_at := now\<rparr>)"
      using e(3) by (simp add: event_ok_def)
    have rows: "set (outbox_events (db w')) =
        insert (e\<lparr>obx_locked_at := Some now, obx_updated_at := now\<rparr>) (set (outbox_events (db w)) - {e})"
      using set_outbox_update [OF I0 e(1)] by (simp add: d e(2))
    have claims: "set (delivery_claims (db w')) = insert
        \<lparr>clm_event_id = i, clm_claim_token = token, clm_claimed_at = now\<rparr> (set (delivery_claims (db w)))"
      by (simp add: d)
    have "\<forall>x\<in>set (outbox_events (db w')). event_ok x"
      unfolding rows using inv ok by (simp add: outbox_inv_def)
    moreover have "claims_ok (db w')"
      unfolding claims_ok_def
    proof (intro ballI impI)
      fix c x
      assume c: "c \<in> set (delivery_claims (db w'))" and x: "x \<in> set (outbox_events (db w'))"
        and id: "obx_id x = clm_event_id c"
      have other: "obx_id x \<noteq> i" if "x \<in> set (outbox_events (db w))" "x \<noteq> e"
        using outbox_table.same_key_same_row [OF I0 that(1) e(1)] that(2) e(2) by auto
      from x show "obx_status x = OUTBOX_PROCESSING"
        using c id other inv e(3) by (auto simp: rows claims outbox_inv_def claims_ok_def)
    qed
    ultimately show ?thesis using I by (simp add: outbox_inv_def)
  qed
qed


text \<open>The rest of the program writes other tables, or adds a fresh event.\<close>

lemma outbox_inv_frame:
  assumes "outbox_inv d" and "integrity d'" and "outbox_events d' = outbox_events d"
    and "delivery_claims d' = delivery_claims d"
  shows "outbox_inv d'"
  using assms by (simp add: outbox_inv_def claims_ok_def)

lemma outbox_inv_append:
  assumes inv: "outbox_inv d" and I: "integrity d'" and rows: "outbox_events d' = outbox_events d @ [e]"
    and claims: "delivery_claims d' = delivery_claims d" and e: "event_ok e"
  shows "outbox_inv d'"
proof -
  have "obx_id e \<noteq> clm_event_id c" if "c \<in> set (delivery_claims d)" for c
  proof -
    have "outbox_ok d" "outbox_ok d'" using inv I by (simp_all add: outbox_inv_def integrity_def)
    with that rows show ?thesis by (force simp: outbox_ok_def list_all_iff list_ex_iff)
  qed
  with inv e I rows claims show ?thesis by (auto simp: outbox_inv_def claims_ok_def)
qed

end
