(* ===== verification/Export_Repository.thy ===== *)
theory Export_Repository
  imports Data_Subject_Requests Outbox_Store
begin

section \<open>Export artifacts: lifecycle and repository\<close>

text \<open>
  \<^verbatim>\<open>privacy/export_artifact_lifecycle.py\<close> and \<^verbatim>\<open>privacy/repositories/export_artifacts.py\<close>:
  the assignments of each transition of an artifact, the leases under which a worker processes one,
  the upload intent that is committed before the file is published, and the delivery that is
  confirmed once. The lifecycle functions also return the names of the fields they changed, which
  their callers here do not use.
\<close>

subsection \<open>Lifecycle\<close>

abbreviation artifacts_of :: "db \<Rightarrow> export_artifact list" where
  "artifacts_of d \<equiv> artifacts (privacy d)"

definition subject_erasure_requested :: string where
  "subject_erasure_requested = ''subject_erasure_requested''"

definition released :: "export_artifact \<Rightarrow> export_artifact" where
  "released a = a\<lparr>art_processing_token := None, art_lease_expires_at := None\<rparr>"

definition mark_export_artifact_ready :: "int \<Rightarrow> export_artifact \<Rightarrow> export_artifact" where
  "mark_export_artifact_ready at a = released (a\<lparr>art_status := ART_READY, art_completed_at := Some at\<rparr>)"

definition mark_export_artifact_failed :: "string \<Rightarrow> string \<Rightarrow> int \<Rightarrow> export_artifact \<Rightarrow> export_artifact" where
  "mark_export_artifact_failed reason detail at a =
     released (a\<lparr>art_status := ART_FAILED, art_failure_reason := Some reason,
       art_failure_detail := Some (take 255 detail), art_failed_at := Some at\<rparr>)"

definition mark_export_artifact_expired :: "export_artifact \<Rightarrow> export_artifact" where
  "mark_export_artifact_expired a = released (a\<lparr>art_status := ART_EXPIRED\<rparr>)"

definition clear_export_artifact_subject_file_metadata :: "export_artifact \<Rightarrow> export_artifact" where
  "clear_export_artifact_subject_file_metadata a =
     a\<lparr>art_filename := None, art_content_type := None, art_size_bytes := None, art_checksum_sha256 := None,
       art_failure_detail := None, art_processing_token := None, art_lease_expires_at := None\<rparr>"

definition clear_export_artifact_storage_metadata :: "export_artifact \<Rightarrow> export_artifact" where
  "clear_export_artifact_storage_metadata a =
     a\<lparr>art_storage_key := None, art_filename := None, art_content_type := None, art_size_bytes := None,
       art_checksum_sha256 := None\<rparr>"

definition cancel_export_artifact_for_subject_erasure :: "export_artifact \<Rightarrow> export_artifact" where
  "cancel_export_artifact_for_subject_erasure a =
     clear_export_artifact_subject_file_metadata
       (a\<lparr>art_status := ART_CANCELLED, art_failure_reason := Some subject_erasure_requested\<rparr>)"

subsection \<open>Reading\<close>

definition art_create :: "(uuid \<Rightarrow> int \<Rightarrow> int \<Rightarrow> export_artifact) \<Rightarrow> export_artifact app" where
  "art_create row =
     bind uuid4 (\<lambda>i. bind utcnow (\<lambda>c. bind utcnow (\<lambda>t.
       let a = row i c t
       in bind (flush (artifacts_table (\<lambda>rows. rows @ [a]))) (\<lambda>_. ret a))))"

definition art_get_by_id :: "uuid \<Rightarrow> export_artifact option app" where
  "art_get_by_id i = bind (query (\<lambda>d. filter (\<lambda>a. art_id a = i) (artifacts_of d))) scalar_one_or_none"

definition art_get_by_dsr_id :: "uuid \<Rightarrow> export_artifact list app" where
  "art_get_by_dsr_id i =
     query (\<lambda>d. latest_first art_created_at (filter (\<lambda>a. art_dsr_id a = i) (artifacts_of d)))"

definition art_list_for_requester :: "uuid \<Rightarrow> nat \<Rightarrow> nat \<Rightarrow> export_artifact list app" where
  "art_list_for_requester u limit offset =
     query (\<lambda>d. page limit offset (latest_first art_created_at (filter (\<lambda>a. art_requester a = Some u) (artifacts_of d))))"

definition art_list_for_platform :: "nat \<Rightarrow> nat \<Rightarrow> export_artifact list app" where
  "art_list_for_platform limit offset = query (\<lambda>d. page limit offset (latest_first art_created_at (artifacts_of d)))"

definition art_count_for_requester :: "uuid \<Rightarrow> nat app" where
  "art_count_for_requester u = query (\<lambda>d. length (filter (\<lambda>a. art_requester a = Some u) (artifacts_of d)))"

definition art_count_for_platform :: "nat app" where
  "art_count_for_platform = query (\<lambda>d. length (artifacts_of d))"

definition queued_batch :: "nat \<Rightarrow> db \<Rightarrow> export_artifact list" where
  "queued_batch limit d = take limit (sort_key art_queued_at (filter (\<lambda>a. art_status a = ART_QUEUED) (artifacts_of d)))"

definition peek_queued_batch :: "nat \<Rightarrow> export_artifact list app" where
  "peek_queued_batch limit = query (queued_batch limit)"

subsection \<open>Writing\<close>

text \<open>Loaded artifacts that were changed, flushed together.\<close>

definition flush_artifacts :: "export_artifact list \<Rightarrow> export_artifact list app" where
  "flush_artifacts rows =
     bind (stamp_rows (\<lambda>t a. a\<lparr>art_updated_at := t\<rparr>) rows) (\<lambda>news.
     bind (if news = [] then ret () else flush (artifacts_table (replace_rows art_id news))) (\<lambda>_. ret news))"

definition art_save :: "export_artifact \<Rightarrow> (export_artifact \<Rightarrow> export_artifact) \<Rightarrow> export_artifact app" where
  "art_save a f = (if f a = a then ret a else bind utcnow (\<lambda>t.
     let g = (\<lambda>x. (f x)\<lparr>art_updated_at := t\<rparr>)
     in bind (flush (artifacts_table (update_where (\<lambda>x. art_id x = art_id a) g))) (\<lambda>_. ret (g a))))"

text \<open>\<open>update(ExportArtifact).where(p).values(f)\<close>, returning the number of rows.\<close>

definition art_update_where ::
  "(db \<Rightarrow> export_artifact \<Rightarrow> bool) \<Rightarrow> (export_artifact \<Rightarrow> export_artifact) \<Rightarrow> nat app" where
  "art_update_where p f = bind utcnow (\<lambda>t.
     bind (query (\<lambda>d. length (filter (p d) (artifacts_of d)))) (\<lambda>n.
     bind (flush (\<lambda>d. artifacts_table (update_where (p d) (\<lambda>a. (f a)\<lparr>art_updated_at := t\<rparr>)) d)) (\<lambda>_. ret n)))"

definition art_refresh :: "export_artifact \<Rightarrow> export_artifact app" where
  "art_refresh a = query (\<lambda>d. case find (\<lambda>x. art_id x = art_id a) (artifacts_of d) of None \<Rightarrow> a | Some x \<Rightarrow> x)"

subsection \<open>Leases\<close>

definition claim_queued_batch :: "nat \<Rightarrow> int \<Rightarrow> export_artifact list app" where
  "claim_queued_batch limit lease_seconds =
     bind (query (queued_batch limit)) (\<lambda>rows.
     bind utcnow (\<lambda>now.
     bind (map_each rows (\<lambda>a. bind uuid4 (\<lambda>i.
       ret (a\<lparr>art_status := ART_PROCESSING, art_started_at := Some now,
              art_processing_token := Some (uuid_str i),
              art_lease_expires_at := Some (now + seconds_us lease_seconds)\<rparr>)))) flush_artifacts))"

definition holds_processing :: "uuid \<Rightarrow> string \<Rightarrow> export_artifact \<Rightarrow> bool" where
  "holds_processing i token a \<longleftrightarrow>
     art_id a = i \<and> art_status a = ART_PROCESSING \<and> art_processing_token a = Some token"

definition get_processing_by_token :: "uuid \<Rightarrow> string \<Rightarrow> export_artifact option app" where
  "get_processing_by_token i token =
     bind (query (\<lambda>d. filter (holds_processing i token) (artifacts_of d))) scalar_one_or_none"

definition repo_renew_processing_lease :: "uuid \<Rightarrow> string \<Rightarrow> int \<Rightarrow> bool app" where
  "repo_renew_processing_lease i token lease_seconds =
     bind (get_processing_by_token i token) (\<lambda>found.
     case found of None \<Rightarrow> ret False
     | Some a \<Rightarrow>
         bind utcnow (\<lambda>now.
         bind (art_save a (\<lambda>x. x\<lparr>art_lease_expires_at := Some (now + seconds_us lease_seconds)\<rparr>)) (\<lambda>_.
         ret True)))"

definition lease_active :: "int \<Rightarrow> export_artifact \<Rightarrow> bool" where
  "lease_active now a = (case art_lease_expires_at a of None \<Rightarrow> False | Some t \<Rightarrow> now < t)"

definition active_upload_intent ::
  "uuid \<Rightarrow> string \<Rightarrow> int \<Rightarrow> storage_backend option \<Rightarrow> string option \<Rightarrow> export_artifact \<Rightarrow> bool" where
  "active_upload_intent i token now backend key a \<longleftrightarrow>
     holds_processing i token a \<and> lease_active now a \<and> art_storage_key a \<noteq> None \<and>
     (backend = None \<or> Some (art_storage_backend a) = backend) \<and> (key = None \<or> art_storage_key a = key)"

definition get_active_processing_upload_intent ::
  "uuid \<Rightarrow> string \<Rightarrow> int \<Rightarrow> storage_backend option \<Rightarrow> string option \<Rightarrow> export_artifact option app" where
  "get_active_processing_upload_intent i token now backend key =
     bind (query (\<lambda>d. filter (active_upload_intent i token now backend key) (artifacts_of d))) scalar_one_or_none"

definition ensure_processing_upload_intent ::
  "uuid \<Rightarrow> string \<Rightarrow> string \<Rightarrow> string \<Rightarrow> string \<Rightarrow> int \<Rightarrow> string \<Rightarrow> int \<Rightarrow> export_artifact option app" where
  "ensure_processing_upload_intent i token candidate filename content_type bytes checksum now =
     bind (art_update_where (\<lambda>_ a. holds_processing i token a \<and> lease_active now a \<and> art_storage_key a = None)
       (\<lambda>a. a\<lparr>art_storage_key := Some candidate, art_filename := Some filename,
          art_content_type := Some content_type, art_size_bytes := Some bytes,
          art_checksum_sha256 := Some checksum\<rparr>)) (\<lambda>_.
     get_active_processing_upload_intent i token now None None)"

definition reset_processing_upload_intent ::
  "uuid \<Rightarrow> string \<Rightarrow> storage_backend \<Rightarrow> string \<Rightarrow> int \<Rightarrow> bool app" where
  "reset_processing_upload_intent i token backend key now =
     bind (art_update_where (\<lambda>_ a. holds_processing i token a \<and> lease_active now a \<and>
         art_storage_backend a = backend \<and> art_storage_key a = Some key)
       clear_export_artifact_storage_metadata) (\<lambda>n. ret (n = 1))"

definition stale_lease :: "int \<Rightarrow> export_artifact \<Rightarrow> bool" where
  "stale_lease now a \<longleftrightarrow> art_status a = ART_PROCESSING \<and>
     (case art_lease_expires_at a of None \<Rightarrow> False | Some t \<Rightarrow> t < now)"

definition lease_end :: "export_artifact \<Rightarrow> int" where
  "lease_end a = (case art_lease_expires_at a of None \<Rightarrow> 0 | Some t \<Rightarrow> t)"

definition recover_stale_processing :: "int \<Rightarrow> nat \<Rightarrow> export_artifact list app" where
  "recover_stale_processing now limit =
     bind (query (\<lambda>d. take limit (sort_key lease_end (filter (stale_lease now) (artifacts_of d))))) (\<lambda>stale.
     flush_artifacts (map (\<lambda>a. released (a\<lparr>art_status := ART_QUEUED, art_started_at := None\<rparr>)) stale))"

subsection \<open>Expiry and storage clean-up\<close>

definition list_expired_ready :: "int \<Rightarrow> nat \<Rightarrow> export_artifact list app" where
  "list_expired_ready now limit =
     query (\<lambda>d. take limit (sort_key art_expires_at
       (filter (\<lambda>a. art_status a = ART_READY \<and> art_expires_at a \<le> now) (artifacts_of d))))"

text \<open>\<open>ORDER BY t ASC NULLS LAST, created_at, id\<close>.\<close>

definition nulls_last :: "(export_artifact \<Rightarrow> int option) \<Rightarrow> export_artifact list \<Rightarrow> export_artifact list" where
  "nulls_last t rows =
     sort_key (\<lambda>a. t a = None) (sort_key (\<lambda>a. case t a of None \<Rightarrow> 0 | Some x \<Rightarrow> x)
       (oldest_first art_created_at art_id rows))"

definition list_cancelled_erasure_purge_retry :: "nat \<Rightarrow> export_artifact list app" where
  "list_cancelled_erasure_purge_retry limit =
     query (\<lambda>d. take limit (nulls_last art_completed_at
       (filter (\<lambda>a. art_status a = ART_CANCELLED \<and> art_failure_reason a = Some subject_erasure_requested \<and>
          art_storage_key a \<noteq> None) (artifacts_of d))))"

definition list_failed_storage_purge_retry :: "nat \<Rightarrow> export_artifact list app" where
  "list_failed_storage_purge_retry limit =
     query (\<lambda>d. take limit (nulls_last art_failed_at
       (filter (\<lambda>a. art_status a = ART_FAILED \<and> art_storage_key a \<noteq> None) (artifacts_of d))))"

definition get_failed_storage_purge_target :: "uuid \<Rightarrow> string \<Rightarrow> export_artifact option app" where
  "get_failed_storage_purge_target i key =
     bind (query (\<lambda>d. filter (\<lambda>a. art_id a = i \<and> art_status a = ART_FAILED \<and> art_storage_key a = Some key)
       (artifacts_of d))) scalar_one_or_none"

definition get_storage_purge_target ::
  "uuid \<Rightarrow> artifact_status \<Rightarrow> storage_backend \<Rightarrow> string \<Rightarrow> export_artifact option app" where
  "get_storage_purge_target i expected backend key =
     bind (query (\<lambda>d. filter (\<lambda>a. art_id a = i \<and> art_status a = expected \<and> art_storage_backend a = backend \<and>
       art_storage_key a = Some key) (artifacts_of d))) scalar_one_or_none"

definition list_expired_storage_purge_retry :: "nat \<Rightarrow> uuid list \<Rightarrow> export_artifact list app" where
  "list_expired_storage_purge_retry limit exclude =
     query (\<lambda>d. take limit (sort_key art_expires_at (oldest_first art_created_at art_id
       (filter (\<lambda>a. art_status a = ART_EXPIRED \<and> art_storage_key a \<noteq> None \<and> \<not> List.member exclude (art_id a))
          (artifacts_of d)))))"

definition art_mark_ready :: "export_artifact \<Rightarrow> (export_artifact \<Rightarrow> export_artifact) \<Rightarrow> export_artifact app" where
  "art_mark_ready a f = bind utcnow (\<lambda>now. art_save a (\<lambda>x. mark_export_artifact_ready now (f x)))"

definition art_mark_failed :: "export_artifact \<Rightarrow> string \<Rightarrow> string \<Rightarrow> export_artifact app" where
  "art_mark_failed a reason detail =
     bind utcnow (\<lambda>now. art_save a (mark_export_artifact_failed reason detail now))"

definition art_mark_expired :: "export_artifact \<Rightarrow> export_artifact app" where
  "art_mark_expired a = art_save a mark_export_artifact_expired"

subsection \<open>Downloads and delivery\<close>

definition record_download_url_issued :: "export_artifact \<Rightarrow> export_artifact app" where
  "record_download_url_issued a =
     bind utcnow (\<lambda>now.
     bind (art_update_where (\<lambda>_ x. art_id x = art_id a)
       (\<lambda>x. x\<lparr>art_url_issue_count := art_url_issue_count x + 1, art_url_issued_at := Some now\<rparr>)) (\<lambda>_.
     art_refresh a))"

text \<open>The request an artifact must belong to while it is downloaded.\<close>

definition eligible_delivery_request :: "data_subject_request \<Rightarrow> bool" where
  "eligible_delivery_request r \<longleftrightarrow> dsr_request_type r = DSR_EXPORT \<and>
     List.member [DSR_APPROVED, DSR_FULFILLED] (dsr_status r) \<and> dsr_subject r \<noteq> None \<and> dsr_requester r \<noteq> None"

definition undelivered :: "uuid \<Rightarrow> int \<Rightarrow> db \<Rightarrow> export_artifact \<Rightarrow> bool" where
  "undelivered i at d a \<longleftrightarrow> art_id a = i \<and> art_downloaded_at a = None \<and> art_download_count a = 0 \<and>
     art_status a = ART_READY \<and> at < art_expires_at a \<and> art_storage_key a \<noteq> None \<and>
     list_ex (\<lambda>r. dsr_id r = art_dsr_id a \<and> eligible_delivery_request r) (requests_of d)"

definition repo_confirm_delivery :: "export_artifact \<Rightarrow> int \<Rightarrow> (export_artifact \<times> bool) app" where
  "repo_confirm_delivery a at =
     bind (art_update_where (undelivered (art_id a) at)
       (\<lambda>x. x\<lparr>art_download_count := 1, art_downloaded_at := Some at\<rparr>)) (\<lambda>n.
     bind (art_refresh a) (\<lambda>fresh. ret (fresh, n = 1)))"

definition increment_download_count :: "export_artifact \<Rightarrow> export_artifact app" where
  "increment_download_count a = bind utcnow (\<lambda>now. bind (repo_confirm_delivery a now) (\<lambda>(x, _). ret x))"

end
