(* ===== verification/Request_Workflow.thy ===== *)
theory Request_Workflow
  imports Export_Repository
begin

section \<open>The workflow of data-subject requests\<close>

text \<open>
  \<^verbatim>\<open>privacy/services/data_subject_requests.py\<close>: submission with an idempotency key, the
  review workflow as a state machine whose transitions are compare-and-set updates, the review of a
  representative's authority, and fulfilment. The execution of an approved erasure is in \<open>Erasure\<close>.
\<close>

subsection \<open>Input of a submission\<close>

definition dsr_types :: "dsr_type list" where
  "dsr_types = [DSR_ACCESS, DSR_EXPORT, DSR_ERASE, DSR_RECTIFY, DSR_RESTRICT, DSR_OBJECT, DSR_PORTABILITY]"

definition normalise_request_type :: "string \<Rightarrow> app_error + dsr_type" where
  "normalise_request_type s = (case find (\<lambda>t. dsr_type_value t = s) dsr_types of
     Some t \<Rightarrow> Inr t
   | None \<Rightarrow> Inl (BadRequestError ''Invalid request_type. Supported values: access, export, erase, rectify, restrict, object, portability''))"

definition normalise_requester_role :: "string \<Rightarrow> app_error + dsr_requester_role" where
  "normalise_requester_role s =
     (case find (\<lambda>r. requester_role_value r = s) [REQUESTER_SELF, REQUESTER_REPRESENTATIVE] of
        Some r \<Rightarrow> Inr r
      | None \<Rightarrow> Inl (BadRequestError ''Invalid requester_role. Supported values: self, authorised_representative''))"

definition normalise_idempotency_key :: "string option \<Rightarrow> string option" where
  "normalise_idempotency_key key = map_option strip key"

definition dsr_optional_text :: "string option \<Rightarrow> string option" where
  "dsr_optional_text value = (case value of None \<Rightarrow> None
     | Some v \<Rightarrow> if strip v = [] then None else Some (strip v))"

text \<open>Text that a pattern matches letter by letter, and the start of the text.\<close>

fun exact_pattern :: "string \<Rightarrow> pattern" where
  "exact_pattern [] = NotAfter (\<lambda>_. False)"
| "exact_pattern (c # cs) = Cat (Sym (\<lambda>d. d = c)) (exact_pattern cs)"

definition text_start :: pattern where
  "text_start = NotAfter (\<lambda>_. True)"

definition ascii_letter :: "char \<Rightarrow> bool" where
  "ascii_letter c \<longleftrightarrow> is_alnum c \<and> \<not> one_of ''0123456789'' c"

definition email_like_pattern :: pattern where
  "email_like_pattern =
     cats [AtLeast 1 (\<lambda>c. is_alnum c \<or> one_of ''._%+-'' c), Sym (\<lambda>c. c = CHR ''@''),
       AtLeast 1 (\<lambda>c. is_alnum c \<or> one_of ''.-'' c), Sym (\<lambda>c. c = CHR ''.''), AtLeast 2 ascii_letter]"

definition unsafe_idempotency_patterns :: "pattern list" where
  "unsafe_idempotency_patterns =
     (let credential = (\<lambda>c. is_alnum c \<or> one_of ''._-+/='' c); part = (\<lambda>c. is_alnum c \<or> one_of ''_-'' c) in
     [cats [text_start, AtLeast 0 is_space, word_pattern ''bearer'', AtLeast 1 is_space, AtLeast 1 credential],
      cats [text_start, AtLeast 0 is_space, word_pattern ''basic'', AtLeast 1 is_space, AtLeast 1 credential],
      cats [any_of [cats [word_pattern ''api'', Opt (Sym (one_of ''_-'')), word_pattern ''key''],
          word_pattern ''secret'', word_pattern ''password'', word_pattern ''passwd'', word_pattern ''token''],
        AtLeast 0 is_space, Sym (one_of '':='')],
      cats [exact_pattern ''eyJ'', AtLeast 1 part, Sym (\<lambda>c. c = CHR ''.''), AtLeast 1 part,
        Sym (\<lambda>c. c = CHR ''.''), AtLeast 1 part],
      cats [word_pattern ''gh'', Sym (\<lambda>c. one_of ''pousr'' (lower_char c)), Sym (\<lambda>c. c = CHR ''_''),
        AtLeast 20 is_alnum]])"

definition validate_idempotency_key_safety :: "string option \<Rightarrow> app_error + unit" where
  "validate_idempotency_key_safety key = (case key of None \<Rightarrow> Inr ()
   | Some k \<Rightarrow>
     let candidate = strip k in
     if candidate = [] then Inl (BadRequestError ''Idempotency key must not be empty'')
     else if 512 < length candidate then Inl (BadRequestError ''Idempotency key is too long'')
     else if search email_like_pattern candidate
       then Inl (BadRequestError ''Idempotency key must not contain email-like values'')
     else if list_ex (\<lambda>r. search r candidate) unsafe_idempotency_patterns
       then Inl (BadRequestError ''Idempotency key appears to contain credential or token-like content'')
     else if List.member candidate (CHR '':'') \<and> List.member candidate (CHR ''='')
       then Inl (BadRequestError ''Idempotency key appears to contain sensitive structured data'')
     else Inr ())"

record representative_values =
  rpv_subject :: uuid
  rpv_role :: dsr_requester_role
  rpv_status :: dsr_representative_status
  rpv_relationship :: "string option"
  rpv_note :: "string option"

definition build_representative_intake_values ::
  "uuid \<Rightarrow> uuid option \<Rightarrow> dsr_requester_role \<Rightarrow> string option \<Rightarrow> string option \<Rightarrow>
   app_error + representative_values" where
  "build_representative_intake_values requester subject role relationship note =
     (case role of
        REQUESTER_SELF \<Rightarrow>
          if subject \<noteq> None \<and> subject \<noteq> Some requester
            then Inl (BadRequestError ''subject_user_id is only allowed for representative requests'')
          else if relationship \<noteq> None
            then Inl (BadRequestError ''representative_relationship is only allowed for representative requests'')
          else if note \<noteq> None
            then Inl (BadRequestError ''representative_authority_note is only allowed for representative requests'')
          else Inr \<lparr>rpv_subject = requester, rpv_role = REQUESTER_SELF, rpv_status = REP_NOT_REQUIRED,
                    rpv_relationship = None, rpv_note = None\<rparr>
      | REQUESTER_REPRESENTATIVE \<Rightarrow>
          (case subject of
             None \<Rightarrow> Inl (BadRequestError ''subject_user_id is required for representative requests'')
           | Some s \<Rightarrow>
             if s = requester
               then Inl (BadRequestError ''Representative requests must target a different subject user'')
             else (case (relationship, note) of
               (None, _) \<Rightarrow> Inl (BadRequestError ''representative_relationship is required for representative requests'')
             | (_, None) \<Rightarrow> Inl (BadRequestError ''representative_authority_note is required for representative requests'')
             | (Some rel, Some n) \<Rightarrow>
                 if 64 < length rel
                   then Inl (BadRequestError ''Representative relationship exceeds maximum length of 64 characters'')
                 else if 2000 < length n
                   then Inl (BadRequestError ''Representative authority note exceeds maximum length of 2000 characters'')
                 else Inr \<lparr>rpv_subject = s, rpv_role = REQUESTER_REPRESENTATIVE,
                           rpv_status = REP_PENDING_VERIFICATION, rpv_relationship = Some rel, rpv_note = Some n\<rparr>)))"

definition ensure_representative_subject_exists :: "dsr_requester_role \<Rightarrow> uuid \<Rightarrow> unit app" where
  "ensure_representative_subject_exists role subject =
     (if role \<noteq> REQUESTER_REPRESENTATIVE then ret ()
      else bind (user_exists_by_id subject) (\<lambda>found.
        ensure found (BadRequestError ''Representative subject user was not found'')))"

subsection \<open>Fingerprints\<close>

definition or_empty :: "string option \<Rightarrow> string" where
  "or_empty x = (case x of None \<Rightarrow> [] | Some s \<Rightarrow> s)"

definition fingerprint_source ::
  "dsr_type \<Rightarrow> string option \<Rightarrow> representative_values \<Rightarrow> string" where
  "fingerprint_source rtype note v =
     join ''|'' [''request_type='' @ dsr_type_value rtype, ''requester_note='' @ or_empty note,
       ''subject_user_id='' @ uuid_str (rpv_subject v), ''requester_role='' @ requester_role_value (rpv_role v),
       ''representative_relationship='' @ or_empty (rpv_relationship v),
       ''representative_authority_note='' @ or_empty (rpv_note v)]"

definition build_fingerprint ::
  "externals \<Rightarrow> dsr_type \<Rightarrow> string option \<Rightarrow> representative_values \<Rightarrow> string" where
  "build_fingerprint X rtype note v = sha256_hex X (fingerprint_source rtype note v)"

definition build_pre_representative_fingerprint :: "externals \<Rightarrow> dsr_type \<Rightarrow> string option \<Rightarrow> string" where
  "build_pre_representative_fingerprint X rtype note =
     sha256_hex X (''request_type='' @ dsr_type_value rtype @ ''|requester_note='' @ or_empty note)"

definition is_legacy_self_service_idempotency_row :: "data_subject_request \<Rightarrow> bool" where
  "is_legacy_self_service_idempotency_row r \<longleftrightarrow>
     dsr_requester_role r = REQUESTER_SELF \<and> dsr_subject r = dsr_requester r \<and>
     dsr_representative_relationship r = None \<and> dsr_representative_authority_note r = None"

definition idempotency_fingerprint_matches ::
  "data_subject_request \<Rightarrow> string option \<Rightarrow> string option \<Rightarrow> bool" where
  "idempotency_fingerprint_matches r current legacy \<longleftrightarrow>
     dsr_idempotency_fingerprint r = current \<or>
     (legacy \<noteq> None \<and> dsr_idempotency_fingerprint r = legacy \<and> is_legacy_self_service_idempotency_row r)"

subsection \<open>Submission\<close>

definition record_status_event ::
  "externals \<Rightarrow> data_subject_request \<Rightarrow> audit_action \<Rightarrow> audit_context \<Rightarrow> unit app" where
  "record_status_event X r action ctx =
     bind (record_event X ctx AUDIT_COMPLIANCE action TARGET_DATA_SUBJECT_REQUEST (Some (dsr_id r)) None
       (Some (JObj [(''request_type'', JStr (dsr_type_value (dsr_request_type r))),
                    (''status'', JStr (dsr_status_value (dsr_status r)))]))) (\<lambda>_. ret ())"

record submission =
  sub_request_type :: string
  sub_note :: "string option"
  sub_subject :: "uuid option"
  sub_role :: string
  sub_relationship :: "string option"
  sub_authority_note :: "string option"
  sub_key :: "string option"

definition hours_us :: "int \<Rightarrow> int" where
  "hours_us n = n * 3600000000"

text \<open>The row of a new request; the columns the code does not name have their defaults.\<close>

definition submitted_request ::
  "dsr_type \<Rightarrow> uuid \<Rightarrow> representative_values \<Rightarrow> string option \<Rightarrow> int \<Rightarrow> string option \<Rightarrow> string option \<Rightarrow>
   uuid \<Rightarrow> int \<Rightarrow> int \<Rightarrow> data_subject_request" where
  "submitted_request rtype requester v note now key_hash fingerprint i c t =
     \<lparr>dsr_id = i, dsr_request_type = rtype, dsr_status = DSR_SUBMITTED,
      dsr_execution_status = EXECUTION_NOT_STARTED, dsr_requester_role = rpv_role v,
      dsr_representative_status = rpv_status v, dsr_representative_relationship = rpv_relationship v,
      dsr_representative_authority_note = rpv_note v, dsr_representative_verified_at = None,
      dsr_representative_verified_by = None, dsr_representative_rejection_reason = None,
      dsr_requester = Some requester, dsr_subject = Some (rpv_subject v), dsr_reviewer = None,
      dsr_submitted_at = now, dsr_acknowledged_at = None, dsr_reviewed_at = None, dsr_decided_at = None,
      dsr_fulfilled_at = None, dsr_cancelled_at = None, dsr_execution_started_at = None,
      dsr_execution_completed_at = None, dsr_execution_failed_at = None, dsr_execution_failure_reason = None,
      dsr_execution_failure_detail = None, dsr_decision_reason = None, dsr_rejection_reason = None,
      dsr_requester_note = note, dsr_internal_note = None, dsr_due_at = now + days_us 30,
      dsr_extended_until = None, dsr_extension_reason = None, dsr_idempotency_key_hash = key_hash,
      dsr_idempotency_fingerprint = fingerprint,
      dsr_idempotency_expires_at = (if key_hash = None then None else Some (now + hours_us 24)),
      dsr_export_artifact_id = None, dsr_erasure_job_id = None, dsr_created_at = c, dsr_updated_at = t\<rparr>"

definition create_submitted ::
  "externals \<Rightarrow> (uuid \<Rightarrow> int \<Rightarrow> int \<Rightarrow> data_subject_request) \<Rightarrow> audit_context \<Rightarrow> data_subject_request app" where
  "create_submitted X row ctx =
     bind (dsr_create row) (\<lambda>r.
     bind (record_status_event X r DATA_SUBJECT_REQUEST_SUBMITTED ctx) (\<lambda>_. ret r))"

definition submit_request ::
  "externals \<Rightarrow> uuid \<Rightarrow> submission \<Rightarrow> int option \<Rightarrow> audit_context \<Rightarrow> data_subject_request app" where
  "submit_request X requester s at ctx =
     bind (case at of Some t \<Rightarrow> ret t | None \<Rightarrow> utcnow) (\<lambda>now.
     bind (lift (normalise_request_type (sub_request_type s))) (\<lambda>rtype.
     let key = normalise_idempotency_key (sub_key s) in
     bind (lift (normalise_requester_role (sub_role s))) (\<lambda>role.
     bind (ensure (case sub_note s of None \<Rightarrow> True | Some n \<Rightarrow> length n \<le> 2000)
       (BadRequestError ''Requester note exceeds maximum length of 2000 characters'')) (\<lambda>_.
     bind (lift (validate_idempotency_key_safety key)) (\<lambda>_.
     bind (lift (build_representative_intake_values requester (sub_subject s) role
       (dsr_optional_text (sub_relationship s)) (dsr_optional_text (sub_authority_note s)))) (\<lambda>v.
     bind (ensure_representative_subject_exists role (rpv_subject v)) (\<lambda>_.
     case map_option (sha256_hex X) key of
       None \<Rightarrow> create_submitted X (submitted_request rtype requester v (sub_note s) now None None) ctx
     | Some h \<Rightarrow>
       let fingerprint = build_fingerprint X rtype (sub_note s) v;
           legacy = (if rpv_role v = REQUESTER_SELF
                     then Some (build_pre_representative_fingerprint X rtype (sub_note s)) else None) in
       bind (lock_requester_for_idempotency requester) (\<lambda>_.
       bind (get_non_expired_by_idempotency_key_hash requester h now) (\<lambda>existing.
       case existing of
         Some r \<Rightarrow>
           if idempotency_fingerprint_matches r (Some fingerprint) legacy then ret r
           else raise (ConflictError ''Idempotency key is already used for another request payload'')
       | None \<Rightarrow>
           create_submitted X (submitted_request rtype requester v (sub_note s) now (Some h) (Some fingerprint)) ctx)))))))))"

subsection \<open>Transitions\<close>

definition quoted :: "string \<Rightarrow> string" where
  "quoted s = [CHR 0x27] @ s @ [CHR 0x27]"

definition get_request :: "uuid \<Rightarrow> data_subject_request app" where
  "get_request i =
     bind (dsr_get_by_id i) (\<lambda>found.
     case found of None \<Rightarrow> raise (NotFoundError ''Data subject request not found'') | Some r \<Rightarrow> ret r)"

fun allowed_transitions :: "dsr_status \<Rightarrow> dsr_status list" where
  "allowed_transitions DSR_SUBMITTED = [DSR_UNDER_REVIEW, DSR_APPROVED, DSR_CANCELLED]"
| "allowed_transitions DSR_UNDER_REVIEW = [DSR_APPROVED, DSR_REJECTED, DSR_CANCELLED]"
| "allowed_transitions DSR_APPROVED = [DSR_FULFILLED, DSR_CANCELLED]"
| "allowed_transitions _ = []"

definition fulfilment_pipeline_request_types :: "dsr_type list" where
  "fulfilment_pipeline_request_types = [DSR_EXPORT, DSR_ERASE]"

definition ensure_request_type_can_be_approved :: "data_subject_request \<Rightarrow> unit app" where
  "ensure_request_type_can_be_approved r =
     ensure (List.member fulfilment_pipeline_request_types (dsr_request_type r))
       (ConflictError ''Data-subject request type has no execution policy and cannot be approved'')"

definition ensure_representative_authority_allows_approval :: "data_subject_request \<Rightarrow> unit app" where
  "ensure_representative_authority_allows_approval r =
     ensure (List.member [REP_NOT_REQUIRED, REP_VERIFIED] (dsr_representative_status r))
       (ConflictError ''Authorised representative authority must be verified before approval'')"

definition build_transition_values ::
  "dsr_status \<Rightarrow> uuid option \<Rightarrow> string option \<Rightarrow> int \<Rightarrow> data_subject_request \<Rightarrow> data_subject_request" where
  "build_transition_values next reviewer reason now r =
     r\<lparr>dsr_status := next, dsr_reviewer := reviewer,
       dsr_reviewed_at := (if next = DSR_UNDER_REVIEW then Some now else dsr_reviewed_at r),
       dsr_decided_at := (if next = DSR_APPROVED \<or> next = DSR_REJECTED then Some now else dsr_decided_at r),
       dsr_fulfilled_at := (if next = DSR_FULFILLED then Some now else dsr_fulfilled_at r),
       dsr_cancelled_at := (if next = DSR_CANCELLED then Some now else dsr_cancelled_at r),
       dsr_rejection_reason := (if next = DSR_REJECTED then reason else dsr_rejection_reason r),
       dsr_decision_reason := (if next = DSR_APPROVED then reason else dsr_decision_reason r)\<rparr>"

text \<open>\<open>_action_for_status\<close>; a request is never moved back to \<open>submitted\<close>.\<close>

fun action_for_status :: "dsr_status \<Rightarrow> audit_action option" where
  "action_for_status DSR_UNDER_REVIEW = Some DATA_SUBJECT_REQUEST_UNDER_REVIEW"
| "action_for_status DSR_APPROVED = Some DATA_SUBJECT_REQUEST_APPROVED"
| "action_for_status DSR_REJECTED = Some DATA_SUBJECT_REQUEST_REJECTED"
| "action_for_status DSR_CANCELLED = Some DATA_SUBJECT_REQUEST_CANCELLED"
| "action_for_status DSR_FULFILLED = Some DATA_SUBJECT_REQUEST_FULFILLED"
| "action_for_status DSR_SUBMITTED = None"

definition use_fulfil_request :: app_error where
  "use_fulfil_request = ConflictError ''Use fulfil_request() to fulfil data-subject requests''"

text \<open>\<open>_transition_status\<close>; the \<open>KeyError\<close> of a target without an action is out of reach.\<close>

definition transition_request ::
  "externals \<Rightarrow> uuid \<Rightarrow> dsr_status \<Rightarrow> uuid option \<Rightarrow> string option \<Rightarrow> int option \<Rightarrow> bool \<Rightarrow> audit_context \<Rightarrow>
   data_subject_request app" where
  "transition_request X i target reviewer reason at execution_verified ctx =
     bind (case at of Some t \<Rightarrow> ret t | None \<Rightarrow> utcnow) (\<lambda>now.
     bind (get_request i) (\<lambda>r.
     bind (ensure (\<not> (target = DSR_FULFILLED \<and> \<not> execution_verified)) use_fulfil_request) (\<lambda>_.
     bind (ensure (List.member (allowed_transitions (dsr_status r)) target)
       (ConflictError (''Invalid transition from '' @ quoted (dsr_status_value (dsr_status r)) @ '' to '' @
         quoted (dsr_status_value target)))) (\<lambda>_.
     bind (if target = DSR_APPROVED
           then bind (ensure_request_type_can_be_approved r) (\<lambda>_. ensure_representative_authority_allows_approval r)
           else ret ()) (\<lambda>_.
     bind (transition_status_if_current i (dsr_status r) target (build_transition_values target reviewer reason now)) (\<lambda>updated.
     case updated of
       None \<Rightarrow>
         bind (dsr_get_by_id i) (\<lambda>latest.
         case latest of
           None \<Rightarrow> raise (NotFoundError ''Data subject request not found'')
         | Some l \<Rightarrow> raise (ConflictError (''Data subject request status changed during transition; current status is '' @
             quoted (dsr_status_value (dsr_status l)))))
     | Some u \<Rightarrow>
         (case action_for_status target of
            None \<Rightarrow> raise (RuntimeError ''KeyError'')
          | Some action \<Rightarrow> bind (record_status_event X u action ctx) (\<lambda>_. ret u))))))))"

definition transition_status ::
  "externals \<Rightarrow> uuid \<Rightarrow> dsr_status \<Rightarrow> uuid option \<Rightarrow> string option \<Rightarrow> int option \<Rightarrow> audit_context \<Rightarrow>
   data_subject_request app" where
  "transition_status X i target reviewer reason at ctx =
     (if target = DSR_FULFILLED then raise use_fulfil_request
      else transition_request X i target reviewer reason at False ctx)"

definition mark_under_review :: "externals \<Rightarrow> uuid \<Rightarrow> uuid \<Rightarrow> audit_context \<Rightarrow> data_subject_request app" where
  "mark_under_review X i reviewer ctx = transition_status X i DSR_UNDER_REVIEW (Some reviewer) None None ctx"

definition approve_request ::
  "externals \<Rightarrow> uuid \<Rightarrow> uuid \<Rightarrow> string option \<Rightarrow> audit_context \<Rightarrow> data_subject_request app" where
  "approve_request X i reviewer reason ctx = transition_status X i DSR_APPROVED (Some reviewer) reason None ctx"

definition reject_request ::
  "externals \<Rightarrow> uuid \<Rightarrow> uuid \<Rightarrow> string \<Rightarrow> audit_context \<Rightarrow> data_subject_request app" where
  "reject_request X i reviewer reason ctx = transition_status X i DSR_REJECTED (Some reviewer) (Some reason) None ctx"

definition cancel_platform_request :: "externals \<Rightarrow> uuid \<Rightarrow> uuid \<Rightarrow> audit_context \<Rightarrow> data_subject_request app" where
  "cancel_platform_request X i reviewer ctx = transition_status X i DSR_CANCELLED (Some reviewer) None None ctx"

subsection \<open>A requester's own requests\<close>

definition list_own_requests ::
  "uuid \<Rightarrow> nat \<Rightarrow> nat \<Rightarrow> dsr_status option \<Rightarrow> dsr_type option \<Rightarrow> (data_subject_request list \<times> nat) app" where
  "list_own_requests u limit offset status rtype =
     bind (dsr_list_for_requester u limit offset status rtype) (\<lambda>rows.
     bind (dsr_count_for_requester u status rtype) (\<lambda>total. ret (rows, total)))"

definition get_own_request :: "uuid \<Rightarrow> uuid \<Rightarrow> data_subject_request app" where
  "get_own_request u i =
     bind (dsr_get_by_id_for_requester i u) (\<lambda>found.
     case found of None \<Rightarrow> raise (NotFoundError ''Data subject request not found'') | Some r \<Rightarrow> ret r)"

definition cancel_own_request :: "externals \<Rightarrow> uuid \<Rightarrow> uuid \<Rightarrow> audit_context \<Rightarrow> data_subject_request app" where
  "cancel_own_request X u i ctx =
     bind (get_own_request u i) (\<lambda>r.
     bind (ensure (List.member [DSR_SUBMITTED, DSR_UNDER_REVIEW] (dsr_status r))
       (ConflictError ''Request cannot be cancelled in current state'')) (\<lambda>_.
     transition_status X i DSR_CANCELLED (Some u) None None ctx))"

definition list_platform_requests :: "nat \<Rightarrow> nat \<Rightarrow> dsr_filters \<Rightarrow> (data_subject_request list \<times> nat) app" where
  "list_platform_requests limit offset f =
     bind (dsr_list_for_platform limit offset f) (\<lambda>rows.
     bind (dsr_count_for_platform f) (\<lambda>total. ret (rows, total)))"

definition get_platform_request :: "uuid \<Rightarrow> data_subject_request app" where
  "get_platform_request i = get_request i"

subsection \<open>Representatives\<close>

definition ensure_representative_authority_reviewable :: "data_subject_request \<Rightarrow> unit app" where
  "ensure_representative_authority_reviewable r =
     bind (ensure (dsr_requester_role r = REQUESTER_REPRESENTATIVE)
       (ConflictError ''Representative authority review is only valid for authorised-representative requests'')) (\<lambda>_.
     ensure (List.member [DSR_SUBMITTED, DSR_UNDER_REVIEW] (dsr_status r))
       (ConflictError ''Representative authority cannot be changed after the request has been decided, fulfilled or cancelled''))"

definition update_representative_authority ::
  "data_subject_request \<Rightarrow> (data_subject_request \<Rightarrow> data_subject_request) \<Rightarrow> data_subject_request app" where
  "update_representative_authority r values =
     bind (update_representative_authority_if_current (dsr_id r) (dsr_status r) (dsr_representative_status r) values) (\<lambda>updated.
     case updated of
       Some u \<Rightarrow> ret u
     | None \<Rightarrow>
         bind (dsr_get_by_id (dsr_id r)) (\<lambda>latest.
         case latest of
           None \<Rightarrow> raise (NotFoundError ''Data subject request not found'')
         | Some l \<Rightarrow>
             if dsr_status l \<noteq> dsr_status r
             then raise (ConflictError (''Data subject request status changed during representative authority review; current status is '' @
               quoted (dsr_status_value (dsr_status l))))
             else raise (ConflictError (''Representative authority status changed during review; current representative status is '' @
               quoted (representative_status_value (dsr_representative_status l))))))"

definition record_representative_authority_event ::
  "externals \<Rightarrow> data_subject_request \<Rightarrow> audit_action \<Rightarrow> audit_context \<Rightarrow> string option \<Rightarrow> unit app" where
  "record_representative_authority_event X r action ctx reason =
     bind (record_event X ctx AUDIT_COMPLIANCE action TARGET_DATA_SUBJECT_REQUEST (Some (dsr_id r)) None
       (Some (JObj [(''request_type'', JStr (dsr_type_value (dsr_request_type r))),
                    (''status'', JStr (dsr_status_value (dsr_status r))),
                    (''representative_status'', JStr (representative_status_value (dsr_representative_status r))),
                    (''reason_code'', case reason of None \<Rightarrow> JNull | Some c \<Rightarrow> JStr c)]))) (\<lambda>_. ret ())"

definition verify_representative_authority ::
  "externals \<Rightarrow> uuid \<Rightarrow> uuid \<Rightarrow> string option \<Rightarrow> int option \<Rightarrow> audit_context \<Rightarrow> data_subject_request app" where
  "verify_representative_authority X i reviewer reason at ctx =
     bind (case at of Some t \<Rightarrow> ret t | None \<Rightarrow> utcnow) (\<lambda>now.
     bind (get_platform_request i) (\<lambda>r.
     bind (ensure_representative_authority_reviewable r) (\<lambda>_.
     bind (update_representative_authority r (\<lambda>x. x\<lparr>dsr_representative_status := REP_VERIFIED,
       dsr_representative_verified_at := Some now, dsr_representative_verified_by := Some reviewer,
       dsr_representative_rejection_reason := None\<rparr>)) (\<lambda>u.
     bind (record_representative_authority_event X u DATA_SUBJECT_REQUEST_REPRESENTATIVE_VERIFIED ctx reason) (\<lambda>_.
     ret u)))))"

definition reject_representative_authority ::
  "externals \<Rightarrow> uuid \<Rightarrow> string \<Rightarrow> audit_context \<Rightarrow> data_subject_request app" where
  "reject_representative_authority X i reason ctx =
     bind (get_platform_request i) (\<lambda>r.
     bind (ensure_representative_authority_reviewable r) (\<lambda>_.
     bind (update_representative_authority r (\<lambda>x. x\<lparr>dsr_representative_status := REP_REJECTED,
       dsr_representative_verified_at := None, dsr_representative_verified_by := None,
       dsr_representative_rejection_reason := Some reason\<rparr>)) (\<lambda>u.
     bind (record_representative_authority_event X u DATA_SUBJECT_REQUEST_REPRESENTATIVE_REJECTED ctx (Some reason)) (\<lambda>_.
     ret u))))"

subsection \<open>Fulfilment\<close>

definition is_ready_export_artifact_usable :: "int \<Rightarrow> export_artifact \<Rightarrow> bool" where
  "is_ready_export_artifact_usable now a \<longleftrightarrow> art_status a = ART_READY \<and> now < art_expires_at a"

definition ensure_export_ready_for_fulfilment :: "data_subject_request \<Rightarrow> unit app" where
  "ensure_export_ready_for_fulfilment r =
     bind (art_get_by_dsr_id (dsr_id r)) (\<lambda>rows.
     bind utcnow (\<lambda>now.
     ensure (list_ex (is_ready_export_artifact_usable now) rows)
       (ConflictError ''Export data-subject requests require a ready, non-expired export artifact before fulfilment'')))"

definition ensure_erasure_ready_for_fulfilment :: "data_subject_request \<Rightarrow> unit app" where
  "ensure_erasure_ready_for_fulfilment r =
     ensure (dsr_execution_status r = EXECUTION_READY)
       (ConflictError ''Erase data-subject requests require successful erasure execution before fulfilment'')"

definition ensure_execution_ready_for_fulfilment :: "data_subject_request \<Rightarrow> unit app" where
  "ensure_execution_ready_for_fulfilment r =
     bind (ensure (List.member fulfilment_pipeline_request_types (dsr_request_type r))
       (ConflictError (''Execution pipeline is not implemented for '' @ quoted (dsr_type_value (dsr_request_type r)) @
         '' data-subject requests''))) (\<lambda>_.
     if dsr_request_type r = DSR_ERASE then ensure_erasure_ready_for_fulfilment r
     else ensure_export_ready_for_fulfilment r)"

definition fulfilment_reviewer_user_id :: "data_subject_request \<Rightarrow> uuid \<Rightarrow> uuid option" where
  "fulfilment_reviewer_user_id r reviewer = (if dsr_request_type r = DSR_ERASE then None else Some reviewer)"

definition fulfil_request :: "externals \<Rightarrow> uuid \<Rightarrow> uuid \<Rightarrow> audit_context \<Rightarrow> data_subject_request app" where
  "fulfil_request X i reviewer ctx =
     bind (get_request i) (\<lambda>r.
     bind (ensure (dsr_status r = DSR_APPROVED) (ConflictError ''Only approved requests can be fulfilled'')) (\<lambda>_.
     bind (ensure_execution_ready_for_fulfilment r) (\<lambda>_.
     transition_request X i DSR_FULFILLED (fulfilment_reviewer_user_id r reviewer) None None True ctx)))"

definition is_ready_approved_erasure_request :: "data_subject_request \<Rightarrow> bool" where
  "is_ready_approved_erasure_request r \<longleftrightarrow> dsr_request_type r = DSR_ERASE \<and> dsr_status r = DSR_APPROVED \<and>
     dsr_execution_status r = EXECUTION_READY"

end
