(* ===== verification/Export_Artifacts.thy ===== *)
theory Export_Artifacts
  imports Request_Workflow
begin

section \<open>Export artifacts: the service\<close>

text \<open>
  \<^verbatim>\<open>privacy/services/export_artifacts.py\<close>: requesting an export, the leases of the worker, the
  upload intent, the transitions to ready, failed and expired, download URLs, the confirmation of a
  delivery, and the clean-up of stored objects.

  The service's settings are a record. The adapter of each storage backend is a record of programs
  (\<open>StorageAdapter\<close>); the local one is modelled in \<open>Local_Storage\<close>, the S3 one calls a client
  library. The archive is the sequence of bytes of the file; writing it (the exporters and
  \<open>zipfile\<close>) is a parameter. A temporary file is the value of \<open>archive_path\<close>, so that
  removing it has no counterpart.
\<close>

subsection \<open>Surroundings\<close>

record export_settings =
  exports_enabled :: bool
  exports_backend :: storage_backend
  exports_schema_version :: string
  artifact_retention_days :: int
  download_url_ttl_seconds :: int
  max_artifact_size_bytes :: int

datatype object_state = OBJECT_MISSING | OBJECT_RESERVED | OBJECT_MATCHING | OBJECT_CONFLICT

record publication_reservation =
  rsv_key :: string
  rsv_owner :: string
  rsv_revision :: string

record storage_adapter =
  reserve_file_publication :: "string \<Rightarrow> string \<Rightarrow> publication_reservation app"
  publish_reserved_file :: "publication_reservation \<Rightarrow> string \<Rightarrow> string \<Rightarrow> string \<Rightarrow> unit app"
  cancel_file_publication :: "publication_reservation \<Rightarrow> unit app"
  inspect_file :: "string \<Rightarrow> string \<Rightarrow> int \<Rightarrow> object_state app"
  delete_file_if_not_matching :: "string \<Rightarrow> string \<Rightarrow> int \<Rightarrow> object_state app"
  storage_delete :: "string \<Rightarrow> unit app"
  storage_download_url :: "string \<Rightarrow> int \<Rightarrow> string app"

record export_context =
  xct_artifact_id :: uuid
  xct_request_id :: uuid
  xct_subject :: "uuid option"
  xct_requester :: "uuid option"
  xct_request_type :: dsr_type
  xct_request_status :: dsr_status
  xct_generated_at :: int
  xct_schema_version :: string

record export_env =
  exp_settings :: export_settings
  exp_storage :: "storage_backend \<Rightarrow> storage_adapter"
  exp_archive :: "export_context \<Rightarrow> string app"

definition ensure_exports_enabled :: "export_env \<Rightarrow> unit app" where
  "ensure_exports_enabled E =
     ensure (exports_enabled (exp_settings E)) (ConflictError ''Privacy export artifacts are disabled'')"

definition record_artifact_event ::
  "externals \<Rightarrow> audit_context \<Rightarrow> audit_action \<Rightarrow> export_artifact \<Rightarrow> unit app" where
  "record_artifact_event X ctx action a =
     bind (record_event X ctx AUDIT_COMPLIANCE action TARGET_EXPORT_ARTIFACT (Some (art_id a)) None
       (Some (JObj [(''status'', JStr (artifact_status_value (art_status a))), (''format'', JStr ''json_zip'')]))) (\<lambda>_. ret ())"

text \<open>\<open>AuditContext(actor_user_id=u)\<close>.\<close>

definition worker_context :: "uuid option \<Rightarrow> audit_context" where
  "worker_context u = \<lparr>ctx_actor_user_id = u, ctx_ip_address = None, ctx_user_agent = None,
     ctx_network_identifier_secret = None\<rparr>"

subsection \<open>The execution state of the request\<close>

definition has_export_dsr_participant_links :: "data_subject_request \<Rightarrow> bool" where
  "has_export_dsr_participant_links r \<longleftrightarrow> dsr_subject r \<noteq> None \<and> dsr_requester r \<noteq> None"

definition ensure_download_dsr_is_still_eligible :: "export_artifact \<Rightarrow> unit app" where
  "ensure_download_dsr_is_still_eligible a =
     bind (dsr_get_by_id (art_dsr_id a)) (\<lambda>found.
     ensure (case found of None \<Rightarrow> False
       | Some r \<Rightarrow> has_export_dsr_participant_links r \<and> dsr_request_type r = DSR_EXPORT \<and>
           List.member [DSR_APPROVED, DSR_FULFILLED] (dsr_status r))
       (ConflictError ''Export artifact is no longer eligible for download''))"

text \<open>The artifact queued last; of several queued at once, the first in the given order.\<close>

fun latest_queued :: "export_artifact list \<Rightarrow> export_artifact option \<Rightarrow> export_artifact option" where
  "latest_queued [] best = best"
| "latest_queued (a # as) best =
     latest_queued as (case best of None \<Rightarrow> Some a | Some b \<Rightarrow> if art_queued_at b < art_queued_at a then Some a else best)"

definition latest_export_artifact_for_dsr :: "uuid \<Rightarrow> export_artifact option app" where
  "latest_export_artifact_for_dsr i = bind (art_get_by_dsr_id i) (\<lambda>rows. ret (latest_queued rows None))"

type_synonym execution_state = "dsr_execution_status \<times> int option \<times> string option \<times> string option"

definition first_time :: "int option list \<Rightarrow> int \<Rightarrow> int" where
  "first_time ts now = (case find (\<lambda>t. t \<noteq> None) ts of Some (Some t) \<Rightarrow> t | _ \<Rightarrow> now)"

definition expired_state :: "export_artifact \<Rightarrow> execution_state" where
  "expired_state a = (EXECUTION_FAILED, Some (art_expires_at a), Some ''artifact_expired'',
     Some ''Export artifact expired before delivery'')"

definition artifact_execution_state :: "export_artifact \<Rightarrow> int \<Rightarrow> execution_state" where
  "artifact_execution_state a now =
     (if art_downloaded_at a \<noteq> None \<or> 0 < art_download_count a
      then (EXECUTION_DELIVERED, Some (first_time [art_downloaded_at a, art_completed_at a] now), None, None)
      else case art_status a of
        ART_READY \<Rightarrow> if now < art_expires_at a
          then (EXECUTION_READY, Some (first_time [art_completed_at a] now), None, None) else expired_state a
      | ART_PROCESSING \<Rightarrow> if lease_active now a
          then (EXECUTION_PROCESSING, Some (first_time [art_started_at a] now), None, None)
          else (EXECUTION_QUEUED, Some (art_queued_at a), None, None)
      | ART_QUEUED \<Rightarrow> (EXECUTION_QUEUED, Some (art_queued_at a), None, None)
      | ART_EXPIRED \<Rightarrow> expired_state a
      | ART_FAILED \<Rightarrow> (EXECUTION_FAILED, Some (first_time [art_failed_at a, art_started_at a] now),
          art_failure_reason a, art_failure_detail a)
      | ART_CANCELLED \<Rightarrow> (EXECUTION_NOT_STARTED, Some now, None, None))"

definition execution_state_for_dsr :: "export_artifact \<Rightarrow> int \<Rightarrow> execution_state app" where
  "execution_state_for_dsr a now =
     bind (latest_export_artifact_for_dsr (art_dsr_id a)) (\<lambda>latest.
     ret (case latest of None \<Rightarrow> (EXECUTION_NOT_STARTED, Some now, None, None)
          | Some l \<Rightarrow> artifact_execution_state l now))"

definition clear_failure :: "data_subject_request \<Rightarrow> data_subject_request" where
  "clear_failure r = r\<lparr>dsr_execution_failed_at := None, dsr_execution_failure_reason := None,
     dsr_execution_failure_detail := None\<rparr>"

fun apply_execution_state ::
  "dsr_execution_status \<Rightarrow> int \<Rightarrow> string option \<Rightarrow> string option \<Rightarrow> data_subject_request \<Rightarrow> data_subject_request" where
  "apply_execution_state EXECUTION_QUEUED now reason detail r =
     clear_failure (r\<lparr>dsr_execution_status := EXECUTION_QUEUED, dsr_execution_started_at := None,
       dsr_execution_completed_at := None\<rparr>)"
| "apply_execution_state EXECUTION_PROCESSING now reason detail r =
     clear_failure (r\<lparr>dsr_execution_status := EXECUTION_PROCESSING,
       dsr_execution_started_at := (if dsr_execution_started_at r = None then Some now else dsr_execution_started_at r),
       dsr_execution_completed_at := None\<rparr>)"
| "apply_execution_state EXECUTION_READY now reason detail r =
     clear_failure (r\<lparr>dsr_execution_status := EXECUTION_READY, dsr_execution_completed_at := Some now\<rparr>)"
| "apply_execution_state EXECUTION_FAILED now reason detail r =
     r\<lparr>dsr_execution_status := EXECUTION_FAILED, dsr_execution_completed_at := None,
       dsr_execution_failed_at := Some now, dsr_execution_failure_reason := reason,
       dsr_execution_failure_detail := detail\<rparr>"
| "apply_execution_state EXECUTION_DELIVERED now reason detail r =
     clear_failure (r\<lparr>dsr_execution_status := EXECUTION_DELIVERED,
       dsr_execution_completed_at := (if dsr_execution_completed_at r = None then Some now else dsr_execution_completed_at r)\<rparr>)"
| "apply_execution_state s now reason detail r = r\<lparr>dsr_execution_status := s\<rparr>"

definition sync_export_dsr_execution_state :: "export_artifact \<Rightarrow> execution_state \<Rightarrow> unit app" where
  "sync_export_dsr_execution_state a given =
     bind (case fst (snd given) of Some t \<Rightarrow> ret t | None \<Rightarrow> utcnow) (\<lambda>ref.
     bind (latest_export_artifact_for_dsr (art_dsr_id a)) (\<lambda>latest.
     bind (case latest of
         Some l \<Rightarrow> if art_id l \<noteq> art_id a
           then bind (execution_state_for_dsr l ref) (\<lambda>st. ret (l, st))
           else ret (a, given)
       | None \<Rightarrow> ret (a, given)) (\<lambda>(art, status, at, reason, detail).
     bind (dsr_get_by_id (art_dsr_id art)) (\<lambda>found.
     case found of
       None \<Rightarrow> ret ()
     | Some r \<Rightarrow>
         if dsr_request_type r \<noteq> DSR_EXPORT then ret ()
         else bind (dsr_save r (apply_execution_state status (case at of Some t \<Rightarrow> t | None \<Rightarrow> ref) reason detail)) (\<lambda>_. ret ())))))"

subsection \<open>Requesting and reading\<close>

definition queued_artifact ::
  "export_settings \<Rightarrow> data_subject_request \<Rightarrow> uuid \<Rightarrow> int \<Rightarrow> uuid \<Rightarrow> int \<Rightarrow> int \<Rightarrow> export_artifact" where
  "queued_artifact cfg r by queued i c t =
     \<lparr>art_id = i, art_dsr_id = dsr_id r, art_subject = dsr_subject r, art_requester = dsr_requester r,
      art_status = ART_QUEUED, art_storage_backend = exports_backend cfg, art_storage_key = None,
      art_filename = None, art_content_type = None, art_size_bytes = None, art_checksum_sha256 = None,
      art_schema_version = exports_schema_version cfg, art_requested_by = Some by, art_generated_by = None,
      art_failure_reason = None, art_failure_detail = None, art_queued_at = queued, art_started_at = None,
      art_processing_token = None, art_lease_expires_at = None, art_completed_at = None, art_failed_at = None,
      art_expires_at = queued + days_us (artifact_retention_days cfg), art_url_issued_at = None,
      art_url_issue_count = 0, art_downloaded_at = None, art_download_count = 0, art_created_at = c,
      art_updated_at = t\<rparr>"

definition export_eligible :: "data_subject_request \<Rightarrow> bool" where
  "export_eligible r \<longleftrightarrow> dsr_request_type r = DSR_EXPORT \<and> dsr_status r = DSR_APPROVED \<and>
     has_export_dsr_participant_links r"

definition request_export_artifact ::
  "externals \<Rightarrow> export_env \<Rightarrow> uuid \<Rightarrow> uuid \<Rightarrow> audit_context \<Rightarrow> export_artifact app" where
  "request_export_artifact X E i by ctx =
     bind (ensure_exports_enabled E) (\<lambda>_.
     bind (dsr_get_by_id i) (\<lambda>found.
     case found of
       None \<Rightarrow> raise (NotFoundError ''Data subject request not found'')
     | Some r \<Rightarrow>
     bind (ensure (export_eligible r)
       (ConflictError ''Export artifact can only be requested for approved export data-subject requests'')) (\<lambda>_.
     bind utcnow (\<lambda>queued.
     bind (art_create (queued_artifact (exp_settings E) r by queued)) (\<lambda>a.
     bind (sync_export_dsr_execution_state a (EXECUTION_QUEUED, Some queued, None, None)) (\<lambda>_.
     bind (record_artifact_event X ctx EXPORT_ARTIFACT_REQUESTED a) (\<lambda>_.
     ret a)))))))"

definition artifact_not_found :: app_error where
  "artifact_not_found = NotFoundError ''Export artifact not found''"

definition get_own_export_artifact :: "uuid \<Rightarrow> uuid \<Rightarrow> export_artifact app" where
  "get_own_export_artifact i u =
     bind (art_get_by_id i) (\<lambda>found.
     case found of
       None \<Rightarrow> raise artifact_not_found
     | Some a \<Rightarrow> if art_requester a \<noteq> Some u then raise artifact_not_found else ret a)"

definition list_own_export_artifacts :: "uuid \<Rightarrow> nat \<Rightarrow> nat \<Rightarrow> (export_artifact list \<times> nat) app" where
  "list_own_export_artifacts u limit offset =
     bind (art_list_for_requester u limit offset) (\<lambda>rows.
     bind (art_count_for_requester u) (\<lambda>total. ret (rows, total)))"

definition get_platform_export_artifact :: "uuid \<Rightarrow> export_artifact app" where
  "get_platform_export_artifact i =
     bind (art_get_by_id i) (\<lambda>found. case found of None \<Rightarrow> raise artifact_not_found | Some a \<Rightarrow> ret a)"

definition list_platform_export_artifacts :: "nat \<Rightarrow> nat \<Rightarrow> (export_artifact list \<times> nat) app" where
  "list_platform_export_artifacts limit offset =
     bind (art_list_for_platform limit offset) (\<lambda>rows.
     bind art_count_for_platform (\<lambda>total. ret (rows, total)))"

subsection \<open>Download and delivery\<close>

text \<open>\<open>int(delta.total_seconds())\<close> rounds towards zero.\<close>

definition whole_seconds :: "int \<Rightarrow> int" where
  "whole_seconds us = (if 0 \<le> us then us div 1000000 else - ((- us) div 1000000))"

record download_url =
  dld_url :: string
  dld_expires_in_seconds :: int

definition generate_download_url ::
  "externals \<Rightarrow> export_env \<Rightarrow> export_artifact \<Rightarrow> audit_context \<Rightarrow> download_url app" where
  "generate_download_url X E a ctx =
     bind (ensure_exports_enabled E) (\<lambda>_.
     bind utcnow (\<lambda>now.
     bind (ensure (art_status a = ART_READY) (ConflictError ''Export artifact is not available for download'')) (\<lambda>_.
     bind (ensure_download_dsr_is_still_eligible a) (\<lambda>_.
     let remaining = whole_seconds (art_expires_at a - now) in
     bind (ensure (0 < remaining) (ConflictError ''Export artifact is expired'')) (\<lambda>_.
     case art_storage_key a of
       None \<Rightarrow> raise (ConflictError ''Export artifact is missing storage key'')
     | Some key \<Rightarrow>
       let ttl = min (download_url_ttl_seconds (exp_settings E)) remaining in
       bind (storage_download_url (exp_storage E (art_storage_backend a)) key ttl) (\<lambda>url.
       bind (record_download_url_issued a) (\<lambda>issued.
       bind (record_artifact_event X ctx EXPORT_ARTIFACT_DOWNLOAD_URL_CREATED issued) (\<lambda>_.
       ret \<lparr>dld_url = url, dld_expires_in_seconds = ttl\<rparr>))))))))"

definition confirm_export_delivery ::
  "externals \<Rightarrow> export_env \<Rightarrow> export_artifact \<Rightarrow> audit_context \<Rightarrow> export_artifact app" where
  "confirm_export_delivery X E a ctx =
     bind (ensure_exports_enabled E) (\<lambda>_.
     bind utcnow (\<lambda>now.
     bind (ensure (art_status a = ART_READY) (ConflictError ''Export artifact is not available for delivery'')) (\<lambda>_.
     bind (ensure_download_dsr_is_still_eligible a) (\<lambda>_.
     bind (ensure (now < art_expires_at a)
       (ConflictError ''Export artifact delivery cannot be confirmed after expiry'')) (\<lambda>_.
     bind (ensure (art_storage_key a \<noteq> None) (ConflictError ''Export artifact is missing storage key'')) (\<lambda>_.
     bind (repo_confirm_delivery a now) (\<lambda>(delivered, newly_confirmed).
     if \<not> newly_confirmed
     then if art_downloaded_at delivered = None \<and> art_download_count delivered = 0
          then raise (ConflictError ''Export artifact is no longer available for delivery'')
          else ret delivered
     else
       bind (sync_export_dsr_execution_state delivered
         (EXECUTION_DELIVERED, art_downloaded_at delivered, None, None)) (\<lambda>_.
       bind (record_artifact_event X ctx EXPORT_ARTIFACT_DELIVERY_CONFIRMED delivered) (\<lambda>_.
       ret delivered)))))))))"

subsection \<open>The worker's leases\<close>

definition count_queued_artifacts :: "export_env \<Rightarrow> nat \<Rightarrow> nat app" where
  "count_queued_artifacts E limit =
     (if \<not> exports_enabled (exp_settings E) then ret 0
      else bind (peek_queued_batch limit) (\<lambda>rows. ret (length rows)))"

definition recover_stale_processing_artifacts :: "nat \<Rightarrow> nat app" where
  "recover_stale_processing_artifacts limit =
     bind utcnow (\<lambda>now.
     bind (recover_stale_processing now limit) (\<lambda>recovered.
     bind (for_each recovered (\<lambda>a. bind (execution_state_for_dsr a now) (sync_export_dsr_execution_state a))) (\<lambda>_.
     ret (length recovered))))"

text \<open>A \<open>ProcessingExportLease\<close> is the artifact and the token of its lease.\<close>

definition claim_queued_artifact_leases :: "export_env \<Rightarrow> nat \<Rightarrow> (uuid \<times> string) list app" where
  "claim_queued_artifact_leases E batch =
     (if \<not> exports_enabled (exp_settings E) then ret []
      else
        bind (recover_stale_processing_artifacts batch) (\<lambda>_.
        bind (claim_queued_batch batch 3600) (\<lambda>rows.
        bind (for_each rows (\<lambda>a. sync_export_dsr_execution_state a (EXECUTION_PROCESSING, art_started_at a, None, None))) (\<lambda>_.
        ret (List.map_filter (\<lambda>a. map_option (\<lambda>t. (art_id a, t)) (art_processing_token a)) rows)))))"

definition claim_queued_artifact_ids :: "export_env \<Rightarrow> nat \<Rightarrow> uuid list app" where
  "claim_queued_artifact_ids E batch = bind (claim_queued_artifact_leases E batch) (\<lambda>ls. ret (map fst ls))"

definition renew_processing_lease :: "uuid \<times> string \<Rightarrow> bool app" where
  "renew_processing_lease lease = repo_renew_processing_lease (fst lease) (snd lease) 3600"

subsection \<open>Archives\<close>

record prepared_archive =
  pre_artifact_id :: uuid
  pre_backend :: storage_backend
  pre_storage_key :: string
  pre_filename :: string
  pre_content_type :: string
  pre_file :: "string option"
  pre_size :: int
  pre_checksum :: string

definition prepared_from_committed_upload_intent :: "export_artifact \<Rightarrow> prepared_archive app" where
  "prepared_from_committed_upload_intent a =
     (case (art_storage_key a, art_filename a, art_content_type a, art_size_bytes a, art_checksum_sha256 a) of
        (Some key, Some filename, Some ct, Some n, Some digest) \<Rightarrow>
          ret \<lparr>pre_artifact_id = art_id a, pre_backend = art_storage_backend a, pre_storage_key = key,
               pre_filename = filename, pre_content_type = ct, pre_file = None, pre_size = n, pre_checksum = digest\<rparr>
      | _ \<Rightarrow> raise (ConflictError ''Export artifact upload intent metadata is incomplete''))"

definition prepare_export_archive ::
  "externals \<Rightarrow> export_env \<Rightarrow> uuid \<Rightarrow> string \<Rightarrow> prepared_archive app" where
  "prepare_export_archive X E i token =
     bind (ensure_exports_enabled E) (\<lambda>_.
     bind (get_processing_by_token i token) (\<lambda>found.
     case found of
       None \<Rightarrow> raise artifact_not_found
     | Some a \<Rightarrow>
     bind (dsr_get_by_id (art_dsr_id a)) (\<lambda>found_dsr.
     case found_dsr of
       None \<Rightarrow> raise (ValueError ''dsr_not_found'')
     | Some r \<Rightarrow>
     bind (ensure (export_eligible r) (ValueError ''dsr_not_export_eligible'')) (\<lambda>_.
     if art_storage_key a \<noteq> None then prepared_from_committed_upload_intent a
     else
     bind utcnow (\<lambda>now.
     bind uuid4 (\<lambda>u.
     let filename = ''privacy-export-'' @ uuid_str (art_id a) @ ''.zip'';
         ct = ''application/zip'';
         candidate = ''exports/'' @ uuid_str (art_id a) @ ''/'' @ uuid_str u @ ''.zip'' in
     bind (exp_archive E \<lparr>xct_artifact_id = art_id a, xct_request_id = dsr_id r, xct_subject = dsr_subject r,
       xct_requester = dsr_requester r, xct_request_type = dsr_request_type r, xct_request_status = dsr_status r,
       xct_generated_at = now, xct_schema_version = art_schema_version a\<rparr>) (\<lambda>bytes.
     let n = int (length bytes); digest = sha256_hex X bytes in
     bind (ensure (n \<le> max_artifact_size_bytes (exp_settings E)) (ValueError ''artifact_too_large'')) (\<lambda>_.
     bind utcnow (\<lambda>later.
     bind (ensure_processing_upload_intent (art_id a) token candidate filename ct n digest later) (\<lambda>intent.
     case intent of
       None \<Rightarrow> raise (ConflictError ''Export artifact processing lease is no longer active'')
     | Some x \<Rightarrow>
     bind (prepared_from_committed_upload_intent x) (\<lambda>committed.
     if pre_storage_key committed \<noteq> candidate \<or> pre_filename committed \<noteq> filename \<or>
        pre_content_type committed \<noteq> ct \<or> pre_size committed \<noteq> n \<or> pre_checksum committed \<noteq> digest
     then ret committed
     else ret \<lparr>pre_artifact_id = art_id a, pre_backend = art_storage_backend x, pre_storage_key = candidate,
                pre_filename = filename, pre_content_type = ct, pre_file = Some bytes, pre_size = n,
                pre_checksum = digest\<rparr>)))))))))))"

definition prepared_metadata_matches_artifact :: "prepared_archive \<Rightarrow> export_artifact \<Rightarrow> bool" where
  "prepared_metadata_matches_artifact p a \<longleftrightarrow>
     art_storage_backend a = pre_backend p \<and> art_storage_key a = Some (pre_storage_key p) \<and>
     art_filename a = Some (pre_filename p) \<and> art_content_type a = Some (pre_content_type p) \<and>
     art_size_bytes a = Some (pre_size p) \<and> art_checksum_sha256 a = Some (pre_checksum p)"

definition validate_prepared_export_upload :: "prepared_archive \<Rightarrow> string \<Rightarrow> unit app" where
  "validate_prepared_export_upload p token =
     bind utcnow (\<lambda>now.
     bind (get_active_processing_upload_intent (pre_artifact_id p) token now (Some (pre_backend p))
       (Some (pre_storage_key p))) (\<lambda>found.
     case found of
       None \<Rightarrow> raise (ConflictError ''Export artifact upload intent is no longer active'')
     | Some a \<Rightarrow> ensure (prepared_metadata_matches_artifact p a)
         (ConflictError ''Export artifact upload intent metadata no longer matches'')))"

definition inspect_committed_export_archive :: "export_env \<Rightarrow> prepared_archive \<Rightarrow> object_state app" where
  "inspect_committed_export_archive E p =
     inspect_file (exp_storage E (pre_backend p)) (pre_storage_key p) (pre_checksum p) (pre_size p)"

definition recovered_archive :: app_error where
  "recovered_archive = ConflictError ''Recovered export archive does not require publication''"

definition reserve_prepared_export_archive ::
  "export_env \<Rightarrow> prepared_archive \<Rightarrow> string \<Rightarrow> publication_reservation app" where
  "reserve_prepared_export_archive E p token =
     bind (ensure (pre_file p \<noteq> None) recovered_archive) (\<lambda>_.
     reserve_file_publication (exp_storage E (pre_backend p)) (pre_storage_key p) token)"

definition publish_prepared_export_archive ::
  "export_env \<Rightarrow> prepared_archive \<Rightarrow> publication_reservation \<Rightarrow> unit app" where
  "publish_prepared_export_archive E p rsv =
     (case pre_file p of
        None \<Rightarrow> raise recovered_archive
      | Some bytes \<Rightarrow>
          bind (ensure (rsv_key rsv = pre_storage_key p)
            (ConflictError ''Export archive storage reservation no longer matches'')) (\<lambda>_.
          publish_reserved_file (exp_storage E (pre_backend p)) rsv bytes (pre_content_type p) (pre_checksum p)))"

definition cancel_prepared_export_archive_reservation ::
  "export_env \<Rightarrow> prepared_archive \<Rightarrow> publication_reservation \<Rightarrow> unit app" where
  "cancel_prepared_export_archive_reservation E p rsv = cancel_file_publication (exp_storage E (pre_backend p)) rsv"

definition delete_prepared_export_storage_object_if_not_matching ::
  "export_env \<Rightarrow> prepared_archive \<Rightarrow> object_state app" where
  "delete_prepared_export_storage_object_if_not_matching E p =
     delete_file_if_not_matching (exp_storage E (pre_backend p)) (pre_storage_key p) (pre_checksum p) (pre_size p)"

definition reset_prepared_export_upload_intent :: "prepared_archive \<Rightarrow> string \<Rightarrow> bool app" where
  "reset_prepared_export_upload_intent p token =
     bind utcnow (\<lambda>now.
     reset_processing_upload_intent (pre_artifact_id p) token (pre_backend p) (pre_storage_key p) now)"

subsection \<open>Outcomes\<close>

definition load_processed :: "uuid \<Rightarrow> string option \<Rightarrow> export_artifact option app" where
  "load_processed i token = (case token of None \<Rightarrow> art_get_by_id i | Some t \<Rightarrow> get_processing_by_token i t)"

definition mark_generated_export_artifact_ready ::
  "externals \<Rightarrow> uuid \<Rightarrow> prepared_archive \<Rightarrow> uuid option \<Rightarrow> string option \<Rightarrow> export_artifact app" where
  "mark_generated_export_artifact_ready X i p by token =
     bind (load_processed i token) (\<lambda>found.
     case found of
       None \<Rightarrow> raise (ConflictError ''Export artifact processing lease is no longer active'')
     | Some a \<Rightarrow>
     bind (ensure (prepared_metadata_matches_artifact p a)
       (ConflictError ''Export artifact upload intent no longer matches'')) (\<lambda>_.
     bind (art_mark_ready a (\<lambda>x. x\<lparr>art_filename := Some (pre_filename p), art_content_type := Some (pre_content_type p),
       art_size_bytes := Some (pre_size p), art_checksum_sha256 := Some (pre_checksum p), art_generated_by := by\<rparr>)) (\<lambda>ready.
     bind (sync_export_dsr_execution_state ready (EXECUTION_READY, art_completed_at ready, None, None)) (\<lambda>_.
     bind (record_artifact_event X (worker_context by) EXPORT_ARTIFACT_GENERATED ready) (\<lambda>_.
     ret ready)))))"

text \<open>\<open>str(exc)\<close> of the exceptions generation raises.\<close>

fun exception_text :: "app_error \<Rightarrow> string" where
  "exception_text (ValueError s) = s"
| "exception_text (BadRequestError s) = s"
| "exception_text (NotFoundError s) = s"
| "exception_text (ConflictError s) = s"
| "exception_text (RuntimeError s) = s"
| "exception_text (StorageObjectConflictError s) = s"
| "exception_text (StorageObjectStateUnknownError s) = s"
| "exception_text (SubjectDataExportError s) = s"
| "exception_text _ = []"

definition export_generation_failure_codes :: "string list" where
  "export_generation_failure_codes = [''artifact_too_large'', ''dsr_not_found'', ''dsr_not_export_eligible'']"

definition generation_failure_code :: "app_error \<Rightarrow> string" where
  "generation_failure_code e =
     (if List.member export_generation_failure_codes (exception_text e) then exception_text e else ''generation_failed'')"

definition service_mark_export_artifact_failed ::
  "externals \<Rightarrow> uuid \<Rightarrow> app_error \<Rightarrow> uuid option \<Rightarrow> string option \<Rightarrow> export_artifact option app" where
  "service_mark_export_artifact_failed X i e by token =
     bind (load_processed i token) (\<lambda>found.
     case found of
       None \<Rightarrow> ret None
     | Some a \<Rightarrow>
     let code = generation_failure_code e in
     bind (art_mark_failed a code ''Export generation failed'') (\<lambda>failed.
     bind (sync_export_dsr_execution_state failed
       (EXECUTION_FAILED, art_failed_at failed, Some code, art_failure_detail failed)) (\<lambda>_.
     bind (record_artifact_event X (worker_context by) EXPORT_ARTIFACT_FAILED failed) (\<lambda>_.
     ret (Some failed)))))"

subsection \<open>Clean-up of stored objects\<close>

record storage_purge =
  prg_artifact_id :: uuid
  prg_expected_status :: artifact_status
  prg_backend :: storage_backend
  prg_key :: string

definition failed_storage_cleanup :: "export_artifact \<Rightarrow> storage_purge option" where
  "failed_storage_cleanup a = (case art_storage_key a of
     Some key \<Rightarrow> if art_status a = ART_FAILED
       then Some \<lparr>prg_artifact_id = art_id a, prg_expected_status = ART_FAILED,
                  prg_backend = art_storage_backend a, prg_key = key\<rparr>
       else None
   | None \<Rightarrow> None)"

definition delete_failed_export_storage_object :: "export_env \<Rightarrow> storage_purge \<Rightarrow> unit app" where
  "delete_failed_export_storage_object E c = storage_delete (exp_storage E (prg_backend c)) (prg_key c)"

definition clear_failed_export_storage_metadata :: "storage_purge \<Rightarrow> bool app" where
  "clear_failed_export_storage_metadata c =
     bind (get_failed_storage_purge_target (prg_artifact_id c) (prg_key c)) (\<lambda>found.
     case found of
       None \<Rightarrow> ret False
     | Some a \<Rightarrow> bind (art_save a clear_export_artifact_storage_metadata) (\<lambda>_. ret True))"

definition is_non_downloadable_storage_purge_retry :: "export_artifact \<Rightarrow> bool" where
  "is_non_downloadable_storage_purge_retry a \<longleftrightarrow>
     List.member [ART_EXPIRED, ART_FAILED] (art_status a) \<or>
     art_status a = ART_CANCELLED \<and> art_failure_reason a = Some subject_erasure_requested"

definition storage_purges_for :: "export_artifact list \<Rightarrow> storage_purge list" where
  "storage_purges_for rows = List.map_filter (\<lambda>a. case art_storage_key a of
     None \<Rightarrow> None
   | Some key \<Rightarrow> if is_non_downloadable_storage_purge_retry a
       then Some \<lparr>prg_artifact_id = art_id a, prg_expected_status = art_status a,
                  prg_backend = art_storage_backend a, prg_key = key\<rparr>
       else None) rows"

definition validate_positive_limit :: "nat \<Rightarrow> unit app" where
  "validate_positive_limit limit = ensure (1 \<le> limit) (ValueError ''Export artifact retention limit must be positive'')"

definition list_cancelled_erasure_storage_purges :: "nat \<Rightarrow> storage_purge list app" where
  "list_cancelled_erasure_storage_purges limit =
     bind (validate_positive_limit limit) (\<lambda>_.
     bind (list_cancelled_erasure_purge_retry limit) (\<lambda>rows. ret (storage_purges_for rows)))"

definition list_failed_storage_purges :: "nat \<Rightarrow> storage_purge list app" where
  "list_failed_storage_purges limit =
     bind (validate_positive_limit limit) (\<lambda>_.
     bind (list_failed_storage_purge_retry limit) (\<lambda>rows. ret (storage_purges_for rows)))"

definition list_expired_storage_purges :: "nat \<Rightarrow> uuid list \<Rightarrow> storage_purge list app" where
  "list_expired_storage_purges limit exclude =
     bind (validate_positive_limit limit) (\<lambda>_.
     bind (list_expired_storage_purge_retry limit exclude) (\<lambda>rows. ret (storage_purges_for rows)))"

definition delete_export_storage_purge_object :: "export_env \<Rightarrow> storage_purge \<Rightarrow> unit app" where
  "delete_export_storage_purge_object E p = storage_delete (exp_storage E (prg_backend p)) (prg_key p)"

definition clear_export_storage_purge_metadata :: "storage_purge \<Rightarrow> bool app" where
  "clear_export_storage_purge_metadata p =
     bind (get_storage_purge_target (prg_artifact_id p) (prg_expected_status p) (prg_backend p) (prg_key p)) (\<lambda>found.
     case found of
       None \<Rightarrow> ret False
     | Some a \<Rightarrow>
         if \<not> is_non_downloadable_storage_purge_retry a then ret False
         else bind (art_save a clear_export_artifact_storage_metadata) (\<lambda>_. ret True))"

text \<open>
  \<open>markers\<close> are the artifacts this session has expired in the open transaction
  (\<open>session.info\<close>), which is what \<open>expire_ready_artifacts\<close> returns.
\<close>

definition count_expired_ready_artifacts :: "uuid list \<Rightarrow> int option \<Rightarrow> nat \<Rightarrow> nat app" where
  "count_expired_ready_artifacts markers at limit =
     bind (validate_positive_limit limit) (\<lambda>_.
     bind (case at of Some t \<Rightarrow> ret t | None \<Rightarrow> utcnow) (\<lambda>now.
     bind (list_cancelled_erasure_purge_retry limit) (\<lambda>cancelled.
     if limit \<le> length cancelled then ret (length cancelled)
     else
     bind (list_failed_storage_purge_retry (limit - length cancelled)) (\<lambda>failed.
     let n = length cancelled + length failed in
     if limit \<le> n then ret n
     else
     bind (list_expired_ready now (limit - n)) (\<lambda>ready.
     let m = n + length ready in
     if limit \<le> m then ret m
     else
     bind (list_expired_storage_purge_retry (limit - m) markers) (\<lambda>retry. ret (m + length retry)))))))"

definition expire_ready_artifacts :: "externals \<Rightarrow> int option \<Rightarrow> nat \<Rightarrow> uuid list app" where
  "expire_ready_artifacts X at limit =
     bind (validate_positive_limit limit) (\<lambda>_.
     bind (case at of Some t \<Rightarrow> ret t | None \<Rightarrow> utcnow) (\<lambda>now.
     bind (list_expired_ready now limit) (\<lambda>rows.
     map_each rows (\<lambda>a.
       bind (art_mark_expired a) (\<lambda>expired.
       bind (execution_state_for_dsr expired now) (\<lambda>st.
       bind (sync_export_dsr_execution_state expired st) (\<lambda>_.
       bind (record_artifact_event X (worker_context None) EXPORT_ARTIFACT_EXPIRED expired) (\<lambda>_.
       ret (art_id expired)))))))))"

definition mark_expired_artifacts :: "externals \<Rightarrow> int option \<Rightarrow> nat \<Rightarrow> nat app" where
  "mark_expired_artifacts X at limit = bind (expire_ready_artifacts X at limit) (\<lambda>ids. ret (length ids))"

end
