(* ===== verification/Local_Storage.thy ===== *)
theory Local_Storage
  imports Export_Artifacts
begin

section \<open>The local object store\<close>

text \<open>
  \<^verbatim>\<open>privacy/storage/local.py\<close> over the entries below the base path. Every operation holds
  the file lock of its key, so operations on one key do not interleave and the retry loop of a
  reservation ends in its first round. A directory and the files in it belong to one key: keys do
  not lie below one another (the service's keys are \<open>exports/<artifact>/<uuid>.zip\<close>). Bytes are the
  characters of a string; \<open>verify_download_url\<close> has no caller in the application.
\<close>

subsection \<open>Keys\<close>

text \<open>\<open>PurePosixPath(key).parts\<close> of a relative path: empty segments and \<open>.\<close> are dropped.\<close>

definition path_parts :: "string \<Rightarrow> string list" where
  "path_parts key = filter (\<lambda>p. p \<noteq> [] \<and> p \<noteq> ''.'') (split_on (CHR ''/'') key)"

definition validate_key :: "string \<Rightarrow> app_error + string" where
  "validate_key key =
     (if key = [] \<or> strip key = [] then Inl (ValueError ''Storage key must not be empty'')
      else if key \<noteq> strip key then Inl (ValueError ''Storage key must not have surrounding whitespace'')
      else if has_char (CHR 0x5C) key then Inl (ValueError ''Storage key must use forward slashes'')
      else if has_char (CHR '':'') key then Inl (ValueError ''Storage key must not contain drive or URI separators'')
      else if contains_str ''//'' key then Inl (ValueError ''Storage key must not contain empty path segments'')
      else let parts = path_parts key in
        if hd key = CHR ''/'' \<or> parts = [] \<or> list_ex (\<lambda>p. List.member [[], ''.'', ''..''] p) parts
        then Inl (ValueError ''Invalid storage key'')
        else Inr (join ''/'' parts))"

definition resolve_key :: "string \<Rightarrow> string app" where
  "resolve_key key = lift (validate_key key)"

definition read_entry :: "string \<Rightarrow> stored_entry option app" where
  "read_entry k = gets (\<lambda>w. files w k)"

definition write_entry :: "string \<Rightarrow> stored_entry option \<Rightarrow> unit app" where
  "write_entry k e w = (Inr (), w\<lparr>files := (files w)(k := e)\<rparr>)"

subsection \<open>Publication\<close>

definition conflict :: "string \<Rightarrow> 'a app" where
  "conflict s = raise (StorageObjectConflictError s)"

definition local_put_bytes :: "string \<Rightarrow> string \<Rightarrow> unit app" where
  "local_put_bytes key bytes =
     bind (resolve_key key) (\<lambda>k.
     bind (read_entry k) (\<lambda>e.
     case e of
       Some (KeyDirectory _ _) \<Rightarrow> raise (RuntimeError ''IsADirectoryError'')
     | _ \<Rightarrow> write_entry k (Some (PlainFile bytes))))"

definition reservation_for :: "string \<Rightarrow> string \<Rightarrow> publication_reservation" where
  "reservation_for key owner = \<lparr>rsv_key = key, rsv_owner = owner, rsv_revision = owner\<rparr>"

definition local_reserve_file_publication :: "string \<Rightarrow> string \<Rightarrow> publication_reservation app" where
  "local_reserve_file_publication key owner =
     bind (resolve_key key) (\<lambda>k.
     bind (read_entry k) (\<lambda>e.
     case e of
       None \<Rightarrow> bind (write_entry k (Some (KeyDirectory (Some owner) None))) (\<lambda>_. ret (reservation_for key owner))
     | Some (PlainFile _) \<Rightarrow> conflict ''Storage key already contains a published object''
     | Some (KeyDirectory _ (Some _)) \<Rightarrow> conflict ''Storage key already contains a published object''
     | Some (KeyDirectory None None) \<Rightarrow>
         bind (write_entry k (Some (KeyDirectory (Some owner) None))) (\<lambda>_. ret (reservation_for key owner))
     | Some (KeyDirectory (Some other) None) \<Rightarrow>
         if other = owner then ret (reservation_for key owner)
         else conflict ''Storage key is reserved by another publisher''))"

definition local_publish_reserved_file ::
  "externals \<Rightarrow> publication_reservation \<Rightarrow> string \<Rightarrow> string \<Rightarrow> string \<Rightarrow> unit app" where
  "local_publish_reserved_file X rsv bytes content_type checksum =
     bind (resolve_key (rsv_key rsv)) (\<lambda>k.
     bind (ensure (sha256_hex X bytes = checksum) (ValueError ''Prepared storage file checksum changed'')) (\<lambda>_.
     bind (read_entry k) (\<lambda>e.
     case e of
       Some (KeyDirectory (Some owner) stored) \<Rightarrow>
         if owner \<noteq> rsv_owner rsv \<or> rsv_revision rsv \<noteq> rsv_owner rsv
         then conflict ''Storage publication reservation is no longer owned''
         else (case stored of
           None \<Rightarrow> write_entry k (Some (KeyDirectory None (Some bytes)))
         | Some old \<Rightarrow>
             if sha256_hex X old \<noteq> sha256_hex X bytes \<or> length old \<noteq> length bytes
             then conflict ''Storage key already contains different bytes''
             else write_entry k (Some (KeyDirectory None (Some old))))
     | _ \<Rightarrow> conflict ''Storage publication reservation is no longer active'')))"

definition local_cancel_file_publication :: "publication_reservation \<Rightarrow> unit app" where
  "local_cancel_file_publication rsv =
     bind (resolve_key (rsv_key rsv)) (\<lambda>k.
     bind (read_entry k) (\<lambda>e.
     case e of
       Some (KeyDirectory (Some owner) stored) \<Rightarrow>
         if owner \<noteq> rsv_owner rsv \<or> stored \<noteq> None then ret () else write_entry k None
     | _ \<Rightarrow> ret ()))"

subsection \<open>Inspection and deletion\<close>

fun entry_object :: "stored_entry \<Rightarrow> string option" where
  "entry_object (PlainFile bytes) = Some bytes"
| "entry_object (KeyDirectory _ stored) = stored"

definition entry_state :: "externals \<Rightarrow> string \<Rightarrow> int \<Rightarrow> stored_entry option \<Rightarrow> object_state" where
  "entry_state X checksum bytes e =
     (case e of
        None \<Rightarrow> OBJECT_MISSING
      | Some (KeyDirectory (Some _) None) \<Rightarrow> OBJECT_RESERVED
      | Some (KeyDirectory None None) \<Rightarrow> OBJECT_CONFLICT
      | Some entry \<Rightarrow>
          (case entry_object entry of
             Some old \<Rightarrow> if sha256_hex X old = checksum \<and> int (length old) = bytes then OBJECT_MATCHING else OBJECT_CONFLICT
           | None \<Rightarrow> OBJECT_CONFLICT))"

definition local_inspect_file :: "externals \<Rightarrow> string \<Rightarrow> string \<Rightarrow> int \<Rightarrow> object_state app" where
  "local_inspect_file X key checksum bytes =
     bind (resolve_key key) (\<lambda>k. bind (read_entry k) (\<lambda>e. ret (entry_state X checksum bytes e)))"

definition local_delete_file_if_not_matching :: "externals \<Rightarrow> string \<Rightarrow> string \<Rightarrow> int \<Rightarrow> object_state app" where
  "local_delete_file_if_not_matching X key checksum bytes =
     bind (resolve_key key) (\<lambda>k.
     bind (read_entry k) (\<lambda>e.
     if entry_state X checksum bytes e = OBJECT_MATCHING then ret OBJECT_MATCHING
     else bind (write_entry k None) (\<lambda>_. ret OBJECT_MISSING)))"

definition local_get_bytes :: "string \<Rightarrow> string app" where
  "local_get_bytes key =
     bind (resolve_key key) (\<lambda>k.
     bind (read_entry k) (\<lambda>e.
     case e of
       Some entry \<Rightarrow> (case entry_object entry of Some bytes \<Rightarrow> ret bytes | None \<Rightarrow> raise (RuntimeError ''FileNotFoundError''))
     | None \<Rightarrow> raise (RuntimeError ''FileNotFoundError'')))"

definition local_exists :: "string \<Rightarrow> bool app" where
  "local_exists key =
     bind (resolve_key key) (\<lambda>k.
     bind (read_entry k) (\<lambda>e. ret (case e of Some entry \<Rightarrow> entry_object entry \<noteq> None | None \<Rightarrow> False)))"

definition local_delete :: "string \<Rightarrow> unit app" where
  "local_delete key = bind (resolve_key key) (\<lambda>k. write_entry k None)"

subsection \<open>Download URLs\<close>

text \<open>\<open>json.dumps\<close> of a string with its default \<open>ensure_ascii\<close>.\<close>

definition escape_ascii_char :: "char \<Rightarrow> string" where
  "escape_ascii_char c = (let n = (of_char c :: nat) in
     if n \<le> 126 then escape_char c
     else [CHR 0x5C, CHR ''u'', CHR ''0'', CHR ''0'', hex_digit (int (n div 16)), hex_digit (int (n mod 16))])"

definition json_ascii_string :: "string \<Rightarrow> string" where
  "json_ascii_string s = [CHR 0x22] @ concat (map escape_ascii_char s) @ [CHR 0x22]"

definition base64_char :: "nat \<Rightarrow> char" where
  "base64_char n = (if n < 26 then char_of (65 + n) else if n < 52 then char_of (71 + n)
     else if n < 62 then char_of (n - 4) else if n = 62 then CHR ''-'' else CHR ''_'')"

fun urlsafe_b64encode :: "nat list \<Rightarrow> string" where
  "urlsafe_b64encode [] = []"
| "urlsafe_b64encode [a] = [base64_char (a div 4), base64_char (a mod 4 * 16), CHR ''='', CHR ''='']"
| "urlsafe_b64encode [a, b] =
     [base64_char (a div 4), base64_char (a mod 4 * 16 + b div 16), base64_char (b mod 16 * 4), CHR ''='']"
| "urlsafe_b64encode (a # b # c # rest) =
     [base64_char (a div 4), base64_char (a mod 4 * 16 + b div 16), base64_char (b mod 16 * 4 + c div 64),
      base64_char (c mod 64)] @ urlsafe_b64encode rest"

definition local_generate_download_url :: "externals \<Rightarrow> string \<Rightarrow> string \<Rightarrow> int \<Rightarrow> string app" where
  "local_generate_download_url X signing_secret key expires_in =
     bind (resolve_key key) (\<lambda>k.
     bind utcnow (\<lambda>now.
     let payload = ''{'' @ json_ascii_string ''k'' @ '':'' @ json_ascii_string k @ '','' @ json_ascii_string ''exp'' @ '':'' @
           dec_str (now div 1000000 + expires_in) @ ''}'' in
     ret (''local://privacy-export/'' @ urlsafe_b64encode (map of_char payload) @ ''.'' @
       hmac_sha256_hex X signing_secret payload)))"

definition local_storage :: "externals \<Rightarrow> string \<Rightarrow> storage_adapter" where
  "local_storage X signing_secret =
     \<lparr>reserve_file_publication = local_reserve_file_publication,
      publish_reserved_file = local_publish_reserved_file X,
      cancel_file_publication = local_cancel_file_publication,
      inspect_file = local_inspect_file X,
      delete_file_if_not_matching = local_delete_file_if_not_matching X,
      storage_delete = local_delete,
      storage_download_url = local_generate_download_url X signing_secret\<rparr>"

end
