(* ===== verification/Export_Worker.thy ===== *)
theory Export_Worker
  imports Local_Storage
begin

section \<open>The export worker\<close>

text \<open>
  \<^verbatim>\<open>commands/privacy_export_worker.py\<close>: claim leases in one transaction, then process each
  artifact in a sequence of transactions and storage calls. \<open>others\<close> stands for whatever other
  requests, workers and the heartbeat of the lease do between two of those steps; it is a program
  on the shared state and hence may do something else each time. The heartbeat renews the lease
  with \<open>worker_renew_processing_lease\<close>.
\<close>

definition worker_count_queued_artifacts :: "export_env \<Rightarrow> nat \<Rightarrow> nat app" where
  "worker_count_queued_artifacts E batch = session_begin (count_queued_artifacts E batch)"

definition worker_claim_queued_artifact_leases :: "export_env \<Rightarrow> nat \<Rightarrow> (uuid \<times> string) list app" where
  "worker_claim_queued_artifact_leases E batch = session_begin (claim_queued_artifact_leases E batch)"

definition worker_renew_processing_lease :: "uuid \<times> string \<Rightarrow> bool app" where
  "worker_renew_processing_lease lease = session_begin (renew_processing_lease lease)"

definition worker_prepare_export_archive ::
  "externals \<Rightarrow> export_env \<Rightarrow> uuid \<times> string \<Rightarrow> prepared_archive app" where
  "worker_prepare_export_archive X E lease = session_begin (prepare_export_archive X E (fst lease) (snd lease))"

text \<open>\<open>try: m  except Exception: h; raise\<close>.\<close>

definition on_error :: "'a app \<Rightarrow> (app_error \<Rightarrow> unit app) \<Rightarrow> 'a app" where
  "on_error m h = try_except m (\<lambda>_. True) (\<lambda>e. bind (h e) (\<lambda>_. raise e))"

fun state_unknown :: "app_error \<Rightarrow> bool" where
  "state_unknown (StorageObjectStateUnknownError _) = True"
| "state_unknown _ = False"

definition worker_write_export_archive ::
  "export_env \<Rightarrow> unit app \<Rightarrow> uuid \<times> string \<Rightarrow> prepared_archive \<Rightarrow> unit app" where
  "worker_write_export_archive E others lease p =
     bind (reserve_prepared_export_archive E p (snd lease)) (\<lambda>rsv.
     on_error
       (bind others (\<lambda>_.
        bind (session_begin (validate_prepared_export_upload p (snd lease))) (\<lambda>_.
        bind others (\<lambda>_.
        publish_prepared_export_archive E p rsv))))
       (\<lambda>e. if state_unknown e then ret () else cancel_prepared_export_archive_reservation E p rsv))"

definition worker_recover_committed_export_archive :: "export_env \<Rightarrow> prepared_archive \<Rightarrow> bool app" where
  "worker_recover_committed_export_archive E p =
     bind (inspect_committed_export_archive E p) (\<lambda>state. ret (state = OBJECT_MATCHING))"

definition worker_reset_committed_export_upload_intent ::
  "export_env \<Rightarrow> unit app \<Rightarrow> uuid \<times> string \<Rightarrow> prepared_archive \<Rightarrow> bool app" where
  "worker_reset_committed_export_upload_intent E others lease p =
     bind (session_begin (validate_prepared_export_upload p (snd lease))) (\<lambda>_.
     bind others (\<lambda>_.
     bind (delete_prepared_export_storage_object_if_not_matching E p) (\<lambda>state.
     if state = OBJECT_MATCHING then ret False
     else
     bind others (\<lambda>_.
     bind (session_begin (bind (reset_prepared_export_upload_intent p (snd lease)) (\<lambda>done.
       ensure done (RuntimeError ''export_upload_intent_reset_rejected'')))) (\<lambda>_. ret True)))))"

definition worker_mark_export_ready :: "externals \<Rightarrow> uuid \<times> string \<Rightarrow> prepared_archive \<Rightarrow> export_artifact app" where
  "worker_mark_export_ready X lease p =
     session_begin (mark_generated_export_artifact_ready X (pre_artifact_id p) p None (Some (snd lease)))"

definition worker_mark_export_failed :: "externals \<Rightarrow> uuid \<times> string \<Rightarrow> app_error \<Rightarrow> storage_purge option app" where
  "worker_mark_export_failed X lease e =
     session_begin (bind (service_mark_export_artifact_failed X (fst lease) e None (Some (snd lease))) (\<lambda>failed.
       ret (case failed of None \<Rightarrow> None | Some a \<Rightarrow> failed_storage_cleanup a)))"

text \<open>The two \<open>except\<close> clauses only log.\<close>

definition worker_cleanup_failed_export_storage :: "export_env \<Rightarrow> unit app \<Rightarrow> storage_purge \<Rightarrow> unit app" where
  "worker_cleanup_failed_export_storage E others c =
     bind (try_except (bind (delete_failed_export_storage_object E c) (\<lambda>_. ret True)) (\<lambda>_. True) (\<lambda>_. ret False)) (\<lambda>deleted.
     if \<not> deleted then ret ()
     else
     bind others (\<lambda>_.
     try_except (bind (session_begin (clear_failed_export_storage_metadata c)) (\<lambda>_. ret ())) (\<lambda>_. True) (\<lambda>_. ret ())))"

definition generate_artifact ::
  "externals \<Rightarrow> export_env \<Rightarrow> unit app \<Rightarrow> uuid \<times> string \<Rightarrow> export_artifact app" where
  "generate_artifact X E others lease =
     bind (worker_prepare_export_archive X E lease) (\<lambda>first.
     bind others (\<lambda>_.
     bind (if pre_file first \<noteq> None then ret first
           else bind (worker_recover_committed_export_archive E first) (\<lambda>recovered.
             bind others (\<lambda>_.
             if recovered then ret first
             else bind (worker_reset_committed_export_upload_intent E others lease first) (\<lambda>was_reset.
               bind others (\<lambda>_.
               if was_reset then worker_prepare_export_archive X E lease else ret first))))) (\<lambda>p.
     bind others (\<lambda>_.
     bind (if pre_file p \<noteq> None then worker_write_export_archive E others lease p else ret ()) (\<lambda>_.
     bind others (\<lambda>_.
     worker_mark_export_ready X lease p))))))"

definition process_artifact :: "externals \<Rightarrow> export_env \<Rightarrow> unit app \<Rightarrow> uuid \<times> string \<Rightarrow> unit app" where
  "process_artifact X E others lease =
     try_except (bind (generate_artifact X E others lease) (\<lambda>_. ret ())) (\<lambda>_. True) (\<lambda>e.
       if state_unknown e then ret ()
       else
         bind others (\<lambda>_.
         bind (worker_mark_export_failed X lease e) (\<lambda>cleanup.
         bind others (\<lambda>_.
         case cleanup of None \<Rightarrow> ret () | Some c \<Rightarrow> worker_cleanup_failed_export_storage E others c))))"

definition worker_iteration ::
  "externals \<Rightarrow> export_env \<Rightarrow> unit app \<Rightarrow> nat \<Rightarrow> bool \<Rightarrow> nat app" where
  "worker_iteration X E others batch dry_run =
     (if dry_run then worker_count_queued_artifacts E batch
      else
      bind (worker_claim_queued_artifact_leases E batch) (\<lambda>leases.
      bind (for_each leases (\<lambda>l. bind others (\<lambda>_. process_artifact X E others l))) (\<lambda>_.
      ret (length leases))))"

text \<open>
  The loop of \<^verbatim>\<open>run_worker\<close>; without \<open>once\<close> and with a polling interval it never ends, so it has
  fuel, the number of rounds, and \<open>None\<close> is the loop still running.
\<close>

fun worker_loop ::
  "externals \<Rightarrow> export_env \<Rightarrow> unit app \<Rightarrow> nat \<Rightarrow> bool \<Rightarrow> bool \<Rightarrow> int \<Rightarrow> nat \<Rightarrow> nat \<Rightarrow> nat option app" where
  "worker_loop X E others batch dry_run once poll n0 0 = ret None"
| "worker_loop X E others batch dry_run once poll n0 (Suc fuel) =
     bind (worker_iteration X E others batch dry_run) (\<lambda>n.
     if dry_run \<or> once \<or> (n = 0 \<and> poll \<le> 0) then ret (Some (n0 + n))
     else bind others (\<lambda>_. worker_loop X E others batch dry_run once poll (n0 + n) fuel))"

definition run_export_worker ::
  "externals \<Rightarrow> export_env \<Rightarrow> unit app \<Rightarrow> int \<Rightarrow> bool \<Rightarrow> bool \<Rightarrow> int \<Rightarrow> nat \<Rightarrow> nat option app" where
  "run_export_worker X E others batch dry_run once poll fuel =
     bind (ensure (1 \<le> batch) (ValueError ''batch_size must be at least 1'')) (\<lambda>_.
     bind (ensure (0 \<le> poll) (ValueError ''poll_interval must be greater than or equal to 0'')) (\<lambda>_.
     worker_loop X E others (nat batch) dry_run once poll 0 fuel))"

end
