(* ===== verification/Memberships.thy ===== *)
theory Memberships
  imports Organisations
begin

section \<open>Memberships: service\<close>

text \<open>
  \<^verbatim>\<open>memberships/services/memberships.py\<close>: who belongs to an organisation and with which
  role. A user has at most one active membership and an organisation exactly one active owner.
\<close>

subsection \<open>Service\<close>

definition ensure_exactly_one_active_owner :: "uuid \<Rightarrow> unit app" where
  "ensure_exactly_one_active_owner oid =
     bind (count_active_owners oid) (\<lambda>n.
     ensure (n = 1) (ConflictError ''Organisation must have exactly one active owner''))"

definition create_membership_in_transaction ::
  "uuid \<Rightarrow> uuid \<Rightarrow> membership_role \<Rightarrow> membership app" where
  "create_membership_in_transaction uid oid role =
     bind (repo_get_membership_for_user uid) (\<lambda>existing.
     bind (ensure (existing = None) (ConflictError ''User already belongs to an organisation'')) (\<lambda>_.
     try_except
       (bind (repo_create_membership uid oid role) (\<lambda>m.
        bind (ensure_exactly_one_active_owner oid) (\<lambda>_. ret m)))
       (\<lambda>e. e = IntegrityError)
       (\<lambda>_. if role = OWNER
             then raise (ConflictError ''Organisation already has an active owner'')
             else raise (ConflictError ''User already belongs to an organisation''))))"

definition create_membership :: "uuid \<Rightarrow> uuid \<Rightarrow> membership_role \<Rightarrow> membership app" where
  "create_membership uid oid role =
     in_transaction_or_begin (create_membership_in_transaction uid oid role)"

definition get_membership_for_organisation :: "uuid \<Rightarrow> uuid \<Rightarrow> membership app" where
  "get_membership_for_organisation mid oid =
     bind (get_membership_by_id mid oid) (\<lambda>m.
       case m of None \<Rightarrow> raise (NotFoundError ''Membership not found'') | Some x \<Rightarrow> ret x)"

definition change_membership_role_in_transaction ::
  "externals \<Rightarrow> uuid \<Rightarrow> uuid \<Rightarrow> audit_context \<Rightarrow> uuid \<Rightarrow> membership_role \<Rightarrow>
   unit app option \<Rightarrow> membership app" where
  "change_membership_role_in_transaction X oid actor ctx mid role limiter =
     bind (get_user_by_id actor) (\<lambda>u.
     bind (ensure_user_active u) (\<lambda>_.
     bind (get_organisation oid) (\<lambda>r.
     bind (ensure_organisation_active r) (\<lambda>_.
     bind (get_membership actor oid) (\<lambda>am.
     case am of
       None \<Rightarrow> raise (ForbiddenError ''You are not a member of this organisation'')
     | Some a \<Rightarrow>
     bind (get_membership_for_organisation mid oid) (\<lambda>target.
     bind (ensure (role \<noteq> OWNER) (ForbiddenError ''Tenant API cannot assign owner role'')) (\<lambda>_.
     bind (ensure (mem_role target \<noteq> OWNER) (ForbiddenError ''Owner role cannot be modified'')) (\<lambda>_.
     bind (ensure (mem_role a = OWNER) (ForbiddenError ''Only owner can change membership roles'')) (\<lambda>_.
     bind (ensure (mem_role target \<noteq> role) (ConflictError ''Membership already has this role'')) (\<lambda>_.
     bind (run_business_rate_limiter limiter) (\<lambda>_.
     bind (update_role target role) (\<lambda>updated.
     bind (record_event X ctx AUDIT_TENANT MEMBERSHIP_ROLE_CHANGED TARGET_MEMBERSHIP
       (Some (mem_id updated)) None
       (Some (JObj [(''organisation_id'', JStr (uuid_str oid)),
                    (''old_role'', JStr (role_value (mem_role target))),
                    (''new_role'', JStr (role_value (mem_role updated)))]))) (\<lambda>_.
     ret updated)))))))))))))"

definition change_membership_role ::
  "externals \<Rightarrow> uuid \<Rightarrow> uuid \<Rightarrow> audit_context \<Rightarrow> uuid \<Rightarrow> membership_role \<Rightarrow>
   unit app option \<Rightarrow> membership app" where
  "change_membership_role X oid actor ctx mid role limiter =
     bind (ensure_audit_actor_matches actor ctx) (\<lambda>_.
     in_transaction_or_begin
       (change_membership_role_in_transaction X oid actor ctx mid role limiter))"

definition remove_membership_in_transaction ::
  "externals \<Rightarrow> uuid \<Rightarrow> uuid \<Rightarrow> audit_context \<Rightarrow> uuid \<Rightarrow> string option \<Rightarrow>
   unit app option \<Rightarrow> membership app" where
  "remove_membership_in_transaction X oid actor ctx mid reason limiter =
     bind (get_user_by_id actor) (\<lambda>u.
     bind (ensure_user_active u) (\<lambda>_.
     bind (get_organisation oid) (\<lambda>r.
     bind (ensure_organisation_active r) (\<lambda>_.
     bind (get_membership actor oid) (\<lambda>am.
     case am of
       None \<Rightarrow> raise (ForbiddenError ''You are not a member of this organisation'')
     | Some a \<Rightarrow>
     bind (get_membership_for_organisation mid oid) (\<lambda>target.
     bind (ensure (mem_role target \<noteq> OWNER) (ForbiddenError ''Owner membership cannot be removed'')) (\<lambda>_.
     bind (case mem_role a of
             OWNER \<Rightarrow> ret ()
           | ADMIN \<Rightarrow> ensure (mem_role target = MEMBER) (ForbiddenError ''Admin can remove only members'')
           | MEMBER \<Rightarrow> raise (ForbiddenError ''You are not allowed to remove memberships'')) (\<lambda>_.
     bind (run_business_rate_limiter limiter) (\<lambda>_.
     bind (repo_deactivate_membership target) (\<lambda>removed.
     bind (record_event X ctx AUDIT_TENANT MEMBERSHIP_REMOVED TARGET_MEMBERSHIP
       (Some (mem_id removed)) reason
       (Some (JObj [(''organisation_id'', JStr (uuid_str oid)),
                    (''removed_user_id'', JStr (uuid_str (mem_user_id removed))),
                    (''previous_role'', JStr (role_value (mem_role removed)))]))) (\<lambda>_.
     ret removed)))))))))))"

definition remove_membership ::
  "externals \<Rightarrow> uuid \<Rightarrow> uuid \<Rightarrow> audit_context \<Rightarrow> uuid \<Rightarrow> string option \<Rightarrow>
   unit app option \<Rightarrow> membership app" where
  "remove_membership X oid actor ctx mid reason limiter =
     bind (ensure_audit_actor_matches actor ctx) (\<lambda>_.
     in_transaction_or_begin (remove_membership_in_transaction X oid actor ctx mid reason limiter))"

definition transfer_membership_in_transaction ::
  "uuid \<Rightarrow> uuid \<Rightarrow> membership_role \<Rightarrow> membership app" where
  "transfer_membership_in_transaction uid oid role =
     bind (repo_get_membership_for_user uid) (\<lambda>existing.
     bind (case existing of
             None \<Rightarrow> ret ()
           | Some m \<Rightarrow>
               bind (ensure (\<not> (mem_role m = OWNER \<and> mem_organisation_id m \<noteq> oid))
                 (ConflictError ''Cross-organisation owner transfer is unsupported without atomic owner replacement'')) (\<lambda>_.
               bind (repo_deactivate_membership m) (\<lambda>_.
               ensure_exactly_one_active_owner (mem_organisation_id m)))) (\<lambda>_.
     try_except
       (bind (repo_create_membership uid oid role) (\<lambda>m.
        bind (ensure_exactly_one_active_owner oid) (\<lambda>_. ret m)))
       (\<lambda>e. e = IntegrityError \<and> role = OWNER)
       (\<lambda>_. raise (ConflictError ''Organisation already has an active owner''))))"

definition transfer_membership :: "uuid \<Rightarrow> uuid \<Rightarrow> membership_role \<Rightarrow> membership app" where
  "transfer_membership uid oid role =
     in_transaction_or_begin (transfer_membership_in_transaction uid oid role)"

definition replace_owner_membership_in_transaction :: "uuid \<Rightarrow> uuid \<Rightarrow> uuid \<Rightarrow> membership app" where
  "replace_owner_membership_in_transaction oid source_id replacement_id =
     bind (lock_active_memberships oid) (\<lambda>ms.
     let by_id = (\<lambda>i. find_row mem_id i ms)
     in case (by_id source_id, by_id replacement_id) of
          (Some source, Some replacement) \<Rightarrow>
            bind (ensure (mem_role source = OWNER) (ConflictError ''Source membership is not owner'')) (\<lambda>_.
            bind (ensure (mem_role replacement \<noteq> OWNER) (ConflictError ''Replacement membership is already owner'')) (\<lambda>_.
            bind (membership_save source (\<lambda>m. m\<lparr>mem_role := ADMIN\<rparr>)) (\<lambda>_.
            bind (membership_save replacement (\<lambda>m. m\<lparr>mem_role := OWNER\<rparr>)) (\<lambda>x.
            bind (ensure_exactly_one_active_owner oid) (\<lambda>_.
            ret x)))))
        | _ \<Rightarrow> raise (NotFoundError ''Membership not found''))"

definition replace_owner_membership :: "uuid \<Rightarrow> uuid \<Rightarrow> uuid \<Rightarrow> membership app" where
  "replace_owner_membership oid source_id replacement_id =
     bind (ensure (source_id \<noteq> replacement_id)
       (ConflictError ''Source and replacement owner must be different'')) (\<lambda>_.
     in_transaction_or_begin
       (replace_owner_membership_in_transaction oid source_id replacement_id))"

text \<open>\<open>x or ''''\<close> and the display name of a directory entry.\<close>

definition display_name :: "string option \<Rightarrow> string option \<Rightarrow> string" where
  "display_name fname lname =
     (let part = (\<lambda>x. strip (case x of None \<Rightarrow> [] | Some s \<Rightarrow> s));
          full = strip (part fname @ '' '' @ part lname)
      in if full = [] then ''Organisation member'' else full)"

definition list_directory_members_for_user ::
  "uuid \<Rightarrow> uuid \<Rightarrow> (string \<times> membership_role) list app" where
  "list_directory_members_for_user oid actor =
     bind (get_user_by_id actor) (\<lambda>u.
     bind (ensure_user_active u) (\<lambda>_.
     bind (get_organisation oid) (\<lambda>r.
     bind (ensure_organisation_active r) (\<lambda>_.
     bind (get_membership actor oid) (\<lambda>am.
     bind (ensure (am \<noteq> None) (ForbiddenError ''You are not a member of this organisation'')) (\<lambda>_.
     bind (list_directory_members_for_organisation oid) (\<lambda>items.
     ret (map (\<lambda>(f, l, role). (display_name f l, role)) items))))))))"

definition list_memberships_for_management :: "uuid \<Rightarrow> uuid \<Rightarrow> membership list app" where
  "list_memberships_for_management oid actor =
     bind (get_user_by_id actor) (\<lambda>u.
     bind (ensure_user_active u) (\<lambda>_.
     bind (get_organisation oid) (\<lambda>r.
     bind (ensure_organisation_active r) (\<lambda>_.
     bind (get_membership actor oid) (\<lambda>am.
     bind (ensure (case am of None \<Rightarrow> False | Some a \<Rightarrow> mem_role a = OWNER \<or> mem_role a = ADMIN)
       (ForbiddenError ''You are not allowed to view organisation memberships'')) (\<lambda>_.
     list_memberships_for_organisation oid))))))"

definition get_membership_for_user :: "uuid \<Rightarrow> membership option app" where
  "get_membership_for_user uid = repo_get_membership_for_user uid"

definition ensure_user_has_organisation_access :: "uuid \<Rightarrow> uuid \<Rightarrow> unit app" where
  "ensure_user_has_organisation_access uid oid =
     bind (has_membership uid oid) (\<lambda>b.
     ensure b (ForbiddenError ''You are not a member of this organisation''))"

definition ensure_user_can_list_organisation_memberships :: "uuid \<Rightarrow> uuid \<Rightarrow> unit app" where
  "ensure_user_can_list_organisation_memberships uid oid =
     bind (get_membership uid oid) (\<lambda>am.
     ensure (case am of None \<Rightarrow> False | Some a \<Rightarrow> mem_role a = OWNER \<or> mem_role a = ADMIN)
       (ForbiddenError ''You are not allowed to view organisation memberships''))"

definition ensure_user_can_create_organisation :: "uuid \<Rightarrow> unit app" where
  "ensure_user_can_create_organisation uid =
     bind (repo_get_membership_for_user uid) (\<lambda>m.
     ensure (m = None) (ConflictError ''You already belong to an organisation''))"

definition ensure_owner_invariant_before_deactivation :: "membership \<Rightarrow> unit app" where
  "ensure_owner_invariant_before_deactivation m =
     (if mem_role m \<noteq> OWNER then ret ()
      else bind (count_active_owners (mem_organisation_id m)) (\<lambda>n.
        ensure (\<not> n \<le> 1) (ConflictError ''Organisation must always have at least one owner'')))"

definition deactivate_membership_in_transaction :: "membership \<Rightarrow> membership app" where
  "deactivate_membership_in_transaction m =
     bind (ensure_owner_invariant_before_deactivation m) (\<lambda>_. repo_deactivate_membership m)"

definition deactivate_membership :: "membership \<Rightarrow> membership app" where
  "deactivate_membership m = in_transaction_or_begin (deactivate_membership_in_transaction m)"


subsection \<open>Who may act in an organisation\<close>

text \<open>
  The services open with the same checks: the actor exists and is active, the organisation
  exists, is not deleted and is active. \<open>actor_problem\<close> and \<open>organisation_problem\<close> give the
  error they raise, and \<open>actor_membership\<close> the actor's membership that decides the rest.
\<close>

definition actor_problem :: "db \<Rightarrow> uuid \<Rightarrow> app_error option" where
  "actor_problem d actor = (case find (\<lambda>u. usr_id u = actor) (users d) of
     None \<Rightarrow> Some (NotFoundError ''User not found'')
   | Some u \<Rightarrow> if usr_status u = USER_SUSPENDED then Some (ForbiddenError ''User is suspended'') else None)"

definition organisation_problem :: "db \<Rightarrow> uuid \<Rightarrow> app_error option" where
  "organisation_problem d oid =
     (case find (\<lambda>r. org_id r = oid \<and> org_deleted_at r = None) (organisations d) of
        None \<Rightarrow> Some (NotFoundError ''Organisation not found'')
      | Some r \<Rightarrow> if org_status r = ORG_SUSPENDED
                  then Some (ForbiddenError ''Organisation is suspended'') else None)"

definition actor_membership :: "db \<Rightarrow> uuid \<Rightarrow> uuid \<Rightarrow> membership option" where
  "actor_membership d actor oid = find (\<lambda>m. mem_user_id m = actor \<and> active_in oid m) (memberships d)"

text \<open>The three together, as a specification of the right to act.\<close>

definition acts_as :: "db \<Rightarrow> uuid \<Rightarrow> uuid \<Rightarrow> membership_role \<Rightarrow> bool" where
  "acts_as d actor oid role \<longleftrightarrow>
     list_ex (\<lambda>u. usr_id u = actor \<and> usr_status u = USER_ACTIVE) (users d) \<and>
     list_ex (\<lambda>r. org_id r = oid \<and> live r \<and> org_status r = ORG_ACTIVE) (organisations d) \<and>
     list_ex (\<lambda>m. mem_user_id m = actor \<and> active_in oid m \<and> mem_role m = role) (memberships d)"

lemma not_suspended: "usr_status u \<noteq> USER_SUSPENDED \<longleftrightarrow> usr_status u = USER_ACTIVE"
  "org_status r \<noteq> ORG_SUSPENDED \<longleftrightarrow> org_status r = ORG_ACTIVE"
  by (cases "usr_status u"; cases "org_status r"; simp)+

lemma actor_problem_iff:
  assumes "integrity d"
  shows "actor_problem d actor = None \<longleftrightarrow>
    list_ex (\<lambda>u. usr_id u = actor \<and> usr_status u = USER_ACTIVE) (users d)"
  using list_ex_by_unique_key [OF integrityD(1) [OF assms], of "\<lambda>u. usr_id u = actor" actor
      "\<lambda>u. usr_status u = USER_ACTIVE"]
  by (auto simp: actor_problem_def not_suspended split: option.splits)

lemma organisation_problem_iff:
  assumes "integrity d"
  shows "organisation_problem d oid = None \<longleftrightarrow>
    list_ex (\<lambda>r. org_id r = oid \<and> live r \<and> org_status r = ORG_ACTIVE) (organisations d)"
  using list_ex_by_unique_key [OF integrityD(3) [OF assms],
      of "\<lambda>r. org_id r = oid \<and> org_deleted_at r = None" oid "\<lambda>r. org_status r = ORG_ACTIVE"]
  by (auto simp: organisation_problem_def not_suspended live_def split: option.splits)

lemma actor_membership_iff:
  assumes "integrity d"
  shows "actor_membership d actor oid = Some m \<longleftrightarrow>
    m \<in> set (memberships d) \<and> mem_user_id m = actor \<and> active_in oid m"
proof -
  let ?p = "\<lambda>m. mem_user_id m = actor \<and> active_in oid m"
  have "distinct (map mem_user_id (filter mem_is_active (memberships d)))"
    by (rule integrityD(6) [OF assms])
  then have "find ?p (filter mem_is_active (memberships d)) = Some m \<longleftrightarrow>
      m \<in> set (filter mem_is_active (memberships d)) \<and> ?p m"
    by (rule find_by_unique_key) auto
  moreover have "find ?p (filter mem_is_active xs) = find ?p xs" for xs
    by (induction xs) (auto simp: active_in_def)
  ultimately show ?thesis by (auto simp: actor_membership_def active_in_def)
qed

lemma acts_as_iff:
  assumes "integrity d"
  shows "acts_as d actor oid role \<longleftrightarrow> actor_problem d actor = None \<and>
    organisation_problem d oid = None \<and>
    (\<exists>m. actor_membership d actor oid = Some m \<and> mem_role m = role)"
  unfolding acts_as_def actor_problem_iff [OF assms] organisation_problem_iff [OF assms]
    actor_membership_iff [OF assms] list_ex_iff by blast

lemma acts_as_role_unique:
  "integrity d \<Longrightarrow> acts_as d actor oid role \<Longrightarrow> acts_as d actor oid role' \<Longrightarrow> role' = role"
  by (auto simp: acts_as_iff)


lemma tenant_preamble:
  assumes "integrity (db w)"
  shows "bind (get_user_by_id actor) (\<lambda>u. bind (ensure_user_active u) (\<lambda>_.
      bind (get_organisation oid) (\<lambda>r. bind (ensure_organisation_active r) (\<lambda>_.
      bind (get_membership actor oid) k)))) w =
    (case actor_problem (db w) actor of
       Some e \<Rightarrow> (Inl e, w)
     | None \<Rightarrow> (case organisation_problem (db w) oid of
         Some e \<Rightarrow> (Inl e, w)
       | None \<Rightarrow> k (actor_membership (db w) actor oid) w))"
  by (simp add: bind_def get_user_by_id_def user_get_by_id_eq [OF assms] get_organisation_def
      organisation_get_by_id_eq [OF assms] get_membership_eq query_def gets_def raise_def ret_def
      guard_defs ensure_def actor_problem_def organisation_problem_def actor_membership_def
      split: option.splits)

lemma organisation_preamble:
  assumes "integrity (db w)"
  shows "bind (get_organisation oid) (\<lambda>r. bind (get_user_by_id actor) (\<lambda>u.
      bind (ensure_user_active u) (\<lambda>_. bind (ensure_organisation_active r) (\<lambda>_.
      bind (get_membership actor oid) (k r))))) w = (Inr x, w') \<longleftrightarrow>
    actor_problem (db w) actor = None \<and> organisation_problem (db w) oid = None \<and>
    (\<exists>r. find (\<lambda>r. org_id r = oid \<and> org_deleted_at r = None) (organisations (db w)) = Some r \<and>
      k r (actor_membership (db w) actor oid) w = (Inr x, w'))"
  by (auto simp: bind_def get_organisation_def organisation_get_by_id_eq [OF assms] raise_def
      organisation_problem_def get_user_by_id_def user_get_by_id_eq [OF assms] ret_def
      guard_defs ensure_def actor_problem_def get_membership_eq query_def gets_def
      actor_membership_def split: option.splits)

lemma get_membership_for_organisation_run:
  assumes "integrity (db w)"
  shows "get_membership_for_organisation mid oid w = (Inr m, w') \<longleftrightarrow>
    w' = w \<and> m \<in> set (memberships (db w)) \<and> mem_id m = mid \<and> active_in oid m"
proof -
  have one: "find (\<lambda>m. mem_id m = mid \<and> active_in oid m) (memberships (db w)) = Some m \<longleftrightarrow>
      m \<in> set (memberships (db w)) \<and> mem_id m = mid \<and> active_in oid m"
    by (rule find_by_unique_key [OF integrityD(5) [OF assms]]) simp
  have "get_membership_for_organisation mid oid w = (Inr m, w') \<longleftrightarrow> w' = w \<and>
      find (\<lambda>m. mem_id m = mid \<and> active_in oid m) (memberships (db w)) = Some m"
    by (auto simp: get_membership_for_organisation_def bind_def get_membership_by_id_eq query_def
        gets_def raise_def ret_def split: option.splits)
  then show ?thesis by (simp only: one)
qed


subsection \<open>What the role and removal operations do\<close>

lemma change_membership_role_done:
  assumes I: "integrity (db w)" and L: "limiter_ok l"
    and run: "change_membership_role_in_transaction X oid actor ctx mid role l w = (Inr x, w')"
  obtains target e t where "acts_as (db w) actor oid OWNER"
    and "target \<in> set (memberships (db w))" "mem_id target = mid" "active_in oid target"
    and "mem_role target \<noteq> OWNER" "mem_role target \<noteq> role" "role \<noteq> OWNER"
    and "x = target\<lparr>mem_role := role, mem_updated_at := t\<rparr>"
    and "db w' = audit_events_update (\<lambda>rows. rows @ [e])
      (memberships_update (update_where (\<lambda>m. mem_id m = mid)
        (\<lambda>m. m\<lparr>mem_role := role, mem_updated_at := t\<rparr>)) (db w))"
    and "says e ctx AUDIT_TENANT MEMBERSHIP_ROLE_CHANGED TARGET_MEMBERSHIP (Some mid) None
      (Some (JObj [(''organisation_id'', JStr (uuid_str oid)),
        (''old_role'', JStr (role_value (mem_role target))), (''new_role'', JStr (role_value role))]))"
    and "integrity (db w')"
proof -
  from run obtain a target w1 e
    where pre: "actor_problem (db w) actor = None" "organisation_problem (db w) oid = None"
      "actor_membership (db w) actor oid = Some a" "mem_role a = OWNER"
    and target: "target \<in> set (memberships (db w))" "mem_id target = mid" "active_in oid target"
      "mem_role target \<noteq> OWNER" "mem_role target \<noteq> role" "role \<noteq> OWNER"
    and lim: "run_business_rate_limiter l w = (Inr (), w1)"
    and upd: "bind (update_role target role) (\<lambda>updated. bind (record_event X ctx AUDIT_TENANT
       MEMBERSHIP_ROLE_CHANGED TARGET_MEMBERSHIP (Some (mem_id updated)) None
       (Some (JObj [(''organisation_id'', JStr (uuid_str oid)),
                    (''old_role'', JStr (role_value (mem_role target))),
                    (''new_role'', JStr (role_value (mem_role updated)))]))) (\<lambda>_. ret updated)) w1 =
       (Inr x, w')"
    unfolding change_membership_role_in_transaction_def tenant_preamble [OF I]
    by (auto simp: bind_Inr [of "run_business_rate_limiter l"] bind_Inr [of "ensure _ _"]
        bind_Inr [of "get_membership_for_organisation _ _"] ensure_run raise_run
        get_membership_for_organisation_run [OF I] split: option.splits)
  have d: "db w1 = db w" using limiter_run [OF L lim] by simp
  let ?t = "clock w1 (clock_pos w1)"
  from upd obtain e w2 where x: "x = target\<lparr>mem_role := role, mem_updated_at := ?t\<rparr>"
    and w2: "w2 = w1\<lparr>clock_pos := Suc (clock_pos w1), db := memberships_update
      (update_where (\<lambda>m. mem_id m = mem_id target) (\<lambda>m. m\<lparr>mem_role := role, mem_updated_at := ?t\<rparr>)) (db w1)\<rparr>"
    and rec: "record_event X ctx AUDIT_TENANT MEMBERSHIP_ROLE_CHANGED TARGET_MEMBERSHIP
       (Some (mem_id target)) None
       (Some (JObj [(''organisation_id'', JStr (uuid_str oid)),
                    (''old_role'', JStr (role_value (mem_role target))),
                    (''new_role'', JStr (role_value role))])) w2 = (Inr e, w')"
    by (auto simp: run_rules update_role_def Let_def)
  show ?thesis
    by (rule that [OF _ target x])
       (use record_event_run [OF rec] pre target in \<open>auto simp: acts_as_iff [OF I] w2 d\<close>)
qed


text \<open>Who may remove whom.\<close>

definition may_remove :: "membership_role \<Rightarrow> membership_role \<Rightarrow> bool" where
  "may_remove actor_role target_role \<longleftrightarrow>
     target_role \<noteq> OWNER \<and> (actor_role = OWNER \<or> actor_role = ADMIN \<and> target_role = MEMBER)"

lemma remove_membership_done:
  assumes I: "integrity (db w)" and L: "limiter_ok l"
    and run: "remove_membership_in_transaction X oid actor ctx mid reason l w = (Inr x, w')"
  obtains target role e t where "acts_as (db w) actor oid role"
    and "target \<in> set (memberships (db w))" "mem_id target = mid" "active_in oid target"
    and "may_remove role (mem_role target)"
    and "x = target\<lparr>mem_is_active := False, mem_updated_at := t\<rparr>"
    and "db w' = audit_events_update (\<lambda>rows. rows @ [e])
      (memberships_update (update_where (\<lambda>m. mem_id m = mid)
        (\<lambda>m. m\<lparr>mem_is_active := False, mem_updated_at := t\<rparr>)) (db w))"
    and "says e ctx AUDIT_TENANT MEMBERSHIP_REMOVED TARGET_MEMBERSHIP (Some mid) reason
      (Some (JObj [(''organisation_id'', JStr (uuid_str oid)),
        (''removed_user_id'', JStr (uuid_str (mem_user_id target))),
        (''previous_role'', JStr (role_value (mem_role target)))]))"
    and "integrity (db w')"
proof -
  from run obtain a target w1
    where pre: "actor_problem (db w) actor = None" "organisation_problem (db w) oid = None"
      "actor_membership (db w) actor oid = Some a" "may_remove (mem_role a) (mem_role target)"
    and target: "target \<in> set (memberships (db w))" "mem_id target = mid" "active_in oid target"
    and lim: "run_business_rate_limiter l w = (Inr (), w1)"
    and upd: "bind (repo_deactivate_membership target) (\<lambda>removed. bind (record_event X ctx AUDIT_TENANT
       MEMBERSHIP_REMOVED TARGET_MEMBERSHIP (Some (mem_id removed)) reason
       (Some (JObj [(''organisation_id'', JStr (uuid_str oid)),
                    (''removed_user_id'', JStr (uuid_str (mem_user_id removed))),
                    (''previous_role'', JStr (role_value (mem_role removed)))]))) (\<lambda>_. ret removed)) w1 =
       (Inr x, w')"
    unfolding remove_membership_in_transaction_def tenant_preamble [OF I]
    by (cases "actor_membership (db w) actor oid"; cases "mem_role (the (actor_membership (db w) actor oid))")
       (auto simp: bind_Inr [of "run_business_rate_limiter l"] bind_Inr [of "ensure _ _"]
        bind_Inr [of "get_membership_for_organisation _ _"] ensure_run raise_run may_remove_def
        get_membership_for_organisation_run [OF I] split: option.splits)
  have d: "db w1 = db w" using limiter_run [OF L lim] by simp
  let ?t = "clock w1 (clock_pos w1)"
  from upd obtain e w2 where x: "x = target\<lparr>mem_is_active := False, mem_updated_at := ?t\<rparr>"
    and w2: "w2 = w1\<lparr>clock_pos := Suc (clock_pos w1), db := memberships_update
      (update_where (\<lambda>m. mem_id m = mem_id target)
        (\<lambda>m. m\<lparr>mem_is_active := False, mem_updated_at := ?t\<rparr>)) (db w1)\<rparr>"
    and rec: "record_event X ctx AUDIT_TENANT MEMBERSHIP_REMOVED TARGET_MEMBERSHIP
       (Some (mem_id target)) reason
       (Some (JObj [(''organisation_id'', JStr (uuid_str oid)),
                    (''removed_user_id'', JStr (uuid_str (mem_user_id target))),
                    (''previous_role'', JStr (role_value (mem_role target)))])) w2 = (Inr e, w')"
    by (auto simp: run_rules repo_deactivate_membership_def Let_def)
  show ?thesis
    by (rule that [OF _ target _ x])
       (use record_event_run [OF rec] pre target in \<open>auto simp: acts_as_iff [OF I] w2 d\<close>)
qed

subsection \<open>Tenancy\<close>

text \<open>
  The invariant of the tenant side: every organisation that is not deleted has exactly one
  active owner, and nobody is an active member of a deleted one. The partial unique indexes
  give \<open>at most one\<close>; \<open>at least one\<close> is up to the services.
\<close>

definition live_ids :: "db \<Rightarrow> uuid set" where
  "live_ids d = set (map org_id (filter live (organisations d)))"

definition active_orgs :: "db \<Rightarrow> uuid set" where
  "active_orgs d = set (map mem_organisation_id (filter mem_is_active (memberships d)))"

definition tenancy :: "db \<Rightarrow> bool" where
  "tenancy d \<longleftrightarrow> (\<forall>oid\<in>live_ids d. length (owners_of oid d) = 1) \<and> active_orgs d \<subseteq> live_ids d"

lemma tenancy_empty: "tenancy empty_db"
  by (simp add: tenancy_def live_ids_def active_orgs_def empty_db_def)

lemma tenancy_mono:
  assumes "tenancy d" and "live_ids d' = live_ids d" and "active_orgs d' \<subseteq> active_orgs d"
    and "\<And>oid. length (owners_of oid d') = length (owners_of oid d)"
  shows "tenancy d'"
  using assms by (auto simp: tenancy_def)

lemma live_ids_frame [simp]:
  "live_ids (users_update fu d) = live_ids d"
  "live_ids (memberships_update fm d) = live_ids d"
  "live_ids (invites_update fi d) = live_ids d"
  "live_ids (staff_rows_update fs d) = live_ids d"
  "live_ids (audit_events_update fa d) = live_ids d"
  "live_ids (outbox_events_update fx d) = live_ids d"
  "live_ids (delivery_claims_update fc d) = live_ids d"
  "live_ids (privacy_update fp d) = live_ids d"
  by (simp_all add: live_ids_def)

lemma active_orgs_frame [simp]:
  "active_orgs (users_update fu d) = active_orgs d"
  "active_orgs (organisations_update fo d) = active_orgs d"
  "active_orgs (invites_update fi d) = active_orgs d"
  "active_orgs (staff_rows_update fs d) = active_orgs d"
  "active_orgs (audit_events_update fa d) = active_orgs d"
  "active_orgs (outbox_events_update fx d) = active_orgs d"
  "active_orgs (delivery_claims_update fc d) = active_orgs d"
  "active_orgs (privacy_update fp d) = active_orgs d"
  by (simp_all add: active_orgs_def)

lemma tenancy_frame [simp]:
  "tenancy (users_update fu d) = tenancy d"
  "tenancy (invites_update fi d) = tenancy d"
  "tenancy (staff_rows_update fs d) = tenancy d"
  "tenancy (audit_events_update fa d) = tenancy d"
  "tenancy (outbox_events_update fx d) = tenancy d"
  "tenancy (delivery_claims_update fc d) = tenancy d"
  "tenancy (privacy_update fp d) = tenancy d"
  by (simp_all add: tenancy_def)

text \<open>Changing memberships that are not owners, before or after, keeps it.\<close>

lemma tenancy_update_non_owner:
  assumes "tenancy d"
    and "\<And>m. m \<in> set (memberships d) \<Longrightarrow> p m \<Longrightarrow> mem_role m \<noteq> OWNER \<and> mem_role (f m) \<noteq> OWNER \<and>
      mem_organisation_id (f m) = mem_organisation_id m \<and> (mem_is_active (f m) \<longrightarrow> mem_is_active m)"
  shows "tenancy (memberships_update (update_where p f) d)"
proof (rule tenancy_mono [OF assms(1)])
  show "length (owners_of oid (memberships_update (update_where p f) d)) = length (owners_of oid d)" for oid
    using assms(2) by (simp add: owners_of_def filter_update_where_skip)
  show "active_orgs (memberships_update (update_where p f) d) \<subseteq> active_orgs d"
    using assms(2) by (fastforce simp: active_orgs_def set_update_where)
qed simp


text \<open>
  Inside a transaction one organisation may be without its owner for a while; the check at the
  end of the transaction closes the gap.
\<close>

definition tenancy_except :: "uuid \<Rightarrow> db \<Rightarrow> bool" where
  "tenancy_except oid d \<longleftrightarrow>
     (\<forall>o'\<in>live_ids d - {oid}. length (owners_of o' d) = 1) \<and> active_orgs d \<subseteq> live_ids d"

lemma tenancy_exceptI: "tenancy d \<Longrightarrow> tenancy_except oid d"
  by (auto simp: tenancy_def tenancy_except_def)

lemma tenancy_close: "tenancy_except oid d \<Longrightarrow> length (owners_of oid d) = 1 \<Longrightarrow> tenancy d"
  by (auto simp: tenancy_def tenancy_except_def)

lemma tenancy_except_update:
  assumes "tenancy_except oid d"
    and "\<And>m. m \<in> set (memberships d) \<Longrightarrow> p m \<Longrightarrow> mem_organisation_id m = oid \<and>
      mem_organisation_id (f m) = oid \<and> (mem_is_active (f m) \<longrightarrow> mem_is_active m)"
  shows "tenancy_except oid (memberships_update (update_where p f) d)"
proof -
  have "owners_of o' (memberships_update (update_where p f) d) = owners_of o' d" if "o' \<noteq> oid" for o'
    using assms(2) that by (simp add: owners_of_def filter_update_where_skip)
  moreover have "active_orgs (memberships_update (update_where p f) d) \<subseteq> active_orgs d"
    using assms(2) by (fastforce simp: active_orgs_def set_update_where)
  ultimately show ?thesis using assms(1) by (auto simp: tenancy_except_def)
qed

lemma tenancy_except_append:
  assumes "tenancy_except oid d" and "mem_organisation_id m = oid" and "oid \<in> live_ids d"
  shows "tenancy_except oid (memberships_update (\<lambda>rows. rows @ [m]) d)"
  using assms by (auto simp: tenancy_except_def owners_of_append) (auto simp: active_orgs_def split: if_splits)

lemma tenancy_except_new_organisation:
  assumes "tenancy d" and "org_id r = oid"
  shows "tenancy_except oid (organisations_update (\<lambda>rows. rows @ [r]) d)"
  using assms by (auto simp: tenancy_def tenancy_except_def live_ids_def)

text \<open>Deleting an organisation with all its memberships.\<close>

lemma tenancy_delete_organisation:
  assumes "tenancy d"
    and org: "\<And>r. org_id (f r) = org_id r \<and> \<not> live (f r)"
    and mem: "\<And>m. mem_organisation_id (g m) = mem_organisation_id m \<and> \<not> mem_is_active (g m)"
  shows "tenancy (organisations_update (update_where (\<lambda>r. org_id r = oid) f)
    (memberships_update (update_where (active_in oid) g) d))" (is "tenancy ?d")
proof -
  have live: "live_ids ?d = live_ids d - {oid}"
    using org by (auto simp: live_ids_def set_update_where image_iff)
  have "owners_of o' ?d = owners_of o' d" if "o' \<noteq> oid" for o'
    using that mem by (auto simp: owners_of_def active_in_def intro!: filter_update_where_skip)
  moreover have "active_orgs ?d \<subseteq> active_orgs d - {oid}"
    using mem by (auto simp: active_orgs_def set_update_where active_in_def)
  ultimately show ?thesis using assms(1) live by (auto simp: tenancy_def)
qed

lemma live_ids_save:
  assumes "\<And>r. org_id (f r) = org_id r \<and> org_deleted_at (f r) = org_deleted_at r"
  shows "live_ids (organisations_update (update_where p f) d) = live_ids d"
proof -
  have "live (f r) = live r" for r using assms by (simp add: live_def)
  with assms have "map org_id (filter live (update_where p f rows)) = map org_id (filter live rows)" for rows
    by (induction rows) auto
  then show ?thesis by (simp add: live_ids_def)
qed

lemma tenancy_save_organisation:
  assumes "tenancy d" and "\<And>r. org_id (f r) = org_id r \<and> org_deleted_at (f r) = org_deleted_at r"
  shows "tenancy (organisations_update (update_where p f) d)"
  using assms by (simp add: tenancy_def live_ids_save)


subsection \<open>Every membership operation keeps the tenancy invariant\<close>

definition tenant_inv :: "db \<Rightarrow> bool" where
  "tenant_inv d \<longleftrightarrow> integrity d \<and> tenancy d"

lemma tenant_invD: "tenant_inv d \<Longrightarrow> integrity d" "tenant_inv d \<Longrightarrow> tenancy d"
  by (simp_all add: tenant_inv_def)

lemma unique_membership:
  "integrity d \<Longrightarrow> m \<in> set (memberships d) \<Longrightarrow> m' \<in> set (memberships d) \<Longrightarrow> mem_id m' = mem_id m \<Longrightarrow> m' = m"
  by (rule memberships_table.same_key_same_row)

lemma commits_change_membership_role:
  assumes "limiter_ok l"
  shows "commits tenant_inv (change_membership_role_in_transaction X oid actor ctx mid role l)"
proof (rule commitsI)
  fix w x w'
  assume inv: "tenant_inv (db w)"
    and run: "change_membership_role_in_transaction X oid actor ctx mid role l w = (Inr x, w')"
  obtain target e t where target: "target \<in> set (memberships (db w))" "mem_id target = mid"
    "mem_role target \<noteq> OWNER" "role \<noteq> OWNER"
    and d: "db w' = audit_events_update (\<lambda>rows. rows @ [e])
      (memberships_update (update_where (\<lambda>m. mem_id m = mid)
        (\<lambda>m. m\<lparr>mem_role := role, mem_updated_at := t\<rparr>)) (db w))" and I: "integrity (db w')"
    by (rule change_membership_role_done [OF tenant_invD(1) [OF inv] assms run])
  have "tenancy (memberships_update (update_where (\<lambda>m. mem_id m = mid)
      (\<lambda>m. m\<lparr>mem_role := role, mem_updated_at := t\<rparr>)) (db w))"
    by (rule tenancy_update_non_owner [OF tenant_invD(2) [OF inv]])
       (use target in \<open>auto dest: unique_membership [OF tenant_invD(1) [OF inv] target(1)]\<close>)
  then show "tenant_inv (db w')" using I by (simp add: tenant_inv_def d)
qed

lemma commits_remove_membership:
  assumes "limiter_ok l"
  shows "commits tenant_inv (remove_membership_in_transaction X oid actor ctx mid reason l)"
proof (rule commitsI)
  fix w x w'
  assume inv: "tenant_inv (db w)"
    and run: "remove_membership_in_transaction X oid actor ctx mid reason l w = (Inr x, w')"
  obtain target role e t where target: "target \<in> set (memberships (db w))" "mem_id target = mid"
    "may_remove role (mem_role target)"
    and d: "db w' = audit_events_update (\<lambda>rows. rows @ [e])
      (memberships_update (update_where (\<lambda>m. mem_id m = mid)
        (\<lambda>m. m\<lparr>mem_is_active := False, mem_updated_at := t\<rparr>)) (db w))" and I: "integrity (db w')"
    by (rule remove_membership_done [OF tenant_invD(1) [OF inv] assms run])
  have "tenancy (memberships_update (update_where (\<lambda>m. mem_id m = mid)
      (\<lambda>m. m\<lparr>mem_is_active := False, mem_updated_at := t\<rparr>)) (db w))"
    by (rule tenancy_update_non_owner [OF tenant_invD(2) [OF inv]])
       (use target in \<open>auto simp: may_remove_def dest: unique_membership [OF tenant_invD(1) [OF inv] target(1)]\<close>)
  then show "tenant_inv (db w')" using I by (simp add: tenant_inv_def d)
qed

lemma ensure_exactly_one_active_owner_run [run_rules]:
  "ensure_exactly_one_active_owner oid w = (Inr x, w') \<longleftrightarrow>
     w' = w \<and> length (owners_of oid (db w)) = 1"
  by (auto simp: ensure_exactly_one_active_owner_def count_active_owners_def run_rules)

text \<open>What a created membership leaves behind, from a state where its organisation may lack an owner.\<close>

lemma create_membership_done:
  assumes "create_membership_in_transaction uid oid role w = (Inr m, w')"
  shows "\<not> list_ex (\<lambda>m. mem_user_id m = uid \<and> mem_is_active m) (memberships (db w))"
    and "mem_user_id m = uid" "mem_organisation_id m = oid" "mem_role m = role" "mem_is_active m"
    and "db w' = memberships_update (\<lambda>rows. rows @ [m]) (db w)"
    and "integrity (db w')" and "length (owners_of oid (db w')) = 1" and "in_tx w' = in_tx w"
  using assms
  by (auto simp: create_membership_in_transaction_def run_rules repo_get_membership_for_user_eq
      try_except_def list_ex_iff split: prod.splits sum.splits if_splits dest: find_NoneD)

lemma create_membership_tenancy:
  assumes "create_membership_in_transaction uid oid role w = (Inr m, w')"
    and "tenancy_except oid (db w)" and "oid \<in> live_ids (db w)"
  shows "tenant_inv (db w')"
proof -
  note cm = create_membership_done [OF assms(1)]
  have "tenancy_except oid (db w')"
    unfolding cm(6) by (rule tenancy_except_append [OF assms(2) cm(3) assms(3)])
  then show ?thesis using cm(7) tenancy_close [OF _ cm(8)] by (simp add: tenant_inv_def)
qed


lemma membership_save_tenancy:
  assumes "membership_save m f w = (Inr x, w')" and "integrity (db w)"
    and "tenancy_except oid (db w)" and "m \<in> set (memberships (db w))"
    and "mem_organisation_id m = oid"
    and f: "\<And>r. mem_id (f r) = mem_id r \<and> mem_organisation_id (f r) = mem_organisation_id r \<and>
      (mem_is_active (f r) \<longrightarrow> mem_is_active r)"
  shows "tenancy_except oid (db w')" and "integrity (db w')"
    and "live_ids (db w') = live_ids (db w)"
proof -
  from assms(1) obtain t where d: "db w' = memberships_update
      (update_where (\<lambda>r. mem_id r = mem_id m) (\<lambda>r. (f r)\<lparr>mem_updated_at := t\<rparr>)) (db w)"
    and I: "integrity (db w')"
    by (auto simp: membership_save_run Let_def)
  show "tenancy_except oid (db w')"
    unfolding d by (rule tenancy_except_update [OF assms(3)])
      (use assms(5) f in \<open>auto dest: unique_membership [OF assms(2,4)]\<close>)
  show "integrity (db w')" by (rule I)
  show "live_ids (db w') = live_ids (db w)" by (simp add: d)
qed

lemma commits_transfer_membership:
  assumes inv: "tenant_inv (db w)" and live: "oid \<in> live_ids (db w)"
    and run: "transfer_membership_in_transaction uid oid role w = (Inr x, w')"
  shows "tenant_inv (db w')"
proof -
  let ?existing = "find (\<lambda>m. mem_user_id m = uid \<and> mem_is_active m) (memberships (db w))"
  from run obtain w1 where pre: "(case ?existing of
             None \<Rightarrow> ret ()
           | Some m \<Rightarrow>
               bind (ensure (\<not> (mem_role m = OWNER \<and> mem_organisation_id m \<noteq> oid))
                 (ConflictError ''Cross-organisation owner transfer is unsupported without atomic owner replacement'')) (\<lambda>_.
               bind (repo_deactivate_membership m) (\<lambda>_.
               ensure_exactly_one_active_owner (mem_organisation_id m)))) w = (Inr (), w1)"
    and m: "bind (repo_create_membership uid oid role) (\<lambda>m.
        bind (ensure_exactly_one_active_owner oid) (\<lambda>_. ret m)) w1 = (Inr x, w')"
    unfolding transfer_membership_in_transaction_def repo_get_membership_for_user_eq
    by (subst (asm) bind_Inr, subst (asm) bind_Inr) (auto simp: query_run try_except_raise_run)
  have w1: "tenancy (db w1) \<and> live_ids (db w1) = live_ids (db w)"
  proof (cases ?existing)
    case None
    with pre inv show ?thesis by (simp add: ret_def tenant_inv_def)
  next
    case (Some m)
    then have row: "m \<in> set (memberships (db w))" by (auto dest: find_SomeD)
    from pre Some obtain y where save: "membership_save m (\<lambda>r. r\<lparr>mem_is_active := False\<rparr>) w = (Inr y, w1)"
      and owner: "length (owners_of (mem_organisation_id m) (db w1)) = 1"
      by (auto simp: bind_Inr ensure_run ensure_exactly_one_active_owner_run repo_deactivate_membership_def)
    note kept = membership_save_tenancy [OF save tenant_invD(1) [OF inv]
        tenancy_exceptI [OF tenant_invD(2) [OF inv]] row refl]
    show ?thesis using tenancy_close [OF kept(1) owner] kept(3) by simp
  qed
  from m have x: "db w' = memberships_update (\<lambda>rows. rows @ [x]) (db w1)" "mem_organisation_id x = oid"
    "integrity (db w')" "length (owners_of oid (db w')) = 1"
    by (auto simp: run_rules)
  have "tenancy_except oid (db w')"
    unfolding x(1) by (rule tenancy_except_append) (use w1 x(2) live in \<open>auto intro: tenancy_exceptI\<close>)
  then show ?thesis using x tenancy_close by (simp add: tenant_inv_def)
qed

lemma commits_replace_owner_membership:
  "commits tenant_inv (replace_owner_membership_in_transaction oid source_id replacement_id)"
proof (rule commitsI)
  fix w x w'
  assume inv: "tenant_inv (db w)"
    and run: "replace_owner_membership_in_transaction oid source_id replacement_id w = (Inr x, w')"
  let ?ms = "filter (active_in oid) (memberships (db w))"
  from run obtain source replacement y w1
    where rows: "find_row mem_id source_id ?ms = Some source" "find_row mem_id replacement_id ?ms = Some replacement"
      and s1: "membership_save source (\<lambda>m. m\<lparr>mem_role := ADMIN\<rparr>) w = (Inr y, w1)"
      and s2: "membership_save replacement (\<lambda>m. m\<lparr>mem_role := OWNER\<rparr>) w1 = (Inr x, w')"
      and owner: "length (owners_of oid (db w')) = 1"
      and roles: "mem_role source = OWNER" "mem_role replacement \<noteq> OWNER"
    unfolding replace_owner_membership_in_transaction_def lock_active_memberships_def
    by (auto simp: bind_Inr query_run ensure_run ensure_exactly_one_active_owner_run ret_run raise_run
        Let_def split: option.splits)
  have source: "source \<in> set (memberships (db w))" "mem_organisation_id source = oid"
    and repl: "replacement \<in> set (memberships (db w))" "mem_organisation_id replacement = oid"
    using rows by (auto simp: find_row_def active_in_def dest!: find_SomeD)
  have kept1: "tenancy_except oid (db w1)" "integrity (db w1)"
    by (rule membership_save_tenancy [OF s1 tenant_invD(1) [OF inv]
        tenancy_exceptI [OF tenant_invD(2) [OF inv]] source]; simp)+
  from s1 obtain f where w1: "db w1 = memberships_update (update_where (\<lambda>r. mem_id r = mem_id source) f) (db w)"
    by (auto simp: membership_save_run Let_def)
  have "replacement \<noteq> source" using roles by auto
  then have "replacement \<in> set (memberships (db w1))"
    unfolding w1 memberships_table.set_update_by_key [OF tenant_invD(1) [OF inv] source(1)]
    using repl(1) by simp
  then have "tenancy_except oid (db w')" "integrity (db w')"
    by (rule membership_save_tenancy [OF s2 kept1(2) kept1(1) _ repl(2)]; simp)+
  then show "tenant_inv (db w')"
    using tenancy_close [OF _ owner] by (simp add: tenant_inv_def)
qed


text \<open>
  A deactivation that goes through the guard leaves the organisation its owner. The caller
  passes a row it has loaded.
\<close>

lemma deactivate_membership_tenancy:
  assumes inv: "tenant_inv (db w)" and row: "m \<in> set (memberships (db w))"
    and run: "deactivate_membership_in_transaction m w = (Inr x, w')"
  shows "tenant_inv (db w')"
proof -
  from run have save: "membership_save m (\<lambda>r. r\<lparr>mem_is_active := False\<rparr>) w = (Inr x, w')"
    and guard: "mem_role m \<noteq> OWNER \<or> 1 < length (owners_of (mem_organisation_id m) (db w))"
    by (auto simp: deactivate_membership_in_transaction_def repo_deactivate_membership_def
        ensure_owner_invariant_before_deactivation_def bind_Inr count_active_owners_def query_run
        ensure_run ret_run if_run)
  from guard at_most_one_owner [OF tenant_invD(1) [OF inv], of "mem_organisation_id m"]
  have role: "mem_role m \<noteq> OWNER" by auto
  from save obtain t where d: "db w' = memberships_update (update_where (\<lambda>r. mem_id r = mem_id m)
      (\<lambda>r. r\<lparr>mem_is_active := False, mem_updated_at := t\<rparr>)) (db w)" and I: "integrity (db w')"
    by (auto simp: membership_save_run Let_def)
  have "tenancy (db w')"
    unfolding d by (rule tenancy_update_non_owner [OF tenant_invD(2) [OF inv]])
      (use role in \<open>auto dest: unique_membership [OF tenant_invD(1) [OF inv] row]\<close>)
  with I show ?thesis by (simp add: tenant_inv_def)
qed

subsection \<open>Organisation operations\<close>

lemma create_organisation_done:
  assumes "create_organisation_in_transaction name slug w = (Inr r, w')"
  shows "db w' = organisations_update (\<lambda>rows. rows @ [r]) (db w)"
    and "org_deleted_at r = None" "org_status r = ORG_ACTIVE"
    and "normalize_name name = Inr (org_name r)" "normalize_slug slug = Inr (org_slug r)"
    and "integrity (db w')" and "in_tx w' = in_tx w"
proof -
  from assms obtain n s w1 where "normalize_name name = Inr n" "normalize_slug slug = Inr s"
    and slug: "organisation_get_by_slug s w = (Inr None, w1)"
    and "organisation_create n s w1 = (Inr r, w')"
    unfolding create_organisation_in_transaction_def
    by (auto simp: bind_Inr lift_run ensure_run try_except_raise_run)
  moreover from slug have "w1 = w"
    by (auto simp: organisation_get_by_slug_def bind_def query_def gets_def scalar_one_or_none_def
        ret_def raise_def split: list.splits)
  ultimately show "db w' = organisations_update (\<lambda>rows. rows @ [r]) (db w)"
    "org_deleted_at r = None" "org_status r = ORG_ACTIVE" "normalize_name name = Inr (org_name r)"
    "normalize_slug slug = Inr (org_slug r)" "integrity (db w')" "in_tx w' = in_tx w"
    by (auto simp: organisation_create_def run_rules Let_def)
qed

lemma soft_delete_done:
  assumes I: "integrity (db w)" and L: "limiter_ok l"
    and run: "soft_delete_in_transaction X oid actor ctx reason l w = (Inr x, w')"
  obtains r e t1 t2 now where "acts_as (db w) actor oid OWNER"
    and "r \<in> set (organisations (db w))" "org_id r = oid" "live r"
    and "x = r\<lparr>org_deleted_at := Some now, org_updated_at := t2\<rparr>"
    and "db w' = audit_events_update (\<lambda>rows. rows @ [e])
      (organisations_update (update_where (\<lambda>r. org_id r = oid)
        (\<lambda>r. r\<lparr>org_deleted_at := Some now, org_updated_at := t2\<rparr>))
      (memberships_update (update_where (active_in oid)
        (\<lambda>m. m\<lparr>mem_is_active := False, mem_updated_at := t1\<rparr>)) (db w)))"
    and "says e ctx AUDIT_TENANT ORGANISATION_DELETED TARGET_ORGANISATION (Some oid) reason
      (Some (JObj [(''slug'', JStr (org_slug r)), (''soft_delete'', JBool True)]))"
    and "integrity (db w')"
proof -
  from run obtain r a w1 where acts: "actor_problem (db w) actor = None" "organisation_problem (db w) oid = None"
      "actor_membership (db w) actor oid = Some a" "mem_role a = OWNER"
    and r: "find (\<lambda>r. org_id r = oid \<and> org_deleted_at r = None) (organisations (db w)) = Some r"
    and lim: "run_business_rate_limiter l w = (Inr (), w1)"
    and upd: "bind (deactivate_organisation_memberships oid) (\<lambda>_. bind (organisation_soft_delete r) (\<lambda>deleted.
     bind (record_event X ctx AUDIT_TENANT ORGANISATION_DELETED TARGET_ORGANISATION
       (Some (org_id deleted)) reason
       (Some (JObj [(''slug'', JStr (org_slug r)), (''soft_delete'', JBool True)]))) (\<lambda>_.
     ret deleted))) w1 = (Inr x, w')"
    unfolding soft_delete_in_transaction_def organisation_preamble [OF I]
    by (auto simp: bind_Inr [of "run_business_rate_limiter l"] bind_Inr [of "ensure _ _"]
        bind_Inr [of "query _"] count_active_owners_def query_run ensure_run
        split: option.splits)
  have d: "db w1 = db w" using limiter_run [OF L lim] by simp
  from r have r': "r \<in> set (organisations (db w))" "org_id r = oid" "live r"
    by (auto simp: live_def dest: find_SomeD)
  let ?t1 = "clock w1 (clock_pos w1)"
  let ?now = "clock w1 (Suc (clock_pos w1))"
  let ?t2 = "clock w1 (Suc (Suc (clock_pos w1)))"
  from upd obtain e w2 where x: "x = r\<lparr>org_deleted_at := Some ?now, org_updated_at := ?t2\<rparr>"
    and w2: "w2 = w1\<lparr>clock_pos := Suc (Suc (Suc (clock_pos w1))), db :=
      organisations_update (update_where (\<lambda>r. org_id r = oid)
        (\<lambda>r. r\<lparr>org_deleted_at := Some ?now, org_updated_at := ?t2\<rparr>))
      (memberships_update (update_where (active_in oid)
        (\<lambda>m. m\<lparr>mem_is_active := False, mem_updated_at := ?t1\<rparr>)) (db w1))\<rparr>"
    and rec: "record_event X ctx AUDIT_TENANT ORGANISATION_DELETED TARGET_ORGANISATION
       (Some oid) reason (Some (JObj [(''slug'', JStr (org_slug r)), (''soft_delete'', JBool True)])) w2 =
       (Inr e, w')"
    using r'(2) by (auto simp: run_rules deactivate_organisation_memberships_def organisation_soft_delete_def Let_def)
  show ?thesis
    by (rule that [OF _ r' x])
       (use record_event_run [OF rec] acts in \<open>auto simp: acts_as_iff [OF I] w2 d\<close>)
qed

lemma commits_soft_delete:
  assumes "limiter_ok l"
  shows "commits tenant_inv (soft_delete_in_transaction X oid actor ctx reason l)"
proof (rule commitsI)
  fix w x w'
  assume inv: "tenant_inv (db w)"
    and run: "soft_delete_in_transaction X oid actor ctx reason l w = (Inr x, w')"
  obtain r e t1 t2 now where d: "db w' = audit_events_update (\<lambda>rows. rows @ [e])
      (organisations_update (update_where (\<lambda>r. org_id r = oid)
        (\<lambda>r. r\<lparr>org_deleted_at := Some now, org_updated_at := t2\<rparr>))
      (memberships_update (update_where (active_in oid)
        (\<lambda>m. m\<lparr>mem_is_active := False, mem_updated_at := t1\<rparr>)) (db w)))" and I: "integrity (db w')"
    by (rule soft_delete_done [OF tenant_invD(1) [OF inv] assms run])
  have "tenancy (organisations_update (update_where (\<lambda>r. org_id r = oid)
        (\<lambda>r. r\<lparr>org_deleted_at := Some now, org_updated_at := t2\<rparr>))
      (memberships_update (update_where (active_in oid)
        (\<lambda>m. m\<lparr>mem_is_active := False, mem_updated_at := t1\<rparr>)) (db w)))"
    by (rule tenancy_delete_organisation [OF tenant_invD(2) [OF inv]]) (simp_all add: live_def)
  then show "tenant_inv (db w')" using I by (simp add: tenant_inv_def d)
qed


text \<open>An update of the details either has nothing to change, or writes the new row and one event.\<close>

lemma normalised_field_run:
  "(case raw of None \<Rightarrow> ret None | Some s \<Rightarrow> bind (lift (f s)) (\<lambda>x. ret (Some x))) w = (Inr v, w') \<longleftrightarrow>
     w' = w \<and> (case raw of None \<Rightarrow> v = None | Some s \<Rightarrow> \<exists>x. f s = Inr x \<and> v = Some x)"
  by (auto simp: run_rules split: option.splits)

lemma apply_organisation_details_run:
  assumes "limiter_ok l" and "apply_organisation_details X ctx r nn ns l w = (Inr x, w')"
  shows "w' = w \<and> x = r \<or> (\<exists>e t m. x = (organisation_changes nn ns r)\<lparr>org_updated_at := t\<rparr> \<and>
      db w' = audit_events_update (\<lambda>rows. rows @ [e]) (organisations_update (update_where
        (\<lambda>x. org_id x = org_id r) (\<lambda>x. (organisation_changes nn ns x)\<lparr>org_updated_at := t\<rparr>)) (db w)) \<and>
      says e ctx AUDIT_TENANT ORGANISATION_UPDATED TARGET_ORGANISATION (Some (org_id r)) None m \<and>
      integrity (db w'))"
proof (cases "(case nn of None \<Rightarrow> False | Some n \<Rightarrow> n \<noteq> org_name r) \<or>
    (case ns of None \<Rightarrow> False | Some s \<Rightarrow> s \<noteq> org_slug r)")
  case False
  with assms(2) show ?thesis by (simp add: apply_organisation_details_def ret_run)
next
  case True
  with assms(2) obtain w1 m where lim: "run_business_rate_limiter l w = (Inr (), w1)"
    and rest: "bind (organisation_update_details r nn ns) (\<lambda>updated.
      bind (record_event X ctx AUDIT_TENANT ORGANISATION_UPDATED TARGET_ORGANISATION
        (Some (org_id updated)) None (m updated)) (\<lambda>_. ret updated)) w1 = (Inr x, w')"
    by (auto simp: apply_organisation_details_def Let_def try_except_raise_run
        bind_Inr [of "run_business_rate_limiter l"] bind_Inr [of "try_except _ _ _"]
        bind_Inr [of "organisation_update_details r nn ns"])
  have d: "db w1 = db w" using limiter_run [OF assms(1) lim] by simp
  let ?t = "clock w1 (clock_pos w1)"
  from rest obtain e w2 where x: "x = (organisation_changes nn ns r)\<lparr>org_updated_at := ?t\<rparr>"
    and w2: "w2 = w1\<lparr>clock_pos := Suc (clock_pos w1), db :=
      organisations_update (update_where (\<lambda>x. org_id x = org_id r)
        (\<lambda>x. (organisation_changes nn ns x)\<lparr>org_updated_at := ?t\<rparr>)) (db w1)\<rparr>"
    and rec: "record_event X ctx AUDIT_TENANT ORGANISATION_UPDATED TARGET_ORGANISATION
        (Some (org_id r)) None (m x) w2 = (Inr e, w')"
    by (auto simp: organisation_update_details_def run_rules Let_def)
  show ?thesis using record_event_run [OF rec] x w2 d by auto
qed

lemma update_organisation_details_done:
  assumes I: "integrity (db w)" and L: "limiter_ok l"
    and run: "update_organisation_details_in_transaction X oid actor ctx name slug l w = (Inr x, w')"
  obtains r role nn ns where "acts_as (db w) actor oid role" "role = OWNER \<or> role = ADMIN"
    and "r \<in> set (organisations (db w))" "org_id r = oid" "live r"
    and "case name of None \<Rightarrow> nn = None | Some raw \<Rightarrow> \<exists>n. normalize_name raw = Inr n \<and> nn = Some n"
    and "case slug of None \<Rightarrow> ns = None | Some raw \<Rightarrow> \<exists>s. normalize_slug raw = Inr s \<and> ns = Some s"
    and "w' = w \<and> x = r \<or> (\<exists>e t m. x = (organisation_changes nn ns r)\<lparr>org_updated_at := t\<rparr> \<and>
      db w' = audit_events_update (\<lambda>rows. rows @ [e]) (organisations_update
        (update_where (\<lambda>r. org_id r = oid) (\<lambda>r. (organisation_changes nn ns r)\<lparr>org_updated_at := t\<rparr>)) (db w)) \<and>
      says e ctx AUDIT_TENANT ORGANISATION_UPDATED TARGET_ORGANISATION (Some oid) None m \<and>
      integrity (db w'))"
proof -
  from run obtain r a nn ns where acts: "actor_problem (db w) actor = None" "organisation_problem (db w) oid = None"
      "actor_membership (db w) actor oid = Some a" "mem_role a = OWNER \<or> mem_role a = ADMIN"
    and r: "find (\<lambda>r. org_id r = oid \<and> org_deleted_at r = None) (organisations (db w)) = Some r"
    and n: "case name of None \<Rightarrow> nn = None | Some raw \<Rightarrow> \<exists>n. normalize_name raw = Inr n \<and> nn = Some n"
    and s: "case slug of None \<Rightarrow> ns = None | Some raw \<Rightarrow> \<exists>s. normalize_slug raw = Inr s \<and> ns = Some s"
    and rest: "apply_organisation_details X ctx r nn ns l w = (Inr x, w')"
    unfolding update_organisation_details_in_transaction_def organisation_preamble [OF I]
    by (cases "actor_membership (db w) actor oid")
       (auto simp: bind_Inr normalised_field_run ensure_run)
  from r have r': "r \<in> set (organisations (db w))" "org_id r = oid" "live r"
    by (auto simp: live_def dest: find_SomeD)
  have "acts_as (db w) actor oid (mem_role a)" using acts by (auto simp: acts_as_iff [OF I])
  then show ?thesis
    using that [OF _ acts(4) r' n s] apply_organisation_details_run [OF L rest]
    unfolding r'(2) by blast
qed


lemma commits_update_organisation_details:
  assumes "limiter_ok l"
  shows "commits tenant_inv (update_organisation_details_in_transaction X oid actor ctx name slug l)"
proof (rule commitsI)
  fix w x w'
  assume inv: "tenant_inv (db w)"
    and run: "update_organisation_details_in_transaction X oid actor ctx name slug l w = (Inr x, w')"
  obtain r nn ns where "w' = w \<and> x = r \<or> (\<exists>e t m. x = (organisation_changes nn ns r)\<lparr>org_updated_at := t\<rparr> \<and>
      db w' = audit_events_update (\<lambda>rows. rows @ [e]) (organisations_update
        (update_where (\<lambda>r. org_id r = oid) (\<lambda>r. (organisation_changes nn ns r)\<lparr>org_updated_at := t\<rparr>)) (db w)) \<and>
      says e ctx AUDIT_TENANT ORGANISATION_UPDATED TARGET_ORGANISATION (Some oid) None m \<and>
      integrity (db w'))"
    by (rule update_organisation_details_done [OF tenant_invD(1) [OF inv] assms run])
  then show "tenant_inv (db w')"
    using inv by (auto simp: tenant_inv_def intro!: tenancy_save_organisation)
qed

subsection \<open>The public operations\<close>

text \<open>Each runs its body in a transaction of its own unless the caller has opened one.\<close>

lemma keeps_begin_of_commits:
  assumes "commits J m" and "\<not> in_tx w" and "J (db w)" and "in_transaction_or_begin m w = (r, w')"
  shows "J (db w')"
  using assms keeps_session_begin [OF assms(1)]
  by (auto simp: in_transaction_or_begin_def dest: maintainsD)

end
