(* ===== verification/Invites.thy ===== *)
theory Invites
  imports Memberships Outbox_Store
begin

section \<open>Invites: repository, service, retention\<close>

text \<open>
  \<^verbatim>\<open>invites/repositories/invites.py\<close>, \<^verbatim>\<open>invites/services/invites.py\<close> and
  \<^verbatim>\<open>invites/anonymisation.py\<close>. The raw token of an invite is never stored: the table
  holds its SHA-256, and the outbox event that carries it to the addressee holds it encrypted.
\<close>

subsection \<open>Repository\<close>

definition repo_create_invite ::
  "string \<Rightarrow> uuid \<Rightarrow> membership_role \<Rightarrow> string \<Rightarrow> int option \<Rightarrow> invite app" where
  "repo_create_invite email oid role token_hash expires =
     bind uuid4 (\<lambda>i. bind utcnow (\<lambda>c. bind utcnow (\<lambda>t.
       let v = \<lparr>inv_id = i, inv_email = email, inv_organisation_id = oid, inv_role = role,
                inv_status = INVITE_PENDING, inv_token_hash = token_hash, inv_expires_at = expires,
                inv_revoked_at = None, inv_revoked_by_user_id = None,
                inv_created_at = c, inv_updated_at = t\<rparr>
       in bind (flush (invites_update (\<lambda>rows. rows @ [v]))) (\<lambda>_. ret v))))"

definition get_by_token_hash :: "string \<Rightarrow> invite option app" where
  "get_by_token_hash h =
     bind (query (\<lambda>d. take 1 (filter (\<lambda>v. inv_token_hash v = h) (invites d)))) scalar_one_or_none"

definition get_pending_invite_by_email :: "uuid \<Rightarrow> string \<Rightarrow> invite option app" where
  "get_pending_invite_by_email oid email =
     bind (query (\<lambda>d. take 1 (filter (\<lambda>v. inv_organisation_id v = oid \<and>
       lower (inv_email v) = lower email \<and> inv_status v = INVITE_PENDING) (invites d))))
       scalar_one_or_none"

definition get_invite_for_organisation :: "uuid \<Rightarrow> uuid \<Rightarrow> invite option app" where
  "get_invite_for_organisation iid oid =
     bind (query (\<lambda>d. take 1 (filter (\<lambda>v. inv_id v = iid \<and> inv_organisation_id v = oid) (invites d))))
       scalar_one_or_none"

text \<open>Attributes of a loaded invite are set and flushed; \<open>updated_at\<close> follows.\<close>

definition invite_save :: "invite \<Rightarrow> (invite \<Rightarrow> invite) \<Rightarrow> invite app" where
  "invite_save v f = bind utcnow (\<lambda>t.
     let g = (\<lambda>r. (f r)\<lparr>inv_updated_at := t\<rparr>)
     in bind (flush (invites_update (update_where (\<lambda>r. inv_id r = inv_id v) g))) (\<lambda>_. ret (g v)))"

definition mark_revoked :: "invite \<Rightarrow> uuid \<Rightarrow> invite app" where
  "mark_revoked v uid = bind utcnow (\<lambda>now. invite_save v (\<lambda>r. r\<lparr>inv_status := INVITE_REVOKED,
     inv_revoked_at := Some now, inv_revoked_by_user_id := Some uid\<rparr>))"

definition mark_status :: "invite \<Rightarrow> invite_status \<Rightarrow> invite app" where
  "mark_status v status = invite_save v (\<lambda>r. r\<lparr>inv_status := status\<rparr>)"

text \<open>
  \<open>update(Invite).where(p).values(f).returning(Invite)\<close> followed by \<open>scalar_one_or_none\<close>: the
  rows that satisfy \<open>p\<close> are changed in one statement.
\<close>

definition update_returning :: "(invite \<Rightarrow> bool) \<Rightarrow> (invite \<Rightarrow> invite) \<Rightarrow> invite option app" where
  "update_returning p f = bind utcnow (\<lambda>t.
     let g = (\<lambda>r. (f r)\<lparr>inv_updated_at := t\<rparr>)
     in bind (query (\<lambda>d. filter p (invites d))) (\<lambda>rows.
        bind (flush (invites_update (update_where p g))) (\<lambda>_.
        scalar_one_or_none (map g rows))))"

definition unexpired_at :: "int \<Rightarrow> invite \<Rightarrow> bool" where
  "unexpired_at now v = (case inv_expires_at v of None \<Rightarrow> True | Some t \<Rightarrow> now < t)"

definition expired_at :: "int \<Rightarrow> invite \<Rightarrow> bool" where
  "expired_at now v = (case inv_expires_at v of None \<Rightarrow> False | Some t \<Rightarrow> t \<le> now)"

definition accept_pending_invite_by_token_hash :: "string \<Rightarrow> int \<Rightarrow> invite option app" where
  "accept_pending_invite_by_token_hash h now =
     update_returning (\<lambda>v. inv_token_hash v = h \<and> inv_status v = INVITE_PENDING \<and> unexpired_at now v)
       (\<lambda>v. v\<lparr>inv_status := INVITE_ACCEPTED\<rparr>)"

definition mark_pending_invite_expired_by_token_hash :: "string \<Rightarrow> int \<Rightarrow> invite option app" where
  "mark_pending_invite_expired_by_token_hash h now =
     update_returning (\<lambda>v. inv_token_hash v = h \<and> inv_status v = INVITE_PENDING \<and> expired_at now v)
       (\<lambda>v. v\<lparr>inv_status := INVITE_EXPIRED\<rparr>)"

definition revoke_pending_invite :: "uuid \<Rightarrow> uuid \<Rightarrow> uuid \<Rightarrow> int \<Rightarrow> invite option app" where
  "revoke_pending_invite iid oid actor now =
     update_returning (\<lambda>v. inv_id v = iid \<and> inv_organisation_id v = oid \<and> inv_status v = INVITE_PENDING)
       (\<lambda>v. v\<lparr>inv_status := INVITE_REVOKED, inv_revoked_at := Some now,
              inv_revoked_by_user_id := Some actor\<rparr>)"

definition rotate_pending_invite_token ::
  "uuid \<Rightarrow> uuid \<Rightarrow> string \<Rightarrow> int \<Rightarrow> int \<Rightarrow> invite option app" where
  "rotate_pending_invite_token iid oid new_hash new_expires now =
     update_returning (\<lambda>v. inv_id v = iid \<and> inv_organisation_id v = oid \<and>
         inv_status v = INVITE_PENDING \<and> unexpired_at now v)
       (\<lambda>v. v\<lparr>inv_token_hash := new_hash, inv_expires_at := Some new_expires\<rparr>)"

definition mark_pending_invite_expired_by_id :: "uuid \<Rightarrow> uuid \<Rightarrow> int \<Rightarrow> invite option app" where
  "mark_pending_invite_expired_by_id iid oid now =
     update_returning (\<lambda>v. inv_id v = iid \<and> inv_organisation_id v = oid \<and>
         inv_status v = INVITE_PENDING \<and> expired_at now v)
       (\<lambda>v. v\<lparr>inv_status := INVITE_EXPIRED\<rparr>)"

subsection \<open>Anonymisation of completed invites\<close>

definition scrubbed_invite_email :: "uuid \<Rightarrow> string" where
  "scrubbed_invite_email i = ''deleted-invite-'' @ uuid_str i @ ''@anonymous.invalid''"

definition scrubbed_invite_token_hash :: "uuid \<Rightarrow> string" where
  "scrubbed_invite_token_hash i = ''scrubbed-invite:'' @ uuid_str i"

definition is_scrubbed_invite :: "invite \<Rightarrow> bool" where
  "is_scrubbed_invite v = (suffix ''@anonymous.invalid'' (inv_email v) \<and>
     prefix ''scrubbed-invite:'' (inv_token_hash v))"

definition anonymisable_invite :: "int \<Rightarrow> int \<Rightarrow> int \<Rightarrow> invite \<Rightarrow> bool" where
  "anonymisable_invite accepted_before expired_before revoked_before v =
     ((inv_status v = INVITE_ACCEPTED \<and> inv_updated_at v < accepted_before \<or>
       inv_status v = INVITE_EXPIRED \<and> inv_updated_at v < expired_before \<or>
       inv_status v = INVITE_REVOKED \<and> inv_updated_at v < revoked_before) \<and>
      \<not> is_scrubbed_invite v)"

definition scrubbed :: "int \<Rightarrow> invite \<Rightarrow> invite" where
  "scrubbed t v = v\<lparr>inv_email := scrubbed_invite_email (inv_id v),
     inv_token_hash := scrubbed_invite_token_hash (inv_id v), inv_updated_at := t\<rparr>"

definition anonymise_completed_invites_older_than :: "int \<Rightarrow> int \<Rightarrow> int \<Rightarrow> nat \<Rightarrow> nat app" where
  "anonymise_completed_invites_older_than accepted_before expired_before revoked_before batch_size =
     bind (query (\<lambda>d. take batch_size (sort_key inv_updated_at (sort_key inv_id
       (filter (anonymisable_invite accepted_before expired_before revoked_before) (invites d)))))) (\<lambda>rows.
     let todo = filter (\<lambda>v. \<not> is_scrubbed_invite v) rows
     in if todo = [] then ret 0
        else bind (map_each todo (\<lambda>_. utcnow)) (\<lambda>ts.
          let times = map_of (zip (map inv_id todo) ts)
          in bind (flush (invites_update (update_where (\<lambda>v. times (inv_id v) \<noteq> None)
               (\<lambda>v. scrubbed (the (times (inv_id v))) v)))) (\<lambda>_. ret (length todo))))"

subsection \<open>Service\<close>

record invite_retention_settings =
  accepted_days :: int
  expired_days :: int
  revoked_days :: int
  invite_batch_size :: nat

definition invite_token_hash :: "externals \<Rightarrow> string \<Rightarrow> string" where
  "invite_token_hash X token = sha256_hex X token"

definition default_invite_ttl :: int where
  "default_invite_ttl = days_us 7"

definition is_expired_at :: "int option \<Rightarrow> int \<Rightarrow> bool" where
  "is_expired_at expires now = (case expires of None \<Rightarrow> False | Some t \<Rightarrow> t \<le> now)"

definition get_actor_membership :: "uuid \<Rightarrow> uuid \<Rightarrow> membership app" where
  "get_actor_membership oid actor =
     bind (get_user_by_id actor) (\<lambda>u.
     bind (ensure_user_active u) (\<lambda>_.
     bind (get_organisation oid) (\<lambda>r.
     bind (ensure_organisation_active r) (\<lambda>_.
     bind (get_membership actor oid) (\<lambda>am.
     case am of
       None \<Rightarrow> raise (ForbiddenError ''You are not allowed to invite users'')
     | Some a \<Rightarrow> ret a)))))"

definition invite_payload :: "externals \<Rightarrow> string \<Rightarrow> invite \<Rightarrow> uuid \<Rightarrow> string \<Rightarrow> string \<Rightarrow> json" where
  "invite_payload X key v oid token purpose = JObj
     [(''invite_id'', JStr (uuid_str (inv_id v))),
      (''organisation_id'', JStr (uuid_str oid)),
      (''email'', JStr (inv_email v)),
      (''encrypted_raw_token'', JStr (encrypt_token X key token)),
      (''purpose'', JStr purpose),
      (''role'', JStr (role_value (inv_role v)))]"

definition create_invite_in_transaction ::
  "externals \<Rightarrow> string \<Rightarrow> uuid \<Rightarrow> uuid \<Rightarrow> membership_role \<Rightarrow> string \<Rightarrow> audit_context \<Rightarrow>
   unit app option \<Rightarrow> invite app" where
  "create_invite_in_transaction X key oid actor role email ctx limiter =
     bind (ensure (role \<noteq> OWNER) (ForbiddenError ''Owner role cannot be assigned via invite'')) (\<lambda>_.
     bind (get_actor_membership oid actor) (\<lambda>a.
     bind (ensure (mem_role a = OWNER \<or> mem_role a = ADMIN)
       (ForbiddenError ''You are not allowed to invite users'')) (\<lambda>_.
     bind (ensure (\<not> (mem_role a = ADMIN \<and> role = ADMIN))
       (ForbiddenError ''Admin cannot assign admin role'')) (\<lambda>_.
     let normalized = lower (strip email)
     in bind (get_pending_invite_by_email oid normalized) (\<lambda>existing.
     bind (ensure (existing = None) (ConflictError ''Pending invite already exists for this email'')) (\<lambda>_.
     bind (run_business_rate_limiter limiter) (\<lambda>_.
     bind token_urlsafe (\<lambda>token.
     bind utcnow (\<lambda>now.
     bind (try_except
       (repo_create_invite normalized oid role (invite_token_hash X token) (Some (now + default_invite_ttl)))
       (\<lambda>e. e = IntegrityError)
       (\<lambda>_. raise (ConflictError ''Pending invite already exists for this email''))) (\<lambda>v.
     bind (record_event X ctx AUDIT_TENANT INVITE_CREATED TARGET_INVITE (Some (inv_id v)) None
       (Some (JObj [(''organisation_id'', JStr (uuid_str oid)),
                    (''invite_role'', JStr (role_value (inv_role v)))]))) (\<lambda>_.
     bind (publish_event (outbox_event_type_value OUTBOX_INVITE_CREATED) ''invite'' (inv_id v)
       (invite_payload X key v oid token ''created'')) (\<lambda>_.
     ret v))))))))))))"

definition create_invite ::
  "externals \<Rightarrow> string \<Rightarrow> uuid \<Rightarrow> uuid \<Rightarrow> membership_role \<Rightarrow> string \<Rightarrow> audit_context \<Rightarrow>
   unit app option \<Rightarrow> invite app" where
  "create_invite X key oid actor role email ctx limiter =
     bind (ensure_audit_actor_matches actor ctx) (\<lambda>_.
     session_begin (create_invite_in_transaction X key oid actor role email ctx limiter))"

definition accept_invite_in_transaction :: "externals \<Rightarrow> string \<Rightarrow> principal \<Rightarrow> membership app" where
  "accept_invite_in_transaction X token p =
     bind utcnow (\<lambda>now.
     bind (accept_pending_invite_by_token_hash (invite_token_hash X token) now) (\<lambda>found.
     case found of
       None \<Rightarrow>
         bind (mark_pending_invite_expired_by_token_hash (invite_token_hash X token) now) (\<lambda>_.
         raise (BadRequestError ''Invalid or expired invite''))
     | Some v \<Rightarrow>
         bind (ensure (case idn_email p of None \<Rightarrow> False | Some e \<Rightarrow> lower (inv_email v) = lower e)
           (ForbiddenError ''Invite email does not match authenticated user'')) (\<lambda>_.
         bind (ensure_email_verified p) (\<lambda>_.
         bind (get_or_create_current_user p) (\<lambda>u.
         bind (ensure_user_active u) (\<lambda>_.
         bind (get_organisation (inv_organisation_id v)) (\<lambda>r.
         bind (ensure_organisation_active r) (\<lambda>_.
         create_membership (usr_id u) (inv_organisation_id v) (inv_role v)))))))))"

definition accept_invite :: "externals \<Rightarrow> string \<Rightarrow> principal \<Rightarrow> membership app" where
  "accept_invite X token p = in_transaction_or_begin (accept_invite_in_transaction X token p)"

definition revoke_invite_in_transaction ::
  "externals \<Rightarrow> uuid \<Rightarrow> uuid \<Rightarrow> uuid \<Rightarrow> audit_context \<Rightarrow> string option \<Rightarrow> unit app" where
  "revoke_invite_in_transaction X oid iid actor ctx reason =
     bind (get_actor_membership oid actor) (\<lambda>a.
     bind (get_invite_for_organisation iid oid) (\<lambda>found.
     case found of
       None \<Rightarrow> raise (NotFoundError ''Invite not found'')
     | Some v \<Rightarrow>
     bind (ensure (inv_status v = INVITE_PENDING) (ConflictError ''Only pending invite can be revoked'')) (\<lambda>_.
     bind (ensure (mem_role a \<noteq> MEMBER) (ForbiddenError ''You are not allowed to revoke invites'')) (\<lambda>_.
     bind (ensure (\<not> (mem_role a = ADMIN \<and> inv_role v = ADMIN))
       (ForbiddenError ''Admin can revoke member invites only'')) (\<lambda>_.
     bind utcnow (\<lambda>now.
     bind (revoke_pending_invite (inv_id v) oid actor now) (\<lambda>updated.
     bind (ensure (updated \<noteq> None) (ConflictError ''Only pending invite can be revoked'')) (\<lambda>_.
     bind (record_event X ctx AUDIT_TENANT INVITE_REVOKED_ACTION TARGET_INVITE (Some (inv_id v)) reason
       (Some (JObj [(''organisation_id'', JStr (uuid_str oid)),
                    (''invite_role'', JStr (role_value (inv_role v))),
                    (''invite_status_before'', JStr (invite_status_value (inv_status v)))]))) (\<lambda>_.
     ret ())))))))))"

definition revoke_invite ::
  "externals \<Rightarrow> uuid \<Rightarrow> uuid \<Rightarrow> uuid \<Rightarrow> audit_context \<Rightarrow> string option \<Rightarrow> unit app" where
  "revoke_invite X oid iid actor ctx reason =
     bind (ensure_audit_actor_matches actor ctx) (\<lambda>_.
     in_transaction_or_begin (revoke_invite_in_transaction X oid iid actor ctx reason))"

text \<open>
  \<open>if expired: mark it and raise\<close>, which \<open>resend_invite\<close> does before and after the rate
  limiter, and once more when the token could not be rotated.
\<close>

definition raise_not_resendable :: "invite \<Rightarrow> uuid \<Rightarrow> int \<Rightarrow> 'a app" where
  "raise_not_resendable v oid now =
     bind (mark_pending_invite_expired_by_id (inv_id v) oid now) (\<lambda>expired.
     if expired \<noteq> None then raise (ConflictError ''Invite has expired'')
     else raise (ConflictError ''Only pending invite can be resent''))"

definition resend_invite_in_transaction ::
  "externals \<Rightarrow> string \<Rightarrow> uuid \<Rightarrow> uuid \<Rightarrow> uuid \<Rightarrow> audit_context \<Rightarrow> unit app option \<Rightarrow> invite app" where
  "resend_invite_in_transaction X key oid iid actor ctx limiter =
     bind (get_actor_membership oid actor) (\<lambda>a.
     bind (get_invite_for_organisation iid oid) (\<lambda>found.
     case found of
       None \<Rightarrow> raise (NotFoundError ''Invite not found'')
     | Some v \<Rightarrow>
     bind (ensure (inv_status v = INVITE_PENDING) (ConflictError ''Only pending invite can be resent'')) (\<lambda>_.
     bind (ensure (mem_role a \<noteq> MEMBER) (ForbiddenError ''You are not allowed to resend invites'')) (\<lambda>_.
     bind (ensure (\<not> (mem_role a = ADMIN \<and> inv_role v = ADMIN))
       (ForbiddenError ''Admin can resend member invites only'')) (\<lambda>_.
     bind utcnow (\<lambda>now1.
     if is_expired_at (inv_expires_at v) now1 then raise_not_resendable v oid now1
     else
     bind (run_business_rate_limiter limiter) (\<lambda>_.
     bind utcnow (\<lambda>now.
     if is_expired_at (inv_expires_at v) now then raise_not_resendable v oid now
     else
     bind token_urlsafe (\<lambda>token.
     bind (rotate_pending_invite_token (inv_id v) oid (invite_token_hash X token)
       (now + default_invite_ttl) now) (\<lambda>rotated.
     case rotated of
       None \<Rightarrow> bind utcnow (\<lambda>retry_now. raise_not_resendable v oid retry_now)
     | Some r \<Rightarrow>
     bind (record_event X ctx AUDIT_TENANT INVITE_RESENT TARGET_INVITE (Some (inv_id r)) None
       (Some (JObj [(''organisation_id'', JStr (uuid_str oid)),
                    (''invite_role'', JStr (role_value (inv_role r)))]))) (\<lambda>_.
     bind (publish_event (outbox_event_type_value OUTBOX_INVITE_RESEND) ''invite'' (inv_id r)
       (invite_payload X key r oid token ''resent'')) (\<lambda>_.
     ret r))))))))))))"

definition resend_invite ::
  "externals \<Rightarrow> string \<Rightarrow> uuid \<Rightarrow> uuid \<Rightarrow> uuid \<Rightarrow> audit_context \<Rightarrow> unit app option \<Rightarrow> invite app" where
  "resend_invite X key oid iid actor ctx limiter =
     bind (ensure_audit_actor_matches actor ctx) (\<lambda>_.
     session_begin (resend_invite_in_transaction X key oid iid actor ctx limiter))"

definition anonymise_completed_invites :: "invite_retention_settings \<Rightarrow> int option \<Rightarrow> nat app" where
  "anonymise_completed_invites cfg now =
     bind (case now of None \<Rightarrow> utcnow | Some t \<Rightarrow> ret t) (\<lambda>t.
     in_transaction_or_begin (anonymise_completed_invites_older_than
       (t - days_us (accepted_days cfg)) (t - days_us (expired_days cfg))
       (t - days_us (revoked_days cfg)) (invite_batch_size cfg)))"


subsection \<open>What the repository does\<close>

lemma get_pending_invite_by_email_eq:
  "get_pending_invite_by_email oid email = query (\<lambda>d. find (\<lambda>v. inv_organisation_id v = oid \<and>
     lower (inv_email v) = lower email \<and> inv_status v = INVITE_PENDING) (invites d))"
  unfolding get_pending_invite_by_email_def by (rule query_limit1)

lemma get_invite_for_organisation_eq:
  "get_invite_for_organisation iid oid =
     query (\<lambda>d. find (\<lambda>v. inv_id v = iid \<and> inv_organisation_id v = oid) (invites d))"
  unfolding get_invite_for_organisation_def by (rule query_limit1)

lemma get_actor_membership_run:
  assumes "integrity (db w)"
  shows "get_actor_membership oid actor w = (Inr a, w') \<longleftrightarrow> w' = w \<and>
    actor_problem (db w) actor = None \<and> organisation_problem (db w) oid = None \<and>
    actor_membership (db w) actor oid = Some a"
  unfolding get_actor_membership_def tenant_preamble [OF assms]
  by (auto simp: raise_def ret_def split: option.splits)

lemma update_returning_run:
  assumes "update_returning p f w = (Inr r, w')"
  shows "db w' = invites_update (update_where p (\<lambda>v. (f v)\<lparr>inv_updated_at := clock w (clock_pos w)\<rparr>)) (db w)"
    and "integrity (db w')"
    and "in_tx w' = in_tx w"
    and "r = None \<Longrightarrow> \<forall>v\<in>set (invites (db w)). \<not> p v"
    and "r = Some v' \<Longrightarrow> \<exists>v. filter p (invites (db w)) = [v] \<and>
      v' = (f v)\<lparr>inv_updated_at := clock w (clock_pos w)\<rparr>"
  using assms
  by (auto simp: update_returning_def run_rules Let_def scalar_one_or_none_def filter_empty_conv
      split: list.splits)

lemma repo_create_invite_run [run_rules]:
  "repo_create_invite email oid role h ex w = (Inr v, w') \<longleftrightarrow>
     v = \<lparr>inv_id = uuid_source w (uuid_pos w), inv_email = email, inv_organisation_id = oid,
          inv_role = role, inv_status = INVITE_PENDING, inv_token_hash = h, inv_expires_at = ex,
          inv_revoked_at = None, inv_revoked_by_user_id = None,
          inv_created_at = clock w (clock_pos w), inv_updated_at = clock w (Suc (clock_pos w))\<rparr> \<and>
     integrity (invites_update (\<lambda>rows. rows @ [v]) (db w)) \<and>
     w' = w\<lparr>uuid_pos := Suc (uuid_pos w), clock_pos := Suc (Suc (clock_pos w)),
            db := invites_update (\<lambda>rows. rows @ [v]) (db w)\<rparr>"
  by (auto simp: repo_create_invite_def run_rules Let_def)

lemma publish_event_run [run_rules]:
  "publish_event et at aid pl w = (Inr e, w') \<longleftrightarrow>
     e = \<lparr>obx_id = uuid_source w (uuid_pos w), obx_event_type = et, obx_aggregate_type = Some at,
          obx_aggregate_id = Some aid, obx_payload_json = pl, obx_status = OUTBOX_PENDING,
          obx_attempts = 0, obx_max_attempts = 10, obx_next_attempt_at = None, obx_locked_at = None,
          obx_processed_at = None, obx_last_error = None, obx_created_at = clock w (clock_pos w),
          obx_updated_at = clock w (Suc (clock_pos w))\<rparr> \<and>
     integrity (outbox_events_update (\<lambda>rows. rows @ [e]) (db w)) \<and>
     w' = w\<lparr>uuid_pos := Suc (uuid_pos w), clock_pos := Suc (Suc (clock_pos w)),
            db := outbox_events_update (\<lambda>rows. rows @ [e]) (db w)\<rparr>"
  by (auto simp: publish_event_def run_rules Let_def)

subsection \<open>What the service does\<close>

text \<open>Who may invite, revoke or resend for which role.\<close>

definition may_handle_invite :: "membership_role \<Rightarrow> membership_role \<Rightarrow> bool" where
  "may_handle_invite actor_role role \<longleftrightarrow>
     actor_role = OWNER \<or> actor_role = ADMIN \<and> role \<noteq> ADMIN"

lemma create_invite_done:
  assumes I: "integrity (db w)" and L: "limiter_ok l"
    and run: "create_invite_in_transaction X key oid actor role email ctx l w = (Inr v, w')"
  obtains arole token ev e where "acts_as (db w) actor oid arole" "may_handle_invite arole role"
    and "role \<noteq> OWNER"
    and "inv_email v = lower (strip email)" "inv_organisation_id v = oid" "inv_role v = role"
      "inv_status v = INVITE_PENDING" "inv_token_hash v = sha256_hex X token"
    and "says ev ctx AUDIT_TENANT INVITE_CREATED TARGET_INVITE (Some (inv_id v)) None
      (Some (JObj [(''organisation_id'', JStr (uuid_str oid)), (''invite_role'', JStr (role_value role))]))"
    and "obx_event_type e = ''invite.created''" "obx_status e = OUTBOX_PENDING" "obx_attempts e = 0"
      "obx_max_attempts e = 10" "obx_locked_at e = None" "obx_next_attempt_at e = None"
      "obx_payload_json e = invite_payload X key v oid token ''created''"
    and "db w' = outbox_events_update (\<lambda>rows. rows @ [e]) (audit_events_update (\<lambda>rows. rows @ [ev])
      (invites_update (\<lambda>rows. rows @ [v]) (db w)))"
    and "integrity (db w')" and "\<exists>t. inv_expires_at v = Some (t + default_invite_ttl)"
proof -
  let ?em = "lower (strip email)"
  from run obtain a w1 where pre: "actor_problem (db w) actor = None" "organisation_problem (db w) oid = None"
      "actor_membership (db w) actor oid = Some a" "may_handle_invite (mem_role a) role" "role \<noteq> OWNER"
    and lim: "run_business_rate_limiter l w = (Inr (), w1)"
    and rest: "bind token_urlsafe (\<lambda>token. bind utcnow (\<lambda>now.
     bind (try_except
       (repo_create_invite ?em oid role (invite_token_hash X token) (Some (now + default_invite_ttl)))
       (\<lambda>e. e = IntegrityError)
       (\<lambda>_. raise (ConflictError ''Pending invite already exists for this email''))) (\<lambda>v.
     bind (record_event X ctx AUDIT_TENANT INVITE_CREATED TARGET_INVITE (Some (inv_id v)) None
       (Some (JObj [(''organisation_id'', JStr (uuid_str oid)),
                    (''invite_role'', JStr (role_value (inv_role v)))]))) (\<lambda>_.
     bind (publish_event (outbox_event_type_value OUTBOX_INVITE_CREATED) ''invite'' (inv_id v)
       (invite_payload X key v oid token ''created'')) (\<lambda>_. ret v))))) w1 = (Inr v, w')"
    unfolding create_invite_in_transaction_def get_pending_invite_by_email_eq Let_def
    by (auto simp: bind_Inr [of "ensure _ _"] ensure_run bind_Inr [of "get_actor_membership _ _"]
        get_actor_membership_run [OF I] bind_Inr [of "query _"] query_run
        bind_Inr [of "run_business_rate_limiter l"] may_handle_invite_def)
  have d: "db w1 = db w" using limiter_run [OF L lim] by simp
  let ?tok = "token_source w1 (token_pos w1)"
  let ?now = "clock w1 (clock_pos w1)"
  from rest obtain w2 ev w3 e
    where cr: "repo_create_invite ?em oid role (sha256_hex X ?tok) (Some (?now + default_invite_ttl))
        (w1\<lparr>token_pos := Suc (token_pos w1), clock_pos := Suc (clock_pos w1)\<rparr>) = (Inr v, w2)"
    and rec: "record_event X ctx AUDIT_TENANT INVITE_CREATED TARGET_INVITE (Some (inv_id v)) None
       (Some (JObj [(''organisation_id'', JStr (uuid_str oid)),
                    (''invite_role'', JStr (role_value (inv_role v)))])) w2 = (Inr ev, w3)"
    and pub: "publish_event (outbox_event_type_value OUTBOX_INVITE_CREATED) ''invite'' (inv_id v)
       (invite_payload X key v oid ?tok ''created'') w3 = (Inr e, w')"
    by (auto simp: bind_Inr try_except_raise_run token_urlsafe_run utcnow_run ret_run invite_token_hash_def)
  from cr have v: "inv_email v = ?em" "inv_organisation_id v = oid" "inv_role v = role"
      "inv_status v = INVITE_PENDING" "inv_token_hash v = sha256_hex X ?tok"
      "inv_expires_at v = Some (?now + default_invite_ttl)"
    and w2: "db w2 = invites_update (\<lambda>rows. rows @ [v]) (db w1)"
    by (auto simp: repo_create_invite_run)
  have "acts_as (db w) actor oid (mem_role a)" using pre by (simp add: acts_as_iff [OF I])
  then show ?thesis
    using pre(4,5) v record_event_run [OF rec] w2 d pub
    by (intro that [of "mem_role a" ?tok ev e]) (auto simp: publish_event_run)
qed


lemma accept_pending_run:
  assumes I: "integrity (db w)" and "accept_pending_invite_by_token_hash h now w = (Inr (Some v'), w')"
  obtains v t where "v \<in> set (invites (db w))" "inv_token_hash v = h" "inv_status v = INVITE_PENDING"
    and "unexpired_at now v" and "v' = v\<lparr>inv_status := INVITE_ACCEPTED, inv_updated_at := t\<rparr>"
    and "db w' = invites_update (update_where (\<lambda>x. inv_id x = inv_id v)
      (\<lambda>x. x\<lparr>inv_status := INVITE_ACCEPTED, inv_updated_at := t\<rparr>)) (db w)"
    and "integrity (db w')" and "in_tx w' = in_tx w"
proof -
  let ?p = "\<lambda>v. inv_token_hash v = h \<and> inv_status v = INVITE_PENDING \<and> unexpired_at now v"
  let ?t = "clock w (clock_pos w)"
  note run = update_returning_run [OF assms(2) [unfolded accept_pending_invite_by_token_hash_def]]
  from run(5) [OF refl] obtain v where v: "filter ?p (invites (db w)) = [v]"
    and v': "v' = v\<lparr>inv_status := INVITE_ACCEPTED, inv_updated_at := ?t\<rparr>" by auto
  from v have row: "v \<in> set (invites (db w))" "?p v" by (auto dest: filter_eq_ConsD)
  have "x = v" if "x \<in> set (invites (db w))" "?p x" for x
  proof -
    from that have "x \<in> set (filter ?p (invites (db w)))" by simp
    then show "x = v" by (simp only: v) simp
  qed
  moreover have "x = v" if "x \<in> set (invites (db w))" "inv_id x = inv_id v" for x
    using invites_table.same_key_same_row [OF I that(1) row(1) that(2)] .
  ultimately have "update_where ?p g (invites (db w)) = update_where (\<lambda>x. inv_id x = inv_id v) g (invites (db w))" for g
    unfolding update_where_def using row(2) by (intro map_cong) metis+
  then have "invites_update (update_where ?p g) (db w) = invites_update (update_where (\<lambda>x. inv_id x = inv_id v) g) (db w)" for g
    by (cases "db w") simp
  with row v' run(1-3) show ?thesis by (intro that [of v ?t]) auto
qed

lemma other_tables_trans:
  assumes "get_or_create_current_user p w = (r, w')"
  shows "other_tables (db w') = other_tables (db w)"
  by (rule maintainsD [OF keeps_other_tables_users(2) _ assms]) simp

text \<open>
  Accepting an invite: the invite was pending and not expired, it was addressed to the verified
  e-mail of the caller, and the caller becomes a member with the role of the invite.
\<close>

lemma accept_invite_done:
  assumes I: "integrity (db w)"
    and run: "accept_invite_in_transaction X token p w = (Inr m, w')"
  obtains v and u :: user and now t where "v \<in> set (invites (db w))" "inv_token_hash v = sha256_hex X token"
      "inv_status v = INVITE_PENDING" "unexpired_at now v" "now = clock w (clock_pos w)"
    and "\<exists>e. idn_email p = Some e \<and> lower (inv_email v) = lower e" "idn_email_verified p"
    and "usr_status u = USER_ACTIVE" "external_auth_id u = idn_external_auth_id p" "u \<in> set (users (db w'))"
    and "\<And>u'. u' \<in> set (users (db w)) \<Longrightarrow> external_auth_id u' = idn_external_auth_id p \<Longrightarrow>
      usr_id u' = usr_id u \<and> usr_status u' = USER_ACTIVE"
    and "organisation_problem (db w) (inv_organisation_id v) = None"
    and "mem_user_id m = usr_id u" "mem_organisation_id m = inv_organisation_id v"
      "mem_role m = inv_role v" "mem_is_active m"
    and "\<not> list_ex (\<lambda>m. mem_user_id m = usr_id u \<and> mem_is_active m) (memberships (db w))"
    and "other_tables (db w') = memberships_update (\<lambda>rows. rows @ [m]) (invites_update
      (update_where (\<lambda>x. inv_id x = inv_id v) (\<lambda>x. x\<lparr>inv_status := INVITE_ACCEPTED, inv_updated_at := t\<rparr>))
      (other_tables (db w)))"
    and "length (owners_of (inv_organisation_id v) (db w')) = 1"
    and "integrity (db w')"
proof -
  let ?now = "clock w (clock_pos w)"
  from run obtain found w1 where acc: "accept_pending_invite_by_token_hash (sha256_hex X token) ?now
        (w\<lparr>clock_pos := Suc (clock_pos w)\<rparr>) = (Inr found, w1)"
    and rest: "(case found of
       None \<Rightarrow>
         bind (mark_pending_invite_expired_by_token_hash (sha256_hex X token) ?now) (\<lambda>_.
         raise (BadRequestError ''Invalid or expired invite''))
     | Some v \<Rightarrow>
         bind (ensure (case idn_email p of None \<Rightarrow> False | Some e \<Rightarrow> lower (inv_email v) = lower e)
           (ForbiddenError ''Invite email does not match authenticated user'')) (\<lambda>_.
         bind (ensure_email_verified p) (\<lambda>_.
         bind (get_or_create_current_user p) (\<lambda>u.
         bind (ensure_user_active u) (\<lambda>_.
         bind (get_organisation (inv_organisation_id v)) (\<lambda>r.
         bind (ensure_organisation_active r) (\<lambda>_.
         create_membership (usr_id u) (inv_organisation_id v) (inv_role v)))))))) w1 = (Inr m, w')"
    by (auto simp: accept_invite_in_transaction_def bind_Inr utcnow_run invite_token_hash_def)
  from rest obtain v' where found: "found = Some v'"
    by (cases found) (auto simp: bind_Inr raise_run)
  from rest obtain u w2 r w3 where id: "\<exists>e. idn_email p = Some e \<and> lower (inv_email v') = lower e" "idn_email_verified p"
    and usr: "get_or_create_current_user p w1 = (Inr u, w2)" "usr_status u \<noteq> USER_SUSPENDED"
    and org: "get_organisation (inv_organisation_id v') w2 = (Inr r, w3)" "org_status r \<noteq> ORG_SUSPENDED"
    and mem: "create_membership (usr_id u) (inv_organisation_id v') (inv_role v') w3 = (Inr m, w')"
    unfolding found by (auto simp: bind_Inr ensure_run guard_defs split: option.splits)
  define w0 where "w0 = w\<lparr>clock_pos := Suc (clock_pos w)\<rparr>"
  have d0: "db w0 = db w" by (simp add: w0_def)
  have "integrity (db w0)" using I by (simp add: d0)
  then obtain v t where v: "v \<in> set (invites (db w))" "inv_token_hash v = sha256_hex X token"
      "inv_status v = INVITE_PENDING" "unexpired_at ?now v"
    and v': "v' = v\<lparr>inv_status := INVITE_ACCEPTED, inv_updated_at := t\<rparr>"
    and d1: "db w1 = invites_update (update_where (\<lambda>x. inv_id x = inv_id v)
      (\<lambda>x. x\<lparr>inv_status := INVITE_ACCEPTED, inv_updated_at := t\<rparr>)) (db w)" and I1: "integrity (db w1)"
    using accept_pending_run [OF _ acc [unfolded found, folded w0_def]] unfolding d0 by blast
  note gc = get_or_create_run [OF I1 usr(1)]
  then have I2: "integrity (db w2)" by simp
  have ot: "other_tables (db w2) = other_tables (db w1)" by (rule other_tables_trans [OF usr(1)])
  have w3: "w3 = w2" and r: "r \<in> set (organisations (db w2))" "org_id r = inv_organisation_id v'" "live r"
    using org(1) get_organisation_run [OF I2] by auto
  have orgs: "organisations (db w2) = organisations (db w)" and mems: "memberships (db w2) = memberships (db w)"
    using other_tables_eqD(1,2) [OF ot] by (simp_all add: d1)
  have ok: "organisation_problem (db w) (inv_organisation_id v) = None"
    unfolding organisation_problem_iff [OF I]
    using r org(2) by (auto simp: list_ex_iff orgs v' not_suspended)
  have "in_transaction_or_begin (create_membership_in_transaction (usr_id u) (inv_organisation_id v)
      (inv_role v)) w2 = (Inr m, w')"
    using mem by (simp add: create_membership_def w3 v')
  then obtain w4 w5 where "db w4 = db w2" and cm: "create_membership_in_transaction (usr_id u) (inv_organisation_id v)
      (inv_role v) w4 = (Inr m, w5)" and d5: "db w' = db w5"
    by (rule in_transaction_or_begin_committed)
  note c = create_membership_done [OF cm]
  have "other_tables (db w') = memberships_update (\<lambda>rows. rows @ [m]) (other_tables (db w2))"
    using c(6) \<open>db w4 = db w2\<close> by (simp add: d5 other_tables_def)
  also have "other_tables (db w2) = invites_update (update_where (\<lambda>x. inv_id x = inv_id v)
      (\<lambda>x. x\<lparr>inv_status := INVITE_ACCEPTED, inv_updated_at := t\<rparr>)) (other_tables (db w))"
    unfolding ot d1 by (simp add: other_tables_def)
  finally have ot': "other_tables (db w') = memberships_update (\<lambda>rows. rows @ [m]) (invites_update
      (update_where (\<lambda>x. inv_id x = inv_id v) (\<lambda>x. x\<lparr>inv_status := INVITE_ACCEPTED, inv_updated_at := t\<rparr>))
      (other_tables (db w)))" .
  have u': "usr_id u' = usr_id u \<and> usr_status u' = USER_ACTIVE"
    if "u' \<in> set (users (db w))" "external_auth_id u' = idn_external_auth_id p" for u'
    using get_or_create_account [OF I1 usr(1), of u'] that usr(2) by (simp add: d1 not_suspended)
  have "users (db w') = users (db w2)" using c(6) \<open>db w4 = db w2\<close> by (simp add: d5)
  then show ?thesis
    using that [of v ?now u t] v id v' usr(2) gc ok c \<open>db w4 = db w2\<close> d5 mems ot' u'
    by (simp add: not_suspended)
qed


lemma invite_by_id:
  assumes "integrity d" and "find (\<lambda>v. inv_id v = iid \<and> inv_organisation_id v = oid) (invites d) = Some v"
  shows "v \<in> set (invites d)" "inv_id v = iid" "inv_organisation_id v = oid"
    and "x \<in> set (invites d) \<Longrightarrow> inv_id x = iid \<longleftrightarrow> x = v"
  using find_SomeD [OF assms(2)] invites_table.same_key_same_row [OF assms(1)] by auto

text \<open>An update by primary key that finds its row changes that row only.\<close>

lemma update_returning_by_id:
  assumes I: "integrity (db w)" and v: "v \<in> set (invites (db w))"
    and run: "update_returning (\<lambda>x. inv_id x = inv_id v \<and> q x) f w = (Inr (Some v'), w')"
  shows "q v" and "v' = (f v)\<lparr>inv_updated_at := clock w (clock_pos w)\<rparr>"
    and "db w' = invites_update (update_where (\<lambda>x. inv_id x = inv_id v)
      (\<lambda>x. (f x)\<lparr>inv_updated_at := clock w (clock_pos w)\<rparr>)) (db w)"
proof -
  let ?p = "\<lambda>x. inv_id x = inv_id v \<and> q x"
  from update_returning_run(5) [OF run refl] obtain x where x: "filter ?p (invites (db w)) = [x]"
    and v': "v' = (f x)\<lparr>inv_updated_at := clock w (clock_pos w)\<rparr>" by auto
  from x have "x \<in> set (invites (db w))" "inv_id x = inv_id v" "q x" by (auto dest: filter_eq_ConsD)
  with invites_table.same_key_same_row [OF I _ v] have xv: "x = v" by blast
  with \<open>q x\<close> v' show "q v" "v' = (f v)\<lparr>inv_updated_at := clock w (clock_pos w)\<rparr>" by simp_all
  have "update_where ?p g (invites (db w)) = update_where (\<lambda>x. inv_id x = inv_id v) g (invites (db w))" for g
    unfolding update_where_def
    using invites_table.same_key_same_row [OF I _ v] \<open>q x\<close> xv by (intro map_cong) auto
  then have "invites_update (update_where ?p g) (db w) = invites_update (update_where (\<lambda>x. inv_id x = inv_id v) g) (db w)" for g
    by (cases "db w") simp
  with update_returning_run(1) [OF run] show "db w' = invites_update (update_where (\<lambda>x. inv_id x = inv_id v)
      (\<lambda>x. (f x)\<lparr>inv_updated_at := clock w (clock_pos w)\<rparr>)) (db w)" by simp
qed

lemma revoke_invite_done:
  assumes I: "integrity (db w)"
    and run: "revoke_invite_in_transaction X oid iid actor ctx reason w = (Inr x, w')"
  obtains v role ev now t where "acts_as (db w) actor oid role" "may_handle_invite role (inv_role v)"
    and "v \<in> set (invites (db w))" "inv_id v = iid" "inv_organisation_id v = oid" "inv_status v = INVITE_PENDING"
    and "db w' = audit_events_update (\<lambda>rows. rows @ [ev]) (invites_update (update_where (\<lambda>x. inv_id x = iid)
      (\<lambda>x. x\<lparr>inv_status := INVITE_REVOKED, inv_revoked_at := Some now,
        inv_revoked_by_user_id := Some actor, inv_updated_at := t\<rparr>)) (db w))"
    and "says ev ctx AUDIT_TENANT INVITE_REVOKED_ACTION TARGET_INVITE (Some iid) reason
      (Some (JObj [(''organisation_id'', JStr (uuid_str oid)), (''invite_role'', JStr (role_value (inv_role v))),
        (''invite_status_before'', JStr ''pending'')]))"
    and "integrity (db w')"
proof -
  let ?now = "clock w (clock_pos w)"
  from run obtain a v updated w1 ev where pre: "actor_problem (db w) actor = None" "organisation_problem (db w) oid = None"
      "actor_membership (db w) actor oid = Some a" "may_handle_invite (mem_role a) (inv_role v)"
    and found: "find (\<lambda>v. inv_id v = iid \<and> inv_organisation_id v = oid) (invites (db w)) = Some v"
    and st: "inv_status v = INVITE_PENDING"
    and upd: "revoke_pending_invite (inv_id v) oid actor ?now (w\<lparr>clock_pos := Suc (clock_pos w)\<rparr>) = (Inr (Some updated), w1)"
    and rec: "record_event X ctx AUDIT_TENANT INVITE_REVOKED_ACTION TARGET_INVITE (Some (inv_id v)) reason
       (Some (JObj [(''organisation_id'', JStr (uuid_str oid)),
                    (''invite_role'', JStr (role_value (inv_role v))),
                    (''invite_status_before'', JStr (invite_status_value (inv_status v)))])) w1 = (Inr ev, w')"
    unfolding revoke_invite_in_transaction_def get_invite_for_organisation_eq
    by (cases "mem_role (the (actor_membership (db w) actor oid))")
       (auto simp: bind_Inr get_actor_membership_run [OF I] query_run ensure_run raise_run utcnow_run
        ret_run may_handle_invite_def split: option.splits)
  note v = invite_by_id [OF I found]
  define w0 where "w0 = w\<lparr>clock_pos := Suc (clock_pos w)\<rparr>"
  have d0: "db w0 = db w" by (simp add: w0_def)
  have "db w1 = invites_update (update_where (\<lambda>x. inv_id x = inv_id v)
      (\<lambda>x. x\<lparr>inv_status := INVITE_REVOKED, inv_revoked_at := Some ?now,
        inv_revoked_by_user_id := Some actor, inv_updated_at := clock w0 (clock_pos w0)\<rparr>)) (db w)"
    using update_returning_by_id(3) [of w0 v] upd I v(1)
    unfolding revoke_pending_invite_def d0 [symmetric] w0_def [symmetric] by fastforce
  with record_event_run [OF rec] v(1-3) st pre show ?thesis
    by (intro that [of "mem_role a" v ev "clock w0 (clock_pos w0)" ?now]) (auto simp: acts_as_iff [OF I])
qed


lemma resend_invite_done:
  assumes I: "integrity (db w)" and L: "limiter_ok l"
    and run: "resend_invite_in_transaction X key oid iid actor ctx l w = (Inr x, w')"
  obtains v role token now t ev e where "acts_as (db w) actor oid role" "may_handle_invite role (inv_role v)"
    and "v \<in> set (invites (db w))" "inv_id v = iid" "inv_organisation_id v = oid" "inv_status v = INVITE_PENDING"
    and "unexpired_at now v"
    and "x = v\<lparr>inv_token_hash := sha256_hex X token, inv_expires_at := Some (now + default_invite_ttl),
      inv_updated_at := t\<rparr>"
    and "says ev ctx AUDIT_TENANT INVITE_RESENT TARGET_INVITE (Some iid) None
      (Some (JObj [(''organisation_id'', JStr (uuid_str oid)), (''invite_role'', JStr (role_value (inv_role v)))]))"
    and "obx_event_type e = ''invite.resent''" "obx_status e = OUTBOX_PENDING" "obx_attempts e = 0"
      "obx_max_attempts e = 10" "obx_locked_at e = None" "obx_next_attempt_at e = None"
      "obx_payload_json e = invite_payload X key x oid token ''resent''"
    and "db w' = outbox_events_update (\<lambda>rows. rows @ [e]) (audit_events_update (\<lambda>rows. rows @ [ev])
      (invites_update (update_where (\<lambda>x. inv_id x = iid) (\<lambda>x. x\<lparr>inv_token_hash := sha256_hex X token,
        inv_expires_at := Some (now + default_invite_ttl), inv_updated_at := t\<rparr>)) (db w)))"
    and "integrity (db w')"
proof -
  have never: "raise_not_resendable v oid t w \<noteq> (Inr y, w'')" for v t w and y :: invite and w''
    by (auto simp: raise_not_resendable_def bind_Inr raise_run if_run)
  from run obtain a v w1
    where pre: "actor_problem (db w) actor = None" "organisation_problem (db w) oid = None"
      "actor_membership (db w) actor oid = Some a" "may_handle_invite (mem_role a) (inv_role v)"
    and found: "find (\<lambda>v. inv_id v = iid \<and> inv_organisation_id v = oid) (invites (db w)) = Some v"
    and st: "inv_status v = INVITE_PENDING"
    and lim: "run_business_rate_limiter l (w\<lparr>clock_pos := Suc (clock_pos w)\<rparr>) = (Inr (), w1)"
    and rest: "bind utcnow (\<lambda>now.
     if is_expired_at (inv_expires_at v) now then raise_not_resendable v oid now
     else
     bind token_urlsafe (\<lambda>token.
     bind (rotate_pending_invite_token (inv_id v) oid (invite_token_hash X token)
       (now + default_invite_ttl) now) (\<lambda>rotated.
     case rotated of
       None \<Rightarrow> bind utcnow (\<lambda>retry_now. raise_not_resendable v oid retry_now)
     | Some r \<Rightarrow>
     bind (record_event X ctx AUDIT_TENANT INVITE_RESENT TARGET_INVITE (Some (inv_id r)) None
       (Some (JObj [(''organisation_id'', JStr (uuid_str oid)),
                    (''invite_role'', JStr (role_value (inv_role r)))]))) (\<lambda>_.
     bind (publish_event (outbox_event_type_value OUTBOX_INVITE_RESEND) ''invite'' (inv_id r)
       (invite_payload X key r oid token ''resent'')) (\<lambda>_.
     ret r))))) w1 = (Inr x, w')"
    unfolding resend_invite_in_transaction_def get_invite_for_organisation_eq
    by (cases "mem_role (the (actor_membership (db w) actor oid))")
       (auto simp: bind_Inr [of "get_actor_membership _ _"] bind_Inr [of "query _"] bind_Inr [of "ensure _ _"]
        bind_Inr [of utcnow] bind_Inr [of "run_business_rate_limiter l"]
        get_actor_membership_run [OF I] query_run ensure_run raise_run utcnow_run if_run never
        may_handle_invite_def split: option.splits)
  have d: "db w1 = db w" using limiter_run [OF L lim] by simp
  let ?now = "clock w1 (clock_pos w1)"
  let ?tok = "token_source w1 (token_pos w1)"
  define w2 where "w2 = w1\<lparr>clock_pos := Suc (clock_pos w1), token_pos := Suc (token_pos w1)\<rparr>"
  from rest obtain w3 ev w4 e
    where rot: "rotate_pending_invite_token (inv_id v) oid (sha256_hex X ?tok) (?now + default_invite_ttl) ?now w2 =
      (Inr (Some x), w3)"
    and rec: "record_event X ctx AUDIT_TENANT INVITE_RESENT TARGET_INVITE (Some (inv_id x)) None
       (Some (JObj [(''organisation_id'', JStr (uuid_str oid)),
                    (''invite_role'', JStr (role_value (inv_role x)))])) w3 = (Inr ev, w4)"
    and pub: "publish_event (outbox_event_type_value OUTBOX_INVITE_RESEND) ''invite'' (inv_id x)
       (invite_payload X key x oid ?tok ''resent'') w4 = (Inr e, w')"
    by (auto simp: bind_Inr if_run never utcnow_run token_urlsafe_run ret_run invite_token_hash_def
        w2_def split: option.splits)
  note v = invite_by_id [OF I found]
  have d2: "db w2 = db w" by (simp add: w2_def d)
  let ?t = "clock w2 (clock_pos w2)"
  let ?f = "\<lambda>x. x\<lparr>inv_token_hash := sha256_hex X ?tok, inv_expires_at := Some (?now + default_invite_ttl)\<rparr>"
  have I2: "integrity (db w2)" "v \<in> set (invites (db w2))" using I v(1) by (simp_all add: d2)
  note upd = update_returning_by_id [OF I2, of _ ?f, OF rot [unfolded rotate_pending_invite_token_def]]
  have x: "x = v\<lparr>inv_token_hash := sha256_hex X ?tok, inv_expires_at := Some (?now + default_invite_ttl),
      inv_updated_at := ?t\<rparr>" using upd(2) by simp
  from pub have e: "obx_event_type e = ''invite.resent''" "obx_status e = OUTBOX_PENDING" "obx_attempts e = 0"
      "obx_max_attempts e = 10" "obx_locked_at e = None" "obx_next_attempt_at e = None"
      "obx_payload_json e = invite_payload X key x oid ?tok ''resent''"
    and d': "db w' = outbox_events_update (\<lambda>rows. rows @ [e]) (db w4)" and I': "integrity (db w')"
    by (auto simp: publish_event_run)
  have "acts_as (db w) actor oid (mem_role a)" using pre by (simp add: acts_as_iff [OF I])
  moreover have "unexpired_at ?now v" using upd(1) by blast
  moreover have "db w3 = invites_update (update_where (\<lambda>x. inv_id x = iid) (\<lambda>x. x\<lparr>inv_token_hash := sha256_hex X ?tok,
        inv_expires_at := Some (?now + default_invite_ttl), inv_updated_at := ?t\<rparr>)) (db w)"
    using upd(3) by (simp add: v(2) d2)
  moreover have "inv_id x = iid" "inv_role x = inv_role v" using x v(2) by simp_all
  ultimately show ?thesis
    using record_event_run [OF rec] d'
    by (intro that [OF _ pre(4) v(1-3) st _ x _ e _ I', of ev]) simp_all
qed

end
