(* ===== verification/Tenant_Invariant.thy ===== *)
theory Tenant_Invariant
  imports Invites
begin

section \<open>The invariant of the application\<close>

text \<open>
  What holds of the tables between transactions: the constraints, the tenancy invariant, the
  life of outbox events, and that no invite is for the owner role; and that every transaction
  of the tenant services keeps it.
\<close>

definition invite_roles :: "db \<Rightarrow> bool" where
  "invite_roles d \<longleftrightarrow> (\<forall>v\<in>set (invites d). inv_role v \<noteq> OWNER)"

definition saas_inv :: "db \<Rightarrow> bool" where
  "saas_inv d \<longleftrightarrow> tenant_inv d \<and> outbox_inv d \<and> invite_roles d"

text \<open>A request or a job that starts and ends outside a transaction and keeps the invariant.\<close>

abbreviation safe :: "'a app \<Rightarrow> bool" where
  "safe m \<equiv> maintains (idle saas_inv) m"

lemma saas_inv_empty: "saas_inv empty_db"
  using integrity_empty tenancy_empty outbox_inv_empty
  by (simp add: saas_inv_def tenant_inv_def invite_roles_def empty_db_def)

lemma saas_invD:
  assumes "saas_inv d"
  shows "integrity d" "tenancy d" "tenant_inv d" "outbox_inv d" "invite_roles d"
  using assms by (simp_all add: saas_inv_def tenant_inv_def)

lemma saas_inv_frame:
  assumes "saas_inv d" and "tenant_inv d'" and "outbox_events d' = outbox_events d"
    and "delivery_claims d' = delivery_claims d" and "invite_roles d'"
  shows "saas_inv d'"
  using assms outbox_inv_frame [of d d'] by (simp add: saas_inv_def tenant_inv_def)

lemma commits_saas:
  assumes "commits tenant_inv m"
    and "\<And>w x w'. saas_inv (db w) \<Longrightarrow> m w = (Inr x, w') \<Longrightarrow> outbox_events (db w') = outbox_events (db w) \<and>
      delivery_claims (db w') = delivery_claims (db w) \<and> invites (db w') = invites (db w)"
  shows "commits saas_inv m"
proof (rule commitsI)
  fix w x w'
  assume inv: "saas_inv (db w)" and run: "m w = (Inr x, w')"
  have "tenant_inv (db w')" using assms(1) saas_invD(3) [OF inv] run by (auto simp: commits_def)
  with assms(2) [OF inv run] inv show "saas_inv (db w')"
    by (auto intro!: saas_inv_frame [OF inv] simp: invite_roles_def dest: saas_invD(5))
qed

lemma keeps_saas_users: "keeps saas_inv (flush (users_update f))"
proof (rule keeps_flush)
  fix d
  assume inv: "saas_inv d" and I: "integrity (users_update f d)"
  show "saas_inv (users_update f d)"
    by (rule saas_inv_frame [OF inv])
       (use I saas_invD(2,5) [OF inv] in \<open>simp_all add: tenant_inv_def invite_roles_def\<close>)
qed

lemmas keeps_saas_user_programs = keeps_user_programs [OF keeps_saas_users]

lemma commits_saas_memberships:
  assumes "limiter_ok l"
  shows "commits saas_inv (change_membership_role_in_transaction X oid actor ctx mid role l)"
    and "commits saas_inv (remove_membership_in_transaction X oid actor ctx mid reason l)"
    and "commits saas_inv (soft_delete_in_transaction X oid actor ctx reason l)"
    and "commits saas_inv (update_organisation_details_in_transaction X oid actor ctx name slug l)"
proof -
  show "commits saas_inv (change_membership_role_in_transaction X oid actor ctx mid role l)"
    by (rule commits_saas [OF commits_change_membership_role [OF assms]])
       (erule change_membership_role_done [OF saas_invD(1) assms], assumption, simp)
  show "commits saas_inv (remove_membership_in_transaction X oid actor ctx mid reason l)"
    by (rule commits_saas [OF commits_remove_membership [OF assms]])
       (erule remove_membership_done [OF saas_invD(1) assms], assumption, simp)
  show "commits saas_inv (soft_delete_in_transaction X oid actor ctx reason l)"
    by (rule commits_saas [OF commits_soft_delete [OF assms]])
       (erule soft_delete_done [OF saas_invD(1) assms], assumption, simp)
  show "commits saas_inv (update_organisation_details_in_transaction X oid actor ctx name slug l)"
    by (rule commits_saas [OF commits_update_organisation_details [OF assms]])
       (erule update_organisation_details_done [OF saas_invD(1) assms], assumption, auto)
qed

lemma event_ok_fresh:
  "obx_status e = OUTBOX_PENDING \<Longrightarrow> obx_attempts e = 0 \<Longrightarrow> obx_max_attempts e = 10 \<Longrightarrow>
     obx_locked_at e = None \<Longrightarrow> event_ok e"
  by (simp add: event_ok_def)

lemma commits_saas_create_invite:
  assumes "limiter_ok l"
  shows "commits saas_inv (create_invite_in_transaction X key oid actor role email ctx l)"
proof (rule commitsI)
  fix w v w'
  assume inv: "saas_inv (db w)"
    and run: "create_invite_in_transaction X key oid actor role email ctx l w = (Inr v, w')"
  obtain ev e where v: "role \<noteq> OWNER" "inv_role v = role"
    and e: "obx_status e = OUTBOX_PENDING" "obx_attempts e = 0" "obx_max_attempts e = 10" "obx_locked_at e = None"
    and d: "db w' = outbox_events_update (\<lambda>rows. rows @ [e]) (audit_events_update (\<lambda>rows. rows @ [ev])
      (invites_update (\<lambda>rows. rows @ [v]) (db w)))" and I: "integrity (db w')"
    by (rule create_invite_done [OF saas_invD(1) [OF inv] assms run])
  have "outbox_inv (db w')"
    by (rule outbox_inv_append [OF saas_invD(4) [OF inv] I _ _ event_ok_fresh [OF e]]) (simp_all add: d)
  then show "saas_inv (db w')"
    using inv v I by (auto simp: saas_inv_def tenant_inv_def invite_roles_def d)
qed

lemma commits_saas_resend_invite:
  assumes "limiter_ok l"
  shows "commits saas_inv (resend_invite_in_transaction X key oid iid actor ctx l)"
proof (rule commitsI)
  fix w x w'
  assume inv: "saas_inv (db w)"
    and run: "resend_invite_in_transaction X key oid iid actor ctx l w = (Inr x, w')"
  obtain token now t ev e
    where e: "obx_status e = OUTBOX_PENDING" "obx_attempts e = 0" "obx_max_attempts e = 10" "obx_locked_at e = None"
    and d: "db w' = outbox_events_update (\<lambda>rows. rows @ [e]) (audit_events_update (\<lambda>rows. rows @ [ev])
      (invites_update (update_where (\<lambda>x. inv_id x = iid) (\<lambda>x. x\<lparr>inv_token_hash := sha256_hex X token,
        inv_expires_at := Some (now + default_invite_ttl), inv_updated_at := t\<rparr>)) (db w)))"
    and I: "integrity (db w')"
    by (rule resend_invite_done [OF saas_invD(1) [OF inv] assms run])
  have "outbox_inv (db w')"
    by (rule outbox_inv_append [OF saas_invD(4) [OF inv] I _ _ event_ok_fresh [OF e]]) (simp_all add: d)
  then show "saas_inv (db w')"
    using inv I by (auto simp: saas_inv_def tenant_inv_def invite_roles_def d set_update_where)
qed

lemma commits_saas_revoke_invite:
  "commits saas_inv (revoke_invite_in_transaction X oid iid actor ctx reason)"
proof (rule commitsI)
  fix w x w'
  assume inv: "saas_inv (db w)"
    and run: "revoke_invite_in_transaction X oid iid actor ctx reason w = (Inr x, w')"
  obtain ev now t where d: "db w' = audit_events_update (\<lambda>rows. rows @ [ev]) (invites_update (update_where (\<lambda>x. inv_id x = iid)
      (\<lambda>x. x\<lparr>inv_status := INVITE_REVOKED, inv_revoked_at := Some now,
        inv_revoked_by_user_id := Some actor, inv_updated_at := t\<rparr>)) (db w))"
    and I: "integrity (db w')"
    by (rule revoke_invite_done [OF saas_invD(1) [OF inv] run])
  show "saas_inv (db w')"
    by (rule saas_inv_frame [OF inv])
       (use inv I in \<open>auto simp: saas_inv_def tenant_inv_def invite_roles_def d set_update_where\<close>)
qed


lemma other_tables_tenancy: "tenancy (other_tables d) = tenancy d"
  "owners_of oid (other_tables d) = owners_of oid d" "live_ids (other_tables d) = live_ids d"
  by (simp_all add: other_tables_def)

lemma organisation_live:
  "integrity d \<Longrightarrow> organisation_problem d oid = None \<Longrightarrow> oid \<in> live_ids d"
  by (auto simp: organisation_problem_iff list_ex_iff live_ids_def)

lemma commits_saas_accept_invite: "commits saas_inv (accept_invite_in_transaction X token p)"
proof (rule commitsI)
  fix w m w'
  assume inv: "saas_inv (db w)" and run: "accept_invite_in_transaction X token p w = (Inr m, w')"
  obtain v :: invite and t where org: "organisation_problem (db w) (inv_organisation_id v) = None"
    and m: "mem_organisation_id m = inv_organisation_id v"
    and ot: "other_tables (db w') = memberships_update (\<lambda>rows. rows @ [m]) (invites_update
      (update_where (\<lambda>x. inv_id x = inv_id v) (\<lambda>x. x\<lparr>inv_status := INVITE_ACCEPTED, inv_updated_at := t\<rparr>))
      (other_tables (db w)))"
    and owner: "length (owners_of (inv_organisation_id v) (db w')) = 1" and I: "integrity (db w')"
    by (rule accept_invite_done [OF saas_invD(1) [OF inv] run])
  let ?d = "invites_update (update_where (\<lambda>x. inv_id x = inv_id v)
      (\<lambda>x. x\<lparr>inv_status := INVITE_ACCEPTED, inv_updated_at := t\<rparr>)) (other_tables (db w))"
  have live: "inv_organisation_id v \<in> live_ids (db w)"
    by (rule organisation_live [OF saas_invD(1) [OF inv] org])
  have "tenancy_except (inv_organisation_id v) ?d"
    by (rule tenancy_exceptI) (simp add: other_tables_tenancy saas_invD(2) [OF inv])
  then have "tenancy_except (inv_organisation_id v) (other_tables (db w'))"
    unfolding ot by (rule tenancy_except_append [OF _ m]) (simp add: other_tables_tenancy live)
  then have "tenancy (other_tables (db w'))"
    by (rule tenancy_close) (simp add: other_tables_tenancy owner)
  then have "tenant_inv (db w')" using I by (simp add: tenant_inv_def other_tables_tenancy)
  moreover have rows: "outbox_events (db w') = outbox_events (db w)" "delivery_claims (db w') = delivery_claims (db w)"
    "invites (db w') = update_where (\<lambda>x. inv_id x = inv_id v)
      (\<lambda>x. x\<lparr>inv_status := INVITE_ACCEPTED, inv_updated_at := t\<rparr>) (invites (db w))"
    using arg_cong [OF ot, of outbox_events] arg_cong [OF ot, of delivery_claims] arg_cong [OF ot, of invites]
    by (simp_all add: other_tables_def)
  moreover have "invite_roles (db w')"
    using saas_invD(5) [OF inv] by (auto simp: invite_roles_def rows(3) set_update_where)
  ultimately show "saas_inv (db w')" by (intro saas_inv_frame [OF inv])
qed

end
