(* ===== verification/Platform_Access.thy ===== *)
theory Platform_Access
  imports Tenant_Invariant
begin

section \<open>Platform staff and their permissions\<close>

text \<open>
  \<^verbatim>\<open>platform/repositories/platform_staff.py\<close>, \<^verbatim>\<open>core/platform/permissions.py\<close>,
  \<^verbatim>\<open>core/platform/actors.py\<close>, \<^verbatim>\<open>core/platform/write_context.py\<close> and
  \<^verbatim>\<open>core/platform/dependencies.py\<close>: who is platform staff, what a role permits, and the
  transaction a platform write runs in. The handler of a write runs inside the transaction that
  resolved its actor.
\<close>

subsection \<open>Repository\<close>

definition staff_get_by_user_id :: "uuid \<Rightarrow> platform_staff option app" where
  "staff_get_by_user_id uid =
     bind (query (\<lambda>d. filter (\<lambda>s. stf_user_id s = uid) (staff_rows d))) scalar_one_or_none"

definition staff_get_by_id :: "uuid \<Rightarrow> platform_staff option app" where
  "staff_get_by_id sid =
     bind (query (\<lambda>d. filter (\<lambda>s. stf_id s = sid) (staff_rows d))) scalar_one_or_none"

definition staff_list_conditions ::
  "platform_staff_status option \<Rightarrow> platform_staff_role option \<Rightarrow> platform_staff \<Rightarrow> bool" where
  "staff_list_conditions status role s =
     (eq_filter (map_option staff_status_value status) stf_status s \<and>
      eq_filter (map_option staff_role_value role) stf_role s)"

definition staff_list ::
  "nat \<Rightarrow> nat \<Rightarrow> platform_staff_status option \<Rightarrow> platform_staff_role option \<Rightarrow>
   (platform_staff list \<times> nat) app" where
  "staff_list limit offset status role =
     bind (query (\<lambda>d. filter (staff_list_conditions status role) (staff_rows d))) (\<lambda>rows.
     ret (page limit offset (newest_first stf_created_at stf_id rows), length rows))"

definition repo_create_staff :: "uuid \<Rightarrow> string \<Rightarrow> uuid option \<Rightarrow> platform_staff app" where
  "repo_create_staff uid role created_by =
     bind uuid4 (\<lambda>i. bind utcnow (\<lambda>c. bind utcnow (\<lambda>t.
       let s = \<lparr>stf_id = i, stf_user_id = uid, stf_role = role,
                stf_status = staff_status_value STAFF_ACTIVE, stf_created_by_user_id = created_by,
                stf_suspended_at = None, stf_suspended_reason = None,
                stf_created_at = c, stf_updated_at = t\<rparr>
       in bind (flush (staff_rows_update (\<lambda>rows. rows @ [s]))) (\<lambda>_. ret s))))"

definition staff_save :: "platform_staff \<Rightarrow> (platform_staff \<Rightarrow> platform_staff) \<Rightarrow> platform_staff app" where
  "staff_save s f = bind utcnow (\<lambda>t.
     let g = (\<lambda>r. (f r)\<lparr>stf_updated_at := t\<rparr>)
     in bind (flush (staff_rows_update (update_where (\<lambda>r. stf_id r = stf_id s) g))) (\<lambda>_. ret (g s)))"

definition staff_update_role :: "platform_staff \<Rightarrow> platform_staff_role \<Rightarrow> platform_staff app" where
  "staff_update_role s role = staff_save s (\<lambda>r. r\<lparr>stf_role := staff_role_value role\<rparr>)"

definition promote_to_active_platform_admin :: "platform_staff \<Rightarrow> platform_staff app" where
  "promote_to_active_platform_admin s =
     staff_save s (\<lambda>r. r\<lparr>stf_role := staff_role_value PLATFORM_ADMIN,
       stf_status := staff_status_value STAFF_ACTIVE, stf_suspended_at := None,
       stf_suspended_reason := None\<rparr>)"

definition repo_suspend_staff :: "platform_staff \<Rightarrow> string \<Rightarrow> platform_staff app" where
  "repo_suspend_staff s reason = bind utcnow (\<lambda>now.
     staff_save s (\<lambda>r. r\<lparr>stf_status := staff_status_value STAFF_SUSPENDED,
       stf_suspended_at := Some now, stf_suspended_reason := Some reason\<rparr>))"

definition repo_restore_staff :: "platform_staff \<Rightarrow> platform_staff app" where
  "repo_restore_staff s =
     staff_save s (\<lambda>r. r\<lparr>stf_status := staff_status_value STAFF_ACTIVE,
       stf_suspended_at := None, stf_suspended_reason := None\<rparr>)"

definition active_platform_admin :: "platform_staff \<Rightarrow> bool" where
  "active_platform_admin s =
     (stf_role s = staff_role_value PLATFORM_ADMIN \<and> stf_status s = staff_status_value STAFF_ACTIVE)"

definition lock_active_platform_admins :: "platform_staff list app" where
  "lock_active_platform_admins =
     query (\<lambda>d. sort_key stf_id (filter active_platform_admin (staff_rows d)))"

definition count_active_platform_admins :: "nat app" where
  "count_active_platform_admins = query (\<lambda>d. length (filter active_platform_admin (staff_rows d)))"

subsection \<open>Permissions\<close>

datatype platform_permission =
    USERS_READ | USERS_READ_LIMITED | USERS_SUSPEND | USERS_RESTORE | USERS_CORRECT_PROFILE
  | ORGANISATIONS_READ | ORGANISATIONS_READ_LIMITED | ORGANISATIONS_SUSPEND | ORGANISATIONS_RESTORE
  | ORGANISATIONS_CORRECT_PROFILE | ORGANISATIONS_EMERGENCY_OWNER_CORRECTION
  | PLATFORM_STAFF_MANAGE | AUDIT_READ | AUDIT_READ_LIMITED
  | PRIVACY_REQUESTS_READ | PRIVACY_REQUESTS_REVIEW | PRIVACY_REQUESTS_EXECUTE_ERASURE
  | PRIVACY_EXPORT_ARTIFACTS_READ | PRIVACY_EXPORT_ARTIFACTS_MANAGE

definition all_permissions :: "platform_permission list" where
  "all_permissions =
     [USERS_READ, USERS_READ_LIMITED, USERS_SUSPEND, USERS_RESTORE, USERS_CORRECT_PROFILE,
      ORGANISATIONS_READ, ORGANISATIONS_READ_LIMITED, ORGANISATIONS_SUSPEND, ORGANISATIONS_RESTORE,
      ORGANISATIONS_CORRECT_PROFILE, ORGANISATIONS_EMERGENCY_OWNER_CORRECTION,
      PLATFORM_STAFF_MANAGE, AUDIT_READ, AUDIT_READ_LIMITED,
      PRIVACY_REQUESTS_READ, PRIVACY_REQUESTS_REVIEW, PRIVACY_REQUESTS_EXECUTE_ERASURE,
      PRIVACY_EXPORT_ARTIFACTS_READ, PRIVACY_EXPORT_ARTIFACTS_MANAGE]"

fun role_permissions :: "platform_staff_role \<Rightarrow> platform_permission list" where
  "role_permissions PLATFORM_ADMIN = all_permissions"
| "role_permissions SUPPORT_AGENT =
     [USERS_READ_LIMITED, ORGANISATIONS_READ_LIMITED, AUDIT_READ_LIMITED]"
| "role_permissions COMPLIANCE_OFFICER =
     [USERS_READ_LIMITED, ORGANISATIONS_READ_LIMITED, AUDIT_READ, AUDIT_READ_LIMITED,
      PRIVACY_REQUESTS_READ, PRIVACY_REQUESTS_REVIEW, PRIVACY_REQUESTS_EXECUTE_ERASURE,
      PRIVACY_EXPORT_ARTIFACTS_READ, PRIVACY_EXPORT_ARTIFACTS_MANAGE]"

text \<open>\<open>PlatformRole(staff.role)\<close>; \<open>None\<close> is its \<open>ValueError\<close>.\<close>

definition platform_role :: "string \<Rightarrow> platform_staff_role option" where
  "platform_role s =
     (if s = staff_role_value PLATFORM_ADMIN then Some PLATFORM_ADMIN
      else if s = staff_role_value SUPPORT_AGENT then Some SUPPORT_AGENT
      else if s = staff_role_value COMPLIANCE_OFFICER then Some COMPLIANCE_OFFICER
      else None)"

subsection \<open>Actors\<close>

record platform_actor =
  act_user :: user
  act_staff :: platform_staff
  act_permissions :: "platform_permission list"

definition access_denied :: "'a app" where
  "access_denied = raise (ForbiddenError ''Platform access denied'')"

definition resolve_active_platform_actor :: "principal \<Rightarrow> platform_actor app" where
  "resolve_active_platform_actor p =
     bind (get_current_user_by_external_auth_id p) (\<lambda>found.
     case found of
       None \<Rightarrow> access_denied
     | Some u \<Rightarrow>
     if usr_status u \<noteq> USER_ACTIVE then access_denied
     else
     bind (staff_get_by_user_id (usr_id u)) (\<lambda>row.
     case row of
       None \<Rightarrow> access_denied
     | Some s \<Rightarrow>
     if stf_status s \<noteq> staff_status_value STAFF_ACTIVE then access_denied
     else
     case platform_role (stf_role s) of
       None \<Rightarrow> access_denied
     | Some role \<Rightarrow> ret \<lparr>act_user = u, act_staff = s, act_permissions = role_permissions role\<rparr>))"

definition resolve_platform_actor :: "principal \<Rightarrow> platform_permission \<Rightarrow> platform_actor app" where
  "resolve_platform_actor p permission =
     bind (resolve_active_platform_actor p) (\<lambda>actor.
     if List.member (act_permissions actor) permission then ret actor else access_denied)"

text \<open>
  The dependencies: a read checks the permission outside a transaction, a write resolves its actor
  and runs its handler in one.
\<close>

definition require_platform_permission :: "platform_permission \<Rightarrow> principal \<Rightarrow> platform_actor app" where
  "require_platform_permission permission p = resolve_platform_actor p permission"

definition require_platform_write_context ::
  "platform_permission \<Rightarrow> principal \<Rightarrow> (platform_actor \<Rightarrow> 'a app) \<Rightarrow> 'a app" where
  "require_platform_write_context permission p handler =
     session_begin (bind (resolve_platform_actor p permission) handler)"

definition require_rate_limited_platform_write_context ::
  "unit app \<Rightarrow> platform_permission \<Rightarrow> principal \<Rightarrow> (platform_actor \<Rightarrow> 'a app) \<Rightarrow> 'a app" where
  "require_rate_limited_platform_write_context limit permission p handler =
     bind limit (\<lambda>_. session_begin (bind (resolve_platform_actor p permission) handler))"

subsection \<open>Who is an actor\<close>

text \<open>An effective member of staff: an active record of an active user.\<close>

definition staff_acts :: "db \<Rightarrow> principal \<Rightarrow> user \<Rightarrow> platform_staff \<Rightarrow> platform_staff_role \<Rightarrow> bool" where
  "staff_acts d p u s role \<longleftrightarrow>
     u \<in> set (users d) \<and> external_auth_id u = idn_external_auth_id p \<and> usr_status u = USER_ACTIVE \<and>
     s \<in> set (staff_rows d) \<and> stf_user_id s = usr_id u \<and> stf_status s = staff_status_value STAFF_ACTIVE \<and>
     stf_role s = staff_role_value role"

lemma staff_get_by_user_id_eq:
  assumes "integrity (db w)"
  shows "staff_get_by_user_id uid w = (Inr (find (\<lambda>s. stf_user_id s = uid) (staff_rows (db w))), w)"
  unfolding staff_get_by_user_id_def
  by (rule query_unique [where q = "\<lambda>_. True"]) (use integrityD(11) [OF assms] in simp_all)

lemma staff_get_by_id_eq:
  assumes "integrity (db w)"
  shows "staff_get_by_id sid w = (Inr (find (\<lambda>s. stf_id s = sid) (staff_rows (db w))), w)"
  unfolding staff_get_by_id_def
  by (rule query_unique [where q = "\<lambda>_. True"]) (use integrityD(10) [OF assms] in simp_all)

lemma platform_role_iff: "platform_role s = Some role \<longleftrightarrow> s = staff_role_value role"
  by (cases role) (auto simp: platform_role_def)

lemma staff_role_value_inj [simp]: "staff_role_value r = staff_role_value r' \<longleftrightarrow> r = r'"
  by (cases r; cases r') simp_all

lemma resolve_active_run:
  assumes I: "integrity (db w)"
  shows "resolve_active_platform_actor p w = (Inr a, w') \<longleftrightarrow> w' = w \<and>
    (\<exists>u s role. staff_acts (db w) p u s role \<and>
      a = \<lparr>act_user = u, act_staff = s, act_permissions = role_permissions role\<rparr>)"
proof -
  have u: "find (\<lambda>u. external_auth_id u = idn_external_auth_id p) (users (db w)) = Some u \<longleftrightarrow>
      u \<in> set (users (db w)) \<and> external_auth_id u = idn_external_auth_id p" for u
    by (rule find_by_unique_key [OF integrityD(2) [OF I]]) simp
  have s: "find (\<lambda>s. stf_user_id s = uid) (staff_rows (db w)) = Some s \<longleftrightarrow>
      s \<in> set (staff_rows (db w)) \<and> stf_user_id s = uid" for s uid
    by (rule find_by_unique_key [OF integrityD(11) [OF I]]) simp
  have "resolve_active_platform_actor p w = (Inr a, w') \<longleftrightarrow> w' = w \<and>
    (\<exists>u s role. find (\<lambda>u. external_auth_id u = idn_external_auth_id p) (users (db w)) = Some u \<and>
      usr_status u = USER_ACTIVE \<and> find (\<lambda>s. stf_user_id s = usr_id u) (staff_rows (db w)) = Some s \<and>
      stf_status s = staff_status_value STAFF_ACTIVE \<and> platform_role (stf_role s) = Some role \<and>
      a = \<lparr>act_user = u, act_staff = s, act_permissions = role_permissions role\<rparr>)"
    by (auto simp: resolve_active_platform_actor_def get_current_user_by_external_auth_id_def bind_def
        user_get_by_external_auth_id_eq [OF I] staff_get_by_user_id_eq [OF I] access_denied_def raise_def ret_def
        split: option.splits)
  then show ?thesis unfolding u s platform_role_iff staff_acts_def by blast
qed

lemma resolve_platform_actor_run:
  assumes "integrity (db w)"
  shows "resolve_platform_actor p permission w = (Inr a, w') \<longleftrightarrow> w' = w \<and>
    (\<exists>u s role. staff_acts (db w) p u s role \<and> permission \<in> set (role_permissions role) \<and>
      a = \<lparr>act_user = u, act_staff = s, act_permissions = role_permissions role\<rparr>)"
proof -
  have "resolve_platform_actor p permission w = (Inr a, w') \<longleftrightarrow>
      resolve_active_platform_actor p w = (Inr a, w') \<and> List.member (act_permissions a) permission"
    by (auto simp: resolve_platform_actor_def bind_Inr access_denied_def if_run ret_run raise_run)
  then show ?thesis by (auto simp: resolve_active_run [OF assms])
qed

text \<open>Whoever is refused is told nothing but that access is denied.\<close>

lemma resolve_platform_actor_error:
  assumes "integrity (db w)" and "resolve_platform_actor p permission w = (Inl e, w')"
  shows "e = ForbiddenError ''Platform access denied'' \<and> w' = w"
  using assms(2)
  by (auto simp: resolve_platform_actor_def resolve_active_platform_actor_def bind_Inl
      get_current_user_by_external_auth_id_def user_get_by_external_auth_id_eq [OF assms(1)]
      staff_get_by_user_id_eq [OF assms(1)] access_denied_def bind_def raise_def ret_def
      split: option.splits if_splits)

subsection \<open>What only administrators may do\<close>

definition write_permissions :: "platform_permission set" where
  "write_permissions = {USERS_SUSPEND, USERS_RESTORE, ORGANISATIONS_SUSPEND, ORGANISATIONS_RESTORE,
     ORGANISATIONS_CORRECT_PROFILE, ORGANISATIONS_EMERGENCY_OWNER_CORRECTION, PLATFORM_STAFF_MANAGE}"

lemma writers_are_admins:
  "permission \<in> write_permissions \<Longrightarrow> permission \<in> set (role_permissions role) \<longleftrightarrow> role = PLATFORM_ADMIN"
  by (cases role) (auto simp: write_permissions_def all_permissions_def)

end
