(* ===== verification/Erasure_Providers.thy ===== *)
theory Erasure_Providers
  imports Export_Worker Invites Platform_Access "HOL-Library.List_Lexorder" "HOL-Library.Char_ord"
begin

section \<open>The erasure of one person's data, table by table\<close>

text \<open>
  \<^verbatim>\<open>privacy/erasures/\<close>: \<^verbatim>\<open>user_profile.py\<close>, \<^verbatim>\<open>invite.py\<close>, \<^verbatim>\<open>outbox.py\<close>,
  \<^verbatim>\<open>audit.py\<close> and \<^verbatim>\<open>remaining_inventory.py\<close>. A provider validates the request, loads
  the rows of its table that concern the person, and assigns to each the fields that are to go. An
  assignment is the name of a field with the change of the row, so that the names of the changed
  fields, which a provider reports, come out of the same list.

  The time a provider reports and the person's identifier are left out of its result. The time is
  that of the whole run, which is always given. A provider's status is the text of its
  enumeration, which is all the orchestrator reads.
\<close>

subsection \<open>Assignments\<close>

type_synonym 'r assignment = "string \<times> ('r \<Rightarrow> 'r)"

definition set_if_changed :: "'r assignment \<Rightarrow> 'r \<times> string list \<Rightarrow> 'r \<times> string list" where
  "set_if_changed a rc = (if snd a (fst rc) = fst rc then rc else (snd a (fst rc), snd rc @ [fst a]))"

definition assign_all :: "'r assignment list \<Rightarrow> 'r \<Rightarrow> 'r \<times> string list" where
  "assign_all as r = fold set_if_changed as (r, [])"

definition assigned :: "('r \<Rightarrow> 'r assignment list) \<Rightarrow> 'r \<Rightarrow> 'r" where
  "assigned as r = fst (assign_all (as r) r)"

definition changed_names :: "('r \<Rightarrow> 'r assignment list) \<Rightarrow> 'r \<Rightarrow> string list" where
  "changed_names as r = snd (assign_all (as r) r)"

definition affected_rows :: "('r \<Rightarrow> 'r assignment list) \<Rightarrow> 'r list \<Rightarrow> nat" where
  "affected_rows as rows = length (filter (\<lambda>r. changed_names as r \<noteq> []) rows)"

definition extend_unique :: "string list \<Rightarrow> string list \<Rightarrow> string list" where
  "extend_unique source target = fold (\<lambda>x t. if List.member t x then t else t @ [x]) source target"

definition names_in_order :: "('r \<Rightarrow> 'r assignment list) \<Rightarrow> 'r list \<Rightarrow> string list" where
  "names_in_order as rows = fold (\<lambda>r. extend_unique (changed_names as r)) rows []"

definition names_sorted :: "('r \<Rightarrow> 'r assignment list) \<Rightarrow> 'r list \<Rightarrow> string list" where
  "names_sorted as rows = sort (remdups (concat (map (changed_names as) rows)))"

record provider_result =
  prv_key :: string
  prv_table :: string
  prv_decision :: string
  prv_affected :: nat
  prv_changed_fields :: "string list"

definition provider_report ::
  "string \<Rightarrow> string \<Rightarrow> string \<Rightarrow> string \<Rightarrow> nat \<Rightarrow> string list \<Rightarrow> provider_result" where
  "provider_report key tab did kept n names =
     \<lparr>prv_key = key, prv_table = tab, prv_decision = (if n \<noteq> 0 then did else kept),
      prv_affected = n, prv_changed_fields = names\<rparr>"

subsection \<open>What the providers share\<close>

definition normalise_optional_email :: "string option \<Rightarrow> string option" where
  "normalise_optional_email value = (case value of None \<Rightarrow> None
     | Some v \<Rightarrow> if lower (strip v) = [] then None else Some (lower (strip v)))"

text \<open>The address a provider is given, or else the one the user still has.\<close>

definition subject_address :: "string option \<Rightarrow> user \<Rightarrow> string option" where
  "subject_address given s = (case normalise_optional_email given of
     None \<Rightarrow> normalise_optional_email (usr_email s) | Some m \<Rightarrow> Some m)"

text \<open>\<open>func.lower(func.trim(column))\<close>: SQL trims spaces only.\<close>

definition sql_trim :: "string \<Rightarrow> string" where
  "sql_trim s = rev (dropWhile (\<lambda>c. c = CHR '' '') (rev (dropWhile (\<lambda>c. c = CHR '' '') s)))"

definition sql_email :: "string \<Rightarrow> string" where
  "sql_email s = lower (sql_trim s)"

text \<open>The three checks of a request, with the prefix of the provider's error codes.\<close>

definition validate_erasure_request :: "string \<Rightarrow> data_subject_request \<Rightarrow> unit app" where
  "validate_erasure_request area r =
     bind (ensure (dsr_request_type r = DSR_ERASE) (ErasureProviderError (area @ ''_requires_erase_request''))) (\<lambda>_.
     ensure (dsr_status r = DSR_APPROVED) (ErasureProviderError (area @ ''_requires_approved_request'')))"

definition validate_request_and_get_subject :: "string \<Rightarrow> data_subject_request \<Rightarrow> user app" where
  "validate_request_and_get_subject area r =
     bind (validate_erasure_request area r) (\<lambda>_.
     case dsr_subject r of
       None \<Rightarrow> raise (ErasureProviderError (area @ ''_requires_subject_user''))
     | Some u \<Rightarrow>
       bind (user_get_by_id u) (\<lambda>found.
       case found of
         None \<Rightarrow> raise (ErasureProviderError (area @ ''_subject_not_found''))
       | Some x \<Rightarrow> ret x))"

subsection \<open>The user's profile\<close>

definition erased_external_auth_id :: "uuid \<Rightarrow> string" where
  "erased_external_auth_id u = ''erased-user:'' @ uuid_str u"

definition anonymise_subject_profile :: "user \<Rightarrow> user assignment list" where
  "anonymise_subject_profile s =
     [(''external_auth_id'', \<lambda>x. x\<lparr>external_auth_id := erased_external_auth_id (usr_id s)\<rparr>),
      (''email'', \<lambda>x. x\<lparr>usr_email := None\<rparr>),
      (''email_verified'', \<lambda>x. x\<lparr>email_verified := False\<rparr>),
      (''first_name'', \<lambda>x. x\<lparr>first_name := None\<rparr>),
      (''last_name'', \<lambda>x. x\<lparr>last_name := None\<rparr>),
      (''onboarding_completed'', \<lambda>x. x\<lparr>onboarding_completed := False\<rparr>),
      (''suspended_reason'', \<lambda>x. x\<lparr>usr_suspended_reason := None\<rparr>)]"

definition save_users :: "user list \<Rightarrow> unit app" where
  "save_users rows = save_rows users_update usr_id (\<lambda>t x. x\<lparr>usr_updated_at := t\<rparr>)
     (assigned anonymise_subject_profile) rows"

definition anonymise_user_profile :: "data_subject_request \<Rightarrow> provider_result app" where
  "anonymise_user_profile r =
     bind (validate_request_and_get_subject ''user_profile_erasure'' r) (\<lambda>s.
     bind (save_users [s]) (\<lambda>_.
     ret (provider_report ''users.anonymise_profile'' ''users'' ''anonymised'' ''already_anonymised''
       (affected_rows anonymise_subject_profile [s]) (changed_names anonymise_subject_profile s))))"

subsection \<open>Invites\<close>

definition subject_invite :: "uuid \<Rightarrow> string option \<Rightarrow> invite \<Rightarrow> bool" where
  "subject_invite u email v \<longleftrightarrow> inv_revoked_by_user_id v = Some u \<or>
     (case email of None \<Rightarrow> False | Some m \<Rightarrow> sql_email (inv_email v) = m)"

definition lock_subject_invites :: "uuid \<Rightarrow> string option \<Rightarrow> invite list app" where
  "lock_subject_invites u email =
     query (\<lambda>d. oldest_first inv_created_at inv_id (filter (subject_invite u email) (invites d)))"

definition invite_email_matches_subject :: "string option \<Rightarrow> invite \<Rightarrow> bool" where
  "invite_email_matches_subject email v =
     (case email of None \<Rightarrow> False | Some m \<Rightarrow> lower (strip (inv_email v)) = m)"

definition anonymise_invite :: "uuid \<Rightarrow> string option \<Rightarrow> int \<Rightarrow> invite \<Rightarrow> invite assignment list" where
  "anonymise_invite u email now v =
     (if invite_email_matches_subject email v \<and> \<not> is_scrubbed_invite v
      then [(''email'', \<lambda>x. x\<lparr>inv_email := scrubbed_invite_email (inv_id v)\<rparr>),
            (''token_hash'', \<lambda>x. x\<lparr>inv_token_hash := scrubbed_invite_token_hash (inv_id v)\<rparr>),
            (''expires_at'', \<lambda>x. x\<lparr>inv_expires_at := None\<rparr>)] @
           (if inv_status v = INVITE_PENDING
            then [(''status'', \<lambda>x. x\<lparr>inv_status := INVITE_REVOKED\<rparr>),
                  (''revoked_at'', \<lambda>x. x\<lparr>inv_revoked_at := Some now\<rparr>)]
            else [])
      else []) @
     (if inv_revoked_by_user_id v = Some u
      then [(''revoked_by_user_id'', \<lambda>x. x\<lparr>inv_revoked_by_user_id := None\<rparr>)] else [])"

definition anonymise_invites_for_erasure ::
  "data_subject_request \<Rightarrow> string option \<Rightarrow> int \<Rightarrow> provider_result app" where
  "anonymise_invites_for_erasure r subject_email now =
     bind (validate_request_and_get_subject ''invite_erasure'' r) (\<lambda>s.
     let email = subject_address subject_email s; as = anonymise_invite (usr_id s) email now in
     bind (lock_subject_invites (usr_id s) email) (\<lambda>rows.
     bind (save_rows invites_update inv_id (\<lambda>t x. x\<lparr>inv_updated_at := t\<rparr>) (assigned as) rows) (\<lambda>_.
     ret (provider_report ''invites.anonymise_or_purge_subject_references'' ''invites''
       ''anonymised'' ''already_anonymised'' (affected_rows as rows) (names_in_order as rows)))))"

subsection \<open>The outbox\<close>

text \<open>\<open>payload_json["email"].as_string()\<close>; the payloads hold the address as a string.\<close>

definition payload_email :: "json \<Rightarrow> string option" where
  "payload_email p = (case p of
     JObj kvs \<Rightarrow> (case map_of kvs ''email'' of Some (JStr s) \<Rightarrow> Some s | _ \<Rightarrow> None)
   | _ \<Rightarrow> None)"

definition subject_outbox_event :: "string option \<Rightarrow> uuid list \<Rightarrow> outbox_event \<Rightarrow> bool" where
  "subject_outbox_event email invite_ids e \<longleftrightarrow>
     (case obx_aggregate_id e of None \<Rightarrow> False | Some i \<Rightarrow> List.member invite_ids i) \<or>
     (case (email, payload_email (obx_payload_json e)) of (Some m, Some p) \<Rightarrow> sql_email p = m | _ \<Rightarrow> False)"

definition lock_subject_outbox_events :: "string option \<Rightarrow> uuid list \<Rightarrow> outbox_event list app" where
  "lock_subject_outbox_events email invite_ids =
     query (\<lambda>d. oldest_first obx_created_at obx_id (filter (subject_outbox_event email invite_ids) (outbox_events d)))"

definition safe_invite_payload_keys :: "string list" where
  "safe_invite_payload_keys = [''invite_id'', ''organisation_id'', ''purpose'', ''role'']"

definition scrubbed_payload :: "json \<Rightarrow> json" where
  "scrubbed_payload p =
     (let kvs = (case p of JObj l \<Rightarrow> l | _ \<Rightarrow> []);
          kept = filter (\<lambda>kv. List.member safe_invite_payload_keys (fst kv)) kvs
      in JObj (dict_set (dict_set kept ''sensitive_payload_scrubbed'' (JBool True))
           ''privacy_erasure_scrubbed'' (JBool True)))"

definition privacy_erasure_scrubbed :: string where
  "privacy_erasure_scrubbed = ''privacy_erasure_scrubbed''"

definition scrub_outbox_event :: "outbox_event \<Rightarrow> outbox_event assignment list" where
  "scrub_outbox_event e =
     (''payload_json'', \<lambda>x. x\<lparr>obx_payload_json := scrubbed_payload (obx_payload_json e)\<rparr>) #
     (if obx_status e = OUTBOX_PENDING
      then [(''status'', \<lambda>x. x\<lparr>obx_status := OUTBOX_FAILED\<rparr>),
            (''locked_at'', \<lambda>x. x\<lparr>obx_locked_at := None\<rparr>),
            (''next_attempt_at'', \<lambda>x. x\<lparr>obx_next_attempt_at := None\<rparr>),
            (''last_error'', \<lambda>x. x\<lparr>obx_last_error := Some privacy_erasure_scrubbed\<rparr>)]
      else if obx_last_error e \<noteq> None \<and> obx_last_error e \<noteq> Some privacy_erasure_scrubbed
      then [(''last_error'', \<lambda>x. x\<lparr>obx_last_error := None\<rparr>)]
      else [])"

definition scrub_outbox_for_erasure ::
  "data_subject_request \<Rightarrow> string option \<Rightarrow> uuid list \<Rightarrow> provider_result app" where
  "scrub_outbox_for_erasure r subject_email invite_ids =
     bind (validate_request_and_get_subject ''outbox_erasure'' r) (\<lambda>s.
     let email = subject_address subject_email s in
     bind (lock_subject_outbox_events email invite_ids) (\<lambda>rows.
     bind (ensure (\<not> list_ex (\<lambda>e. obx_status e = OUTBOX_PROCESSING) rows)
       (ErasureProviderError ''outbox_erasure_processing_rows_in_flight'')) (\<lambda>_.
     bind (save_rows outbox_events_update obx_id (\<lambda>t x. x\<lparr>obx_updated_at := t\<rparr>) (assigned scrub_outbox_event) rows) (\<lambda>_.
     ret (provider_report ''outbox.purge_or_scrub_payload'' ''outbox_events'' ''scrubbed'' ''already_scrubbed''
       (affected_rows scrub_outbox_event rows) (names_in_order scrub_outbox_event rows))))))"

subsection \<open>The audit log\<close>

record audit_target_snapshot =
  ats_subject :: uuid
  ats_invite_ids :: "uuid list"
  ats_membership_ids :: "uuid list"
  ats_dsr_ids :: "uuid list"
  ats_artifact_ids :: "uuid list"
  ats_staff_ids :: "uuid list"

definition dsr_refers_to :: "uuid \<Rightarrow> data_subject_request \<Rightarrow> bool" where
  "dsr_refers_to u r \<longleftrightarrow> dsr_subject r = Some u \<or> dsr_requester r = Some u \<or> dsr_reviewer r = Some u \<or>
     dsr_representative_verified_by r = Some u"

definition artifact_refers_to :: "uuid \<Rightarrow> export_artifact \<Rightarrow> bool" where
  "artifact_refers_to u a \<longleftrightarrow> art_subject a = Some u \<or> art_requester a = Some u \<or> art_requested_by a = Some u \<or>
     art_generated_by a = Some u"

definition staff_refers_to :: "uuid \<Rightarrow> platform_staff \<Rightarrow> bool" where
  "staff_refers_to u s \<longleftrightarrow> stf_user_id s = u \<or> stf_created_by_user_id s = Some u"

definition target_snapshot :: "user \<Rightarrow> db \<Rightarrow> audit_target_snapshot" where
  "target_snapshot s d =
     (let u = usr_id s; email = normalise_optional_email (usr_email s) in
      \<lparr>ats_subject = u,
       ats_invite_ids = map inv_id (oldest_first inv_created_at inv_id (filter (subject_invite u email) (invites d))),
       ats_membership_ids = map mem_id (filter (\<lambda>m. mem_user_id m = u) (memberships d)),
       ats_dsr_ids = map dsr_id (filter (dsr_refers_to u) (requests_of d)),
       ats_artifact_ids = map art_id (filter (artifact_refers_to u) (artifacts_of d)),
       ats_staff_ids = map stf_id (filter (staff_refers_to u) (staff_rows d))\<rparr>)"

definition build_target_snapshot :: "user \<Rightarrow> audit_target_snapshot app" where
  "build_target_snapshot s = query (target_snapshot s)"

fun snapshot_targets :: "audit_target_snapshot \<Rightarrow> audit_target_type \<Rightarrow> uuid list" where
  "snapshot_targets s TARGET_USER = [ats_subject s]"
| "snapshot_targets s TARGET_PRIVACY_CONSENT = [ats_subject s]"
| "snapshot_targets s TARGET_PRIVACY_NOTICE = [ats_subject s]"
| "snapshot_targets s TARGET_INVITE = ats_invite_ids s"
| "snapshot_targets s TARGET_MEMBERSHIP = ats_membership_ids s"
| "snapshot_targets s TARGET_DATA_SUBJECT_REQUEST = ats_dsr_ids s"
| "snapshot_targets s TARGET_EXPORT_ARTIFACT = ats_artifact_ids s"
| "snapshot_targets s TARGET_PLATFORM_STAFF = ats_staff_ids s"
| "snapshot_targets s TARGET_ORGANISATION = []"

definition is_subject_target :: "audit_target_snapshot \<Rightarrow> audit_event \<Rightarrow> bool" where
  "is_subject_target s e = (case aud_target_id e of None \<Rightarrow> False
     | Some i \<Rightarrow> List.member (snapshot_targets s (aud_target_type e)) i)"

text \<open>The conditions of the query are those of \<open>_is_subject_target\<close>, or the person as the actor.\<close>

definition subject_audit_event :: "audit_target_snapshot \<Rightarrow> audit_event \<Rightarrow> bool" where
  "subject_audit_event s e \<longleftrightarrow> aud_actor_user_id e = Some (ats_subject s) \<or> is_subject_target s e"

definition lock_subject_audit_events :: "audit_target_snapshot \<Rightarrow> audit_event list app" where
  "lock_subject_audit_events s =
     query (\<lambda>d. oldest_first aud_created_at aud_id (filter (subject_audit_event s) (audit_events d)))"

definition held :: "int \<Rightarrow> audit_event \<Rightarrow> bool" where
  "held now e = (case aud_legal_hold_until e of None \<Rightarrow> False | Some t \<Rightarrow> now < t)"

definition minimise_audit_event :: "audit_target_snapshot \<Rightarrow> audit_event \<Rightarrow> audit_event assignment list" where
  "minimise_audit_event s e =
     (if aud_actor_user_id e = Some (ats_subject s)
      then [(''actor_user_id'', \<lambda>x. x\<lparr>aud_actor_user_id := None\<rparr>)] else []) @
     (if is_subject_target s e then [(''target_id'', \<lambda>x. x\<lparr>aud_target_id := None\<rparr>)] else []) @
     [(''reason'', \<lambda>x. x\<lparr>aud_reason := None\<rparr>),
      (''metadata_json'', \<lambda>x. if json_value (aud_metadata_json x) = None then x else x\<lparr>aud_metadata_json := json_column None\<rparr>),
      (''ip_address'', \<lambda>x. x\<lparr>aud_ip_address := None\<rparr>),
      (''user_agent'', \<lambda>x. x\<lparr>aud_user_agent := None\<rparr>)]"

definition minimise_audit_events_for_erasure :: "data_subject_request \<Rightarrow> int \<Rightarrow> provider_result app" where
  "minimise_audit_events_for_erasure r now =
     bind (validate_request_and_get_subject ''audit_erasure'' r) (\<lambda>s.
     bind (build_target_snapshot s) (\<lambda>snap.
     bind (lock_subject_audit_events snap) (\<lambda>rows.
     bind (ensure (\<not> list_ex (held now) rows) (ErasureProviderError ''audit_erasure_legal_hold_active'')) (\<lambda>_.
     let as = minimise_audit_event snap in
     bind (save_rows audit_events_update aud_id (\<lambda>t x. x) (assigned as) rows) (\<lambda>_.
     ret (provider_report ''audit.minimise_subject_actor_or_target_identifiers'' ''audit_events''
       ''minimised'' ''already_minimised'' (affected_rows as rows) (names_in_order as rows)))))))"

subsection \<open>Memberships, organisations, staff\<close>

text \<open>\<open>_validate_request\<close>; the orchestrator always passes the person's identifier.\<close>

definition validate_remaining :: "data_subject_request \<Rightarrow> unit app" where
  "validate_remaining r = validate_erasure_request ''remaining_erasure'' r"

definition retained :: "string \<Rightarrow> string \<Rightarrow> string \<Rightarrow> provider_result" where
  "retained key tab decision =
     \<lparr>prv_key = key, prv_table = tab, prv_decision = decision, prv_affected = 0, prv_changed_fields = []\<rparr>"

definition minimised :: "string \<Rightarrow> string \<Rightarrow> nat \<Rightarrow> string list \<Rightarrow> provider_result" where
  "minimised key tab n names = provider_report key tab ''minimised'' ''already_minimised'' n names"

definition apply_membership_erasure_policy :: "data_subject_request \<Rightarrow> uuid \<Rightarrow> provider_result app" where
  "apply_membership_erasure_policy r u =
     bind (validate_remaining r) (\<lambda>_.
     bind (query (\<lambda>d. map mem_id (filter (\<lambda>m. mem_user_id m = u) (memberships d)))) (\<lambda>_.
     ret (retained ''memberships.minimise_subject_link'' ''memberships'' ''retained_by_policy'')))"

definition apply_organisation_erasure_policy :: "data_subject_request \<Rightarrow> uuid \<Rightarrow> provider_result app" where
  "apply_organisation_erasure_policy r u =
     bind (validate_remaining r) (\<lambda>_.
     bind (query (\<lambda>d. sort (concat (map (\<lambda>x. map (\<lambda>_. org_id x)
       (filter (\<lambda>m. mem_organisation_id m = org_id x \<and> mem_user_id m = u) (memberships d))) (organisations d))))) (\<lambda>_.
     ret (retained ''organisations.review_subject_references'' ''organisations'' ''manual_review_policy'')))"

definition minimise_platform_staff_row :: "uuid \<Rightarrow> platform_staff \<Rightarrow> platform_staff assignment list" where
  "minimise_platform_staff_row u s =
     (if stf_created_by_user_id s = Some u
      then [(''created_by_user_id'', \<lambda>x. x\<lparr>stf_created_by_user_id := None\<rparr>)] else []) @
     (if stf_user_id s = u \<or> stf_created_by_user_id s = Some u
      then [(''suspended_reason'', \<lambda>x. x\<lparr>stf_suspended_reason := None\<rparr>)] else [])"

definition minimise_platform_staff_for_erasure :: "data_subject_request \<Rightarrow> uuid \<Rightarrow> provider_result app" where
  "minimise_platform_staff_for_erasure r u =
     bind (validate_remaining r) (\<lambda>_.
     bind (query (\<lambda>d. oldest_first stf_created_at stf_id (filter (staff_refers_to u) (staff_rows d)))) (\<lambda>rows.
     let as = minimise_platform_staff_row u in
     bind (save_rows staff_rows_update stf_id (\<lambda>t x. x\<lparr>stf_updated_at := t\<rparr>) (assigned as) rows) (\<lambda>_.
     ret (minimised ''platform_staff.minimise_subject_or_creator_links'' ''platform_staff''
       (affected_rows as rows) (names_sorted as rows)))))"

subsection \<open>Export artifacts\<close>

text \<open>
  The objects of the person's own exports are deleted after the transaction has committed
  (\<open>_register_deferred_export_object_deletions\<close>): the provider returns them. Every backend is
  known, so that \<open>_validate_export_storage_backend\<close> does not raise.
\<close>

type_synonym deferred_deletion = "storage_backend \<times> string"

definition is_subject_owned_export_artifact :: "uuid \<Rightarrow> export_artifact \<Rightarrow> bool" where
  "is_subject_owned_export_artifact u a \<longleftrightarrow> art_subject a = Some u \<or> art_requester a = Some u"

definition subject_owned_export_object_deletions :: "uuid \<Rightarrow> export_artifact list \<Rightarrow> deferred_deletion list" where
  "subject_owned_export_object_deletions u rows =
     concat (map (\<lambda>a. case art_storage_key a of None \<Rightarrow> []
       | Some k \<Rightarrow> if is_subject_owned_export_artifact u a then [(art_storage_backend a, k)] else []) rows)"

definition minimise_export_artifact_row :: "uuid \<Rightarrow> export_artifact \<Rightarrow> export_artifact assignment list" where
  "minimise_export_artifact_row u a =
     (if is_subject_owned_export_artifact u a \<and>
        (art_storage_key a \<noteq> None \<or> List.member [ART_QUEUED, ART_READY] (art_status a))
      then [(''status'', \<lambda>x. x\<lparr>art_status := ART_CANCELLED\<rparr>),
            (''failure_reason_code'', \<lambda>x. x\<lparr>art_failure_reason := Some subject_erasure_requested\<rparr>)] else []) @
     (if art_subject a = Some u then [(''subject_user_id'', \<lambda>x. x\<lparr>art_subject := None\<rparr>)] else []) @
     (if art_requester a = Some u then [(''requester_user_id'', \<lambda>x. x\<lparr>art_requester := None\<rparr>)] else []) @
     (if art_requested_by a = Some u then [(''requested_by_user_id'', \<lambda>x. x\<lparr>art_requested_by := None\<rparr>)] else []) @
     (if art_generated_by a = Some u then [(''generated_by_user_id'', \<lambda>x. x\<lparr>art_generated_by := None\<rparr>)] else []) @
     (if is_subject_owned_export_artifact u a
      then [(''filename'', \<lambda>x. x\<lparr>art_filename := None\<rparr>),
            (''content_type'', \<lambda>x. x\<lparr>art_content_type := None\<rparr>),
            (''size_bytes'', \<lambda>x. x\<lparr>art_size_bytes := None\<rparr>),
            (''checksum_sha256'', \<lambda>x. x\<lparr>art_checksum_sha256 := None\<rparr>),
            (''failure_detail'', \<lambda>x. x\<lparr>art_failure_detail := None\<rparr>),
            (''processing_token'', \<lambda>x. x\<lparr>art_processing_token := None\<rparr>),
            (''processing_lease_expires_at'', \<lambda>x. x\<lparr>art_lease_expires_at := None\<rparr>)] else [])"

definition minimise_export_artifacts_for_erasure ::
  "data_subject_request \<Rightarrow> uuid \<Rightarrow> (provider_result \<times> deferred_deletion list) app" where
  "minimise_export_artifacts_for_erasure r u =
     bind (validate_remaining r) (\<lambda>_.
     bind (query (\<lambda>d. oldest_first art_created_at art_id (filter (artifact_refers_to u) (artifacts_of d)))) (\<lambda>rows.
     bind (ensure (\<not> list_ex (\<lambda>a. art_status a = ART_PROCESSING) rows)
       (ErasureProviderError ''export_artifact_erasure_processing_active'')) (\<lambda>_.
     let as = minimise_export_artifact_row u in
     bind (save_rows artifacts_table art_id (\<lambda>t x. x\<lparr>art_updated_at := t\<rparr>) (assigned as) rows) (\<lambda>_.
     ret (minimised ''export_artifacts.delete_object_minimise_subject_or_actor_metadata'' ''export_artifacts''
       (affected_rows as rows) (names_sorted as rows), subject_owned_export_object_deletions u rows)))))"

subsection \<open>Governance records\<close>

definition clear_authorization_source :: "processing_authorization \<Rightarrow> processing_authorization assignment list" where
  "clear_authorization_source a = [(''source'', \<lambda>x. x\<lparr>pau_source := None\<rparr>)]"

definition clear_notice_source :: "notice_acceptance \<Rightarrow> notice_acceptance assignment list" where
  "clear_notice_source n = [(''source'', \<lambda>x. x\<lparr>pna_source := None\<rparr>)]"

definition minimise_privacy_governance_for_erasure ::
  "data_subject_request \<Rightarrow> uuid \<Rightarrow> provider_result list app" where
  "minimise_privacy_governance_for_erasure r u =
     bind (validate_remaining r) (\<lambda>_.
     bind (query (\<lambda>d. sort_key pau_created_at (filter (\<lambda>a. pau_subject a = u) (authorizations (privacy d))))) (\<lambda>auths.
     bind (query (\<lambda>d. sort_key cns_created_at (filter (\<lambda>c. cns_subject c = u) (consents (privacy d))))) (\<lambda>_.
     bind (query (\<lambda>d. sort_key pna_created_at (filter (\<lambda>n. pna_subject n = u) (notices (privacy d))))) (\<lambda>rows.
     bind (save_rows authorizations_table pau_id (\<lambda>t x. x\<lparr>pau_updated_at := t\<rparr>) (assigned clear_authorization_source) auths) (\<lambda>_.
     bind (save_rows notices_table pna_id (\<lambda>t x. x\<lparr>pna_updated_at := t\<rparr>) (assigned clear_notice_source) rows) (\<lambda>_.
     ret [minimised ''privacy_governance.minimise_authorizations'' ''data_processing_authorizations''
            (affected_rows clear_authorization_source auths) (names_sorted clear_authorization_source auths),
          retained ''privacy_governance.minimise_consent_records'' ''consent_records'' ''retained_by_policy'',
          minimised ''privacy_governance.minimise_notice_acceptances'' ''privacy_notice_acceptances''
            (affected_rows clear_notice_source rows) (names_sorted clear_notice_source rows)]))))))"

subsection \<open>Data-subject requests\<close>

definition minimise_dsr_row :: "uuid \<Rightarrow> data_subject_request \<Rightarrow> data_subject_request assignment list" where
  "minimise_dsr_row u r =
     (if dsr_requester r = Some u then [(''requester_user_id'', \<lambda>x. x\<lparr>dsr_requester := None\<rparr>)] else []) @
     (if dsr_subject r = Some u then [(''subject_user_id'', \<lambda>x. x\<lparr>dsr_subject := None\<rparr>)] else []) @
     (if dsr_reviewer r = Some u then [(''reviewer_user_id'', \<lambda>x. x\<lparr>dsr_reviewer := None\<rparr>)] else []) @
     (if dsr_representative_verified_by r = Some u
      then [(''representative_verified_by_user_id'', \<lambda>x. x\<lparr>dsr_representative_verified_by := None\<rparr>)] else []) @
     (if dsr_requester r = Some u \<or> dsr_subject r = Some u
      then [(''requester_note'', \<lambda>x. x\<lparr>dsr_requester_note := None\<rparr>),
            (''representative_relationship'', \<lambda>x. x\<lparr>dsr_representative_relationship := None\<rparr>),
            (''representative_authority_note'', \<lambda>x. x\<lparr>dsr_representative_authority_note := None\<rparr>),
            (''representative_rejection_reason_code'', \<lambda>x. x\<lparr>dsr_representative_rejection_reason := None\<rparr>),
            (''internal_note'', \<lambda>x. x\<lparr>dsr_internal_note := None\<rparr>),
            (''execution_failure_detail'', \<lambda>x. x\<lparr>dsr_execution_failure_detail := None\<rparr>),
            (''idempotency_key_hash'', \<lambda>x. x\<lparr>dsr_idempotency_key_hash := None\<rparr>),
            (''idempotency_fingerprint'', \<lambda>x. x\<lparr>dsr_idempotency_fingerprint := None\<rparr>),
            (''idempotency_key_expires_at'', \<lambda>x. x\<lparr>dsr_idempotency_expires_at := None\<rparr>),
            (''export_artifact_id'', \<lambda>x. x\<lparr>dsr_export_artifact_id := None\<rparr>),
            (''erasure_job_id'', \<lambda>x. x\<lparr>dsr_erasure_job_id := None\<rparr>)] else [])"

definition minimise_dsr_workflow_for_erasure :: "data_subject_request \<Rightarrow> uuid \<Rightarrow> provider_result app" where
  "minimise_dsr_workflow_for_erasure r u =
     bind (validate_remaining r) (\<lambda>_.
     bind (query (\<lambda>d. oldest_first dsr_created_at dsr_id (filter (dsr_refers_to u) (requests_of d)))) (\<lambda>rows.
     let as = minimise_dsr_row u in
     bind (save_rows requests_table dsr_id (\<lambda>t x. x\<lparr>dsr_updated_at := t\<rparr>) (assigned as) rows) (\<lambda>_.
     ret (minimised ''dsr.minimise_workflow_identifiers'' ''data_subject_requests''
       (affected_rows as rows) (names_sorted as rows)))))"

end
