(* ===== verification/Erasure.thy ===== *)
theory Erasure
  imports Erasure_Providers
begin

section \<open>The execution of an approved erasure\<close>

text \<open>
  \<^verbatim>\<open>privacy/erasures/orchestrator.py\<close>, \<^verbatim>\<open>privacy/erasures/execution.py\<close> and the execution
  of an erasure in \<^verbatim>\<open>privacy/services/data_subject_requests.py\<close>. The providers run in one
  savepoint: the error of one undoes them all and leaves the request \<open>failed\<close>. The objects to be
  deleted after the commit are returned; a rolled-back savepoint discards them.
\<close>

subsection \<open>Orchestration\<close>

datatype orchestration_status = ERASURE_COMPLETED | ERASURE_ALREADY_COMPLETED | ERASURE_FAILED

fun orchestration_status_value :: "orchestration_status \<Rightarrow> string" where
  "orchestration_status_value ERASURE_COMPLETED = ''completed''"
| "orchestration_status_value ERASURE_ALREADY_COMPLETED = ''already_completed''"
| "orchestration_status_value ERASURE_FAILED = ''failed''"

record orchestration_result =
  orc_request_id :: uuid
  orc_subject :: "uuid option"
  orc_status :: orchestration_status
  orc_results :: "provider_result list"
  orc_completed_at :: int
  orc_failure :: "string option"
  orc_deletions :: "deferred_deletion list"

definition lock_and_validate_request :: "uuid \<Rightarrow> data_subject_request app" where
  "lock_and_validate_request i =
     bind (dsr_get_by_id i) (\<lambda>found.
     case found of
       None \<Rightarrow> raise (ErasureOrchestrationError ''erasure_orchestration_request_not_found'')
     | Some r \<Rightarrow>
       bind (ensure (dsr_request_type r = DSR_ERASE)
         (ErasureOrchestrationError ''erasure_orchestration_requires_erase_request'')) (\<lambda>_.
       if dsr_execution_status r = EXECUTION_READY then ret r
       else
       bind (ensure (dsr_status r = DSR_APPROVED)
         (ErasureOrchestrationError ''erasure_orchestration_requires_approved_request'')) (\<lambda>_.
       bind (ensure (dsr_execution_status r \<noteq> EXECUTION_PROCESSING)
         (ErasureOrchestrationError ''erasure_orchestration_already_processing'')) (\<lambda>_.
       bind (ensure (dsr_subject r \<noteq> None)
         (ErasureOrchestrationError ''erasure_orchestration_requires_subject_user'')) (\<lambda>_.
       ret r)))))"

definition erasure_subject_user_id :: "data_subject_request \<Rightarrow> uuid app" where
  "erasure_subject_user_id r = (case dsr_subject r of
     None \<Rightarrow> raise (ErasureOrchestrationError ''erasure_orchestration_requires_subject_user'')
   | Some u \<Rightarrow> ret u)"

definition lock_subject :: "uuid \<Rightarrow> user app" where
  "lock_subject u =
     bind (user_get_by_id u) (\<lambda>found.
     case found of
       None \<Rightarrow> raise (ErasureOrchestrationError ''erasure_orchestration_subject_not_found'')
     | Some x \<Rightarrow> ret x)"

text \<open>The person's address and invites before anything is changed.\<close>

definition build_snapshot :: "data_subject_request \<Rightarrow> (string option \<times> uuid list) app" where
  "build_snapshot r =
     bind (erasure_subject_user_id r) (\<lambda>u.
     bind (lock_subject u) (\<lambda>s.
     let email = normalise_optional_email (usr_email s) in
     bind (query (\<lambda>d. sort (map inv_id (filter (subject_invite (usr_id s) email) (invites d))))) (\<lambda>ids.
     ret (email, ids))))"

definition run_core_providers ::
  "data_subject_request \<Rightarrow> string option \<times> uuid list \<Rightarrow> uuid \<Rightarrow> int \<Rightarrow>
   (provider_result list \<times> deferred_deletion list) app" where
  "run_core_providers r snapshot u now =
     bind (minimise_audit_events_for_erasure r now) (\<lambda>audit.
     bind (scrub_outbox_for_erasure r (fst snapshot) (snd snapshot)) (\<lambda>outbox.
     bind (anonymise_invites_for_erasure r (fst snapshot) now) (\<lambda>invite.
     bind (apply_membership_erasure_policy r u) (\<lambda>membership.
     bind (apply_organisation_erasure_policy r u) (\<lambda>organisation.
     bind (minimise_platform_staff_for_erasure r u) (\<lambda>staff.
     bind (minimise_export_artifacts_for_erasure r u) (\<lambda>(artifact, deletions).
     bind (minimise_privacy_governance_for_erasure r u) (\<lambda>governance.
     bind (anonymise_user_profile r) (\<lambda>user.
     bind (minimise_dsr_workflow_for_erasure r u) (\<lambda>dsr.
     ret ([audit, outbox, invite, membership, organisation, staff, artifact] @ governance @ [user, dsr],
          deletions)))))))))))"

definition erasure_processing :: "int \<Rightarrow> data_subject_request \<Rightarrow> data_subject_request" where
  "erasure_processing now r =
     r\<lparr>dsr_execution_status := EXECUTION_PROCESSING, dsr_execution_started_at := Some now,
       dsr_execution_completed_at := None, dsr_execution_failed_at := None,
       dsr_execution_failure_reason := None, dsr_execution_failure_detail := None\<rparr>"

definition erasure_ready :: "int \<Rightarrow> data_subject_request \<Rightarrow> data_subject_request" where
  "erasure_ready now r =
     r\<lparr>dsr_execution_status := EXECUTION_READY, dsr_execution_completed_at := Some now,
       dsr_execution_failed_at := None, dsr_execution_failure_reason := None,
       dsr_execution_failure_detail := None\<rparr>"

definition erasure_failed :: "string \<Rightarrow> int \<Rightarrow> data_subject_request \<Rightarrow> data_subject_request" where
  "erasure_failed reason now r =
     r\<lparr>dsr_execution_status := EXECUTION_FAILED, dsr_execution_failed_at := Some now,
       dsr_execution_failure_reason := Some (take 64 reason), dsr_execution_failure_detail := None\<rparr>"

fun erasure_reason_code :: "app_error \<Rightarrow> string" where
  "erasure_reason_code (ErasureProviderError c) = c"
| "erasure_reason_code (ErasureOrchestrationError c) = c"
| "erasure_reason_code _ = ''erasure_orchestration_failed''"

text \<open>The request as the session holds it, after the providers changed its row.\<close>

definition current_request :: "data_subject_request \<Rightarrow> data_subject_request app" where
  "current_request r = query (\<lambda>d. case find (\<lambda>x. dsr_id x = dsr_id r) (requests_of d) of None \<Rightarrow> r | Some x \<Rightarrow> x)"

text \<open>The savepoint, and what is written after it.\<close>

definition attempt_erasure ::
  "data_subject_request \<Rightarrow> uuid \<Rightarrow> int \<Rightarrow> (string + provider_result list \<times> deferred_deletion list) app" where
  "attempt_erasure p u now =
     try_except
       (bind (begin_nested (bind (build_snapshot p) (\<lambda>snap. run_core_providers p snap u now))) (\<lambda>done. ret (Inr done)))
       (\<lambda>_. True) (\<lambda>e. ret (Inl (erasure_reason_code e)))"

definition conclude_erasure ::
  "data_subject_request \<Rightarrow> uuid \<Rightarrow> int \<Rightarrow> string + provider_result list \<times> deferred_deletion list \<Rightarrow>
   orchestration_result app" where
  "conclude_erasure p u now outcome =
     (case outcome of
       Inl reason \<Rightarrow>
         bind (dsr_save p (erasure_failed reason now)) (\<lambda>_.
         ret \<lparr>orc_request_id = dsr_id p, orc_subject = Some u, orc_status = ERASURE_FAILED,
           orc_results = [], orc_completed_at = now, orc_failure = Some (take 64 reason), orc_deletions = []\<rparr>)
     | Inr done \<Rightarrow>
         bind (current_request p) (\<lambda>c.
         bind (dsr_save c (erasure_ready now)) (\<lambda>_.
         ret \<lparr>orc_request_id = dsr_id p, orc_subject = Some u, orc_status = ERASURE_COMPLETED,
           orc_results = fst done, orc_completed_at = now, orc_failure = None, orc_deletions = snd done\<rparr>)))"

definition execute_core_erasure :: "uuid \<Rightarrow> int \<Rightarrow> orchestration_result app" where
  "execute_core_erasure i now =
     bind (lock_and_validate_request i) (\<lambda>r.
     if dsr_execution_status r = EXECUTION_READY
     then ret \<lparr>orc_request_id = dsr_id r, orc_subject = dsr_subject r, orc_status = ERASURE_ALREADY_COMPLETED,
       orc_results = [], orc_completed_at = now, orc_failure = None, orc_deletions = []\<rparr>
     else
     bind (erasure_subject_user_id r) (\<lambda>u.
     bind (dsr_save r (erasure_processing now)) (\<lambda>p.
     bind (attempt_erasure p u now) (\<lambda>outcome.
     conclude_erasure p u now outcome))))"

subsection \<open>Execution by a member of the staff\<close>

definition executor_rows :: "uuid \<Rightarrow> db \<Rightarrow> (platform_staff \<times> user_status) list" where
  "executor_rows e d = concat (map (\<lambda>s. map (\<lambda>x. (s, usr_status x))
     (filter (\<lambda>x. usr_id x = stf_user_id s) (users d))) (filter (\<lambda>s. stf_user_id s = e) (staff_rows d)))"

definition lock_authorised_executor :: "uuid \<Rightarrow> platform_staff app" where
  "lock_authorised_executor e =
     bind (query (executor_rows e))
       (\<lambda>rows. bind (scalar_one_or_none rows) (\<lambda>row.
     case row of
       None \<Rightarrow> raise (ErasureExecutionError ''erasure_execution_requires_platform_staff'')
     | Some (s, st) \<Rightarrow>
       bind (ensure (st = USER_ACTIVE) (ErasureExecutionError ''erasure_execution_requires_active_user'')) (\<lambda>_.
       bind (ensure (stf_status s = staff_status_value STAFF_ACTIVE)
         (ErasureExecutionError ''erasure_execution_requires_active_staff'')) (\<lambda>_.
       bind (ensure (List.member [staff_role_value PLATFORM_ADMIN, staff_role_value COMPLIANCE_OFFICER] (stf_role s))
         (ErasureExecutionError ''erasure_execution_requires_privileged_staff'')) (\<lambda>_.
       ret s)))))"

definition lock_erasure_request :: "uuid \<Rightarrow> data_subject_request app" where
  "lock_erasure_request i =
     bind (dsr_get_by_id i) (\<lambda>found.
     case found of
       None \<Rightarrow> raise (ErasureExecutionError ''erasure_execution_request_not_found'')
     | Some r \<Rightarrow> ret r)"

definition reject_self_erasure :: "platform_staff \<Rightarrow> data_subject_request \<Rightarrow> unit app" where
  "reject_self_erasure s r =
     ensure (dsr_subject r \<noteq> Some (stf_user_id s))
       (ErasureExecutionError ''erasure_execution_requires_non_subject_executor'')"

definition erasure_audit_metadata :: "orchestration_result \<Rightarrow> json" where
  "erasure_audit_metadata o' =
     JObj ([(''orchestration_status'', JStr (orchestration_status_value (orc_status o'))),
            (''provider_keys'', JList (map (JStr \<circ> prv_key) (orc_results o'))),
            (''affected_rows'', JInt (int (sum_list (map prv_affected (orc_results o'))))),
            (''did_mutate'', JBool (list_ex (\<lambda>p. 0 < prv_affected p) (orc_results o')))] @
           (case orc_failure o' of None \<Rightarrow> [] | Some c \<Rightarrow> [(''failure_reason_code'', JStr c)]))"

definition audit_execution :: "orchestration_result \<Rightarrow> platform_staff \<Rightarrow> int \<Rightarrow> uuid \<Rightarrow> audit_event" where
  "audit_execution o' s at i =
     \<lparr>aud_id = i, aud_actor_user_id = Some (stf_user_id s), aud_category = AUDIT_COMPLIANCE,
      aud_action = DATA_SUBJECT_REQUEST_ERASURE_EXECUTED, aud_target_type = TARGET_DATA_SUBJECT_REQUEST,
      aud_target_id = Some (orc_request_id o'), aud_reason = Some ''approved_erasure_execution'',
      aud_metadata_json = Some (erasure_audit_metadata o'), aud_ip_address = None, aud_user_agent = None,
      aud_legal_hold_until = None, aud_created_at = at\<rparr>"

definition execute_erasure_by_staff :: "uuid \<Rightarrow> uuid \<Rightarrow> int option \<Rightarrow> orchestration_result app" where
  "execute_erasure_by_staff i executor at =
     bind (case at of Some t \<Rightarrow> ret t | None \<Rightarrow> utcnow) (\<lambda>now.
     bind (lock_authorised_executor executor) (\<lambda>s.
     bind (lock_erasure_request i) (\<lambda>r.
     bind (reject_self_erasure s r) (\<lambda>_.
     bind (execute_core_erasure (dsr_id r) now) (\<lambda>o'.
     bind uuid4 (\<lambda>a.
     bind (flush (audit_events_update (\<lambda>rows. rows @ [audit_execution o' s now a]))) (\<lambda>_.
     ret o')))))))"

subsection \<open>The service\<close>

fun erasure_error_code :: "app_error \<Rightarrow> string option" where
  "erasure_error_code (ErasureExecutionError c) = Some c"
| "erasure_error_code (ErasureOrchestrationError c) = Some c"
| "erasure_error_code _ = None"

definition erasure_execution_app_error :: "string \<Rightarrow> app_error" where
  "erasure_execution_app_error c =
     (if List.member [''erasure_execution_request_not_found'', ''erasure_orchestration_request_not_found''] c
      then NotFoundError ''Data subject request not found''
      else if List.member [''erasure_execution_requires_platform_staff'', ''erasure_execution_requires_active_user'',
        ''erasure_execution_requires_active_staff'', ''erasure_execution_requires_privileged_staff'',
        ''erasure_execution_requires_non_subject_executor''] c
      then ForbiddenError ''Platform access denied''
      else ConflictErrorReason ''Erasure execution is not eligible in the current state'' c)"

definition execute_approved_erasure_request ::
  "externals \<Rightarrow> uuid \<Rightarrow> uuid \<Rightarrow> int option \<Rightarrow> audit_context \<Rightarrow> (data_subject_request \<times> deferred_deletion list) app" where
  "execute_approved_erasure_request X i executor at ctx =
     bind (try_except (execute_erasure_by_staff i executor at) (\<lambda>e. erasure_error_code e \<noteq> None)
       (\<lambda>e. raise (erasure_execution_app_error (the (erasure_error_code e))))) (\<lambda>o'.
     bind (get_platform_request i) (\<lambda>r.
     if is_ready_approved_erasure_request r
     then bind (transition_request X (dsr_id r) DSR_FULFILLED (fulfilment_reviewer_user_id r executor) None None True ctx)
       (\<lambda>u. ret (u, orc_deletions o'))
     else ret (r, orc_deletions o')))"

text \<open>After the end of the root transaction; a failed deletion is logged.\<close>

definition delete_deferred_objects :: "export_env \<Rightarrow> deferred_deletion list \<Rightarrow> unit app" where
  "delete_deferred_objects E deletions =
     for_each deletions (\<lambda>(backend, key).
       try_except (storage_delete (exp_storage E backend) key) (\<lambda>_. True) (\<lambda>_. ret ()))"

end
