(* ===== verification/Platform.thy ===== *)
theory Platform
  imports Platform_Access
begin

section \<open>Platform administration\<close>

text \<open>
  \<^verbatim>\<open>platform/services/platform_staff.py\<close>, \<^verbatim>\<open>platform/services/platform_users.py\<close>,
  \<^verbatim>\<open>platform/services/platform_organisations.py\<close> and
  \<^verbatim>\<open>commands/make_platform_admin.py\<close>: staff manage staff, and suspend, restore and correct users and organisations. Every change is audited.
\<close>

subsection \<open>Staff\<close>

definition service_list_staff ::
  "nat \<Rightarrow> nat \<Rightarrow> platform_staff_status option \<Rightarrow> platform_staff_role option \<Rightarrow>
   (platform_staff list \<times> nat) app" where
  "service_list_staff limit offset status role = staff_list limit offset status role"

definition get_staff :: "uuid \<Rightarrow> platform_staff app" where
  "get_staff sid =
     bind (staff_get_by_id sid) (\<lambda>found.
       case found of None \<Rightarrow> raise (NotFoundError ''Platform staff not found'') | Some s \<Rightarrow> ret s)"

definition create_staff ::
  "externals \<Rightarrow> platform_actor \<Rightarrow> uuid \<Rightarrow> platform_staff_role \<Rightarrow> string \<Rightarrow> audit_context \<Rightarrow>
   platform_staff app" where
  "create_staff X actor uid role reason ctx =
     bind (user_get_by_id uid) (\<lambda>found.
     case found of
       None \<Rightarrow> raise (NotFoundError ''User not found'')
     | Some u \<Rightarrow>
     bind (ensure (usr_status u = USER_ACTIVE) (ConflictError ''User is not active'')) (\<lambda>_.
     bind (staff_get_by_user_id uid) (\<lambda>existing.
     bind (ensure (existing = None) (ConflictError ''Platform staff already exists'')) (\<lambda>_.
     bind (repo_create_staff uid (staff_role_value role) (Some (usr_id (act_user actor)))) (\<lambda>s.
     bind (record_event X ctx AUDIT_PLATFORM PLATFORM_STAFF_CREATED TARGET_PLATFORM_STAFF
       (Some (stf_id s)) (Some reason)
       (Some (JObj [(''user_id'', JStr (uuid_str uid)), (''role'', JStr (staff_role_value role))]))) (\<lambda>_.
     ret s))))))"

text \<open>\<open>any(active_admin.id != staff.id for active_admin in active_admins)\<close>.\<close>

definition has_another_active_admin :: "platform_staff \<Rightarrow> platform_staff list \<Rightarrow> bool" where
  "has_another_active_admin s admins = list_ex (\<lambda>a. stf_id a \<noteq> stf_id s) admins"

definition change_role ::
  "externals \<Rightarrow> uuid \<Rightarrow> platform_actor \<Rightarrow> platform_staff_role \<Rightarrow> string \<Rightarrow> audit_context \<Rightarrow>
   platform_staff app" where
  "change_role X sid actor role reason ctx =
     bind (get_staff sid) (\<lambda>s.
     bind (ensure (stf_status s = staff_status_value STAFF_ACTIVE)
       (ConflictError ''Platform staff is not active'')) (\<lambda>_.
     bind (ensure (stf_role s \<noteq> staff_role_value role) (ConflictError ''Role is already set'')) (\<lambda>_.
     bind (ensure (\<not> (stf_user_id s = usr_id (act_user actor) \<and>
         stf_role s = staff_role_value PLATFORM_ADMIN \<and> role \<noteq> PLATFORM_ADMIN))
       (ConflictError ''Cannot demote own platform admin role'')) (\<lambda>_.
     bind (if stf_role s = staff_role_value PLATFORM_ADMIN \<and> role \<noteq> PLATFORM_ADMIN
           then bind lock_active_platform_admins (\<lambda>admins.
             ensure (has_another_active_admin s admins)
               (ConflictError ''Cannot demote last active platform admin''))
           else ret ()) (\<lambda>_.
     bind (staff_update_role s role) (\<lambda>updated.
     bind (record_event X ctx AUDIT_PLATFORM PLATFORM_STAFF_ROLE_CHANGED TARGET_PLATFORM_STAFF
       (Some (stf_id updated)) (Some reason)
       (Some (JObj [(''old_role'', JStr (stf_role s)), (''new_role'', JStr (staff_role_value role)),
                    (''target_user_id'', JStr (uuid_str (stf_user_id updated)))]))) (\<lambda>_.
     ret updated)))))))"

definition suspend_staff ::
  "externals \<Rightarrow> uuid \<Rightarrow> platform_actor \<Rightarrow> string \<Rightarrow> audit_context \<Rightarrow> platform_staff app" where
  "suspend_staff X sid actor reason ctx =
     bind (get_staff sid) (\<lambda>s.
     bind (ensure (stf_user_id s \<noteq> usr_id (act_user actor))
       (ConflictError ''Cannot suspend own platform staff record'')) (\<lambda>_.
     if stf_status s = staff_status_value STAFF_SUSPENDED then ret s
     else
     bind (ensure (stf_status s = staff_status_value STAFF_ACTIVE)
       (ConflictError ''Platform staff is not active'')) (\<lambda>_.
     bind (if stf_role s = staff_role_value PLATFORM_ADMIN
           then bind lock_active_platform_admins (\<lambda>admins.
             ensure (has_another_active_admin s admins)
               (ConflictError ''Cannot suspend last active platform admin''))
           else ret ()) (\<lambda>_.
     bind (repo_suspend_staff s reason) (\<lambda>updated.
     bind (record_event X ctx AUDIT_PLATFORM PLATFORM_STAFF_SUSPENDED TARGET_PLATFORM_STAFF
       (Some (stf_id updated)) (Some reason)
       (Some (JObj [(''target_user_id'', JStr (uuid_str (stf_user_id updated))),
                    (''role'', JStr (stf_role updated))]))) (\<lambda>_.
     ret updated))))))"

definition restore_staff :: "externals \<Rightarrow> uuid \<Rightarrow> string \<Rightarrow> audit_context \<Rightarrow> platform_staff app" where
  "restore_staff X sid reason ctx =
     bind (get_staff sid) (\<lambda>s.
     if stf_status s = staff_status_value STAFF_ACTIVE then ret s
     else
     bind (ensure (stf_status s = staff_status_value STAFF_SUSPENDED)
       (ConflictError ''Platform staff is not suspended'')) (\<lambda>_.
     bind (repo_restore_staff s) (\<lambda>updated.
     bind (record_event X ctx AUDIT_PLATFORM PLATFORM_STAFF_RESTORED TARGET_PLATFORM_STAFF
       (Some (stf_id updated)) (Some reason)
       (Some (JObj [(''target_user_id'', JStr (uuid_str (stf_user_id updated))),
                    (''role'', JStr (stf_role updated))]))) (\<lambda>_.
     ret updated))))"

subsection \<open>Users\<close>

definition list_users ::
  "nat \<Rightarrow> nat \<Rightarrow> user_status option \<Rightarrow> string option \<Rightarrow> (user list \<times> nat) app" where
  "list_users limit offset status q = user_list_paginated limit offset status (normalised_q q)"

definition list_limited_users ::
  "nat \<Rightarrow> nat \<Rightarrow> user_status option \<Rightarrow> string option \<Rightarrow> (user list \<times> nat) app" where
  "list_limited_users limit offset status q =
     user_list_limited_paginated limit offset status (normalised_q q)"

definition get_platform_user :: "uuid \<Rightarrow> user app" where
  "get_platform_user uid =
     bind (user_get_by_id uid) (\<lambda>found.
       case found of None \<Rightarrow> raise (NotFoundError ''User not found'') | Some u \<Rightarrow> ret u)"

definition suspend_user ::
  "externals \<Rightarrow> uuid \<Rightarrow> platform_actor \<Rightarrow> string \<Rightarrow> audit_context \<Rightarrow> user app" where
  "suspend_user X uid actor reason ctx =
     bind (ensure (usr_id (act_user actor) \<noteq> uid)
       (ConflictError ''Platform actor cannot suspend own account'')) (\<lambda>_.
     bind (get_platform_user uid) (\<lambda>u.
     if usr_status u = USER_SUSPENDED then ret u
     else
     bind utcnow (\<lambda>now.
     bind (user_set_status u USER_SUSPENDED (Some now) (Some reason)) (\<lambda>updated.
     bind (record_event X ctx AUDIT_PLATFORM USER_SUSPENDED_ACTION TARGET_USER (Some (usr_id updated))
       (Some reason) None) (\<lambda>_.
     ret updated)))))"

definition restore_user ::
  "externals \<Rightarrow> uuid \<Rightarrow> platform_actor \<Rightarrow> string \<Rightarrow> audit_context \<Rightarrow> user app" where
  "restore_user X uid actor reason ctx =
     bind (get_platform_user uid) (\<lambda>u.
     if usr_status u = USER_ACTIVE then ret u
     else
     bind (user_set_status u USER_ACTIVE None None) (\<lambda>updated.
     bind (record_event X ctx AUDIT_PLATFORM USER_RESTORED TARGET_USER (Some (usr_id updated))
       (Some reason) None) (\<lambda>_.
     ret updated)))"

subsection \<open>Organisations\<close>

definition list_organisations ::
  "nat \<Rightarrow> nat \<Rightarrow> organisation_status option \<Rightarrow> string option \<Rightarrow> (organisation list \<times> nat) app" where
  "list_organisations limit offset status q =
     organisation_list_paginated limit offset True status (normalised_q q)"

definition list_limited_organisations ::
  "nat \<Rightarrow> nat \<Rightarrow> organisation_status option \<Rightarrow> string option \<Rightarrow> (organisation list \<times> nat) app" where
  "list_limited_organisations limit offset status q =
     organisation_list_limited_paginated limit offset status (normalised_q q)"

definition get_platform_organisation :: "uuid \<Rightarrow> organisation app" where
  "get_platform_organisation oid =
     bind (organisation_get_by_id oid True) (\<lambda>found.
       case found of None \<Rightarrow> raise (NotFoundError ''Organisation not found'') | Some r \<Rightarrow> ret r)"

definition suspend_organisation ::
  "externals \<Rightarrow> uuid \<Rightarrow> platform_actor \<Rightarrow> string \<Rightarrow> audit_context \<Rightarrow> organisation app" where
  "suspend_organisation X oid actor reason ctx =
     bind (get_platform_organisation oid) (\<lambda>r.
     if org_status r = ORG_SUSPENDED then ret r
     else
     bind utcnow (\<lambda>now.
     bind (organisation_set_status r ORG_SUSPENDED (Some now) (Some reason)) (\<lambda>updated.
     bind (record_event X ctx AUDIT_PLATFORM ORGANISATION_SUSPENDED TARGET_ORGANISATION
       (Some (org_id updated)) (Some reason) None) (\<lambda>_.
     ret updated))))"

definition restore_organisation ::
  "externals \<Rightarrow> uuid \<Rightarrow> platform_actor \<Rightarrow> string \<Rightarrow> audit_context \<Rightarrow> organisation app" where
  "restore_organisation X oid actor reason ctx =
     bind (get_platform_organisation oid) (\<lambda>r.
     if org_status r = ORG_ACTIVE then ret r
     else
     bind (organisation_set_status r ORG_ACTIVE None None) (\<lambda>updated.
     bind (record_event X ctx AUDIT_PLATFORM ORGANISATION_RESTORED TARGET_ORGANISATION
       (Some (org_id updated)) (Some reason) None) (\<lambda>_.
     ret updated)))"

text \<open>A new value of a field, when there is one and it differs.\<close>

definition changed :: "string option \<Rightarrow> string \<Rightarrow> string option" where
  "changed new old = (case new of None \<Rightarrow> None | Some n \<Rightarrow> if n \<noteq> old then Some n else None)"

definition correct_organisation_profile ::
  "externals \<Rightarrow> uuid \<Rightarrow> platform_actor \<Rightarrow> string option \<Rightarrow> string option \<Rightarrow> string \<Rightarrow> audit_context \<Rightarrow>
   organisation app" where
  "correct_organisation_profile X oid actor name slug reason ctx =
     bind (get_platform_organisation oid) (\<lambda>r.
     bind (case name of None \<Rightarrow> ret None | Some n \<Rightarrow> bind (lift (normalize_name n)) (\<lambda>x. ret (Some x))) (\<lambda>nn.
     bind (case slug of None \<Rightarrow> ret None | Some s \<Rightarrow> bind (lift (normalize_slug s)) (\<lambda>x. ret (Some x))) (\<lambda>ns.
     let un = changed nn (org_name r); us = changed ns (org_slug r);
         metadata = JObj
           ([(''correction_type'', JStr ''platform_profile_correction''),
             (''changed_fields'', JList ((if un \<noteq> None then [JStr ''name''] else []) @
                (if us \<noteq> None then [JStr ''slug''] else [])))] @
            (case un of None \<Rightarrow> [] | Some n \<Rightarrow>
               [(''old_name'', JStr (org_name r)), (''new_name'', JStr n)]) @
            (case us of None \<Rightarrow> [] | Some s \<Rightarrow>
               [(''old_slug'', JStr (org_slug r)), (''new_slug'', JStr s)]))
     in
     bind (ensure (un \<noteq> None \<or> us \<noteq> None) (ConflictError ''No profile changes'')) (\<lambda>_.
     bind (try_except (organisation_update_details r un us) (\<lambda>e. e = IntegrityError)
       (\<lambda>_. raise (ConflictError ''Organisation slug already exists''))) (\<lambda>updated.
     bind (record_event X ctx AUDIT_PLATFORM ORGANISATION_UPDATED TARGET_ORGANISATION
       (Some (org_id updated)) (Some reason) (Some metadata)) (\<lambda>_.
     ret updated))))))"

definition emergency_replace_organisation_owner ::
  "externals \<Rightarrow> uuid \<Rightarrow> uuid \<Rightarrow> uuid \<Rightarrow> platform_actor \<Rightarrow> string \<Rightarrow> audit_context \<Rightarrow> membership app" where
  "emergency_replace_organisation_owner X oid source_id replacement_id actor reason ctx =
     bind (replace_owner_membership oid source_id replacement_id) (\<lambda>m.
     bind (record_event X ctx AUDIT_PLATFORM MEMBERSHIP_ROLE_CHANGED TARGET_MEMBERSHIP
       (Some (mem_id m)) (Some reason)
       (Some (JObj [(''organisation_id'', JStr (uuid_str oid)),
                    (''correction_type'', JStr ''emergency_owner_replacement''),
                    (''source_owner_membership_id'', JStr (uuid_str source_id)),
                    (''replacement_membership_id'', JStr (uuid_str replacement_id))]))) (\<lambda>_.
     ret m))"

subsection \<open>Command: make a platform administrator\<close>

datatype make_platform_admin_status = GRANTED | ALREADY_ACTIVE

definition make_platform_admin_in_transaction ::
  "externals \<Rightarrow> string \<Rightarrow> bool \<Rightarrow> make_platform_admin_status app" where
  "make_platform_admin_in_transaction X email force =
     bind (user_get_by_email email) (\<lambda>found.
     case found of
       None \<Rightarrow> raise (NotFoundError (''User with email '' @ email @ '' not found''))
     | Some u \<Rightarrow>
     bind (ensure (usr_status u = USER_ACTIVE) (ConflictError ''User is not active'')) (\<lambda>_.
     bind (staff_get_by_user_id (usr_id u)) (\<lambda>existing.
     let ctx = \<lparr>ctx_actor_user_id = None, ctx_ip_address = None, ctx_user_agent = None,
                ctx_network_identifier_secret = None\<rparr>;
         finish = (\<lambda>action metadata s.
           bind (record_event X ctx AUDIT_PLATFORM action TARGET_PLATFORM_STAFF (Some (stf_id s))
             (Some ''bootstrap platform admin'') metadata) (\<lambda>_. ret GRANTED))
     in case existing of
          None \<Rightarrow> bind (repo_create_staff (usr_id u) (staff_role_value PLATFORM_ADMIN) None)
            (finish PLATFORM_STAFF_CREATED None)
        | Some s \<Rightarrow>
            if active_platform_admin s then ret ALREADY_ACTIVE
            else
            bind (ensure force (ConflictError
              ''Platform staff record exists; use --force to promote the existing record to platform_admin'')) (\<lambda>_.
            bind (promote_to_active_platform_admin s)
              (finish PLATFORM_STAFF_ROLE_CHANGED
                (Some (JObj [(''old_role'', JStr (stf_role s)),
                             (''new_role'', JStr (staff_role_value PLATFORM_ADMIN))])))))))"

definition make_platform_admin :: "externals \<Rightarrow> string \<Rightarrow> bool \<Rightarrow> make_platform_admin_status app" where
  "make_platform_admin X email force = session_begin (make_platform_admin_in_transaction X email force)"

subsection \<open>What the writes do\<close>

lemma staff_save_run [run_rules]:
  "staff_save s f w = (Inr x, w') \<longleftrightarrow>
     (let t = clock w (clock_pos w); g = (\<lambda>r. (f r)\<lparr>stf_updated_at := t\<rparr>);
          d = staff_rows_update (update_where (\<lambda>r. stf_id r = stf_id s) g) (db w)
      in integrity d \<and> x = g s \<and> w' = w\<lparr>clock_pos := Suc (clock_pos w), db := d\<rparr>)"
  by (auto simp: staff_save_def run_rules Let_def)

lemma get_staff_run:
  assumes "integrity (db w)"
  shows "get_staff sid w = (Inr s, w') \<longleftrightarrow> w' = w \<and> s \<in> set (staff_rows (db w)) \<and> stf_id s = sid"
proof -
  have "find (\<lambda>s. stf_id s = sid) (staff_rows (db w)) = Some s \<longleftrightarrow> s \<in> set (staff_rows (db w)) \<and> stf_id s = sid"
    by (rule find_by_unique_key [OF integrityD(10) [OF assms]]) simp
  then show ?thesis
    by (auto simp: get_staff_def bind_def staff_get_by_id_eq [OF assms] raise_def ret_def split: option.splits)
qed

text \<open>A staff record changes in place and one event says so.\<close>

lemma change_role_done:
  assumes I: "integrity (db w)" and run: "change_role X sid actor role reason ctx w = (Inr x, w')"
  obtains s t e where "s \<in> set (staff_rows (db w))" "stf_id s = sid" "stf_status s = staff_status_value STAFF_ACTIVE"
    and "stf_role s \<noteq> staff_role_value role"
    and "stf_role s = staff_role_value PLATFORM_ADMIN \<Longrightarrow> stf_user_id s \<noteq> usr_id (act_user actor) \<and>
      (\<exists>a\<in>set (staff_rows (db w)). active_platform_admin a \<and> stf_id a \<noteq> sid)"
    and "x = s\<lparr>stf_role := staff_role_value role, stf_updated_at := t\<rparr>"
    and "db w' = audit_events_update (\<lambda>rows. rows @ [e]) (staff_rows_update (update_where (\<lambda>r. stf_id r = sid)
      (\<lambda>r. r\<lparr>stf_role := staff_role_value role, stf_updated_at := t\<rparr>)) (db w))"
    and "says e ctx AUDIT_PLATFORM PLATFORM_STAFF_ROLE_CHANGED TARGET_PLATFORM_STAFF (Some sid) (Some reason)
      (Some (JObj [(''old_role'', JStr (stf_role s)), (''new_role'', JStr (staff_role_value role)),
                    (''target_user_id'', JStr (uuid_str (stf_user_id s)))]))"
    and "integrity (db w')"
proof -
  from run obtain s where s: "s \<in> set (staff_rows (db w))" "stf_id s = sid" "stf_status s = staff_status_value STAFF_ACTIVE"
      "stf_role s \<noteq> staff_role_value role"
    and own: "\<not> (stf_user_id s = usr_id (act_user actor) \<and> stf_role s = staff_role_value PLATFORM_ADMIN \<and> role \<noteq> PLATFORM_ADMIN)"
    and last: "stf_role s = staff_role_value PLATFORM_ADMIN \<and> role \<noteq> PLATFORM_ADMIN \<Longrightarrow>
      has_another_active_admin s (sort_key stf_id (filter active_platform_admin (staff_rows (db w))))"
    and upd: "bind (staff_update_role s role) (\<lambda>updated.
     bind (record_event X ctx AUDIT_PLATFORM PLATFORM_STAFF_ROLE_CHANGED TARGET_PLATFORM_STAFF
       (Some (stf_id updated)) (Some reason)
       (Some (JObj [(''old_role'', JStr (stf_role s)), (''new_role'', JStr (staff_role_value role)),
                    (''target_user_id'', JStr (uuid_str (stf_user_id updated)))]))) (\<lambda>_.
     ret updated)) w = (Inr x, w')"
    unfolding change_role_def
    by (auto simp: bind_Inr [of "get_staff _"] get_staff_run [OF I] bind_Inr [of "ensure _ _"] ensure_run
        bind_Inr [of "if _ then _ else _"] if_run bind_Inr [of lock_active_platform_admins]
        lock_active_platform_admins_def query_run ret_run bind_Inr [of "query _"])
  let ?t = "clock w (clock_pos w)"
  from upd obtain e w1 where x: "x = s\<lparr>stf_role := staff_role_value role, stf_updated_at := ?t\<rparr>"
    and w1: "w1 = w\<lparr>clock_pos := Suc (clock_pos w), db := staff_rows_update (update_where (\<lambda>r. stf_id r = sid)
      (\<lambda>r. r\<lparr>stf_role := staff_role_value role, stf_updated_at := ?t\<rparr>)) (db w)\<rparr>"
    and rec: "record_event X ctx AUDIT_PLATFORM PLATFORM_STAFF_ROLE_CHANGED TARGET_PLATFORM_STAFF
       (Some sid) (Some reason) (Some (JObj [(''old_role'', JStr (stf_role s)), (''new_role'', JStr (staff_role_value role)),
                    (''target_user_id'', JStr (uuid_str (stf_user_id s)))])) w1 = (Inr e, w')"
    using s(2) by (auto simp: run_rules staff_update_role_def Let_def)
  have "stf_user_id s \<noteq> usr_id (act_user actor) \<and> (\<exists>a\<in>set (staff_rows (db w)). active_platform_admin a \<and> stf_id a \<noteq> sid)"
    if "stf_role s = staff_role_value PLATFORM_ADMIN"
  proof -
    from that s(4) have "role \<noteq> PLATFORM_ADMIN" by auto
    with that own last s(2) show ?thesis by (auto simp: has_another_active_admin_def list_ex_iff)
  qed
  with record_event_run [OF rec] show ?thesis
    by (intro that [OF s _ x, of e]) (simp_all add: w1)
qed

lemma suspend_staff_done:
  assumes I: "integrity (db w)" and run: "suspend_staff X sid actor reason ctx w = (Inr x, w')"
  obtains s where "s \<in> set (staff_rows (db w))" "stf_id s = sid" "stf_user_id s \<noteq> usr_id (act_user actor)"
    and "stf_status s = staff_status_value STAFF_SUSPENDED" "x = s" "w' = w"
  | s t now e where "s \<in> set (staff_rows (db w))" "stf_id s = sid" "stf_user_id s \<noteq> usr_id (act_user actor)"
    and "stf_status s = staff_status_value STAFF_ACTIVE"
    and "stf_role s = staff_role_value PLATFORM_ADMIN \<Longrightarrow>
      \<exists>a\<in>set (staff_rows (db w)). active_platform_admin a \<and> stf_id a \<noteq> sid"
    and "x = s\<lparr>stf_status := staff_status_value STAFF_SUSPENDED, stf_suspended_at := Some now,
        stf_suspended_reason := Some reason, stf_updated_at := t\<rparr>"
    and "db w' = audit_events_update (\<lambda>rows. rows @ [e]) (staff_rows_update (update_where (\<lambda>r. stf_id r = sid)
      (\<lambda>r. r\<lparr>stf_status := staff_status_value STAFF_SUSPENDED, stf_suspended_at := Some now,
        stf_suspended_reason := Some reason, stf_updated_at := t\<rparr>)) (db w))"
    and "says e ctx AUDIT_PLATFORM PLATFORM_STAFF_SUSPENDED TARGET_PLATFORM_STAFF (Some sid) (Some reason)
      (Some (JObj [(''target_user_id'', JStr (uuid_str (stf_user_id s))), (''role'', JStr (stf_role s))]))"
    and "integrity (db w')"
proof -
  from run obtain s where s: "s \<in> set (staff_rows (db w))" "stf_id s = sid" "stf_user_id s \<noteq> usr_id (act_user actor)"
    and rest: "stf_status s = staff_status_value STAFF_SUSPENDED \<and> x = s \<and> w' = w \<or>
      stf_status s = staff_status_value STAFF_ACTIVE \<and>
      (stf_role s = staff_role_value PLATFORM_ADMIN \<longrightarrow>
        has_another_active_admin s (sort_key stf_id (filter active_platform_admin (staff_rows (db w))))) \<and>
      bind (repo_suspend_staff s reason) (\<lambda>updated.
     bind (record_event X ctx AUDIT_PLATFORM PLATFORM_STAFF_SUSPENDED TARGET_PLATFORM_STAFF
       (Some (stf_id updated)) (Some reason)
       (Some (JObj [(''target_user_id'', JStr (uuid_str (stf_user_id updated))),
                    (''role'', JStr (stf_role updated))]))) (\<lambda>_.
     ret updated)) w = (Inr x, w')"
    unfolding suspend_staff_def
    by (auto simp: bind_Inr [of "get_staff _"] get_staff_run [OF I] bind_Inr [of "ensure _ _"] ensure_run
        bind_Inr [of "if _ then _ else _"] if_run bind_Inr [of lock_active_platform_admins]
        lock_active_platform_admins_def query_run ret_run bind_Inr [of "query _"])
  from rest show ?thesis
  proof (elim disjE conjE)
    assume st: "stf_status s = staff_status_value STAFF_ACTIVE"
      and last: "stf_role s = staff_role_value PLATFORM_ADMIN \<longrightarrow>
        has_another_active_admin s (sort_key stf_id (filter active_platform_admin (staff_rows (db w))))"
      and upd: "bind (repo_suspend_staff s reason) (\<lambda>updated.
     bind (record_event X ctx AUDIT_PLATFORM PLATFORM_STAFF_SUSPENDED TARGET_PLATFORM_STAFF
       (Some (stf_id updated)) (Some reason)
       (Some (JObj [(''target_user_id'', JStr (uuid_str (stf_user_id updated))),
                    (''role'', JStr (stf_role updated))]))) (\<lambda>_.
     ret updated)) w = (Inr x, w')"
    let ?now = "clock w (clock_pos w)" and ?t = "clock w (Suc (clock_pos w))"
    let ?f = "\<lambda>r. r\<lparr>stf_status := staff_status_value STAFF_SUSPENDED, stf_suspended_at := Some ?now,
        stf_suspended_reason := Some reason, stf_updated_at := ?t\<rparr>"
    from upd obtain e w1 where x: "x = ?f s"
      and w1: "w1 = w\<lparr>clock_pos := Suc (Suc (clock_pos w)),
        db := staff_rows_update (update_where (\<lambda>r. stf_id r = sid) ?f) (db w)\<rparr>"
      and rec: "record_event X ctx AUDIT_PLATFORM PLATFORM_STAFF_SUSPENDED TARGET_PLATFORM_STAFF
       (Some sid) (Some reason) (Some (JObj [(''target_user_id'', JStr (uuid_str (stf_user_id s))),
                    (''role'', JStr (stf_role s))])) w1 = (Inr e, w')"
      using s(2) by (auto simp: run_rules repo_suspend_staff_def Let_def)
    show ?thesis
      by (rule that(2) [OF s st _ x])
         (use last s record_event_run [OF rec] in \<open>auto simp: w1 has_another_active_admin_def list_ex_iff\<close>)
  qed (use that(1) s in blast)
qed

lemma suspend_user_done:
  assumes I: "integrity (db w)" and run: "suspend_user X uid actor reason ctx w = (Inr x, w')"
  obtains "x \<in> set (users (db w))" "usr_id x = uid" "uid \<noteq> usr_id (act_user actor)"
    and "usr_status x = USER_SUSPENDED" "w' = w"
  | u t now e where "u \<in> set (users (db w))" "usr_id u = uid" "uid \<noteq> usr_id (act_user actor)"
    and "usr_status u = USER_ACTIVE"
    and "x = u\<lparr>usr_status := USER_SUSPENDED, usr_suspended_at := Some now,
        usr_suspended_reason := Some reason, usr_updated_at := t\<rparr>"
    and "db w' = audit_events_update (\<lambda>rows. rows @ [e]) (users_update (update_where (\<lambda>r. usr_id r = uid)
      (\<lambda>r. r\<lparr>usr_status := USER_SUSPENDED, usr_suspended_at := Some now,
        usr_suspended_reason := Some reason, usr_updated_at := t\<rparr>)) (db w))"
    and "says e ctx AUDIT_PLATFORM USER_SUSPENDED_ACTION TARGET_USER (Some uid) (Some reason) None"
    and "integrity (db w')"
proof -
  have find: "find (\<lambda>u. usr_id u = uid) (users (db w)) = Some u \<longleftrightarrow> u \<in> set (users (db w)) \<and> usr_id u = uid" for u
    by (rule find_by_unique_key [OF integrityD(1) [OF I]]) simp
  have get: "get_platform_user uid w = (Inr u, w1) \<longleftrightarrow> w1 = w \<and> u \<in> set (users (db w)) \<and> usr_id u = uid" for u w1
    unfolding find [symmetric]
    by (auto simp: get_platform_user_def bind_def user_get_by_id_eq [OF I] raise_def ret_def split: option.splits)
  from run obtain u where u: "u \<in> set (users (db w))" "usr_id u = uid" "uid \<noteq> usr_id (act_user actor)"
    and rest: "usr_status u = USER_SUSPENDED \<and> x = u \<and> w' = w \<or> usr_status u \<noteq> USER_SUSPENDED \<and>
      bind utcnow (\<lambda>now. bind (user_set_status u USER_SUSPENDED (Some now) (Some reason)) (\<lambda>updated.
      bind (record_event X ctx AUDIT_PLATFORM USER_SUSPENDED_ACTION TARGET_USER (Some (usr_id updated))
       (Some reason) None) (\<lambda>_. ret updated))) w = (Inr x, w')"
    unfolding suspend_user_def
    by (auto simp: bind_Inr [of "get_platform_user _"] get bind_Inr [of "ensure _ _"] ensure_run if_run ret_run)
  from rest show ?thesis
  proof (elim disjE conjE)
    assume st: "usr_status u \<noteq> USER_SUSPENDED"
      and upd: "bind utcnow (\<lambda>now. bind (user_set_status u USER_SUSPENDED (Some now) (Some reason)) (\<lambda>updated.
      bind (record_event X ctx AUDIT_PLATFORM USER_SUSPENDED_ACTION TARGET_USER (Some (usr_id updated))
       (Some reason) None) (\<lambda>_. ret updated))) w = (Inr x, w')"
    let ?now = "clock w (clock_pos w)" and ?t = "clock w (Suc (clock_pos w))"
    let ?f = "\<lambda>r. r\<lparr>usr_status := USER_SUSPENDED, usr_suspended_at := Some ?now,
        usr_suspended_reason := Some reason, usr_updated_at := ?t\<rparr>"
    from upd obtain e w1 where x: "x = ?f u"
      and w1: "w1 = w\<lparr>clock_pos := Suc (Suc (clock_pos w)),
        db := users_update (update_where (\<lambda>r. usr_id r = uid) ?f) (db w)\<rparr>"
      and rec: "record_event X ctx AUDIT_PLATFORM USER_SUSPENDED_ACTION TARGET_USER (Some uid) (Some reason) None w1 = (Inr e, w')"
      using u(2) by (auto simp: run_rules user_set_status_def Let_def)
    have "usr_status u = USER_ACTIVE" using st by (simp add: not_suspended)
    with record_event_run [OF rec] show ?thesis
      by (intro that(2) [OF u _ x, of e]) (simp_all add: w1)
  qed (use that(1) u in simp)
qed

subsection \<open>The writes keep the invariant\<close>

lemma keeps_saas_staff: "keeps saas_inv (flush (staff_rows_update f))"
  and keeps_saas_audit: "keeps saas_inv (flush (audit_events_update g))"
proof -
  have "saas_inv (staff_rows_update f d)" if "saas_inv d" "integrity (staff_rows_update f d)" for d
    by (rule saas_inv_frame [OF that(1)])
       (use that(2) saas_invD(2,5) [OF that(1)] in \<open>simp_all add: tenant_inv_def invite_roles_def\<close>)
  then show "keeps saas_inv (flush (staff_rows_update f))" by (rule keeps_flush)
  have "saas_inv (audit_events_update g d)" if "saas_inv d" "integrity (audit_events_update g d)" for d
    by (rule saas_inv_frame [OF that(1)])
       (use that(2) saas_invD(2,5) [OF that(1)] in \<open>simp_all add: tenant_inv_def invite_roles_def\<close>)
  then show "keeps saas_inv (flush (audit_events_update g))" by (rule keeps_flush)
qed

lemma keeps_saas_record_event: "keeps saas_inv (record_event X ctx c a tt tid rs m)"
  unfolding record_event_def audit_create_def Let_def
  by (cases "validate_metadata_json m") (auto intro!: maintains_rules keeps_saas_audit)

lemma keeps_saas_organisation:
  assumes "\<And>r. org_id (f r) = org_id r \<and> org_deleted_at (f r) = org_deleted_at r"
  shows "keeps saas_inv (organisation_save r f)"
proof -
  have "saas_inv (organisations_update (update_where p (\<lambda>x. (f x)\<lparr>org_updated_at := t\<rparr>)) d)"
    if inv: "saas_inv d" and I: "integrity (organisations_update (update_where p (\<lambda>x. (f x)\<lparr>org_updated_at := t\<rparr>)) d)"
    for d p t
    by (rule saas_inv_frame [OF inv])
       (use I saas_invD(5) [OF inv] assms tenancy_save_organisation [OF saas_invD(2) [OF inv],
          of "\<lambda>x. (f x)\<lparr>org_updated_at := t\<rparr>" p] in
         \<open>simp_all add: tenant_inv_def invite_roles_def\<close>)
  then show ?thesis
    unfolding organisation_save_def Let_def
    by (intro maintains_rules keeps_flush)
qed

lemma keeps_saas_organisation_writes:
  "keeps saas_inv (organisation_set_status r st at rs)" "keeps saas_inv (organisation_update_details r n s)"
  unfolding organisation_set_status_def organisation_update_details_def
  by (rule keeps_saas_organisation; simp)+

lemmas platform_write_defs =
  create_staff_def change_role_def suspend_staff_def restore_staff_def suspend_user_def restore_user_def
  suspend_organisation_def restore_organisation_def correct_organisation_profile_def
  get_staff_def get_platform_user_def get_platform_organisation_def staff_get_by_id_def staff_get_by_user_id_def
  user_get_by_id_def organisation_get_by_id_def lock_active_platform_admins_def repo_create_staff_def
  staff_update_role_def repo_suspend_staff_def repo_restore_staff_def staff_save_def
  promote_to_active_platform_admin_def user_get_by_email_def Let_def

lemma keeps_saas_platform:
  "keeps saas_inv (create_staff X actor uid role reason ctx)"
  "keeps saas_inv (change_role X sid actor role reason ctx)"
  "keeps saas_inv (suspend_staff X sid actor reason ctx)"
  "keeps saas_inv (restore_staff X sid reason ctx)"
  "keeps saas_inv (suspend_user X uid actor reason ctx)"
  "keeps saas_inv (restore_user X uid actor reason ctx)"
  "keeps saas_inv (suspend_organisation X oid actor reason ctx)"
  "keeps saas_inv (restore_organisation X oid actor reason ctx)"
  "keeps saas_inv (correct_organisation_profile X oid actor name slug reason ctx)"
  "keeps saas_inv (make_platform_admin_in_transaction X email force)"
  by (unfold platform_write_defs make_platform_admin_in_transaction_def)
     (intro maintains_rules keeps_saas_record_event keeps_saas_staff keeps_saas_organisation_writes
        keeps_saas_user_programs(5) | assumption)+

lemma commits_saas_replace_owner:
  "commits saas_inv (replace_owner_membership_in_transaction oid source_id replacement_id)"
  by (rule commits_saas [OF commits_replace_owner_membership])
     (auto simp: replace_owner_membership_in_transaction_def lock_active_memberships_def bind_Inr query_run
        raise_run ensure_run membership_save_run ret_run Let_def ensure_exactly_one_active_owner_def
        count_active_owners_def split: option.splits)

lemma commits_saas_emergency:
  "commits saas_inv (emergency_replace_organisation_owner X oid source_id replacement_id actor reason ctx)"
  unfolding emergency_replace_organisation_owner_def replace_owner_membership_def
  by (auto intro!: commits_bind commits_in_transaction_or_begin [OF commits_saas_replace_owner]
      keeps_commits [OF keeps_saas_record_event] keeps_commits [OF maintains_ret] keeps_commits [OF maintains_ensure])

subsection \<open>The platform keeps an administrator\<close>

text \<open>
  An administrator who can act: an active user with an active record and the role, who can still sign
  in. An erasure gives an account the subject \<open>erased-user:\<dots>\<close> (\<^verbatim>\<open>privacy/erasures/user_profile.py\<close>),
  with which nobody signs in.
\<close>

definition tombstone_subject :: "string \<Rightarrow> bool" where
  "tombstone_subject s \<longleftrightarrow> prefix ''erased-user:'' s"

definition effective_admin :: "db \<Rightarrow> uuid \<Rightarrow> bool" where
  "effective_admin d uid \<longleftrightarrow> list_ex (\<lambda>u. usr_id u = uid \<and> usr_status u = USER_ACTIVE \<and>
       \<not> tombstone_subject (external_auth_id u)) (users d) \<and>
     list_ex (\<lambda>s. stf_user_id s = uid \<and> active_platform_admin s) (staff_rows d)"

lemma effective_admin_frame [simp]:
  "effective_admin (organisations_update fo d) uid = effective_admin d uid"
  "effective_admin (memberships_update fm d) uid = effective_admin d uid"
  "effective_admin (invites_update fi d) uid = effective_admin d uid"
  "effective_admin (audit_events_update fa d) uid = effective_admin d uid"
  "effective_admin (outbox_events_update fx d) uid = effective_admin d uid"
  "effective_admin (delivery_claims_update fc d) uid = effective_admin d uid"
  "effective_admin (privacy_update fp d) uid = effective_admin d uid"
  by (simp_all add: effective_admin_def)

lemma list_ex_update_where_mono:
  "list_ex q rows \<Longrightarrow> (\<And>r. r \<in> set rows \<Longrightarrow> p r \<Longrightarrow> q r \<Longrightarrow> q (f r)) \<Longrightarrow> list_ex q (update_where p f rows)"
  by (induction rows) auto

lemma effective_admin_users:
  "effective_admin d uid \<Longrightarrow>
    (\<And>u. u \<in> set (users d) \<Longrightarrow> p u \<Longrightarrow> usr_id u = uid \<Longrightarrow> usr_status u = USER_ACTIVE \<Longrightarrow>
       usr_id (f u) = uid \<and> usr_status (f u) = USER_ACTIVE \<and> external_auth_id (f u) = external_auth_id u) \<Longrightarrow>
    effective_admin (users_update (update_where p f) d) uid"
  by (auto simp: effective_admin_def intro!: list_ex_update_where_mono)

lemma effective_admin_staff:
  "effective_admin d uid \<Longrightarrow>
    (\<And>s. s \<in> set (staff_rows d) \<Longrightarrow> p s \<Longrightarrow> stf_user_id s = uid \<Longrightarrow> active_platform_admin s \<Longrightarrow>
       stf_user_id (f s) = uid \<and> active_platform_admin (f s)) \<Longrightarrow>
    effective_admin (staff_rows_update (update_where p f) d) uid"
  by (auto simp: effective_admin_def intro!: list_ex_update_where_mono)

lemma effective_admin_append:
  "effective_admin d uid \<Longrightarrow> effective_admin (users_update (\<lambda>rows. rows @ [u]) d) uid"
  "effective_admin d uid \<Longrightarrow> effective_admin (staff_rows_update (\<lambda>rows. rows @ [s]) d) uid"
  by (simp_all add: effective_admin_def)

lemma keeps_admin_record_event: "keeps (\<lambda>d. effective_admin d a) (record_event X ctx c ac tt tid rs m)"
  by (rule keeps_record_event) simp

lemma keeps_admin_flush:
  "keeps (\<lambda>d. effective_admin d a) (flush (staff_rows_update (\<lambda>rows. rows @ [s])))"
  "keeps (\<lambda>d. effective_admin d a) (flush (organisations_update fo))"
  by (rule keeps_flush, simp add: effective_admin_append)+

lemma keeps_admin_staff_save:
  assumes "\<And>r. stf_user_id (f r) = stf_user_id r" and "\<And>r. active_platform_admin r \<Longrightarrow> active_platform_admin (f r)"
  shows "keeps (\<lambda>d. effective_admin d a) (staff_save s f)"
proof -
  have "active_platform_admin (r\<lparr>stf_updated_at := t\<rparr>) = active_platform_admin r" for r t
    by (simp add: active_platform_admin_def)
  then have "keeps (\<lambda>d. effective_admin d a) (flush (staff_rows_update (update_where p (\<lambda>r. (f r)\<lparr>stf_updated_at := t\<rparr>))))"
    for p t using assms by (intro keeps_flush effective_admin_staff) simp_all
  then show ?thesis unfolding staff_save_def Let_def by (intro maintains_rules)
qed

lemma keeps_admin_restore_user: "keeps (\<lambda>d. effective_admin d a) (user_set_status u USER_ACTIVE at rs)"
proof -
  have "keeps (\<lambda>d. effective_admin d a) (flush (users_update (update_where p (\<lambda>r. (r\<lparr>usr_status := USER_ACTIVE,
      usr_suspended_at := at, usr_suspended_reason := rs\<rparr>)\<lparr>usr_updated_at := t\<rparr>))))" for p t
    by (intro keeps_flush effective_admin_users) simp_all
  then show ?thesis unfolding user_set_status_def user_save_def Let_def by (intro maintains_rules)
qed

lemmas admin_mono_defs =
  create_staff_def restore_staff_def restore_user_def suspend_organisation_def restore_organisation_def
  correct_organisation_profile_def get_staff_def get_platform_user_def get_platform_organisation_def
  staff_get_by_id_def staff_get_by_user_id_def user_get_by_id_def organisation_get_by_id_def
  repo_create_staff_def repo_restore_staff_def organisation_set_status_def organisation_update_details_def
  organisation_save_def promote_to_active_platform_admin_def user_get_by_email_def Let_def

lemma keeps_admin_platform:
  "keeps (\<lambda>d. effective_admin d a) (create_staff X actor uid role reason ctx)"
  "keeps (\<lambda>d. effective_admin d a) (restore_staff X sid reason ctx)"
  "keeps (\<lambda>d. effective_admin d a) (restore_user X uid actor reason ctx)"
  "keeps (\<lambda>d. effective_admin d a) (suspend_organisation X oid actor reason ctx)"
  "keeps (\<lambda>d. effective_admin d a) (restore_organisation X oid actor reason ctx)"
  "keeps (\<lambda>d. effective_admin d a) (correct_organisation_profile X oid actor name slug reason ctx)"
  "keeps (\<lambda>d. effective_admin d a) (make_platform_admin_in_transaction X email force)"
  by (unfold admin_mono_defs make_platform_admin_in_transaction_def)
     (intro maintains_rules keeps_admin_record_event keeps_admin_flush keeps_admin_staff_save
        keeps_admin_restore_user | simp add: active_platform_admin_def)+

text \<open>The writes that take something away never take it from the one who acts.\<close>

lemma actor_stays_admin:
  assumes I: "integrity (db w)" and adm: "effective_admin (db w) (usr_id (act_user actor))"
  shows "change_role X sid actor role reason ctx w = (Inr s, w') \<Longrightarrow> effective_admin (db w') (usr_id (act_user actor))"
    and "suspend_staff X sid actor reason ctx w = (Inr s', w') \<Longrightarrow> effective_admin (db w') (usr_id (act_user actor))"
    and "suspend_user X uid actor reason ctx w = (Inr u, w') \<Longrightarrow> effective_admin (db w') (usr_id (act_user actor))"
proof -
  let ?a = "usr_id (act_user actor)"
  have other: "stf_user_id r \<noteq> ?a" if "r \<in> set (staff_rows (db w))" "s0 \<in> set (staff_rows (db w))"
    "stf_id r = stf_id s0" "stf_user_id s0 \<noteq> ?a" for r s0
    using staff_table.same_key_same_row [OF I that(1,2,3)] that(4) by simp
  show "effective_admin (db w') ?a" if run: "change_role X sid actor role reason ctx w = (Inr s, w')"
  proof (rule change_role_done [OF I run])
    fix s0 t e
    assume s0: "s0 \<in> set (staff_rows (db w))" "stf_id s0 = sid"
      and own: "stf_role s0 = staff_role_value PLATFORM_ADMIN \<Longrightarrow> stf_user_id s0 \<noteq> ?a \<and>
        (\<exists>a\<in>set (staff_rows (db w)). active_platform_admin a \<and> stf_id a \<noteq> sid)"
      and d: "db w' = audit_events_update (\<lambda>rows. rows @ [e]) (staff_rows_update (update_where (\<lambda>r. stf_id r = sid)
      (\<lambda>r. r\<lparr>stf_role := staff_role_value role, stf_updated_at := t\<rparr>)) (db w))"
    have "r \<noteq> s0" if "stf_user_id r = ?a" "active_platform_admin r" for r
      using own that by (auto simp: active_platform_admin_def)
    with staff_table.same_key_same_row [OF I _ s0(1)] s0(2) show "effective_admin (db w') ?a"
      unfolding d effective_admin_frame by (intro effective_admin_staff [OF adm]) blast
  qed
  show "effective_admin (db w') ?a" if run: "suspend_staff X sid actor reason ctx w = (Inr s', w')"
    using I run
  proof (rule suspend_staff_done)
    fix s0 t now e
    assume s0: "s0 \<in> set (staff_rows (db w))" "stf_id s0 = sid" "stf_user_id s0 \<noteq> ?a"
      and d: "db w' = audit_events_update (\<lambda>rows. rows @ [e]) (staff_rows_update (update_where (\<lambda>r. stf_id r = sid)
      (\<lambda>r. r\<lparr>stf_status := staff_status_value STAFF_SUSPENDED, stf_suspended_at := Some now,
        stf_suspended_reason := Some reason, stf_updated_at := t\<rparr>)) (db w))"
    show "effective_admin (db w') ?a"
      unfolding d effective_admin_frame using s0 other by (intro effective_admin_staff [OF adm]) blast
  qed (use adm in simp)
  show "effective_admin (db w') ?a" if run: "suspend_user X uid actor reason ctx w = (Inr u, w')"
    using I run
  proof (rule suspend_user_done)
    fix u t now e
    assume "uid \<noteq> ?a" and d: "db w' = audit_events_update (\<lambda>rows. rows @ [e]) (users_update (update_where (\<lambda>r. usr_id r = uid)
      (\<lambda>r. r\<lparr>usr_status := USER_SUSPENDED, usr_suspended_at := Some now,
        usr_suspended_reason := Some reason, usr_updated_at := t\<rparr>)) (db w))"
    then show "effective_admin (db w') ?a"
      unfolding d effective_admin_frame by (intro effective_admin_users [OF adm]) simp
  qed (use adm in simp)
qed

end
