(* ===== verification/Tenant_API.thy ===== *)
theory Tenant_API
  imports Tenant_Invariant Request_Schemas
begin

section \<open>Onboarding, access and the tenant endpoints\<close>

text \<open>
  \<^verbatim>\<open>organisations/services/onboarding.py\<close>, \<^verbatim>\<open>organisations/services/access.py\<close> and the
  endpoints of \<^verbatim>\<open>organisations/api/organisations.py\<close>, \<^verbatim>\<open>invites/api/invites.py\<close> and
  \<^verbatim>\<open>users/api/users.py\<close>. A request carries a verified identity. The rate limits it passes
  through are programs the environment supplies: \<open>endpoint_limit\<close> runs before the handler
  (\<open>rate_limit_dependency\<close>) and \<open>business_limit\<close> is handed to the service.
\<close>

subsection \<open>Services\<close>

definition onboard :: "principal \<Rightarrow> string \<Rightarrow> string \<Rightarrow> (user \<times> organisation \<times> membership) app" where
  "onboard p name slug =
     bind (get_or_create_current_user p) (\<lambda>u.
     bind (ensure_user_active u) (\<lambda>_.
     bind (ensure_email_verified p) (\<lambda>_.
     bind (ensure_user_can_create_organisation (usr_id u)) (\<lambda>_.
     bind (create_organisation name slug) (\<lambda>r.
     bind (create_membership (usr_id u) (org_id r) OWNER) (\<lambda>m.
     bind (mark_onboarding_completed u) (\<lambda>u'.
     ret (u', r, m))))))))"

definition create_organisation_for_current_user ::
  "principal \<Rightarrow> string \<Rightarrow> string \<Rightarrow> (user \<times> organisation \<times> membership) app" where
  "create_organisation_for_current_user p name slug = session_begin (onboard p name slug)"

definition get_organisation_for_member :: "principal \<Rightarrow> uuid \<Rightarrow> organisation app" where
  "get_organisation_for_member p oid =
     bind (provision_current_user p) (\<lambda>u.
     bind (ensure_user_active u) (\<lambda>_.
     bind (get_organisation oid) (\<lambda>r.
     bind (ensure_organisation_active r) (\<lambda>_.
     bind (ensure_user_has_organisation_access (usr_id u) oid) (\<lambda>_.
     ret r)))))"

subsection \<open>Endpoints\<close>

text \<open>What the audit context takes from a request.\<close>

record request_meta =
  req_ip_address :: "string option"
  req_user_agent :: "string option"
  req_network_identifier_secret :: "string option"

definition build_audit_context_from_request :: "uuid \<Rightarrow> request_meta \<Rightarrow> audit_context" where
  "build_audit_context_from_request actor q =
     \<lparr>ctx_actor_user_id = Some actor, ctx_ip_address = req_ip_address q,
      ctx_user_agent = req_user_agent q,
      ctx_network_identifier_secret = req_network_identifier_secret q\<rparr>"

datatype tenant_request =
    CreateOrganisation principal string string
  | GetOrganisation principal uuid
  | UpdateOrganisation principal uuid "string option" "string option" request_meta
  | GetDirectory principal uuid
  | ChangeMembershipRole principal uuid uuid membership_role request_meta
  | RemoveMembership principal uuid uuid "string option" request_meta
  | DeleteOrganisation principal uuid "string option" request_meta
  | ListMemberships principal uuid
  | CreateInvite principal uuid string membership_role request_meta
  | AcceptInvite principal string
  | RevokeInvite principal uuid uuid "operational_reason_code option" request_meta
  | ResendInvite principal uuid uuid request_meta
  | GetMe principal

record env =
  env_externals :: externals
  env_outbox :: outbox_settings
  endpoint_limit :: "tenant_request \<Rightarrow> unit app"
  business_limit :: "tenant_request \<Rightarrow> unit app"

text \<open>\<open>AcceptInviteRequest\<close>: at most 4096 characters, not blank, and stripped.\<close>

definition validate_token :: "string \<Rightarrow> string app" where
  "validate_token raw =
     bind (ensure (length raw \<le> 4096) (ValueError ''String should have at most 4096 characters'')) (\<lambda>_.
     bind (ensure (strip raw \<noteq> []) (ValueError ''Token must not be empty'')) (\<lambda>_.
     ret (strip raw)))"

definition validate_role :: "membership_role \<Rightarrow> membership_role app" where
  "validate_role role =
     bind (ensure (role \<noteq> OWNER) (ValueError ''Owner role cannot be assigned via invite'')) (\<lambda>_. ret role)"

definition api_create_organisation :: "principal \<Rightarrow> string \<Rightarrow> string \<Rightarrow> organisation app" where
  "api_create_organisation p name slug =
     bind (lift (create_organisation_request name slug)) (\<lambda>(n, s).
     bind (create_organisation_for_current_user p n s) (\<lambda>(u, r, m). ret r))"

definition api_get_organisation :: "principal \<Rightarrow> uuid \<Rightarrow> organisation app" where
  "api_get_organisation p oid = get_organisation_for_member p oid"

definition api_update_organisation ::
  "externals \<Rightarrow> principal \<Rightarrow> uuid \<Rightarrow> string option \<Rightarrow> string option \<Rightarrow> request_meta \<Rightarrow> unit app \<Rightarrow>
   organisation app" where
  "api_update_organisation X p oid name slug q limit =
     bind (lift (update_organisation_request name slug)) (\<lambda>(n, s).
     bind (provision_current_user p) (\<lambda>u.
     update_organisation_details X oid (usr_id u) (build_audit_context_from_request (usr_id u) q)
       n s (Some limit)))"

definition api_get_organisation_directory :: "principal \<Rightarrow> uuid \<Rightarrow> (string \<times> membership_role) list app" where
  "api_get_organisation_directory p oid =
     bind (provision_current_user p) (\<lambda>u. list_directory_members_for_user oid (usr_id u))"

definition api_change_membership_role ::
  "externals \<Rightarrow> principal \<Rightarrow> uuid \<Rightarrow> uuid \<Rightarrow> membership_role \<Rightarrow> request_meta \<Rightarrow> unit app \<Rightarrow>
   membership app" where
  "api_change_membership_role X p oid mid role q limit =
     bind (provision_current_user p) (\<lambda>u.
     change_membership_role X oid (usr_id u) (build_audit_context_from_request (usr_id u) q) mid role
       (Some limit))"

definition api_remove_membership ::
  "externals \<Rightarrow> principal \<Rightarrow> uuid \<Rightarrow> uuid \<Rightarrow> string option \<Rightarrow> request_meta \<Rightarrow> unit app \<Rightarrow> unit app" where
  "api_remove_membership X p oid mid reason q limit =
     bind (lift (normalize_reason reason)) (\<lambda>reason'.
     bind (provision_current_user p) (\<lambda>u.
     bind (remove_membership X oid (usr_id u) (build_audit_context_from_request (usr_id u) q) mid reason'
       (Some limit)) (\<lambda>_. ret ())))"

definition api_delete_organisation ::
  "externals \<Rightarrow> principal \<Rightarrow> uuid \<Rightarrow> string option \<Rightarrow> request_meta \<Rightarrow> unit app \<Rightarrow> unit app" where
  "api_delete_organisation X p oid reason q limit =
     bind (lift (normalize_reason reason)) (\<lambda>reason'.
     bind (provision_current_user p) (\<lambda>u.
     bind (soft_delete X oid (usr_id u) (build_audit_context_from_request (usr_id u) q) reason'
       (Some limit)) (\<lambda>_. ret ())))"

definition api_list_organisation_memberships :: "principal \<Rightarrow> uuid \<Rightarrow> membership list app" where
  "api_list_organisation_memberships p oid =
     bind (provision_current_user p) (\<lambda>u. list_memberships_for_management oid (usr_id u))"

text \<open>The service of the invite endpoints is built after the user, and may refuse its key.\<close>

definition api_create_invite ::
  "externals \<Rightarrow> outbox_settings \<Rightarrow> principal \<Rightarrow> uuid \<Rightarrow> string \<Rightarrow> membership_role \<Rightarrow> request_meta \<Rightarrow>
   unit app \<Rightarrow> invite app" where
  "api_create_invite X cfg p oid email role q limit =
     bind (validate_role role) (\<lambda>role'.
     bind (provision_current_user p) (\<lambda>u.
     bind (lift (payload_crypto X cfg)) (\<lambda>key.
     create_invite X key oid (usr_id u) role' email (build_audit_context_from_request (usr_id u) q)
       (Some limit))))"

definition api_accept_invite ::
  "externals \<Rightarrow> outbox_settings \<Rightarrow> principal \<Rightarrow> string \<Rightarrow> membership app" where
  "api_accept_invite X cfg p raw =
     bind (validate_token raw) (\<lambda>token.
     bind (lift (payload_crypto X cfg)) (\<lambda>key.
     accept_invite X token p))"

definition api_revoke_invite ::
  "externals \<Rightarrow> outbox_settings \<Rightarrow> principal \<Rightarrow> uuid \<Rightarrow> uuid \<Rightarrow> operational_reason_code option \<Rightarrow>
   request_meta \<Rightarrow> unit app" where
  "api_revoke_invite X cfg p oid iid code q =
     bind (provision_current_user p) (\<lambda>u.
     bind (lift (payload_crypto X cfg)) (\<lambda>key.
     revoke_invite X oid iid (usr_id u) (build_audit_context_from_request (usr_id u) q)
       (map_option reason_code_value code)))"

definition api_resend_invite ::
  "externals \<Rightarrow> outbox_settings \<Rightarrow> principal \<Rightarrow> uuid \<Rightarrow> uuid \<Rightarrow> request_meta \<Rightarrow> unit app \<Rightarrow>
   invite app" where
  "api_resend_invite X cfg p oid iid q limit =
     bind (provision_current_user p) (\<lambda>u.
     bind (lift (payload_crypto X cfg)) (\<lambda>key.
     resend_invite X key oid iid (usr_id u) (build_audit_context_from_request (usr_id u) q) (Some limit)))"

definition api_get_me :: "principal \<Rightarrow> (user \<times> (uuid \<times> membership_role) option) app" where
  "api_get_me p =
     bind (get_me p) (\<lambda>u.
     bind (get_membership_for_user (usr_id u)) (\<lambda>m.
     ret (u, map_option (\<lambda>x. (mem_organisation_id x, mem_role x)) m)))"

definition discard :: "'a app \<Rightarrow> unit app" where
  "discard m = bind m (\<lambda>_. ret ())"

text \<open>The router: the endpoint's rate limit, then its handler.\<close>

fun dispatch :: "env \<Rightarrow> tenant_request \<Rightarrow> unit app" where
  "dispatch E (CreateOrganisation p name slug) = discard (api_create_organisation p name slug)"
| "dispatch E (GetOrganisation p oid) = discard (api_get_organisation p oid)"
| "dispatch E (UpdateOrganisation p oid name slug q) =
     discard (api_update_organisation (env_externals E) p oid name slug q
       (business_limit E (UpdateOrganisation p oid name slug q)))"
| "dispatch E (GetDirectory p oid) = discard (api_get_organisation_directory p oid)"
| "dispatch E (ChangeMembershipRole p oid mid role q) =
     discard (api_change_membership_role (env_externals E) p oid mid role q
       (business_limit E (ChangeMembershipRole p oid mid role q)))"
| "dispatch E (RemoveMembership p oid mid reason q) =
     api_remove_membership (env_externals E) p oid mid reason q
       (business_limit E (RemoveMembership p oid mid reason q))"
| "dispatch E (DeleteOrganisation p oid reason q) =
     api_delete_organisation (env_externals E) p oid reason q
       (business_limit E (DeleteOrganisation p oid reason q))"
| "dispatch E (ListMemberships p oid) = discard (api_list_organisation_memberships p oid)"
| "dispatch E (CreateInvite p oid email role q) =
     discard (api_create_invite (env_externals E) (env_outbox E) p oid email role q
       (business_limit E (CreateInvite p oid email role q)))"
| "dispatch E (AcceptInvite p raw) = discard (api_accept_invite (env_externals E) (env_outbox E) p raw)"
| "dispatch E (RevokeInvite p oid iid reason q) =
     api_revoke_invite (env_externals E) (env_outbox E) p oid iid reason q"
| "dispatch E (ResendInvite p oid iid q) =
     discard (api_resend_invite (env_externals E) (env_outbox E) p oid iid q
       (business_limit E (ResendInvite p oid iid q)))"
| "dispatch E (GetMe p) = discard (api_get_me p)"

definition handle :: "env \<Rightarrow> tenant_request \<Rightarrow> unit app" where
  "handle E r = bind (endpoint_limit E r) (\<lambda>_. dispatch E r)"


subsection \<open>Onboarding keeps the invariant\<close>

text \<open>The body of the onboarding transaction.\<close>

lemma onboarding_done:
  assumes inv: "saas_inv (db w)" and run: "onboard p name slug w = (Inr (u', r, mb), w')"
  shows "saas_inv (db w')" and "idn_email_verified p"
    and "mem_organisation_id mb = org_id r" "mem_role mb = OWNER" "mem_is_active mb"
    and "organisations (db w') = organisations (db w) @ [r]" "memberships (db w') = memberships (db w) @ [mb]"
    and "live r" "normalize_slug slug = Inr (org_slug r)" "normalize_name name = Inr (org_name r)"
    and "\<exists>u :: user. mem_user_id mb = usr_id u \<and> external_auth_id u = idn_external_auth_id p \<and> usr_status u = USER_ACTIVE"
proof -
  from run obtain u w1 w2 w3 where gc: "get_or_create_current_user p w = (Inr u, w1)"
    and ok: "usr_status u \<noteq> USER_SUSPENDED" "idn_email_verified p"
    and cr: "create_organisation name slug w1 = (Inr r, w2)"
    and cm: "create_membership (usr_id u) (org_id r) OWNER w2 = (Inr mb, w3)"
    and ob: "mark_onboarding_completed u w3 = (Inr u', w')"
    unfolding onboard_def
    by (auto simp: bind_Inr guard_defs ensure_run ret_run ensure_user_can_create_organisation_def
        repo_get_membership_for_user_eq query_run)
  have inv1: "saas_inv (db w1)"
    by (rule maintainsD [OF keeps_saas_user_programs(2) _ gc]) (simp add: inv)
  note gc' = get_or_create_run [OF _ gc] and ot1 = other_tables_trans [OF gc]
  obtain a b where a: "db a = db w1" "create_organisation_in_transaction name slug a = (Inr r, b)" "db w2 = db b"
    using cr unfolding create_organisation_def by (rule in_transaction_or_begin_committed)
  note co = create_organisation_done [OF a(2)]
  obtain a' b' where a': "db a' = db w2" "create_membership_in_transaction (usr_id u) (org_id r) OWNER a' = (Inr mb, b')"
    "db w3 = db b'"
    using cm unfolding create_membership_def by (rule in_transaction_or_begin_committed)
  note cm' = create_membership_done [OF a'(2)]
  have d2: "db w2 = organisations_update (\<lambda>rows. rows @ [r]) (db w1)" using co(1) a by simp
  have d3: "db w3 = memberships_update (\<lambda>rows. rows @ [mb]) (db w2)" using cm'(6) a' by simp
  have "tenant_inv (db b')"
  proof (rule create_membership_tenancy [OF a'(2)])
    show "tenancy_except (org_id r) (db a')"
      unfolding a'(1) d2 by (rule tenancy_except_new_organisation [OF saas_invD(2) [OF inv1] refl])
    show "org_id r \<in> live_ids (db a')"
      using co(2) by (simp add: a'(1) d2 live_ids_def live_def)
  qed
  then have "tenant_inv (db w3)" by (simp add: a'(3))
  then have inv3: "saas_inv (db w3)"
    by (rule saas_inv_frame [OF inv1]) (use saas_invD(5) [OF inv1] in \<open>simp_all add: d3 d2 invite_roles_def\<close>)
  show "saas_inv (db w')"
    by (rule maintainsD [OF keeps_saas_user_programs(4) inv3 ob])
  have ot': "other_tables (db w') = other_tables (db w3)"
    by (rule maintainsD [OF keeps_other_tables_users(4) _ ob]) simp
  show "organisations (db w') = organisations (db w) @ [r]" "memberships (db w') = memberships (db w) @ [mb]"
    using other_tables_eqD(1,2) [OF ot'] other_tables_eqD(1,2) [OF ot1] by (simp_all add: d3 d2)
  show "idn_email_verified p" by (rule ok(2))
  show "mem_organisation_id mb = org_id r" "mem_role mb = OWNER" "mem_is_active mb" by (rule cm')+
  show "live r" "normalize_slug slug = Inr (org_slug r)" "normalize_name name = Inr (org_name r)"
    using co by (simp_all add: live_def)
  show "\<exists>u :: user. mem_user_id mb = usr_id u \<and> external_auth_id u = idn_external_auth_id p \<and> usr_status u = USER_ACTIVE"
    using cm'(2) gc' saas_invD(1) [OF inv] ok(1) by (auto simp: not_suspended intro!: exI [of _ u])
qed


subsection \<open>Every request keeps the invariant\<close>

definition limits_ok :: "env \<Rightarrow> bool" where
  "limits_ok E \<longleftrightarrow> (\<forall>r. leaves_db (endpoint_limit E r) \<and> leaves_db (business_limit E r))"

lemma safe_provision: "safe (provision_current_user p)"
  unfolding provision_current_user_def
  by (rule idle_in_transaction_or_begin [OF keeps_commits [OF keeps_saas_user_programs(2)]])

lemma safe_get_me: "safe (get_me p)"
  unfolding get_me_def
  by (rule idle_in_transaction_or_begin [OF keeps_commits [OF keeps_saas_user_programs(7)]])

lemma leaves_db_reads:
  "leaves_db (get_user_by_id i)" "leaves_db (get_organisation oid)" "leaves_db (get_membership uid oid)"
  "leaves_db (repo_get_membership_for_user uid)" "leaves_db (has_membership uid oid)"
  "leaves_db (ensure_user_active u)" "leaves_db (ensure_organisation_active r)"
  unfolding get_user_by_id_def user_get_by_id_def get_organisation_def organisation_get_by_id_def
    get_membership_def repo_get_membership_for_user_def has_membership_def guard_defs
  by (intro leaves_db_rules)+

lemma leaves_db_services:
  "leaves_db (list_directory_members_for_user oid actor)" "leaves_db (list_memberships_for_management oid actor)"
  "leaves_db (get_membership_for_user uid)" "leaves_db (ensure_user_has_organisation_access uid oid)"
  unfolding list_directory_members_for_user_def list_memberships_for_management_def
    get_membership_for_user_def ensure_user_has_organisation_access_def
    list_directory_members_for_organisation_def list_memberships_for_organisation_def
  by (intro leaves_db_rules leaves_db_reads)+

lemma leaves_db_lift: "leaves_db (lift r)"
  by (cases r) (simp_all add: lift_def leaves_db_rules)

lemmas safe_reads = idle_leaves_db [OF leaves_db_reads(2)] idle_leaves_db [OF leaves_db_reads(6)]
  idle_leaves_db [OF leaves_db_reads(7)] leaves_db_services [THEN idle_leaves_db]
  idle_leaves_db [OF leaves_db_lift]

lemma safe_onboarding: "safe (create_organisation_for_current_user p name slug)"
  unfolding create_organisation_for_current_user_def
  by (rule idle_session_begin, rule commitsI) (metis onboarding_done(1) prod_cases3)

lemmas safe_begin = idle_in_transaction_or_begin idle_session_begin

lemma safe_dispatch:
  assumes "limits_ok E"
  shows "safe (dispatch E r)"
proof -
  have lim: "limiter_ok (Some (business_limit E r))" for r
    using assms by (simp add: limits_ok_def limiter_ok_def)
  note rules = maintains_rules safe_provision safe_get_me safe_reads safe_onboarding
    safe_begin [OF commits_saas_memberships(1) [OF lim]] safe_begin [OF commits_saas_memberships(2) [OF lim]]
    safe_begin [OF commits_saas_memberships(3) [OF lim]] safe_begin [OF commits_saas_memberships(4) [OF lim]]
    safe_begin [OF commits_saas_create_invite [OF lim]] safe_begin [OF commits_saas_resend_invite [OF lim]]
    safe_begin [OF commits_saas_revoke_invite] safe_begin [OF commits_saas_accept_invite]
  show ?thesis
  proof (cases r)
    case (CreateOrganisation p name slug)
    then show ?thesis
      by (auto simp: discard_def api_create_organisation_def split_beta intro!: rules)
  qed (simp only: split_beta dispatch.simps discard_def api_get_organisation_def get_organisation_for_member_def
      api_update_organisation_def update_organisation_details_def ensure_audit_actor_matches_def
      api_get_organisation_directory_def api_change_membership_role_def change_membership_role_def
      api_remove_membership_def remove_membership_def api_delete_organisation_def soft_delete_def
      api_list_organisation_memberships_def api_create_invite_def create_invite_def
      api_accept_invite_def accept_invite_def api_revoke_invite_def revoke_invite_def
      api_resend_invite_def resend_invite_def api_get_me_def validate_token_def validate_role_def,
      (intro rules | assumption)+)+
qed

lemma safe_handle: "limits_ok E \<Longrightarrow> safe (handle E r)"
  unfolding handle_def
  by (intro maintains_bind safe_dispatch idle_leaves_db) (simp_all add: limits_ok_def)

end
