(* ===== verification/Platform_API.thy ===== *)
theory Platform_API
  imports Platform Tenant_API
begin

section \<open>The platform endpoints\<close>

text \<open>
  \<^verbatim>\<open>platform/api/\<close> with the checks of \<^verbatim>\<open>platform/schemas/\<close>, and the invariants of the
  platform side: every request keeps the invariant of the application, and while the platform has
  an administrator who can act, it keeps one.
\<close>

subsection \<open>Endpoints\<close>

text \<open>The free-text reason of a staff write: 1 to 500 characters, trimmed, not blank.\<close>

definition trim_reason :: "string \<Rightarrow> string app" where
  "trim_reason value =
     bind (ensure (1 \<le> length value \<and> length value \<le> 500) (ValueError ''String length'')) (\<lambda>_.
     bind (ensure (strip value \<noteq> []) (ValueError ''Reason cannot be blank'')) (\<lambda>_.
     ret (strip value)))"

text \<open>\<open>PlatformPaginationQuery\<close>: at most 100 rows.\<close>

definition validate_pagination :: "nat \<Rightarrow> unit app" where
  "validate_pagination limit = ensure (1 \<le> limit \<and> limit \<le> 100) (ValueError ''limit'')"

definition validate_search :: "nat \<Rightarrow> string option \<Rightarrow> unit app" where
  "validate_search limit q =
     bind (validate_pagination limit) (\<lambda>_.
     ensure (case q of None \<Rightarrow> True | Some s \<Rightarrow> 1 \<le> length s \<and> length s \<le> 255) (ValueError ''q''))"

text \<open>What the limited responses show.\<close>

record limited_user =
  lim_usr_id :: uuid
  lim_first_name :: "string option"
  lim_last_name :: "string option"
  lim_usr_status :: user_status
  lim_usr_created_at :: int

definition limited_user_response :: "user \<Rightarrow> limited_user" where
  "limited_user_response u = \<lparr>lim_usr_id = usr_id u, lim_first_name = first_name u,
     lim_last_name = last_name u, lim_usr_status = usr_status u, lim_usr_created_at = usr_created_at u\<rparr>"

record limited_organisation =
  lim_org_id :: uuid
  lim_org_name :: string
  lim_org_slug :: string
  lim_org_status :: organisation_status
  lim_org_created_at :: int

definition limited_organisation_response :: "organisation \<Rightarrow> limited_organisation" where
  "limited_organisation_response r = \<lparr>lim_org_id = org_id r, lim_org_name = org_name r,
     lim_org_slug = org_slug r, lim_org_status = org_status r, lim_org_created_at = org_created_at r\<rparr>"

record limited_audit_event =
  lim_aud_id :: uuid
  lim_aud_category :: audit_category
  lim_aud_action :: audit_action
  lim_aud_target_type :: audit_target_type
  lim_aud_target_id :: "uuid option"
  has_actor :: bool
  has_metadata :: bool
  has_reason :: bool
  lim_aud_created_at :: int

definition limited_audit_event_response :: "audit_event \<Rightarrow> limited_audit_event" where
  "limited_audit_event_response e = \<lparr>lim_aud_id = aud_id e, lim_aud_category = aud_category e,
     lim_aud_action = aud_action e, lim_aud_target_type = aud_target_type e,
     lim_aud_target_id = aud_target_id e, has_actor = (aud_actor_user_id e \<noteq> None),
     has_metadata = (json_value (aud_metadata_json e) \<noteq> None), has_reason = (aud_reason e \<noteq> None),
     lim_aud_created_at = aud_created_at e\<rparr>"

text \<open>A parameter or a body is checked once the dependencies of the endpoint have run.\<close>

definition api_list_platform_staff ::
  "unit app \<Rightarrow> principal \<Rightarrow> nat \<Rightarrow> nat \<Rightarrow> platform_staff_status option \<Rightarrow> platform_staff_role option \<Rightarrow>
   (platform_staff list \<times> nat) app" where
  "api_list_platform_staff limit p l n status role =
     bind limit (\<lambda>_.
     bind (require_platform_permission PLATFORM_STAFF_MANAGE p) (\<lambda>_.
     bind (validate_pagination l) (\<lambda>_.
     service_list_staff l n status role)))"

definition api_create_platform_staff ::
  "externals \<Rightarrow> unit app \<Rightarrow> principal \<Rightarrow> request_meta \<Rightarrow> uuid \<Rightarrow> platform_staff_role \<Rightarrow> string \<Rightarrow>
   platform_staff app" where
  "api_create_platform_staff X limit p q uid role reason =
     require_rate_limited_platform_write_context limit PLATFORM_STAFF_MANAGE p (\<lambda>a.
     bind (trim_reason reason) (\<lambda>r.
     create_staff X a uid role r (build_audit_context_from_request (usr_id (act_user a)) q)))"

definition api_get_platform_staff ::
  "unit app \<Rightarrow> principal \<Rightarrow> uuid \<Rightarrow> platform_staff app" where
  "api_get_platform_staff limit p sid =
     bind limit (\<lambda>_.
     bind (require_platform_permission PLATFORM_STAFF_MANAGE p) (\<lambda>_.
     get_staff sid))"

definition api_update_platform_staff_role ::
  "externals \<Rightarrow> unit app \<Rightarrow> principal \<Rightarrow> request_meta \<Rightarrow> uuid \<Rightarrow> platform_staff_role \<Rightarrow> string \<Rightarrow>
   platform_staff app" where
  "api_update_platform_staff_role X limit p q sid role reason =
     require_rate_limited_platform_write_context limit PLATFORM_STAFF_MANAGE p (\<lambda>a.
     bind (trim_reason reason) (\<lambda>r.
     change_role X sid a role r (build_audit_context_from_request (usr_id (act_user a)) q)))"

definition api_suspend_platform_staff ::
  "externals \<Rightarrow> unit app \<Rightarrow> principal \<Rightarrow> request_meta \<Rightarrow> uuid \<Rightarrow> string \<Rightarrow> platform_staff app" where
  "api_suspend_platform_staff X limit p q sid reason =
     require_rate_limited_platform_write_context limit PLATFORM_STAFF_MANAGE p (\<lambda>a.
     bind (trim_reason reason) (\<lambda>r.
     suspend_staff X sid a r (build_audit_context_from_request (usr_id (act_user a)) q)))"

definition api_restore_platform_staff ::
  "externals \<Rightarrow> unit app \<Rightarrow> principal \<Rightarrow> request_meta \<Rightarrow> uuid \<Rightarrow> string \<Rightarrow> platform_staff app" where
  "api_restore_platform_staff X limit p q sid reason =
     require_rate_limited_platform_write_context limit PLATFORM_STAFF_MANAGE p (\<lambda>a.
     bind (trim_reason reason) (\<lambda>r.
     restore_staff X sid r (build_audit_context_from_request (usr_id (act_user a)) q)))"

definition api_list_limited_platform_users ::
  "unit app \<Rightarrow> principal \<Rightarrow> nat \<Rightarrow> nat \<Rightarrow> user_status option \<Rightarrow> string option \<Rightarrow>
   (limited_user list \<times> nat) app" where
  "api_list_limited_platform_users limit p l n status s =
     bind limit (\<lambda>_.
     bind (require_platform_permission USERS_READ_LIMITED p) (\<lambda>_.
     bind (validate_search l s) (\<lambda>_.
     bind (list_limited_users l n status s) (\<lambda>(rows, total).
     ret (map limited_user_response rows, total)))))"

definition api_list_platform_users ::
  "unit app \<Rightarrow> principal \<Rightarrow> nat \<Rightarrow> nat \<Rightarrow> user_status option \<Rightarrow> string option \<Rightarrow>
   (user list \<times> nat) app" where
  "api_list_platform_users limit p l n status s =
     bind limit (\<lambda>_.
     bind (require_platform_permission USERS_READ p) (\<lambda>_.
     bind (validate_search l s) (\<lambda>_.
     list_users l n status s)))"

definition api_get_platform_user ::
  "unit app \<Rightarrow> principal \<Rightarrow> uuid \<Rightarrow> user app" where
  "api_get_platform_user limit p uid =
     bind limit (\<lambda>_.
     bind (require_platform_permission USERS_READ p) (\<lambda>_.
     get_platform_user uid))"

definition api_suspend_platform_user ::
  "externals \<Rightarrow> unit app \<Rightarrow> principal \<Rightarrow> request_meta \<Rightarrow> uuid \<Rightarrow> operational_reason_code \<Rightarrow> user app" where
  "api_suspend_platform_user X limit p q uid code =
     require_rate_limited_platform_write_context limit USERS_SUSPEND p (\<lambda>a.
     suspend_user X uid a (reason_code_value code) (build_audit_context_from_request (usr_id (act_user a)) q))"

definition api_restore_platform_user ::
  "externals \<Rightarrow> unit app \<Rightarrow> principal \<Rightarrow> request_meta \<Rightarrow> uuid \<Rightarrow> operational_reason_code \<Rightarrow> user app" where
  "api_restore_platform_user X limit p q uid code =
     require_rate_limited_platform_write_context limit USERS_RESTORE p (\<lambda>a.
     restore_user X uid a (reason_code_value code) (build_audit_context_from_request (usr_id (act_user a)) q))"

definition api_list_limited_platform_organisations ::
  "unit app \<Rightarrow> principal \<Rightarrow> nat \<Rightarrow> nat \<Rightarrow> organisation_status option \<Rightarrow> string option \<Rightarrow>
   (limited_organisation list \<times> nat) app" where
  "api_list_limited_platform_organisations limit p l n status s =
     bind limit (\<lambda>_.
     bind (require_platform_permission ORGANISATIONS_READ_LIMITED p) (\<lambda>_.
     bind (validate_search l s) (\<lambda>_.
     bind (list_limited_organisations l n status s) (\<lambda>(rows, total).
     ret (map limited_organisation_response rows, total)))))"

definition api_list_platform_organisations ::
  "unit app \<Rightarrow> principal \<Rightarrow> nat \<Rightarrow> nat \<Rightarrow> organisation_status option \<Rightarrow> string option \<Rightarrow>
   (organisation list \<times> nat) app" where
  "api_list_platform_organisations limit p l n status s =
     bind limit (\<lambda>_.
     bind (require_platform_permission ORGANISATIONS_READ p) (\<lambda>_.
     bind (validate_search l s) (\<lambda>_.
     list_organisations l n status s)))"

definition api_get_platform_organisation ::
  "unit app \<Rightarrow> principal \<Rightarrow> uuid \<Rightarrow> organisation app" where
  "api_get_platform_organisation limit p oid =
     bind limit (\<lambda>_.
     bind (require_platform_permission ORGANISATIONS_READ p) (\<lambda>_.
     get_platform_organisation oid))"

definition api_suspend_platform_organisation ::
  "externals \<Rightarrow> unit app \<Rightarrow> principal \<Rightarrow> request_meta \<Rightarrow> uuid \<Rightarrow> operational_reason_code \<Rightarrow>
   organisation app" where
  "api_suspend_platform_organisation X limit p q oid code =
     require_rate_limited_platform_write_context limit ORGANISATIONS_SUSPEND p (\<lambda>a.
     suspend_organisation X oid a (reason_code_value code) (build_audit_context_from_request (usr_id (act_user a)) q))"

definition api_restore_platform_organisation ::
  "externals \<Rightarrow> unit app \<Rightarrow> principal \<Rightarrow> request_meta \<Rightarrow> uuid \<Rightarrow> operational_reason_code \<Rightarrow>
   organisation app" where
  "api_restore_platform_organisation X limit p q oid code =
     require_rate_limited_platform_write_context limit ORGANISATIONS_RESTORE p (\<lambda>a.
     restore_organisation X oid a (reason_code_value code) (build_audit_context_from_request (usr_id (act_user a)) q))"

definition api_patch_platform_organisation ::
  "externals \<Rightarrow> unit app \<Rightarrow> principal \<Rightarrow> request_meta \<Rightarrow> uuid \<Rightarrow> string option \<Rightarrow> string option \<Rightarrow>
   operational_reason_code \<Rightarrow> organisation app" where
  "api_patch_platform_organisation X limit p q oid name slug code =
     require_rate_limited_platform_write_context limit ORGANISATIONS_CORRECT_PROFILE p (\<lambda>a.
     bind (lift (update_organisation_request name slug)) (\<lambda>(n, s).
     correct_organisation_profile X oid a n s (reason_code_value code)
       (build_audit_context_from_request (usr_id (act_user a)) q)))"

definition api_list_platform_audit_events ::
  "unit app \<Rightarrow> principal \<Rightarrow> nat \<Rightarrow> nat \<Rightarrow> audit_category option \<Rightarrow> audit_action option \<Rightarrow>
   audit_target_type option \<Rightarrow> uuid option \<Rightarrow> (audit_event list \<times> nat) app" where
  "api_list_platform_audit_events limit p l n c action ttype tid =
     bind limit (\<lambda>_.
     bind (require_platform_permission AUDIT_READ p) (\<lambda>_.
     bind (validate_pagination l) (\<lambda>_.
     audit_list_events l n c action ttype tid)))"

definition api_list_limited_platform_audit_events ::
  "unit app \<Rightarrow> principal \<Rightarrow> nat \<Rightarrow> nat \<Rightarrow> audit_category option \<Rightarrow> audit_action option \<Rightarrow>
   audit_target_type option \<Rightarrow> uuid option \<Rightarrow> (limited_audit_event list \<times> nat) app" where
  "api_list_limited_platform_audit_events limit p l n c action ttype tid =
     bind limit (\<lambda>_.
     bind (require_platform_permission AUDIT_READ_LIMITED p) (\<lambda>_.
     bind (validate_pagination l) (\<lambda>_.
     bind (audit_list_events l n c action ttype tid) (\<lambda>(rows, total).
     ret (map limited_audit_event_response rows, total)))))"

definition api_get_platform_identity ::
  "unit app \<Rightarrow> principal \<Rightarrow> platform_actor app" where
  "api_get_platform_identity limit p =
     bind limit (\<lambda>_. resolve_active_platform_actor p)"

datatype platform_request =
    ListStaff nat nat "platform_staff_status option" "platform_staff_role option"
  | CreateStaff uuid platform_staff_role string
  | GetStaff uuid
  | UpdateStaffRole uuid platform_staff_role string
  | SuspendStaff uuid string
  | RestoreStaff uuid string
  | ListLimitedUsers nat nat "user_status option" "string option"
  | ListUsers nat nat "user_status option" "string option"
  | GetPlatformUser uuid
  | SuspendUser uuid operational_reason_code
  | RestoreUser uuid operational_reason_code
  | ListLimitedOrganisations nat nat "organisation_status option" "string option"
  | ListOrganisations nat nat "organisation_status option" "string option"
  | GetPlatformOrganisation uuid
  | SuspendOrganisation uuid operational_reason_code
  | RestoreOrganisation uuid operational_reason_code
  | PatchOrganisation uuid "string option" "string option" operational_reason_code
  | ListAuditEvents nat nat "audit_category option" "audit_action option" "audit_target_type option" "uuid option"
  | ListLimitedAuditEvents nat nat "audit_category option" "audit_action option" "audit_target_type option" "uuid option"
  | GetPlatformIdentity

text \<open>
  The router: \<open>limit\<close> is the rate limit of the endpoint, and a request carries the identity and
  what the audit context takes from it.
\<close>

fun platform_dispatch ::
  "externals \<Rightarrow> unit app \<Rightarrow> principal \<Rightarrow> request_meta \<Rightarrow> platform_request \<Rightarrow> unit app" where
  "platform_dispatch X limit p q (ListStaff l n status role) =
     discard (api_list_platform_staff limit p l n status role)"
| "platform_dispatch X limit p q (CreateStaff uid role reason) =
     discard (api_create_platform_staff X limit p q uid role reason)"
| "platform_dispatch X limit p q (GetStaff sid) =
     discard (api_get_platform_staff limit p sid)"
| "platform_dispatch X limit p q (UpdateStaffRole sid role reason) =
     discard (api_update_platform_staff_role X limit p q sid role reason)"
| "platform_dispatch X limit p q (SuspendStaff sid reason) =
     discard (api_suspend_platform_staff X limit p q sid reason)"
| "platform_dispatch X limit p q (RestoreStaff sid reason) =
     discard (api_restore_platform_staff X limit p q sid reason)"
| "platform_dispatch X limit p q (ListLimitedUsers l n status s) =
     discard (api_list_limited_platform_users limit p l n status s)"
| "platform_dispatch X limit p q (ListUsers l n status s) =
     discard (api_list_platform_users limit p l n status s)"
| "platform_dispatch X limit p q (GetPlatformUser uid) =
     discard (api_get_platform_user limit p uid)"
| "platform_dispatch X limit p q (SuspendUser uid code) =
     discard (api_suspend_platform_user X limit p q uid code)"
| "platform_dispatch X limit p q (RestoreUser uid code) =
     discard (api_restore_platform_user X limit p q uid code)"
| "platform_dispatch X limit p q (ListLimitedOrganisations l n status s) =
     discard (api_list_limited_platform_organisations limit p l n status s)"
| "platform_dispatch X limit p q (ListOrganisations l n status s) =
     discard (api_list_platform_organisations limit p l n status s)"
| "platform_dispatch X limit p q (GetPlatformOrganisation oid) =
     discard (api_get_platform_organisation limit p oid)"
| "platform_dispatch X limit p q (SuspendOrganisation oid code) =
     discard (api_suspend_platform_organisation X limit p q oid code)"
| "platform_dispatch X limit p q (RestoreOrganisation oid code) =
     discard (api_restore_platform_organisation X limit p q oid code)"
| "platform_dispatch X limit p q (PatchOrganisation oid name slug code) =
     discard (api_patch_platform_organisation X limit p q oid name slug code)"
| "platform_dispatch X limit p q (ListAuditEvents l n c action ttype tid) =
     discard (api_list_platform_audit_events limit p l n c action ttype tid)"
| "platform_dispatch X limit p q (ListLimitedAuditEvents l n c action ttype tid) =
     discard (api_list_limited_platform_audit_events limit p l n c action ttype tid)"
| "platform_dispatch X limit p q GetPlatformIdentity =
     discard (api_get_platform_identity limit p)"


subsection \<open>Every request keeps the invariant and an administrator\<close>

text \<open>The platform is governed when some administrator can act.\<close>

definition governed :: "db \<Rightarrow> bool" where
  "governed d \<longleftrightarrow> saas_inv d \<and> (\<exists>a. effective_admin d a)"

lemma governedD: "governed d \<Longrightarrow> saas_inv d" "governed d \<Longrightarrow> \<exists>a. effective_admin d a"
  by (simp_all add: governed_def)

text \<open>
  Whoever may write is an administrator who can act; here and below the identity provider is relied
  on not to issue the subject of an erased account to anybody.
\<close>

lemma writer_is_effective_admin:
  assumes "integrity (db w)" and "permission \<in> write_permissions" and "\<not> tombstone_subject (idn_external_auth_id p)"
    and "resolve_platform_actor p permission w = (Inr a, w')"
  shows "w' = w \<and> effective_admin (db w) (usr_id (act_user a))"
proof -
  from assms(4) obtain u s role where role: "permission \<in> set (role_permissions role)"
    and acts: "staff_acts (db w) p u s role" and a: "act_user a = u" and w: "w' = w"
    unfolding resolve_platform_actor_run [OF assms(1)] by auto
  from role assms(2) have "role = PLATFORM_ADMIN" by (simp add: writers_are_admins)
  with acts a w assms(3) show ?thesis
    by (auto simp: effective_admin_def staff_acts_def active_platform_admin_def list_ex_iff)
qed

text \<open>A write whose handler keeps the invariant and its actor an administrator.\<close>

definition fair_handler :: "(platform_actor \<Rightarrow> 'a app) \<Rightarrow> bool" where
  "fair_handler h \<longleftrightarrow> (\<forall>a. commits saas_inv (h a)) \<and>
     (\<forall>a w x w'. integrity (db w) \<longrightarrow> effective_admin (db w) (usr_id (act_user a)) \<longrightarrow>
       h a w = (Inr x, w') \<longrightarrow> effective_admin (db w') (usr_id (act_user a)))"

lemma fair_handler_bind:
  assumes "leaves_db m" and "\<And>y. fair_handler (\<lambda>a. h a y)"
  shows "fair_handler (\<lambda>a. bind m (h a))"
  unfolding fair_handler_def
proof (intro conjI allI impI)
  show "commits saas_inv (bind m (h a))" for a
    using assms(2) by (intro commits_bind keeps_commits [OF leaves_db_keeps [OF assms(1)]]) (auto simp: fair_handler_def)
  fix a w x w'
  assume I: "integrity (db w)" and adm: "effective_admin (db w) (usr_id (act_user a))"
    and "bind m (h a) w = (Inr x, w')"
  then obtain y w1 where m: "m w = (Inr y, w1)" and h: "h a y w1 = (Inr x, w')" by (auto simp: bind_Inr)
  have "effective_admin (db w1) (usr_id (act_user a))" "integrity (db w1)"
    using leaves_dbD [OF assms(1) m] I adm by simp_all
  with h assms(2) [of y] show "effective_admin (db w') (usr_id (act_user a))"
    unfolding fair_handler_def by blast
qed

lemma fair_handler_case_prod:
  "(\<And>n s. fair_handler (\<lambda>a. h a n s)) \<Longrightarrow> fair_handler (\<lambda>a. case y of (n, s) \<Rightarrow> h a n s)"
  by (cases y) simp

lemma fair_handler_mono:
  assumes "\<And>a. keeps saas_inv (h a)" and "\<And>a i. keeps (\<lambda>d. effective_admin d i) (h a)"
  shows "fair_handler h"
  using assms(1) maintainsD [OF assms(2)] by (auto simp: fair_handler_def intro: keeps_commits)

lemma commits_saas_write:
  assumes "\<And>a. commits saas_inv (h a)"
  shows "commits saas_inv (bind (resolve_platform_actor p permission) h)"
proof (rule commitsI)
  fix w x w'
  assume inv: "saas_inv (db w)" and "bind (resolve_platform_actor p permission) h w = (Inr x, w')"
  then obtain a w1 where a: "resolve_platform_actor p permission w = (Inr a, w1)" and h: "h a w1 = (Inr x, w')"
    by (auto simp: bind_Inr)
  from a have "w1 = w" unfolding resolve_platform_actor_run [OF saas_invD(1) [OF inv]] by simp
  with h inv assms [of a] show "saas_inv (db w')" by (auto simp: commits_def)
qed

lemma commits_governed_write:
  assumes "permission \<in> write_permissions" and "fair_handler h" and "\<not> tombstone_subject (idn_external_auth_id p)"
  shows "commits governed (bind (resolve_platform_actor p permission) h)"
proof (rule commitsI)
  fix w x w'
  assume gov: "governed (db w)" and run: "bind (resolve_platform_actor p permission) h w = (Inr x, w')"
  note inv = governedD(1) [OF gov] and I = saas_invD(1) [OF governedD(1) [OF gov]]
  from run obtain a w1 where a: "resolve_platform_actor p permission w = (Inr a, w1)"
    and h: "h a w1 = (Inr x, w')" by (auto simp: bind_Inr)
  from writer_is_effective_admin [OF I assms(1,3) a] have "w1 = w" "effective_admin (db w) (usr_id (act_user a))"
    by simp_all
  with h assms(2) inv I have "saas_inv (db w')" "effective_admin (db w') (usr_id (act_user a))"
    by (auto simp: fair_handler_def commits_def)
  then show "governed (db w')" by (auto simp: governed_def)
qed

lemma governed_write:
  assumes "leaves_db limit" and "permission \<in> write_permissions" and "fair_handler h"
  shows "\<not> tombstone_subject (idn_external_auth_id p) \<Longrightarrow>
      maintains (idle governed) (require_rate_limited_platform_write_context limit permission p h)"
    and "safe (require_rate_limited_platform_write_context limit permission p h)"
proof -
  have "commits saas_inv (h a)" for a using assms(3) by (simp add: fair_handler_def)
  note commit = commits_saas_write [OF this]
  show "maintains (idle governed) (require_rate_limited_platform_write_context limit permission p h)"
    if "\<not> tombstone_subject (idn_external_auth_id p)"
    unfolding require_rate_limited_platform_write_context_def
    by (intro maintains_bind idle_leaves_db [OF assms(1)] idle_session_begin commits_governed_write [OF assms(2,3) that])
  show "safe (require_rate_limited_platform_write_context limit permission p h)"
    unfolding require_rate_limited_platform_write_context_def
    by (intro maintains_bind idle_leaves_db [OF assms(1)] idle_session_begin commit)
qed

lemma fair_handlers:
  "fair_handler (\<lambda>a. create_staff X a uid role reason (f a))"
  "fair_handler (\<lambda>a. restore_staff X sid reason (f a))"
  "fair_handler (\<lambda>a. restore_user X uid a reason (f a))"
  "fair_handler (\<lambda>a. suspend_organisation X oid a reason (f a))"
  "fair_handler (\<lambda>a. restore_organisation X oid a reason (f a))"
  "fair_handler (\<lambda>a. correct_organisation_profile X oid a name slug reason (f a))"
  by (intro fair_handler_mono keeps_saas_platform keeps_admin_platform)+

lemma fair_handlers_taking:
  "fair_handler (\<lambda>a. change_role X sid a role reason (f a))"
  "fair_handler (\<lambda>a. suspend_staff X sid a reason (f a))"
  "fair_handler (\<lambda>a. suspend_user X uid a reason (f a))"
  unfolding fair_handler_def
  by (intro conjI allI impI keeps_commits [OF keeps_saas_platform(2)] keeps_commits [OF keeps_saas_platform(3)]
      keeps_commits [OF keeps_saas_platform(5)]; erule (2) actor_stays_admin)+

lemma leaves_db_trim_reason: "leaves_db (trim_reason r)"
  and leaves_db_validate: "leaves_db (validate_pagination n)" "leaves_db (validate_search n q)"
  unfolding trim_reason_def validate_search_def validate_pagination_def
  by (intro leaves_db_rules)+

lemma write_permissions_of_endpoints:
  "PLATFORM_STAFF_MANAGE \<in> write_permissions" "USERS_SUSPEND \<in> write_permissions" "USERS_RESTORE \<in> write_permissions"
  "ORGANISATIONS_SUSPEND \<in> write_permissions" "ORGANISATIONS_RESTORE \<in> write_permissions"
  "ORGANISATIONS_CORRECT_PROFILE \<in> write_permissions"
  by (simp_all add: write_permissions_def)

text \<open>The endpoints that read leave the database alone.\<close>

lemma leaves_db_platform_reads:
  "leaves_db (resolve_active_platform_actor p)" "leaves_db (require_platform_permission permission p)"
  "leaves_db (service_list_staff l n status role)" "leaves_db (get_staff sid)"
  "leaves_db (list_limited_users l n ustatus s)" "leaves_db (list_users l n ustatus s)"
  "leaves_db (get_platform_user uid)" "leaves_db (list_limited_organisations l n ostatus s)"
  "leaves_db (list_organisations l n ostatus s)" "leaves_db (get_platform_organisation oid)"
  "leaves_db (audit_list_events l n c action ttype tid)"
  unfolding resolve_active_platform_actor_def require_platform_permission_def resolve_platform_actor_def
    access_denied_def get_current_user_by_external_auth_id_def user_get_by_external_auth_id_def
    staff_get_by_user_id_def service_list_staff_def staff_list_def get_staff_def staff_get_by_id_def
    list_limited_users_def user_list_limited_paginated_def list_users_def user_list_paginated_def
    get_platform_user_def user_get_by_id_def list_limited_organisations_def organisation_list_limited_paginated_def
    list_organisations_def organisation_list_paginated_def get_platform_organisation_def
    organisation_get_by_id_def audit_list_events_def Let_def
  by (intro leaves_db_rules)+

lemma leaves_db_case_prod: "(\<And>a b. leaves_db (f a b)) \<Longrightarrow> leaves_db (case x of (a, b) \<Rightarrow> f a b)"
  by (cases x) simp

definition platform_reads :: "platform_request \<Rightarrow> bool" where
  "platform_reads r = (case r of ListStaff _ _ _ _ \<Rightarrow> True | GetStaff _ \<Rightarrow> True | ListLimitedUsers _ _ _ _ \<Rightarrow> True
     | ListUsers _ _ _ _ \<Rightarrow> True | GetPlatformUser _ \<Rightarrow> True | ListLimitedOrganisations _ _ _ _ \<Rightarrow> True
     | ListOrganisations _ _ _ _ \<Rightarrow> True | GetPlatformOrganisation _ \<Rightarrow> True | ListAuditEvents _ _ _ _ _ _ \<Rightarrow> True
     | ListLimitedAuditEvents _ _ _ _ _ _ \<Rightarrow> True | GetPlatformIdentity \<Rightarrow> True | _ \<Rightarrow> False)"

lemmas platform_api_read_defs =
  api_list_platform_staff_def api_get_platform_staff_def api_list_limited_platform_users_def
  api_list_platform_users_def api_get_platform_user_def api_list_limited_platform_organisations_def
  api_list_platform_organisations_def api_get_platform_organisation_def api_list_platform_audit_events_def
  api_list_limited_platform_audit_events_def api_get_platform_identity_def

lemma leaves_db_platform_dispatch:
  "leaves_db limit \<Longrightarrow> platform_reads r \<Longrightarrow> leaves_db (platform_dispatch X limit p q r)"
  by (cases r; simp add: platform_reads_def discard_def platform_api_read_defs;
      (intro leaves_db_bind leaves_db_ret leaves_db_validate leaves_db_platform_reads leaves_db_case_prod; assumption?))

lemmas platform_api_write_defs =
  api_create_platform_staff_def api_update_platform_staff_role_def api_suspend_platform_staff_def
  api_restore_platform_staff_def api_suspend_platform_user_def api_restore_platform_user_def
  api_suspend_platform_organisation_def api_restore_platform_organisation_def api_patch_platform_organisation_def

lemma governed_platform_dispatch:
  assumes "leaves_db limit"
  shows "\<not> tombstone_subject (idn_external_auth_id p) \<Longrightarrow> maintains (idle governed) (platform_dispatch X limit p q r)"
    and "safe (platform_dispatch X limit p q r)"
proof -
  note rules = maintains_bind maintains_ret write_permissions_of_endpoints
    fair_handler_bind fair_handler_case_prod leaves_db_trim_reason leaves_db_lift fair_handlers fair_handlers_taking
  show "maintains (idle governed) (platform_dispatch X limit p q r)" if "\<not> tombstone_subject (idn_external_auth_id p)"
    using that idle_leaves_db [OF leaves_db_platform_dispatch [OF assms, of r X p q], of governed]
    by (cases r) (simp_all only: platform_reads_def platform_request.case, simp_all only: platform_dispatch.simps discard_def
        platform_api_write_defs, (intro governed_write(1) [OF assms _ _ that] rules)+)
  show "safe (platform_dispatch X limit p q r)"
    using idle_leaves_db [OF leaves_db_platform_dispatch [OF assms, of r X p q], of saas_inv]
    by (cases r) (simp_all only: platform_reads_def platform_request.case, simp_all only: platform_dispatch.simps discard_def
        platform_api_write_defs, (intro governed_write(2) [OF assms] rules)+)
qed

end
