(* ===== verification/Privacy_API.thy ===== *)
theory Privacy_API
  imports Erasure Platform_API
begin

section \<open>The privacy endpoints\<close>

text \<open>
  \<^verbatim>\<open>privacy/api/\<close> with \<^verbatim>\<open>privacy/schemas/\<close>: the requests of a data subject, the work of the
  staff on them, and the exports. As in the other endpoints, the rate limiter and the actor of a
  request come before its body is checked; the limit of the download of an artifact comes after the
  artifact was found.
\<close>

subsection \<open>Bodies\<close>

record create_dsr_body =
  cdb_request_type :: dsr_type
  cdb_requester_note :: "string option"
  cdb_subject :: "uuid option"
  cdb_requester_role :: dsr_requester_role
  cdb_relationship :: "string option"
  cdb_authority_note :: "string option"

definition normalise_body_text :: "string option \<Rightarrow> string option" where
  "normalise_body_text value = (case value of None \<Rightarrow> None | Some s \<Rightarrow> if strip s = [] then None else Some (strip s))"

definition at_most :: "nat \<Rightarrow> string option \<Rightarrow> bool" where
  "at_most n value = (case value of None \<Rightarrow> True | Some s \<Rightarrow> length s \<le> n)"

definition validate_representative_payload :: "create_dsr_body \<Rightarrow> app_error + create_dsr_body" where
  "validate_representative_payload b =
     (if cdb_requester_role b = REQUESTER_SELF then
        (if cdb_subject b \<noteq> None then Inl (ValueError ''subject_user_id is only allowed for representative requests'')
         else if cdb_relationship b \<noteq> None
         then Inl (ValueError ''representative_relationship is only allowed for representative requests'')
         else if cdb_authority_note b \<noteq> None
         then Inl (ValueError ''representative_authority_note is only allowed for representative requests'')
         else Inr b)
      else if cdb_subject b = None then Inl (ValueError ''subject_user_id is required for representative requests'')
      else if cdb_relationship b = None
      then Inl (ValueError ''representative_relationship is required for representative requests'')
      else if cdb_authority_note b = None
      then Inl (ValueError ''representative_authority_note is required for representative requests'')
      else Inr b)"

text \<open>The texts are trimmed before their length is checked.\<close>

definition create_data_subject_request :: "create_dsr_body \<Rightarrow> app_error + create_dsr_body" where
  "create_data_subject_request b =
     (let b' = b\<lparr>cdb_requester_note := normalise_body_text (cdb_requester_note b),
                 cdb_relationship := normalise_body_text (cdb_relationship b),
                 cdb_authority_note := normalise_body_text (cdb_authority_note b)\<rparr>
      in if at_most 2000 (cdb_requester_note b') \<and> at_most 64 (cdb_relationship b') \<and> at_most 2000 (cdb_authority_note b')
         then validate_representative_payload b'
         else Inl (ValueError ''String should have at most max_length characters''))"

text \<open>A body without fields, and one with a reason code, which may be missing or not.\<close>

definition empty_body :: "(string \<times> json) list \<Rightarrow> unit app" where
  "empty_body body = ensure (body = []) (ValueError ''Extra inputs are not permitted'')"

definition optional_reason :: "(string \<times> json) list \<Rightarrow> string option app" where
  "optional_reason body = bind (lift (reason_request False body)) (\<lambda>c. ret (map_option reason_code_value c))"

definition required_reason :: "(string \<times> json) list \<Rightarrow> string app" where
  "required_reason body =
     bind (lift (reason_request True body)) (\<lambda>c.
     case c of Some code \<Rightarrow> ret (reason_code_value code) | None \<Rightarrow> raise (ValueError ''Field required''))"

subsection \<open>Responses\<close>

record own_dsr_response =
  odr_id :: uuid
  odr_request_type :: dsr_type
  odr_status :: dsr_status
  odr_execution_status :: dsr_execution_status
  odr_execution_started_at :: "int option"
  odr_execution_completed_at :: "int option"
  odr_execution_failed_at :: "int option"
  odr_execution_failure_reason_code :: "string option"
  odr_requester_user_id :: "uuid option"
  odr_subject_user_id :: "uuid option"
  odr_requester_role :: dsr_requester_role
  odr_representative_status :: dsr_representative_status
  odr_submitted_at :: int
  odr_acknowledged_at :: "int option"
  odr_reviewed_at :: "int option"
  odr_decided_at :: "int option"
  odr_fulfilled_at :: "int option"
  odr_cancelled_at :: "int option"
  odr_due_at :: int
  odr_extended_until :: "int option"
  odr_decision_reason_code :: "string option"
  odr_rejection_reason_code :: "string option"
  odr_extension_reason_code :: "string option"
  odr_created_at :: int
  odr_updated_at :: int

definition own_dsr_of :: "data_subject_request \<Rightarrow> own_dsr_response" where
  "own_dsr_of r = \<lparr>
    odr_id = dsr_id r, odr_request_type = dsr_request_type r, odr_status = dsr_status r,
    odr_execution_status = dsr_execution_status r, odr_execution_started_at = dsr_execution_started_at r,
    odr_execution_completed_at = dsr_execution_completed_at r, odr_execution_failed_at = dsr_execution_failed_at r,
    odr_execution_failure_reason_code = dsr_execution_failure_reason r, odr_requester_user_id = dsr_requester r,
    odr_subject_user_id = dsr_subject r, odr_requester_role = dsr_requester_role r,
    odr_representative_status = dsr_representative_status r, odr_submitted_at = dsr_submitted_at r,
    odr_acknowledged_at = dsr_acknowledged_at r, odr_reviewed_at = dsr_reviewed_at r, odr_decided_at = dsr_decided_at r,
    odr_fulfilled_at = dsr_fulfilled_at r, odr_cancelled_at = dsr_cancelled_at r, odr_due_at = dsr_due_at r,
    odr_extended_until = dsr_extended_until r, odr_decision_reason_code = dsr_decision_reason r,
    odr_rejection_reason_code = dsr_rejection_reason r, odr_extension_reason_code = dsr_extension_reason r,
    odr_created_at = dsr_created_at r, odr_updated_at = dsr_updated_at r\<rparr>"

record platform_dsr_response =
  pdr_id :: uuid
  pdr_request_type :: dsr_type
  pdr_status :: dsr_status
  pdr_execution_status :: dsr_execution_status
  pdr_execution_started_at :: "int option"
  pdr_execution_completed_at :: "int option"
  pdr_execution_failed_at :: "int option"
  pdr_execution_failure_reason_code :: "string option"
  pdr_requester_user_id :: "uuid option"
  pdr_subject_user_id :: "uuid option"
  pdr_reviewer_user_id :: "uuid option"
  pdr_requester_role :: dsr_requester_role
  pdr_representative_status :: dsr_representative_status
  pdr_representative_relationship :: "string option"
  pdr_representative_authority_note :: "string option"
  pdr_representative_verified_at :: "int option"
  pdr_representative_verified_by_user_id :: "uuid option"
  pdr_representative_rejection_reason_code :: "string option"
  pdr_requester_note :: "string option"
  pdr_submitted_at :: int
  pdr_acknowledged_at :: "int option"
  pdr_reviewed_at :: "int option"
  pdr_decided_at :: "int option"
  pdr_fulfilled_at :: "int option"
  pdr_cancelled_at :: "int option"
  pdr_due_at :: int
  pdr_extended_until :: "int option"
  pdr_decision_reason_code :: "string option"
  pdr_rejection_reason_code :: "string option"
  pdr_extension_reason_code :: "string option"
  pdr_created_at :: int
  pdr_updated_at :: int

definition platform_dsr_of :: "data_subject_request \<Rightarrow> platform_dsr_response" where
  "platform_dsr_of r = \<lparr>
    pdr_id = dsr_id r, pdr_request_type = dsr_request_type r, pdr_status = dsr_status r,
    pdr_execution_status = dsr_execution_status r, pdr_execution_started_at = dsr_execution_started_at r,
    pdr_execution_completed_at = dsr_execution_completed_at r, pdr_execution_failed_at = dsr_execution_failed_at r,
    pdr_execution_failure_reason_code = dsr_execution_failure_reason r, pdr_requester_user_id = dsr_requester r,
    pdr_subject_user_id = dsr_subject r, pdr_reviewer_user_id = dsr_reviewer r, pdr_requester_role = dsr_requester_role r,
    pdr_representative_status = dsr_representative_status r,
    pdr_representative_relationship = dsr_representative_relationship r,
    pdr_representative_authority_note = dsr_representative_authority_note r,
    pdr_representative_verified_at = dsr_representative_verified_at r,
    pdr_representative_verified_by_user_id = dsr_representative_verified_by r,
    pdr_representative_rejection_reason_code = dsr_representative_rejection_reason r,
    pdr_requester_note = dsr_requester_note r, pdr_submitted_at = dsr_submitted_at r,
    pdr_acknowledged_at = dsr_acknowledged_at r, pdr_reviewed_at = dsr_reviewed_at r, pdr_decided_at = dsr_decided_at r,
    pdr_fulfilled_at = dsr_fulfilled_at r, pdr_cancelled_at = dsr_cancelled_at r, pdr_due_at = dsr_due_at r,
    pdr_extended_until = dsr_extended_until r, pdr_decision_reason_code = dsr_decision_reason r,
    pdr_rejection_reason_code = dsr_rejection_reason r, pdr_extension_reason_code = dsr_extension_reason r,
    pdr_created_at = dsr_created_at r, pdr_updated_at = dsr_updated_at r\<rparr>"

record artifact_response =
  arr_id :: uuid
  arr_data_subject_request_id :: uuid
  arr_status :: string
  arr_format :: string
  arr_content_type :: "string option"
  arr_size_bytes :: "int option"
  arr_checksum_sha256 :: "string option"
  arr_created_at :: int
  arr_queued_at :: int
  arr_started_at :: "int option"
  arr_completed_at :: "int option"
  arr_failed_at :: "int option"
  arr_expires_at :: int
  arr_download_url_issued_at :: "int option"
  arr_download_url_issue_count :: int
  arr_downloaded_at :: "int option"
  arr_download_count :: int

definition artifact_of :: "export_artifact \<Rightarrow> artifact_response" where
  "artifact_of a = \<lparr>
    arr_id = art_id a, arr_data_subject_request_id = art_dsr_id a, arr_status = artifact_status_value (art_status a),
    arr_format = ''json_zip'', arr_content_type = art_content_type a, arr_size_bytes = art_size_bytes a,
    arr_checksum_sha256 = art_checksum_sha256 a, arr_created_at = art_created_at a, arr_queued_at = art_queued_at a,
    arr_started_at = art_started_at a, arr_completed_at = art_completed_at a, arr_failed_at = art_failed_at a,
    arr_expires_at = art_expires_at a, arr_download_url_issued_at = art_url_issued_at a,
    arr_download_url_issue_count = art_url_issue_count a, arr_downloaded_at = art_downloaded_at a,
    arr_download_count = art_download_count a\<rparr>"

subsection \<open>A data subject's requests\<close>

text \<open>
  The handlers read \<open>user.id\<close> of what \<open>get_current_user_by_external_auth_id\<close> returns, which is
  \<open>None\<close> for somebody without a local account.
\<close>

definition current_user_id :: "principal \<Rightarrow> uuid app" where
  "current_user_id p =
     bind (get_current_user_by_external_auth_id p) (\<lambda>found.
     case found of
       Some u \<Rightarrow> ret (usr_id u)
     | None \<Rightarrow> raise (AttributeError ''NoneType object has no attribute id''))"

definition api_submit_data_subject_request ::
  "externals \<Rightarrow> unit app \<Rightarrow> principal \<Rightarrow> request_meta \<Rightarrow> create_dsr_body \<Rightarrow> string option \<Rightarrow> own_dsr_response app" where
  "api_submit_data_subject_request X limit p q body key =
     bind limit (\<lambda>_.
     bind (lift (create_data_subject_request body)) (\<lambda>b.
     bind (session_begin (
       bind (current_user_id p) (\<lambda>u.
       submit_request X u \<lparr>sub_request_type = dsr_type_value (cdb_request_type b), sub_note = cdb_requester_note b,
         sub_subject = cdb_subject b, sub_role = requester_role_value (cdb_requester_role b),
         sub_relationship = cdb_relationship b, sub_authority_note = cdb_authority_note b, sub_key = key\<rparr> None
         (build_audit_context_from_request u q)))) (\<lambda>r.
     ret (own_dsr_of r))))"

definition api_list_own_data_subject_requests ::
  "unit app \<Rightarrow> principal \<Rightarrow> nat \<Rightarrow> nat \<Rightarrow> dsr_status option \<Rightarrow> dsr_type option \<Rightarrow> (own_dsr_response list \<times> nat) app" where
  "api_list_own_data_subject_requests limit p l n status rtype =
     bind limit (\<lambda>_.
     bind (validate_pagination l) (\<lambda>_.
     bind (current_user_id p) (\<lambda>u.
     bind (list_own_requests u l n status rtype) (\<lambda>(rows, total).
     ret (map own_dsr_of rows, total)))))"

definition api_get_own_data_subject_request :: "unit app \<Rightarrow> principal \<Rightarrow> uuid \<Rightarrow> own_dsr_response app" where
  "api_get_own_data_subject_request limit p i =
     bind limit (\<lambda>_.
     bind (current_user_id p) (\<lambda>u.
     bind (get_own_request u i) (\<lambda>r. ret (own_dsr_of r))))"

definition api_cancel_own_data_subject_request ::
  "externals \<Rightarrow> unit app \<Rightarrow> principal \<Rightarrow> request_meta \<Rightarrow> uuid \<Rightarrow> own_dsr_response app" where
  "api_cancel_own_data_subject_request X limit p q i =
     bind limit (\<lambda>_.
     bind (session_begin (
       bind (current_user_id p) (\<lambda>u.
       cancel_own_request X u i (build_audit_context_from_request u q)))) (\<lambda>r.
     ret (own_dsr_of r)))"

subsection \<open>The staff's work on requests\<close>

definition api_list_platform_data_subject_requests ::
  "unit app \<Rightarrow> principal \<Rightarrow> nat \<Rightarrow> nat \<Rightarrow> dsr_filters \<Rightarrow> (platform_dsr_response list \<times> nat) app" where
  "api_list_platform_data_subject_requests limit p l n f =
     bind limit (\<lambda>_.
     bind (require_platform_permission PRIVACY_REQUESTS_READ p) (\<lambda>_.
     bind (validate_pagination l) (\<lambda>_.
     bind (list_platform_requests l n f) (\<lambda>(rows, total).
     ret (map platform_dsr_of rows, total)))))"

definition api_get_platform_data_subject_request :: "unit app \<Rightarrow> principal \<Rightarrow> uuid \<Rightarrow> platform_dsr_response app" where
  "api_get_platform_data_subject_request limit p i =
     bind limit (\<lambda>_.
     bind (require_platform_permission PRIVACY_REQUESTS_READ p) (\<lambda>_.
     bind (get_platform_request i) (\<lambda>r. ret (platform_dsr_of r))))"

definition api_verify_representative_authority ::
  "externals \<Rightarrow> unit app \<Rightarrow> principal \<Rightarrow> request_meta \<Rightarrow> uuid \<Rightarrow> (string \<times> json) list \<Rightarrow> platform_dsr_response app" where
  "api_verify_representative_authority X limit p q i body =
     require_rate_limited_platform_write_context limit PRIVACY_REQUESTS_REVIEW p (\<lambda>a.
     bind (optional_reason body) (\<lambda>code.
     bind (verify_representative_authority X i (usr_id (act_user a)) code None
       (build_audit_context_from_request (usr_id (act_user a)) q)) (\<lambda>r.
     ret (platform_dsr_of r))))"

definition api_reject_representative_authority ::
  "externals \<Rightarrow> unit app \<Rightarrow> principal \<Rightarrow> request_meta \<Rightarrow> uuid \<Rightarrow> (string \<times> json) list \<Rightarrow> platform_dsr_response app" where
  "api_reject_representative_authority X limit p q i body =
     require_rate_limited_platform_write_context limit PRIVACY_REQUESTS_REVIEW p (\<lambda>a.
     bind (required_reason body) (\<lambda>code.
     bind (reject_representative_authority X i code (build_audit_context_from_request (usr_id (act_user a)) q)) (\<lambda>r.
     ret (platform_dsr_of r))))"

definition api_review_data_subject_request ::
  "externals \<Rightarrow> unit app \<Rightarrow> principal \<Rightarrow> request_meta \<Rightarrow> uuid \<Rightarrow> (string \<times> json) list \<Rightarrow> platform_dsr_response app" where
  "api_review_data_subject_request X limit p q i body =
     require_rate_limited_platform_write_context limit PRIVACY_REQUESTS_REVIEW p (\<lambda>a.
     bind (empty_body body) (\<lambda>_.
     bind (mark_under_review X i (usr_id (act_user a)) (build_audit_context_from_request (usr_id (act_user a)) q)) (\<lambda>r.
     ret (platform_dsr_of r))))"

definition api_approve_data_subject_request ::
  "externals \<Rightarrow> unit app \<Rightarrow> principal \<Rightarrow> request_meta \<Rightarrow> uuid \<Rightarrow> (string \<times> json) list \<Rightarrow> platform_dsr_response app" where
  "api_approve_data_subject_request X limit p q i body =
     require_rate_limited_platform_write_context limit PRIVACY_REQUESTS_REVIEW p (\<lambda>a.
     bind (optional_reason body) (\<lambda>code.
     bind (approve_request X i (usr_id (act_user a)) code (build_audit_context_from_request (usr_id (act_user a)) q)) (\<lambda>r.
     ret (platform_dsr_of r))))"

definition api_reject_data_subject_request ::
  "externals \<Rightarrow> unit app \<Rightarrow> principal \<Rightarrow> request_meta \<Rightarrow> uuid \<Rightarrow> (string \<times> json) list \<Rightarrow> platform_dsr_response app" where
  "api_reject_data_subject_request X limit p q i body =
     require_rate_limited_platform_write_context limit PRIVACY_REQUESTS_REVIEW p (\<lambda>a.
     bind (required_reason body) (\<lambda>code.
     bind (reject_request X i (usr_id (act_user a)) code (build_audit_context_from_request (usr_id (act_user a)) q)) (\<lambda>r.
     ret (platform_dsr_of r))))"

definition api_cancel_platform_data_subject_request ::
  "externals \<Rightarrow> unit app \<Rightarrow> principal \<Rightarrow> request_meta \<Rightarrow> uuid \<Rightarrow> (string \<times> json) list \<Rightarrow> platform_dsr_response app" where
  "api_cancel_platform_data_subject_request X limit p q i body =
     require_rate_limited_platform_write_context limit PRIVACY_REQUESTS_REVIEW p (\<lambda>a.
     bind (empty_body body) (\<lambda>_.
     bind (cancel_platform_request X i (usr_id (act_user a)) (build_audit_context_from_request (usr_id (act_user a)) q)) (\<lambda>r.
     ret (platform_dsr_of r))))"

definition api_fulfil_data_subject_request ::
  "externals \<Rightarrow> unit app \<Rightarrow> principal \<Rightarrow> request_meta \<Rightarrow> uuid \<Rightarrow> (string \<times> json) list \<Rightarrow> platform_dsr_response app" where
  "api_fulfil_data_subject_request X limit p q i body =
     require_rate_limited_platform_write_context limit PRIVACY_REQUESTS_REVIEW p (\<lambda>a.
     bind (empty_body body) (\<lambda>_.
     bind (fulfil_request X i (usr_id (act_user a)) (build_audit_context_from_request (usr_id (act_user a)) q)) (\<lambda>r.
     ret (platform_dsr_of r))))"

text \<open>The objects of the erased person's exports are deleted when the transaction has committed.\<close>

definition api_execute_erasure ::
  "externals \<Rightarrow> export_env \<Rightarrow> unit app \<Rightarrow> principal \<Rightarrow> request_meta \<Rightarrow> uuid \<Rightarrow> (string \<times> json) list \<Rightarrow>
   platform_dsr_response app" where
  "api_execute_erasure X E limit p q i body =
     bind (require_rate_limited_platform_write_context limit PRIVACY_REQUESTS_EXECUTE_ERASURE p (\<lambda>a.
       bind (empty_body body) (\<lambda>_.
       execute_approved_erasure_request X i (usr_id (act_user a)) None
         (build_audit_context_from_request (usr_id (act_user a)) q)))) (\<lambda>(r, deletions).
     bind (delete_deferred_objects E deletions) (\<lambda>_.
     ret (platform_dsr_of r)))"

subsection \<open>Exports\<close>

text \<open>\<open>artifact_limit\<close> is \<open>check_export_artifact_download_url_rate_limit\<close>.\<close>

definition api_list_own_export_artifacts ::
  "unit app \<Rightarrow> principal \<Rightarrow> nat \<Rightarrow> nat \<Rightarrow> (artifact_response list \<times> nat) app" where
  "api_list_own_export_artifacts limit p l n =
     bind limit (\<lambda>_.
     bind (validate_pagination l) (\<lambda>_.
     bind (provision_current_user p) (\<lambda>u.
     bind (list_own_export_artifacts (usr_id u) l n) (\<lambda>(rows, total).
     ret (map artifact_of rows, total)))))"

definition api_get_own_export_artifact :: "unit app \<Rightarrow> principal \<Rightarrow> uuid \<Rightarrow> artifact_response app" where
  "api_get_own_export_artifact limit p i =
     bind limit (\<lambda>_.
     bind (provision_current_user p) (\<lambda>u.
     bind (get_own_export_artifact i (usr_id u)) (\<lambda>a. ret (artifact_of a))))"

definition api_create_own_export_download_url ::
  "externals \<Rightarrow> export_env \<Rightarrow> unit app \<Rightarrow> (uuid \<Rightarrow> unit app) \<Rightarrow> principal \<Rightarrow> request_meta \<Rightarrow> uuid \<Rightarrow> download_url app" where
  "api_create_own_export_download_url X E limit artifact_limit p q i =
     bind limit (\<lambda>_.
     session_begin (
       bind (provision_current_user p) (\<lambda>u.
       bind (get_own_export_artifact i (usr_id u)) (\<lambda>a.
       bind (artifact_limit (art_id a)) (\<lambda>_.
       generate_download_url X E a (build_audit_context_from_request (usr_id u) q))))))"

definition api_confirm_own_export_delivery ::
  "externals \<Rightarrow> export_env \<Rightarrow> unit app \<Rightarrow> (uuid \<Rightarrow> unit app) \<Rightarrow> principal \<Rightarrow> request_meta \<Rightarrow> uuid \<Rightarrow> artifact_response app" where
  "api_confirm_own_export_delivery X E limit artifact_limit p q i =
     bind limit (\<lambda>_.
     bind (session_begin (
       bind (provision_current_user p) (\<lambda>u.
       bind (get_own_export_artifact i (usr_id u)) (\<lambda>a.
       bind (artifact_limit (art_id a)) (\<lambda>_.
       confirm_export_delivery X E a (build_audit_context_from_request (usr_id u) q)))))) (\<lambda>a.
     ret (artifact_of a)))"

definition api_create_platform_export_artifact ::
  "externals \<Rightarrow> export_env \<Rightarrow> unit app \<Rightarrow> principal \<Rightarrow> request_meta \<Rightarrow> uuid \<Rightarrow> artifact_response app" where
  "api_create_platform_export_artifact X E limit p q i =
     require_rate_limited_platform_write_context limit PRIVACY_EXPORT_ARTIFACTS_MANAGE p (\<lambda>a.
     bind (request_export_artifact X E i (usr_id (act_user a))
       (build_audit_context_from_request (usr_id (act_user a)) q)) (\<lambda>x.
     ret (artifact_of x)))"

definition api_list_platform_export_artifacts ::
  "unit app \<Rightarrow> principal \<Rightarrow> nat \<Rightarrow> nat \<Rightarrow> (artifact_response list \<times> nat) app" where
  "api_list_platform_export_artifacts limit p l n =
     bind limit (\<lambda>_.
     bind (require_platform_permission PRIVACY_EXPORT_ARTIFACTS_READ p) (\<lambda>_.
     bind (validate_pagination l) (\<lambda>_.
     bind (list_platform_export_artifacts l n) (\<lambda>(rows, total).
     ret (map artifact_of rows, total)))))"

definition api_get_platform_export_artifact :: "unit app \<Rightarrow> principal \<Rightarrow> uuid \<Rightarrow> artifact_response app" where
  "api_get_platform_export_artifact limit p i =
     bind limit (\<lambda>_.
     bind (require_platform_permission PRIVACY_EXPORT_ARTIFACTS_READ p) (\<lambda>_.
     bind (get_platform_export_artifact i) (\<lambda>a. ret (artifact_of a))))"

definition api_create_platform_export_download_url ::
  "externals \<Rightarrow> export_env \<Rightarrow> unit app \<Rightarrow> (uuid \<Rightarrow> unit app) \<Rightarrow> principal \<Rightarrow> request_meta \<Rightarrow> uuid \<Rightarrow> download_url app" where
  "api_create_platform_export_download_url X E limit artifact_limit p q i =
     require_rate_limited_platform_write_context limit PRIVACY_EXPORT_ARTIFACTS_MANAGE p (\<lambda>s.
     bind (get_platform_export_artifact i) (\<lambda>a.
     bind (artifact_limit (art_id a)) (\<lambda>_.
     generate_download_url X E a (build_audit_context_from_request (usr_id (act_user s)) q))))"

definition api_confirm_platform_export_delivery ::
  "externals \<Rightarrow> export_env \<Rightarrow> unit app \<Rightarrow> (uuid \<Rightarrow> unit app) \<Rightarrow> principal \<Rightarrow> request_meta \<Rightarrow> uuid \<Rightarrow> artifact_response app" where
  "api_confirm_platform_export_delivery X E limit artifact_limit p q i =
     require_rate_limited_platform_write_context limit PRIVACY_EXPORT_ARTIFACTS_MANAGE p (\<lambda>s.
     bind (get_platform_export_artifact i) (\<lambda>a.
     bind (artifact_limit (art_id a)) (\<lambda>_.
     bind (confirm_export_delivery X E a (build_audit_context_from_request (usr_id (act_user s)) q)) (\<lambda>d.
     ret (artifact_of d)))))"

subsection \<open>Every request\<close>

datatype privacy_request =
    SubmitDataSubjectRequest create_dsr_body "string option"
  | ListOwnDataSubjectRequests nat nat "dsr_status option" "dsr_type option"
  | GetOwnDataSubjectRequest uuid
  | CancelOwnDataSubjectRequest uuid
  | ListDataSubjectRequests nat nat dsr_filters
  | GetDataSubjectRequest uuid
  | VerifyRepresentative uuid "(string \<times> json) list"
  | RejectRepresentative uuid "(string \<times> json) list"
  | ReviewDataSubjectRequest uuid "(string \<times> json) list"
  | ApproveDataSubjectRequest uuid "(string \<times> json) list"
  | RejectDataSubjectRequest uuid "(string \<times> json) list"
  | CancelDataSubjectRequest uuid "(string \<times> json) list"
  | FulfilDataSubjectRequest uuid "(string \<times> json) list"
  | ExecuteErasure uuid "(string \<times> json) list"
  | ListOwnExportArtifacts nat nat
  | GetOwnExportArtifact uuid
  | CreateOwnDownloadUrl uuid
  | ConfirmOwnDelivery uuid
  | CreateExportArtifact uuid
  | ListExportArtifacts nat nat
  | GetExportArtifact uuid
  | CreateDownloadUrl uuid
  | ConfirmDelivery uuid

fun privacy_dispatch ::
  "externals \<Rightarrow> export_env \<Rightarrow> unit app \<Rightarrow> (uuid \<Rightarrow> unit app) \<Rightarrow> principal \<Rightarrow> request_meta \<Rightarrow> privacy_request \<Rightarrow>
   unit app" where
  "privacy_dispatch X E limit alimit p q (SubmitDataSubjectRequest body key) =
     discard (api_submit_data_subject_request X limit p q body key)"
| "privacy_dispatch X E limit alimit p q (ListOwnDataSubjectRequests l n status rtype) =
     discard (api_list_own_data_subject_requests limit p l n status rtype)"
| "privacy_dispatch X E limit alimit p q (GetOwnDataSubjectRequest i) =
     discard (api_get_own_data_subject_request limit p i)"
| "privacy_dispatch X E limit alimit p q (CancelOwnDataSubjectRequest i) =
     discard (api_cancel_own_data_subject_request X limit p q i)"
| "privacy_dispatch X E limit alimit p q (ListDataSubjectRequests l n f) =
     discard (api_list_platform_data_subject_requests limit p l n f)"
| "privacy_dispatch X E limit alimit p q (GetDataSubjectRequest i) =
     discard (api_get_platform_data_subject_request limit p i)"
| "privacy_dispatch X E limit alimit p q (VerifyRepresentative i body) =
     discard (api_verify_representative_authority X limit p q i body)"
| "privacy_dispatch X E limit alimit p q (RejectRepresentative i body) =
     discard (api_reject_representative_authority X limit p q i body)"
| "privacy_dispatch X E limit alimit p q (ReviewDataSubjectRequest i body) =
     discard (api_review_data_subject_request X limit p q i body)"
| "privacy_dispatch X E limit alimit p q (ApproveDataSubjectRequest i body) =
     discard (api_approve_data_subject_request X limit p q i body)"
| "privacy_dispatch X E limit alimit p q (RejectDataSubjectRequest i body) =
     discard (api_reject_data_subject_request X limit p q i body)"
| "privacy_dispatch X E limit alimit p q (CancelDataSubjectRequest i body) =
     discard (api_cancel_platform_data_subject_request X limit p q i body)"
| "privacy_dispatch X E limit alimit p q (FulfilDataSubjectRequest i body) =
     discard (api_fulfil_data_subject_request X limit p q i body)"
| "privacy_dispatch X E limit alimit p q (ExecuteErasure i body) =
     discard (api_execute_erasure X E limit p q i body)"
| "privacy_dispatch X E limit alimit p q (ListOwnExportArtifacts l n) =
     discard (api_list_own_export_artifacts limit p l n)"
| "privacy_dispatch X E limit alimit p q (GetOwnExportArtifact i) =
     discard (api_get_own_export_artifact limit p i)"
| "privacy_dispatch X E limit alimit p q (CreateOwnDownloadUrl i) =
     discard (api_create_own_export_download_url X E limit alimit p q i)"
| "privacy_dispatch X E limit alimit p q (ConfirmOwnDelivery i) =
     discard (api_confirm_own_export_delivery X E limit alimit p q i)"
| "privacy_dispatch X E limit alimit p q (CreateExportArtifact i) =
     discard (api_create_platform_export_artifact X E limit p q i)"
| "privacy_dispatch X E limit alimit p q (ListExportArtifacts l n) =
     discard (api_list_platform_export_artifacts limit p l n)"
| "privacy_dispatch X E limit alimit p q (GetExportArtifact i) =
     discard (api_get_platform_export_artifact limit p i)"
| "privacy_dispatch X E limit alimit p q (CreateDownloadUrl i) =
     discard (api_create_platform_export_download_url X E limit alimit p q i)"
| "privacy_dispatch X E limit alimit p q (ConfirmDelivery i) =
     discard (api_confirm_platform_export_delivery X E limit alimit p q i)"

text \<open>The requests by which staff write.\<close>

fun staff_privacy_write :: "privacy_request \<Rightarrow> bool" where
  "staff_privacy_write (VerifyRepresentative _ _) = True"
| "staff_privacy_write (RejectRepresentative _ _) = True"
| "staff_privacy_write (ReviewDataSubjectRequest _ _) = True"
| "staff_privacy_write (ApproveDataSubjectRequest _ _) = True"
| "staff_privacy_write (RejectDataSubjectRequest _ _) = True"
| "staff_privacy_write (CancelDataSubjectRequest _ _) = True"
| "staff_privacy_write (FulfilDataSubjectRequest _ _) = True"
| "staff_privacy_write (ExecuteErasure _ _) = True"
| "staff_privacy_write (CreateExportArtifact _) = True"
| "staff_privacy_write (CreateDownloadUrl _) = True"
| "staff_privacy_write (ConfirmDelivery _) = True"
| "staff_privacy_write _ = False"

end
