(* ===== verification/Privacy_Maintenance.thy ===== *)
theory Privacy_Maintenance
  imports Erasure_Providers
begin

section \<open>Privacy retention\<close>

text \<open>
  \<^verbatim>\<open>privacy/maintenance.py\<close> and \<^verbatim>\<open>run_once\<close> of \<^verbatim>\<open>privacy/retention_cli.py\<close>: one pass
  over completed invites, delivered outbox events, old audit events, expired idempotency keys and
  the objects of expired exports. The database part is one transaction; objects are deleted between
  transactions, and their keys are cleared from the rows afterwards.
\<close>

record retention_settings =
  rts_invites :: invite_retention_settings
  rts_audit :: audit_settings

record retention_summary =
  expired_export_artifacts :: nat
  anonymised_invites :: nat
  scrubbed_outbox_events :: nat
  minimised_audit_events :: nat
  cleaned_dsr_idempotency_keys :: nat

definition summary_total :: "retention_summary \<Rightarrow> nat" where
  "summary_total s = expired_export_artifacts s + anonymised_invites s + scrubbed_outbox_events s +
     minimised_audit_events s + cleaned_dsr_idempotency_keys s"

definition normalise_utc :: "int option \<Rightarrow> int app" where
  "normalise_utc at = (case at of None \<Rightarrow> utcnow | Some t \<Rightarrow> ret t)"

subsection \<open>Invites\<close>

definition invite_past_retention :: "invite_retention_settings \<Rightarrow> int \<Rightarrow> invite \<Rightarrow> bool" where
  "invite_past_retention cfg now v \<longleftrightarrow>
     inv_status v = INVITE_ACCEPTED \<and> inv_updated_at v \<le> now - days_us (accepted_days cfg) \<or>
     inv_status v = INVITE_EXPIRED \<and>
       (case inv_expires_at v of Some t \<Rightarrow> t | None \<Rightarrow> inv_updated_at v) \<le> now - days_us (expired_days cfg) \<or>
     inv_status v = INVITE_REVOKED \<and>
       (case inv_revoked_at v of Some t \<Rightarrow> t | None \<Rightarrow> inv_updated_at v) \<le> now - days_us (revoked_days cfg)"

text \<open>The condition of the query, with its two patterns, and the test of a loaded row are the same.\<close>

definition invite_needs_retention :: "invite \<Rightarrow> bool" where
  "invite_needs_retention v \<longleftrightarrow> \<not> is_scrubbed_invite v \<or> inv_revoked_by_user_id v \<noteq> None \<or> inv_expires_at v \<noteq> None"

definition load_retained_invites :: "invite_retention_settings \<Rightarrow> int \<Rightarrow> nat \<Rightarrow> invite list app" where
  "load_retained_invites cfg now limit =
     query (\<lambda>d. take limit (oldest_first inv_updated_at inv_id
       (filter (\<lambda>v. invite_past_retention cfg now v \<and> invite_needs_retention v) (invites d))))"

definition apply_invite_retention :: "invite \<Rightarrow> invite" where
  "apply_invite_retention v = v\<lparr>inv_email := scrubbed_invite_email (inv_id v),
     inv_token_hash := scrubbed_invite_token_hash (inv_id v), inv_expires_at := None, inv_revoked_by_user_id := None\<rparr>"

definition anonymise_retained_invites :: "invite_retention_settings \<Rightarrow> int \<Rightarrow> nat \<Rightarrow> bool \<Rightarrow> nat app" where
  "anonymise_retained_invites cfg now limit dry_run =
     bind (load_retained_invites cfg now limit) (\<lambda>rows.
     let affected = length (filter invite_needs_retention rows) in
     if dry_run \<or> affected = 0 then ret affected
     else bind (save_rows invites_update inv_id (\<lambda>t v. v\<lparr>inv_updated_at := t\<rparr>)
       (\<lambda>v. if invite_needs_retention v then apply_invite_retention v else v) rows) (\<lambda>_.
     ret affected))"

subsection \<open>Outbox events\<close>

definition outbox_delivery_retention_days :: int where
  "outbox_delivery_retention_days = 30"

definition privacy_retention_scrubbed :: string where
  "privacy_retention_scrubbed = ''privacy_retention_scrubbed''"

text \<open>
  The query reads the marker with \<open>payload_json[...].as_boolean()\<close>; only this code and the
  erasure write markers, and both write \<open>True\<close>.
\<close>

definition payload_is_scrubbed :: "json \<Rightarrow> bool" where
  "payload_is_scrubbed p = (case p of
     JObj kvs \<Rightarrow> map_of kvs privacy_retention_scrubbed = Some (JBool True) | _ \<Rightarrow> False)"

definition outbox_event_needs_retention :: "outbox_event \<Rightarrow> bool" where
  "outbox_event_needs_retention e \<longleftrightarrow> \<not> payload_is_scrubbed (obx_payload_json e) \<or>
     obx_status e = OUTBOX_FAILED \<and> obx_last_error e \<noteq> None \<and> obx_last_error e \<noteq> Some privacy_retention_scrubbed \<or>
     obx_locked_at e \<noteq> None \<or> obx_next_attempt_at e \<noteq> None"

definition outbox_event_past_retention :: "int \<Rightarrow> outbox_event \<Rightarrow> bool" where
  "outbox_event_past_retention now e \<longleftrightarrow> List.member [OUTBOX_PROCESSED, OUTBOX_FAILED] (obx_status e) \<and>
     (case obx_processed_at e of Some t \<Rightarrow> t | None \<Rightarrow> obx_updated_at e) \<le> now - days_us outbox_delivery_retention_days"

definition load_retained_outbox_events :: "int \<Rightarrow> nat \<Rightarrow> outbox_event list app" where
  "load_retained_outbox_events now limit =
     query (\<lambda>d. take limit (oldest_first obx_created_at obx_id
       (filter (\<lambda>e. outbox_event_past_retention now e \<and> outbox_event_needs_retention e) (outbox_events d))))"

definition scrubbed_outbox_payload :: "json \<Rightarrow> json" where
  "scrubbed_outbox_payload p =
     (let kvs = (case p of JObj l \<Rightarrow> l | _ \<Rightarrow> []);
          kept = filter (\<lambda>kv. List.member safe_invite_payload_keys (fst kv)) kvs
      in JObj (dict_set (dict_set kept ''sensitive_payload_scrubbed'' (JBool True))
           privacy_retention_scrubbed (JBool True)))"

definition apply_outbox_retention :: "outbox_event \<Rightarrow> outbox_event" where
  "apply_outbox_retention e =
     (let e1 = e\<lparr>obx_payload_json := scrubbed_outbox_payload (obx_payload_json e), obx_locked_at := None,
                 obx_next_attempt_at := None\<rparr>
      in if obx_status e = OUTBOX_FAILED then e1\<lparr>obx_last_error := Some privacy_retention_scrubbed\<rparr> else e1)"

definition scrub_retained_outbox_events :: "int \<Rightarrow> nat \<Rightarrow> bool \<Rightarrow> nat app" where
  "scrub_retained_outbox_events now limit dry_run =
     bind (load_retained_outbox_events now limit) (\<lambda>rows.
     let affected = length (filter outbox_event_needs_retention rows) in
     if dry_run \<or> affected = 0 then ret affected
     else bind (save_rows outbox_events_update obx_id (\<lambda>t e. e\<lparr>obx_updated_at := t\<rparr>)
       (\<lambda>e. if outbox_event_needs_retention e then apply_outbox_retention e else e) rows) (\<lambda>_.
     ret affected))"

subsection \<open>Audit events\<close>

definition audit_retention_age :: "audit_settings \<Rightarrow> int \<Rightarrow> audit_event \<Rightarrow> bool" where
  "audit_retention_age cfg now e \<longleftrightarrow>
     aud_category e = AUDIT_SECURITY \<and> aud_created_at e \<le> now - days_us (security_retention_days cfg) \<or>
     aud_category e = AUDIT_COMPLIANCE \<and> aud_created_at e \<le> now - days_us (compliance_retention_days cfg) \<or>
     \<not> List.member [AUDIT_SECURITY, AUDIT_COMPLIANCE] (aud_category e) \<and>
       aud_created_at e \<le> now - days_us (retention_days cfg)"

definition retained_audit_event :: "audit_settings \<Rightarrow> int \<Rightarrow> audit_event \<Rightarrow> bool" where
  "retained_audit_event cfg now e \<longleftrightarrow> audit_retention_age cfg now e \<and>
     (case aud_legal_hold_until e of None \<Rightarrow> True | Some t \<Rightarrow> t \<le> now) \<and>
     (aud_actor_user_id e \<noteq> None \<or> aud_reason e \<noteq> None \<or> aud_metadata_json e \<noteq> None \<or>
      aud_ip_address e \<noteq> None \<or> aud_user_agent e \<noteq> None)"

definition retained_audit_event_ids :: "audit_settings \<Rightarrow> int \<Rightarrow> nat \<Rightarrow> uuid list app" where
  "retained_audit_event_ids cfg now limit =
     query (\<lambda>d. map aud_id (take limit (oldest_first aud_created_at aud_id
       (filter (retained_audit_event cfg now) (audit_events d)))))"

definition minimise_retained_audit_events :: "audit_settings \<Rightarrow> int \<Rightarrow> nat \<Rightarrow> bool \<Rightarrow> nat app" where
  "minimise_retained_audit_events cfg now limit dry_run =
     bind (retained_audit_event_ids cfg now limit) (\<lambda>ids.
     if dry_run \<or> ids = [] then ret (length ids)
     else
     let hit = (\<lambda>e. List.member ids (aud_id e) \<and> retained_audit_event cfg now e) in
     bind (query (\<lambda>d. length (filter hit (audit_events d)))) (\<lambda>rowcount.
     bind (flush (audit_events_update (update_where hit anonymised))) (\<lambda>_. ret rowcount)))"

subsection \<open>Idempotency keys\<close>

definition dsr_idempotency_expired :: "int \<Rightarrow> data_subject_request \<Rightarrow> bool" where
  "dsr_idempotency_expired now r \<longleftrightarrow>
     (case dsr_idempotency_expires_at r of None \<Rightarrow> False | Some t \<Rightarrow> t \<le> now) \<and>
     (dsr_idempotency_key_hash r \<noteq> None \<or> dsr_idempotency_fingerprint r \<noteq> None)"

definition expired_dsr_idempotency_ids :: "int \<Rightarrow> nat \<Rightarrow> uuid list app" where
  "expired_dsr_idempotency_ids now limit =
     query (\<lambda>d. map dsr_id (take limit (oldest_first (\<lambda>r. case dsr_idempotency_expires_at r of None \<Rightarrow> 0 | Some t \<Rightarrow> t)
       dsr_id (filter (dsr_idempotency_expired now) (requests_of d)))))"

definition clean_expired_dsr_idempotency_keys :: "int \<Rightarrow> nat \<Rightarrow> bool \<Rightarrow> nat app" where
  "clean_expired_dsr_idempotency_keys now limit dry_run =
     bind (expired_dsr_idempotency_ids now limit) (\<lambda>ids.
     if dry_run \<or> ids = [] then ret (length ids)
     else
     let hit = (\<lambda>r. List.member ids (dsr_id r)) in
     bind utcnow (\<lambda>t.
     bind (query (\<lambda>d. length (filter hit (requests_of d)))) (\<lambda>rowcount.
     bind (flush (requests_table (update_where hit (\<lambda>r. r\<lparr>dsr_idempotency_key_hash := None,
       dsr_idempotency_fingerprint := None, dsr_idempotency_expires_at := None, dsr_updated_at := t\<rparr>)))) (\<lambda>_.
     ret rowcount))))"

subsection \<open>The database phase\<close>

definition run_non_export_retention :: "retention_settings \<Rightarrow> int \<Rightarrow> nat \<Rightarrow> bool \<Rightarrow> retention_summary app" where
  "run_non_export_retention cfg now limit dry_run =
     bind (anonymise_retained_invites (rts_invites cfg) now limit dry_run) (\<lambda>i.
     bind (scrub_retained_outbox_events now limit dry_run) (\<lambda>x.
     bind (minimise_retained_audit_events (rts_audit cfg) now limit dry_run) (\<lambda>a.
     bind (clean_expired_dsr_idempotency_keys now limit dry_run) (\<lambda>k.
     ret \<lparr>expired_export_artifacts = 0, anonymised_invites = i, scrubbed_outbox_events = x,
          minimised_audit_events = a, cleaned_dsr_idempotency_keys = k\<rparr>))))"

definition expire_ready_export_artifacts :: "externals \<Rightarrow> int option \<Rightarrow> nat \<Rightarrow> bool \<Rightarrow> nat app" where
  "expire_ready_export_artifacts X at limit dry_run =
     bind (normalise_utc at) (\<lambda>now.
     if dry_run then count_expired_ready_artifacts [] (Some now) limit
     else mark_expired_artifacts X (Some now) limit)"

definition run_privacy_retention_maintenance ::
  "externals \<Rightarrow> retention_settings \<Rightarrow> int option \<Rightarrow> int \<Rightarrow> bool \<Rightarrow> retention_summary app" where
  "run_privacy_retention_maintenance X cfg at limit dry_run =
     bind (ensure (1 \<le> limit) (ValueError ''Privacy retention batch size must be positive'')) (\<lambda>_.
     bind (normalise_utc at) (\<lambda>now.
     bind (run_non_export_retention cfg now (nat limit) dry_run) (\<lambda>s.
     bind (expire_ready_export_artifacts X (Some now) (nat limit) dry_run) (\<lambda>n.
     ret (s\<lparr>expired_export_artifacts := n\<rparr>)))))"

subsection \<open>Stored objects\<close>

text \<open>The loop over the objects: what was deleted, and the errors of the others.\<close>

fun delete_each_purge :: "export_env \<Rightarrow> storage_purge list \<Rightarrow> (storage_purge list \<times> app_error list) app" where
  "delete_each_purge E [] = ret ([], [])"
| "delete_each_purge E (p # ps) =
     bind (try_except (bind (delete_export_storage_purge_object E p) (\<lambda>_. ret None)) (\<lambda>_. True) (\<lambda>e. ret (Some e))) (\<lambda>failure.
     bind (delete_each_purge E ps) (\<lambda>(gone, failures).
     case failure of None \<Rightarrow> ret (p # gone, failures) | Some e \<Rightarrow> ret (gone, e # failures)))"

definition delete_export_storage_purges :: "export_env \<Rightarrow> storage_purge list \<Rightarrow> (storage_purge list \<times> app_error list) app" where
  "delete_export_storage_purges E purges =
     (if purges = [] then ret ([], [])
      else bind (gets in_tx) (\<lambda>tx.
      bind (ensure (\<not> tx) (RuntimeError ''Export storage purge cannot run inside a database transaction'')) (\<lambda>_.
      delete_each_purge E purges)))"

definition clear_export_storage_purges :: "storage_purge list \<Rightarrow> nat app" where
  "clear_export_storage_purges purges =
     bind (map_each purges clear_export_storage_purge_metadata) (\<lambda>oks. ret (length (filter id oks)))"

subsection \<open>A pass\<close>

text \<open>
  Each transaction has a session of its own. The three transactions after the first clear the keys of
  the deleted objects and list the next ones; \<open>limit\<close> bounds all exports together.
\<close>

definition list_cancelled_step :: "retention_settings \<Rightarrow> int \<Rightarrow> int \<Rightarrow> (retention_summary \<times> storage_purge list) app" where
  "list_cancelled_step cfg now limit = session_begin (
     bind (run_non_export_retention cfg now (nat limit) False) (\<lambda>s.
     bind (list_cancelled_erasure_storage_purges (nat limit)) (\<lambda>ps. ret (s, ps))))"

definition list_failed_step :: "int \<Rightarrow> storage_purge list \<Rightarrow> (int \<times> storage_purge list) app" where
  "list_failed_step limit gone = session_begin (
     bind (clear_export_storage_purges gone) (\<lambda>n.
     let remaining = limit - int n in
     bind (if 0 < remaining then list_failed_storage_purges (nat remaining) else ret []) (\<lambda>ps.
     ret (int n, ps))))"

definition expire_step :: "externals \<Rightarrow> int \<Rightarrow> int \<Rightarrow> int \<Rightarrow> storage_purge list \<Rightarrow> (int \<times> storage_purge list) app" where
  "expire_step X now limit done_before gone = session_begin (
     bind (clear_export_storage_purges gone) (\<lambda>n.
     let cleared = done_before + int n in
     bind (if 0 < limit - cleared then expire_ready_artifacts X (Some now) (nat (limit - cleared)) else ret []) (\<lambda>ids.
     let processed = cleared + int (length ids) in
     bind (if 0 < limit - processed then list_expired_storage_purges (nat (limit - processed)) ids else ret []) (\<lambda>ps.
     ret (processed, ps)))))"

definition purge_exports ::
  "externals \<Rightarrow> export_env \<Rightarrow> int \<Rightarrow> int \<Rightarrow> storage_purge list \<Rightarrow> (int \<times> app_error list) app" where
  "purge_exports X E now limit cancelled =
     bind (delete_export_storage_purges E cancelled) (\<lambda>(gone1, failures1).
     bind (list_failed_step limit gone1) (\<lambda>(n1, failed).
     bind (delete_export_storage_purges E failed) (\<lambda>(gone2, failures2).
     bind (expire_step X now limit n1 gone2) (\<lambda>(n2, expired).
     bind (delete_export_storage_purges E expired) (\<lambda>(gone3, failures3).
     bind (session_begin (clear_export_storage_purges gone3)) (\<lambda>n3.
     ret (n2 + int n3, failures1 @ failures2 @ failures3)))))))"

definition run_privacy_retention_pass ::
  "externals \<Rightarrow> export_env \<Rightarrow> retention_settings \<Rightarrow> int option \<Rightarrow> int \<Rightarrow> bool \<Rightarrow> retention_summary app" where
  "run_privacy_retention_pass X E cfg at limit dry_run =
     bind (ensure (1 \<le> limit) (ValueError ''Privacy retention batch size must be positive'')) (\<lambda>_.
     bind (normalise_utc at) (\<lambda>now.
     if dry_run then rolled_back (run_privacy_retention_maintenance X cfg (Some now) limit True)
     else
     bind (list_cancelled_step cfg now limit) (\<lambda>(s, cancelled).
     bind (purge_exports X E now limit cancelled) (\<lambda>(n, failures).
     let whole = s\<lparr>expired_export_artifacts := nat n\<rparr> in
     if summary_total whole = 0 \<and> failures \<noteq> [] then raise (hd failures) else ret whole))))"

definition retention_cli_run_once ::
  "externals \<Rightarrow> export_env \<Rightarrow> retention_settings \<Rightarrow> bool \<Rightarrow> int \<Rightarrow> retention_summary app" where
  "retention_cli_run_once X E cfg dry_run batch_size =
     bind (ensure (1 \<le> batch_size) (ValueError ''Privacy retention batch size must be positive'')) (\<lambda>_.
     run_privacy_retention_pass X E cfg None batch_size dry_run)"

end
