(* ===== verification/Erasure_Effects.thy ===== *)
theory Erasure_Effects
  imports Erasure "HOL-Library.Multiset"
begin

section \<open>What the erasure providers change\<close>

text \<open>
  A provider that returns has changed the rows of its own table that concern the person, and nothing
  else (\<open>\<dots>_provider_run\<close>); all of them together relate the tables before and after as
  \<open>erased_tables\<close> says (\<open>run_core_providers_run\<close>), and the lemmas \<open>erased_\<dots>\<close> read off what
  is left of the person in each table.
\<close>

subsection \<open>Assignments\<close>

lemma fst_fold_set_if_changed: "fst (fold set_if_changed as rc) = fold snd as (fst rc)"
  by (induction as arbitrary: rc) (auto simp: set_if_changed_def)

lemma assigned_eq: "assigned as r = fold snd (as r) r"
  by (simp add: assigned_def assign_all_def fst_fold_set_if_changed)

lemmas assignment_defs =
  anonymise_subject_profile_def anonymise_invite_def scrub_outbox_event_def minimise_audit_event_def
  minimise_platform_staff_row_def minimise_export_artifact_row_def clear_authorization_source_def
  clear_notice_source_def minimise_dsr_row_def

lemma assigned_keys [simp]:
  "usr_id (assigned anonymise_subject_profile x) = usr_id x"
  "inv_id (assigned (anonymise_invite u m t) v) = inv_id v"
  "obx_id (assigned scrub_outbox_event e) = obx_id e"
  "aud_id (assigned (minimise_audit_event s) a) = aud_id a"
  "stf_id (assigned (minimise_platform_staff_row u) p) = stf_id p"
  "art_id (assigned (minimise_export_artifact_row u) b) = art_id b"
  "pau_id (assigned clear_authorization_source c) = pau_id c"
  "pna_id (assigned clear_notice_source n) = pna_id n"
  "dsr_id (assigned (minimise_dsr_row u) r) = dsr_id r"
  by (simp_all add: assigned_eq assignment_defs)

subsection \<open>One provider\<close>

lemma validate_request_and_get_subject_run:
  assumes "validate_request_and_get_subject a r w = (Inr s, w')" "integrity (db w)"
  shows "w' = w \<and> (\<exists>u. dsr_subject r = Some u \<and> find (\<lambda>x. usr_id x = u) (users (db w)) = Some s \<and> usr_id s = u)"
  using assms
  by (auto simp: validate_request_and_get_subject_def validate_erasure_request_def run_rules user_get_by_id_eq
      find_Some_iff split: option.splits)

text \<open>The rows a provider loads are those its predicate selects, in some order.\<close>

context stamped_table
begin

lemma save_selected_run:
  assumes run: "save_rows put key stamp f loaded w = (Inr u, w')" and I: "integrity (db w)"
    and loaded: "mset loaded = mset (filter p (rows (db w)))" and f: "\<And>r. key (f r) = key r"
  shows "\<exists>rs n. w' = w\<lparr>clock_pos := n, db := put (\<lambda>_. rs) (db w)\<rparr> \<and> integrity (db w') \<and>
    rows_changed stamp f p (rows (db w)) rs"
proof (rule save_rows_run [OF run I _ _ f])
  from mset_eq_setD [OF loaded] show "set loaded = {r \<in> set (rows (db w)). p r}" by auto
  have "mset (map key loaded) = mset (map key (filter p (rows (db w))))" using loaded by simp
  from mset_eq_imp_distinct_iff [OF this] show "distinct (map key loaded)"
    using key_unique [OF I] by (simp add: distinct_map_filter)
qed

end

lemma save_nothing [simp]: "save_rows upd key stamp f [] w = (Inr (), w)"
  by (simp add: save_rows_def stamp_rows_def ret_def)

lemma save_one:
  assumes "f r \<noteq> r"
  shows "save_rows upd key stamp f [r] w =
    flush (upd (replace_rows key [stamp (clock w (clock_pos w)) (f r)])) (w\<lparr>clock_pos := Suc (clock_pos w)\<rparr>)"
  using assms by (simp add: save_rows_def stamp_rows_def bind_def utcnow_def ret_def)

lemma mset_oldest_first [simp]: "mset (oldest_first c k rows) = mset rows"
  by (simp add: oldest_first_def)

lemma audit_provider_run:
  assumes "minimise_audit_events_for_erasure r now w = (Inr res, w')" and I: "integrity (db w)"
    and u: "dsr_subject r = Some u" and s: "find (\<lambda>x. usr_id x = u) (users (db w)) = Some s"
  obtains rs n where "w' = w\<lparr>clock_pos := n, db := audit_events_update (\<lambda>_. rs) (db w)\<rparr>" "integrity (db w')"
    "rows_changed (\<lambda>t x. x) (assigned (minimise_audit_event (target_snapshot s (db w))))
       (subject_audit_event (target_snapshot s (db w))) (audit_events (db w)) rs"
proof -
  from assms(1) u s have save: "save_rows audit_events_update aud_id (\<lambda>t x. x) (assigned (minimise_audit_event (target_snapshot s (db w))))
      (oldest_first aud_created_at aud_id (filter (subject_audit_event (target_snapshot s (db w))) (audit_events (db w)))) w = (Inr (), w')"
    by (auto simp: minimise_audit_events_for_erasure_def build_target_snapshot_def lock_subject_audit_events_def
        Let_def run_rules dest!: validate_request_and_get_subject_run [OF _ I])
  from saved_audit.save_selected_run [OF save I] that show thesis by fastforce
qed

lemma normalise_optional_email_idem [simp]:
  "normalise_optional_email (normalise_optional_email m) = normalise_optional_email m"
  by (auto simp: normalise_optional_email_def split: option.splits)

lemma subject_address_snapshot [simp]:
  "subject_address (normalise_optional_email (usr_email s)) s = normalise_optional_email (usr_email s)"
  by (auto simp: subject_address_def split: option.splits)

lemma outbox_provider_run:
  assumes "scrub_outbox_for_erasure r m ids w = (Inr res, w')" and I: "integrity (db w)"
    and u: "dsr_subject r = Some u" and s: "find (\<lambda>x. usr_id x = u) (users (db w)) = Some s"
  obtains rs n where "w' = w\<lparr>clock_pos := n, db := outbox_events_update (\<lambda>_. rs) (db w)\<rparr>" "integrity (db w')"
    "rows_changed (\<lambda>t x. x\<lparr>obx_updated_at := t\<rparr>) (assigned scrub_outbox_event)
       (subject_outbox_event (subject_address m s) ids) (outbox_events (db w)) rs"
proof -
  from assms(1) u s have save: "save_rows outbox_events_update obx_id (\<lambda>t x. x\<lparr>obx_updated_at := t\<rparr>) (assigned scrub_outbox_event)
      (oldest_first obx_created_at obx_id (filter (subject_outbox_event (subject_address m s) ids) (outbox_events (db w)))) w = (Inr (), w')"
    by (auto simp: scrub_outbox_for_erasure_def lock_subject_outbox_events_def
        Let_def run_rules dest!: validate_request_and_get_subject_run [OF _ I])
  from saved_outbox.save_selected_run [OF save I] that show thesis by fastforce
qed

lemma invite_provider_run:
  assumes "anonymise_invites_for_erasure r m now w = (Inr res, w')" and I: "integrity (db w)"
    and u: "dsr_subject r = Some u" and s: "find (\<lambda>x. usr_id x = u) (users (db w)) = Some s"
  obtains rs n where "w' = w\<lparr>clock_pos := n, db := invites_update (\<lambda>_. rs) (db w)\<rparr>" "integrity (db w')"
    "rows_changed (\<lambda>t x. x\<lparr>inv_updated_at := t\<rparr>) (assigned (anonymise_invite u (subject_address m s) now))
       (subject_invite u (subject_address m s)) (invites (db w)) rs"
proof -
  from assms(1) u s have save: "save_rows invites_update inv_id (\<lambda>t x. x\<lparr>inv_updated_at := t\<rparr>)
      (assigned (anonymise_invite u (subject_address m s) now))
      (oldest_first inv_created_at inv_id (filter (subject_invite u (subject_address m s)) (invites (db w)))) w = (Inr (), w')"
    by (auto simp: anonymise_invites_for_erasure_def lock_subject_invites_def
        Let_def run_rules dest!: validate_request_and_get_subject_run [OF _ I])
  from saved_invite.save_selected_run [OF save I] that show thesis by fastforce
qed

lemma staff_provider_run:
  assumes "minimise_platform_staff_for_erasure r u w = (Inr res, w')" and I: "integrity (db w)"
  obtains rs n where "w' = w\<lparr>clock_pos := n, db := staff_rows_update (\<lambda>_. rs) (db w)\<rparr>" "integrity (db w')"
    "rows_changed (\<lambda>t x. x\<lparr>stf_updated_at := t\<rparr>) (assigned (minimise_platform_staff_row u))
       (staff_refers_to u) (staff_rows (db w)) rs"
proof -
  from assms(1) have save: "save_rows staff_rows_update stf_id (\<lambda>t x. x\<lparr>stf_updated_at := t\<rparr>)
      (assigned (minimise_platform_staff_row u))
      (oldest_first stf_created_at stf_id (filter (staff_refers_to u) (staff_rows (db w)))) w = (Inr (), w')"
    by (auto simp: minimise_platform_staff_for_erasure_def validate_remaining_def validate_erasure_request_def
        Let_def run_rules)
  from saved_staff.save_selected_run [OF save I] that show thesis by fastforce
qed

lemma artifact_provider_run:
  assumes "minimise_export_artifacts_for_erasure r u w = (Inr res, w')" and I: "integrity (db w)"
  obtains rs n where "w' = w\<lparr>clock_pos := n, db := artifacts_table (\<lambda>_. rs) (db w)\<rparr>" "integrity (db w')"
    "rows_changed (\<lambda>t x. x\<lparr>art_updated_at := t\<rparr>) (assigned (minimise_export_artifact_row u))
       (artifact_refers_to u) (artifacts_of (db w)) rs"
    "snd res = subject_owned_export_object_deletions u
       (oldest_first art_created_at art_id (filter (artifact_refers_to u) (artifacts_of (db w))))"
proof -
  from assms(1) have save: "save_rows artifacts_table art_id (\<lambda>t x. x\<lparr>art_updated_at := t\<rparr>)
      (assigned (minimise_export_artifact_row u))
      (oldest_first art_created_at art_id (filter (artifact_refers_to u) (artifacts_of (db w)))) w = (Inr (), w')"
    and dels: "snd res = subject_owned_export_object_deletions u
       (oldest_first art_created_at art_id (filter (artifact_refers_to u) (artifacts_of (db w))))"
    by (auto simp: minimise_export_artifacts_for_erasure_def validate_remaining_def validate_erasure_request_def
        Let_def run_rules)
  from saved_artifact.save_selected_run [OF save I] that dels show thesis by fastforce
qed

lemma governance_provider_run:
  assumes "minimise_privacy_governance_for_erasure r u w = (Inr res, w')" and I: "integrity (db w)"
  obtains as ns n where "w' = w\<lparr>clock_pos := n, db := notices_table (\<lambda>_. ns) (authorizations_table (\<lambda>_. as) (db w))\<rparr>"
    "integrity (db w')"
    "rows_changed (\<lambda>t x. x\<lparr>pau_updated_at := t\<rparr>) (assigned clear_authorization_source)
       (\<lambda>a. pau_subject a = u) (authorizations (privacy (db w))) as"
    "rows_changed (\<lambda>t x. x\<lparr>pna_updated_at := t\<rparr>) (assigned clear_notice_source)
       (\<lambda>x. pna_subject x = u) (notices (privacy (db w))) ns"
proof -
  from assms(1) obtain w1 where save: "save_rows authorizations_table pau_id (\<lambda>t x. x\<lparr>pau_updated_at := t\<rparr>)
      (assigned clear_authorization_source)
      (sort_key pau_created_at (filter (\<lambda>a. pau_subject a = u) (authorizations (privacy (db w))))) w = (Inr (), w1)"
    and save': "save_rows notices_table pna_id (\<lambda>t x. x\<lparr>pna_updated_at := t\<rparr>) (assigned clear_notice_source)
      (sort_key pna_created_at (filter (\<lambda>x. pna_subject x = u) (notices (privacy (db w))))) w1 = (Inr (), w')"
    by (auto simp: minimise_privacy_governance_for_erasure_def validate_remaining_def validate_erasure_request_def
        Let_def run_rules)
  from saved_authorization.save_selected_run [OF save I] obtain as n where
    a: "w1 = w\<lparr>clock_pos := n, db := authorizations_table (\<lambda>_. as) (db w)\<rparr>" "integrity (db w1)"
    "rows_changed (\<lambda>t x. x\<lparr>pau_updated_at := t\<rparr>) (assigned clear_authorization_source)
       (\<lambda>a. pau_subject a = u) (authorizations (privacy (db w))) as" by fastforce
  from saved_notice.save_selected_run [OF save' a(2), where p = "\<lambda>x. pna_subject x = u"] a that show thesis by fastforce
qed

lemma user_provider_run:
  assumes "anonymise_user_profile r w = (Inr res, w')" and I: "integrity (db w)" and u: "dsr_subject r = Some u"
  obtains rs n where "w' = w\<lparr>clock_pos := n, db := users_update (\<lambda>_. rs) (db w)\<rparr>" "integrity (db w')"
    "rows_changed (\<lambda>t x. x\<lparr>usr_updated_at := t\<rparr>) (assigned anonymise_subject_profile)
       (\<lambda>x. usr_id x = u) (users (db w)) rs"
proof -
  from assms(1) u obtain s where save: "save_users [s] w = (Inr (), w')"
    and s: "find (\<lambda>x. usr_id x = u) (users (db w)) = Some s"
    by (auto simp: anonymise_user_profile_def Let_def run_rules dest!: validate_request_and_get_subject_run [OF _ I])
  have "set [s] = {x \<in> set (users (db w)). usr_id x = u}"
    using s users_table.same_key_same_row [OF I] by (fastforce simp: find_Some_iff in_set_conv_nth)
  from saved_user.save_rows_run [OF save [unfolded save_users_def] I this] that show thesis by fastforce
qed

lemma dsr_provider_run:
  assumes "minimise_dsr_workflow_for_erasure r u w = (Inr res, w')" and I: "integrity (db w)"
  obtains rs n where "w' = w\<lparr>clock_pos := n, db := requests_table (\<lambda>_. rs) (db w)\<rparr>" "integrity (db w')"
    "rows_changed (\<lambda>t x. x\<lparr>dsr_updated_at := t\<rparr>) (assigned (minimise_dsr_row u)) (dsr_refers_to u) (requests_of (db w)) rs"
proof -
  from assms(1) have save: "save_rows requests_table dsr_id (\<lambda>t x. x\<lparr>dsr_updated_at := t\<rparr>)
      (assigned (minimise_dsr_row u))
      (oldest_first dsr_created_at dsr_id (filter (dsr_refers_to u) (requests_of (db w)))) w = (Inr (), w')"
    by (auto simp: minimise_dsr_workflow_for_erasure_def validate_remaining_def validate_erasure_request_def
        Let_def run_rules)
  from saved_dsr.save_selected_run [OF save I] that show thesis by fastforce
qed

subsection \<open>All providers\<close>

text \<open>What the providers make of the tables, in terms of the tables before.\<close>

definition erased_tables :: "uuid \<Rightarrow> user \<Rightarrow> uuid list \<Rightarrow> int \<Rightarrow> db \<Rightarrow> db \<Rightarrow> bool" where
  "erased_tables u s ids now d d' \<longleftrightarrow>
     (let m = normalise_optional_email (usr_email s); snap = target_snapshot s d in
      rows_changed (\<lambda>t x. x) (assigned (minimise_audit_event snap)) (subject_audit_event snap) (audit_events d) (audit_events d') \<and>
      rows_changed (\<lambda>t x. x\<lparr>obx_updated_at := t\<rparr>) (assigned scrub_outbox_event) (subject_outbox_event m ids)
        (outbox_events d) (outbox_events d') \<and>
      rows_changed (\<lambda>t x. x\<lparr>inv_updated_at := t\<rparr>) (assigned (anonymise_invite u m now)) (subject_invite u m)
        (invites d) (invites d') \<and>
      rows_changed (\<lambda>t x. x\<lparr>stf_updated_at := t\<rparr>) (assigned (minimise_platform_staff_row u)) (staff_refers_to u)
        (staff_rows d) (staff_rows d') \<and>
      rows_changed (\<lambda>t x. x\<lparr>art_updated_at := t\<rparr>) (assigned (minimise_export_artifact_row u)) (artifact_refers_to u)
        (artifacts_of d) (artifacts_of d') \<and>
      rows_changed (\<lambda>t x. x\<lparr>pau_updated_at := t\<rparr>) (assigned clear_authorization_source) (\<lambda>a. pau_subject a = u)
        (authorizations (privacy d)) (authorizations (privacy d')) \<and>
      rows_changed (\<lambda>t x. x\<lparr>pna_updated_at := t\<rparr>) (assigned clear_notice_source) (\<lambda>x. pna_subject x = u)
        (notices (privacy d)) (notices (privacy d')) \<and>
      rows_changed (\<lambda>t x. x\<lparr>usr_updated_at := t\<rparr>) (assigned anonymise_subject_profile) (\<lambda>x. usr_id x = u)
        (users d) (users d') \<and>
      rows_changed (\<lambda>t x. x\<lparr>dsr_updated_at := t\<rparr>) (assigned (minimise_dsr_row u)) (dsr_refers_to u)
        (requests_of d) (requests_of d') \<and>
      memberships d' = memberships d \<and> organisations d' = organisations d \<and> delivery_claims d' = delivery_claims d \<and>
      consents (privacy d') = consents (privacy d) \<and> purposes (privacy d') = purposes (privacy d))"

lemma run_core_providers_run:
  assumes run: "run_core_providers r (m, ids) u now w = (Inr res, w')" and I: "integrity (db w)"
    and u: "dsr_subject r = Some u" and s: "find (\<lambda>x. usr_id x = u) (users (db w)) = Some s"
    and m: "m = normalise_optional_email (usr_email s)"
  shows "integrity (db w') \<and> erased_tables u s ids now (db w) (db w')"
proof -
  from run obtain r1 r2 r3 r4 r5 r6 r7 r8 r9 r10 w1 w2 w3 w4 w5 w6 w7 w8 w9 where
    1: "minimise_audit_events_for_erasure r now w = (Inr r1, w1)" and
    2: "scrub_outbox_for_erasure r m ids w1 = (Inr r2, w2)" and
    3: "anonymise_invites_for_erasure r m now w2 = (Inr r3, w3)" and
    4: "apply_membership_erasure_policy r u w3 = (Inr r4, w4)" and
    5: "apply_organisation_erasure_policy r u w4 = (Inr r5, w5)" and
    6: "minimise_platform_staff_for_erasure r u w5 = (Inr r6, w6)" and
    7: "minimise_export_artifacts_for_erasure r u w6 = (Inr r7, w7)" and
    8: "minimise_privacy_governance_for_erasure r u w7 = (Inr r8, w8)" and
    9: "anonymise_user_profile r w8 = (Inr r9, w9)" and
    10: "minimise_dsr_workflow_for_erasure r u w9 = (Inr r10, w')"
    by (auto simp: run_core_providers_def run_rules)
  from 4 5 have w5: "w5 = w3"
    by (auto simp: apply_membership_erasure_policy_def apply_organisation_erasure_policy_def validate_remaining_def
        validate_erasure_request_def run_rules)
  from 1 I u s obtain as n1 where a: "w1 = w\<lparr>clock_pos := n1, db := audit_events_update (\<lambda>_. as) (db w)\<rparr>" "integrity (db w1)"
    "rows_changed (\<lambda>t x. x) (assigned (minimise_audit_event (target_snapshot s (db w))))
       (subject_audit_event (target_snapshot s (db w))) (audit_events (db w)) as"
    by (rule audit_provider_run) auto
  from 2 a(2) u obtain os n2 where b: "w2 = w1\<lparr>clock_pos := n2, db := outbox_events_update (\<lambda>_. os) (db w1)\<rparr>" "integrity (db w2)"
    "rows_changed (\<lambda>t x. x\<lparr>obx_updated_at := t\<rparr>) (assigned scrub_outbox_event) (subject_outbox_event m ids) (outbox_events (db w1)) os"
    by (rule outbox_provider_run) (use s m a(1) in auto)
  from 3 b(2) u obtain vs n3 where c: "w3 = w2\<lparr>clock_pos := n3, db := invites_update (\<lambda>_. vs) (db w2)\<rparr>" "integrity (db w3)"
    "rows_changed (\<lambda>t x. x\<lparr>inv_updated_at := t\<rparr>) (assigned (anonymise_invite u m now)) (subject_invite u m) (invites (db w2)) vs"
    by (rule invite_provider_run) (use s m a(1) b(1) in auto)
  from 6 [unfolded w5] c(2) obtain ss n4 where d: "w6 = w3\<lparr>clock_pos := n4, db := staff_rows_update (\<lambda>_. ss) (db w3)\<rparr>"
    "integrity (db w6)" "rows_changed (\<lambda>t x. x\<lparr>stf_updated_at := t\<rparr>) (assigned (minimise_platform_staff_row u))
       (staff_refers_to u) (staff_rows (db w3)) ss" by (rule staff_provider_run)
  from 7 d(2) obtain bs n5 where e: "w7 = w6\<lparr>clock_pos := n5, db := artifacts_table (\<lambda>_. bs) (db w6)\<rparr>"
    "integrity (db w7)" "rows_changed (\<lambda>t x. x\<lparr>art_updated_at := t\<rparr>) (assigned (minimise_export_artifact_row u))
       (artifact_refers_to u) (artifacts_of (db w6)) bs" by (rule artifact_provider_run)
  from 8 e(2) obtain ps ns n6 where f: "w8 = w7\<lparr>clock_pos := n6, db := notices_table (\<lambda>_. ns) (authorizations_table (\<lambda>_. ps) (db w7))\<rparr>"
    "integrity (db w8)"
    "rows_changed (\<lambda>t x. x\<lparr>pau_updated_at := t\<rparr>) (assigned clear_authorization_source)
       (\<lambda>a. pau_subject a = u) (authorizations (privacy (db w7))) ps"
    "rows_changed (\<lambda>t x. x\<lparr>pna_updated_at := t\<rparr>) (assigned clear_notice_source)
       (\<lambda>x. pna_subject x = u) (notices (privacy (db w7))) ns" by (rule governance_provider_run)
  from 9 f(2) u obtain xs n7 where g: "w9 = w8\<lparr>clock_pos := n7, db := users_update (\<lambda>_. xs) (db w8)\<rparr>" "integrity (db w9)"
    "rows_changed (\<lambda>t x. x\<lparr>usr_updated_at := t\<rparr>) (assigned anonymise_subject_profile)
       (\<lambda>x. usr_id x = u) (users (db w8)) xs" by (rule user_provider_run)
  from 10 g(2) obtain rs n8 where h: "w' = w9\<lparr>clock_pos := n8, db := requests_table (\<lambda>_. rs) (db w9)\<rparr>" "integrity (db w')"
    "rows_changed (\<lambda>t x. x\<lparr>dsr_updated_at := t\<rparr>) (assigned (minimise_dsr_row u)) (dsr_refers_to u) (requests_of (db w9)) rs"
    by (rule dsr_provider_run)
  from a b c d e f g h m show ?thesis by (simp add: erased_tables_def Let_def)
qed

subsection \<open>Addresses in SQL and in Python\<close>

lemma strip_padded:
  assumes "list_all is_space p" "list_all is_space q"
  shows "strip (p @ y @ q) = strip y"
proof -
  have p: "lstrip (p @ z) = lstrip z" if "list_all is_space p" for p z
    using that by (induction p) (auto simp: lstrip_def)
  have q: "lstrip (y @ q) = (if lstrip y = [] then [] else lstrip y @ q)"
    using assms(2) by (induction y) (auto simp: lstrip_def dropWhile_eq_Nil_conv list_all_iff)
  show ?thesis
    using assms p [of p "y @ q"] p [of "rev q" "rev (lstrip y)"] by (simp add: strip_def q)
qed

lemma sql_trim_padded: "\<exists>p q. list_all is_space p \<and> list_all is_space q \<and> x = p @ sql_trim x @ q"
proof -
  let ?sp = "\<lambda>c. c = CHR '' ''" and ?z = "dropWhile (\<lambda>c. c = CHR '' '') x"
  have space: "list_all is_space (takeWhile ?sp z)" for z
    by (induction z) (auto simp: is_space_def)
  have "x = takeWhile ?sp x @ ?z" by simp
  moreover have "?z = sql_trim x @ rev (takeWhile ?sp (rev ?z))"
    unfolding sql_trim_def rev_append [symmetric] takeWhile_dropWhile_id by simp
  ultimately have "x = takeWhile ?sp x @ sql_trim x @ rev (takeWhile ?sp (rev ?z))" by simp
  with space [of x] space [of "rev ?z"] show ?thesis by (metis list_all_rev)
qed

lemma strip_sql_trim: "strip (sql_trim x) = strip x"
  using sql_trim_padded [of x] strip_padded by metis

text \<open>What the SQL query selects by address, the Python check recognises.\<close>

lemma sql_email_matches:
  assumes "normalise_optional_email e = Some m" and "sql_email x = m"
  shows "lower (strip x) = m"
proof -
  have "strip m = m" using assms(1) by (auto simp: normalise_optional_email_def split: option.splits if_splits)
  moreover have "lower (strip x) = strip (lower (sql_trim x))" by (simp add: strip_sql_trim strip_lower)
  ultimately show ?thesis using assms(2) by (simp add: sql_email_def)
qed

subsection \<open>What is left of a person\<close>

lemma rows_changed_all:
  assumes "rows_changed stamp f p rows rows'" and "r' \<in> set rows'" and "\<And>t x. Q (stamp t x) = Q x"
    and "\<And>r. r \<in> set rows \<Longrightarrow> p r \<Longrightarrow> Q (f r)" and "\<And>r. r \<in> set rows \<Longrightarrow> \<not> p r \<Longrightarrow> Q r"
  shows "Q r'"
proof -
  from assms(1,2) obtain r where r: "r \<in> set rows" "row_changed stamp f p r r'" by (rule rows_changed_member)
  with assms(4,5) [OF r(1)] assms(3) show ?thesis
    by (cases "p r"; cases "f r = r") (auto simp: row_changed_def)
qed

lemma suffix_scrubbed_email: "suffix ''@anonymous.invalid'' (scrubbed_invite_email i)"
  by (simp add: scrubbed_invite_email_def suffix_def)

lemma prefix_scrubbed_hash: "prefix ''scrubbed-invite:'' (scrubbed_invite_token_hash i)"
  by (simp add: scrubbed_invite_token_hash_def)

lemma payload_email_scrubbed: "payload_email (scrubbed_payload p) = None"
proof -
  have "map_of (dict_set kvs k v) ''email'' = map_of kvs ''email''" if "k \<noteq> ''email''" for kvs k v
    using that by (induction kvs) auto
  moreover have "map_of (filter (\<lambda>kv. List.member safe_invite_payload_keys (fst kv)) kvs) ''email'' = None" for kvs :: "(string \<times> json) list"
    by (auto simp: map_of_eq_None_iff safe_invite_payload_keys_def)
  ultimately show ?thesis by (simp add: payload_email_def scrubbed_payload_def Let_def)
qed

lemma erased_tablesD:
  assumes "erased_tables u s ids now d d'"
  defines "m \<equiv> normalise_optional_email (usr_email s)" and "snap \<equiv> target_snapshot s d"
  shows "rows_changed (\<lambda>t x. x) (assigned (minimise_audit_event snap)) (subject_audit_event snap) (audit_events d) (audit_events d')"
    "rows_changed (\<lambda>t x. x\<lparr>obx_updated_at := t\<rparr>) (assigned scrub_outbox_event) (subject_outbox_event m ids)
        (outbox_events d) (outbox_events d')"
    "rows_changed (\<lambda>t x. x\<lparr>inv_updated_at := t\<rparr>) (assigned (anonymise_invite u m now)) (subject_invite u m)
        (invites d) (invites d')"
    "rows_changed (\<lambda>t x. x\<lparr>stf_updated_at := t\<rparr>) (assigned (minimise_platform_staff_row u)) (staff_refers_to u)
        (staff_rows d) (staff_rows d')"
    "rows_changed (\<lambda>t x. x\<lparr>art_updated_at := t\<rparr>) (assigned (minimise_export_artifact_row u)) (artifact_refers_to u)
        (artifacts_of d) (artifacts_of d')"
    "rows_changed (\<lambda>t x. x\<lparr>pau_updated_at := t\<rparr>) (assigned clear_authorization_source) (\<lambda>a. pau_subject a = u)
        (authorizations (privacy d)) (authorizations (privacy d'))"
    "rows_changed (\<lambda>t x. x\<lparr>pna_updated_at := t\<rparr>) (assigned clear_notice_source) (\<lambda>x. pna_subject x = u)
        (notices (privacy d)) (notices (privacy d'))"
    "rows_changed (\<lambda>t x. x\<lparr>usr_updated_at := t\<rparr>) (assigned anonymise_subject_profile) (\<lambda>x. usr_id x = u)
        (users d) (users d')"
    "rows_changed (\<lambda>t x. x\<lparr>dsr_updated_at := t\<rparr>) (assigned (minimise_dsr_row u)) (dsr_refers_to u)
        (requests_of d) (requests_of d')"
  using assms by (simp_all add: erased_tables_def Let_def)

lemma erased_user:
  assumes "erased_tables u s ids now d d'" and "x \<in> set (users d')"
  shows "usr_id x = u \<longrightarrow> external_auth_id x = erased_external_auth_id u \<and> usr_email x = None \<and>
    \<not> email_verified x \<and> first_name x = None \<and> last_name x = None \<and> usr_suspended_reason x = None"
  by (rule rows_changed_all [OF erased_tablesD(8) [OF assms(1)] assms(2)])
    (auto simp: assigned_eq anonymise_subject_profile_def)

lemma erased_audit:
  assumes "erased_tables u s ids now d d'" and "usr_id s = u" and "e \<in> set (audit_events d')"
  shows "aud_actor_user_id e \<noteq> Some u \<and>
    (aud_target_type e \<in> {TARGET_USER, TARGET_PRIVACY_CONSENT, TARGET_PRIVACY_NOTICE} \<longrightarrow> aud_target_id e \<noteq> Some u)"
  by (rule rows_changed_all [OF erased_tablesD(1) [OF assms(1)] assms(3)])
    (use assms(2) in \<open>auto simp: assigned_eq minimise_audit_event_def subject_audit_event_def is_subject_target_def
      target_snapshot_def Let_def\<close>)

lemma erased_invite:
  assumes "erased_tables u s ids now d d'" and "v \<in> set (invites d')"
  shows "inv_revoked_by_user_id v \<noteq> Some u \<and>
    (normalise_optional_email (usr_email s) = Some (sql_email (inv_email v)) \<longrightarrow> is_scrubbed_invite v)"
proof (rule rows_changed_all [OF erased_tablesD(3) [OF assms(1)] assms(2)])
  let ?m = "normalise_optional_email (usr_email s)"
  fix v
  have match: "invite_email_matches_subject ?m v" if "?m = Some (sql_email (inv_email v))"
    using that sql_email_matches [OF that refl] by (simp add: invite_email_matches_subject_def)
  have "is_scrubbed_invite (assigned (anonymise_invite u ?m now) v) \<or>
      inv_email (assigned (anonymise_invite u ?m now) v) = inv_email v \<and> \<not> invite_email_matches_subject ?m v"
    by (auto simp: assigned_eq anonymise_invite_def is_scrubbed_invite_def suffix_scrubbed_email prefix_scrubbed_hash)
  moreover have "inv_revoked_by_user_id (assigned (anonymise_invite u ?m now) v) \<noteq> Some u"
    by (simp add: assigned_eq anonymise_invite_def)
  ultimately show "inv_revoked_by_user_id (assigned (anonymise_invite u ?m now) v) \<noteq> Some u \<and>
      (?m = Some (sql_email (inv_email (assigned (anonymise_invite u ?m now) v))) \<longrightarrow>
       is_scrubbed_invite (assigned (anonymise_invite u ?m now) v))"
    using match by auto
qed (auto simp: is_scrubbed_invite_def subject_invite_def split: option.splits)

lemma erased_outbox:
  assumes "erased_tables u s ids now d d'" and "e \<in> set (outbox_events d')"
  shows "payload_email (obx_payload_json e) = Some p \<longrightarrow> normalise_optional_email (usr_email s) \<noteq> Some (sql_email p)"
  by (rule rows_changed_all [OF erased_tablesD(2) [OF assms(1)] assms(2)])
    (auto simp: assigned_eq scrub_outbox_event_def subject_outbox_event_def payload_email_scrubbed split: option.splits)

lemma erased_staff:
  assumes "erased_tables u s ids now d d'" and "x \<in> set (staff_rows d')"
  shows "stf_created_by_user_id x \<noteq> Some u \<and> (stf_user_id x = u \<longrightarrow> stf_suspended_reason x = None)"
  by (rule rows_changed_all [OF erased_tablesD(4) [OF assms(1)] assms(2)])
    (auto simp: assigned_eq minimise_platform_staff_row_def staff_refers_to_def)

lemma erased_artifact:
  assumes "erased_tables u s ids now d d'" and "a \<in> set (artifacts_of d')"
  shows "\<not> artifact_refers_to u a"
  by (rule rows_changed_all [OF erased_tablesD(5) [OF assms(1)] assms(2)])
    (auto simp: assigned_eq minimise_export_artifact_row_def artifact_refers_to_def)

lemma erased_request:
  assumes "erased_tables u s ids now d d'" and "r \<in> set (requests_of d')"
  shows "\<not> dsr_refers_to u r"
  by (rule rows_changed_all [OF erased_tablesD(9) [OF assms(1)] assms(2)])
    (auto simp: assigned_eq minimise_dsr_row_def dsr_refers_to_def)

lemma erased_sources:
  assumes "erased_tables u s ids now d d'"
  shows "(\<forall>a\<in>set (authorizations (privacy d')). pau_subject a = u \<longrightarrow> pau_source a = None) \<and>
    (\<forall>n\<in>set (notices (privacy d')). pna_subject n = u \<longrightarrow> pna_source n = None)"
proof (intro conjI ballI)
  fix a assume "a \<in> set (authorizations (privacy d'))"
  then show "pau_subject a = u \<longrightarrow> pau_source a = None"
    by (rule rows_changed_all [OF erased_tablesD(6) [OF assms]]) (auto simp: assigned_eq clear_authorization_source_def)
next
  fix n assume "n \<in> set (notices (privacy d'))"
  then show "pna_subject n = u \<longrightarrow> pna_source n = None"
    by (rule rows_changed_all [OF erased_tablesD(7) [OF assms]]) (auto simp: assigned_eq clear_notice_source_def)
qed

subsection \<open>The orchestrator\<close>

lemma dsr_get_by_id_eq:
  assumes "integrity (db w)"
  shows "dsr_get_by_id i w = (Inr (find (\<lambda>r. dsr_id r = i) (requests_of (db w))), w)"
  unfolding dsr_get_by_id_def
  by (rule query_unique [where q = "\<lambda>_. True"]) (use dsr_rows.key_unique [OF assms] in simp_all)

lemma dsr_save_run:
  assumes "dsr_save r f w = (Inr r', w')" and "integrity (db w)"
  obtains n g where "w' = w\<lparr>clock_pos := n, db := requests_table (update_where (\<lambda>x. dsr_id x = dsr_id r) g) (db w)\<rparr>"
    "integrity (db w')" "r' = g r" "g = (\<lambda>x. x) \<and> f r = r \<or> (\<exists>t. g = (\<lambda>x. (f x)\<lparr>dsr_updated_at := t\<rparr>))"
proof (cases "f r = r")
  case True
  have "requests_table (update_where (\<lambda>x. dsr_id x = dsr_id r) (\<lambda>x. x)) (db w) = db w"
    using dsr_rows.put_const [of "update_where (\<lambda>x. dsr_id x = dsr_id r) (\<lambda>x. x)" "db w"] dsr_rows.put_rows [of "db w"]
    by (simp add: update_where_def)
  with True assms that [of "\<lambda>x. x" "clock_pos w"] show thesis by (auto simp: dsr_save_def run_rules)
next
  case False
  with assms that show thesis by (auto simp: dsr_save_def run_rules Let_def)
qed

text \<open>\<open>try: async with session.begin_nested(): m  except Exception\<close>, with the outcome as a value.\<close>

lemma try_nested_run:
  fixes g :: "app_error \<Rightarrow> 'b"
  assumes "try_except (bind (begin_nested m) (\<lambda>x. ret (Inr x))) (\<lambda>_. True) (\<lambda>e. ret (Inl (g e))) w = (Inr y, w')"
  shows "(\<exists>x. y = Inr x \<and> m w = (Inr x, w')) \<or>
    (\<exists>e w1. y = Inl (g e) \<and> m w = (Inl e, w1) \<and> w' = w1\<lparr>db := db w\<rparr>)"
  using assms by (auto simp: try_except_def bind_def begin_nested_def ret_def split: prod.splits sum.splits)

lemma lock_and_validate_request_run:
  assumes "lock_and_validate_request i w = (Inr r, w')" and "integrity (db w)"
  shows "w' = w \<and> find (\<lambda>r. dsr_id r = i) (requests_of (db w)) = Some r \<and> dsr_id r = i \<and> dsr_request_type r = DSR_ERASE \<and>
    (dsr_execution_status r = EXECUTION_READY \<or>
     dsr_status r = DSR_APPROVED \<and> dsr_execution_status r \<noteq> EXECUTION_PROCESSING \<and> dsr_subject r \<noteq> None)"
  using assms
  by (auto simp: lock_and_validate_request_def run_rules dsr_get_by_id_eq find_Some_iff split: option.splits)

lemma build_snapshot_run:
  assumes "build_snapshot r w = (Inr snap, w')" and "integrity (db w)"
  obtains u s where "dsr_subject r = Some u" "find (\<lambda>x. usr_id x = u) (users (db w)) = Some s" "w' = w"
    "fst snap = normalise_optional_email (usr_email s)"
  using assms
  by (auto simp: build_snapshot_def erasure_subject_user_id_def lock_subject_def run_rules user_get_by_id_eq Let_def
      split: option.splits)

lemma execute_core_erasure_run:
  assumes run: "execute_core_erasure i now w = (Inr res, w')" and I: "integrity (db w)"
    and fresh: "orc_status res \<noteq> ERASURE_ALREADY_COMPLETED"
  obtains r u p w1 y w2 where "find (\<lambda>r. dsr_id r = i) (requests_of (db w)) = Some r" "dsr_id r = i"
    "dsr_status r = DSR_APPROVED" "dsr_request_type r = DSR_ERASE" "dsr_execution_status r \<noteq> EXECUTION_PROCESSING"
    "dsr_subject r = Some u" "dsr_save r (erasure_processing now) w = (Inr p, w1)" "attempt_erasure p u now w1 = (Inr y, w2)"
    "conclude_erasure p u now y w2 = (Inr res, w')"
  using assms
  by (fastforce simp: execute_core_erasure_def run_rules erasure_subject_user_id_def
      dest!: lock_and_validate_request_run [OF _ I] split: option.splits)

lemma attempt_erasure_Inr:
  assumes "attempt_erasure p u now w = (Inr (Inr x), w')" and I: "integrity (db w)" and u: "dsr_subject p = Some u"
  obtains s ids where "find (\<lambda>x. usr_id x = u) (users (db w)) = Some s" "usr_id s = u" "integrity (db w')"
    "erased_tables u s ids now (db w) (db w')"
proof -
  from try_nested_run [OF assms(1) [unfolded attempt_erasure_def]]
  obtain snap w1 where b: "build_snapshot p w = (Inr snap, w1)" and r: "run_core_providers p snap u now w1 = (Inr x, w')"
    by (auto simp: run_rules)
  from b I obtain s where s: "find (\<lambda>x. usr_id x = u) (users (db w)) = Some s" "w1 = w"
    "fst snap = normalise_optional_email (usr_email s)"
    by (rule build_snapshot_run) (use u in simp)
  from r have "run_core_providers p (fst snap, snd snap) u now w = (Inr x, w')" using s(2) by simp
  from run_core_providers_run [OF this I u s(1,3)] that [OF s(1)] s(1) show thesis by (auto simp: find_Some_iff)
qed

lemma attempt_erasure_Inl:
  "attempt_erasure p u now w = (Inr (Inl reason), w') \<Longrightarrow> db w' = db w"
  unfolding attempt_erasure_def by (auto dest!: try_nested_run)

lemma processing_saved:
  assumes "dsr_save r (erasure_processing now) w = (Inr p, w')" and "integrity (db w)"
  shows "integrity (db w') \<and> dsr_subject p = dsr_subject r \<and> dsr_id p = dsr_id r \<and> users (db w') = users (db w)"
  using assms by (rule dsr_save_run) (auto simp: erasure_processing_def)

end
