(* ===== verification/Invite_Delivery.thy ===== *)
theory Invite_Delivery
  imports Outbox_Store
begin

section \<open>Delivery of invite tokens\<close>

text \<open>
  \<^verbatim>\<open>invites/services/delivery.py\<close>: the delivery settings and their checks, which sink an
  environment may use, the message, and the order of the steps of the SMTP session that sends
  it. Carrying the steps out is the business of \<open>smtplib\<close>; here they are a list.

  \<open>urlsplit\<close>, \<open>quote\<close>, \<open>str.replace\<close> and \<open>datetime.isoformat\<close> are
  modelled for the arguments the code gives them; \<open>urlsplit\<close> without the check of a
  bracketed host.
\<close>

subsection \<open>Python's text functions\<close>

text \<open>\<open>s.replace(old, new)\<close> with \<open>old\<close> not empty.\<close>

function replace_all :: "string \<Rightarrow> string \<Rightarrow> string \<Rightarrow> string" where
  "replace_all old new [] = []"
| "replace_all old new (c # cs) =
     (if old \<noteq> [] \<and> prefix old (c # cs)
      then new @ replace_all old new (drop (length old) (c # cs))
      else c # replace_all old new cs)"
  by pat_completeness auto
termination replace_all
  by (relation "measure (\<lambda>(_, _, s). length s)") (auto simp: neq_Nil_conv)

text \<open>\<open>quote(s, safe='')\<close>: the UTF-8 bytes of the characters that are not always safe.\<close>

definition always_safe :: "char \<Rightarrow> bool" where
  "always_safe c = (let n = (of_char c :: nat) in
     65 \<le> n \<and> n \<le> 90 \<or> 97 \<le> n \<and> n \<le> 122 \<or> 48 \<le> n \<and> n \<le> 57 \<or> n = 95 \<or> n = 46 \<or> n = 45 \<or> n = 126)"

definition upper_hex :: "nat \<Rightarrow> char" where
  "upper_hex n = char_of (if n < 10 then 48 + n else 55 + n)"

definition percent :: "nat \<Rightarrow> string" where
  "percent b = [CHR ''%'', upper_hex (b div 16), upper_hex (b mod 16)]"

definition utf8_bytes :: "char \<Rightarrow> nat list" where
  "utf8_bytes c = (let n = of_char c in if n < 128 then [n] else [192 + n div 64, 128 + n mod 64])"

definition quote_char :: "char \<Rightarrow> string" where
  "quote_char c = (if always_safe c then [c] else concat (map percent (utf8_bytes c)))"

definition quote :: "string \<Rightarrow> string" where
  "quote s = concat (map quote_char s)"

text \<open>
  \<open>urlsplit(url).scheme\<close> and whether there is a \<open>netloc\<close>: the part before the first colon
  when it is a scheme name, and what follows two slashes.
\<close>

definition ascii_alpha :: "char \<Rightarrow> bool" where
  "ascii_alpha c = (let n = (of_char c :: nat) in 65 \<le> n \<and> n \<le> 90 \<or> 97 \<le> n \<and> n \<le> 122)"

definition scheme_char :: "char \<Rightarrow> bool" where
  "scheme_char c = (ascii_alpha c \<or> (let n = (of_char c :: nat) in 48 \<le> n \<and> n \<le> 57 \<or> n = 43 \<or> n = 45 \<or> n = 46))"

definition url_clean :: "string \<Rightarrow> string" where
  "url_clean url = filter (\<lambda>c. c \<noteq> CHR 0x09 \<and> c \<noteq> CHR 0x0A \<and> c \<noteq> CHR 0x0D)
     (dropWhile (\<lambda>c. (of_char c :: nat) \<le> 32) url)"

definition url_scheme_rest :: "string \<Rightarrow> string \<times> string" where
  "url_scheme_rest url0 =
     (let url = url_clean url0;
          before = takeWhile (\<lambda>c. c \<noteq> CHR '':'') url
      in if before \<noteq> url \<and> before \<noteq> [] \<and> ascii_alpha (hd before) \<and> list_all scheme_char before
         then (lower before, drop (Suc (length before)) url)
         else ([], url))"

definition url_scheme :: "string \<Rightarrow> string" where
  "url_scheme url = fst (url_scheme_rest url)"

definition url_netloc :: "string \<Rightarrow> string" where
  "url_netloc url =
     (let rest = snd (url_scheme_rest url)
      in if prefix ''//'' rest
         then takeWhile (\<lambda>c. c \<noteq> CHR ''/'' \<and> c \<noteq> CHR ''?'' \<and> c \<noteq> CHR ''#'') (drop 2 rest)
         else [])"

text \<open>\<open>isoformat\<close> of a UTC time given in microseconds since the epoch.\<close>

definition civil_date :: "int \<Rightarrow> int \<times> int \<times> int" where
  "civil_date days =
     (let z = days + 719468;
          era = z div 146097;
          doe = z mod 146097;
          yoe = (doe - doe div 1460 + doe div 36524 - doe div 146096) div 365;
          doy = doe - (365 * yoe + yoe div 4 - yoe div 100);
          mp = (5 * doy + 2) div 153;
          d = doy - (153 * mp + 2) div 5 + 1;
          m = (if mp < 10 then mp + 3 else mp - 9)
      in (yoe + era * 400 + (if m \<le> 2 then 1 else 0), m, d))"

definition padded :: "nat \<Rightarrow> int \<Rightarrow> string" where
  "padded k n = (let s = dec_str n in replicate (k - length s) CHR ''0'' @ s)"

definition isoformat :: "int \<Rightarrow> string" where
  "isoformat t =
     (let (y, m, d) = civil_date (t div 86400000000);
          us = t mod 86400000000;
          s = us div 1000000;
          frac = us mod 1000000
      in padded 4 y @ ''-'' @ padded 2 m @ ''-'' @ padded 2 d @ ''T'' @
         padded 2 (s div 3600) @ '':'' @ padded 2 (s div 60 mod 60) @ '':'' @ padded 2 (s mod 60) @
         (if frac = 0 then [] else ''.'' @ padded 6 frac) @ ''+00:00'')"

subsection \<open>Settings\<close>

record delivery_settings =
  provider :: string
  from_email :: "string option"
  subject :: string
  accept_url_template :: "string option"
  smtp_host :: "string option"
  smtp_port :: int
  smtp_username :: "string option"
  smtp_password :: "string option"
  smtp_use_tls :: bool
  smtp_start_tls :: bool

text \<open>\<open>InviteDeliveryConfigurationError\<close>, or an exception of \<open>smtplib\<close> by its type's name.\<close>

datatype delivery_error = InviteDeliveryConfigurationError string | TransportError string

fun error_type_name :: "delivery_error \<Rightarrow> string" where
  "error_type_name (InviteDeliveryConfigurationError _) = ''InviteDeliveryConfigurationError''"
| "error_type_name (TransportError name) = name"

definition normalise_optional_text :: "string option \<Rightarrow> string option" where
  "normalise_optional_text value = (case value of
     None \<Rightarrow> None | Some s \<Rightarrow> (let n = strip s in if n = [] then None else Some n))"

definition validate_subject :: "string \<Rightarrow> app_error + string" where
  "validate_subject value =
     (if strip value = [] then Inl (ValueError ''INVITE_DELIVERY__SUBJECT must not be blank'')
      else Inr (strip value))"

definition validate_accept_url_template :: "string option \<Rightarrow> app_error + string option" where
  "validate_accept_url_template value = (case value of
     None \<Rightarrow> Inr None
   | Some url \<Rightarrow>
       if \<not> contains_str ''{token}'' url
       then Inl (ValueError ''INVITE_DELIVERY__ACCEPT_URL_TEMPLATE must contain {token}'')
       else (let parsed = replace_all ''{token}'' ''token'' url in
         if url_scheme parsed \<notin> {''http'', ''https''} \<or> url_netloc parsed = []
         then Inl (ValueError ''INVITE_DELIVERY__ACCEPT_URL_TEMPLATE must be an http(s) URL'')
         else Inr (Some url)))"

definition validate_smtp_provider :: "delivery_settings \<Rightarrow> app_error + delivery_settings" where
  "validate_smtp_provider s =
     (if provider s \<noteq> ''smtp'' then Inr s
      else
        let missing = (if from_email s = None then [''INVITE_DELIVERY__FROM_EMAIL''] else []) @
              (if accept_url_template s = None then [''INVITE_DELIVERY__ACCEPT_URL_TEMPLATE''] else []) @
              (if smtp_host s = None then [''INVITE_DELIVERY__SMTP_HOST''] else [])
        in if missing \<noteq> []
           then Inl (ValueError (''INVITE_DELIVERY__PROVIDER=smtp requires: '' @ join '', '' missing))
           else if smtp_use_tls s \<and> smtp_start_tls s
           then Inl (ValueError ''INVITE_DELIVERY__SMTP_USE_TLS and INVITE_DELIVERY__SMTP_START_TLS cannot both be true'')
           else if (smtp_username s \<noteq> None) \<noteq> (smtp_password s \<noteq> None)
           then Inl (ValueError ''INVITE_DELIVERY__SMTP_USERNAME and INVITE_DELIVERY__SMTP_PASSWORD must be set together'')
           else Inr s)"

subsection \<open>Sinks\<close>

datatype token_sink = NoOpInviteTokenSink | SmtpInviteTokenSink delivery_settings

definition ensure_noop_allowed :: "string \<Rightarrow> bool \<Rightarrow> delivery_error + unit" where
  "ensure_noop_allowed environment enabled =
     (if \<not> enabled \<or> environment \<notin> {''dev'', ''staging'', ''prod''} then Inr ()
      else Inl (InviteDeliveryConfigurationError
        ''INVITE_DELIVERY__PROVIDER=smtp is required when OUTBOX__INVITE_DELIVERY_ENABLED=true in dev/staging/prod''))"

definition ensure_protected_smtp_url_policy :: "delivery_settings \<Rightarrow> string \<Rightarrow> delivery_error + unit" where
  "ensure_protected_smtp_url_policy s environment =
     (if environment \<notin> {''staging'', ''prod''} then Inr ()
      else case accept_url_template s of
        None \<Rightarrow> Inl (InviteDeliveryConfigurationError ''SMTP invite accept URL is missing'')
      | Some url \<Rightarrow>
          if url_scheme (replace_all ''{token}'' ''token'' url) \<noteq> ''https''
          then Inl (InviteDeliveryConfigurationError
            (''INVITE_DELIVERY__ACCEPT_URL_TEMPLATE must use https:// in '' @ environment))
          else if \<not> (smtp_use_tls s \<or> smtp_start_tls s)
          then Inl (InviteDeliveryConfigurationError
            (''INVITE_DELIVERY__SMTP_USE_TLS=true or INVITE_DELIVERY__SMTP_START_TLS=true is required in '' @ environment))
          else Inr ())"

definition get_invite_token_sink :: "outbox_settings \<Rightarrow> delivery_settings \<Rightarrow> delivery_error + token_sink" where
  "get_invite_token_sink cfg s =
     (if \<not> invite_delivery_enabled cfg then Inr NoOpInviteTokenSink
      else if provider s = ''smtp''
      then (case ensure_protected_smtp_url_policy s (app_environment cfg) of
              Inl e \<Rightarrow> Inl e | Inr _ \<Rightarrow> Inr (SmtpInviteTokenSink s))
      else (case ensure_noop_allowed (app_environment cfg) (invite_delivery_enabled cfg) of
              Inl e \<Rightarrow> Inl e | Inr _ \<Rightarrow> Inr NoOpInviteTokenSink))"

subsection \<open>The message\<close>

record email_message =
  msg_from :: string
  msg_to :: string
  msg_subject :: string
  msg_content :: string

definition invite_email_body :: "invite \<Rightarrow> string \<Rightarrow> string" where
  "invite_email_body v accept_url =
     join [CHR 0x0A]
       ([''You have been invited to join an organisation.'', [],
         ''Role: '' @ role_value (inv_role v), [],
         ''Open this invitation link to accept:'', accept_url, []] @
        (case inv_expires_at v of
           None \<Rightarrow> []
         | Some t \<Rightarrow> [''This invitation expires at:'', isoformat t, []]) @
        [''If you did not expect this invitation, ignore this email.''])"

definition accept_url :: "string \<Rightarrow> string \<Rightarrow> string" where
  "accept_url template raw_token = replace_all ''{token}'' (quote raw_token) template"

definition build_invite_email_message ::
  "invite \<Rightarrow> string \<Rightarrow> delivery_settings \<Rightarrow> delivery_error + email_message" where
  "build_invite_email_message v raw_token s =
     (case (from_email s, accept_url_template s) of
        (Some from, Some template) \<Rightarrow>
          Inr \<lparr>msg_from = from, msg_to = inv_email v, msg_subject = subject s,
               msg_content = invite_email_body v (accept_url template raw_token)\<rparr>
      | _ \<Rightarrow> Inl (InviteDeliveryConfigurationError ''SMTP invite delivery is incomplete''))"

subsection \<open>The SMTP session\<close>

datatype smtp_step =
    Connect_SSL string int
  | Connect string int
  | Start_TLS
  | Login string string
  | Send_Message email_message

definition authenticate_and_send :: "email_message \<Rightarrow> delivery_settings \<Rightarrow> smtp_step list" where
  "authenticate_and_send m s =
     (case (smtp_username s, smtp_password s) of
        (Some u, Some p) \<Rightarrow> [Login u p, Send_Message m]
      | _ \<Rightarrow> [Send_Message m])"

definition send_smtp_message :: "email_message \<Rightarrow> delivery_settings \<Rightarrow> delivery_error + smtp_step list" where
  "send_smtp_message m s =
     (case smtp_host s of
        None \<Rightarrow> Inl (InviteDeliveryConfigurationError ''SMTP invite delivery host is missing'')
      | Some host \<Rightarrow>
          if smtp_use_tls s
          then Inr (Connect_SSL host (smtp_port s) # authenticate_and_send m s)
          else Inr (Connect host (smtp_port s) #
            (if smtp_start_tls s then [Start_TLS] else []) @ authenticate_and_send m s))"

text \<open>\<open>sink.deliver(...)\<close> as the steps it takes.\<close>

fun deliver_steps :: "token_sink \<Rightarrow> invite \<Rightarrow> string \<Rightarrow> delivery_error + smtp_step list" where
  "deliver_steps NoOpInviteTokenSink v raw_token = Inr []"
| "deliver_steps (SmtpInviteTokenSink s) v raw_token =
     (case build_invite_email_message v raw_token s of
        Inl e \<Rightarrow> Inl e | Inr m \<Rightarrow> send_smtp_message m s)"

text \<open>\<open>smtplib\<close> carries the steps out; \<open>Some name\<close> is the exception it ends with.\<close>

definition deliver_invite ::
  "(smtp_step list \<Rightarrow> string option app) \<Rightarrow> outbox_settings \<Rightarrow> delivery_settings \<Rightarrow>
   invite \<Rightarrow> string \<Rightarrow> string option app" where
  "deliver_invite smtp cfg s v raw_token =
     (case get_invite_token_sink cfg s of
        Inl e \<Rightarrow> ret (Some (error_type_name e))
      | Inr sink \<Rightarrow>
          (case deliver_steps sink v raw_token of
             Inl e \<Rightarrow> ret (Some (error_type_name e))
           | Inr [] \<Rightarrow> ret None
           | Inr steps \<Rightarrow> smtp steps))"

subsection \<open>Links\<close>

lemma contains_str_iff: "contains_str pat s \<longleftrightarrow> (\<exists>a b. s = a @ pat @ b)"
  unfolding contains_str_def list_ex_iff by (fastforce simp: suffix_def prefix_def)

lemma contains_str_ConsI: "contains_str pat s \<Longrightarrow> contains_str pat (c # s)"
  unfolding contains_str_iff by (metis append_Cons)

lemma contains_str_Cons:
  "contains_str pat (c # cs) \<longleftrightarrow> prefix pat (c # cs) \<or> contains_str pat cs"
  by (auto simp: contains_str_def)

text \<open>Every occurrence is replaced.\<close>

lemma replace_all_contains:
  assumes "old \<noteq> []" and "contains_str old s"
  shows "contains_str new (replace_all old new s)"
  using assms
proof (induction old new s rule: replace_all.induct)
  case (2 old new c cs)
  show ?case
  proof (cases "prefix old (c # cs)")
    case True
    with 2(3) show ?thesis by (simp add: contains_str_iff) (metis append_Nil)
  next
    case False
    with 2 show ?thesis by (auto simp: contains_str_Cons intro: contains_str_ConsI)
  qed
qed (simp add: contains_str_def)

text \<open>The inverse of \<open>quote\<close>: percent-decoding into bytes, then UTF-8.\<close>

definition hex_digit_value :: "char \<Rightarrow> nat" where
  "hex_digit_value c = (let n = of_char c in if n < 65 then n - 48 else n - 55)"

fun unpercent :: "string \<Rightarrow> nat list" where
  "unpercent (c # a # b # s) =
     (if c = CHR ''%'' then (hex_digit_value a * 16 + hex_digit_value b) # unpercent s
      else of_char c # unpercent (a # b # s))"
| "unpercent (c # s) = of_char c # unpercent s"
| "unpercent [] = []"

fun utf8_decode :: "nat list \<Rightarrow> string" where
  "utf8_decode [] = []"
| "utf8_decode [b] = [char_of b]"
| "utf8_decode (b # c # bs) =
     (if b < 128 then char_of b # utf8_decode (c # bs)
      else char_of ((b - 192) * 64 + (c - 128)) # utf8_decode bs)"

definition unquote :: "string \<Rightarrow> string" where
  "unquote s = utf8_decode (unpercent s)"

lemma hex_digit_value_upper_hex: "n < 16 \<Longrightarrow> hex_digit_value (upper_hex n) = n"
  by (simp add: hex_digit_value_def upper_hex_def Let_def)

lemma unpercent_safe: "c \<noteq> CHR ''%'' \<Longrightarrow> unpercent (c # s) = of_char c # unpercent s"
  by (cases s; cases "tl s") simp_all

lemma unpercent_percent: "b < 256 \<Longrightarrow> unpercent (percent b @ s) = b # unpercent s"
  by (simp add: percent_def hex_digit_value_upper_hex)

lemma unpercent_bytes:
  "list_all (\<lambda>b. b < 256) bs \<Longrightarrow> unpercent (concat (map percent bs) @ s) = bs @ unpercent s"
  by (induction bs) (simp_all add: unpercent_percent)

lemma always_safe_ascii: "always_safe c \<Longrightarrow> c \<noteq> CHR ''%'' \<and> (of_char c :: nat) < 128"
  by (auto simp: always_safe_def Let_def)

lemma utf8_bytes_less: "list_all (\<lambda>b. b < 256) (utf8_bytes c)"
proof -
  have "(of_char c :: nat) div 64 < 4" using of_char_less_256 [of c] by (simp add: div_less_iff_less_mult)
  then show ?thesis by (auto simp: utf8_bytes_def Let_def)
qed

lemma unpercent_quote_char: "unpercent (quote_char c @ s) = utf8_bytes c @ unpercent s"
  using always_safe_ascii [of c] unpercent_bytes [OF utf8_bytes_less, of c s]
  by (auto simp: quote_char_def unpercent_safe) (simp add: utf8_bytes_def)

lemma unpercent_quote: "unpercent (quote s) = concat (map utf8_bytes s)"
  by (induction s) (simp_all add: quote_def unpercent_quote_char)

lemma utf8_decode_bytes: "utf8_decode (utf8_bytes c @ bs) = c # utf8_decode bs"
proof (cases "(of_char c :: nat) < 128")
  case True
  then show ?thesis by (cases bs) (simp_all add: utf8_bytes_def)
next
  case False
  have "(of_char c :: nat) div 64 * 64 + of_char c mod 64 = of_char c" by simp
  with False show ?thesis by (simp add: utf8_bytes_def Let_def)
qed

lemma unquote_quote: "unquote (quote s) = s"
  by (induction s) (simp_all add: unquote_def unpercent_quote utf8_decode_bytes)

text \<open>The tokens of \<open>token_urlsafe\<close> need no quoting.\<close>

lemma quote_safe: "list_all always_safe s \<Longrightarrow> quote s = s"
  by (induction s) (simp_all add: quote_def quote_char_def)

subsection \<open>Transport\<close>

text \<open>Whether credentials or a message cross an unencrypted connection.\<close>

fun sends_in_clear :: "bool \<Rightarrow> smtp_step list \<Rightarrow> bool" where
  "sends_in_clear enc [] = False"
| "sends_in_clear enc (Connect_SSL h p # steps) = sends_in_clear True steps"
| "sends_in_clear enc (Connect h p # steps) = sends_in_clear False steps"
| "sends_in_clear enc (Start_TLS # steps) = sends_in_clear True steps"
| "sends_in_clear enc (Login u p # steps) = (\<not> enc \<or> sends_in_clear enc steps)"
| "sends_in_clear enc (Send_Message m # steps) = (\<not> enc \<or> sends_in_clear enc steps)"

lemma send_smtp_message_clear:
  "send_smtp_message m s = Inr steps \<Longrightarrow> sends_in_clear False steps \<longleftrightarrow> \<not> (smtp_use_tls s \<or> smtp_start_tls s)"
  by (auto simp: send_smtp_message_def authenticate_and_send_def split: option.splits if_splits)

lemma send_smtp_message_steps:
  "send_smtp_message m s = Inr steps \<Longrightarrow> Send_Message m' \<in> set steps \<longleftrightarrow> m' = m"
  by (auto simp: send_smtp_message_def authenticate_and_send_def split: option.splits if_splits)

lemma protected_policy:
  "ensure_protected_smtp_url_policy s env = Inr () \<Longrightarrow> env = ''staging'' \<or> env = ''prod'' \<Longrightarrow>
     (smtp_use_tls s \<or> smtp_start_tls s) \<and>
     (\<exists>url. accept_url_template s = Some url \<and> url_scheme (replace_all ''{token}'' ''token'' url) = ''https'')"
  by (auto simp: ensure_protected_smtp_url_policy_def split: option.splits if_splits)

end
