(* ===== verification/Outbox_Workers.thy ===== *)
theory Outbox_Workers
  imports Tenant_Invariant Invite_Delivery
begin

section \<open>Outbox: dispatcher and worker\<close>

text \<open>
  \<^verbatim>\<open>outbox/dispatcher.py\<close> and \<^verbatim>\<open>outbox/workers.py\<close>. The dispatcher recovers events
  whose worker died, claims due events and hands their identifiers to the broker; a worker
  reserves an event, decides what to do with it in one transaction, delivers outside any
  transaction, and records the outcome in another one if the reservation is still its own.

  The broker is a parameter: \<open>send i\<close> is \<open>process_outbox_event.send(str(i))\<close>, and \<open>Some name\<close> is
  the name of the exception it raised. So is the delivery, \<open>deliver v token\<close>
  (\<open>deliver_invite\<close> of the delivery theory is one).
\<close>

subsection \<open>Dispatcher\<close>

definition recover_stale :: "outbox_settings \<Rightarrow> nat app" where
  "recover_stale cfg =
     bind (session_begin (recover_stale_processing_events (stale_processing_timeout cfg)
       (recovery_batch_size cfg))) (\<lambda>recovered. ret (length recovered))"

text \<open>The loop over the claimed events; it returns how many it enqueued.\<close>

fun enqueue_events :: "(uuid \<Rightarrow> string option app) \<Rightarrow> outbox_event list \<Rightarrow> nat app" where
  "enqueue_events send [] = ret 0"
| "enqueue_events send (e # es) =
     bind (send (obx_id e)) (\<lambda>failure.
     case failure of
       None \<Rightarrow> bind (enqueue_events send es) (\<lambda>n. ret (n + 1))
     | Some name \<Rightarrow>
         bind (session_begin (bind (outbox_get_by_id (obx_id e)) (\<lambda>persisted.
           case persisted of
             None \<Rightarrow> ret ()
           | Some p \<Rightarrow> release_processing_event_for_retry p (''enqueue_failed:'' @ name)))) (\<lambda>_.
         enqueue_events send es))"

definition claim_and_enqueue_due_outbox_events :: "(uuid \<Rightarrow> string option app) \<Rightarrow> nat \<Rightarrow> nat app" where
  "claim_and_enqueue_due_outbox_events send limit =
     bind (session_begin (claim_due_events limit)) (enqueue_events send)"

text \<open>One turn of \<open>run_dispatcher_loop\<close>.\<close>

definition dispatcher_tick :: "(uuid \<Rightarrow> string option app) \<Rightarrow> outbox_settings \<Rightarrow> nat \<Rightarrow> (nat \<times> nat) app" where
  "dispatcher_tick send cfg batch_size =
     bind (recover_stale cfg) (\<lambda>recovered.
     bind (claim_and_enqueue_due_outbox_events send batch_size) (\<lambda>enqueued.
     ret (recovered, enqueued)))"

subsection \<open>Worker\<close>

record delivery_context =
  delivery_claim_token :: "string option"
  raw_token :: "string option"

text \<open>What the worker does with the invite a payload names.\<close>

definition claimed_invite_context ::
  "externals \<Rightarrow> outbox_settings \<Rightarrow> delivery_context \<Rightarrow> invite_outbox_payload \<Rightarrow>
   (string \<times> delivery_context \<times> invite option) app" where
  "claimed_invite_context X cfg context payload =
     bind (bind (query (\<lambda>d. filter (\<lambda>v. inv_id v = payload_invite_id payload) (invites d)))
       scalar_one_or_none) (\<lambda>row.
     case row of
       None \<Rightarrow> ret (''invite_not_found'', context, None)
     | Some v \<Rightarrow>
     if inv_status v \<noteq> INVITE_PENDING then ret (''mark_processed'', context, None)
     else
     bind utcnow (\<lambda>now.
     bind (mark_pending_invite_expired_by_id (inv_id v) (inv_organisation_id v) now) (\<lambda>expired.
     if expired \<noteq> None then ret (''mark_processed'', context, None)
     else if \<not> invite_delivery_enabled cfg then ret (''mark_processed'', context, None)
     else
     bind (lift (payload_crypto X cfg)) (\<lambda>key.
     case decrypt_token X key (payload_encrypted_raw_token payload) of
       Inl _ \<Rightarrow> ret (''outbox_payload_decryption_failed'', context, None)
     | Inr raw \<Rightarrow>
         if sha256_hex X raw \<noteq> inv_token_hash v then ret (''token_hash_mismatch'', context, None)
         else ret (''deliver'', context\<lparr>raw_token := Some raw\<rparr>, Some v)))))"

text \<open>The body of the worker's first transaction: the action, its context and the invite.\<close>

definition claimed_event_context_in_transaction ::
  "externals \<Rightarrow> schema_types \<Rightarrow> outbox_settings \<Rightarrow> uuid \<Rightarrow> string \<Rightarrow>
   (string \<times> delivery_context \<times> invite option) app" where
  "claimed_event_context_in_transaction X S cfg i token =
     (let context = \<lparr>delivery_claim_token = Some token, raw_token = None\<rparr>;
          empty = \<lparr>delivery_claim_token = None, raw_token = None\<rparr>
      in
      bind (claim_processing_event_for_delivery i token) (\<lambda>found.
      case found of
        None \<Rightarrow> ret (''skip'', empty, None)
      | Some e \<Rightarrow>
      if obx_status e = OUTBOX_PROCESSED \<or> obx_status e = OUTBOX_FAILED then ret (''skip'', empty, None)
      else if \<not> List.member [outbox_event_type_value OUTBOX_INVITE_CREATED,
          outbox_event_type_value OUTBOX_INVITE_RESEND] (obx_event_type e)
      then ret (''mark_processed'', context, None)
      else case parse_invite_outbox_payload S (obx_payload_json e) of
        None \<Rightarrow> ret (''malformed_outbox_payload'', context, None)
      | Some payload \<Rightarrow> claimed_invite_context X cfg context payload))"

definition get_claimed_event_context ::
  "externals \<Rightarrow> schema_types \<Rightarrow> outbox_settings \<Rightarrow> uuid \<Rightarrow> (string \<times> delivery_context \<times> invite option) app" where
  "get_claimed_event_context X S cfg i =
     bind token_urlsafe (\<lambda>token.
     session_begin (claimed_event_context_in_transaction X S cfg i token))"

definition apply_result :: "uuid \<Rightarrow> string \<Rightarrow> bool \<Rightarrow> string option \<Rightarrow> unit app" where
  "apply_result i claim_token success error =
     session_begin (bind (get_delivery_claimed_event i claim_token) (\<lambda>found.
       case found of
         None \<Rightarrow> ret ()
       | Some e \<Rightarrow>
           if success then mark_processed e
           else (case error of
             None \<Rightarrow> ret ()
           | Some err \<Rightarrow> bind (mark_failed_attempt e err) (\<lambda>_. ret ()))))"

text \<open>\<open>str(context[''delivery_claim_token''])\<close>.\<close>

definition context_claim_token :: "delivery_context \<Rightarrow> string app" where
  "context_claim_token context = (case delivery_claim_token context of
     None \<Rightarrow> raise (RuntimeError ''KeyError: delivery_claim_token'') | Some t \<Rightarrow> ret t)"

definition process_outbox_event ::
  "externals \<Rightarrow> schema_types \<Rightarrow> outbox_settings \<Rightarrow> (invite \<Rightarrow> string \<Rightarrow> string option app) \<Rightarrow> uuid \<Rightarrow> unit app" where
  "process_outbox_event X S cfg deliver i =
     bind (get_claimed_event_context X S cfg i) (\<lambda>(action, context, found).
     if action = ''skip'' then ret ()
     else
     bind (context_claim_token context) (\<lambda>claim_token.
     if action = ''mark_processed'' then apply_result i claim_token True None
     else if List.member [''invite_not_found'', ''token_hash_mismatch'',
       ''outbox_payload_decryption_failed'', ''malformed_outbox_payload''] action
     then apply_result i claim_token False (Some action)
     else
     bind (case (found, raw_token context) of
             (Some v, Some raw) \<Rightarrow> deliver v raw
           | _ \<Rightarrow> ret (Some ''AttributeError'')) (\<lambda>failure.
     case failure of
       Some name \<Rightarrow> apply_result i claim_token False (Some (''delivery_failed:'' @ name))
     | None \<Rightarrow> apply_result i claim_token True None)))"

subsection \<open>The invariant\<close>

text \<open>The part of the invariant that the outbox tables do not enter.\<close>

definition tenant_rest :: "db \<Rightarrow> bool" where
  "tenant_rest d \<longleftrightarrow> tenancy d \<and> invite_roles d"

lemma saas_inv_rest: "saas_inv d \<longleftrightarrow> tenant_rest d \<and> outbox_inv d"
  by (auto simp: saas_inv_def tenant_rest_def tenant_inv_def outbox_inv_def)

lemma tenant_rest_frame [simp]:
  "tenant_rest (outbox_events_update fx d) = tenant_rest d"
  "tenant_rest (delivery_claims_update fc d) = tenant_rest d"
  "tenant_rest (audit_events_update fa d) = tenant_rest d"
  "tenant_rest (staff_rows_update fs d) = tenant_rest d"
  "tenant_rest (users_update fu d) = tenant_rest d"
  by (simp_all add: tenant_rest_def invite_roles_def)

lemma keeps_rest_flush:
  "keeps tenant_rest (flush (outbox_events_update f))"
  "keeps tenant_rest (flush (delivery_claims_update g))"
  "keeps tenant_rest (flush (\<lambda>d. outbox_events_update f (delivery_claims_update g d)))"
  by (rule keeps_flush, simp)+

lemma keeps_rest_outbox:
  "keeps tenant_rest (clear_delivery_claim i)" "keeps tenant_rest (outbox_save e f)"
  "keeps tenant_rest (outbox_get_by_id i)" "keeps tenant_rest (get_delivery_claimed_event i token)"
  "keeps tenant_rest (mark_failed_attempt e er)" "keeps tenant_rest (mark_processed e)"
  "keeps tenant_rest (claim_due_events limit)" "keeps tenant_rest (recover_stale_processing_events timeout limit)"
  "keeps tenant_rest (claim_processing_event_for_delivery i token)"
  unfolding mark_failed_attempt_def mark_processed_def claim_due_events_def recover_stale_processing_events_def
    claim_processing_event_for_delivery_def outbox_get_by_id_def get_delivery_claimed_event_def
    clear_delivery_claim_def outbox_save_def
  by (intro maintains_rules keeps_rest_flush)+

lemma commits_saas_outbox:
  assumes "keeps tenant_rest m" and "commits outbox_inv m"
  shows "commits saas_inv m"
  using assms by (auto simp: commits_def saas_inv_rest dest: maintainsD)

lemmas commits_saas_dispatcher =
  commits_saas_outbox [OF keeps_rest_outbox(8) commits_recover_stale]
  commits_saas_outbox [OF keeps_rest_outbox(7) commits_claim_due_events]
  commits_saas_outbox [OF keeps_rest_outbox(9) commits_claim_processing]

text \<open>The outcome of an attempt is written for an event that is being processed.\<close>

lemma commits_saas_release:
  "commits saas_inv (bind (outbox_get_by_id i) (\<lambda>persisted.
     case persisted of None \<Rightarrow> ret () | Some p \<Rightarrow> release_processing_event_for_retry p er))"
proof (rule commits_saas_outbox)
  show "keeps tenant_rest (bind (outbox_get_by_id i) (\<lambda>persisted.
     case persisted of None \<Rightarrow> ret () | Some p \<Rightarrow> release_processing_event_for_retry p er))"
    unfolding release_processing_event_for_retry_def by (intro maintains_rules keeps_rest_outbox)
  show "commits outbox_inv (bind (outbox_get_by_id i) (\<lambda>persisted.
     case persisted of None \<Rightarrow> ret () | Some p \<Rightarrow> release_processing_event_for_retry p er))"
  proof (rule commitsI)
    fix w x w'
    assume inv: "outbox_inv (db w)" and run: "bind (outbox_get_by_id i) (\<lambda>persisted.
      case persisted of None \<Rightarrow> ret () | Some p \<Rightarrow> release_processing_event_for_retry p er) w = (Inr x, w')"
    show "outbox_inv (db w')"
    proof (cases "find (\<lambda>e. obx_id e = i) (outbox_events (db w))")
      case None
      with run inv show ?thesis by (simp add: outbox_get_by_id_eq bind_Inr [of "query _"] query_run ret_run)
    next
      case (Some e)
      with run have "release_processing_event_for_retry e er w = (Inr x, w')"
        by (simp add: outbox_get_by_id_eq bind_Inr [of "query _"] query_run)
      with inv find_SomeD [OF Some] show ?thesis
        by (auto simp: release_processing_event_for_retry_def if_run ret_run bind_Inr
            intro: mark_failed_attempt_inv)
    qed
  qed
qed

lemma get_delivery_claimed_event_run:
  "get_delivery_claimed_event i token w = (Inr (Some e), w') \<Longrightarrow> w' = w \<and> e \<in> set (outbox_events (db w)) \<and>
     obx_id e = i \<and> obx_status e = OUTBOX_PROCESSING \<and>
     (\<exists>c\<in>set (delivery_claims (db w)). clm_event_id c = i \<and> clm_claim_token c = token)"
  by (auto simp: get_delivery_claimed_event_def bind_Inr query_run ret_run list_ex_iff
      dest!: find_SomeD [OF sym])

lemma commits_saas_apply:
  "commits saas_inv (bind (get_delivery_claimed_event i token) (\<lambda>found.
     case found of
       None \<Rightarrow> ret ()
     | Some e \<Rightarrow>
         if success then mark_processed e
         else (case error of None \<Rightarrow> ret () | Some err \<Rightarrow> bind (mark_failed_attempt e err) (\<lambda>_. ret ()))))"
  (is "commits _ ?m")
proof (rule commits_saas_outbox)
  show "keeps tenant_rest ?m" by (intro maintains_rules keeps_rest_outbox)
  show "commits outbox_inv ?m"
  proof (rule commitsI)
    fix w x w'
    assume inv: "outbox_inv (db w)" and run: "?m w = (Inr x, w')"
    from run obtain found w1 where get: "get_delivery_claimed_event i token w = (Inr found, w1)"
      and rest: "(case found of
         None \<Rightarrow> ret ()
       | Some e \<Rightarrow>
           if success then mark_processed e
           else (case error of None \<Rightarrow> ret () | Some err \<Rightarrow> bind (mark_failed_attempt e err) (\<lambda>_. ret ()))) w1 = (Inr x, w')"
      by (auto simp: bind_Inr [of "get_delivery_claimed_event i token"])
    show "outbox_inv (db w')"
    proof (cases found)
      case None
      moreover have "db w1 = db w"
        using get by (auto simp: get_delivery_claimed_event_def bind_Inr query_run ret_run)
      ultimately show ?thesis using rest inv by (simp add: ret_run)
    next
      case (Some e)
      with get get_delivery_claimed_event_run have "w1 = w" "e \<in> set (outbox_events (db w))"
        "obx_status e = OUTBOX_PROCESSING" by blast+
      with rest Some inv show ?thesis
        by (auto simp: if_run bind_Inr ret_run split: option.splits
            intro: mark_processed_inv mark_failed_attempt_inv)
    qed
  qed
qed

lemma keeps_saas_expire: "keeps saas_inv (mark_pending_invite_expired_by_id iid oid now)"
proof -
  have "keeps saas_inv (flush (invites_update (update_where p
      (\<lambda>v. (v\<lparr>inv_status := INVITE_EXPIRED\<rparr>)\<lparr>inv_updated_at := t\<rparr>))))" for p t
  proof (rule keeps_flush)
    fix d
    assume inv: "saas_inv d" and I: "integrity (invites_update (update_where p
      (\<lambda>v. (v\<lparr>inv_status := INVITE_EXPIRED\<rparr>)\<lparr>inv_updated_at := t\<rparr>)) d)"
    then show "saas_inv (invites_update (update_where p
      (\<lambda>v. (v\<lparr>inv_status := INVITE_EXPIRED\<rparr>)\<lparr>inv_updated_at := t\<rparr>)) d)"
      by (intro saas_inv_frame [OF inv])
         (auto simp: tenant_inv_def invite_roles_def set_update_where dest: saas_invD(2,5))
  qed
  then show ?thesis
    unfolding mark_pending_invite_expired_by_id_def update_returning_def Let_def
    by (intro maintains_rules)
qed

subsection \<open>Every step of the workers keeps the invariant\<close>

lemma safe_recover_stale: "safe (recover_stale cfg)"
  unfolding recover_stale_def
  by (intro maintains_bind idle_session_begin commits_saas_dispatcher maintains_ret)

lemma safe_enqueue_events:
  assumes "\<And>i. leaves_db (send i)"
  shows "safe (enqueue_events send es)"
proof (induction es)
  case (Cons e es)
  then show ?case
    unfolding enqueue_events.simps
    by (intro maintains_bind [OF idle_leaves_db [OF assms]] maintains_case_option
        maintains_bind [OF idle_session_begin [OF commits_saas_release]])
       (simp_all add: maintains_bind maintains_ret)
qed (simp add: maintains_ret)

lemma safe_claim_and_enqueue:
  "(\<And>i. leaves_db (send i)) \<Longrightarrow> safe (claim_and_enqueue_due_outbox_events send limit)"
  unfolding claim_and_enqueue_due_outbox_events_def
  by (intro maintains_bind idle_session_begin commits_saas_dispatcher safe_enqueue_events)

lemma safe_dispatcher_tick: "(\<And>i. leaves_db (send i)) \<Longrightarrow> safe (dispatcher_tick send cfg n)"
  unfolding dispatcher_tick_def
  by (intro maintains_rules safe_recover_stale safe_claim_and_enqueue)

lemma safe_apply_result: "safe (apply_result i token success error)"
  unfolding apply_result_def by (rule idle_session_begin [OF commits_saas_apply])

lemma safe_get_claimed_event_context: "safe (get_claimed_event_context X S cfg i)"
  unfolding get_claimed_event_context_def claimed_event_context_in_transaction_def
    claimed_invite_context_def Let_def
  by (intro maintains_bind idle_leaves_db [OF leaves_db_token] idle_session_begin commits_bind
      commits_saas_dispatcher keeps_commits)
     (intro maintains_rules maintains_case_sum keeps_saas_expire)

lemma safe_process_outbox_event:
  assumes "\<And>v raw. leaves_db (deliver v raw)"
  shows "safe (process_outbox_event X S cfg deliver i)"
  unfolding process_outbox_event_def context_claim_token_def
  by (rule maintains_bind [OF safe_get_claimed_event_context])
     (auto simp: split_beta intro!: maintains_rules safe_apply_result idle_leaves_db [OF assms])

subsection \<open>Reserving an event\<close>

definition has_claim :: "db \<Rightarrow> uuid \<Rightarrow> bool" where
  "has_claim d i \<longleftrightarrow> list_ex (\<lambda>c. clm_event_id c = i) (delivery_claims d)"

text \<open>The tables after a reservation.\<close>

definition reserve :: "uuid \<Rightarrow> string \<Rightarrow> int \<Rightarrow> db \<Rightarrow> db" where
  "reserve i token now d = outbox_events_update (update_where (\<lambda>x. obx_id x = i)
      (\<lambda>x. x\<lparr>obx_locked_at := Some now, obx_updated_at := now\<rparr>))
    (delivery_claims_update (\<lambda>rows. rows @ [\<lparr>clm_event_id = i, clm_claim_token = token, clm_claimed_at = now\<rparr>]) d)"

lemma integrity_reserve:
  assumes I: "integrity d" and e: "e \<in> set (outbox_events d)" "obx_id e = i" and free: "\<not> has_claim d i"
  shows "integrity (reserve i token now d)"
proof -
  let ?f = "\<lambda>x. x\<lparr>obx_locked_at := Some now, obx_updated_at := now\<rparr>"
  have keys: "map obx_id (update_where (\<lambda>x. obx_id x = i) ?f (outbox_events d)) = map obx_id (outbox_events d)"
    by (rule map_update_where_same) simp
  have "list_ex (\<lambda>e. obx_id e = k) (update_where (\<lambda>x. obx_id x = i) ?f (outbox_events d)) =
      list_ex (\<lambda>e. obx_id e = k) (outbox_events d)" for k
    by (rule list_ex_update_where_key) simp
  moreover have "list_ex (\<lambda>e. obx_id e = i) (outbox_events d)" using e by (auto simp: list_ex_iff)
  ultimately show ?thesis
    using I free keys
    by (auto simp: reserve_def integrity_def outbox_ok_def has_claim_def list_ex_iff)
qed

lemma claim_processing_succeeds:
  assumes I: "integrity (db w)" and e: "e \<in> set (outbox_events (db w))" "obx_id e = i"
    and st: "obx_status e = OUTBOX_PROCESSING" and free: "\<not> has_claim (db w) i"
  shows "claim_processing_event_for_delivery i token w =
    (Inr (Some (e\<lparr>obx_locked_at := Some (clock w (clock_pos w)), obx_updated_at := clock w (clock_pos w)\<rparr>)),
     w\<lparr>clock_pos := Suc (clock_pos w), db := reserve i token (clock w (clock_pos w)) (db w)\<rparr>)"
proof -
  have "find (\<lambda>e. obx_id e = i) (outbox_events (db w)) = Some e"
    using outbox_table.find_by_key [OF I e(1)] e(2) by (simp add: find_row_def)
  moreover have "find (\<lambda>c. clm_event_id c = i) (delivery_claims (db w)) = None"
    using free by (auto simp: has_claim_def list_ex_iff find_None_iff)
  moreover have "integrity (reserve i token (clock w (clock_pos w)) (db w))"
    by (rule integrity_reserve [OF I e free])
  ultimately show ?thesis
    using st unfolding claim_processing_event_for_delivery_def outbox_get_by_id_eq query_limit1
    by (simp add: bind_def utcnow_def query_def gets_def flush_def ret_def Let_def reserve_def)
qed

text \<open>A reserved event is not given to a second worker.\<close>

lemma claim_processing_taken:
  assumes "has_claim (db w) i"
  shows "claim_processing_event_for_delivery i token w = (Inr None, w\<lparr>clock_pos := Suc (clock_pos w)\<rparr>)"
proof -
  from assms have "find (\<lambda>c. clm_event_id c = i) (delivery_claims (db w)) \<noteq> None"
    by (auto simp: has_claim_def list_ex_iff find_None_iff)
  then show ?thesis
    unfolding claim_processing_event_for_delivery_def outbox_get_by_id_eq query_limit1
    by (auto simp: bind_def utcnow_def query_def gets_def ret_def split: option.splits)
qed

subsection \<open>What reaches the addressee\<close>

text \<open>
  What the worker relies on: a UUID's text is read back as the UUID, and Fernet decrypts what it
  encrypted with the same key and never encrypts to a blank text.
\<close>

definition reads_uuids :: "schema_types \<Rightarrow> bool" where
  "reads_uuids S \<longleftrightarrow> (\<forall>u. uuid_of_text S (uuid_str u) = Some u)"

definition fernet_ok :: "externals \<Rightarrow> string \<Rightarrow> bool" where
  "fernet_ok X key \<longleftrightarrow> (\<forall>raw. fernet_decrypt X key (fernet_encrypt X key raw) = Some raw \<and>
     strip (fernet_encrypt X key raw) \<noteq> [])"

lemma role_of_text_value [simp]: "role_of_text (role_value r) = Some r"
  by (cases r) (simp_all add: role_of_text_def)

lemma parse_invite_payload:
  assumes "reads_uuids S" and "fernet_ok X key" and "valid_email S (inv_email v)"
    and "purpose = ''created'' \<or> purpose = ''resent''"
  shows "parse_invite_outbox_payload S (invite_payload X key v oid token purpose) =
    Some \<lparr>payload_invite_id = inv_id v, payload_organisation_id = Some oid,
      payload_email = Some (inv_email v), payload_encrypted_raw_token = encrypt_token X key token,
      payload_purpose = Some purpose, payload_role = Some (inv_role v)\<rparr>"
  using assms
  by (auto simp: parse_invite_outbox_payload_def invite_payload_def required_field_def
      optional_field_def reads_uuids_def fernet_ok_def encrypt_token_def)

lemma update_returning_none:
  assumes "integrity (db w)" and "\<And>v. v \<in> set (invites (db w)) \<Longrightarrow> \<not> p v"
  shows "update_returning p f w = (Inr None, w\<lparr>clock_pos := Suc (clock_pos w)\<rparr>)"
proof -
  have none: "filter p (invites (db w)) = []" using assms(2) by (simp add: filter_empty_conv)
  have "invites_update (update_where p g) (db w) = db w" for g
    using update_where_none [of "invites (db w)" p g] assms(2) by (cases "db w") simp
  then show ?thesis
    using assms(1) by (simp add: update_returning_def bind_def utcnow_def query_def gets_def flush_def
        Let_def none scalar_one_or_none_def ret_def)
qed

lemma query_invite_by_id:
  assumes "integrity (db w)" and "v \<in> set (invites (db w))"
  shows "bind (query (\<lambda>d. filter (\<lambda>x. inv_id x = inv_id v) (invites d))) scalar_one_or_none w = (Inr (Some v), w)"
proof -
  have "bind (query (\<lambda>d. filter (\<lambda>x. inv_id x = inv_id v) (invites d))) scalar_one_or_none w =
      (Inr (find (\<lambda>x. inv_id x = inv_id v) (invites (db w))), w)"
    by (rule query_unique [where f = inv_id and q = "\<lambda>_. True" and k = "inv_id v"])
       (use integrityD(8) [OF assms(1)] in auto)
  then show ?thesis
    using invites_table.find_by_key [OF assms] by (simp add: find_row_def)
qed

lemma invites_reserve [simp]: "invites (reserve i token now d) = invites d"
  by (simp add: reserve_def)

text \<open>The worker's decision for an event the invite service wrote.\<close>

lemma context_deliver:
  assumes I: "integrity (db w)" and idle: "\<not> in_tx w"
    and e: "e \<in> set (outbox_events (db w))" "obx_id e = i" "obx_status e = OUTBOX_PROCESSING" "invite_event e"
    and free: "\<not> has_claim (db w) i"
    and payload: "obx_payload_json e = invite_payload X key v0 oid token purpose"
      "purpose = ''created'' \<or> purpose = ''resent''" "valid_email S (inv_email v0)" "inv_id v0 = inv_id v"
    and v: "v \<in> set (invites (db w))" "inv_status v = INVITE_PENDING" "inv_token_hash v = sha256_hex X token"
      "\<not> expired_at (clock w (Suc (clock_pos w))) v"
    and cfg: "invite_delivery_enabled cfg" "payload_crypto X cfg = Inr key"
    and ext: "reads_uuids S" "fernet_ok X key"
  shows "get_claimed_event_context X S cfg i w =
    (Inr (''deliver'', \<lparr>delivery_claim_token = Some (token_source w (token_pos w)), raw_token = Some token\<rparr>, Some v),
     w\<lparr>token_pos := Suc (token_pos w), clock_pos := Suc (Suc (Suc (clock_pos w))),
       db := reserve i (token_source w (token_pos w)) (clock w (clock_pos w)) (db w)\<rparr>)"
proof -
  let ?ct = "token_source w (token_pos w)"
  let ?d = "reserve i ?ct (clock w (clock_pos w)) (db w)"
  define w1 where "w1 = w\<lparr>token_pos := Suc (token_pos w), in_tx := True\<rparr>"
  define w2 where "w2 = w1\<lparr>clock_pos := Suc (clock_pos w1), db := ?d\<rparr>"
  have free1: "\<not> has_claim (db w1) i" using free by (simp add: w1_def)
  have claim: "claim_processing_event_for_delivery i ?ct w1 =
      (Inr (Some (e\<lparr>obx_locked_at := Some (clock w (clock_pos w)), obx_updated_at := clock w (clock_pos w)\<rparr>)), w2)"
    using claim_processing_succeeds [of w1 e i ?ct] I e free1 by (simp add: w1_def w2_def)
  have I2: "integrity (db w2)" using integrity_reserve [OF I e(1,2) free] by (simp add: w2_def)
  have v2: "v \<in> set (invites (db w2))" using v(1) by (simp add: w2_def)
  have parsed: "parse_invite_outbox_payload S (obx_payload_json e) =
    Some \<lparr>payload_invite_id = inv_id v, payload_organisation_id = Some oid,
      payload_email = Some (inv_email v0), payload_encrypted_raw_token = encrypt_token X key token,
      payload_purpose = Some purpose, payload_role = Some (inv_role v0)\<rparr>"
    using parse_invite_payload [OF ext payload(3,2), of oid token] by (simp only: payload)
  note row = query_invite_by_id [OF I2 v2]
  let ?now = "clock w (Suc (clock_pos w))"
  define w3 where "w3 = w2\<lparr>clock_pos := Suc (clock_pos w2)\<rparr>"
  have now: "utcnow w2 = (Inr ?now, w3)" by (simp add: utcnow_def w2_def w1_def w3_def)
  have I3: "integrity (db w3)" using I2 by (simp add: w3_def)
  have "\<not> (inv_id x = inv_id v \<and> inv_organisation_id x = inv_organisation_id v \<and>
      inv_status x = INVITE_PENDING \<and> expired_at ?now x)" if "x \<in> set (invites (db w3))" for x
    using that v(1,4) invites_table.same_key_same_row [OF I, of x v] by (auto simp: w3_def w2_def)
  then have expire: "mark_pending_invite_expired_by_id (inv_id v) (inv_organisation_id v) ?now w3 =
      (Inr None, w3\<lparr>clock_pos := Suc (clock_pos w3)\<rparr>)"
    unfolding mark_pending_invite_expired_by_id_def by (rule update_returning_none [OF I3])
  have type: "obx_event_type e = ''invite.created'' \<or> obx_event_type e = ''invite.resent''" using e(4) by (simp add: invite_outbox_event_types_def)
  have dec: "decrypt_token X key (encrypt_token X key token) = Inr token"
    using ext(2) by (simp add: decrypt_token_def encrypt_token_def fernet_ok_def)
  have body: "claimed_event_context_in_transaction X S cfg i ?ct w1 = (Inr (''deliver'',
      \<lparr>delivery_claim_token = Some ?ct, raw_token = Some token\<rparr>, Some v), w3\<lparr>clock_pos := Suc (clock_pos w3)\<rparr>)"
    unfolding claimed_event_context_in_transaction_def claimed_invite_context_def Let_def
    by (simp add: bind_step(1) [of "claim_processing_event_for_delivery i ?ct" w1, OF claim] e(3) type parsed
        bind_step(1) [of "bind (query (\<lambda>d. filter (\<lambda>x. inv_id x = inv_id v) (invites d))) scalar_one_or_none" w2, OF row]
        v(2,3) bind_step(1) [of utcnow w2, OF now]
        bind_step(1) [of "mark_pending_invite_expired_by_id _ _ _" w3, OF expire] cfg lift_def dec ret_def)
  have "get_claimed_event_context X S cfg i w =
      session_begin (claimed_event_context_in_transaction X S cfg i ?ct) (w\<lparr>token_pos := Suc (token_pos w)\<rparr>)"
    by (simp add: get_claimed_event_context_def bind_def token_urlsafe_def)
  also have "\<dots> = (Inr (''deliver'', \<lparr>delivery_claim_token = Some ?ct, raw_token = Some token\<rparr>, Some v),
      w3\<lparr>clock_pos := Suc (clock_pos w3), in_tx := False\<rparr>)"
    using body by (simp add: session_begin_def idle w1_def)
  finally show ?thesis using idle by (simp add: w3_def w2_def w1_def)
qed

subsection \<open>Recording the outcome\<close>

definition holds_claim :: "db \<Rightarrow> uuid \<Rightarrow> string \<Rightarrow> bool" where
  "holds_claim d i token \<longleftrightarrow> list_ex (\<lambda>c. clm_event_id c = i \<and> clm_claim_token c = token) (delivery_claims d)"

text \<open>The tables after the event has been processed.\<close>

definition finish :: "uuid \<Rightarrow> int \<Rightarrow> db \<Rightarrow> db" where
  "finish i now d = outbox_events_update (update_where (\<lambda>x. obx_id x = i) (processed now))
     (delivery_claims_update (filter (\<lambda>c. clm_event_id c \<noteq> i)) d)"

lemma integrity_clear_claims: "integrity d \<Longrightarrow> integrity (delivery_claims_update (filter p) d)"
  by (auto simp: integrity_def outbox_ok_def list_all_iff distinct_map_filter)

lemma integrity_outbox_update:
  assumes "\<And>x. obx_id (f x) = obx_id x" and "integrity d"
  shows "integrity (outbox_events_update (update_where p f) d)"
  using assms(2) by (simp add: integrity_def outbox_ok_def map_update_where_same assms(1)
      list_ex_update_where_key [of obx_id, OF assms(1)])

lemma processed_id [simp]: "obx_id (processed now e) = obx_id e"
  by (simp add: processed_def)

lemma integrity_finish: "integrity d \<Longrightarrow> integrity (finish i now d)"
  unfolding finish_def by (intro integrity_outbox_update integrity_clear_claims) simp_all

lemma get_delivery_claimed_event_eq:
  "get_delivery_claimed_event i token w =
     (Inr (find (\<lambda>e. obx_id e = i \<and> obx_status e = OUTBOX_PROCESSING \<and> holds_claim (db w) i token)
       (outbox_events (db w))), w)"
proof -
  have "find (\<lambda>e. obx_id e = i \<and> obx_status e = OUTBOX_PROCESSING \<and>
       list_ex (\<lambda>c. clm_event_id c = obx_id e \<and> clm_claim_token c = token) (delivery_claims (db w))) es =
    find (\<lambda>e. obx_id e = i \<and> obx_status e = OUTBOX_PROCESSING \<and> holds_claim (db w) i token) es" for es
    by (rule find_cong) (auto simp: holds_claim_def)
  then show ?thesis
    by (simp add: get_delivery_claimed_event_def bind_def query_def gets_def ret_def)
qed

text \<open>A worker that has lost its reservation changes nothing.\<close>

lemma apply_result_fenced:
  assumes "\<not> in_tx w" and "\<not> holds_claim (db w) i token"
  shows "apply_result i token success error w = (Inr (), w)"
proof -
  have "find (\<lambda>e. False) es = None" for es :: "outbox_event list" by (simp add: find_None_iff)
  with assms show ?thesis
    by (simp add: apply_result_def session_begin_def bind_def get_delivery_claimed_event_eq ret_def)
qed

lemma apply_result_success:
  assumes I: "integrity (db w)" and idle: "\<not> in_tx w"
    and e: "e \<in> set (outbox_events (db w))" "obx_id e = i" "obx_status e = OUTBOX_PROCESSING"
    and claim: "holds_claim (db w) i token"
  shows "apply_result i token True None w =
    (Inr (), w\<lparr>clock_pos := Suc (clock_pos w), db := finish i (clock w (clock_pos w)) (db w)\<rparr>)"
proof -
  have found: "find (\<lambda>e. obx_id e = i \<and> obx_status e = OUTBOX_PROCESSING \<and> holds_claim (db w) i token)
      (outbox_events (db w)) = Some e"
    using find_by_unique_key [OF integrityD(13) [OF I], of "\<lambda>e. obx_id e = i \<and> obx_status e = OUTBOX_PROCESSING \<and>
      holds_claim (db w) i token" i e] e claim by simp
  have fin: "integrity (outbox_events_update (update_where (\<lambda>x. obx_id x = i) (processed now))
     (delivery_claims_update (filter (\<lambda>c. clm_event_id c \<noteq> i)) (db w)))" for now
    using integrity_finish [OF I] by (simp add: finish_def)
  show ?thesis
    using idle e(2) integrity_clear_claims [OF I] fin
    by (simp add: apply_result_def session_begin_def bind_def get_delivery_claimed_event_eq found
        mark_processed_def utcnow_def clear_delivery_claim_def outbox_save_def flush_def ret_def Let_def finish_def)
qed

lemma reserved_event:
  assumes "e \<in> set (outbox_events d)" "obx_id e = i"
  shows "e\<lparr>obx_locked_at := Some now, obx_updated_at := now\<rparr> \<in> set (outbox_events (reserve i token now d))"
    and "holds_claim (reserve i token now d) i token"
  using assms by (auto simp: reserve_def set_update_where holds_claim_def)

lemma finish_reserved:
  assumes "e \<in> set (outbox_events d)" "obx_id e = i"
  shows "processed t (e\<lparr>obx_locked_at := Some now, obx_updated_at := now\<rparr>) \<in>
      set (outbox_events (finish i t (reserve i token now d)))"
    and "\<not> has_claim (finish i t (reserve i token now d)) i"
  using assms reserved_event(1) [OF assms, of now token]
  by (auto simp: finish_def set_update_where has_claim_def list_ex_iff)

text \<open>
  An event of the invite service that is being processed and that nobody has reserved: the
  worker delivers the token the service generated, and when the delivery works the event ends
  processed, scrubbed and unreserved.
\<close>

lemma process_delivers:
  assumes I: "integrity (db w)" and idle: "\<not> in_tx w"
    and e: "e \<in> set (outbox_events (db w))" "obx_id e = i" "obx_status e = OUTBOX_PROCESSING" "invite_event e"
    and free: "\<not> has_claim (db w) i"
    and payload: "obx_payload_json e = invite_payload X key v0 oid token purpose"
      "purpose = ''created'' \<or> purpose = ''resent''" "valid_email S (inv_email v0)" "inv_id v0 = inv_id v"
    and v: "v \<in> set (invites (db w))" "inv_status v = INVITE_PENDING" "inv_token_hash v = sha256_hex X token"
      "\<not> expired_at (clock w (Suc (clock_pos w))) v"
    and cfg: "invite_delivery_enabled cfg" "payload_crypto X cfg = Inr key"
    and ext: "reads_uuids S" "fernet_ok X key"
    and works: "\<And>u. \<exists>u'. deliver v token u = (Inr None, u') \<and> db u' = db u \<and> in_tx u' = in_tx u"
  obtains w' now t where "process_outbox_event X S cfg deliver i w = (Inr (), w')"
    and "db w' = finish i t (reserve i (token_source w (token_pos w)) now (db w))"
proof -
  let ?ct = "token_source w (token_pos w)"
  let ?d = "reserve i ?ct (clock w (clock_pos w)) (db w)"
  define w1 where "w1 = w\<lparr>token_pos := Suc (token_pos w), clock_pos := Suc (Suc (Suc (clock_pos w))), db := ?d\<rparr>"
  have ctx: "get_claimed_event_context X S cfg i w = (Inr (''deliver'',
      \<lparr>delivery_claim_token = Some ?ct, raw_token = Some token\<rparr>, Some v), w1)"
    unfolding w1_def
    by (rule context_deliver [OF I idle e free payload v cfg ext])
  obtain w2 where del: "deliver v token w1 = (Inr None, w2)" and w2: "db w2 = ?d" "in_tx w2 = in_tx w"
    using works [of w1] by (auto simp: w1_def)
  have "apply_result i ?ct True None w2 =
      (Inr (), w2\<lparr>clock_pos := Suc (clock_pos w2), db := finish i (clock w2 (clock_pos w2)) (db w2)\<rparr>)"
  proof (rule apply_result_success)
    show "integrity (db w2)" unfolding w2 by (rule integrity_reserve [OF I e(1,2) free])
    show "e\<lparr>obx_locked_at := Some (clock w (clock_pos w)), obx_updated_at := clock w (clock_pos w)\<rparr> \<in>
        set (outbox_events (db w2))" "holds_claim (db w2) i ?ct"
      unfolding w2 by (rule reserved_event [OF e(1,2)])+
  qed (use e idle w2 in simp_all)
  then have "process_outbox_event X S cfg deliver i w =
      (Inr (), w2\<lparr>clock_pos := Suc (clock_pos w2), db := finish i (clock w2 (clock_pos w2)) ?d\<rparr>)"
    using ctx del by (simp add: process_outbox_event_def bind_def context_claim_token_def ret_def w2)
  then show ?thesis using that by fastforce
qed

subsection \<open>What is never delivered\<close>

text \<open>
  The decision to deliver is taken only for an event that was being processed and unreserved, and
  for an invite that is pending, not expired, and whose stored hash is that of the token.
\<close>

lemma expire_none:
  assumes "mark_pending_invite_expired_by_id iid oid now w = (Inr None, w')"
  shows "invites (db w') = invites (db w)"
    and "v \<in> set (invites (db w)) \<Longrightarrow> inv_id v = iid \<Longrightarrow> inv_organisation_id v = oid \<Longrightarrow>
      inv_status v = INVITE_PENDING \<Longrightarrow> \<not> expired_at now v"
proof -
  note run = update_returning_run [OF assms [unfolded mark_pending_invite_expired_by_id_def]]
  show "invites (db w') = invites (db w)" using run(1) run(4) [OF refl] by (simp add: update_where_none)
  show "v \<in> set (invites (db w)) \<Longrightarrow> inv_id v = iid \<Longrightarrow> inv_organisation_id v = oid \<Longrightarrow>
      inv_status v = INVITE_PENDING \<Longrightarrow> \<not> expired_at now v" using run(4) [OF refl] by blast
qed

lemma query_one_run:
  "bind (query (\<lambda>d. filter p (T d))) scalar_one_or_none w = (Inr (Some x), w') \<Longrightarrow>
     w' = w \<and> x \<in> set (T (db w)) \<and> p x"
  by (auto simp: bind_Inr query_run scalar_one_or_none_def ret_run raise_run split: list.splits
      dest: filter_eq_ConsD)

lemma bind_found:
  assumes "bind m (\<lambda>r. case r of None \<Rightarrow> ret a | Some x \<Rightarrow> f x) w = (Inr y, w')" and "a \<noteq> y"
  obtains x w1 where "m w = (Inr (Some x), w1)" and "f x w1 = (Inr y, w')"
proof -
  from assms(1) obtain r w1 where r: "m w = (Inr r, w1)"
    and k: "(case r of None \<Rightarrow> ret a | Some x \<Rightarrow> f x) w1 = (Inr y, w')" by (auto simp: bind_Inr)
  then show thesis using that assms(2) by (cases r) (simp_all add: ret_run)
qed

lemma claimed_invite_context_sound:
  assumes "claimed_invite_context X cfg context0 payload w = (Inr (''deliver'', context, found), w')"
  obtains v raw where "found = Some v" and "context = context0\<lparr>raw_token := Some raw\<rparr>"
    and "v \<in> set (invites (db w))" "inv_id v = payload_invite_id payload" "inv_status v = INVITE_PENDING"
      "\<not> expired_at (clock w (clock_pos w)) v"
    and "sha256_hex X raw = inv_token_hash v" and "invites (db w') = invites (db w)"
proof -
  let ?find = "bind (query (\<lambda>d. filter (\<lambda>v. inv_id v = payload_invite_id payload) (invites d))) scalar_one_or_none"
  obtain v w1 where row: "?find w = (Inr (Some v), w1)"
    and rest: "(if inv_status v \<noteq> INVITE_PENDING then ret (''mark_processed'', context0, None)
     else
     bind utcnow (\<lambda>now.
     bind (mark_pending_invite_expired_by_id (inv_id v) (inv_organisation_id v) now) (\<lambda>expired.
     if expired \<noteq> None then ret (''mark_processed'', context0, None)
     else if \<not> invite_delivery_enabled cfg then ret (''mark_processed'', context0, None)
     else
     bind (lift (payload_crypto X cfg)) (\<lambda>key.
     case decrypt_token X key (payload_encrypted_raw_token payload) of
       Inl _ \<Rightarrow> ret (''outbox_payload_decryption_failed'', context0, None)
     | Inr raw \<Rightarrow>
         if sha256_hex X raw \<noteq> inv_token_hash v then ret (''token_hash_mismatch'', context0, None)
         else ret (''deliver'', context0\<lparr>raw_token := Some raw\<rparr>, Some v))))) w1 = (Inr (''deliver'', context, found), w')"
    using assms unfolding claimed_invite_context_def by (rule bind_found) simp_all
  have v: "w1 = w" "v \<in> set (invites (db w))" "inv_id v = payload_invite_id payload"
    using query_one_run [OF row] by simp_all
  from rest have st: "inv_status v = INVITE_PENDING"
    by (cases "inv_status v = INVITE_PENDING") (simp_all add: ret_run)
  with rest v(1) obtain w2 key where
      expire: "mark_pending_invite_expired_by_id (inv_id v) (inv_organisation_id v) (clock w (clock_pos w))
        (w\<lparr>clock_pos := Suc (clock_pos w)\<rparr>) = (Inr None, w2)"
    and dec: "(case decrypt_token X key (payload_encrypted_raw_token payload) of
       Inl _ \<Rightarrow> ret (''outbox_payload_decryption_failed'', context0, None)
     | Inr raw \<Rightarrow>
         if sha256_hex X raw \<noteq> inv_token_hash v then ret (''token_hash_mismatch'', context0, None)
         else ret (''deliver'', context0\<lparr>raw_token := Some raw\<rparr>, Some v)) w2 = (Inr (''deliver'', context, found), w')"
    by (auto simp: bind_Inr utcnow_run lift_run ret_run split: if_splits)
  from dec obtain raw where res: "sha256_hex X raw = inv_token_hash v" "found = Some v"
      "context = context0\<lparr>raw_token := Some raw\<rparr>" "w' = w2"
    by (cases "decrypt_token X key (payload_encrypted_raw_token payload)") (auto simp: ret_run split: if_splits)
  have "\<not> expired_at (clock w (clock_pos w)) v" using expire_none(2) [OF expire] v st by simp
  then show ?thesis
    using that [OF res(2,3) v(2,3) st _ res(1)] expire_none(1) [OF expire] res(4) by simp
qed

lemma context_sound:
  assumes "claimed_event_context_in_transaction X S cfg i token w = (Inr (''deliver'', context, found), w')"
  obtains e v raw where "found = Some v" and "context = \<lparr>delivery_claim_token = Some token, raw_token = Some raw\<rparr>"
    and "e \<in> set (outbox_events (db w))" "obx_id e = i" "obx_status e = OUTBOX_PROCESSING" "\<not> has_claim (db w) i"
    and "v \<in> set (invites (db w))" "inv_status v = INVITE_PENDING" "\<not> expired_at (clock w (Suc (clock_pos w))) v"
    and "sha256_hex X raw = inv_token_hash v" and "invites (db w') = invites (db w)"
proof -
  let ?c0 = "\<lparr>delivery_claim_token = Some token, raw_token = None\<rparr>"
  obtain e1 w1 where claim: "claim_processing_event_for_delivery i token w = (Inr (Some e1), w1)"
    and rest: "(if obx_status e1 = OUTBOX_PROCESSED \<or> obx_status e1 = OUTBOX_FAILED
      then ret (''skip'', \<lparr>delivery_claim_token = None, raw_token = None\<rparr>, None)
      else if \<not> List.member [outbox_event_type_value OUTBOX_INVITE_CREATED,
          outbox_event_type_value OUTBOX_INVITE_RESEND] (obx_event_type e1)
      then ret (''mark_processed'', ?c0, None)
      else case parse_invite_outbox_payload S (obx_payload_json e1) of
        None \<Rightarrow> ret (''malformed_outbox_payload'', ?c0, None)
      | Some payload \<Rightarrow> claimed_invite_context X cfg ?c0 payload) w1 = (Inr (''deliver'', context, found), w')"
    using assms unfolding claimed_event_context_in_transaction_def Let_def by (rule bind_found) simp_all
  from rest obtain payload where "claimed_invite_context X cfg ?c0 payload w1 = (Inr (''deliver'', context, found), w')"
    by (auto simp: ret_run split: if_splits option.splits)
  then obtain v raw where v: "found = Some v" "context = ?c0\<lparr>raw_token := Some raw\<rparr>"
      "v \<in> set (invites (db w1))" "inv_status v = INVITE_PENDING" "\<not> expired_at (clock w1 (clock_pos w1)) v"
      "sha256_hex X raw = inv_token_hash v" "invites (db w') = invites (db w1)"
    by (rule claimed_invite_context_sound)
  show ?thesis
  proof (rule claim_processing_event_for_delivery_run [OF claim])
    fix e now
    assume e: "e \<in> set (outbox_events (db w))" "obx_id e = i" "obx_status e = OUTBOX_PROCESSING"
      "\<forall>c\<in>set (delivery_claims (db w)). clm_event_id c \<noteq> i"
      and d: "db w1 = outbox_events_update (update_where (\<lambda>x. obx_id x = i)
        (\<lambda>x. x\<lparr>obx_locked_at := Some now, obx_updated_at := now\<rparr>))
        (delivery_claims_update (\<lambda>rows. rows @
        [\<lparr>clm_event_id = i, clm_claim_token = token, clm_claimed_at = now\<rparr>]) (db w))"
      and w1: "w1 = w\<lparr>clock_pos := Suc (clock_pos w), db := db w1\<rparr>"
    have "invites (db w1) = invites (db w)" by (simp add: d)
    moreover have "clock w1 = clock w" "clock_pos w1 = Suc (clock_pos w)" by (subst w1, simp)+
    moreover have "\<not> has_claim (db w) i" using e(4) by (simp add: has_claim_def list_ex_iff)
    ultimately show thesis using that [OF v(1) _ e(1-3)] v by simp
  qed
qed

end
