(* ===== verification/Tenant_Frame.thy ===== *)
theory Tenant_Frame
  imports Tenant_API Outbox_Workers
begin

section \<open>What the tenant side never touches\<close>

text \<open>
  The tenant endpoints, the outbox workers and the retention jobs write organisations,
  memberships, invites, audit and outbox rows, create users and refresh their profiles. They
  write no staff record and change no user's status. The locale \<open>tenant_frame\<close> states this as an
  interface: whatever does not depend on the rest is kept by every one of their programs.
\<close>

locale tenant_frame =
  fixes J :: "db \<Rightarrow> bool"
  assumes frame_organisations: "J d \<Longrightarrow> J (organisations_update fo d)"
    and frame_memberships: "J d \<Longrightarrow> J (memberships_update fm d)"
    and frame_invites: "J d \<Longrightarrow> J (invites_update fi d)"
    and frame_audit: "J d \<Longrightarrow> J (audit_events_update fa d)"
    and frame_outbox: "J d \<Longrightarrow> J (outbox_events_update fx d)"
    and frame_claims: "J d \<Longrightarrow> J (delivery_claims_update fc d)"
    and frame_new_user: "J d \<Longrightarrow> usr_status u = USER_ACTIVE \<Longrightarrow> J (users_update (\<lambda>rows. rows @ [u]) d)"
    and frame_profile: "J d \<Longrightarrow> (\<And>u. usr_id (f u) = usr_id u \<and> usr_status (f u) = usr_status u \<and>
      external_auth_id (f u) = external_auth_id u) \<Longrightarrow>
      J (users_update (update_where p f) d)"
begin

lemma keeps_frame_flush:
  "keeps J (flush (organisations_update fo))" "keeps J (flush (memberships_update fm))"
  "keeps J (flush (invites_update fi))" "keeps J (flush (audit_events_update fa))"
  "keeps J (flush (outbox_events_update fx))" "keeps J (flush (delivery_claims_update fc))"
  "keeps J (flush (\<lambda>d. outbox_events_update fx (delivery_claims_update fc d)))"
  by (intro keeps_flush frame_organisations frame_memberships frame_invites frame_audit frame_outbox frame_claims;
      assumption)+

lemma keeps_user_create: "keeps J (user_create ext email verified fname lname)"
  unfolding user_create_def Let_def
  by (intro maintains_rules keeps_flush frame_new_user) simp_all

lemma keeps_user_save:
  "(\<And>u. usr_id (f u) = usr_id u \<and> usr_status (f u) = usr_status u \<and>
      external_auth_id (f u) = external_auth_id u) \<Longrightarrow> keeps J (user_save u f)"
  unfolding user_save_def Let_def
  by (intro maintains_rules keeps_flush frame_profile) simp_all

lemma keeps_users:
  "keeps J (get_or_create_current_user p)" "keeps J (get_me_in_transaction p)" "keeps J (mark_onboarding_completed u)"
  unfolding get_or_create_current_user_def get_me_in_transaction_def create_current_user_projection_def
    refresh_current_user_profile_def user_update_profile_fields_def mark_onboarding_completed_def
    user_update_onboarding_completed_def user_get_by_external_auth_id_def guard_defs
  by (intro maintains_rules keeps_user_create keeps_user_save; simp)+

lemma keeps_record: "keeps J (record_event X ctx c a tt tid rs m)"
  unfolding record_event_def audit_create_def Let_def
  by (cases "validate_metadata_json m") (auto intro!: maintains_rules keeps_frame_flush)

lemma keeps_limiter: "limiter_ok l \<Longrightarrow> keeps J (run_business_rate_limiter l)"
  by (rule leaves_db_keeps [OF leaves_db_limiter])

lemma keeps_create_organisation: "keeps J (create_organisation name slug)"
  and keeps_create_membership: "keeps J (create_membership uid oid role)"
  unfolding create_organisation_def create_organisation_in_transaction_def organisation_get_by_slug_def
    organisation_create_def create_membership_def create_membership_in_transaction_def
    repo_get_membership_for_user_def repo_create_membership_def ensure_exactly_one_active_owner_def
    count_active_owners_def Let_def
  by (intro maintains_rules keeps_frame_flush)+

lemmas read_defs = get_user_by_id_def user_get_by_id_def get_organisation_def organisation_get_by_id_def
  get_membership_def get_membership_for_organisation_def get_membership_by_id_def guard_defs
  ensure_audit_actor_matches_def

lemma keeps_membership_services:
  assumes "limiter_ok l"
  shows "keeps J (change_membership_role X oid actor ctx mid role l)"
    and "keeps J (remove_membership X oid actor ctx mid reason l)"
    and "keeps J (update_organisation_details X oid actor ctx name slug l)"
    and "keeps J (soft_delete X oid actor ctx reason l)"
proof -
  have case_role: "keeps J (case r of OWNER \<Rightarrow> ret () | ADMIN \<Rightarrow> ensure b e | MEMBER \<Rightarrow> raise e')" for r b e e'
    by (cases r) (simp_all add: maintains_rules)
  note rules = maintains_rules keeps_frame_flush keeps_record keeps_limiter [OF assms] case_role
  show "keeps J (change_membership_role X oid actor ctx mid role l)"
    "keeps J (remove_membership X oid actor ctx mid reason l)"
    unfolding change_membership_role_def change_membership_role_in_transaction_def update_role_def
      remove_membership_def remove_membership_in_transaction_def repo_deactivate_membership_def
      membership_save_def read_defs Let_def
    by (intro rules)+
  show "keeps J (update_organisation_details X oid actor ctx name slug l)"
    unfolding update_organisation_details_def update_organisation_details_in_transaction_def
      apply_organisation_details_def organisation_update_details_def organisation_save_def read_defs Let_def
    by (intro rules)+
  show "keeps J (soft_delete X oid actor ctx reason l)"
    unfolding soft_delete_def soft_delete_in_transaction_def count_active_owners_def
      deactivate_organisation_memberships_def organisation_soft_delete_def organisation_save_def read_defs Let_def
    by (intro rules)+
qed

lemma keeps_update_returning: "keeps J (update_returning p f)"
  unfolding update_returning_def Let_def by (intro maintains_rules keeps_frame_flush)

lemma keeps_invite_services:
  assumes "limiter_ok l"
  shows "keeps J (create_invite X key oid actor role email ctx l)"
    and "keeps J (accept_invite X token p)"
    and "keeps J (revoke_invite X oid iid actor ctx reason)"
    and "keeps J (resend_invite X key oid iid actor ctx l)"
proof -
  note rules = maintains_rules keeps_frame_flush keeps_record keeps_limiter [OF assms] keeps_update_returning
    keeps_users keeps_create_membership
  show "keeps J (create_invite X key oid actor role email ctx l)"
    unfolding create_invite_def create_invite_in_transaction_def get_actor_membership_def
      get_pending_invite_by_email_def repo_create_invite_def publish_event_def read_defs Let_def
    by (intro rules)+
  show "keeps J (accept_invite X token p)"
    unfolding accept_invite_def accept_invite_in_transaction_def accept_pending_invite_by_token_hash_def
      mark_pending_invite_expired_by_token_hash_def read_defs
    by (intro rules)+
  show "keeps J (revoke_invite X oid iid actor ctx reason)"
    unfolding revoke_invite_def revoke_invite_in_transaction_def get_actor_membership_def
      get_invite_for_organisation_def revoke_pending_invite_def read_defs
    by (intro rules)+
  show "keeps J (resend_invite X key oid iid actor ctx l)"
    unfolding resend_invite_def resend_invite_in_transaction_def get_actor_membership_def
      get_invite_for_organisation_def rotate_pending_invite_token_def raise_not_resendable_def
      mark_pending_invite_expired_by_id_def publish_event_def read_defs Let_def
    by (intro rules)+
qed

lemma keeps_onboarding: "keeps J (create_organisation_for_current_user p name slug)"
  unfolding create_organisation_for_current_user_def onboard_def ensure_user_can_create_organisation_def
    repo_get_membership_for_user_def guard_defs
  by (intro maintains_rules keeps_users keeps_create_organisation keeps_create_membership)

lemma keeps_tenant_dispatch:
  assumes "limits_ok E"
  shows "keeps J (dispatch E r)"
proof -
  have lim: "limiter_ok (Some (business_limit E r))" for r
    using assms by (simp add: limits_ok_def limiter_ok_def)
  have prov: "keeps J (provision_current_user p)" "keeps J (get_me p)" for p
    unfolding provision_current_user_def get_me_def by (intro maintains_rules keeps_users)+
  note rules = maintains_rules prov keeps_membership_services [OF lim] keeps_invite_services [OF lim]
    leaves_db_services [THEN leaves_db_keeps] leaves_db_reads [THEN leaves_db_keeps]
  show ?thesis
  proof (cases r)
    case (CreateOrganisation p name slug)
    then show ?thesis
      by (auto simp: discard_def api_create_organisation_def split_beta intro!: maintains_rules keeps_onboarding)
  qed (simp only: split_beta dispatch.simps discard_def api_get_organisation_def get_organisation_for_member_def
      api_update_organisation_def api_get_organisation_directory_def api_change_membership_role_def
      api_remove_membership_def api_delete_organisation_def api_list_organisation_memberships_def
      api_create_invite_def api_accept_invite_def api_revoke_invite_def
      api_resend_invite_def api_get_me_def validate_token_def validate_role_def,
      (intro rules | assumption)+)+
qed

lemma keeps_tenant_handle: "limits_ok E \<Longrightarrow> keeps J (handle E r)"
  unfolding handle_def
  by (intro maintains_bind keeps_tenant_dispatch leaves_db_keeps) (simp_all add: limits_ok_def)

lemma keeps_workers:
  assumes "\<And>i. leaves_db (send i)" and "\<And>v raw. leaves_db (deliver v raw)"
  shows "keeps J (dispatcher_tick send cfg n)" and "keeps J (process_outbox_event X S cfg deliver i)"
proof -
  have save: "keeps J (outbox_save e f)" "keeps J (clear_delivery_claim i)" for e f i
    unfolding outbox_save_def clear_delivery_claim_def by (intro maintains_rules keeps_frame_flush)+
  have marks: "keeps J (mark_failed_attempt e er)" "keeps J (mark_processed e)" for e er
    unfolding mark_failed_attempt_def mark_processed_def by (intro maintains_rules save)+
  have "keeps J (enqueue_events send es)" for es
  proof (induction es)
    case (Cons e es)
    then show ?case
      unfolding enqueue_events.simps outbox_get_by_id_def release_processing_event_for_retry_def
      by (intro maintains_rules leaves_db_keeps [OF assms(1)] marks)
  qed (simp add: maintains_ret)
  then show "keeps J (dispatcher_tick send cfg n)"
    unfolding dispatcher_tick_def recover_stale_def recover_stale_processing_events_def
      claim_and_enqueue_due_outbox_events_def claim_due_events_def
    by (intro maintains_rules keeps_frame_flush marks save)
  have result: "keeps J (apply_result i token success error)" for i token success error
    unfolding apply_result_def get_delivery_claimed_event_def by (intro maintains_rules marks)
  have "keeps J (get_claimed_event_context X S cfg i)"
    unfolding get_claimed_event_context_def claimed_event_context_in_transaction_def claimed_invite_context_def
      claim_processing_event_for_delivery_def outbox_get_by_id_def mark_pending_invite_expired_by_id_def Let_def
    by (intro maintains_rules maintains_case_sum keeps_frame_flush keeps_update_returning)
  then show "keeps J (process_outbox_event X S cfg deliver i)"
    unfolding process_outbox_event_def context_claim_token_def
    by (rule maintains_bind)
       (auto simp: split_beta intro!: maintains_rules result leaves_db_keeps [OF assms(2)] split: option.splits)
qed

end

end
