(* ===== verification/Privacy_Frame.thy ===== *)
theory Privacy_Frame
  imports Privacy_API Privacy_Maintenance Erasure_Effects Tenant_Frame
begin

section \<open>What the privacy side never touches\<close>

text \<open>
  The privacy endpoints, the export worker and the service calls below them write the privacy tables,
  audit events and, when they provision the caller, the caller's account. The locale \<open>privacy_frame\<close>
  states this as an interface, as \<open>tenant_frame\<close> does for the tenant side. Erasures and the
  retention of invites and outbox events write more; they are treated by themselves.
\<close>

lemma maintains_case_prod: "(\<And>a b. maintains I (f a b)) \<Longrightarrow> maintains I (case x of (a, b) \<Rightarrow> f a b)"
  by (cases x) simp

text \<open>Object stores and the writer of archives leave the database alone.\<close>

definition quiet_storage :: "export_env \<Rightarrow> bool" where
  "quiet_storage E \<longleftrightarrow> (\<forall>c. leaves_db (exp_archive E c)) \<and> (\<forall>b.
     (\<forall>k o'. leaves_db (reserve_file_publication (exp_storage E b) k o')) \<and>
     (\<forall>r x c h. leaves_db (publish_reserved_file (exp_storage E b) r x c h)) \<and>
     (\<forall>r. leaves_db (cancel_file_publication (exp_storage E b) r)) \<and>
     (\<forall>k h n. leaves_db (inspect_file (exp_storage E b) k h n)) \<and>
     (\<forall>k h n. leaves_db (delete_file_if_not_matching (exp_storage E b) k h n)) \<and>
     (\<forall>k. leaves_db (storage_delete (exp_storage E b) k)) \<and>
     (\<forall>k n. leaves_db (storage_download_url (exp_storage E b) k n)))"

lemma quiet_storageD:
  assumes "quiet_storage E"
  shows "leaves_db (exp_archive E c)" "leaves_db (reserve_file_publication (exp_storage E b) k o')"
    "leaves_db (publish_reserved_file (exp_storage E b) r x ct h)" "leaves_db (cancel_file_publication (exp_storage E b) r)"
    "leaves_db (inspect_file (exp_storage E b) k h n)" "leaves_db (delete_file_if_not_matching (exp_storage E b) k h n)"
    "leaves_db (storage_delete (exp_storage E b) k)" "leaves_db (storage_download_url (exp_storage E b) k n)"
  using assms by (simp_all add: quiet_storage_def)

lemma keeps_save_rows:
  assumes "\<And>news. keeps J (flush (upd (replace_rows key news)))"
  shows "keeps J (save_rows upd key stamp f rows)"
  unfolding save_rows_def stamp_rows_def by (intro maintains_rules assms)

text \<open>Repositories that only read.\<close>

lemmas privacy_read_defs =
  dsr_get_by_id_def dsr_get_by_id_for_requester_def dsr_get_by_id_for_subject_def lock_requester_for_idempotency_def
  get_non_expired_by_idempotency_key_hash_def dsr_list_for_requester_def dsr_count_for_requester_def
  dsr_list_for_platform_def dsr_count_for_platform_def art_get_by_id_def art_get_by_dsr_id_def
  art_list_for_requester_def art_list_for_platform_def art_count_for_requester_def art_count_for_platform_def
  peek_queued_batch_def art_refresh_def get_processing_by_token_def get_active_processing_upload_intent_def
  list_expired_ready_def list_cancelled_erasure_purge_retry_def list_failed_storage_purge_retry_def
  get_failed_storage_purge_target_def get_storage_purge_target_def list_expired_storage_purge_retry_def
  get_request_def get_own_request_def get_platform_request_def list_own_requests_def list_platform_requests_def
  get_own_export_artifact_def list_own_export_artifacts_def get_platform_export_artifact_def
  list_platform_export_artifacts_def get_current_user_by_external_auth_id_def user_get_by_external_auth_id_def
  current_user_id_def validate_pagination_def user_exists_by_id_def ensure_representative_subject_exists_def

lemma leaves_db_privacy_reads:
  "leaves_db (dsr_get_by_id i)" "leaves_db (get_own_request u i)" "leaves_db (get_platform_request i)"
  "leaves_db (list_own_requests u l n st ty)" "leaves_db (list_platform_requests l n f)"
  "leaves_db (get_own_export_artifact i u)" "leaves_db (list_own_export_artifacts u l n)"
  "leaves_db (get_platform_export_artifact i)" "leaves_db (list_platform_export_artifacts l n)"
  "leaves_db (current_user_id p)" "leaves_db (validate_pagination l)"
  unfolding privacy_read_defs by (intro leaves_db_rules leaves_db_case_prod)+

locale privacy_frame =
  fixes J :: "db \<Rightarrow> bool"
  assumes frame_privacy: "J d \<Longrightarrow> integrity (privacy_update fp d) \<Longrightarrow> J (privacy_update fp d)"
    and frame_audit_log: "J d \<Longrightarrow> integrity (audit_events_update fa d) \<Longrightarrow> J (audit_events_update fa d)"
    and frame_account: "J d \<Longrightarrow> integrity (users_update (\<lambda>rows. rows @ [u]) d) \<Longrightarrow> usr_status u = USER_ACTIVE \<Longrightarrow>
      J (users_update (\<lambda>rows. rows @ [u]) d)"
    and frame_profile_row: "J d \<Longrightarrow> integrity (users_update (update_where p f) d) \<Longrightarrow>
      (\<And>u. usr_id (f u) = usr_id u \<and> usr_status (f u) = usr_status u \<and> external_auth_id (f u) = external_auth_id u) \<Longrightarrow>
      J (users_update (update_where p f) d)"
begin

lemma keeps_privacy_flush: "keeps J (flush (\<lambda>d. privacy_update (f d) d))"
  by (intro keeps_flush frame_privacy)

lemma keeps_privacy_record: "keeps J (record_event X ctx c a tt tid rs m)"
  unfolding record_event_def audit_create_def Let_def
  by (cases "validate_metadata_json m") (auto intro!: maintains_rules keeps_flush frame_audit_log)

lemma keeps_get_or_create: "keeps J (get_or_create_current_user p)"
proof -
  have create: "keeps J (create_current_user_projection p)"
    unfolding create_current_user_projection_def user_create_def Let_def
    by (intro maintains_rules keeps_flush frame_account) simp_all
  have refresh: "keeps J (refresh_current_user_profile u p)" for u
    unfolding refresh_current_user_profile_def user_update_profile_fields_def user_save_def Let_def
    by (intro maintains_rules keeps_flush frame_profile_row) simp_all
  show ?thesis
    unfolding get_or_create_current_user_def user_get_by_external_auth_id_def
    by (intro maintains_rules create refresh)
qed

lemma keeps_provision: "keeps J (provision_current_user p)"
  and idle_provision: "maintains (idle J) (provision_current_user p)"
  unfolding provision_current_user_def
  by (intro keeps_in_transaction_or_begin idle_in_transaction_or_begin keeps_commits keeps_get_or_create)+

text \<open>Repositories and what the services share.\<close>

lemma keeps_repositories:
  "keeps J (dsr_create row)" "keeps J (dsr_save r f)" "keeps J (dsr_update_returning q f)"
  "keeps J (art_create arow)" "keeps J (art_save a g)" "keeps J (art_update_where aq g)" "keeps J (flush_artifacts rows)"
  unfolding dsr_create_def dsr_save_def dsr_update_returning_def art_create_def art_save_def art_update_where_def
    flush_artifacts_def stamp_rows_def Let_def
  by (intro maintains_rules keeps_privacy_flush)+

lemma keeps_status_events:
  "keeps J (record_status_event X r action ctx)" "keeps J (record_artifact_event X ctx action a)"
  "keeps J (record_representative_authority_event X r action ctx reason)"
  unfolding record_status_event_def record_artifact_event_def record_representative_authority_event_def
  by (intro maintains_rules keeps_privacy_record)+

lemma keeps_sync: "keeps J (sync_export_dsr_execution_state a st)"
  unfolding sync_export_dsr_execution_state_def latest_export_artifact_for_dsr_def execution_state_for_dsr_def
    privacy_read_defs
  by (intro maintains_rules maintains_case_prod keeps_repositories)

text \<open>The requests of a data subject and the staff's work on them.\<close>

lemma keeps_transition: "keeps J (transition_request X i target reviewer reason at verified ctx)"
  unfolding transition_request_def transition_status_if_current_def ensure_request_type_can_be_approved_def
    ensure_representative_authority_allows_approval_def privacy_read_defs
  by (intro maintains_rules keeps_repositories keeps_status_events)

lemma keeps_request_services:
  "keeps J (submit_request X u s at ctx)" "keeps J (cancel_own_request X u i ctx)"
  "keeps J (verify_representative_authority X i u reason at ctx)" "keeps J (reject_representative_authority X i code ctx)"
  "keeps J (mark_under_review X i u ctx)" "keeps J (approve_request X i u reason ctx)" "keeps J (reject_request X i u code ctx)"
  "keeps J (cancel_platform_request X i u ctx)" "keeps J (fulfil_request X i u ctx)"
proof -
  note rules = maintains_rules keeps_repositories keeps_status_events keeps_transition
  have authority: "keeps J (update_representative_authority r v)" for r v
    unfolding update_representative_authority_def update_representative_authority_if_current_def privacy_read_defs
    by (intro rules)
  have lift: "keeps J (lift r)" for r :: "app_error + 'x"
    by (rule leaves_db_keeps [OF leaves_db_lift])
  show "keeps J (submit_request X u s at ctx)"
    unfolding submit_request_def create_submitted_def privacy_read_defs Let_def by (intro rules lift)
  show "keeps J (cancel_own_request X u i ctx)" "keeps J (mark_under_review X i u ctx)"
    "keeps J (approve_request X i u reason ctx)" "keeps J (reject_request X i u code ctx)"
    "keeps J (cancel_platform_request X i u ctx)"
    unfolding cancel_own_request_def mark_under_review_def approve_request_def reject_request_def
      cancel_platform_request_def transition_status_def privacy_read_defs
    by (intro rules)+
  show "keeps J (verify_representative_authority X i u reason at ctx)" "keeps J (reject_representative_authority X i code ctx)"
    unfolding verify_representative_authority_def reject_representative_authority_def
      ensure_representative_authority_reviewable_def privacy_read_defs
    by (intro rules authority)+
  show "keeps J (fulfil_request X i u ctx)"
    unfolding fulfil_request_def ensure_execution_ready_for_fulfilment_def ensure_erasure_ready_for_fulfilment_def
      ensure_export_ready_for_fulfilment_def privacy_read_defs
    by (intro rules)
qed

text \<open>Exports.\<close>

lemma keeps_export_services:
  assumes "quiet_storage E"
  shows "keeps J (request_export_artifact X E i u ctx)" "keeps J (generate_download_url X E a ctx)"
    "keeps J (confirm_export_delivery X E a ctx)" "keeps J (claim_queued_artifact_leases E batch)"
    "keeps J (count_queued_artifacts E batch)" "keeps J (renew_processing_lease lease)"
    "keeps J (prepare_export_archive X E i token)" "keeps J (validate_prepared_export_upload pre token)"
    "keeps J (reset_prepared_export_upload_intent pre token)"
    "keeps J (mark_generated_export_artifact_ready X i pre by token')"
    "keeps J (service_mark_export_artifact_failed X i e by token')" "keeps J (clear_failed_export_storage_metadata c)"
    "keeps J (clear_export_storage_purge_metadata c)" "keeps J (expire_ready_artifacts X at limit)"
proof -
  note quiet = quiet_storageD [OF assms, THEN leaves_db_keeps]
  note rules = maintains_rules maintains_case_prod keeps_repositories keeps_status_events keeps_sync quiet
  have committed: "keeps J (prepared_from_committed_upload_intent x)" for x
    unfolding prepared_from_committed_upload_intent_def by (intro rules)
  show "keeps J (request_export_artifact X E i u ctx)" "keeps J (generate_download_url X E a ctx)"
    "keeps J (confirm_export_delivery X E a ctx)"
    unfolding request_export_artifact_def generate_download_url_def confirm_export_delivery_def ensure_exports_enabled_def
      ensure_download_dsr_is_still_eligible_def record_download_url_issued_def repo_confirm_delivery_def privacy_read_defs Let_def
    by (intro rules)+
  show "keeps J (claim_queued_artifact_leases E batch)" "keeps J (count_queued_artifacts E batch)"
    "keeps J (renew_processing_lease lease)"
    unfolding claim_queued_artifact_leases_def recover_stale_processing_artifacts_def recover_stale_processing_def
      claim_queued_batch_def count_queued_artifacts_def renew_processing_lease_def repo_renew_processing_lease_def
      execution_state_for_dsr_def latest_export_artifact_for_dsr_def privacy_read_defs
    by (intro rules)+
  show "keeps J (prepare_export_archive X E i token)" "keeps J (validate_prepared_export_upload pre token)"
    "keeps J (reset_prepared_export_upload_intent pre token)"
    unfolding prepare_export_archive_def ensure_exports_enabled_def ensure_processing_upload_intent_def
      validate_prepared_export_upload_def reset_prepared_export_upload_intent_def reset_processing_upload_intent_def
      privacy_read_defs Let_def
    by (intro rules committed)+
  show "keeps J (mark_generated_export_artifact_ready X i pre by token')"
    "keeps J (service_mark_export_artifact_failed X i e by token')" "keeps J (clear_failed_export_storage_metadata c)"
    "keeps J (clear_export_storage_purge_metadata c)" "keeps J (expire_ready_artifacts X at limit)"
    unfolding mark_generated_export_artifact_ready_def service_mark_export_artifact_failed_def load_processed_def
      art_mark_ready_def art_mark_failed_def art_mark_expired_def clear_failed_export_storage_metadata_def
      clear_export_storage_purge_metadata_def expire_ready_artifacts_def validate_positive_limit_def
      execution_state_for_dsr_def latest_export_artifact_for_dsr_def privacy_read_defs Let_def
    by (intro rules)+
qed

text \<open>The endpoints, but for the execution of an erasure.\<close>

lemma idle_staff_write:
  assumes "leaves_db limit" and "\<And>a. keeps J (h a)"
  shows "maintains (idle J) (require_rate_limited_platform_write_context limit permission p h)"
proof -
  have "leaves_db (resolve_platform_actor p permission)"
    using leaves_db_platform_reads(2) by (simp add: require_platform_permission_def)
  then show ?thesis
    unfolding require_rate_limited_platform_write_context_def
    by (intro maintains_bind idle_leaves_db [OF assms(1)] idle_session_begin keeps_commits
        leaves_db_keeps [of "resolve_platform_actor p permission"] assms(2))
qed

lemma idle_privacy_reads:
  assumes "leaves_db limit"
  shows "maintains (idle J) (api_list_own_data_subject_requests limit p l n st ty)"
    "maintains (idle J) (api_get_own_data_subject_request limit p i)"
    "maintains (idle J) (api_list_platform_data_subject_requests limit p l n f)"
    "maintains (idle J) (api_get_platform_data_subject_request limit p i)"
    "maintains (idle J) (api_list_platform_export_artifacts limit p l n)"
    "maintains (idle J) (api_get_platform_export_artifact limit p i)"
  unfolding api_list_own_data_subject_requests_def api_get_own_data_subject_request_def
    api_list_platform_data_subject_requests_def api_get_platform_data_subject_request_def
    api_list_platform_export_artifacts_def api_get_platform_export_artifact_def
  by (intro idle_leaves_db leaves_db_rules leaves_db_case_prod assms leaves_db_privacy_reads leaves_db_platform_reads)+

lemma idle_own_requests:
  assumes "leaves_db limit"
  shows "maintains (idle J) (api_submit_data_subject_request X limit p q body key)"
    "maintains (idle J) (api_cancel_own_data_subject_request X limit p q i)"
    "maintains (idle J) (api_list_own_export_artifacts limit p l n)"
    "maintains (idle J) (api_get_own_export_artifact limit p i)"
  unfolding api_submit_data_subject_request_def api_cancel_own_data_subject_request_def
    api_list_own_export_artifacts_def api_get_own_export_artifact_def
  by (intro maintains_bind maintains_ret maintains_case_prod idle_leaves_db [OF assms] idle_leaves_db [OF leaves_db_lift]
      idle_session_begin keeps_commits keeps_request_services leaves_db_keeps [OF leaves_db_privacy_reads(10)]
      idle_leaves_db [OF leaves_db_privacy_reads(11)] idle_leaves_db [OF leaves_db_privacy_reads(7)]
      idle_leaves_db [OF leaves_db_privacy_reads(6)] idle_provision)+

lemma keeps_bodies:
  "keeps J (empty_body body)" "keeps J (optional_reason body)" "keeps J (required_reason body)"
  unfolding empty_body_def optional_reason_def required_reason_def
  by (intro maintains_rules leaves_db_keeps [OF leaves_db_lift])+

lemma idle_privacy_requests:
  assumes "quiet_storage E" and "leaves_db limit" and "\<And>i. leaves_db (alimit i)"
    and "\<And>i body. r \<noteq> ExecuteErasure i body"
  shows "maintains (idle J) (privacy_dispatch X E limit alimit p q r)"
proof -
  note rules = maintains_bind maintains_ret idle_staff_write [OF assms(2)] idle_privacy_reads [OF assms(2)]
    idle_own_requests [OF assms(2)] keeps_bodies keeps_request_services keeps_export_services [OF assms(1)]
    leaves_db_keeps [OF assms(3)] leaves_db_keeps [OF leaves_db_privacy_reads(8)]
  have own: "maintains (idle J) (api_create_own_export_download_url X E limit alimit p q i)"
    "maintains (idle J) (api_confirm_own_export_delivery X E limit alimit p q i)" for i
    unfolding api_create_own_export_download_url_def api_confirm_own_export_delivery_def
    by (intro maintains_bind maintains_ret idle_leaves_db [OF assms(2)] idle_session_begin keeps_commits keeps_provision
        leaves_db_keeps [OF leaves_db_privacy_reads(6)] leaves_db_keeps [OF assms(3)] keeps_export_services [OF assms(1)])+
  show ?thesis
    using assms(4)
    by (cases r; simp only: privacy_dispatch.simps discard_def api_verify_representative_authority_def
        api_reject_representative_authority_def api_review_data_subject_request_def
        api_approve_data_subject_request_def api_reject_data_subject_request_def
        api_cancel_platform_data_subject_request_def api_fulfil_data_subject_request_def
        api_create_platform_export_artifact_def api_create_platform_export_download_url_def
        api_confirm_platform_export_delivery_def privacy_request.simps;
        (intro rules own | simp)+)
qed

end

end
