(* ===== verification/Privacy_Effects.thy ===== *)
theory Privacy_Effects
  imports Privacy_Frame
begin

section \<open>The privacy side keeps the invariant\<close>

text \<open>
  The invariant of the application and its administrators are frames of the privacy side. Erasures and
  the retention of invites and outbox events keep the invariant as well; an erasure takes the means to
  sign in from the person it concerns and from nobody else.
\<close>

interpretation saas_privacy: privacy_frame saas_inv
proof
  fix d fp
  assume inv: "saas_inv d" and I: "integrity (privacy_update fp d)"
  show "saas_inv (privacy_update fp d)"
    by (rule saas_inv_frame [OF inv]) (use I saas_invD(2,5) [OF inv] in \<open>simp_all add: tenant_inv_def invite_roles_def\<close>)
next
  fix d fa
  assume inv: "saas_inv d" and I: "integrity (audit_events_update fa d)"
  show "saas_inv (audit_events_update fa d)"
    by (rule saas_inv_frame [OF inv]) (use I saas_invD(2,5) [OF inv] in \<open>simp_all add: tenant_inv_def invite_roles_def\<close>)
next
  fix d and u :: user
  assume inv: "saas_inv d" and I: "integrity (users_update (\<lambda>rows. rows @ [u]) d)"
  show "saas_inv (users_update (\<lambda>rows. rows @ [u]) d)"
    by (rule saas_inv_frame [OF inv]) (use I saas_invD(2,5) [OF inv] in \<open>simp_all add: tenant_inv_def invite_roles_def\<close>)
next
  fix d and p :: "user \<Rightarrow> bool" and f
  assume inv: "saas_inv d" and I: "integrity (users_update (update_where p f) d)"
  show "saas_inv (users_update (update_where p f) d)"
    by (rule saas_inv_frame [OF inv]) (use I saas_invD(2,5) [OF inv] in \<open>simp_all add: tenant_inv_def invite_roles_def\<close>)
qed

interpretation admin_privacy: privacy_frame "\<lambda>d. effective_admin d a" for a
proof
  fix d :: db and p :: "user \<Rightarrow> bool" and f :: "user \<Rightarrow> user"
  assume "effective_admin d a"
    and "\<And>u. usr_id (f u) = usr_id u \<and> usr_status (f u) = usr_status u \<and> external_auth_id (f u) = external_auth_id u"
  then show "effective_admin (users_update (update_where p f) d) a" by (intro effective_admin_users) simp_all
qed (simp_all add: effective_admin_append)

subsection \<open>Scrubbed outbox events\<close>

lemma map_of_dict_set: "map_of (dict_set kvs k v) = (map_of kvs)(k \<mapsto> v)"
  by (induction kvs k v rule: dict_set.induct) auto

lemma kept_payload_undeliverable:
  "undeliverable (JObj (dict_set (dict_set (filter (\<lambda>kv. List.member safe_invite_payload_keys (fst kv)) kvs)
     ''sensitive_payload_scrubbed'' v) k v'))" if "\<not> List.member sensitive_invite_payload_keys k"
proof -
  have "\<not> List.member sensitive_invite_payload_keys x" if "x \<in> set safe_invite_payload_keys" for x
    using that by (auto simp: safe_invite_payload_keys_def sensitive_invite_payload_keys_def)
  moreover have "\<not> List.member sensitive_invite_payload_keys ''sensitive_payload_scrubbed''"
    by (simp add: sensitive_invite_payload_keys_def)
  moreover have "set (dict_set (dict_set kept ''sensitive_payload_scrubbed'' v) k v') \<subseteq>
      insert (k, v') (insert (''sensitive_payload_scrubbed'', v) (set kept))" for kept
    using set_dict_set [of "dict_set kept ''sensitive_payload_scrubbed'' v" k v']
      set_dict_set [of kept "''sensitive_payload_scrubbed''" v] by blast
  ultimately show ?thesis using that unfolding undeliverable.simps list_all_iff by fastforce
qed

lemma scrubbed_payload_ok: "undeliverable (scrubbed_payload p)" "privacy_marked (scrubbed_payload p)"
proof -
  have "\<not> List.member sensitive_invite_payload_keys ''privacy_erasure_scrubbed''"
    by (simp add: sensitive_invite_payload_keys_def)
  then show "undeliverable (scrubbed_payload p)"
    unfolding scrubbed_payload_def Let_def by (rule kept_payload_undeliverable)
  show "privacy_marked (scrubbed_payload p)"
    by (simp add: privacy_marked_def scrubbed_payload_def Let_def map_of_dict_set)
qed

lemma retention_payload_ok: "undeliverable (scrubbed_outbox_payload p)" "privacy_marked (scrubbed_outbox_payload p)"
proof -
  have "\<not> List.member sensitive_invite_payload_keys privacy_retention_scrubbed"
    by (simp add: sensitive_invite_payload_keys_def privacy_retention_scrubbed_def)
  then show "undeliverable (scrubbed_outbox_payload p)"
    unfolding scrubbed_outbox_payload_def Let_def by (rule kept_payload_undeliverable)
  show "privacy_marked (scrubbed_outbox_payload p)"
    by (simp add: privacy_marked_def scrubbed_outbox_payload_def Let_def map_of_dict_set privacy_retention_scrubbed_def)
qed

lemma event_ok_stamped [simp]: "event_ok (e\<lparr>obx_updated_at := t\<rparr>) = event_ok e"
  by (simp add: event_ok_def)

lemma event_ok_erased: "event_ok e \<Longrightarrow> event_ok (assigned scrub_outbox_event e)"
  by (cases "obx_status e")
     (auto simp: event_ok_def assigned_eq scrub_outbox_event_def scrubbed_payload_ok)

lemma erased_event_fields:
  "obx_status (assigned scrub_outbox_event e) = (if obx_status e = OUTBOX_PENDING then OUTBOX_FAILED else obx_status e)"
  by (simp add: assigned_eq scrub_outbox_event_def)

lemma event_ok_retained:
  "event_ok e \<Longrightarrow> outbox_event_past_retention now e \<Longrightarrow> event_ok (apply_outbox_retention e)"
  by (cases "obx_status e")
     (auto simp: event_ok_def apply_outbox_retention_def outbox_event_past_retention_def Let_def retention_payload_ok)

subsection \<open>An erasure\<close>

lemma list_all2_in_set1: "list_all2 R xs ys \<Longrightarrow> x \<in> set xs \<Longrightarrow> \<exists>y \<in> set ys. R x y"
  by (induction rule: list_all2_induct) auto

lemma erased_saas:
  assumes E: "erased_tables u s ids now d d'" and inv: "saas_inv d" and I: "integrity d'"
  shows "saas_inv d'"
proof -
  have same: "memberships d' = memberships d" "organisations d' = organisations d" "delivery_claims d' = delivery_claims d"
    using E by (simp_all add: erased_tables_def Let_def)
  then have "tenancy d' = tenancy d" by (simp add: tenancy_def owners_of_def live_ids_def active_orgs_def)
  moreover have "event_ok e" if "e \<in> set (outbox_events d')" for e
    by (rule rows_changed_all [OF erased_tablesD(2) [OF E] that])
       (use saas_invD(4) [OF inv] in \<open>auto simp: outbox_inv_def event_ok_erased\<close>)
  moreover have "claims_ok d'"
    unfolding claims_ok_def
  proof (intro ballI impI)
    fix c e assume c: "c \<in> set (delivery_claims d')" "e \<in> set (outbox_events d')" "obx_id e = clm_event_id c"
    obtain e0 where e0: "e0 \<in> set (outbox_events d)"
      "row_changed (\<lambda>t x. x\<lparr>obx_updated_at := t\<rparr>) (assigned scrub_outbox_event)
         (subject_outbox_event (normalise_optional_email (usr_email s)) ids) e0 e"
      using rows_changed_member [OF erased_tablesD(2) [OF E] c(2)] by blast
    then have "obx_id e0 = obx_id e" by (auto simp: row_changed_def split: if_splits)
    with saas_invD(4) [OF inv] e0(1) c same have "obx_status e0 = OUTBOX_PROCESSING"
      by (auto simp: outbox_inv_def claims_ok_def)
    with e0(2) show "obx_status e = OUTBOX_PROCESSING"
      by (auto simp: row_changed_def erased_event_fields split: if_splits)
  qed
  moreover have "inv_role v \<noteq> OWNER" if "v \<in> set (invites d')" for v
    by (rule rows_changed_all [OF erased_tablesD(3) [OF E] that])
       (use saas_invD(5) [OF inv] in \<open>auto simp: invite_roles_def assigned_eq anonymise_invite_def\<close>)
  ultimately show ?thesis
    using I saas_invD(2) [OF inv] by (simp add: saas_inv_def tenant_inv_def outbox_inv_def invite_roles_def)
qed

lemma erased_admin:
  assumes E: "erased_tables u s ids now d d'" and adm: "effective_admin d a" and a: "a \<noteq> u"
  shows "effective_admin d' a"
proof -
  from adm obtain x r where x: "x \<in> set (users d)" "usr_id x = a" "usr_status x = USER_ACTIVE" "\<not> tombstone_subject (external_auth_id x)"
    and r: "r \<in> set (staff_rows d)" "stf_user_id r = a" "active_platform_admin r"
    by (auto simp: effective_admin_def list_ex_iff)
  from list_all2_in_set1 [OF erased_tablesD(8) [OF E, unfolded rows_changed_def] x(1)]
  have "x \<in> set (users d')" using x(2) a by (auto simp: row_changed_def)
  moreover obtain r' where "r' \<in> set (staff_rows d')" "row_changed (\<lambda>t x. x\<lparr>stf_updated_at := t\<rparr>)
      (assigned (minimise_platform_staff_row u)) (staff_refers_to u) r r'"
    using list_all2_in_set1 [OF erased_tablesD(4) [OF E, unfolded rows_changed_def] r(1)] by blast
  with r(2,3) have "\<exists>r'\<in>set (staff_rows d'). stf_user_id r' = a \<and> active_platform_admin r'"
    by (intro bexI [of _ r'])
       (auto simp: row_changed_def assigned_eq minimise_platform_staff_row_def active_platform_admin_def split: if_splits)
  ultimately show ?thesis using x by (auto simp: effective_admin_def list_ex_iff)
qed

lemma conclude_erasure_status:
  "conclude_erasure p u now y w = (Inr res, w') \<Longrightarrow> orc_status res \<noteq> ERASURE_ALREADY_COMPLETED"
  by (cases y) (auto simp: conclude_erasure_def run_rules)

lemma resolve_platform_actor_world: "resolve_platform_actor p permission w = (Inr a, w') \<Longrightarrow> w' = w"
  by (auto simp: resolve_platform_actor_def resolve_active_platform_actor_def access_denied_def
      get_current_user_by_external_auth_id_def user_get_by_external_auth_id_def staff_get_by_user_id_def
      scalar_one_or_none_def run_rules split: list.splits option.splits if_splits)

text \<open>A run of the service: who executes, whose request it is, the core, and the rest of the transaction.\<close>

lemma scalar_one_Some: "scalar_one_or_none xs s = (Inr (Some x), s') \<longleftrightarrow> xs = [x] \<and> s' = s"
  by (auto simp: scalar_one_or_none_def run_rules split: list.splits)

lemma lock_authorised_executor_run:
  assumes "lock_authorised_executor e w = (Inr s, w')"
  shows "w' = w \<and> s \<in> set (staff_rows (db w)) \<and> stf_user_id s = e \<and> stf_status s = ''active'' \<and>
    stf_role s \<in> {''platform_admin'', ''compliance_officer''} \<and>
    (\<exists>x\<in>set (users (db w)). usr_id x = e \<and> usr_status x = USER_ACTIVE)"
proof -
  from assms have rows: "executor_rows e (db w) = [(s, USER_ACTIVE)]"
    and st: "stf_status s = ''active''" "stf_role s \<in> {''platform_admin'', ''compliance_officer''}" "w' = w"
    by (auto simp: lock_authorised_executor_def run_rules scalar_one_Some split: option.splits prod.splits if_splits)
  then have "(s, USER_ACTIVE) \<in> set (executor_rows e (db w))" by simp
  with st show ?thesis unfolding executor_rows_def by auto
qed

definition after_core_erasure ::
  "externals \<Rightarrow> uuid \<Rightarrow> uuid \<Rightarrow> audit_context \<Rightarrow> orchestration_result \<Rightarrow>
   (data_subject_request \<times> deferred_deletion list) app" where
  "after_core_erasure X i executor ctx o' =
     bind (get_platform_request i) (\<lambda>r.
     if is_ready_approved_erasure_request r
     then bind (transition_request X (dsr_id r) DSR_FULFILLED (fulfilment_reviewer_user_id r executor) None None True ctx)
       (\<lambda>u. ret (u, orc_deletions o'))
     else ret (r, orc_deletions o'))"

lemma execute_approved_run:
  assumes I: "integrity (db w)" and run: "execute_approved_erasure_request X i executor at ctx w = (Inr res, w')"
  obtains now s r w0 o' w1 a w2 v where "db w0 = db w" "lock_authorised_executor executor w0 = (Inr s, w0)"
    "find (\<lambda>r. dsr_id r = i) (requests_of (db w)) = Some r" "dsr_subject r \<noteq> Some executor"
    "execute_core_erasure i now w0 = (Inr o', w1)" "db w2 = db w1"
    "flush (audit_events_update (\<lambda>rows. rows @ [audit_execution o' s now a])) w2 = (Inr (), v)"
    "after_core_erasure X i executor ctx o' v = (Inr res, w')"
proof -
  from run obtain o' v where st: "execute_erasure_by_staff i executor at w = (Inr o', v)"
    and rest: "after_core_erasure X i executor ctx o' v = (Inr res, w')"
    by (auto simp: execute_approved_erasure_request_def after_core_erasure_def bind_Inr try_except_raise_run)
  from st obtain now w0 s w0' r w0'' w1 a w2 where now: "(case at of Some t \<Rightarrow> ret t | None \<Rightarrow> utcnow) w = (Inr now, w0)"
    and s: "lock_authorised_executor executor w0 = (Inr s, w0')" and r: "lock_erasure_request i w0' = (Inr r, w0'')"
    and self: "dsr_subject r \<noteq> Some (stf_user_id s)" and y: "execute_core_erasure (dsr_id r) now w0'' = (Inr o', w1)"
    and a: "uuid4 w1 = (Inr a, w2)"
    and au: "flush (audit_events_update (\<lambda>rows. rows @ [audit_execution o' s now a])) w2 = (Inr (), v)"
    unfolding execute_erasure_by_staff_def bind_Inr reject_self_erasure_def ensure_run by (auto simp: ret_run)
  from now have 0: "db w0 = db w" by (auto simp: run_rules split: option.splits)
  note staff = lock_authorised_executor_run [OF s]
  from r staff I 0 have r': "find (\<lambda>r. dsr_id r = i) (requests_of (db w)) = Some r" "w0'' = w0"
    by (auto simp: lock_erasure_request_def run_rules dsr_get_by_id_eq split: option.splits)
  then have "dsr_id r = i" by (auto simp: find_Some_iff)
  moreover from a have "db w2 = db w1" by (auto simp: uuid4_def)
  ultimately show thesis using that [OF 0 _ r'(1) _ _ _ au rest] s self y staff r'(2) by auto
qed

context privacy_frame
begin

text \<open>What an erasure keeps that nobody but its subject can lose.\<close>

lemma core_erasure_keeps:
  assumes run: "execute_core_erasure i now w = (Inr res, w')" and I: "integrity (db w)" and J: "J (db w)"
    and erased: "\<And>u s ids d d' r. r \<in> set (requests_of (db w)) \<Longrightarrow> dsr_id r = i \<Longrightarrow> dsr_subject r = Some u \<Longrightarrow>
      erased_tables u s ids now d d' \<Longrightarrow> integrity d' \<Longrightarrow> J d \<Longrightarrow> J d'"
  shows "J (db w')"
proof -
  have save: "J (db v') \<and> integrity (db v')" if "dsr_save r f v = (Inr r', v')" "integrity (db v)" "J (db v)" for r f v r' v'
    using that(1,2) by (rule dsr_save_run) (use that(2,3) frame_privacy in auto)
  show "J (db w')"
  proof (cases "orc_status res = ERASURE_ALREADY_COMPLETED")
    case True
    with run have "w' = w"
      by (auto simp: execute_core_erasure_def run_rules erasure_subject_user_id_def
          dest!: lock_and_validate_request_run [OF _ I] conclude_erasure_status split: option.splits if_splits)
    with J show ?thesis by simp
  next
    case False
    from run I this obtain r u p w1 y w2 where r: "find (\<lambda>r. dsr_id r = i) (requests_of (db w)) = Some r" "dsr_id r = i"
        "dsr_subject r = Some u"
      and p: "dsr_save r (erasure_processing now) w = (Inr p, w1)" and y: "attempt_erasure p u now w1 = (Inr y, w2)"
      and c: "conclude_erasure p u now y w2 = (Inr res, w')"
      by (rule execute_core_erasure_run)
    note s1 = save [OF p I J]
    have mid: "J (db w2) \<and> integrity (db w2)"
    proof (cases y)
      case (Inl e)
      with y s1 show ?thesis by (auto dest: attempt_erasure_Inl)
    next
      case (Inr x)
      from y [unfolded Inr] s1 obtain s ids where "integrity (db w2)" "erased_tables u s ids now (db w1) (db w2)"
        using processing_saved [OF p I] r(3) by (auto elim!: attempt_erasure_Inr)
      with erased [OF _ r(2,3)] r(1) s1 show ?thesis by (auto simp: find_Some_iff)
    qed
    with c save show ?thesis
      by (auto simp: conclude_erasure_def run_rules current_request_def split: sum.splits)
  qed
qed

lemma execute_approved_keeps:
  assumes run: "execute_approved_erasure_request X i executor at ctx w = (Inr res, w')"
    and I: "integrity (db w)" and J: "J (db w)"
    and erased: "\<And>now u s ids d d' r. r \<in> set (requests_of (db w)) \<Longrightarrow> dsr_id r = i \<Longrightarrow> dsr_subject r = Some u \<Longrightarrow>
      u \<noteq> executor \<Longrightarrow> erased_tables u s ids now d d' \<Longrightarrow> integrity d' \<Longrightarrow> J d \<Longrightarrow> J d'"
  shows "J (db w')"
proof -
  from I run obtain now s r w0 o' w1 a w2 v where 0: "db w0 = db w"
    and r: "find (\<lambda>r. dsr_id r = i) (requests_of (db w)) = Some r" "dsr_subject r \<noteq> Some executor"
    and core: "execute_core_erasure i now w0 = (Inr o', w1)" and w2: "db w2 = db w1"
    and au: "flush (audit_events_update (\<lambda>rows. rows @ [audit_execution o' s now a])) w2 = (Inr (), v)"
    and rest: "after_core_erasure X i executor ctx o' v = (Inr res, w')"
    by (rule execute_approved_run)
  have "r' = r" if "r' \<in> set (requests_of (db w))" "dsr_id r' = i" for r'
    using r(1) that I by (auto simp: find_Some_iff intro: dsr_rows.same_key_same_row [OF I])
  then have "J (db w1)"
    using core_erasure_keeps [OF core] erased r(2) I J unfolding 0 by blast
  moreover have "keeps J (flush (audit_events_update f))" for f
    by (intro keeps_flush frame_audit_log)
  ultimately have "J (db v)" using au w2 maintainsD [where I = "\<lambda>w. J (db w)"] by metis
  moreover have "keeps J (after_core_erasure X i executor ctx o')"
    unfolding after_core_erasure_def get_platform_request_def get_request_def dsr_get_by_id_def
    by (intro maintains_rules keeps_transition)
  ultimately show ?thesis using rest by (auto dest: maintainsD)
qed

end

text \<open>The endpoint: it raises and leaves the database alone, or it returns what its transaction committed.\<close>

lemma delete_deferred_run:
  assumes "quiet_storage E"
  shows "\<exists>w'. delete_deferred_objects E ds w = (Inr (), w') \<and> db w' = db w \<and> in_tx w' = in_tx w"
  unfolding delete_deferred_objects_def
proof (induction ds arbitrary: w)
  case (Cons d ds)
  obtain r w1 where d: "storage_delete (exp_storage E (fst d)) (snd d) w = (r, w1)" by fastforce
  then have "db w1 = db w" "in_tx w1 = in_tx w"
    using leaves_dbD [OF quiet_storageD(7) [OF assms]] by blast+
  with Cons [of w1] d show ?case
    by (cases r) (auto simp: bind_def try_except_def ret_def split: prod.splits)
qed (simp add: ret_def)

lemma execute_erasure_outcome:
  assumes "quiet_storage E" and "leaves_db limit" and run: "api_execute_erasure X E limit p q i body w = (res, w')"
  obtains (refused) e where "res = Inl e" "db w' = db w" "in_tx w' = in_tx w"
  | (executed) y a v1 v2 x v where "res = Inr y" "\<not> in_tx w'" "db w' = db v" "db v1 = db w" "db v2 = db w"
    "resolve_platform_actor p PRIVACY_REQUESTS_EXECUTE_ERASURE v1 = (Inr a, v1)"
    "execute_approved_erasure_request X i (usr_id (act_user a)) None
       (build_audit_context_from_request (usr_id (act_user a)) q) v2 = (Inr x, v)"
proof -
  let ?m = "bind (resolve_platform_actor p PRIVACY_REQUESTS_EXECUTE_ERASURE) (\<lambda>a. bind (empty_body body) (\<lambda>_.
    execute_approved_erasure_request X i (usr_id (act_user a)) None (build_audit_context_from_request (usr_id (act_user a)) q)))"
  obtain y w1 where l: "limit w = (y, w1)" by fastforce
  have w1: "db w1 = db w" "in_tx w1 = in_tx w" using leaves_dbD [OF assms(2) l] by simp_all
  obtain z w2 where z: "session_begin ?m w1 = (z, w2)" by fastforce
  have "api_execute_erasure X E limit p q i body w = (case y of Inl e \<Rightarrow> (Inl e, w1) | Inr _ \<Rightarrow>
      (case z of Inl e \<Rightarrow> (Inl e, w2) | Inr x \<Rightarrow> (case x of (r, ds) \<Rightarrow>
        bind (delete_deferred_objects E ds) (\<lambda>_. ret (platform_dsr_of r)) w2)))"
    using l z by (simp add: api_execute_erasure_def require_rate_limited_platform_write_context_def bind_def
        split: sum.splits prod.splits)
  note step = this [unfolded run]
  show thesis
  proof (cases "\<exists>e. y = Inl e \<or> y = Inr () \<and> z = Inl e")
    case True
    then obtain e where "res = Inl e" "w' = w1 \<or> z = Inl e \<and> w' = w2" using step by auto
    with z w1 refused show thesis
      by (auto simp: session_begin_def split: prod.splits sum.splits if_splits)
  next
    case False
    then obtain x where x: "z = Inr x" by (cases y; cases z) auto
    from z [unfolded x] obtain a u1 u2 v where a: "resolve_platform_actor p PRIVACY_REQUESTS_EXECUTE_ERASURE (w1\<lparr>in_tx := True\<rparr>) = (Inr a, u1)"
      and b: "empty_body body u1 = (Inr (), u2)"
      and e: "execute_approved_erasure_request X i (usr_id (act_user a)) None
        (build_audit_context_from_request (usr_id (act_user a)) q) u2 = (Inr x, v)" and w2: "w2 = v\<lparr>in_tx := False\<rparr>"
      by (auto simp: session_begin_Inr bind_Inr)
    from a have u1: "u1 = w1\<lparr>in_tx := True\<rparr>" by (rule resolve_platform_actor_world)
    from b u1 w1 have "db u2 = db w" by (auto simp: empty_body_def ensure_run)
    moreover obtain w3 where "delete_deferred_objects E (snd x) w2 = (Inr (), w3)" "db w3 = db w2" "in_tx w3 = in_tx w2"
      using delete_deferred_run [OF assms(1)] by blast
    with False x step have "res = Inr (platform_dsr_of (fst x))" "w' = w3" by (auto simp: bind_def ret_def split: sum.splits prod.splits)
    ultimately show thesis
      using executed [of "platform_dsr_of (fst x)" v "w1\<lparr>in_tx := True\<rparr>" u2 a x] a u1 e w1 w2
        \<open>db w3 = db w2\<close> \<open>in_tx w3 = in_tx w2\<close> by simp
  qed
qed

context privacy_frame
begin

lemma execute_erasure_idle:
  assumes "quiet_storage E" and "leaves_db limit" and idle: "idle J w" and I: "integrity (db w)"
    and erased: "\<And>now u s ids d d' r. r \<in> set (requests_of (db w)) \<Longrightarrow> dsr_id r = i \<Longrightarrow> dsr_subject r = Some u \<Longrightarrow>
      erased_tables u s ids now d d' \<Longrightarrow> integrity d' \<Longrightarrow> J d \<Longrightarrow> J d'"
  shows "idle J (snd (api_execute_erasure X E limit p q i body w))"
proof -
  obtain res w' where run: "api_execute_erasure X E limit p q i body w = (res, w')" by fastforce
  from assms(1,2) run show ?thesis
  proof (cases rule: execute_erasure_outcome)
    case (refused e)
    with idle run show ?thesis by simp
  next
    case (executed y a v1 v2 x v)
    from execute_approved_keeps [OF executed(7)] executed I idle erased run show ?thesis by simp
  qed
qed

end

subsection \<open>Retention\<close>

lemma saas_inv_retained_invites:
  assumes inv: "saas_inv d" and I: "integrity (invites_update (\<lambda>_. rs) d)"
    and ch: "rows_changed (\<lambda>t r. r\<lparr>inv_updated_at := t\<rparr>) f p (invites d) rs" and f: "\<And>v. inv_role (f v) = inv_role v"
  shows "saas_inv (invites_update (\<lambda>_. rs) d)"
proof -
  have "inv_role v \<noteq> OWNER" if "v \<in> set rs" for v
    by (rule rows_changed_all [OF ch that]) (use saas_invD(5) [OF inv] f in \<open>auto simp: invite_roles_def\<close>)
  then show ?thesis
    by (intro saas_inv_frame [OF inv]) (use I saas_invD(2) [OF inv] in \<open>simp_all add: tenant_inv_def invite_roles_def\<close>)
qed

lemma saas_inv_retained_events:
  assumes inv: "saas_inv d" and I: "integrity (outbox_events_update (\<lambda>_. rs) d)"
    and ch: "rows_changed (\<lambda>t r. r\<lparr>obx_updated_at := t\<rparr>) f p (outbox_events d) rs"
    and f: "\<And>e. obx_id (f e) = obx_id e" "\<And>e. obx_status (f e) = obx_status e"
      "\<And>e. e \<in> set (outbox_events d) \<Longrightarrow> p e \<Longrightarrow> event_ok e \<Longrightarrow> event_ok (f e)"
  shows "saas_inv (outbox_events_update (\<lambda>_. rs) d)"
proof -
  have ok: "event_ok e" if "e \<in> set rs" for e
    by (rule rows_changed_all [OF ch that]) (use saas_invD(4) [OF inv] f(3) in \<open>auto simp: outbox_inv_def\<close>)
  have "claims_ok (outbox_events_update (\<lambda>_. rs) d)"
    unfolding claims_ok_def
  proof (intro ballI impI)
    fix c e assume c: "c \<in> set (delivery_claims (outbox_events_update (\<lambda>_. rs) d))"
      "e \<in> set (outbox_events (outbox_events_update (\<lambda>_. rs) d))" "obx_id e = clm_event_id c"
    from c(2) have "e \<in> set rs" by simp
    from rows_changed_member [OF ch this] obtain e0 where "e0 \<in> set (outbox_events d)" "obx_id e0 = obx_id e"
        "obx_status e0 = obx_status e"
      unfolding row_changed_def using f by (metis outbox_event.select_convs outbox_event.surjective outbox_event.update_convs)
    with saas_invD(4) [OF inv] c show "obx_status e = OUTBOX_PROCESSING"
      by (auto simp: outbox_inv_def claims_ok_def)
  qed
  with ok I inv show ?thesis
    by (simp add: saas_inv_def tenant_inv_def outbox_inv_def invite_roles_def)
qed

text \<open>Loaded rows that are saved.\<close>

context stamped_table
begin

lemma save_loaded:
  assumes "save_rows put key stamp f batch w = (Inr u, w')" and "integrity (db w)"
    and "batch = take k (oldest_first c key (filter p (rows (db w))))" and "\<And>r. key (f r) = key r"
  shows "\<exists>rs. db w' = put (\<lambda>_. rs) (db w) \<and> integrity (put (\<lambda>_. rs) (db w)) \<and>
    rows_changed stamp f (\<lambda>r. r \<in> set batch) (rows (db w)) rs" and "r \<in> set batch \<Longrightarrow> p r"
proof -
  have sub: "set batch \<subseteq> set (filter p (rows (db w)))" unfolding assms(3) by (metis set_take_subset set_oldest_first)
  then show "r \<in> set batch \<Longrightarrow> p r" by auto
  have keys: "distinct (map key batch)"
    using key_unique [OF assms(2)] by (simp add: assms(3) distinct_map_filter flip: take_map)
  have loaded: "set batch = {r \<in> set (rows (db w)). r \<in> set batch}" using sub by auto
  from save_rows_run [OF assms(1,2) loaded keys assms(4)] show "\<exists>rs. db w' = put (\<lambda>_. rs) (db w) \<and>
      integrity (put (\<lambda>_. rs) (db w)) \<and> rows_changed stamp f (\<lambda>r. r \<in> set batch) (rows (db w)) rs"
    by (elim exE conjE) (metis world.select_convs(1) world.surjective world.update_convs(1))
qed

end

lemma commits_retained_invites: "commits saas_inv (anonymise_retained_invites cfg now k dry)"
proof (rule commitsI)
  let ?f = "\<lambda>v. if invite_needs_retention v then apply_invite_retention v else v"
  fix w n w'
  assume inv: "saas_inv (db w)" and run: "anonymise_retained_invites cfg now k dry w = (Inr n, w')"
  let ?batch = "take k (oldest_first inv_updated_at inv_id
    (filter (\<lambda>v. invite_past_retention cfg now v \<and> invite_needs_retention v) (invites (db w))))"
  show "saas_inv (db w')"
  proof (cases "w' = w")
    case False
    with run have "save_rows invites_update inv_id (\<lambda>t v. v\<lparr>inv_updated_at := t\<rparr>) ?f ?batch w = (Inr (), w')"
      by (auto simp: anonymise_retained_invites_def load_retained_invites_def run_rules Let_def split: if_splits)
    note saved = saved_invite.save_loaded [OF this saas_invD(1) [OF inv] refl]
    have f: "inv_id (?f v) = inv_id v" "inv_role (?f v) = inv_role v" for v by (simp_all add: apply_invite_retention_def)
    from saved(1) [OF f(1)] obtain rs where rs: "db w' = invites_update (\<lambda>_. rs) (db w)"
        "integrity (invites_update (\<lambda>_. rs) (db w))"
        "rows_changed (\<lambda>t v. v\<lparr>inv_updated_at := t\<rparr>) ?f (\<lambda>v. v \<in> set ?batch) (invites (db w)) rs" by blast
    from saas_inv_retained_invites [OF inv rs(2,3) f(2)] rs(1) show ?thesis by simp
  qed (simp add: inv)
qed

lemma commits_retained_events: "commits saas_inv (scrub_retained_outbox_events now k dry)"
proof (rule commitsI)
  let ?f = "\<lambda>e. if outbox_event_needs_retention e then apply_outbox_retention e else e"
  fix w n w'
  assume inv: "saas_inv (db w)" and run: "scrub_retained_outbox_events now k dry w = (Inr n, w')"
  let ?batch = "take k (oldest_first obx_created_at obx_id
    (filter (\<lambda>e. outbox_event_past_retention now e \<and> outbox_event_needs_retention e) (outbox_events (db w))))"
  show "saas_inv (db w')"
  proof (cases "w' = w")
    case False
    with run have "save_rows outbox_events_update obx_id (\<lambda>t e. e\<lparr>obx_updated_at := t\<rparr>) ?f ?batch w = (Inr (), w')"
      by (auto simp: scrub_retained_outbox_events_def load_retained_outbox_events_def run_rules Let_def split: if_splits)
    note saved = saved_outbox.save_loaded [OF this saas_invD(1) [OF inv] refl]
    have f: "obx_id (?f e) = obx_id e" "obx_status (?f e) = obx_status e" for e
      by (simp_all add: apply_outbox_retention_def Let_def)
    from saved(1) [OF f(1)] obtain rs where rs: "db w' = outbox_events_update (\<lambda>_. rs) (db w)"
        "integrity (outbox_events_update (\<lambda>_. rs) (db w))"
        "rows_changed (\<lambda>t e. e\<lparr>obx_updated_at := t\<rparr>) ?f (\<lambda>e. e \<in> set ?batch) (outbox_events (db w)) rs" by blast
    have "saas_inv (outbox_events_update (\<lambda>_. rs) (db w))"
    proof (rule saas_inv_retained_events [OF inv rs(2,3) f])
      show "event_ok (?f e)" if "e \<in> set ?batch" "event_ok e" for e
        using event_ok_retained [OF that(2), of now] saved(2) [OF f(1) that(1)] by simp
    qed
    with rs(1) show ?thesis by simp
  qed (simp add: inv)
qed

text \<open>The other steps write audit events and the privacy tables; the export part is shared by every frame.\<close>

lemma leaves_db_dry_maintenance: "leaves_db (run_privacy_retention_maintenance X cfg at limit True)"
proof -
  have quiet: "leaves_db (anonymise_retained_invites (rts_invites cfg) now k True)"
    "leaves_db (scrub_retained_outbox_events now k True)" "leaves_db (minimise_retained_audit_events (rts_audit cfg) now k True)"
    "leaves_db (clean_expired_dsr_idempotency_keys now k True)" "leaves_db (count_expired_ready_artifacts ms at k)"
    "leaves_db (normalise_utc at)" for now k ms at
    unfolding anonymise_retained_invites_def load_retained_invites_def scrub_retained_outbox_events_def
      load_retained_outbox_events_def minimise_retained_audit_events_def retained_audit_event_ids_def
      clean_expired_dsr_idempotency_keys_def expired_dsr_idempotency_ids_def count_expired_ready_artifacts_def
      normalise_utc_def validate_positive_limit_def privacy_read_defs Let_def
    by (simp_all only: simp_thms if_True, (intro leaves_db_rules)+)
  show ?thesis
    unfolding run_privacy_retention_maintenance_def run_non_export_retention_def expire_ready_export_artifacts_def if_True
    by (intro leaves_db_rules quiet)
qed

context privacy_frame
begin

lemma keeps_retention_steps:
  "keeps J (minimise_retained_audit_events acfg now k dry)" "keeps J (clean_expired_dsr_idempotency_keys now k dry)"
proof -
  have audit: "keeps J (flush (audit_events_update f))" for f by (intro keeps_flush frame_audit_log)
  have privacy: "keeps J (flush (requests_table f))" for f using keeps_privacy_flush [of "\<lambda>_. requests_update f"] by simp
  show "keeps J (minimise_retained_audit_events acfg now k dry)" "keeps J (clean_expired_dsr_idempotency_keys now k dry)"
    unfolding minimise_retained_audit_events_def retained_audit_event_ids_def clean_expired_dsr_idempotency_keys_def
      expired_dsr_idempotency_ids_def Let_def
    by (intro maintains_rules audit privacy)+
qed

lemma idle_purge_objects: "quiet_storage E \<Longrightarrow> maintains (idle J) (delete_export_storage_purges E ps)"
proof -
  assume quiet: "quiet_storage E"
  have "maintains (idle J) (delete_each_purge E ps)"
  proof (induction ps)
    case (Cons p ps)
    show ?case
      unfolding delete_each_purge.simps delete_export_storage_purge_object_def
      by (intro maintains_bind maintains_try_except maintains_ret maintains_case_prod maintains_case_option Cons.IH
          idle_leaves_db [OF quiet_storageD(7) [OF quiet]])
  qed (simp add: maintains_ret)
  then show ?thesis
    unfolding delete_export_storage_purges_def by (intro maintains_rules)
qed

lemma idle_retention_pass:
  assumes "quiet_storage E" and "\<And>icfg now k. commits J (anonymise_retained_invites icfg now k False)"
    and "\<And>now k. commits J (scrub_retained_outbox_events now k False)"
  shows "maintains (idle J) (retention_cli_run_once X E cfg dry_run n)"
proof -
  note kept = keeps_commits [OF keeps_retention_steps(1)] keeps_commits [OF keeps_retention_steps(2)]
  have ret: "commits J (ret x)" for x :: 'x by (rule keeps_commits [OF maintains_ret])
  have clear: "keeps J (clear_export_storage_purges ps)" for ps
    unfolding clear_export_storage_purges_def by (intro maintains_rules keeps_export_services [OF assms(1)])
  have reads: "keeps J (list_cancelled_erasure_storage_purges k)" "keeps J (list_failed_storage_purges k)"
    "keeps J (list_expired_storage_purges k ids)" for k ids
    unfolding list_cancelled_erasure_storage_purges_def list_failed_storage_purges_def list_expired_storage_purges_def
      validate_positive_limit_def privacy_read_defs
    by (intro maintains_rules)+
  have cancelled: "maintains (idle J) (list_cancelled_step cfg now limit)" for cfg now limit
    unfolding list_cancelled_step_def run_non_export_retention_def
    by (intro idle_session_begin commits_bind kept assms ret keeps_commits [OF reads(1)])
  have steps: "maintains (idle J) (list_failed_step limit gone)" "maintains (idle J) (expire_step X now limit b gone)"
    "maintains (idle J) (session_begin (clear_export_storage_purges gone))" for limit gone now b
    unfolding list_failed_step_def expire_step_def Let_def
    by (intro idle_session_begin keeps_commits maintains_rules clear reads keeps_export_services [OF assms(1)])+
  have "maintains (idle J) (purge_exports X E now limit ps)" for now limit ps
    unfolding purge_exports_def
    by (intro maintains_bind maintains_case_prod maintains_ret idle_purge_objects assms(1) steps)
  moreover have "maintains (idle J) (normalise_utc at)" for at
    unfolding normalise_utc_def by (intro idle_leaves_db leaves_db_rules)
  ultimately show ?thesis
    unfolding retention_cli_run_once_def run_privacy_retention_pass_def Let_def
    by (intro maintains_bind maintains_if maintains_ret maintains_raise maintains_ensure maintains_case_prod cancelled
        idle_rolled_back idle_leaves_db [OF leaves_db_dry_maintenance])
qed

end

subsection \<open>Every privacy request, every pass\<close>

lemma safe_privacy_retention: "quiet_storage E \<Longrightarrow> safe (retention_cli_run_once X E cfg dry_run n)"
  by (intro saas_privacy.idle_retention_pass commits_retained_invites commits_retained_events)

lemma idle_admin_retention:
  "quiet_storage E \<Longrightarrow> maintains (idle (\<lambda>d. effective_admin d a)) (retention_cli_run_once X E cfg dry_run n)"
  by (intro admin_privacy.idle_retention_pass keeps_commits)
     (simp_all only: anonymise_retained_invites_def load_retained_invites_def scrub_retained_outbox_events_def
        load_retained_outbox_events_def Let_def,
      (intro maintains_rules keeps_save_rows keeps_flush, simp_all)+)

lemma safe_privacy_dispatch:
  assumes "quiet_storage E" and "leaves_db limit" and "\<And>i. leaves_db (alimit i)"
  shows "safe (privacy_dispatch X E limit alimit p q r)"
proof (cases "\<exists>i body. r = ExecuteErasure i body")
  case True
  then obtain i body where r: "r = ExecuteErasure i body" by blast
  have "safe (api_execute_erasure X E limit p q i body)"
    by (intro maintainsI saas_privacy.execute_erasure_idle [OF assms(1,2)])
       (blast intro: erased_saas saas_invD(1))+
  then show ?thesis unfolding r privacy_dispatch.simps discard_def by (intro maintains_bind maintains_ret)
next
  case False
  then show ?thesis by (intro saas_privacy.idle_privacy_requests assms) auto
qed

text \<open>
  An administrator who can act can act after a privacy request, unless the request erases them. Only a
  compliance officer can take the last one: an administrator never executes their own erasure.
\<close>

lemma admin_after_privacy:
  assumes "quiet_storage E" and "leaves_db limit" and "\<And>i. leaves_db (alimit i)"
    and "\<not> in_tx w" "integrity (db w)" "effective_admin (db w) a"
    and "\<And>i body s. r = ExecuteErasure i body \<Longrightarrow> s \<in> set (requests_of (db w)) \<Longrightarrow> dsr_id s = i \<Longrightarrow> dsr_subject s \<noteq> Some a"
  shows "effective_admin (db (snd (privacy_dispatch X E limit alimit p q r w))) a"
proof (cases "\<exists>i body. r = ExecuteErasure i body")
  case True
  then obtain i body where r: "r = ExecuteErasure i body" by blast
  have "idle (\<lambda>d. effective_admin d a) (snd (api_execute_erasure X E limit p q i body w))"
  proof (rule admin_privacy.execute_erasure_idle [OF assms(1,2)])
    show "idle (\<lambda>d. effective_admin d a) w" "integrity (db w)" using assms(4-6) by simp_all
    fix now u s ids d d' r'
    assume "r' \<in> set (requests_of (db w))" "dsr_id r' = i" "dsr_subject r' = Some u" "erased_tables u s ids now d d'"
      "effective_admin d a"
    with assms(7) [OF r] show "effective_admin d' a" using erased_admin by metis
  qed
  then show ?thesis
    by (auto simp: r discard_def bind_def ret_def split: prod.splits sum.splits)
next
  case False
  then have "maintains (idle (\<lambda>d. effective_admin d a)) (privacy_dispatch X E limit alimit p q r)"
    by (intro admin_privacy.idle_privacy_requests assms) auto
  with assms(4,6) show ?thesis by (simp add: maintains_def)
qed

text \<open>\<open>p\<close> is a compliance officer, and request \<open>i\<close> is that of the only administrator who can act.\<close>

definition erases_last_admin :: "db \<Rightarrow> principal \<Rightarrow> uuid \<Rightarrow> bool" where
  "erases_last_admin d p i \<longleftrightarrow> (\<exists>u s. staff_acts d p u s COMPLIANCE_OFFICER) \<and>
     (\<exists>r\<in>set (requests_of d). \<exists>a. dsr_id r = i \<and> dsr_subject r = Some a \<and> effective_admin d a \<and>
        (\<forall>b. effective_admin d b \<longrightarrow> b = a))"

lemma erasure_of_last_admin:
  assumes "quiet_storage E" and "leaves_db limit" and gov: "governed (db w)" and tx: "\<not> in_tx w"
    and p: "\<not> tombstone_subject (idn_external_auth_id p)"
    and run: "api_execute_erasure X E limit p q i body w = (res, w')" and gone: "\<And>a. \<not> effective_admin (db w') a"
  shows "erases_last_admin (db w) p i"
  using assms(1,2) run
proof (cases rule: execute_erasure_outcome)
  case (refused e)
  with gov gone show ?thesis by (auto simp: governed_def)
next
  case (executed y a v1 v2 x v)
  have I: "integrity (db w)" using saas_invD(1) [OF governedD(1) [OF gov]] .
  then have I2: "integrity (db v1)" "integrity (db v2)" using executed by simp_all
  from execute_approved_run [OF I2(2) executed(7)] obtain r where
    r: "find (\<lambda>r. dsr_id r = i) (requests_of (db v2)) = Some r" "dsr_subject r \<noteq> Some (usr_id (act_user a))" by metis
  from r(1) executed have row: "r \<in> set (requests_of (db w))" "dsr_id r = i" by (auto simp: find_Some_iff)
  have last: "dsr_subject r = Some b" if b: "effective_admin (db w) b" for b
  proof (rule ccontr)
    assume "dsr_subject r \<noteq> Some b"
    moreover have "r' = r" if "r' \<in> set (requests_of (db w))" "dsr_id r' = i" for r'
      using that row by (auto intro: dsr_rows.same_key_same_row [OF I])
    ultimately have "effective_admin (db (snd (privacy_dispatch X E limit (\<lambda>_. ret ()) p q (ExecuteErasure i body) w))) b"
      by (intro admin_after_privacy [OF assms(1,2) leaves_db_ret tx I b]) simp_all
    with gone run show False by (simp add: discard_def bind_def ret_def split: sum.splits)
  qed
  from executed(6) obtain u s role where acts: "staff_acts (db w) p u s role" "act_user a = u"
    and perm: "PRIVACY_REQUESTS_EXECUTE_ERASURE \<in> set (role_permissions role)"
    unfolding resolve_platform_actor_run [OF I2(1)] executed(4) by auto
  have "role = COMPLIANCE_OFFICER"
  proof (cases role)
    case PLATFORM_ADMIN
    with acts p have "effective_admin (db w) (usr_id u)"
      by (auto simp: effective_admin_def staff_acts_def active_platform_admin_def list_ex_iff)
    with last r(2) acts(2) show ?thesis by simp
  qed (use perm in simp_all)
  moreover from gov obtain b where b: "effective_admin (db w) b" by (auto simp: governed_def)
  moreover have "c = b" if "effective_admin (db w) c" for c using last [OF that] last [OF b] by simp
  ultimately show ?thesis using acts(1) row last [OF b] unfolding erases_last_admin_def by blast
qed

end
