(* ===== verification/System.thy ===== *)
theory System
  imports Privacy_Effects Export_Worker Invite_Delivery
begin

section \<open>The application as a whole\<close>

text \<open>
  Everything that the application does to the database: tenant requests, platform requests, privacy
  requests, the bootstrap command, the dispatcher, the outbox worker, the steps of the export worker
  and the retention jobs, interleaved in any order and each in transactions of its own. The locale
  \<open>service\<close> is the contract of such a part; the reachable states of the application are an
  inductive predicate over them. The service of \<^verbatim>\<open>privacy/services/governance.py\<close> is not among
  the events, because nothing in the application calls it.
\<close>

subsection \<open>Retention jobs\<close>

text \<open>\<open>run_once\<close> of \<^verbatim>\<open>audit/retention_cli.py\<close>: a dry run rolls back what it did.\<close>

definition audit_retention_run_once :: "audit_settings \<Rightarrow> bool \<Rightarrow> nat app" where
  "audit_retention_run_once cfg dry_run =
     (if dry_run then rolled_back (session_begin (anonymise_expired_events cfg None))
      else session_begin (anonymise_expired_events cfg None))"

lemma keeps_saas_anonymise_events: "keeps saas_inv (anonymise_events_older_than c b n k)"
  unfolding anonymise_events_older_than_def Let_def
  by (intro maintains_rules keeps_saas_audit)

lemma keeps_saas_audit_retention: "keeps saas_inv (anonymise_expired_events cfg now)"
  unfolding anonymise_expired_events_def Let_def
  by (intro maintains_rules keeps_saas_anonymise_events)

lemma keeps_saas_scrub:
  "keeps saas_inv (flush (invites_update (update_where p (\<lambda>v. scrubbed (f v) v))))"
proof (rule keeps_flush)
  fix d
  assume inv: "saas_inv d" and I: "integrity (invites_update (update_where p (\<lambda>v. scrubbed (f v) v)) d)"
  show "saas_inv (invites_update (update_where p (\<lambda>v. scrubbed (f v) v)) d)"
    by (rule saas_inv_frame [OF inv])
       (use I saas_invD(2,5) [OF inv] in \<open>auto simp: tenant_inv_def invite_roles_def set_update_where scrubbed_def\<close>)
qed

lemma keeps_saas_invite_retention: "keeps saas_inv (anonymise_completed_invites_older_than a b c k)"
  unfolding anonymise_completed_invites_older_than_def Let_def
  by (intro maintains_rules keeps_saas_scrub)

subsection \<open>The export worker in steps\<close>

text \<open>
  The transactions and storage calls of \<^verbatim>\<open>commands/privacy_export_worker.py\<close>. The worker does
  them in the order of \<open>process_artifact\<close>, with whatever else happens between two of them; an event
  carries what the worker has learned before.
\<close>

datatype export_step =
    CountExports nat
  | ClaimExports nat
  | RenewExportLease "uuid \<times> string"
  | PrepareExport "uuid \<times> string"
  | ReserveExport prepared_archive string
  | ValidateExport prepared_archive string
  | PublishExport prepared_archive publication_reservation
  | CancelReservation prepared_archive publication_reservation
  | InspectExport prepared_archive
  | DeleteUnmatchedExport prepared_archive
  | ResetUploadIntent prepared_archive string
  | MarkExportReady "uuid \<times> string" prepared_archive
  | MarkExportFailed "uuid \<times> string" app_error
  | DeleteFailedExport storage_purge
  | ClearFailedExport storage_purge

fun run_export_step :: "externals \<Rightarrow> export_env \<Rightarrow> export_step \<Rightarrow> unit app" where
  "run_export_step X E (CountExports n) = discard (worker_count_queued_artifacts E n)"
| "run_export_step X E (ClaimExports n) = discard (worker_claim_queued_artifact_leases E n)"
| "run_export_step X E (RenewExportLease l) = discard (worker_renew_processing_lease l)"
| "run_export_step X E (PrepareExport l) = discard (worker_prepare_export_archive X E l)"
| "run_export_step X E (ReserveExport p t) = discard (reserve_prepared_export_archive E p t)"
| "run_export_step X E (ValidateExport p t) = session_begin (validate_prepared_export_upload p t)"
| "run_export_step X E (PublishExport p r) = publish_prepared_export_archive E p r"
| "run_export_step X E (CancelReservation p r) = cancel_prepared_export_archive_reservation E p r"
| "run_export_step X E (InspectExport p) = discard (inspect_committed_export_archive E p)"
| "run_export_step X E (DeleteUnmatchedExport p) = discard (delete_prepared_export_storage_object_if_not_matching E p)"
| "run_export_step X E (ResetUploadIntent p t) =
     session_begin (bind (reset_prepared_export_upload_intent p t) (\<lambda>done.
       ensure done (RuntimeError ''export_upload_intent_reset_rejected'')))"
| "run_export_step X E (MarkExportReady l p) = discard (worker_mark_export_ready X l p)"
| "run_export_step X E (MarkExportFailed l e) = discard (worker_mark_export_failed X l e)"
| "run_export_step X E (DeleteFailedExport c) = delete_failed_export_storage_object E c"
| "run_export_step X E (ClearFailedExport c) = discard (session_begin (clear_failed_export_storage_metadata c))"

context privacy_frame
begin

lemma idle_export_step:
  assumes "quiet_storage E"
  shows "maintains (idle J) (run_export_step X E s)"
proof -
  note quiet = quiet_storageD [OF assms]
  have storage: "leaves_db (reserve_prepared_export_archive E p t)" "leaves_db (publish_prepared_export_archive E p r)"
    "leaves_db (cancel_prepared_export_archive_reservation E p r)" "leaves_db (inspect_committed_export_archive E p)"
    "leaves_db (delete_prepared_export_storage_object_if_not_matching E p)" "leaves_db (delete_failed_export_storage_object E c)"
    for p t r c
    unfolding reserve_prepared_export_archive_def publish_prepared_export_archive_def recovered_archive_def
      cancel_prepared_export_archive_reservation_def inspect_committed_export_archive_def
      delete_prepared_export_storage_object_if_not_matching_def delete_failed_export_storage_object_def
    by (intro leaves_db_rules quiet)+
  show ?thesis
    by (cases s; simp only: run_export_step.simps discard_def worker_count_queued_artifacts_def
        worker_claim_queued_artifact_leases_def worker_renew_processing_lease_def worker_prepare_export_archive_def
        worker_mark_export_ready_def worker_mark_export_failed_def;
        intro maintains_bind maintains_ret storage [THEN idle_leaves_db] idle_session_begin keeps_commits
          keeps_export_services [OF assms] maintains_ensure)
qed

end

subsection \<open>Events\<close>

record deployment =
  dep_env :: env
  platform_limit :: "platform_request \<Rightarrow> unit app"
  privacy_limit :: "privacy_request \<Rightarrow> unit app"
  download_limit :: "uuid \<Rightarrow> unit app"
  dep_schema :: schema_types
  broker_send :: "uuid \<Rightarrow> string option app"
  delivery :: "invite \<Rightarrow> string \<Rightarrow> string option app"
  dep_exports :: export_env
  dep_audit :: audit_settings
  dep_invites :: invite_retention_settings

datatype event =
    TenantRequest tenant_request
  | PlatformRequest principal request_meta platform_request
  | PrivacyRequest principal request_meta privacy_request
  | MakePlatformAdmin string bool
  | DispatcherTick nat
  | ProcessOutboxEvent uuid
  | ExportStep export_step
  | AuditRetention bool
  | InviteRetention
  | PrivacyRetention bool int

fun run_event :: "deployment \<Rightarrow> event \<Rightarrow> unit app" where
  "run_event D (TenantRequest r) = handle (dep_env D) r"
| "run_event D (PlatformRequest p q r) =
     platform_dispatch (env_externals (dep_env D)) (platform_limit D r) p q r"
| "run_event D (PrivacyRequest p q r) =
     privacy_dispatch (env_externals (dep_env D)) (dep_exports D) (privacy_limit D r) (download_limit D) p q r"
| "run_event D (MakePlatformAdmin email force) =
     discard (make_platform_admin (env_externals (dep_env D)) email force)"
| "run_event D (DispatcherTick n) = discard (dispatcher_tick (broker_send D) (env_outbox (dep_env D)) n)"
| "run_event D (ProcessOutboxEvent i) =
     process_outbox_event (env_externals (dep_env D)) (dep_schema D) (env_outbox (dep_env D)) (delivery D) i"
| "run_event D (ExportStep s) = run_export_step (env_externals (dep_env D)) (dep_exports D) s"
| "run_event D (AuditRetention dry_run) = discard (audit_retention_run_once (dep_audit D) dry_run)"
| "run_event D InviteRetention = discard (anonymise_completed_invites (dep_invites D) None)"
| "run_event D (PrivacyRetention dry_run batch_size) =
     discard (retention_cli_run_once (env_externals (dep_env D)) (dep_exports D)
       \<lparr>rts_invites = dep_invites D, rts_audit = dep_audit D\<rparr> dry_run batch_size)"

text \<open>The rate limiters, the broker, the delivery and the object stores do not write the application's tables.\<close>

definition deployment_ok :: "deployment \<Rightarrow> bool" where
  "deployment_ok D \<longleftrightarrow> limits_ok (dep_env D) \<and> (\<forall>r. leaves_db (platform_limit D r)) \<and>
     (\<forall>r. leaves_db (privacy_limit D r)) \<and> (\<forall>i. leaves_db (download_limit D i)) \<and>
     (\<forall>i. leaves_db (broker_send D i)) \<and> (\<forall>v raw. leaves_db (delivery D v raw)) \<and> quiet_storage (dep_exports D)"

lemma safe_discard: "maintains I m \<Longrightarrow> maintains I (discard m)"
  unfolding discard_def by (intro maintains_rules)

lemma safe_jobs:
  "safe (make_platform_admin X email force)" "safe (audit_retention_run_once acfg dry)"
  "safe (anonymise_completed_invites icfg now)"
proof -
  show "safe (make_platform_admin X email force)"
    unfolding make_platform_admin_def by (rule idle_session_begin [OF keeps_commits [OF keeps_saas_platform(10)]])
  show "safe (audit_retention_run_once acfg dry)"
    using idle_session_begin [OF keeps_commits [OF keeps_saas_audit_retention], of acfg None]
    by (simp add: audit_retention_run_once_def idle_rolled_back)
  have "safe (case now of None \<Rightarrow> utcnow | Some t \<Rightarrow> ret t)"
    by (intro idle_leaves_db leaves_db_rules)
  then show "safe (anonymise_completed_invites icfg now)"
    unfolding anonymise_completed_invites_def
    by (intro maintains_bind idle_in_transaction_or_begin keeps_commits [OF keeps_saas_invite_retention])
qed

lemma safe_run_event: "deployment_ok D \<Longrightarrow> safe (run_event D ev)"
  by (cases ev)
     (auto simp: deployment_ok_def intro!: safe_handle governed_platform_dispatch(2) safe_discard safe_jobs
        safe_dispatcher_tick safe_process_outbox_event safe_privacy_dispatch saas_privacy.idle_export_step
        safe_privacy_retention)

subsection \<open>Administrators survive\<close>

context tenant_frame
begin

lemma keeps_retention_jobs:
  "keeps J (audit_retention_run_once acfg dry)" "keeps J (anonymise_completed_invites icfg now)"
proof -
  have audit: "keeps J (session_begin (anonymise_expired_events acfg None))"
    unfolding anonymise_expired_events_def anonymise_events_older_than_def Let_def
    by (intro maintains_rules keeps_frame_flush)
  show "keeps J (audit_retention_run_once acfg dry)"
    unfolding audit_retention_run_once_def by (intro maintains_if keeps_rolled_back audit)
  show "keeps J (anonymise_completed_invites icfg now)"
    unfolding anonymise_completed_invites_def anonymise_completed_invites_older_than_def Let_def
    by (intro maintains_rules keeps_frame_flush)
qed

end

interpretation admin: tenant_frame "\<lambda>d. effective_admin d a" for a
proof unfold_locales
  fix d :: db and f :: "user \<Rightarrow> user" and p
  assume "effective_admin d a"
    and "\<And>u. usr_id (f u) = usr_id u \<and> usr_status (f u) = usr_status u \<and> external_auth_id (f u) = external_auth_id u"
  then show "effective_admin (users_update (update_where p f) d) a" by (intro effective_admin_users) simp_all
qed (simp_all add: effective_admin_append)

lemma keeps_admin_bootstrap: "keeps (\<lambda>d. effective_admin d a) (make_platform_admin X email force)"
  unfolding make_platform_admin_def by (intro maintains_rules keeps_admin_platform)

text \<open>Who sends a request to the staff's or the privacy endpoints.\<close>

fun event_principal :: "event \<Rightarrow> principal option" where
  "event_principal (PlatformRequest p q r) = Some p"
| "event_principal (PrivacyRequest p q r) = Some p"
| "event_principal _ = None"

text \<open>
  After an event somebody can administer the platform, unless the event is the erasure of the last
  administrator by a compliance officer.
\<close>

lemma governed_run_event:
  assumes ok: "deployment_ok D" and gov: "governed (db w)" and tx: "\<not> in_tx w"
    and people: "\<And>p. event_principal ev = Some p \<Longrightarrow> \<not> tombstone_subject (idn_external_auth_id p)"
    and fair: "\<And>p q i body. ev = PrivacyRequest p q (ExecuteErasure i body) \<Longrightarrow> \<not> erases_last_admin (db w) p i"
  shows "idle governed (snd (run_event D ev w))"
proof -
  have inv: "saas_inv (db w)" and I: "integrity (db w)" using governedD(1) [OF gov] saas_invD(1) by auto
  from governedD(2) [OF gov] obtain a where a: "effective_admin (db w) a" by blast
  have safe: "idle saas_inv (snd (run_event D ev w))"
    using safe_run_event [OF ok, of ev] inv tx by (simp add: maintains_def)
  have "\<exists>b. effective_admin (db (snd (run_event D ev w))) b"
  proof (cases "event_principal ev")
    case None
    then have "maintains (idle (\<lambda>d. effective_admin d a)) (run_event D ev) \<or> keeps (\<lambda>d. effective_admin d a) (run_event D ev)"
    proof (cases ev)
      case (ExportStep s)
      with ok have "maintains (idle (\<lambda>d. effective_admin d a)) (run_event D ev)"
        by (simp add: deployment_ok_def admin_privacy.idle_export_step)
      then show ?thesis ..
    next
      case (PrivacyRetention dry n)
      with ok have "maintains (idle (\<lambda>d. effective_admin d a)) (run_event D ev)"
        by (simp add: deployment_ok_def idle_admin_retention safe_discard)
      then show ?thesis ..
    qed (use ok None in \<open>auto simp: discard_def deployment_ok_def intro!: disjI2 maintains_rules keeps_admin_bootstrap
          admin.keeps_retention_jobs admin.keeps_tenant_handle admin.keeps_workers\<close>)
    with a tx show ?thesis by (auto simp: maintains_def)
  next
    case (Some p)
    then have p: "\<not> tombstone_subject (idn_external_auth_id p)" by (rule people)
    from Some consider (platform) q r where "ev = PlatformRequest p q r" | (privacy) q r where "ev = PrivacyRequest p q r"
      by (cases ev) auto
    then show ?thesis
    proof cases
      case platform
      with governed_platform_dispatch(1) [OF _ p, of "platform_limit D r" "env_externals (dep_env D)" q r] ok gov tx
      show ?thesis by (auto simp: deployment_ok_def maintains_def governed_def)
    next
      case privacy
      note r = privacy
      have quiet: "quiet_storage (dep_exports D)" "leaves_db (privacy_limit D r)" "\<And>i. leaves_db (download_limit D i)"
        using ok by (simp_all add: deployment_ok_def)
      show ?thesis
      proof (rule ccontr)
        assume none: "\<not> ?thesis"
        have "\<exists>i body. r = ExecuteErasure i body"
        proof (rule ccontr)
          assume other: "\<nexists>i body. r = ExecuteErasure i body"
          have "effective_admin (db (snd (privacy_dispatch (env_externals (dep_env D)) (dep_exports D) (privacy_limit D r)
              (download_limit D) p q r w))) a"
            by (rule admin_after_privacy [OF quiet tx I a]) (use other in blast)
          with none r show False by auto
        qed
        then obtain i body where x: "r = ExecuteErasure i body" by blast
        obtain res w' where run: "api_execute_erasure (env_externals (dep_env D)) (dep_exports D) (privacy_limit D r) p q i body w = (res, w')"
          by fastforce
        with none r x have "\<not> effective_admin (db w') b" for b
          by (auto simp: discard_def bind_def ret_def split: sum.splits)
        with erasure_of_last_admin [OF quiet(1,2) gov tx p run] fair r x show False by simp
      qed
    qed
  qed
  with safe show ?thesis by (simp add: governed_def)
qed

text \<open>The state of a user's account, which the tenant side never changes.\<close>

definition has_status :: "db \<Rightarrow> uuid \<Rightarrow> user_status \<Rightarrow> bool" where
  "has_status d uid st \<longleftrightarrow> list_ex (\<lambda>u. usr_id u = uid \<and> usr_status u = st) (users d)"

interpretation status: tenant_frame "\<lambda>d. has_status d uid st" for uid st
proof unfold_locales
  fix d :: db and f :: "user \<Rightarrow> user" and p
  assume "has_status d uid st"
    and "\<And>u. usr_id (f u) = usr_id u \<and> usr_status (f u) = usr_status u \<and> external_auth_id (f u) = external_auth_id u"
  then show "has_status (users_update (update_where p f) d) uid st"
    by (auto simp: has_status_def intro!: list_ex_update_where_mono)
qed (simp_all add: has_status_def)

subsection \<open>The contract of a service\<close>

text \<open>
  A service runs events. When its surroundings behave (\<open>ok\<close>), an event that starts outside a
  transaction with \<open>J\<close> ends so, however it ends; hence so does every sequence of events.
\<close>

fun serve_all :: "('e \<Rightarrow> unit app) \<Rightarrow> 'e list \<Rightarrow> world \<Rightarrow> world" where
  "serve_all serve [] w = w"
| "serve_all serve (e # es) w = serve_all serve es (snd (serve e w))"

locale service =
  fixes serve :: "'e \<Rightarrow> unit app" and J :: "db \<Rightarrow> bool" and ok :: bool
  assumes keeps_serving: "ok \<Longrightarrow> maintains (idle J) (serve e)"
begin

lemma serve_one: "ok \<Longrightarrow> idle J w \<Longrightarrow> idle J (snd (serve e w))"
  using keeps_serving [of e] by (simp add: maintains_def)

lemma serve_sequence: "ok \<Longrightarrow> idle J w \<Longrightarrow> idle J (serve_all serve es w)"
  by (induction es arbitrary: w) (simp_all add: serve_one)

end

interpretation saas: service "run_event D" saas_inv "deployment_ok D" for D
  by unfold_locales (rule safe_run_event)

lemma governed_sequence:
  assumes "deployment_ok D"
    and "\<forall>ev\<in>set es. \<forall>p. event_principal ev = Some p \<longrightarrow> \<not> tombstone_subject (idn_external_auth_id p)"
    and "idle governed w"
  shows "governed (db (serve_all (run_event D) es w)) \<or> (\<exists>es1 p q i body es2.
    es = es1 @ PrivacyRequest p q (ExecuteErasure i body) # es2 \<and> erases_last_admin (db (serve_all (run_event D) es1 w)) p i)"
  using assms(2,3)
proof (induction es arbitrary: w)
  case (Cons ev es)
  show ?case
  proof (cases "\<exists>p q i body. ev = PrivacyRequest p q (ExecuteErasure i body) \<and> erases_last_admin (db w) p i")
    case True
    then obtain p q i body where "ev # es = [] @ PrivacyRequest p q (ExecuteErasure i body) # es"
        "erases_last_admin (db (serve_all (run_event D) [] w)) p i" by auto
    then show ?thesis by blast
  next
    case False
    have "idle governed (snd (run_event D ev w))"
      by (rule governed_run_event [OF assms(1)]) (use Cons.prems False in auto)
    from Cons.IH [OF _ this] Cons.prems(1) consider "governed (db (serve_all (run_event D) es (snd (run_event D ev w))))"
      | es1 p q i body es2 where "es = es1 @ PrivacyRequest p q (ExecuteErasure i body) # es2"
          "erases_last_admin (db (serve_all (run_event D) es1 (snd (run_event D ev w)))) p i"
      by auto
    then show ?thesis
    proof cases
      case 1
      then show ?thesis by simp
    next
      case 2
      then have "ev # es = (ev # es1) @ PrivacyRequest p q (ExecuteErasure i body) # es2"
        "erases_last_admin (db (serve_all (run_event D) (ev # es1) w)) p i" by simp_all
      then show ?thesis by blast
    qed
  qed
qed simp

subsection \<open>The export worker as events\<close>

text \<open>
  A program is covered when it does to the world what some sequence of events does. The export worker
  is covered, if what happens between its steps is: its runs are among the sequences of events.
\<close>

definition covered :: "deployment \<Rightarrow> 'a app \<Rightarrow> bool" where
  "covered D m \<longleftrightarrow> (\<forall>w. \<exists>es. snd (m w) = serve_all (run_event D) es w)"

lemma serve_all_append: "serve_all serve (es @ es') w = serve_all serve es' (serve_all serve es w)"
  by (induction es arbitrary: w) simp_all

lemma covered_quiet: "(\<And>w. snd (m w) = w) \<Longrightarrow> covered D m"
  unfolding covered_def by (metis serve_all.simps(1))

lemma covered_ret: "covered D (ret x)" and covered_raise: "covered D (raise e)" and covered_ensure: "covered D (ensure b e)"
  by (rule covered_quiet, simp add: ret_def raise_def ensure_def)+

lemma covered_bind:
  assumes "covered D m" and "\<And>x. covered D (f x)"
  shows "covered D (bind m f)"
  unfolding covered_def
proof
  fix w
  from assms(1) obtain es where es: "snd (m w) = serve_all (run_event D) es w" by (auto simp: covered_def)
  show "\<exists>es. snd (bind m f w) = serve_all (run_event D) es w"
  proof (cases "m w")
    case (Pair r w')
    show ?thesis
    proof (cases r)
      case (Inl e)
      with Pair es show ?thesis by (auto simp: bind_def)
    next
      case (Inr x)
      from assms(2) [of x] obtain es' where "snd (f x w') = serve_all (run_event D) es' w'" by (auto simp: covered_def)
      with Pair Inr es show ?thesis
        by (intro exI [of _ "es @ es'"]) (simp add: bind_def serve_all_append)
    qed
  qed
qed

lemma covered_try_except:
  assumes "covered D m" and "\<And>e. covered D (h e)"
  shows "covered D (try_except m c h)"
  unfolding covered_def
proof
  fix w
  from assms(1) obtain es where es: "snd (m w) = serve_all (run_event D) es w" by (auto simp: covered_def)
  obtain r w' where m: "m w = (r, w')" by fastforce
  show "\<exists>es. snd (try_except m c h w) = serve_all (run_event D) es w"
  proof (cases "\<exists>e. r = Inl e \<and> c e")
    case True
    then obtain e where e: "r = Inl e" "c e" by blast
    from assms(2) [of e] obtain es' where "snd (h e w') = serve_all (run_event D) es' w'" by (auto simp: covered_def)
    with m e es show ?thesis
      by (intro exI [of _ "es @ es'"]) (simp add: try_except_def serve_all_append)
  qed (use m es in \<open>auto simp: try_except_def split: sum.splits\<close>)
qed

lemma covered_if: "covered D m \<Longrightarrow> covered D n \<Longrightarrow> covered D (if b then m else n)" by simp

lemma covered_case_option:
  "covered D m \<Longrightarrow> (\<And>y. covered D (f y)) \<Longrightarrow> covered D (case x of None \<Rightarrow> m | Some y \<Rightarrow> f y)"
  by (cases x) simp_all

lemma covered_for_each: "(\<And>x. covered D (f x)) \<Longrightarrow> covered D (for_each xs f)"
  by (induction xs) (auto intro: covered_ret covered_bind)

lemma covered_step:
  fixes m :: "'a app"
  assumes "run_export_step (env_externals (dep_env D)) (dep_exports D) s = discard m"
  shows "covered D m"
  unfolding covered_def
proof
  fix w
  have "snd (discard m w) = snd (m w)"
    by (simp add: discard_def bind_def ret_def split: prod.splits sum.splits)
  then show "\<exists>es. snd (m w) = serve_all (run_event D) es w"
    using assms by (intro exI [of _ "[ExportStep s]"]) simp
qed

lemma discard_unit: "discard m = m" for m :: "unit app"
  by (rule ext) (simp add: discard_def bind_def ret_def split: prod.splits sum.splits)

lemmas covered_rules =
  covered_ret covered_raise covered_ensure covered_bind covered_try_except covered_if covered_case_option covered_for_each

lemma covered_process_artifact:
  assumes "covered D others"
  shows "covered D (process_artifact (env_externals (dep_env D)) (dep_exports D) others lease)"
proof -
  let ?X = "env_externals (dep_env D)" and ?E = "dep_exports D"
  note step = covered_step [OF trans [OF _ discard_unit [symmetric]]]
  have steps: "covered D (worker_prepare_export_archive ?X ?E l)" "covered D (reserve_prepared_export_archive ?E p t)"
    "covered D (inspect_committed_export_archive ?E p)" "covered D (delete_prepared_export_storage_object_if_not_matching ?E p)"
    "covered D (worker_mark_export_ready ?X l p)" "covered D (worker_mark_export_failed ?X l e)"
    "covered D (session_begin (clear_failed_export_storage_metadata c))" for l p t e c
    by (rule covered_step, rule run_export_step.simps)+
  have unit_steps: "covered D (session_begin (validate_prepared_export_upload p t))"
    "covered D (publish_prepared_export_archive ?E p r)" "covered D (cancel_prepared_export_archive_reservation ?E p r)"
    "covered D (session_begin (bind (reset_prepared_export_upload_intent p t) (\<lambda>done.
       ensure done (RuntimeError ''export_upload_intent_reset_rejected''))))"
    "covered D (delete_failed_export_storage_object ?E c)" for p t r c
    by (rule step, rule run_export_step.simps)+
  show ?thesis
    unfolding process_artifact_def generate_artifact_def worker_recover_committed_export_archive_def
      worker_reset_committed_export_upload_intent_def worker_write_export_archive_def on_error_def
      worker_cleanup_failed_export_storage_def
    by (intro covered_rules assms steps unit_steps)
qed

lemma covered_export_worker:
  assumes "covered D others"
  shows "covered D (run_export_worker (env_externals (dep_env D)) (dep_exports D) others batch dry_run once poll fuel)"
proof -
  let ?X = "env_externals (dep_env D)" and ?E = "dep_exports D"
  have steps: "covered D (worker_count_queued_artifacts ?E n)" "covered D (worker_claim_queued_artifact_leases ?E n)" for n
    by (rule covered_step, rule run_export_step.simps)+
  have "covered D (worker_loop ?X ?E others n dry_run once poll n0 fuel)" for n n0
    by (induction fuel arbitrary: n0)
       (simp_all only: worker_loop.simps worker_iteration_def,
        (intro covered_rules assms steps covered_process_artifact; assumption?)+)
  then show ?thesis unfolding run_export_worker_def by (intro covered_rules)
qed

subsection \<open>Reachable states\<close>

text \<open>
  The states of a deployment that starts on an empty database. Between events the
  environment may change as it likes, except for the application's tables.
\<close>

inductive reachable :: "deployment \<Rightarrow> world \<Rightarrow> bool" for D where
  start: "db w = empty_db \<Longrightarrow> \<not> in_tx w \<Longrightarrow> reachable D w"
| event: "reachable D w \<Longrightarrow> w' = snd (run_event D ev w) \<Longrightarrow> reachable D w'"
| environment: "reachable D w \<Longrightarrow> db w' = db w \<Longrightarrow> in_tx w' = in_tx w \<Longrightarrow> reachable D w'"

lemma reachable_idle: "reachable D w \<Longrightarrow> deployment_ok D \<Longrightarrow> idle saas_inv w"
proof (induction rule: reachable.induct)
  case (start w)
  then show ?case by (simp add: saas_inv_empty)
next
  case (event w w' ev)
  then show ?case using saas.serve_one by simp
qed simp

lemma reachable_serve_all: "reachable D w \<Longrightarrow> reachable D (serve_all (run_event D) es w)"
  by (induction es arbitrary: w) (auto intro: reachable.event)

end
