(* ===== verification/Demo.thy ===== *)
theory Demo
  imports System
begin

section \<open>A concrete deployment\<close>

text \<open>
  Instances of the parameters, on which the witnesses of the properties run the model: a hash
  and a cipher that are injective, rate limiters that count in Redis, a broker that accepts
  everything, and the people of a small tenant.
\<close>

definition demo_externals :: externals where
  "demo_externals = \<lparr>sha256_hex = (\<lambda>s. CHR ''#'' # s), hmac_sha256_hex = (\<lambda>k s. k @ CHR '':'' # s),
     fernet_key_ok = (\<lambda>k. k \<noteq> []), fernet_encrypt = (\<lambda>k s. CHR ''$'' # s),
     fernet_decrypt = (\<lambda>k s. case s of [] \<Rightarrow> None | c # t \<Rightarrow> if c = CHR ''$'' then Some t else None)\<rparr>"

definition demo_limit :: "unit app" where
  "demo_limit w = (Inr (), w\<lparr>redis := (redis w)(''hits'' := Some (case redis w ''hits'' of None \<Rightarrow> 1 | Some n \<Rightarrow> n + 1))\<rparr>)"

definition demo_outbox :: outbox_settings where
  "demo_outbox = \<lparr>outbox_token_encryption_key = Some ''key'', app_environment = ''local'',
     invite_delivery_enabled = True, stale_processing_timeout = 300, recovery_batch_size = 10\<rparr>"

definition demo_env :: env where
  "demo_env = \<lparr>env_externals = demo_externals, env_outbox = demo_outbox,
     endpoint_limit = (\<lambda>_. demo_limit), business_limit = (\<lambda>_. demo_limit)\<rparr>"

definition demo_start :: world where
  "demo_start = \<lparr>db = empty_db, in_tx = False, files = (\<lambda>_. None), redis = (\<lambda>_. None), clock = (\<lambda>n. 1000 + int n), clock_pos = 0,
     uuid_source = (\<lambda>n. of_nat (n + 1)), uuid_pos = 0,
     token_source = (\<lambda>n. replicate (n + 1) (CHR ''t'')), token_pos = 0\<rparr>"

definition alice :: principal where
  "alice = \<lparr>idn_external_auth_id = ''a'', idn_email = Some ''a@x.org'', idn_email_verified = True,
     idn_first_name = Some ''Alice'', idn_last_name = None\<rparr>"

definition bob :: principal where
  "bob = \<lparr>idn_external_auth_id = ''b'', idn_email = Some ''b@x.org'', idn_email_verified = True,
     idn_first_name = Some ''Bob'', idn_last_name = None\<rparr>"

definition no_meta :: request_meta where
  "no_meta = \<lparr>req_ip_address = None, req_user_agent = None, req_network_identifier_secret = None\<rparr>"

definition demo_user :: "uuid \<Rightarrow> principal \<Rightarrow> user" where
  "demo_user i p = \<lparr>usr_id = i, external_auth_id = idn_external_auth_id p, usr_email = idn_email p,
     email_verified = idn_email_verified p, first_name = idn_first_name p, last_name = idn_last_name p,
     onboarding_completed = True, usr_status = USER_ACTIVE, usr_suspended_at = None,
     usr_suspended_reason = None, usr_created_at = 0, usr_updated_at = 0\<rparr>"

definition carol :: principal where
  "carol = \<lparr>idn_external_auth_id = ''c'', idn_email = Some ''c@x.org'', idn_email_verified = True,
     idn_first_name = Some ''Carol'', idn_last_name = None\<rparr>"

definition demo_organisation :: organisation where
  "demo_organisation = \<lparr>org_id = 10, org_name = ''Acme'', org_slug = ''acme'', org_deleted_at = None,
     org_status = ORG_ACTIVE, org_suspended_at = None, org_suspended_reason = None,
     org_created_at = 0, org_updated_at = 0\<rparr>"

definition demo_member :: "uuid \<Rightarrow> uuid \<Rightarrow> membership_role \<Rightarrow> membership" where
  "demo_member i u role = \<lparr>mem_id = i, mem_user_id = u, mem_organisation_id = 10, mem_role = role,
     mem_is_active = True, mem_created_at = 0, mem_updated_at = 0\<rparr>"

definition demo_invite :: invite where
  "demo_invite = \<lparr>inv_id = 31, inv_email = ''c@x.org'', inv_organisation_id = 10, inv_role = MEMBER,
     inv_status = INVITE_PENDING, inv_token_hash = ''#tok'', inv_expires_at = Some 5000,
     inv_revoked_at = None, inv_revoked_by_user_id = None, inv_created_at = 0, inv_updated_at = 0\<rparr>"

definition demo_staff :: "uuid \<Rightarrow> uuid \<Rightarrow> platform_staff" where
  "demo_staff i u = \<lparr>stf_id = i, stf_user_id = u, stf_role = ''platform_admin'', stf_status = ''active'',
     stf_created_by_user_id = None, stf_suspended_at = None, stf_suspended_reason = None,
     stf_created_at = 0, stf_updated_at = 0\<rparr>"

text \<open>
  Alice owns the organisation and administers the platform with Bob, who is a member of the
  organisation. Carol is invited; the event that delivers her invite is being processed.
\<close>

definition demo_event :: outbox_event where
  "demo_event = \<lparr>obx_id = 51, obx_event_type = ''invite.created'', obx_aggregate_type = Some ''invite'',
     obx_aggregate_id = Some 31, obx_payload_json = invite_payload demo_externals ''key'' demo_invite 10 ''tok'' ''created'',
     obx_status = OUTBOX_PROCESSING, obx_attempts = 0, obx_max_attempts = 10, obx_next_attempt_at = None,
     obx_locked_at = Some 0, obx_processed_at = None, obx_last_error = None, obx_created_at = 0,
     obx_updated_at = 0\<rparr>"

definition demo_db :: db where
  "demo_db = \<lparr>users = [demo_user 1 alice, demo_user 2 bob, demo_user 3 carol],
     organisations = [demo_organisation], memberships = [demo_member 21 1 OWNER, demo_member 22 2 MEMBER],
     invites = [demo_invite], staff_rows = [demo_staff 41 1, demo_staff 42 2], audit_events = [],
     outbox_events = [demo_event], delivery_claims = [], privacy = no_privacy_rows\<rparr>"

definition demo_world :: world where
  "demo_world = demo_start\<lparr>db := demo_db\<rparr>"

definition demo_context :: "uuid \<Rightarrow> audit_context" where
  "demo_context i = build_audit_context_from_request i no_meta"

lemmas demo_rows = demo_user_def alice_def bob_def carol_def demo_organisation_def demo_member_def
  demo_invite_def demo_staff_def demo_event_def

lemma demo_world_simps [simp]: "db demo_world = demo_db" "\<not> in_tx demo_world"
  by (simp_all add: demo_world_def demo_start_def)

lemma demo_integrity: "integrity demo_db"
  by (simp add: demo_db_def demo_rows integrity_def constraint_defs has_user_def has_organisation_def
      live_def active_owner_def pending_def)

lemma demo_saas_inv: "saas_inv demo_db"
proof -
  have "tenancy demo_db"
    by (simp add: demo_db_def demo_rows tenancy_def live_ids_def active_orgs_def owners_of_def live_def active_in_def)
  moreover have "outbox_inv demo_db"
    using demo_integrity by (simp add: outbox_inv_def event_ok_def claims_ok_def demo_db_def demo_event_def)
  moreover have "invite_roles demo_db"
    by (simp add: demo_db_def demo_rows invite_roles_def)
  ultimately show ?thesis using demo_integrity by (simp add: saas_inv_def tenant_inv_def)
qed

text \<open>Reading the text of a UUID: the value of its hexadecimal digits.\<close>

definition demo_digit :: "char \<Rightarrow> int" where
  "demo_digit c = (let n = of_char c in if n < 58 then n - 48 else n - 87)"

definition demo_uuid_of_text :: "string \<Rightarrow> uuid option" where
  "demo_uuid_of_text s = (if length s = 36
     then Some (word_of_int (foldl (\<lambda>n c. 16 * n + demo_digit c) 0 (filter (\<lambda>c. c \<noteq> CHR ''-'') s))) else None)"

definition demo_schema :: schema_types where
  "demo_schema = \<lparr>uuid_of_text = demo_uuid_of_text, valid_email = (\<lambda>_. True)\<rparr>"

lemma demo_digit_hex: "0 \<le> n \<Longrightarrow> n < 16 \<Longrightarrow> demo_digit (hex_digit n) = n"
  by (simp add: demo_digit_def hex_digit_def Let_def)

lemma hex_digit_not_dash: "0 \<le> n \<Longrightarrow> n < 16 \<Longrightarrow> hex_digit n \<noteq> CHR ''-''"
proof
  assume n: "0 \<le> n" "n < 16" "hex_digit n = CHR ''-''"
  have "(of_char (hex_digit n) :: int) = (if n < 10 then 48 + n else 87 + n)" using n(1,2) by (simp add: hex_digit_def)
  moreover have "(of_char (hex_digit n) :: int) = 45" unfolding n(3) by simp
  ultimately show False using n(1) by (simp split: if_splits)
qed

lemma digits_horner:
  "foldl (\<lambda>n c. 16 * n + demo_digit c) a (hex_digits u (rev [0..<k])) = a * 16 ^ k + uint u mod 16 ^ k"
proof (induction k arbitrary: a)
  case (Suc k)
  have "uint u mod (16 ^ k * 16) = 16 ^ k * (uint u div 16 ^ k mod 16) + uint u mod 16 ^ k"
    by (rule zmod_zmult2_eq) simp
  with Suc show ?case by (simp add: hex_digits_def demo_digit_hex algebra_simps)
qed (simp add: hex_digits_def)

lemma demo_reads_uuids: "reads_uuids demo_schema"
proof -
  have keep: "filter (\<lambda>c. c \<noteq> CHR ''-'') (hex_digits u is) = hex_digits u is" for u "is"
    by (rule filter_True) (auto simp: hex_digits_def hex_digit_not_dash)
  have split: "[0..<32] = [0..<12] @ [12..<16] @ [16..<20] @ [20..<24] @ [24..<(32::nat)]"
    by (simp add: upt_add_eq_append [symmetric, of _ _ "4::nat"] upt_add_eq_append [symmetric, of _ _ "8::nat"] upt_conv_Cons)
  have "filter (\<lambda>c. c \<noteq> CHR ''-'') (uuid_str u) = hex_digits u (rev [0..<32])" for u
    unfolding uuid_str_def split by (simp only: filter_append keep) (simp add: hex_digits_def)
  moreover have "uint u mod 16 ^ 32 = uint u" for u :: uuid
    using uint_lt2p [of u] by (intro mod_pos_pos_trivial) simp_all
  ultimately show ?thesis
    by (simp add: reads_uuids_def demo_schema_def demo_uuid_of_text_def digits_horner)
qed

lemma demo_fernet_ok: "fernet_ok demo_externals ''key''"
proof -
  have "strip (CHR ''$'' # s) \<noteq> []" for s
  proof
    assume "strip (CHR ''$'' # s) = []"
    then have "lstrip (rev (CHR ''$'' # s)) = []" by (simp add: strip_def lstrip_def is_space_def)
    then show False by (simp add: lstrip_def dropWhile_append is_space_def split: if_splits)
  qed
  then show ?thesis by (simp add: fernet_ok_def demo_externals_def)
qed

text \<open>
  A run that returned. Its evaluation walks the program with the weakest precondition rules; the
  keys of the audit metadata the services write are checked once.
\<close>

definition returned :: "'e + 'a \<Rightarrow> bool" where
  "returned r = (case r of Inl _ \<Rightarrow> False | Inr _ \<Rightarrow> True)"

lemma returnedE: "returned (fst (m w)) \<Longrightarrow> (\<And>x w'. m w = (Inr x, w') \<Longrightarrow> P) \<Longrightarrow> P"
  by (cases "m w") (auto simp: returned_def split: sum.splits)

lemma demo_safe_run:
  assumes "safe m" and "m demo_world = (r, w')"
  shows "saas_inv (db w')" "integrity (db w')" "\<not> in_tx w'"
  using assms demo_saas_inv unfolding maintains_def
  by (metis demo_world_simps snd_conv saas_invD(1))+

lemma returned_wp: "returned (fst (m w)) = wp m (\<lambda>_ _. True) (\<lambda>_ _. False) w"
  by (simp add: returned_def wp_def split: prod.splits sum.splits)

lemma wp_record_event:
  "validate_metadata_json m = Inr m \<Longrightarrow>
     wp (record_event X ctx c a tt tid rs m) Q E w =
     wp (audit_create (ctx_actor_user_id ctx) c a tt tid rs m
       (minimise_ip_address (hmac_sha256_hex X) (ctx_ip_address ctx) (ctx_network_identifier_secret ctx))
       (normalise_user_agent (ctx_user_agent ctx)) None) Q E w"
  by (simp add: record_event_def)

lemma metadata_keys:
  "\<not> forbidden_key ''organisation_id''" "\<not> forbidden_key ''old_role''" "\<not> forbidden_key ''new_role''"
  "\<not> forbidden_key ''removed_user_id''" "\<not> forbidden_key ''previous_role''" "\<not> forbidden_key ''slug''"
  "\<not> forbidden_key ''soft_delete''" "\<not> forbidden_key ''invite_role''" "\<not> forbidden_key ''invite_status_before''"
  "\<not> forbidden_key ''target_user_id''" "\<not> forbidden_key ''role''"
  by (simp_all add: forbidden_key_def normalized_key_def lower_def lower_char_def contains_str_def
      forbidden_keys_def forbidden_markers_def)

lemmas demo_world_defs = demo_world_def demo_start_def demo_db_def demo_context_def no_meta_def
  build_audit_context_from_request_def

lemmas demo_constraints = integrity_def constraint_defs has_user_def has_organisation_def live_def
  active_owner_def pending_def

lemmas demo_run = returned_wp wp_rules wp_record_event validate_flat_metadata flat_metadata_def metadata_keys
  audit_create_def scalar_one_or_none_def demo_world_defs demo_rows demo_constraints guard_defs
  ensure_audit_actor_matches_def run_business_rate_limiter_def Let_def get_user_by_id_def user_get_by_id_def
  get_organisation_def organisation_get_by_id_def get_membership_def get_membership_for_organisation_def
  get_membership_by_id_def membership_save_def organisation_save_def active_in_def

end
