(* ===== verification/Tenant_Theorems.thy ===== *)
theory Tenant_Theorems
  imports Demo
begin

section \<open>What the tenant services guarantee\<close>

text \<open>
  The properties of organisations, memberships and invites, each with a run of the model on the
  concrete deployment. They rest on the lemmas of the component theories: \<open>acts_as\<close> is the
  right to act, \<open>says\<close> what an audit event records.
\<close>

lemma update_whereE:
  assumes "r \<in> set (update_where p f rows)"
  obtains r0 where "r0 \<in> set rows" "r = (if p r0 then f r0 else r0)"
  using assms unfolding set_update_where by blast

lemma guarded_run:
  assumes "bind (ensure_audit_actor_matches actor ctx) (\<lambda>_. in_transaction_or_begin m) w = (r, w')" and "\<not> in_tx w"
  shows "r = Inl e \<Longrightarrow> db w' = db w"
    and "r = Inr x \<Longrightarrow> ctx_actor_user_id ctx = Some actor \<and> (\<exists>w1. m (w\<lparr>in_tx := True\<rparr>) = (Inr x, w1) \<and> db w' = db w1)"
  using assms
  by (auto simp: ensure_audit_actor_matches_def bind_def ensure_def in_transaction_or_begin_def session_begin_def
      split: if_splits prod.splits sum.splits)

lemma guarded_session:
  assumes "bind (ensure_audit_actor_matches actor ctx) (\<lambda>_. session_begin m) w = (r, w')" and "\<not> in_tx w"
  shows "r = Inl e \<Longrightarrow> db w' = db w"
    and "r = Inr x \<Longrightarrow> ctx_actor_user_id ctx = Some actor \<and> (\<exists>w1. m (w\<lparr>in_tx := True\<rparr>) = (Inr x, w1) \<and> db w' = db w1)"
  using assms
  by (auto simp: ensure_audit_actor_matches_def bind_def ensure_def session_begin_def
      split: if_splits prod.splits sum.splits)

subsection \<open>Memberships\<close>

text \<open>Changing a membership role. When the call returns, the actor is an active owner of the
  live and active organisation, the target is an active membership of it that is not the owner's,
  the new role is not owner and differs from the old one; exactly that row gets the role, and exactly
  one audit event with the actor, the old and the new role is added. When it raises, the
  database is as before.\<close>

theorem change_membership_role_correct:
  assumes "integrity (db w)" and "limiter_ok l" and "\<not> in_tx w"
    and run: "change_membership_role X oid actor ctx mid role l w = (r, w')"
  shows "case r of Inl e \<Rightarrow> db w' = db w
    | Inr m \<Rightarrow> acts_as (db w) actor oid OWNER \<and> role \<noteq> OWNER \<and>
       (\<exists>target e t. target \<in> set (memberships (db w)) \<and> mem_id target = mid \<and> active_in oid target \<and>
          mem_role target \<noteq> OWNER \<and> mem_role target \<noteq> role \<and>
          m = target\<lparr>mem_role := role, mem_updated_at := t\<rparr> \<and>
          db w' = audit_events_update (\<lambda>rows. rows @ [e])
            (memberships_update (update_where (\<lambda>m. mem_id m = mid)
              (\<lambda>m. m\<lparr>mem_role := role, mem_updated_at := t\<rparr>)) (db w)) \<and>
          aud_actor_user_id e = Some actor \<and>
          says e ctx AUDIT_TENANT MEMBERSHIP_ROLE_CHANGED TARGET_MEMBERSHIP (Some mid) None
            (Some (JObj [(''organisation_id'', JStr (uuid_str oid)),
              (''old_role'', JStr (role_value (mem_role target))), (''new_role'', JStr (role_value role))])))"
proof (cases r)
  case (Inl e)
  with guarded_run(1) [OF run [unfolded change_membership_role_def] assms(3)] show ?thesis by simp
next
  case (Inr m)
  with guarded_run(2) [OF run [unfolded change_membership_role_def] assms(3)] obtain w1
    where ctx: "ctx_actor_user_id ctx = Some actor" and d: "db w' = db w1"
      and body: "change_membership_role_in_transaction X oid actor ctx mid role l (w\<lparr>in_tx := True\<rparr>) = (Inr m, w1)"
    by blast
  show ?thesis
    by (rule change_membership_role_done [OF _ assms(2) body])
       (use assms(1) Inr ctx in \<open>auto simp: d says_def\<close>)
qed

theorem change_membership_role_witness:
  "\<exists>m w'. change_membership_role demo_externals 10 1 (demo_context 1) 22 ADMIN None demo_world = (Inr m, w') \<and>
     mem_role m = ADMIN \<and> length (audit_events (db w')) = 1"
proof -
  have "returned (fst (change_membership_role demo_externals 10 1 (demo_context 1) 22 ADMIN None demo_world))"
    by (simp add: demo_run change_membership_role_def change_membership_role_in_transaction_def update_role_def)
  then obtain m w' where run: "change_membership_role demo_externals 10 1 (demo_context 1) 22 ADMIN None demo_world = (Inr m, w')"
    by (rule returnedE)
  show ?thesis
    using change_membership_role_correct [OF _ _ _ run] run
    by (auto simp: demo_integrity) (auto simp: demo_db_def)
qed

text \<open>C6: Removing a member. When the call returns, the actor is an active member of the live and
  active organisation whose role may remove the target's: the owner anyone but the owner, an
  administrator only plain members. Exactly that membership becomes inactive and exactly one audit
  event is added. When it raises, the database is as before.\<close>

theorem remove_membership_correct:
  assumes "integrity (db w)" and "limiter_ok l" and "\<not> in_tx w"
    and run: "remove_membership X oid actor ctx mid reason l w = (r, w')"
  shows "case r of Inl e \<Rightarrow> db w' = db w
    | Inr m \<Rightarrow> \<exists>role target e t. acts_as (db w) actor oid role \<and>
          target \<in> set (memberships (db w)) \<and> mem_id target = mid \<and> active_in oid target \<and>
          mem_role target \<noteq> OWNER \<and> (role = OWNER \<or> role = ADMIN \<and> mem_role target = MEMBER) \<and>
          m = target\<lparr>mem_is_active := False, mem_updated_at := t\<rparr> \<and>
          db w' = audit_events_update (\<lambda>rows. rows @ [e])
            (memberships_update (update_where (\<lambda>m. mem_id m = mid)
              (\<lambda>m. m\<lparr>mem_is_active := False, mem_updated_at := t\<rparr>)) (db w)) \<and>
          says e ctx AUDIT_TENANT MEMBERSHIP_REMOVED TARGET_MEMBERSHIP (Some mid) reason
            (Some (JObj [(''organisation_id'', JStr (uuid_str oid)),
              (''removed_user_id'', JStr (uuid_str (mem_user_id target))),
              (''previous_role'', JStr (role_value (mem_role target)))]))"
proof (cases r)
  case (Inl e)
  with guarded_run(1) [OF run [unfolded remove_membership_def] assms(3)] show ?thesis by simp
next
  case (Inr m)
  with guarded_run(2) [OF run [unfolded remove_membership_def] assms(3)] obtain w1 where d: "db w' = db w1"
    and body: "remove_membership_in_transaction X oid actor ctx mid reason l (w\<lparr>in_tx := True\<rparr>) = (Inr m, w1)"
    by blast
  show ?thesis
    by (rule remove_membership_done [OF _ assms(2) body])
       (use assms(1) Inr in \<open>auto simp: d may_remove_def intro!: exI\<close>)
qed

theorem remove_membership_witness:
  "\<exists>m w'. remove_membership demo_externals 10 1 (demo_context 1) 22 None None demo_world = (Inr m, w') \<and>
     \<not> mem_is_active m \<and> length (audit_events (db w')) = 1"
proof -
  have "returned (fst (remove_membership demo_externals 10 1 (demo_context 1) 22 None None demo_world))"
    by (simp add: demo_run remove_membership_def remove_membership_in_transaction_def repo_deactivate_membership_def)
  then obtain m w' where run: "remove_membership demo_externals 10 1 (demo_context 1) 22 None None demo_world = (Inr m, w')"
    by (rule returnedE)
  show ?thesis
    using remove_membership_correct [OF _ _ _ run] run
    by (auto simp: demo_integrity) (auto simp: demo_db_def)
qed

subsection \<open>Organisations\<close>

text \<open>Deleting an organisation. When the call returns, the actor is its active owner, the
  organisation is marked deleted, every membership of it is inactive, and one audit event is added.
  Its slug is free again: no live organisation carries it. When the call raises, the database is as
  before.\<close>

theorem soft_delete_correct:
  assumes "integrity (db w)" and "limiter_ok l" and "\<not> in_tx w"
    and run: "soft_delete X oid actor ctx reason l w = (r, w')"
  shows "case r of Inl e \<Rightarrow> db w' = db w
    | Inr x \<Rightarrow> acts_as (db w) actor oid OWNER \<and> org_id x = oid \<and>
        (\<forall>m\<in>set (memberships (db w')). mem_organisation_id m = oid \<longrightarrow> \<not> mem_is_active m) \<and>
        (\<forall>y\<in>set (organisations (db w')). live y \<longrightarrow> org_id y \<noteq> oid \<and> org_slug y \<noteq> org_slug x) \<and>
        (\<exists>e. audit_events (db w') = audit_events (db w) @ [e] \<and> aud_action e = ORGANISATION_DELETED \<and>
          aud_target_id e = Some oid \<and> aud_actor_user_id e = Some actor \<and> aud_reason e = reason)"
proof (cases r)
  case (Inl e)
  with guarded_run(1) [OF run [unfolded soft_delete_def] assms(3)] show ?thesis by simp
next
  case (Inr x)
  with guarded_run(2) [OF run [unfolded soft_delete_def] assms(3)] obtain w1 where d: "db w' = db w1"
    and ctx: "ctx_actor_user_id ctx = Some actor"
    and body: "soft_delete_in_transaction X oid actor ctx reason l (w\<lparr>in_tx := True\<rparr>) = (Inr x, w1)"
    by blast
  obtain y e t1 t2 now where acts: "acts_as (db w) actor oid OWNER"
    and y: "y \<in> set (organisations (db w))" "org_id y = oid" "live y"
    and x: "x = y\<lparr>org_deleted_at := Some now, org_updated_at := t2\<rparr>"
    and d1: "db w1 = audit_events_update (\<lambda>rows. rows @ [e])
      (organisations_update (update_where (\<lambda>r. org_id r = oid)
        (\<lambda>r. r\<lparr>org_deleted_at := Some now, org_updated_at := t2\<rparr>))
      (memberships_update (update_where (active_in oid)
        (\<lambda>m. m\<lparr>mem_is_active := False, mem_updated_at := t1\<rparr>)) (db w)))"
    and e: "says e ctx AUDIT_TENANT ORGANISATION_DELETED TARGET_ORGANISATION (Some oid) reason
      (Some (JObj [(''slug'', JStr (org_slug y)), (''soft_delete'', JBool True)]))"
    by (rule soft_delete_done [OF _ assms(2) body]) (use assms(1) in auto)
  have slug: "org_id z = oid" if "z \<in> set (organisations (db w))" "live z" "org_slug z = org_slug y" for z
    using distinct_key_eq [OF integrityD(4) [OF assms(1)], of z y] that y by auto
  have "\<not> mem_is_active m" if "m \<in> set (memberships (db w'))" "mem_organisation_id m = oid" for m
  proof -
    from that(1) obtain m0 where "m0 \<in> set (memberships (db w))" "m = (if active_in oid m0 then m0\<lparr>mem_is_active := False, mem_updated_at := t1\<rparr> else m0)"
      unfolding d d1 by (auto elim: update_whereE)
    with that(2) show ?thesis by (cases "active_in oid m0") (auto simp: active_in_def split: if_splits)
  qed
  moreover have "org_id z \<noteq> oid \<and> org_slug z \<noteq> org_slug x" if "z \<in> set (organisations (db w'))" "live z" for z
  proof -
    from that(1) obtain z0 where "z0 \<in> set (organisations (db w))"
      "z = (if org_id z0 = oid then z0\<lparr>org_deleted_at := Some now, org_updated_at := t2\<rparr> else z0)"
      unfolding d d1 by (auto elim: update_whereE)
    with that(2) slug [of z0] show ?thesis by (cases "org_id z0 = oid") (auto simp: live_def x)
  qed
  moreover have "audit_events (db w') = audit_events (db w) @ [e]" by (simp add: d d1)
  moreover have "aud_action e = ORGANISATION_DELETED" "aud_target_id e = Some oid"
    "aud_actor_user_id e = Some actor" "aud_reason e = reason" "org_id x = oid"
    using e ctx y(2) by (simp_all add: says_def x)
  ultimately show ?thesis unfolding Inr sum.case using acts by blast
qed

theorem soft_delete_witness:
  "\<exists>x w'. soft_delete demo_externals 10 1 (demo_context 1) None None demo_world = (Inr x, w') \<and>
     (\<forall>m\<in>set (memberships (db w')). mem_organisation_id m = 10 \<longrightarrow> \<not> mem_is_active m)"
proof -
  have "returned (fst (soft_delete demo_externals 10 1 (demo_context 1) None None demo_world))"
    by (simp add: demo_run soft_delete_def soft_delete_in_transaction_def count_active_owners_def owners_of_def
        deactivate_organisation_memberships_def organisation_soft_delete_def)
  then obtain x w' where run: "soft_delete demo_externals 10 1 (demo_context 1) None None demo_world = (Inr x, w')"
    by (rule returnedE)
  show ?thesis
    using soft_delete_correct [OF _ _ _ run] run by (auto simp: demo_integrity)
qed

text \<open>Onboarding is one transaction. When the call returns, the caller's e-mail is verified,
  the caller's active account owns the new live organisation, whose name and slug are normalised,
  and the invariant of the application still holds; when it raises, nothing is left of it.\<close>

theorem onboarding_correct:
  assumes "saas_inv (db w)" and "\<not> in_tx w"
    and run: "create_organisation_for_current_user p name slug w = (r, w')"
  shows "case r of Inl e \<Rightarrow> db w' = db w
    | Inr (u, x, m) \<Rightarrow> saas_inv (db w') \<and> idn_email_verified p \<and>
        organisations (db w') = organisations (db w) @ [x] \<and> memberships (db w') = memberships (db w) @ [m] \<and>
        live x \<and> normalize_slug slug = Inr (org_slug x) \<and> normalize_name name = Inr (org_name x) \<and>
        mem_organisation_id m = org_id x \<and> mem_role m = OWNER \<and> mem_is_active m \<and>
        (\<exists>u. mem_user_id m = usr_id u \<and> external_auth_id u = idn_external_auth_id p \<and> usr_status (u :: user) = USER_ACTIVE)"
proof (cases r)
  case (Inl e)
  with run show ?thesis by (simp add: create_organisation_for_current_user_def session_begin_Inl_db)
next
  case (Inr y)
  obtain u x m where y: "y = (u, x, m)" by (cases y)
  from run [unfolded Inr create_organisation_for_current_user_def] obtain w0 w1 where w0: "db w0 = db w"
    and body: "onboard p name slug w0 = (Inr (u, x, m), w1)" and d: "db w' = db w1"
    unfolding y by (rule session_begin_committed)
  have inv: "saas_inv (db w0)" using assms(1) by (simp add: w0)
  show ?thesis
    using onboarding_done [OF inv body] by (simp add: Inr y d w0)
qed

definition dave :: principal where
  "dave = \<lparr>idn_external_auth_id = ''d'', idn_email = Some ''d@x.org'', idn_email_verified = True,
     idn_first_name = Some ''Dave'', idn_last_name = None\<rparr>"

theorem onboarding_witness:
  "\<exists>u x m w'. create_organisation_for_current_user dave ''Shop'' '' Shop '' (demo_world\<lparr>uuid_pos := 100\<rparr>) = (Inr (u, x, m), w') \<and>
     org_slug x = ''shop'' \<and> mem_role m = OWNER \<and> length (organisations (db w')) = 2"
proof -
  let ?w = "demo_world\<lparr>uuid_pos := 100\<rparr>"
  have "returned (fst (create_organisation_for_current_user dave ''Shop'' '' Shop '' ?w))" by code_simp
  then obtain y w' where run: "create_organisation_for_current_user dave ''Shop'' '' Shop '' ?w = (Inr y, w')"
    by (rule returnedE)
  obtain u x m where y: "y = (u, x, m)" by (cases y)
  have "normalize_slug '' Shop '' = Inr ''shop''" by code_simp
  with onboarding_correct [OF _ _ run] run demo_saas_inv
  have "org_slug x = ''shop''" "mem_role m = OWNER" "organisations (db w') = organisations demo_db @ [x]"
    by (auto simp: y)
  with run show ?thesis by (auto simp: y demo_db_def)
qed

subsection \<open>Invites\<close>

text \<open>Creating an invite. When the call returns, the actor acts as owner or administrator of
  the live and active organisation, the role is not owner and an administrator cannot invite
  administrators; one pending invite for the normalised address is stored with the hash of a fresh
  token, never the token itself, together with one audit event and one pending outbox event that
  carries the encrypted token. When it raises, nothing is stored.\<close>

theorem create_invite_correct:
  assumes "integrity (db w)" and "limiter_ok l" and "\<not> in_tx w"
    and run: "create_invite X key oid actor role email ctx l w = (r, w')"
  shows "case r of Inl e \<Rightarrow> db w' = db w
    | Inr v \<Rightarrow> \<exists>arole token ev e. acts_as (db w) actor oid arole \<and> role \<noteq> OWNER \<and>
        (arole = OWNER \<or> arole = ADMIN \<and> role = MEMBER) \<and>
        inv_email v = lower (strip email) \<and> inv_organisation_id v = oid \<and> inv_role v = role \<and>
        inv_status v = INVITE_PENDING \<and> inv_token_hash v = sha256_hex X token \<and>
        aud_action ev = INVITE_CREATED \<and> aud_actor_user_id ev = Some actor \<and> aud_target_id ev = Some (inv_id v) \<and>
        obx_status e = OUTBOX_PENDING \<and> obx_payload_json e = invite_payload X key v oid token ''created'' \<and>
        db w' = outbox_events_update (\<lambda>rows. rows @ [e]) (audit_events_update (\<lambda>rows. rows @ [ev])
          (invites_update (\<lambda>rows. rows @ [v]) (db w)))"
proof (cases r)
  case (Inl e)
  with guarded_session(1) [OF run [unfolded create_invite_def] assms(3)] show ?thesis by simp
next
  case (Inr v)
  with guarded_session(2) [OF run [unfolded create_invite_def] assms(3)] obtain w1 where d: "db w' = db w1"
    and ctx: "ctx_actor_user_id ctx = Some actor"
    and body: "create_invite_in_transaction X key oid actor role email ctx l (w\<lparr>in_tx := True\<rparr>) = (Inr v, w1)"
    by blast
  have I: "integrity (db (w\<lparr>in_tx := True\<rparr>))" using assms(1) by simp
  show ?thesis
  proof (rule create_invite_done [OF I assms(2) body])
    fix arole token ev e
    assume acts: "acts_as (db (w\<lparr>in_tx := True\<rparr>)) actor oid arole" "may_handle_invite arole role" "role \<noteq> OWNER"
      and v: "inv_email v = lower (strip email)" "inv_organisation_id v = oid" "inv_role v = role"
        "inv_status v = INVITE_PENDING" "inv_token_hash v = sha256_hex X token"
      and ev: "says ev ctx AUDIT_TENANT INVITE_CREATED TARGET_INVITE (Some (inv_id v)) None
      (Some (JObj [(''organisation_id'', JStr (uuid_str oid)), (''invite_role'', JStr (role_value role))]))"
      and e: "obx_status e = OUTBOX_PENDING" "obx_payload_json e = invite_payload X key v oid token ''created''"
      and d1: "db w1 = outbox_events_update (\<lambda>rows. rows @ [e]) (audit_events_update (\<lambda>rows. rows @ [ev])
      (invites_update (\<lambda>rows. rows @ [v]) (db (w\<lparr>in_tx := True\<rparr>))))"
    have "arole = OWNER \<or> arole = ADMIN \<and> role = MEMBER"
      using acts(2,3) by (cases role) (auto simp: may_handle_invite_def)
    moreover have "aud_action ev = INVITE_CREATED" "aud_actor_user_id ev = Some actor" "aud_target_id ev = Some (inv_id v)"
      using ev ctx by (simp_all add: says_def)
    moreover have "db w' = outbox_events_update (\<lambda>rows. rows @ [e]) (audit_events_update (\<lambda>rows. rows @ [ev])
      (invites_update (\<lambda>rows. rows @ [v]) (db w)))" using d1 d by simp
    moreover have "acts_as (db w) actor oid arole" using acts(1) by simp
    ultimately show ?thesis unfolding Inr sum.case using acts(3) v e by blast
  qed
qed

theorem create_invite_witness:
  "\<exists>v w'. create_invite demo_externals ''key'' 10 1 MEMBER ''d@x.org'' (demo_context 1) None demo_world = (Inr v, w') \<and>
     inv_status v = INVITE_PENDING \<and> length (outbox_events (db w')) = 2"
proof -
  have "returned (fst (create_invite demo_externals ''key'' 10 1 MEMBER ''d@x.org'' (demo_context 1) None demo_world))"
    by (simp add: demo_run create_invite_def create_invite_in_transaction_def get_actor_membership_def
        get_pending_invite_by_email_def repo_create_invite_def publish_event_def lower_def lower_char_def strip_def
        lstrip_def is_space_def invite_token_hash_def demo_externals_def)
  then obtain v w' where run: "create_invite demo_externals ''key'' 10 1 MEMBER ''d@x.org'' (demo_context 1) None demo_world = (Inr v, w')"
    by (rule returnedE)
  show ?thesis
    using create_invite_correct [OF _ _ _ run] run by (auto simp: demo_integrity) (auto simp: demo_db_def)
qed


lemma demo_accept_returns: "returned (fst (accept_invite demo_externals ''tok'' carol demo_world))"
  by code_simp


subsection \<open>Dead tokens\<close>

lemma integrity_close_invites:
  assumes "integrity d" and "st \<noteq> INVITE_PENDING"
  shows "integrity (invites_update (update_where p (\<lambda>v. v\<lparr>inv_status := st, inv_updated_at := t\<rparr>)) d)"
proof -
  let ?f = "\<lambda>v. v\<lparr>inv_status := st, inv_updated_at := t\<rparr>"
  have "distinct (map (\<lambda>i. (inv_organisation_id i, lower (inv_email i))) (filter pending (update_where p ?f (invites d))))"
    using assms by (intro distinct_filter_update_where) (auto simp: integrity_def invites_ok_def pending_def)
  moreover have "map inv_id (update_where p ?f (invites d)) = map inv_id (invites d)"
    "map inv_token_hash (update_where p ?f (invites d)) = map inv_token_hash (invites d)"
    by (simp_all add: map_update_where_same)
  moreover have "list_all (\<lambda>i. has_organisation d (inv_organisation_id i) \<and> fk_user d (inv_revoked_by_user_id i))
      (update_where p ?f (invites d))"
    using assms(1) by (auto simp: integrity_def invites_ok_def list_all_iff set_update_where)
  ultimately show ?thesis using assms(1) by (simp add: integrity_def invites_ok_def)
qed

lemma at_most_one_token:
  assumes "integrity d"
  shows "filter (\<lambda>v. inv_token_hash v = h \<and> q v) (invites d) = [] \<or>
    (\<exists>v. filter (\<lambda>v. inv_token_hash v = h \<and> q v) (invites d) = [v])"
proof -
  have "filter (\<lambda>v. inv_token_hash v = h \<and> q v) (invites d) =
      (case find (\<lambda>v. inv_token_hash v = h \<and> q v) (invites d) of None \<Rightarrow> [] | Some x \<Rightarrow> [x])"
    if "distinct (map inv_token_hash (invites d))"
    by (rule filter_find_unique [where f = inv_token_hash and q = q and k = h])
       (use that in \<open>auto simp: distinct_map intro: inj_on_subset\<close>)
  with integrityD(9) [OF assms] show ?thesis by (auto split: option.splits)
qed

lemma mark_expired_returns:
  assumes "integrity (db w)"
  shows "\<exists>x w'. mark_pending_invite_expired_by_token_hash h now w = (Inr x, w')"
  using integrity_close_invites [OF assms, of INVITE_EXPIRED]
    at_most_one_token [OF assms, of h "\<lambda>v. inv_status v = INVITE_PENDING \<and> expired_at now v"]
  by (auto simp: mark_pending_invite_expired_by_token_hash_def update_returning_def bind_def utcnow_def query_def
      gets_def flush_def Let_def scalar_one_or_none_def ret_def)

lemma accept_dead:
  assumes I: "integrity (db w)" and tx: "\<not> in_tx w"
    and dead: "\<And>v. v \<in> set (invites (db w)) \<Longrightarrow> inv_token_hash v = sha256_hex X token \<Longrightarrow>
      inv_status v = INVITE_PENDING \<Longrightarrow> \<not> unexpired_at (clock w (clock_pos w)) v"
    and run: "accept_invite X token p w = (r, w')"
  shows "r = Inl (BadRequestError ''Invalid or expired invite'') \<and> db w' = db w"
proof -
  let ?w = "w\<lparr>in_tx := True, clock_pos := Suc (clock_pos w)\<rparr>"
  have none: "accept_pending_invite_by_token_hash (sha256_hex X token) (clock w (clock_pos w)) ?w =
      (Inr None, ?w\<lparr>clock_pos := Suc (clock_pos ?w)\<rparr>)"
    unfolding accept_pending_invite_by_token_hash_def
    by (rule update_returning_none) (use I dead in auto)
  obtain x v where mark: "mark_pending_invite_expired_by_token_hash (sha256_hex X token) (clock w (clock_pos w))
      (?w\<lparr>clock_pos := Suc (clock_pos ?w)\<rparr>) = (Inr x, v)"
    using mark_expired_returns [of "?w\<lparr>clock_pos := Suc (clock_pos ?w)\<rparr>" "sha256_hex X token" "clock w (clock_pos w)"] I
    by auto
  have "accept_invite_in_transaction X token p (w\<lparr>in_tx := True\<rparr>) = (Inl (BadRequestError ''Invalid or expired invite''), v)"
    unfolding accept_invite_in_transaction_def invite_token_hash_def
    using none mark by (simp add: bind_def utcnow_def raise_def)
  with run tx show ?thesis by (auto simp: accept_invite_def in_transaction_or_begin_def session_begin_def)
qed

text \<open>C35: A token that no pending and unexpired invite carries is refused with one error, whether
  it never existed, was used, revoked or has expired, and the database is left as it was; an
  expired invite in particular stays pending, since marking it expired is rolled back with the
  error.\<close>

theorem accept_invite_refuses_dead_token:
  assumes "integrity (db w)" and "\<not> in_tx w"
    and "\<forall>v\<in>set (invites (db w)). inv_token_hash v = sha256_hex X token \<longrightarrow> inv_status v = INVITE_PENDING \<longrightarrow>
      expired_at (clock w (clock_pos w)) v"
  shows "fst (accept_invite X token p w) = Inl (BadRequestError ''Invalid or expired invite'') \<and>
    db (snd (accept_invite X token p w)) = db w"
proof -
  have late: "\<not> unexpired_at t v" if "expired_at t v" for t v
    using that by (auto simp: unexpired_at_def expired_at_def split: option.splits)
  obtain r w' where run: "accept_invite X token p w = (r, w')" by (cases "accept_invite X token p w")
  have "r = Inl (BadRequestError ''Invalid or expired invite'') \<and> db w' = db w"
    by (rule accept_dead [OF assms(1,2) _ run]) (use assms(3) late in blast)
  then show ?thesis by (simp add: run)
qed

theorem accept_invite_refuses_dead_token_witness:
  "fst (accept_invite demo_externals ''tok'' carol (demo_world\<lparr>clock_pos := 9000\<rparr>)) =
     Inl (BadRequestError ''Invalid or expired invite'') \<and>
   db (snd (accept_invite demo_externals ''tok'' carol (demo_world\<lparr>clock_pos := 9000\<rparr>))) = demo_db \<and>
   inv_status demo_invite = INVITE_PENDING"
proof -
  let ?w = "demo_world\<lparr>clock_pos := 9000\<rparr>"
  have I: "integrity (db ?w)" by (simp add: demo_integrity)
  have "\<forall>v\<in>set (invites (db ?w)). inv_token_hash v = sha256_hex demo_externals ''tok'' \<longrightarrow>
      inv_status v = INVITE_PENDING \<longrightarrow> expired_at (clock ?w (clock_pos ?w)) v"
    by (simp add: demo_world_def demo_start_def demo_db_def demo_invite_def expired_at_def)
  from accept_invite_refuses_dead_token [OF I _ this] show ?thesis by (simp add: demo_invite_def)
qed

lemma accept_same_token:
  assumes "integrity (db w)" and "accept_invite X token p w = (Inr m, w')" and "\<not> in_tx w"
    and "v' \<in> set (invites (db w'))" "inv_token_hash v' = sha256_hex X token"
  shows "inv_status v' \<noteq> INVITE_PENDING"
proof -
  obtain w0 w1 where w0: "db w0 = db w" and d: "db w' = db w1"
    and body: "accept_invite_in_transaction X token p w0 = (Inr m, w1)"
    using assms(2) [unfolded accept_invite_def] by (rule in_transaction_or_begin_committed)
  have I: "integrity (db w0)" using assms(1) by (simp add: w0)
  show ?thesis
  proof (rule accept_invite_done [OF I body])
    fix v :: invite and u :: user and now t
    assume v: "v \<in> set (invites (db w0))" "inv_token_hash v = sha256_hex X token"
      and ot: "other_tables (db w1) = memberships_update (\<lambda>rows. rows @ [m]) (invites_update
      (update_where (\<lambda>x. inv_id x = inv_id v) (\<lambda>x. x\<lparr>inv_status := INVITE_ACCEPTED, inv_updated_at := t\<rparr>))
      (other_tables (db w0)))"
    have "invites (db w') = update_where (\<lambda>x. inv_id x = inv_id v)
          (\<lambda>x. x\<lparr>inv_status := INVITE_ACCEPTED, inv_updated_at := t\<rparr>) (invites (db w0))"
      using arg_cong [OF ot, of invites] by (simp add: other_tables_def d)
    with assms(4) obtain v0 where v0: "v0 \<in> set (invites (db w0))"
      "v' = (if inv_id v0 = inv_id v then v0\<lparr>inv_status := INVITE_ACCEPTED, inv_updated_at := t\<rparr> else v0)"
      by (auto elim: update_whereE)
    then have "inv_token_hash v0 = inv_token_hash v" using assms(5) v(2) by (auto split: if_splits)
    then have "v0 = v" using distinct_key_eq [OF integrityD(9) [OF I] v0(1) v(1)] by simp
    with v0 show ?thesis by simp
  qed
qed

text \<open>An invite is accepted at most once: after a call that returned, every later call with
  the same token, by anyone and at any time, is refused as long as the invites are as that call left
  them.\<close>

theorem accept_invite_single_use:
  assumes "integrity (db w)" and "\<not> in_tx w" and "accept_invite X token p w = (Inr m, w')"
    and "integrity (db w2)" and "\<not> in_tx w2" and "invites (db w2) = invites (db w')"
  shows "fst (accept_invite X token p2 w2) = Inl (BadRequestError ''Invalid or expired invite'')"
proof -
  obtain r w3 where run: "accept_invite X token p2 w2 = (r, w3)" by (cases "accept_invite X token p2 w2")
  have "r = Inl (BadRequestError ''Invalid or expired invite'') \<and> db w3 = db w2"
    by (rule accept_dead [OF assms(4,5) _ run]) (use accept_same_token [OF assms(1,3,2)] assms(6) in auto)
  then show ?thesis by (simp add: run)
qed

theorem accept_invite_single_use_witness:
  "\<exists>m w'. accept_invite demo_externals ''tok'' carol demo_world = (Inr m, w') \<and>
     fst (accept_invite demo_externals ''tok'' carol w') = Inl (BadRequestError ''Invalid or expired invite'')"
proof -
  obtain m w' where run: "accept_invite demo_externals ''tok'' carol demo_world = (Inr m, w')"
    using demo_accept_returns by (rule returnedE)
  have "safe (accept_invite demo_externals ''tok'' carol)"
    unfolding accept_invite_def by (rule idle_in_transaction_or_begin [OF commits_saas_accept_invite])
  then have "integrity (db w')" "\<not> in_tx w'" using run by (rule demo_safe_run)+
  with accept_invite_single_use [OF _ _ run, of w'] run show ?thesis by (auto simp: demo_integrity)
qed

lemma dead_after:
  assumes "integrity (db w)" and "\<not> in_tx w" and "v \<in> set (invites (db w0))" and "integrity (db w0)"
    and "invites (db w) = update_where (\<lambda>x. inv_id x = inv_id v) f (invites (db w0))"
    and "sha256_hex X token = inv_token_hash v"
    and "inv_status (f v) \<noteq> INVITE_PENDING \<or> inv_token_hash (f v) \<noteq> inv_token_hash v"
  shows "fst (accept_invite X token p w) = Inl (BadRequestError ''Invalid or expired invite'')"
proof -
  obtain r w' where run: "accept_invite X token p w = (r, w')" by (cases "accept_invite X token p w")
  have "r = Inl (BadRequestError ''Invalid or expired invite'') \<and> db w' = db w"
  proof (rule accept_dead [OF assms(1,2) _ run])
    fix v'
    assume v': "v' \<in> set (invites (db w))" "inv_token_hash v' = sha256_hex X token" "inv_status v' = INVITE_PENDING"
    from v'(1) obtain v0 where v0: "v0 \<in> set (invites (db w0))" "v' = (if inv_id v0 = inv_id v then f v0 else v0)"
      unfolding assms(5) by (rule update_whereE)
    have same: "v0 = v" if "inv_id v0 = inv_id v"
      using invites_table.same_key_same_row [OF assms(4) v0(1) assms(3) that] .
    have "v0 = v" if "inv_id v0 \<noteq> inv_id v"
      using that v0 v'(2) assms(6) distinct_key_eq [OF integrityD(9) [OF assms(4)] v0(1) assms(3)] by simp
    with same have "v0 = v" by blast
    with v0 v' assms(6,7) show "\<not> unexpired_at (clock w (clock_pos w)) v'" by simp
  qed
  then show ?thesis by (simp add: run)
qed

text \<open>Revoking an invite kills its token: when the call returns, the actor may handle invites of
  that role, the invite was pending and is revoked, one audit event is added, and accepting its
  token is refused from then on.\<close>

theorem revoke_invite_kills_token:
  assumes "integrity (db w)" and "\<not> in_tx w" and run: "revoke_invite X oid iid actor ctx reason w = (Inr x, w')"
    and v: "v \<in> set (invites (db w))" "inv_id v = iid" "sha256_hex X token = inv_token_hash v"
    and "integrity (db w2)" and "\<not> in_tx w2" and "invites (db w2) = invites (db w')"
  shows "(\<exists>role. acts_as (db w) actor oid role \<and> may_handle_invite role (inv_role v)) \<and> inv_status v = INVITE_PENDING \<and>
    (\<exists>e. audit_events (db w') = audit_events (db w) @ [e] \<and> aud_action e = INVITE_REVOKED_ACTION \<and>
      aud_target_id e = Some iid \<and> aud_reason e = reason) \<and>
    fst (accept_invite X token p w2) = Inl (BadRequestError ''Invalid or expired invite'')"
proof -
  obtain w1 where d: "db w' = db w1"
    and body: "revoke_invite_in_transaction X oid iid actor ctx reason (w\<lparr>in_tx := True\<rparr>) = (Inr x, w1)"
    using guarded_run(2) [OF run [unfolded revoke_invite_def] assms(2)] by blast
  have I: "integrity (db (w\<lparr>in_tx := True\<rparr>))" using assms(1) by simp
  obtain v0 role ev now t where acts: "acts_as (db w) actor oid role" "may_handle_invite role (inv_role v0)"
    and v0: "v0 \<in> set (invites (db w))" "inv_id v0 = iid" "inv_status v0 = INVITE_PENDING"
    and d1: "db w1 = audit_events_update (\<lambda>rows. rows @ [ev]) (invites_update (update_where (\<lambda>x. inv_id x = iid)
      (\<lambda>x. x\<lparr>inv_status := INVITE_REVOKED, inv_revoked_at := Some now,
        inv_revoked_by_user_id := Some actor, inv_updated_at := t\<rparr>)) (db w))"
    and ev: "says ev ctx AUDIT_TENANT INVITE_REVOKED_ACTION TARGET_INVITE (Some iid) reason
      (Some (JObj [(''organisation_id'', JStr (uuid_str oid)), (''invite_role'', JStr (role_value (inv_role v0))),
        (''invite_status_before'', JStr ''pending'')]))"
    by (rule revoke_invite_done [OF I body]) simp
  have "v0 = v" by (rule invites_table.same_key_same_row [OF assms(1) v0(1) v(1)]) (simp add: v0 v)
  have "fst (accept_invite X token p w2) = Inl (BadRequestError ''Invalid or expired invite'')"
    by (rule dead_after [OF assms(7,8) v(1) assms(1), where f = "\<lambda>x. x\<lparr>inv_status := INVITE_REVOKED,
          inv_revoked_at := Some now, inv_revoked_by_user_id := Some actor, inv_updated_at := t\<rparr>"])
       (use v in \<open>simp_all add: assms(9) d d1\<close>)
  with acts v0 \<open>v0 = v\<close> ev d d1 show ?thesis by (auto simp: says_def)
qed

theorem revoke_invite_kills_token_witness:
  "\<exists>x w'. revoke_invite demo_externals 10 31 1 (demo_context 1) None demo_world = (Inr x, w') \<and>
     fst (accept_invite demo_externals ''tok'' carol w') = Inl (BadRequestError ''Invalid or expired invite'')"
proof -
  have "returned (fst (revoke_invite demo_externals 10 31 1 (demo_context 1) None demo_world))"
    by (simp add: demo_run revoke_invite_def revoke_invite_in_transaction_def get_actor_membership_def
        get_invite_for_organisation_def revoke_pending_invite_def update_returning_def)
  then obtain x w' where run: "revoke_invite demo_externals 10 31 1 (demo_context 1) None demo_world = (Inr x, w')"
    by (rule returnedE)
  have "safe (revoke_invite demo_externals 10 31 1 (demo_context 1) None)"
    unfolding revoke_invite_def ensure_audit_actor_matches_def
    by (intro maintains_bind maintains_ensure idle_in_transaction_or_begin commits_saas_revoke_invite)
  then have "integrity (db w')" "\<not> in_tx w'" using run by (rule demo_safe_run)+
  with revoke_invite_kills_token [OF _ _ run, of demo_invite "''tok''" w' carol] run show ?thesis
    by (auto simp: demo_integrity) (simp add: demo_db_def demo_invite_def demo_externals_def)
qed

text \<open>Resending an invite replaces its token: when the call returns, the actor may handle
  invites of that role, the invite was pending and not expired, its expiry is seven days after the
  call, and a token of the old hash is refused from then on, unless the new hash is the same.\<close>

theorem resend_invite_replaces_token:
  assumes "integrity (db w)" and "\<not> in_tx w" and "limiter_ok l"
    and run: "resend_invite X key oid iid actor ctx l w = (Inr x, w')"
    and v: "v \<in> set (invites (db w))" "inv_id v = iid" "sha256_hex X token = inv_token_hash v"
    and new: "inv_token_hash x \<noteq> inv_token_hash v"
    and "integrity (db w2)" and "\<not> in_tx w2" and "invites (db w2) = invites (db w')"
  shows "(\<exists>role. acts_as (db w) actor oid role \<and> may_handle_invite role (inv_role v)) \<and> inv_status v = INVITE_PENDING \<and>
    (\<exists>now. unexpired_at now v \<and> inv_expires_at x = Some (now + default_invite_ttl)) \<and>
    fst (accept_invite X token p w2) = Inl (BadRequestError ''Invalid or expired invite'')"
proof -
  obtain w1 where d: "db w' = db w1"
    and body: "resend_invite_in_transaction X key oid iid actor ctx l (w\<lparr>in_tx := True\<rparr>) = (Inr x, w1)"
    using guarded_session(2) [OF run [unfolded resend_invite_def] assms(2)] by blast
  have I: "integrity (db (w\<lparr>in_tx := True\<rparr>))" using assms(1) by simp
  obtain v0 role tok now t ev e where acts: "acts_as (db w) actor oid role" "may_handle_invite role (inv_role v0)"
    and v0: "v0 \<in> set (invites (db w))" "inv_id v0 = iid" "inv_status v0 = INVITE_PENDING" "unexpired_at now v0"
    and x: "x = v0\<lparr>inv_token_hash := sha256_hex X tok, inv_expires_at := Some (now + default_invite_ttl),
      inv_updated_at := t\<rparr>"
    and d1: "db w1 = outbox_events_update (\<lambda>rows. rows @ [e]) (audit_events_update (\<lambda>rows. rows @ [ev])
      (invites_update (update_where (\<lambda>x. inv_id x = iid) (\<lambda>x. x\<lparr>inv_token_hash := sha256_hex X tok,
        inv_expires_at := Some (now + default_invite_ttl), inv_updated_at := t\<rparr>)) (db w)))"
    by (rule resend_invite_done [OF I assms(3) body]) simp
  have same: "v0 = v" by (rule invites_table.same_key_same_row [OF assms(1) v0(1) v(1)]) (simp add: v0 v)
  have "fst (accept_invite X token p w2) = Inl (BadRequestError ''Invalid or expired invite'')"
    by (rule dead_after [OF assms(9,10) v(1) assms(1), where f = "\<lambda>x. x\<lparr>inv_token_hash := sha256_hex X tok,
        inv_expires_at := Some (now + default_invite_ttl), inv_updated_at := t\<rparr>"])
       (use v new in \<open>simp_all add: assms(11) d d1 x\<close>)
  with acts v0 same show ?thesis by (auto simp: x)
qed

theorem resend_invite_replaces_token_witness:
  "\<exists>x w'. resend_invite demo_externals ''key'' 10 31 1 (demo_context 1) None demo_world = (Inr x, w') \<and>
     fst (accept_invite demo_externals ''tok'' carol w') = Inl (BadRequestError ''Invalid or expired invite'')"
proof -
  let ?m = "resend_invite demo_externals ''key'' 10 31 1 (demo_context 1) None"
  have "wp ?m (\<lambda>x _. inv_token_hash x \<noteq> ''#tok'') (\<lambda>_ _. False) demo_world"
    by (simp add: demo_run resend_invite_def resend_invite_in_transaction_def get_actor_membership_def is_expired_at_def
        get_invite_for_organisation_def rotate_pending_invite_token_def update_returning_def publish_event_def
        unexpired_at_def invite_token_hash_def demo_externals_def)
  then obtain x w' where run: "?m demo_world = (Inr x, w')" and new: "inv_token_hash x \<noteq> ''#tok''"
    by (auto simp: wp_def split: prod.splits sum.splits)
  have "safe ?m"
    unfolding resend_invite_def ensure_audit_actor_matches_def
    by (intro maintains_bind maintains_ensure idle_session_begin commits_saas_resend_invite) simp
  then have "integrity (db w')" "\<not> in_tx w'" using run by (rule demo_safe_run)+
  with resend_invite_replaces_token [OF _ _ _ run, of demo_invite "''tok''" w' carol] run new show ?thesis
    by (auto simp: demo_integrity) (simp_all add: demo_db_def demo_invite_def demo_externals_def)
qed

end
