(* ===== verification/Lockout.thy ===== *)
theory Lockout
  imports Tenant_Theorems
begin

section \<open>Suspended users\<close>

text \<open>
  A suspended account can still sign in, which refreshes its profile, and nothing else: no tenant
  request of a suspended user changes any other table, whatever the request.
\<close>

lemma suspended_has_no_right:
  assumes "integrity d" and "has_status d uid USER_SUSPENDED"
  shows "\<not> acts_as d uid oid role"
  using assms users_table.same_key_same_row [OF assms(1)]
  by (fastforce simp: acts_as_def has_status_def list_ex_iff)

lemma suspended_services:
  assumes I: "integrity (db w)" and S: "has_status (db w) uid USER_SUSPENDED" and tx: "\<not> in_tx w" and L: "limiter_ok l"
  shows "db (snd (change_membership_role X oid uid ctx mid role l w)) = db w"
    and "db (snd (remove_membership X oid uid ctx mid reason l w)) = db w"
    and "db (snd (update_organisation_details X oid uid ctx name slug l w)) = db w"
    and "db (snd (soft_delete X oid uid ctx reason l w)) = db w"
    and "db (snd (create_invite X key oid uid role email ctx l w)) = db w"
    and "db (snd (revoke_invite X oid iid uid ctx reason w)) = db w"
    and "db (snd (resend_invite X key oid iid uid ctx l w)) = db w"
proof -
  have I': "integrity (db (w\<lparr>in_tx := True\<rparr>))" using I by simp
  have no: "\<not> acts_as (db (w\<lparr>in_tx := True\<rparr>)) uid oid role" for role
    using suspended_has_no_right [OF I S] by simp
  have locked: "db (snd (bind (ensure_audit_actor_matches uid ctx) (\<lambda>_. in_transaction_or_begin m) w)) = db w"
    if "\<And>x w1. m (w\<lparr>in_tx := True\<rparr>) \<noteq> (Inr x, w1)" for m :: "'a app"
  proof -
    obtain r w' where run: "bind (ensure_audit_actor_matches uid ctx) (\<lambda>_. in_transaction_or_begin m) w = (r, w')"
      by (cases "bind (ensure_audit_actor_matches uid ctx) (\<lambda>_. in_transaction_or_begin m) w")
    then show ?thesis using guarded_run [OF run tx] that by (cases r) auto
  qed
  have locked': "db (snd (bind (ensure_audit_actor_matches uid ctx) (\<lambda>_. session_begin m) w)) = db w"
    if "\<And>x w1. m (w\<lparr>in_tx := True\<rparr>) \<noteq> (Inr x, w1)" for m :: "'a app"
  proof -
    obtain r w' where run: "bind (ensure_audit_actor_matches uid ctx) (\<lambda>_. session_begin m) w = (r, w')"
      by (cases "bind (ensure_audit_actor_matches uid ctx) (\<lambda>_. session_begin m) w")
    then show ?thesis using guarded_session [OF run tx] that by (cases r) auto
  qed
  show "db (snd (change_membership_role X oid uid ctx mid role l w)) = db w"
    unfolding change_membership_role_def
    by (rule locked) (rule notI, erule change_membership_role_done [OF I' L], use no in blast)
  show "db (snd (remove_membership X oid uid ctx mid reason l w)) = db w"
    unfolding remove_membership_def
    by (rule locked) (rule notI, erule remove_membership_done [OF I' L], use no in blast)
  show "db (snd (update_organisation_details X oid uid ctx name slug l w)) = db w"
    unfolding update_organisation_details_def
    by (rule locked) (rule notI, erule update_organisation_details_done [OF I' L], use no in blast)
  show "db (snd (soft_delete X oid uid ctx reason l w)) = db w"
    unfolding soft_delete_def
    by (rule locked) (rule notI, erule soft_delete_done [OF I' L], use no in blast)
  show "db (snd (create_invite X key oid uid role email ctx l w)) = db w"
    unfolding create_invite_def
    by (rule locked') (rule notI, erule create_invite_done [OF I' L], use no in blast)
  show "db (snd (revoke_invite X oid iid uid ctx reason w)) = db w"
    unfolding revoke_invite_def
    by (rule locked) (rule notI, erule revoke_invite_done [OF I'], use no in blast)
  show "db (snd (resend_invite X key oid iid uid ctx l w)) = db w"
    unfolding resend_invite_def
    by (rule locked') (rule notI, erule resend_invite_done [OF I' L], use no in blast)
qed

text \<open>A suspended account that is found stays the same account and stays suspended.\<close>

definition suspended_as :: "db \<Rightarrow> principal \<Rightarrow> user \<Rightarrow> bool" where
  "suspended_as d p u \<longleftrightarrow> u \<in> set (users d) \<and> external_auth_id u = idn_external_auth_id p \<and> usr_status u = USER_SUSPENDED"

lemma get_or_create_suspended:
  assumes "integrity (db w)" and "suspended_as (db w) p u" and "get_or_create_current_user p w = (Inr x, w')"
  shows "usr_id x = usr_id u" "usr_status x = USER_SUSPENDED" "x \<in> set (users (db w'))" "integrity (db w')"
  using refresh_profile_run [of u p w x w'] get_or_create_known [OF assms(1), of u p] assms
  by (auto simp: suspended_as_def)

lemma provision_suspended:
  assumes I: "integrity (db w)" and u: "suspended_as (db w) p u" and tx: "\<not> in_tx w"
    and run: "provision_current_user p w = (r, w')"
  shows "other_tables (db w') = other_tables (db w)" and "integrity (db w')" and "\<not> in_tx w'"
    and "r = Inr x \<Longrightarrow> usr_id x = usr_id u \<and> has_status (db w') (usr_id u) USER_SUSPENDED"
proof -
  show "other_tables (db w') = other_tables (db w)"
    by (rule maintainsD [OF keeps_other_tables_users(1) _ run]) simp
  have idle: "maintains (idle integrity) (provision_current_user p)"
    unfolding provision_current_user_def
    by (rule idle_in_transaction_or_begin [OF keeps_commits [OF keeps_integrity_users(2)]])
  have "idle integrity w'" by (rule maintainsD [OF idle _ run]) (use I tx in simp)
  then show "integrity (db w')" "\<not> in_tx w'" by simp_all
  assume r: "r = Inr x"
  obtain w0 w1 where w0: "db w0 = db w" and body: "get_or_create_current_user p w0 = (Inr x, w1)" and d: "db w' = db w1"
    using run [unfolded r provision_current_user_def] by (rule in_transaction_or_begin_committed)
  have "integrity (db w0)" "suspended_as (db w0) p u" using I u by (simp_all add: w0)
  from get_or_create_suspended [OF this body] show "usr_id x = usr_id u \<and> has_status (db w') (usr_id u) USER_SUSPENDED"
    by (auto simp: has_status_def d list_ex_iff)
qed

lemma after_provision:
  assumes "integrity (db w)" and "suspended_as (db w) p u" and "\<not> in_tx w"
    and f: "\<And>x w1. usr_id x = usr_id u \<Longrightarrow> integrity (db w1) \<Longrightarrow> has_status (db w1) (usr_id u) USER_SUSPENDED \<Longrightarrow>
      \<not> in_tx w1 \<Longrightarrow> other_tables (db (snd (f x w1))) = other_tables (db w1)"
  shows "other_tables (db (snd (bind (provision_current_user p) f w))) = other_tables (db w)"
proof -
  obtain r w1 where run: "provision_current_user p w = (r, w1)" by (cases "provision_current_user p w")
  note facts = provision_suspended [OF assms(1-3) run]
  show ?thesis
  proof (cases r)
    case (Inr x)
    with facts f [of x w1] run show ?thesis by (simp add: bind_def)
  qed (use facts run in \<open>simp add: bind_def\<close>)
qed

lemma suspended_cannot_onboard:
  assumes "integrity (db w)" and "suspended_as (db w) p u"
  shows "db (snd (create_organisation_for_current_user p name slug w)) = db w"
proof (cases "create_organisation_for_current_user p name slug w")
  case (Pair r w')
  have "onboard p name slug (w\<lparr>in_tx := True\<rparr>) \<noteq> (Inr x, w1)" for x w1
    using get_or_create_suspended(2) [of "w\<lparr>in_tx := True\<rparr>" p u] assms
    by (auto simp: onboard_def bind_Inr guard_defs ensure_run)
  with Pair show ?thesis
    by (cases r) (auto simp: create_organisation_for_current_user_def session_begin_Inr dest: session_begin_Inl_db)
qed

lemma bind_some:
  assumes "bind m (\<lambda>r. case r of None \<Rightarrow> f | Some x \<Rightarrow> g x) w = (Inr y, w')" and "\<And>w1 z w2. f w1 \<noteq> (Inr z, w2)"
  obtains x w1 where "m w = (Inr (Some x), w1)" and "g x w1 = (Inr y, w')"
proof -
  from assms(1) obtain r w1 where r: "m w = (Inr r, w1)"
    and k: "(case r of None \<Rightarrow> f | Some x \<Rightarrow> g x) w1 = (Inr y, w')" by (auto simp: bind_Inr)
  then show thesis using that assms(2) by (cases r) simp_all
qed

lemma suspended_cannot_accept:
  assumes I: "integrity (db w)" and u: "suspended_as (db w) p u" and tx: "\<not> in_tx w"
  shows "db (snd (accept_invite X token p w)) = db w"
proof (cases "accept_invite X token p w")
  case (Pair r w')
  have "accept_invite_in_transaction X token p (w\<lparr>in_tx := True\<rparr>) \<noteq> (Inr m, w1)" for m w1
  proof
    assume "accept_invite_in_transaction X token p (w\<lparr>in_tx := True\<rparr>) = (Inr m, w1)"
    then have "bind (accept_pending_invite_by_token_hash (sha256_hex X token) (clock w (clock_pos w))) (\<lambda>found.
        case found of None \<Rightarrow> bind (mark_pending_invite_expired_by_token_hash (sha256_hex X token) (clock w (clock_pos w)))
          (\<lambda>_. raise (BadRequestError ''Invalid or expired invite''))
        | Some v \<Rightarrow> bind (ensure (case idn_email p of None \<Rightarrow> False | Some e \<Rightarrow> lower (inv_email v) = lower e)
           (ForbiddenError ''Invite email does not match authenticated user'')) (\<lambda>_.
         bind (ensure_email_verified p) (\<lambda>_.
         bind (get_or_create_current_user p) (\<lambda>u.
         bind (ensure_user_active u) (\<lambda>_.
         bind (get_organisation (inv_organisation_id v)) (\<lambda>r.
         bind (ensure_organisation_active r) (\<lambda>_.
         create_membership (usr_id u) (inv_organisation_id v) (inv_role v))))))))
        (w\<lparr>in_tx := True, clock_pos := Suc (clock_pos w)\<rparr>) = (Inr m, w1)"
      unfolding accept_invite_in_transaction_def invite_token_hash_def
      by (simp add: bind_def [of utcnow] utcnow_def)
    then obtain v w2 x w3 where acc: "accept_pending_invite_by_token_hash (sha256_hex X token) (clock w (clock_pos w))
        (w\<lparr>in_tx := True, clock_pos := Suc (clock_pos w)\<rparr>) = (Inr (Some v), w2)"
      and gc: "get_or_create_current_user p w2 = (Inr x, w3)" and ok: "usr_status x \<noteq> USER_SUSPENDED"
      by (rule bind_some) (auto simp: bind_Inr guard_defs ensure_run raise_run)
    have I0: "integrity (db (w\<lparr>in_tx := True, clock_pos := Suc (clock_pos w)\<rparr>))" using I by simp
    have "integrity (db w2) \<and> users (db w2) = users (db w)"
      by (rule accept_pending_run [OF I0 acc]) simp
    with u have "integrity (db w2)" "suspended_as (db w2) p u" by (simp_all add: suspended_as_def)
    from get_or_create_suspended(2) [OF this gc] ok show False by simp
  qed
  with Pair tx show ?thesis
    by (cases r) (auto simp: accept_invite_def in_transaction_or_begin_def session_begin_Inr dest: session_begin_Inl_db)
qed

subsection \<open>Every request\<close>

fun request_principal :: "tenant_request \<Rightarrow> principal" where
  "request_principal (CreateOrganisation p _ _) = p"
| "request_principal (GetOrganisation p _) = p"
| "request_principal (UpdateOrganisation p _ _ _ _) = p"
| "request_principal (GetDirectory p _) = p"
| "request_principal (ChangeMembershipRole p _ _ _ _) = p"
| "request_principal (RemoveMembership p _ _ _ _) = p"
| "request_principal (DeleteOrganisation p _ _ _) = p"
| "request_principal (ListMemberships p _) = p"
| "request_principal (CreateInvite p _ _ _ _) = p"
| "request_principal (AcceptInvite p _) = p"
| "request_principal (RevokeInvite p _ _ _ _) = p"
| "request_principal (ResendInvite p _ _ _) = p"
| "request_principal (GetMe p) = p"

lemma snd_discard [simp]: "snd (bind m (\<lambda>_. ret x) w) = snd (m w)"
  by (simp add: bind_def ret_def split: prod.splits sum.splits)

lemma lift_bind_tables:
  "(\<And>x. r = Inr x \<Longrightarrow> other_tables (db (snd (f x w))) = other_tables (db w)) \<Longrightarrow>
     other_tables (db (snd (bind (lift r) f w))) = other_tables (db w)"
  by (cases r) (simp_all add: lift_def raise_def)

lemma ensure_bind_tables:
  "(b \<Longrightarrow> other_tables (db (snd (f () w))) = other_tables (db w)) \<Longrightarrow>
     other_tables (db (snd (bind (ensure b e) f w))) = other_tables (db w)"
  by (simp add: bind_def ensure_def)

lemma leaves_db_tables: "leaves_db m \<Longrightarrow> other_tables (db (snd (m w))) = other_tables (db w)"
  by (simp add: leaves_db_def)

lemma suspended_dispatch:
  assumes I: "integrity (db w)" and u: "suspended_as (db w) (request_principal r) u" and tx: "\<not> in_tx w"
    and L: "limits_ok E"
  shows "other_tables (db (snd (dispatch E r w))) = other_tables (db w)"
proof -
  have lim: "limiter_ok (Some (business_limit E r))" for r
    using L by (simp add: limits_ok_def limiter_ok_def)
  note reads = leaves_db_bind leaves_db_reads leaves_db_services leaves_db_ret
  note after = after_provision [OF I _ tx]
  note locked = suspended_services [OF _ _ _ lim]
  show ?thesis
  proof (cases r)
    case (CreateOrganisation p name slug)
    have "snd (bind m (\<lambda>(u, r, m). ret r) w') = snd (m w')" for m :: "(user \<times> organisation \<times> membership) app" and w'
      by (simp add: bind_def ret_def split: prod.splits sum.splits)
    with CreateOrganisation u show ?thesis
      by (auto simp: discard_def api_create_organisation_def suspended_cannot_onboard [OF I] intro!: lift_bind_tables)
  next
    case (GetOrganisation p oid)
    with u show ?thesis
      by (simp add: discard_def api_get_organisation_def get_organisation_for_member_def)
         (intro after leaves_db_tables reads, simp)
  next
    case (UpdateOrganisation p oid name slug q)
    with u show ?thesis
      by (auto simp: discard_def api_update_organisation_def locked intro!: lift_bind_tables after)
  next
    case (GetDirectory p oid)
    with u show ?thesis
      by (simp add: discard_def api_get_organisation_directory_def) (intro after leaves_db_tables reads, simp)
  next
    case (ChangeMembershipRole p oid mid role q)
    with u show ?thesis by (auto simp: discard_def api_change_membership_role_def locked intro!: after)
  next
    case (RemoveMembership p oid mid reason q)
    with u show ?thesis by (auto simp: api_remove_membership_def locked intro!: lift_bind_tables after)
  next
    case (DeleteOrganisation p oid reason q)
    with u show ?thesis by (auto simp: api_delete_organisation_def locked intro!: lift_bind_tables after)
  next
    case (ListMemberships p oid)
    with u show ?thesis
      by (simp add: discard_def api_list_organisation_memberships_def) (intro after leaves_db_tables reads, simp)
  next
    case (CreateInvite p oid email role q)
    with u show ?thesis
      by (auto simp: discard_def api_create_invite_def validate_role_def locked bind_assoc
          intro!: ensure_bind_tables after lift_bind_tables)
  next
    case (AcceptInvite p raw)
    with u show ?thesis
      by (auto simp: discard_def api_accept_invite_def validate_token_def suspended_cannot_accept [OF I _ tx] bind_assoc
          intro!: ensure_bind_tables lift_bind_tables)
  next
    case (RevokeInvite p oid iid code q)
    with u show ?thesis
      by (auto simp: api_revoke_invite_def suspended_services(6) [OF _ _ _ limiter_ok_None] intro!: after lift_bind_tables)
  next
    case (ResendInvite p oid iid q)
    with u show ?thesis by (auto simp: discard_def api_resend_invite_def locked intro!: after lift_bind_tables)
  next
    case (GetMe p)
    have "keeps (\<lambda>d. other_tables d = other_tables (db w)) (api_get_me p)"
      unfolding api_get_me_def
      by (intro maintains_bind keeps_other_tables_users(3) leaves_db_keeps [OF leaves_db_services(3)] maintains_ret)
    with GetMe show ?thesis by (auto simp: discard_def maintains_def)
  qed
qed


definition suspended_world :: world where
  "suspended_world = demo_world\<lparr>db := users_update (map (\<lambda>u. if usr_id u = 1 then u\<lparr>usr_status := USER_SUSPENDED\<rparr> else u)) demo_db\<rparr>"


end
