(* ===== verification/Roster.thy ===== *)
theory Roster
  imports Lockout
begin

section \<open>The roster: an abstract specification of the tenant side\<close>

text \<open>
  Seen from outside, a tenant is its seats: who sits in which organisation with which role. The
  abstract machine \<open>roster_step\<close> says how the seats may change; every tenant request of the
  detailed model does one of its steps or leaves the seats alone.
\<close>

type_synonym seat = "uuid \<times> uuid \<times> membership_role"

definition seat_of :: "membership \<Rightarrow> seat" where
  "seat_of m = (mem_user_id m, mem_organisation_id m, mem_role m)"

definition seats :: "db \<Rightarrow> seat set" where
  "seats d = seat_of ` {m \<in> set (memberships d). mem_is_active m}"

inductive roster_step :: "seat set \<Rightarrow> seat set \<Rightarrow> bool" where
  found: "u \<notin> fst ` S \<Longrightarrow> \<forall>v r. (v, oid, r) \<notin> S \<Longrightarrow> roster_step S (insert (u, oid, OWNER) S)"
| join: "u \<notin> fst ` S \<Longrightarrow> (v, oid, OWNER) \<in> S \<Longrightarrow> r \<noteq> OWNER \<Longrightarrow> roster_step S (insert (u, oid, r) S)"
| change: "(a, oid, OWNER) \<in> S \<Longrightarrow> (u, oid, r) \<in> S \<Longrightarrow> r \<noteq> OWNER \<Longrightarrow> r' \<noteq> OWNER \<Longrightarrow>
    roster_step S (insert (u, oid, r') (S - {(u, oid, r)}))"
| leave: "(a, oid, ar) \<in> S \<Longrightarrow> (u, oid, r) \<in> S \<Longrightarrow> r \<noteq> OWNER \<Longrightarrow> ar = OWNER \<or> ar = ADMIN \<and> r = MEMBER \<Longrightarrow>
    roster_step S (S - {(u, oid, r)})"
| close: "(a, oid, OWNER) \<in> S \<Longrightarrow> roster_step S {s \<in> S. fst (snd s) \<noteq> oid}"

inductive_cases roster_stepE: "roster_step S S'"

subsection \<open>The abstract machine\<close>

text \<open>Every user sits at most once, and every organisation with a seat has exactly one owner.\<close>

definition roster_ok :: "seat set \<Rightarrow> bool" where
  "roster_ok S \<longleftrightarrow> (\<forall>u x y. (u, x) \<in> S \<longrightarrow> (u, y) \<in> S \<longrightarrow> x = y) \<and>
     (\<forall>u oid r. (u, oid, r) \<in> S \<longrightarrow> (\<exists>!v. (v, oid, OWNER) \<in> S))"

lemma roster_step_ok:
  assumes "roster_step S S'" and "roster_ok S"
  shows "roster_ok S'"
  using assms
proof (induction rule: roster_step.induct)
  case (found u S oid)
  then show ?case unfolding roster_ok_def by (auto simp: image_iff) metis+
next
  case (join u S v oid r)
  then show ?case unfolding roster_ok_def by (auto simp: image_iff) metis+
next
  case (change a oid S u r r')
  then show ?case unfolding roster_ok_def by auto metis+
next
  case (leave a oid ar S u r)
  then show ?case unfolding roster_ok_def by auto metis+
next
  case (close a oid S)
  then show ?case unfolding roster_ok_def by auto metis+
qed

subsection \<open>Requests as steps\<close>

definition evolves :: "'a app \<Rightarrow> world \<Rightarrow> bool" where
  "evolves m w \<longleftrightarrow> seats (db (snd (m w))) = seats (db w) \<or> roster_step (seats (db w)) (seats (db (snd (m w))))"

lemma seats_same: "memberships d' = memberships d \<Longrightarrow> seats d' = seats d"
  by (simp add: seats_def)

lemma evolves_same: "memberships (db (snd (m w))) = memberships (db w) \<Longrightarrow> evolves m w"
  by (simp add: evolves_def seats_def)

lemma evolves_leaves_db: "leaves_db m \<Longrightarrow> evolves m w"
  by (simp add: evolves_same leaves_db_def)

lemma evolves_lift: "(\<And>x. r = Inr x \<Longrightarrow> evolves (f x) w) \<Longrightarrow> evolves (bind (lift r) f) w"
  by (cases r) (simp_all add: lift_def raise_def evolves_def)

lemma evolves_ensure: "(b \<Longrightarrow> evolves (f ()) w) \<Longrightarrow> evolves (bind (ensure b e) f) w"
  by (simp add: bind_def ensure_def evolves_def)

lemma evolves_discard: "evolves m w \<Longrightarrow> evolves (bind m (\<lambda>_. ret x)) w"
  by (simp add: evolves_def)

lemma same_memberships: "other_tables d' = other_tables d \<Longrightarrow> memberships d' = memberships d"
  by (drule other_tables_eqD) simp

lemma evolves_after_provision:
  assumes "saas_inv (db w)" and "\<not> in_tx w" and "\<And>u w1. saas_inv (db w1) \<Longrightarrow> \<not> in_tx w1 \<Longrightarrow> evolves (f u) w1"
  shows "evolves (bind (provision_current_user p) f) w"
proof -
  obtain r w1 where run: "provision_current_user p w = (r, w1)" by (cases "provision_current_user p w")
  have "other_tables (db w1) = other_tables (db w)"
    by (rule maintainsD [OF keeps_other_tables_users(1) _ run]) simp
  then have same: "seats (db w1) = seats (db w)" by (intro seats_same same_memberships)
  have safe: "safe (provision_current_user p)"
    unfolding provision_current_user_def
    by (rule idle_in_transaction_or_begin [OF keeps_commits [OF keeps_saas_user_programs(2)]])
  have "idle saas_inv w1" by (rule maintainsD [OF safe _ run]) (use assms in simp)
  then have "r = Inr x \<Longrightarrow> evolves (f x) w1" for x using assms(3) by simp
  with run same show ?thesis by (cases r) (simp_all add: evolves_def bind_def)
qed

text \<open>A guarded service call evolves the seats if its committed body does.\<close>

lemma evolves_guarded:
  assumes "\<not> in_tx w" and "\<And>x w1. m (w\<lparr>in_tx := True\<rparr>) = (Inr x, w1) \<Longrightarrow>
    seats (db w1) = seats (db w) \<or> roster_step (seats (db w)) (seats (db w1))"
  shows "evolves (bind (ensure_audit_actor_matches actor ctx) (\<lambda>_. in_transaction_or_begin m)) w"
    and "evolves (bind (ensure_audit_actor_matches actor ctx) (\<lambda>_. session_begin m)) w"
proof -
  obtain r w' where run: "bind (ensure_audit_actor_matches actor ctx) (\<lambda>_. in_transaction_or_begin m) w = (r, w')"
    by (cases "bind (ensure_audit_actor_matches actor ctx) (\<lambda>_. in_transaction_or_begin m) w")
  with guarded_run [OF run assms(1)] assms(2)
  show "evolves (bind (ensure_audit_actor_matches actor ctx) (\<lambda>_. in_transaction_or_begin m)) w"
    by (cases r) (auto simp: evolves_def)
next
  obtain r w' where run: "bind (ensure_audit_actor_matches actor ctx) (\<lambda>_. session_begin m) w = (r, w')"
    by (cases "bind (ensure_audit_actor_matches actor ctx) (\<lambda>_. session_begin m) w")
  with guarded_session [OF run assms(1)] assms(2)
  show "evolves (bind (ensure_audit_actor_matches actor ctx) (\<lambda>_. session_begin m)) w"
    by (cases r) (auto simp: evolves_def)
qed

lemma acts_as_seat: "acts_as d actor oid role \<Longrightarrow> (actor, oid, role) \<in> seats d"
  by (force simp: acts_as_def seats_def seat_of_def active_in_def list_ex_iff image_iff)

lemma active_seat: "m \<in> set (memberships d) \<Longrightarrow> mem_is_active m \<Longrightarrow> seat_of m \<in> seats d"
  by (simp add: seats_def)

text \<open>The seat of one active row changes with the row, since no other active row has its user.\<close>

lemma seats_update_row:
  assumes I: "integrity d" and m: "m \<in> set (memberships d)" "mem_is_active m"
    and f: "memberships d' = update_where (\<lambda>x. mem_id x = mem_id m) f (memberships d)"
  shows "seats d' = (if mem_is_active (f m) then insert (seat_of (f m)) else id) (seats d - {seat_of m})"
proof -
  have key: "x = m" if "x \<in> set (memberships d)" "mem_id x = mem_id m" for x
    using that m(1) memberships_table.same_key_same_row [OF I] by blast
  have user: "x = m" if "x \<in> set (memberships d)" "mem_is_active x" "mem_user_id x = mem_user_id m" for x
  proof -
    have "distinct (map mem_user_id (filter mem_is_active (memberships d)))"
      using I by (simp add: integrity_def memberships_ok_def)
    then show ?thesis by (rule distinct_key_eq) (use that m in simp_all)
  qed
  have "set (memberships d') = (\<lambda>x. if x = m then f x else x) ` set (memberships d)"
    unfolding f set_update_where by (rule image_cong) (auto dest: key)
  then have "set (memberships d') = insert (f m) (set (memberships d) - {m})" using m(1) by auto
  then have "{x \<in> set (memberships d'). mem_is_active x} =
      (if mem_is_active (f m) then {f m} else {}) \<union> ({x \<in> set (memberships d). mem_is_active x} - {m})"
    by auto
  moreover have "seat_of ` ({x \<in> set (memberships d). mem_is_active x} - {m}) = seats d - {seat_of m}"
    using user m by (auto simp: seats_def seat_of_def)
  ultimately show ?thesis by (simp add: seats_def [of d'])
qed

lemma seats_append:
  "memberships d' = memberships d @ [m] \<Longrightarrow> mem_is_active m \<Longrightarrow> seats d' = insert (seat_of m) (seats d)"
  unfolding seats_def by (auto simp: image_iff)

lemma seats_deactivate:
  assumes "memberships d' = update_where (active_in oid) f (memberships d)" and "\<And>m. \<not> mem_is_active (f m)"
  shows "seats d' = {s \<in> seats d. fst (snd s) \<noteq> oid}"
proof -
  have "{m \<in> set (memberships d'). mem_is_active m} = {m \<in> set (memberships d). mem_is_active m \<and> mem_organisation_id m \<noteq> oid}"
    using assms by (auto simp: set_update_where active_in_def)
  then show ?thesis by (auto simp: seats_def seat_of_def)
qed

lemma evolves_change_role:
  assumes inv: "saas_inv (db w)" and tx: "\<not> in_tx w" and L: "limiter_ok l"
  shows "evolves (change_membership_role X oid uid ctx mid role l) w"
proof -
  have I: "integrity (db w)" and I': "integrity (db (w\<lparr>in_tx := True\<rparr>))" using saas_invD(1) [OF inv] by simp_all
  show ?thesis
    unfolding change_membership_role_def
  proof (rule evolves_guarded(1) [OF tx], erule change_membership_role_done [OF I' L])
    fix x w1 target e t
    assume acts: "acts_as (db (w\<lparr>in_tx := True\<rparr>)) uid oid OWNER"
      and target: "target \<in> set (memberships (db (w\<lparr>in_tx := True\<rparr>)))" "mem_id target = mid" "active_in oid target"
        "mem_role target \<noteq> OWNER" "role \<noteq> OWNER"
      and d: "db w1 = audit_events_update (\<lambda>rows. rows @ [e]) (memberships_update (update_where (\<lambda>m. mem_id m = mid)
          (\<lambda>m. m\<lparr>mem_role := role, mem_updated_at := t\<rparr>)) (db (w\<lparr>in_tx := True\<rparr>)))"
    have m: "target \<in> set (memberships (db w))" "mem_is_active target" using target by (simp_all add: active_in_def)
    have "seats (db w1) = insert (mem_user_id target, oid, role) (seats (db w) - {(mem_user_id target, oid, mem_role target)})"
      using seats_update_row [OF I m, of "db w1"] target by (simp add: d seat_of_def active_in_def)
    moreover have "(mem_user_id target, oid, mem_role target) \<in> seats (db w)"
      using active_seat [OF m] target by (simp add: seat_of_def active_in_def)
    moreover have "(uid, oid, OWNER) \<in> seats (db w)" using acts_as_seat [OF acts] by simp
    ultimately show "seats (db w1) = seats (db w) \<or> roster_step (seats (db w)) (seats (db w1))"
      using roster_step.change target by simp
  qed
qed

lemma evolves_remove:
  assumes inv: "saas_inv (db w)" and tx: "\<not> in_tx w" and L: "limiter_ok l"
  shows "evolves (remove_membership X oid uid ctx mid reason l) w"
proof -
  have I: "integrity (db w)" and I': "integrity (db (w\<lparr>in_tx := True\<rparr>))" using saas_invD(1) [OF inv] by simp_all
  show ?thesis
    unfolding remove_membership_def
  proof (rule evolves_guarded(1) [OF tx], erule remove_membership_done [OF I' L])
    fix x w1 target arole e t
    assume acts: "acts_as (db (w\<lparr>in_tx := True\<rparr>)) uid oid arole"
      and target: "target \<in> set (memberships (db (w\<lparr>in_tx := True\<rparr>)))" "mem_id target = mid" "active_in oid target"
        "may_remove arole (mem_role target)"
      and d: "db w1 = audit_events_update (\<lambda>rows. rows @ [e]) (memberships_update (update_where (\<lambda>m. mem_id m = mid)
          (\<lambda>m. m\<lparr>mem_is_active := False, mem_updated_at := t\<rparr>)) (db (w\<lparr>in_tx := True\<rparr>)))"
    have m: "target \<in> set (memberships (db w))" "mem_is_active target" using target by (simp_all add: active_in_def)
    have "seats (db w1) = seats (db w) - {(mem_user_id target, oid, mem_role target)}"
      using seats_update_row [OF I m, of "db w1"] target by (simp add: d seat_of_def active_in_def)
    moreover have "(mem_user_id target, oid, mem_role target) \<in> seats (db w)"
      using active_seat [OF m] target by (simp add: seat_of_def active_in_def)
    moreover have "(uid, oid, arole) \<in> seats (db w)" using acts_as_seat [OF acts] by simp
    ultimately show "seats (db w1) = seats (db w) \<or> roster_step (seats (db w)) (seats (db w1))"
      using roster_step.leave target by (simp add: may_remove_def)
  qed
qed

lemma evolves_delete:
  assumes inv: "saas_inv (db w)" and tx: "\<not> in_tx w" and L: "limiter_ok l"
  shows "evolves (soft_delete X oid uid ctx reason l) w"
proof -
  have I': "integrity (db (w\<lparr>in_tx := True\<rparr>))" using saas_invD(1) [OF inv] by simp
  show ?thesis
    unfolding soft_delete_def
  proof (rule evolves_guarded(1) [OF tx], erule soft_delete_done [OF I' L])
    fix x w1 r e t1 t2 now
    assume acts: "acts_as (db (w\<lparr>in_tx := True\<rparr>)) uid oid OWNER"
      and d: "db w1 = audit_events_update (\<lambda>rows. rows @ [e]) (organisations_update (update_where (\<lambda>r. org_id r = oid)
          (\<lambda>r. r\<lparr>org_deleted_at := Some now, org_updated_at := t2\<rparr>)) (memberships_update (update_where (active_in oid)
          (\<lambda>m. m\<lparr>mem_is_active := False, mem_updated_at := t1\<rparr>)) (db (w\<lparr>in_tx := True\<rparr>))))"
    have "seats (db w1) = {s \<in> seats (db w). fst (snd s) \<noteq> oid}"
      by (rule seats_deactivate) (simp add: d, simp)
    moreover have "(uid, oid, OWNER) \<in> seats (db w)" using acts_as_seat [OF acts] by simp
    ultimately show "seats (db w1) = seats (db w) \<or> roster_step (seats (db w)) (seats (db w1))"
      using roster_step.close by simp
  qed
qed

lemma evolves_other_services:
  assumes inv: "saas_inv (db w)" and tx: "\<not> in_tx w" and L: "limiter_ok l"
  shows "evolves (update_organisation_details X oid uid ctx name slug l) w"
    and "evolves (create_invite X key oid uid role email ctx l) w"
    and "evolves (revoke_invite X oid iid uid ctx reason) w"
    and "evolves (resend_invite X key oid iid uid ctx l) w"
proof -
  have I': "integrity (db (w\<lparr>in_tx := True\<rparr>))" using saas_invD(1) [OF inv] by simp
  show "evolves (update_organisation_details X oid uid ctx name slug l) w"
    unfolding update_organisation_details_def
    by (rule evolves_guarded(1) [OF tx], erule update_organisation_details_done [OF I' L])
       (elim disjE exE conjE, simp_all add: seats_def)
  show "evolves (create_invite X key oid uid role email ctx l) w"
    unfolding create_invite_def
    by (rule evolves_guarded(2) [OF tx], erule create_invite_done [OF I' L]) (simp add: seats_def)
  show "evolves (revoke_invite X oid iid uid ctx reason) w"
    unfolding revoke_invite_def
    by (rule evolves_guarded(1) [OF tx], erule revoke_invite_done [OF I']) (simp add: seats_def)
  show "evolves (resend_invite X key oid iid uid ctx l) w"
    unfolding resend_invite_def
    by (rule evolves_guarded(2) [OF tx], erule resend_invite_done [OF I' L]) (simp add: seats_def)
qed

lemmas evolves_services = evolves_change_role evolves_remove evolves_delete evolves_other_services

lemma evolves_onboarding:
  assumes inv: "saas_inv (db w)"
  shows "evolves (create_organisation_for_current_user p name slug) w"
proof (cases "create_organisation_for_current_user p name slug w")
  case (Pair r w')
  show ?thesis
  proof (cases r)
    case (Inl e)
    with Pair show ?thesis by (auto simp: evolves_def create_organisation_for_current_user_def dest: session_begin_Inl_db)
  next
    case (Inr y)
    obtain u x m where y: "y = (u, x, m)" by (cases y)
    from Pair [unfolded Inr create_organisation_for_current_user_def] obtain w0 w1 where w0: "db w0 = db w"
      and body: "onboard p name slug w0 = (Inr (u, x, m), w1)" and d: "db w' = db w1"
      unfolding y by (rule session_begin_committed)
    have "saas_inv (db w0)" using inv by (simp add: w0)
    note new = onboarding_done [OF this body]
    have one: "distinct (map mem_user_id (filter mem_is_active (memberships (db w1))))"
      and ids: "distinct (map org_id (organisations (db w1)))"
      using saas_invD(1) [OF new(1)] by (simp_all add: integrity_def memberships_ok_def organisations_ok_def)
    have "mem_user_id m \<notin> fst ` seats (db w)"
      using one new(5,7) by (auto simp: w0 seats_def seat_of_def image_iff)
    moreover have "\<forall>v r. (v, org_id x, r) \<notin> seats (db w)"
    proof (intro allI notI)
      fix v r assume "(v, org_id x, r) \<in> seats (db w)"
      then have "org_id x \<in> active_orgs (db w)" by (auto simp: seats_def seat_of_def active_orgs_def image_iff)
      then have "org_id x \<in> live_ids (db w)" using saas_invD(2) [OF inv] by (auto simp: tenancy_def)
      with ids new(6) show False by (auto simp: w0 live_ids_def)
    qed
    moreover have "seats (db w') = insert (mem_user_id m, org_id x, OWNER) (seats (db w))"
      using seats_append [of "db w'" "db w" m] new(3-5,7) by (simp add: d w0 seat_of_def)
    ultimately show ?thesis using Pair roster_step.found by (simp add: evolves_def)
  qed
qed

lemma evolves_accept:
  assumes inv: "saas_inv (db w)" and tx: "\<not> in_tx w"
  shows "evolves (accept_invite X token p) w"
proof (cases "accept_invite X token p w")
  case (Pair r w')
  show ?thesis
  proof (cases r)
    case (Inl e)
    with Pair tx show ?thesis
      by (auto simp: evolves_def accept_invite_def in_transaction_or_begin_def dest: session_begin_Inl_db)
  next
    case (Inr m)
    from Pair [unfolded Inr accept_invite_def] obtain w0 w1 where w0: "db w0 = db w"
      and body: "accept_invite_in_transaction X token p w0 = (Inr m, w1)" and d: "db w' = db w1"
      by (rule in_transaction_or_begin_committed)
    have I0: "integrity (db w0)" using saas_invD(1) [OF inv] by (simp add: w0)
    show ?thesis
    proof (rule accept_invite_done [OF I0 body])
      fix v and u :: user and t
      assume v: "v \<in> set (invites (db w0))" "organisation_problem (db w0) (inv_organisation_id v) = None"
        and m: "mem_user_id m = usr_id u" "mem_organisation_id m = inv_organisation_id v" "mem_role m = inv_role v" "mem_is_active m"
        and free: "\<not> list_ex (\<lambda>m. mem_user_id m = usr_id u \<and> mem_is_active m) (memberships (db w0))"
        and ot: "other_tables (db w1) = memberships_update (\<lambda>rows. rows @ [m]) (invites_update
          (update_where (\<lambda>x. inv_id x = inv_id v) (\<lambda>x. x\<lparr>inv_status := INVITE_ACCEPTED, inv_updated_at := t\<rparr>))
          (other_tables (db w0)))"
      have rows: "memberships (db w1) = memberships (db w) @ [m]"
        using arg_cong [OF ot, of memberships] by (simp add: other_tables_def w0)
      then have "seats (db w') = insert (usr_id u, inv_organisation_id v, inv_role v) (seats (db w))"
        using seats_append [of "db w'" "db w" m] m by (simp add: d seat_of_def)
      moreover have "usr_id u \<notin> fst ` seats (db w)"
        using free by (auto simp: w0 seats_def seat_of_def list_ex_iff)
      moreover have "inv_role v \<noteq> OWNER" using saas_invD(5) [OF inv] v(1) by (simp add: invite_roles_def w0)
      moreover obtain a where "(a, inv_organisation_id v, OWNER) \<in> seats (db w)"
      proof -
        have "inv_organisation_id v \<in> live_ids (db w)" using organisation_live [OF I0 v(2)] by (simp add: w0)
        then have "length (owners_of (inv_organisation_id v) (db w)) = 1"
          using saas_invD(2) [OF inv] by (simp add: tenancy_def)
        then obtain o' where "o' \<in> set (owners_of (inv_organisation_id v) (db w))" by (cases "owners_of (inv_organisation_id v) (db w)") auto
        then have "(mem_user_id o', inv_organisation_id v, OWNER) \<in> seats (db w)"
          by (auto simp: owners_of_def seats_def seat_of_def image_iff)
        then show ?thesis by (rule that)
      qed
      ultimately show ?thesis using Pair roster_step.join by (simp add: evolves_def)
    qed
  qed
qed

lemma evolves_dispatch:
  assumes inv: "saas_inv (db w)" and tx: "\<not> in_tx w" and L: "limits_ok E"
  shows "evolves (dispatch E r) w"
proof -
  have lim: "limiter_ok (Some (business_limit E r))" for r
    using L by (simp add: limits_ok_def limiter_ok_def)
  note after = evolves_after_provision [OF inv tx]
  note reads = leaves_db_bind leaves_db_reads leaves_db_services leaves_db_ret
  note serve = evolves_services [OF _ _ lim] evolves_other_services(3) [OF _ _ limiter_ok_None]
  show ?thesis
  proof (cases r)
    case (CreateOrganisation p name slug)
    have "snd (bind m (\<lambda>(u, r, m). ret r) w') = snd (m w')" for m :: "(user \<times> organisation \<times> membership) app" and w'
      by (simp add: bind_def ret_def split: prod.splits sum.splits)
    with evolves_onboarding [OF inv]
    have "evolves (bind (create_organisation_for_current_user p n s) (\<lambda>(u, r, m). ret r)) w" for n s
      by (simp add: evolves_def)
    with CreateOrganisation show ?thesis
      by (auto simp: discard_def api_create_organisation_def intro!: evolves_discard evolves_lift)
  next
    case (GetMe p)
    have "keeps (\<lambda>d. other_tables d = other_tables (db w)) (api_get_me p)"
      unfolding api_get_me_def
      by (intro maintains_bind keeps_other_tables_users(3) leaves_db_keeps [OF leaves_db_services(3)] maintains_ret)
    with GetMe show ?thesis
      by (auto simp: discard_def maintains_def intro!: evolves_discard evolves_same same_memberships)
  next
    case (CreateInvite p oid email role q)
    then show ?thesis
      by (auto simp: discard_def api_create_invite_def validate_role_def bind_assoc
          intro!: evolves_discard evolves_ensure after evolves_lift serve)
  next
    case (AcceptInvite p raw)
    then show ?thesis
      by (auto simp: discard_def api_accept_invite_def validate_token_def bind_assoc
          intro!: evolves_discard evolves_ensure evolves_lift evolves_accept [OF inv tx])
  next
    case (GetOrganisation p oid)
    then show ?thesis
      by (simp add: discard_def api_get_organisation_def get_organisation_for_member_def)
         (intro evolves_discard after evolves_leaves_db reads)
  next
    case (GetDirectory p oid)
    then show ?thesis
      by (simp add: discard_def api_get_organisation_directory_def) (intro evolves_discard after evolves_leaves_db reads)
  next
    case (ListMemberships p oid)
    then show ?thesis
      by (simp add: discard_def api_list_organisation_memberships_def) (intro evolves_discard after evolves_leaves_db reads)
  qed (auto simp: discard_def api_update_organisation_def api_change_membership_role_def api_remove_membership_def
      api_delete_organisation_def api_revoke_invite_def api_resend_invite_def
      intro!: evolves_discard evolves_lift after serve)
qed

subsection \<open>The refinement\<close>



end
