(* ===== verification/Delivery_Theorems.thy ===== *)
theory Delivery_Theorems
  imports Demo
begin

section \<open>What the outbox and the delivery guarantee\<close>

text \<open>
  The properties of the outbox worker, of the retry life cycle and of the e-mails that carry invite
  tokens.
\<close>

subsection \<open>The worker\<close>

text \<open>C24: A token leaves the worker only for an event that was being processed and that no other
  worker had reserved, for an invite that is pending and has not expired, and only when the stored
  hash is the hash of the token.\<close>

theorem worker_delivers_only_live_invites:
  assumes "claimed_event_context_in_transaction X S cfg i claim w = (Inr (action, ctx, found), w')"
    and "action = ''deliver''"
  shows "\<exists>e v raw. found = Some v \<and> ctx = \<lparr>delivery_claim_token = Some claim, raw_token = Some raw\<rparr> \<and>
    e \<in> set (outbox_events (db w)) \<and> obx_id e = i \<and> obx_status e = OUTBOX_PROCESSING \<and> \<not> has_claim (db w) i \<and>
    v \<in> set (invites (db w)) \<and> inv_status v = INVITE_PENDING \<and> \<not> expired_at (clock w (Suc (clock_pos w))) v \<and>
    sha256_hex X raw = inv_token_hash v \<and> invites (db w') = invites (db w)"
  using context_sound [of X S cfg i claim w ctx found w'] assms by metis

lemma demo_context_deliver:
  "get_claimed_event_context demo_externals demo_schema demo_outbox 51 demo_world =
    (Inr (''deliver'', \<lparr>delivery_claim_token = Some (token_source demo_world (token_pos demo_world)),
       raw_token = Some ''tok''\<rparr>, Some demo_invite),
     demo_world\<lparr>token_pos := Suc (token_pos demo_world), clock_pos := Suc (Suc (Suc (clock_pos demo_world))),
       db := reserve 51 (token_source demo_world (token_pos demo_world)) (clock demo_world (clock_pos demo_world)) (db demo_world)\<rparr>)"
  by (rule context_deliver [where e = demo_event and ?v0.0 = demo_invite and oid = 10 and purpose = "''created''" and key = "''key''"])
     (use demo_integrity demo_reads_uuids demo_fernet_ok in
       \<open>simp_all add: demo_db_def demo_event_def invite_outbox_event_types_def has_claim_def\<close>,
      simp_all add: demo_invite_def demo_externals_def demo_schema_def demo_outbox_def payload_crypto_def
        resolve_outbox_encryption_key_def expired_at_def demo_world_def demo_start_def)

theorem worker_delivers_only_live_invites_witness:
  "\<exists>claim ctx found w'. claimed_event_context_in_transaction demo_externals demo_schema demo_outbox 51 claim
       (demo_world\<lparr>token_pos := 1, in_tx := True\<rparr>) = (Inr (''deliver'', ctx, found), w') \<and>
     (\<exists>v. found = Some v \<and> inv_status v = INVITE_PENDING)"
proof -
  let ?w = "demo_world\<lparr>token_pos := 1, in_tx := True\<rparr>"
  let ?claim = "token_source demo_world (token_pos demo_world)"
  have "session_begin (claimed_event_context_in_transaction demo_externals demo_schema demo_outbox 51 ?claim)
      (demo_world\<lparr>token_pos := 1\<rparr>) = get_claimed_event_context demo_externals demo_schema demo_outbox 51 demo_world"
    by (simp add: get_claimed_event_context_def bind_def token_urlsafe_def demo_world_def demo_start_def)
  then obtain ctx found w' where run: "claimed_event_context_in_transaction demo_externals demo_schema demo_outbox 51 ?claim ?w =
      (Inr (''deliver'', ctx, found), w')"
    unfolding demo_context_deliver session_begin_Inr by auto
  from worker_delivers_only_live_invites [OF run refl] run show ?thesis by blast
qed



text \<open>C24: An event is given to one worker at a time: while a reservation of the event exists, a
  second worker is told to skip it and changes nothing in the database.\<close>

theorem reserved_event_is_skipped:
  assumes "has_claim (db w) i" and "\<not> in_tx w"
  shows "\<exists>w'. process_outbox_event X S cfg deliver i w = (Inr (), w') \<and> db w' = db w"
proof -
  let ?w = "w\<lparr>token_pos := Suc (token_pos w), in_tx := True\<rparr>"
  have claim: "has_claim (db ?w) i" using assms(1) by simp
  have "get_claimed_event_context X S cfg i w =
      (Inr (''skip'', \<lparr>delivery_claim_token = None, raw_token = None\<rparr>, None),
       w\<lparr>token_pos := Suc (token_pos w), clock_pos := Suc (clock_pos w)\<rparr>)"
    using assms(2) claim_processing_taken [OF claim, of "token_source w (token_pos w)"]
    by (simp add: get_claimed_event_context_def bind_def token_urlsafe_def session_begin_def
        claimed_event_context_in_transaction_def ret_def Let_def)
  then show ?thesis by (simp add: process_outbox_event_def bind_def ret_def)
qed

theorem reserved_event_is_skipped_witness:
  "\<exists>w'. process_outbox_event demo_externals demo_schema demo_outbox (\<lambda>v raw. ret None) 51
       (demo_world\<lparr>db := reserve 51 ''other'' 7 demo_db\<rparr>) = (Inr (), w') \<and> db w' = reserve 51 ''other'' 7 demo_db"
proof -
  have "has_claim (db (demo_world\<lparr>db := reserve 51 ''other'' 7 demo_db\<rparr>)) 51" by (simp add: has_claim_def reserve_def)
  from reserved_event_is_skipped [OF this] show ?thesis by simp
qed

text \<open>Fencing. A worker that reports a result after it lost its reservation, because the event was
  recovered or taken over, changes nothing at all.\<close>

theorem stale_result_is_ignored:
  assumes "\<not> in_tx w" and "\<not> holds_claim (db w) i token"
  shows "apply_result i token success error w = (Inr (), w)"
  using assms by (rule apply_result_fenced)

theorem stale_result_is_ignored_witness:
  "apply_result 51 ''lost'' True None (demo_world\<lparr>db := reserve 51 ''other'' 7 demo_db\<rparr>) =
     (Inr (), demo_world\<lparr>db := reserve 51 ''other'' 7 demo_db\<rparr>)"
  by (rule stale_result_is_ignored) (simp_all add: holds_claim_def reserve_def demo_db_def)

subsection \<open>E-mails\<close>

text \<open>Percent-encoding a token loses nothing: decoding what \<open>quote\<close> returns gives the token
  back, for every text.\<close>

theorem quote_round_trip: "unquote (quote token) = token"
  by (rule unquote_quote)

lemma contains_str_append: "contains_str p a \<or> contains_str p b \<Longrightarrow> contains_str p (a @ b)"
  unfolding contains_str_iff by (metis append.assoc)

lemma join_contains: "x \<in> set xs \<Longrightarrow> contains_str x (join sep xs)"
proof (induction sep xs rule: join.induct)
  case (2 sep y)
  then show ?case unfolding contains_str_iff by (metis append_Nil append_Nil2 empty_iff empty_set join.simps(2) set_ConsD)
next
  case (3 sep y z zs)
  have "contains_str y (y @ rest)" for rest unfolding contains_str_iff by (metis append_Nil)
  with 3 show ?case by (auto intro: contains_str_append)
qed simp

text \<open>The e-mail of an invite goes to the address of the invite and contains the accept link with
  the percent-encoded token, provided the template passed its check.\<close>

theorem invite_email_carries_link:
  assumes "validate_accept_url_template (accept_url_template s) = Inr (Some template)"
    and "build_invite_email_message v token s = Inr m"
  shows "msg_to m = inv_email v \<and> contains_str (accept_url template token) (msg_content m) \<and>
    contains_str (quote token) (accept_url template token)"
proof -
  from assms have t: "accept_url_template s = Some template" "contains_str ''{token}'' template"
    by (auto simp: validate_accept_url_template_def Let_def split: option.splits if_splits)
  with assms(2) have m: "msg_to m = inv_email v" "msg_content m = invite_email_body v (accept_url template token)"
    by (auto simp: build_invite_email_message_def split: option.splits)
  have "contains_str (accept_url template token) (msg_content m)"
    unfolding m(2) invite_email_body_def by (rule join_contains) simp
  then show ?thesis
    using m(1) t(2) replace_all_contains [of "''{token}''" template "quote token"] by (simp add: accept_url_def)
qed

definition demo_delivery :: delivery_settings where
  "demo_delivery = \<lparr>provider = ''smtp'', from_email = Some ''no-reply@x.org'', subject = ''Invite'',
     accept_url_template = Some ''https://x.org/i/{token}'', smtp_host = Some ''mail.x.org'', smtp_port = 587,
     smtp_username = Some ''u'', smtp_password = Some ''p'', smtp_use_tls = False, smtp_start_tls = True\<rparr>"

lemma demo_template: "validate_accept_url_template (Some ''https://x.org/i/{token}'') = Inr (Some ''https://x.org/i/{token}'')"
  by code_simp

theorem invite_email_carries_link_witness:
  "\<exists>m. build_invite_email_message demo_invite ''tok'' demo_delivery = Inr m \<and> msg_to m = ''c@x.org'' \<and>
     contains_str (accept_url ''https://x.org/i/{token}'' ''tok'') (msg_content m)"
proof -
  obtain m where m: "build_invite_email_message demo_invite ''tok'' demo_delivery = Inr m"
    by (simp add: build_invite_email_message_def demo_delivery_def)
  have "validate_accept_url_template (accept_url_template demo_delivery) = Inr (Some ''https://x.org/i/{token}'')"
    using demo_template by (simp add: demo_delivery_def)
  from invite_email_carries_link [OF this m] m show ?thesis by (simp add: demo_invite_def)
qed

text \<open>C38: In staging and production an enabled delivery uses SMTP, its accept link is https, neither
  the credentials nor the message cross an unencrypted connection, and the message goes to the address
  of the invite; a configuration that would do otherwise is refused.\<close>

theorem protected_delivery_is_encrypted:
  assumes "app_environment cfg = ''staging'' \<or> app_environment cfg = ''prod''" and "invite_delivery_enabled cfg"
    and sink: "get_invite_token_sink cfg s = Inr sink" and steps: "deliver_steps sink v token = Inr steps"
  shows "sink = SmtpInviteTokenSink s \<and> \<not> sends_in_clear False steps \<and>
    (\<exists>url. accept_url_template s = Some url \<and> url_scheme (replace_all ''{token}'' ''token'' url) = ''https'') \<and>
    (\<exists>m. Send_Message m \<in> set steps \<and> msg_to m = inv_email v)"
proof -
  from assms(1,2) sink have smtp: "sink = SmtpInviteTokenSink s"
    and policy: "ensure_protected_smtp_url_policy s (app_environment cfg) = Inr ()"
    by (auto simp: get_invite_token_sink_def ensure_noop_allowed_def split: if_splits sum.splits)
  from steps obtain m where m: "build_invite_email_message v token s = Inr m" "send_smtp_message m s = Inr steps"
    by (auto simp: smtp split: sum.splits)
  have "msg_to m = inv_email v"
    using m(1) by (auto simp: build_invite_email_message_def split: option.splits)
  then show ?thesis
    using protected_policy [OF policy assms(1)] send_smtp_message_clear [OF m(2)] send_smtp_message_steps [OF m(2)] smtp
    by auto
qed

theorem protected_delivery_is_encrypted_witness:
  "\<exists>steps. deliver_steps (SmtpInviteTokenSink demo_delivery) demo_invite ''tok'' = Inr steps \<and>
     \<not> sends_in_clear False steps \<and> steps \<noteq> []"
proof -
  have sink: "get_invite_token_sink (demo_outbox\<lparr>app_environment := ''prod''\<rparr>) demo_delivery =
      Inr (SmtpInviteTokenSink demo_delivery)" by code_simp
  obtain steps where steps: "deliver_steps (SmtpInviteTokenSink demo_delivery) demo_invite ''tok'' = Inr steps"
    by (simp add: build_invite_email_message_def demo_delivery_def send_smtp_message_def)
  have "invite_delivery_enabled (demo_outbox\<lparr>app_environment := ''prod''\<rparr>)" by (simp add: demo_outbox_def)
  from protected_delivery_is_encrypted [OF _ this sink steps] steps show ?thesis by auto
qed

subsection \<open>Retries\<close>

abbreviation failures :: "(int \<times> string) list \<Rightarrow> outbox_event \<Rightarrow> outbox_event" where
  "failures fs e \<equiv> fold (\<lambda>(now, error). failed_attempt now error) fs e"

lemma failures_fields:
  "obx_attempts (failures fs e) = obx_attempts e + int (length fs)"
  "obx_max_attempts (failures fs e) = obx_max_attempts e" "obx_event_type (failures fs e) = obx_event_type e"
  by (induction fs arbitrary: e) auto

text \<open>C37: Retries end. An event that may still be tried is put back for a later attempt, the
  delay doubling with each failure, exactly until its attempts are used up; then it is failed for
  good, and an invite event has lost its address and its token.\<close>

theorem retries_end:
  assumes "obx_attempts e < obx_max_attempts e" and "fs \<noteq> []"
    and "obx_attempts e + int (length fs) \<le> obx_max_attempts e" and "0 \<le> obx_attempts e"
  shows "if obx_attempts e + int (length fs) = obx_max_attempts e
    then obx_status (failures fs e) = OUTBOX_FAILED \<and> obx_next_attempt_at (failures fs e) = None \<and>
      (List.member invite_outbox_event_types (obx_event_type e) \<longrightarrow> undeliverable (obx_payload_json (failures fs e)))
    else obx_status (failures fs e) = OUTBOX_PENDING \<and>
      obx_next_attempt_at (failures fs e) =
        Some (fst (last fs) + seconds_us (2 ^ (nat (obx_attempts e) + length fs)))"
proof -
  obtain gs now er where fs: "fs = gs @ [(now, er)]" using assms(2) by (metis rev_exhaust surj_pair)
  let ?g = "failures gs e"
  have fs': "failures fs e = failed_attempt now er ?g" by (simp add: fs)
  have g: "obx_attempts ?g + 1 = obx_attempts e + int (length fs)" "obx_max_attempts ?g = obx_max_attempts e"
    "obx_event_type ?g = obx_event_type e"
    by (simp_all add: fs failures_fields)
  show ?thesis
  proof (cases "obx_attempts e + int (length fs) = obx_max_attempts e")
    case True
    then have "obx_max_attempts ?g \<le> obx_attempts ?g + 1" using g by simp
    then show ?thesis using True g(3)
      by (simp add: fs' failed_attempt_def Let_def scrub_undeliverable)
  next
    case False
    have "nat (obx_attempts ?g + 1) = nat (obx_attempts e) + length fs" using g(1) assms(4) by simp
    moreover have "\<not> obx_max_attempts ?g \<le> obx_attempts ?g + 1" using False assms(3) g by simp
    ultimately show ?thesis using False
      by (simp add: fs' failed_attempt_def Let_def) (simp add: fs)
  qed
qed

theorem retries_end_witness:
  "obx_status (failures (map (\<lambda>n. (int n, ''down'')) [0..<10]) demo_event) = OUTBOX_FAILED \<and>
   undeliverable (obx_payload_json (failures (map (\<lambda>n. (int n, ''down'')) [0..<10]) demo_event))"
  using retries_end [of demo_event "map (\<lambda>n. (int n, ''down'')) [0..<10]"]
  by (simp add: demo_event_def invite_outbox_event_types_def del: fold_simps upt_Suc upt.simps)

end
