(* ===== verification/Platform_Theorems.thy ===== *)
theory Platform_Theorems
  imports Demo
begin

section \<open>What the platform administration guarantees\<close>

text \<open>
  Who may act, what a write does to the staff, and what the limited listings reveal.
\<close>

subsection \<open>Authorisation\<close>

text \<open>Platform access. An actor is resolved exactly for an active user with an active staff
  record whose role carries the permission; everyone else gets the one same error; and nothing is
  written either way.\<close>

theorem platform_access:
  assumes "integrity (db w)" and "resolve_platform_actor p permission w = (r, w')"
  shows "w' = w \<and> (case r of
      Inl e \<Rightarrow> e = ForbiddenError ''Platform access denied'' \<and>
        \<not> (\<exists>u s role. staff_acts (db w) p u s role \<and> permission \<in> set (role_permissions role))
    | Inr a \<Rightarrow> \<exists>u s role. staff_acts (db w) p u s role \<and> permission \<in> set (role_permissions role) \<and>
        a = \<lparr>act_user = u, act_staff = s, act_permissions = role_permissions role\<rparr>)"
proof (cases r)
  case (Inl e)
  then show ?thesis
    using resolve_platform_actor_error [OF assms(1)] resolve_platform_actor_run [OF assms(1), of p permission] assms(2)
    by fastforce
next
  case (Inr a)
  then show ?thesis using resolve_platform_actor_run [OF assms(1), of p permission a w'] assms(2) by auto
qed

theorem platform_access_witness:
  "\<exists>a. resolve_platform_actor alice USERS_SUSPEND demo_world = (Inr a, demo_world) \<and> usr_id (act_user a) = 1"
proof -
  obtain r w' where run: "resolve_platform_actor alice USERS_SUSPEND demo_world = (r, w')"
    by (cases "resolve_platform_actor alice USERS_SUSPEND demo_world")
  have "staff_acts demo_db alice (demo_user 1 alice) (demo_staff 41 1) PLATFORM_ADMIN"
    by (simp add: staff_acts_def demo_db_def demo_rows)
  moreover have "USERS_SUSPEND \<in> set (role_permissions PLATFORM_ADMIN)" by (simp add: all_permissions_def)
  moreover note platform_access [OF _ run]
  ultimately obtain a where r: "r = Inr a" "w' = demo_world"
    by (cases r) (auto simp: demo_integrity simp del: role_permissions.simps)
  with platform_access [OF _ run] obtain u s role where "staff_acts demo_db alice u s role" "act_user a = u"
    by (auto simp: demo_integrity)
  then have "usr_id (act_user a) = 1" by (auto simp: staff_acts_def demo_db_def demo_rows)
  with run r show ?thesis by simp
qed

lemma rate_limited_run:
  assumes "require_rate_limited_platform_write_context limit permission p h w = (r, w')"
    and "leaves_db limit" and "integrity (db w)" and "permission \<in> write_permissions"
  shows "r = Inl e \<Longrightarrow> db w' = db w"
    and "r = Inr x \<Longrightarrow> \<exists>u s. staff_acts (db w) p u s PLATFORM_ADMIN"
proof -
  show "db w' = db w" if "r = Inl e"
    using assms(1) that leaves_dbD [OF assms(2)]
    unfolding require_rate_limited_platform_write_context_def bind_def
    by (auto split: prod.splits sum.splits dest!: session_begin_Inl_db)
  show "\<exists>u s. staff_acts (db w) p u s PLATFORM_ADMIN" if "r = Inr x"
  proof -
    from assms(1) that obtain w1 a w2 where l: "limit w = (Inr (), w1)"
      and a: "resolve_platform_actor p permission (w1\<lparr>in_tx := True\<rparr>) = (Inr a, w2)"
      unfolding require_rate_limited_platform_write_context_def by (auto simp: bind_Inr session_begin_Inr)
    have "db w1 = db w" using leaves_dbD [OF assms(2) l] by simp
    then have I: "integrity (db (w1\<lparr>in_tx := True\<rparr>))" using assms(3) by simp
    from a show ?thesis
      unfolding resolve_platform_actor_run [OF I] using assms(4) \<open>db w1 = db w\<close>
      by (auto simp: writers_are_admins)
  qed
qed



subsection \<open>Staff\<close>

text \<open>Suspending a staff record. When the call returns, the record is not the actor's own; an
  active one becomes suspended with the reason and one audit event, and if it was an administrator's,
  another active administrator remains; a suspended one is left alone.\<close>

theorem suspend_staff_correct:
  assumes "integrity (db w)" and "suspend_staff X sid actor reason ctx w = (Inr x, w')"
  shows "stf_id x = sid \<and> stf_user_id x \<noteq> usr_id (act_user actor) \<and> stf_status x = staff_status_value STAFF_SUSPENDED \<and>
    (w' = w \<and> x \<in> set (staff_rows (db w)) \<or>
     (\<exists>e. audit_events (db w') = audit_events (db w) @ [e] \<and> aud_action e = PLATFORM_STAFF_SUSPENDED \<and>
        aud_target_id e = Some sid \<and> aud_reason e = Some reason) \<and> stf_suspended_reason x = Some reason \<and>
     (stf_role x = staff_role_value PLATFORM_ADMIN \<longrightarrow>
        list_ex active_platform_admin (staff_rows (db w'))))"
  using assms
proof (rule suspend_staff_done)
  fix s t now e
  assume s: "s \<in> set (staff_rows (db w))" "stf_id s = sid" "stf_user_id s \<noteq> usr_id (act_user actor)"
    and other: "stf_role s = staff_role_value PLATFORM_ADMIN \<Longrightarrow>
      \<exists>a\<in>set (staff_rows (db w)). active_platform_admin a \<and> stf_id a \<noteq> sid"
    and x: "x = s\<lparr>stf_status := staff_status_value STAFF_SUSPENDED, stf_suspended_at := Some now,
        stf_suspended_reason := Some reason, stf_updated_at := t\<rparr>"
    and d: "db w' = audit_events_update (\<lambda>rows. rows @ [e]) (staff_rows_update (update_where (\<lambda>r. stf_id r = sid)
      (\<lambda>r. r\<lparr>stf_status := staff_status_value STAFF_SUSPENDED, stf_suspended_at := Some now,
        stf_suspended_reason := Some reason, stf_updated_at := t\<rparr>)) (db w))"
    and e: "says e ctx AUDIT_PLATFORM PLATFORM_STAFF_SUSPENDED TARGET_PLATFORM_STAFF (Some sid) (Some reason)
      (Some (JObj [(''target_user_id'', JStr (uuid_str (stf_user_id s))), (''role'', JStr (stf_role s))]))"
  have "list_ex active_platform_admin (staff_rows (db w'))" if "stf_role s = staff_role_value PLATFORM_ADMIN"
    using other [OF that] by (force simp: d list_ex_iff set_update_where image_iff)
  with s e show ?thesis by (auto simp: x d says_def)
qed auto

theorem suspend_staff_witness:
  "\<exists>x w'. suspend_staff demo_externals 42 \<lparr>act_user = demo_user 1 alice, act_staff = demo_staff 41 1,
       act_permissions = all_permissions\<rparr> ''left'' (demo_context 1) demo_world = (Inr x, w') \<and>
     stf_status x = ''suspended'' \<and> stf_user_id x \<noteq> 1"
proof -
  let ?a = "\<lparr>act_user = demo_user 1 alice, act_staff = demo_staff 41 1, act_permissions = all_permissions\<rparr>"
  have "returned (fst (suspend_staff demo_externals 42 ?a ''left'' (demo_context 1) demo_world))"
    by (simp add: demo_run suspend_staff_def get_staff_def staff_get_by_id_def lock_active_platform_admins_def
        active_platform_admin_def has_another_active_admin_def repo_suspend_staff_def staff_save_def)
  then obtain x w' where run: "suspend_staff demo_externals 42 ?a ''left'' (demo_context 1) demo_world = (Inr x, w')"
    by (rule returnedE)
  from suspend_staff_correct [OF _ run] run show ?thesis by (simp add: demo_integrity demo_user_def)
qed

text \<open>Changing a staff role. When the call returns, exactly that active record has the new role,
  one audit event names the old and the new role; administrators cannot demote themselves, and a
  demoted administrator leaves another active administrator behind.\<close>

theorem change_role_correct:
  assumes "integrity (db w)" and "change_role X sid actor role reason ctx w = (Inr x, w')"
  shows "\<exists>s e t. s \<in> set (staff_rows (db w)) \<and> stf_id s = sid \<and> stf_status s = staff_status_value STAFF_ACTIVE \<and>
    x = s\<lparr>stf_role := staff_role_value role, stf_updated_at := t\<rparr> \<and> stf_role s \<noteq> staff_role_value role \<and>
    (stf_role s = staff_role_value PLATFORM_ADMIN \<longrightarrow> stf_user_id s \<noteq> usr_id (act_user actor) \<and>
      list_ex active_platform_admin (staff_rows (db w'))) \<and>
    audit_events (db w') = audit_events (db w) @ [e] \<and>
    aud_metadata_json e = Some (JObj [(''old_role'', JStr (stf_role s)), (''new_role'', JStr (staff_role_value role)),
      (''target_user_id'', JStr (uuid_str (stf_user_id s)))])"
proof (rule change_role_done [OF assms])
  fix s t e
  assume s: "s \<in> set (staff_rows (db w))" "stf_id s = sid" "stf_status s = staff_status_value STAFF_ACTIVE"
      "stf_role s \<noteq> staff_role_value role"
    and own: "stf_role s = staff_role_value PLATFORM_ADMIN \<Longrightarrow> stf_user_id s \<noteq> usr_id (act_user actor) \<and>
        (\<exists>a\<in>set (staff_rows (db w)). active_platform_admin a \<and> stf_id a \<noteq> sid)"
    and x: "x = s\<lparr>stf_role := staff_role_value role, stf_updated_at := t\<rparr>"
    and d: "db w' = audit_events_update (\<lambda>rows. rows @ [e]) (staff_rows_update (update_where (\<lambda>r. stf_id r = sid)
      (\<lambda>r. r\<lparr>stf_role := staff_role_value role, stf_updated_at := t\<rparr>)) (db w))"
    and e: "says e ctx AUDIT_PLATFORM PLATFORM_STAFF_ROLE_CHANGED TARGET_PLATFORM_STAFF (Some sid) (Some reason)
      (Some (JObj [(''old_role'', JStr (stf_role s)), (''new_role'', JStr (staff_role_value role)),
                    (''target_user_id'', JStr (uuid_str (stf_user_id s)))]))"
  have "list_ex active_platform_admin (staff_rows (db w'))" if "stf_role s = staff_role_value PLATFORM_ADMIN"
    using own [OF that] by (force simp: d list_ex_iff set_update_where image_iff)
  moreover have "audit_events (db w') = audit_events (db w) @ [e]" by (simp add: d)
  moreover have "aud_metadata_json e = Some (JObj [(''old_role'', JStr (stf_role s)),
      (''new_role'', JStr (staff_role_value role)), (''target_user_id'', JStr (uuid_str (stf_user_id s)))])"
    using e by (simp add: says_def)
  ultimately show ?thesis using s own x by blast
qed

theorem change_role_witness:
  "\<exists>x w'. change_role demo_externals 42 \<lparr>act_user = demo_user 1 alice, act_staff = demo_staff 41 1,
       act_permissions = all_permissions\<rparr> SUPPORT_AGENT ''left'' (demo_context 1) demo_world = (Inr x, w') \<and>
     stf_role x = ''support_agent'' \<and> list_ex active_platform_admin (staff_rows (db w'))"
proof -
  let ?a = "\<lparr>act_user = demo_user 1 alice, act_staff = demo_staff 41 1, act_permissions = all_permissions\<rparr>"
  have "returned (fst (change_role demo_externals 42 ?a SUPPORT_AGENT ''left'' (demo_context 1) demo_world))"
    by (simp add: demo_run change_role_def get_staff_def staff_get_by_id_def lock_active_platform_admins_def
        active_platform_admin_def has_another_active_admin_def staff_update_role_def staff_save_def)
  then obtain x w' where run: "change_role demo_externals 42 ?a SUPPORT_AGENT ''left'' (demo_context 1) demo_world = (Inr x, w')"
    by (rule returnedE)
  from change_role_correct [OF _ run] obtain s :: platform_staff and t where s: "s \<in> set (staff_rows demo_db)" "stf_id s = 42"
    and x: "x = s\<lparr>stf_role := staff_role_value SUPPORT_AGENT, stf_updated_at := t\<rparr>"
    and adm: "stf_role s = staff_role_value PLATFORM_ADMIN \<longrightarrow> list_ex active_platform_admin (staff_rows (db w'))"
    by (auto simp: demo_integrity)
  have "stf_role s = staff_role_value PLATFORM_ADMIN" using s by (auto simp: demo_db_def demo_staff_def)
  with run x adm show ?thesis by simp
qed

subsection \<open>Users\<close>

text \<open>Suspending a user. When the call returns, the account is not the actor's own; an active
  account becomes suspended with the reason and one audit event; a suspended one is left alone. From
  then on the user's requests are refused by every check of the account.\<close>

theorem suspend_user_correct:
  assumes "integrity (db w)" and "suspend_user X uid actor reason ctx w = (Inr x, w')"
  shows "uid \<noteq> usr_id (act_user actor) \<and> usr_id x = uid \<and> usr_status x = USER_SUSPENDED \<and>
    actor_problem (db w') uid = Some (ForbiddenError ''User is suspended'') \<and>
    (w' = w \<or> usr_suspended_reason x = Some reason \<and>
      (\<exists>e. audit_events (db w') = audit_events (db w) @ [e] \<and> aud_action e = USER_SUSPENDED_ACTION \<and>
        aud_target_id e = Some uid \<and> aud_reason e = Some reason))"
proof -
  have problem: "actor_problem d uid = Some (ForbiddenError ''User is suspended'')"
    if "integrity d" "u \<in> set (users d)" "usr_id u = uid" "usr_status u = USER_SUSPENDED" for d u
    using users_table.find_by_key [OF that(1,2)] that(3,4) by (simp add: actor_problem_def find_row_def)
  show ?thesis
    using assms
  proof (rule suspend_user_done)
    assume "x \<in> set (users (db w))" "usr_id x = uid" "uid \<noteq> usr_id (act_user actor)" "usr_status x = USER_SUSPENDED" "w' = w"
    then show ?thesis using problem [OF assms(1)] by simp
  next
    fix u t now e
    assume u: "u \<in> set (users (db w))" "usr_id u = uid" "uid \<noteq> usr_id (act_user actor)"
      and x: "x = u\<lparr>usr_status := USER_SUSPENDED, usr_suspended_at := Some now,
        usr_suspended_reason := Some reason, usr_updated_at := t\<rparr>"
      and d: "db w' = audit_events_update (\<lambda>rows. rows @ [e]) (users_update (update_where (\<lambda>r. usr_id r = uid)
      (\<lambda>r. r\<lparr>usr_status := USER_SUSPENDED, usr_suspended_at := Some now,
        usr_suspended_reason := Some reason, usr_updated_at := t\<rparr>)) (db w))"
      and e: "says e ctx AUDIT_PLATFORM USER_SUSPENDED_ACTION TARGET_USER (Some uid) (Some reason) None"
      and I: "integrity (db w')"
    have "x \<in> set (users (db w'))" using u(1,2) by (force simp: d x set_update_where)
    then have "actor_problem (db w') uid = Some (ForbiddenError ''User is suspended'')"
      by (rule problem [OF I]) (simp_all add: x u)
    with u e show ?thesis by (simp add: x d says_def)
  qed
qed

theorem suspend_user_witness:
  "\<exists>x w'. suspend_user demo_externals 2 \<lparr>act_user = demo_user 1 alice, act_staff = demo_staff 41 1,
       act_permissions = all_permissions\<rparr> ''other'' (demo_context 1) demo_world = (Inr x, w') \<and>
     actor_problem (db w') 2 = Some (ForbiddenError ''User is suspended'')"
proof -
  let ?a = "\<lparr>act_user = demo_user 1 alice, act_staff = demo_staff 41 1, act_permissions = all_permissions\<rparr>"
  have "returned (fst (suspend_user demo_externals 2 ?a ''other'' (demo_context 1) demo_world))"
    by (simp add: demo_run validate_metadata_json_def suspend_user_def get_platform_user_def user_set_status_def user_save_def)
  then obtain x w' where run: "suspend_user demo_externals 2 ?a ''other'' (demo_context 1) demo_world = (Inr x, w')"
    by (rule returnedE)
  from suspend_user_correct [OF _ run] run show ?thesis by (simp add: demo_integrity)
qed

subsection \<open>Limited listings\<close>

lemma insort_key_map: "insort_key k (h x) (map h xs) = map h (insort_key (\<lambda>y. k (h y)) x xs)"
  by (induction xs) auto

lemma sort_key_of_map: "sort_key k (map h xs) = map h (sort_key (\<lambda>y. k (h y)) xs)"
  by (induction xs) (simp_all add: insort_key_map)

lemma permission_same:
  assumes "users (db w2) = map h (users (db w1))" and "staff_rows (db w2) = staff_rows (db w1)"
    and h: "\<And>u. external_auth_id (h u) = external_auth_id u" "\<And>u. usr_id (h u) = usr_id u" "\<And>u. usr_status (h u) = usr_status u"
  obtains e where "require_platform_permission permission p w1 = (Inl e, w1)" "require_platform_permission permission p w2 = (Inl e, w2)"
  | a a' where "require_platform_permission permission p w1 = (Inr a, w1)" "require_platform_permission permission p w2 = (Inr a', w2)"
proof -
  have rows: "filter (\<lambda>u. external_auth_id u = x) (users (db w2)) = map h (filter (\<lambda>u. external_auth_id u = x) (users (db w1)))" for x
    by (simp add: assms(1) filter_map comp_def h)
  have "(\<exists>e. require_platform_permission permission p w1 = (Inl e, w1) \<and> require_platform_permission permission p w2 = (Inl e, w2)) \<or>
    (\<exists>a a'. require_platform_permission permission p w1 = (Inr a, w1) \<and> require_platform_permission permission p w2 = (Inr a', w2))"
    unfolding require_platform_permission_def resolve_platform_actor_def resolve_active_platform_actor_def
      get_current_user_by_external_auth_id_def user_get_by_external_auth_id_def staff_get_by_user_id_def
    by (simp add: bind_def query_def gets_def scalar_one_or_none_def rows assms(2) h ret_def raise_def access_denied_def
        split: list.splits option.splits if_splits)
  then show thesis using that by blast
qed

text \<open>C37: The limited user listing does not depend on e-mail addresses: if two databases differ
  only in the users' e-mail addresses and their verification, the response is the same, to whoever
  asks and whatever the search text.\<close>

theorem limited_users_hide_email:
  assumes "users (db w2) = map (\<lambda>u. u\<lparr>usr_email := f u, email_verified := g u\<rparr>) (users (db w1))"
    and "staff_rows (db w2) = staff_rows (db w1)"
  shows "fst (api_list_limited_platform_users (ret ()) p l n status s w2) =
    fst (api_list_limited_platform_users (ret ()) p l n status s w1)"
proof -
  let ?h = "\<lambda>u. u\<lparr>usr_email := f u, email_verified := g u\<rparr>"
  have "user_limited_list_conditions st q (?h u) = user_limited_list_conditions st q u" for st q u
    by (simp add: user_limited_list_conditions_def eq_filter_def text_filter_def split: option.splits)
  then have rows: "filter (user_limited_list_conditions st q) (users (db w2)) =
      map ?h (filter (user_limited_list_conditions st q) (users (db w1)))" for st q
    by (simp add: assms(1) filter_map comp_def)
  have paged: "page l n (newest_first usr_created_at usr_id (map ?h xs)) = map ?h (page l n (newest_first usr_created_at usr_id xs))" for xs
    by (simp add: page_def newest_first_def sort_key_of_map take_map drop_map rev_map)
  have resp: "limited_user_response (?h u) = limited_user_response u" for u
    by (simp add: limited_user_response_def)
  have body: "fst (bind (validate_search l s) (\<lambda>_. bind (list_limited_users l n status s) (\<lambda>(rows, total).
      ret (map limited_user_response rows, total))) w2) =
    fst (bind (validate_search l s) (\<lambda>_. bind (list_limited_users l n status s) (\<lambda>(rows, total).
      ret (map limited_user_response rows, total))) w1)"
    by (simp add: validate_search_def validate_pagination_def list_limited_users_def user_list_limited_paginated_def
        bind_def ensure_def query_def gets_def ret_def rows paged resp comp_def split: option.splits)
  show ?thesis
    by (rule permission_same [OF assms, of USERS_READ_LIMITED p])
       (simp_all add: api_list_limited_platform_users_def body bind_step)
qed

theorem limited_users_hide_email_witness:
  "fst (api_list_limited_platform_users (ret ()) alice 10 0 None (Some ''Bob'')
      (demo_world\<lparr>db := users_update (map (\<lambda>u. u\<lparr>usr_email := Some ''hidden'', email_verified := False\<rparr>)) demo_db\<rparr>)) =
   fst (api_list_limited_platform_users (ret ()) alice 10 0 None (Some ''Bob'') demo_world)"
  by (rule limited_users_hide_email [where f = "\<lambda>_. Some ''hidden''" and g = "\<lambda>_. False"]) simp_all

end
