(* ===== verification/Audit_Theorems.thy ===== *)
theory Audit_Theorems
  imports Demo
begin

section \<open>Audit log, retention, listings and reasons\<close>

text \<open>
  What the audit log keeps of a request, which events a run of the retention job empties and why
  later runs may never reach the others, that pages cover a listing, and that free text never becomes a reason.
\<close>

subsection \<open>Recording\<close>


definition visited :: audit_context where
  "visited = \<lparr>ctx_actor_user_id = Some 1, ctx_ip_address = Some ''203.0.113.77'',
     ctx_user_agent = Some ''Mozilla/5.0 Firefox/128.0'', ctx_network_identifier_secret = None\<rparr>"


text \<open>The loop over the stack of pending values that looks for forbidden metadata keys finds one
  exactly if a forbidden key occurs somewhere in the value.\<close>

theorem forbidden_keys_found: "visits_forbidden_key [v] \<longleftrightarrow> mentions_forbidden_key v"
  by (simp add: visits_forbidden_key_iff)


subsection \<open>Retention\<close>

lemma anonymise_exact:
  assumes I: "integrity (db w)" and run: "anonymise_events_older_than c b n k w = (r, w')"
    and batch: "batch = take k (sort_key aud_created_at (sort_key aud_id (filter (anonymisable c b n) (audit_events (db w)))))"
  shows "r = Inr (length batch)" and "integrity (db w')"
    and "audit_events (db w') = map (\<lambda>e. if e \<in> set batch then anonymised e else e) (audit_events (db w))"
proof -
  from I run obtain ids where ids: "ids = anonymisation_batch c b n k (db w)"
    and r: "r = Inr (min k (length (eligible c b n (db w))))"
    and d: "db w' = audit_events_update
      (update_where (\<lambda>e. List.member ids (aud_id e) \<and> anonymisable c b n e) anonymised) (db w)" and I': "integrity (db w')"
    by (rule anonymise_run)
  have sub: "set batch \<subseteq> set (eligible c b n (db w))"
    unfolding batch by (rule subset_trans [OF set_take_subset]) simp
  have hit: "(List.member ids (aud_id e) \<and> anonymisable c b n e) \<longleftrightarrow> e \<in> set batch" if "e \<in> set (audit_events (db w))" for e
  proof
    assume "List.member ids (aud_id e) \<and> anonymisable c b n e"
    then obtain x where "x \<in> set batch" "aud_id x = aud_id e"
      unfolding ids anonymisation_batch_def batch by auto
    moreover from this sub have "x \<in> set (audit_events (db w))" by auto
    ultimately show "e \<in> set batch" using audit_table.same_key_same_row [OF I _ that] by auto
  qed (use sub in \<open>auto simp: ids anonymisation_batch_def batch\<close>)
  show "r = Inr (length batch)" using r by (simp add: batch min.commute)
  show "audit_events (db w') = map (\<lambda>e. if e \<in> set batch then anonymised e else e) (audit_events (db w))"
    using hit by (simp add: d update_where_def)
  show "integrity (db w')" by (rule I')
qed

text \<open>Retention is exact. One run over a category empties the personal fields of the oldest events
  that its query selects, as many as the batch allows, and reports their number; every other event
  is unchanged.\<close>

theorem retention_exact:
  assumes "integrity (db w)" and "anonymise_events_older_than c b n k w = (r, w')"
    and batch: "batch = take k (sort_key aud_created_at (sort_key aud_id (filter (\<lambda>e. past_retention c b n e \<and>
      (aud_actor_user_id e \<noteq> None \<or> aud_reason e \<noteq> None \<or> aud_metadata_json e \<noteq> None \<or>
       aud_ip_address e \<noteq> None \<or> aud_user_agent e \<noteq> None)) (audit_events (db w)))))"
  shows "r = Inr (length batch) \<and>
    audit_events (db w') = map (\<lambda>e. if e \<in> set batch
      then e\<lparr>aud_actor_user_id := None, aud_reason := None, aud_metadata_json := Some JNull,
        aud_ip_address := None, aud_user_agent := None\<rparr> else e) (audit_events (db w))"
proof -
  have "anonymisable c b n = (\<lambda>e. past_retention c b n e \<and> (aud_actor_user_id e \<noteq> None \<or> aud_reason e \<noteq> None \<or>
      aud_metadata_json e \<noteq> None \<or> aud_ip_address e \<noteq> None \<or> aud_user_agent e \<noteq> None))"
    by (rule ext) (auto simp: anonymisable_def past_retention_def split: option.splits)
  with anonymise_exact [OF assms(1,2) refl] batch show ?thesis by (simp add: anonymised_def)
qed

definition logged :: "uuid \<Rightarrow> audit_event" where
  "logged i = \<lparr>aud_id = i, aud_actor_user_id = Some 1, aud_category = AUDIT_TENANT, aud_action = ORGANISATION_UPDATED,
     aud_target_type = TARGET_ORGANISATION, aud_target_id = Some 10, aud_reason = None, aud_metadata_json = Some JNull,
     aud_ip_address = Some ''203.0.113.0/24'', aud_user_agent = None, aud_legal_hold_until = None, aud_created_at = 5\<rparr>"

definition logged_world :: "audit_event list \<Rightarrow> world" where
  "logged_world es = demo_world\<lparr>db := audit_events_update (\<lambda>_. es) demo_db\<rparr>"

lemma logged_integrity:
  "distinct (map aud_id es) \<Longrightarrow> \<forall>e\<in>set es. aud_actor_user_id e = Some 1 \<Longrightarrow> integrity (db (logged_world es))"
  by (auto simp: logged_world_def demo_db_def demo_rows demo_constraints fk_user_def list_all_iff)

theorem retention_exact_witness:
  "\<exists>w'. anonymise_events_older_than AUDIT_TENANT 10 0 3 (logged_world [logged 61]) = (Inr 1, w') \<and>
     map aud_actor_user_id (audit_events (db w')) = [None]"
proof -
  obtain r w' where run: "anonymise_events_older_than AUDIT_TENANT 10 0 3 (logged_world [logged 61]) = (r, w')"
    by (cases "anonymise_events_older_than AUDIT_TENANT 10 0 3 (logged_world [logged 61])")
  have "integrity (db (logged_world [logged 61]))" by (rule logged_integrity) (simp_all add: logged_def)
  from retention_exact [OF this run refl] run show ?thesis
    by (simp add: logged_world_def logged_def past_retention_def)
qed

text \<open>Rounds of the job, each with the cut-off and the time of its run.\<close>

definition retention_round :: "audit_category \<Rightarrow> nat \<Rightarrow> int \<times> int \<Rightarrow> unit app" where
  "retention_round category k bn = discard (session_begin (anonymise_events_older_than category (fst bn) (snd bn) k))"

text \<open>An element among the first \<open>k\<close> of a sorted list has fewer than \<open>k\<close> smaller ones.\<close>

lemma few_smaller:
  assumes "sorted_wrt R xs" and "\<And>x y. R x y \<Longrightarrow> \<not> q y x" and "e \<in> set (take k xs)" and "\<not> q e e"
  shows "length (filter (\<lambda>x. q x e) xs) < k"
proof -
  from assms(3) obtain i where i: "i < length (take k xs)" "take k xs ! i = e" by (metis in_set_conv_nth)
  then have ik: "i < k" "i < length xs" "xs ! i = e" by simp_all
  then have split: "xs = take i xs @ e # drop (Suc i) xs" by (metis id_take_nth_drop)
  have "\<not> q y e" if "y \<in> set (drop (Suc i) xs)" for y
    using assms(1,2) that by (subst (asm) split) (auto simp: sorted_wrt_append)
  then have "filter (\<lambda>x. q x e) xs = filter (\<lambda>x. q x e) (take i xs)"
    using assms(4) by (subst split) (auto simp: filter_empty_conv)
  then have "length (filter (\<lambda>x. q x e) xs) \<le> i"
    by (metis length_filter_le length_take min.absorb2 ik(2) less_imp_le_nat)
  with ik(1) show ?thesis by simp
qed

lemma insort_key_lex:
  fixes f :: "'a \<Rightarrow> 'b::linorder" and g :: "'a \<Rightarrow> 'c::linorder"
  assumes "sorted_wrt (\<lambda>x y. f x < f y \<or> f x = f y \<and> g x \<le> g y) zs" and "\<forall>z\<in>set zs. g y \<le> g z"
  shows "sorted_wrt (\<lambda>x y. f x < f y \<or> f x = f y \<and> g x \<le> g y) (insort_key f y zs)"
  using assms by (induction zs) (auto simp: set_insort_key)

lemma sort_key_lex:
  fixes f :: "'a \<Rightarrow> 'b::linorder" and g :: "'a \<Rightarrow> 'c::linorder"
  shows "sorted_wrt (\<lambda>x y. f x < f y \<or> f x = f y \<and> g x \<le> g y) (sort_key f (sort_key g xs))"
proof -
  have "sorted_wrt (\<lambda>x y. f x < f y \<or> f x = f y \<and> g x \<le> g y) (sort_key f ys)" if "sorted (map g ys)" for ys
    using that by (induction ys) (auto intro!: insort_key_lex)
  then show ?thesis by (simp add: sorted_sort_key)
qed

text \<open>The order in which the job takes events.\<close>

definition older :: "audit_event \<Rightarrow> audit_event \<Rightarrow> bool" where
  "older x e \<longleftrightarrow> aud_created_at x < aud_created_at e \<or> aud_created_at x = aud_created_at e \<and> aud_id x < aud_id e"

lemma not_in_batch:
  assumes "k \<le> length (filter (\<lambda>x. anonymisable c b n x \<and> older x e) es)"
  shows "e \<notin> set (take k (sort_key aud_created_at (sort_key aud_id (filter (anonymisable c b n) es))))"
proof
  let ?s = "sort_key aud_created_at (sort_key aud_id (filter (anonymisable c b n) es))"
  assume mem: "e \<in> set (take k ?s)"
  have "length (filter (\<lambda>x. older x e) ?s) < k"
    by (rule few_smaller [OF sort_key_lex _ mem]) (auto simp: older_def)
  moreover have "length (filter (\<lambda>x. older x e) ?s) = length (filter (\<lambda>x. anonymisable c b n x \<and> older x e) es)"
    by (metis (no_types, lifting) filter_filter filter_sort length_sort filter_cong conj_commute)
  ultimately show False using assms by simp
qed

text \<open>At least \<open>k\<close> events stand before \<open>e\<close> in every batch from now on.\<close>

definition stuck_behind :: "audit_category \<Rightarrow> int \<Rightarrow> int \<Rightarrow> nat \<Rightarrow> audit_event \<Rightarrow> db \<Rightarrow> bool" where
  "stuck_behind c b n k e d \<longleftrightarrow> e \<in> set (audit_events d) \<and>
     k \<le> length (filter (\<lambda>x. past_retention c b n x \<and> aud_metadata_json x \<noteq> None \<and> older x e) (audit_events d))"

lemma length_filter_map_mono: "(\<And>x. p x \<Longrightarrow> p (f x)) \<Longrightarrow> length (filter p xs) \<le> length (filter p (map f xs))"
  by (induction xs) auto

lemma length_filter_mono: "(\<And>x. p x \<Longrightarrow> q x) \<Longrightarrow> length (filter p xs) \<le> length (filter q xs)"
  by (induction xs) auto

lemma retention_round_stuck:
  assumes "integrity (db w)" and "\<not> in_tx w" and stuck: "stuck_behind c b n k e (db w)" and "b \<le> fst bn" "n \<le> snd bn"
  shows "integrity (db (snd (retention_round c k bn w))) \<and> \<not> in_tx (snd (retention_round c k bn w)) \<and>
    stuck_behind c b n k e (db (snd (retention_round c k bn w)))"
proof -
  let ?w = "w\<lparr>in_tx := True\<rparr>" and ?b = "fst bn" and ?n = "snd bn"
  let ?P = "\<lambda>x. past_retention c b n x \<and> aud_metadata_json x \<noteq> None \<and> older x e"
  let ?batch = "take k (sort_key aud_created_at (sort_key aud_id (filter (anonymisable c ?b ?n) (audit_events (db ?w)))))"
  obtain r w1 where run: "anonymise_events_older_than c ?b ?n k ?w = (r, w1)" by (cases "anonymise_events_older_than c ?b ?n k ?w")
  have I: "integrity (db ?w)" using assms by simp
  note exact = anonymise_exact [OF I run refl]
  have out: "snd (retention_round c k bn w) = w1\<lparr>in_tx := False\<rparr>"
    using assms(2) run exact(1) by (simp add: retention_round_def discard_def session_begin_def bind_def ret_def)
  have "length (filter ?P (audit_events (db w))) \<le> length (filter (\<lambda>x. anonymisable c ?b ?n x \<and> older x e) (audit_events (db w)))"
    by (rule length_filter_mono) (auto intro: past_anonymisable past_mono assms(4,5))
  with stuck have "e \<notin> set ?batch" by (intro not_in_batch) (simp add: stuck_behind_def)
  with stuck have "e \<in> set (audit_events (db w1))"
    by (auto simp: stuck_behind_def exact(3) intro!: image_eqI [of _ _ e])
  moreover have "length (filter ?P (audit_events (db ?w))) \<le> length (filter ?P (audit_events (db w1)))"
    unfolding exact(3) by (rule length_filter_map_mono) (auto simp: older_def anonymised_def past_retention_def)
  ultimately show ?thesis using stuck exact(2) by (simp add: out stuck_behind_def)
qed

text \<open>C40: Retention starves. An event that has at least a batch of events before it, which are past
  their retention period and have a metadata column that is not SQL's \<open>NULL\<close> (every event the
  application records has one), is never emptied, however often the job runs later: emptying an
  event leaves JSON's \<open>null\<close> in that column, so that the same events are selected each time.\<close>

theorem retention_starves:
  assumes "integrity (db w)" and "\<not> in_tx w" and "e \<in> set (audit_events (db w))"
    and "k \<le> length (filter (\<lambda>x. past_retention c b n x \<and> aud_metadata_json x \<noteq> None \<and> older x e) (audit_events (db w)))"
    and "\<forall>(b', n')\<in>set rounds. b \<le> b' \<and> n \<le> n'"
  shows "e \<in> set (audit_events (db (serve_all (retention_round c k) rounds w)))"
proof -
  have "stuck_behind c b n k e (db w)" using assms(3,4) by (simp add: stuck_behind_def)
  then have "stuck_behind c b n k e (db (serve_all (retention_round c k) rounds w))"
    using assms(1,2,5)
  proof (induction rounds arbitrary: w)
    case (Cons bn rounds)
    then have "b \<le> fst bn" "n \<le> snd bn" by (auto split: prod.splits)
    from retention_round_stuck [OF Cons.prems(2,3,1) this] Cons show ?case by simp
  qed simp
  then show ?thesis by (simp add: stuck_behind_def)
qed

theorem retention_starves_witness:
  "logged 62 \<in> set (audit_events (db (serve_all (retention_round AUDIT_TENANT 1) (replicate 7 (10, 0))
     (logged_world [logged 61, logged 62])))) \<and> aud_actor_user_id (logged 62) = Some 1"
proof -
  let ?w = "logged_world [logged 61, logged 62]"
  have "integrity (db ?w)" by (rule logged_integrity) (simp_all add: logged_def)
  moreover have "\<not> in_tx ?w" "logged 62 \<in> set (audit_events (db ?w))" by (simp_all add: logged_world_def)
  moreover have "1 \<le> length (filter (\<lambda>x. past_retention AUDIT_TENANT 10 0 x \<and> aud_metadata_json x \<noteq> None \<and> older x (logged 62))
      (audit_events (db ?w)))" by (simp add: logged_world_def logged_def past_retention_def older_def)
  ultimately show ?thesis using retention_starves [where c = AUDIT_TENANT and b = 10 and n = 0 and k = 1 and w = ?w and
      e = "logged 62" and rounds = "replicate 7 (10, 0)"] by (simp add: logged_def)
qed

subsection \<open>Listings\<close>

text \<open>Reading the user listing page by page gives every matching user, and each one once,
  from the newest to the oldest; every page reports the number of matching users.\<close>

theorem user_pages_cover:
  assumes "integrity (db w)" and "length (filter (user_list_conditions status q) (users (db w))) \<le> k * l"
  shows "\<exists>pages. map (\<lambda>i. fst (user_list_paginated l (i * l) status q w)) [0..<k] =
      map (\<lambda>p. Inr (p, length (filter (user_list_conditions status q) (users (db w))))) pages \<and>
    set (concat pages) = {u \<in> set (users (db w)). user_list_conditions status q u} \<and> distinct (concat pages) \<and>
    sorted (rev (map (\<lambda>u. (usr_created_at u, usr_id u)) (concat pages)))"
proof -
  let ?rows = "filter (user_list_conditions status q) (users (db w))"
  let ?all = "newest_first usr_created_at usr_id ?rows"
  let ?pages = "map (\<lambda>i. page l (i * l) ?all) [0..<k]"
  have "concat ?pages = ?all" using assms(2) by (simp add: pages_cover)
  moreover have "distinct (users (db w))" using integrityD [OF assms(1)] by (simp add: distinct_map)
  then have "distinct ?all" by (simp add: newest_first_def)
  moreover have "fst (user_list_paginated l (i * l) status q w) = Inr (page l (i * l) ?all, length ?rows)" for i
    by (simp add: user_list_paginated_def bind_def query_def gets_def ret_def)
  ultimately show ?thesis using newest_first_sorted [of usr_created_at usr_id ?rows]
    by (intro exI [of _ ?pages]) simp
qed

theorem user_pages_cover_witness:
  "\<exists>pages. map (\<lambda>i. fst (user_list_paginated 2 (i * 2) None None demo_world)) [0..<2] = map (\<lambda>p. Inr (p, 3)) pages \<and>
    set (concat pages) = set (users demo_db)"
proof -
  have c: "user_list_conditions None None u" for u by (simp add: user_list_conditions_def eq_filter_def text_filter_def)
  have "length (users demo_db) = 3" by (simp add: demo_db_def)
  with user_pages_cover [of demo_world None None 2 2] demo_integrity show ?thesis by (auto simp: c)
qed

subsection \<open>Reasons\<close>

lemma map_of_overwrite: "map_of (map (\<lambda>kv. if fst kv = k then (k, x) else kv) xs) k = map_option (\<lambda>_. x) (map_of xs k)"
  by (induction xs) auto

lemma reason_code_value_eq [simp]: "reason_code_value c = reason_code_value c' \<longleftrightarrow> c = c'"
  by (metis option.inject reason_code_of_value)

text \<open>C39: Free text never becomes a reason: when the body of a suspension or a revocation is accepted
  with a reason, the text the client gave as its reason, or as its code when it gave both, is one of
  the codes of the enumeration, up to surrounding blanks.\<close>

theorem reasons_are_codes:
  assumes "reason_request required data = Inr (Some c)"
  shows "\<exists>s. (map_of data ''reason_code'' = Some (JStr s) \<and> s = reason_code_value c) \<or>
    (map_of data ''reason'' = Some (JStr s) \<and> strip s = reason_code_value c)"
proof -
  obtain body where body: "normalise_legacy_reason_payload data required = Inr body"
    and "map_of body ''reason_code'' = Some (JStr (reason_code_value c))"
    using assms by (auto simp: reason_request_def split: if_splits option.splits json.splits dest!: reason_code_ofD)
  moreover have "map_of (filter (\<lambda>kv. fst kv \<noteq> ''reason'') data) ''reason_code'' = map_of data ''reason_code''"
    by (induction data) auto
  ultimately show ?thesis
    by (auto simp: normalise_legacy_reason_payload_def Let_def map_add_def map_of_overwrite elim!: legacy_reason_is_code
      split: option.splits if_splits)
qed

theorem reasons_are_codes_witness:
  "\<exists>s. map_of [(''reason'', JStr '' user_request '')] ''reason'' = Some (JStr s) \<and> strip s = reason_code_value USER_REQUEST"
proof -
  have "reason_request True [(''reason'', JStr '' user_request '')] = Inr (Some USER_REQUEST)" by code_simp
  from reasons_are_codes [OF this] show ?thesis by simp
qed

end
