(* ===== verification/Erasure_Theorems.thy ===== *)
theory Erasure_Theorems
  imports Erasure_Effects Demo
begin

section \<open>What an erasure leaves\<close>

text \<open>
  What is left of a person after a completed erasure, that a failed one changes only the state of
  the request, and who may run one.
\<close>

subsection \<open>A completed erasure\<close>

text \<open>For the witnesses: an approved request of Bob for the erasure of his data.\<close>

definition demo_request :: "uuid \<Rightarrow> dsr_type \<Rightarrow> dsr_status \<Rightarrow> uuid \<Rightarrow> data_subject_request" where
  "demo_request i rtype status u =
     submitted_request rtype u \<lparr>rpv_subject = u, rpv_role = REQUESTER_SELF, rpv_status = REP_NOT_REQUIRED,
       rpv_relationship = None, rpv_note = None\<rparr> (Some ''please'') 0 None None i 0 0\<lparr>dsr_status := status\<rparr>"

text \<open>The database of the witnesses at each step, with Bob and his request as given.\<close>

definition erasure_db :: "user \<Rightarrow> data_subject_request \<Rightarrow> db" where
  "erasure_db x r = empty_db\<lparr>users := [demo_user 1 alice, x], staff_rows := [demo_staff 41 1],
     privacy := no_privacy_rows\<lparr>requests := [r]\<rparr>\<rparr>"

definition erasure_world :: world where
  "erasure_world = demo_start\<lparr>db := erasure_db (demo_user 2 bob) (demo_request 61 DSR_ERASE DSR_APPROVED 2)\<rparr>"

lemma erasure_db_tables [simp]:
  "users (erasure_db x r) = [demo_user 1 alice, x]" "staff_rows (erasure_db x r) = [demo_staff 41 1]"
  "audit_events (erasure_db x r) = []" "outbox_events (erasure_db x r) = []" "invites (erasure_db x r) = []"
  "memberships (erasure_db x r) = []" "organisations (erasure_db x r) = []"
  "privacy (erasure_db x r) = no_privacy_rows\<lparr>requests := [r]\<rparr>"
  by (simp_all add: erasure_db_def empty_db_def)

lemma erasure_db_integrity [simp]:
  assumes "usr_id x = 2" "external_auth_id x \<noteq> ''a''" "dsr_requester r \<in> {None, Some 2}" "dsr_subject r \<in> {None, Some 2}"
    "dsr_reviewer r = None" "dsr_representative_verified_by r = None"
  shows "integrity (erasure_db x r)"
  using assms
  by (auto simp: erasure_db_def empty_db_def no_privacy_rows_def demo_rows demo_constraints privacy_tables_ok_def privacy_user_refs_def)

lemma erasure_world_providers:
  assumes w: "db w = erasure_db x p" and x: "usr_id x = 2"
    and p: "dsr_request_type p = DSR_ERASE" "dsr_status p = DSR_APPROVED" "dsr_subject p = Some 2"
  shows "\<exists>y. minimise_audit_events_for_erasure p now w = (Inr y, w)" (is ?audit)
    "\<exists>y. scrub_outbox_for_erasure p m [] w = (Inr y, w)" (is ?outbox)
    "\<exists>y. anonymise_invites_for_erasure p m now w = (Inr y, w)" (is ?invites)
    "\<exists>y. apply_membership_erasure_policy p 2 w = (Inr y, w)" (is ?memberships)
    "\<exists>y. apply_organisation_erasure_policy p 2 w = (Inr y, w)" (is ?organisations)
    "\<exists>y. minimise_platform_staff_for_erasure p 2 w = (Inr y, w)" (is ?staff)
    "\<exists>y. minimise_export_artifacts_for_erasure p 2 w = (Inr y, w)" (is ?artifacts)
    "\<exists>y. minimise_privacy_governance_for_erasure p 2 w = (Inr y, w)" (is ?governance)
    "validate_request_and_get_subject a p w = (Inr x, w)" (is ?subject)
    "build_snapshot p w = (Inr (normalise_optional_email (usr_email x), []), w)" (is ?snapshot)
proof -
  have u: "user_get_by_id 2 w = (Inr (Some x), w)"
    using w x by (simp add: user_get_by_id_def query_def gets_def bind_def scalar_one_or_none_def ret_def demo_user_def)
  have subject: "validate_request_and_get_subject a p w = (Inr x, w)" for a
    using p u by (simp add: validate_request_and_get_subject_def validate_erasure_request_def bind_def ensure_def ret_def)
  note steps = subject w p bind_def query_def gets_def ret_def ensure_def Let_def oldest_first_def
    validate_remaining_def validate_erasure_request_def
  show ?subject by (rule subject)
  show ?audit by (simp add: minimise_audit_events_for_erasure_def build_target_snapshot_def lock_subject_audit_events_def steps)
  show ?outbox by (simp add: scrub_outbox_for_erasure_def lock_subject_outbox_events_def steps)
  show ?invites by (simp add: anonymise_invites_for_erasure_def lock_subject_invites_def steps)
  show ?memberships by (simp add: apply_membership_erasure_policy_def steps)
  show ?organisations by (simp add: apply_organisation_erasure_policy_def steps)
  show ?staff by (simp add: minimise_platform_staff_for_erasure_def steps staff_refers_to_def demo_staff_def)
  show ?artifacts by (simp add: minimise_export_artifacts_for_erasure_def steps no_privacy_rows_def)
  show ?governance by (simp add: minimise_privacy_governance_for_erasure_def steps no_privacy_rows_def)
  show ?snapshot by (simp add: build_snapshot_def erasure_subject_user_id_def lock_subject_def u steps)
qed

lemma erasure_db_updates:
  "usr_id x' = 2 \<Longrightarrow> usr_id x = 2 \<Longrightarrow> users_update (replace_rows usr_id [x']) (erasure_db x p) = erasure_db x' p"
  "dsr_id p' = dsr_id p \<Longrightarrow> requests_table (replace_rows dsr_id [p']) (erasure_db x p) = erasure_db x p'"
  "requests_table (update_where (\<lambda>r. dsr_id r = dsr_id p) g) (erasure_db x p) = erasure_db x (g p)"
  by (simp_all add: erasure_db_def empty_db_def no_privacy_rows_def replace_rows_def update_where_def demo_user_def)

lemma erased_differs: "usr_email x \<noteq> None \<Longrightarrow> assigned anonymise_subject_profile x \<noteq> x"
  by (auto simp: assigned_eq anonymise_subject_profile_def dest!: arg_cong [where f = usr_email])

lemma minimised_differs: "dsr_subject p = Some u \<Longrightarrow> assigned (minimise_dsr_row u) p \<noteq> p"
  by (auto simp: assigned_eq minimise_dsr_row_def dest!: arg_cong [where f = dsr_subject])

lemma erasure_world_attempt:
  assumes w: "db w = erasure_db x p" and x: "usr_id x = 2" "usr_email x \<noteq> None"
    and p: "dsr_request_type p = DSR_ERASE" "dsr_status p = DSR_APPROVED" "dsr_subject p = Some 2" "dsr_requester p = Some 2"
      "dsr_reviewer p = None" "dsr_representative_verified_by p = None"
  obtains y w' x' p' where "attempt_erasure p 2 now w = (Inr (Inr y), w')" "db w' = erasure_db x' p'"
    "usr_id x' = 2" "external_auth_id x' \<noteq> ''a''" "dsr_id p' = dsr_id p" "dsr_subject p' = None" "dsr_requester p' = None"
    "dsr_reviewer p' = None" "dsr_representative_verified_by p' = None"
proof -
  note steps = erasure_world_providers [OF w x(1) p(1-3)]
  let ?x = "\<lambda>t. assigned anonymise_subject_profile x\<lparr>usr_updated_at := t\<rparr>"
  let ?p = "\<lambda>t. assigned (minimise_dsr_row 2) p\<lparr>dsr_updated_at := t\<rparr>"
  have id: "usr_id (?x t) = 2" "external_auth_id (?x t) \<noteq> ''a''" for t
    using x by (simp_all add: assigned_eq anonymise_subject_profile_def erased_external_auth_id_def)
  have refs: "dsr_id (?p t) = dsr_id p" "dsr_subject (?p t) = None" "dsr_requester (?p t) = None" "dsr_reviewer (?p t) = None"
    "dsr_representative_verified_by (?p t) = None" for t
    using p by (simp_all add: assigned_eq minimise_dsr_row_def)
  define t1 w1 where "t1 = clock w (clock_pos w)"
    and "w1 = w\<lparr>clock_pos := Suc (clock_pos w), db := erasure_db (?x t1) p\<rparr>"
  have f1: "flush (users_update (replace_rows usr_id [?x t1])) (w\<lparr>clock_pos := Suc (clock_pos w)\<rparr>) = (Inr (), w1)"
    unfolding flush_def Let_def using erasure_db_updates(1) [OF id(1) [of t1] x(1), of p] id [of t1] p w by (simp add: w1_def)
  have 1: "\<exists>y. anonymise_user_profile p w = (Inr y, w1)"
    unfolding anonymise_user_profile_def save_users_def using f1 steps(9) erased_differs [OF x(2)]
    by (simp add: bind_def save_one t1_def ret_def)
  define t2 w2 where "t2 = clock w1 (clock_pos w1)"
    and "w2 = w1\<lparr>clock_pos := Suc (clock_pos w1), db := erasure_db (?x t1) (?p t2)\<rparr>"
  have w1: "db w1 = erasure_db (?x t1) p" by (simp add: w1_def)
  have f2: "flush (requests_table (replace_rows dsr_id [?p t2])) (w1\<lparr>clock_pos := Suc (clock_pos w1)\<rparr>) = (Inr (), w2)"
    unfolding flush_def Let_def using erasure_db_updates(2) [OF refs(1) [of t2], of "?x t1"] id [of t1] refs [of t2] w1
    by (simp add: w2_def)
  have rows: "oldest_first dsr_created_at dsr_id (filter (dsr_refers_to 2) (requests_of (db w1))) = [p]"
    using w1 p by (simp add: no_privacy_rows_def dsr_refers_to_def oldest_first_def)
  have 2: "\<exists>y. minimise_dsr_workflow_for_erasure p 2 w1 = (Inr y, w2)"
    unfolding minimise_dsr_workflow_for_erasure_def validate_remaining_def validate_erasure_request_def
    using f2 minimised_differs [OF p(3)] p(1,2) rows by (simp add: bind_def ensure_def query_def gets_def save_one t2_def Let_def ret_def)
  have "\<exists>y. run_core_providers p (normalise_optional_email (usr_email x), []) 2 now w = (Inr y, w2)"
    using steps(1) [of now] steps(2) [of "normalise_optional_email (usr_email x)"]
      steps(3) [of "normalise_optional_email (usr_email x)" now] steps(4-8) 1 2 by (auto simp: run_core_providers_def bind_def ret_def split: prod.splits)
  then obtain y where "attempt_erasure p 2 now w = (Inr (Inr y), w2)"
    by (auto simp: attempt_erasure_def try_except_def bind_def begin_nested_def steps(10) ret_def)
  from that [OF this _ id [of t1] refs [of t2]] show thesis by (simp add: w2_def)
qed

lemma erasure_world_completes:
  obtains res w' where "execute_core_erasure 61 100 erasure_world = (Inr res, w')" "orc_status res = ERASURE_COMPLETED"
    "orc_subject res = Some 2"
proof -
  let ?r = "demo_request 61 DSR_ERASE DSR_APPROVED 2" and ?x = "demo_user 2 bob"
  let ?p = "(erasure_processing 100 ?r)\<lparr>dsr_updated_at := 1000\<rparr>"
  have r: "dsr_request_type ?r = DSR_ERASE" "dsr_status ?r = DSR_APPROVED" "dsr_subject ?r = Some 2" "dsr_id ?r = 61"
    "dsr_execution_status ?r = EXECUTION_NOT_STARTED" "dsr_requester ?r = Some 2" "dsr_reviewer ?r = None"
    "dsr_representative_verified_by ?r = None"
    by (simp_all add: demo_request_def submitted_request_def)
  have x: "usr_id ?x = 2" "external_auth_id ?x \<noteq> ''a''" "usr_email ?x \<noteq> None" by (simp_all add: demo_user_def bob_def)
  have 0: "db erasure_world = erasure_db ?x ?r" "clock erasure_world = (\<lambda>n. 1000 + int n)" "clock_pos erasure_world = 0"
    by (simp_all add: erasure_world_def demo_start_def)
  have valid: "lock_and_validate_request 61 erasure_world = (Inr ?r, erasure_world)"
    using r by (simp add: lock_and_validate_request_def dsr_get_by_id_def query_def gets_def bind_def 0 no_privacy_rows_def
        scalar_one_or_none_def ret_def ensure_def)
  define w1 where "w1 = erasure_world\<lparr>clock_pos := 1, db := erasure_db ?x ?p\<rparr>"
  have diff: "erasure_processing 100 ?r \<noteq> ?r"
    using r(5) by (auto simp: erasure_processing_def dest!: arg_cong [where f = dsr_execution_status])
  have p: "dsr_request_type ?p = DSR_ERASE" "dsr_status ?p = DSR_APPROVED" "dsr_subject ?p = Some 2" "dsr_requester ?p = Some 2"
    "dsr_reviewer ?p = None" "dsr_representative_verified_by ?p = None" "dsr_id ?p = 61"
    using r by (simp_all add: erasure_processing_def)
  have "integrity (erasure_db ?x ?p)" by (rule erasure_db_integrity) (use x p in simp_all)
  then have save: "dsr_save ?r (erasure_processing 100) erasure_world = (Inr ?p, w1)"
    using diff erasure_db_updates(3) [of ?r "\<lambda>y. (erasure_processing 100 y)\<lparr>dsr_updated_at := 1000\<rparr>" ?x]
    by (simp add: dsr_save_def bind_def utcnow_def 0 flush_def ret_def w1_def)
  have "db w1 = erasure_db ?x ?p" by (simp add: w1_def)
  from this x(1,3) p(1-6) obtain y w2 x' q where y: "attempt_erasure ?p 2 100 w1 = (Inr (Inr y), w2)" and w2: "db w2 = erasure_db x' q"
    and q: "usr_id x' = 2" "external_auth_id x' \<noteq> ''a''" "dsr_id q = dsr_id ?p" "dsr_subject q = None" "dsr_requester q = None"
      "dsr_reviewer q = None" "dsr_representative_verified_by q = None"
    by (rule erasure_world_attempt)
  have current: "current_request ?p w2 = (Inr q, w2)" using w2 q(3) by (simp add: current_request_def query_def gets_def no_privacy_rows_def)
  have "integrity (erasure_db x' ((erasure_ready 100 q)\<lparr>dsr_updated_at := t\<rparr>))" for t
    by (rule erasure_db_integrity) (use q in \<open>simp_all add: erasure_ready_def\<close>)
  then have "\<exists>c w'. dsr_save q (erasure_ready 100) w2 = (Inr c, w')"
    using w2 by (simp add: dsr_save_def bind_def utcnow_def flush_def erasure_db_updates(3) ret_def)
  then obtain c w' where "dsr_save q (erasure_ready 100) w2 = (Inr c, w')" by blast
  with valid save y current r that show thesis
    by (simp add: execute_core_erasure_def erasure_subject_user_id_def conclude_erasure_def bind_def ret_def)
qed



subsection \<open>An erasure that fails\<close>

lemma update_where_twice:
  "(\<And>x. p (f x) = p x) \<Longrightarrow> update_where p g (update_where p f rows) = update_where p (\<lambda>x. g (f x)) rows"
  by (simp add: update_where_def)

lemma execution_differs:
  "dsr_execution_status r \<noteq> EXECUTION_PROCESSING \<Longrightarrow> erasure_processing now r \<noteq> r"
  "dsr_execution_status r \<noteq> EXECUTION_FAILED \<Longrightarrow> erasure_failed reason now r \<noteq> r"
  by (auto simp: erasure_processing_def erasure_failed_def dest!: arg_cong [where f = dsr_execution_status])

text \<open>C8: A failed erasure is undone. When the orchestrator reports \<open>failed\<close>, the database is as it was
  except for the request itself, which carries the failed execution with the reason reported, and no
  stored object is deleted.\<close>

theorem failed_erasure:
  assumes I: "integrity (db w)" and run: "execute_core_erasure i now w = (Inr res, w')"
    and "orc_status res = ERASURE_FAILED"
  shows "orc_deletions res = [] \<and> (\<exists>t. db w' = requests_table (update_where (\<lambda>x. dsr_id x = i)
    (\<lambda>x. x\<lparr>dsr_execution_status := EXECUTION_FAILED, dsr_execution_started_at := Some now,
       dsr_execution_completed_at := None, dsr_execution_failed_at := Some now,
       dsr_execution_failure_reason := orc_failure res, dsr_execution_failure_detail := None,
       dsr_updated_at := t\<rparr>)) (db w))"
proof -
  have "orc_status res \<noteq> ERASURE_ALREADY_COMPLETED" using assms(3) by simp
  with run I obtain r u p w1 y w2 where r: "find (\<lambda>r. dsr_id r = i) (requests_of (db w)) = Some r" "dsr_id r = i"
      "dsr_execution_status r \<noteq> EXECUTION_PROCESSING"
    and p: "dsr_save r (erasure_processing now) w = (Inr p, w1)" and y: "attempt_erasure p u now w1 = (Inr y, w2)"
    and c: "conclude_erasure p u now y w2 = (Inr res, w')"
    by (rule execute_core_erasure_run)
  from c assms(3) obtain reason q' where x: "y = Inl reason" "orc_failure res = Some (take 64 reason)" "orc_deletions res = []"
    and q: "dsr_save p (erasure_failed reason now) w2 = (Inr q', w')"
    by (auto simp: conclude_erasure_def run_rules current_request_def split: sum.splits)
  have w2: "db w2 = db w1" using y x(1) by (auto dest: attempt_erasure_Inl)
  from p I obtain t n where w1: "w1 = w\<lparr>clock_pos := n, db := requests_table (update_where (\<lambda>x. dsr_id x = i)
      (\<lambda>x. (erasure_processing now x)\<lparr>dsr_updated_at := t\<rparr>)) (db w)\<rparr>"
    and I1: "integrity (db w1)" and p': "p = (erasure_processing now r)\<lparr>dsr_updated_at := t\<rparr>"
    using execution_differs(1) [OF r(3), of now] r(2) by (auto elim!: dsr_save_run)
  have "dsr_execution_status p \<noteq> EXECUTION_FAILED" by (simp add: p' erasure_processing_def)
  moreover have "dsr_id p = i" by (simp add: p' r(2) erasure_processing_def)
  ultimately obtain t' n' where w': "w' = w2\<lparr>clock_pos := n', db := requests_table (update_where (\<lambda>x. dsr_id x = i)
      (\<lambda>x. (erasure_failed reason now x)\<lparr>dsr_updated_at := t'\<rparr>)) (db w2)\<rparr>"
    using q I1 w2 execution_differs(2) [of p reason now] by (auto elim!: dsr_save_run)
  have "db w' = requests_table (\<lambda>rows. update_where (\<lambda>x. dsr_id x = i) (\<lambda>x. (erasure_failed reason now x)\<lparr>dsr_updated_at := t'\<rparr>)
      (update_where (\<lambda>x. dsr_id x = i) (\<lambda>x. (erasure_processing now x)\<lparr>dsr_updated_at := t\<rparr>) rows)) (db w)"
    by (simp add: w' w2 w1 dsr_rows.put_put)
  also have "\<dots> = requests_table (update_where (\<lambda>x. dsr_id x = i)
      (\<lambda>x. (erasure_failed reason now ((erasure_processing now x)\<lparr>dsr_updated_at := t\<rparr>))\<lparr>dsr_updated_at := t'\<rparr>)) (db w)"
    by (subst update_where_twice) (simp_all add: erasure_processing_def)
  also have "(\<lambda>x. (erasure_failed reason now ((erasure_processing now x)\<lparr>dsr_updated_at := t\<rparr>))\<lparr>dsr_updated_at := t'\<rparr>) =
      (\<lambda>x. x\<lparr>dsr_execution_status := EXECUTION_FAILED, dsr_execution_started_at := Some now,
       dsr_execution_completed_at := None, dsr_execution_failed_at := Some now,
       dsr_execution_failure_reason := orc_failure res, dsr_execution_failure_detail := None, dsr_updated_at := t'\<rparr>)"
  proof
    fix z :: data_subject_request
    show "(erasure_failed reason now ((erasure_processing now z)\<lparr>dsr_updated_at := t\<rparr>))\<lparr>dsr_updated_at := t'\<rparr> =
      z\<lparr>dsr_execution_status := EXECUTION_FAILED, dsr_execution_started_at := Some now,
       dsr_execution_completed_at := None, dsr_execution_failed_at := Some now,
       dsr_execution_failure_reason := orc_failure res, dsr_execution_failure_detail := None, dsr_updated_at := t'\<rparr>"
      by (cases z) (simp add: erasure_failed_def erasure_processing_def x(2))
  qed
  finally show ?thesis using x(3) by auto
qed

text \<open>For the witness, an event of Bob's is under legal hold.\<close>

definition held_event :: audit_event where
  "held_event = \<lparr>aud_id = 71, aud_actor_user_id = Some 2, aud_category = AUDIT_TENANT, aud_action = MEMBERSHIP_REMOVED,
     aud_target_type = TARGET_MEMBERSHIP, aud_target_id = None, aud_reason = None, aud_metadata_json = None,
     aud_ip_address = None, aud_user_agent = None, aud_legal_hold_until = Some 5000, aud_created_at = 0\<rparr>"

definition held_world :: world where
  "held_world = demo_start\<lparr>db := (erasure_db (demo_user 2 bob) (demo_request 61 DSR_ERASE DSR_APPROVED 2))\<lparr>audit_events := [held_event]\<rparr>\<rparr>"

lemma held_world_fails:
  obtains res w' where "execute_core_erasure 61 100 held_world = (Inr res, w')" "orc_status res = ERASURE_FAILED"
    "orc_failure res = Some ''audit_erasure_legal_hold_active''"
proof -
  let ?r = "demo_request 61 DSR_ERASE DSR_APPROVED 2" and ?x = "demo_user 2 bob"
  let ?p = "(erasure_processing 100 ?r)\<lparr>dsr_updated_at := 1000\<rparr>"
  let ?d = "\<lambda>r. (erasure_db ?x r)\<lparr>audit_events := [held_event]\<rparr>"
  have r: "dsr_request_type ?r = DSR_ERASE" "dsr_status ?r = DSR_APPROVED" "dsr_subject ?r = Some 2" "dsr_id ?r = 61"
    "dsr_execution_status ?r = EXECUTION_NOT_STARTED" "dsr_requester ?r = Some 2" "dsr_reviewer ?r = None"
    "dsr_representative_verified_by ?r = None"
    by (simp_all add: demo_request_def submitted_request_def)
  have x: "usr_id ?x = 2" by (simp add: demo_user_def)
  have 0: "db held_world = ?d ?r" "clock held_world = (\<lambda>n. 1000 + int n)" "clock_pos held_world = 0"
    by (simp_all add: held_world_def demo_start_def)
  have valid: "lock_and_validate_request 61 held_world = (Inr ?r, held_world)"
    using r by (simp add: lock_and_validate_request_def dsr_get_by_id_def query_def gets_def bind_def 0 no_privacy_rows_def
        scalar_one_or_none_def ret_def ensure_def)
  define w1 where "w1 = held_world\<lparr>clock_pos := 1, db := ?d ?p\<rparr>"
  have d: "requests_table (update_where (\<lambda>x. dsr_id x = dsr_id r) g) (?d r) = ?d (g r)" for r g
    by (simp add: erasure_db_def empty_db_def no_privacy_rows_def update_where_def)
  have I: "integrity (?d r)" if "dsr_requester r = Some 2" "dsr_subject r = Some 2" "dsr_reviewer r = None"
    "dsr_representative_verified_by r = None" for r
    using that by (simp add: erasure_db_def empty_db_def no_privacy_rows_def demo_rows demo_constraints privacy_tables_ok_def
        privacy_user_refs_def held_event_def)
  have "integrity (?d ?p)" by (rule I) (use r in \<open>simp_all add: erasure_processing_def\<close>)
  then have save: "dsr_save ?r (erasure_processing 100) held_world = (Inr ?p, w1)"
    using execution_differs(1) [of ?r 100] r(5) d [of ?r "\<lambda>y. (erasure_processing 100 y)\<lparr>dsr_updated_at := 1000\<rparr>"]
    by (simp add: dsr_save_def bind_def utcnow_def 0 flush_def ret_def w1_def)
  have u: "user_get_by_id 2 w1 = (Inr (Some ?x), w1)"
    using x by (simp add: user_get_by_id_def query_def gets_def bind_def scalar_one_or_none_def ret_def demo_user_def w1_def)
  have p: "dsr_request_type ?p = DSR_ERASE" "dsr_status ?p = DSR_APPROVED" "dsr_subject ?p = Some 2"
    using r by (simp_all add: erasure_processing_def)
  have y: "attempt_erasure ?p 2 100 w1 = (Inr (Inl ''audit_erasure_legal_hold_active''), w1)"
    using p u by (simp add: attempt_erasure_def run_core_providers_def build_snapshot_def minimise_audit_events_for_erasure_def
        erasure_subject_user_id_def lock_subject_def validate_request_and_get_subject_def validate_erasure_request_def
        build_target_snapshot_def lock_subject_audit_events_def query_def gets_def bind_def ensure_def raise_def ret_def try_except_def
        begin_nested_def oldest_first_def Let_def subject_audit_event_def target_snapshot_def held_def held_event_def w1_def x)
  have "integrity (?d ((erasure_failed m 100 ?p)\<lparr>dsr_updated_at := t\<rparr>))" for m t
    by (rule I) (use r in \<open>simp_all add: erasure_processing_def erasure_failed_def\<close>)
  moreover have "\<exists>c w'. dsr_save p f w = (Inr c, w')"
    if "db w = ?d p" "\<And>t. integrity (?d ((f p)\<lparr>dsr_updated_at := t\<rparr>))" for p f w
    using that d [of p] by (simp add: dsr_save_def bind_def utcnow_def flush_def ret_def)
  moreover have "db w1 = ?d ?p" by (simp add: w1_def)
  ultimately have "\<exists>c w'. dsr_save ?p (erasure_failed ''audit_erasure_legal_hold_active'' 100) w1 = (Inr c, w')" by blast
  then obtain c w' where "dsr_save ?p (erasure_failed ''audit_erasure_legal_hold_active'' 100) w1 = (Inr c, w')" by blast
  with valid save y r that show thesis
    by (simp add: execute_core_erasure_def erasure_subject_user_id_def conclude_erasure_def bind_def ret_def)
qed

theorem failed_erasure_witness:
  "\<exists>res w'. execute_core_erasure 61 100 held_world = (Inr res, w') \<and>
     orc_failure res = Some ''audit_erasure_legal_hold_active'' \<and> orc_deletions res = [] \<and>
     users (db w') = users (db held_world) \<and> audit_events (db w') = audit_events (db held_world)"
proof -
  have I: "integrity (db held_world)"
    by (simp add: held_world_def erasure_db_def empty_db_def no_privacy_rows_def demo_start_def demo_request_def submitted_request_def
        demo_rows demo_constraints privacy_tables_ok_def privacy_user_refs_def held_event_def)
  obtain res w' where run: "execute_core_erasure 61 100 held_world = (Inr res, w')" "orc_status res = ERASURE_FAILED"
    "orc_failure res = Some ''audit_erasure_legal_hold_active''" by (rule held_world_fails)
  from failed_erasure [OF I run(1,2)] run show ?thesis by (auto simp: exI [of _ res])
qed

subsection \<open>Who may execute an erasure\<close>

text \<open>C9: Who may execute an erasure. A run of the service returns only if the executor is an active user
  with an active staff record as platform administrator or compliance officer, is not the person to
  be erased, and the request is a request for erasure that is approved or already executed.\<close>

theorem erasure_needs_authority:
  assumes I: "integrity (db w)" and run: "execute_approved_erasure_request X i executor at ctx w = (Inr res, w')"
  shows "(\<exists>s\<in>set (staff_rows (db w)). stf_user_id s = executor \<and> stf_status s = ''active'' \<and>
      stf_role s \<in> {''platform_admin'', ''compliance_officer''}) \<and>
    (\<exists>x\<in>set (users (db w)). usr_id x = executor \<and> usr_status x = USER_ACTIVE) \<and>
    (\<exists>r\<in>set (requests_of (db w)). dsr_id r = i \<and> dsr_request_type r = DSR_ERASE \<and> dsr_subject r \<noteq> Some executor \<and>
      (dsr_status r = DSR_APPROVED \<or> dsr_execution_status r = EXECUTION_READY))"
proof -
  from I run obtain now s r w0 o' w1 where 0: "db w0 = db w" and s: "lock_authorised_executor executor w0 = (Inr s, w0)"
    and r: "find (\<lambda>r. dsr_id r = i) (requests_of (db w)) = Some r" "dsr_subject r \<noteq> Some executor"
    and y: "execute_core_erasure i now w0 = (Inr o', w1)"
    by (rule execute_approved_run)
  from r(1) have id: "dsr_id r = i" "r \<in> set (requests_of (db w))" by (auto simp: find_Some_iff in_set_conv_nth)
  from y [unfolded execute_core_erasure_def bind_Inr]
  obtain q w3 where q: "lock_and_validate_request i w0 = (Inr q, w3)" by auto
  from lock_and_validate_request_run [OF q] I 0 r(1) have "q = r" by simp
  with lock_and_validate_request_run [OF q] lock_authorised_executor_run [OF s] I 0 id r(2) show ?thesis by auto
qed

definition executed_world :: world where
  "executed_world = demo_start\<lparr>db := erasure_db (demo_user 2 bob)
     ((demo_request 61 DSR_ERASE DSR_FULFILLED 2)\<lparr>dsr_execution_status := EXECUTION_READY\<rparr>)\<rparr>"

theorem erasure_needs_authority_witness:
  "\<exists>res w'. execute_approved_erasure_request demo_externals 61 1 (Some 100) (demo_context 1) executed_world = (Inr res, w') \<and>
     (\<exists>s\<in>set (staff_rows (db executed_world)). stf_user_id s = 1 \<and> stf_status s = ''active'')"
proof -
  let ?r = "(demo_request 61 DSR_ERASE DSR_FULFILLED 2)\<lparr>dsr_execution_status := EXECUTION_READY\<rparr>"
  have r: "dsr_request_type ?r = DSR_ERASE" "dsr_status ?r = DSR_FULFILLED" "dsr_subject ?r = Some 2" "dsr_id ?r = 61"
    "dsr_execution_status ?r = EXECUTION_READY" "dsr_requester ?r = Some 2" "dsr_reviewer ?r = None"
    "dsr_representative_verified_by ?r = None"
    by (simp_all add: demo_request_def submitted_request_def)
  have d: "db executed_world = erasure_db (demo_user 2 bob) ?r" by (simp add: executed_world_def)
  then have I: "integrity (db executed_world)" using r by (simp add: demo_user_def bob_def)
  have "returned (fst (execute_approved_erasure_request demo_externals 61 1 (Some 100) (demo_context 1) executed_world))"
  proof -
    have w: "executor_rows 1 (db executed_world) = [(demo_staff 41 1, USER_ACTIVE)]"
      by (simp add: d executor_rows_def demo_staff_def demo_user_def)
    have get: "dsr_get_by_id 61 v = (Inr (Some ?r), v)" if "requests_of (db v) = [?r]" for v
      using that r(4) by (simp add: dsr_get_by_id_def query_def gets_def bind_def scalar_one_or_none_def ret_def)
    have rows: "requests_of (db executed_world) = [?r]" by (simp add: d no_privacy_rows_def)
    have I': "integrity (audit_events_update (\<lambda>rows. rows @ [audit_execution o' (demo_staff 41 1) 100 a]) (db executed_world))" for o' a
      using r by (simp add: d erasure_db_def empty_db_def no_privacy_rows_def demo_rows demo_constraints privacy_tables_ok_def
          privacy_user_refs_def audit_execution_def)
    have core: "\<exists>o'. execute_core_erasure 61 100 executed_world = (Inr o', executed_world)"
      using get [OF rows] r by (simp add: execute_core_erasure_def lock_and_validate_request_def bind_def ensure_def ret_def)
    then obtain o' where o': "execute_core_erasure 61 100 executed_world = (Inr o', executed_world)" by blast
    have exec: "\<exists>w1. execute_erasure_by_staff 61 1 (Some 100) executed_world = (Inr o', w1) \<and> requests_of (db w1) = [?r]"
      using w get [OF rows] o' r I' rows
      by (simp add: execute_erasure_by_staff_def lock_authorised_executor_def lock_erasure_request_def reject_self_erasure_def
          query_def gets_def bind_def scalar_one_or_none_def ensure_def ret_def uuid4_def flush_def Let_def demo_staff_def)
    then obtain w1 where w1: "execute_erasure_by_staff 61 1 (Some 100) executed_world = (Inr o', w1)" "requests_of (db w1) = [?r]"
      by blast
    with get [OF w1(2)] r show ?thesis
      by (simp add: execute_approved_erasure_request_def try_except_def bind_def get_platform_request_def get_request_def ret_def
          is_ready_approved_erasure_request_def returned_def)
  qed
  then obtain res w' where run: "execute_approved_erasure_request demo_externals 61 1 (Some 100) (demo_context 1) executed_world = (Inr res, w')"
    by (rule returnedE)
  from erasure_needs_authority [OF I run] run show ?thesis by auto
qed

end
