(* ===== verification/Privacy_Governance.thy ===== *)
theory Privacy_Governance
  imports Data_Subject_Requests
begin

section \<open>Purposes, authorizations, consents and notices\<close>

text \<open>
  \<^verbatim>\<open>privacy/repositories/privacy_governance.py\<close> and \<^verbatim>\<open>privacy/services/governance.py\<close>.
  Processing is allowed by an authorization that is in force; one whose basis is consent also needs a
  consent that was not withdrawn. The enumerations are datatypes, so that reading a stored value
  back as one does not fail.
\<close>

subsection \<open>Repository\<close>

abbreviation purposes_table :: "(processing_purpose list \<Rightarrow> processing_purpose list) \<Rightarrow> db \<Rightarrow> db" where
  "purposes_table f \<equiv> privacy_update (purposes_update f)"

abbreviation consents_table :: "(consent_record list \<Rightarrow> consent_record list) \<Rightarrow> db \<Rightarrow> db" where
  "consents_table f \<equiv> privacy_update (consents_update f)"

definition create_processing_purpose ::
  "(uuid \<Rightarrow> int \<Rightarrow> int \<Rightarrow> processing_purpose) \<Rightarrow> processing_purpose app" where
  "create_processing_purpose row =
     bind uuid4 (\<lambda>i. bind utcnow (\<lambda>c. bind utcnow (\<lambda>t.
       bind (flush (purposes_table (\<lambda>rows. rows @ [row i c t]))) (\<lambda>_. ret (row i c t)))))"

definition get_processing_purpose_by_code :: "string \<Rightarrow> processing_purpose option app" where
  "get_processing_purpose_by_code code =
     bind (query (\<lambda>d. filter (\<lambda>p. pps_code p = code) (purposes (privacy d)))) scalar_one_or_none"

definition create_authorization ::
  "(uuid \<Rightarrow> int \<Rightarrow> int \<Rightarrow> processing_authorization) \<Rightarrow> processing_authorization app" where
  "create_authorization row =
     bind uuid4 (\<lambda>i. bind utcnow (\<lambda>c. bind utcnow (\<lambda>t.
       bind (flush (authorizations_table (\<lambda>rows. rows @ [row i c t]))) (\<lambda>_. ret (row i c t)))))"

definition authorization_in_force :: "uuid \<Rightarrow> string \<Rightarrow> int \<Rightarrow> db \<Rightarrow> processing_authorization \<Rightarrow> bool" where
  "authorization_in_force u code now d a \<longleftrightarrow> pau_subject a = u \<and>
     list_ex (\<lambda>p. pps_id p = pau_purpose_id a \<and> pps_code p = code \<and> pps_active p) (purposes (privacy d)) \<and>
     pau_active a \<and> pau_revoked_at a = None \<and> pau_valid_from a \<le> now \<and>
     (case pau_valid_until a of None \<Rightarrow> True | Some t \<Rightarrow> now < t)"

definition list_active_authorizations :: "uuid \<Rightarrow> string \<Rightarrow> int \<Rightarrow> processing_authorization list app" where
  "list_active_authorizations u code now =
     query (\<lambda>d. latest_first pau_valid_from (filter (authorization_in_force u code now d) (authorizations (privacy d))))"

definition create_consent_record :: "(uuid \<Rightarrow> int \<Rightarrow> int \<Rightarrow> consent_record) \<Rightarrow> consent_record app" where
  "create_consent_record row =
     bind uuid4 (\<lambda>i. bind utcnow (\<lambda>c. bind utcnow (\<lambda>t.
       bind (flush (consents_table (\<lambda>rows. rows @ [row i c t]))) (\<lambda>_. ret (row i c t)))))"

definition consent_active :: "uuid \<Rightarrow> uuid \<Rightarrow> consent_record \<Rightarrow> bool" where
  "consent_active u purpose c \<longleftrightarrow> cns_subject c = u \<and> cns_purpose_id c = purpose \<and> cns_withdrawn_at c = None"

definition get_active_consent :: "uuid \<Rightarrow> uuid \<Rightarrow> consent_record option app" where
  "get_active_consent u purpose =
     bind (query (\<lambda>d. take 1 (latest_first cns_granted_at (filter (consent_active u purpose) (consents (privacy d))))))
       scalar_one_or_none"

definition consent_authorization :: "uuid \<Rightarrow> uuid \<Rightarrow> processing_authorization \<Rightarrow> bool" where
  "consent_authorization u purpose a \<longleftrightarrow> pau_subject a = u \<and> pau_purpose_id a = purpose \<and>
     pau_basis a = BASIS_CONSENT \<and> pau_active a \<and> pau_revoked_at a = None"

definition withdraw_active_consents :: "uuid \<Rightarrow> uuid \<Rightarrow> int \<Rightarrow> string option \<Rightarrow> (nat \<times> nat) app" where
  "withdraw_active_consents u purpose at reason =
     bind utcnow (\<lambda>t.
     bind (query (\<lambda>d. length (filter (consent_active u purpose) (consents (privacy d))))) (\<lambda>n.
     bind (flush (consents_table (update_where (consent_active u purpose)
       (\<lambda>c. c\<lparr>cns_withdrawn_at := Some at, cns_withdrawal_reason := reason, cns_updated_at := t\<rparr>)))) (\<lambda>_.
     bind utcnow (\<lambda>t'.
     bind (query (\<lambda>d. length (filter (consent_authorization u purpose) (authorizations (privacy d))))) (\<lambda>m.
     bind (flush (authorizations_table (update_where (consent_authorization u purpose)
       (\<lambda>a. a\<lparr>pau_active := False, pau_revoked_at := Some at, pau_updated_at := t'\<rparr>)))) (\<lambda>_.
     ret (n, m)))))))"

definition get_privacy_notice_acceptance :: "uuid \<Rightarrow> string \<Rightarrow> notice_acceptance option app" where
  "get_privacy_notice_acceptance u version =
     bind (query (\<lambda>d. take 1 (filter (\<lambda>n. pna_subject n = u \<and> pna_notice_version n = version) (notices (privacy d)))))
       scalar_one_or_none"

definition create_privacy_notice_acceptance :: "uuid \<Rightarrow> string \<Rightarrow> int \<Rightarrow> string option \<Rightarrow> notice_acceptance app" where
  "create_privacy_notice_acceptance u version at source =
     bind uuid4 (\<lambda>i. bind utcnow (\<lambda>c. bind utcnow (\<lambda>t.
       let n = \<lparr>pna_id = i, pna_subject = u, pna_notice_version = version, pna_accepted_at = at, pna_source = source,
                pna_created_at = c, pna_updated_at = t\<rparr>
       in bind (flush (notices_table (\<lambda>rows. rows @ [n]))) (\<lambda>_. ret n))))"

fun is_integrity_error :: "app_error \<Rightarrow> bool" where
  "is_integrity_error IntegrityError = True"
| "is_integrity_error _ = False"

definition get_or_create_privacy_notice_acceptance ::
  "uuid \<Rightarrow> string \<Rightarrow> int \<Rightarrow> string option \<Rightarrow> (notice_acceptance \<times> bool) app" where
  "get_or_create_privacy_notice_acceptance u version at source =
     bind (get_privacy_notice_acceptance u version) (\<lambda>existing.
     case existing of
       Some n \<Rightarrow> ret (n, False)
     | None \<Rightarrow>
         try_except
           (bind (begin_nested (create_privacy_notice_acceptance u version at source)) (\<lambda>n. ret (n, True)))
           is_integrity_error
           (\<lambda>e. bind (get_privacy_notice_acceptance u version) (\<lambda>again.
              case again of None \<Rightarrow> raise e | Some n \<Rightarrow> ret (n, False))))"

subsection \<open>Service\<close>

text \<open>\<open>code.strip().lower().replace(" ", "_")\<close>.\<close>

definition normalise_code :: "string \<Rightarrow> app_error + string" where
  "normalise_code code =
     (let v = map (\<lambda>c. if c = CHR '' '' then CHR ''_'' else c) (lower (strip code))
      in if v = [] then Inl (PrivacyConfigurationError ''Processing purpose code is required'') else Inr v)"

definition get_active_purpose :: "string \<Rightarrow> processing_purpose app" where
  "get_active_purpose code =
     bind (lift (normalise_code code)) (\<lambda>c.
     bind (get_processing_purpose_by_code c) (\<lambda>found.
     case found of
       Some p \<Rightarrow> if pps_active p then ret p else raise (PrivacyConfigurationError ''Processing purpose is not configured'')
     | None \<Rightarrow> raise (PrivacyConfigurationError ''Processing purpose is not configured'')))"

record purpose_definition =
  pdf_code :: string
  pdf_title :: string
  pdf_family :: purpose_family
  pdf_basis :: lawful_basis
  pdf_description :: "string option"
  pdf_is_special :: bool
  pdf_condition :: "special_category_condition option"
  pdf_requires_consent :: "bool option"

definition register_processing_purpose :: "purpose_definition \<Rightarrow> processing_purpose app" where
  "register_processing_purpose x =
     bind (lift (normalise_code (pdf_code x))) (\<lambda>code.
     bind (get_processing_purpose_by_code code) (\<lambda>existing.
     bind (ensure (existing = None) (PrivacyConfigurationError ''Processing purpose already exists'')) (\<lambda>_.
     bind (ensure (\<not> (pdf_is_special x \<and> pdf_condition x = None))
       (PrivacyConfigurationError ''Special-category purposes require an Article 9 condition'')) (\<lambda>_.
     let required = (case pdf_requires_consent x of None \<Rightarrow> pdf_basis x = BASIS_CONSENT | Some b \<Rightarrow> b) in
     bind (ensure (\<not> (required \<and> pdf_basis x \<noteq> BASIS_CONSENT))
       (PrivacyConfigurationError ''Only consent-based purposes can require active consent'')) (\<lambda>_.
     create_processing_purpose (\<lambda>i c t. \<lparr>pps_id = i, pps_code = code, pps_title = pdf_title x,
       pps_description = pdf_description x, pps_family = pdf_family x, pps_default_basis = pdf_basis x,
       pps_is_special_category = pdf_is_special x, pps_default_condition = pdf_condition x,
       pps_requires_consent = required, pps_active = True, pps_created_at = c, pps_updated_at = t\<rparr>))))))"

definition resolve_special_category_condition ::
  "processing_purpose \<Rightarrow> special_category_condition option \<Rightarrow> special_category_condition option app" where
  "resolve_special_category_condition p given =
     (case given of
        Some c \<Rightarrow> ret (Some c)
      | None \<Rightarrow>
          (case pps_default_condition p of
             Some c \<Rightarrow> ret (Some c)
           | None \<Rightarrow>
               if pps_is_special_category p
               then raise (PrivacyConfigurationError ''Special-category processing requires an Article 9 condition'')
               else ret None))"

definition assert_not_generic_consent_for_regulated_purpose :: "processing_purpose \<Rightarrow> string option \<Rightarrow> unit app" where
  "assert_not_generic_consent_for_regulated_purpose p source =
     (if pps_family p \<noteq> FAMILY_REGULATED_SERVICE then ret ()
      else case source of
        None \<Rightarrow> ret ()
      | Some code \<Rightarrow>
          bind (lift (normalise_code code)) (\<lambda>c.
          bind (get_processing_purpose_by_code c) (\<lambda>found.
          case found of
            None \<Rightarrow> raise (PrivacyConfigurationError ''Consent source purpose is not configured'')
          | Some s \<Rightarrow>
              ensure (\<not> List.member [FAMILY_MARKETING, FAMILY_PRODUCT_ANALYTICS] (pps_family s))
                (PrivacyConfigurationError ''Regulated-service processing cannot rely on generic marketing or product analytics consent''))))"

record authorization_request =
  arq_subject :: uuid
  arq_purpose_code :: string
  arq_basis :: "lawful_basis option"
  arq_condition :: "special_category_condition option"
  arq_valid_from :: "int option"
  arq_valid_until :: "int option"
  arq_source :: "string option"
  arq_consent_source :: "string option"

definition create_processing_authorization :: "authorization_request \<Rightarrow> processing_authorization app" where
  "create_processing_authorization q =
     bind (get_active_purpose (arq_purpose_code q)) (\<lambda>p.
     let basis = (case arq_basis q of Some b \<Rightarrow> b | None \<Rightarrow> pps_default_basis p) in
     bind (resolve_special_category_condition p (arq_condition q)) (\<lambda>cond.
     bind (ensure (\<not> (pps_requires_consent p \<and> basis \<noteq> BASIS_CONSENT))
       (PrivacyConfigurationError ''This purpose requires consent as its lawful basis'')) (\<lambda>_.
     bind (assert_not_generic_consent_for_regulated_purpose p (arq_consent_source q)) (\<lambda>_.
     bind (case arq_valid_from q of Some t \<Rightarrow> ret t | None \<Rightarrow> utcnow) (\<lambda>from.
     create_authorization (\<lambda>i c t. \<lparr>pau_id = i, pau_subject = arq_subject q, pau_purpose_id = pps_id p, pau_basis = basis,
       pau_condition = cond, pau_active = True, pau_valid_from = from, pau_valid_until = arq_valid_until q,
       pau_revoked_at = None, pau_source = arq_source q, pau_created_at = c, pau_updated_at = t\<rparr>))))))"

definition grant_consent ::
  "externals \<Rightarrow> uuid \<Rightarrow> string \<Rightarrow> string \<Rightarrow> int option \<Rightarrow> special_category_condition option \<Rightarrow> string option \<Rightarrow>
   audit_context \<Rightarrow> consent_record app" where
  "grant_consent X u code version at cond consent_source ctx =
     bind (case at of Some t \<Rightarrow> ret t | None \<Rightarrow> utcnow) (\<lambda>now.
     bind (get_active_purpose code) (\<lambda>p.
     bind (create_processing_authorization \<lparr>arq_subject = u, arq_purpose_code = pps_code p, arq_basis = Some BASIS_CONSENT,
       arq_condition = cond, arq_valid_from = Some now, arq_valid_until = None, arq_source = Some ''consent_record'',
       arq_consent_source = consent_source\<rparr>) (\<lambda>a.
     bind (create_consent_record (\<lambda>i c t. \<lparr>cns_id = i, cns_subject = u, cns_purpose_id = pps_id p,
       cns_authorization_id = Some (pau_id a), cns_notice_version = version, cns_granted_at = now,
       cns_withdrawn_at = None, cns_withdrawal_reason = None, cns_created_at = c, cns_updated_at = t\<rparr>)) (\<lambda>consent.
     bind (record_event X ctx AUDIT_COMPLIANCE CONSENT_GRANTED TARGET_PRIVACY_CONSENT (Some u) None
       (Some (JObj [(''purpose_code'', JStr (pps_code p)), (''privacy_notice_version'', JStr version)]))) (\<lambda>_.
     ret consent)))))"

definition withdraw_consent ::
  "externals \<Rightarrow> uuid \<Rightarrow> string \<Rightarrow> string option \<Rightarrow> int option \<Rightarrow> audit_context \<Rightarrow> (nat \<times> nat) app" where
  "withdraw_consent X u code reason at ctx =
     bind (case at of Some t \<Rightarrow> ret t | None \<Rightarrow> utcnow) (\<lambda>now.
     bind (get_active_purpose code) (\<lambda>p.
     bind (withdraw_active_consents u (pps_id p) now reason) (\<lambda>(n, m).
     bind (if 0 < n \<or> 0 < m
           then bind (record_event X ctx AUDIT_COMPLIANCE CONSENT_WITHDRAWN TARGET_PRIVACY_CONSENT (Some u) None
             (Some (JObj [(''purpose_code'', JStr (pps_code p)),
                          (''withdrawal_reason_code'', case reason of None \<Rightarrow> JNull | Some r \<Rightarrow> JStr r)]))) (\<lambda>_. ret ())
           else ret ()) (\<lambda>_.
     ret (n, m)))))"

definition accept_privacy_notice ::
  "externals \<Rightarrow> uuid \<Rightarrow> string \<Rightarrow> int option \<Rightarrow> string option \<Rightarrow> audit_context \<Rightarrow> notice_acceptance app" where
  "accept_privacy_notice X u version at source ctx =
     bind (case at of Some t \<Rightarrow> ret t | None \<Rightarrow> utcnow) (\<lambda>now.
     bind (get_or_create_privacy_notice_acceptance u version now source) (\<lambda>(n, created).
     if \<not> created then ret n
     else
     bind (record_event X ctx AUDIT_COMPLIANCE PRIVACY_NOTICE_ACCEPTED TARGET_PRIVACY_NOTICE (Some u) None
       (Some (JObj [(''notice_version'', JStr version)]))) (\<lambda>_. ret n)))"

text \<open>The loop over the authorizations in force.\<close>

fun first_allowed :: "uuid \<Rightarrow> processing_purpose \<Rightarrow> processing_authorization list \<Rightarrow> processing_authorization app" where
  "first_allowed u p [] = raise (PrivacyProcessingDenied (''Processing is not allowed for purpose '' @ [CHR 0x27] @ pps_code p @ [CHR 0x27]))"
| "first_allowed u p (a # as) =
     (if pau_basis a = BASIS_CONSENT
      then bind (get_active_consent u (pps_id p)) (\<lambda>c. case c of Some _ \<Rightarrow> ret a | None \<Rightarrow> first_allowed u p as)
      else ret a)"

definition assert_processing_allowed :: "uuid \<Rightarrow> string \<Rightarrow> int option \<Rightarrow> processing_authorization app" where
  "assert_processing_allowed u code at =
     bind (case at of Some t \<Rightarrow> ret t | None \<Rightarrow> utcnow) (\<lambda>now.
     bind (get_active_purpose code) (\<lambda>p.
     bind (list_active_authorizations u (pps_code p) now) (\<lambda>as.
     first_allowed u p as)))"

end
