(* ===== verification/Governance_Theorems.thy ===== *)
theory Governance_Theorems
  imports Privacy_Governance Demo
begin

section \<open>When processing is allowed\<close>

text \<open>
  The check before processing answers exactly whether an authorization is in force, and one by consent
  only counts with a consent that was not withdrawn. Withdrawing a consent therefore ends all
  processing that relies on it.
\<close>

subsection \<open>The purpose and its authorizations\<close>

lemma get_active_purpose_run:
  assumes "get_active_purpose code w = (Inr p, w')"
  shows "w' = w" "normalise_code code = Inr (pps_code p)" "p \<in> set (purposes (privacy (db w)))" "pps_active p"
  using assms
  by (auto simp: get_active_purpose_def get_processing_purpose_by_code_def lift_def run_rules scalar_one_or_none_def
      split: sum.splits option.splits list.splits if_splits dest!: Cons_eq_filterD [OF sym])

text \<open>A code that was normalised once is not changed again.\<close>

lemma lstrip_map: "(\<And>c. is_space (f c) \<Longrightarrow> is_space c) \<Longrightarrow> lstrip t = t \<Longrightarrow> lstrip (map f t) = map f t"
  unfolding lstrip_def dropWhile_eq_self_iff by (cases t) auto

lemma lstrip_of_strip: "lstrip (strip s) = strip s" "lstrip (rev (strip s)) = rev (strip s)"
  by (simp_all add: strip_def lstrip_rev_lstrip)

lemma normalise_code_idem:
  assumes "normalise_code code = Inr c"
  shows "normalise_code c = Inr c"
proof -
  let ?u = "\<lambda>c. if c = CHR '' '' then CHR ''_'' else c"
  let ?f = "\<lambda>c. ?u (lower_char c)"
  have "\<not> is_space (CHR ''_'')" by (simp add: is_space_def)
  then have f: "is_space (?f x) \<Longrightarrow> is_space x" for x by (auto split: if_splits)
  from assms have c: "c = map ?f (strip code)" "c \<noteq> []"
    by (auto simp: normalise_code_def Let_def lower_def split: if_splits)
  have "lstrip (map ?f (strip code)) = map ?f (strip code)"
    by (rule lstrip_map [OF f lstrip_of_strip(1)])
  moreover have "lstrip (map ?f (rev (strip code))) = map ?f (rev (strip code))"
    by (rule lstrip_map [OF f lstrip_of_strip(2)])
  ultimately have "lstrip c = c" "lstrip (rev c) = rev c"
    unfolding c(1) rev_map by simp_all
  then have "strip c = c" by (simp add: strip_def)
  moreover have "lower_char (?f x) = ?f x" for x
    by (simp add: lower_char_def [of "CHR ''_''"])
  then have "lower c = c" by (simp add: c lower_def)
  moreover have "map ?u c = c" by (simp add: c)
  ultimately show ?thesis using c(2) by (simp add: normalise_code_def)
qed

text \<open>The answer depends on the purposes alone.\<close>

lemma get_active_purpose_frame:
  assumes "get_active_purpose code w = (Inr p, w)" and "purposes (privacy (db v)) = purposes (privacy (db w))"
  shows "get_active_purpose code v = (Inr p, v)"
  using assms
  by (auto simp: get_active_purpose_def get_processing_purpose_by_code_def lift_def run_rules scalar_one_or_none_def
      bind_def query_def gets_def ret_def raise_def split: sum.splits option.splits list.splits if_splits)

lemma set_latest_first [simp]: "set (latest_first f rows) = set rows"
  by (simp add: latest_first_def)

lemma latest_first_Nil [simp]: "latest_first f rows = [] \<longleftrightarrow> rows = []" "latest_first f [] = []"
  by (metis set_latest_first set_empty) (simp add: latest_first_def)

definition has_consent :: "uuid \<Rightarrow> uuid \<Rightarrow> db \<Rightarrow> bool" where
  "has_consent u purpose d \<longleftrightarrow> list_ex (consent_active u purpose) (consents (privacy d))"

lemma get_active_consent_run:
  "\<exists>c. get_active_consent u purpose w = (Inr c, w) \<and> (c = None \<longleftrightarrow> \<not> has_consent u purpose (db w))"
proof -
  let ?rows = "latest_first cns_granted_at (filter (consent_active u purpose) (consents (privacy (db w))))"
  have "?rows = [] \<longleftrightarrow> \<not> has_consent u purpose (db w)"
    by (simp add: has_consent_def list_ex_iff filter_empty_conv)
  then show ?thesis
    by (cases ?rows) (auto simp: get_active_consent_def bind_def query_def gets_def scalar_one_or_none_def ret_def)
qed

text \<open>The authorizations the loop accepts.\<close>

definition suffices :: "uuid \<Rightarrow> processing_purpose \<Rightarrow> db \<Rightarrow> processing_authorization \<Rightarrow> bool" where
  "suffices u p d a \<longleftrightarrow> (pau_basis a = BASIS_CONSENT \<longrightarrow> has_consent u (pps_id p) d)"

lemma first_allowed_run:
  "first_allowed u p as w =
     (case find (suffices u p (db w)) as of
        Some a \<Rightarrow> Inr a
      | None \<Rightarrow> Inl (PrivacyProcessingDenied (''Processing is not allowed for purpose '' @ [CHR 0x27] @ pps_code p @ [CHR 0x27])),
      w)"
proof (induction "as")
  case (Cons a "as")
  obtain c where "get_active_consent u (pps_id p) w = (Inr c, w)" "c = None \<longleftrightarrow> \<not> has_consent u (pps_id p) (db w)"
    using get_active_consent_run by blast
  with Cons show ?case
    by (auto simp: suffices_def bind_def ret_def split: option.splits)
qed (simp add: raise_def)

definition may_rely_on :: "uuid \<Rightarrow> processing_purpose \<Rightarrow> int \<Rightarrow> db \<Rightarrow> processing_authorization \<Rightarrow> bool" where
  "may_rely_on u p now d a \<longleftrightarrow> a \<in> set (authorizations (privacy d)) \<and>
     authorization_in_force u (pps_code p) now d a \<and> suffices u p d a"

lemma assert_processing_allowed_run:
  assumes "get_active_purpose code w = (Inr p, w)"
  shows "(\<exists>a. assert_processing_allowed u code (Some now) w = (Inr a, w) \<and> may_rely_on u p now (db w) a) \<or>
     (\<exists>m. assert_processing_allowed u code (Some now) w = (Inl (PrivacyProcessingDenied m), w)) \<and>
       (\<forall>a. \<not> may_rely_on u p now (db w) a)"
proof -
  let ?as = "latest_first pau_valid_from (filter (authorization_in_force u (pps_code p) now (db w)) (authorizations (privacy (db w))))"
  have run: "assert_processing_allowed u code (Some now) w = first_allowed u p ?as w"
    using assms by (simp add: assert_processing_allowed_def bind_def list_active_authorizations_def query_def gets_def)
  have mem: "may_rely_on u p now (db w) a \<longleftrightarrow> a \<in> set ?as \<and> suffices u p (db w) a" for a
    by (auto simp: may_rely_on_def)
  show ?thesis
  proof (cases "find (suffices u p (db w)) ?as")
    case None
    then have "\<not> suffices u p (db w) a" if "a \<in> set ?as" for a using that by (metis find_None_iff)
    then show ?thesis using None run mem by (metis (no_types, lifting) first_allowed_run option.simps(4))
  next
    case (Some a)
    then have "a \<in> set ?as \<and> suffices u p (db w) a" by (metis find_Some_iff nth_mem)
    with Some show ?thesis using run mem by (auto simp: first_allowed_run)
  qed
qed

subsection \<open>Granting and withdrawing\<close>

lemma create_processing_authorization_run:
  assumes "create_processing_authorization q w = (Inr a, w')"
    and "get_active_purpose (arq_purpose_code q) w = (Inr p, w)"
  shows "purposes (privacy (db w')) = purposes (privacy (db w))" "consents (privacy (db w')) = consents (privacy (db w))"
    "authorizations (privacy (db w')) = authorizations (privacy (db w)) @ [a]"
    "pau_subject a = arq_subject q" "pau_purpose_id a = pps_id p" "pau_active a" "pau_revoked_at a = None"
    "arq_valid_from q = Some t \<Longrightarrow> pau_valid_from a = t" "pau_valid_until a = arq_valid_until q"
    "arq_basis q = Some b \<Longrightarrow> pau_basis a = b"
proof -
  have guard: "assert_not_generic_consent_for_regulated_purpose p' src v = (Inr (), v') \<Longrightarrow> v' = v" for p' src v v'
    by (auto simp: assert_not_generic_consent_for_regulated_purpose_def get_processing_purpose_by_code_def lift_def run_rules
        scalar_one_or_none_def split: if_splits option.splits sum.splits list.splits)
  have cond: "resolve_special_category_condition p' c v = (Inr c', v') \<Longrightarrow> v' = v" for p' c v v' c'
    by (auto simp: resolve_special_category_condition_def run_rules split: option.splits if_splits)
  show "purposes (privacy (db w')) = purposes (privacy (db w))" "consents (privacy (db w')) = consents (privacy (db w))"
    "authorizations (privacy (db w')) = authorizations (privacy (db w)) @ [a]"
    "pau_subject a = arq_subject q" "pau_purpose_id a = pps_id p" "pau_active a" "pau_revoked_at a = None"
    "arq_valid_from q = Some t \<Longrightarrow> pau_valid_from a = t" "pau_valid_until a = arq_valid_until q"
    "arq_basis q = Some b \<Longrightarrow> pau_basis a = b"
    using assms
    by (auto simp: create_processing_authorization_def create_authorization_def Let_def run_rules
        split: option.splits dest!: guard cond)
qed

lemma get_active_purpose_again:
  assumes "get_active_purpose code w = (Inr p, w')"
  shows "get_active_purpose (pps_code p) w = (Inr p, w)"
  using assms get_active_purpose_run [OF assms] normalise_code_idem [of code "pps_code p"]
  by (simp add: get_active_purpose_def lift_def)

lemma withdraw_active_consents_run:
  assumes "withdraw_active_consents u i at reason w = (Inr n, w')"
  shows "purposes (privacy (db w')) = purposes (privacy (db w))" "\<not> has_consent u i (db w')"
proof -
  have "\<not> list_ex (consent_active u i) (update_where (consent_active u i)
      (\<lambda>c. c\<lparr>cns_withdrawn_at := Some at, cns_withdrawal_reason := reason, cns_updated_at := t\<rparr>) cs)" for t cs
    by (induction cs) (simp_all add: update_where_def consent_active_def)
  with assms show "purposes (privacy (db w')) = purposes (privacy (db w))" "\<not> has_consent u i (db w')"
    by (auto simp: withdraw_active_consents_def bind_Inr query_run utcnow_run flush_run ret_run has_consent_def)
qed

text \<open>C21: Once a consent was withdrawn, processing for the purpose is refused unless an authorization on
  another basis is in force, however the authorizations change, until a new consent is recorded.
\<close>

theorem withdrawal_stops_processing:
  assumes "withdraw_consent X u code reason at ctx w = (Inr n, w')"
    and "purposes (privacy (db v)) = purposes (privacy (db w'))" "consents (privacy (db v)) = consents (privacy (db w'))"
  shows "\<exists>p. get_active_purpose code v = (Inr p, v) \<and>
    ((\<exists>a. assert_processing_allowed u code (Some now) v = (Inr a, v) \<and> pau_basis a \<noteq> BASIS_CONSENT \<and>
        a \<in> set (authorizations (privacy (db v))) \<and> authorization_in_force u (pps_code p) now (db v) a) \<or>
     (\<exists>m. assert_processing_allowed u code (Some now) v = (Inl (PrivacyProcessingDenied m), v)) \<and>
       (\<forall>a. a \<in> set (authorizations (privacy (db v))) \<longrightarrow> authorization_in_force u (pps_code p) now (db v) a \<longrightarrow>
          pau_basis a = BASIS_CONSENT))"
proof -
  from assms(1) obtain p w0 w1 w2 k where p: "get_active_purpose code w0 = (Inr p, w1)" "db w0 = db w"
    and c: "withdraw_active_consents u (pps_id p) k reason w1 = (Inr n, w2)" and w': "privacy (db w') = privacy (db w2)"
    by (auto simp: withdraw_consent_def run_rules dest!: record_event_run(2) split: option.splits if_splits prod.splits)
  note c = withdraw_active_consents_run [OF c]
  have "get_active_purpose code v = (Inr p, v)"
    using get_active_purpose_frame [of code w0 p v] p get_active_purpose_run(1) [OF p(1)] c(1) w' assms(2) by simp
  moreover have "\<not> has_consent u (pps_id p) (db v)"
    using c(2) w' assms(3) by (simp add: has_consent_def)
  ultimately show ?thesis
    using assert_processing_allowed_run [of code v p u now] by (auto simp: may_rely_on_def suffices_def)
qed

text \<open>For the witnesses: a newsletter that Bob agreed to.\<close>

definition newsletter :: processing_purpose where
  "newsletter = \<lparr>pps_id = 71, pps_code = ''news'', pps_title = ''Newsletter'', pps_description = None,
     pps_family = FAMILY_MARKETING, pps_default_basis = BASIS_CONSENT, pps_is_special_category = False,
     pps_default_condition = None, pps_requires_consent = True, pps_active = True, pps_created_at = 0, pps_updated_at = 0\<rparr>"

definition newsletter_authorization :: processing_authorization where
  "newsletter_authorization = \<lparr>pau_id = 72, pau_subject = 2, pau_purpose_id = 71, pau_basis = BASIS_CONSENT, pau_condition = None,
     pau_active = True, pau_valid_from = 0, pau_valid_until = None, pau_revoked_at = None, pau_source = None,
     pau_created_at = 0, pau_updated_at = 0\<rparr>"

definition newsletter_consent :: consent_record where
  "newsletter_consent = \<lparr>cns_id = 73, cns_subject = 2, cns_purpose_id = 71, cns_authorization_id = Some 72,
     cns_notice_version = ''v1'', cns_granted_at = 0, cns_withdrawn_at = None, cns_withdrawal_reason = None,
     cns_created_at = 0, cns_updated_at = 0\<rparr>"

definition consent_world :: "consent_record list \<Rightarrow> world" where
  "consent_world cs = demo_start\<lparr>db := empty_db\<lparr>users := [demo_user 2 bob],
     privacy := no_privacy_rows\<lparr>purposes := [newsletter], authorizations := [newsletter_authorization], consents := cs\<rparr>\<rparr>\<rparr>"

lemma governance_keys:
  "\<not> forbidden_key ''purpose_code''" "\<not> forbidden_key ''withdrawal_reason_code''" "\<not> forbidden_key ''privacy_notice_version''"
  by (simp_all add: forbidden_key_def normalized_key_def lower_def lower_char_def contains_str_def
      forbidden_keys_def forbidden_markers_def)

lemma newsletter_found:
  "purposes (privacy (db w)) = [newsletter] \<Longrightarrow> get_active_purpose ''news'' w = (Inr newsletter, w)"
  by (simp add: get_active_purpose_def lift_def normalise_code_def strip_def lstrip_def lower_def lower_char_def is_space_def
      get_processing_purpose_by_code_def bind_def query_def gets_def scalar_one_or_none_def ret_def newsletter_def)

lemma wp_newsletter_found:
  "purposes (privacy (db w)) = [newsletter] \<Longrightarrow> wp (get_active_purpose ''news'') Q E w = Q newsletter w"
  by (simp add: wp_def newsletter_found)

lemma newsletter_code: "pps_id newsletter = 71" "pps_code newsletter = ''news''" "pps_default_condition newsletter = None"
  "\<not> pps_is_special_category newsletter" "pps_family newsletter = FAMILY_MARKETING"
  by (simp_all add: newsletter_def)

lemmas consent_run = wp_newsletter_found newsletter_code withdraw_consent_def grant_consent_def withdraw_active_consents_def create_processing_authorization_def
  create_authorization_def create_consent_record_def resolve_special_category_condition_def
  assert_not_generic_consent_for_regulated_purpose_def consent_world_def newsletter_authorization_def newsletter_consent_def
  consent_active_def consent_authorization_def update_where_def empty_db_def no_privacy_rows_def

theorem withdrawal_stops_processing_witness:
  "\<exists>n w' m. withdraw_consent demo_externals 2 ''news'' (Some ''spam'') (Some 10) (demo_context 2) (consent_world [newsletter_consent]) = (Inr n, w') \<and>
     assert_processing_allowed 2 ''news'' (Some 20) w' = (Inl (PrivacyProcessingDenied m), w')"
proof -
  let ?m = "withdraw_consent demo_externals 2 ''news'' (Some ''spam'') (Some 10) (demo_context 2)"
  have "wp ?m (\<lambda>_ w'. list_all (\<lambda>a. pau_basis a = BASIS_CONSENT) (authorizations (privacy (db w')))) (\<lambda>_ _. False)
      (consent_world [newsletter_consent])"
    by (simp add: consent_run demo_run governance_keys privacy_user_refs_def privacy_tables_ok_def)
  then obtain n w' where run: "?m (consent_world [newsletter_consent]) = (Inr n, w')"
    and basis: "\<And>a. a \<in> set (authorizations (privacy (db w'))) \<Longrightarrow> pau_basis a = BASIS_CONSENT"
    by (auto simp: wp_def list_all_iff split: prod.splits sum.splits)
  from withdrawal_stops_processing [OF run refl refl, of 20] basis
  obtain m where "assert_processing_allowed 2 ''news'' (Some 20) w' = (Inl (PrivacyProcessingDenied m), w')" by blast
  with run show ?thesis by blast
qed

text \<open>After a consent was granted, processing for the purpose is allowed from the time of the consent on,
  and the consent is recorded with the authorization it rests on.
\<close>

theorem consent_allows_processing:
  assumes "grant_consent X u code version (Some t) cond src ctx w = (Inr c, w')" and "t \<le> now"
  shows "(\<exists>a. assert_processing_allowed u code (Some now) w' = (Inr a, w')) \<and>
    (\<exists>a. cns_authorization_id c = Some (pau_id a) \<and> a \<in> set (authorizations (privacy (db w'))) \<and> pau_basis a = BASIS_CONSENT) \<and>
    c \<in> set (consents (privacy (db w'))) \<and> cns_subject c = u \<and> cns_granted_at c = t \<and> cns_withdrawn_at c = None"
proof -
  from assms(1) obtain p w1 w2 a w3 e where p: "get_active_purpose code w = (Inr p, w1)"
    and a: "create_processing_authorization \<lparr>arq_subject = u, arq_purpose_code = pps_code p, arq_basis = Some BASIS_CONSENT,
       arq_condition = cond, arq_valid_from = Some t, arq_valid_until = None, arq_source = Some ''consent_record'',
       arq_consent_source = src\<rparr> w1 = (Inr a, w2)"
    and c: "create_consent_record (\<lambda>i c z. \<lparr>cns_id = i, cns_subject = u, cns_purpose_id = pps_id p,
       cns_authorization_id = Some (pau_id a), cns_notice_version = version, cns_granted_at = t,
       cns_withdrawn_at = None, cns_withdrawal_reason = None, cns_created_at = c, cns_updated_at = z\<rparr>) w2 = (Inr c, w3)"
    and w': "privacy (db w') = privacy (db w3)"
    by (auto simp: grant_consent_def bind_Inr ret_run dest!: record_event_run(2))
  note p' = get_active_purpose_run [OF p]
  have a': "get_active_purpose (pps_code p) w1 = (Inr p, w1)"
    using get_active_purpose_again [OF p] p'(1) by simp
  note a = create_processing_authorization_run [OF a, simplified, OF a']
  have c: "purposes (privacy (db w3)) = purposes (privacy (db w2))" "authorizations (privacy (db w3)) = authorizations (privacy (db w2))"
    "consents (privacy (db w3)) = consents (privacy (db w2)) @ [c]" "cns_subject c = u" "cns_purpose_id c = pps_id p"
    "cns_authorization_id c = Some (pau_id a)" "cns_granted_at c = t" "cns_withdrawn_at c = None"
    using c by (auto simp: create_consent_record_def bind_Inr uuid4_run utcnow_run flush_run ret_run)
  have purposes: "purposes (privacy (db w')) = purposes (privacy (db w))" using w' c a p' by simp
  have allowed: "get_active_purpose code w' = (Inr p, w')"
    using get_active_purpose_frame [of code w p w'] p p'(1) purposes by simp
  have "authorization_in_force u (pps_code p) now (db w') a"
    using a p' assms(2) purposes by (auto simp: authorization_in_force_def list_ex_iff)
  moreover have "has_consent u (pps_id p) (db w')"
    using w' c by (simp add: has_consent_def consent_active_def)
  ultimately have "may_rely_on u p now (db w') a"
    using w' c a by (simp add: may_rely_on_def suffices_def)
  then have "\<exists>a. assert_processing_allowed u code (Some now) w' = (Inr a, w')"
    using assert_processing_allowed_run [OF allowed, of u now] by blast
  moreover have "a \<in> set (authorizations (privacy (db w')))" "c \<in> set (consents (privacy (db w')))"
    using w' c a by simp_all
  ultimately show ?thesis using c a by auto
qed

theorem consent_allows_processing_witness:
  "\<exists>c w' a. grant_consent demo_externals 2 ''news'' ''v2'' (Some 10) None None (demo_context 2) (consent_world []) = (Inr c, w') \<and>
     assert_processing_allowed 2 ''news'' (Some 20) w' = (Inr a, w') \<and> cns_granted_at c = 10"
proof -
  let ?m = "grant_consent demo_externals 2 ''news'' ''v2'' (Some 10) None None (demo_context 2)"
  have "returned (fst (?m (consent_world [])))"
    by (simp add: consent_run demo_run governance_keys privacy_user_refs_def privacy_tables_ok_def)
  then obtain c w' where run: "?m (consent_world []) = (Inr c, w')" by (rule returnedE)
  from consent_allows_processing [OF run, of 20] run show ?thesis by auto
qed

end
