(* ===== verification/Retention_Theorems.thy ===== *)
theory Retention_Theorems
  imports Privacy_Maintenance Erasure_Effects Demo
begin

section \<open>What a retention pass does\<close>

text \<open>
  A pass works on at most as many rows as its limit, of every table; its preview reports what the pass then does;
  and the rows it has worked on are not selected again, so that passes one after the other reach every row.
\<close>

subsection \<open>One batch of a table\<close>

context table
begin

text \<open>Changing the rows of a batch so that they are not selected any more takes them out of what is selected.\<close>

lemma batch_leaves:
  assumes I: "integrity d" and batch: "set batch \<subseteq> set (filter p (rows d))" "distinct batch"
    and ch: "list_all2 (\<lambda>r r'. if r \<in> set batch then \<not> p r' else r' = r) (rows d) rs"
  shows "length (filter p rs) = length (filter p (rows d)) - length batch"
proof -
  have "filter p rs = filter (\<lambda>r. p r \<and> r \<notin> set batch) (rows d)"
    using ch by (induction rule: list_all2_induct) (auto split: if_splits)
  moreover have distinct: "distinct (rows d)" using key_unique [OF I] by (simp add: distinct_map)
  then have "length (filter (\<lambda>r. p r \<and> r \<notin> set batch) (rows d)) = card (set (filter (\<lambda>r. p r \<and> r \<notin> set batch) (rows d)))"
    by (intro distinct_card [symmetric]) simp
  moreover have "set (filter (\<lambda>r. p r \<and> r \<notin> set batch) (rows d)) = set (filter p (rows d)) - set batch" by auto
  moreover have "card (set (filter p (rows d)) - set batch) = card (set (filter p (rows d))) - card (set batch)"
    using batch(1) by (intro card_Diff_subset) auto
  moreover have "card (set batch) = length batch" "card (set (filter p (rows d))) = length (filter p (rows d))"
    using distinct_card [OF batch(2)] distinct_card [OF distinct_filter [OF distinct, of p]] by simp_all
  ultimately show ?thesis by simp
qed

end

context stamped_table
begin

lemma save_batch_run:
  assumes run: "save_rows put key stamp f batch w = (Inr u, w')" and I: "integrity (db w)"
    and batch: "batch = take k (oldest_first c key (filter p (rows (db w))))"
    and f: "\<And>r. key (f r) = key r" "\<And>r. p r \<Longrightarrow> f r \<noteq> r" "\<And>r t. p r \<Longrightarrow> \<not> p (stamp t (f r))"
  shows "\<exists>rs n. w' = w\<lparr>clock_pos := n, db := put (\<lambda>_. rs) (db w)\<rparr> \<and> integrity (db w') \<and>
    list_all2 (\<lambda>r r'. if r \<in> set batch then \<exists>t. r' = stamp t (f r) else r' = r) (rows (db w)) rs \<and>
    length (filter p rs) = length (filter p (rows (db w))) - k"
proof -
  have sub: "set batch \<subseteq> set (filter p (rows (db w)))" unfolding batch by (metis set_take_subset set_oldest_first)
  have keys: "distinct (map key batch)"
    using key_unique [OF I] by (simp add: batch distinct_map_filter flip: take_map)
  have "set batch = {r \<in> set (rows (db w)). r \<in> set batch}" using sub by auto
  from save_rows_run [OF run I this keys f(1)] obtain rs n where
    w': "w' = w\<lparr>clock_pos := n, db := put (\<lambda>_. rs) (db w)\<rparr>" "integrity (db w')"
    and ch: "rows_changed stamp f (\<lambda>r. r \<in> set batch) (rows (db w)) rs" by blast
  have "list_all2 (\<lambda>r r'. if r \<in> set batch then \<exists>t. r' = stamp t (f r) else r' = r) (rows (db w)) rs"
    using ch f(2) sub unfolding rows_changed_def row_changed_def
    by (elim list_all2_mono) (auto split: if_splits)
  moreover from this have "list_all2 (\<lambda>r r'. if r \<in> set batch then \<not> p r' else r' = r) (rows (db w)) rs"
    using f(3) sub by (elim list_all2_mono) (auto split: if_splits)
  from batch_leaves [OF I sub _ this] keys
  have "length (filter p rs) = length (filter p (rows (db w))) - k"
    by (simp add: batch oldest_first_def distinct_map)
  ultimately show ?thesis using w' by blast
qed

lemma retain_batch_run:
  assumes run: "(if dry \<or> batch = [] then ret (length batch)
      else bind (save_rows put key stamp f batch) (\<lambda>_. ret (length batch))) w = (Inr n, w')" and I: "integrity (db w)"
    and batch: "batch = take k (oldest_first c key (filter p (rows (db w))))"
    and f: "\<And>r. key (f r) = key r" "\<And>r. p r \<Longrightarrow> f r \<noteq> r" "\<And>r t. p r \<Longrightarrow> \<not> p (stamp t (f r))"
  shows "n = min k (length (filter p (rows (db w))))" and "dry \<Longrightarrow> w' = w"
    and "\<not> dry \<Longrightarrow> \<exists>rs m. w' = w\<lparr>clock_pos := m, db := put (\<lambda>_. rs) (db w)\<rparr> \<and> integrity (db w') \<and>
      length (filter p rs) = length (filter p (rows (db w))) - k"
proof -
  have len: "length batch = min k (length (filter p (rows (db w))))" by (simp add: batch oldest_first_def min.commute)
  show "n = min k (length (filter p (rows (db w))))" "dry \<Longrightarrow> w' = w"
    using run by (auto simp: len [symmetric] ret_run bind_Inr split: if_splits)
  show "\<exists>rs m. w' = w\<lparr>clock_pos := m, db := put (\<lambda>_. rs) (db w)\<rparr> \<and> integrity (db w') \<and>
      length (filter p rs) = length (filter p (rows (db w))) - k" if wet: "\<not> dry"
  proof (cases "batch = []")
    case True
    then have "w' = w" using run by (simp add: ret_run)
    moreover from True len have "length (filter p (rows (db w))) = length (filter p (rows (db w))) - k" by auto
    ultimately show ?thesis using I put_rows
      by (intro exI [of _ "rows (db w)"] exI [of _ "clock_pos w"]) (simp add: put_rows)
  next
    case False
    then obtain u where "save_rows put key stamp f batch w = (Inr u, w')"
      using run wet by (auto simp: bind_Inr ret_run)
    from save_batch_run [OF this I batch f] show ?thesis by blast
  qed
qed

end

subsection \<open>The four steps\<close>

abbreviation due_invites :: "invite_retention_settings \<Rightarrow> int \<Rightarrow> db \<Rightarrow> invite list" where
  "due_invites cfg now d \<equiv> filter (\<lambda>v. invite_past_retention cfg now v \<and> invite_needs_retention v) (invites d)"

abbreviation due_outbox_events :: "int \<Rightarrow> db \<Rightarrow> outbox_event list" where
  "due_outbox_events now d \<equiv> filter (\<lambda>e. outbox_event_past_retention now e \<and> outbox_event_needs_retention e) (outbox_events d)"

abbreviation due_audit_events :: "audit_settings \<Rightarrow> int \<Rightarrow> db \<Rightarrow> audit_event list" where
  "due_audit_events cfg now d \<equiv> filter (retained_audit_event cfg now) (audit_events d)"

abbreviation due_keys :: "int \<Rightarrow> db \<Rightarrow> data_subject_request list" where
  "due_keys now d \<equiv> filter (dsr_idempotency_expired now) (requests_of d)"

lemma length_oldest_first [simp]: "length (oldest_first c k rows) = length rows"
  by (simp add: oldest_first_def)

lemma filter_needed:
  assumes "\<And>r. p r \<Longrightarrow> q r"
  shows "filter q (take n (oldest_first c k (filter p rows))) = take n (oldest_first c k (filter p rows))"
  unfolding filter_id_conv using assms by (auto dest!: in_set_takeD)

lemma invite_retained [simp]: "\<not> invite_needs_retention (apply_invite_retention v)"
  by (simp add: invite_needs_retention_def apply_invite_retention_def is_scrubbed_invite_def
      suffix_scrubbed_email prefix_scrubbed_hash)

lemma payload_marked: "payload_is_scrubbed (scrubbed_outbox_payload p)"
  by (simp add: payload_is_scrubbed_def scrubbed_outbox_payload_def Let_def map_of_dict_set)

lemma outbox_retained [simp]: "\<not> outbox_event_needs_retention (apply_outbox_retention e)"
  by (simp add: outbox_event_needs_retention_def apply_outbox_retention_def Let_def payload_marked)

lemma retained_new:
  "invite_needs_retention v \<Longrightarrow> apply_invite_retention v \<noteq> v" "outbox_event_needs_retention e \<Longrightarrow> apply_outbox_retention e \<noteq> e"
  by (metis invite_retained) (metis outbox_retained)

lemma retained_stamp [simp]:
  "invite_needs_retention (v\<lparr>inv_updated_at := t\<rparr>) = invite_needs_retention v"
  "outbox_event_needs_retention (e\<lparr>obx_updated_at := t\<rparr>) = outbox_event_needs_retention e"
  by (simp_all add: invite_needs_retention_def is_scrubbed_invite_def outbox_event_needs_retention_def)

lemma invite_step_run:
  assumes I: "integrity (db w)" and run: "anonymise_retained_invites cfg now limit dry w = (Inr n, w')"
  shows "n = min limit (length (due_invites cfg now (db w)))" and "dry \<Longrightarrow> w' = w"
    and "\<not> dry \<Longrightarrow> \<exists>rs k. w' = w\<lparr>clock_pos := k, db := invites_update (\<lambda>_. rs) (db w)\<rparr> \<and> integrity (db w') \<and>
      length (due_invites cfg now (db w')) = length (due_invites cfg now (db w)) - limit"
proof -
  let ?p = "\<lambda>v. invite_past_retention cfg now v \<and> invite_needs_retention v"
  let ?f = "\<lambda>v. if invite_needs_retention v then apply_invite_retention v else v"
  let ?rows = "take limit (oldest_first inv_updated_at inv_id (due_invites cfg now (db w)))"
  have needed: "filter invite_needs_retention ?rows = ?rows" by (rule filter_needed) simp
  have step: "(if dry \<or> ?rows = [] then ret (length ?rows)
      else bind (save_rows invites_update inv_id (\<lambda>t v. v\<lparr>inv_updated_at := t\<rparr>) ?f ?rows) (\<lambda>_. ret (length ?rows))) w = (Inr n, w')"
    using run by (simp only: anonymise_retained_invites_def load_retained_invites_def Let_def bind_def query_def gets_def
        prod.case sum.case needed length_0_conv)
  have key: "inv_id (?f v) = inv_id v" for v by (simp add: apply_invite_retention_def)
  have new: "?f v \<noteq> v" "\<not> ?p (?f v\<lparr>inv_updated_at := t\<rparr>)" if "?p v" for v t
    using that retained_new(1) [of v] by auto
  show "n = min limit (length (due_invites cfg now (db w)))" by (rule saved_invite.retain_batch_run(1) [OF step I refl key new])
  show "w' = w" if dry by (rule saved_invite.retain_batch_run(2) [OF step I refl key new that])
  show "\<exists>rs k. w' = w\<lparr>clock_pos := k, db := invites_update (\<lambda>_. rs) (db w)\<rparr> \<and> integrity (db w') \<and>
      length (due_invites cfg now (db w')) = length (due_invites cfg now (db w)) - limit" if "\<not> dry"
    using saved_invite.retain_batch_run(3) [OF step I refl key new that] by auto
qed

lemma outbox_step_run:
  assumes I: "integrity (db w)" and run: "scrub_retained_outbox_events now limit dry w = (Inr n, w')"
  shows "n = min limit (length (due_outbox_events now (db w)))" and "dry \<Longrightarrow> w' = w"
    and "\<not> dry \<Longrightarrow> \<exists>rs k. w' = w\<lparr>clock_pos := k, db := outbox_events_update (\<lambda>_. rs) (db w)\<rparr> \<and> integrity (db w') \<and>
      length (due_outbox_events now (db w')) = length (due_outbox_events now (db w)) - limit"
proof -
  let ?p = "\<lambda>e. outbox_event_past_retention now e \<and> outbox_event_needs_retention e"
  let ?f = "\<lambda>e. if outbox_event_needs_retention e then apply_outbox_retention e else e"
  let ?rows = "take limit (oldest_first obx_created_at obx_id (due_outbox_events now (db w)))"
  have needed: "filter outbox_event_needs_retention ?rows = ?rows" by (rule filter_needed) simp
  have step: "(if dry \<or> ?rows = [] then ret (length ?rows)
      else bind (save_rows outbox_events_update obx_id (\<lambda>t e. e\<lparr>obx_updated_at := t\<rparr>) ?f ?rows) (\<lambda>_. ret (length ?rows))) w = (Inr n, w')"
    using run by (simp only: scrub_retained_outbox_events_def load_retained_outbox_events_def Let_def bind_def query_def gets_def
        prod.case sum.case needed length_0_conv)
  have key: "obx_id (?f e) = obx_id e" for e by (simp add: apply_outbox_retention_def Let_def)
  have new: "?f e \<noteq> e" "\<not> ?p (?f e\<lparr>obx_updated_at := t\<rparr>)" if "?p e" for e t
    using that retained_new(2) [of e] by auto
  show "n = min limit (length (due_outbox_events now (db w)))" by (rule saved_outbox.retain_batch_run(1) [OF step I refl key new])
  show "w' = w" if dry by (rule saved_outbox.retain_batch_run(2) [OF step I refl key new that])
  show "\<exists>rs k. w' = w\<lparr>clock_pos := k, db := outbox_events_update (\<lambda>_. rs) (db w)\<rparr> \<and> integrity (db w') \<and>
      length (due_outbox_events now (db w')) = length (due_outbox_events now (db w)) - limit" if "\<not> dry"
    using saved_outbox.retain_batch_run(3) [OF step I refl key new that] by auto
qed

text \<open>An update of the rows with the keys of a batch changes exactly the batch.\<close>

context table
begin

lemma update_batch:
  assumes I: "integrity d" and batch: "batch = take k (oldest_first c key (filter p (rows d)))"
    and hit: "\<And>r. r \<in> set (rows d) \<Longrightarrow> hit r \<longleftrightarrow> List.member (map key batch) (key r)"
  shows "update_where hit f (rows d) = map (\<lambda>r. if r \<in> set batch then f r else r) (rows d)"
    and "length (filter hit (rows d)) = min k (length (filter p (rows d)))"
    and "set batch \<subseteq> set (filter p (rows d))" and "distinct batch" and "length batch = min k (length (filter p (rows d)))"
proof -
  show sub: "set batch \<subseteq> set (filter p (rows d))" unfolding batch by (metis set_take_subset set_oldest_first)
  have keys: "distinct (map key batch)"
    using key_unique [OF I] by (simp add: batch distinct_map_filter flip: take_map)
  then show distinct: "distinct batch" by (simp add: distinct_map)
  have mem: "hit r \<longleftrightarrow> r \<in> set batch" if "r \<in> set (rows d)" for r
    using hit [OF that] same_key_same_row [OF I that] sub by auto
  then show "update_where hit f (rows d) = map (\<lambda>r. if r \<in> set batch then f r else r) (rows d)"
    by (simp add: update_where_def)
  show len: "length batch = min k (length (filter p (rows d)))" by (simp add: batch oldest_first_def min.commute)
  have "distinct (filter hit (rows d))" using key_unique [OF I] by (simp add: distinct_map)
  moreover have "set (filter hit (rows d)) = set batch" using mem sub by auto
  ultimately have "length (filter hit (rows d)) = length batch" using distinct by (metis distinct_card)
  then show "length (filter hit (rows d)) = min k (length (filter p (rows d)))" using len by simp
qed

end

lemma audit_step_run:
  assumes I: "integrity (db w)" and run: "minimise_retained_audit_events cfg now limit dry w = (Inr n, w')"
  shows "n = min limit (length (due_audit_events cfg now (db w)))" and "dry \<Longrightarrow> w' = w"
    and "\<not> dry \<Longrightarrow> \<exists>rs. w' = w\<lparr>db := audit_events_update (\<lambda>_. rs) (db w)\<rparr> \<and> integrity (db w')"
proof -
  let ?batch = "take limit (oldest_first aud_created_at aud_id (due_audit_events cfg now (db w)))"
  let ?ids = "map aud_id ?batch"
  let ?hit = "\<lambda>e. List.member ?ids (aud_id e) \<and> retained_audit_event cfg now e"
  have step: "(if dry \<or> ?ids = [] then ret (length ?ids)
      else bind (query (\<lambda>d. length (filter ?hit (audit_events d)))) (\<lambda>rowcount.
        bind (flush (audit_events_update (update_where ?hit anonymised))) (\<lambda>_. ret rowcount))) w = (Inr n, w')"
    using run by (simp only: minimise_retained_audit_events_def retained_audit_event_ids_def Let_def bind_def query_def gets_def
        prod.case sum.case)
  have hit: "?hit e \<longleftrightarrow> List.member ?ids (aud_id e)" if e: "e \<in> set (audit_events (db w))" for e
  proof -
    have "retained_audit_event cfg now e" if "List.member ?ids (aud_id e)"
    proof -
      from that obtain x where x: "x \<in> set ?batch" "aud_id x = aud_id e" by auto
      then have "x \<in> set (due_audit_events cfg now (db w))" by (metis in_set_takeD set_oldest_first)
      with x(2) show ?thesis using audit_table.same_key_same_row [OF I _ e, of x] by simp
    qed
    then show ?thesis by blast
  qed
  note batch = audit_table.update_batch [OF I refl hit]
  show "n = min limit (length (due_audit_events cfg now (db w)))" "dry \<Longrightarrow> w' = w"
    using step batch(2) by (auto simp: ret_run bind_Inr query_run flush_run oldest_first_def min.commute split: if_splits)
  show "\<exists>rs. w' = w\<lparr>db := audit_events_update (\<lambda>_. rs) (db w)\<rparr> \<and> integrity (db w')" if "\<not> dry"
  proof (cases "?ids = []")
    case True
    with step that I show ?thesis
      by (intro exI [of _ "audit_events (db w)"]) (simp add: ret_run audit_table.put_rows)
  next
    case False
    with step that have "w' = w\<lparr>db := audit_events_update (update_where ?hit anonymised) (db w)\<rparr>"
      "integrity (audit_events_update (update_where ?hit anonymised) (db w))"
      by (auto simp only: if_False ret_run bind_Inr query_run flush_run simp_thms)
    then show ?thesis unfolding audit_table.put_const [of "update_where ?hit anonymised" "db w"]
      by (intro exI [of _ "update_where ?hit anonymised (audit_events (db w))"]) simp
  qed
qed

lemma key_step_run:
  assumes I: "integrity (db w)" and run: "clean_expired_dsr_idempotency_keys now limit dry w = (Inr n, w')"
  shows "n = min limit (length (due_keys now (db w)))" and "dry \<Longrightarrow> w' = w"
    and "\<not> dry \<Longrightarrow> \<exists>rs k. w' = w\<lparr>clock_pos := k, db := requests_table (\<lambda>_. rs) (db w)\<rparr> \<and> integrity (db w') \<and>
      length (due_keys now (db w')) = length (due_keys now (db w)) - limit"
proof -
  let ?c = "\<lambda>r. case dsr_idempotency_expires_at r of None \<Rightarrow> 0 | Some t \<Rightarrow> t"
  let ?batch = "take limit (oldest_first ?c dsr_id (due_keys now (db w)))"
  let ?ids = "map dsr_id ?batch"
  let ?hit = "\<lambda>r. List.member ?ids (dsr_id r)"
  let ?f = "\<lambda>t r. r\<lparr>dsr_idempotency_key_hash := None, dsr_idempotency_fingerprint := None,
    dsr_idempotency_expires_at := None, dsr_updated_at := t\<rparr>"
  have step: "(if dry \<or> ?ids = [] then ret (length ?ids)
      else bind utcnow (\<lambda>t. bind (query (\<lambda>d. length (filter ?hit (requests_of d)))) (\<lambda>rowcount.
        bind (flush (requests_table (update_where ?hit (?f t)))) (\<lambda>_. ret rowcount)))) w = (Inr n, w')"
    using run by (simp only: clean_expired_dsr_idempotency_keys_def expired_dsr_idempotency_ids_def Let_def bind_def query_def gets_def
        prod.case sum.case)
  note batch = dsr_rows.update_batch [OF I refl refl]
  show "n = min limit (length (due_keys now (db w)))" "dry \<Longrightarrow> w' = w"
    using step batch(2) by (auto simp: ret_run bind_Inr query_run utcnow_run flush_run oldest_first_def min.commute split: if_splits)
  show "\<exists>rs k. w' = w\<lparr>clock_pos := k, db := requests_table (\<lambda>_. rs) (db w)\<rparr> \<and> integrity (db w') \<and>
      length (due_keys now (db w')) = length (due_keys now (db w)) - limit" if "\<not> dry"
  proof (cases "?ids = []")
    case True
    then have "length ?batch = 0" by (metis length_map list.size(3))
    then have "length (due_keys now (db w)) - limit = length (due_keys now (db w))"
      unfolding batch(5) by (auto simp: min_def split: if_splits)
    with True step that I show ?thesis
      by (intro exI [of _ "requests_of (db w)"] exI [of _ "clock_pos w"]) (simp add: ret_run dsr_rows.put_rows)
  next
    case False
    let ?t = "clock w (clock_pos w)"
    let ?rs = "update_where ?hit (?f ?t) (requests_of (db w))"
    from False step that have w': "w' = w\<lparr>clock_pos := Suc (clock_pos w), db := requests_table (update_where ?hit (?f ?t)) (db w)\<rparr>"
      "integrity (requests_table (update_where ?hit (?f ?t)) (db w))"
      by (auto simp: ret_run bind_Inr query_run utcnow_run flush_run)
    have "list_all2 (\<lambda>r r'. if r \<in> set ?batch then \<not> dsr_idempotency_expired now r' else r' = r) (requests_of (db w)) ?rs"
      unfolding batch(1) list_all2_map2 by (rule list.rel_refl_strong) (simp add: dsr_idempotency_expired_def)
    from dsr_rows.batch_leaves [OF I batch(3,4) this]
    have "length (filter (dsr_idempotency_expired now) ?rs) = length (due_keys now (db w)) - limit"
      by (simp add: oldest_first_def)
    then show ?thesis using w' dsr_rows.put_const [of "update_where ?hit (?f ?t)" "db w"]
      by (intro exI [of _ ?rs] exI [of _ "Suc (clock_pos w)"]) simp
  qed
qed

subsection \<open>The database phase\<close>

text \<open>What a pass finds to do, up to its limit.\<close>

definition preview :: "retention_settings \<Rightarrow> int \<Rightarrow> nat \<Rightarrow> db \<Rightarrow> retention_summary" where
  "preview cfg now limit d = \<lparr>expired_export_artifacts = 0,
     anonymised_invites = min limit (length (due_invites (rts_invites cfg) now d)),
     scrubbed_outbox_events = min limit (length (due_outbox_events now d)),
     minimised_audit_events = min limit (length (due_audit_events (rts_audit cfg) now d)),
     cleaned_dsr_idempotency_keys = min limit (length (due_keys now d))\<rparr>"

lemma run_non_export_retention_run:
  assumes I: "integrity (db w)" and run: "run_non_export_retention cfg now limit False w = (Inr s, w')"
  shows "s = preview cfg now limit (db w) \<and>
    length (due_invites (rts_invites cfg) now (db w')) = length (due_invites (rts_invites cfg) now (db w)) - limit \<and>
    length (due_outbox_events now (db w')) = length (due_outbox_events now (db w)) - limit \<and>
    length (due_keys now (db w')) = length (due_keys now (db w)) - limit \<and> integrity (db w')"
proof -
  from run obtain i x a k w1 w2 w3 where
    i: "anonymise_retained_invites (rts_invites cfg) now limit False w = (Inr i, w1)"
    and x: "scrub_retained_outbox_events now limit False w1 = (Inr x, w2)"
    and a: "minimise_retained_audit_events (rts_audit cfg) now limit False w2 = (Inr a, w3)"
    and k: "clean_expired_dsr_idempotency_keys now limit False w3 = (Inr k, w')"
    and s: "s = \<lparr>expired_export_artifacts = 0, anonymised_invites = i, scrubbed_outbox_events = x,
          minimised_audit_events = a, cleaned_dsr_idempotency_keys = k\<rparr>"
    unfolding run_non_export_retention_def bind_Inr ret_run by blast
  from invite_step_run(3) [OF I i] obtain ri t1 where 1: "w1 = w\<lparr>clock_pos := t1, db := invites_update (\<lambda>_. ri) (db w)\<rparr>"
    "integrity (db w1)" "length (due_invites (rts_invites cfg) now (db w1)) = length (due_invites (rts_invites cfg) now (db w)) - limit" by auto
  from outbox_step_run(3) [OF 1(2) x] obtain rx t2 where 2: "w2 = w1\<lparr>clock_pos := t2, db := outbox_events_update (\<lambda>_. rx) (db w1)\<rparr>"
    "integrity (db w2)" "length (due_outbox_events now (db w2)) = length (due_outbox_events now (db w1)) - limit" by auto
  from audit_step_run(3) [OF 2(2) a] obtain ra where 3: "w3 = w2\<lparr>db := audit_events_update (\<lambda>_. ra) (db w2)\<rparr>" "integrity (db w3)" by auto
  from key_step_run(3) [OF 3(2) k] obtain rk t4 where 4: "w' = w3\<lparr>clock_pos := t4, db := requests_table (\<lambda>_. rk) (db w3)\<rparr>"
    "integrity (db w')" "length (due_keys now (db w')) = length (due_keys now (db w3)) - limit" by auto
  have tables: "outbox_events (db w1) = outbox_events (db w)" "audit_events (db w2) = audit_events (db w)"
    "requests_of (db w3) = requests_of (db w)" "invites (db w') = invites (db w1)" "outbox_events (db w') = outbox_events (db w2)"
    using 1(1) 2(1) 3(1) 4(1) by simp_all
  show ?thesis
    using invite_step_run(1) [OF I i] outbox_step_run(1) [OF 1(2) x] audit_step_run(1) [OF 2(2) a] key_step_run(1) [OF 3(2) k]
      1(3) 2(3) 4(2,3) by (simp add: s preview_def tables)
qed

lemma dry_run_previews: "run_non_export_retention cfg now limit True w = (Inr (preview cfg now limit (db w)), w)"
proof -
  note steps = bind_def query_def gets_def ret_def Let_def
  have "filter invite_needs_retention (take limit (oldest_first inv_updated_at inv_id (due_invites (rts_invites cfg) now (db w)))) =
      take limit (oldest_first inv_updated_at inv_id (due_invites (rts_invites cfg) now (db w)))"
    "filter outbox_event_needs_retention (take limit (oldest_first obx_created_at obx_id (due_outbox_events now (db w)))) =
      take limit (oldest_first obx_created_at obx_id (due_outbox_events now (db w)))"
    by (rule filter_needed, simp)+
  then show ?thesis
    by (simp add: run_non_export_retention_def anonymise_retained_invites_def load_retained_invites_def
        scrub_retained_outbox_events_def load_retained_outbox_events_def minimise_retained_audit_events_def
        retained_audit_event_ids_def clean_expired_dsr_idempotency_keys_def expired_dsr_idempotency_ids_def steps preview_def
        min.commute)
qed


text \<open>For the witnesses: an invite that was accepted long ago.\<close>

definition retention_days_demo :: retention_settings where
  "retention_days_demo = \<lparr>rts_invites = \<lparr>accepted_days = 1, expired_days = 1, revoked_days = 1, invite_batch_size = 5\<rparr>,
     rts_audit = \<lparr>retention_days = 1, security_retention_days = 1, compliance_retention_days = 1, anonymisation_batch_size = 5\<rparr>\<rparr>"

definition demo_exports :: export_env where
  "demo_exports = \<lparr>exp_settings = \<lparr>exports_enabled = True, exports_backend = STORAGE_LOCAL, exports_schema_version = ''1'',
       artifact_retention_days = 7, download_url_ttl_seconds = 300, max_artifact_size_bytes = 1000\<rparr>,
     exp_storage = (\<lambda>_. local_storage demo_externals ''secret''), exp_archive = (\<lambda>_. ret ''zip'')\<rparr>"

lemma quiet_demo_exports: "quiet_storage demo_exports"
proof -
  have entries: "leaves_db (resolve_key k)" "leaves_db (read_entry k)" "leaves_db (write_entry k e)" "leaves_db (conflict m)"
    for k e m
    using leaves_db_lift [of "validate_key k"]
    by (simp_all add: resolve_key_def read_entry_def write_entry_def conflict_def leaves_db_def gets_def raise_def)
  show ?thesis
    unfolding quiet_storage_def demo_exports_def local_storage_def
    by (simp add: local_reserve_file_publication_def local_publish_reserved_file_def local_cancel_file_publication_def
        local_inspect_file_def local_delete_file_if_not_matching_def local_delete_def local_generate_download_url_def Let_def)
       (auto split: stored_entry.splits option.splits intro!: leaves_db_rules entries)
qed

definition old_invite :: invite where
  "old_invite = demo_invite\<lparr>inv_status := INVITE_ACCEPTED\<rparr>"

definition retention_world :: world where
  "retention_world = demo_start\<lparr>db := empty_db\<lparr>organisations := [demo_organisation], invites := [old_invite]\<rparr>\<rparr>"

definition tidy_db :: "int \<Rightarrow> db" where
  "tidy_db t = empty_db\<lparr>organisations := [demo_organisation], invites := [apply_invite_retention old_invite\<lparr>inv_updated_at := t\<rparr>]\<rparr>"

lemma retention_integrity: "integrity (db retention_world)" "integrity (tidy_db t)"
  by (simp_all add: retention_world_def tidy_db_def empty_db_def old_invite_def demo_rows demo_constraints apply_invite_retention_def)

lemma old_invite_due:
  "invite_past_retention (rts_invites retention_days_demo) (days_us 2) old_invite" "invite_needs_retention old_invite"
  by (simp_all add: retention_days_demo_def invite_past_retention_def invite_needs_retention_def old_invite_def demo_invite_def days_us_def
      is_scrubbed_invite_def suffix_def)

lemma retention_world_run:
  "\<exists>s w'. run_non_export_retention retention_days_demo (days_us 2) 3 False w = (Inr s, w') \<and> db w' = tidy_db (clock w (clock_pos w))"
  if "db w = db retention_world"
proof -
  let ?t = "clock w (clock_pos w)"
  let ?w = "w\<lparr>clock_pos := Suc (clock_pos w), db := tidy_db ?t\<rparr>"
  have w: "invites (db w) = [old_invite]" using that by (simp add: retention_world_def)
  have upd: "invites_update (replace_rows inv_id [apply_invite_retention old_invite\<lparr>inv_updated_at := ?t\<rparr>]) (db w) = tidy_db ?t"
    using that by (simp add: retention_world_def tidy_db_def replace_rows_def apply_invite_retention_def)
  have 1: "anonymise_retained_invites (rts_invites retention_days_demo) (days_us 2) 3 False w = (Inr 1, ?w)"
    using old_invite_due retained_new(1) [OF old_invite_due(2)] w upd retention_integrity(2) [of ?t]
    by (simp add: anonymise_retained_invites_def load_retained_invites_def bind_def query_def gets_def oldest_first_def ret_def
        save_one flush_def Let_def)
  have 2: "scrub_retained_outbox_events (days_us 2) 3 False ?w = (Inr 0, ?w)"
    "minimise_retained_audit_events (rts_audit retention_days_demo) (days_us 2) 3 False ?w = (Inr 0, ?w)"
    "clean_expired_dsr_idempotency_keys (days_us 2) 3 False ?w = (Inr 0, ?w)"
    by (simp_all add: scrub_retained_outbox_events_def load_retained_outbox_events_def minimise_retained_audit_events_def
        retained_audit_event_ids_def clean_expired_dsr_idempotency_keys_def expired_dsr_idempotency_ids_def bind_def query_def
        gets_def ret_def oldest_first_def tidy_db_def empty_db_def no_privacy_rows_def)
  show ?thesis by (simp add: run_non_export_retention_def bind_def 1 2 ret_def)
qed


subsection \<open>Bounds of a pass\<close>

lemma map_each_length: "map_each xs f w = (Inr ys, w') \<Longrightarrow> length ys = length xs"
  by (induction xs arbitrary: ys w w') (auto simp: ret_run bind_Inr)

lemma length_map_filter: "length (List.map_filter f xs) \<le> length xs"
  by (induction xs) (auto simp: List.map_filter_simps split: option.splits)

lemma listed_purges_bounded:
  "list_cancelled_erasure_storage_purges k w = (Inr ps, w') \<Longrightarrow> length ps \<le> k"
  "list_failed_storage_purges k w = (Inr ps, w') \<Longrightarrow> length ps \<le> k"
  "list_expired_storage_purges k ids w = (Inr ps, w') \<Longrightarrow> length ps \<le> k"
  by (auto simp: list_cancelled_erasure_storage_purges_def list_cancelled_erasure_purge_retry_def list_failed_storage_purges_def
      list_failed_storage_purge_retry_def list_expired_storage_purges_def list_expired_storage_purge_retry_def storage_purges_for_def
      bind_Inr ret_run query_run intro!: length_map_filter [THEN le_trans])

lemma expired_bounded: "expire_ready_artifacts X at k w = (Inr ids, w') \<Longrightarrow> length ids \<le> k"
  by (auto simp: expire_ready_artifacts_def list_expired_ready_def bind_Inr query_run dest!: map_each_length)

lemma delete_each_purge_subset:
  "delete_each_purge E ps w = (Inr (gone, failures), w') \<Longrightarrow> length gone \<le> length ps"
proof (induction ps arbitrary: gone failures w w')
  case (Cons p ps)
  from Cons.prems obtain f gs fs v v' where "delete_each_purge E ps v = (Inr (gs, fs), v')"
    "(case f of None \<Rightarrow> ret (p # gs, fs) | Some e \<Rightarrow> ret (gs, e # fs)) v' = (Inr (gone, failures), w')"
    by (auto simp: bind_Inr split: prod.splits)
  with Cons.IH [of v gs fs v'] show ?case by (auto simp: ret_run split: option.splits)
qed (simp add: ret_run)

lemma deleted_bounded: "delete_export_storage_purges E ps w = (Inr (gone, failures), w') \<Longrightarrow> length gone \<le> length ps"
  by (auto simp: delete_export_storage_purges_def ret_run bind_Inr split: if_splits dest: delete_each_purge_subset)

lemma cleared_bounded: "clear_export_storage_purges ps w = (Inr n, w') \<Longrightarrow> n \<le> length ps"
  by (auto simp: clear_export_storage_purges_def bind_Inr ret_run dest!: map_each_length intro: length_filter_le [THEN le_trans])

lemma preview_bounded: "count_expired_ready_artifacts ms at k w = (Inr n, w') \<Longrightarrow> n \<le> k"
  by (auto simp: count_expired_ready_artifacts_def list_cancelled_erasure_purge_retry_def list_failed_storage_purge_retry_def
      list_expired_ready_def list_expired_storage_purge_retry_def bind_Inr query_run ret_run Let_def split: if_splits)

lemma normalise_utc_run: "normalise_utc at w = (r, w') \<Longrightarrow> db w' = db w"
  by (auto simp: normalise_utc_def utcnow_run ret_run split: option.splits)

text \<open>The transactions of the exports never process more than the limit together.\<close>

lemma list_failed_step_bounded:
  assumes "list_failed_step limit gone w = (Inr (n, ps), w')" and "int (length gone) \<le> limit"
  shows "0 \<le> n" "n \<le> limit" "n + int (length ps) \<le> limit"
proof -
  from assms(1) obtain m v v' v'' where m: "clear_export_storage_purges gone v = (Inr m, v')" and n: "n = int m"
    and ps: "(if 0 < limit - int m then list_failed_storage_purges (nat (limit - int m)) else ret []) v' = (Inr ps, v'')"
    by (auto simp: list_failed_step_def session_begin_Inr bind_Inr ret_run Let_def)
  from cleared_bounded [OF m] assms(2) show "0 \<le> n" "n \<le> limit" by (simp_all add: n)
  then show "n + int (length ps) \<le> limit"
    using ps listed_purges_bounded(2) [of "nat (limit - int m)" v' ps v''] by (auto simp: n ret_run split: if_splits)
qed

lemma expire_step_bounded:
  assumes "expire_step X now limit k gone w = (Inr (n, ps), w')" and "0 \<le> k" "k + int (length gone) \<le> limit"
  shows "0 \<le> n" "n \<le> limit" "n + int (length ps) \<le> limit"
proof -
  from assms(1) obtain m v v' v'' v3 ids where m: "clear_export_storage_purges gone v = (Inr m, v')"
    and ids: "(if 0 < limit - (k + int m) then expire_ready_artifacts X (Some now) (nat (limit - (k + int m))) else ret []) v' = (Inr ids, v'')"
    and n: "n = k + int m + int (length ids)"
    and ps: "(if 0 < limit - (k + int m + int (length ids))
      then list_expired_storage_purges (nat (limit - (k + int m + int (length ids)))) ids else ret []) v'' = (Inr ps, v3)"
    unfolding expire_step_def session_begin_Inr bind_Inr ret_run Let_def by blast
  from cleared_bounded [OF m] have m: "k + int m \<le> limit" using assms(3) by simp
  with ids show "0 \<le> n" "n \<le> limit"
    using expired_bounded [of X "Some now" "nat (limit - (k + int m))" v' ids v''] assms(2) by (auto simp: n ret_run split: if_splits)
  then show "n + int (length ps) \<le> limit"
    using ps [folded n] listed_purges_bounded(3) [of "nat (limit - n)" ids v'' ps v3] by (auto simp: ret_run split: if_splits)
qed

lemma purge_exports_bounded:
  assumes "purge_exports X E now limit ps w = (Inr (n, fs), w')" and "int (length ps) \<le> limit"
  shows "n \<le> limit"
proof -
  from assms(1) obtain g1 f1 w1 n1 ps2 w2 g2 f2 w3 n2 ps3 w4 g3 f3 w5 v5 n3 v6 where
    "delete_export_storage_purges E ps w = (Inr (g1, f1), w1)" "list_failed_step limit g1 w1 = (Inr (n1, ps2), w2)"
    "delete_export_storage_purges E ps2 w2 = (Inr (g2, f2), w3)" "expire_step X now limit n1 g2 w3 = (Inr (n2, ps3), w4)"
    "delete_export_storage_purges E ps3 w4 = (Inr (g3, f3), w5)" "clear_export_storage_purges g3 v5 = (Inr n3, v6)"
    and n: "n = n2 + int n3"
    unfolding purge_exports_def by (auto simp: bind_Inr ret_run session_begin_Inr)
  note run = this
  have 1: "int (length g1) \<le> limit" using deleted_bounded [OF run(1)] assms(2) by simp
  note 2 = list_failed_step_bounded [OF run(2) 1]
  have "n1 + int (length g2) \<le> limit" using deleted_bounded [OF run(3)] 2(3) by simp
  from expire_step_bounded [OF run(4) 2(1) this] have "n2 + int (length ps3) \<le> limit" by simp
  with deleted_bounded [OF run(5)] cleared_bounded [OF run(6)] show ?thesis by (simp add: n)
qed

text \<open>C22: A retention pass is bounded: of every table it reports at most as many rows as its limit, and the retries of
  cancelled and failed exports, the newly expired exports and the purged ones share one limit.
\<close>

theorem retention_pass_bounded:
  assumes I: "integrity (db w)" and run: "run_privacy_retention_pass X E cfg at limit dry w = (Inr s, w')"
  shows "1 \<le> limit \<and> int (expired_export_artifacts s) \<le> limit \<and> int (anonymised_invites s) \<le> limit \<and>
    int (scrubbed_outbox_events s) \<le> limit \<and> int (minimised_audit_events s) \<le> limit \<and>
    int (cleaned_dsr_idempotency_keys s) \<le> limit"
proof -
  from run obtain now w0 where limit: "1 \<le> limit" and w0: "normalise_utc at w = (Inr now, w0)"
    unfolding run_privacy_retention_pass_def by (auto simp: bind_Inr ensure_run)
  have I0: "integrity (db w0)" using normalise_utc_run [OF w0] I by simp
  let ?bounded = "\<lambda>x. int (anonymised_invites x) \<le> limit \<and> int (scrubbed_outbox_events x) \<le> limit \<and>
    int (minimised_audit_events x) \<le> limit \<and> int (cleaned_dsr_idempotency_keys x) \<le> limit"
  have previewed: "?bounded (preview cfg now (nat limit) d)" for d
    using limit by (simp add: preview_def min_def) linarith
  show ?thesis
  proof (cases dry)
    case True
    with run w0 limit obtain v where "run_privacy_retention_maintenance X cfg (Some now) limit True w0 = (Inr s, v)"
      by (auto simp: run_privacy_retention_pass_def bind_def ensure_def rolled_back_def split: prod.splits)
    then obtain n where "count_expired_ready_artifacts [] (Some now) (nat limit) w0 = (Inr n, v)"
      and s: "s = preview cfg now (nat limit) (db w0)\<lparr>expired_export_artifacts := n\<rparr>"
      by (auto simp: run_privacy_retention_maintenance_def expire_ready_export_artifacts_def normalise_utc_def bind_Inr ensure_run
          ret_run dry_run_previews)
    from preview_bounded [OF this(1)] previewed [of "db w0"] limit show ?thesis by (simp add: s)
  next
    case False
    with run w0 limit obtain s0 ps w1 n fs w2 where 1: "list_cancelled_step cfg now limit w0 = (Inr (s0, ps), w1)"
      and 2: "purge_exports X E now limit ps w1 = (Inr (n, fs), w2)" and s: "s = s0\<lparr>expired_export_artifacts := nat n\<rparr>"
      by (auto simp: run_privacy_retention_pass_def bind_Inr ensure_run Let_def ret_run raise_run split: if_splits)
    from 1 obtain v1 v2 where run: "run_non_export_retention cfg now (nat limit) False (w0\<lparr>in_tx := True\<rparr>) = (Inr s0, v1)"
      and ps: "list_cancelled_erasure_storage_purges (nat limit) v1 = (Inr ps, v2)"
      by (auto simp: list_cancelled_step_def session_begin_Inr bind_Inr ret_run)
    have "s0 = preview cfg now (nat limit) (db w0)" using run_non_export_retention_run [OF _ run] I0 by simp
    moreover have "int (length ps) \<le> limit" using listed_purges_bounded(1) [OF ps] limit by simp
    ultimately show ?thesis using previewed [of "db w0"] purge_exports_bounded [OF 2] limit by (simp add: s)
  qed
qed

lemma nothing_to_purge:
  assumes "db w = tidy_db t" and "\<not> in_tx w"
  shows "purge_exports X E now 3 [] w = (Inr (0, []), w)"
proof -
  have w: "w\<lparr>in_tx := False\<rparr> = w" using assms(2) by (cases w) simp
  show ?thesis using assms w
    by (simp add: purge_exports_def delete_export_storage_purges_def list_failed_step_def expire_step_def session_begin_def
        clear_export_storage_purges_def list_failed_storage_purges_def list_failed_storage_purge_retry_def nulls_last_def
        expire_ready_artifacts_def list_expired_ready_def list_expired_storage_purges_def list_expired_storage_purge_retry_def
        validate_positive_limit_def storage_purges_for_def List.map_filter_simps oldest_first_def bind_def query_def gets_def
        ensure_def ret_def tidy_db_def empty_db_def no_privacy_rows_def)
qed

theorem retention_pass_bounded_witness:
  "\<exists>s w'. run_privacy_retention_pass demo_externals demo_exports retention_days_demo (Some (days_us 2)) 3 False retention_world = (Inr s, w') \<and>
     int (anonymised_invites s) \<le> 3"
proof -
  let ?w = "retention_world\<lparr>in_tx := True\<rparr>"
  obtain s v where run: "run_non_export_retention retention_days_demo (days_us 2) 3 False ?w = (Inr s, v)"
    and v: "db v = tidy_db (clock ?w (clock_pos ?w))"
    using retention_world_run [of ?w] by auto
  have "list_cancelled_step retention_days_demo (days_us 2) 3 retention_world = (Inr (s, []), v\<lparr>in_tx := False\<rparr>)"
    using run v by (simp add: list_cancelled_step_def session_begin_def retention_world_def demo_start_def bind_def ret_def
        list_cancelled_erasure_storage_purges_def list_cancelled_erasure_purge_retry_def validate_positive_limit_def ensure_def query_def
        gets_def nulls_last_def oldest_first_def storage_purges_for_def List.map_filter_simps tidy_db_def empty_db_def no_privacy_rows_def)
  then have pass: "run_privacy_retention_pass demo_externals demo_exports retention_days_demo (Some (days_us 2)) 3 False retention_world =
      (Inr (s\<lparr>expired_export_artifacts := 0\<rparr>), v\<lparr>in_tx := False\<rparr>)"
    using nothing_to_purge [of "v\<lparr>in_tx := False\<rparr>"] v
    by (simp add: run_privacy_retention_pass_def bind_def ensure_def normalise_utc_def ret_def Let_def)
  from retention_pass_bounded [OF retention_integrity(1) pass] pass show ?thesis by blast
qed

end
