(* ===== verification/Request_Theorems.thy ===== *)
theory Request_Theorems
  imports Privacy_API Erasure_Theorems Governance_Theorems Retention_Theorems
begin

section \<open>Data-subject requests\<close>

text \<open>
  Submitting a request twice under one idempotency key, the states a request goes through, and what
  a download link of an export is good for.
\<close>

subsection \<open>Submitting twice\<close>

text \<open>The checks of a submission that do not read the database.\<close>

definition intake :: "uuid \<Rightarrow> submission \<Rightarrow> app_error + (dsr_type \<times> dsr_requester_role \<times> representative_values)" where
  "intake requester s =
     then_check (normalise_request_type (sub_request_type s)) (\<lambda>rtype.
     then_check (normalise_requester_role (sub_role s)) (\<lambda>role.
     if (case sub_note s of None \<Rightarrow> True | Some n \<Rightarrow> length n \<le> 2000)
     then then_check (validate_idempotency_key_safety (normalise_idempotency_key (sub_key s))) (\<lambda>_.
       then_check (build_representative_intake_values requester (sub_subject s) role
         (dsr_optional_text (sub_relationship s)) (dsr_optional_text (sub_authority_note s))) (\<lambda>v.
       Inr (rtype, role, v)))
     else Inl (BadRequestError ''Requester note exceeds maximum length of 2000 characters'')))"

definition submit_checked ::
  "externals \<Rightarrow> uuid \<Rightarrow> submission \<Rightarrow> int \<Rightarrow> audit_context \<Rightarrow> dsr_type \<Rightarrow> representative_values \<Rightarrow> data_subject_request app" where
  "submit_checked X requester s now ctx rtype v =
     (case map_option (sha256_hex X) (normalise_idempotency_key (sub_key s)) of
       None \<Rightarrow> create_submitted X (submitted_request rtype requester v (sub_note s) now None None) ctx
     | Some h \<Rightarrow>
       bind (lock_requester_for_idempotency requester) (\<lambda>_.
       bind (get_non_expired_by_idempotency_key_hash requester h now) (\<lambda>existing.
       case existing of
         Some r \<Rightarrow>
           if idempotency_fingerprint_matches r (Some (build_fingerprint X rtype (sub_note s) v))
             (if rpv_role v = REQUESTER_SELF then Some (build_pre_representative_fingerprint X rtype (sub_note s)) else None)
           then ret r
           else raise (ConflictError ''Idempotency key is already used for another request payload'')
       | None \<Rightarrow>
           create_submitted X (submitted_request rtype requester v (sub_note s) now (Some h)
             (Some (build_fingerprint X rtype (sub_note s) v))) ctx)))"

lemma lift_simps:
  "lift (then_check r f) = bind (lift r) (\<lambda>x. lift (f x))"
  "lift (if b then r else Inl e) = bind (ensure b e) (\<lambda>_. lift r)"
  "lift (Inr x) = ret x"
  by (rule ext, simp add: lift_def then_check_def bind_def ensure_def ret_def raise_def split: sum.splits)+

lemma submit_request_eq:
  "submit_request X u s (Some now) ctx =
     bind (lift (intake u s)) (\<lambda>(rtype, role, v).
     bind (ensure_representative_subject_exists role (rpv_subject v)) (\<lambda>_.
     submit_checked X u s now ctx rtype v))"
  unfolding submit_request_def intake_def submit_checked_def Let_def by (simp add: lift_simps bind_assoc)

text \<open>Every row the key protects at a time was protected before.\<close>

lemma key_in_use_earlier: "key_in_use u h t' r \<Longrightarrow> t \<le> t' \<Longrightarrow> key_in_use u h t r"
  by (auto simp: key_in_use_def split: option.splits)

lemma take1_filter:
  assumes "take 1 (filter p ys) = [r]" and "\<And>y. y \<in> set ys \<Longrightarrow> q y \<Longrightarrow> p y" and "q r"
  shows "take 1 (filter q ys) = [r]"
  using assms by (induction ys) (auto split: if_splits)

lemma latest_first_filter: "latest_first f (filter p rows) = filter p (latest_first f rows)"
  by (simp add: latest_first_def filter_sort)

lemma get_by_key_run:
  "get_non_expired_by_idempotency_key_hash u h now w =
     (Inr (case take 1 (filter (key_in_use u h now) (latest_first dsr_created_at (requests_of (db w)))) of
        [] \<Rightarrow> None | r # _ \<Rightarrow> Some r), w)"
proof -
  let ?rows = "filter (key_in_use u h now) (latest_first dsr_created_at (requests_of (db w)))"
  show ?thesis
    by (cases ?rows) (simp_all add: get_non_expired_by_idempotency_key_hash_def latest_first_filter bind_def query_def gets_def
        scalar_one_or_none_def ret_def)
qed

lemma create_submitted_run:
  assumes "create_submitted X row ctx w = (Inr r, w')"
  obtains i c t where "r = row i c t" "requests_of (db w') = requests_of (db w) @ [r]" "users (db w') = users (db w)"
proof -
  from assms obtain w1 e where "dsr_create row w = (Inr r, w1)" "db w' = audit_events_update (\<lambda>rows. rows @ [e]) (db w1)"
    by (auto simp: create_submitted_def record_status_event_def bind_Inr ret_run dest!: record_event_run(2))
  with that show thesis by (auto simp: dsr_create_def bind_Inr uuid4_run utcnow_run flush_run ret_run Let_def)
qed

text \<open>What a submission under a key returns: the row the key protects, or a new one that it protects from then on.\<close>

lemma submit_checked_run:
  assumes run: "submit_checked X u s now ctx rtype v w = (Inr r, w')"
    and key: "map_option (sha256_hex X) (normalise_idempotency_key (sub_key s)) = Some h"
  shows "take 1 (filter (key_in_use u h now) (latest_first dsr_created_at (requests_of (db w')))) = [r] \<and>
    idempotency_fingerprint_matches r (Some (build_fingerprint X rtype (sub_note s) v))
      (if rpv_role v = REQUESTER_SELF then Some (build_pre_representative_fingerprint X rtype (sub_note s)) else None) \<and>
    users (db w') = users (db w)"
proof -
  let ?old = "filter (key_in_use u h now) (latest_first dsr_created_at (requests_of (db w)))"
  have lock: "lock_requester_for_idempotency u w = (Inr (), w)"
    by (simp add: lock_requester_for_idempotency_def bind_def query_def gets_def ret_def)
  show ?thesis
  proof (cases ?old)
    case Nil
    then have "create_submitted X (submitted_request rtype u v (sub_note s) now (Some h)
        (Some (build_fingerprint X rtype (sub_note s) v))) ctx w = (Inr r, w')"
      using run key by (simp add: submit_checked_def bind_def lock get_by_key_run)
    then obtain i c t where r: "r = submitted_request rtype u v (sub_note s) now (Some h)
        (Some (build_fingerprint X rtype (sub_note s) v)) i c t"
      and rows: "requests_of (db w') = requests_of (db w) @ [r]" "users (db w') = users (db w)"
      by (rule create_submitted_run)
    have "filter (key_in_use u h now) (requests_of (db w)) = []"
      using Nil by (simp add: filter_empty_conv)
    moreover have "key_in_use u h now r" by (simp add: r key_in_use_def submitted_request_def hours_us_def)
    ultimately have "filter (key_in_use u h now) (latest_first dsr_created_at (requests_of (db w'))) = [r]"
      unfolding latest_first_filter [symmetric] rows(1) by (simp add: latest_first_def)
    moreover have "idempotency_fingerprint_matches r (Some (build_fingerprint X rtype (sub_note s) v)) legacy" for legacy
      by (simp add: r idempotency_fingerprint_matches_def submitted_request_def)
    ultimately show ?thesis using rows by simp
  next
    case (Cons x xs)
    then show ?thesis using run key
      by (auto simp: submit_checked_def bind_def lock get_by_key_run ret_def raise_def split: if_splits)
  qed
qed

lemma ensure_subject_run:
  "ensure_representative_subject_exists role x w = (Inr (), w) \<or> (\<exists>e. ensure_representative_subject_exists role x w = (Inl e, w))"
  "users (db v) = users (db w) \<Longrightarrow> fst (ensure_representative_subject_exists role x v) = fst (ensure_representative_subject_exists role x w)"
  by (auto simp: ensure_representative_subject_exists_def user_exists_by_id_def bind_def query_def gets_def ensure_def ret_def
      scalar_one_or_none_def raise_def split: list.splits)

text \<open>Two submissions with one fingerprint under one key: the second returns the row of the first.\<close>

lemma same_fingerprint:
  assumes first: "submit_request X u s (Some t) ctx w = (Inr r, w')" and key: "normalise_idempotency_key (sub_key s) = Some k"
    and same: "normalise_idempotency_key (sub_key s') = Some k"
    and intake: "intake u s = Inr (rtype, role, v)" "intake u s' = Inr (rtype', role', v')" "rpv_role v' = rpv_role v"
    and fp: "fingerprint_source rtype' (sub_note s') v' = fingerprint_source rtype (sub_note s) v"
    and legacy: "rpv_role v = REQUESTER_SELF \<Longrightarrow> rtype' = rtype \<and> sub_note s' = sub_note s"
    and later: "requests_of (db z) = requests_of (db w')" "t \<le> t'" "dsr_idempotency_expires_at r = Some e" "t' < e"
    and subject: "ensure_representative_subject_exists role' (rpv_subject v') z = (Inr (), z)"
  shows "submit_request X u s' (Some t') ctx' z = (Inr r, z)"
proof -
  let ?h = "sha256_hex X k"
  from first intake(1) have "submit_checked X u s t ctx rtype v w = (Inr r, w')"
    using ensure_subject_run(1) [of role "rpv_subject v" w] by (auto simp: submit_request_eq bind_Inr lift_def ret_run)
  note r = submit_checked_run [OF this, of ?h, unfolded key, simplified]
  have "r \<in> set (take 1 (filter (key_in_use u ?h t) (latest_first dsr_created_at (requests_of (db w')))))" using r by simp
  then have "key_in_use u ?h t r" by (metis (no_types, lifting) in_set_takeD filter_set mem_Collect_eq set_filter)
  with later have now: "key_in_use u ?h t' r" by (simp add: key_in_use_def)
  have "take 1 (filter (key_in_use u ?h t') (latest_first dsr_created_at (requests_of (db z)))) = [r]"
    unfolding later(1) by (rule take1_filter [of "key_in_use u ?h t"]) (use r now later(2) key_in_use_earlier in auto)
  then have "submit_checked X u s' t' ctx' rtype' v' z = (Inr r, z)"
    using r fp legacy intake(3) same
    by (auto simp: submit_checked_def bind_def lock_requester_for_idempotency_def query_def gets_def ret_def get_by_key_run
        build_fingerprint_def)
  then show ?thesis using intake(2) subject by (simp add: submit_request_eq lift_def bind_def ret_def)
qed

text \<open>C31: Submitting is idempotent. While the key of a request protects it, the same submission by the same person
  under that key returns the request as it is stored and changes nothing.\<close>

theorem resubmission_changes_nothing:
  assumes first: "submit_request X u s (Some t) ctx w = (Inr r, w')" and "sub_key s = Some k"
    and "requests_of (db z) = requests_of (db w')" "users (db z) = users (db w')"
    and "t \<le> t'" "dsr_idempotency_expires_at r = Some e" "t' < e"
  shows "submit_request X u s (Some t') ctx' z = (Inr r, z)"
proof -
  have key: "normalise_idempotency_key (sub_key s) = Some (strip k)" using assms(2) by (simp add: normalise_idempotency_key_def)
  from first obtain rtype role v where intake: "intake u s = Inr (rtype, role, v)"
    and w: "ensure_representative_subject_exists role (rpv_subject v) w = (Inr (), w)"
    and run: "submit_checked X u s t ctx rtype v w = (Inr r, w')"
    using ensure_subject_run(1) by (fastforce simp: submit_request_eq bind_Inr lift_def ret_run raise_run split: sum.splits)
  have "users (db z) = users (db w)" using submit_checked_run [OF run, of "sha256_hex X (strip k)"] key assms(4) by simp
  with ensure_subject_run(2) [OF this, of role "rpv_subject v"] ensure_subject_run(1) [of role "rpv_subject v" z] w
  have "ensure_representative_subject_exists role (rpv_subject v) z = (Inr (), z)" by auto
  from same_fingerprint [OF first key key intake intake refl refl _ assms(3,5,6,7) this] show ?thesis by simp
qed

text \<open>
  The fingerprint joins its fields with a bar that the fields themselves may contain, so that a bar in the relationship
  and one in the note of authority are not told apart.
\<close>

definition representative_submission :: "uuid \<Rightarrow> string \<Rightarrow> string \<Rightarrow> string \<Rightarrow> submission" where
  "representative_submission whom relationship note key =
     \<lparr>sub_request_type = ''export'', sub_note = None, sub_subject = Some whom, sub_role = ''authorised_representative'',
      sub_relationship = Some relationship, sub_authority_note = Some note, sub_key = Some key\<rparr>"

definition note_field :: string where
  "note_field = ''|representative_authority_note=''"

definition trimmed :: "string \<Rightarrow> bool" where
  "trimmed s \<longleftrightarrow> s \<noteq> [] \<and> strip s = s"

lemma representative_intake:
  assumes "trimmed rel" "trimmed note"
  shows "intake u (representative_submission x rel note k) = Inr res \<longleftrightarrow>
    validate_idempotency_key_safety (Some (strip k)) = Inr () \<and> x \<noteq> u \<and> length rel \<le> 64 \<and> length note \<le> 2000 \<and>
    res = (DSR_EXPORT, REQUESTER_REPRESENTATIVE, \<lparr>rpv_subject = x, rpv_role = REQUESTER_REPRESENTATIVE,
      rpv_status = REP_PENDING_VERIFICATION, rpv_relationship = Some rel, rpv_note = Some note\<rparr>)"
  using assms
  by (auto simp: intake_def representative_submission_def normalise_request_type_def dsr_types_def normalise_requester_role_def
      normalise_idempotency_key_def dsr_optional_text_def build_representative_intake_values_def trimmed_def split: if_splits)

text \<open>For the witnesses: Alice acts for Bob.\<close>

definition submission_world :: world where
  "submission_world = demo_start\<lparr>db := empty_db\<lparr>users := [demo_user 1 alice, demo_user 2 bob]\<rparr>\<rparr>"

lemma demo_key_safe: "validate_idempotency_key_safety (Some ''k1'') = Inr ()"
  by code_simp

lemma request_keys: "\<not> forbidden_key ''request_type''" "\<not> forbidden_key ''status''"
  by (simp_all add: forbidden_key_def normalized_key_def lower_def lower_char_def contains_str_def
      forbidden_keys_def forbidden_markers_def)

lemma submission_returns:
  assumes "trimmed rel" "trimmed note" "length rel \<le> 64" "length note \<le> 2000"
  shows "\<exists>r w'. submit_request demo_externals 1 (representative_submission 2 rel note ''k1'') (Some 10) (demo_context 1) submission_world = (Inr r, w') \<and>
    dsr_idempotency_expires_at r = Some (10 + hours_us 24) \<and> dsr_representative_relationship r = Some rel"
proof -
  let ?v = "\<lparr>rpv_subject = 2, rpv_role = REQUESTER_REPRESENTATIVE,
      rpv_status = REP_PENDING_VERIFICATION, rpv_relationship = Some rel, rpv_note = Some note\<rparr>"
  let ?s = "representative_submission 2 rel note ''k1''"
  have strip: "strip ''k1'' = ''k1''" by (simp add: strip_def lstrip_def is_space_def)
  have intake: "intake 1 ?s = Inr (DSR_EXPORT, REQUESTER_REPRESENTATIVE, ?v)"
    unfolding representative_intake [OF assms(1,2)] using assms(3,4) demo_key_safe by (simp add: strip)
  have subject: "ensure_representative_subject_exists REQUESTER_REPRESENTATIVE 2 submission_world = (Inr (), submission_world)"
    by (simp add: ensure_representative_subject_exists_def user_exists_by_id_def submission_world_def demo_rows bind_def query_def gets_def
        ensure_def ret_def scalar_one_or_none_def)
  let ?row = "submitted_request DSR_EXPORT 1 ?v None 10 (Some (sha256_hex demo_externals ''k1''))
    (Some (build_fingerprint demo_externals DSR_EXPORT None ?v))"
  have "wp (create_submitted demo_externals ?row (demo_context 1)) (\<lambda>r _. dsr_idempotency_expires_at r = Some (10 + hours_us 24) \<and>
      dsr_representative_relationship r = Some rel) (\<lambda>_ _. False) submission_world"
    by (simp add: create_submitted_def dsr_create_def record_status_event_def demo_run submission_world_def empty_db_def
        no_privacy_rows_def submitted_request_def request_keys privacy_user_refs_def privacy_tables_ok_def)
  then obtain r w' where run: "create_submitted demo_externals ?row (demo_context 1) submission_world = (Inr r, w')"
    and r: "dsr_idempotency_expires_at r = Some (10 + hours_us 24)" "dsr_representative_relationship r = Some rel"
    by (auto simp: wp_def split: prod.splits sum.splits)
  have fields: "sub_key ?s = Some ''k1''" "sub_note ?s = None" by (simp_all add: representative_submission_def)
  have "get_non_expired_by_idempotency_key_hash 1 h 10 submission_world = (Inr None, submission_world)" for h
    by (simp add: get_by_key_run submission_world_def empty_db_def no_privacy_rows_def)
  then have "submit_checked demo_externals 1 ?s 10 (demo_context 1) DSR_EXPORT ?v submission_world = (Inr r, w')"
    using run by (simp add: submit_checked_def fields normalise_idempotency_key_def strip bind_def lock_requester_for_idempotency_def
        query_def gets_def ret_def)
  then have "submit_request demo_externals 1 ?s (Some 10) (demo_context 1) submission_world = (Inr r, w')"
    using intake subject by (simp add: submit_request_eq lift_def bind_def ret_def)
  with r show ?thesis by blast
qed

text \<open>C32: The protection of a key is not exact. A request by a representative with the relationship \<open>a|representative_authority_note=b\<close>
  and the note \<open>c\<close> protects its key also against the different payload with the relationship \<open>a\<close> and the note
  \<open>b|representative_authority_note=c\<close>: that submission is answered with the first request instead of a conflict.\<close>

theorem different_payload_is_taken_for_the_same:
  assumes first: "submit_request X u (representative_submission x (a @ note_field @ b) c k) (Some t) ctx w = (Inr r, w')"
    and texts: "trimmed a" "trimmed (a @ note_field @ b)" "trimmed c" "trimmed (b @ note_field @ c)"
    and "length (b @ note_field @ c) \<le> 2000"
    and later: "requests_of (db z) = requests_of (db w')" "users (db z) = users (db w')"
    "t \<le> t'" "dsr_idempotency_expires_at r = Some e" "t' < e"
  shows "submit_request X u (representative_submission x a (b @ note_field @ c) k) (Some t') ctx' z = (Inr r, z)"
proof -
  let ?s = "representative_submission x (a @ note_field @ b) c k" and ?s' = "representative_submission x a (b @ note_field @ c) k"
  have key: "normalise_idempotency_key (sub_key ?s) = Some (strip k)" "normalise_idempotency_key (sub_key ?s') = Some (strip k)"
    by (simp_all add: representative_submission_def normalise_idempotency_key_def)
  from first obtain rtype role v where intake: "intake u ?s = Inr (rtype, role, v)"
    and w: "ensure_representative_subject_exists role (rpv_subject v) w = (Inr (), w)"
    and run: "submit_checked X u ?s t ctx rtype v w = (Inr r, w')"
    using ensure_subject_run(1) by (fastforce simp: submit_request_eq bind_Inr lift_def ret_run raise_run split: sum.splits)
  note v = intake [unfolded representative_intake [OF texts(2,3)]]
  let ?v = "v\<lparr>rpv_relationship := Some a, rpv_note := Some (b @ note_field @ c)\<rparr>"
  have intake': "intake u ?s' = Inr (rtype, role, ?v)"
    unfolding representative_intake [OF texts(1,4)] using v assms(6) by simp
  have "users (db z) = users (db w)" using submit_checked_run [OF run, of "sha256_hex X (strip k)"] key later(2) by simp
  with ensure_subject_run(2) [OF this, of role "rpv_subject v"] ensure_subject_run(1) [of role "rpv_subject v" z] w
  have "ensure_representative_subject_exists role (rpv_subject ?v) z = (Inr (), z)" by auto
  moreover have "fingerprint_source rtype (sub_note ?s') ?v = fingerprint_source rtype (sub_note ?s) v"
    using v by (simp add: fingerprint_source_def or_empty_def representative_submission_def note_field_def)
  moreover have "rpv_role v = REQUESTER_SELF \<Longrightarrow> rtype = rtype \<and> sub_note ?s' = sub_note ?s" using v by simp
  ultimately show ?thesis
    using same_fingerprint [OF first key intake intake'] later by simp
qed

theorem resubmission_changes_nothing_witness:
  "\<exists>r w'. submit_request demo_externals 1 (representative_submission 2 ''friend'' ''letter'' ''k1'') (Some 10) (demo_context 1) submission_world = (Inr r, w') \<and>
     submit_request demo_externals 1 (representative_submission 2 ''friend'' ''letter'' ''k1'') (Some 20) (demo_context 1) w' = (Inr r, w')"
proof -
  have "trimmed ''friend''" "trimmed ''letter''" by (simp_all add: trimmed_def strip_def lstrip_def is_space_def)
  from submission_returns [OF this] obtain r w' where
    run: "submit_request demo_externals 1 (representative_submission 2 ''friend'' ''letter'' ''k1'') (Some 10) (demo_context 1) submission_world = (Inr r, w')"
    and e: "dsr_idempotency_expires_at r = Some (10 + hours_us 24)" by auto
  have "submit_request demo_externals 1 (representative_submission 2 ''friend'' ''letter'' ''k1'') (Some 20) (demo_context 1) w' = (Inr r, w')"
    by (rule resubmission_changes_nothing [OF run _ refl refl _ e]) (simp_all add: representative_submission_def hours_us_def)
  with run show ?thesis by blast
qed

theorem different_payload_is_taken_for_the_same_witness:
  "\<exists>r w'. submit_request demo_externals 1 (representative_submission 2 (''friend'' @ note_field @ ''none'') ''letter'' ''k1'') (Some 10)
       (demo_context 1) submission_world = (Inr r, w') \<and>
     submit_request demo_externals 1 (representative_submission 2 ''friend'' (''none'' @ note_field @ ''letter'') ''k1'') (Some 20)
       (demo_context 1) w' = (Inr r, w') \<and> dsr_representative_relationship r \<noteq> Some ''friend''"
proof -
  have t: "trimmed ''friend''" "trimmed (''friend'' @ note_field @ ''none'')" "trimmed ''letter''" "trimmed (''none'' @ note_field @ ''letter'')"
    by (simp_all add: trimmed_def strip_def lstrip_def is_space_def note_field_def)
  from submission_returns [OF t(2,3)] obtain r w' where
    run: "submit_request demo_externals 1 (representative_submission 2 (''friend'' @ note_field @ ''none'') ''letter'' ''k1'') (Some 10)
       (demo_context 1) submission_world = (Inr r, w')"
    and e: "dsr_idempotency_expires_at r = Some (10 + hours_us 24)" "dsr_representative_relationship r \<noteq> Some ''friend''"
    by (auto simp: note_field_def)
  from different_payload_is_taken_for_the_same [OF run t _ refl refl _ e(1), of 20 "demo_context 1"] run e(2) show ?thesis
    by (auto simp: note_field_def hours_us_def)
qed

subsection \<open>Download links\<close>

lemma whole_seconds_le: "0 < whole_seconds d \<Longrightarrow> 1000000 * whole_seconds d \<le> d"
  unfolding whole_seconds_def by (auto split: if_splits)

text \<open>What the service grants: the link of a ready, unexpired artifact of a live request, for no longer than the artifact lasts.\<close>

definition link_lawful :: "export_env \<Rightarrow> db \<Rightarrow> export_artifact \<Rightarrow> int \<Rightarrow> download_url \<Rightarrow> bool" where
  "link_lawful E d a now url \<longleftrightarrow> exports_enabled (exp_settings E) \<and> art_status a = ART_READY \<and> art_storage_key a \<noteq> None \<and>
     (\<exists>r \<in> set (requests_of d). dsr_id r = art_dsr_id a \<and> dsr_request_type r = DSR_EXPORT \<and>
        dsr_status r \<in> {DSR_APPROVED, DSR_FULFILLED} \<and> dsr_subject r \<noteq> None) \<and>
     dld_expires_in_seconds url \<le> download_url_ttl_seconds (exp_settings E) \<and>
     now + 1000000 * dld_expires_in_seconds url \<le> art_expires_at a \<and>
     (0 < download_url_ttl_seconds (exp_settings E) \<longrightarrow> 0 < dld_expires_in_seconds url)"

lemma dsr_get_by_id_member: "dsr_get_by_id i w = (Inr (Some r), w') \<Longrightarrow> r \<in> set (requests_of (db w)) \<and> dsr_id r = i \<and> w' = w"
  by (auto simp: dsr_get_by_id_def bind_Inr query_run scalar_one_or_none_def ret_run raise_run split: list.splits
      dest!: Cons_eq_filterD [OF sym])

lemma still_eligible_run:
  assumes "ensure_download_dsr_is_still_eligible a w = (Inr (), w')"
  shows "w' = w \<and> (\<exists>r \<in> set (requests_of (db w)). dsr_id r = art_dsr_id a \<and> dsr_request_type r = DSR_EXPORT \<and>
    dsr_status r \<in> {DSR_APPROVED, DSR_FULFILLED} \<and> dsr_subject r \<noteq> None)"
proof -
  from assms obtain r w1 where r: "dsr_get_by_id (art_dsr_id a) w = (Inr (Some r), w1)" "w' = w1"
    and ok: "has_export_dsr_participant_links r \<and> dsr_request_type r = DSR_EXPORT \<and> List.member [DSR_APPROVED, DSR_FULFILLED] (dsr_status r)"
    by (auto simp: ensure_download_dsr_is_still_eligible_def bind_Inr ensure_run split: option.splits)
  from dsr_get_by_id_member [OF r(1)] ok r(2) show ?thesis by (auto simp: has_export_dsr_participant_links_def)
qed

lemma generate_download_url_run:
  assumes "generate_download_url X E a ctx w = (Inr url, w')"
  shows "link_lawful E (db w) a (clock w (clock_pos w)) url"
proof -
  let ?w = "w\<lparr>clock_pos := Suc (clock_pos w)\<rparr>"
  let ?left = "whole_seconds (art_expires_at a - clock w (clock_pos w))"
  from assms obtain w1 where
    "exports_enabled (exp_settings E)" "art_status a = ART_READY" "ensure_download_dsr_is_still_eligible a ?w = (Inr (), w1)"
    "0 < ?left" "art_storage_key a \<noteq> None"
    "dld_expires_in_seconds url = min (download_url_ttl_seconds (exp_settings E)) ?left"
    by (auto simp: generate_download_url_def ensure_exports_enabled_def bind_Inr ensure_run utcnow_run Let_def ret_run raise_run
        split: option.splits)
  with still_eligible_run [of a ?w w1] whole_seconds_le [of "art_expires_at a - clock w (clock_pos w)"]
  show ?thesis by (auto simp: link_lawful_def min_def)
qed

text \<open>A program that reads the clock but does not set it.\<close>

definition punctual :: "'a app \<Rightarrow> bool" where
  "punctual m \<longleftrightarrow> (\<forall>w. clock (snd (m w)) = clock w \<and> clock_pos w \<le> clock_pos (snd (m w)))"

lemma punctualD: "punctual m \<Longrightarrow> m w = (r, w') \<Longrightarrow> clock w' = clock w \<and> clock_pos w \<le> clock_pos w'"
  unfolding punctual_def by (metis snd_conv)

lemma punctual_reads: "punctual (ret x)" "punctual (raise e)" "punctual (query f)" "punctual utcnow" "punctual uuid4" "punctual (flush g)"
  by (simp_all add: punctual_def ret_def raise_def query_def gets_def utcnow_def uuid4_def flush_def Let_def)

lemma punctual_bind: "punctual m \<Longrightarrow> (\<And>x. punctual (f x)) \<Longrightarrow> punctual (bind m f)"
  by (simp add: punctual_def bind_def split: prod.splits sum.splits) (metis order_trans snd_conv)

lemma punctual_try: "punctual m \<Longrightarrow> (\<And>e. punctual (h e)) \<Longrightarrow> punctual (try_except m c h)"
  by (simp add: punctual_def try_except_def split: prod.splits sum.splits) (metis order_trans snd_conv)

lemma punctual_nested: "punctual m \<Longrightarrow> punctual (begin_nested m)"
  by (simp add: punctual_def begin_nested_def split: prod.splits sum.splits) (metis snd_conv)

lemma punctual_cases:
  "punctual m \<Longrightarrow> punctual n \<Longrightarrow> punctual (if b then m else n)"
  "punctual m \<Longrightarrow> (\<And>y. punctual (f y)) \<Longrightarrow> punctual (case x of None \<Rightarrow> m | Some y \<Rightarrow> f y)"
  "punctual (scalar_one_or_none rows)"
  by (auto simp: scalar_one_or_none_def punctual_reads split: option.splits list.splits)

lemma punctual_user: "punctual (get_or_create_current_user p)"
  unfolding user_program_defs
  by (intro punctual_bind punctual_reads punctual_try punctual_nested punctual_cases)


text \<open>For the witness: Bob's export, ready and due for deletion in two minutes.\<close>

definition ready_artifact :: export_artifact where
  "ready_artifact = \<lparr>art_id = 60, art_dsr_id = 50, art_subject = Some 2, art_requester = Some 2, art_status = ART_READY,
     art_storage_backend = STORAGE_LOCAL, art_storage_key = Some ''k'', art_filename = Some ''f'', art_content_type = Some ''zip'',
     art_size_bytes = Some 1, art_checksum_sha256 = Some ''c'', art_schema_version = ''1'', art_requested_by = None,
     art_generated_by = None, art_failure_reason = None, art_failure_detail = None, art_queued_at = 0, art_started_at = Some 0,
     art_processing_token = None, art_lease_expires_at = None, art_completed_at = Some 0, art_failed_at = None,
     art_expires_at = 120000000, art_url_issued_at = None, art_url_issue_count = 0, art_downloaded_at = None, art_download_count = 0,
     art_created_at = 0, art_updated_at = 0\<rparr>"

definition download_world :: world where
  "download_world = demo_start\<lparr>db := (erasure_db (demo_user 2 bob) (demo_request 50 DSR_EXPORT DSR_APPROVED 2))
     \<lparr>privacy := no_privacy_rows\<lparr>requests := [demo_request 50 DSR_EXPORT DSR_APPROVED 2], artifacts := [ready_artifact]\<rparr>\<rparr>\<rparr>"

lemmas demo_download = download_world_def erasure_db_def ready_artifact_def demo_request_def submitted_request_def empty_db_def
  no_privacy_rows_def privacy_user_refs_def privacy_tables_ok_def

lemma download_keys: "\<not> forbidden_key ''status''" "\<not> forbidden_key ''format''"
  by (simp_all add: forbidden_key_def normalized_key_def lower_def lower_char_def contains_str_def
      forbidden_keys_def forbidden_markers_def)

lemma wp_demo_limit:
  "wp demo_limit Q R w = Q () (w\<lparr>redis := (redis w)(''hits'' := Some (case redis w ''hits'' of None \<Rightarrow> 1 | Some n \<Rightarrow> n + 1))\<rparr>)"
  by (simp add: wp_def demo_limit_def)

lemma demo_link:
  "\<exists>link. local_generate_download_url X secret ''k'' t = bind utcnow (\<lambda>now. ret (link now))"
proof -
  have "validate_key ''k'' = Inr ''k''" by code_simp
  then have "resolve_key ''k'' = ret ''k''" by (auto simp: resolve_key_def lift_def ret_def)
  then show ?thesis unfolding local_generate_download_url_def Let_def by (simp only: ret_bind) (rule exI, rule refl)
qed

lemma download_granted:
  "wp (generate_download_url demo_externals demo_exports ready_artifact (demo_context 2)) (\<lambda>_ _. True) (\<lambda>_ _. False)
     (download_world\<lparr>in_tx := True, redis := rr\<rparr>)"
proof -
  obtain link where "local_generate_download_url demo_externals ''secret'' ''k'' 119 = bind utcnow (\<lambda>now. ret (link now))"
    using demo_link by blast
  then show ?thesis
    by (simp add: generate_download_url_def ensure_exports_enabled_def ensure_download_dsr_is_still_eligible_def dsr_get_by_id_def
        has_export_dsr_participant_links_def record_download_url_issued_def art_update_where_def art_refresh_def update_where_def
        record_artifact_event_def local_storage_def demo_exports_def whole_seconds_def demo_run demo_download download_keys)
qed


end
