(* ===== verification/Export_Records.thy ===== *)
theory Export_Records
  imports Erasure_Providers Invite_Delivery
begin

section \<open>What a subject access export says of a row\<close>

text \<open>
  The records of \<^verbatim>\<open>privacy/exporters/subject_data.py\<close>, one function per kind of row. A record
  holds the columns that are given out and the names of the columns that are kept back. The
  payload is the JSON value that \<open>_json_value\<close> makes of the Python values: identifiers and
  times as text, members of enumerations as their value.
\<close>

subsection \<open>Stored values of the enumerations\<close>

fun user_status_value :: "user_status \<Rightarrow> string" where
  "user_status_value USER_ACTIVE = ''active''"
| "user_status_value USER_SUSPENDED = ''suspended''"

fun organisation_status_value :: "organisation_status \<Rightarrow> string" where
  "organisation_status_value ORG_ACTIVE = ''active''"
| "organisation_status_value ORG_SUSPENDED = ''suspended''"

fun outbox_status_value :: "outbox_status \<Rightarrow> string" where
  "outbox_status_value OUTBOX_PENDING = ''pending''"
| "outbox_status_value OUTBOX_PROCESSING = ''processing''"
| "outbox_status_value OUTBOX_PROCESSED = ''processed''"
| "outbox_status_value OUTBOX_FAILED = ''failed''"

fun audit_category_value :: "audit_category \<Rightarrow> string" where
  "audit_category_value AUDIT_TENANT = ''tenant''"
| "audit_category_value AUDIT_PLATFORM = ''platform''"
| "audit_category_value AUDIT_SECURITY = ''security''"
| "audit_category_value AUDIT_COMPLIANCE = ''compliance''"

fun audit_action_value :: "audit_action \<Rightarrow> string" where
  "audit_action_value ORGANISATION_UPDATED = ''organisation_updated''"
| "audit_action_value ORGANISATION_DELETED = ''organisation_deleted''"
| "audit_action_value MEMBERSHIP_ROLE_CHANGED = ''membership_role_changed''"
| "audit_action_value MEMBERSHIP_REMOVED = ''membership_removed''"
| "audit_action_value INVITE_CREATED = ''invite_created''"
| "audit_action_value INVITE_REVOKED_ACTION = ''invite_revoked''"
| "audit_action_value INVITE_RESENT = ''invite_resent''"
| "audit_action_value USER_SUSPENDED_ACTION = ''user_suspended''"
| "audit_action_value USER_RESTORED = ''user_restored''"
| "audit_action_value ORGANISATION_SUSPENDED = ''organisation_suspended''"
| "audit_action_value ORGANISATION_RESTORED = ''organisation_restored''"
| "audit_action_value PLATFORM_STAFF_CREATED = ''platform_staff_created''"
| "audit_action_value PLATFORM_STAFF_SUSPENDED = ''platform_staff_suspended''"
| "audit_action_value PLATFORM_STAFF_RESTORED = ''platform_staff_restored''"
| "audit_action_value PLATFORM_STAFF_ROLE_CHANGED = ''platform_staff_role_changed''"
| "audit_action_value CONSENT_GRANTED = ''consent_granted''"
| "audit_action_value CONSENT_WITHDRAWN = ''consent_withdrawn''"
| "audit_action_value PRIVACY_NOTICE_ACCEPTED = ''privacy_notice_accepted''"
| "audit_action_value DATA_SUBJECT_REQUEST_SUBMITTED = ''data_subject_request_submitted''"
| "audit_action_value DATA_SUBJECT_REQUEST_UNDER_REVIEW = ''data_subject_request_under_review''"
| "audit_action_value DATA_SUBJECT_REQUEST_APPROVED = ''data_subject_request_approved''"
| "audit_action_value DATA_SUBJECT_REQUEST_REJECTED = ''data_subject_request_rejected''"
| "audit_action_value DATA_SUBJECT_REQUEST_CANCELLED = ''data_subject_request_cancelled''"
| "audit_action_value DATA_SUBJECT_REQUEST_FULFILLED = ''data_subject_request_fulfilled''"
| "audit_action_value DATA_SUBJECT_REQUEST_ERASURE_EXECUTED = ''data_subject_request_erasure_executed''"
| "audit_action_value DATA_SUBJECT_REQUEST_REPRESENTATIVE_VERIFIED = ''data_subject_request_representative_verified''"
| "audit_action_value DATA_SUBJECT_REQUEST_REPRESENTATIVE_REJECTED = ''data_subject_request_representative_rejected''"
| "audit_action_value EXPORT_ARTIFACT_REQUESTED = ''export_artifact_requested''"
| "audit_action_value EXPORT_ARTIFACT_GENERATED = ''export_artifact_generated''"
| "audit_action_value EXPORT_ARTIFACT_FAILED = ''export_artifact_failed''"
| "audit_action_value EXPORT_ARTIFACT_DOWNLOAD_URL_CREATED = ''export_artifact_download_url_created''"
| "audit_action_value EXPORT_ARTIFACT_DELIVERY_CONFIRMED = ''export_artifact_delivery_confirmed''"
| "audit_action_value EXPORT_ARTIFACT_EXPIRED = ''export_artifact_expired''"

fun audit_target_value :: "audit_target_type \<Rightarrow> string" where
  "audit_target_value TARGET_ORGANISATION = ''organisation''"
| "audit_target_value TARGET_MEMBERSHIP = ''membership''"
| "audit_target_value TARGET_INVITE = ''invite''"
| "audit_target_value TARGET_USER = ''user''"
| "audit_target_value TARGET_PLATFORM_STAFF = ''platform_staff''"
| "audit_target_value TARGET_PRIVACY_CONSENT = ''privacy_consent''"
| "audit_target_value TARGET_PRIVACY_NOTICE = ''privacy_notice''"
| "audit_target_value TARGET_DATA_SUBJECT_REQUEST = ''data_subject_request''"
| "audit_target_value TARGET_EXPORT_ARTIFACT = ''export_artifact''"

fun execution_status_value :: "dsr_execution_status \<Rightarrow> string" where
  "execution_status_value EXECUTION_NOT_STARTED = ''not_started''"
| "execution_status_value EXECUTION_QUEUED = ''queued''"
| "execution_status_value EXECUTION_PROCESSING = ''processing''"
| "execution_status_value EXECUTION_READY = ''ready''"
| "execution_status_value EXECUTION_FAILED = ''failed''"
| "execution_status_value EXECUTION_PARTIALLY_FULFILLED = ''partially_fulfilled''"
| "execution_status_value EXECUTION_DELIVERED = ''delivered''"

fun storage_backend_value :: "storage_backend \<Rightarrow> string" where
  "storage_backend_value STORAGE_LOCAL = ''local''"
| "storage_backend_value STORAGE_S3_COMPATIBLE = ''s3_compatible''"

fun lawful_basis_value :: "lawful_basis \<Rightarrow> string" where
  "lawful_basis_value BASIS_CONSENT = ''consent''"
| "lawful_basis_value BASIS_CONTRACT = ''contract''"
| "lawful_basis_value BASIS_LEGAL_OBLIGATION = ''legal_obligation''"
| "lawful_basis_value BASIS_VITAL_INTERESTS = ''vital_interests''"
| "lawful_basis_value BASIS_PUBLIC_TASK = ''public_task''"
| "lawful_basis_value BASIS_LEGITIMATE_INTERESTS = ''legitimate_interests''"
| "lawful_basis_value BASIS_RECOGNISED_LEGITIMATE_INTERESTS = ''recognised_legitimate_interests''"

fun condition_value :: "special_category_condition \<Rightarrow> string" where
  "condition_value COND_EXPLICIT_CONSENT = ''explicit_consent''"
| "condition_value COND_EMPLOYMENT = ''employment_social_security_social_protection''"
| "condition_value COND_VITAL_INTERESTS = ''vital_interests''"
| "condition_value COND_NONPROFIT_BODY = ''nonprofit_body''"
| "condition_value COND_MANIFESTLY_PUBLIC = ''manifestly_public''"
| "condition_value COND_LEGAL_CLAIMS = ''legal_claims''"
| "condition_value COND_SUBSTANTIAL_PUBLIC_INTEREST = ''substantial_public_interest''"
| "condition_value COND_REGULATED_SERVICE = ''regulated_service_provision''"
| "condition_value COND_SAFEGUARDING = ''public_interest_safeguarding''"
| "condition_value COND_ARCHIVING_RESEARCH = ''archiving_research_statistics''"

fun purpose_family_value :: "purpose_family \<Rightarrow> string" where
  "purpose_family_value FAMILY_ACCOUNT = ''account''"
| "purpose_family_value FAMILY_INVITE = ''invite''"
| "purpose_family_value FAMILY_AUDIT = ''audit''"
| "purpose_family_value FAMILY_MARKETING = ''marketing''"
| "purpose_family_value FAMILY_PRODUCT_ANALYTICS = ''product_analytics''"
| "purpose_family_value FAMILY_REGULATED_SERVICE = ''regulated_service_delivery''"
| "purpose_family_value FAMILY_LEGAL_COMPLIANCE = ''legal_compliance''"

subsection \<open>Records\<close>

datatype export_record_kind = RECORD_DATA | RECORD_REFERENCE | RECORD_METADATA | RECORD_REDACTION_NOTICE

fun record_kind_value :: "export_record_kind \<Rightarrow> string" where
  "record_kind_value RECORD_DATA = ''data''"
| "record_kind_value RECORD_REFERENCE = ''reference''"
| "record_kind_value RECORD_METADATA = ''metadata''"
| "record_kind_value RECORD_REDACTION_NOTICE = ''redaction_notice''"

record export_record =
  exr_provider_key :: string
  exr_table_name :: string
  exr_kind :: export_record_kind
  exr_payload :: "(string \<times> json) list"
  exr_redacted :: "string list"

text \<open>\<open>_json_value\<close> of an identifier, a time and a nullable value.\<close>

definition id_json :: "uuid \<Rightarrow> json" where
  "id_json u = JStr (uuid_str u)"

definition time_json :: "int \<Rightarrow> json" where
  "time_json t = JStr (isoformat t)"

definition opt_json :: "('v \<Rightarrow> json) \<Rightarrow> 'v option \<Rightarrow> json" where
  "opt_json f x = (case x of None \<Rightarrow> JNull | Some v \<Rightarrow> f v)"

text \<open>A column with a person is given out if the person is the subject; otherwise only that there is one.\<close>

definition include_or_minimise_actor_field ::
  "string \<Rightarrow> uuid option \<Rightarrow> uuid \<Rightarrow> string \<Rightarrow> (string \<times> json) list \<times> string list \<Rightarrow> (string \<times> json) list \<times> string list" where
  "include_or_minimise_actor_field field_name actor s presence_field pr =
     (case actor of
        None \<Rightarrow> pr
      | Some a \<Rightarrow>
          if a = s then (fst pr @ [(field_name, id_json a)], snd pr)
          else (fst pr @ [(presence_field, JBool True)], snd pr @ [field_name]))"

definition user_profile_record :: "user \<Rightarrow> export_record" where
  "user_profile_record u =
     \<lparr>exr_provider_key = ''users.profile'', exr_table_name = ''users'', exr_kind = RECORD_DATA,
      exr_payload = [(''id'', id_json (usr_id u)), (''external_auth_id'', JStr (external_auth_id u)),
        (''email'', opt_json JStr (usr_email u)), (''email_verified'', JBool (email_verified u)),
        (''first_name'', opt_json JStr (first_name u)), (''last_name'', opt_json JStr (last_name u)),
        (''onboarding_completed'', JBool (onboarding_completed u)), (''status'', JStr (user_status_value (usr_status u))),
        (''suspended_at'', opt_json time_json (usr_suspended_at u)), (''created_at'', time_json (usr_created_at u)),
        (''updated_at'', time_json (usr_updated_at u))],
      exr_redacted = [''suspended_reason'']\<rparr>"

definition membership_record :: "membership \<Rightarrow> export_record" where
  "membership_record m =
     \<lparr>exr_provider_key = ''memberships.by_subject'', exr_table_name = ''memberships'', exr_kind = RECORD_DATA,
      exr_payload = [(''id'', id_json (mem_id m)), (''user_id'', id_json (mem_user_id m)),
        (''organisation_id'', id_json (mem_organisation_id m)), (''role'', JStr (role_value (mem_role m))),
        (''is_active'', JBool (mem_is_active m)), (''created_at'', time_json (mem_created_at m)),
        (''updated_at'', time_json (mem_updated_at m))],
      exr_redacted = []\<rparr>"

definition organisation_record :: "organisation \<Rightarrow> export_record" where
  "organisation_record r =
     \<lparr>exr_provider_key = ''organisations.by_subject_membership'', exr_table_name = ''organisations'', exr_kind = RECORD_DATA,
      exr_payload = [(''id'', id_json (org_id r)), (''name'', JStr (org_name r)), (''slug'', JStr (org_slug r)),
        (''status'', JStr (organisation_status_value (org_status r))), (''deleted_at'', opt_json time_json (org_deleted_at r)),
        (''suspended_at'', opt_json time_json (org_suspended_at r)), (''created_at'', time_json (org_created_at r)),
        (''updated_at'', time_json (org_updated_at r))],
      exr_redacted = [''suspended_reason'']\<rparr>"

subsection \<open>Invites\<close>

definition invites_provider_key :: string where
  "invites_provider_key = ''invites.by_subject_email_or_revoker''"

definition is_revoker_only_record :: "invite \<Rightarrow> string option \<Rightarrow> bool" where
  "is_revoker_only_record v subject_email =
     (if inv_revoked_by_user_id v = None then False
      else (case subject_email of None \<Rightarrow> True | Some m \<Rightarrow> lower (strip (inv_email v)) \<noteq> m))"

definition subject_invite_record :: "uuid \<Rightarrow> invite \<Rightarrow> export_record" where
  "subject_invite_record s v =
     (let (payload, redacted) = include_or_minimise_actor_field ''revoked_by_user_id'' (inv_revoked_by_user_id v) s ''has_revoker''
        ([(''id'', id_json (inv_id v)), (''email'', JStr (inv_email v)),
          (''organisation_id'', id_json (inv_organisation_id v)), (''role'', JStr (role_value (inv_role v))),
          (''status'', JStr (invite_status_value (inv_status v))), (''expires_at'', opt_json time_json (inv_expires_at v)),
          (''revoked_at'', opt_json time_json (inv_revoked_at v)), (''created_at'', time_json (inv_created_at v)),
          (''updated_at'', time_json (inv_updated_at v))], [''token_hash''])
      in \<lparr>exr_provider_key = invites_provider_key, exr_table_name = ''invites'', exr_kind = RECORD_DATA,
          exr_payload = payload, exr_redacted = redacted\<rparr>)"

definition revoker_reference_record :: "invite \<Rightarrow> export_record" where
  "revoker_reference_record v =
     \<lparr>exr_provider_key = invites_provider_key, exr_table_name = ''invites'', exr_kind = RECORD_REFERENCE,
      exr_payload = [(''id'', id_json (inv_id v)), (''revoked_by_user_id'', opt_json id_json (inv_revoked_by_user_id v)),
        (''status'', JStr (invite_status_value (inv_status v))), (''revoked_at'', opt_json time_json (inv_revoked_at v)),
        (''created_at'', time_json (inv_created_at v)), (''updated_at'', time_json (inv_updated_at v))],
      exr_redacted = [''email'', ''organisation_id'', ''role'', ''expires_at'', ''token_hash'']\<rparr>"

subsection \<open>Outbox events\<close>

definition exported_payload_keys :: "string list" where
  "exported_payload_keys = [''invite_id'', ''organisation_id'', ''purpose'', ''role'']"

text \<open>The keys kept back, in the order of \<open>sorted\<close>.\<close>

definition redacted_payload_keys :: "string list" where
  "redacted_payload_keys = [''email'', ''encrypted_raw_token'']"

definition outbox_payload_reference :: "json \<Rightarrow> (string \<times> json) list \<times> string list" where
  "outbox_payload_reference payload = (case payload of
     JObj kvs \<Rightarrow> (filter (\<lambda>kv. List.member exported_payload_keys (fst kv)) kvs,
       map (\<lambda>k. ''payload_json.'' @ k) (filter (\<lambda>k. List.member (map fst kvs) k) redacted_payload_keys))
   | _ \<Rightarrow> ([], []))"

definition outbox_record :: "outbox_event \<Rightarrow> export_record" where
  "outbox_record e =
     (let (reference, redacted) = outbox_payload_reference (obx_payload_json e) in
      \<lparr>exr_provider_key = ''outbox.subject_references'', exr_table_name = ''outbox_events'', exr_kind = RECORD_REFERENCE,
       exr_payload = [(''id'', id_json (obx_id e)), (''event_type'', JStr (obx_event_type e)),
         (''aggregate_type'', opt_json JStr (obx_aggregate_type e)), (''aggregate_id'', opt_json id_json (obx_aggregate_id e)),
         (''status'', JStr (outbox_status_value (obx_status e))), (''attempts'', JInt (obx_attempts e)),
         (''max_attempts'', JInt (obx_max_attempts e)), (''next_attempt_at'', opt_json time_json (obx_next_attempt_at e)),
         (''locked_at'', opt_json time_json (obx_locked_at e)), (''processed_at'', opt_json time_json (obx_processed_at e)),
         (''payload_reference'', JObj reference), (''created_at'', time_json (obx_created_at e)),
         (''updated_at'', time_json (obx_updated_at e))],
       exr_redacted = ''last_error'' # redacted\<rparr>)"

subsection \<open>Audit events\<close>

definition safe_audit_metadata_keys :: "string list" where
  "safe_audit_metadata_keys = [''organisation_id'', ''invite_role'', ''invite_status_before'', ''request_type'', ''status'', ''format'']"

text \<open>The column holds an object or nothing, as its declared type says.\<close>

definition safe_audit_metadata :: "json option \<Rightarrow> (string \<times> json) list \<times> string list" where
  "safe_audit_metadata metadata = (case json_value metadata of
     Some (JObj kvs) \<Rightarrow> (filter (\<lambda>kv. List.member safe_audit_metadata_keys (fst kv)) kvs,
       map (\<lambda>k. ''metadata_json.'' @ k) (sort (filter (\<lambda>k. \<not> List.member safe_audit_metadata_keys k) (map fst kvs))))
   | _ \<Rightarrow> ([], []))"

definition audit_record :: "uuid \<Rightarrow> audit_event \<Rightarrow> export_record" where
  "audit_record s e =
     (let (metadata, redacted_metadata) = safe_audit_metadata (aud_metadata_json e);
          payload = [(''id'', id_json (aud_id e)), (''category'', JStr (audit_category_value (aud_category e))),
            (''action'', JStr (audit_action_value (aud_action e))), (''target_type'', JStr (audit_target_value (aud_target_type e))),
            (''target_id'', opt_json id_json (aud_target_id e)), (''metadata_json'', JObj metadata),
            (''created_at'', time_json (aud_created_at e))];
          redacted = (if aud_reason e \<noteq> None then [''reason''] else []) @
            (if aud_legal_hold_until e \<noteq> None then [''legal_hold_until''] else []) @ redacted_metadata
      in \<lparr>exr_provider_key = ''audit.subject_actor_or_target_join_events'', exr_table_name = ''audit_events'', exr_kind = RECORD_DATA,
          exr_payload = (if aud_actor_user_id e = Some s
            then payload @ [(''actor_user_id'', opt_json id_json (aud_actor_user_id e)),
                 (''ip_address'', opt_json JStr (aud_ip_address e)), (''user_agent'', opt_json JStr (aud_user_agent e))]
            else payload @ [(''has_actor'', JBool (aud_actor_user_id e \<noteq> None))]),
          exr_redacted = (if aud_actor_user_id e = Some s then redacted
            else redacted @ [''actor_user_id'', ''ip_address'', ''user_agent''])\<rparr>)"

subsection \<open>Platform staff\<close>

definition staff_provider_key :: string where
  "staff_provider_key = ''platform_staff.by_subject_or_creator''"

definition is_creator_only_record :: "uuid \<Rightarrow> platform_staff \<Rightarrow> bool" where
  "is_creator_only_record s r \<longleftrightarrow> stf_created_by_user_id r = Some s \<and> stf_user_id r \<noteq> s"

definition subject_staff_record :: "uuid \<Rightarrow> platform_staff \<Rightarrow> export_record" where
  "subject_staff_record s r =
     (let (payload, redacted) = include_or_minimise_actor_field ''created_by_user_id'' (stf_created_by_user_id r) s ''has_creator''
        ([(''id'', id_json (stf_id r)), (''user_id'', id_json (stf_user_id r)), (''role'', JStr (stf_role r)),
          (''status'', JStr (stf_status r)), (''suspended_at'', opt_json time_json (stf_suspended_at r)),
          (''created_at'', time_json (stf_created_at r)), (''updated_at'', time_json (stf_updated_at r))], [''suspended_reason''])
      in \<lparr>exr_provider_key = staff_provider_key, exr_table_name = ''platform_staff'', exr_kind = RECORD_DATA,
          exr_payload = payload, exr_redacted = redacted\<rparr>)"

definition creator_reference_record :: "platform_staff \<Rightarrow> export_record" where
  "creator_reference_record r =
     \<lparr>exr_provider_key = staff_provider_key, exr_table_name = ''platform_staff'', exr_kind = RECORD_REFERENCE,
      exr_payload = [(''id'', id_json (stf_id r)), (''created_by_user_id'', opt_json id_json (stf_created_by_user_id r)),
        (''created_at'', time_json (stf_created_at r)), (''updated_at'', time_json (stf_updated_at r))],
      exr_redacted = [''user_id'', ''role'', ''status'', ''suspended_at'', ''suspended_reason'']\<rparr>"

subsection \<open>Data-subject requests\<close>

definition workflow_provider_key :: string where
  "workflow_provider_key = ''dsr.workflow_records''"

definition is_reference_only_record :: "uuid \<Rightarrow> data_subject_request \<Rightarrow> bool" where
  "is_reference_only_record s r \<longleftrightarrow> (dsr_reviewer r = Some s \<or> dsr_representative_verified_by r = Some s) \<and>
     \<not> (dsr_subject r = Some s \<or> dsr_requester r = Some s)"

definition subject_request_record :: "uuid \<Rightarrow> data_subject_request \<Rightarrow> export_record" where
  "subject_request_record s r =
     (let (payload, redacted) =
        include_or_minimise_actor_field ''representative_verified_by_user_id'' (dsr_representative_verified_by r) s
          ''has_representative_verifier'' (
        include_or_minimise_actor_field ''reviewer_user_id'' (dsr_reviewer r) s ''has_reviewer'' (
        include_or_minimise_actor_field ''subject_user_id'' (dsr_subject r) s ''has_subject'' (
        include_or_minimise_actor_field ''requester_user_id'' (dsr_requester r) s ''has_requester''
        ([(''id'', id_json (dsr_id r)), (''request_type'', JStr (dsr_type_value (dsr_request_type r))),
          (''status'', JStr (dsr_status_value (dsr_status r))),
          (''execution_status'', JStr (execution_status_value (dsr_execution_status r))),
          (''requester_role'', JStr (requester_role_value (dsr_requester_role r))),
          (''representative_status'', JStr (representative_status_value (dsr_representative_status r))),
          (''representative_relationship'', opt_json JStr (dsr_representative_relationship r)),
          (''representative_authority_note'', opt_json JStr (dsr_representative_authority_note r)),
          (''representative_verified_at'', opt_json time_json (dsr_representative_verified_at r)),
          (''representative_rejection_reason_code'', opt_json JStr (dsr_representative_rejection_reason r)),
          (''submitted_at'', time_json (dsr_submitted_at r)), (''acknowledged_at'', opt_json time_json (dsr_acknowledged_at r)),
          (''reviewed_at'', opt_json time_json (dsr_reviewed_at r)), (''decided_at'', opt_json time_json (dsr_decided_at r)),
          (''fulfilled_at'', opt_json time_json (dsr_fulfilled_at r)), (''cancelled_at'', opt_json time_json (dsr_cancelled_at r)),
          (''execution_started_at'', opt_json time_json (dsr_execution_started_at r)),
          (''execution_completed_at'', opt_json time_json (dsr_execution_completed_at r)),
          (''execution_failed_at'', opt_json time_json (dsr_execution_failed_at r)),
          (''execution_failure_reason_code'', opt_json JStr (dsr_execution_failure_reason r)),
          (''decision_reason_code'', opt_json JStr (dsr_decision_reason r)),
          (''rejection_reason_code'', opt_json JStr (dsr_rejection_reason r)),
          (''extension_reason_code'', opt_json JStr (dsr_extension_reason r)),
          (''requester_note'', opt_json JStr (dsr_requester_note r)), (''due_at'', time_json (dsr_due_at r)),
          (''extended_until'', opt_json time_json (dsr_extended_until r)), (''created_at'', time_json (dsr_created_at r)),
          (''updated_at'', time_json (dsr_updated_at r))],
         [''internal_note'', ''idempotency_key_hash'', ''idempotency_fingerprint'', ''idempotency_key_expires_at'',
          ''execution_failure_detail'']))))
      in \<lparr>exr_provider_key = workflow_provider_key, exr_table_name = ''data_subject_requests'', exr_kind = RECORD_DATA,
          exr_payload = payload, exr_redacted = redacted\<rparr>)"

definition dsr_reference_record :: "uuid \<Rightarrow> data_subject_request \<Rightarrow> export_record" where
  "dsr_reference_record s r =
     (let (payload, redacted) =
        include_or_minimise_actor_field ''representative_verified_by_user_id'' (dsr_representative_verified_by r) s
          ''has_representative_verifier'' (
        include_or_minimise_actor_field ''reviewer_user_id'' (dsr_reviewer r) s ''has_reviewer''
        ([(''id'', id_json (dsr_id r)), (''status'', JStr (dsr_status_value (dsr_status r))),
          (''execution_status'', JStr (execution_status_value (dsr_execution_status r))),
          (''reviewed_at'', opt_json time_json (dsr_reviewed_at r)), (''decided_at'', opt_json time_json (dsr_decided_at r)),
          (''fulfilled_at'', opt_json time_json (dsr_fulfilled_at r)), (''cancelled_at'', opt_json time_json (dsr_cancelled_at r)),
          (''created_at'', time_json (dsr_created_at r)), (''updated_at'', time_json (dsr_updated_at r))],
         [''request_type'', ''requester_user_id'', ''subject_user_id'', ''submitted_at'', ''acknowledged_at'', ''due_at'',
          ''extended_until'', ''decision_reason_code'', ''rejection_reason_code'', ''extension_reason_code'', ''requester_note'',
          ''requester_role'', ''representative_status'', ''representative_relationship'', ''representative_authority_note'',
          ''representative_verified_at'', ''representative_rejection_reason_code'', ''internal_note'', ''idempotency_key_hash'',
          ''idempotency_fingerprint'', ''idempotency_key_expires_at'', ''execution_failure_detail'',
          ''execution_failure_reason_code'']))
      in \<lparr>exr_provider_key = workflow_provider_key, exr_table_name = ''data_subject_requests'', exr_kind = RECORD_REFERENCE,
          exr_payload = payload, exr_redacted = redacted\<rparr>)"

subsection \<open>Export artifacts\<close>

definition artifacts_provider_key :: string where
  "artifacts_provider_key = ''export_artifacts.subject_or_actor_metadata''"

definition is_actor_only_record :: "uuid \<Rightarrow> export_artifact \<Rightarrow> bool" where
  "is_actor_only_record s a \<longleftrightarrow> art_subject a \<noteq> Some s \<and> art_requester a \<noteq> Some s \<and>
     (art_requested_by a = Some s \<or> art_generated_by a = Some s)"

definition subject_artifact_record :: "uuid \<Rightarrow> export_artifact \<Rightarrow> export_record" where
  "subject_artifact_record s a =
     (let (payload, redacted) =
        include_or_minimise_actor_field ''generated_by_user_id'' (art_generated_by a) s ''has_generated_by'' (
        include_or_minimise_actor_field ''requested_by_user_id'' (art_requested_by a) s ''has_requested_by''
        ([(''id'', id_json (art_id a)), (''data_subject_request_id'', id_json (art_dsr_id a)),
          (''subject_user_id'', opt_json id_json (art_subject a)), (''requester_user_id'', opt_json id_json (art_requester a)),
          (''status'', JStr (artifact_status_value (art_status a))), (''format'', JStr ''json_zip''),
          (''storage_backend'', JStr (storage_backend_value (art_storage_backend a))),
          (''filename'', opt_json JStr (art_filename a)), (''content_type'', opt_json JStr (art_content_type a)),
          (''size_bytes'', opt_json JInt (art_size_bytes a)), (''checksum_sha256'', opt_json JStr (art_checksum_sha256 a)),
          (''schema_version'', JStr (art_schema_version a)), (''failure_reason_code'', opt_json JStr (art_failure_reason a)),
          (''queued_at'', time_json (art_queued_at a)), (''started_at'', opt_json time_json (art_started_at a)),
          (''completed_at'', opt_json time_json (art_completed_at a)), (''failed_at'', opt_json time_json (art_failed_at a)),
          (''expires_at'', time_json (art_expires_at a)),
          (''download_url_issued_at'', opt_json time_json (art_url_issued_at a)),
          (''download_url_issue_count'', JInt (art_url_issue_count a)),
          (''downloaded_at'', opt_json time_json (art_downloaded_at a)), (''download_count'', JInt (art_download_count a)),
          (''created_at'', time_json (art_created_at a)), (''updated_at'', time_json (art_updated_at a))],
         [''storage_key'', ''processing_token'', ''processing_lease_expires_at'', ''failure_detail'']))
      in \<lparr>exr_provider_key = artifacts_provider_key, exr_table_name = ''export_artifacts'', exr_kind = RECORD_DATA,
          exr_payload = payload, exr_redacted = redacted\<rparr>)"

definition actor_reference_record :: "uuid \<Rightarrow> export_artifact \<Rightarrow> export_record" where
  "actor_reference_record s a =
     (let only = (\<lambda>x. if x = Some s then x else None) in
      \<lparr>exr_provider_key = artifacts_provider_key, exr_table_name = ''export_artifacts'', exr_kind = RECORD_REFERENCE,
       exr_payload = [(''id'', id_json (art_id a)), (''requested_by_user_id'', opt_json id_json (only (art_requested_by a))),
          (''generated_by_user_id'', opt_json id_json (only (art_generated_by a))),
          (''status'', JStr (artifact_status_value (art_status a))), (''format'', JStr ''json_zip''),
          (''storage_backend'', JStr (storage_backend_value (art_storage_backend a))),
          (''failure_reason_code'', opt_json JStr (art_failure_reason a)),
          (''queued_at'', time_json (art_queued_at a)), (''started_at'', opt_json time_json (art_started_at a)),
          (''completed_at'', opt_json time_json (art_completed_at a)), (''failed_at'', opt_json time_json (art_failed_at a)),
          (''expires_at'', time_json (art_expires_at a)),
          (''download_url_issued_at'', opt_json time_json (art_url_issued_at a)),
          (''download_url_issue_count'', JInt (art_url_issue_count a)),
          (''downloaded_at'', opt_json time_json (art_downloaded_at a)), (''download_count'', JInt (art_download_count a)),
          (''created_at'', time_json (art_created_at a)), (''updated_at'', time_json (art_updated_at a))],
       exr_redacted = [''data_subject_request_id'', ''subject_user_id'', ''requester_user_id'', ''filename'', ''content_type'',
          ''size_bytes'', ''checksum_sha256'', ''schema_version'', ''storage_key'', ''processing_token'',
          ''processing_lease_expires_at'', ''failure_detail'']\<rparr>)"

subsection \<open>Governance records\<close>

definition purpose_payload :: "processing_purpose \<Rightarrow> json" where
  "purpose_payload p =
     JObj [(''id'', id_json (pps_id p)), (''code'', JStr (pps_code p)), (''title'', JStr (pps_title p)),
       (''family'', JStr (purpose_family_value (pps_family p))),
       (''default_lawful_basis'', JStr (lawful_basis_value (pps_default_basis p))),
       (''is_special_category'', JBool (pps_is_special_category p)),
       (''default_special_category_condition'', opt_json (\<lambda>c. JStr (condition_value c)) (pps_default_condition p)),
       (''requires_active_consent'', JBool (pps_requires_consent p)), (''active'', JBool (pps_active p))]"

definition authorization_record :: "processing_authorization \<times> processing_purpose \<Rightarrow> export_record" where
  "authorization_record row = (case row of (a, p) \<Rightarrow>
     \<lparr>exr_provider_key = ''privacy_governance.authorizations'', exr_table_name = ''data_processing_authorizations'',
      exr_kind = RECORD_DATA,
      exr_payload = [(''id'', id_json (pau_id a)), (''subject_user_id'', id_json (pau_subject a)),
        (''purpose_id'', id_json (pau_purpose_id a)), (''purpose'', purpose_payload p),
        (''lawful_basis'', JStr (lawful_basis_value (pau_basis a))),
        (''special_category_condition'', opt_json (\<lambda>c. JStr (condition_value c)) (pau_condition a)),
        (''active'', JBool (pau_active a)), (''source'', opt_json JStr (pau_source a)),
        (''valid_from'', time_json (pau_valid_from a)), (''valid_until'', opt_json time_json (pau_valid_until a)),
        (''revoked_at'', opt_json time_json (pau_revoked_at a)), (''created_at'', time_json (pau_created_at a)),
        (''updated_at'', time_json (pau_updated_at a))],
      exr_redacted = []\<rparr>)"

definition consent_export_record :: "consent_record \<times> processing_purpose \<Rightarrow> export_record" where
  "consent_export_record row = (case row of (c, p) \<Rightarrow>
     \<lparr>exr_provider_key = ''privacy_governance.consent_records'', exr_table_name = ''consent_records'', exr_kind = RECORD_DATA,
      exr_payload = [(''id'', id_json (cns_id c)), (''subject_user_id'', id_json (cns_subject c)),
        (''purpose_id'', id_json (cns_purpose_id c)), (''purpose'', purpose_payload p),
        (''authorization_id'', opt_json id_json (cns_authorization_id c)),
        (''privacy_notice_version'', JStr (cns_notice_version c)), (''granted_at'', time_json (cns_granted_at c)),
        (''withdrawn_at'', opt_json time_json (cns_withdrawn_at c)),
        (''withdrawal_reason_code'', opt_json JStr (cns_withdrawal_reason c)), (''created_at'', time_json (cns_created_at c)),
        (''updated_at'', time_json (cns_updated_at c))],
      exr_redacted = []\<rparr>)"

definition notice_record :: "notice_acceptance \<Rightarrow> export_record" where
  "notice_record n =
     \<lparr>exr_provider_key = ''privacy_governance.notice_acceptances'', exr_table_name = ''privacy_notice_acceptances'',
      exr_kind = RECORD_DATA,
      exr_payload = [(''id'', id_json (pna_id n)), (''subject_user_id'', id_json (pna_subject n)),
        (''notice_version'', JStr (pna_notice_version n)), (''accepted_at'', time_json (pna_accepted_at n)),
        (''source'', opt_json JStr (pna_source n)), (''created_at'', time_json (pna_created_at n)),
        (''updated_at'', time_json (pna_updated_at n))],
      exr_redacted = []\<rparr>"

end
