(* ===== verification/Subject_Export.thy ===== *)
theory Subject_Export
  imports Export_Records
begin

section \<open>The export of a subject's data\<close>

text \<open>
  \<^verbatim>\<open>privacy/exporters/\<close>: the providers, each of which reads the rows of one table that
  concern the subject page by page, the document built from them in memory, and the same document
  written as a stream of JSON text, which is what an archive holds.
\<close>

subsection \<open>Keyset pages\<close>

text \<open>\<open>_after_keyset\<close>: the rows behind the last one of the page before, by sort value and identifier.\<close>

definition after_keyset :: "(int \<times> uuid) option \<Rightarrow> int \<times> uuid \<Rightarrow> bool" where
  "after_keyset last_key k = (case last_key of None \<Rightarrow> True
     | Some (v, i) \<Rightarrow> v < fst k \<or> (fst k = v \<and> i < snd k))"

text \<open>The page statement, over the rows that satisfy the conditions of the provider.\<close>

definition keyset_page :: "('r \<Rightarrow> int \<times> uuid) \<Rightarrow> nat \<Rightarrow> (int \<times> uuid) option \<Rightarrow> 'r list \<Rightarrow> 'r list" where
  "keyset_page key batch last_key rows =
     take batch (sort_key key (filter (\<lambda>r. after_keyset last_key (key r)) rows))"

text \<open>The loop over the pages, until one is empty.\<close>

function keyset_loop :: "('r \<Rightarrow> int \<times> uuid) \<Rightarrow> nat \<Rightarrow> (int \<times> uuid) option \<Rightarrow> 'r list \<Rightarrow> 'r list" where
  "keyset_loop key batch last_key rows =
     (let p = keyset_page key batch last_key rows in
      if p = [] then [] else p @ keyset_loop key batch (Some (key (last p))) rows)"
  by pat_completeness auto

lemma after_keyset_less: "after_keyset (Some l) k \<longleftrightarrow> l < k"
  by (cases l; cases k) (auto simp: after_keyset_def less_prod_def)

lemma after_keyset_None [simp]: "after_keyset None k"
  by (simp add: after_keyset_def)

lemma keyset_page_member:
  "r \<in> set (keyset_page key batch last_key rows) \<Longrightarrow> r \<in> set rows \<and> after_keyset last_key (key r)"
  unfolding keyset_page_def by (drule in_set_takeD) simp

lemma after_keyset_trans: "after_keyset last_key l \<Longrightarrow> after_keyset (Some l) k \<Longrightarrow> after_keyset last_key k"
  by (cases last_key) (auto simp: after_keyset_less)

lemma filter_shrinks:
  assumes "x \<in> set xs" "P x" "\<not> Q x" "\<And>y. Q y \<Longrightarrow> P y"
  shows "length (filter Q xs) < length (filter P xs)"
proof -
  have "filter Q xs = filter Q (filter P xs)" using assms(4) by (simp add: conj_absorb) (metis (mono_tags, lifting))
  with assms(1-3) length_filter_less [of x "filter P xs" Q] show ?thesis by simp
qed

termination keyset_loop
proof (relation "measure (\<lambda>(key, batch, last_key, rows). length (filter (\<lambda>r. after_keyset last_key (key r)) rows))")
  fix key :: "'r \<Rightarrow> int \<times> uuid" and batch last_key rows p
  assume p: "p = keyset_page key batch last_key rows" "p \<noteq> []"
  then have l: "last p \<in> set rows" "after_keyset last_key (key (last p))"
    using keyset_page_member [of "last p" key batch last_key rows] by simp_all
  have "length (filter (\<lambda>r. after_keyset (Some (key (last p))) (key r)) rows) < length (filter (\<lambda>r. after_keyset last_key (key r)) rows)"
    using l after_keyset_trans [OF l(2)] by (intro filter_shrinks [of "last p"]) (auto simp: after_keyset_less)
  then show "((key, batch, Some (key (last p)), rows), key, batch, last_key, rows)
      \<in> measure (\<lambda>(key, batch, last_key, rows). length (filter (\<lambda>r. after_keyset last_key (key r)) rows))" by simp
qed simp

declare keyset_loop.simps [simp del]

definition export_provider_batch_size :: nat where
  "export_provider_batch_size = 500"

definition effective_batch_size :: "nat option \<Rightarrow> nat" where
  "effective_batch_size batch_size = (case batch_size of
     Some n \<Rightarrow> if n = 0 then export_provider_batch_size else n
   | None \<Rightarrow> export_provider_batch_size)"

definition iter_model_keyset :: "('r \<Rightarrow> int) \<Rightarrow> ('r \<Rightarrow> uuid) \<Rightarrow> nat option \<Rightarrow> 'r list \<Rightarrow> 'r list" where
  "iter_model_keyset sort_value ident batch_size rows =
     keyset_loop (\<lambda>r. (sort_value r, ident r)) (effective_batch_size batch_size) None rows"

text \<open>For rows of joined tables, whose first component has the key.\<close>

definition iter_row_keyset :: "('r \<Rightarrow> int) \<Rightarrow> ('r \<Rightarrow> uuid) \<Rightarrow> nat option \<Rightarrow> ('r \<times> 's) list \<Rightarrow> ('r \<times> 's) list" where
  "iter_row_keyset sort_value ident batch_size rows =
     keyset_loop (\<lambda>r. (sort_value (fst r), ident (fst r))) (effective_batch_size batch_size) None rows"

subsection \<open>The subject\<close>

definition get_subject_user :: "uuid \<Rightarrow> user option app" where
  "get_subject_user s = bind (query (\<lambda>d. filter (\<lambda>u. usr_id u = s) (users d))) scalar_one_or_none"

definition get_subject_email :: "uuid \<Rightarrow> string option app" where
  "get_subject_email s =
     bind (get_subject_user s) (\<lambda>found. ret (case found of
       None \<Rightarrow> None
     | Some u \<Rightarrow> (case usr_email u of None \<Rightarrow> None | Some e \<Rightarrow> if e = [] then None else Some (lower (strip e)))))"

subsection \<open>Providers\<close>

text \<open>A provider gives its records, or fails. Its rows are those of one state of the database.\<close>

type_synonym export_provider = "uuid \<Rightarrow> export_record list app"

definition users_export :: export_provider where
  "users_export s =
     bind (get_subject_user s) (\<lambda>found. case found of
       None \<Rightarrow> raise (SubjectDataExportError ''subject_user_not_found'')
     | Some u \<Rightarrow> ret [user_profile_record u])"

definition memberships_export :: export_provider where
  "memberships_export s = query (\<lambda>d. map membership_record
     (iter_model_keyset mem_created_at mem_id None (filter (\<lambda>m. mem_user_id m = s) (memberships d))))"

definition organisations_export :: export_provider where
  "organisations_export s = query (\<lambda>d. map organisation_record
     (iter_model_keyset org_created_at org_id None
       (filter (\<lambda>r. list_ex (\<lambda>m. mem_user_id m = s \<and> mem_organisation_id m = org_id r) (memberships d)) (organisations d))))"

definition invite_of_subject :: "uuid \<Rightarrow> string option \<Rightarrow> invite \<Rightarrow> bool" where
  "invite_of_subject s email v \<longleftrightarrow> inv_revoked_by_user_id v = Some s \<or>
     (case email of None \<Rightarrow> False | Some m \<Rightarrow> sql_email (inv_email v) = m)"

definition invites_export :: export_provider where
  "invites_export s =
     bind (get_subject_email s) (\<lambda>email.
     query (\<lambda>d. map (\<lambda>v. if is_revoker_only_record v email then revoker_reference_record v else subject_invite_record s v)
       (iter_model_keyset inv_created_at inv_id None (filter (invite_of_subject s email) (invites d)))))"

definition referenced_outbox_event :: "db \<Rightarrow> string \<Rightarrow> outbox_event \<Rightarrow> bool" where
  "referenced_outbox_event d m e \<longleftrightarrow>
     list_ex (\<lambda>v. sql_email (inv_email v) = m \<and> obx_aggregate_id e = Some (inv_id v)) (invites d) \<or>
     (case payload_email (obx_payload_json e) of None \<Rightarrow> False | Some p \<Rightarrow> sql_email p = m)"

definition outbox_export :: export_provider where
  "outbox_export s =
     bind (get_subject_email s) (\<lambda>email. case email of
       None \<Rightarrow> ret []
     | Some m \<Rightarrow> query (\<lambda>d. map outbox_record
         (iter_model_keyset obx_created_at obx_id None (filter (referenced_outbox_event d m) (outbox_events d)))))"

text \<open>\<open>_audit_subject_conditions\<close>; the address of the subject is \<open>NULL\<close> when there is none, and equals nothing then.\<close>

definition subject_mailbox :: "db \<Rightarrow> uuid \<Rightarrow> string \<Rightarrow> bool" where
  "subject_mailbox d s m \<longleftrightarrow> list_ex (\<lambda>u. usr_id u = s \<and> map_option sql_email (usr_email u) = Some (sql_email m)) (users d)"

definition audit_target_request :: "uuid \<Rightarrow> data_subject_request \<Rightarrow> bool" where
  "audit_target_request s r \<longleftrightarrow> dsr_subject r = Some s \<or> dsr_requester r = Some s \<or> dsr_representative_verified_by r = Some s"

definition audit_subject_event :: "db \<Rightarrow> uuid \<Rightarrow> audit_event \<Rightarrow> bool" where
  "audit_subject_event d s e \<longleftrightarrow> aud_actor_user_id e = Some s \<or>
     (aud_target_type e = TARGET_USER \<and> aud_target_id e = Some s) \<or>
     (List.member [TARGET_PRIVACY_CONSENT, TARGET_PRIVACY_NOTICE] (aud_target_type e) \<and> aud_target_id e = Some s) \<or>
     (aud_target_type e = TARGET_INVITE \<and>
        list_ex (\<lambda>v. subject_mailbox d s (inv_email v) \<and> aud_target_id e = Some (inv_id v)) (invites d)) \<or>
     (aud_target_type e = TARGET_MEMBERSHIP \<and>
        list_ex (\<lambda>m. mem_user_id m = s \<and> aud_target_id e = Some (mem_id m)) (memberships d)) \<or>
     (aud_target_type e = TARGET_DATA_SUBJECT_REQUEST \<and>
        list_ex (\<lambda>r. audit_target_request s r \<and> aud_target_id e = Some (dsr_id r)) (requests_of d)) \<or>
     (aud_target_type e = TARGET_EXPORT_ARTIFACT \<and>
        list_ex (\<lambda>a. art_status a = ART_READY \<and> (art_subject a = Some s \<or> art_requester a = Some s) \<and>
          aud_target_id e = Some (art_id a)) (artifacts_of d)) \<or>
     (aud_target_type e = TARGET_PLATFORM_STAFF \<and>
        list_ex (\<lambda>r. stf_user_id r = s \<and> aud_target_id e = Some (stf_id r)) (staff_rows d))"

definition audit_export :: export_provider where
  "audit_export s = query (\<lambda>d. map (audit_record s)
     (iter_model_keyset aud_created_at aud_id None (filter (audit_subject_event d s) (audit_events d))))"

definition staff_export :: export_provider where
  "staff_export s = query (\<lambda>d. map (\<lambda>r. if is_creator_only_record s r then creator_reference_record r else subject_staff_record s r)
     (iter_model_keyset stf_created_at stf_id None
       (filter (\<lambda>r. stf_user_id r = s \<or> stf_created_by_user_id r = Some s) (staff_rows d))))"

definition workflow_request :: "uuid \<Rightarrow> data_subject_request \<Rightarrow> bool" where
  "workflow_request s r \<longleftrightarrow> dsr_subject r = Some s \<or> dsr_requester r = Some s \<or> dsr_reviewer r = Some s \<or>
     dsr_representative_verified_by r = Some s"

definition workflow_export :: export_provider where
  "workflow_export s = query (\<lambda>d. map (\<lambda>r. if is_reference_only_record s r then dsr_reference_record s r else subject_request_record s r)
     (iter_model_keyset dsr_created_at dsr_id None (filter (workflow_request s) (requests_of d))))"

definition subject_artifact :: "uuid \<Rightarrow> export_artifact \<Rightarrow> bool" where
  "subject_artifact s a \<longleftrightarrow> art_status a = ART_READY \<and>
     (art_subject a = Some s \<or> art_requester a = Some s \<or> art_requested_by a = Some s \<or> art_generated_by a = Some s)"

definition artifacts_export :: export_provider where
  "artifacts_export s = query (\<lambda>d. map (\<lambda>a. if is_actor_only_record s a then actor_reference_record s a else subject_artifact_record s a)
     (iter_model_keyset art_created_at art_id None (filter (subject_artifact s) (artifacts_of d))))"

text \<open>The join of a record with its purpose.\<close>

definition with_purpose :: "('r \<Rightarrow> uuid) \<Rightarrow> db \<Rightarrow> 'r list \<Rightarrow> ('r \<times> processing_purpose) list" where
  "with_purpose purpose_id d rows =
     concat (map (\<lambda>r. map (\<lambda>p. (r, p)) (filter (\<lambda>p. pps_id p = purpose_id r) (purposes (privacy d)))) rows)"

definition authorizations_export :: export_provider where
  "authorizations_export s = query (\<lambda>d. map authorization_record
     (iter_row_keyset pau_created_at pau_id None
       (with_purpose pau_purpose_id d (filter (\<lambda>a. pau_subject a = s) (authorizations (privacy d))))))"

definition consents_export :: export_provider where
  "consents_export s = query (\<lambda>d. map consent_export_record
     (iter_row_keyset cns_created_at cns_id None
       (with_purpose cns_purpose_id d (filter (\<lambda>c. cns_subject c = s) (consents (privacy d))))))"

definition notices_export :: export_provider where
  "notices_export s = query (\<lambda>d. map notice_record
     (iter_model_keyset pna_accepted_at pna_id None (filter (\<lambda>n. pna_subject n = s) (notices (privacy d)))))"

definition export_providers :: "(string \<times> export_provider) list" where
  "export_providers =
     [(''users.profile'', users_export), (''memberships.by_subject'', memberships_export),
      (''organisations.by_subject_membership'', organisations_export), (invites_provider_key, invites_export),
      (''outbox.subject_references'', outbox_export), (''audit.subject_actor_or_target_join_events'', audit_export),
      (staff_provider_key, staff_export), (workflow_provider_key, workflow_export),
      (artifacts_provider_key, artifacts_export), (''privacy_governance.authorizations'', authorizations_export),
      (''privacy_governance.consent_records'', consents_export),
      (''privacy_governance.notice_acceptances'', notices_export)]"

subsection \<open>The document\<close>

definition serialise_record :: "export_record \<Rightarrow> json" where
  "serialise_record r =
     JObj [(''record_kind'', JStr (record_kind_value (exr_kind r))), (''table_name'', JStr (exr_table_name r)),
       (''payload'', JObj (exr_payload r)), (''redacted_fields'', JList (map JStr (exr_redacted r)))]"

definition redaction_notice :: "export_record \<Rightarrow> json list" where
  "redaction_notice r = (if exr_redacted r = [] then [] else
     [JObj [(''provider_key'', JStr (exr_provider_key r)), (''table_name'', JStr (exr_table_name r)),
        (''redacted_fields'', JList (map JStr (exr_redacted r))),
        (''reason_code'', JStr ''non_exportable_or_review_required'')]])"

text \<open>Whatever a provider raises, the caller sees an error of the export.\<close>

definition is_subject_data_export_error :: "app_error \<Rightarrow> bool" where
  "is_subject_data_export_error e = (case e of SubjectDataExportError _ \<Rightarrow> True | _ \<Rightarrow> False)"

definition run_provider :: "export_provider \<Rightarrow> uuid \<Rightarrow> export_record list app" where
  "run_provider p s = try_except (p s) (\<lambda>e. \<not> is_subject_data_export_error e)
     (\<lambda>_. raise (SubjectDataExportError ''export_provider_failed''))"

definition export_header :: "export_context \<Rightarrow> uuid \<Rightarrow> (string \<times> json) list" where
  "export_header c s =
     [(''schema_version'', JStr (xct_schema_version c)), (''generated_at'', JStr (isoformat (xct_generated_at c))),
      (''data_subject_request_id'', JStr (uuid_str (xct_request_id c))), (''subject_user_id'', JStr (uuid_str s)),
      (''requester_user_id'', case xct_requester c of None \<Rightarrow> JNull | Some u \<Rightarrow> JStr (uuid_str u)),
      (''request_type'', JStr (dsr_type_value (xct_request_type c))),
      (''request_status'', JStr (dsr_status_value (xct_request_status c))),
      (''artifact_id'', JStr (uuid_str (xct_artifact_id c)))]"

definition export_manifest :: "string list \<Rightarrow> nat \<Rightarrow> json list \<Rightarrow> json" where
  "export_manifest keys record_count redaction_notices =
     JObj [(''format'', JStr ''privacy_subject_export''), (''provider_count'', JInt (int (length keys))),
       (''record_count'', JInt (int record_count)), (''providers'', JList (map JStr keys)),
       (''redaction_notices'', JList redaction_notices)]"

text \<open>The loop over the providers with its accumulators: the data, the number of records, the notices.\<close>

fun collect_providers ::
  "(string \<times> export_provider) list \<Rightarrow> uuid \<Rightarrow> (string \<times> json) list \<times> nat \<times> json list \<Rightarrow>
   ((string \<times> json) list \<times> nat \<times> json list) app" where
  "collect_providers [] s acc = ret acc"
| "collect_providers ((k, p) # ps) s (data, n, ns) =
     bind (run_provider p s) (\<lambda>rs.
     collect_providers ps s (data @ [(k, JList (map serialise_record rs))], n + length rs, ns @ concat (map redaction_notice rs)))"

definition export_subject_data :: "export_context \<Rightarrow> json app" where
  "export_subject_data c = (case xct_subject c of
     None \<Rightarrow> raise (SubjectDataExportError ''subject_user_missing'')
   | Some s \<Rightarrow>
     bind (collect_providers export_providers s ([], 0, [])) (\<lambda>(data, n, ns).
     ret (JObj (export_header c s @
       [(''manifest'', export_manifest (map fst data) n ns), (''data'', JObj data)]))))"

text \<open>The exporter without data.\<close>

definition minimal_export :: "export_context \<Rightarrow> json" where
  "minimal_export c =
     JObj [(''schema_version'', JStr (xct_schema_version c)), (''generated_at'', JStr (isoformat (xct_generated_at c))),
       (''data_subject_request_id'', JStr (uuid_str (xct_request_id c))),
       (''subject_user_id'', case xct_subject c of None \<Rightarrow> JNull | Some u \<Rightarrow> JStr (uuid_str u)),
       (''requester_user_id'', case xct_requester c of None \<Rightarrow> JNull | Some u \<Rightarrow> JStr (uuid_str u)),
       (''request_type'', JStr (dsr_type_value (xct_request_type c))),
       (''request_status'', JStr (dsr_status_value (xct_request_status c))),
       (''artifact_id'', JStr (uuid_str (xct_artifact_id c)))]"

subsection \<open>The stream\<close>

text \<open>\<open>JSONEncoder(ensure_ascii=False, separators=(",", ":"))\<close>; \<open>iterencode\<close> gives the text in pieces.\<close>

fun json_compact :: "json \<Rightarrow> string"
  and json_compact_list :: "json list \<Rightarrow> string"
  and json_compact_obj :: "(string \<times> json) list \<Rightarrow> string" where
  "json_compact JNull = ''null''"
| "json_compact (JBool b) = (if b then ''true'' else ''false'')"
| "json_compact (JInt n) = dec_str n"
| "json_compact (JFloat t) = t"
| "json_compact (JStr s) = json_string s"
| "json_compact (JList xs) = ''['' @ json_compact_list xs @ '']''"
| "json_compact (JObj kvs) = ''{'' @ json_compact_obj kvs @ ''}''"
| "json_compact (JOther t) = t"
| "json_compact_list [] = []"
| "json_compact_list (x # xs) = json_compact x @ (if xs = [] then [] else '','' @ json_compact_list xs)"
| "json_compact_obj [] = []"
| "json_compact_obj ((k, v) # kvs) =
     json_string k @ '':'' @ json_compact v @ (if kvs = [] then [] else '','' @ json_compact_obj kvs)"

definition json_key :: "string \<Rightarrow> string" where
  "json_key k = json_string k @ '':''"

fun header_chunks :: "bool \<Rightarrow> (string \<times> json) list \<Rightarrow> string list" where
  "header_chunks first [] = []"
| "header_chunks first ((k, v) # kvs) =
     (if first then [] else ['','']) @ [json_key k, json_compact v] @ header_chunks False kvs"

fun record_chunks :: "bool \<Rightarrow> export_record list \<Rightarrow> string list" where
  "record_chunks first_record [] = []"
| "record_chunks first_record (r # rs) =
     (if first_record then [] else ['','']) @ [json_compact (serialise_record r)] @ record_chunks False rs"

fun provider_chunks ::
  "bool \<Rightarrow> (string \<times> export_provider) list \<Rightarrow> uuid \<Rightarrow> string list \<times> nat \<times> json list \<Rightarrow>
   (string list \<times> string list \<times> nat \<times> json list) app" where
  "provider_chunks first [] s (keys, n, ns) = ret ([], keys, n, ns)"
| "provider_chunks first ((k, p) # ps) s (keys, n, ns) =
     bind (run_provider p s) (\<lambda>rs.
     bind (provider_chunks False ps s (keys @ [k], n + length rs, ns @ concat (map redaction_notice rs)))
       (\<lambda>(chunks, rest).
     ret ((if first then [] else ['','']) @ [json_key k, ''[''] @ record_chunks True rs @ ['']''] @ chunks, rest)))"

definition iter_subject_export_json_chunks :: "export_context \<Rightarrow> string list app" where
  "iter_subject_export_json_chunks c = (case xct_subject c of
     None \<Rightarrow> raise (SubjectDataExportError ''subject_user_missing'')
   | Some s \<Rightarrow>
     bind (provider_chunks True export_providers s ([], 0, [])) (\<lambda>(chunks, keys, n, ns).
     ret ([''{''] @ header_chunks True (export_header c s) @ ['','', json_key ''data'', ''{''] @ chunks @ [''}''] @
       ['','', json_key ''manifest'', json_compact (export_manifest keys n ns), ''}''])))"

text \<open>
  The archive has the stream as its one member. The \<^verbatim>\<open>zipfile\<close> module is the parameter \<open>make_zip\<close>: the
  bytes of an archive with this member, from the name and the chunks written to it.
\<close>

definition utf8_encode :: "string \<Rightarrow> string" where
  "utf8_encode s = concat (map (\<lambda>c. map char_of (utf8_bytes c)) s)"

definition write_export_archive :: "(string \<Rightarrow> string list \<Rightarrow> string) \<Rightarrow> export_context \<Rightarrow> string app" where
  "write_export_archive make_zip c =
     bind (iter_subject_export_json_chunks c) (\<lambda>chunks. ret (make_zip ''export.json'' (map utf8_encode chunks)))"

end
