(* ===== verification/Export_Theorems.thy ===== *)
theory Export_Theorems
  imports Subject_Export Erasure_Effects Demo
begin

section \<open>What an export contains\<close>

text \<open>
  The pages of a provider are its table in order; a provider only reads, gives a record for each of
  its rows and says nothing of others that it need not; and the streamed text is the document.
\<close>

subsection \<open>Pages\<close>

lemma sorted_split:
  fixes ks :: "(int \<times> uuid) list"
  assumes "sorted (map key xs)" "distinct (map key xs)" "take n xs \<noteq> []"
  shows "filter (\<lambda>r. key (last (take n xs)) < key r) xs = drop n xs"
proof -
  have "sorted_wrt (<) (map key xs)" using assms(1,2) by (simp add: strict_sorted_iff)
  then have s: "sorted_wrt (\<lambda>a b. key a < key b) xs" by (simp add: sorted_wrt_map)
  let ?a = "take n xs" and ?b = "drop n xs"
  have ab: "sorted_wrt (\<lambda>a b. key a < key b) (?a @ ?b)" using s by simp
  have "key r \<le> key (last ?a)" if "r \<in> set ?a" for r
  proof -
    obtain ys y where y: "?a = ys @ [y]" using assms(3) by (metis rev_exhaust)
    from ab have "sorted_wrt (\<lambda>a b. key a < key b) ?a" by (simp only: sorted_wrt_append)
    with that y show ?thesis by (auto simp: sorted_wrt_append)
  qed
  then have "filter (\<lambda>r. key (last ?a) < key r) ?a = []" by (simp add: filter_empty_conv not_less)
  moreover have "filter (\<lambda>r. key (last ?a) < key r) ?b = ?b"
    using ab last_in_set [OF assms(3)] by (simp only: sorted_wrt_append filter_id_conv) blast
  moreover have "filter (\<lambda>r. key (last ?a) < key r) xs =
      filter (\<lambda>r. key (last ?a) < key r) ?a @ filter (\<lambda>r. key (last ?a) < key r) ?b"
    by (simp only: filter_append [symmetric] append_take_drop_id)
  ultimately show ?thesis by simp
qed

lemma keyset_loop_sorted:
  assumes "distinct (map key rows)" and "0 < batch"
  shows "keyset_loop key batch last_key rows = sort_key key (filter (\<lambda>r. after_keyset last_key (key r)) rows)"
  using assms
proof (induction key batch last_key rows rule: keyset_loop.induct)
  case (1 key batch last_key rows)
  let ?all = "sort_key key (filter (\<lambda>r. after_keyset last_key (key r)) rows)" and ?p = "keyset_page key batch last_key rows"
  have p: "?p = take batch ?all" by (simp add: keyset_page_def)
  show ?case
  proof (cases "?p = []")
    case True
    with p 1(3) show ?thesis by (simp add: keyset_loop.simps [of key batch last_key] keyset_page_def)
  next
    case False
    have d: "distinct (map key ?all)"
      using 1(2) by (metis (no_types, lifting) distinct_map_filter mset_map mset_sort mset_eq_imp_distinct_iff)
    have after: "after_keyset (Some (key (last ?p))) k \<longleftrightarrow> after_keyset last_key k \<and> key (last ?p) < k" for k
      using keyset_page_member [of "last ?p" key batch last_key rows] False after_keyset_trans [of last_key "key (last ?p)" k]
      by (auto simp: after_keyset_less)
    have "sort_key key (filter (\<lambda>r. after_keyset (Some (key (last ?p))) (key r)) rows) = filter (\<lambda>r. key (last ?p) < key r) ?all"
      unfolding after by (simp add: filter_sort conj_commute)
    also have "\<dots> = drop batch ?all" unfolding p by (rule sorted_split [OF _ d]) (use False p in simp_all)
    finally show ?thesis using 1(1) [OF refl False 1(2,3)] False p
      by (simp add: keyset_loop.simps [of key batch last_key] Let_def)
  qed
qed

lemma effective_batch_pos: "0 < effective_batch_size b"
  by (simp add: effective_batch_size_def export_provider_batch_size_def split: option.splits)

text \<open>Sorting by the identifier and then stably by the time is sorting by both.\<close>

lemma sorted_by_both:
  assumes "sorted_wrt (\<lambda>a b. c a \<le> c b) xs" and "\<And>v. sorted_wrt (\<lambda>a b. k a \<le> k b) (filter (\<lambda>r. c r = v) xs)"
  shows "sorted_wrt (\<lambda>a b. (c a, k a) \<le> (c b :: int, k b :: uuid)) xs"
  using assms
proof (induction xs)
  case (Cons x xs)
  have "(c x, k x) \<le> (c y, k y)" if "y \<in> set xs" for y
  proof (cases "c x = c y")
    case True
    with Cons.prems(2) [of "c x"] that show ?thesis by (simp add: less_eq_prod_def)
  next
    case False
    with Cons.prems(1) that show ?thesis by (auto simp: less_eq_prod_def)
  qed
  moreover have "sorted_wrt (\<lambda>a b. k a \<le> k b) (filter (\<lambda>r. c r = v) xs)" for v
    using Cons.prems(2) [of v] by (simp split: if_splits)
  ultimately show ?case using Cons by simp
qed simp

lemma oldest_first_pairs:
  assumes "distinct (map k rows)"
  shows "oldest_first c k rows = sort_key (\<lambda>r. (c r, k r)) rows"
proof -
  let ?o = "sort_key c (sort_key k rows)" and ?f = "\<lambda>r. (c r, k r)"
  have "filter (\<lambda>r. c r = v) ?o = filter (\<lambda>r. c r = v) (sort_key k rows)" for v by (rule sort_key_stable)
  moreover have "sorted_wrt (\<lambda>a b. k a \<le> k b) (filter (\<lambda>r. c r = v) (sort_key k rows))" for v
    by (rule sorted_wrt_filter) (use sorted_sort_key [of k rows] in \<open>simp only: sorted_map\<close>)
  moreover have "sorted_wrt (\<lambda>a b. c a \<le> c b) ?o" using sorted_sort_key [of c "sort_key k rows"] by (simp only: sorted_map)
  ultimately have "sorted_wrt (\<lambda>a b. ?f a \<le> ?f b) ?o"
    by (intro sorted_by_both) simp_all
  moreover have "sorted_wrt (\<lambda>a b. ?f a \<le> ?f b) (sort_key ?f rows)"
    using sorted_sort_key [of ?f rows] by (simp only: sorted_map)
  moreover have "distinct (map ?f rows)" "inj_on ?f (set rows)" "distinct rows"
    using assms by (auto simp: distinct_map inj_on_def)
  ultimately show ?thesis
    unfolding oldest_first_def
    by (intro map_sorted_distinct_set_unique [of ?f]) (simp_all add: sorted_map distinct_map)
qed

text \<open>C12: Whatever the size of its pages, a provider reads every row of its statement exactly once, in the order of the sort
  column and the identifier, and the loop over the pages ends.\<close>

theorem export_pages_complete:
  assumes "distinct (map ident rows)"
  shows "iter_model_keyset sort_value ident batch_size rows = oldest_first sort_value ident rows"
proof -
  have "distinct (map (\<lambda>r. (sort_value r, ident r)) rows)"
    using assms by (auto simp: distinct_map inj_on_def)
  from keyset_loop_sorted [OF this effective_batch_pos, of batch_size None] show ?thesis
    unfolding iter_model_keyset_def oldest_first_pairs [OF assms] by simp
qed

text \<open>For the witness: two events of one moment, and pages of one row.\<close>

theorem export_pages_complete_witness:
  "iter_model_keyset fst snd (Some 1) [(5, 2), (7, 3), (5, 1)] = [(5 :: int, 1 :: uuid), (5, 2), (7, 3)]"
  by (subst export_pages_complete) (simp_all add: oldest_first_def word_le_nat_alt)

subsection \<open>The stream is the document\<close>

lemma compact_obj_append:
  "json_compact_obj (xs @ ys) = json_compact_obj xs @ (if xs = [] \<or> ys = [] then [] else '','') @ json_compact_obj ys"
  by (induction xs) auto

lemma concat_header_chunks:
  "concat (header_chunks first kvs) = (if first \<or> kvs = [] then [] else '','') @ json_compact_obj kvs"
  by (induction first kvs rule: header_chunks.induct) (auto simp: json_key_def)

lemma concat_record_chunks:
  "concat (record_chunks first rs) = (if first \<or> rs = [] then [] else '','') @ json_compact_list (map serialise_record rs)"
  by (induction first rs rule: record_chunks.induct) auto

lemma provider_chunks_Inl:
  "collect_providers ps s (data, n, ns) w = (Inl e, w') \<Longrightarrow> provider_chunks first ps s (map fst data, n, ns) w = (Inl e, w')"
proof (induction ps arbitrary: first data n ns w)
  case (Cons kp ps)
  obtain k p where kp: "kp = (k, p)" by (cases kp)
  show ?case
  proof (cases "run_provider p s w")
    case (Pair r w1)
    show ?thesis
    proof (cases r)
      case (Inl e')
      with Cons.prems Pair kp show ?thesis by (simp add: bind_def)
    next
      case (Inr rs)
      with Cons.prems Pair kp have
        "collect_providers ps s (data @ [(k, JList (map serialise_record rs))], n + length rs, ns @ concat (map redaction_notice rs)) w1 = (Inl e, w')"
        by (simp add: bind_def)
      from Cons.IH [OF this, of False] Inr Pair kp show ?thesis by (simp add: bind_def)
    qed
  qed
qed (simp add: ret_def)

lemma provider_chunks_Inr:
  "collect_providers ps s (data, n, ns) w = (Inr (data', n', ns'), w') \<Longrightarrow>
   \<exists>chunks more. provider_chunks first ps s (map fst data, n, ns) w = (Inr (chunks, map fst data', n', ns'), w') \<and>
     data' = data @ more \<and> concat chunks = (if first \<or> more = [] then [] else '','') @ json_compact_obj more"
proof (induction ps arbitrary: first data n ns w)
  case (Cons kp ps)
  obtain k p where kp: "kp = (k, p)" by (cases kp)
  let ?row = "\<lambda>rs. (k, JList (map serialise_record rs))"
  from Cons.prems kp obtain rs w1 where run: "run_provider p s w = (Inr rs, w1)" and
    rest: "collect_providers ps s (data @ [?row rs], n + length rs, ns @ concat (map redaction_notice rs)) w1 = (Inr (data', n', ns'), w')"
    by (auto simp: bind_Inr)
  from Cons.IH [OF rest, of False] obtain chunks more where
    "provider_chunks False ps s (map fst data @ [k], n + length rs, ns @ concat (map redaction_notice rs)) w1 =
       (Inr (chunks, map fst data', n', ns'), w')"
    "data' = data @ [?row rs] @ more" "concat chunks = (if more = [] then [] else '','') @ json_compact_obj more"
    by auto
  with run kp show ?case
    by (intro exI [of _ "(if first then [] else ['','']) @ [json_key k, ''[''] @ record_chunks True rs @ ['']''] @ chunks"]
        exI [of _ "?row rs # more"])
       (auto simp: bind_def ret_def concat_record_chunks json_key_def)
qed (auto simp: ret_def)

text \<open>C11: The text streamed into an archive is the export document: whenever the document is built, the stream is written,
  with the same effect, and its pieces join to the JSON text of the document, with the manifest after the data; and when one
  fails the other fails with the same error.\<close>

theorem stream_is_document:
  assumes "xct_subject c = Some s"
  shows "case export_subject_data c w of
      (Inl e, w') \<Rightarrow> iter_subject_export_json_chunks c w = (Inl e, w')
    | (Inr document, w') \<Rightarrow> (\<exists>chunks manifest data. iter_subject_export_json_chunks c w = (Inr chunks, w') \<and>
        document = JObj (export_header c s @ [(''manifest'', manifest), (''data'', data)]) \<and>
        concat chunks = json_compact (JObj (export_header c s @ [(''data'', data), (''manifest'', manifest)])))"
proof (cases "collect_providers export_providers s ([], 0, []) w")
  case (Pair r w')
  show ?thesis
  proof (cases r)
    case (Inl e)
    with Pair provider_chunks_Inl [of export_providers s "[]" 0 "[]" w e w' True] assms show ?thesis
      by (simp add: export_subject_data_def iter_subject_export_json_chunks_def bind_def)
  next
    case (Inr x)
    obtain data n ns where x: "x = (data, n, ns)" by (cases x)
    with Pair Inr provider_chunks_Inr [of export_providers s "[]" 0 "[]" w data n ns w' True] obtain chunks where
      run: "provider_chunks True export_providers s ([], 0, []) w = (Inr (chunks, map fst data, n, ns), w')"
      and pieces: "concat chunks = json_compact_obj data" by auto
    have nonempty: "export_header c s \<noteq> []" by (simp add: export_header_def)
    have "concat ([''{''] @ header_chunks True (export_header c s) @ ['','', json_key ''data'', ''{''] @ chunks @ [''}''] @
        ['','', json_key ''manifest'', json_compact (export_manifest (map fst data) n ns), ''}'']) =
      json_compact (JObj (export_header c s @ [(''data'', JObj data), (''manifest'', export_manifest (map fst data) n ns)]))"
      using nonempty by (simp add: concat_header_chunks compact_obj_append pieces json_key_def)
    then show ?thesis using Pair Inr x run assms
      by (simp add: export_subject_data_def iter_subject_export_json_chunks_def bind_def ret_def)
  qed
qed

subsection \<open>What a record may say\<close>

text \<open>The fields that name a person by the account, and the columns that are never given out.\<close>

definition person_fields :: "string list" where
  "person_fields = [''user_id'', ''revoked_by_user_id'', ''created_by_user_id'', ''requester_user_id'', ''subject_user_id'',
     ''reviewer_user_id'', ''representative_verified_by_user_id'', ''requested_by_user_id'', ''generated_by_user_id'', ''actor_user_id'']"

definition never_exported :: "string list" where
  "never_exported = [''token_hash'', ''payload_json'', ''suspended_reason'', ''last_error'', ''reason'', ''legal_hold_until'', ''internal_note'',
     ''idempotency_key_hash'', ''idempotency_fingerprint'', ''idempotency_key_expires_at'', ''execution_failure_detail'',
     ''storage_key'', ''processing_token'', ''processing_lease_expires_at'', ''failure_detail'']"

text \<open>The two persons of an artifact are given out as they are; every other person only if it is the subject.\<close>

definition artifact_parties :: "string \<Rightarrow> string list" where
  "artifact_parties t = (if t = ''export_artifacts'' then [''subject_user_id'', ''requester_user_id''] else [])"

definition tidy :: "string list \<Rightarrow> uuid \<Rightarrow> (string \<times> json) list \<times> string list \<Rightarrow> bool" where
  "tidy parties s pr \<longleftrightarrow> (\<forall>k\<in>set (map fst (fst pr)). k \<notin> set (snd pr) \<and> k \<notin> set never_exported) \<and>
     (\<forall>(k, v)\<in>set (fst pr). k \<in> set person_fields \<and> k \<notin> set parties \<longrightarrow> v = id_json s \<or> v = JNull)"

definition discreet :: "uuid \<Rightarrow> export_record \<Rightarrow> bool" where
  "discreet s r \<longleftrightarrow> tidy (artifact_parties (exr_table_name r)) s (exr_payload r, exr_redacted r)"

lemmas tidy_defs = discreet_def artifact_parties_def tidy_def person_fields_def never_exported_def

lemma include_tidy:
  assumes "tidy parties s pr" and "field_name \<notin> set (map fst (fst pr))" "field_name \<notin> set (snd pr)" "presence_field \<notin> set (snd pr)"
    and "presence_field \<noteq> field_name" "field_name \<notin> set never_exported" "presence_field \<notin> set never_exported" "presence_field \<notin> set person_fields"
  shows "tidy parties s (include_or_minimise_actor_field field_name actor s presence_field pr)"
  using assms by (auto simp: include_or_minimise_actor_field_def tidy_def split: option.splits)

lemma include_fresh:
  "k \<notin> set (map fst (fst pr)) \<Longrightarrow> k \<noteq> f \<Longrightarrow> k \<noteq> q \<Longrightarrow> k \<notin> set (map fst (fst (include_or_minimise_actor_field f a s q pr)))"
  "k \<notin> set (snd pr) \<Longrightarrow> k \<noteq> f \<Longrightarrow> k \<notin> set (snd (include_or_minimise_actor_field f a s q pr))"
  by (auto simp: include_or_minimise_actor_field_def split: option.splits)

lemma plain_records_discreet:
  "discreet s (user_profile_record u)" "mem_user_id m = s \<Longrightarrow> discreet s (membership_record m)" "discreet s (organisation_record o')"
  "inv_revoked_by_user_id v = Some s \<Longrightarrow> discreet s (revoker_reference_record v)"
  "stf_created_by_user_id t = Some s \<Longrightarrow> discreet s (creator_reference_record t)"
  "pau_subject a = s \<Longrightarrow> discreet s (authorization_record (a, p))"
  "cns_subject c = s \<Longrightarrow> discreet s (consent_export_record (c, p))" "pna_subject n = s \<Longrightarrow> discreet s (notice_record n)"
  by (simp_all add: tidy_defs user_profile_record_def membership_record_def organisation_record_def revoker_reference_record_def
      creator_reference_record_def authorization_record_def consent_export_record_def notice_record_def opt_json_def)

lemma named_after:
  "x \<in> set (snd (outbox_payload_reference payload)) \<Longrightarrow> take 13 x = ''payload_json.''"
  "x \<in> set (snd (safe_audit_metadata metadata)) \<Longrightarrow> take 14 x = ''metadata_json.''"
  by (auto simp: outbox_payload_reference_def safe_audit_metadata_def split: option.splits json.splits)

lemma outbox_record_discreet: "discreet s (outbox_record e)"
proof (cases "outbox_payload_reference (obx_payload_json e)")
  case (Pair reference redacted)
  then have "take 13 x = ''payload_json.''" if "x \<in> set redacted" for x
    using that named_after(1) [of x "obx_payload_json e"] by simp
  then have "x \<notin> set redacted" if "take 13 x \<noteq> ''payload_json.''" for x using that by blast
  then show ?thesis by (simp add: tidy_defs outbox_record_def Pair)
qed

lemma audit_record_discreet: "discreet s (audit_record s e)"
proof (cases "safe_audit_metadata (aud_metadata_json e)")
  case (Pair metadata redacted)
  then have "take 14 x = ''metadata_json.''" if "x \<in> set redacted" for x
    using that named_after(2) [of x "aud_metadata_json e"] by simp
  then have "x \<notin> set redacted" if "take 14 x \<noteq> ''metadata_json.''" for x using that by blast
  then show ?thesis by (simp add: tidy_defs audit_record_def Pair opt_json_def)
qed

lemma actor_reference_discreet: "discreet s (actor_reference_record s a)"
  by (simp add: tidy_defs actor_reference_record_def opt_json_def Let_def)

text \<open>The records with persons beside the subject.\<close>

lemma include_record_discreet:
  assumes "tidy (artifact_parties t) s pr"
  shows "discreet s (let (payload, redacted) = pr in
    \<lparr>exr_provider_key = k, exr_table_name = t, exr_kind = kind, exr_payload = payload, exr_redacted = redacted\<rparr>)"
  using assms by (cases pr) (simp add: discreet_def)

lemma invite_record_discreet: "discreet s (subject_invite_record s v)"
  unfolding subject_invite_record_def
  by (intro include_record_discreet include_tidy) (simp_all add: tidy_defs)

lemma staff_record_discreet: "stf_user_id r = s \<Longrightarrow> discreet s (subject_staff_record s r)"
  unfolding subject_staff_record_def
  by (intro include_record_discreet include_tidy) (simp_all add: tidy_defs)

lemma request_records_discreet: "discreet s (subject_request_record s r)" "discreet s (dsr_reference_record s r)"
  unfolding subject_request_record_def dsr_reference_record_def
  by (intro include_record_discreet include_tidy include_fresh; simp add: tidy_defs)+

lemma artifact_record_discreet: "discreet s (subject_artifact_record s a)"
  unfolding subject_artifact_record_def
  by (intro include_record_discreet include_tidy include_fresh; simp add: tidy_defs)

subsection \<open>The contract of a provider\<close>

text \<open>A provider changes nothing, returns for every user, and its records are discreet.\<close>

locale export_contract =
  fixes p :: export_provider
  assumes reads: "snd (p s w) = w"
    and returns: "integrity (db w) \<Longrightarrow> has_user (db w) s \<Longrightarrow> \<exists>rs. fst (p s w) = Inr rs"
    and discreet_records: "integrity (db w) \<Longrightarrow> fst (p s w) = Inr rs \<Longrightarrow> r \<in> set rs \<Longrightarrow> discreet s r"
begin

lemma run_reads: "snd (run_provider p s w) = w"
  using reads [of s w] by (auto simp: run_provider_def try_except_def raise_def split: prod.splits sum.splits)

lemma run_returns: "integrity (db w) \<Longrightarrow> has_user (db w) s \<Longrightarrow> \<exists>rs. run_provider p s w = (Inr rs, w)"
  using returns [of w s] reads [of s w] by (auto simp: run_provider_def try_except_def split: prod.splits sum.splits)

lemma run_discreet: "integrity (db w) \<Longrightarrow> run_provider p s w = (Inr rs, w') \<Longrightarrow> r \<in> set rs \<Longrightarrow> discreet s r"
  using discreet_records [of w s rs r]
  by (auto simp: run_provider_def try_except_def raise_def split: prod.splits sum.splits if_splits)

end

lemma set_keyset_loop: "r \<in> set (keyset_loop key batch last_key rows) \<Longrightarrow> r \<in> set rows"
proof (induction key batch last_key rows rule: keyset_loop.induct)
  case (1 key batch last_key rows)
  let ?p = "keyset_page key batch last_key rows"
  show ?case
  proof (cases "?p = []")
    case True
    with 1(2) show ?thesis by (simp add: keyset_loop.simps [of key batch last_key])
  next
    case False
    with 1(2) have "r \<in> set ?p \<or> r \<in> set (keyset_loop key batch (Some (key (last ?p))) rows)"
      by (simp add: keyset_loop.simps [of key batch last_key] Let_def)
    then show ?thesis using 1(1) [OF refl False] keyset_page_member [of r key batch last_key rows] by blast
  qed
qed

lemma set_keyset:
  "r \<in> set (iter_model_keyset sv ident b rows) \<Longrightarrow> r \<in> set rows"
  "x \<in> set (iter_row_keyset sv ident b pairs) \<Longrightarrow> x \<in> set pairs"
  unfolding iter_model_keyset_def iter_row_keyset_def by (rule set_keyset_loop, assumption)+

lemma query_contract:
  assumes "\<And>d s r. r \<in> set (f s d) \<Longrightarrow> discreet s r"
  shows "export_contract (\<lambda>s. query (f s))"
  by unfold_locales (auto simp: query_def gets_def intro: assms)

lemma get_subject_user_run:
  assumes "integrity (db w)"
  shows "get_subject_user s w = (Inr (find (\<lambda>u. usr_id u = s) (users (db w))), w)"
  using user_get_by_id_eq [OF assms, of s] by (simp add: get_subject_user_def user_get_by_id_def)

lemma get_subject_reads: "snd (get_subject_user s w) = w" "snd (get_subject_email s w) = w"
  by (auto simp: get_subject_email_def get_subject_user_def bind_def query_def gets_def scalar_one_or_none_def ret_def raise_def
      split: prod.splits sum.splits list.splits)

lemma get_subject_email_run:
  assumes "integrity (db w)"
  obtains m where "get_subject_email s w = (Inr m, w)" "\<forall>x. m = Some x \<longrightarrow> strip x = x"
proof -
  let ?m = "case find (\<lambda>u. usr_id u = s) (users (db w)) of None \<Rightarrow> None
    | Some u \<Rightarrow> (case usr_email u of None \<Rightarrow> None | Some e \<Rightarrow> if e = [] then None else Some (lower (strip e)))"
  have "get_subject_email s w = (Inr ?m, w)" by (simp add: get_subject_email_def bind_def get_subject_user_run [OF assms] ret_def)
  moreover have "\<forall>x. ?m = Some x \<longrightarrow> strip x = x" by (auto split: option.splits if_splits)
  ultimately show thesis by (rule that)
qed

lemma email_contract:
  assumes "\<And>d s m r. (\<And>x. m = Some x \<Longrightarrow> strip x = x) \<Longrightarrow> r \<in> set (f s m d) \<Longrightarrow> discreet s r"
  shows "export_contract (\<lambda>s. bind (get_subject_email s) (\<lambda>m. query (f s m)))"
proof
  fix s w
  show "snd (bind (get_subject_email s) (\<lambda>m. query (f s m)) w) = w"
    using get_subject_reads(2) [of s w] by (auto simp: bind_def query_def gets_def split: prod.splits sum.splits)
next
  fix w :: world and s assume I: "integrity (db w)"
  obtain m where m: "get_subject_email s w = (Inr m, w)" "\<forall>x. m = Some x \<longrightarrow> strip x = x"
    using get_subject_email_run [OF I, of s] by blast
  from m show "\<exists>rs. fst (bind (get_subject_email s) (\<lambda>m. query (f s m)) w) = Inr rs"
    by (simp add: bind_def query_def gets_def)
  fix rs r assume "fst (bind (get_subject_email s) (\<lambda>m. query (f s m)) w) = Inr rs" "r \<in> set rs"
  then show "discreet s r" using m assms [of m r s "db w"] by (simp add: bind_def query_def gets_def)
qed

interpretation exp_users: export_contract users_export
proof
  fix s w
  show "snd (users_export s w) = w"
    using get_subject_reads(1) [of s w]
    by (auto simp: users_export_def bind_def raise_def ret_def split: prod.splits sum.splits option.splits)
next
  fix w :: world and s assume I: "integrity (db w)"
  note run = get_subject_user_run [OF I, of s]
  show "\<exists>rs. fst (users_export s w) = Inr rs" if "has_user (db w) s"
    using that run by (auto simp: users_export_def bind_def ret_def raise_def has_user_def list_ex_iff find_None_iff split: option.splits)
  fix rs r assume "fst (users_export s w) = Inr rs" "r \<in> set rs"
  then show "discreet s r"
    using run plain_records_discreet(1) by (auto simp: users_export_def bind_def ret_def raise_def split: option.splits)
qed

interpretation exp_memberships: export_contract memberships_export
  unfolding memberships_export_def by (rule query_contract) (auto dest!: set_keyset intro: plain_records_discreet)

interpretation exp_organisations: export_contract organisations_export
  unfolding organisations_export_def by (rule query_contract) (auto dest!: set_keyset intro: plain_records_discreet)

lemma only_the_revoker:
  assumes "invite_of_subject s m v" "is_revoker_only_record v m" "\<And>x. m = Some x \<Longrightarrow> strip x = x"
  shows "inv_revoked_by_user_id v = Some s"
proof (rule ccontr)
  assume "inv_revoked_by_user_id v \<noteq> Some s"
  with assms(1) obtain x where x: "m = Some x" "sql_email (inv_email v) = x" by (auto simp: invite_of_subject_def split: option.splits)
  have "lower (strip (inv_email v)) = strip (sql_email (inv_email v))" by (simp add: sql_email_def strip_lower strip_sql_trim)
  with assms(2,3) x show False by (simp add: is_revoker_only_record_def split: if_splits)
qed

interpretation exp_invites: export_contract invites_export
  unfolding invites_export_def
  by (rule email_contract)
     (auto dest!: set_keyset intro: invite_record_discreet plain_records_discreet(4) [OF only_the_revoker])

interpretation exp_outbox: export_contract outbox_export
proof -
  have "outbox_export = (\<lambda>s. bind (get_subject_email s) (\<lambda>email. query (\<lambda>d. case email of None \<Rightarrow> []
      | Some m \<Rightarrow> map outbox_record (iter_model_keyset obx_created_at obx_id None (filter (referenced_outbox_event d m) (outbox_events d))))))"
    by (rule ext, rule ext) (simp add: outbox_export_def bind_def query_def gets_def ret_def split: prod.splits sum.splits option.splits)
  moreover have "export_contract \<dots>"
    by (rule email_contract) (auto intro: outbox_record_discreet split: option.splits)
  ultimately show "export_contract outbox_export" by simp
qed

interpretation exp_audit: export_contract audit_export
  unfolding audit_export_def by (rule query_contract) (auto intro: audit_record_discreet)

interpretation exp_staff: export_contract staff_export
  unfolding staff_export_def
  by (rule query_contract)
     (auto dest!: set_keyset simp: is_creator_only_record_def intro: plain_records_discreet staff_record_discreet)

interpretation exp_workflow: export_contract workflow_export
  unfolding workflow_export_def by (rule query_contract) (auto intro: request_records_discreet)

interpretation exp_artifacts: export_contract artifacts_export
  unfolding artifacts_export_def by (rule query_contract) (auto intro: actor_reference_discreet artifact_record_discreet)

lemma with_purpose_member: "(r, p) \<in> set (with_purpose f d rows) \<Longrightarrow> r \<in> set rows"
  by (auto simp: with_purpose_def)

interpretation exp_authorizations: export_contract authorizations_export
  unfolding authorizations_export_def
  by (rule query_contract) (auto dest!: set_keyset with_purpose_member intro: plain_records_discreet)

interpretation exp_consents: export_contract consents_export
  unfolding consents_export_def
  by (rule query_contract) (auto dest!: set_keyset with_purpose_member intro: plain_records_discreet)

interpretation exp_notices: export_contract notices_export
  unfolding notices_export_def by (rule query_contract) (auto dest!: set_keyset intro: plain_records_discreet)

lemmas provider_contracts =
  exp_users.export_contract_axioms exp_memberships.export_contract_axioms exp_organisations.export_contract_axioms
  exp_invites.export_contract_axioms exp_outbox.export_contract_axioms exp_audit.export_contract_axioms
  exp_staff.export_contract_axioms exp_workflow.export_contract_axioms exp_artifacts.export_contract_axioms
  exp_authorizations.export_contract_axioms exp_consents.export_contract_axioms exp_notices.export_contract_axioms

lemma providers_keep_contract: "\<forall>k p. (k, p) \<in> set export_providers \<longrightarrow> export_contract p"
  using provider_contracts by (auto simp: export_providers_def)

subsection \<open>The document\<close>

lemma collect_run:
  assumes "\<forall>k p. (k, p) \<in> set ps \<longrightarrow> export_contract p" and "integrity (db w)"
    and "collect_providers ps s (data, n, ns) w = (Inr (data', n', ns'), w')"
  shows "(k, j) \<in> set data' \<Longrightarrow> (k, j) \<in> set data \<or> (\<exists>rs. j = JList (map serialise_record rs) \<and> (\<forall>r\<in>set rs. discreet s r))"
  using assms
proof (induction ps arbitrary: data n ns)
  case (Cons kp ps)
  obtain k' p where kp: "kp = (k', p)" by (cases kp)
  have C: "export_contract p" using Cons.prems(2) kp by auto
  from Cons.prems(4) kp obtain rs w1 where run: "run_provider p s w = (Inr rs, w1)" and
    rest: "collect_providers ps s (data @ [(k', JList (map serialise_record rs))], n + length rs, ns @ concat (map redaction_notice rs)) w1 =
      (Inr (data', n', ns'), w')" by (auto simp: bind_Inr)
  have "w1 = w" using export_contract.run_reads [OF C, of s w] run by simp
  with Cons.IH [OF Cons.prems(1) _ Cons.prems(3)] rest Cons.prems(2) export_contract.run_discreet [OF C Cons.prems(3) run]
  show ?case by fastforce
qed (simp add: ret_def)

lemma collect_returns:
  assumes "\<forall>k p. (k, p) \<in> set ps \<longrightarrow> export_contract p" and "integrity (db w)" "has_user (db w) s"
  shows "\<exists>x. collect_providers ps s acc w = (Inr x, w)"
  using assms(1)
proof (induction ps arbitrary: acc)
  case (Cons kp ps)
  obtain k p where kp: "kp = (k, p)" by (cases kp)
  obtain data n ns where acc: "acc = (data, n, ns)" by (cases acc)
  have "export_contract p" using Cons.prems kp by auto
  from export_contract.run_returns [OF this assms(2,3)] obtain rs where "run_provider p s w = (Inr rs, w)" by auto
  moreover have "\<exists>x. collect_providers ps s acc' w = (Inr x, w)" for acc'
    by (rule Cons.IH) (use Cons.prems in auto)
  ultimately show ?case using kp acc by (simp add: bind_def del: split_paired_Ex)
qed (simp add: ret_def del: split_paired_Ex)


text \<open>The export of a user's data always succeeds and changes nothing.\<close>

theorem export_returns:
  assumes "xct_subject c = Some s" and "has_user (db w) s" and "integrity (db w)"
  shows "\<exists>document. export_subject_data c w = (Inr document, w)"
  using collect_returns [OF providers_keep_contract assms(3,2), where acc = "([], 0, [])"] assms(1)
  by (auto simp: export_subject_data_def bind_def ret_def)

subsection \<open>Witnesses\<close>

text \<open>Alice's export of her own data.\<close>

definition demo_export :: export_context where
  "demo_export = \<lparr>xct_artifact_id = 60, xct_request_id = 50, xct_subject = Some 1, xct_requester = Some 1,
     xct_request_type = DSR_EXPORT, xct_request_status = DSR_APPROVED, xct_generated_at = 5, xct_schema_version = ''1''\<rparr>"

lemma demo_export_subject: "xct_subject demo_export = Some 1" "has_user (db demo_world) 1" "integrity (db demo_world)"
  using demo_integrity by (simp_all add: demo_export_def has_user_def demo_db_def demo_user_def)

theorem export_returns_witness: "\<exists>document. export_subject_data demo_export demo_world = (Inr document, demo_world)"
  by (rule export_returns [OF demo_export_subject])

lemma first_records:
  assumes "collect_providers export_providers s ([], 0, []) w = (Inr (data, n, ns), w')"
  shows "\<exists>u. (''users.profile'', JList [serialise_record (user_profile_record u)]) \<in> set data"
proof -
  obtain ps where ps: "export_providers = (''users.profile'', users_export) # ps" by (simp add: export_providers_def)
  from assms [unfolded ps] obtain rs w1 where run: "run_provider users_export s w = (Inr rs, w1)" and
    rest: "collect_providers ps s ([(''users.profile'', JList (map serialise_record rs))], length rs, concat (map redaction_notice rs)) w1 =
      (Inr (data, n, ns), w')"
    by (auto simp: bind_Inr)
  from run obtain u where "rs = [user_profile_record u]"
    by (auto simp: run_provider_def users_export_def try_except_def bind_def ret_def raise_def split: prod.splits sum.splits option.splits if_splits)
  with provider_chunks_Inr [OF rest, of True] show ?thesis by auto
qed


theorem stream_is_document_witness:
  "\<exists>chunks manifest data. iter_subject_export_json_chunks demo_export demo_world = (Inr chunks, demo_world) \<and>
     concat chunks = json_compact (JObj (export_header demo_export 1 @ [(''data'', data), (''manifest'', manifest)]))"
proof -
  from collect_returns [OF providers_keep_contract demo_export_subject(3,2), where acc = "([], 0, [])"] obtain document where
    "export_subject_data demo_export demo_world = (Inr document, demo_world)"
    by (auto simp: export_subject_data_def demo_export_def bind_def ret_def)
  with stream_is_document [OF demo_export_subject(1), of demo_world] show ?thesis by auto
qed

end
