(* ===== verification/Client_Address.thy ===== *)
theory Client_Address
  imports Tenant_API
begin

section \<open>The address of a client\<close>

text \<open>
  \<^verbatim>\<open>core/rate_limit/identifiers.py\<close> and \<^verbatim>\<open>audit/context.py\<close>: which address a request is
  counted under and which one the audit records. Forwarded addresses are believed only from a
  trusted proxy. Networks are parsed as \<open>ipaddress.ip_network(text, strict=False)\<close> does.
\<close>

text \<open>What the code reads of a request. Header names are in lower case, as ASGI servers give them.\<close>

record http_request =
  rq_client_host :: "string option"
  rq_headers :: "(string \<times> string) list"
  rq_method :: string
  rq_path :: string
  rq_raw_path :: "string option"
  rq_query :: string

definition get_header :: "http_request \<Rightarrow> string \<Rightarrow> string option" where
  "get_header rq name = map_of (rq_headers rq) name"

subsection \<open>Networks\<close>

text \<open>A network: whether it is of version 6, its address and the length of its prefix.\<close>

datatype ip_net = IpNet (net_v6: bool) (net_address: int) (net_prefix: nat)

definition max_prefix :: "bool \<Rightarrow> nat" where
  "max_prefix v6 = (if v6 then 128 else 32)"

definition clear_host_bits :: "bool \<Rightarrow> nat \<Rightarrow> int \<Rightarrow> int" where
  "clear_host_bits v6 n a = a div 2 ^ (max_prefix v6 - n) * 2 ^ (max_prefix v6 - n)"

definition prefix_from_prefix_string :: "bool \<Rightarrow> string \<Rightarrow> nat option" where
  "prefix_from_prefix_string v6 s =
     (if s = [] \<or> \<not> list_all is_digit s \<or> int (max_prefix v6) < dec_value s then None else Some (nat (dec_value s)))"

text \<open>A netmask or, failing that, a hostmask.\<close>

definition prefix_from_ip_string :: "string \<Rightarrow> nat option" where
  "prefix_from_ip_string s = (case parse_ipv4 s of
     None \<Rightarrow> None
   | Some m \<Rightarrow>
       (case find (\<lambda>k. m = 2 ^ 32 - 2 ^ k) [0..<33] of
          Some k \<Rightarrow> Some (32 - k)
        | None \<Rightarrow> map_option (\<lambda>k. 32 - k) (find (\<lambda>k. m = 2 ^ k - 1) [0..<33])))"

definition make_netmask :: "bool \<Rightarrow> string \<Rightarrow> nat option" where
  "make_netmask v6 s = (case prefix_from_prefix_string v6 s of
     Some n \<Rightarrow> Some n
   | None \<Rightarrow> if v6 then None else prefix_from_ip_string s)"

definition make_network :: "bool \<Rightarrow> int option \<Rightarrow> nat option \<Rightarrow> ip_net option" where
  "make_network v6 a n = (case (a, n) of
     (Some x, Some k) \<Rightarrow> Some (IpNet v6 (clear_host_bits v6 k x) k)
   | _ \<Rightarrow> None)"

definition ipv6_network_address :: "string \<Rightarrow> int option" where
  "ipv6_network_address s = (case split_scope s of None \<Rightarrow> None | Some (a, _) \<Rightarrow> parse_ipv6_int a)"

definition ip_network :: "string \<Rightarrow> ip_net option" where
  "ip_network s = (case split_on (CHR ''/'') s of
     [a] \<Rightarrow> (case make_network False (parse_ipv4 a) (Some 32) of
        Some n \<Rightarrow> Some n
      | None \<Rightarrow> make_network True (ipv6_network_address a) (Some 128))
   | [a, m] \<Rightarrow> (case make_network False (parse_ipv4 a) (make_netmask False m) of
        Some n \<Rightarrow> Some n
      | None \<Rightarrow> make_network True (ipv6_network_address a) (make_netmask True m))
   | _ \<Rightarrow> None)"

fun in_network :: "ip \<Rightarrow> ip_net \<Rightarrow> bool" where
  "in_network (IPv4 a) n = (\<not> net_v6 n \<and> clear_host_bits False (net_prefix n) a = net_address n)"
| "in_network (IPv6 a _) n = (net_v6 n \<and> clear_host_bits True (net_prefix n) a = net_address n)"

subsection \<open>Trusted proxies\<close>

definition is_request_from_trusted_proxy :: "http_request \<Rightarrow> string list \<Rightarrow> bool" where
  "is_request_from_trusted_proxy rq trusted_proxy_cidrs = (case parse_ip (rq_client_host rq) of
     None \<Rightarrow> False
   | Some peer \<Rightarrow> list_ex (\<lambda>cidr. case ip_network cidr of None \<Rightarrow> False | Some n \<Rightarrow> in_network peer n) trusted_proxy_cidrs)"

text \<open>\<open>_normalise_ip\<close>: no address is the address \<open>0.0.0.0\<close>, a version 6 address is its /64 network.\<close>

definition normalise_ip :: "string option \<Rightarrow> string" where
  "normalise_ip value = (case parse_ip value of
     None \<Rightarrow> ''0.0.0.0''
   | Some (IPv4 a) \<Rightarrow> compressed (IPv4 a)
   | Some (IPv6 a sc) \<Rightarrow> compressed (network (IPv6 a sc)))"

definition first_hop :: "string \<Rightarrow> string" where
  "first_hop forwarded = strip (takeWhile (\<lambda>c. c \<noteq> CHR '','') forwarded)"

text \<open>A header that is missing or empty is passed over.\<close>

definition header_text :: "http_request \<Rightarrow> string \<Rightarrow> string option" where
  "header_text rq name = (case get_header rq name of None \<Rightarrow> None | Some v \<Rightarrow> if v = [] then None else Some v)"

definition resolve_client_ip :: "http_request \<Rightarrow> bool \<Rightarrow> string list \<Rightarrow> string" where
  "resolve_client_ip rq trust_proxy_headers trusted_proxy_cidrs =
     (let peer_ip = normalise_ip (rq_client_host rq) in
      if \<not> trust_proxy_headers then peer_ip
      else if \<not> is_request_from_trusted_proxy rq trusted_proxy_cidrs then peer_ip
      else
        (let forwarded = (case header_text rq ''x-forwarded-for'' of None \<Rightarrow> ''0.0.0.0'' | Some v \<Rightarrow> normalise_ip (Some (first_hop v)));
             real = (case header_text rq ''x-real-ip'' of None \<Rightarrow> ''0.0.0.0'' | Some v \<Rightarrow> normalise_ip (Some (strip v)))
         in if forwarded \<noteq> ''0.0.0.0'' then forwarded else if real \<noteq> ''0.0.0.0'' then real else peer_ip))"

subsection \<open>Bucket keys\<close>

record rate_limit_identifier =
  rli_kind :: string
  rli_bucket_key :: string

record rate_limit_bucket =
  rlb_kind :: string
  rlb_raw_value :: string

definition bucket_key_prefix :: string where
  "bucket_key_prefix = ''rlid:v1:hmac-sha256''"

definition build_bucket_key :: "externals \<Rightarrow> string \<Rightarrow> string \<Rightarrow> string" where
  "build_bucket_key X message secret = bucket_key_prefix @ '':'' @ hmac_sha256_hex X secret message"

definition build_bucket_identifier :: "externals \<Rightarrow> rate_limit_bucket \<Rightarrow> string \<Rightarrow> rate_limit_identifier" where
  "build_bucket_identifier X b secret =
     \<lparr>rli_kind = rlb_kind b, rli_bucket_key = build_bucket_key X (rlb_kind b @ '':'' @ rlb_raw_value b) secret\<rparr>"

definition build_identifier ::
  "externals \<Rightarrow> principal option \<Rightarrow> http_request \<Rightarrow> bool \<Rightarrow> string \<Rightarrow> string list \<Rightarrow> rate_limit_identifier" where
  "build_identifier X p rq trust_proxy_headers secret trusted_proxy_cidrs = (case p of
     Some i \<Rightarrow> \<lparr>rli_kind = ''user'', rli_bucket_key = build_bucket_key X (''user:'' @ idn_external_auth_id i) secret\<rparr>
   | None \<Rightarrow> \<lparr>rli_kind = ''ip'',
       rli_bucket_key = build_bucket_key X (''ip:'' @ resolve_client_ip rq trust_proxy_headers trusted_proxy_cidrs) secret\<rparr>)"

subsection \<open>The address in the audit\<close>

definition normalise_audit_ip :: "string option \<Rightarrow> string option" where
  "normalise_audit_ip value = map_option compressed (parse_ip value)"

definition forwarded_audit_client_ip :: "http_request \<Rightarrow> string option" where
  "forwarded_audit_client_ip rq =
     (case (case header_text rq ''x-forwarded-for'' of None \<Rightarrow> None | Some v \<Rightarrow> normalise_audit_ip (Some (first_hop v))) of
        Some ip \<Rightarrow> Some ip
      | None \<Rightarrow> (case header_text rq ''x-real-ip'' of None \<Rightarrow> None | Some v \<Rightarrow> normalise_audit_ip (Some v)))"

definition audit_client_ip_from_request :: "http_request \<Rightarrow> bool \<Rightarrow> string list \<Rightarrow> string option" where
  "audit_client_ip_from_request rq trust_proxy_headers trusted_proxy_cidrs =
     (case normalise_audit_ip (rq_client_host rq) of
        None \<Rightarrow> None
      | Some peer_ip \<Rightarrow>
          if \<not> trust_proxy_headers \<or> \<not> is_request_from_trusted_proxy rq trusted_proxy_cidrs then Some peer_ip
          else (case forwarded_audit_client_ip rq of Some ip \<Rightarrow> Some ip | None \<Rightarrow> Some peer_ip))"

text \<open>What the services receive of a request.\<close>

definition request_meta_of :: "http_request \<Rightarrow> bool \<Rightarrow> string list \<Rightarrow> string option \<Rightarrow> request_meta" where
  "request_meta_of rq trust_proxy_headers trusted_proxy_cidrs secret =
     \<lparr>req_ip_address = audit_client_ip_from_request rq trust_proxy_headers trusted_proxy_cidrs,
      req_user_agent = get_header rq ''user-agent'', req_network_identifier_secret = secret\<rparr>"

end
