(* ===== verification/Rate_Limits.thy ===== *)
theory Rate_Limits
  imports Client_Address
begin

section \<open>Rate limits\<close>

text \<open>
  \<^verbatim>\<open>core/rate_limit/policies.py\<close> and \<^verbatim>\<open>registry.py\<close>: the policies, what the settings check
  of rate limiting, and the policies in effect once mode, overrides and environment are applied.
\<close>

subsection \<open>Policies\<close>

datatype limit_sensitivity = SENS_NORMAL | SENS_SENSITIVE | SENS_CRITICAL

datatype limit_mode = MODE_NORMAL | MODE_STRICT | MODE_RELAXED | MODE_PANIC

record policy_spec =
  psp_name :: string
  psp_limit :: int
  psp_window :: int
  psp_fail_open :: bool
  psp_sensitivity :: limit_sensitivity

text \<open>\<open>RateLimitItem\<close> of \<^verbatim>\<open>limits\<close>: how many hits in how many seconds.\<close>

record rate_limit_item =
  rit_amount :: int
  rit_expiry :: int

record rate_limit_policy =
  rlp_name :: string
  rlp_item :: rate_limit_item
  rlp_fail_open :: bool
  rlp_sensitivity :: limit_sensitivity
  rlp_override_applied :: bool

definition pre_auth_policy :: policy_spec where
  "pre_auth_policy = \<lparr>psp_name = ''pre_auth'', psp_limit = 120, psp_window = 60, psp_fail_open = True, psp_sensitivity = SENS_SENSITIVE\<rparr>"

definition authenticated_default_policy :: policy_spec where
  "authenticated_default_policy = \<lparr>psp_name = ''authenticated_default'', psp_limit = 120, psp_window = 60, psp_fail_open = True, psp_sensitivity = SENS_NORMAL\<rparr>"

definition tenant_read_policy :: policy_spec where
  "tenant_read_policy = \<lparr>psp_name = ''tenant_read'', psp_limit = 120, psp_window = 60, psp_fail_open = True, psp_sensitivity = SENS_NORMAL\<rparr>"

definition tenant_write_policy :: policy_spec where
  "tenant_write_policy = \<lparr>psp_name = ''tenant_write'', psp_limit = 30, psp_window = 60, psp_fail_open = False, psp_sensitivity = SENS_SENSITIVE\<rparr>"

definition tenant_write_organisation_policy :: policy_spec where
  "tenant_write_organisation_policy = \<lparr>psp_name = ''tenant_write_organisation'', psp_limit = 60, psp_window = 60, psp_fail_open = False, psp_sensitivity = SENS_SENSITIVE\<rparr>"

definition organisation_create_policy :: policy_spec where
  "organisation_create_policy = \<lparr>psp_name = ''organisation_create'', psp_limit = 5, psp_window = 3600, psp_fail_open = False, psp_sensitivity = SENS_CRITICAL\<rparr>"

definition platform_read_policy :: policy_spec where
  "platform_read_policy = \<lparr>psp_name = ''platform_read'', psp_limit = 60, psp_window = 60, psp_fail_open = False, psp_sensitivity = SENS_SENSITIVE\<rparr>"

definition audit_read_policy :: policy_spec where
  "audit_read_policy = \<lparr>psp_name = ''audit_read'', psp_limit = 30, psp_window = 60, psp_fail_open = False, psp_sensitivity = SENS_CRITICAL\<rparr>"

definition invite_mutation_policy :: policy_spec where
  "invite_mutation_policy = \<lparr>psp_name = ''invite_mutation'', psp_limit = 30, psp_window = 3600, psp_fail_open = False, psp_sensitivity = SENS_SENSITIVE\<rparr>"

definition invite_accept_policy :: policy_spec where
  "invite_accept_policy = \<lparr>psp_name = ''invite_accept'', psp_limit = 5, psp_window = 300, psp_fail_open = False, psp_sensitivity = SENS_CRITICAL\<rparr>"

definition invite_accept_token_policy :: policy_spec where
  "invite_accept_token_policy = \<lparr>psp_name = ''invite_accept_token'', psp_limit = 5, psp_window = 300, psp_fail_open = False, psp_sensitivity = SENS_CRITICAL\<rparr>"

definition invite_create_policy :: policy_spec where
  "invite_create_policy = \<lparr>psp_name = ''invite_create'', psp_limit = 20, psp_window = 3600, psp_fail_open = False, psp_sensitivity = SENS_SENSITIVE\<rparr>"

definition invite_create_organisation_policy :: policy_spec where
  "invite_create_organisation_policy = \<lparr>psp_name = ''invite_create_organisation'', psp_limit = 50, psp_window = 3600, psp_fail_open = False, psp_sensitivity = SENS_SENSITIVE\<rparr>"

definition invite_create_organisation_daily_policy :: policy_spec where
  "invite_create_organisation_daily_policy = \<lparr>psp_name = ''invite_create_organisation_daily'', psp_limit = 200, psp_window = 86400, psp_fail_open = False, psp_sensitivity = SENS_CRITICAL\<rparr>"

definition invite_create_target_email_policy :: policy_spec where
  "invite_create_target_email_policy = \<lparr>psp_name = ''invite_create_target_email'', psp_limit = 3, psp_window = 86400, psp_fail_open = False, psp_sensitivity = SENS_CRITICAL\<rparr>"

definition invite_create_target_domain_policy :: policy_spec where
  "invite_create_target_domain_policy = \<lparr>psp_name = ''invite_create_target_domain'', psp_limit = 50, psp_window = 86400, psp_fail_open = False, psp_sensitivity = SENS_SENSITIVE\<rparr>"

definition invite_resend_invite_policy :: policy_spec where
  "invite_resend_invite_policy = \<lparr>psp_name = ''invite_resend_invite'', psp_limit = 5, psp_window = 3600, psp_fail_open = False, psp_sensitivity = SENS_SENSITIVE\<rparr>"

definition invite_resend_organisation_daily_policy :: policy_spec where
  "invite_resend_organisation_daily_policy = \<lparr>psp_name = ''invite_resend_organisation_daily'', psp_limit = 200, psp_window = 86400, psp_fail_open = False, psp_sensitivity = SENS_SENSITIVE\<rparr>"

definition platform_write_policy :: policy_spec where
  "platform_write_policy = \<lparr>psp_name = ''platform_write'', psp_limit = 30, psp_window = 60, psp_fail_open = False, psp_sensitivity = SENS_CRITICAL\<rparr>"

definition platform_staff_write_policy :: policy_spec where
  "platform_staff_write_policy = \<lparr>psp_name = ''platform_staff_write'', psp_limit = 10, psp_window = 60, psp_fail_open = False, psp_sensitivity = SENS_CRITICAL\<rparr>"

definition privacy_dsr_submit_policy :: policy_spec where
  "privacy_dsr_submit_policy = \<lparr>psp_name = ''privacy_dsr_submit'', psp_limit = 5, psp_window = 86400, psp_fail_open = False, psp_sensitivity = SENS_CRITICAL\<rparr>"

definition privacy_export_download_url_policy :: policy_spec where
  "privacy_export_download_url_policy = \<lparr>psp_name = ''privacy_export_download_url'', psp_limit = 10, psp_window = 300, psp_fail_open = False, psp_sensitivity = SENS_CRITICAL\<rparr>"

definition registered_policy_specs :: "policy_spec list" where
  "registered_policy_specs =
    [pre_auth_policy, authenticated_default_policy, tenant_read_policy, tenant_write_policy,
     tenant_write_organisation_policy, organisation_create_policy, invite_accept_policy, invite_accept_token_policy,
     invite_create_policy, invite_create_organisation_policy, invite_create_organisation_daily_policy,
     invite_create_target_email_policy, invite_create_target_domain_policy, invite_mutation_policy,
     invite_resend_invite_policy, invite_resend_organisation_daily_policy, platform_read_policy, audit_read_policy,
     platform_write_policy, platform_staff_write_policy, privacy_dsr_submit_policy, privacy_export_download_url_policy]"

fun build_policy_spec_registry :: "policy_spec list \<Rightarrow> (string \<times> policy_spec) list \<Rightarrow> app_error + (string \<times> policy_spec) list" where
  "build_policy_spec_registry [] registry = Inr registry"
| "build_policy_spec_registry (p # ps) registry =
     (if map_of registry (psp_name p) \<noteq> None then Inl (ValueError (''Duplicate rate limit policy name: '' @ psp_name p))
      else build_policy_spec_registry ps (registry @ [(psp_name p, p)]))"

definition policy_names :: "string list" where
  "policy_names = map psp_name registered_policy_specs"

definition get_rate_limit_policy :: "string \<Rightarrow> app_error + policy_spec" where
  "get_rate_limit_policy name = (case find (\<lambda>p. psp_name p = name) registered_policy_specs of
     Some p \<Rightarrow> Inr p
   | None \<Rightarrow> Inl (ValueError (''Unknown rate limit policy: '' @ name)))"

subsection \<open>Settings\<close>

record policy_override =
  ovr_limit :: "int option"
  ovr_window :: "int option"
  ovr_fail_open :: "bool option"

record rate_limiting_settings =
  rls_enabled :: bool
  rls_enforced_by_edge :: bool
  rls_redis_prefix :: string
  rls_trust_proxy_headers :: bool
  rls_trusted_proxy_cidrs :: "string list"
  rls_pre_auth_enabled :: bool
  rls_edge_header_name :: "string option"
  rls_edge_secret :: "string option"
  rls_identifier_secret :: "string option"
  rls_mode :: limit_mode
  rls_policies :: "(string \<times> policy_override) list"
  rls_environment :: string

definition supported_windows :: "int list" where
  "supported_windows = [60, 300, 3600, 86400]"

text \<open>What \<open>RateLimitPolicyOverride\<close> and \<open>RateLimitingSettings\<close> check.\<close>

definition override_valid :: "policy_override \<Rightarrow> bool" where
  "override_valid v \<longleftrightarrow> (case ovr_limit v of None \<Rightarrow> True | Some n \<Rightarrow> 0 < n) \<and>
     (case ovr_window v of None \<Rightarrow> True | Some w \<Rightarrow> 0 < w \<and> List.member supported_windows w)"

definition validate_rate_limit_secret :: "string option \<Rightarrow> app_error + string option" where
  "validate_rate_limit_secret value = (case value of
     None \<Rightarrow> Inr None
   | Some v \<Rightarrow>
       if strip v = [] then Inr None
       else if length (strip v) < 32 then Inl (ValueError ''Rate limit secrets must be at least 32 characters'')
       else Inr (Some (strip v)))"

definition validate_identifier_secret_required :: "rate_limiting_settings \<Rightarrow> app_error + rate_limiting_settings" where
  "validate_identifier_secret_required s =
     (if rls_enabled s \<and> rls_identifier_secret s = None
      then Inl (ValueError ''RATE_LIMITING__IDENTIFIER_SECRET is required when RATE_LIMITING__ENABLED=true'') else Inr s)"

definition unknown_override_names :: "rate_limiting_settings \<Rightarrow> string list" where
  "unknown_override_names s = filter (\<lambda>n. \<not> List.member policy_names n) (map fst (rls_policies s))"

subsection \<open>The effective policies\<close>

definition rate_limit_item_from_window :: "int \<Rightarrow> int \<Rightarrow> app_error + rate_limit_item" where
  "rate_limit_item_from_window limit window_seconds =
     (if window_seconds = 60 then Inr \<lparr>rit_amount = limit, rit_expiry = 60\<rparr>
      else if window_seconds = 300 then Inr \<lparr>rit_amount = limit, rit_expiry = 5 * 60\<rparr>
      else if window_seconds = 3600 then Inr \<lparr>rit_amount = limit, rit_expiry = 3600\<rparr>
      else if window_seconds = 86400 then Inr \<lparr>rit_amount = limit, rit_expiry = 86400\<rparr>
      else Inl (ValueError (''Unsupported rate limit window_seconds: '' @ dec_str window_seconds @
        ''. Supported values are 60, 300, 3600, and 86400.'')))"

text \<open>\<open>floor(limit * 0.5)\<close> and \<open>floor(limit * 0.25)\<close> are exact for the limits a float holds exactly.\<close>

definition apply_mode_to_limit :: "int \<Rightarrow> limit_mode \<Rightarrow> limit_sensitivity \<Rightarrow> int" where
  "apply_mode_to_limit limit mode sensitivity =
     (if mode = MODE_STRICT then max 1 (limit div 2)
      else if mode = MODE_RELAXED then limit * 2
      else if mode = MODE_PANIC \<and> sensitivity = SENS_SENSITIVE then max 1 (limit div 2)
      else if mode = MODE_PANIC \<and> sensitivity = SENS_CRITICAL then max 1 (limit div 4)
      else limit)"

definition panic_closes :: "limit_mode \<Rightarrow> limit_sensitivity \<Rightarrow> bool" where
  "panic_closes mode sensitivity \<longleftrightarrow> mode = MODE_PANIC \<and> (sensitivity = SENS_SENSITIVE \<or> sensitivity = SENS_CRITICAL)"

definition override_field :: "('o \<Rightarrow> 'v option) \<Rightarrow> 'o option \<Rightarrow> 'v \<Rightarrow> 'v" where
  "override_field f override fallback = (case override of None \<Rightarrow> fallback
     | Some v \<Rightarrow> (case f v of None \<Rightarrow> fallback | Some x \<Rightarrow> x))"

definition apply_override :: "policy_spec \<Rightarrow> limit_mode \<Rightarrow> policy_override option \<Rightarrow> app_error + rate_limit_policy" where
  "apply_override spec mode override =
     (let limit = apply_mode_to_limit (psp_limit spec) mode (psp_sensitivity spec);
          fail_open = (if panic_closes mode (psp_sensitivity spec) then False else psp_fail_open spec);
          limit' = override_field ovr_limit override limit;
          window_seconds = override_field ovr_window override (psp_window spec);
          fail_open' = override_field ovr_fail_open override fail_open;
          fail_open'' = (if panic_closes mode (psp_sensitivity spec) then False else fail_open')
      in then_check (rate_limit_item_from_window limit' window_seconds) (\<lambda>item.
         Inr \<lparr>rlp_name = psp_name spec, rlp_item = item, rlp_fail_open = fail_open'',
              rlp_sensitivity = psp_sensitivity spec, rlp_override_applied = override \<noteq> None\<rparr>))"

definition force_policy_fail_closed :: "rate_limit_policy \<Rightarrow> rate_limit_policy" where
  "force_policy_fail_closed p = (if \<not> rlp_fail_open p then p else p\<lparr>rlp_fail_open := False\<rparr>)"

definition should_force_fail_closed_in_environment :: "rate_limiting_settings \<Rightarrow> policy_spec \<Rightarrow> bool" where
  "should_force_fail_closed_in_environment s spec \<longleftrightarrow>
     List.member [''staging'', ''prod''] (rls_environment s) \<and> psp_name spec = psp_name pre_auth_policy"

fun build_effective_policies :: "rate_limiting_settings \<Rightarrow> policy_spec list \<Rightarrow> app_error + (string \<times> rate_limit_policy) list" where
  "build_effective_policies s [] = Inr []"
| "build_effective_policies s (spec # specs) =
     then_check (apply_override spec (rls_mode s) (map_of (rls_policies s) (psp_name spec))) (\<lambda>p.
     then_check (build_effective_policies s specs) (\<lambda>rest.
     Inr ((psp_name spec, if should_force_fail_closed_in_environment s spec then force_policy_fail_closed p else p) # rest)))"

definition build_effective_policy_registry :: "rate_limiting_settings \<Rightarrow> app_error + (string \<times> rate_limit_policy) list" where
  "build_effective_policy_registry s =
     (if unknown_override_names s \<noteq> [] then Inl (ValueError ''Unknown rate limit policy override name(s)'')
      else build_effective_policies s registered_policy_specs)"

definition get_effective_rate_limit_policy ::
  "(string \<times> rate_limit_policy) list option \<Rightarrow> string \<Rightarrow> app_error + rate_limit_policy" where
  "get_effective_rate_limit_policy registry policy_name = (case registry of
     None \<Rightarrow> Inl (RuntimeError ''Rate limit policy registry has not been initialised'')
   | Some r \<Rightarrow> (case map_of r policy_name of
         None \<Rightarrow> Inl (ValueError (''Unknown rate limit policy: '' @ policy_name))
       | Some p \<Rightarrow> Inr p))"

end
