(* ===== verification/Rate_Checks.thy ===== *)
theory Rate_Checks
  imports Rate_Limits
begin

section \<open>Rate limit checks\<close>

text \<open>
  \<^verbatim>\<open>core/rate_limit/grouped_atomic.py\<close>, \<^verbatim>\<open>dependencies.py\<close> and \<^verbatim>\<open>business.py\<close>: the script that
  consumes a group of counters in Redis at once, the commands that replace it when a cluster
  refuses the script, and the checks that the endpoints and services run. The Redis server, its
  client and the strategies of the \<^verbatim>\<open>limits\<close> package are parameters over a state of their own: a call
  gives an exception or a value. A call includes its \<open>asyncio.wait_for\<close>, so a timeout is one of
  the exceptions it may give. Metrics and logs are left out.
\<close>

subsection \<open>Exceptions and calls\<close>

text \<open>A Python exception: the name of its class, the classes \<open>isinstance\<close> finds it in, and its text.\<close>

record py_exception =
  exc_class :: string
  exc_isinstance :: "string list"
  exc_str :: string

definition runtime_error :: "string \<Rightarrow> py_exception" where
  "runtime_error message = \<lparr>exc_class = ''RuntimeError'', exc_isinstance = [''RuntimeError''], exc_str = message\<rparr>"

definition rate_limit_backend_errors :: "string list" where
  "rate_limit_backend_errors = [''redis.exceptions.ConnectionError'', ''redis.exceptions.TimeoutError'',
     ''redis.exceptions.RedisError'', ''TimeoutError'', ''RuntimeError'']"

definition is_backend_error :: "py_exception \<Rightarrow> bool" where
  "is_backend_error exc \<longleftrightarrow> list_ex (\<lambda>c. List.member rate_limit_backend_errors c) (exc_isinstance exc)"

definition is_stats_fallback_error :: "py_exception \<Rightarrow> bool" where
  "is_stats_fallback_error exc \<longleftrightarrow> is_backend_error exc \<or> List.member (exc_isinstance exc) ''AttributeError''"

type_synonym ('s, 'a) call = "'s \<Rightarrow> (py_exception + 'a) \<times> 's"

definition call_bind :: "('s, 'a) call \<Rightarrow> ('a \<Rightarrow> ('s, 'b) call) \<Rightarrow> ('s, 'b) call" where
  "call_bind m f s = (case m s of (Inl e, s') \<Rightarrow> (Inl e, s') | (Inr x, s') \<Rightarrow> f x s')"

definition call_of :: "(py_exception + 'a) \<Rightarrow> ('s, 'a) call" where
  "call_of r s = (r, s)"

subsection \<open>The script\<close>

text \<open>
  The commands a script may call. The keys of the limiter are only written by \<open>INCR\<close>, so
  \<open>GET\<close> replies an integer or nothing.
\<close>

record 's redis_server =
  srv_get :: "string \<Rightarrow> 's \<Rightarrow> int option"
  srv_pttl :: "string \<Rightarrow> 's \<Rightarrow> int"
  srv_pexpire :: "string \<Rightarrow> int \<Rightarrow> 's \<Rightarrow> 's"
  srv_incr :: "string \<Rightarrow> 's \<Rightarrow> int \<times> 's"

text \<open>
  \<open>GROUPED_FIXED_WINDOW_CONSUME_LUA\<close>. Lua counts from one: \<open>KEYS[i]\<close> is \<open>keys ! (i - 1)\<close> and
  \<open>ARGV[i + 1]\<close> is \<open>argv ! i\<close>.
\<close>

fun lua_first_full :: "'s redis_server \<Rightarrow> string list \<Rightarrow> int list \<Rightarrow> nat \<Rightarrow> nat list \<Rightarrow> 's \<Rightarrow> (int \<times> int) option \<times> 's" where
  "lua_first_full R keys argv n [] s = (None, s)"
| "lua_first_full R keys argv n (i # is) s =
     (let limit_value = argv ! i;
          current = (case srv_get R (keys ! (i - 1)) s of None \<Rightarrow> 0 | Some v \<Rightarrow> v)
      in if limit_value \<le> current then
           (let ttl_ms = srv_pttl R (keys ! (i - 1)) s in
            if ttl_ms < 0
            then (Some (int i, argv ! (n + i)), srv_pexpire R (keys ! (i - 1)) (argv ! (n + i)) s)
            else (Some (int i, ttl_ms), s))
         else lua_first_full R keys argv n is s)"

fun lua_increment :: "'s redis_server \<Rightarrow> string list \<Rightarrow> int list \<Rightarrow> nat \<Rightarrow> nat list \<Rightarrow> 's \<Rightarrow> 's" where
  "lua_increment R keys argv n [] s = s"
| "lua_increment R keys argv n (i # is) s =
     (let (next_value, s') = srv_incr R (keys ! (i - 1)) s;
          ttl_ms = srv_pttl R (keys ! (i - 1)) s'
      in lua_increment R keys argv n is
           (if next_value = 1 \<or> ttl_ms < 0 then srv_pexpire R (keys ! (i - 1)) (argv ! (n + i)) s' else s'))"

definition lua_consume :: "'s redis_server \<Rightarrow> string list \<Rightarrow> int list \<Rightarrow> 's \<Rightarrow> (int \<times> int \<times> int) \<times> 's" where
  "lua_consume R keys argv s =
     (let n = nat (argv ! 0) in
      case lua_first_full R keys argv n [1..<Suc n] s of
        (Some (i, ttl_ms), s') \<Rightarrow> ((0, i, ttl_ms), s')
      | (None, s') \<Rightarrow> ((1, 0, 0), lua_increment R keys argv n [1..<Suc n] s'))"

subsection \<open>The client\<close>

datatype redis_reply = ReplyNone | ReplyInt int | ReplyText string

text \<open>A client that lacks a command has \<open>None\<close> for it.\<close>

record 's redis_client =
  rcl_eval :: "string list \<Rightarrow> int list \<Rightarrow> ('s, int \<times> int \<times> int) call"
  rcl_get :: "(string \<Rightarrow> ('s, redis_reply) call) option"
  rcl_pttl :: "(string \<Rightarrow> ('s, redis_reply) call) option"
  rcl_incr :: "(string \<Rightarrow> ('s, redis_reply) call) option"
  rcl_pexpire :: "(string \<Rightarrow> int \<Rightarrow> ('s, redis_reply) call) option"

record bucket_spec =
  gbs_key :: string
  gbs_limit :: int
  gbs_expiry_seconds :: int

record consume_result =
  gcr_allowed :: bool
  gcr_blocked_index :: "nat option"
  gcr_retry_after :: "int option"

definition allowed_result :: consume_result where
  "allowed_result = \<lparr>gcr_allowed = True, gcr_blocked_index = None, gcr_retry_after = None\<rparr>"

definition build_grouped_redis_key :: "string \<Rightarrow> string \<Rightarrow> string" where
  "build_grouped_redis_key namespace bucket_key = ''{rl-grouped-v1}:'' @ namespace @ '':'' @ bucket_key"

definition without_chars :: "char list \<Rightarrow> string \<Rightarrow> string" where
  "without_chars cs s = filter (\<lambda>c. \<not> List.member cs c) s"

definition is_redis_cluster_fallback_error :: "py_exception \<Rightarrow> bool" where
  "is_redis_cluster_fallback_error exc =
     (let error_name = without_chars ''_-'' (lower (exc_class exc));
          error_text = lower (strip (exc_str exc));
          compact_text = without_chars ''_-'' error_text;
          first_token = dropWhile (\<lambda>c. c = CHR ''-'') (takeWhile (\<lambda>c. \<not> is_space c) error_text)
      in if contains_str ''crossslot'' error_name \<or> contains_str ''crossslot'' compact_text
            \<or> contains_str ''cross slot'' error_text \<or> contains_str ''same slot'' error_text
            \<or> contains_str ''same key slot'' error_text then True
         else if List.member [''moved'', ''ask'', ''tryagain'', ''clusterdown''] first_token then True
         else list_ex (\<lambda>marker. contains_str marker error_name) [''moved'', ''askerror'', ''tryagain'', ''clusterdown''])"

definition redis_method :: "'f option \<Rightarrow> string \<Rightarrow> py_exception + 'f" where
  "redis_method m name = (case m of
     None \<Rightarrow> Inl (runtime_error (''Grouped Redis fallback client does not expose '' @ name @ ''()''))
   | Some f \<Rightarrow> Inr f)"

text \<open>\<open>int(text)\<close> for a decimal text: spaces around it, a sign, digits.\<close>

definition int_of_text :: "string \<Rightarrow> int option" where
  "int_of_text value =
     (let t = strip value; digits = (if t \<noteq> [] \<and> List.member ''+-'' (hd t) then tl t else t)
      in if digits = [] \<or> \<not> list_all is_digit digits then None
         else Some (if t \<noteq> [] \<and> hd t = CHR ''-'' then - dec_value digits else dec_value digits))"

definition redis_int :: "redis_reply \<Rightarrow> int option \<Rightarrow> py_exception + int" where
  "redis_int value fallback = (case value of
     ReplyNone \<Rightarrow> (case fallback of
         None \<Rightarrow> Inl (runtime_error ''Grouped Redis fallback received missing integer value'')
       | Some d \<Rightarrow> Inr d)
   | ReplyInt n \<Rightarrow> Inr n
   | ReplyText t \<Rightarrow> (case int_of_text t of
         None \<Rightarrow> Inl (runtime_error ''Grouped Redis fallback received invalid integer value'')
       | Some n \<Rightarrow> Inr n))"

definition retry_after_ms :: "int \<Rightarrow> int" where
  "retry_after_ms ttl_ms = max 1 ((ttl_ms + 999) div 1000)"

definition blocked_result :: "nat \<Rightarrow> int \<Rightarrow> consume_result" where
  "blocked_result index ttl_ms =
     \<lparr>gcr_allowed = False, gcr_blocked_index = Some index, gcr_retry_after = Some (retry_after_ms ttl_ms)\<rparr>"

text \<open>The commands the fallback looks up before its loops.\<close>

record 's fallback_commands =
  fbc_get :: "string \<Rightarrow> ('s, redis_reply) call"
  fbc_pttl :: "string \<Rightarrow> ('s, redis_reply) call"
  fbc_incr :: "string \<Rightarrow> ('s, redis_reply) call"
  fbc_pexpire :: "string \<Rightarrow> int \<Rightarrow> ('s, redis_reply) call"

definition fallback_methods :: "'s redis_client \<Rightarrow> ('s, 's fallback_commands) call" where
  "fallback_methods client =
     call_bind (call_of (redis_method (rcl_get client) ''get'')) (\<lambda>g.
     call_bind (call_of (redis_method (rcl_pttl client) ''pttl'')) (\<lambda>p.
     call_bind (call_of (redis_method (rcl_incr client) ''incr'')) (\<lambda>i.
     call_bind (call_of (redis_method (rcl_pexpire client) ''pexpire'')) (\<lambda>x.
     call_of (Inr \<lparr>fbc_get = g, fbc_pttl = p, fbc_incr = i, fbc_pexpire = x\<rparr>)))))"

definition command_int :: "('s, redis_reply) call \<Rightarrow> int option \<Rightarrow> ('s, int) call" where
  "command_int m fallback = call_bind m (\<lambda>reply. call_of (redis_int reply fallback))"

fun fallback_first_full :: "'s fallback_commands \<Rightarrow> nat \<Rightarrow> bucket_spec list \<Rightarrow> ('s, consume_result option) call" where
  "fallback_first_full C index [] = call_of (Inr None)"
| "fallback_first_full C index (b # bs) =
     call_bind (command_int (fbc_get C (gbs_key b)) (Some 0)) (\<lambda>current.
     if gbs_limit b \<le> current then
       call_bind (command_int (fbc_pttl C (gbs_key b)) (Some (-1))) (\<lambda>ttl_ms.
       if ttl_ms < 1 then
         call_bind (fbc_pexpire C (gbs_key b) (gbs_expiry_seconds b * 1000)) (\<lambda>_.
         call_of (Inr (Some (blocked_result index (gbs_expiry_seconds b * 1000)))))
       else call_of (Inr (Some (blocked_result index ttl_ms))))
     else fallback_first_full C (Suc index) bs)"

fun fallback_increment :: "'s fallback_commands \<Rightarrow> bucket_spec list \<Rightarrow> ('s, unit) call" where
  "fallback_increment C [] = call_of (Inr ())"
| "fallback_increment C (b # bs) =
     call_bind (command_int (fbc_incr C (gbs_key b)) None) (\<lambda>next_value.
     call_bind (command_int (fbc_pttl C (gbs_key b)) (Some (-1))) (\<lambda>ttl_ms.
     call_bind (if next_value = 1 \<or> ttl_ms < 1
                then call_bind (fbc_pexpire C (gbs_key b) (gbs_expiry_seconds b * 1000)) (\<lambda>_. call_of (Inr ()))
                else call_of (Inr ())) (\<lambda>_.
     fallback_increment C bs)))"

definition compatibility_consume_grouped_buckets :: "'s redis_client \<Rightarrow> bucket_spec list \<Rightarrow> ('s, consume_result) call" where
  "compatibility_consume_grouped_buckets client buckets =
     call_bind (fallback_methods client) (\<lambda>C.
     call_bind (fallback_first_full C 0 buckets) (\<lambda>full. case full of
       Some r \<Rightarrow> call_of (Inr r)
     | None \<Rightarrow> call_bind (fallback_increment C buckets) (\<lambda>_. call_of (Inr allowed_result))))"

definition grouped_argv :: "bucket_spec list \<Rightarrow> int list" where
  "grouped_argv buckets = int (length buckets) # map gbs_limit buckets @ map (\<lambda>b. gbs_expiry_seconds b * 1000) buckets"

definition grouped_result_of :: "bucket_spec list \<Rightarrow> int \<times> int \<times> int \<Rightarrow> consume_result" where
  "grouped_result_of buckets raw = (case raw of (allowed, blocked_position, ttl_ms) \<Rightarrow>
     if allowed = 1 then allowed_result
     else (let index = nat (max (blocked_position - 1) 0);
               ttl = (if ttl_ms < 1 then gbs_expiry_seconds (buckets ! index) * 1000 else ttl_ms)
           in blocked_result index ttl))"

definition atomic_consume_grouped_buckets :: "'s redis_client \<Rightarrow> bucket_spec list \<Rightarrow> ('s, consume_result) call" where
  "atomic_consume_grouped_buckets client buckets =
     call_bind (rcl_eval client (map gbs_key buckets) (grouped_argv buckets)) (\<lambda>raw.
     call_of (Inr (grouped_result_of buckets raw)))"

subsection \<open>The checks\<close>

text \<open>
  A strategy of \<^verbatim>\<open>limits\<close>: \<open>hit\<close> consumes, \<open>test\<close> only looks (a double may lack it), and the
  statistics give the time a window resets, in microseconds like \<open>time.time()\<close> here.
\<close>

record 's rate_limiter =
  rlm_hit :: "rate_limit_item \<Rightarrow> string \<Rightarrow> string \<Rightarrow> ('s, bool) call"
  rlm_test :: "(rate_limit_item \<Rightarrow> string \<Rightarrow> string \<Rightarrow> ('s, bool) call) option"
  rlm_reset_time :: "rate_limit_item \<Rightarrow> string \<Rightarrow> string \<Rightarrow> ('s, int) call"
  rlm_time :: "'s \<Rightarrow> int"

record 's limiter_runtime =
  rtm_limiter :: "'s rate_limiter option"
  rtm_grouped_redis_client :: "'s redis_client option"

text \<open>What the checks read of \<open>app.state\<close>.\<close>

record 's limit_state =
  lst_settings :: rate_limiting_settings
  lst_registry :: "(string \<times> rate_limit_policy) list option"
  lst_runtime :: "'s limiter_runtime option"

datatype policy_ref = PolicySpec policy_spec | EffectivePolicy rate_limit_policy

text \<open>
  How a check ends: it returns, it raises \<open>TooManyRequestsError\<close> with a \<open>Retry-After\<close>, it raises
  another error of the application, or it lets an exception of a call through.
\<close>

datatype limit_outcome =
    LimitPassed
  | LimitBlocked int
  | LimitRaised app_error
  | LimitEscaped py_exception

record prepared_check =
  prc_policy :: rate_limit_policy
  prc_identifier :: rate_limit_identifier
  prc_namespace :: string

type_synonym 's limit_check = "'s \<Rightarrow> limit_outcome \<times> 's"

definition limit_of :: "limit_outcome \<Rightarrow> 's limit_check" where
  "limit_of r s = (r, s)"

text \<open>The next step runs when the one before it returned.\<close>

definition limit_then :: "'s limit_check \<Rightarrow> 's limit_check \<Rightarrow> 's limit_check" where
  "limit_then m k s = (case m s of (LimitPassed, s') \<Rightarrow> k s' | (r, s') \<Rightarrow> (r, s'))"

definition when_valid :: "app_error + 'a \<Rightarrow> ('a \<Rightarrow> 's limit_check) \<Rightarrow> 's limit_check" where
  "when_valid r k = (case r of Inl e \<Rightarrow> limit_of (LimitRaised e) | Inr x \<Rightarrow> k x)"

definition rate_limit_namespace :: "string \<Rightarrow> rate_limit_policy \<Rightarrow> rate_limit_identifier \<Rightarrow> string" where
  "rate_limit_namespace redis_prefix policy identifier = redis_prefix @ '':'' @ rlp_name policy @ '':'' @ rli_kind identifier"

definition build_retry_after :: "int \<Rightarrow> int \<Rightarrow> int" where
  "build_retry_after reset_time now = max 1 (- ((now - reset_time) div 1000000))"

definition raise_runtime_unavailable :: "'s limit_check" where
  "raise_runtime_unavailable = limit_of (LimitRaised (RateLimiterUnavailableError ''Rate limiter is unavailable.''))"

definition raise_too_many_requests ::
  "'s rate_limiter \<Rightarrow> rate_limit_policy \<Rightarrow> string \<Rightarrow> rate_limit_identifier \<Rightarrow> 's limit_check" where
  "raise_too_many_requests limiter policy namespace identifier s =
     (case rlm_reset_time limiter (rlp_item policy) namespace (rli_bucket_key identifier) s of
        (Inr reset_time, s') \<Rightarrow> (LimitBlocked (build_retry_after reset_time (rlm_time limiter s')), s')
      | (Inl exc, s') \<Rightarrow>
          if is_stats_fallback_error exc then (LimitBlocked (rit_expiry (rlp_item policy)), s')
          else (LimitEscaped exc, s'))"

definition handle_rate_limit_backend_error :: "rate_limit_policy \<Rightarrow> limit_outcome" where
  "handle_rate_limit_backend_error policy =
     (if rlp_fail_open policy then LimitPassed
      else LimitRaised (RateLimiterUnavailableError ''Rate limiter is temporarily unavailable.''))"

text \<open>A call that says whether a request may go on, and what follows from its answer.\<close>

definition decide ::
  "('s, bool) call \<Rightarrow> 's rate_limiter \<Rightarrow> rate_limit_policy \<Rightarrow> string \<Rightarrow> rate_limit_identifier \<Rightarrow> 's limit_check" where
  "decide m limiter policy namespace identifier s = (case m s of
     (Inl exc, s') \<Rightarrow> if is_backend_error exc then (handle_rate_limit_backend_error policy, s') else (LimitEscaped exc, s')
   | (Inr allowed, s') \<Rightarrow> if allowed then (LimitPassed, s') else raise_too_many_requests limiter policy namespace identifier s')"

definition limiter_of :: "'s limit_state \<Rightarrow> 's rate_limiter option" where
  "limiter_of L = (case lst_runtime L of None \<Rightarrow> None | Some rt \<Rightarrow> rtm_limiter rt)"

definition check_rate_limit_for_identifier ::
  "'s limit_state \<Rightarrow> rate_limit_policy \<Rightarrow> rate_limit_identifier \<Rightarrow> 's limit_check" where
  "check_rate_limit_for_identifier L policy identifier = (case limiter_of L of
     None \<Rightarrow> raise_runtime_unavailable
   | Some limiter \<Rightarrow>
       (let namespace = rate_limit_namespace (rls_redis_prefix (lst_settings L)) policy identifier in
        decide (rlm_hit limiter (rlp_item policy) namespace (rli_bucket_key identifier)) limiter policy namespace identifier))"

definition test_rate_limit_for_identifier ::
  "'s limit_state \<Rightarrow> rate_limit_policy \<Rightarrow> rate_limit_identifier \<Rightarrow> string \<Rightarrow> 's limit_check" where
  "test_rate_limit_for_identifier L policy identifier namespace = (case limiter_of L of
     None \<Rightarrow> raise_runtime_unavailable
   | Some limiter \<Rightarrow> (case rlm_test limiter of
         None \<Rightarrow> limit_of LimitPassed
       | Some test \<Rightarrow>
           decide (test (rlp_item policy) namespace (rli_bucket_key identifier)) limiter policy namespace identifier))"

definition effective_policy :: "'s limit_state \<Rightarrow> policy_ref \<Rightarrow> app_error + rate_limit_policy" where
  "effective_policy L policy = (case policy of
     PolicySpec spec \<Rightarrow> get_effective_rate_limit_policy (lst_registry L) (psp_name spec)
   | EffectivePolicy p \<Rightarrow> Inr p)"

definition identifier_secret_or_error :: "'s limit_state \<Rightarrow> app_error + string" where
  "identifier_secret_or_error L = (case rls_identifier_secret (lst_settings L) of
     None \<Rightarrow> Inl (RateLimiterUnavailableError ''Rate limiter is unavailable.'')
   | Some secret \<Rightarrow> Inr secret)"

definition prepare_bucket_rate_limit_check ::
  "externals \<Rightarrow> 's limit_state \<Rightarrow> policy_ref \<times> rate_limit_bucket \<Rightarrow> app_error + prepared_check" where
  "prepare_bucket_rate_limit_check X L check =
     then_check (effective_policy L (fst check)) (\<lambda>policy.
     then_check (identifier_secret_or_error L) (\<lambda>secret.
     let identifier = build_bucket_identifier X (snd check) secret in
     Inr \<lparr>prc_policy = policy, prc_identifier = identifier,
          prc_namespace = rate_limit_namespace (rls_redis_prefix (lst_settings L)) policy identifier\<rparr>))"

definition check_rate_limit_for_bucket ::
  "externals \<Rightarrow> 's limit_state \<Rightarrow> policy_ref \<Rightarrow> rate_limit_bucket \<Rightarrow> 's limit_check" where
  "check_rate_limit_for_bucket X L policy bucket =
     (if \<not> rls_enabled (lst_settings L) then limit_of LimitPassed
      else when_valid (prepare_bucket_rate_limit_check X L (policy, bucket)) (\<lambda>prepared.
        check_rate_limit_for_identifier L (prc_policy prepared) (prc_identifier prepared)))"

fun prepare_all :: "externals \<Rightarrow> 's limit_state \<Rightarrow> (policy_ref \<times> rate_limit_bucket) list \<Rightarrow> app_error + prepared_check list" where
  "prepare_all X L [] = Inr []"
| "prepare_all X L (c # cs) =
     then_check (prepare_bucket_rate_limit_check X L c) (\<lambda>p.
     then_check (prepare_all X L cs) (\<lambda>ps. Inr (p # ps)))"

text \<open>\<open>min\<close> by \<open>fail_open\<close>: the first check that fails closed, or else the first.\<close>

definition strictest_prepared_check :: "prepared_check list \<Rightarrow> prepared_check" where
  "strictest_prepared_check ps =
     (case find (\<lambda>p. \<not> rlp_fail_open (prc_policy p)) ps of Some p \<Rightarrow> p | None \<Rightarrow> hd ps)"

fun limit_each :: "('a \<Rightarrow> 's limit_check) \<Rightarrow> 'a list \<Rightarrow> 's limit_check" where
  "limit_each f [] = limit_of LimitPassed"
| "limit_each f (x # xs) = limit_then (f x) (limit_each f xs)"

definition check_grouped_with_compatibility_fallback :: "'s limit_state \<Rightarrow> prepared_check list \<Rightarrow> 's limit_check" where
  "check_grouped_with_compatibility_fallback L ps = limit_then
     (limit_each (\<lambda>p. test_rate_limit_for_identifier L (prc_policy p) (prc_identifier p) (prc_namespace p)) ps)
     (limit_each (\<lambda>p. check_rate_limit_for_identifier L (prc_policy p) (prc_identifier p)) ps)"

definition handle_grouped_redis_result :: "consume_result \<Rightarrow> limit_outcome" where
  "handle_grouped_redis_result r =
     (if gcr_allowed r then LimitPassed
      else LimitBlocked (case gcr_retry_after r of None \<Rightarrow> 1 | Some n \<Rightarrow> if n = 0 then 1 else n))"

definition bucket_spec_of :: "prepared_check \<Rightarrow> bucket_spec" where
  "bucket_spec_of p =
     \<lparr>gbs_key = build_grouped_redis_key (prc_namespace p) (rli_bucket_key (prc_identifier p)),
      gbs_limit = rit_amount (rlp_item (prc_policy p)), gbs_expiry_seconds = rit_expiry (rlp_item (prc_policy p))\<rparr>"

definition check_grouped_in_redis :: "'s redis_client \<Rightarrow> prepared_check list \<Rightarrow> 's limit_check" where
  "check_grouped_in_redis client ps s =
     (let buckets = map bucket_spec_of ps;
          on_error = handle_rate_limit_backend_error (prc_policy (strictest_prepared_check ps))
      in case atomic_consume_grouped_buckets client buckets s of
           (Inr r, s') \<Rightarrow> (handle_grouped_redis_result r, s')
         | (Inl exc, s') \<Rightarrow>
             if is_redis_cluster_fallback_error exc then
               (case compatibility_consume_grouped_buckets client buckets s' of
                  (Inr r, s'') \<Rightarrow> (handle_grouped_redis_result r, s'')
                | (Inl fallback_exc, s'') \<Rightarrow>
                    if is_backend_error fallback_exc then (on_error, s'') else (LimitEscaped fallback_exc, s''))
             else if is_backend_error exc then (on_error, s') else (LimitEscaped exc, s'))"

definition grouped_redis_client_from_runtime :: "'s limit_state \<Rightarrow> 's redis_client option" where
  "grouped_redis_client_from_runtime L = (case lst_runtime L of None \<Rightarrow> None | Some rt \<Rightarrow> rtm_grouped_redis_client rt)"

definition check_rate_limits_for_buckets ::
  "externals \<Rightarrow> 's limit_state \<Rightarrow> (policy_ref \<times> rate_limit_bucket) list \<Rightarrow> 's limit_check" where
  "check_rate_limits_for_buckets X L checks =
     (if \<not> rls_enabled (lst_settings L) then limit_of LimitPassed
      else if checks = [] then limit_of LimitPassed
      else when_valid (prepare_all X L checks) (\<lambda>ps. case grouped_redis_client_from_runtime L of
          Some client \<Rightarrow> check_grouped_in_redis client ps
        | None \<Rightarrow> check_grouped_with_compatibility_fallback L ps))"

definition check_rate_limit :: "externals \<Rightarrow> 's limit_state \<Rightarrow> http_request \<Rightarrow> principal option \<Rightarrow> policy_ref \<Rightarrow> 's limit_check" where
  "check_rate_limit X L rq p policy =
     (if \<not> rls_enabled (lst_settings L) then limit_of LimitPassed
      else when_valid (effective_policy L policy) (\<lambda>eff.
        when_valid (identifier_secret_or_error L) (\<lambda>secret.
        check_rate_limit_for_identifier L eff
          (build_identifier X p rq (rls_trust_proxy_headers (lst_settings L)) secret (rls_trusted_proxy_cidrs (lst_settings L))))))"

definition check_pre_auth_rate_limit :: "externals \<Rightarrow> 's limit_state \<Rightarrow> http_request \<Rightarrow> policy_ref \<Rightarrow> 's limit_check" where
  "check_pre_auth_rate_limit X L rq policy =
     (if \<not> rls_enabled (lst_settings L) \<or> \<not> rls_pre_auth_enabled (lst_settings L) then limit_of LimitPassed
      else when_valid (effective_policy L policy) (\<lambda>eff.
        when_valid (identifier_secret_or_error L) (\<lambda>secret.
        check_rate_limit_for_identifier L eff
          (build_identifier X None rq (rls_trust_proxy_headers (lst_settings L)) secret (rls_trusted_proxy_cidrs (lst_settings L))))))"

definition rate_limit_dependency ::
  "externals \<Rightarrow> 's limit_state \<Rightarrow> policy_ref \<Rightarrow> http_request \<Rightarrow> principal \<Rightarrow> 's limit_check" where
  "rate_limit_dependency X L policy rq p = check_rate_limit X L rq (Some p) policy"

subsection \<open>Starting up\<close>

definition build_async_redis_uri :: "string \<Rightarrow> string" where
  "build_async_redis_uri redis_url = (if prefix ''async+'' redis_url then redis_url else ''async+'' @ redis_url)"

definition strip_limits_async_prefix :: "string \<Rightarrow> string" where
  "strip_limits_async_prefix redis_url = (if prefix ''async+'' redis_url then drop 6 redis_url else redis_url)"

definition is_grouped_redis_cluster_url :: "string \<Rightarrow> bool" where
  "is_grouped_redis_cluster_url redis_url \<longleftrightarrow>
     list_ex (\<lambda>p. prefix p (strip_limits_async_prefix redis_url)) [''redis+cluster://'', ''rediss+cluster://'']"

definition is_grouped_redis_direct_url :: "string \<Rightarrow> bool" where
  "is_grouped_redis_direct_url redis_url \<longleftrightarrow>
     list_ex (\<lambda>p. prefix p (strip_limits_async_prefix redis_url)) [''redis://'', ''rediss://'', ''unix://'']"

definition build_grouped_redis_url :: "string \<Rightarrow> string" where
  "build_grouped_redis_url redis_url =
     (let normalised = strip_limits_async_prefix redis_url in
      if prefix ''redis+cluster://'' normalised then ''redis://'' @ drop 16 normalised
      else if prefix ''rediss+cluster://'' normalised then ''rediss://'' @ drop 17 normalised
      else normalised)"

text \<open>
  What the libraries build from a URL: the strategy over the storage, and the clients, if the
  installed version can build them.
\<close>

record 's redis_library =
  rlb_limiter :: "string \<Rightarrow> 's rate_limiter"
  rlb_cluster_from_url :: "string \<Rightarrow> 's redis_client option"
  rlb_redis_from_url :: "string \<Rightarrow> 's redis_client option"

definition build_grouped_redis_client :: "'s redis_library \<Rightarrow> string \<Rightarrow> 's redis_client option" where
  "build_grouped_redis_client B redis_url =
     (let grouped_url = build_grouped_redis_url redis_url in
      if is_grouped_redis_cluster_url redis_url then rlb_cluster_from_url B grouped_url
      else if \<not> is_grouped_redis_direct_url redis_url then None
      else rlb_redis_from_url B grouped_url)"

definition init_rate_limiter ::
  "'s redis_library \<Rightarrow> rate_limiting_settings \<Rightarrow> string option \<Rightarrow> app_error + 's limit_state" where
  "init_rate_limiter B cfg redis_url =
     then_check (build_effective_policy_registry cfg) (\<lambda>policy_registry.
     if \<not> rls_enabled cfg then
       Inr \<lparr>lst_settings = cfg, lst_registry = Some policy_registry,
            lst_runtime = Some \<lparr>rtm_limiter = None, rtm_grouped_redis_client = None\<rparr>\<rparr>
     else (case redis_url of
         None \<Rightarrow> Inl (RuntimeError ''REDIS__URL is required when RATE_LIMITING__ENABLED=true'')
       | Some url \<Rightarrow>
           if url = [] then Inl (RuntimeError ''REDIS__URL is required when RATE_LIMITING__ENABLED=true'')
           else Inr \<lparr>lst_settings = cfg, lst_registry = Some policy_registry,
                lst_runtime = Some \<lparr>rtm_limiter = Some (rlb_limiter B (build_async_redis_uri url)),
                                     rtm_grouped_redis_client = build_grouped_redis_client B url\<rparr>\<rparr>))"

subsection \<open>Business limits\<close>

definition normalised_email :: "string \<Rightarrow> string" where
  "normalised_email value = lower (strip value)"

text \<open>\<open>rsplit("@", maxsplit=1)[1]\<close> fails on a text without an at sign.\<close>

definition domain_from_email :: "string \<Rightarrow> py_exception + string" where
  "domain_from_email email =
     (if CHR ''@'' \<notin> set email
      then Inl \<lparr>exc_class = ''IndexError'', exc_isinstance = [''IndexError'', ''LookupError''], exc_str = ''list index out of range''\<rparr>
      else Inr (lower (rev (takeWhile (\<lambda>c. c \<noteq> CHR ''@'') (rev email)))))"

definition token_fingerprint :: "externals \<Rightarrow> string \<Rightarrow> string" where
  "token_fingerprint X token = sha256_hex X (strip token)"

definition check_invite_accept_token_rate_limit :: "externals \<Rightarrow> 's limit_state \<Rightarrow> string \<Rightarrow> 's limit_check" where
  "check_invite_accept_token_rate_limit X L token =
     check_rate_limit_for_bucket X L (PolicySpec invite_accept_token_policy)
       \<lparr>rlb_kind = ''invite_accept_token'', rlb_raw_value = ''token_sha256:'' @ token_fingerprint X token\<rparr>"

definition organisation_bucket :: "uuid \<Rightarrow> rate_limit_bucket" where
  "organisation_bucket oid = \<lparr>rlb_kind = ''organisation'', rlb_raw_value = ''organisation:'' @ uuid_str oid\<rparr>"

definition check_authorized_tenant_write_business_rate_limit :: "externals \<Rightarrow> 's limit_state \<Rightarrow> uuid \<Rightarrow> 's limit_check" where
  "check_authorized_tenant_write_business_rate_limit X L oid =
     check_rate_limit_for_bucket X L (PolicySpec tenant_write_organisation_policy) (organisation_bucket oid)"

definition invite_create_checks :: "uuid \<Rightarrow> string \<Rightarrow> string \<Rightarrow> (policy_ref \<times> rate_limit_bucket) list" where
  "invite_create_checks oid email domain =
    [(PolicySpec invite_create_organisation_policy, organisation_bucket oid),
     (PolicySpec invite_create_organisation_daily_policy, organisation_bucket oid),
     (PolicySpec invite_create_target_email_policy,
      \<lparr>rlb_kind = ''organisation_target_email'', rlb_raw_value = ''organisation:'' @ uuid_str oid @ '':email:'' @ email\<rparr>),
     (PolicySpec invite_create_target_domain_policy,
      \<lparr>rlb_kind = ''organisation_target_domain'', rlb_raw_value = ''organisation:'' @ uuid_str oid @ '':domain:'' @ domain\<rparr>)]"

definition check_authorized_invite_create_business_rate_limits ::
  "externals \<Rightarrow> 's limit_state \<Rightarrow> uuid \<Rightarrow> string \<Rightarrow> 's limit_check" where
  "check_authorized_invite_create_business_rate_limits X L oid email =
     (case domain_from_email (normalised_email email) of
        Inl exc \<Rightarrow> limit_of (LimitEscaped exc)
      | Inr domain \<Rightarrow> check_rate_limits_for_buckets X L (invite_create_checks oid (normalised_email email) domain))"

definition invite_resend_checks :: "uuid \<Rightarrow> uuid \<Rightarrow> (policy_ref \<times> rate_limit_bucket) list" where
  "invite_resend_checks oid iid =
    [(PolicySpec invite_resend_invite_policy,
      \<lparr>rlb_kind = ''invite'', rlb_raw_value = ''organisation:'' @ uuid_str oid @ '':invite:'' @ uuid_str iid\<rparr>),
     (PolicySpec invite_resend_organisation_daily_policy, organisation_bucket oid)]"

definition check_authorized_invite_resend_business_rate_limits ::
  "externals \<Rightarrow> 's limit_state \<Rightarrow> uuid \<Rightarrow> uuid \<Rightarrow> 's limit_check" where
  "check_authorized_invite_resend_business_rate_limits X L oid iid =
     check_rate_limits_for_buckets X L (invite_resend_checks oid iid)"

end
