(* ===== verification/Ingress.thy ===== *)
theory Ingress
  imports Rate_Checks
begin

section \<open>The ingress middleware\<close>

text \<open>
  \<^verbatim>\<open>core/rate_limit/middleware.py\<close>: what happens to an HTTP request before authentication. Where
  the edge is enforced the request must come from a trusted proxy with a fresh signed assertion;
  then the limit per client address applies. The scope's raw path and query are ASCII, as the
  HTTP grammar has them. The bodies of the refusals are left out.
\<close>

record edge_assertion =
  eas_timestamp :: int
  eas_signature :: string

definition edge_assertion_max_age_seconds :: int where
  "edge_assertion_max_age_seconds = 300"

definition edge_assertion_max_future_skew_seconds :: int where
  "edge_assertion_max_future_skew_seconds = 60"

text \<open>\<open>str.isdigit\<close> holds of the superscript digits of Latin-1 too, which \<open>int\<close> refuses.\<close>

definition isdigit_char :: "char \<Rightarrow> bool" where
  "isdigit_char c \<longleftrightarrow> is_digit c \<or> List.member [178, 179, 185] (of_char c :: nat)"

definition is_hex_digit :: "char \<Rightarrow> bool" where
  "is_hex_digit c \<longleftrightarrow> hex_value c \<noteq> None"

definition int_of_digits :: "string \<Rightarrow> app_error + int" where
  "int_of_digits s = (if list_all is_digit s then Inr (dec_value s)
     else Inl (ValueError ''invalid literal for int() with base 10''))"

text \<open>\<open>raw_part.strip().partition("=")\<close>.\<close>

definition partition_eq :: "string \<Rightarrow> string \<times> string \<times> string" where
  "partition_eq s = (let key = takeWhile (\<lambda>c. c \<noteq> CHR ''='') s; rest = dropWhile (\<lambda>c. c \<noteq> CHR ''='') s in
     if rest = [] then (s, [], []) else (key, ''='', tl rest))"

fun assertion_values :: "string list \<Rightarrow> (string \<rightharpoonup> string) \<Rightarrow> (string \<rightharpoonup> string) option" where
  "assertion_values [] vs = Some vs"
| "assertion_values (raw_part # parts) vs =
     (case partition_eq (strip raw_part) of (key, sep, raw_value) \<Rightarrow>
        if sep = [] \<or> key = [] \<or> raw_value = [] then None
        else assertion_values parts (vs(key \<mapsto> raw_value)))"

definition parse_edge_assertion_header :: "string \<Rightarrow> app_error + edge_assertion option" where
  "parse_edge_assertion_header value = (case assertion_values (split_on (CHR '','') value) Map.empty of
     None \<Rightarrow> Inr None
   | Some vs \<Rightarrow> (case (vs ''t'', vs ''v1'') of
         (Some raw_timestamp, Some signature) \<Rightarrow>
           if raw_timestamp = [] \<or> \<not> list_all isdigit_char raw_timestamp then Inr None
           else if length signature \<noteq> 64 \<or> \<not> list_all is_hex_digit signature then Inr None
           else then_check (int_of_digits raw_timestamp) (\<lambda>t.
             Inr (Some \<lparr>eas_timestamp = t, eas_signature = lower signature\<rparr>))
       | _ \<Rightarrow> Inr None))"

text \<open>The time is in microseconds.\<close>

definition is_edge_assertion_timestamp_fresh :: "int \<Rightarrow> int \<Rightarrow> bool" where
  "is_edge_assertion_timestamp_fresh time timestamp =
     (let now = time div 1000000 in
      if timestamp < now - edge_assertion_max_age_seconds then False
      else timestamp \<le> now + edge_assertion_max_future_skew_seconds)"

definition canonical_request_target :: "http_request \<Rightarrow> string" where
  "canonical_request_target rq =
     (let path = (case rq_raw_path rq of Some p \<Rightarrow> p | None \<Rightarrow> rq_path rq)
      in if rq_query rq \<noteq> [] then path @ ''?'' @ rq_query rq else path)"

definition upper_ascii :: "string \<Rightarrow> string" where
  "upper_ascii s = map (\<lambda>c. let n = (of_char c :: nat) in if 97 \<le> n \<and> n \<le> 122 then char_of (n - 32) else c) s"

definition build_edge_assertion_signature :: "externals \<Rightarrow> int \<Rightarrow> string \<Rightarrow> string \<Rightarrow> string \<Rightarrow> string" where
  "build_edge_assertion_signature X timestamp request_method target secret =
     hmac_sha256_hex X secret (dec_str timestamp @ ''.'' @ upper_ascii request_method @ ''.'' @ target)"

definition has_valid_edge_assertion ::
  "externals \<Rightarrow> rate_limiting_settings \<Rightarrow> int \<Rightarrow> http_request \<Rightarrow> app_error + bool" where
  "has_valid_edge_assertion X cfg time rq =
     (if \<not> is_request_from_trusted_proxy rq (rls_trusted_proxy_cidrs cfg) then Inr False
      else case (rls_edge_header_name cfg, rls_edge_secret cfg) of
        (Some header_name, Some secret) \<Rightarrow> (case get_header rq (lower header_name) of
            None \<Rightarrow> Inr False
          | Some provided_value \<Rightarrow> then_check (parse_edge_assertion_header provided_value) (\<lambda>assertion. case assertion of
                None \<Rightarrow> Inr False
              | Some a \<Rightarrow>
                  if \<not> is_edge_assertion_timestamp_fresh time (eas_timestamp a) then Inr False
                  else Inr (eas_signature a =
                    build_edge_assertion_signature X (eas_timestamp a) (rq_method rq) (canonical_request_target rq) secret)))
      | _ \<Rightarrow> Inr False)"

definition is_excluded_api_path :: "string \<Rightarrow> string \<Rightarrow> bool" where
  "is_excluded_api_path path api_prefix =
     (if \<not> prefix (api_prefix @ ''/'') path then False
      else List.member [''/health/live'', ''/health/ready'']
        (rev (dropWhile (\<lambda>c. c = CHR ''/'') (rev (drop (length api_prefix) path)))))"

definition should_apply_edge_assertion :: "http_request \<Rightarrow> string \<Rightarrow> bool" where
  "should_apply_edge_assertion rq api_prefix =
     (if upper_ascii (rq_method rq) = ''OPTIONS'' then False
      else if \<not> prefix (api_prefix @ ''/'') (rq_path rq) then False
      else \<not> is_excluded_api_path (rq_path rq) api_prefix)"

definition should_apply_pre_auth_rate_limit :: "rate_limiting_settings \<Rightarrow> http_request \<Rightarrow> string \<Rightarrow> bool" where
  "should_apply_pre_auth_rate_limit cfg rq api_prefix =
     (if \<not> rls_enabled cfg \<or> \<not> rls_pre_auth_enabled cfg then False
      else if upper_ascii (rq_method rq) = ''OPTIONS'' then False
      else if \<not> prefix (api_prefix @ ''/'') (rq_path rq) then False
      else \<not> is_excluded_api_path (rq_path rq) api_prefix)"

text \<open>The request goes on, is answered with a status and the \<open>Retry-After\<close> of a refusal, or an exception escapes.\<close>

datatype ingress_result =
    Forwarded
  | Answered nat "int option"
  | IngressRaised app_error
  | IngressEscaped py_exception

definition ingress_of_outcome :: "limit_outcome \<Rightarrow> ingress_result" where
  "ingress_of_outcome r = (case r of
     LimitPassed \<Rightarrow> Forwarded
   | LimitBlocked n \<Rightarrow> Answered 429 (Some n)
   | LimitRaised (RateLimiterUnavailableError d) \<Rightarrow> Answered 503 None
   | LimitRaised e \<Rightarrow> IngressRaised e
   | LimitEscaped exc \<Rightarrow> IngressEscaped exc)"

definition pre_auth_stage :: "externals \<Rightarrow> 's limit_state \<Rightarrow> string \<Rightarrow> http_request \<Rightarrow> 's \<Rightarrow> ingress_result \<times> 's" where
  "pre_auth_stage X L api_prefix rq s =
     (if should_apply_pre_auth_rate_limit (lst_settings L) rq api_prefix
      then (case check_pre_auth_rate_limit X L rq (PolicySpec pre_auth_policy) s of (r, s') \<Rightarrow> (ingress_of_outcome r, s'))
      else (Forwarded, s))"

definition ingress :: "externals \<Rightarrow> 's limit_state \<Rightarrow> string \<Rightarrow> int \<Rightarrow> http_request \<Rightarrow> 's \<Rightarrow> ingress_result \<times> 's" where
  "ingress X L api_prefix time rq s =
     (if rls_enforced_by_edge (lst_settings L) \<and> should_apply_edge_assertion rq api_prefix
      then (case has_valid_edge_assertion X (lst_settings L) time rq of
              Inl e \<Rightarrow> (IngressRaised e, s)
            | Inr valid \<Rightarrow> if \<not> valid then (Answered 403 None, s) else pre_auth_stage X L api_prefix rq s)
      else pre_auth_stage X L api_prefix rq s)"

end
