(* ===== verification/Rate_Theorems.thy ===== *)
theory Rate_Theorems
  imports Ingress
begin

section \<open>What rate limiting guarantees\<close>

text \<open>
  The locale \<open>redis_counters\<close> states what the limiter relies on of a Redis server, its client
  extends it to a client that passes the commands on, and both are interpreted on a model of
  Redis's keys with their expiry. In them: a group of counters is consumed as a whole or not at
  all and every counter it leaves behind expires, the commands that replace the script decide as
  the script does, and what fails closed is not passed. Then: the policies in effect, and the
  assertion of the edge.
\<close>

subsection \<open>Redis\<close>

definition counter :: "'s redis_server \<Rightarrow> string \<Rightarrow> 's \<Rightarrow> int" where
  "counter R k s = (case srv_get R k s of None \<Rightarrow> 0 | Some v \<Rightarrow> v)"

text \<open>
  The documented behaviour of the four commands: \<open>PTTL\<close> is -2 for a key that does not exist, -1
  for one without expiry, and at least 0 otherwise; \<open>INCR\<close> creates a key without expiry and keeps
  the expiry of a key that exists.
\<close>

locale redis_counters =
  fixes R :: "'s redis_server"
  assumes get_pexpire: "\<And>ms k k' s. 0 < ms \<Longrightarrow> srv_get R k (srv_pexpire R k' ms s) = srv_get R k s"
    and get_incr: "\<And>k k' s. srv_get R k (snd (srv_incr R k' s)) = (if k = k' then Some (counter R k s + 1) else srv_get R k s)"
    and value_incr: "\<And>k s. fst (srv_incr R k s) = counter R k s + 1"
    and pttl_pexpire: "\<And>ms k k' s. 0 < ms \<Longrightarrow> srv_get R k s \<noteq> None \<Longrightarrow>
      srv_pttl R k' (srv_pexpire R k ms s) = (if k' = k then ms else srv_pttl R k' s)"
    and pttl_incr: "\<And>k k' s. srv_pttl R k' (snd (srv_incr R k s)) =
      (if k' = k \<and> srv_get R k s = None then - 1 else srv_pttl R k' s)"
    and pttl_missing: "\<And>k s. srv_get R k s = None \<longleftrightarrow> srv_pttl R k s = - 2"

text \<open>A client that passes every command on and returns its reply.\<close>

locale redis_session = redis_counters R for R :: "'s redis_server" +
  fixes client :: "'s redis_client"
  assumes eval_runs_script: "\<And>keys argv s. rcl_eval client keys argv s =
      (Inr (fst (lua_consume R keys argv s)), snd (lua_consume R keys argv s))"
    and get_replies: "rcl_get client = Some (\<lambda>k s.
      (Inr (case srv_get R k s of None \<Rightarrow> ReplyNone | Some v \<Rightarrow> ReplyText (dec_str v)), s))"
    and pttl_replies: "rcl_pttl client = Some (\<lambda>k s. (Inr (ReplyInt (srv_pttl R k s)), s))"
    and incr_replies: "rcl_incr client = Some (\<lambda>k s. (Inr (ReplyInt (fst (srv_incr R k s))), snd (srv_incr R k s)))"
    and pexpire_replies: "rcl_pexpire client = Some (\<lambda>k ms s. (Inr (ReplyInt 1), srv_pexpire R k ms s))"

text \<open>Redis's keys: an integer and, if it has one, the millisecond it expires at.\<close>

record redis_db =
  rdb_now :: int
  rdb_keys :: "string \<Rightarrow> (int \<times> int option) option"

definition live_entry :: "redis_db \<Rightarrow> string \<Rightarrow> (int \<times> int option) option" where
  "live_entry d k = (case rdb_keys d k of
     Some (v, Some t) \<Rightarrow> if rdb_now d \<le> t then Some (v, Some t) else None
   | e \<Rightarrow> e)"

definition set_entry :: "string \<Rightarrow> (int \<times> int option) option \<Rightarrow> redis_db \<Rightarrow> redis_db" where
  "set_entry k e d = d\<lparr>rdb_keys := (rdb_keys d)(k := e)\<rparr>"

definition redis_db_server :: "redis_db redis_server" where
  "redis_db_server =
     \<lparr>srv_get = (\<lambda>k d. map_option fst (live_entry d k)),
      srv_pttl = (\<lambda>k d. case live_entry d k of None \<Rightarrow> - 2 | Some (_, None) \<Rightarrow> - 1 | Some (_, Some t) \<Rightarrow> t - rdb_now d),
      srv_pexpire = (\<lambda>k ms d. case live_entry d k of None \<Rightarrow> d
         | Some (v, _) \<Rightarrow> set_entry k (if ms \<le> 0 then None else Some (v, Some (rdb_now d + ms))) d),
      srv_incr = (\<lambda>k d. case live_entry d k of
           None \<Rightarrow> (1, set_entry k (Some (1, None)) d)
         | Some (v, e) \<Rightarrow> (v + 1, set_entry k (Some (v + 1, e)) d))\<rparr>"

definition redis_db_client :: "redis_db redis_client" where
  "redis_db_client =
     \<lparr>rcl_eval = (\<lambda>keys argv s. (Inr (fst (lua_consume redis_db_server keys argv s)), snd (lua_consume redis_db_server keys argv s))),
      rcl_get = Some (\<lambda>k s. (Inr (case srv_get redis_db_server k s of None \<Rightarrow> ReplyNone | Some v \<Rightarrow> ReplyText (dec_str v)), s)),
      rcl_pttl = Some (\<lambda>k s. (Inr (ReplyInt (srv_pttl redis_db_server k s)), s)),
      rcl_incr = Some (\<lambda>k s. (Inr (ReplyInt (fst (srv_incr redis_db_server k s))), snd (srv_incr redis_db_server k s))),
      rcl_pexpire = Some (\<lambda>k ms s. (Inr (ReplyInt 1), srv_pexpire redis_db_server k ms s))\<rparr>"

lemma live_entry_set: "live_entry (set_entry k e d) k' =
    (if k' = k then (case e of Some (v, Some t) \<Rightarrow> if rdb_now d \<le> t then Some (v, Some t) else None | x \<Rightarrow> x)
     else live_entry d k')"
  by (simp add: live_entry_def set_entry_def split: option.split)

lemma live_entry_time: "live_entry d k = Some (v, Some t) \<Longrightarrow> rdb_now d \<le> t"
  by (auto simp: live_entry_def split: option.splits if_splits)

lemma set_entry_now [simp]: "rdb_now (set_entry k e d) = rdb_now d"
  by (simp add: set_entry_def)

lemmas redis_db_simps = redis_db_server_def counter_def live_entry_set

interpretation redis_db: redis_counters redis_db_server
proof unfold_locales
  show "srv_get redis_db_server k (srv_pexpire redis_db_server k' ms s) = srv_get redis_db_server k s" if "0 < ms" for ms k k' s
    using that by (auto simp: redis_db_simps split: option.split)
  show "srv_get redis_db_server k (snd (srv_incr redis_db_server k' s)) =
      (if k = k' then Some (counter redis_db_server k s + 1) else srv_get redis_db_server k s)" for k k' s
    by (auto simp: redis_db_simps split: option.split dest: live_entry_time)
  show "fst (srv_incr redis_db_server k s) = counter redis_db_server k s + 1" for k s
    by (auto simp: redis_db_simps split: option.split)
  show "srv_pttl redis_db_server k' (srv_pexpire redis_db_server k ms s) = (if k' = k then ms else srv_pttl redis_db_server k' s)"
    if "0 < ms" "srv_get redis_db_server k s \<noteq> None" for ms k k' s
    using that by (auto simp: redis_db_simps split: option.splits)
  show "srv_pttl redis_db_server k' (snd (srv_incr redis_db_server k s)) =
      (if k' = k \<and> srv_get redis_db_server k s = None then - 1 else srv_pttl redis_db_server k' s)" for k k' s
    by (auto simp: redis_db_simps split: option.split dest: live_entry_time)
  show "(srv_get redis_db_server k s = None) = (srv_pttl redis_db_server k s = - 2)" for k s
    by (auto simp: redis_db_simps split: option.split dest: live_entry_time)
qed

interpretation redis_db: redis_session redis_db_server redis_db_client
  by unfold_locales (simp_all add: redis_db_client_def)

subsection \<open>The script over buckets\<close>

fun first_full :: "'s redis_server \<Rightarrow> nat \<Rightarrow> bucket_spec list \<Rightarrow> 's \<Rightarrow> (int \<times> int) option \<times> 's" where
  "first_full R j [] s = (None, s)"
| "first_full R j (b # bs) s =
     (if gbs_limit b \<le> counter R (gbs_key b) s then
        (if srv_pttl R (gbs_key b) s < 0
         then (Some (int (Suc j), gbs_expiry_seconds b * 1000), srv_pexpire R (gbs_key b) (gbs_expiry_seconds b * 1000) s)
         else (Some (int (Suc j), srv_pttl R (gbs_key b) s), s))
      else first_full R (Suc j) bs s)"

definition bump :: "'s redis_server \<Rightarrow> bucket_spec \<Rightarrow> 's \<Rightarrow> 's" where
  "bump R b s = (let (next_value, s') = srv_incr R (gbs_key b) s in
     if next_value = 1 \<or> srv_pttl R (gbs_key b) s' < 0 then srv_pexpire R (gbs_key b) (gbs_expiry_seconds b * 1000) s' else s')"

fun bump_all :: "'s redis_server \<Rightarrow> bucket_spec list \<Rightarrow> 's \<Rightarrow> 's" where
  "bump_all R [] s = s"
| "bump_all R (b # bs) s = bump_all R bs (bump R b s)"

lemma argv_limit: "j < length bs \<Longrightarrow> grouped_argv bs ! Suc j = gbs_limit (bs ! j)"
  by (simp add: grouped_argv_def nth_append)

lemma argv_window: "j < length bs \<Longrightarrow> grouped_argv bs ! (length bs + Suc j) = gbs_expiry_seconds (bs ! j) * 1000"
  by (simp add: grouped_argv_def nth_append)

lemma lua_first_full_buckets:
  "j \<le> length bs \<Longrightarrow> lua_first_full R (map gbs_key bs) (grouped_argv bs) (length bs) [Suc j..<Suc (length bs)] s =
     first_full R j (drop j bs) s"
proof (induction "length bs - j" arbitrary: j)
  case 0
  then show ?case by simp
next
  case (Suc d)
  then have j: "j < length bs" by simp
  then have "[Suc j..<Suc (length bs)] = Suc j # [Suc (Suc j)..<Suc (length bs)]" by (simp add: upt_rec)
  moreover have "drop j bs = bs ! j # drop (Suc j) bs" using j by (simp add: Cons_nth_drop_Suc)
  moreover have "lua_first_full R (map gbs_key bs) (grouped_argv bs) (length bs) [Suc (Suc j)..<Suc (length bs)] s =
      first_full R (Suc j) (drop (Suc j) bs) s"
    by (rule Suc.hyps) (use Suc.hyps(2) j in simp_all)
  ultimately show ?case
    using j argv_limit [OF j] argv_window [OF j] by (simp add: counter_def Let_def del: upt_Suc)
qed

lemma lua_increment_buckets:
  "j \<le> length bs \<Longrightarrow> lua_increment R (map gbs_key bs) (grouped_argv bs) (length bs) [Suc j..<Suc (length bs)] s =
     bump_all R (drop j bs) s"
proof (induction "length bs - j" arbitrary: j s)
  case 0
  then show ?case by simp
next
  case (Suc d)
  then have j: "j < length bs" by simp
  then have "[Suc j..<Suc (length bs)] = Suc j # [Suc (Suc j)..<Suc (length bs)]" by (simp add: upt_rec)
  moreover have "drop j bs = bs ! j # drop (Suc j) bs" using j by (simp add: Cons_nth_drop_Suc)
  moreover have "lua_increment R (map gbs_key bs) (grouped_argv bs) (length bs) [Suc (Suc j)..<Suc (length bs)] t =
      bump_all R (drop (Suc j) bs) t" for t
    by (rule Suc.hyps) (use Suc.hyps(2) j in simp_all)
  ultimately show ?case
    using j argv_window [OF j] by (simp add: bump_def Let_def split_beta del: upt_Suc)
qed

lemma lua_consume_buckets:
  "lua_consume R (map gbs_key bs) (grouped_argv bs) s = (case first_full R 0 bs s of
     (Some (i, ttl), s') \<Rightarrow> ((0, i, ttl), s') | (None, s') \<Rightarrow> ((1, 0, 0), bump_all R bs s'))"
proof -
  have "nat (grouped_argv bs ! 0) = length bs" by (simp add: grouped_argv_def)
  then show ?thesis
    using lua_first_full_buckets [of 0 bs R s] lua_increment_buckets [of 0 bs R]
    by (simp add: lua_consume_def Let_def del: upt_Suc) (simp split: prod.split option.split)
qed

subsection \<open>All or nothing\<close>

definition windows_positive :: "bucket_spec list \<Rightarrow> bool" where
  "windows_positive bs \<longleftrightarrow> (\<forall>b \<in> set bs. 0 < gbs_expiry_seconds b)"

lemma first_full_None: "first_full R j bs s = (None, s') \<Longrightarrow> s' = s \<and> (\<forall>b \<in> set bs. counter R (gbs_key b) s < gbs_limit b)"
  by (induction R j bs s rule: first_full.induct) (auto split: if_splits)

lemma first_full_Some:
  "first_full R j bs s = (Some (i, ttl), s') \<Longrightarrow>
     \<exists>m < length bs. i = int (Suc (j + m)) \<and> gbs_limit (bs ! m) \<le> counter R (gbs_key (bs ! m)) s
       \<and> (\<forall>q < m. counter R (gbs_key (bs ! q)) s < gbs_limit (bs ! q))
       \<and> (s' = s \<or> s' = srv_pexpire R (gbs_key (bs ! m)) (gbs_expiry_seconds (bs ! m) * 1000) s)"
proof (induction R j bs s rule: first_full.induct)
  case (2 R j b bs s)
  show ?case
  proof (cases "gbs_limit b \<le> counter R (gbs_key b) s")
    case True
    with "2.prems" show ?thesis by (intro exI [of _ 0]) (auto split: if_splits)
  next
    case False
    with 2 obtain m where "m < length bs" "i = int (Suc (Suc j + m))" "gbs_limit (bs ! m) \<le> counter R (gbs_key (bs ! m)) s"
      "\<forall>q < m. counter R (gbs_key (bs ! q)) s < gbs_limit (bs ! q)"
      "s' = s \<or> s' = srv_pexpire R (gbs_key (bs ! m)) (gbs_expiry_seconds (bs ! m) * 1000) s"
      by auto
    with False show ?thesis by (intro exI [of _ "Suc m"]) (auto simp: nth_Cons split: nat.split)
  qed
qed simp

context redis_counters
begin

lemma counter_pexpire: "0 < ms \<Longrightarrow> counter R k (srv_pexpire R k' ms s) = counter R k s"
  by (simp add: counter_def get_pexpire)

lemma bump_step: "bump R b s = (let s' = snd (srv_incr R (gbs_key b) s) in
    if counter R (gbs_key b) s = 0 \<or> srv_pttl R (gbs_key b) s' < 0
    then srv_pexpire R (gbs_key b) (gbs_expiry_seconds b * 1000) s' else s')"
  by (simp add: bump_def Let_def split_beta value_incr)

lemma counter_bump:
  "0 < gbs_expiry_seconds b \<Longrightarrow> counter R k (bump R b s) = counter R k s + (if k = gbs_key b then 1 else 0)"
  by (auto simp: bump_step Let_def counter_pexpire) (auto simp: counter_def get_incr split: option.splits)

lemma pttl_bump_self: "0 < gbs_expiry_seconds b \<Longrightarrow> 0 \<le> srv_pttl R (gbs_key b) (bump R b s)"
  by (auto simp: bump_step Let_def pttl_pexpire get_incr)

lemma pttl_bump_other: "0 < gbs_expiry_seconds b \<Longrightarrow> k \<noteq> gbs_key b \<Longrightarrow> srv_pttl R k (bump R b s) = srv_pttl R k s"
  by (auto simp: bump_step Let_def pttl_pexpire get_incr pttl_incr)

lemma counter_bump_all:
  "windows_positive bs \<Longrightarrow> distinct (map gbs_key bs) \<Longrightarrow>
     counter R k (bump_all R bs s) = counter R k s + (if k \<in> gbs_key ` set bs then 1 else 0)"
  by (induction bs arbitrary: s) (auto simp: counter_bump windows_positive_def)

lemma bump_all_keeps_expiry: "windows_positive bs \<Longrightarrow> 0 \<le> srv_pttl R k s \<Longrightarrow> 0 \<le> srv_pttl R k (bump_all R bs s)"
proof (induction bs arbitrary: s)
  case (Cons b bs)
  then have "0 \<le> srv_pttl R k (bump R b s)"
    by (cases "k = gbs_key b") (auto simp: windows_positive_def pttl_bump_self pttl_bump_other)
  with Cons show ?case by (simp add: windows_positive_def)
qed simp

lemma bump_all_expires: "windows_positive bs \<Longrightarrow> b \<in> set bs \<Longrightarrow> 0 \<le> srv_pttl R (gbs_key b) (bump_all R bs s)"
proof (induction bs arbitrary: s)
  case (Cons a bs)
  then show ?case
    by (cases "b = a") (auto simp: windows_positive_def pttl_bump_self intro!: bump_all_keeps_expiry)
qed simp

end

context redis_session
begin

lemma atomic_run: "atomic_consume_grouped_buckets client bs s =
    (Inr (grouped_result_of bs (fst (lua_consume R (map gbs_key bs) (grouped_argv bs) s))),
     snd (lua_consume R (map gbs_key bs) (grouped_argv bs) s))"
  by (simp add: atomic_consume_grouped_buckets_def call_bind_def call_of_def eval_runs_script)

lemma atomic_cases:
  assumes W: "windows_positive bs" and run: "atomic_consume_grouped_buckets client bs s = (Inr r, s')"
  shows "(\<forall>b \<in> set bs. counter R (gbs_key b) s < gbs_limit b) \<and> r = allowed_result \<and> s' = bump_all R bs s
    \<or> (\<exists>m ttl. m < length bs \<and> gbs_limit (bs ! m) \<le> counter R (gbs_key (bs ! m)) s
         \<and> (\<forall>q < m. counter R (gbs_key (bs ! q)) s < gbs_limit (bs ! q))
         \<and> r = blocked_result m ttl \<and> (\<forall>k. counter R k s' = counter R k s))"
proof -
  obtain full t where f: "first_full R 0 bs s = (full, t)" by (metis surj_pair)
  show ?thesis
  proof (cases full)
    case None
    with f run show ?thesis
      by (auto simp: atomic_run lua_consume_buckets grouped_result_of_def dest: first_full_None)
  next
    case (Some p)
    obtain i ttl where p: "p = (i, ttl)" by (metis surj_pair)
    with f Some obtain m where m: "m < length bs" "i = int (Suc m)" "gbs_limit (bs ! m) \<le> counter R (gbs_key (bs ! m)) s"
      "\<forall>q < m. counter R (gbs_key (bs ! q)) s < gbs_limit (bs ! q)"
      "t = s \<or> t = srv_pexpire R (gbs_key (bs ! m)) (gbs_expiry_seconds (bs ! m) * 1000) s"
      using first_full_Some [of R 0 bs s i ttl t] by auto
    have "0 < gbs_expiry_seconds (bs ! m) * 1000" using W m(1) by (simp add: windows_positive_def)
    then have c: "counter R k t = counter R k s" for k using m(5) by (auto simp: counter_pexpire)
    from run f Some p m(2) have "s' = t" and "r = blocked_result m (if ttl < 1 then gbs_expiry_seconds (bs ! m) * 1000 else ttl)"
      by (auto simp: atomic_run lua_consume_buckets grouped_result_of_def Let_def)
    with m(1,3,4) c show ?thesis by metis
  qed
qed

lemma consume_all_or_nothing:
  assumes W: "windows_positive bs" and D: "distinct (map gbs_key bs)"
    and run: "atomic_consume_grouped_buckets client bs s = (Inr r, s')"
  shows "gcr_allowed r \<longleftrightarrow> (\<forall>b \<in> set bs. counter R (gbs_key b) s < gbs_limit b)"
    and "counter R k s' = counter R k s + (if gcr_allowed r \<and> k \<in> gbs_key ` set bs then 1 else 0)"
    and "gcr_allowed r \<Longrightarrow> b \<in> set bs \<Longrightarrow> 0 \<le> srv_pttl R (gbs_key b) s'"
    and "\<not> gcr_allowed r \<Longrightarrow> \<exists>m ttl. m < length bs \<and> r = blocked_result m ttl
           \<and> gbs_limit (bs ! m) \<le> counter R (gbs_key (bs ! m)) s"
proof -
  consider "\<forall>b \<in> set bs. counter R (gbs_key b) s < gbs_limit b" "r = allowed_result" "s' = bump_all R bs s"
    | m ttl where "m < length bs" "gbs_limit (bs ! m) \<le> counter R (gbs_key (bs ! m)) s"
      "r = blocked_result m ttl" "\<forall>k. counter R k s' = counter R k s"
    using atomic_cases [OF W run] by metis
  note cases = this
  show "gcr_allowed r \<longleftrightarrow> (\<forall>b \<in> set bs. counter R (gbs_key b) s < gbs_limit b)"
    by (rule cases) (fastforce simp: allowed_result_def blocked_result_def dest: nth_mem)+
  show "counter R k s' = counter R k s + (if gcr_allowed r \<and> k \<in> gbs_key ` set bs then 1 else 0)"
    by (rule cases) (simp_all add: allowed_result_def blocked_result_def counter_bump_all W D)
  show "0 \<le> srv_pttl R (gbs_key b) s'" if "gcr_allowed r" "b \<in> set bs"
    by (rule cases) (use that in \<open>simp_all add: blocked_result_def bump_all_expires W\<close>)
  show "\<exists>m ttl. m < length bs \<and> r = blocked_result m ttl \<and> gbs_limit (bs ! m) \<le> counter R (gbs_key (bs ! m)) s"
    if "\<not> gcr_allowed r"
    by (rule cases) (use that in \<open>auto simp: allowed_result_def\<close>)
qed

end

subsection \<open>The commands that replace the script\<close>

lemma dec_value_snoc: "dec_value (s @ [c]) = 10 * dec_value s + digit_value c"
  by (simp add: dec_value_def)

lemma digit_code: "n < 10 \<Longrightarrow> (of_char (char_of (48 + n :: nat)) :: nat) = 48 + n"
  by simp

lemma digit_char: "n < 10 \<Longrightarrow> digit_value (char_of (48 + n)) = int n \<and> is_digit (char_of (48 + n))" for n :: nat
proof -
  assume n: "n < 10"
  have "(of_char (char_of (48 + n)) :: int) = int (of_char (char_of (48 + n)))" by (simp only: of_nat_of_char)
  with digit_code [OF n] n show ?thesis by (simp only: digit_value_def is_digit_def) simp
qed

lemma dec_digits_value: "dec_value (dec_digits n) = int n"
proof (induction n rule: dec_digits.induct)
  case (1 n)
  show ?case
  proof (cases "n < 10")
    case True
    then show ?thesis using digit_char [of n] by (simp only: dec_digits.simps [of n]) (simp add: dec_value_def)
  next
    case False
    with 1 have "dec_value (dec_digits n) = 10 * int (n div 10) + int (n mod 10)"
      using digit_char [of "n mod 10"] by (simp only: dec_digits.simps [of n]) (simp add: dec_value_snoc)
    then show ?thesis by presburger
  qed
qed

lemma dec_digits_digits: "list_all is_digit (dec_digits n)"
proof (induction n rule: dec_digits.induct)
  case (1 n)
  then show ?case
    using digit_char [of n] digit_char [of "n mod 10"] by (simp only: dec_digits.simps [of n]) (simp split: if_splits)
qed

lemma dec_digits_nonempty: "dec_digits n \<noteq> []"
  by (simp add: dec_digits.simps [of n])

lemma not_space_digit: "is_digit c \<Longrightarrow> \<not> is_space c"
  by (auto simp: is_digit_def is_space_def Let_def)

lemma dropWhile_none: "list_all (\<lambda>c. \<not> P c) s \<Longrightarrow> dropWhile P s = s"
  by (cases s) auto

lemma strip_none: "list_all (\<lambda>c. \<not> is_space c) s \<Longrightarrow> strip s = s"
  by (simp add: strip_def lstrip_def dropWhile_none list_all_rev)

lemma strip_digits: "list_all is_digit s \<Longrightarrow> strip s = s"
  by (rule strip_none) (auto simp: list_all_iff not_space_digit)

lemma int_of_digits_text: "list_all is_digit s \<Longrightarrow> s \<noteq> [] \<Longrightarrow> int_of_text s = Some (dec_value s)"
proof -
  assume s: "list_all is_digit s" "s \<noteq> []"
  then have "is_digit (hd s)" by (cases s) auto
  then have "hd s \<noteq> CHR ''+''" "hd s \<noteq> CHR ''-''" by (auto simp: is_digit_def)
  with s show ?thesis by (simp add: int_of_text_def strip_digits Let_def)
qed

lemma int_of_dec_str: "int_of_text (dec_str n) = Some n"
proof (cases "n < 0")
  case True
  let ?d = "dec_digits (nat (- n))"
  have "strip (CHR ''-'' # ?d) = CHR ''-'' # ?d"
    by (rule strip_none) (use dec_digits_digits [of "nat (- n)"] in \<open>simp add: list_all_iff not_space_digit\<close>, simp add: is_space_def)
  with True show ?thesis
    by (simp add: dec_str_def int_of_text_def Let_def dec_digits_nonempty dec_digits_digits dec_digits_value)
next
  case False
  then show ?thesis
    by (simp add: dec_str_def int_of_digits_text dec_digits_digits dec_digits_nonempty dec_digits_value)
qed

definition direct_commands :: "'s redis_server \<Rightarrow> 's fallback_commands" where
  "direct_commands R =
     \<lparr>fbc_get = \<lambda>k s. (Inr (case srv_get R k s of None \<Rightarrow> ReplyNone | Some v \<Rightarrow> ReplyText (dec_str v)), s),
      fbc_pttl = \<lambda>k s. (Inr (ReplyInt (srv_pttl R k s)), s),
      fbc_incr = \<lambda>k s. (Inr (ReplyInt (fst (srv_incr R k s))), snd (srv_incr R k s)),
      fbc_pexpire = \<lambda>k ms s. (Inr (ReplyInt 1), srv_pexpire R k ms s)\<rparr>"

lemma first_full_below:
  "\<forall>b \<in> set bs. counter R (gbs_key b) s < gbs_limit b \<Longrightarrow> first_full R j bs s = (None, s)"
  by (induction bs arbitrary: j) auto

lemma first_full_at:
  "m < length bs \<Longrightarrow> gbs_limit (bs ! m) \<le> counter R (gbs_key (bs ! m)) s \<Longrightarrow>
     \<forall>q < m. counter R (gbs_key (bs ! q)) s < gbs_limit (bs ! q) \<Longrightarrow>
     first_full R j bs s = first_full R (j + m) [bs ! m] s"
proof (induction bs arbitrary: j m)
  case (Cons b bs)
  show ?case
  proof (cases m)
    case 0
    with Cons.prems show ?thesis by simp
  next
    case (Suc n)
    with Cons.prems have "counter R (gbs_key b) s < gbs_limit b" by force
    moreover have "\<forall>q < n. counter R (gbs_key (bs ! q)) s < gbs_limit (bs ! q)" using Cons.prems(3) Suc by force
    ultimately show ?thesis using Cons.IH [of n "Suc j"] Cons.prems(1,2) Suc by simp
  qed
qed simp

context redis_session
begin

lemma fallback_methods_run: "fallback_methods client s = (Inr (direct_commands R), s)"
  by (simp add: fallback_methods_def redis_method_def get_replies pttl_replies incr_replies pexpire_replies
      call_bind_def call_of_def direct_commands_def)

lemma command_get: "command_int (fbc_get (direct_commands R) k) (Some 0) s = (Inr (counter R k s), s)"
  by (simp add: command_int_def direct_commands_def call_bind_def call_of_def redis_int_def counter_def int_of_dec_str split: option.split)

lemma command_pttl: "command_int (fbc_pttl (direct_commands R) k) d s = (Inr (srv_pttl R k s), s)"
  by (simp add: command_int_def direct_commands_def call_bind_def call_of_def redis_int_def)

lemma command_incr: "command_int (fbc_incr (direct_commands R) k) d s = (Inr (counter R k s + 1), snd (srv_incr R k s))"
  by (simp add: command_int_def direct_commands_def call_bind_def call_of_def redis_int_def value_incr)

lemma command_pexpire: "fbc_pexpire (direct_commands R) k ms s = (Inr (ReplyInt 1), srv_pexpire R k ms s)"
  by (simp add: direct_commands_def)

lemmas command_simps = command_get command_pttl command_incr command_pexpire call_bind_def call_of_def

lemma fallback_below:
  "\<forall>b \<in> set bs. counter R (gbs_key b) s < gbs_limit b \<Longrightarrow>
     fallback_first_full (direct_commands R) j bs s = (Inr None, s)"
  by (induction bs arbitrary: j) (auto simp: command_simps)

lemma fallback_at:
  "m < length bs \<Longrightarrow> gbs_limit (bs ! m) \<le> counter R (gbs_key (bs ! m)) s \<Longrightarrow>
     \<forall>q < m. counter R (gbs_key (bs ! q)) s < gbs_limit (bs ! q) \<Longrightarrow>
     fallback_first_full (direct_commands R) j bs s = fallback_first_full (direct_commands R) (j + m) [bs ! m] s"
proof (induction bs arbitrary: j m)
  case (Cons b bs)
  show ?case
  proof (cases m)
    case 0
    with Cons.prems show ?thesis by (simp add: command_simps)
  next
    case (Suc n)
    with Cons.prems have "counter R (gbs_key b) s < gbs_limit b" by force
    moreover have "\<forall>q < n. counter R (gbs_key (bs ! q)) s < gbs_limit (bs ! q)" using Cons.prems(3) Suc by force
    ultimately show ?thesis using Cons.IH [of n "Suc j"] Cons.prems(1,2) Suc by (simp add: command_simps)
  qed
qed simp

lemma fallback_increment_returns: "fst (fallback_increment (direct_commands R) bs s) = Inr ()"
  by (induction bs arbitrary: s) (auto simp: command_simps)

text \<open>A counter in its last millisecond is the one case where the two leave different states.\<close>

lemma fallback_increment_run:
  "windows_positive bs \<Longrightarrow> \<forall>b \<in> set bs. srv_pttl R (gbs_key b) s \<noteq> 0 \<Longrightarrow>
     fallback_increment (direct_commands R) bs s = (Inr (), bump_all R bs s)"
proof (induction bs arbitrary: s)
  case (Cons b bs)
  let ?t = "snd (srv_incr R (gbs_key b) s)"
  have w: "0 < gbs_expiry_seconds b" using Cons.prems by (simp add: windows_positive_def)
  have "srv_pttl R (gbs_key b) ?t \<noteq> 0" using Cons.prems by (simp add: pttl_incr)
  then have "(srv_pttl R (gbs_key b) ?t < 1) = (srv_pttl R (gbs_key b) ?t < 0)" by linarith
  then have step: "fallback_increment (direct_commands R) (b # bs) s = fallback_increment (direct_commands R) bs (bump R b s)"
    by (simp add: command_simps bump_step Let_def)
  have "srv_pttl R (gbs_key b) (bump R b s) \<noteq> 0"
    using w Cons.prems by (auto simp: bump_step Let_def pttl_pexpire get_incr pttl_incr)
  then have "\<forall>a \<in> set bs. srv_pttl R (gbs_key a) (bump R b s) \<noteq> 0"
    using Cons.prems(2) w pttl_bump_other by (metis list.set_intros(2))
  with Cons step show ?case by (simp add: windows_positive_def)
qed (simp add: command_simps)

lemma fallback_like_script:
  assumes W: "windows_positive bs"
  shows "fst (compatibility_consume_grouped_buckets client bs s) = fst (atomic_consume_grouped_buckets client bs s)"
    and "\<forall>b \<in> set bs. srv_pttl R (gbs_key b) s \<noteq> 0 \<Longrightarrow>
      snd (compatibility_consume_grouped_buckets client bs s) = snd (atomic_consume_grouped_buckets client bs s)"
proof -
  note unf = compatibility_consume_grouped_buckets_def fallback_methods_run atomic_run lua_consume_buckets grouped_result_of_def
  have "fst (compatibility_consume_grouped_buckets client bs s) = fst (atomic_consume_grouped_buckets client bs s) \<and>
    ((\<forall>b \<in> set bs. srv_pttl R (gbs_key b) s \<noteq> 0) \<longrightarrow>
      snd (compatibility_consume_grouped_buckets client bs s) = snd (atomic_consume_grouped_buckets client bs s))"
  proof (cases "\<forall>b \<in> set bs. counter R (gbs_key b) s < gbs_limit b")
    case True
    then show ?thesis
      using fallback_increment_returns [of bs s] fallback_increment_run [OF W, of s]
      by (auto simp: unf first_full_below fallback_below call_bind_def call_of_def split: prod.split sum.split)
  next
    case False
    then obtain n where "n < length bs \<and> gbs_limit (bs ! n) \<le> counter R (gbs_key (bs ! n)) s"
      by (metis in_set_conv_nth not_less)
    then obtain m where m: "m < length bs" "gbs_limit (bs ! m) \<le> counter R (gbs_key (bs ! m)) s"
      and least: "\<forall>q < m. counter R (gbs_key (bs ! q)) s < gbs_limit (bs ! q)"
      using exists_least_iff [of "\<lambda>n. n < length bs \<and> gbs_limit (bs ! n) \<le> counter R (gbs_key (bs ! n)) s"]
      by (metis (no_types, lifting) not_less order.strict_trans)
    note at = first_full_at [OF m least, of 0] fallback_at [OF m least, of 0]
    have "srv_pttl R (gbs_key (bs ! m)) s \<noteq> 0" if "\<forall>b \<in> set bs. srv_pttl R (gbs_key b) s \<noteq> 0"
      using that nth_mem [OF m(1)] by (rule bspec)
    then have "(srv_pttl R (gbs_key (bs ! m)) s < 1) = (srv_pttl R (gbs_key (bs ! m)) s < 0)"
      if "\<forall>b \<in> set bs. srv_pttl R (gbs_key b) s \<noteq> 0"
      using that by force
    then have "snd (compatibility_consume_grouped_buckets client bs s) = snd (atomic_consume_grouped_buckets client bs s)"
      if "\<forall>b \<in> set bs. srv_pttl R (gbs_key b) s \<noteq> 0"
      using that m by (simp add: unf at command_simps Let_def)
    moreover have "fst (compatibility_consume_grouped_buckets client bs s) = fst (atomic_consume_grouped_buckets client bs s)"
      using m by (auto simp: unf at command_simps Let_def)
    ultimately show ?thesis by blast
  qed
  then show "fst (compatibility_consume_grouped_buckets client bs s) = fst (atomic_consume_grouped_buckets client bs s)"
    and "\<forall>b \<in> set bs. srv_pttl R (gbs_key b) s \<noteq> 0 \<Longrightarrow>
      snd (compatibility_consume_grouped_buckets client bs s) = snd (atomic_consume_grouped_buckets client bs s)"
    by blast+
qed

end

subsection \<open>The policies in effect\<close>

definition policy_in_effect :: "rate_limiting_settings \<Rightarrow> policy_spec \<Rightarrow> rate_limit_policy \<Rightarrow> bool" where
  "policy_in_effect cfg spec p \<longleftrightarrow> rlp_name p = psp_name spec \<and> rlp_sensitivity p = psp_sensitivity spec
     \<and> 1 \<le> rit_amount (rlp_item p) \<and> List.member supported_windows (rit_expiry (rlp_item p))
     \<and> (rls_mode cfg = MODE_PANIC \<and> psp_sensitivity spec \<noteq> SENS_NORMAL \<longrightarrow> \<not> rlp_fail_open p)
     \<and> (List.member [''staging'', ''prod''] (rls_environment cfg) \<and> psp_name spec = ''pre_auth'' \<longrightarrow> \<not> rlp_fail_open p)"

definition spec_ok :: "policy_spec \<Rightarrow> bool" where
  "spec_ok spec \<longleftrightarrow> 1 \<le> psp_limit spec \<and> List.member supported_windows (psp_window spec)"

lemma mode_limit_positive: "1 \<le> limit \<Longrightarrow> 1 \<le> apply_mode_to_limit limit mode sensitivity"
  by (auto simp: apply_mode_to_limit_def)

lemma item_from_window: "List.member supported_windows w \<Longrightarrow>
    rate_limit_item_from_window n w = Inr \<lparr>rit_amount = n, rit_expiry = w\<rparr>"
  by (auto simp: supported_windows_def rate_limit_item_from_window_def)

lemma override_field_ok: "P fallback \<Longrightarrow> (\<And>v x. override = Some v \<Longrightarrow> f v = Some x \<Longrightarrow> P x) \<Longrightarrow> P (override_field f override fallback)"
  by (auto simp: override_field_def split: option.split)

lemma apply_override_ok:
  assumes "spec_ok spec" and ov: "\<And>v. override = Some v \<Longrightarrow> override_valid v"
  shows "\<exists>p. apply_override spec mode override = Inr p \<and> rlp_name p = psp_name spec \<and> rlp_sensitivity p = psp_sensitivity spec
    \<and> 1 \<le> rit_amount (rlp_item p) \<and> List.member supported_windows (rit_expiry (rlp_item p))
    \<and> (panic_closes mode (psp_sensitivity spec) \<longrightarrow> \<not> rlp_fail_open p)"
proof -
  have "1 \<le> override_field ovr_limit override (apply_mode_to_limit (psp_limit spec) mode (psp_sensitivity spec))"
    by (rule override_field_ok) (use assms in \<open>auto simp: spec_ok_def override_valid_def mode_limit_positive dest!: ov split: option.splits\<close>)
  moreover have "List.member supported_windows (override_field ovr_window override (psp_window spec))"
    by (rule override_field_ok) (use assms in \<open>auto simp: spec_ok_def override_valid_def dest!: ov split: option.splits\<close>)
  ultimately show ?thesis by (simp add: apply_override_def Let_def item_from_window then_check_def)
qed

lemma build_effective_ok:
  assumes "\<forall>spec \<in> set specs. spec_ok spec" and ov: "\<forall>v \<in> snd ` set (rls_policies cfg). override_valid v"
  shows "\<exists>reg. build_effective_policies cfg specs = Inr reg
    \<and> list_all2 (\<lambda>spec e. fst e = psp_name spec \<and> policy_in_effect cfg spec (snd e)) specs reg"
  using assms(1)
proof (induction specs)
  case (Cons spec specs)
  then obtain reg where reg: "build_effective_policies cfg specs = Inr reg"
    "list_all2 (\<lambda>spec e. fst e = psp_name spec \<and> policy_in_effect cfg spec (snd e)) specs reg" by auto
  have "override_valid v" if "map_of (rls_policies cfg) (psp_name spec) = Some v" for v
    using map_of_SomeD [OF that] ov by force
  then obtain p where p: "apply_override spec (rls_mode cfg) (map_of (rls_policies cfg) (psp_name spec)) = Inr p"
    "rlp_name p = psp_name spec" "rlp_sensitivity p = psp_sensitivity spec" "1 \<le> rit_amount (rlp_item p)"
    "List.member supported_windows (rit_expiry (rlp_item p))"
    "panic_closes (rls_mode cfg) (psp_sensitivity spec) \<longrightarrow> \<not> rlp_fail_open p"
    using apply_override_ok [of spec "map_of (rls_policies cfg) (psp_name spec)" "rls_mode cfg"] Cons.prems by auto
  have "psp_name pre_auth_policy = ''pre_auth''" by (simp add: pre_auth_policy_def)
  with reg p show ?case
    by (cases "psp_sensitivity spec") (auto simp: then_check_def policy_in_effect_def should_force_fail_closed_in_environment_def
        force_policy_fail_closed_def panic_closes_def)
qed simp

lemma registered_specs_ok: "\<forall>spec \<in> set registered_policy_specs. spec_ok spec"
  unfolding spec_ok_def by code_simp

lemma registered_names_distinct: "distinct policy_names"
  by code_simp

lemma list_all2_names: "list_all2 (\<lambda>spec e. fst e = psp_name spec \<and> P spec (snd e)) specs reg \<Longrightarrow>
    map fst reg = map psp_name specs"
  by (induction rule: list_all2_induct) auto

lemma list_all2_lookup:
  "list_all2 (\<lambda>spec e. fst e = psp_name spec \<and> P spec (snd e)) specs reg \<Longrightarrow> distinct (map psp_name specs) \<Longrightarrow>
     spec \<in> set specs \<Longrightarrow> \<exists>p. map_of reg (psp_name spec) = Some p \<and> P spec p"
proof (induction rule: list_all2_induct)
  case (Cons x xs y ys)
  then show ?case by (cases "spec = x") (auto simp: image_iff split: prod.splits)
qed simp

lemma effective_registry_ok:
  assumes "\<forall>v \<in> snd ` set (rls_policies cfg). override_valid v" and "unknown_override_names cfg = []"
  shows "\<exists>reg. build_effective_policy_registry cfg = Inr reg \<and> map fst reg = policy_names
    \<and> (\<forall>spec \<in> set registered_policy_specs. \<exists>p. map_of reg (psp_name spec) = Some p \<and> policy_in_effect cfg spec p)"
proof -
  obtain reg where reg: "build_effective_policies cfg registered_policy_specs = Inr reg"
    "list_all2 (\<lambda>spec e. fst e = psp_name spec \<and> policy_in_effect cfg spec (snd e)) registered_policy_specs reg"
    using build_effective_ok [OF registered_specs_ok assms(1)] by auto
  have "\<forall>spec \<in> set registered_policy_specs. \<exists>p. map_of reg (psp_name spec) = Some p \<and> policy_in_effect cfg spec p"
    using list_all2_lookup [OF reg(2) registered_names_distinct [unfolded policy_names_def]] by blast
  moreover have "map fst reg = policy_names" using list_all2_names [OF reg(2)] by (simp add: policy_names_def)
  ultimately show ?thesis using reg(1) assms(2) by (simp add: build_effective_policy_registry_def)
qed

subsection \<open>The grouped check\<close>

lemma bucket_specs_windows:
  "\<forall>p \<in> set ps. List.member supported_windows (rit_expiry (rlp_item (prc_policy p))) \<Longrightarrow> windows_positive (map bucket_spec_of ps)"
  by (auto simp: windows_positive_def bucket_spec_of_def supported_windows_def)

context redis_session
begin

lemma atomic_returns: "\<exists>r s'. atomic_consume_grouped_buckets client bs s = (Inr r, s')"
  by (simp add: atomic_run)

lemma blocked_outcome: "\<exists>n \<ge> 1. handle_grouped_redis_result (blocked_result m ttl) = LimitBlocked n"
  by (auto simp: handle_grouped_redis_result_def blocked_result_def retry_after_ms_def)

lemma grouped_check:
  assumes W: "windows_positive (map bucket_spec_of ps)" and D: "distinct (map gbs_key (map bucket_spec_of ps))"
    and run: "check_grouped_in_redis client ps s = (out, s')"
  shows "if \<forall>b \<in> set (map bucket_spec_of ps). counter R (gbs_key b) s < gbs_limit b
     then out = LimitPassed
       \<and> (\<forall>k. counter R k s' = counter R k s + (if k \<in> gbs_key ` set (map bucket_spec_of ps) then 1 else 0))
       \<and> (\<forall>b \<in> set (map bucket_spec_of ps). 0 \<le> srv_pttl R (gbs_key b) s')
     else (\<exists>n \<ge> 1. out = LimitBlocked n) \<and> (\<forall>k. counter R k s' = counter R k s)"
proof -
  obtain r t where r: "atomic_consume_grouped_buckets client (map bucket_spec_of ps) s = (Inr r, t)"
    using atomic_returns by blast
  note facts = consume_all_or_nothing [OF W D r]
  from run r have out: "out = handle_grouped_redis_result r" "s' = t"
    by (auto simp: check_grouped_in_redis_def Let_def)
  show ?thesis
  proof (cases "gcr_allowed r")
    case True
    with facts(1,3) facts(2) out show ?thesis by (auto simp: handle_grouped_redis_result_def)
  next
    case False
    then obtain m ttl where "r = blocked_result m ttl" using facts(4) by blast
    with False facts(1,2) out blocked_outcome [of m ttl] show ?thesis by auto
  qed
qed

end

lemma prepared_key:
  "gbs_key (bucket_spec_of \<lparr>prc_policy = p, prc_identifier = i, prc_namespace = rate_limit_namespace pre p i\<rparr>) =
     ''{rl-grouped-v1}:'' @ pre @ '':'' @ rlp_name p @ '':'' @ rli_kind i @ '':'' @ rli_bucket_key i"
  by (simp add: bucket_spec_of_def build_grouped_redis_key_def rate_limit_namespace_def)

lemma invite_create_prepared:
  assumes reg: "\<forall>spec \<in> set registered_policy_specs. \<exists>p. map_of reg (psp_name spec) = Some p \<and> policy_in_effect cfg spec p"
    and L: "lst_settings L = cfg" "lst_registry L = Some reg" and secret: "rls_identifier_secret cfg = Some secret"
  shows "\<exists>ps. prepare_all X L (invite_create_checks oid email domain) = Inr ps \<and> length ps = 4
    \<and> windows_positive (map bucket_spec_of ps) \<and> distinct (map gbs_key (map bucket_spec_of ps))"
proof -
  have look: "\<exists>p. map_of reg (psp_name spec) = Some p \<and> rlp_name p = psp_name spec \<and> List.member supported_windows (rit_expiry (rlp_item p))"
    if "List.member registered_policy_specs spec" for spec
    using reg that by (fastforce simp: policy_in_effect_def)
  obtain a b c d where
      a: "map_of reg (psp_name invite_create_organisation_policy) = Some a" "rlp_name a = psp_name invite_create_organisation_policy"
        "List.member supported_windows (rit_expiry (rlp_item a))"
    and b: "map_of reg (psp_name invite_create_organisation_daily_policy) = Some b" "rlp_name b = psp_name invite_create_organisation_daily_policy"
        "List.member supported_windows (rit_expiry (rlp_item b))"
    and c: "map_of reg (psp_name invite_create_target_email_policy) = Some c" "rlp_name c = psp_name invite_create_target_email_policy"
        "List.member supported_windows (rit_expiry (rlp_item c))"
    and d: "map_of reg (psp_name invite_create_target_domain_policy) = Some d" "rlp_name d = psp_name invite_create_target_domain_policy"
        "List.member supported_windows (rit_expiry (rlp_item d))"
    using look [of invite_create_organisation_policy] look [of invite_create_organisation_daily_policy]
      look [of invite_create_target_email_policy] look [of invite_create_target_domain_policy]
    by (auto simp: registered_policy_specs_def)
  let ?id = "\<lambda>b. build_bucket_identifier X b secret"
  let ?p = "\<lambda>p b. \<lparr>prc_policy = p, prc_identifier = ?id b, prc_namespace = rate_limit_namespace (rls_redis_prefix cfg) p (?id b)\<rparr>"
  let ?ps = "[?p a (organisation_bucket oid), ?p b (organisation_bucket oid),
    ?p c \<lparr>rlb_kind = ''organisation_target_email'', rlb_raw_value = ''organisation:'' @ uuid_str oid @ '':email:'' @ email\<rparr>,
    ?p d \<lparr>rlb_kind = ''organisation_target_domain'', rlb_raw_value = ''organisation:'' @ uuid_str oid @ '':domain:'' @ domain\<rparr>]"
  have "prepare_all X L (invite_create_checks oid email domain) = Inr ?ps"
    using a(1) b(1) c(1) d(1) L secret
    by (simp add: invite_create_checks_def prepare_bucket_rate_limit_check_def effective_policy_def get_effective_rate_limit_policy_def
        identifier_secret_or_error_def then_check_def Let_def)
  moreover have "windows_positive (map bucket_spec_of ?ps)"
    by (rule bucket_specs_windows) (use a(3) b(3) c(3) d(3) in simp)
  moreover have "distinct (map gbs_key (map bucket_spec_of ?ps))"
    using a(2) b(2) c(2) d(2)
    by (simp add: prepared_key invite_create_organisation_policy_def invite_create_organisation_daily_policy_def
        invite_create_target_email_policy_def invite_create_target_domain_policy_def)
  ultimately show ?thesis by (intro exI [of _ ?ps]) simp
qed

subsection \<open>The assertion of the edge\<close>

lemma split_on_none: "c \<notin> set s \<Longrightarrow> split_on c s = [s]"
  by (induction s) auto

lemma split_on_append: "c \<notin> set a \<Longrightarrow> split_on c (a @ c # b) = a # split_on c b"
  by (induction a) auto

lemma takeWhile_stop: "c \<notin> set a \<Longrightarrow> takeWhile (\<lambda>x. x \<noteq> c) (a @ c # b) = a"
  by (induction a) auto

lemma dropWhile_stop: "c \<notin> set a \<Longrightarrow> dropWhile (\<lambda>x. x \<noteq> c) (a @ c # b) = c # b"
  by (induction a) auto

lemma partition_eq_at: "CHR ''='' \<notin> set a \<Longrightarrow> partition_eq (a @ CHR ''='' # b) = (a, ''='', b)"
  by (simp add: partition_eq_def takeWhile_stop dropWhile_stop Let_def)

definition is_lower_hex :: "char \<Rightarrow> bool" where
  "is_lower_hex c \<longleftrightarrow> List.member ''0123456789abcdef'' c"

lemma lower_hex_char: "is_lower_hex c \<Longrightarrow> is_hex_digit c \<and> lower_char c = c \<and> \<not> is_space c \<and> c \<noteq> CHR '','' \<and> c \<noteq> CHR ''=''"
  by (auto simp: is_lower_hex_def is_hex_digit_def hex_value_def lower_char_def is_space_def)

lemma lower_hex_string: "list_all is_lower_hex s \<Longrightarrow>
    list_all is_hex_digit s \<and> lower s = s \<and> list_all (\<lambda>c. \<not> is_space c) s \<and> CHR '','' \<notin> set s"
  by (induction s) (auto simp: lower_def dest: lower_hex_char)

lemma digit_not_comma: "is_digit c \<Longrightarrow> c \<noteq> CHR '','' \<and> c \<noteq> CHR ''=''"
  by (auto simp: is_digit_def)

text \<open>The header an edge sends.\<close>

definition edge_header :: "int \<Rightarrow> string \<Rightarrow> string" where
  "edge_header timestamp signature = ''t='' @ dec_str timestamp @ '',v1='' @ signature"

lemma parse_edge_header:
  assumes "0 \<le> t" and sig: "list_all is_lower_hex signature" and len: "length signature = 64"
  shows "parse_edge_assertion_header (edge_header t signature) = Inr (Some \<lparr>eas_timestamp = t, eas_signature = signature\<rparr>)"
proof -
  define d where "d = dec_digits (nat t)"
  have t: "dec_str t = d" and v: "dec_value d = t" using assms(1) by (simp_all add: dec_str_def d_def dec_digits_value)
  have d: "list_all is_digit d" "d \<noteq> []" by (simp_all add: d_def dec_digits_digits dec_digits_nonempty)
  then have comma: "CHR '','' \<notin> set d" by (auto simp: list_all_iff dest: digit_not_comma)
  note sig' = lower_hex_string [OF sig]
  have parts: "split_on (CHR '','') (edge_header t signature) = [''t='' @ d, ''v1='' @ signature]"
    using split_on_append [of "CHR '',''" "''t='' @ d" "''v1='' @ signature"] split_on_none [of "CHR '',''" "''v1='' @ signature"] comma sig'
    by (simp add: edge_header_def t)
  have plain: "\<not> is_space CHR ''t''" "\<not> is_space CHR ''=''" "\<not> is_space CHR ''v''" "\<not> is_space CHR ''1''"
    by (simp_all add: is_space_def)
  have "list_all (\<lambda>c. \<not> is_space c) d" using d(1) by (auto simp: list_all_iff not_space_digit)
  then have "strip (''t='' @ d) = ''t'' @ CHR ''='' # d" "strip (''v1='' @ signature) = ''v1'' @ CHR ''='' # signature"
    using sig' plain by (simp_all add: strip_none)
  then have "partition_eq (strip (''t='' @ d)) = (''t'', ''='', d)"
    and "partition_eq (strip (''v1='' @ signature)) = (''v1'', ''='', signature)"
    using partition_eq_at [of "''t''" d] partition_eq_at [of "''v1''" signature] by simp_all
  moreover have "signature \<noteq> []" using len by auto
  ultimately have "assertion_values [''t='' @ d, ''v1='' @ signature] Map.empty = Some [''t'' \<mapsto> d, ''v1'' \<mapsto> signature]"
    using d by simp
  moreover have "list_all isdigit_char d" using d by (auto simp: list_all_iff isdigit_char_def)
  ultimately show ?thesis
    using parts d sig' len v by (simp add: parse_edge_assertion_header_def int_of_digits_def then_check_def)
qed

end
