(* ===== verification/Rate_Properties.thy ===== *)
theory Rate_Properties
  imports Rate_Theorems
begin

section \<open>Rate limiting: the properties\<close>

text \<open>
  The guarantees of \<^verbatim>\<open>core/rate_limit/\<close> over the model's own definitions, for every Redis server
  and client with the documented behaviour (\<open>redis_session\<close>) where Redis matters, with instances
  on the model of Redis's keys.
\<close>

subsection \<open>A deployment\<close>

definition sample_externals :: externals where
  "sample_externals = \<lparr>sha256_hex = (\<lambda>s. s), hmac_sha256_hex = (\<lambda>k m. replicate 64 (CHR ''a'')),
     fernet_key_ok = (\<lambda>k. True), fernet_encrypt = (\<lambda>k s. s), fernet_decrypt = (\<lambda>k s. Some s)\<rparr>"

definition sample_settings :: rate_limiting_settings where
  "sample_settings = \<lparr>rls_enabled = True, rls_enforced_by_edge = True, rls_redis_prefix = ''rate-limit'',
     rls_trust_proxy_headers = True, rls_trusted_proxy_cidrs = [''10.0.0.0/8''], rls_pre_auth_enabled = False,
     rls_edge_header_name = Some ''X-Edge-Assertion'', rls_edge_secret = Some ''edge secret'',
     rls_identifier_secret = Some ''identifier secret'', rls_mode = MODE_PANIC,
     rls_policies = [(''invite_create_target_email'', \<lparr>ovr_limit = Some 2, ovr_window = Some 3600, ovr_fail_open = None\<rparr>)],
     rls_environment = ''prod''\<rparr>"

definition sample_registry :: "(string \<times> rate_limit_policy) list" where
  "sample_registry = (case build_effective_policy_registry sample_settings of Inl _ \<Rightarrow> [] | Inr r \<Rightarrow> r)"

definition sample_state :: "redis_db limit_state" where
  "sample_state = \<lparr>lst_settings = sample_settings, lst_registry = Some sample_registry,
     lst_runtime = Some \<lparr>rtm_limiter = None, rtm_grouped_redis_client = Some redis_db_client\<rparr>\<rparr>"

definition empty_redis :: redis_db where
  "empty_redis = \<lparr>rdb_now = 0, rdb_keys = \<lambda>_. None\<rparr>"

definition edge_request :: http_request where
  "edge_request = \<lparr>rq_client_host = Some ''10.1.2.3'',
     rq_headers = [(''x-edge-assertion'', edge_header 100 (replicate 64 (CHR ''a'')))],
     rq_method = ''GET'', rq_path = ''/api/v1/users/me'', rq_raw_path = Some ''/api/v1/users/me'', rq_query = []\<rparr>"

text \<open>The same request with a superscript two for its time.\<close>

definition superscript_request :: http_request where
  "superscript_request = edge_request\<lparr>rq_headers :=
     [(''x-edge-assertion'', ''t='' @ [char_of (178 :: nat)] @ '',v1='' @ replicate 64 (CHR ''a''))]\<rparr>"

lemma sample_registry_built: "build_effective_policy_registry sample_settings = Inr sample_registry"
  by code_simp

lemma sample_overrides_valid: "\<forall>v \<in> snd ` set (rls_policies sample_settings). override_valid v"
  by code_simp

lemma sample_names_known: "unknown_override_names sample_settings = []"
  by code_simp

subsection \<open>Counters\<close>

text \<open>C15: Before an invite is written, its four limits (organisation per hour and per day, target
  address, target domain) are consumed as a whole: the check passes exactly when every one of the
  four distinct counters is below its limit, and then each grows by one, every other key keeps its
  value, and each of the four expires; otherwise the request is refused with a positive
  \<open>Retry-After\<close> and no counter changes.\<close>

theorem invite_create_quota:
  assumes "redis_session R client" and "lst_registry L = Some reg"
    and "build_effective_policy_registry (lst_settings L) = Inr reg"
    and "\<forall>v \<in> snd ` set (rls_policies (lst_settings L)). override_valid v"
    and "rls_enabled (lst_settings L)" and "rls_identifier_secret (lst_settings L) = Some secret"
    and "lst_runtime L = Some rt" and "rtm_grouped_redis_client rt = Some client"
    and "domain_from_email (normalised_email email) = Inr domain"
    and "check_authorized_invite_create_business_rate_limits X L oid email s = (out, s')"
  shows "\<exists>ps. prepare_all X L (invite_create_checks oid (normalised_email email) domain) = Inr ps \<and> length ps = 4
    \<and> distinct (map gbs_key (map bucket_spec_of ps))
    \<and> (if \<forall>b \<in> set (map bucket_spec_of ps). counter R (gbs_key b) s < gbs_limit b
       then out = LimitPassed
         \<and> (\<forall>k. counter R k s' = counter R k s + (if k \<in> gbs_key ` set (map bucket_spec_of ps) then 1 else 0))
         \<and> (\<forall>b \<in> set (map bucket_spec_of ps). 0 \<le> srv_pttl R (gbs_key b) s')
       else (\<exists>n \<ge> 1. out = LimitBlocked n) \<and> (\<forall>k. counter R k s' = counter R k s))"
proof -
  have known: "unknown_override_names (lst_settings L) = []"
    using assms(3) by (auto simp: build_effective_policy_registry_def split: if_splits)
  have effective: "\<forall>spec \<in> set registered_policy_specs. \<exists>p. map_of reg (psp_name spec) = Some p \<and> policy_in_effect (lst_settings L) spec p"
    using effective_registry_ok [OF assms(4) known] assms(3) by simp
  obtain ps where ps: "prepare_all X L (invite_create_checks oid (normalised_email email) domain) = Inr ps" "length ps = 4"
    "windows_positive (map bucket_spec_of ps)" "distinct (map gbs_key (map bucket_spec_of ps))"
    using invite_create_prepared [OF effective refl assms(2) assms(6)] by blast
  have "invite_create_checks oid (normalised_email email) domain \<noteq> []" by (simp add: invite_create_checks_def)
  then have "check_grouped_in_redis client ps s = (out, s')"
    using assms(5,7-10) ps(1)
    by (simp add: check_authorized_invite_create_business_rate_limits_def check_rate_limits_for_buckets_def
        when_valid_def grouped_redis_client_from_runtime_def)
  from redis_session.grouped_check [OF assms(1) ps(3,4) this] ps(1,2,4) show ?thesis by blast
qed

theorem invite_create_quota_witness:
  "\<exists>s'. check_authorized_invite_create_business_rate_limits sample_externals sample_state 7 '' A@b.example '' empty_redis = (LimitPassed, s')
     \<and> (\<exists>ps. prepare_all sample_externals sample_state (invite_create_checks 7 (normalised_email '' A@b.example '') ''b.example'') = Inr ps
         \<and> (\<forall>b \<in> set (map bucket_spec_of ps). 0 \<le> srv_pttl redis_db_server (gbs_key b) s'))"
proof -
  have "fst (check_authorized_invite_create_business_rate_limits sample_externals sample_state 7 '' A@b.example '' empty_redis) = LimitPassed"
    by code_simp
  then obtain s' where run:
    "check_authorized_invite_create_business_rate_limits sample_externals sample_state 7 '' A@b.example '' empty_redis = (LimitPassed, s')"
    by (metis prod.collapse)
  have dom: "domain_from_email (normalised_email '' A@b.example '') = Inr ''b.example''"
    by code_simp
  have st: "lst_settings sample_state = sample_settings" "lst_registry sample_state = Some sample_registry"
    "lst_runtime sample_state = Some \<lparr>rtm_limiter = None, rtm_grouped_redis_client = Some redis_db_client\<rparr>"
    by (simp_all add: sample_state_def)
  have set: "rls_enabled (lst_settings sample_state)" "rls_identifier_secret (lst_settings sample_state) = Some ''identifier secret''"
    by (simp_all add: st sample_settings_def)
  have client: "rtm_grouped_redis_client \<lparr>rtm_limiter = None, rtm_grouped_redis_client = Some redis_db_client\<rparr> = Some redis_db_client"
    by simp
  obtain ps where ps: "prepare_all sample_externals sample_state (invite_create_checks 7 (normalised_email '' A@b.example '') ''b.example'') = Inr ps"
    and outcome: "if \<forall>b \<in> set (map bucket_spec_of ps). counter redis_db_server (gbs_key b) empty_redis < gbs_limit b
      then LimitPassed = LimitPassed
         \<and> (\<forall>k. counter redis_db_server k s' = counter redis_db_server k empty_redis + (if k \<in> gbs_key ` set (map bucket_spec_of ps) then 1 else 0))
         \<and> (\<forall>b \<in> set (map bucket_spec_of ps). 0 \<le> srv_pttl redis_db_server (gbs_key b) s')
      else (\<exists>n \<ge> 1. LimitPassed = LimitBlocked n) \<and> (\<forall>k. counter redis_db_server k s' = counter redis_db_server k empty_redis)"
    using invite_create_quota [OF redis_db.redis_session_axioms st(2) sample_registry_built [folded st(1)]
        sample_overrides_valid [folded st(1)] set st(3) client dom run] by (elim exE conjE)
  then have "\<forall>b \<in> set (map bucket_spec_of ps). 0 \<le> srv_pttl redis_db_server (gbs_key b) s'"
    by (simp split: if_splits)
  with run ps show ?thesis by (intro exI conjI)
qed

text \<open>C27: The commands that replace the script when a Redis cluster refuses it decide as the script
  does: for every group of buckets with positive windows and every state the result is the same
  (allowed, or the same bucket with the same \<open>Retry-After\<close>), and the counters and expiries they
  leave are the same unless a counter is in its last millisecond.\<close>

theorem fallback_decides_as_script:
  assumes "redis_session R client" and "\<forall>b \<in> set bs. 0 < gbs_expiry_seconds b"
  shows "fst (compatibility_consume_grouped_buckets client bs s) = fst (atomic_consume_grouped_buckets client bs s)
    \<and> ((\<forall>b \<in> set bs. srv_pttl R (gbs_key b) s \<noteq> 0) \<longrightarrow>
        compatibility_consume_grouped_buckets client bs s = atomic_consume_grouped_buckets client bs s)"
proof -
  from assms(2) have "windows_positive bs" by (simp add: windows_positive_def)
  from redis_session.fallback_like_script [OF assms(1) this, of s] show ?thesis by (simp add: prod_eq_iff)
qed

theorem fallback_decides_as_script_witness:
  "compatibility_consume_grouped_buckets redis_db_client
      [\<lparr>gbs_key = ''a'', gbs_limit = 1, gbs_expiry_seconds = 60\<rparr>, \<lparr>gbs_key = ''b'', gbs_limit = 0, gbs_expiry_seconds = 60\<rparr>] empty_redis =
   atomic_consume_grouped_buckets redis_db_client
      [\<lparr>gbs_key = ''a'', gbs_limit = 1, gbs_expiry_seconds = 60\<rparr>, \<lparr>gbs_key = ''b'', gbs_limit = 0, gbs_expiry_seconds = 60\<rparr>] empty_redis"
  using fallback_decides_as_script [OF redis_db.redis_session_axioms,
      of "[\<lparr>gbs_key = ''a'', gbs_limit = 1, gbs_expiry_seconds = 60\<rparr>, \<lparr>gbs_key = ''b'', gbs_limit = 0, gbs_expiry_seconds = 60\<rparr>]" empty_redis]
  by (simp add: redis_db_server_def live_entry_def empty_redis_def)

text \<open>C16: What fails closed is not passed: when one of the policies of a grouped check fails closed,
  the check passes only if Redis allowed the group, in the script or, after a cluster refused the
  script, in the commands that replace it. No error of the client, of whatever kind, lets the
  request through.\<close>

theorem grouped_fails_closed:
  assumes "rls_enabled (lst_settings L)" and "checks \<noteq> []" and "prepare_all X L checks = Inr ps"
    and "grouped_redis_client_from_runtime L = Some client"
    and "p \<in> set ps" and "\<not> rlp_fail_open (prc_policy p)"
    and "check_rate_limits_for_buckets X L checks s = (LimitPassed, s')"
  shows "\<exists>r. gcr_allowed r \<and> (atomic_consume_grouped_buckets client (map bucket_spec_of ps) s = (Inr r, s')
    \<or> (\<exists>exc t. atomic_consume_grouped_buckets client (map bucket_spec_of ps) s = (Inl exc, t)
         \<and> is_redis_cluster_fallback_error exc
         \<and> compatibility_consume_grouped_buckets client (map bucket_spec_of ps) t = (Inr r, s')))"
proof -
  have "\<not> rlp_fail_open (prc_policy (strictest_prepared_check ps))"
    using assms(5,6) by (auto simp: strictest_prepared_check_def split: option.split dest: find_SomeD find_NoneD)
  then have closed: "handle_rate_limit_backend_error (prc_policy (strictest_prepared_check ps)) \<noteq> LimitPassed"
    by (simp add: handle_rate_limit_backend_error_def)
  have "check_grouped_in_redis client ps s = (LimitPassed, s')"
    using assms(1-4,7) by (simp add: check_rate_limits_for_buckets_def when_valid_def)
  with closed show ?thesis
    by (auto simp: check_grouped_in_redis_def Let_def handle_grouped_redis_result_def
        split: prod.splits sum.splits if_splits)
qed

theorem grouped_fails_closed_witness:
  "\<exists>(r :: consume_result) s'. check_rate_limits_for_buckets sample_externals sample_state (invite_resend_checks 7 8) empty_redis = (LimitPassed, s')
     \<and> gcr_allowed r"
proof -
  define ps where "ps = (case prepare_all sample_externals sample_state (invite_resend_checks 7 8) of Inl _ \<Rightarrow> [] | Inr ps \<Rightarrow> ps)"
  have ps: "prepare_all sample_externals sample_state (invite_resend_checks 7 8) = Inr ps" and p: "hd ps \<in> set ps"
    and closed: "\<not> rlp_fail_open (prc_policy (hd ps))"
    unfolding ps_def by code_simp+
  have out: "fst (check_rate_limits_for_buckets sample_externals sample_state (invite_resend_checks 7 8) empty_redis) = LimitPassed"
    by code_simp
  then obtain s' where run:
    "check_rate_limits_for_buckets sample_externals sample_state (invite_resend_checks 7 8) empty_redis = (LimitPassed, s')"
    by (metis prod.collapse)
  have "rls_enabled (lst_settings sample_state)" "invite_resend_checks 7 8 \<noteq> []"
    "grouped_redis_client_from_runtime sample_state = Some redis_db_client"
    by (simp_all add: sample_state_def sample_settings_def invite_resend_checks_def grouped_redis_client_from_runtime_def)
  note cfg = this
  obtain r :: consume_result where "gcr_allowed r"
    using grouped_fails_closed [OF cfg(1,2) ps cfg(3) p closed run] by blast
  with run show ?thesis by (intro exI conjI)
qed

text \<open>C28: The settings that pass their checks give a policy in effect for every registered name: it
  allows at least one request, in a window the limiter supports; in panic mode every sensitive or
  critical policy fails closed whatever an override says, and in staging and production the limit
  before authentication does.\<close>

theorem policies_well_formed:
  assumes "\<forall>v \<in> snd ` set (rls_policies cfg). override_valid v" and "unknown_override_names cfg = []"
  shows "\<exists>reg. build_effective_policy_registry cfg = Inr reg \<and> map fst reg = policy_names \<and> distinct policy_names
    \<and> (\<forall>spec \<in> set registered_policy_specs. \<exists>p. get_effective_rate_limit_policy (Some reg) (psp_name spec) = Inr p
         \<and> rlp_name p = psp_name spec
         \<and> 1 \<le> rit_amount (rlp_item p) \<and> rit_expiry (rlp_item p) \<in> {60, 300, 3600, 86400}
         \<and> (rls_mode cfg = MODE_PANIC \<and> psp_sensitivity spec \<noteq> SENS_NORMAL \<longrightarrow> \<not> rlp_fail_open p)
         \<and> (rls_environment cfg \<in> {''staging'', ''prod''} \<and> psp_name spec = ''pre_auth'' \<longrightarrow> \<not> rlp_fail_open p))"
proof -
  obtain reg where reg: "build_effective_policy_registry cfg = Inr reg" "map fst reg = policy_names"
    "\<forall>spec \<in> set registered_policy_specs. \<exists>p. map_of reg (psp_name spec) = Some p \<and> policy_in_effect cfg spec p"
    using effective_registry_ok [OF assms] by blast
  then show ?thesis
    using registered_names_distinct
    by (fastforce simp: get_effective_rate_limit_policy_def policy_in_effect_def supported_windows_def)
qed

theorem policies_well_formed_witness:
  "\<exists>reg. build_effective_policy_registry sample_settings = Inr reg \<and> map fst reg = policy_names"
  using policies_well_formed [OF sample_overrides_valid sample_names_known] by blast

subsection \<open>The edge\<close>

text \<open>C17: Where the edge is enforced, a request to the API (health probes and \<open>OPTIONS\<close> apart) is let
  through only if it comes from a trusted proxy and carries an assertion made within the last five
  minutes, and at most one minute ahead, whose signature under the edge's secret covers the time, the
  method and the target of this very request.\<close>

theorem edge_assertion_required:
  assumes "rls_enforced_by_edge (lst_settings L)" and "should_apply_edge_assertion rq api_prefix"
    and "ingress X L api_prefix time rq s = (Forwarded, s')"
  shows "is_request_from_trusted_proxy rq (rls_trusted_proxy_cidrs (lst_settings L))
    \<and> (\<exists>name secret v a. rls_edge_header_name (lst_settings L) = Some name \<and> rls_edge_secret (lst_settings L) = Some secret
         \<and> get_header rq (lower name) = Some v \<and> parse_edge_assertion_header v = Inr (Some a)
         \<and> time div 1000000 - 300 \<le> eas_timestamp a \<and> eas_timestamp a \<le> time div 1000000 + 60
         \<and> eas_signature a = hmac_sha256_hex X secret
             (dec_str (eas_timestamp a) @ ''.'' @ upper_ascii (rq_method rq) @ ''.'' @ canonical_request_target rq))"
  using assms
  by (auto simp: ingress_def has_valid_edge_assertion_def then_check_def build_edge_assertion_signature_def
      is_edge_assertion_timestamp_fresh_def edge_assertion_max_age_seconds_def edge_assertion_max_future_skew_seconds_def Let_def
      split: sum.splits if_splits option.splits)

theorem edge_assertion_required_witness:
  "fst (ingress sample_externals sample_state ''/api/v1'' 150000000 edge_request empty_redis) = Forwarded
   \<and> is_request_from_trusted_proxy edge_request [''10.0.0.0/8'']"
proof -
  have fwd: "fst (ingress sample_externals sample_state ''/api/v1'' 150000000 edge_request empty_redis) = Forwarded" by code_simp
  have "rls_enforced_by_edge (lst_settings sample_state)" "rls_trusted_proxy_cidrs (lst_settings sample_state) = [''10.0.0.0/8'']"
    by (simp_all add: sample_state_def sample_settings_def)
  moreover have "should_apply_edge_assertion edge_request ''/api/v1''" by code_simp
  ultimately show ?thesis
    using edge_assertion_required [of sample_state edge_request "''/api/v1''" sample_externals 150000000 empty_redis] fwd
    by (metis prod.collapse)
qed

text \<open>C29: An assertion the edge writes is read back and accepted: a header with the time and the
  HMAC-SHA256 of the request (64 lower case hexadecimal digits), sent through a trusted proxy while it
  is fresh, makes the assertion of the request valid.\<close>

theorem edge_assertion_round_trip:
  assumes "is_request_from_trusted_proxy rq (rls_trusted_proxy_cidrs cfg)"
    and "rls_edge_header_name cfg = Some name" and "rls_edge_secret cfg = Some secret"
    and "0 \<le> t" and "time div 1000000 - 300 \<le> t" and "t \<le> time div 1000000 + 60"
    and "\<And>k m. length (hmac_sha256_hex X k m) = 64 \<and> list_all is_lower_hex (hmac_sha256_hex X k m)"
    and "get_header rq (lower name) = Some (edge_header t
           (build_edge_assertion_signature X t (rq_method rq) (canonical_request_target rq) secret))"
  shows "has_valid_edge_assertion X cfg time rq = Inr True"
  using assms parse_edge_header [of t "build_edge_assertion_signature X t (rq_method rq) (canonical_request_target rq) secret"]
  by (simp add: has_valid_edge_assertion_def then_check_def is_edge_assertion_timestamp_fresh_def Let_def
      edge_assertion_max_age_seconds_def edge_assertion_max_future_skew_seconds_def build_edge_assertion_signature_def)

theorem edge_assertion_round_trip_witness:
  "has_valid_edge_assertion sample_externals sample_settings 150000000 edge_request = Inr True"
proof (rule edge_assertion_round_trip [where t = 100 and name = "''X-Edge-Assertion''" and secret = "''edge secret''"])
  show "is_request_from_trusted_proxy edge_request (rls_trusted_proxy_cidrs sample_settings)" by code_simp
  show "length (hmac_sha256_hex sample_externals k m) = 64 \<and> list_all is_lower_hex (hmac_sha256_hex sample_externals k m)" for k m
    by (simp add: sample_externals_def is_lower_hex_def list_all_iff)
  have "lower ''X-Edge-Assertion'' = ''x-edge-assertion''" by code_simp
  then show "get_header edge_request (lower ''X-Edge-Assertion'') = Some (edge_header 100
      (build_edge_assertion_signature sample_externals 100 (rq_method edge_request) (canonical_request_target edge_request) ''edge secret''))"
    by (simp add: edge_request_def get_header_def build_edge_assertion_signature_def sample_externals_def)
qed (simp_all add: sample_settings_def)

text \<open>A superscript digit passes \<open>str.isdigit\<close> and not \<open>int\<close>: the exception leaves the middleware.\<close>

theorem superscript_time_raises:
  "fst (ingress sample_externals sample_state ''/api/v1'' 150000000 superscript_request empty_redis) =
     IngressRaised (ValueError ''invalid literal for int() with base 10'')"
  by code_simp

end
