(* ===== verification/Privacy_Inventory.thy ===== *)
theory Privacy_Inventory
  imports Prelude
begin

section \<open>The inventory of personal data\<close>

text \<open>
  \<^verbatim>\<open>privacy/data_inventory.py\<close> and \<^verbatim>\<open>privacy/provider_keys.py\<close>: which tables hold personal data,
  how each column is classified, whether it is exported and what an erasure does to it, which
  providers handle the table, and the registry of \<^verbatim>\<open>privacy/providers/registry.py\<close>. The notes, the
  prose that says how a row is found and the Python paths of the models are left out.
\<close>

datatype data_category =
    DATA_ACCOUNT_PROFILE | DATA_CONTACT | DATA_MEMBERSHIP | DATA_ORGANISATION | DATA_INVITE | DATA_OUTBOX
  | DATA_AUDIT | DATA_PLATFORM_STAFF | DATA_PRIVACY_GOVERNANCE | DATA_DSR_WORKFLOW | DATA_EXPORT_ARTIFACT

datatype field_classification =
    CLASS_DIRECT_IDENTIFIER | CLASS_INDIRECT_IDENTIFIER | CLASS_CONTACT_POINT | CLASS_SECRET_OR_TOKEN
  | CLASS_OPERATIONAL_REASON | CLASS_NETWORK_IDENTIFIER | CLASS_USER_AGENT | CLASS_RELATIONSHIP | CLASS_LIFECYCLE
  | CLASS_STRUCTURED_METADATA

datatype field_erasure_action =
    FIELD_ANONYMISE | FIELD_DELETE | FIELD_RETAIN | FIELD_RETAIN_MINIMISED | FIELD_REMOVE_PAYLOAD_VALUE | FIELD_REVIEW_REQUIRED

datatype erasure_strategy =
    STRATEGY_ANONYMISE_SUBJECT | STRATEGY_DELETE_WHEN_ALLOWED | STRATEGY_RETAIN_AND_MINIMISE
  | STRATEGY_RETAIN_WITH_LEGAL_BASIS | STRATEGY_NOT_APPLICABLE

record field_inventory =
  fld_name :: string
  fld_classification :: field_classification
  fld_export :: bool
  fld_action :: field_erasure_action

definition fld :: "string \<Rightarrow> field_classification \<Rightarrow> bool \<Rightarrow> field_erasure_action \<Rightarrow> field_inventory" where
  "fld name c exported action = \<lparr>fld_name = name, fld_classification = c, fld_export = exported, fld_action = action\<rparr>"

record inventory_entry =
  ine_table_name :: string
  ine_data_categories :: "data_category list"
  ine_fields :: "field_inventory list"
  ine_export_provider_key :: string
  ine_erasure_provider_key :: "string option"
  ine_strategy :: erasure_strategy
  ine_retention_policy_key :: string

definition users_inventory :: inventory_entry where
  "users_inventory =
     \<lparr>ine_table_name = ''users'', ine_data_categories = [DATA_ACCOUNT_PROFILE, DATA_CONTACT],
      ine_fields =
       [fld ''id'' CLASS_INDIRECT_IDENTIFIER True FIELD_RETAIN_MINIMISED,
        fld ''external_auth_id'' CLASS_DIRECT_IDENTIFIER True FIELD_ANONYMISE,
        fld ''email'' CLASS_CONTACT_POINT True FIELD_ANONYMISE,
        fld ''first_name'' CLASS_DIRECT_IDENTIFIER True FIELD_ANONYMISE,
        fld ''last_name'' CLASS_DIRECT_IDENTIFIER True FIELD_ANONYMISE,
        fld ''suspended_reason'' CLASS_OPERATIONAL_REASON True FIELD_REVIEW_REQUIRED],
      ine_export_provider_key = ''users.profile'',
      ine_erasure_provider_key = Some ''users.anonymise_profile'',
      ine_strategy = STRATEGY_ANONYMISE_SUBJECT, ine_retention_policy_key = ''account_profile''\<rparr>"

definition memberships_inventory :: inventory_entry where
  "memberships_inventory =
     \<lparr>ine_table_name = ''memberships'', ine_data_categories = [DATA_MEMBERSHIP],
      ine_fields =
       [fld ''user_id'' CLASS_INDIRECT_IDENTIFIER True FIELD_RETAIN_MINIMISED,
        fld ''organisation_id'' CLASS_RELATIONSHIP True FIELD_RETAIN_MINIMISED,
        fld ''role'' CLASS_RELATIONSHIP True FIELD_RETAIN_MINIMISED],
      ine_export_provider_key = ''memberships.by_subject'',
      ine_erasure_provider_key = Some ''memberships.minimise_subject_link'',
      ine_strategy = STRATEGY_RETAIN_AND_MINIMISE, ine_retention_policy_key = ''membership_history''\<rparr>"

definition organisations_inventory :: inventory_entry where
  "organisations_inventory =
     \<lparr>ine_table_name = ''organisations'', ine_data_categories = [DATA_ORGANISATION],
      ine_fields =
       [fld ''name'' CLASS_STRUCTURED_METADATA True FIELD_RETAIN, fld ''slug'' CLASS_STRUCTURED_METADATA True FIELD_RETAIN,
        fld ''suspended_reason'' CLASS_OPERATIONAL_REASON True FIELD_REVIEW_REQUIRED],
      ine_export_provider_key = ''organisations.by_subject_membership'',
      ine_erasure_provider_key = Some ''organisations.review_subject_references'',
      ine_strategy = STRATEGY_RETAIN_WITH_LEGAL_BASIS, ine_retention_policy_key = ''tenant_profile''\<rparr>"

definition invites_inventory :: inventory_entry where
  "invites_inventory =
     \<lparr>ine_table_name = ''invites'', ine_data_categories = [DATA_INVITE, DATA_CONTACT],
      ine_fields =
       [fld ''email'' CLASS_CONTACT_POINT True FIELD_ANONYMISE,
        fld ''organisation_id'' CLASS_RELATIONSHIP True FIELD_RETAIN_MINIMISED,
        fld ''role'' CLASS_RELATIONSHIP True FIELD_RETAIN_MINIMISED,
        fld ''token_hash'' CLASS_SECRET_OR_TOKEN False FIELD_DELETE,
        fld ''revoked_by_user_id'' CLASS_INDIRECT_IDENTIFIER True FIELD_RETAIN_MINIMISED],
      ine_export_provider_key = ''invites.by_subject_email_or_revoker'',
      ine_erasure_provider_key = Some ''invites.anonymise_or_purge_subject_references'',
      ine_strategy = STRATEGY_DELETE_WHEN_ALLOWED, ine_retention_policy_key = ''invite_lifecycle''\<rparr>"

definition outbox_inventory :: inventory_entry where
  "outbox_inventory =
     \<lparr>ine_table_name = ''outbox_events'', ine_data_categories = [DATA_OUTBOX, DATA_CONTACT],
      ine_fields =
       [fld ''payload_json'' CLASS_STRUCTURED_METADATA False FIELD_REMOVE_PAYLOAD_VALUE,
        fld ''aggregate_id'' CLASS_INDIRECT_IDENTIFIER True FIELD_RETAIN_MINIMISED,
        fld ''last_error'' CLASS_OPERATIONAL_REASON False FIELD_REVIEW_REQUIRED],
      ine_export_provider_key = ''outbox.subject_references'',
      ine_erasure_provider_key = Some ''outbox.purge_or_scrub_payload'',
      ine_strategy = STRATEGY_DELETE_WHEN_ALLOWED, ine_retention_policy_key = ''outbox_delivery''\<rparr>"

definition audit_inventory :: inventory_entry where
  "audit_inventory =
     \<lparr>ine_table_name = ''audit_events'', ine_data_categories = [DATA_AUDIT],
      ine_fields =
       [fld ''actor_user_id'' CLASS_INDIRECT_IDENTIFIER True FIELD_RETAIN_MINIMISED,
        fld ''target_type'' CLASS_STRUCTURED_METADATA True FIELD_RETAIN_MINIMISED,
        fld ''target_id'' CLASS_INDIRECT_IDENTIFIER True FIELD_RETAIN_MINIMISED,
        fld ''action'' CLASS_STRUCTURED_METADATA True FIELD_RETAIN, fld ''created_at'' CLASS_LIFECYCLE True FIELD_RETAIN,
        fld ''reason'' CLASS_OPERATIONAL_REASON True FIELD_REVIEW_REQUIRED,
        fld ''metadata_json'' CLASS_STRUCTURED_METADATA True FIELD_REVIEW_REQUIRED,
        fld ''ip_address'' CLASS_NETWORK_IDENTIFIER True FIELD_RETAIN_MINIMISED,
        fld ''user_agent'' CLASS_USER_AGENT True FIELD_RETAIN_MINIMISED],
      ine_export_provider_key = ''audit.subject_actor_or_target_join_events'',
      ine_erasure_provider_key = Some ''audit.minimise_subject_actor_or_target_identifiers'',
      ine_strategy = STRATEGY_RETAIN_AND_MINIMISE, ine_retention_policy_key = ''audit_events''\<rparr>"

definition staff_inventory :: inventory_entry where
  "staff_inventory =
     \<lparr>ine_table_name = ''platform_staff'', ine_data_categories = [DATA_PLATFORM_STAFF],
      ine_fields =
       [fld ''user_id'' CLASS_INDIRECT_IDENTIFIER True FIELD_RETAIN_MINIMISED,
        fld ''created_by_user_id'' CLASS_INDIRECT_IDENTIFIER True FIELD_RETAIN_MINIMISED,
        fld ''suspended_reason'' CLASS_OPERATIONAL_REASON True FIELD_REVIEW_REQUIRED],
      ine_export_provider_key = ''platform_staff.by_subject_or_creator'',
      ine_erasure_provider_key = Some ''platform_staff.minimise_subject_or_creator_links'',
      ine_strategy = STRATEGY_RETAIN_WITH_LEGAL_BASIS, ine_retention_policy_key = ''platform_staff_records''\<rparr>"

definition dsr_lifecycle_fields :: "field_inventory list" where
  "dsr_lifecycle_fields =
       [fld ''request_type'' CLASS_LIFECYCLE True FIELD_RETAIN, fld ''status'' CLASS_LIFECYCLE True FIELD_RETAIN,
        fld ''execution_status'' CLASS_LIFECYCLE True FIELD_RETAIN,
        fld ''execution_started_at'' CLASS_LIFECYCLE True FIELD_RETAIN,
        fld ''execution_completed_at'' CLASS_LIFECYCLE True FIELD_RETAIN,
        fld ''execution_failed_at'' CLASS_LIFECYCLE True FIELD_RETAIN,
        fld ''execution_failure_reason_code'' CLASS_OPERATIONAL_REASON True FIELD_RETAIN_MINIMISED,
        fld ''execution_failure_detail'' CLASS_OPERATIONAL_REASON False FIELD_REVIEW_REQUIRED,
        fld ''requester_user_id'' CLASS_INDIRECT_IDENTIFIER True FIELD_RETAIN_MINIMISED,
        fld ''subject_user_id'' CLASS_INDIRECT_IDENTIFIER True FIELD_RETAIN_MINIMISED,
        fld ''reviewer_user_id'' CLASS_INDIRECT_IDENTIFIER True FIELD_RETAIN_MINIMISED,
        fld ''requester_role'' CLASS_RELATIONSHIP True FIELD_RETAIN,
        fld ''representative_status'' CLASS_LIFECYCLE True FIELD_RETAIN,
        fld ''representative_relationship'' CLASS_RELATIONSHIP True FIELD_REVIEW_REQUIRED]"

definition dsr_inventory :: inventory_entry where
  "dsr_inventory =
     \<lparr>ine_table_name = ''data_subject_requests'', ine_data_categories = [DATA_DSR_WORKFLOW],
      ine_fields = dsr_lifecycle_fields @
       [fld ''representative_authority_note'' CLASS_OPERATIONAL_REASON True FIELD_REVIEW_REQUIRED,
        fld ''representative_verified_at'' CLASS_LIFECYCLE True FIELD_RETAIN,
        fld ''representative_verified_by_user_id'' CLASS_INDIRECT_IDENTIFIER True FIELD_RETAIN_MINIMISED,
        fld ''representative_rejection_reason_code'' CLASS_OPERATIONAL_REASON True FIELD_RETAIN_MINIMISED,
        fld ''submitted_at'' CLASS_LIFECYCLE True FIELD_RETAIN, fld ''acknowledged_at'' CLASS_LIFECYCLE True FIELD_RETAIN,
        fld ''reviewed_at'' CLASS_LIFECYCLE True FIELD_RETAIN, fld ''due_at'' CLASS_LIFECYCLE True FIELD_RETAIN,
        fld ''extended_until'' CLASS_LIFECYCLE True FIELD_RETAIN, fld ''decided_at'' CLASS_LIFECYCLE True FIELD_RETAIN,
        fld ''fulfilled_at'' CLASS_LIFECYCLE True FIELD_RETAIN, fld ''cancelled_at'' CLASS_LIFECYCLE True FIELD_RETAIN,
        fld ''decision_reason_code'' CLASS_OPERATIONAL_REASON True FIELD_RETAIN_MINIMISED,
        fld ''rejection_reason_code'' CLASS_OPERATIONAL_REASON True FIELD_RETAIN_MINIMISED,
        fld ''extension_reason_code'' CLASS_OPERATIONAL_REASON True FIELD_RETAIN_MINIMISED,
        fld ''requester_note'' CLASS_OPERATIONAL_REASON True FIELD_REVIEW_REQUIRED,
        fld ''internal_note'' CLASS_OPERATIONAL_REASON False FIELD_REVIEW_REQUIRED,
        fld ''idempotency_key_hash'' CLASS_SECRET_OR_TOKEN False FIELD_DELETE,
        fld ''idempotency_fingerprint'' CLASS_SECRET_OR_TOKEN False FIELD_DELETE,
        fld ''idempotency_key_expires_at'' CLASS_LIFECYCLE False FIELD_DELETE],
      ine_export_provider_key = ''dsr.workflow_records'',
      ine_erasure_provider_key = Some ''dsr.minimise_workflow_identifiers'',
      ine_strategy = STRATEGY_RETAIN_AND_MINIMISE, ine_retention_policy_key = ''dsr_compliance_records''\<rparr>"

definition artifacts_inventory :: inventory_entry where
  "artifacts_inventory =
     \<lparr>ine_table_name = ''export_artifacts'', ine_data_categories = [DATA_EXPORT_ARTIFACT],
      ine_fields =
       [fld ''subject_user_id'' CLASS_INDIRECT_IDENTIFIER True FIELD_RETAIN_MINIMISED,
        fld ''requester_user_id'' CLASS_INDIRECT_IDENTIFIER True FIELD_RETAIN_MINIMISED,
        fld ''requested_by_user_id'' CLASS_INDIRECT_IDENTIFIER True FIELD_RETAIN_MINIMISED,
        fld ''generated_by_user_id'' CLASS_INDIRECT_IDENTIFIER True FIELD_RETAIN_MINIMISED,
        fld ''processing_token'' CLASS_SECRET_OR_TOKEN False FIELD_DELETE,
        fld ''processing_lease_expires_at'' CLASS_LIFECYCLE False FIELD_DELETE,
        fld ''storage_key'' CLASS_INDIRECT_IDENTIFIER False FIELD_DELETE,
        fld ''checksum_sha256'' CLASS_STRUCTURED_METADATA True FIELD_RETAIN_MINIMISED,
        fld ''failure_reason_code'' CLASS_OPERATIONAL_REASON True FIELD_RETAIN_MINIMISED,
        fld ''failure_detail'' CLASS_OPERATIONAL_REASON False FIELD_REVIEW_REQUIRED],
      ine_export_provider_key = ''export_artifacts.subject_or_actor_metadata'',
      ine_erasure_provider_key = Some ''export_artifacts.delete_object_minimise_subject_or_actor_metadata'',
      ine_strategy = STRATEGY_DELETE_WHEN_ALLOWED, ine_retention_policy_key = ''export_artifacts''\<rparr>"

definition authorizations_inventory :: inventory_entry where
  "authorizations_inventory =
     \<lparr>ine_table_name = ''data_processing_authorizations'', ine_data_categories = [DATA_PRIVACY_GOVERNANCE],
      ine_fields =
       [fld ''subject_user_id'' CLASS_INDIRECT_IDENTIFIER True FIELD_RETAIN_MINIMISED,
        fld ''purpose_id'' CLASS_RELATIONSHIP True FIELD_RETAIN_MINIMISED,
        fld ''lawful_basis'' CLASS_STRUCTURED_METADATA True FIELD_RETAIN,
        fld ''special_category_condition'' CLASS_STRUCTURED_METADATA True FIELD_RETAIN,
        fld ''active'' CLASS_STRUCTURED_METADATA True FIELD_RETAIN,
        fld ''source'' CLASS_STRUCTURED_METADATA True FIELD_REVIEW_REQUIRED,
        fld ''valid_from'' CLASS_LIFECYCLE True FIELD_RETAIN, fld ''valid_until'' CLASS_LIFECYCLE True FIELD_RETAIN,
        fld ''revoked_at'' CLASS_LIFECYCLE True FIELD_RETAIN],
      ine_export_provider_key = ''privacy_governance.authorizations'',
      ine_erasure_provider_key = Some ''privacy_governance.minimise_authorizations'',
      ine_strategy = STRATEGY_RETAIN_WITH_LEGAL_BASIS, ine_retention_policy_key = ''privacy_governance''\<rparr>"

definition consents_inventory :: inventory_entry where
  "consents_inventory =
     \<lparr>ine_table_name = ''consent_records'', ine_data_categories = [DATA_PRIVACY_GOVERNANCE],
      ine_fields =
       [fld ''subject_user_id'' CLASS_INDIRECT_IDENTIFIER True FIELD_RETAIN_MINIMISED,
        fld ''purpose_id'' CLASS_RELATIONSHIP True FIELD_RETAIN_MINIMISED,
        fld ''privacy_notice_version'' CLASS_STRUCTURED_METADATA True FIELD_RETAIN,
        fld ''granted_at'' CLASS_LIFECYCLE True FIELD_RETAIN, fld ''withdrawn_at'' CLASS_LIFECYCLE True FIELD_RETAIN,
        fld ''withdrawal_reason_code'' CLASS_OPERATIONAL_REASON True FIELD_REVIEW_REQUIRED],
      ine_export_provider_key = ''privacy_governance.consent_records'',
      ine_erasure_provider_key = Some ''privacy_governance.minimise_consent_records'',
      ine_strategy = STRATEGY_RETAIN_WITH_LEGAL_BASIS, ine_retention_policy_key = ''privacy_governance''\<rparr>"

definition notices_inventory :: inventory_entry where
  "notices_inventory =
     \<lparr>ine_table_name = ''privacy_notice_acceptances'', ine_data_categories = [DATA_PRIVACY_GOVERNANCE],
      ine_fields =
       [fld ''subject_user_id'' CLASS_INDIRECT_IDENTIFIER True FIELD_RETAIN_MINIMISED,
        fld ''notice_version'' CLASS_STRUCTURED_METADATA True FIELD_RETAIN,
        fld ''accepted_at'' CLASS_LIFECYCLE True FIELD_RETAIN,
        fld ''source'' CLASS_STRUCTURED_METADATA True FIELD_REVIEW_REQUIRED],
      ine_export_provider_key = ''privacy_governance.notice_acceptances'',
      ine_erasure_provider_key = Some ''privacy_governance.minimise_notice_acceptances'',
      ine_strategy = STRATEGY_RETAIN_WITH_LEGAL_BASIS, ine_retention_policy_key = ''privacy_governance''\<rparr>"

definition privacy_data_inventory :: "inventory_entry list" where
  "privacy_data_inventory =
     [users_inventory, memberships_inventory, organisations_inventory, invites_inventory, outbox_inventory, audit_inventory,
      staff_inventory, dsr_inventory, artifacts_inventory, authorizations_inventory, consents_inventory, notices_inventory]"

definition dsr_scope_excluded_tables :: "string list" where
  "dsr_scope_excluded_tables = [''outbox_delivery_claims'', ''processing_purposes'']"

text \<open>The enumeration of the keys may hold fewer or other keys than the inventory: the code keeps them apart.\<close>

definition export_provider_tables :: "(string \<times> string) list" where
  "export_provider_tables =
     [(''users.profile'', ''users''), (''memberships.by_subject'', ''memberships''),
      (''organisations.by_subject_membership'', ''organisations''), (''invites.by_subject_email_or_revoker'', ''invites''),
      (''outbox.subject_references'', ''outbox_events''), (''audit.subject_actor_or_target_join_events'', ''audit_events''),
      (''platform_staff.by_subject_or_creator'', ''platform_staff''), (''dsr.workflow_records'', ''data_subject_requests''),
      (''export_artifacts.subject_or_actor_metadata'', ''export_artifacts''),
      (''privacy_governance.authorizations'', ''data_processing_authorizations''),
      (''privacy_governance.consent_records'', ''consent_records''),
      (''privacy_governance.notice_acceptances'', ''privacy_notice_acceptances'')]"

definition erasure_provider_tables :: "(string \<times> string) list" where
  "erasure_provider_tables =
     [(''users.anonymise_profile'', ''users''), (''memberships.minimise_subject_link'', ''memberships''),
      (''organisations.review_subject_references'', ''organisations''),
      (''invites.anonymise_or_purge_subject_references'', ''invites''), (''outbox.purge_or_scrub_payload'', ''outbox_events''),
      (''audit.minimise_subject_actor_or_target_identifiers'', ''audit_events''),
      (''platform_staff.minimise_subject_or_creator_links'', ''platform_staff''),
      (''dsr.minimise_workflow_identifiers'', ''data_subject_requests''),
      (''export_artifacts.delete_object_minimise_subject_or_actor_metadata'', ''export_artifacts''),
      (''privacy_governance.minimise_authorizations'', ''data_processing_authorizations''),
      (''privacy_governance.minimise_consent_records'', ''consent_records''),
      (''privacy_governance.minimise_notice_acceptances'', ''privacy_notice_acceptances'')]"

definition erasure_orchestration_provider_order :: "string list" where
  "erasure_orchestration_provider_order =
     [''audit.minimise_subject_actor_or_target_identifiers'', ''outbox.purge_or_scrub_payload'',
      ''invites.anonymise_or_purge_subject_references'', ''memberships.minimise_subject_link'',
      ''organisations.review_subject_references'', ''platform_staff.minimise_subject_or_creator_links'',
      ''export_artifacts.delete_object_minimise_subject_or_actor_metadata'', ''privacy_governance.minimise_authorizations'',
      ''privacy_governance.minimise_consent_records'', ''privacy_governance.minimise_notice_acceptances'',
      ''users.anonymise_profile'', ''dsr.minimise_workflow_identifiers'']"

subsection \<open>The registry\<close>

record registry_entry =
  reg_provider_key :: string
  reg_table_name :: string
  reg_purpose :: string
  reg_strategy :: erasure_strategy
  reg_retention_policy_key :: string

definition add_provider_entry ::
  "string \<Rightarrow> string \<Rightarrow> inventory_entry \<Rightarrow> (string \<times> registry_entry) list \<Rightarrow> app_error + (string \<times> registry_entry) list" where
  "add_provider_entry key purpose e registry = (case map_of registry key of
     Some existing \<Rightarrow> Inl (ValueError (''Duplicate privacy provider key '' @ [CHR 0x27] @ key @ [CHR 0x27] @ '': '' @
       reg_table_name existing @ ''/'' @ reg_purpose existing @ '' and '' @ ine_table_name e @ ''/'' @ purpose))
   | None \<Rightarrow> Inr (registry @ [(key, \<lparr>reg_provider_key = key, reg_table_name = ine_table_name e, reg_purpose = purpose,
       reg_strategy = ine_strategy e, reg_retention_policy_key = ine_retention_policy_key e\<rparr>)]))"

fun add_inventory_entries ::
  "inventory_entry list \<Rightarrow> (string \<times> registry_entry) list \<Rightarrow> app_error + (string \<times> registry_entry) list" where
  "add_inventory_entries [] registry = Inr registry"
| "add_inventory_entries (e # es) registry =
     (case add_provider_entry (ine_export_provider_key e) ''export'' e registry of
        Inl x \<Rightarrow> Inl x
      | Inr with_export \<Rightarrow>
          (case (case ine_erasure_provider_key e of None \<Rightarrow> Inr with_export | Some k \<Rightarrow> add_provider_entry k ''erasure'' e with_export) of
             Inl x \<Rightarrow> Inl x
           | Inr with_both \<Rightarrow> add_inventory_entries es with_both))"

definition build_privacy_provider_registry :: "app_error + (string \<times> registry_entry) list" where
  "build_privacy_provider_registry = add_inventory_entries privacy_data_inventory []"

end
