(* ===== verification/Erasure_Preview.thy ===== *)
theory Erasure_Preview
  imports Privacy_Inventory Erasure_Providers
begin

section \<open>What an erasure will do\<close>

text \<open>
  \<^verbatim>\<open>privacy/erasures/plan.py\<close>, \<^verbatim>\<open>preview.py\<close>, \<^verbatim>\<open>coverage.py\<close> and \<^verbatim>\<open>impact.py\<close>: the plan of the erasure
  providers drawn from the inventory, what it lets a reviewer expect of each provider, the coverage
  decisions, and the rows of the database each provider concerns. \<open>ErasureImpactPreviewError\<close> is a
  \<open>ValueError\<close>. The rationales are left out.
\<close>

subsection \<open>The plan\<close>

datatype erasure_execution_mode =
    EXEC_ANONYMISE | EXEC_DELETE_WHEN_ALLOWED | EXEC_RETAIN_AND_MINIMISE | EXEC_RETAIN_WITH_LEGAL_BASIS | EXEC_NOT_APPLICABLE

record plan_entry =
  pln_provider_key :: string
  pln_table_name :: string
  pln_strategy :: erasure_strategy
  pln_mode :: erasure_execution_mode
  pln_retention_policy_key :: string
  pln_manual_review :: bool

fun execution_mode_for_strategy :: "erasure_strategy \<Rightarrow> erasure_execution_mode" where
  "execution_mode_for_strategy STRATEGY_ANONYMISE_SUBJECT = EXEC_ANONYMISE"
| "execution_mode_for_strategy STRATEGY_DELETE_WHEN_ALLOWED = EXEC_DELETE_WHEN_ALLOWED"
| "execution_mode_for_strategy STRATEGY_RETAIN_AND_MINIMISE = EXEC_RETAIN_AND_MINIMISE"
| "execution_mode_for_strategy STRATEGY_RETAIN_WITH_LEGAL_BASIS = EXEC_RETAIN_WITH_LEGAL_BASIS"
| "execution_mode_for_strategy STRATEGY_NOT_APPLICABLE = EXEC_NOT_APPLICABLE"

definition requires_manual_review :: "inventory_entry \<Rightarrow> bool" where
  "requires_manual_review e =
     (if list_ex (\<lambda>f. fld_action f = FIELD_REVIEW_REQUIRED) (ine_fields e) then True
      else List.member [STRATEGY_RETAIN_WITH_LEGAL_BASIS, STRATEGY_NOT_APPLICABLE] (ine_strategy e))"

fun plan_entries :: "inventory_entry list \<Rightarrow> string list \<Rightarrow> app_error + plan_entry list" where
  "plan_entries [] seen = Inr []"
| "plan_entries (e # es) seen = (case ine_erasure_provider_key e of
     None \<Rightarrow> plan_entries es seen
   | Some k \<Rightarrow>
       if List.member seen k then Inl (ValueError (''Duplicate erasure provider key: '' @ k))
       else (case plan_entries es (k # seen) of
           Inl x \<Rightarrow> Inl x
         | Inr ps \<Rightarrow> Inr (\<lparr>pln_provider_key = k, pln_table_name = ine_table_name e, pln_strategy = ine_strategy e,
             pln_mode = execution_mode_for_strategy (ine_strategy e), pln_retention_policy_key = ine_retention_policy_key e,
             pln_manual_review = requires_manual_review e\<rparr> # ps)))"

definition build_erasure_provider_plan :: "app_error + plan_entry list" where
  "build_erasure_provider_plan = plan_entries privacy_data_inventory []"

subsection \<open>The preview\<close>

datatype preview_readiness = READY_AUTOMATIC | READY_MANUAL_REVIEW | READY_RETAIN_ONLY | READY_NOT_APPLICABLE

record preview_entry =
  pve_provider_key :: string
  pve_table_name :: string
  pve_mode :: erasure_execution_mode
  pve_retention_policy_key :: string
  pve_readiness :: preview_readiness
  pve_manual_review :: bool

definition is_mutating :: "preview_entry \<Rightarrow> bool" where
  "is_mutating e \<longleftrightarrow> List.member [EXEC_ANONYMISE, EXEC_DELETE_WHEN_ALLOWED, EXEC_RETAIN_AND_MINIMISE] (pve_mode e)"

definition can_run_automatically :: "preview_entry \<Rightarrow> bool" where
  "can_run_automatically e \<longleftrightarrow> pve_readiness e = READY_AUTOMATIC"

definition readiness_for_plan_entry :: "plan_entry \<Rightarrow> preview_readiness" where
  "readiness_for_plan_entry p =
     (if pln_mode p = EXEC_NOT_APPLICABLE then READY_NOT_APPLICABLE
      else if pln_mode p = EXEC_RETAIN_WITH_LEGAL_BASIS then READY_RETAIN_ONLY
      else if pln_manual_review p then READY_MANUAL_REVIEW
      else READY_AUTOMATIC)"

definition preview_entry_of :: "plan_entry \<Rightarrow> preview_entry" where
  "preview_entry_of p =
     \<lparr>pve_provider_key = pln_provider_key p, pve_table_name = pln_table_name p, pve_mode = pln_mode p,
      pve_retention_policy_key = pln_retention_policy_key p, pve_readiness = readiness_for_plan_entry p,
      pve_manual_review = pln_manual_review p\<rparr>"

definition build_erasure_preview :: "dsr_type \<Rightarrow> app_error + preview_entry list" where
  "build_erasure_preview request_type =
     (if request_type \<noteq> DSR_ERASE then Inl (ValueError ''erasure_preview_requires_erase_request'')
      else map_sum id (map preview_entry_of) build_erasure_provider_plan)"

definition blocked_by_manual_review :: "preview_entry list \<Rightarrow> bool" where
  "blocked_by_manual_review es = list_ex pve_manual_review es"

definition provider_keys_with :: "preview_readiness \<Rightarrow> preview_entry list \<Rightarrow> string list" where
  "provider_keys_with readiness es = map pve_provider_key (filter (\<lambda>e. pve_readiness e = readiness) es)"

subsection \<open>The coverage decisions\<close>

datatype coverage_decision = COVER_EXECUTABLE | COVER_RETAIN_BY_POLICY | COVER_MANUAL_REVIEW_POLICY

definition erasure_coverage_map :: "(string \<times> coverage_decision) list" where
  "erasure_coverage_map =
     [(''users.anonymise_profile'', COVER_EXECUTABLE), (''memberships.minimise_subject_link'', COVER_RETAIN_BY_POLICY),
      (''organisations.review_subject_references'', COVER_MANUAL_REVIEW_POLICY),
      (''invites.anonymise_or_purge_subject_references'', COVER_EXECUTABLE), (''outbox.purge_or_scrub_payload'', COVER_EXECUTABLE),
      (''audit.minimise_subject_actor_or_target_identifiers'', COVER_EXECUTABLE),
      (''platform_staff.minimise_subject_or_creator_links'', COVER_EXECUTABLE),
      (''dsr.minimise_workflow_identifiers'', COVER_EXECUTABLE),
      (''export_artifacts.delete_object_minimise_subject_or_actor_metadata'', COVER_EXECUTABLE),
      (''privacy_governance.minimise_authorizations'', COVER_EXECUTABLE),
      (''privacy_governance.minimise_consent_records'', COVER_RETAIN_BY_POLICY),
      (''privacy_governance.minimise_notice_acceptances'', COVER_EXECUTABLE)]"

definition inventory_erasure_provider_keys :: "string list" where
  "inventory_erasure_provider_keys = concat (map (\<lambda>e. case ine_erasure_provider_key e of None \<Rightarrow> [] | Some k \<Rightarrow> [k]) privacy_data_inventory)"

definition executable_erasure_provider_keys :: "string list" where
  "executable_erasure_provider_keys = map fst (filter (\<lambda>(k, d). d = COVER_EXECUTABLE) erasure_coverage_map)"

subsection \<open>The rows concerned\<close>

record impact_entry =
  imp_preview :: preview_entry
  imp_scoped :: bool
  imp_estimated_rows :: "nat option"

definition count_subject_outbox_events :: "uuid list \<Rightarrow> string option \<Rightarrow> db \<Rightarrow> nat" where
  "count_subject_outbox_events invite_ids subject_email d =
     (if invite_ids = [] \<and> subject_email = None then 0
      else length (remdups (map obx_id (filter (\<lambda>e.
        (invite_ids \<noteq> [] \<and> (case obx_aggregate_id e of None \<Rightarrow> False | Some i \<Rightarrow> List.member invite_ids i)) \<or>
        (case (subject_email, payload_email (obx_payload_json e)) of (Some m, Some p) \<Rightarrow> sql_email p = m | _ \<Rightarrow> False))
        (outbox_events d)))))"

definition audit_target_condition :: "audit_target_type \<Rightarrow> uuid list \<Rightarrow> audit_event \<Rightarrow> bool" where
  "audit_target_condition target_type target_ids e \<longleftrightarrow>
     target_ids \<noteq> [] \<and> aud_target_type e = target_type \<and> (case aud_target_id e of None \<Rightarrow> False | Some i \<Rightarrow> List.member target_ids i)"

definition count_subject_audit_events :: "uuid \<Rightarrow> uuid list \<Rightarrow> db \<Rightarrow> nat" where
  "count_subject_audit_events u invite_ids d =
     (let membership_ids = map mem_id (filter (\<lambda>m. mem_user_id m = u) (memberships d));
          dsr_ids = map dsr_id (filter (dsr_refers_to u) (requests_of d));
          export_artifact_ids = map art_id (filter (artifact_refers_to u) (artifacts_of d));
          platform_staff_ids = map stf_id (filter (staff_refers_to u) (staff_rows d))
      in length (remdups (map aud_id (filter (\<lambda>e.
           aud_actor_user_id e = Some u \<or>
           (List.member [TARGET_USER, TARGET_PRIVACY_CONSENT, TARGET_PRIVACY_NOTICE] (aud_target_type e) \<and> aud_target_id e = Some u) \<or>
           audit_target_condition TARGET_INVITE invite_ids e \<or>
           audit_target_condition TARGET_MEMBERSHIP membership_ids e \<or>
           audit_target_condition TARGET_DATA_SUBJECT_REQUEST dsr_ids e \<or>
           audit_target_condition TARGET_EXPORT_ARTIFACT export_artifact_ids e \<or>
           audit_target_condition TARGET_PLATFORM_STAFF platform_staff_ids e)
         (audit_events d)))))"

definition count_subject_organisations :: "uuid \<Rightarrow> db \<Rightarrow> nat" where
  "count_subject_organisations u d =
     length (remdups (concat (map (\<lambda>x. map (\<lambda>_. org_id x)
       (filter (\<lambda>m. mem_organisation_id m = org_id x \<and> mem_user_id m = u) (memberships d))) (organisations d))))"

definition subject_invite_ids :: "uuid \<Rightarrow> string option \<Rightarrow> db \<Rightarrow> uuid list" where
  "subject_invite_ids u subject_email d = sort (map inv_id (filter (subject_invite u subject_email) (invites d)))"

definition count_scoped_rows :: "user \<Rightarrow> db \<Rightarrow> (string \<times> nat) list" where
  "count_scoped_rows s d =
     (let u = usr_id s; subject_email = normalise_optional_email (usr_email s); invite_ids = subject_invite_ids u subject_email d in
      [(''users.anonymise_profile'', 1),
       (''invites.anonymise_or_purge_subject_references'', length invite_ids),
       (''outbox.purge_or_scrub_payload'', count_subject_outbox_events invite_ids subject_email d),
       (''audit.minimise_subject_actor_or_target_identifiers'', count_subject_audit_events u invite_ids d),
       (''memberships.minimise_subject_link'', length (filter (\<lambda>m. mem_user_id m = u) (memberships d))),
       (''organisations.review_subject_references'', count_subject_organisations u d),
       (''platform_staff.minimise_subject_or_creator_links'', length (filter (staff_refers_to u) (staff_rows d))),
       (''dsr.minimise_workflow_identifiers'', length (filter (dsr_refers_to u) (requests_of d))),
       (''export_artifacts.delete_object_minimise_subject_or_actor_metadata'', length (filter (artifact_refers_to u) (artifacts_of d))),
       (''privacy_governance.minimise_authorizations'', length (filter (\<lambda>a. pau_subject a = u) (authorizations (privacy d)))),
       (''privacy_governance.minimise_consent_records'', length (filter (\<lambda>c. cns_subject c = u) (consents (privacy d)))),
       (''privacy_governance.minimise_notice_acceptances'', length (filter (\<lambda>n. pna_subject n = u) (notices (privacy d))))])"

definition impact_entry_of :: "(string \<times> nat) list \<Rightarrow> preview_entry \<Rightarrow> impact_entry" where
  "impact_entry_of row_counts e =
     (let scoped = List.member inventory_erasure_provider_keys (pve_provider_key e) in
      \<lparr>imp_preview = e, imp_scoped = scoped,
       imp_estimated_rows = (if scoped then map_of row_counts (pve_provider_key e) else None)\<rparr>)"

definition validate_preview_request :: "data_subject_request \<Rightarrow> user app" where
  "validate_preview_request r =
     bind (ensure (dsr_request_type r = DSR_ERASE) (ValueError ''erasure_preview_requires_erase_request'')) (\<lambda>_.
     bind (ensure (dsr_status r = DSR_APPROVED) (ValueError ''erasure_preview_requires_approved_request'')) (\<lambda>_.
     case dsr_subject r of
       None \<Rightarrow> raise (ValueError ''erasure_preview_requires_subject_user'')
     | Some u \<Rightarrow> bind (user_get_by_id u) (\<lambda>found. case found of
         None \<Rightarrow> raise (ValueError ''erasure_preview_subject_not_found'')
       | Some s \<Rightarrow> ret s)))"

definition build_erasure_impact_preview :: "data_subject_request \<Rightarrow> impact_entry list app" where
  "build_erasure_impact_preview r =
     bind (validate_preview_request r) (\<lambda>s.
     case build_erasure_preview DSR_ERASE of
       Inl e \<Rightarrow> raise e
     | Inr base_preview \<Rightarrow>
         bind (query (count_scoped_rows s)) (\<lambda>row_counts.
         ret (map (impact_entry_of row_counts) base_preview)))"

definition total_scoped_rows :: "impact_entry list \<Rightarrow> nat" where
  "total_scoped_rows es = sum_list (map (\<lambda>e. case imp_estimated_rows e of None \<Rightarrow> 0 | Some n \<Rightarrow> n) es)"

definition scoped_provider_keys :: "bool \<Rightarrow> impact_entry list \<Rightarrow> string list" where
  "scoped_provider_keys scoped es = map (\<lambda>e. pve_provider_key (imp_preview e)) (filter (\<lambda>e. imp_scoped e = scoped) es)"

end
