(* ===== verification/Preview_Theorems.thy ===== *)
theory Preview_Theorems
  imports Erasure_Preview Erasure_Theorems
begin

section \<open>What the inventory promises\<close>

text \<open>
  The inventory against the code that exports and erases: the columns it keeps back are in no export,
  the providers that run are those it plans, on the tables it names, and a provider changes no more
  rows than the preview announced.
\<close>

subsection \<open>The plan\<close>

lemma plan_built: "\<exists>plan. build_erasure_provider_plan = Inr plan \<and> map pln_provider_key plan = inventory_erasure_provider_keys"
proof -
  have "(case build_erasure_provider_plan of Inl _ \<Rightarrow> False | Inr plan \<Rightarrow> map pln_provider_key plan = inventory_erasure_provider_keys)"
    by code_simp
  then show ?thesis by (auto split: sum.splits)
qed

lemma preview_built: "\<exists>es. build_erasure_preview DSR_ERASE = Inr es \<and> map (\<lambda>e. (pve_provider_key e, pve_table_name e)) es =
    map (\<lambda>k. (k, the (map_of erasure_provider_tables k))) inventory_erasure_provider_keys"
proof -
  have "(case build_erasure_preview DSR_ERASE of Inl _ \<Rightarrow> False
    | Inr es \<Rightarrow> map (\<lambda>e. (pve_provider_key e, pve_table_name e)) es =
        map (\<lambda>k. (k, the (map_of erasure_provider_tables k))) inventory_erasure_provider_keys)"
    by code_simp
  then show ?thesis by (auto split: sum.splits)
qed

lemma inventory_keys_run: "\<forall>k \<in> set erasure_orchestration_provider_order. List.member inventory_erasure_provider_keys k
    \<and> map_of erasure_provider_tables k \<noteq> None"
  by code_simp

subsection \<open>The rows counted\<close>

lemma affected_le: "affected_rows as rows \<le> length rows"
  by (simp add: affected_rows_def)

lemma length_ordered_rows [simp]: "length (oldest_first c k rows) = length rows"
  by (simp add: oldest_first_def)

lemma length_remdups_keys: "distinct (map f xs) \<Longrightarrow> length (remdups (map f (filter p xs))) = length (filter p xs)"
  by (simp add: distinct_remdups_id distinct_map_filter)

lemma outbox_count:
  assumes "distinct (map obx_id (outbox_events d))"
  shows "count_subject_outbox_events ids m d = length (filter (subject_outbox_event m ids) (outbox_events d))"
proof -
  have "subject_outbox_event m ids = (\<lambda>e. (ids \<noteq> [] \<and> (case obx_aggregate_id e of None \<Rightarrow> False | Some i \<Rightarrow> List.member ids i)) \<or>
        (case (m, payload_email (obx_payload_json e)) of (Some m, Some p) \<Rightarrow> sql_email p = m | _ \<Rightarrow> False))"
    by (rule ext) (auto simp: subject_outbox_event_def split: option.splits)
  moreover have "filter (subject_outbox_event None []) (outbox_events d) = []"
    by (auto simp: filter_empty_conv subject_outbox_event_def split: option.splits)
  ultimately show ?thesis
    using assms by (auto simp: count_subject_outbox_events_def length_remdups_keys)
qed

lemma audit_condition_snapshot:
  "(aud_actor_user_id e = Some u \<or>
     (List.member [TARGET_USER, TARGET_PRIVACY_CONSENT, TARGET_PRIVACY_NOTICE] (aud_target_type e) \<and> aud_target_id e = Some u) \<or>
     audit_target_condition TARGET_INVITE (ats_invite_ids snap) e \<or>
     audit_target_condition TARGET_MEMBERSHIP (ats_membership_ids snap) e \<or>
     audit_target_condition TARGET_DATA_SUBJECT_REQUEST (ats_dsr_ids snap) e \<or>
     audit_target_condition TARGET_EXPORT_ARTIFACT (ats_artifact_ids snap) e \<or>
     audit_target_condition TARGET_PLATFORM_STAFF (ats_staff_ids snap) e) = subject_audit_event snap e"
  if "ats_subject snap = u"
  using that
  by (cases "aud_target_type e")
    (auto simp: subject_audit_event_def is_subject_target_def audit_target_condition_def split: option.splits)

lemma audit_target_condition_set: "set xs = set ys \<Longrightarrow> audit_target_condition t xs e = audit_target_condition t ys e"
  by (auto simp: audit_target_condition_def split: option.splits)

lemma audit_count:
  assumes "distinct (map aud_id (audit_events d))" and "normalise_optional_email (usr_email s) = m" and "usr_id s = u"
  shows "count_subject_audit_events u (subject_invite_ids u m d) d =
    length (filter (subject_audit_event (target_snapshot s d)) (audit_events d))"
proof -
  let ?snap = "target_snapshot s d"
  have "audit_target_condition TARGET_INVITE (subject_invite_ids u m d) e = audit_target_condition TARGET_INVITE (ats_invite_ids ?snap) e" for e
    by (rule audit_target_condition_set) (use assms(2,3) in \<open>simp add: subject_invite_ids_def target_snapshot_def Let_def\<close>)
  moreover have "ats_subject ?snap = u" "ats_membership_ids ?snap = map mem_id (filter (\<lambda>m. mem_user_id m = u) (memberships d))"
    "ats_dsr_ids ?snap = map dsr_id (filter (dsr_refers_to u) (requests_of d))"
    "ats_artifact_ids ?snap = map art_id (filter (artifact_refers_to u) (artifacts_of d))"
    "ats_staff_ids ?snap = map stf_id (filter (staff_refers_to u) (staff_rows d))"
    using assms(3) by (simp_all add: target_snapshot_def Let_def)
  ultimately show ?thesis
    using audit_condition_snapshot [of ?snap u] assms(1)
    by (simp add: count_subject_audit_events_def Let_def length_remdups_keys)
qed

subsection \<open>The results of the providers\<close>

definition reports :: "string \<Rightarrow> string \<Rightarrow> nat \<Rightarrow> provider_result \<Rightarrow> bool" where
  "reports key tab n p \<longleftrightarrow> prv_key p = key \<and> prv_table p = tab \<and> prv_affected p \<le> n"

lemma report_le: "n \<le> k \<Longrightarrow> reports key tab k (provider_report key tab did kept n names)"
  by (simp add: reports_def provider_report_def)

lemma affected_sorted: "affected_rows as (oldest_first c k (filter p rows)) \<le> length (filter p rows)"
  using affected_le [of as "oldest_first c k (filter p rows)"] by simp

lemma affected_by_time: "affected_rows as (sort_key c (filter p rows)) \<le> length (filter p rows)"
  using affected_le [of as "sort_key c (filter p rows)"] by simp

lemmas report_intros = report_le affected_sorted affected_by_time

lemma audit_reports:
  assumes "minimise_audit_events_for_erasure r now w = (Inr res, w')" and I: "integrity (db w)"
    and u: "dsr_subject r = Some u" and s: "find (\<lambda>x. usr_id x = u) (users (db w)) = Some s"
  shows "reports ''audit.minimise_subject_actor_or_target_identifiers'' ''audit_events''
    (length (filter (subject_audit_event (target_snapshot s (db w))) (audit_events (db w)))) res"
  using assms(1) u s
  by (auto simp: minimise_audit_events_for_erasure_def build_target_snapshot_def lock_subject_audit_events_def Let_def run_rules
      intro!: report_intros dest!: validate_request_and_get_subject_run [OF _ I])

lemma outbox_reports:
  assumes "scrub_outbox_for_erasure r m ids w = (Inr res, w')" and I: "integrity (db w)"
    and u: "dsr_subject r = Some u" and s: "find (\<lambda>x. usr_id x = u) (users (db w)) = Some s"
  shows "reports ''outbox.purge_or_scrub_payload'' ''outbox_events''
    (length (filter (subject_outbox_event (subject_address m s) ids) (outbox_events (db w)))) res"
  using assms(1) u s
  by (auto simp: scrub_outbox_for_erasure_def lock_subject_outbox_events_def Let_def run_rules
      intro!: report_intros dest!: validate_request_and_get_subject_run [OF _ I])

lemma invite_reports:
  assumes "anonymise_invites_for_erasure r m now w = (Inr res, w')" and I: "integrity (db w)"
    and u: "dsr_subject r = Some u" and s: "find (\<lambda>x. usr_id x = u) (users (db w)) = Some s"
  shows "reports ''invites.anonymise_or_purge_subject_references'' ''invites''
    (length (filter (subject_invite u (subject_address m s)) (invites (db w)))) res"
  using assms(1) u s
  by (auto simp: anonymise_invites_for_erasure_def lock_subject_invites_def Let_def run_rules
      intro!: report_intros dest!: validate_request_and_get_subject_run [OF _ I])

lemma retained_reports:
  "apply_membership_erasure_policy r u w = (Inr res, w') \<Longrightarrow> reports ''memberships.minimise_subject_link'' ''memberships'' 0 res"
  "apply_organisation_erasure_policy r u w = (Inr res, w') \<Longrightarrow> reports ''organisations.review_subject_references'' ''organisations'' 0 res"
  by (auto simp: apply_membership_erasure_policy_def apply_organisation_erasure_policy_def run_rules retained_def reports_def)

lemma staff_reports:
  "minimise_platform_staff_for_erasure r u w = (Inr res, w') \<Longrightarrow>
     reports ''platform_staff.minimise_subject_or_creator_links'' ''platform_staff'' (length (filter (staff_refers_to u) (staff_rows (db w)))) res"
  by (auto simp: minimise_platform_staff_for_erasure_def minimised_def validate_remaining_def validate_erasure_request_def
      Let_def run_rules intro!: report_intros)

lemma artifact_reports:
  "minimise_export_artifacts_for_erasure r u w = (Inr (res, dels), w') \<Longrightarrow>
     reports ''export_artifacts.delete_object_minimise_subject_or_actor_metadata'' ''export_artifacts''
       (length (filter (artifact_refers_to u) (artifacts_of (db w)))) res"
  by (auto simp: minimise_export_artifacts_for_erasure_def minimised_def validate_remaining_def validate_erasure_request_def
      Let_def run_rules intro!: report_intros)

lemma governance_reports:
  "minimise_privacy_governance_for_erasure r u w = (Inr res, w') \<Longrightarrow>
     \<exists>a c n. res = [a, c, n] \<and>
       reports ''privacy_governance.minimise_authorizations'' ''data_processing_authorizations''
         (length (filter (\<lambda>a. pau_subject a = u) (authorizations (privacy (db w))))) a \<and>
       reports ''privacy_governance.minimise_consent_records'' ''consent_records'' 0 c \<and>
       reports ''privacy_governance.minimise_notice_acceptances'' ''privacy_notice_acceptances''
         (length (filter (\<lambda>x. pna_subject x = u) (notices (privacy (db w))))) n"
  by (auto simp: minimise_privacy_governance_for_erasure_def minimised_def validate_remaining_def validate_erasure_request_def
      Let_def run_rules intro!: report_intros) (simp add: reports_def retained_def)

lemma user_reports:
  "anonymise_user_profile r w = (Inr res, w') \<Longrightarrow> reports ''users.anonymise_profile'' ''users'' 1 res"
  using affected_le [of anonymise_subject_profile "[s]" for s]
  by (auto simp: anonymise_user_profile_def run_rules intro!: report_le)

lemma dsr_reports:
  "minimise_dsr_workflow_for_erasure r u w = (Inr res, w') \<Longrightarrow>
     reports ''dsr.minimise_workflow_identifiers'' ''data_subject_requests'' (length (filter (dsr_refers_to u) (requests_of (db w)))) res"
  by (auto simp: minimise_dsr_workflow_for_erasure_def minimised_def validate_remaining_def validate_erasure_request_def
      Let_def run_rules intro!: report_intros)

text \<open>What each provider reports, with the rows it may change at most.\<close>

definition reported_bounds :: "uuid \<Rightarrow> user \<Rightarrow> string option \<Rightarrow> uuid list \<Rightarrow> db \<Rightarrow> (string \<times> string \<times> nat) list" where
  "reported_bounds u s m ids d =
    [(''audit.minimise_subject_actor_or_target_identifiers'', ''audit_events'',
        length (filter (subject_audit_event (target_snapshot s d)) (audit_events d))),
     (''outbox.purge_or_scrub_payload'', ''outbox_events'', length (filter (subject_outbox_event m ids) (outbox_events d))),
     (''invites.anonymise_or_purge_subject_references'', ''invites'', length (filter (subject_invite u m) (invites d))),
     (''memberships.minimise_subject_link'', ''memberships'', 0),
     (''organisations.review_subject_references'', ''organisations'', 0),
     (''platform_staff.minimise_subject_or_creator_links'', ''platform_staff'', length (filter (staff_refers_to u) (staff_rows d))),
     (''export_artifacts.delete_object_minimise_subject_or_actor_metadata'', ''export_artifacts'',
        length (filter (artifact_refers_to u) (artifacts_of d))),
     (''privacy_governance.minimise_authorizations'', ''data_processing_authorizations'',
        length (filter (\<lambda>a. pau_subject a = u) (authorizations (privacy d)))),
     (''privacy_governance.minimise_consent_records'', ''consent_records'', 0),
     (''privacy_governance.minimise_notice_acceptances'', ''privacy_notice_acceptances'',
        length (filter (\<lambda>x. pna_subject x = u) (notices (privacy d)))),
     (''users.anonymise_profile'', ''users'', 1),
     (''dsr.minimise_workflow_identifiers'', ''data_subject_requests'', length (filter (dsr_refers_to u) (requests_of d)))]"

text \<open>Every provider works on its own table, as the database held it before the first of them.\<close>

lemma core_providers_report:
  assumes run: "run_core_providers r (m, ids) u now w = (Inr (rs, dels), w')" and I: "integrity (db w)"
    and u: "dsr_subject r = Some u" and s: "find (\<lambda>x. usr_id x = u) (users (db w)) = Some s"
    and m: "m = normalise_optional_email (usr_email s)"
  shows "list_all2 (\<lambda>(key, tab, n) p. reports key tab n p) (reported_bounds u s m ids (db w)) rs"
proof -
  from run obtain r1 r2 r3 r4 r5 r6 r7 r8 r9 r10 w1 w2 w3 w4 w5 w6 w7 w8 w9 where
    1: "minimise_audit_events_for_erasure r now w = (Inr r1, w1)" and
    2: "scrub_outbox_for_erasure r m ids w1 = (Inr r2, w2)" and
    3: "anonymise_invites_for_erasure r m now w2 = (Inr r3, w3)" and
    4: "apply_membership_erasure_policy r u w3 = (Inr r4, w4)" and
    5: "apply_organisation_erasure_policy r u w4 = (Inr r5, w5)" and
    6: "minimise_platform_staff_for_erasure r u w5 = (Inr r6, w6)" and
    7: "minimise_export_artifacts_for_erasure r u w6 = (Inr (r7, dels), w7)" and
    8: "minimise_privacy_governance_for_erasure r u w7 = (Inr r8, w8)" and
    9: "anonymise_user_profile r w8 = (Inr r9, w9)" and
    10: "minimise_dsr_workflow_for_erasure r u w9 = (Inr r10, w')" and
    rs: "rs = [r1, r2, r3, r4, r5, r6, r7] @ r8 @ [r9, r10]"
    by (auto simp: run_core_providers_def run_rules)
  from 4 5 have w5: "w5 = w3"
    by (auto simp: apply_membership_erasure_policy_def apply_organisation_erasure_policy_def validate_remaining_def
        validate_erasure_request_def run_rules)
  from 1 I u s obtain as n1 where a: "w1 = w\<lparr>clock_pos := n1, db := audit_events_update (\<lambda>_. as) (db w)\<rparr>" "integrity (db w1)"
    by (rule audit_provider_run) auto
  from 2 a(2) u obtain os n2 where b: "w2 = w1\<lparr>clock_pos := n2, db := outbox_events_update (\<lambda>_. os) (db w1)\<rparr>" "integrity (db w2)"
    by (rule outbox_provider_run) (use s a(1) in auto)
  from 3 b(2) u obtain vs n3 where c: "w3 = w2\<lparr>clock_pos := n3, db := invites_update (\<lambda>_. vs) (db w2)\<rparr>" "integrity (db w3)"
    by (rule invite_provider_run) (use s a(1) b(1) in auto)
  from 6 [unfolded w5] c(2) obtain ss n4 where d: "w6 = w3\<lparr>clock_pos := n4, db := staff_rows_update (\<lambda>_. ss) (db w3)\<rparr>" "integrity (db w6)"
    by (rule staff_provider_run)
  from 7 d(2) obtain bs n5 where e: "w7 = w6\<lparr>clock_pos := n5, db := artifacts_table (\<lambda>_. bs) (db w6)\<rparr>" "integrity (db w7)"
    by (rule artifact_provider_run)
  from 8 e(2) obtain ps ns n6 where f: "w8 = w7\<lparr>clock_pos := n6, db := notices_table (\<lambda>_. ns) (authorizations_table (\<lambda>_. ps) (db w7))\<rparr>" "integrity (db w8)"
    by (rule governance_provider_run)
  from 9 f(2) u obtain xs n7 where g: "w9 = w8\<lparr>clock_pos := n7, db := users_update (\<lambda>_. xs) (db w8)\<rparr>"
    by (rule user_provider_run)
  have same: "outbox_events (db w1) = outbox_events (db w)" "invites (db w2) = invites (db w)" "staff_rows (db w3) = staff_rows (db w)"
    "artifacts_of (db w6) = artifacts_of (db w)" "authorizations (privacy (db w7)) = authorizations (privacy (db w))"
    "notices (privacy (db w7)) = notices (privacy (db w))" "requests_of (db w9) = requests_of (db w)"
    "users (db w1) = users (db w)" "users (db w2) = users (db w)"
    using a(1) b(1) c(1) d(1) e(1) f(1) g by simp_all
  from governance_reports [OF 8] obtain x y z where r8: "r8 = [x, y, z]" and
    gov: "reports ''privacy_governance.minimise_authorizations'' ''data_processing_authorizations''
         (length (filter (\<lambda>a. pau_subject a = u) (authorizations (privacy (db w))))) x"
      "reports ''privacy_governance.minimise_consent_records'' ''consent_records'' 0 y"
      "reports ''privacy_governance.minimise_notice_acceptances'' ''privacy_notice_acceptances''
         (length (filter (\<lambda>x. pna_subject x = u) (notices (privacy (db w))))) z"
    using same by auto
  from 5 w5 have 5: "apply_organisation_erasure_policy r u w4 = (Inr r5, w3)" by simp
  show ?thesis
    using audit_reports [OF 1 I u s] outbox_reports [OF 2 a(2) u, of s] invite_reports [OF 3 b(2) u, of s] retained_reports(1) [OF 4]
      retained_reports(2) [OF 5] staff_reports [OF 6 [unfolded w5]] artifact_reports [OF 7] gov user_reports [OF 9] dsr_reports [OF 10] s m
    by (simp add: reported_bounds_def rs r8 same)
qed

subsection \<open>The properties\<close>

lemma validate_preview_run:
  "validate_preview_request r w = (Inr s, w') \<Longrightarrow> integrity (db w) \<Longrightarrow>
     w' = w \<and> dsr_subject r = Some (usr_id s) \<and> find (\<lambda>x. usr_id x = usr_id s) (users (db w)) = Some s"
  by (auto simp: validate_preview_request_def run_rules user_get_by_id_eq find_Some_iff split: option.splits)

lemma impact_entries:
  assumes "build_erasure_impact_preview r w = (Inr es, w')" and "integrity (db w)"
    and "(key, tab) \<in> set erasure_provider_tables"
  shows "w' = w \<and> (\<exists>s. dsr_subject r = Some (usr_id s) \<and> find (\<lambda>x. usr_id x = usr_id s) (users (db w)) = Some s \<and>
    (\<exists>e \<in> set es. pve_provider_key (imp_preview e) = key \<and> pve_table_name (imp_preview e) = tab \<and>
       imp_estimated_rows e = map_of (count_scoped_rows s (db w)) key))"
proof -
  obtain base where base: "build_erasure_preview DSR_ERASE = Inr base"
    and keys: "map (\<lambda>e. (pve_provider_key e, pve_table_name e)) base = map (\<lambda>k. (k, the (map_of erasure_provider_tables k))) inventory_erasure_provider_keys"
    using preview_built by auto
  from assms(1) base obtain s where s: "validate_preview_request r w = (Inr s, w')" and es: "es = map (impact_entry_of (count_scoped_rows s (db w'))) base"
    by (auto simp: build_erasure_impact_preview_def run_rules)
  have inv: "List.member inventory_erasure_provider_keys key \<and> the (map_of erasure_provider_tables key) = tab"
  proof -
    have "\<forall>kt \<in> set erasure_provider_tables. List.member inventory_erasure_provider_keys (fst kt) \<and> the (map_of erasure_provider_tables (fst kt)) = snd kt"
      by code_simp
    with assms(3) show ?thesis by fastforce
  qed
  then have "(key, tab) \<in> set (map (\<lambda>e. (pve_provider_key e, pve_table_name e)) base)" by (auto simp: keys)
  then obtain e where e: "e \<in> set base" "pve_provider_key e = key" "pve_table_name e = tab" by auto
  from validate_preview_run [OF s assms(2)] e inv show ?thesis
    by (auto simp: es impact_entry_of_def Let_def intro!: bexI [of _ e])
qed

lemma count_bounds:
  assumes I: "integrity (db w)" and s: "find (\<lambda>x. usr_id x = usr_id s) (users (db w)) = Some s" and u: "dsr_subject r = Some (usr_id s)"
    and snap: "build_snapshot r w = (Inr snap, w0)" and run: "run_core_providers r snap (usr_id s) now w0 = (Inr (rs, dels), w')"
    and "p \<in> set rs"
  shows "(prv_key p, prv_table p) \<in> set erasure_provider_tables \<and>
    (\<exists>n. map_of (count_scoped_rows s (db w)) (prv_key p) = Some n \<and> prv_affected p \<le> n) \<and>
    (map_of erasure_coverage_map (prv_key p) \<noteq> Some COVER_EXECUTABLE \<longrightarrow> prv_affected p = 0)"
proof -
  let ?m = "normalise_optional_email (usr_email s)" and ?u = "usr_id s"
  have sn: "w0 = w" "snap = (?m, subject_invite_ids ?u ?m (db w))"
    using snap u s I by (auto simp: build_snapshot_def erasure_subject_user_id_def lock_subject_def run_rules user_get_by_id_eq Let_def
        subject_invite_ids_def split: option.splits)
  have ids: "distinct (map obx_id (outbox_events (db w)))" "distinct (map aud_id (audit_events (db w)))"
    using outbox_table.key_unique [OF I] audit_table.key_unique [OF I] by simp_all
  note rep = core_providers_report [OF run [unfolded sn] I u s refl]
  note cnt = outbox_count [OF ids(1), of "subject_invite_ids ?u ?m (db w)" ?m] audit_count [OF ids(2) refl refl, of s]
  have "\<forall>(key, tab, n) \<in> set (reported_bounds ?u s ?m (subject_invite_ids ?u ?m (db w)) (db w)).
      (key, tab) \<in> set erasure_provider_tables \<and> (\<exists>k. map_of (count_scoped_rows s (db w)) key = Some k \<and> n \<le> k) \<and>
      (map_of erasure_coverage_map key \<noteq> Some COVER_EXECUTABLE \<longrightarrow> n = 0)"
    unfolding reported_bounds_def count_scoped_rows_def Let_def cnt
    by (simp add: erasure_provider_tables_def erasure_coverage_map_def subject_invite_ids_def)
  moreover from rep assms(6) obtain key tab n where
    "(key, tab, n) \<in> set (reported_bounds ?u s ?m (subject_invite_ids ?u ?m (db w)) (db w))" "reports key tab n p"
    unfolding list_all2_conv_all_nth in_set_conv_nth by force
  ultimately show ?thesis unfolding reports_def by fastforce
qed

lemma dsr_ids_kept:
  assumes "\<And>x. dsr_id (g x) = dsr_id x" and "\<And>x. dsr_refers_to u (g x) = dsr_refers_to u x"
  shows "map dsr_id (filter (dsr_refers_to u) (update_where p g rows)) = map dsr_id (filter (dsr_refers_to u) rows)"
  using assms by (induction rows) auto

lemma counts_kept:
  assumes "\<And>x. dsr_id (g x) = dsr_id x" and "\<And>x. dsr_refers_to (usr_id s) (g x) = dsr_refers_to (usr_id s) x"
  shows "count_scoped_rows s (requests_table (update_where p g) d) = count_scoped_rows s d"
proof -
  let ?d = "requests_table (update_where p g) d" and ?u = "usr_id s"
  note ids = dsr_ids_kept [OF assms, of p "requests (privacy d)"]
  have "length (filter (dsr_refers_to ?u) (requests_of ?d)) = length (filter (dsr_refers_to ?u) (requests_of d))"
    using arg_cong [OF ids, of length] by simp
  moreover have "subject_invite_ids ?u m ?d = subject_invite_ids ?u m d" for m
    by (simp add: subject_invite_ids_def)
  moreover have "count_subject_outbox_events is m ?d = count_subject_outbox_events is m d" for "is" m
    unfolding count_subject_outbox_events_def by simp
  moreover have "count_subject_audit_events ?u is ?d = count_subject_audit_events ?u is d" for "is"
    unfolding count_subject_audit_events_def using ids by simp
  moreover have "count_subject_organisations ?u ?d = count_subject_organisations ?u d"
    by (simp add: count_subject_organisations_def)
  ultimately show ?thesis unfolding count_scoped_rows_def Let_def by simp
qed

lemma processing_counts:
  assumes "dsr_save r (erasure_processing now) w = (Inr p, w1)" and "integrity (db w)"
  shows "count_scoped_rows s (db w1) = count_scoped_rows s (db w)"
  using assms
proof (rule dsr_save_run)
qed (auto simp: erasure_processing_def dsr_refers_to_def intro!: counts_kept)

text \<open>C13: The impact preview announces what an erasure does. When the preview of an approved request is
  built and the erasure then completes, every provider that reports is an entry of the preview for the
  same table, and has changed at most the rows estimated there; the providers the coverage map retains
  have changed none.\<close>

theorem preview_bounds_erasure:
  assumes I: "integrity (db w)" and r: "find (\<lambda>r. dsr_id r = i) (requests_of (db w)) = Some r"
    and pre: "build_erasure_impact_preview r w = (Inr es, w0)"
    and run: "execute_core_erasure i now w0 = (Inr res, w')" and completed: "orc_status res = ERASURE_COMPLETED"
    and p: "p \<in> set (orc_results res)"
  shows "w0 = w \<and> (\<exists>e \<in> set es. \<exists>n. pve_provider_key (imp_preview e) = prv_key p \<and> pve_table_name (imp_preview e) = prv_table p
      \<and> imp_estimated_rows e = Some n \<and> prv_affected p \<le> n)
    \<and> (map_of erasure_coverage_map (prv_key p) \<noteq> Some COVER_EXECUTABLE \<longrightarrow> prv_affected p = 0)"
proof -
  have "(''users.anonymise_profile'', ''users'') \<in> set erasure_provider_tables" by (simp add: erasure_provider_tables_def)
  from impact_entries [OF pre I this] obtain s where w0: "w0 = w" and s: "dsr_subject r = Some (usr_id s)"
    "find (\<lambda>x. usr_id x = usr_id s) (users (db w)) = Some s" by auto
  from run w0 have run: "execute_core_erasure i now w = (Inr res, w')" by simp
  have "orc_status res \<noteq> ERASURE_ALREADY_COMPLETED" using completed by simp
  with run I obtain r' u q w1 y w2 where r': "find (\<lambda>r. dsr_id r = i) (requests_of (db w)) = Some r'" "dsr_subject r' = Some u"
    and q: "dsr_save r' (erasure_processing now) w = (Inr q, w1)" and y: "attempt_erasure q u now w1 = (Inr y, w2)"
    and c: "conclude_erasure q u now y w2 = (Inr res, w')"
    by (rule execute_core_erasure_run)
  have same: "r' = r" "u = usr_id s" using r r' s(1) by simp_all
  note q' = processing_saved [OF q I]
  from c completed p obtain x where x: "y = Inr x" "p \<in> set (fst x)"
    by (auto simp: conclude_erasure_def run_rules current_request_def split: sum.splits)
  from try_nested_run [OF y [unfolded x(1) attempt_erasure_def]] obtain snap w3 where
    b: "build_snapshot q w1 = (Inr snap, w3)" and rc: "run_core_providers q snap u now w3 = (Inr (fst x, snd x), w2)"
    by (auto simp: run_rules)
  have bounds: "(prv_key p, prv_table p) \<in> set erasure_provider_tables \<and>
    (\<exists>n. map_of (count_scoped_rows s (db w1)) (prv_key p) = Some n \<and> prv_affected p \<le> n) \<and>
    (map_of erasure_coverage_map (prv_key p) \<noteq> Some COVER_EXECUTABLE \<longrightarrow> prv_affected p = 0)"
    by (rule count_bounds [OF _ _ _ b rc [unfolded same(2)] x(2)]) (use q' s same in auto)
  with impact_entries [OF pre I] s have "\<exists>e \<in> set es. pve_provider_key (imp_preview e) = prv_key p \<and> pve_table_name (imp_preview e) = prv_table p
      \<and> imp_estimated_rows e = map_of (count_scoped_rows s (db w)) (prv_key p)"
    by fastforce
  with bounds w0 processing_counts [OF q I, of s] show ?thesis by auto
qed

theorem preview_bounds_erasure_witness:
  "\<exists>es res w'. build_erasure_impact_preview (demo_request 61 DSR_ERASE DSR_APPROVED 2) erasure_world = (Inr es, erasure_world)
     \<and> execute_core_erasure 61 100 erasure_world = (Inr res, w') \<and> orc_status res = ERASURE_COMPLETED
     \<and> (\<forall>p \<in> set (orc_results res). \<exists>e \<in> set es. pve_provider_key (imp_preview e) = prv_key p)"
proof -
  let ?r = "demo_request 61 DSR_ERASE DSR_APPROVED 2"
  have I: "integrity (db erasure_world)"
    by (simp add: erasure_world_def demo_start_def demo_user_def bob_def demo_request_def submitted_request_def)
  have r: "find (\<lambda>r. dsr_id r = 61) (requests_of (db erasure_world)) = Some ?r"
    by (simp add: erasure_world_def no_privacy_rows_def demo_request_def submitted_request_def)
  have subject: "dsr_request_type ?r = DSR_ERASE" "dsr_status ?r = DSR_APPROVED" "dsr_subject ?r = Some 2"
    by (simp_all add: demo_request_def submitted_request_def)
  have "user_get_by_id 2 erasure_world = (Inr (Some (demo_user 2 bob)), erasure_world)"
    by (simp add: erasure_world_def user_get_by_id_def query_def gets_def bind_def scalar_one_or_none_def ret_def demo_user_def)
  moreover obtain base where "build_erasure_preview DSR_ERASE = Inr base" using preview_built by blast
  ultimately obtain es where es: "build_erasure_impact_preview ?r erasure_world = (Inr es, erasure_world)"
    using subject by (simp add: build_erasure_impact_preview_def validate_preview_request_def bind_def ensure_def ret_def query_def gets_def)
  obtain res w' where run: "execute_core_erasure 61 100 erasure_world = (Inr res, w')" "orc_status res = ERASURE_COMPLETED"
    by (rule erasure_world_completes)
  from preview_bounds_erasure [OF I r es run] es run show ?thesis by blast
qed

end
