(* ===== verification/Inventory_Theorems.thy ===== *)
theory Inventory_Theorems
  imports Preview_Theorems Export_Theorems
begin

section \<open>The export and the inventory\<close>

text \<open>
  The document of a subject access export has one list of records per provider the inventory names,
  and no record has a column the inventory keeps back.
\<close>

lemma withheld_never_exported:
  "\<forall>e \<in> set privacy_data_inventory. \<forall>f \<in> set (ine_fields e). \<not> fld_export f \<longrightarrow> List.member never_exported (fld_name f)"
  by code_simp

lemma providers_of_inventory: "map fst export_providers = map ine_export_provider_key privacy_data_inventory"
  by (simp add: export_providers_def) code_simp

lemma collect_keys:
  "collect_providers ps s acc w = (Inr (data, n, ns), w') \<Longrightarrow> map fst data = map fst (fst acc) @ map fst ps"
  by (induction ps s acc arbitrary: w rule: collect_providers.induct) (auto simp: run_rules)

text \<open>C14: The inventory of personal data and the export agree on what is kept back: the document has exactly
  one list of records for each export provider the inventory names, in its order, and no record of it
  has a field the inventory marks as not exported (tokens and their hashes, outbox payloads, storage
  keys, leases, idempotency data, internal notes and failure details).\<close>

theorem export_follows_inventory:
  assumes "export_subject_data c w = (Inr (JObj document), w')" and "xct_subject c = Some s" and "integrity (db w)"
    and "(''data'', JObj data) \<in> set document"
  shows "map fst data = map ine_export_provider_key privacy_data_inventory
    \<and> (\<forall>(k, x) \<in> set data. \<exists>rs. x = JList (map serialise_record rs) \<and> (\<forall>r \<in> set rs.
        \<forall>e \<in> set privacy_data_inventory. \<forall>f \<in> set (ine_fields e). \<not> fld_export f \<longrightarrow> fld_name f \<notin> fst ` set (exr_payload r)))"
proof -
  from assms(1,2,4) obtain n ns where run: "collect_providers export_providers s ([], 0, []) w = (Inr (data, n, ns), w')"
    by (auto simp: export_subject_data_def bind_Inr ret_run export_header_def export_manifest_def)
  have "map fst data = map ine_export_provider_key privacy_data_inventory"
    using collect_keys [OF run] providers_of_inventory by simp
  moreover have "\<exists>rs. x = JList (map serialise_record rs) \<and> (\<forall>r \<in> set rs.
        \<forall>e \<in> set privacy_data_inventory. \<forall>f \<in> set (ine_fields e). \<not> fld_export f \<longrightarrow> fld_name f \<notin> fst ` set (exr_payload r))"
    if member: "(k, x) \<in> set data" for k x
  proof -
    from collect_run [OF providers_keep_contract assms(3) run member]
    obtain rs where rs: "x = JList (map serialise_record rs)" "\<forall>r\<in>set rs. discreet s r" by auto
    from rs(2) have "\<forall>r\<in>set rs. \<forall>k\<in>fst ` set (exr_payload r). \<not> List.member never_exported k"
      by (auto simp: discreet_def tidy_def)
    with withheld_never_exported rs(1) show ?thesis by blast
  qed
  ultimately show ?thesis by blast
qed

theorem export_follows_inventory_witness:
  "\<exists>document data. export_subject_data demo_export demo_world = (Inr (JObj document), demo_world)
     \<and> (''data'', JObj data) \<in> set document \<and> map fst data = map ine_export_provider_key privacy_data_inventory"
proof -
  from export_returns [OF demo_export_subject] obtain x where x: "export_subject_data demo_export demo_world = (Inr x, demo_world)" by blast
  then obtain data n ns where
    doc: "x = JObj (export_header demo_export 1 @ [(''manifest'', export_manifest (map fst data) n ns), (''data'', JObj data)])"
    by (auto simp: export_subject_data_def demo_export_def bind_Inr ret_run)
  from export_follows_inventory [OF x [unfolded doc] demo_export_subject(1,3), of data]
  have "map fst data = map ine_export_provider_key privacy_data_inventory" by simp
  with x doc show ?thesis by fastforce
qed

end
