(* ===== verification/Settings.thy ===== *)
theory Settings
  imports Ingress Invite_Delivery "HOL-Library.List_Lexorder" "HOL-Library.Char_ord"
begin

section \<open>Settings\<close>

text \<open>
  \<^verbatim>\<open>core/config/settings.py\<close>: what the settings must satisfy before the application starts. The
  record has the fields that a check reads; the environment variables are already split into lists
  and numbers (\<open>_normalise_string_list\<close> and pydantic's parsing of types, and the ranges outside
  the sections of authentication and rate limiting, are left out). A validator of a field returns the normalised value; pydantic collects the errors of all
  fields in one \<open>ValidationError\<close>, a \<open>ValueError\<close>, of which the model keeps the first.
\<close>

subsection \<open>Fields\<close>

definition normalise_optional_string :: "string option \<Rightarrow> string option" where
  "normalise_optional_string value = (case value of
     None \<Rightarrow> None
   | Some v \<Rightarrow> if strip v = [] then None else Some (strip v))"

definition rstrip_slashes :: "string \<Rightarrow> string" where
  "rstrip_slashes s = rev (dropWhile (\<lambda>c. c = CHR ''/'') (rev s))"

definition normalise_url :: "string option \<Rightarrow> string option" where
  "normalise_url value = (case value of
     None \<Rightarrow> None
   | Some v \<Rightarrow> let normalised = rstrip_slashes (strip v) in if normalised = [] then None else Some normalised)"

definition url_scheme_of :: "string option \<Rightarrow> string" where
  "url_scheme_of value = (case value of None \<Rightarrow> [] | Some v \<Rightarrow> if v = [] then [] else url_scheme v)"

definition validate_audit_secret :: "string option \<Rightarrow> app_error + string option" where
  "validate_audit_secret value = (case value of
     None \<Rightarrow> Inr None
   | Some v \<Rightarrow>
       if strip v = [] then Inr None
       else if length (strip v) < 32 then Inl (ValueError ''AUDIT__NETWORK_IDENTIFIER_SECRET must be at least 32 characters'')
       else Inr (Some (strip v)))"

definition http_header_name_chars :: "char list" where
  "http_header_name_chars = ''!#$%&'' @ [CHR 0x27] @ ''*+-.^_`|~0123456789ABCDEFGHIJKLMNOPQRSTUVWXYZabcdefghijklmnopqrstuvwxyz''"

definition normalise_edge_assertion_header_name :: "string option \<Rightarrow> app_error + string option" where
  "normalise_edge_assertion_header_name value = (case normalise_optional_string value of
     None \<Rightarrow> Inr None
   | Some v \<Rightarrow>
       if 128 < length v then Inl (ValueError ''RATE_LIMITING__EDGE_ASSERTION_HEADER_NAME must be at most 128 characters'')
       else if list_ex (\<lambda>c. \<not> List.member http_header_name_chars c) v
       then Inl (ValueError ''RATE_LIMITING__EDGE_ASSERTION_HEADER_NAME must be a valid HTTP header name'')
       else Inr (Some v))"

definition normalise_cidr_list :: "string list \<Rightarrow> app_error + string list" where
  "normalise_cidr_list items = (case find (\<lambda>c. ip_network c = None) items of
     Some c \<Rightarrow> Inl (ValueError (''Invalid trusted proxy CIDR: '' @ c))
   | None \<Rightarrow> Inr items)"

definition normalise_ssl_mode :: "string option \<Rightarrow> string option" where
  "normalise_ssl_mode value = map_option lower (normalise_optional_string value)"

definition validate_s3_endpoint_url :: "string option \<Rightarrow> app_error + string option" where
  "validate_s3_endpoint_url value = (case normalise_optional_string value of
     None \<Rightarrow> Inr None
   | Some v \<Rightarrow>
       if \<not> List.member [''http'', ''https''] (url_scheme v) then Inl (ValueError ''PRIVACY_EXPORTS__S3_ENDPOINT_URL must use http(s)'')
       else Inr (Some (rstrip_slashes v)))"

text \<open>\<open>PurePosixPath(candidate).parts\<close> of a relative path: its non-empty segments other than \<open>.\<close>.\<close>

definition prefix_parts :: "string \<Rightarrow> string list" where
  "prefix_parts s = filter (\<lambda>p. p \<noteq> [] \<and> p \<noteq> ''.'') (split_on (CHR ''/'') s)"

definition validate_s3_key_prefix :: "string \<Rightarrow> app_error + string" where
  "validate_s3_key_prefix value = (case normalise_optional_string (Some value) of
     None \<Rightarrow> Inr []
   | Some v \<Rightarrow>
       let candidate = dropWhile (\<lambda>c. c = CHR ''/'') (rstrip_slashes v) in
       if List.member candidate (CHR 0x5C) \<or> List.member candidate (CHR '':'') \<or> contains_str ''//'' candidate
       then Inl (ValueError ''PRIVACY_EXPORTS__S3_KEY_PREFIX is not a safe path'')
       else if List.member (prefix_parts candidate) ''..'' then Inl (ValueError ''PRIVACY_EXPORTS__S3_KEY_PREFIX is not a safe path'')
       else Inr (join ''/'' (prefix_parts candidate)))"

subsection \<open>Sections\<close>

datatype metadata_mode = METADATA_DISABLED | METADATA_WARN | METADATA_FAIL

record auth_settings =
  aut_enabled :: bool
  aut_issuer_url :: "string option"
  aut_audience :: "string option"
  aut_client_id :: "string option"
  aut_parties :: "string list"
  aut_jwks_url :: "string option"
  aut_leeway_seconds :: int
  aut_discovery_ttl_seconds :: int
  aut_jwks_ttl_seconds :: int
  aut_require_kid :: bool
  aut_require_iat :: bool
  aut_max_lifetime_seconds :: int
  aut_metadata :: metadata_mode
  aut_refresh_cooldown :: int
  aut_lock_timeout :: int

text \<open>\<open>str.upper\<close> differs from its ASCII part on no string that becomes \<^verbatim>\<open>RS256\<close>. The only algorithm \<^verbatim>\<open>AUTH__ALGORITHMS\<close> allows. The cooldown and the lock timeout are in microseconds.\<close>

definition auth_algorithm :: string where
  "auth_algorithm = ''RS256''"

definition validate_algorithms :: "string \<Rightarrow> app_error + string" where
  "validate_algorithms value =
     (if upper_ascii (strip value) \<noteq> ''RS256'' then Inl (ValueError ''AUTH__ALGORITHMS supports only RS256'') else Inr ''RS256'')"

record database_settings =
  dbs_url :: "string option"
  dbs_ssl_mode :: "string option"
  dbs_allow_plaintext :: bool
  dbs_allow_sqlite :: bool

record redis_settings =
  rds_url :: "string option"
  rds_tls_required :: bool
  rds_allow_plaintext :: bool

record vault_settings =
  vlt_enabled :: bool
  vlt_addr :: string
  vlt_tls_required :: bool
  vlt_allow_plaintext :: bool

record cors_settings =
  crs_enabled :: bool
  crs_allow_origins :: "string list"
  crs_allow_credentials :: bool

record observability_settings =
  obs_metrics_enabled :: bool
  obs_otlp_exporter :: bool
  obs_otlp_endpoint :: "string option"

datatype transfer_mechanism =
  TRANSFER_NOT_RESTRICTED | TRANSFER_ADEQUACY | TRANSFER_UK_IDTA | TRANSFER_UK_ADDENDUM | TRANSFER_BCR | TRANSFER_DEROGATION

record processor_settings =
  pcs_purpose :: string
  pcs_data_categories :: "string list"
  pcs_region :: "string option"
  pcs_country :: "string option"
  pcs_dpa_signed :: bool
  pcs_restricted_transfer :: bool
  pcs_mechanism :: transfer_mechanism

record governance_settings =
  gvs_enabled :: bool
  gvs_required :: bool
  gvs_region :: "string option"
  gvs_processors :: "(string \<times> processor_settings) list"

record s3_settings =
  s3s_endpoint_url :: "string option"
  s3s_region_name :: "string option"
  s3s_bucket_name :: "string option"
  s3s_allow_plaintext :: bool
  s3s_access_key_id :: "string option"
  s3s_secret_access_key :: "string option"
  s3s_server_side_encryption :: "string option"
  s3s_kms_key_id :: "string option"

record settings =
  set_environment :: string
  set_docs_enabled :: bool
  set_trust_request_id :: bool
  set_vault :: vault_settings
  set_database :: database_settings
  set_redis :: redis_settings
  set_outbox_key :: "string option"
  set_auth :: auth_settings
  set_rate_limiting :: rate_limiting_settings
  set_invite_delivery :: bool
  set_observability :: observability_settings
  set_governance :: governance_settings
  set_cors :: cors_settings
  set_exports_enabled :: bool
  set_exports_backend :: storage_backend
  set_s3 :: s3_settings

subsection \<open>Section by section\<close>

definition require_that :: "bool \<Rightarrow> string \<Rightarrow> app_error + unit" where
  "require_that b detail = (if b then Inr () else Inl (ValueError detail))"

text \<open>One check after the other; the first that fails is the error.\<close>

fun first_error :: "(app_error + unit) list \<Rightarrow> app_error + unit" where
  "first_error [] = Inr ()"
| "first_error (r # rs) = then_check r (\<lambda>_. first_error rs)"

definition validate_auth_section :: "auth_settings \<Rightarrow> app_error + auth_settings" where
  "validate_auth_section a =
     then_check (require_that (0 \<le> aut_leeway_seconds a \<and> aut_leeway_seconds a \<le> 120 \<and> 0 < aut_discovery_ttl_seconds a \<and>
       0 < aut_jwks_ttl_seconds a \<and> 0 < aut_max_lifetime_seconds a \<and> 0 < aut_refresh_cooldown a \<and> 0 < aut_lock_timeout a)
       ''Input should be in its range'') (\<lambda>_.
     Inr (a\<lparr>aut_issuer_url := normalise_url (aut_issuer_url a), aut_jwks_url := normalise_url (aut_jwks_url a),
       aut_audience := normalise_optional_string (aut_audience a), aut_client_id := normalise_optional_string (aut_client_id a)\<rparr>))"

text \<open>\<open>_normalise_cidr_list\<close> also rewrites a network to its normal form, which denotes the same addresses.\<close>

definition validate_rate_limiting_section :: "rate_limiting_settings \<Rightarrow> app_error + rate_limiting_settings" where
  "validate_rate_limiting_section r =
     then_check (normalise_cidr_list (rls_trusted_proxy_cidrs r)) (\<lambda>cidrs.
     then_check (normalise_edge_assertion_header_name (rls_edge_header_name r)) (\<lambda>header_name.
     then_check (validate_rate_limit_secret (rls_edge_secret r)) (\<lambda>edge_secret.
     then_check (validate_rate_limit_secret (rls_identifier_secret r)) (\<lambda>identifier_secret.
     then_check (require_that (list_all (\<lambda>(_, v). override_valid v) (rls_policies r))
       ''RATE_LIMITING policy window_seconds must be one of 60, 300, 3600, 86400'') (\<lambda>_.
     then_check (require_that (unknown_override_names r = [])
       (''Unknown rate limit policy override name(s): '' @ join '', '' (sort (unknown_override_names r)))) (\<lambda>_.
     validate_identifier_secret_required (r\<lparr>rls_trusted_proxy_cidrs := cidrs, rls_edge_header_name := header_name,
       rls_edge_secret := edge_secret, rls_identifier_secret := identifier_secret\<rparr>)))))))"

definition validate_cors_policy :: "cors_settings \<Rightarrow> app_error + unit" where
  "validate_cors_policy c = first_error
     [require_that (\<not> (crs_enabled c \<and> crs_allow_origins c = [])) ''CORS__ALLOW_ORIGINS is required when CORS__ENABLED=true'',
      require_that (\<not> (crs_allow_credentials c \<and> List.member (crs_allow_origins c) ''*''))
        ''CORS__ALLOW_CREDENTIALS=true cannot be used with wildcard origins'']"

definition validate_observability_section :: "observability_settings \<Rightarrow> app_error + observability_settings" where
  "validate_observability_section v =
     (let v' = v\<lparr>obs_otlp_endpoint := normalise_optional_string (obs_otlp_endpoint v)\<rparr> in
      if obs_metrics_enabled v' \<and> obs_otlp_exporter v' \<and> obs_otlp_endpoint v' = None
      then Inl (ValueError ''OBSERVABILITY__OTLP_ENDPOINT is required when OBSERVABILITY__METRICS_ENABLED=true and OBSERVABILITY__EXPORTER=otlp'')
      else Inr v')"

definition validate_processor :: "processor_settings \<Rightarrow> app_error + processor_settings" where
  "validate_processor p = (case normalise_optional_string (Some (pcs_purpose p)) of
     None \<Rightarrow> Inl (ValueError ''Input should be a valid string'')
   | Some purpose \<Rightarrow> Inr (p\<lparr>pcs_purpose := purpose, pcs_region := normalise_optional_string (pcs_region p),
       pcs_country := normalise_optional_string (pcs_country p)\<rparr>))"

fun validate_processors :: "(string \<times> processor_settings) list \<Rightarrow> app_error + (string \<times> processor_settings) list" where
  "validate_processors [] = Inr []"
| "validate_processors ((k, p) # ps) =
     then_check (validate_processor p) (\<lambda>p'. then_check (validate_processors ps) (\<lambda>rest. Inr ((lower (strip k), p') # rest)))"

definition validate_governance_section :: "governance_settings \<Rightarrow> app_error + governance_settings" where
  "validate_governance_section g =
     then_check (validate_processors (gvs_processors g)) (\<lambda>ps.
     Inr (g\<lparr>gvs_region := normalise_optional_string (gvs_region g), gvs_processors := ps\<rparr>))"

definition validate_s3_section :: "s3_settings \<Rightarrow> app_error + s3_settings" where
  "validate_s3_section x =
     then_check (validate_s3_endpoint_url (s3s_endpoint_url x)) (\<lambda>endpoint.
     let encryption = normalise_optional_string (s3s_server_side_encryption x) in
     then_check (require_that (List.member [None, Some ''AES256'', Some ''aws:kms''] encryption)
       ''Input should be AES256 or aws:kms'') (\<lambda>_.
     Inr (x\<lparr>s3s_endpoint_url := endpoint, s3s_region_name := normalise_optional_string (s3s_region_name x),
       s3s_bucket_name := normalise_optional_string (s3s_bucket_name x),
       s3s_access_key_id := normalise_optional_string (s3s_access_key_id x),
       s3s_secret_access_key := normalise_optional_string (s3s_secret_access_key x),
       s3s_server_side_encryption := encryption, s3s_kms_key_id := normalise_optional_string (s3s_kms_key_id x)\<rparr>)))"

definition validate_database_section :: "database_settings \<Rightarrow> app_error + database_settings" where
  "validate_database_section d = (let mode = normalise_ssl_mode (dbs_ssl_mode d) in
     if List.member [None, Some ''disable'', Some ''allow'', Some ''prefer'', Some ''require'', Some ''verify-ca'', Some ''verify-full''] mode
     then Inr (d\<lparr>dbs_ssl_mode := mode\<rparr>)
     else Inl (ValueError ''Input should be a mode of libpq''))"

text \<open>Whether a key is a Fernet key is decided by \<^verbatim>\<open>cryptography\<close>.\<close>

definition validate_outbox_token_encryption_key :: "(string \<Rightarrow> bool) \<Rightarrow> string option \<Rightarrow> app_error + string option" where
  "validate_outbox_token_encryption_key fernet_key value = (case normalise_optional_string value of
     None \<Rightarrow> Inr None
   | Some k \<Rightarrow> if fernet_key k then Inr (Some k)
       else Inl (ValueError ''SECURITY__OUTBOX_TOKEN_ENCRYPTION_KEY must be a valid Fernet key''))"

subsection \<open>Transports\<close>

definition unquote_ascii_pair :: "char \<Rightarrow> char \<Rightarrow> char" where
  "unquote_ascii_pair a b = char_of (the (hex_value a) * 16 + the (hex_value b))"

text \<open>The value of a query parameter. Percent escapes are those of ASCII characters.\<close>

fun unquote_plus :: "string \<Rightarrow> string" where
  "unquote_plus (c # a # b # s) =
     (if c = CHR ''%'' \<and> is_hex_digit a \<and> is_hex_digit b then unquote_ascii_pair a b # unquote_plus s
      else (if c = CHR ''+'' then CHR '' '' else c) # unquote_plus (a # b # s))"
| "unquote_plus (c # s) = (if c = CHR ''+'' then CHR '' '' else c) # unquote_plus s"
| "unquote_plus [] = []"

definition url_query :: "string \<Rightarrow> string" where
  "url_query url =
     (let rest = takeWhile (\<lambda>c. c \<noteq> CHR ''#'') (snd (url_scheme_rest url))
      in drop 1 (dropWhile (\<lambda>c. c \<noteq> CHR ''?'') rest))"

definition parse_qs :: "string \<Rightarrow> (string \<times> string) list" where
  "parse_qs qs = concat (map (\<lambda>pair. let (name, sep, value) = partition_eq pair in
     if value = [] then [] else [(unquote_plus name, unquote_plus value)]) (split_on (CHR ''&'') qs))"

text \<open>
  \<open>parse_qs\<close> groups the values by name in the order of the names' first places; the last value of
  the first name that matches without case counts.
\<close>

definition url_query_value :: "string option \<Rightarrow> string \<Rightarrow> string option" where
  "url_query_value value key = (case value of
     None \<Rightarrow> None
   | Some url \<Rightarrow> if url = [] then None else
       (let pairs = parse_qs (url_query url) in
        case find (\<lambda>(k, _). lower k = lower key) pairs of
          None \<Rightarrow> None
        | Some (k, _) \<Rightarrow> (let normalised = lower (strip (snd (last (filter (\<lambda>(k', _). k' = k) pairs)))) in
            if normalised = [] then None else Some normalised)))"

definition secure_database_ssl_modes :: "string list" where
  "secure_database_ssl_modes = [''require'', ''verify-ca'', ''verify-full'']"

definition is_sqlite_database_url :: "string option \<Rightarrow> bool" where
  "is_sqlite_database_url value \<longleftrightarrow> prefix ''sqlite'' (url_scheme_of value)"

definition is_secure_database_transport :: "database_settings \<Rightarrow> bool" where
  "is_secure_database_transport d =
     (if dbs_url d = None \<or> dbs_url d = Some [] then True
      else if prefix ''sqlite'' (url_scheme_of (dbs_url d)) then True
      else if \<not> prefix ''postgresql'' (url_scheme_of (dbs_url d)) then False
      else (case (case dbs_ssl_mode d of Some m \<Rightarrow> Some m | None \<Rightarrow> url_query_value (dbs_url d) ''sslmode'') of
          None \<Rightarrow> False
        | Some m \<Rightarrow> List.member secure_database_ssl_modes m))"

definition is_secure_redis_transport :: "redis_settings \<Rightarrow> bool" where
  "is_secure_redis_transport r =
     (if rds_url r = None \<or> rds_url r = Some [] then True else url_scheme_of (rds_url r) = ''rediss'')"

definition is_secure_vault_transport :: "vault_settings \<Rightarrow> bool" where
  "is_secure_vault_transport v = (if vlt_addr v = [] then True else url_scheme_of (Some (vlt_addr v)) = ''https'')"

subsection \<open>Staging and production\<close>

definition rate_limits_of :: "settings \<Rightarrow> rate_limiting_settings" where
  "rate_limits_of s = (set_rate_limiting s)\<lparr>rls_environment := set_environment s\<rparr>"

definition validate_rate_limit_protection_required :: "settings \<Rightarrow> app_error + unit" where
  "validate_rate_limit_protection_required s =
     require_that (\<not> (\<not> rls_enabled (set_rate_limiting s) \<and> \<not> rls_enforced_by_edge (set_rate_limiting s)))
       (''Rate limiting must be enabled in app or enforced by edge in '' @ set_environment s)"

fun unsafe_overrides :: "(string \<times> policy_override) list \<Rightarrow> app_error + string list" where
  "unsafe_overrides [] = Inr []"
| "unsafe_overrides ((name, v) # vs) =
     (if ovr_fail_open v \<noteq> Some True then unsafe_overrides vs
      else then_check (get_rate_limit_policy name) (\<lambda>spec. then_check (unsafe_overrides vs) (\<lambda>rest.
        Inr (if List.member [SENS_SENSITIVE, SENS_CRITICAL] (psp_sensitivity spec) then name # rest else rest))))"

definition validate_rate_limit_fail_open_overrides :: "settings \<Rightarrow> app_error + unit" where
  "validate_rate_limit_fail_open_overrides s =
     then_check (unsafe_overrides (rls_policies (set_rate_limiting s))) (\<lambda>names.
     require_that (names = []) (''RATE_LIMITING__POLICIES fail_open=true is not allowed for sensitive or critical policies in '' @
       set_environment s @ '': '' @ join '', '' (sort names)))"

definition validate_trusted_proxy_header_policy :: "settings \<Rightarrow> app_error + unit" where
  "validate_trusted_proxy_header_policy s =
     require_that (\<not> (rls_trust_proxy_headers (set_rate_limiting s) \<and> rls_trusted_proxy_cidrs (set_rate_limiting s) = []))
       (''RATE_LIMITING__TRUSTED_PROXY_CIDRS is required in '' @ set_environment s @ '' when RATE_LIMITING__TRUST_PROXY_HEADERS=true'')"

definition validate_pre_auth_policy :: "settings \<Rightarrow> app_error + unit" where
  "validate_pre_auth_policy s = (let r = set_rate_limiting s in
     if \<not> rls_enabled r \<or> rls_enforced_by_edge r then Inr ()
     else first_error
       [require_that (rls_pre_auth_enabled r) (''RATE_LIMITING__PRE_AUTH_ENABLED must be true in '' @ set_environment s @
          '' unless RATE_LIMITING__ENFORCED_BY_EDGE=true''),
        require_that (\<not> (\<not> rls_trust_proxy_headers r \<or> rls_trusted_proxy_cidrs r = []))
          (''RATE_LIMITING__TRUST_PROXY_HEADERS=true and RATE_LIMITING__TRUSTED_PROXY_CIDRS are required in '' @ set_environment s @
           '' when app pre-auth rate limiting is enabled without RATE_LIMITING__ENFORCED_BY_EDGE=true'')])"

definition validate_edge_enforced_mode :: "settings \<Rightarrow> app_error + unit" where
  "validate_edge_enforced_mode s = (let r = set_rate_limiting s in
     if \<not> rls_enforced_by_edge r then Inr ()
     else (let missing = (if rls_trusted_proxy_cidrs r = [] then [''RATE_LIMITING__TRUSTED_PROXY_CIDRS''] else []) @
               (if rls_edge_header_name r = None then [''RATE_LIMITING__EDGE_ASSERTION_HEADER_NAME''] else []) @
               (if rls_edge_secret r = None then [''RATE_LIMITING__EDGE_ASSERTION_SECRET''] else [])
           in require_that (missing = []) (''RATE_LIMITING__ENFORCED_BY_EDGE=true requires trusted edge controls in '' @
                set_environment s @ '': '' @ join '', '' missing)))"

text \<open>The set of names in their order by \<open>sorted\<close>.\<close>

definition required_processor_names :: "settings \<Rightarrow> string list" where
  "required_processor_names s =
     (if aut_enabled (set_auth s) then [''keycloak''] else []) @
     (if obs_metrics_enabled (set_observability s) \<and> obs_otlp_exporter (set_observability s) then [''otlp''] else []) @
     (if set_exports_enabled s \<and> set_exports_backend s = STORAGE_S3_COMPATIBLE then [''privacy_export_storage''] else []) @
     (if rds_url (set_redis s) \<noteq> None \<and> rds_url (set_redis s) \<noteq> Some [] then [''redis''] else []) @
     (if vlt_enabled (set_vault s) then [''vault''] else [])"

definition missing_fields :: "processor_settings \<Rightarrow> string list" where
  "missing_fields p =
     (if pcs_purpose p = [] then [''PURPOSE''] else []) @
     (if pcs_data_categories p = [] then [''DATA_CATEGORIES''] else []) @
     (if pcs_region p = None \<and> pcs_country p = None then [''REGION or COUNTRY''] else []) @
     (if \<not> pcs_dpa_signed p then [''DPA_SIGNED''] else [])"

definition invalid_transfer :: "processor_settings \<Rightarrow> bool" where
  "invalid_transfer p \<longleftrightarrow> pcs_restricted_transfer p \<and>
     \<not> List.member [TRANSFER_ADEQUACY, TRANSFER_UK_IDTA, TRANSFER_UK_ADDENDUM, TRANSFER_BCR, TRANSFER_DEROGATION] (pcs_mechanism p)"

text \<open>Of processors whose keys become the same the last counts.\<close>

definition validate_processor_governance :: "settings \<Rightarrow> app_error + unit" where
  "validate_processor_governance s =
     (let g = set_governance s; names = required_processor_names s; env = set_environment s;
          processors = map_of (rev (gvs_processors g));
          missing = filter (\<lambda>n. processors n = None) names;
          invalid = filter (\<lambda>n. missing_fields (the (processors n)) \<noteq> []) names;
          transfers = filter (\<lambda>n. invalid_transfer (the (processors n))) names
      in if \<not> gvs_enabled g \<or> names = [] then Inr ()
         else first_error
           [require_that (gvs_required g) (''PROCESSOR_GOVERNANCE__REQUIRED=false is not allowed in '' @ env @
              '' when processor governance is enabled and external processors are enabled''),
            require_that (gvs_region g \<noteq> None) (''PROCESSOR_GOVERNANCE__DATA_RESIDENCY_REGION is required in '' @ env @
              '' when external processors are enabled''),
            require_that (missing = []) (''Missing processor governance metadata in '' @ env @ '': '' @
              join '', '' (map (\<lambda>n. ''PROCESSOR_GOVERNANCE__PROCESSORS__'' @ upper_ascii n) missing)),
            require_that (invalid = []) (''Incomplete processor governance metadata in '' @ env @ '': '' @
              join ''; '' (map (\<lambda>n. n @ '' ('' @ join '', '' (missing_fields (the (processors n))) @ '')'') invalid)),
            require_that (transfers = []) (''Restricted processor transfers require an approved transfer mechanism in '' @
              env @ '': '' @ join '', '' transfers)])"

definition validate_privacy_exports_storage_settings :: "settings \<Rightarrow> app_error + unit" where
  "validate_privacy_exports_storage_settings s =
     (if set_exports_backend s \<noteq> STORAGE_S3_COMPATIBLE \<or> \<not> set_exports_enabled s then Inr ()
      else (let x = set_s3 s;
          missing = (if s3s_bucket_name x = None then [''PRIVACY_EXPORTS__S3_BUCKET_NAME''] else []) @
            (if s3s_region_name x = None then [''PRIVACY_EXPORTS__S3_REGION_NAME''] else [])
        in first_error
          [require_that (missing = []) (''S3-compatible privacy export storage requires: '' @ join '', '' missing),
           require_that ((s3s_access_key_id x \<noteq> None) = (s3s_secret_access_key x \<noteq> None))
             ''PRIVACY_EXPORTS__S3_ACCESS_KEY_ID and PRIVACY_EXPORTS__S3_SECRET_ACCESS_KEY must be set together'',
           require_that (\<not> (s3s_kms_key_id x \<noteq> None \<and> s3s_server_side_encryption x \<noteq> Some ''aws:kms''))
             ''PRIVACY_EXPORTS__S3_SSE_KMS_KEY_ID requires PRIVACY_EXPORTS__S3_SERVER_SIDE_ENCRYPTION=aws:kms'']))"

definition validate_privacy_exports_security :: "settings \<Rightarrow> app_error + unit" where
  "validate_privacy_exports_security s =
     (if \<not> set_exports_enabled s then Inr ()
      else if set_exports_backend s = STORAGE_LOCAL
      then Inl (ValueError (''PRIVACY_EXPORTS__STORAGE_BACKEND=s3_compatible is required in '' @ set_environment s @
        '' when privacy exports are enabled''))
      else require_that (\<not> (s3s_endpoint_url (set_s3 s) \<noteq> None \<and> url_scheme_of (s3s_endpoint_url (set_s3 s)) \<noteq> ''https''
          \<and> \<not> s3s_allow_plaintext (set_s3 s)))
        (''PRIVACY_EXPORTS__S3_ENDPOINT_URL must use https:// in '' @ set_environment s @
         '' unless PRIVACY_EXPORTS__S3_ALLOW_PLAINTEXT_PRIVATE_NETWORK=true''))"

definition validate_production_transport_security :: "settings \<Rightarrow> app_error + unit" where
  "validate_production_transport_security s = first_error
     [require_that (\<not> (is_sqlite_database_url (dbs_url (set_database s)) \<and> \<not> dbs_allow_sqlite (set_database s)))
        ''SQLite DATABASE__URL is not allowed in prod unless DATABASE__ALLOW_SQLITE_IN_PROD=true'',
      require_that (\<not> (\<not> dbs_allow_plaintext (set_database s) \<and> \<not> is_secure_database_transport (set_database s)))
        ''DATABASE__SSL_MODE must be one of require, verify-ca, or verify-full in prod unless DATABASE__ALLOW_PLAINTEXT_PRIVATE_NETWORK=true'',
      require_that (\<not> (rds_url (set_redis s) \<noteq> None \<and> rds_url (set_redis s) \<noteq> Some [] \<and> rds_tls_required (set_redis s) \<and>
          \<not> rds_allow_plaintext (set_redis s) \<and> \<not> is_secure_redis_transport (set_redis s)))
        ''REDIS__URL must use rediss:// in prod unless REDIS__ALLOW_PLAINTEXT_PRIVATE_NETWORK=true'',
      require_that (\<not> (vlt_enabled (set_vault s) \<and> vlt_tls_required (set_vault s) \<and> \<not> vlt_allow_plaintext (set_vault s) \<and>
          \<not> is_secure_vault_transport (set_vault s)))
        ''VAULT__ADDR must use https:// in prod unless VAULT__ALLOW_PLAINTEXT_PRIVATE_NETWORK=true'']"

definition present :: "string option \<Rightarrow> bool" where
  "present value \<longleftrightarrow> value \<noteq> None \<and> value \<noteq> Some []"

definition starts_with_https :: "string option \<Rightarrow> bool" where
  "starts_with_https value = (case value of None \<Rightarrow> False | Some v \<Rightarrow> prefix ''https://'' v)"

definition validate_deployed :: "settings \<Rightarrow> app_error + unit" where
  "validate_deployed s = first_error
     [require_that (aut_enabled (set_auth s)) ''AUTH__ENABLED must be true in staging/prod'',
      require_that (present (aut_issuer_url (set_auth s))) ''AUTH__ISSUER_URL is required in staging/prod'',
      require_that (present (aut_audience (set_auth s))) ''AUTH__AUDIENCE is required in staging/prod'',
      require_that (aut_parties (set_auth s) \<noteq> []) ''AUTH__ALLOWED_AUTHORIZED_PARTIES is required in staging/prod'',
      require_that (aut_metadata (set_auth s) = METADATA_FAIL) ''AUTH__METADATA_VALIDATION=fail is required in staging/prod'',
      validate_rate_limit_protection_required s, validate_rate_limit_fail_open_overrides s,
      validate_trusted_proxy_header_policy s, validate_pre_auth_policy s, validate_edge_enforced_mode s,
      validate_processor_governance s, validate_privacy_exports_security s]"

definition validate_production :: "settings \<Rightarrow> app_error + unit" where
  "validate_production s = first_error
     [require_that (starts_with_https (aut_issuer_url (set_auth s))) ''AUTH__ISSUER_URL must use HTTPS in prod'',
      require_that (\<not> (present (aut_jwks_url (set_auth s)) \<and> \<not> starts_with_https (aut_jwks_url (set_auth s))))
        ''AUTH__JWKS_URL must use HTTPS in prod'',
      require_that (\<not> set_docs_enabled s) ''API__DOCS_ENABLED must be false in prod'',
      require_that (\<not> set_trust_request_id s) ''REQUEST_CONTEXT__TRUST_INCOMING_REQUEST_ID must be false in prod'',
      require_that (rls_mode (set_rate_limiting s) \<noteq> MODE_RELAXED) ''RATE_LIMITING__MODE=relaxed is not allowed in prod'',
      validate_production_transport_security s]"

definition validate_environment_security :: "settings \<Rightarrow> app_error + unit" where
  "validate_environment_security s = (let env = set_environment s in first_error
     [validate_privacy_exports_storage_settings s,
      if env = ''staging'' \<or> env = ''prod'' then validate_deployed s else Inr (),
      if env = ''prod'' then validate_production s else Inr (),
      require_that (\<not> (env = ''prod'' \<and> List.member (crs_allow_origins (set_cors s)) ''*''))
        ''CORS wildcard origins are not allowed in prod'',
      require_that (\<not> (set_invite_delivery s \<and> List.member [''dev'', ''staging'', ''prod''] env \<and> \<not> present (set_outbox_key s)))
        ''SECURITY__OUTBOX_TOKEN_ENCRYPTION_KEY is required for invite outbox''])"

text \<open>\<open>Settings()\<close>: the sections in the order of their fields, then the checks across them.\<close>

definition load_settings :: "(string \<Rightarrow> bool) \<Rightarrow> settings \<Rightarrow> app_error + settings" where
  "load_settings fernet_key s =
     then_check (require_that (List.member [''local'', ''dev'', ''test'', ''staging'', ''prod''] (set_environment s))
       ''Input should be local, dev, test, staging or prod'') (\<lambda>_.
     then_check (validate_database_section (set_database s)) (\<lambda>database.
     then_check (validate_outbox_token_encryption_key fernet_key (set_outbox_key s)) (\<lambda>key.
     then_check (validate_auth_section (set_auth s)) (\<lambda>auth.
     then_check (validate_rate_limiting_section (set_rate_limiting s)) (\<lambda>limits.
     then_check (validate_observability_section (set_observability s)) (\<lambda>observability.
     then_check (validate_governance_section (set_governance s)) (\<lambda>governance.
     then_check (validate_cors_policy (set_cors s)) (\<lambda>_.
     then_check (validate_s3_section (set_s3 s)) (\<lambda>s3.
     let s' = s\<lparr>set_database := database, set_outbox_key := key, set_auth := auth,
       set_rate_limiting := limits, set_observability := observability, set_governance := governance, set_s3 := s3\<rparr> in
     then_check (validate_environment_security s') (\<lambda>_. Inr s'))))))))))"

end
