(* ===== verification/Authentication.thy ===== *)
theory Authentication
  imports Settings
begin

section \<open>Authentication\<close>

text \<open>
  \<^verbatim>\<open>core/auth.py\<close>, \<^verbatim>\<open>auth_jwt.py\<close>, \<^verbatim>\<open>auth_claims.py\<close> and \<^verbatim>\<open>auth_metadata.py\<close>: from
  the \<open>Authorization\<close> header to the principal the services work with. PyJWT is a record of functions;
  what the identity provider answers, the clocks and whether the lock of a refresh is had in time are
  part of the state. The validator is the process-wide one: its settings' signature, its two caches
  and the time of the last forced refresh. A header, a payload and a document are JSON objects with
  distinct keys. Times are in microseconds.
\<close>

subsection \<open>Surroundings\<close>

text \<open>What \<open>jwt.decode\<close> is asked to check.\<close>

record decode_options =
  dco_algorithms :: "string list"
  dco_audience :: "string option"
  dco_issuer :: "string option"
  dco_leeway_seconds :: int
  dco_required :: "string list"
  dco_verify_aud :: bool
  dco_verify_iss :: bool

text \<open>
  \<open>get_unverified_header\<close>, \<open>RSAAlgorithm.from_jwk\<close> and \<open>decode\<close>, which also reads the
  time; \<open>None\<close> is an exception.
\<close>

record 'k jwt_library =
  jwl_header :: "string \<Rightarrow> json option"
  jwl_rsa_key :: "json \<Rightarrow> 'k option"
  jwl_decode :: "string \<Rightarrow> 'k \<Rightarrow> decode_options \<Rightarrow> int \<Rightarrow> json option"

type_synonym json_object = "(string \<times> json) list"

record auth_state =
  ast_signature :: "auth_settings option"
  ast_discovery :: "(json_object \<times> int) option"
  ast_jwks :: "(json_object \<times> int) option"
  ast_last_refresh :: int
  ast_wall :: "nat \<Rightarrow> int"
  ast_wall_pos :: nat
  ast_mono :: "nat \<Rightarrow> int"
  ast_mono_pos :: nat
  ast_answers :: "nat \<Rightarrow> string \<Rightarrow> json option"
  ast_fetches :: "string list"
  ast_locks :: "nat \<Rightarrow> bool"
  ast_lock_pos :: nat

type_synonym 'a auth = "(auth_state, 'a) prog"

definition wall_time :: "int auth" where
  "wall_time s = (Inr (ast_wall s (ast_wall_pos s)), s\<lparr>ast_wall_pos := Suc (ast_wall_pos s)\<rparr>)"

definition monotonic :: "int auth" where
  "monotonic s = (Inr (ast_mono s (ast_mono_pos s)), s\<lparr>ast_mono_pos := Suc (ast_mono_pos s)\<rparr>)"

text \<open>\<open>wait_for(lock.acquire(), timeout)\<close>.\<close>

definition acquire_refresh_lock :: "bool auth" where
  "acquire_refresh_lock s = (Inr (ast_locks s (ast_lock_pos s)), s\<lparr>ast_lock_pos := Suc (ast_lock_pos s)\<rparr>)"

text \<open>The fetcher: no answer is any exception of it, which becomes one error.\<close>

definition identity_provider_answer :: "string \<Rightarrow> json option auth" where
  "identity_provider_answer url s =
     (Inr (ast_answers s (length (ast_fetches s)) url), s\<lparr>ast_fetches := ast_fetches s @ [url]\<rparr>)"

definition fetch_json_async :: "string \<Rightarrow> json_object auth" where
  "fetch_json_async url = bind (identity_provider_answer url) (\<lambda>answer. case answer of
     None \<Rightarrow> raise (UnauthorizedError ''Unable to fetch identity metadata'')
   | Some (JObj document) \<Rightarrow> ret document
   | Some _ \<Rightarrow> raise (UnauthorizedError ''Invalid identity metadata''))"

subsection \<open>The key set\<close>

definition well_known_url :: "string \<Rightarrow> string" where
  "well_known_url issuer = rstrip_slashes issuer @ ''/.well-known/openid-configuration''"

definition get_discovery_document :: "auth_settings \<Rightarrow> json_object auth" where
  "get_discovery_document S =
     bind (gets ast_discovery) (\<lambda>cache.
     bind (case cache of None \<Rightarrow> ret None
           | Some (document, expires_at) \<Rightarrow> bind wall_time (\<lambda>now. ret (if now < expires_at then Some document else None))) (\<lambda>hit.
     case hit of Some document \<Rightarrow> ret document
     | None \<Rightarrow>
       bind (ensure (present (aut_issuer_url S)) (UnauthorizedError ''Invalid authentication configuration'')) (\<lambda>_.
       bind (fetch_json_async (well_known_url (the (aut_issuer_url S)))) (\<lambda>document.
       bind wall_time (\<lambda>now s.
         (Inr document, s\<lparr>ast_discovery := Some (document, now + aut_discovery_ttl_seconds S * 1000000)\<rparr>))))))"

definition resolve_jwks_url :: "auth_settings \<Rightarrow> string auth" where
  "resolve_jwks_url S = (case aut_jwks_url S of
     Some url \<Rightarrow> ret url
   | None \<Rightarrow> bind (get_discovery_document S) (\<lambda>discovery. case map_of discovery ''jwks_uri'' of
         Some (JStr uri) \<Rightarrow> if uri = [] then raise (UnauthorizedError ''Invalid identity metadata'') else ret uri
       | _ \<Rightarrow> raise (UnauthorizedError ''Invalid identity metadata'')))"

definition validate_jwks_payload :: "json_object \<Rightarrow> json list auth" where
  "validate_jwks_payload jwks = (case map_of jwks ''keys'' of
     Some (JList keys) \<Rightarrow> if keys = [] then raise (UnauthorizedError ''Invalid identity metadata'') else ret keys
   | _ \<Rightarrow> raise (UnauthorizedError ''Invalid identity metadata''))"

definition fetch_and_cache_jwks :: "auth_settings \<Rightarrow> json_object auth" where
  "fetch_and_cache_jwks S =
     bind (resolve_jwks_url S) (\<lambda>url.
     bind (fetch_json_async url) (\<lambda>jwks.
     bind (validate_jwks_payload jwks) (\<lambda>_.
     bind wall_time (\<lambda>now s. (Inr jwks, s\<lparr>ast_jwks := Some (jwks, now + aut_jwks_ttl_seconds S * 1000000)\<rparr>)))))"

definition get_jwks :: "auth_settings \<Rightarrow> json_object auth" where
  "get_jwks S =
     bind (gets ast_jwks) (\<lambda>cache.
     bind (case cache of None \<Rightarrow> ret None
           | Some (jwks, expires_at) \<Rightarrow> bind wall_time (\<lambda>now. ret (if now < expires_at then Some jwks else None))) (\<lambda>hit.
     case hit of Some jwks \<Rightarrow> ret jwks | None \<Rightarrow> fetch_and_cache_jwks S))"

definition cached_jwks :: "json_object option auth" where
  "cached_jwks = gets (\<lambda>s. map_option fst (ast_jwks s))"

text \<open>A refresh a key miss forces: the test before the lock, the test under it, and the fetch.\<close>

definition within_cooldown :: "auth_settings \<Rightarrow> bool auth" where
  "within_cooldown S = bind monotonic (\<lambda>now. bind (gets ast_last_refresh) (\<lambda>last.
     ret (now - last < aut_refresh_cooldown S)))"

definition claim_forced_refresh :: "auth_settings \<Rightarrow> bool auth" where
  "claim_forced_refresh S = bind monotonic (\<lambda>now. bind (gets ast_last_refresh) (\<lambda>last.
     if now - last < aut_refresh_cooldown S then ret False
     else (\<lambda>s. (Inr True, s\<lparr>ast_last_refresh := now\<rparr>))))"

fun is_unauthorized :: "app_error \<Rightarrow> bool" where
  "is_unauthorized (UnauthorizedError _) = True"
| "is_unauthorized _ = False"

definition forced_fetch :: "auth_settings \<Rightarrow> json_object option auth" where
  "forced_fetch S = try_except (bind (fetch_and_cache_jwks S) (\<lambda>jwks. ret (Some jwks))) is_unauthorized (\<lambda>_. cached_jwks)"

definition refresh_jwks_after_kid_miss :: "auth_settings \<Rightarrow> json_object option auth" where
  "refresh_jwks_after_kid_miss S =
     bind (within_cooldown S) (\<lambda>recent.
     if recent then cached_jwks
     else bind acquire_refresh_lock (\<lambda>acquired.
       if \<not> acquired then cached_jwks
       else bind (claim_forced_refresh S) (\<lambda>claimed.
         if \<not> claimed then cached_jwks else forced_fetch S)))"

subsection \<open>The key of a token\<close>

definition json_get :: "json_object \<Rightarrow> string \<Rightarrow> json" where
  "json_get kvs k = (case map_of kvs k of None \<Rightarrow> JNull | Some v \<Rightarrow> v)"

definition public_key_from_jwk :: "'k jwt_library \<Rightarrow> json_object \<Rightarrow> 'k auth" where
  "public_key_from_jwk lib jwk =
     (if json_get jwk ''kty'' \<noteq> JStr ''RSA'' then raise (UnauthorizedError ''Invalid identity metadata'')
      else case jwl_rsa_key lib (JObj jwk) of
        None \<Rightarrow> raise (UnauthorizedError ''Invalid identity metadata'')
      | Some key \<Rightarrow> ret key)"

fun jwk_with_kid :: "json \<Rightarrow> json list \<Rightarrow> json_object option" where
  "jwk_with_kid kid [] = None"
| "jwk_with_kid kid (JObj jwk # keys) = (if json_get jwk ''kid'' = kid then Some jwk else jwk_with_kid kid keys)"
| "jwk_with_kid kid (_ # keys) = jwk_with_kid kid keys"

definition resolve_signing_key_from_jwks :: "'k jwt_library \<Rightarrow> json_object \<Rightarrow> json_object \<Rightarrow> 'k option auth" where
  "resolve_signing_key_from_jwks lib jwks header_fields =
     bind (validate_jwks_payload jwks) (\<lambda>keys.
     case jwk_with_kid (json_get header_fields ''kid'') keys of
       None \<Rightarrow> ret None
     | Some jwk \<Rightarrow> bind (public_key_from_jwk lib jwk) (\<lambda>key. ret (Some key)))"

definition resolve_signing_key :: "'k jwt_library \<Rightarrow> auth_settings \<Rightarrow> json_object \<Rightarrow> 'k auth" where
  "resolve_signing_key lib S header_fields =
     bind (get_jwks S) (\<lambda>jwks.
     bind (resolve_signing_key_from_jwks lib jwks header_fields) (\<lambda>found. case found of
       Some key \<Rightarrow> ret key
     | None \<Rightarrow>
       bind (refresh_jwks_after_kid_miss S) (\<lambda>refreshed.
       bind (case refreshed of None \<Rightarrow> ret None | Some jwks' \<Rightarrow> resolve_signing_key_from_jwks lib jwks' header_fields) (\<lambda>again.
       case again of Some key \<Rightarrow> ret key | None \<Rightarrow> raise (UnauthorizedError ''Invalid bearer token'')))))"

subsection \<open>The checks of a token\<close>

definition validate_authorized_party :: "auth_settings \<Rightarrow> json_object \<Rightarrow> unit auth" where
  "validate_authorized_party S decoded =
     (if aut_parties S = [] then ret ()
      else case map_of decoded ''azp'' of
        Some (JStr azp) \<Rightarrow> ensure (List.member (aut_parties S) azp) (UnauthorizedError ''Invalid bearer token'')
      | _ \<Rightarrow> raise (UnauthorizedError ''Invalid bearer token''))"

text \<open>\<open>isinstance(x, int)\<close> holds of the two truth values also.\<close>

fun json_int :: "json \<Rightarrow> int option" where
  "json_int (JInt n) = Some n"
| "json_int (JBool b) = Some (if b then 1 else 0)"
| "json_int _ = None"

definition validate_token_lifetime :: "auth_settings \<Rightarrow> json_object \<Rightarrow> unit auth" where
  "validate_token_lifetime S decoded =
     (let exp = json_int (json_get decoded ''exp''); iat = json_int (json_get decoded ''iat'') in
      if aut_require_iat S \<and> iat = None then raise (UnauthorizedError ''Invalid bearer token'')
      else case exp of
        None \<Rightarrow> raise (UnauthorizedError ''Invalid bearer token'')
      | Some e \<Rightarrow> (case iat of
            None \<Rightarrow> ret ()
          | Some i \<Rightarrow> if e - i < 0 \<or> aut_max_lifetime_seconds S < e - i then raise (UnauthorizedError ''Invalid bearer token'')
              else ret ()))"

definition decode_options_of :: "auth_settings \<Rightarrow> decode_options" where
  "decode_options_of S = \<lparr>dco_algorithms = [auth_algorithm], dco_audience = aut_audience S, dco_issuer = aut_issuer_url S,
     dco_leeway_seconds = aut_leeway_seconds S,
     dco_required = [''exp'', ''iss'', ''sub''] @ (if present (aut_audience S) then [''aud''] else []) @
       (if aut_require_iat S then [''iat''] else []),
     dco_verify_aud = (aut_audience S \<noteq> None), dco_verify_iss = (aut_issuer_url S \<noteq> None)\<rparr>"

fun is_text :: "json \<Rightarrow> bool" where
  "is_text (JStr _) = True"
| "is_text _ = False"

definition jwt_validate_token :: "'k jwt_library \<Rightarrow> auth_settings \<Rightarrow> string \<Rightarrow> json_object auth" where
  "jwt_validate_token lib S token =
     bind (ensure (aut_enabled S) (UnauthorizedError ''Invalid bearer token'')) (\<lambda>_.
     case jwl_header lib token of
       Some (JObj header_fields) \<Rightarrow>
         bind (ensure (json_get header_fields ''alg'' = JStr auth_algorithm) (UnauthorizedError ''Invalid bearer token'')) (\<lambda>_.
         bind (ensure (\<not> (aut_require_kid S \<and> \<not> is_text (json_get header_fields ''kid'')))
           (UnauthorizedError ''Invalid bearer token'')) (\<lambda>_.
         bind (resolve_signing_key lib S header_fields) (\<lambda>signing_key.
         bind wall_time (\<lambda>now.
         case jwl_decode lib token signing_key (decode_options_of S) now of
           Some (JObj decoded) \<Rightarrow>
             bind (validate_authorized_party S decoded) (\<lambda>_.
             bind (validate_token_lifetime S decoded) (\<lambda>_.
             ret decoded))
         | _ \<Rightarrow> raise (UnauthorizedError ''Invalid bearer token'')))))
     | _ \<Rightarrow> raise (UnauthorizedError ''Invalid bearer token''))"

text \<open>The process-wide validator is replaced when one of these settings is another.\<close>

definition validator_signature :: "auth_settings \<Rightarrow> auth_settings" where
  "validator_signature S = S\<lparr>aut_client_id := None, aut_metadata := METADATA_WARN\<rparr>"

definition get_jwt_validator :: "auth_settings \<Rightarrow> unit auth" where
  "get_jwt_validator S s =
     (Inr (), if ast_signature s \<noteq> Some (validator_signature S)
        then s\<lparr>ast_signature := Some (validator_signature S), ast_discovery := None, ast_jwks := None, ast_last_refresh := 0\<rparr>
        else s)"

subsection \<open>The principal\<close>

text \<open>
  Pydantic's reading of the claims: a text, a flag in its lax forms, an e-mail address in the form
  \<^verbatim>\<open>email-validator\<close> gives it. \<open>None\<close> is the \<open>ValidationError\<close>, a \<open>ValueError\<close>.
\<close>

definition lax_bool :: "json \<Rightarrow> bool option" where
  "lax_bool j = (case j of
     JBool b \<Rightarrow> Some b
   | JInt n \<Rightarrow> if n = 0 then Some False else if n = 1 then Some True else None
   | JFloat t \<Rightarrow> if t = ''0.0'' then Some False else if t = ''1.0'' then Some True else None
   | JStr t \<Rightarrow> if List.member [''0'', ''off'', ''f'', ''false'', ''n'', ''no''] (lower t) then Some False
       else if List.member [''1'', ''on'', ''t'', ''true'', ''y'', ''yes''] (lower t) then Some True else None
   | _ \<Rightarrow> None)"

text \<open>\<open>AliasChoices\<close>: the first name the claims have.\<close>

definition alias_choice :: "json_object \<Rightarrow> string \<Rightarrow> string \<Rightarrow> string" where
  "alias_choice claims choice1 choice2 = (if map_of claims choice1 \<noteq> None then choice1 else choice2)"

definition jwt_claims_payload :: "(string \<Rightarrow> string option) \<Rightarrow> json_object \<Rightarrow> principal option" where
  "jwt_claims_payload email_form claims =
     (case (required_field claims ''sub'' (\<lambda>t. if t = [] then None else Some t),
            optional_field claims ''email'' email_form,
            (case map_of claims ''email_verified'' of None \<Rightarrow> Some False | Some j \<Rightarrow> lax_bool j),
            optional_field claims (alias_choice claims ''given_name'' ''first_name'') Some,
            optional_field claims (alias_choice claims ''family_name'' ''last_name'') Some) of
        (Some subject_id, Some email, Some verified, Some given, Some family) \<Rightarrow>
          Some \<lparr>idn_external_auth_id = subject_id, idn_email = email, idn_email_verified = verified,
            idn_first_name = given, idn_last_name = family\<rparr>
      | _ \<Rightarrow> None)"

text \<open>\<open>model_validate(self.model_dump())\<close>: the fields pass the same checks once more.\<close>

definition to_authenticated_principal :: "(string \<Rightarrow> string option) \<Rightarrow> principal \<Rightarrow> principal option" where
  "to_authenticated_principal email_form p =
     (if idn_external_auth_id p = [] then None
      else case idn_email p of
        None \<Rightarrow> Some p
      | Some e \<Rightarrow> (case email_form e of None \<Rightarrow> None | Some e' \<Rightarrow> Some (p\<lparr>idn_email := Some e'\<rparr>)))"

definition from_verified_jwt_claims :: "(string \<Rightarrow> string option) \<Rightarrow> json_object \<Rightarrow> principal auth" where
  "from_verified_jwt_claims email_form claims =
     (case Option.bind (jwt_claims_payload email_form claims) (to_authenticated_principal email_form) of
        None \<Rightarrow> raise (ValueError ''validation error for the claims'')
      | Some p \<Rightarrow> ret p)"

definition extract_bearer_token :: "http_request \<Rightarrow> string option auth" where
  "extract_bearer_token rq = (case get_header rq ''authorization'' of
     None \<Rightarrow> ret None
   | Some auth_header \<Rightarrow> (case words_of (strip auth_header) of
         [scheme, token] \<Rightarrow>
           if lower scheme \<noteq> ''bearer'' \<or> strip token = [] then raise (UnauthorizedError ''Malformed Authorization header'')
           else ret (Some (strip token))
       | _ \<Rightarrow> raise (UnauthorizedError ''Malformed Authorization header'')))"

definition get_authenticated_principal ::
  "'k jwt_library \<Rightarrow> (string \<Rightarrow> string option) \<Rightarrow> auth_settings \<Rightarrow> http_request \<Rightarrow> principal option auth" where
  "get_authenticated_principal lib email_form S rq =
     bind (extract_bearer_token rq) (\<lambda>bearer. case bearer of
       None \<Rightarrow> ret None
     | Some token \<Rightarrow>
         bind (get_jwt_validator S) (\<lambda>_.
         bind (jwt_validate_token lib S token) (\<lambda>claims.
         bind (from_verified_jwt_claims email_form claims) (\<lambda>p. ret (Some p)))))"

definition require_authenticated_principal ::
  "'k jwt_library \<Rightarrow> (string \<Rightarrow> string option) \<Rightarrow> auth_settings \<Rightarrow> http_request \<Rightarrow> principal auth" where
  "require_authenticated_principal lib email_form S rq =
     bind (get_authenticated_principal lib email_form S rq) (\<lambda>p. case p of
       None \<Rightarrow> raise (UnauthorizedError ''Authentication required'')
     | Some p \<Rightarrow> ret p)"

subsection \<open>Start-up\<close>

text \<open>
  \<open>init_auth_validation\<close>. The fetcher is called directly here: an exception of it is not an
  \<open>UnauthorizedError\<close> in general, but every exception is handled in the same way.
\<close>

definition fetch_metadata :: "string \<Rightarrow> json_object auth" where
  "fetch_metadata url = bind (identity_provider_answer url) (\<lambda>answer. case answer of
     None \<Rightarrow> raise (UnauthorizedError ''Unable to fetch identity metadata'')
   | Some (JObj document) \<Rightarrow> ret document
   | Some _ \<Rightarrow> raise (ValueError ''Identity metadata payload must be an object''))"

definition is_rsa_signing_key :: "json \<Rightarrow> bool" where
  "is_rsa_signing_key key = (case key of
     JObj members \<Rightarrow>
       if json_get members ''kty'' \<noteq> JStr ''RSA'' then False
       else if json_get members ''use'' \<noteq> JNull \<and> json_get members ''use'' \<noteq> JStr ''sig'' then False
       else if json_get members ''alg'' \<noteq> JNull \<and> json_get members ''alg'' \<noteq> JStr ''RS256'' then False
       else True
   | _ \<Rightarrow> False)"

definition has_kid :: "json \<Rightarrow> bool" where
  "has_kid key = (case key of
     JObj members \<Rightarrow> (case json_get members ''kid'' of JStr kid \<Rightarrow> strip kid \<noteq> [] | _ \<Rightarrow> False)
   | _ \<Rightarrow> False)"

definition validate_jwks :: "json_object \<Rightarrow> unit auth" where
  "validate_jwks jwks = (case map_of jwks ''keys'' of
     Some (JList keys) \<Rightarrow>
       bind (ensure (keys \<noteq> []) (ValueError ''JWKS must contain signing keys'')) (\<lambda>_.
       bind (ensure (filter is_rsa_signing_key keys \<noteq> []) (ValueError ''JWKS must contain an RSA signing key'')) (\<lambda>_.
       ensure (list_all has_kid (filter is_rsa_signing_key keys)) (ValueError ''JWKS RSA signing keys must contain kid'')))
   | _ \<Rightarrow> raise (ValueError ''JWKS must contain signing keys''))"

definition metadata_jwks_uri :: "auth_settings \<Rightarrow> json_object \<Rightarrow> string auth" where
  "metadata_jwks_uri S discovery = (case aut_jwks_url S of
     Some url \<Rightarrow> ret url
   | None \<Rightarrow> (case map_of discovery ''jwks_uri'' of
         Some (JStr uri) \<Rightarrow> if strip uri = [] then raise (ValueError ''OIDC discovery jwks_uri is required'') else ret (strip uri)
       | _ \<Rightarrow> raise (ValueError ''OIDC discovery jwks_uri is required'')))"

definition advertises_rs256 :: "json_object \<Rightarrow> bool" where
  "advertises_rs256 discovery = (case map_of discovery ''id_token_signing_alg_values_supported'' of
     Some (JList algs) \<Rightarrow> List.member algs (JStr ''RS256'')
   | _ \<Rightarrow> True)"

definition validate_auth_metadata :: "settings \<Rightarrow> unit auth" where
  "validate_auth_metadata cfg =
     (let S = set_auth cfg in
      bind (ensure (present (aut_issuer_url S)) (ValueError ''AUTH__ISSUER_URL is required'')) (\<lambda>_.
      bind (fetch_metadata (well_known_url (the (aut_issuer_url S)))) (\<lambda>discovery.
      bind (ensure (map_of discovery ''issuer'' = map_option JStr (aut_issuer_url S))
        (ValueError ''OIDC discovery issuer does not match configured issuer'')) (\<lambda>_.
      bind (metadata_jwks_uri S discovery) (\<lambda>jwks_uri.
      bind (ensure (\<not> (List.member [''staging'', ''prod''] (set_environment cfg) \<and> url_scheme jwks_uri \<noteq> ''https''))
        (ValueError ''OIDC JWKS URI must use HTTPS in staging/prod'')) (\<lambda>_.
      bind (ensure (advertises_rs256 discovery) (ValueError ''OIDC discovery does not advertise RS256'')) (\<lambda>_.
      bind (fetch_metadata jwks_uri) (\<lambda>jwks.
      validate_jwks jwks))))))))"

definition init_auth_validation :: "settings \<Rightarrow> unit auth" where
  "init_auth_validation cfg =
     (if \<not> aut_enabled (set_auth cfg) \<or> aut_metadata (set_auth cfg) = METADATA_DISABLED then ret ()
      else try_except (validate_auth_metadata cfg) (\<lambda>_. True) (\<lambda>_.
        if aut_metadata (set_auth cfg) = METADATA_FAIL then raise (RuntimeError ''Authentication metadata validation failed'')
        else ret ()))"

end
