(* ===== verification/Key_Refresh.thy ===== *)
theory Key_Refresh
  imports Authentication
begin

section \<open>Refreshes of the key set side by side\<close>

text \<open>
  \<open>_refresh_jwks_after_kid_miss\<close> as the coroutines of one event loop run it: any number of validations
  may have missed a key at once, and they interleave where the code awaits, at the lock and at the
  fetch. A step is the code of one coroutine between two awaits; other validations read the key set or
  fetch it when it has expired. The label of a step is the time of the forced refresh it begins, if any.
\<close>

datatype refresh_point = Idle | AwaitsLock | HoldsLock | Fetches

type_synonym refresh_state = "auth_state \<times> (nat \<Rightarrow> refresh_point)"

definition lock_taken :: "(nat \<Rightarrow> refresh_point) \<Rightarrow> bool" where
  "lock_taken at \<longleftrightarrow> (\<exists>i. at i = HoldsLock \<or> at i = Fetches)"

inductive refresh_step :: "auth_settings \<Rightarrow> refresh_state \<Rightarrow> int option \<Rightarrow> refresh_state \<Rightarrow> bool" for S where
  Recent: "at i = Idle \<Longrightarrow> within_cooldown S s = (Inr True, s') \<Longrightarrow> refresh_step S (s, at) None (s', at)"
| Queue: "at i = Idle \<Longrightarrow> within_cooldown S s = (Inr False, s') \<Longrightarrow> refresh_step S (s, at) None (s', at(i := AwaitsLock))"
| Acquire: "at i = AwaitsLock \<Longrightarrow> \<not> lock_taken at \<Longrightarrow> refresh_step S (s, at) None (s, at(i := HoldsLock))"
| TimeOut: "at i = AwaitsLock \<Longrightarrow> refresh_step S (s, at) None (s, at(i := Idle))"
| Claim: "at i = HoldsLock \<Longrightarrow> claim_forced_refresh S s = (Inr True, s') \<Longrightarrow>
    refresh_step S (s, at) (Some (ast_last_refresh s')) (s', at(i := Fetches))"
| Late: "at i = HoldsLock \<Longrightarrow> claim_forced_refresh S s = (Inr False, s') \<Longrightarrow> refresh_step S (s, at) None (s', at(i := Idle))"
| Fetch: "at i = Fetches \<Longrightarrow> forced_fetch S s = (r, s') \<Longrightarrow> refresh_step S (s, at) None (s', at(i := Idle))"
| Read: "get_jwks S s = (r, s') \<Longrightarrow> refresh_step S (s, at) None (s', at)"

text \<open>A run, with the times of the forced refreshes it began.\<close>

inductive refresh_run :: "auth_settings \<Rightarrow> refresh_state \<Rightarrow> int list \<Rightarrow> refresh_state \<Rightarrow> bool" for S where
  Start: "refresh_run S c [] c"
| Silent: "refresh_run S c ts c' \<Longrightarrow> refresh_step S c' None c'' \<Longrightarrow> refresh_run S c ts c''"
| Forced: "refresh_run S c ts c' \<Longrightarrow> refresh_step S c' (Some t) c'' \<Longrightarrow> refresh_run S c (ts @ [t]) c''"

inductive_cases refresh_stepE: "refresh_step S c l c'"

subsection \<open>What the steps keep\<close>

definition one_refresher :: "(nat \<Rightarrow> refresh_point) \<Rightarrow> bool" where
  "one_refresher at \<longleftrightarrow> (\<forall>i j. at i \<in> {HoldsLock, Fetches} \<longrightarrow> at j \<in> {HoldsLock, Fetches} \<longrightarrow> i = j)"

lemma last_refresh_programs:
  "ast_last_refresh (snd (wall_time s)) = ast_last_refresh s"
  "ast_last_refresh (snd (monotonic s)) = ast_last_refresh s"
  by (simp_all add: wall_time_def monotonic_def)

text \<open>Programs that leave the time of the last forced refresh alone.\<close>

lemma keeps_last_refresh:
  "maintains (\<lambda>s. ast_last_refresh s = t) wall_time"
  "maintains (\<lambda>s. ast_last_refresh s = t) (identity_provider_answer url)"
  by (simp_all add: maintains_def wall_time_def identity_provider_answer_def)

lemma keeps_last_refresh_fetch: "maintains (\<lambda>s. ast_last_refresh s = t) (fetch_json_async url)"
  unfolding fetch_json_async_def
  by (intro maintains_rules keeps_last_refresh) (auto intro: maintains_rules split: json.splits)

lemma keeps_last_refresh_jwks:
  "maintains (\<lambda>s. ast_last_refresh s = t) (fetch_and_cache_jwks S)"
  "maintains (\<lambda>s. ast_last_refresh s = t) (get_jwks S)"
  "maintains (\<lambda>s. ast_last_refresh s = t) (forced_fetch S)"
proof -
  let ?I = "\<lambda>s. ast_last_refresh s = t"
  have stores: "maintains ?I (\<lambda>s. (Inr x, s\<lparr>ast_jwks := c\<rparr>))" "maintains ?I (\<lambda>s. (Inr y, s\<lparr>ast_discovery := c\<rparr>))" for x y c
    by (simp_all add: maintains_def)
  have hit: "maintains ?I (case cache of None \<Rightarrow> ret None
      | Some (d, expires_at) \<Rightarrow> bind wall_time (\<lambda>now. ret (if now < expires_at then Some d else None)))" for cache :: "(json_object \<times> int) option"
    by (auto intro!: maintains_rules keeps_last_refresh split: option.splits)
  have discovery: "maintains ?I (get_discovery_document S)"
    unfolding get_discovery_document_def by (intro maintains_rules hit keeps_last_refresh keeps_last_refresh_fetch stores)
  have url: "maintains ?I (resolve_jwks_url S)"
    unfolding resolve_jwks_url_def
    by (intro maintains_rules discovery) (auto intro!: maintains_rules split: option.splits json.splits)
  have payload: "maintains ?I (validate_jwks_payload jwks)" for jwks
    unfolding validate_jwks_payload_def by (auto intro!: maintains_rules split: option.splits json.splits)
  show fetch: "maintains ?I (fetch_and_cache_jwks S)"
    unfolding fetch_and_cache_jwks_def by (intro maintains_rules url keeps_last_refresh_fetch payload keeps_last_refresh stores)
  show "maintains ?I (get_jwks S)"
    unfolding get_jwks_def by (intro maintains_rules hit fetch)
  show "maintains ?I (forced_fetch S)"
    unfolding forced_fetch_def cached_jwks_def by (intro maintains_rules fetch)
qed

lemma within_cooldown_run: "within_cooldown S s = (Inr b, s') \<Longrightarrow> ast_last_refresh s' = ast_last_refresh s"
  by (auto simp: within_cooldown_def monotonic_def run_rules)

lemma claim_run:
  "claim_forced_refresh S s = (Inr True, s') \<Longrightarrow> ast_last_refresh s + aut_refresh_cooldown S \<le> ast_last_refresh s'"
  "claim_forced_refresh S s = (Inr False, s') \<Longrightarrow> ast_last_refresh s' = ast_last_refresh s"
  by (auto simp: claim_forced_refresh_def monotonic_def run_rules split: if_splits)

lemma refresh_step_time:
  assumes "refresh_step S c l c'"
  shows "case l of None \<Rightarrow> ast_last_refresh (fst c') = ast_last_refresh (fst c)
    | Some t \<Rightarrow> ast_last_refresh (fst c') = t \<and> ast_last_refresh (fst c) + aut_refresh_cooldown S \<le> t"
  using assms
proof cases
  case (Fetch "at" i s r s')
  then show ?thesis using maintainsD [OF keeps_last_refresh_jwks(3) refl Fetch(5)] by simp
next
  case (Read s r s' "at")
  then show ?thesis using maintainsD [OF keeps_last_refresh_jwks(2) refl Read(4)] by simp
qed (auto dest: within_cooldown_run claim_run)

lemma refresh_step_one:
  assumes "refresh_step S c l c'" and "one_refresher (snd c)"
  shows "one_refresher (snd c')"
  using assms(1)
proof cases
  case (Acquire "at" i s)
  then have "\<forall>j. at j \<notin> {HoldsLock, Fetches}" by (auto simp: lock_taken_def)
  with Acquire show ?thesis by (auto simp: one_refresher_def)
qed (use assms(2) in \<open>auto simp: one_refresher_def\<close>)

lemma refresh_run_steps:
  assumes "refresh_run S c ts c'" and cooldown: "0 \<le> aut_refresh_cooldown S"
  shows "sorted_wrt (\<lambda>a b. a + aut_refresh_cooldown S \<le> b) (ast_last_refresh (fst c) # ts)
      \<and> last (ast_last_refresh (fst c) # ts) = ast_last_refresh (fst c') \<and> (one_refresher (snd c) \<longrightarrow> one_refresher (snd c'))"
  using assms(1)
proof induction
  case (Silent c ts c' c'')
  then show ?case using refresh_step_time [OF Silent(2)] refresh_step_one [OF Silent(2)] by auto
next
  case (Forced c ts c' t c'')
  let ?R = "\<lambda>a b. a + aut_refresh_cooldown S \<le> b"
  have gap: "ast_last_refresh (fst c') + aut_refresh_cooldown S \<le> t" "ast_last_refresh (fst c'') = t"
    using refresh_step_time [OF Forced(2)] by auto
  have "\<forall>x \<in> set (ast_last_refresh (fst c) # ts). x \<le> ast_last_refresh (fst c')"
    using Forced.IH cooldown
    by (cases "ast_last_refresh (fst c) # ts" rule: rev_cases) (auto simp: sorted_wrt_append)
  with gap have "sorted_wrt ?R ((ast_last_refresh (fst c) # ts) @ [t])"
    using Forced.IH by (subst sorted_wrt_append) fastforce
  then show ?case using Forced.IH gap refresh_step_one [OF Forced(2)] by auto
qed simp

text \<open>C20: Tokens with unknown keys cannot make the application hammer the identity provider. However many
  validations miss a key at once, and however they interleave at the lock and at the fetch, forced
  refreshes of the key set begin at least one cooldown apart, the first at least one cooldown after the
  last there was, and never two of them are under way.\<close>

theorem forced_refreshes_spaced:
  assumes "refresh_run S (s, at) ts (s', at')" and "0 \<le> aut_refresh_cooldown S" and "\<forall>i. at i = Idle"
  shows "(\<forall>m < length ts. ast_last_refresh s + aut_refresh_cooldown S \<le> ts ! m)
    \<and> (\<forall>n < length ts. \<forall>m < n. ts ! m + aut_refresh_cooldown S \<le> ts ! n)
    \<and> (\<forall>i j. at' i = Fetches \<longrightarrow> at' j = Fetches \<longrightarrow> i = j)"
proof -
  have "one_refresher at" using assms(3) by (simp add: one_refresher_def)
  with refresh_run_steps [OF assms(1,2)]
  have gaps: "\<forall>t \<in> set ts. ast_last_refresh s + aut_refresh_cooldown S \<le> t"
    "sorted_wrt (\<lambda>a b. a + aut_refresh_cooldown S \<le> b) ts" and one: "one_refresher at'" by auto
  from gaps(2) have "\<forall>n < length ts. \<forall>m < n. ts ! m + aut_refresh_cooldown S \<le> ts ! n"
    by (simp add: sorted_wrt_iff_nth_less)
  moreover have "\<forall>i j. at' i = Fetches \<longrightarrow> at' j = Fetches \<longrightarrow> i = j"
    using one by (auto simp: one_refresher_def)
  ultimately show ?thesis using gaps(1) by simp
qed

end
