(* ===== verification/Settings_Theorems.thy ===== *)
theory Settings_Theorems
  imports Settings Rate_Theorems
begin

section \<open>What checked settings guarantee\<close>

text \<open>
  Settings that load in staging or production protect every API path, keep the limits of sensitive
  operations closed when the limiter is down, and in production allow plain transports only where
  a setting says so.
\<close>

lemma first_error_Inr [simp]: "first_error rs = Inr () \<longleftrightarrow> (\<forall>r \<in> set rs. r = Inr ())"
  by (induction rs) auto

lemma require_that_Inr [simp]: "require_that b m = Inr u \<longleftrightarrow> b"
  by (simp add: require_that_def)

lemma load_settings_run:
  assumes "load_settings fernet_key s0 = Inr s"
  shows "validate_environment_security s = Inr ()"
    and "\<exists>r0. validate_rate_limiting_section r0 = Inr (set_rate_limiting s)"
    and "\<exists>a0. validate_auth_section a0 = Inr (set_auth s)"
    and "\<exists>k0. validate_outbox_token_encryption_key fernet_key k0 = Inr (set_outbox_key s)"
  using assms by (auto simp: load_settings_def Let_def)

lemma auth_section_leeway: "validate_auth_section a0 = Inr a \<Longrightarrow> aut_leeway_seconds a \<le> 120"
  by (auto simp: validate_auth_section_def)

lemma deployed_checks:
  assumes "validate_environment_security s = Inr ()" and "set_environment s \<in> {''staging'', ''prod''}"
  shows "validate_deployed s = Inr ()"
  using assms by (auto simp: validate_environment_security_def Let_def)

subsection \<open>Limits\<close>

lemma rate_limit_secret_long:
  "validate_rate_limit_secret v = Inr (Some k) \<Longrightarrow> 32 \<le> length k"
  by (auto simp: validate_rate_limit_secret_def split: option.splits if_splits)

lemma rate_limiting_section_run:
  assumes "validate_rate_limiting_section r0 = Inr r"
  shows "\<forall>v \<in> snd ` set (rls_policies r). override_valid v" and "unknown_override_names r = []"
    and "rls_edge_secret r = Some k \<Longrightarrow> 32 \<le> length k"
    and "rls_enabled r \<Longrightarrow> \<exists>k. rls_identifier_secret r = Some k \<and> 32 \<le> length k"
  using assms
  by (auto simp: validate_rate_limiting_section_def validate_identifier_secret_required_def unknown_override_names_def
      list_all_iff rate_limit_secret_long split: if_splits)

lemma unsafe_overrides_none:
  assumes "unsafe_overrides vs = Inr []" and "map_of vs name = Some v" and "ovr_fail_open v = Some True"
    and "get_rate_limit_policy name = Inr spec"
  shows "psp_sensitivity spec = SENS_NORMAL"
  using assms
proof (induction vs rule: unsafe_overrides.induct)
  case (2 n x vs)
  then show ?case by (cases "psp_sensitivity spec") (auto split: if_splits)
qed simp

lemma policy_of_spec: "\<forall>spec \<in> set registered_policy_specs. get_rate_limit_policy (psp_name spec) = Inr spec"
  by code_simp

lemma sensitive_specs_closed: "\<forall>spec \<in> set registered_policy_specs. psp_sensitivity spec \<noteq> SENS_NORMAL \<longrightarrow>
    \<not> psp_fail_open spec \<or> psp_name spec = psp_name pre_auth_policy"
  by code_simp

lemma effective_closed:
  assumes deployed: "rls_environment cfg \<in> {''staging'', ''prod''}" and safe: "unsafe_overrides (rls_policies cfg) = Inr []"
    and specs: "set specs \<subseteq> set registered_policy_specs" and built: "build_effective_policies cfg specs = Inr reg"
  shows "\<forall>(n, p) \<in> set reg. rlp_sensitivity p \<noteq> SENS_NORMAL \<longrightarrow> \<not> rlp_fail_open p"
  using specs built
proof (induction specs arbitrary: reg)
  case (Cons spec specs)
  let ?ov = "map_of (rls_policies cfg) (psp_name spec)"
  from Cons.prems(2) obtain p rest where p: "apply_override spec (rls_mode cfg) ?ov = Inr p"
    and rest: "build_effective_policies cfg specs = Inr rest"
    and reg: "reg = (psp_name spec, if should_force_fail_closed_in_environment cfg spec then force_policy_fail_closed p else p) # rest"
    by auto
  have spec: "get_rate_limit_policy (psp_name spec) = Inr spec"
    "psp_sensitivity spec \<noteq> SENS_NORMAL \<longrightarrow> \<not> psp_fail_open spec \<or> psp_name spec = psp_name pre_auth_policy"
    using policy_of_spec sensitive_specs_closed Cons.prems(1) by auto
  have "ovr_fail_open v \<noteq> Some True" if "?ov = Some v" "psp_sensitivity spec \<noteq> SENS_NORMAL" for v
    using unsafe_overrides_none [OF safe that(1) _ spec(1)] that(2) by blast
  with p spec(2) have "psp_sensitivity spec \<noteq> SENS_NORMAL \<longrightarrow> \<not> rlp_fail_open p \<or> psp_name spec = psp_name pre_auth_policy"
    "rlp_sensitivity p = psp_sensitivity spec"
    by (auto simp: apply_override_def Let_def override_field_def split: option.splits if_splits)
  with deployed Cons.IH [OF _ rest] Cons.prems(1) reg show ?case
    by (auto simp: should_force_fail_closed_in_environment_def force_policy_fail_closed_def)
qed simp

text \<open>C18: Protection in staging and production. Settings that load there have authentication with an issuer, an
  audience, authorised parties and a leeway of at most two minutes; every request the ingress should look at is either asked for the edge's
  assertion, with a secret of at least 32 characters and a non-empty list of trusted proxies, or counted
  by the limit before authentication; and every sensitive or critical policy in effect refuses when the
  limiter cannot be reached, whatever the overrides and the mode are.\<close>

theorem deployed_settings_protect:
  assumes load: "load_settings fernet_key s0 = Inr s" and env: "set_environment s \<in> {''staging'', ''prod''}"
  shows "(aut_enabled (set_auth s) \<and> (\<exists>i a. aut_issuer_url (set_auth s) = Some i \<and> i \<noteq> [] \<and> aut_audience (set_auth s) = Some a \<and> a \<noteq> [])
      \<and> aut_parties (set_auth s) \<noteq> [] \<and> aut_leeway_seconds (set_auth s) \<le> 120)
    \<and> (should_apply_edge_assertion rq api_prefix \<longrightarrow>
        rls_trusted_proxy_cidrs (rate_limits_of s) \<noteq> [] \<and>
        (rls_enforced_by_edge (rate_limits_of s) \<and> rls_edge_header_name (rate_limits_of s) \<noteq> None
           \<and> (\<exists>k. rls_edge_secret (rate_limits_of s) = Some k \<and> 32 \<le> length k)
         \<or> should_apply_pre_auth_rate_limit (rate_limits_of s) rq api_prefix))
    \<and> (\<exists>reg. build_effective_policy_registry (rate_limits_of s) = Inr reg \<and> map fst reg = policy_names
        \<and> (\<forall>(n, p) \<in> set reg. rlp_sensitivity p \<noteq> SENS_NORMAL \<longrightarrow> \<not> rlp_fail_open p))"
proof -
  let ?r = "rate_limits_of s"
  from load_settings_run [OF load] obtain r0 a0 where
    valid: "validate_environment_security s = Inr ()" "validate_rate_limiting_section r0 = Inr (set_rate_limiting s)"
      "validate_auth_section a0 = Inr (set_auth s)" by auto
  note dep = deployed_checks [OF valid(1) env, unfolded validate_deployed_def]
  note sec = rate_limiting_section_run [OF valid(2)]
  have auth: "aut_enabled (set_auth s) \<and> (\<exists>i a. aut_issuer_url (set_auth s) = Some i \<and> i \<noteq> [] \<and> aut_audience (set_auth s) = Some a \<and> a \<noteq> [])
      \<and> aut_parties (set_auth s) \<noteq> [] \<and> aut_leeway_seconds (set_auth s) \<le> 120"
    using dep auth_section_leeway [OF valid(3)] by (auto simp: present_def)
  have names: "\<forall>v \<in> snd ` set (rls_policies ?r). override_valid v" "unknown_override_names ?r = []"
    using sec(1,2) by (simp_all add: rate_limits_of_def unknown_override_names_def)
  obtain reg where reg: "build_effective_policy_registry ?r = Inr reg" "map fst reg = policy_names"
    using effective_registry_ok [OF names] by blast
  have "unsafe_overrides (rls_policies ?r) = Inr []"
    using dep by (auto simp: validate_rate_limit_fail_open_overrides_def rate_limits_of_def)
  moreover have "rls_environment ?r \<in> {''staging'', ''prod''}" using env by (simp add: rate_limits_of_def)
  moreover from reg(1) have "build_effective_policies ?r registered_policy_specs = Inr reg"
    by (auto simp: build_effective_policy_registry_def split: if_splits)
  ultimately have closed: "\<forall>(n, p) \<in> set reg. rlp_sensitivity p \<noteq> SENS_NORMAL \<longrightarrow> \<not> rlp_fail_open p"
    by (intro effective_closed [where cfg = ?r and specs = registered_policy_specs]) auto
  have edge: "rls_trusted_proxy_cidrs ?r \<noteq> [] \<and>
        (rls_enforced_by_edge ?r \<and> rls_edge_header_name ?r \<noteq> None \<and> (\<exists>k. rls_edge_secret ?r = Some k \<and> 32 \<le> length k)
         \<or> should_apply_pre_auth_rate_limit ?r rq api_prefix)" if "should_apply_edge_assertion rq api_prefix"
    using dep sec(3) that
    by (auto simp: validate_pre_auth_policy_def validate_edge_enforced_mode_def validate_rate_limit_protection_required_def
        rate_limits_of_def Let_def should_apply_edge_assertion_def should_apply_pre_auth_rate_limit_def split: if_splits)
  from auth edge reg closed show ?thesis by blast
qed

subsection \<open>Transports\<close>

text \<open>C19: Transports in production. Settings that load in production name an issuer reached by HTTPS; the database is a
  PostgreSQL server asked for TLS unless plain connections, or an SQLite file, are allowed by a setting of
  their own; Redis is reached by TLS unless that is waived; exports go to no local disk, and to an object store by
  HTTPS unless that is waived; no origin wildcard is allowed and no documentation served; and invites are sent only
  with a valid key for their tokens.\<close>

theorem production_transports:
  assumes load: "load_settings fernet_key s0 = Inr s" and env: "set_environment s = ''prod''"
  shows "(\<exists>i. aut_issuer_url (set_auth s) = Some i \<and> prefix ''https://'' i)
    \<and> (\<forall>url. dbs_url (set_database s) = Some url \<and> url \<noteq> [] \<longrightarrow>
        (if prefix ''sqlite'' (url_scheme url) then dbs_allow_sqlite (set_database s)
         else dbs_allow_plaintext (set_database s) \<or>
           prefix ''postgresql'' (url_scheme url) \<and>
           (\<exists>mode \<in> {''require'', ''verify-ca'', ''verify-full''}.
              dbs_ssl_mode (set_database s) = Some mode \<or>
              dbs_ssl_mode (set_database s) = None \<and> url_query_value (Some url) ''sslmode'' = Some mode)))
    \<and> (\<forall>url. rds_url (set_redis s) = Some url \<and> url \<noteq> [] \<and> rds_tls_required (set_redis s) \<and> \<not> rds_allow_plaintext (set_redis s)
        \<longrightarrow> url_scheme url = ''rediss'')
    \<and> (set_exports_enabled s \<longrightarrow> set_exports_backend s = STORAGE_S3_COMPATIBLE \<and>
        (\<forall>url. s3s_endpoint_url (set_s3 s) = Some url \<and> url \<noteq> [] \<and> \<not> s3s_allow_plaintext (set_s3 s) \<longrightarrow> url_scheme url = ''https''))
    \<and> ''*'' \<notin> set (crs_allow_origins (set_cors s)) \<and> \<not> set_docs_enabled s
    \<and> (set_invite_delivery s \<longrightarrow> (\<exists>k. set_outbox_key s = Some k \<and> fernet_key k))"
proof -
  from load_settings_run [OF load] obtain k0 where valid: "validate_environment_security s = Inr ()"
    and key: "validate_outbox_token_encryption_key fernet_key k0 = Inr (set_outbox_key s)" by auto
  from valid env have dep: "validate_deployed s = Inr ()" and prod: "validate_production s = Inr ()"
    and rest: "''*'' \<notin> set (crs_allow_origins (set_cors s))" "set_invite_delivery s \<longrightarrow> present (set_outbox_key s)"
    by (auto simp: validate_environment_security_def)
  from prod have issuer: "\<exists>i. aut_issuer_url (set_auth s) = Some i \<and> prefix ''https://'' i" and docs: "\<not> set_docs_enabled s"
    and transports: "validate_production_transport_security s = Inr ()"
    by (auto simp: validate_production_def starts_with_https_def split: option.splits)
  have database: "if prefix ''sqlite'' (url_scheme url) then dbs_allow_sqlite (set_database s)
      else dbs_allow_plaintext (set_database s) \<or> prefix ''postgresql'' (url_scheme url) \<and>
        (\<exists>mode \<in> {''require'', ''verify-ca'', ''verify-full''}. dbs_ssl_mode (set_database s) = Some mode \<or>
           dbs_ssl_mode (set_database s) = None \<and> url_query_value (Some url) ''sslmode'' = Some mode)"
    if "dbs_url (set_database s) = Some url" "url \<noteq> []" for url
    using transports that
    by (auto simp: validate_production_transport_security_def is_sqlite_database_url_def is_secure_database_transport_def
        secure_database_ssl_modes_def url_scheme_of_def split: if_splits option.splits)
  have redis_tls: "url_scheme url = ''rediss''"
    if "rds_url (set_redis s) = Some url" "url \<noteq> []" "rds_tls_required (set_redis s)" "\<not> rds_allow_plaintext (set_redis s)" for url
    using transports that by (simp add: validate_production_transport_security_def is_secure_redis_transport_def url_scheme_of_def)
  have exports: "set_exports_backend s = STORAGE_S3_COMPATIBLE \<and>
      (\<forall>url. s3s_endpoint_url (set_s3 s) = Some url \<and> url \<noteq> [] \<and> \<not> s3s_allow_plaintext (set_s3 s) \<longrightarrow> url_scheme url = ''https'')"
    if "set_exports_enabled s"
    using dep that
    by (cases "set_exports_backend s") (auto simp: validate_deployed_def validate_privacy_exports_security_def url_scheme_of_def)
  have outbox: "\<exists>k. set_outbox_key s = Some k \<and> fernet_key k" if "set_invite_delivery s"
    using rest(2) that key by (auto simp: present_def validate_outbox_token_encryption_key_def split: option.splits if_splits)
  from issuer database redis_tls exports rest(1) docs outbox show ?thesis by blast
qed

subsection \<open>Witnesses\<close>

text \<open>A production deployment behind an enforcing edge.\<close>

definition prod_auth :: auth_settings where
  "prod_auth = \<lparr>aut_enabled = True, aut_issuer_url = Some ''https://id.example'', aut_audience = Some ''api'', aut_client_id = None,
     aut_parties = [''web''], aut_jwks_url = None, aut_leeway_seconds = 30, aut_discovery_ttl_seconds = 300, aut_jwks_ttl_seconds = 300,
     aut_require_kid = True, aut_require_iat = True, aut_max_lifetime_seconds = 3600, aut_metadata = METADATA_FAIL,
     aut_refresh_cooldown = 30000000, aut_lock_timeout = 2000000\<rparr>"

definition prod_limits :: rate_limiting_settings where
  "prod_limits = \<lparr>rls_enabled = True, rls_enforced_by_edge = True, rls_redis_prefix = ''rl'', rls_trust_proxy_headers = True,
     rls_trusted_proxy_cidrs = [''10.0.0.0/8''], rls_pre_auth_enabled = True, rls_edge_header_name = Some ''X-Edge'',
     rls_edge_secret = Some (replicate 32 CHR ''s''), rls_identifier_secret = Some (replicate 32 CHR ''i''), rls_mode = MODE_NORMAL,
     rls_policies = [(''tenant_read'', \<lparr>ovr_limit = Some 60, ovr_window = None, ovr_fail_open = Some True\<rparr>)], rls_environment = ''prod''\<rparr>"

definition prod_settings :: settings where
  "prod_settings = \<lparr>set_environment = ''prod'', set_docs_enabled = False, set_trust_request_id = False,
     set_vault = \<lparr>vlt_enabled = False, vlt_addr = ''http://vault:8200'', vlt_tls_required = True, vlt_allow_plaintext = False\<rparr>,
     set_database = \<lparr>dbs_url = Some ''postgresql://db/app?sslmode=require'', dbs_ssl_mode = None, dbs_allow_plaintext = False, dbs_allow_sqlite = False\<rparr>,
     set_redis = \<lparr>rds_url = Some ''rediss://cache'', rds_tls_required = True, rds_allow_plaintext = False\<rparr>,
     set_outbox_key = Some ''fernet-key'', set_auth = prod_auth, set_rate_limiting = prod_limits, set_invite_delivery = True,
     set_observability = \<lparr>obs_metrics_enabled = False, obs_otlp_exporter = False, obs_otlp_endpoint = None\<rparr>,
     set_governance = \<lparr>gvs_enabled = False, gvs_required = True, gvs_region = None, gvs_processors = []\<rparr>,
     set_cors = \<lparr>crs_enabled = True, crs_allow_origins = [''https://app.example''], crs_allow_credentials = True\<rparr>,
     set_exports_enabled = False, set_exports_backend = STORAGE_LOCAL,
     set_s3 = \<lparr>s3s_endpoint_url = None, s3s_region_name = None, s3s_bucket_name = None, s3s_allow_plaintext = False,
       s3s_access_key_id = None, s3s_secret_access_key = None, s3s_server_side_encryption = Some ''AES256'', s3s_kms_key_id = None\<rparr>\<rparr>"

lemma prod_loads: "\<exists>cfg. load_settings (\<lambda>_. True) prod_settings = Inr cfg \<and> set_auth cfg = prod_auth \<and> set_environment cfg = ''prod''
    \<and> rls_enforced_by_edge (set_rate_limiting cfg)"
proof -
  have "(case load_settings (\<lambda>_. True) prod_settings of Inl _ \<Rightarrow> False
    | Inr cfg \<Rightarrow> set_auth cfg = prod_auth \<and> set_environment cfg = ''prod'' \<and> rls_enforced_by_edge (set_rate_limiting cfg))"
    by code_simp
  then show ?thesis by (auto split: sum.splits)
qed

theorem deployed_settings_protect_witness:
  "\<exists>cfg reg. load_settings (\<lambda>_. True) prod_settings = Inr cfg \<and> aut_enabled (set_auth cfg)
     \<and> build_effective_policy_registry (rate_limits_of cfg) = Inr reg
     \<and> (\<forall>(n, p) \<in> set reg. rlp_sensitivity p \<noteq> SENS_NORMAL \<longrightarrow> \<not> rlp_fail_open p)"
proof -
  obtain cfg where cfg: "load_settings (\<lambda>_. True) prod_settings = Inr cfg" "set_environment cfg = ''prod''" using prod_loads by blast
  from cfg(2) have "set_environment cfg \<in> {''staging'', ''prod''}" by simp
  from deployed_settings_protect [OF cfg(1) this] cfg(1) show ?thesis by blast
qed

theorem production_transports_witness:
  "\<exists>cfg. load_settings (\<lambda>_. True) prod_settings = Inr cfg \<and> ''*'' \<notin> set (crs_allow_origins (set_cors cfg))
     \<and> (\<exists>i. aut_issuer_url (set_auth cfg) = Some i \<and> prefix ''https://'' i)"
proof -
  obtain cfg where cfg: "load_settings (\<lambda>_. True) prod_settings = Inr cfg" "set_environment cfg = ''prod''" using prod_loads by blast
  from production_transports [OF cfg] cfg(1) show ?thesis by blast
qed

end
