(* ===== verification/Authentication_Theorems.thy ===== *)
theory Authentication_Theorems
  imports Key_Refresh Settings_Theorems
begin

section \<open>Who is let in\<close>

text \<open>
  A key set in a cache was answered at the URL that is configured or that the issuer's own discovery
  document names; a principal comes from a token whose signature such a key verifies, with the claims
  the settings ask for.
\<close>

subsection \<open>Where keys come from\<close>

text \<open>The identity provider answered a request for the URL with the document.\<close>

definition served :: "auth_state \<Rightarrow> string \<Rightarrow> json_object \<Rightarrow> bool" where
  "served s url d \<longleftrightarrow> (\<exists>n < length (ast_fetches s). ast_fetches s ! n = url \<and> ast_answers s n url = Some (JObj d))"

definition key_set_url :: "auth_settings \<Rightarrow> auth_state \<Rightarrow> string \<Rightarrow> bool" where
  "key_set_url S s url \<longleftrightarrow> (case aut_jwks_url S of
     Some u \<Rightarrow> url = u
   | None \<Rightarrow> \<exists>i d. aut_issuer_url S = Some i \<and> served s (well_known_url i) d \<and> map_of d ''jwks_uri'' = Some (JStr url))"

definition key_set :: "auth_settings \<Rightarrow> auth_state \<Rightarrow> json_object \<Rightarrow> bool" where
  "key_set S s jwks \<longleftrightarrow> (\<exists>url. key_set_url S s url \<and> served s url jwks)"

definition caches_trusted :: "auth_settings \<Rightarrow> auth_state \<Rightarrow> bool" where
  "caches_trusted S s \<longleftrightarrow>
     (\<forall>d e. ast_discovery s = Some (d, e) \<longrightarrow> (\<exists>i. aut_issuer_url S = Some i \<and> served s (well_known_url i) d)) \<and>
     (\<forall>j e. ast_jwks s = Some (j, e) \<longrightarrow> key_set S s j)"

text \<open>How a state goes on: the fetches and the time grow, the surroundings stay.\<close>

definition goes_on :: "auth_state \<Rightarrow> auth_state \<Rightarrow> bool" where
  "goes_on s t \<longleftrightarrow> ast_answers t = ast_answers s \<and> prefix (ast_fetches s) (ast_fetches t) \<and>
     ast_wall t = ast_wall s \<and> ast_wall_pos s \<le> ast_wall_pos t"

lemma goes_on_refl [simp]: "goes_on s s"
  by (simp add: goes_on_def)

lemma goes_on_trans: "goes_on s t \<Longrightarrow> goes_on t u \<Longrightarrow> goes_on s u"
  by (auto simp: goes_on_def intro: prefix_order.trans)

lemma served_goes_on: "served s url d \<Longrightarrow> goes_on s t \<Longrightarrow> served t url d"
  unfolding served_def goes_on_def by (fastforce simp: prefix_def nth_append)

lemma key_set_goes_on:
  "key_set_url S s url \<Longrightarrow> goes_on s t \<Longrightarrow> key_set_url S t url"
  "key_set S s j \<Longrightarrow> goes_on s t \<Longrightarrow> key_set S t j"
  by (auto simp: key_set_def key_set_url_def split: option.splits intro: served_goes_on)

lemma trusted_goes_on:
  "caches_trusted S s \<Longrightarrow> goes_on s t \<Longrightarrow> ast_discovery t = ast_discovery s \<Longrightarrow> ast_jwks t = ast_jwks s \<Longrightarrow> caches_trusted S t"
  unfolding caches_trusted_def using served_goes_on [of s _ _ t] key_set_goes_on(2) [of S s _ t] by metis

lemma fetch_run:
  "fetch_json_async url s = (r, s') \<Longrightarrow> goes_on s s' \<and> ast_discovery s' = ast_discovery s \<and> ast_jwks s' = ast_jwks s
     \<and> (\<forall>d. r = Inr d \<longrightarrow> served s' url d)"
  by (auto simp: fetch_json_async_def identity_provider_answer_def bind_def raise_def ret_def goes_on_def served_def
      split: option.splits json.splits)

text \<open>A cached document that has not expired.\<close>

lemma cache_hit_run:
  fixes cache :: "(json_object \<times> int) option"
  assumes "(case cache of None \<Rightarrow> ret None
      | Some (d, expires_at) \<Rightarrow> bind wall_time (\<lambda>now. ret (if now < expires_at then Some d else None))) s = (r, s')"
  shows "goes_on s s' \<and> ast_discovery s' = ast_discovery s \<and> ast_jwks s' = ast_jwks s
    \<and> (\<exists>hit. r = Inr hit \<and> (\<forall>d. hit = Some d \<longrightarrow> (\<exists>e. cache = Some (d, e))))"
  using assms
  by (cases cache) (auto simp: bind_def ret_def wall_time_def goes_on_def split: prod.splits if_splits)

lemma discovery_run:
  assumes "get_discovery_document S s = (r, s')" and T: "caches_trusted S s"
  shows "goes_on s s' \<and> caches_trusted S s' \<and> (\<forall>d. r = Inr d \<longrightarrow> (\<exists>i. aut_issuer_url S = Some i \<and> served s' (well_known_url i) d))"
proof -
  obtain h s1 where hit: "(case ast_discovery s of None \<Rightarrow> ret None
      | Some (d, expires_at) \<Rightarrow> bind wall_time (\<lambda>now. ret (if now < expires_at then Some d else None))) s = (Inr h, s1)"
    using cache_hit_run by (metis surj_pair)
  note h = cache_hit_run [OF hit]
  have T1: "caches_trusted S s1" using trusted_goes_on [OF T] h by auto
  show ?thesis
  proof (cases h)
    case (Some d)
    with assms(1) hit have "r = Inr d" "s' = s1"
      by (simp_all add: get_discovery_document_def bind_def gets_def ret_def)
    with h T1 Some show ?thesis by (auto simp: caches_trusted_def)
  next
    case None
    let ?i = "the (aut_issuer_url S)"
    from assms(1) hit None have rest: "bind (ensure (present (aut_issuer_url S)) (UnauthorizedError ''Invalid authentication configuration''))
        (\<lambda>_. bind (fetch_json_async (well_known_url ?i)) (\<lambda>document. bind wall_time (\<lambda>now s.
         (Inr document, s\<lparr>ast_discovery := Some (document, now + aut_discovery_ttl_seconds S * 1000000)\<rparr>)))) s1 = (r, s')"
      by (simp add: get_discovery_document_def bind_def gets_def)
    obtain x s2 where f: "fetch_json_async (well_known_url ?i) s1 = (x, s2)" by (metis surj_pair)
    note f' = fetch_run [OF f]
    have T2: "caches_trusted S s2" using trusted_goes_on [OF T1] f' by auto
    show ?thesis
    proof (cases "present (aut_issuer_url S)")
      case False
      with rest h T1 show ?thesis by (auto simp: bind_def ensure_def)
    next
      case True
      then obtain i where i: "aut_issuer_url S = Some i" by (auto simp: present_def)
      show ?thesis
      proof (cases x)
        case (Inl e)
        with rest True f have "r = Inl e" "s' = s2" by (auto simp: bind_def ensure_def)
        with T2 h f' show ?thesis by (auto intro: goes_on_trans)
      next
        case (Inr d)
        with rest True f have r: "r = Inr d" and s': "\<exists>t. s' = s2\<lparr>ast_wall_pos := Suc (ast_wall_pos s2), ast_discovery := Some (d, t)\<rparr>"
          by (auto simp: bind_def ensure_def wall_time_def)
        from s' have on: "goes_on s2 s'" by (auto simp: goes_on_def)
        have "served s' (well_known_url i) d" using f' Inr i served_goes_on [OF _ on] by simp
        moreover have "ast_jwks s' = ast_jwks s2" "\<exists>t. ast_discovery s' = Some (d, t)" using s' by auto
        ultimately have "caches_trusted S s'"
          using T2 i key_set_goes_on(2) [OF _ on] by (auto simp: caches_trusted_def)
        with \<open>served s' (well_known_url i) d\<close> i r h f' on show ?thesis by (auto intro: goes_on_trans)
      qed
    qed
  qed
qed

lemma resolve_url_run:
  assumes "resolve_jwks_url S s = (r, s')" and T: "caches_trusted S s"
  shows "goes_on s s' \<and> caches_trusted S s' \<and> (\<forall>url. r = Inr url \<longrightarrow> key_set_url S s' url)"
proof (cases "aut_jwks_url S")
  case None
  obtain x s1 where d: "get_discovery_document S s = (x, s1)" by (metis surj_pair)
  with assms(1) None have "s' = s1 \<and> (\<forall>url. r = Inr url \<longrightarrow> (\<exists>d. x = Inr d \<and> map_of d ''jwks_uri'' = Some (JStr url)))"
    by (auto simp: resolve_jwks_url_def bind_def raise_def ret_def split: sum.splits option.splits json.splits if_splits)
  with discovery_run [OF d T] None show ?thesis by (auto simp: key_set_url_def) blast
qed (use assms in \<open>auto simp: resolve_jwks_url_def ret_def key_set_url_def\<close>)

definition usable_keys :: "json_object \<Rightarrow> json list \<Rightarrow> bool" where
  "usable_keys j keys \<longleftrightarrow> map_of j ''keys'' = Some (JList keys)"

lemma payload_run: "validate_jwks_payload j s = (r, s') \<Longrightarrow> s' = s \<and> (\<forall>keys. r = Inr keys \<longrightarrow> usable_keys j keys)"
  by (auto simp: validate_jwks_payload_def raise_def ret_def usable_keys_def split: option.splits json.splits if_splits)

lemma fetch_key_set_run:
  assumes "fetch_and_cache_jwks S s = (r, s')" and T: "caches_trusted S s"
  shows "goes_on s s' \<and> caches_trusted S s' \<and> (\<forall>j. r = Inr j \<longrightarrow> key_set S s' j)"
proof -
  obtain x s1 where u: "resolve_jwks_url S s = (x, s1)" by (metis surj_pair)
  note u' = resolve_url_run [OF u T]
  show ?thesis
  proof (cases x)
    case (Inl e)
    with u assms(1) u' show ?thesis by (auto simp: fetch_and_cache_jwks_def bind_def)
  next
    case (Inr url)
    obtain y s2 where f: "fetch_json_async url s1 = (y, s2)" by (metis surj_pair)
    note f' = fetch_run [OF f]
    have T2: "caches_trusted S s2" using trusted_goes_on [of S s1 s2] u' f' by auto
    show ?thesis
    proof (cases y)
      case (Inl e)
      with Inr u f assms(1) have "r = Inl e" "s' = s2" by (auto simp: fetch_and_cache_jwks_def bind_def)
      with T2 u' f' show ?thesis by (auto intro: goes_on_trans)
    next
      case (Inr j)
      obtain z s3 where p: "validate_jwks_payload j s2 = (z, s3)" by (metis surj_pair)
      note p' = payload_run [OF p]
      show ?thesis
      proof (cases z)
        case (Inl e)
        with Inr \<open>x = Inr url\<close> u f p p' assms(1) have "r = Inl e" "s' = s2" by (auto simp: fetch_and_cache_jwks_def bind_def)
        with T2 u' f' show ?thesis by (auto intro: goes_on_trans)
      next
        case (Inr keys)
        with \<open>y = Inr j\<close> \<open>x = Inr url\<close> u f p p' assms(1) have r: "r = Inr j"
          and s': "\<exists>t. s' = s2\<lparr>ast_wall_pos := Suc (ast_wall_pos s2), ast_jwks := Some (j, t)\<rparr>"
          by (auto simp: fetch_and_cache_jwks_def bind_def wall_time_def)
        from s' have on: "goes_on s2 s'" by (auto simp: goes_on_def)
        have "key_set_url S s' url"
          using key_set_goes_on(1) [OF _ goes_on_trans [OF _ on]] u' f' \<open>x = Inr url\<close> by blast
        moreover have "served s' url j" using f' \<open>y = Inr j\<close> served_goes_on [OF _ on] by simp
        ultimately have j: "key_set S s' j" by (auto simp: key_set_def)
        have "ast_discovery s' = ast_discovery s2" "\<exists>t. ast_jwks s' = Some (j, t)" using s' by auto
        with T2 j have "caches_trusted S s'"
          using served_goes_on [OF _ on] by (auto simp: caches_trusted_def)
        with j r u' f' on show ?thesis by (auto intro: goes_on_trans)
      qed
    qed
  qed
qed

lemma get_jwks_run:
  assumes "get_jwks S s = (r, s')" and T: "caches_trusted S s"
  shows "goes_on s s' \<and> caches_trusted S s' \<and> (\<forall>j. r = Inr j \<longrightarrow> key_set S s' j)"
proof -
  obtain h s1 where hit: "(case ast_jwks s of None \<Rightarrow> ret None
      | Some (d, expires_at) \<Rightarrow> bind wall_time (\<lambda>now. ret (if now < expires_at then Some d else None))) s = (Inr h, s1)"
    using cache_hit_run by (metis surj_pair)
  note h = cache_hit_run [OF hit]
  have T1: "caches_trusted S s1" using trusted_goes_on [OF T] h by auto
  show ?thesis
  proof (cases h)
    case (Some d)
    with assms(1) hit have "r = Inr d" "s' = s1" by (simp_all add: get_jwks_def bind_def gets_def ret_def)
    with h T1 Some show ?thesis by (auto simp: caches_trusted_def)
  next
    case None
    with assms(1) hit have "fetch_and_cache_jwks S s1 = (r, s')" by (simp add: get_jwks_def bind_def gets_def)
    from fetch_key_set_run [OF this T1] h show ?thesis by (auto intro: goes_on_trans)
  qed
qed

lemma cached_run: "cached_jwks s = (r, s') \<Longrightarrow> caches_trusted S s \<Longrightarrow> s' = s \<and> (\<forall>j. r = Inr (Some j) \<longrightarrow> key_set S s j)"
  by (auto simp: cached_jwks_def gets_def caches_trusted_def)

lemma forced_fetch_run:
  assumes "forced_fetch S s = (r, s')" and T: "caches_trusted S s"
  shows "goes_on s s' \<and> caches_trusted S s' \<and> (\<forall>j. r = Inr (Some j) \<longrightarrow> key_set S s' j)"
proof -
  obtain x s1 where f: "fetch_and_cache_jwks S s = (x, s1)" by (metis surj_pair)
  note f' = fetch_key_set_run [OF f T]
  show ?thesis
  proof (cases x)
    case (Inr j)
    with f assms(1) f' show ?thesis by (auto simp: forced_fetch_def try_except_def bind_def ret_def)
  next
    case (Inl e)
    show ?thesis
    proof (cases "is_unauthorized e")
      case True
      with Inl f assms(1) have "cached_jwks s1 = (r, s')" by (simp add: forced_fetch_def try_except_def bind_def)
      with cached_run [of s1 r s' S] f' show ?thesis by auto
    next
      case False
      with Inl f assms(1) f' show ?thesis by (auto simp: forced_fetch_def try_except_def bind_def)
    qed
  qed
qed

lemma key_refresh_run:
  assumes "refresh_jwks_after_kid_miss S s = (r, s')" and T: "caches_trusted S s"
  shows "goes_on s s' \<and> caches_trusted S s' \<and> (\<forall>j. r = Inr (Some j) \<longrightarrow> key_set S s' j)"
proof -
  have small: "goes_on t t' \<and> ast_discovery t' = ast_discovery t \<and> ast_jwks t' = ast_jwks t"
    if "within_cooldown S t = (x, t') \<or> acquire_refresh_lock t = (x, t') \<or> claim_forced_refresh S t = (x, t')" for t x t'
    using that by (auto simp: within_cooldown_def acquire_refresh_lock_def claim_forced_refresh_def monotonic_def bind_def gets_def
        ret_def goes_on_def split: if_splits)
  have T': "goes_on t t' \<and> caches_trusted S t'"
    if "within_cooldown S t = (x, t') \<or> acquire_refresh_lock t = (x, t') \<or> claim_forced_refresh S t = (x, t')" "caches_trusted S t" for t x t'
    using small [OF that(1)] trusted_goes_on [OF that(2)] by auto
  have ok: "\<exists>b t'. within_cooldown S t = (Inr b, t')" "\<exists>b t'. acquire_refresh_lock t = (Inr b, t')" "\<exists>b t'. claim_forced_refresh S t = (Inr b, t')" for t
    by (auto simp: within_cooldown_def acquire_refresh_lock_def claim_forced_refresh_def monotonic_def bind_def gets_def ret_def)
  obtain b1 s1 where 1: "within_cooldown S s = (Inr b1, s1)" using ok(1) by blast
  obtain b2 s2 where 2: "acquire_refresh_lock s1 = (Inr b2, s2)" using ok(2) by blast
  obtain b3 s3 where 3: "claim_forced_refresh S s2 = (Inr b3, s3)" using ok(3) by blast
  have T1: "goes_on s s1" "caches_trusted S s1" using T' [of s "Inr b1" s1] 1 T by auto
  have T2: "goes_on s1 s2" "caches_trusted S s2" using T' [of s1 "Inr b2" s2] 2 T1 by auto
  have T3: "goes_on s2 s3" "caches_trusted S s3" using T' [of s2 "Inr b3" s3] 3 T2 by auto
  from assms(1) 1 2 3 have "b1 \<and> cached_jwks s1 = (r, s') \<or> \<not> b1 \<and> \<not> b2 \<and> cached_jwks s2 = (r, s')
      \<or> \<not> b1 \<and> b2 \<and> \<not> b3 \<and> cached_jwks s3 = (r, s') \<or> \<not> b1 \<and> b2 \<and> b3 \<and> forced_fetch S s3 = (r, s')"
    by (auto simp: refresh_jwks_after_kid_miss_def bind_def split: if_splits)
  then show ?thesis
    using cached_run [OF _ T1(2)] cached_run [OF _ T2(2)] cached_run [OF _ T3(2)] forced_fetch_run [OF _ T3(2)] T1 T2 T3
      goes_on_trans by metis
qed

subsection \<open>What a token must be\<close>

lemma jwk_with_kid_member: "jwk_with_kid kid keys = Some jwk \<Longrightarrow> JObj jwk \<in> set keys \<and> json_get jwk ''kid'' = kid"
  by (induction kid keys rule: jwk_with_kid.induct) (auto split: if_splits)

definition key_for :: "'k jwt_library \<Rightarrow> json_object \<Rightarrow> json_object \<Rightarrow> 'k \<Rightarrow> bool" where
  "key_for lib j header_fields key \<longleftrightarrow> (\<exists>keys jwk. map_of j ''keys'' = Some (JList keys) \<and> JObj jwk \<in> set keys
     \<and> json_get jwk ''kid'' = json_get header_fields ''kid'' \<and> json_get jwk ''kty'' = JStr ''RSA'' \<and> jwl_rsa_key lib (JObj jwk) = Some key)"

lemma key_from_set_run:
  assumes "resolve_signing_key_from_jwks lib j h s = (Inr x, s')"
  shows "s' = s \<and> (\<forall>key. x = Some key \<longrightarrow> key_for lib j h key)"
proof -
  from assms obtain keys where p: "validate_jwks_payload j s = (Inr keys, s)"
    and rest: "(case jwk_with_kid (json_get h ''kid'') keys of None \<Rightarrow> ret None
      | Some jwk \<Rightarrow> bind (public_key_from_jwk lib jwk) (\<lambda>key. ret (Some key))) s = (Inr x, s')"
    using payload_run by (fastforce simp: resolve_signing_key_from_jwks_def bind_Inr)
  show ?thesis
  proof (cases "jwk_with_kid (json_get h ''kid'') keys")
    case (Some jwk)
    with jwk_with_kid_member [OF Some] payload_run [OF p] rest show ?thesis
      by (auto simp: public_key_from_jwk_def run_rules key_for_def usable_keys_def split: if_splits option.splits)
  qed (use rest in \<open>auto simp: ret_def\<close>)
qed

lemma signing_key_run:
  assumes "resolve_signing_key lib S h s = (Inr key, s')" and T: "caches_trusted S s"
  shows "goes_on s s' \<and> caches_trusted S s' \<and> (\<exists>j. key_set S s' j \<and> key_for lib j h key)"
proof -
  from assms(1) obtain j s1 found s2 where g: "get_jwks S s = (Inr j, s1)"
    and f: "resolve_signing_key_from_jwks lib j h s1 = (Inr found, s2)"
    and rest: "(case found of Some key \<Rightarrow> ret key
      | None \<Rightarrow> bind (refresh_jwks_after_kid_miss S) (\<lambda>refreshed.
          bind (case refreshed of None \<Rightarrow> ret None | Some jwks' \<Rightarrow> resolve_signing_key_from_jwks lib jwks' h) (\<lambda>again.
          case again of Some key \<Rightarrow> ret key | None \<Rightarrow> raise (UnauthorizedError ''Invalid bearer token'')))) s2 = (Inr key, s')"
    by (auto simp: resolve_signing_key_def bind_Inr)
  note g' = get_jwks_run [OF g T] and f' = key_from_set_run [OF f]
  show ?thesis
  proof (cases found)
    case (Some k)
    with rest f' g' show ?thesis by (auto simp: ret_def)
  next
    case None
    with rest obtain refreshed s3 again s4 where r: "refresh_jwks_after_kid_miss S s2 = (Inr refreshed, s3)"
      and a: "(case refreshed of None \<Rightarrow> ret None | Some jwks' \<Rightarrow> resolve_signing_key_from_jwks lib jwks' h) s3 = (Inr again, s4)"
      and k: "(case again of Some key \<Rightarrow> ret key | None \<Rightarrow> raise (UnauthorizedError ''Invalid bearer token'')) s4 = (Inr key, s')"
      by (auto simp: bind_Inr)
    from k have again: "again = Some key" "s' = s4" by (auto simp: ret_def raise_def split: option.splits)
    with a obtain j' where j': "refreshed = Some j'" "resolve_signing_key_from_jwks lib j' h s3 = (Inr (Some key), s4)"
      by (auto simp: ret_def split: option.splits)
    from f' g' have "caches_trusted S s2" "goes_on s s2" by auto
    with key_refresh_run [OF r] key_from_set_run [OF j'(2)] j'(1) again show ?thesis by (auto intro: goes_on_trans)
  qed
qed

text \<open>The audiences a token names: a text or a list of texts.\<close>

definition names_audience :: "json_object \<Rightarrow> string \<Rightarrow> bool" where
  "names_audience claims a \<longleftrightarrow> (case map_of claims ''aud'' of
     Some (JStr t) \<Rightarrow> t = a
   | Some (JList xs) \<Rightarrow> List.member xs (JStr a)
   | _ \<Rightarrow> False)"

text \<open>
  What the documentation of PyJWT says of \<open>decode\<close>: the payload it returns was signed with the key under
  one of the algorithms, has not expired (but for the leeway), and has the issuer and the audience it was
  asked for.
\<close>

definition pyjwt_documented :: "'k jwt_library \<Rightarrow> (string \<Rightarrow> string \<Rightarrow> 'k \<Rightarrow> json_object \<Rightarrow> bool) \<Rightarrow> bool" where
  "pyjwt_documented lib signs \<longleftrightarrow> (\<forall>token key opts now claims. jwl_decode lib token key opts now = Some (JObj claims) \<longrightarrow>
     (\<exists>alg \<in> set (dco_algorithms opts). signs alg token key claims)
     \<and> (\<forall>e. json_int (json_get claims ''exp'') = Some e \<longrightarrow> now - dco_leeway_seconds opts * 1000000 < e * 1000000)
     \<and> (\<forall>i. dco_verify_iss opts \<and> dco_issuer opts = Some i \<longrightarrow> map_of claims ''iss'' = Some (JStr i))
     \<and> (\<forall>a. dco_verify_aud opts \<and> dco_audience opts = Some a \<longrightarrow> names_audience claims a))"

text \<open>A payload with which \<open>jwt_validate_token\<close> is content, decoded at a time.\<close>

definition acceptable_claims :: "auth_settings \<Rightarrow> json_object \<Rightarrow> int \<Rightarrow> bool" where
  "acceptable_claims S claims now \<longleftrightarrow>
     (aut_parties S \<noteq> [] \<longrightarrow> (\<exists>azp \<in> set (aut_parties S). map_of claims ''azp'' = Some (JStr azp))) \<and>
     (\<exists>e. json_int (json_get claims ''exp'') = Some e \<and> now - aut_leeway_seconds S * 1000000 < e * 1000000 \<and>
        (\<forall>i. json_int (json_get claims ''iat'') = Some i \<longrightarrow> i \<le> e \<and> e - i \<le> aut_max_lifetime_seconds S)) \<and>
     (aut_require_iat S \<longrightarrow> json_int (json_get claims ''iat'') \<noteq> None) \<and>
     (\<forall>i. aut_issuer_url S = Some i \<longrightarrow> map_of claims ''iss'' = Some (JStr i)) \<and>
     (\<forall>a. aut_audience S = Some a \<longrightarrow> names_audience claims a)"

lemma party_run: "validate_authorized_party S c s = (Inr u, s') \<Longrightarrow>
    s' = s \<and> (aut_parties S \<noteq> [] \<longrightarrow> (\<exists>azp \<in> set (aut_parties S). map_of c ''azp'' = Some (JStr azp)))"
  by (auto simp: validate_authorized_party_def run_rules split: if_splits option.splits json.splits)

lemma lifetime_run: "validate_token_lifetime S c s = (Inr u, s') \<Longrightarrow> s' = s \<and>
    (\<exists>e. json_int (json_get c ''exp'') = Some e \<and>
       (\<forall>i. json_int (json_get c ''iat'') = Some i \<longrightarrow> i \<le> e \<and> e - i \<le> aut_max_lifetime_seconds S)) \<and>
    (aut_require_iat S \<longrightarrow> json_int (json_get c ''iat'') \<noteq> None)"
  by (auto simp: validate_token_lifetime_def Let_def run_rules split: if_splits option.splits)

definition check_decoded :: "'k jwt_library \<Rightarrow> auth_settings \<Rightarrow> string \<Rightarrow> 'k \<Rightarrow> json_object auth" where
  "check_decoded lib S token signing_key = bind wall_time (\<lambda>now.
     case jwl_decode lib token signing_key (decode_options_of S) now of
       Some (JObj decoded) \<Rightarrow>
         bind (validate_authorized_party S decoded) (\<lambda>_. bind (validate_token_lifetime S decoded) (\<lambda>_. ret decoded))
     | _ \<Rightarrow> raise (UnauthorizedError ''Invalid bearer token''))"

lemmas jwt_validate_token_eq = jwt_validate_token_def [folded check_decoded_def]

lemma jwt_validate_token_run:
  assumes run: "jwt_validate_token lib S token s = (Inr claims, s')" and T: "caches_trusted S s" and lib: "pyjwt_documented lib signs"
  shows "goes_on s s' \<and> caches_trusted S s' \<and> aut_enabled S \<and>
    (\<exists>h j key n. jwl_header lib token = Some (JObj h) \<and> json_get h ''alg'' = JStr ''RS256'' \<and> key_set S s' j \<and> key_for lib j h key
       \<and> signs ''RS256'' token key claims \<and> ast_wall_pos s \<le> n \<and> acceptable_claims S claims (ast_wall s n))"
proof -
  from run obtain h where h: "jwl_header lib token = Some (JObj h)" "aut_enabled S" and
    rest: "bind (ensure (json_get h ''alg'' = JStr auth_algorithm) (UnauthorizedError ''Invalid bearer token'')) (\<lambda>_.
         bind (ensure (\<not> (aut_require_kid S \<and> \<not> is_text (json_get h ''kid''))) (UnauthorizedError ''Invalid bearer token'')) (\<lambda>_.
         bind (resolve_signing_key lib S h) (check_decoded lib S token))) s = (Inr claims, s')"
    by (auto simp: jwt_validate_token_eq bind_Inr ensure_run raise_run split: option.splits json.splits)
  then obtain s1 key where alg: "json_get h ''alg'' = JStr auth_algorithm" and k: "resolve_signing_key lib S h s = (Inr key, s1)"
    and chk: "check_decoded lib S token key s1 = (Inr claims, s')"
    by (auto simp: bind_Inr ensure_run)
  from chk obtain decoded where
    d: "jwl_decode lib token key (decode_options_of S) (ast_wall s1 (ast_wall_pos s1)) = Some (JObj decoded)"
    and chk': "bind (validate_authorized_party S decoded) (\<lambda>_. bind (validate_token_lifetime S decoded) (\<lambda>_. ret decoded))
      (s1\<lparr>ast_wall_pos := Suc (ast_wall_pos s1)\<rparr>) = (Inr claims, s')"
    by (auto simp: check_decoded_def bind_Inr wall_time_def raise_run split: option.splits json.splits)
  define s2 where s2: "s2 = s1\<lparr>ast_wall_pos := Suc (ast_wall_pos s1)\<rparr>"
  from chk' obtain s3 where a: "validate_authorized_party S decoded s2 = (Inr (), s3)"
    and l: "validate_token_lifetime S decoded s3 = (Inr (), s')" and c: "claims = decoded"
    by (auto simp: bind_Inr ret_run s2)
  note k' = signing_key_run [OF k T] and a' = party_run [OF a] and l' = lifetime_run [OF l]
  have s': "s' = s2" using a' l' by simp
  have on: "goes_on s1 s2" using s2 by (simp add: goes_on_def)
  have T2: "caches_trusted S s2" using trusted_goes_on [of S s1 s2] k' on s2 by simp
  from d lib have doc: "signs ''RS256'' token key decoded"
    "\<forall>e. json_int (json_get decoded ''exp'') = Some e \<longrightarrow> ast_wall s1 (ast_wall_pos s1) - aut_leeway_seconds S * 1000000 < e * 1000000"
    "\<forall>i. aut_issuer_url S = Some i \<longrightarrow> map_of decoded ''iss'' = Some (JStr i)"
    "\<forall>a. aut_audience S = Some a \<longrightarrow> names_audience decoded a"
    by (force simp: pyjwt_documented_def decode_options_of_def auth_algorithm_def)+
  have "acceptable_claims S claims (ast_wall s1 (ast_wall_pos s1))"
    unfolding acceptable_claims_def using doc a' l' c by auto
  moreover have "ast_wall s1 = ast_wall s" "ast_wall_pos s \<le> ast_wall_pos s1" using k' by (auto simp: goes_on_def)
  moreover have "goes_on s s2" using k' on goes_on_trans by blast
  ultimately show ?thesis
    using h alg k' T2 s' doc(1) c key_set_goes_on(2) [OF _ on] by (auto simp: auth_algorithm_def)
qed

end
