(* ===== verification/Authentication_Properties.thy ===== *)
theory Authentication_Properties
  imports Authentication_Theorems
begin

section \<open>Properties of authentication\<close>

lemma claims_principal:
  assumes "from_verified_jwt_claims email_form claims s = (Inr p, s')"
  shows "s' = s \<and> map_of claims ''sub'' = Some (JStr (idn_external_auth_id p)) \<and> idn_external_auth_id p \<noteq> []"
proof -
  from assms obtain q where q: "jwt_claims_payload email_form claims = Some q" "to_authenticated_principal email_form q = Some p" "s' = s"
    by (auto simp: from_verified_jwt_claims_def raise_def ret_def Option.bind_eq_Some_conv split: option.splits)
  from q(2) have "idn_external_auth_id p = idn_external_auth_id q" "idn_external_auth_id p \<noteq> []"
    by (auto simp: to_authenticated_principal_def split: if_splits option.splits)
  moreover have "required_field claims ''sub'' (\<lambda>t. if t = [] then None else Some t) = Some (idn_external_auth_id q)"
    using q(1) unfolding jwt_claims_payload_def by (fastforce split: option.splits prod.splits)
  then have "map_of claims ''sub'' = Some (JStr (idn_external_auth_id q))"
    by (auto simp: required_field_def split: option.splits json.splits if_splits)
  ultimately show ?thesis using q(3) by simp
qed

lemma fresh_validator: "get_jwt_validator S s = (r, s') \<Longrightarrow>
    caches_trusted S s \<or> ast_signature s \<noteq> Some (validator_signature S) \<Longrightarrow> goes_on s s' \<and> caches_trusted S s'"
  by (auto simp: get_jwt_validator_def goes_on_def caches_trusted_def split: if_splits)

text \<open>C5: Only the issuer's tokens let somebody in. With settings that load in staging or production, a request is
  given a principal only if its header carries one bearer token; the token's RS256 signature verifies under
  an RSA key with the key id the token names, in a key set answered at the configured URL or at the one the
  issuer's own discovery document announces; its issuer and audience are the configured ones, its authorised
  party is allowed, it has not expired and was not issued for longer than the settings allow; and its subject
  is the account of the principal. The caches stay such that this holds of the next request too.\<close>

theorem accepted_principal:
  assumes load: "load_settings fernet_key s0 = Inr cfg" and env: "set_environment cfg \<in> {''staging'', ''prod''}"
    and lib: "pyjwt_documented lib signs"
    and T: "caches_trusted (set_auth cfg) s \<or> ast_signature s \<noteq> Some (validator_signature (set_auth cfg))"
    and run: "get_authenticated_principal lib email_form (set_auth cfg) rq s = (Inr (Some p), s')"
  shows "caches_trusted (set_auth cfg) s' \<and>
    (\<exists>token h j key claims n issuer audience e. extract_bearer_token rq s = (Inr (Some token), s)
      \<and> jwl_header lib token = Some (JObj h) \<and> json_get h ''alg'' = JStr ''RS256''
      \<and> key_set (set_auth cfg) s' j \<and> key_for lib j h key \<and> signs ''RS256'' token key claims
      \<and> aut_issuer_url (set_auth cfg) = Some issuer \<and> map_of claims ''iss'' = Some (JStr issuer)
      \<and> aut_audience (set_auth cfg) = Some audience \<and> names_audience claims audience
      \<and> (\<exists>azp \<in> set (aut_parties (set_auth cfg)). map_of claims ''azp'' = Some (JStr azp))
      \<and> ast_wall_pos s \<le> n \<and> json_int (json_get claims ''exp'') = Some e
      \<and> ast_wall s n - aut_leeway_seconds (set_auth cfg) * 1000000 < e * 1000000
      \<and> (\<forall>i. json_int (json_get claims ''iat'') = Some i \<longrightarrow> i \<le> e \<and> e - i \<le> aut_max_lifetime_seconds (set_auth cfg))
      \<and> map_of claims ''sub'' = Some (JStr (idn_external_auth_id p)) \<and> idn_external_auth_id p \<noteq> [])"
proof -
  let ?S = "set_auth cfg"
  have "validate_deployed cfg = Inr ()" using deployed_checks [OF load_settings_run(1) [OF load] env] .
  then obtain issuer audience where dep: "aut_issuer_url ?S = Some issuer" "aut_audience ?S = Some audience" "aut_parties ?S \<noteq> []"
    by (auto simp: validate_deployed_def present_def)
  from run obtain token s1 s2 claims s3 where b: "extract_bearer_token rq s = (Inr (Some token), s1)"
    and v: "get_jwt_validator ?S s1 = (Inr (), s2)" and c: "jwt_validate_token lib ?S token s2 = (Inr claims, s3)"
    and p: "from_verified_jwt_claims email_form claims s3 = (Inr p, s')"
    by (auto simp: get_authenticated_principal_def bind_Inr ret_run split: option.splits)
  have s1: "s1 = s"
    using b by (auto simp: extract_bearer_token_def ret_def raise_def split: option.splits list.splits if_splits)
  note v' = fresh_validator [OF v [unfolded s1] T]
  note c' = jwt_validate_token_run [OF c conjunct2 [OF v'] lib] and p' = claims_principal [OF p]
  from c' obtain h j key n where tok: "jwl_header lib token = Some (JObj h)" "json_get h ''alg'' = JStr ''RS256''" "key_set ?S s3 j"
    "key_for lib j h key" "signs ''RS256'' token key claims" "ast_wall_pos s2 \<le> n" "acceptable_claims ?S claims (ast_wall s2 n)" by auto
  from tok(7) dep have acc: "map_of claims ''iss'' = Some (JStr issuer)" "names_audience claims audience"
    "\<exists>azp \<in> set (aut_parties ?S). map_of claims ''azp'' = Some (JStr azp)"
    by (auto simp: acceptable_claims_def)
  have time: "ast_wall s2 = ast_wall s" "ast_wall_pos s \<le> ast_wall_pos s2" using v' by (auto simp: goes_on_def)
  from tok(7) obtain e where e: "json_int (json_get claims ''exp'') = Some e" "ast_wall s n - aut_leeway_seconds ?S * 1000000 < e * 1000000"
    "\<forall>i. json_int (json_get claims ''iat'') = Some i \<longrightarrow> i \<le> e \<and> e - i \<le> aut_max_lifetime_seconds ?S"
    unfolding acceptable_claims_def time(1) by auto
  have n: "ast_wall_pos s \<le> n" using tok(6) time(2) by simp
  have s': "s3 = s'" "caches_trusted ?S s'" using p' c' by auto
  have bearer: "extract_bearer_token rq s = (Inr (Some token), s)" using b s1 by simp
  have account: "map_of claims ''sub'' = Some (JStr (idn_external_auth_id p))" "idn_external_auth_id p \<noteq> []" using p' by auto
  note key = tok(3) [unfolded s'(1)]
  show ?thesis
    by (intro conjI exI [of _ token] exI [of _ h] exI [of _ j] exI [of _ key] exI [of _ claims] exI [of _ n] exI [of _ issuer]
        exI [of _ audience] exI [of _ e]; fact s' bearer tok(1,2,4,5) key dep(1,2) acc e n account)
qed

subsection \<open>Witnesses\<close>

text \<open>An identity provider with one key, and a token of it.\<close>

definition demo_claims :: json_object where
  "demo_claims = [(''iss'', JStr ''https://id.example''), (''aud'', JList [JStr ''api'']), (''azp'', JStr ''web''),
     (''exp'', JInt 2000), (''iat'', JInt 1000), (''sub'', JStr ''alice''), (''email'', JStr ''a@b.example'')]"

definition demo_jwt :: "unit jwt_library" where
  "demo_jwt = \<lparr>jwl_header = (\<lambda>token. Some (JObj [(''alg'', JStr ''RS256''), (''kid'', JStr ''k1'')])), jwl_rsa_key = (\<lambda>jwk. Some ()),
     jwl_decode = (\<lambda>token key opts now.
       if token = ''good'' \<and> List.member (dco_algorithms opts) ''RS256'' \<and> now - dco_leeway_seconds opts * 1000000 < 2000 * 1000000
         \<and> (\<not> dco_verify_iss opts \<or> dco_issuer opts = Some ''https://id.example'')
         \<and> (\<not> dco_verify_aud opts \<or> dco_audience opts = Some ''api'')
       then Some (JObj demo_claims) else None)\<rparr>"

definition demo_signs :: "string \<Rightarrow> string \<Rightarrow> unit \<Rightarrow> json_object \<Rightarrow> bool" where
  "demo_signs alg token key claims \<longleftrightarrow> alg = ''RS256'' \<and> token = ''good'' \<and> claims = demo_claims"

lemma demo_jwt_documented: "pyjwt_documented demo_jwt demo_signs"
  by (auto simp: pyjwt_documented_def demo_jwt_def demo_signs_def demo_claims_def json_get_def names_audience_def
      split: if_splits)

definition demo_answers :: "nat \<Rightarrow> string \<Rightarrow> json option" where
  "demo_answers n url =
     (if url = ''https://id.example/.well-known/openid-configuration''
      then Some (JObj [(''jwks_uri'', JStr ''https://id.example/keys'')])
      else if url = ''https://id.example/keys''
      then Some (JObj [(''keys'', JList [JObj [(''kid'', JStr ''k1''), (''kty'', JStr ''RSA'')]])])
      else None)"

definition first_auth_state :: auth_state where
  "first_auth_state = \<lparr>ast_signature = None, ast_discovery = None, ast_jwks = None, ast_last_refresh = 0,
     ast_wall = (\<lambda>_. 1500 * 1000000), ast_wall_pos = 0, ast_mono = (\<lambda>_. 60 * 1000000), ast_mono_pos = 0,
     ast_answers = demo_answers, ast_fetches = [], ast_locks = (\<lambda>_. True), ast_lock_pos = 0\<rparr>"

definition demo_bearer :: http_request where
  "demo_bearer = \<lparr>rq_client_host = None, rq_headers = [(''authorization'', ''Bearer good'')], rq_method = ''GET'',
     rq_path = ''/api/v1/users/me'', rq_raw_path = None, rq_query = []\<rparr>"

lemma demo_accepted: "\<exists>p s'. get_authenticated_principal demo_jwt Some prod_auth demo_bearer first_auth_state = (Inr (Some p), s')
    \<and> idn_external_auth_id p = ''alice''"
proof -
  have "(case fst (get_authenticated_principal demo_jwt Some prod_auth demo_bearer first_auth_state) of
      Inr (Some p) \<Rightarrow> idn_external_auth_id p = ''alice'' | _ \<Rightarrow> False)"
    by code_simp
  then show ?thesis
    by (cases "get_authenticated_principal demo_jwt Some prod_auth demo_bearer first_auth_state") (auto split: sum.splits option.splits)
qed

theorem accepted_principal_witness:
  "\<exists>p s' claims. get_authenticated_principal demo_jwt Some prod_auth demo_bearer first_auth_state = (Inr (Some p), s')
     \<and> caches_trusted prod_auth s' \<and> demo_signs ''RS256'' ''good'' () claims \<and> names_audience claims ''api''
     \<and> map_of claims ''sub'' = Some (JStr (idn_external_auth_id p))"
proof -
  obtain cfg where cfg: "load_settings (\<lambda>_. True) prod_settings = Inr cfg" "set_auth cfg = prod_auth" "set_environment cfg = ''prod''"
    using prod_loads by blast
  obtain p s' where run: "get_authenticated_principal demo_jwt Some (set_auth cfg) demo_bearer first_auth_state = (Inr (Some p), s')"
    using demo_accepted cfg(2) by auto
  have env: "set_environment cfg \<in> {''staging'', ''prod''}" using cfg(3) by simp
  have fresh: "caches_trusted (set_auth cfg) first_auth_state \<or> ast_signature first_auth_state \<noteq> Some (validator_signature (set_auth cfg))"
    by (simp add: first_auth_state_def)
  from accepted_principal [OF cfg(1) env demo_jwt_documented fresh run] obtain token key claims audience where
    acc: "caches_trusted (set_auth cfg) s'" "demo_signs ''RS256'' token key claims" "aut_audience (set_auth cfg) = Some audience"
    "names_audience claims audience" "map_of claims ''sub'' = Some (JStr (idn_external_auth_id p))"
    by auto
  from acc(3) cfg(2) have "audience = ''api''" by (simp add: prod_auth_def)
  moreover from acc(2) have "token = ''good''" by (simp add: demo_signs_def)
  ultimately show ?thesis using run acc cfg(2) by auto
qed

text \<open>Two validations miss a key; the first refreshes, the second finds the refresh under way.\<close>

theorem forced_refreshes_spaced_witness:
  "\<exists>s' at'. refresh_run prod_auth (first_auth_state, \<lambda>_. Idle) [60 * 1000000] (s', at') \<and> at' 0 = Fetches \<and> at' 1 = AwaitsLock
     \<and> ast_last_refresh first_auth_state + aut_refresh_cooldown prod_auth \<le> 60 * 1000000"
proof -
  let ?c = "aut_refresh_cooldown prod_auth"
  let ?later = "\<lambda>n. first_auth_state\<lparr>ast_mono_pos := n\<rparr>"
  let ?claimed = "(?later 3)\<lparr>ast_last_refresh := 60 * 1000000\<rparr>"
  have tested: "within_cooldown prod_auth (?later n) = (Inr False, ?later (Suc n))" for n
    by (simp add: within_cooldown_def monotonic_def bind_def gets_def ret_def first_auth_state_def prod_auth_def)
  have start: "?later 0 = first_auth_state" by (simp add: first_auth_state_def)
  have claim: "claim_forced_refresh prod_auth (?later 2) = (Inr True, ?claimed)"
    by (simp add: claim_forced_refresh_def monotonic_def bind_def gets_def first_auth_state_def prod_auth_def)
  let ?a0 = "\<lambda>_ :: nat. Idle"
  have "refresh_run prod_auth (first_auth_state, ?a0) [] (first_auth_state, ?a0)" by (rule refresh_run.Start)
  moreover have "refresh_step prod_auth (first_auth_state, ?a0) None (?later 1, ?a0(0 := AwaitsLock))"
    by (rule refresh_step.Queue) (use tested [of 0] start in simp_all)
  ultimately have "refresh_run prod_auth (first_auth_state, ?a0) [] (?later 1, ?a0(0 := AwaitsLock))" by (rule refresh_run.Silent)
  moreover have "refresh_step prod_auth (?later 1, ?a0(0 := AwaitsLock)) None (?later 2, ?a0(0 := AwaitsLock, 1 := AwaitsLock))"
    by (rule refresh_step.Queue) (use tested [of 1] in \<open>simp_all add: numeral_2_eq_2\<close>)
  ultimately have "refresh_run prod_auth (first_auth_state, ?a0) [] (?later 2, ?a0(0 := AwaitsLock, 1 := AwaitsLock))" by (rule refresh_run.Silent)
  moreover have "refresh_step prod_auth (?later 2, ?a0(0 := AwaitsLock, 1 := AwaitsLock)) None
      (?later 2, (?a0(0 := AwaitsLock, 1 := AwaitsLock))(0 := HoldsLock))"
    by (rule refresh_step.Acquire) (auto simp: lock_taken_def)
  ultimately have "refresh_run prod_auth (first_auth_state, ?a0) [] (?later 2, (?a0(0 := AwaitsLock, 1 := AwaitsLock))(0 := HoldsLock))"
    by (rule refresh_run.Silent)
  moreover have "refresh_step prod_auth (?later 2, (?a0(0 := AwaitsLock, 1 := AwaitsLock))(0 := HoldsLock)) (Some (ast_last_refresh ?claimed))
      (?claimed, (?a0(0 := AwaitsLock, 1 := AwaitsLock))(0 := HoldsLock, 0 := Fetches))"
    by (rule refresh_step.Claim) (use claim in simp_all)
  ultimately have run: "refresh_run prod_auth (first_auth_state, ?a0) ([] @ [ast_last_refresh ?claimed])
      (?claimed, (?a0(0 := AwaitsLock, 1 := AwaitsLock))(0 := HoldsLock, 0 := Fetches))" by (rule refresh_run.Forced)
  have "0 \<le> ?c" by (simp add: prod_auth_def)
  from forced_refreshes_spaced [OF run this] have "ast_last_refresh first_auth_state + ?c \<le> 60 * 1000000" by simp
  with run show ?thesis by fastforce
qed

end
