(* ===== verification/DSR_Health.thy ===== *)
theory DSR_Health
  imports Export_Repository
begin

section \<open>The health of request execution\<close>

text \<open>
  \<^verbatim>\<open>privacy/repositories/dsr_execution_health.py\<close> and \<^verbatim>\<open>privacy/services/dsr_execution_health.py\<close>: the
  counts of requests and artifacts by state, of those that are stuck and of those that failed, and the
  verdict. A dictionary is the list of its items; the metrics and the log line made of a snapshot are
  left out.
\<close>

subsection \<open>Counts\<close>

definition dsr_job_request_types :: "dsr_type list" where
  "dsr_job_request_types = [DSR_EXPORT, DSR_ERASE]"

definition dsr_execution_statuses :: "dsr_execution_status list" where
  "dsr_execution_statuses = [EXECUTION_NOT_STARTED, EXECUTION_QUEUED, EXECUTION_PROCESSING, EXECUTION_READY,
     EXECUTION_FAILED, EXECUTION_PARTIALLY_FULFILLED, EXECUTION_DELIVERED]"

definition stale_dsr_statuses :: "dsr_execution_status list" where
  "stale_dsr_statuses = [EXECUTION_QUEUED, EXECUTION_PROCESSING]"

definition failed_dsr_statuses :: "dsr_execution_status list" where
  "failed_dsr_statuses = [EXECUTION_FAILED, EXECUTION_PARTIALLY_FULFILLED]"

definition stale_export_artifact_statuses :: "artifact_status list" where
  "stale_export_artifact_statuses = [ART_QUEUED, ART_PROCESSING, ART_READY]"

text \<open>\<open>GROUP BY\<close> over zeros: the number of rows of each key.\<close>

definition counts_by :: "'k list \<Rightarrow> ('r \<Rightarrow> 'k) \<Rightarrow> 'r list \<Rightarrow> ('k \<times> nat) list" where
  "counts_by keys key rows = map (\<lambda>k. (k, length (filter (\<lambda>r. key r = k) rows))) keys"

definition non_cancelled_dsr :: "data_subject_request \<Rightarrow> bool" where
  "non_cancelled_dsr r \<longleftrightarrow> dsr_status r \<noteq> DSR_CANCELLED"

definition non_cancelled_export_dsr_exists :: "db \<Rightarrow> export_artifact \<Rightarrow> bool" where
  "non_cancelled_export_dsr_exists d a \<longleftrightarrow>
     list_ex (\<lambda>r. dsr_id r = art_dsr_id a \<and> dsr_request_type r = DSR_EXPORT \<and> non_cancelled_dsr r) (requests_of d)"

definition newer_artifact_for_same_dsr_exists :: "db \<Rightarrow> export_artifact \<Rightarrow> bool" where
  "newer_artifact_for_same_dsr_exists d a \<longleftrightarrow>
     list_ex (\<lambda>b. art_dsr_id b = art_dsr_id a \<and>
       (art_queued_at a < art_queued_at b \<or> art_queued_at b = art_queued_at a \<and> art_created_at a < art_created_at b)) (artifacts_of d)"

definition count_dsr_requests_by_status ::
  "dsr_type list \<Rightarrow> dsr_execution_status list \<Rightarrow> db \<Rightarrow> ((dsr_type \<times> dsr_execution_status) \<times> nat) list" where
  "count_dsr_requests_by_status request_types execution_statuses d =
     counts_by (List.product request_types execution_statuses) (\<lambda>r. (dsr_request_type r, dsr_execution_status r))
       (filter (\<lambda>r. List.member request_types (dsr_request_type r) \<and> non_cancelled_dsr r) (requests_of d))"

text \<open>\<open>coalesce(execution_started_at, updated_at, created_at)\<close>; \<open>updated_at\<close> is not null.\<close>

definition stale_since :: "data_subject_request \<Rightarrow> int" where
  "stale_since r = (case dsr_execution_started_at r of Some t \<Rightarrow> t | None \<Rightarrow> dsr_updated_at r)"

definition active_export_processing_lease :: "int \<Rightarrow> db \<Rightarrow> data_subject_request \<Rightarrow> bool" where
  "active_export_processing_lease checked_at d r \<longleftrightarrow>
     list_ex (\<lambda>a. art_dsr_id a = dsr_id r \<and> art_status a = ART_PROCESSING \<and>
       (case art_lease_expires_at a of None \<Rightarrow> False | Some t \<Rightarrow> checked_at < t)) (artifacts_of d)"

definition stale_request ::
  "dsr_type list \<Rightarrow> dsr_execution_status list \<Rightarrow> int \<Rightarrow> int \<Rightarrow> db \<Rightarrow> data_subject_request \<Rightarrow> bool" where
  "stale_request request_types stale_statuses checked_at stale_cutoff d r \<longleftrightarrow>
     List.member request_types (dsr_request_type r) \<and> List.member stale_statuses (dsr_execution_status r) \<and>
     non_cancelled_dsr r \<and> stale_since r \<le> stale_cutoff \<and>
     (dsr_request_type r \<noteq> DSR_EXPORT \<or> dsr_execution_status r \<noteq> EXECUTION_PROCESSING \<or>
      \<not> active_export_processing_lease checked_at d r)"

definition count_stale_dsr_requests_by_status ::
  "dsr_type list \<Rightarrow> dsr_execution_status list \<Rightarrow> int \<Rightarrow> int \<Rightarrow> db \<Rightarrow> ((dsr_type \<times> dsr_execution_status) \<times> nat) list" where
  "count_stale_dsr_requests_by_status request_types stale_statuses checked_at stale_cutoff d =
     counts_by (List.product request_types stale_statuses) (\<lambda>r. (dsr_request_type r, dsr_execution_status r))
       (filter (stale_request request_types stale_statuses checked_at stale_cutoff d) (requests_of d))"

definition count_export_artifacts_by_status :: "db \<Rightarrow> (artifact_status \<times> nat) list" where
  "count_export_artifacts_by_status d =
     counts_by [ART_QUEUED, ART_PROCESSING, ART_READY, ART_FAILED, ART_EXPIRED, ART_CANCELLED] art_status (artifacts_of d)"

definition current_failed_artifact :: "db \<Rightarrow> export_artifact \<Rightarrow> bool" where
  "current_failed_artifact d a \<longleftrightarrow> art_status a = ART_FAILED \<and> non_cancelled_export_dsr_exists d a \<and>
     \<not> newer_artifact_for_same_dsr_exists d a"

definition count_current_failed_export_artifacts :: "db \<Rightarrow> nat" where
  "count_current_failed_export_artifacts d = length (filter (current_failed_artifact d) (artifacts_of d))"

definition stale_artifact :: "int \<Rightarrow> int \<Rightarrow> db \<Rightarrow> export_artifact \<Rightarrow> bool" where
  "stale_artifact checked_at stale_cutoff d a \<longleftrightarrow> non_cancelled_export_dsr_exists d a \<and>
     (art_status a = ART_QUEUED \<and> art_queued_at a \<le> stale_cutoff \<or>
      art_status a = ART_PROCESSING \<and> (case art_lease_expires_at a of None \<Rightarrow> False | Some t \<Rightarrow> t \<le> checked_at) \<or>
      art_status a = ART_PROCESSING \<and> art_lease_expires_at a = None \<and>
        (case art_started_at a of None \<Rightarrow> False | Some t \<Rightarrow> t \<le> stale_cutoff) \<or>
      art_status a = ART_READY \<and> art_expires_at a \<le> checked_at \<and> art_downloaded_at a = None \<and>
        art_download_count a = 0 \<and> \<not> newer_artifact_for_same_dsr_exists d a)"

definition count_stale_export_artifacts_by_status :: "int \<Rightarrow> int \<Rightarrow> db \<Rightarrow> (artifact_status \<times> nat) list" where
  "count_stale_export_artifacts_by_status checked_at stale_cutoff d =
     counts_by stale_export_artifact_statuses art_status (filter (stale_artifact checked_at stale_cutoff d) (artifacts_of d))"

subsection \<open>The snapshot\<close>

record health_snapshot =
  hsn_checked_at :: int
  hsn_status :: string
  hsn_stale_after_seconds :: int
  hsn_requests :: "((dsr_type \<times> dsr_execution_status) \<times> nat) list"
  hsn_stale_requests :: "((dsr_type \<times> dsr_execution_status) \<times> nat) list"
  hsn_failed_requests :: "(dsr_type \<times> nat) list"
  hsn_artifacts :: "(artifact_status \<times> nat) list"
  hsn_stale_artifact_counts :: "(artifact_status \<times> nat) list"
  hsn_stale_artifacts :: nat
  hsn_failed_artifacts :: nat

definition failed_counts_from_request_counts ::
  "((dsr_type \<times> dsr_execution_status) \<times> nat) list \<Rightarrow> (dsr_type \<times> nat) list" where
  "failed_counts_from_request_counts counts =
     map (\<lambda>t. (t, sum_list (map (\<lambda>st. case map_of counts (t, st) of None \<Rightarrow> 0 | Some n \<Rightarrow> n) failed_dsr_statuses)))
       (remdups (map (\<lambda>((t, _), _). t) counts))"

definition total_of :: "('k \<times> nat) list \<Rightarrow> nat" where
  "total_of counts = sum_list (map snd counts)"

definition is_degraded :: "health_snapshot \<Rightarrow> bool" where
  "is_degraded h \<longleftrightarrow> 0 < total_of (hsn_failed_requests h) \<or> 0 < total_of (hsn_stale_requests h) \<or>
     0 < hsn_failed_artifacts h \<or> 0 < hsn_stale_artifacts h"

text \<open>The queries run one after the other on one state; \<open>now\<close> and \<open>stale_after\<close> are in microseconds.\<close>

definition get_privacy_dsr_execution_health :: "int option \<Rightarrow> int \<Rightarrow> health_snapshot app" where
  "get_privacy_dsr_execution_health now stale_after =
     bind (ensure (0 < stale_after) (ValueError ''DSR execution stale_after must be positive'')) (\<lambda>_.
     bind (case now of None \<Rightarrow> utcnow | Some t \<Rightarrow> ret t) (\<lambda>checked_at.
     let stale_cutoff = checked_at - stale_after in
     bind (query (count_dsr_requests_by_status dsr_job_request_types dsr_execution_statuses)) (\<lambda>request_counts.
     bind (query (count_stale_dsr_requests_by_status dsr_job_request_types stale_dsr_statuses checked_at stale_cutoff)) (\<lambda>stale_counts.
     bind (query count_export_artifacts_by_status) (\<lambda>artifact_counts.
     bind (query count_current_failed_export_artifacts) (\<lambda>failed_artifacts.
     bind (query (count_stale_export_artifacts_by_status checked_at stale_cutoff)) (\<lambda>stale_artifact_counts.
     let snapshot = \<lparr>hsn_checked_at = checked_at, hsn_status = ''degraded'', hsn_stale_after_seconds = stale_after div 1000000,
           hsn_requests = request_counts, hsn_stale_requests = stale_counts,
           hsn_failed_requests = failed_counts_from_request_counts request_counts, hsn_artifacts = artifact_counts,
           hsn_stale_artifact_counts = stale_artifact_counts, hsn_stale_artifacts = total_of stale_artifact_counts,
           hsn_failed_artifacts = failed_artifacts\<rparr>
     in ret (if is_degraded snapshot then snapshot else snapshot\<lparr>hsn_status := ''ok''\<rparr>))))))))"

end
