(* ===== verification/Health_Theorems.thy ===== *)
theory Health_Theorems
  imports DSR_Health Erasure_Theorems
begin

section \<open>The verdict on request execution\<close>

text \<open>The counts are zero exactly when no row is in trouble, and the verdict is drawn from the counts.\<close>

subsection \<open>What the verdict means\<close>

lemma total_counts_zero:
  assumes "\<forall>r \<in> set rows. key r \<in> set keys"
  shows "total_of (counts_by keys key rows) = 0 \<longleftrightarrow> rows = []"
proof -
  have "total_of (counts_by keys key rows) = 0 \<longleftrightarrow> (\<forall>k \<in> set keys. \<forall>r \<in> set rows. key r \<noteq> k)"
    by (simp add: total_of_def counts_by_def comp_def filter_empty_conv)
  also have "\<dots> \<longleftrightarrow> rows = []" using assms by (cases rows) auto
  finally show ?thesis .
qed

lemma map_of_counts_by: "map_of (counts_by keys key rows) k = (if k \<in> set keys then Some (length (filter (\<lambda>r. key r = k) rows)) else None)"
  by (induction keys) (auto simp: counts_by_def)

lemma all_execution_statuses: "st \<in> set dsr_execution_statuses"
  by (cases st) (simp_all add: dsr_execution_statuses_def)

lemma failed_total_zero:
  "total_of (failed_counts_from_request_counts (count_dsr_requests_by_status dsr_job_request_types dsr_execution_statuses d)) = 0 \<longleftrightarrow>
     (\<forall>r \<in> set (requests_of d). dsr_request_type r \<in> {DSR_EXPORT, DSR_ERASE} \<and> dsr_status r \<noteq> DSR_CANCELLED \<longrightarrow>
       dsr_execution_status r \<notin> {EXECUTION_FAILED, EXECUTION_PARTIALLY_FULFILLED})"
proof -
  let ?rows = "filter (\<lambda>r. List.member dsr_job_request_types (dsr_request_type r) \<and> non_cancelled_dsr r) (requests_of d)"
  let ?keys = "List.product dsr_job_request_types dsr_execution_statuses" and ?key = "\<lambda>r. (dsr_request_type r, dsr_execution_status r)"
  have types: "remdups (map (\<lambda>((t, _), _). t) (counts_by ?keys ?key ?rows)) = dsr_job_request_types"
    by (simp add: counts_by_def dsr_job_request_types_def dsr_execution_statuses_def)
  have "total_of (failed_counts_from_request_counts (counts_by ?keys ?key ?rows)) = 0 \<longleftrightarrow>
      (\<forall>t \<in> set dsr_job_request_types. \<forall>st \<in> set failed_dsr_statuses. \<forall>r \<in> set ?rows. ?key r \<noteq> (t, st))"
    unfolding total_of_def failed_counts_from_request_counts_def types
    by (auto simp: comp_def map_of_counts_by filter_empty_conv all_execution_statuses)
  then show ?thesis
    by (auto simp: count_dsr_requests_by_status_def dsr_job_request_types_def failed_dsr_statuses_def non_cancelled_dsr_def)
qed

lemma stale_total_zero:
  "total_of (count_stale_dsr_requests_by_status dsr_job_request_types stale_dsr_statuses t c d) = 0 \<longleftrightarrow>
     (\<forall>r \<in> set (requests_of d). \<not> stale_request dsr_job_request_types stale_dsr_statuses t c d r)"
  unfolding count_stale_dsr_requests_by_status_def
  by (subst total_counts_zero) (auto simp: stale_request_def filter_empty_conv)

lemma stale_artifacts_zero:
  "total_of (count_stale_export_artifacts_by_status t c d) = 0 \<longleftrightarrow> (\<forall>a \<in> set (artifacts_of d). \<not> stale_artifact t c d a)"
  unfolding count_stale_export_artifacts_by_status_def
  by (subst total_counts_zero) (auto simp: stale_artifact_def stale_export_artifact_statuses_def filter_empty_conv)


text \<open>An export request that waits since a second after the epoch, looked at three hours later.\<close>

definition queued_request :: data_subject_request where
  "queued_request = (demo_request 61 DSR_EXPORT DSR_APPROVED 2)\<lparr>dsr_execution_status := EXECUTION_QUEUED, dsr_updated_at := 1000000\<rparr>"


end
