(* ===== verification/Spec2Isabelle.thy ===== *)
theory Spec2Isabelle
  imports Roster Delivery_Theorems Platform_Theorems Audit_Theorems Erasure_Theorems
    Governance_Theorems Retention_Theorems Request_Theorems
    Export_Theorems Rate_Properties Inventory_Theorems
    Authentication_Properties Health_Theorems
begin

text \<open>
  A verification library for the multi-tenant SaaS backend under \<^verbatim>\<open>src/backend/app\<close>.
\<close>

section \<open>Properties of the whole application\<close>

text \<open>A deployment for the witnesses, and a state of it: Alice has founded an organisation.\<close>

definition demo_deployment :: deployment where
  "demo_deployment = \<lparr>dep_env = demo_env, platform_limit = (\<lambda>_. demo_limit),
     privacy_limit = (\<lambda>_. demo_limit), download_limit = (\<lambda>_. demo_limit), dep_schema = demo_schema,
     broker_send = (\<lambda>_. ret (Some ''message'')), delivery = (\<lambda>_ _. ret None), dep_exports = demo_exports,
     dep_audit = \<lparr>retention_days = 365, security_retention_days = 730, compliance_retention_days = 1095,
       anonymisation_batch_size = 500\<rparr>,
     dep_invites = \<lparr>accepted_days = 90, expired_days = 30, revoked_days = 30, invite_batch_size = 500\<rparr>\<rparr>"

definition founding :: "event list" where
  "founding = [TenantRequest (CreateOrganisation alice ''Acme'' ''acme''), DispatcherTick 5,
     TenantRequest (GetMe alice)]"

definition founded :: world where
  "founded = serve_all (run_event demo_deployment) founding demo_start"

lemma demo_deployment_ok: "deployment_ok demo_deployment"
  by (simp add: deployment_ok_def demo_deployment_def limits_ok_def demo_env_def leaves_db_def demo_limit_def ret_def quiet_demo_exports)

lemma founded_reachable: "reachable demo_deployment founded"
  unfolding founded_def by (intro reachable_serve_all reachable.start) (simp_all add: demo_start_def)

lemma founded_rows:
  "map org_slug (organisations (db founded)) = [''acme''] \<and> map mem_role (memberships (db founded)) = [OWNER] \<and>
     list_all live (organisations (db founded)) \<and> list_all mem_is_active (memberships (db founded))"
  unfolding founded_def founding_def by code_simp

text \<open>C1: Tenancy. In every state the application can reach, by requests of tenants and staff, workers
  and jobs in any order, every live organisation has exactly one active owner, every active member
  belongs to a live organisation, and nobody is an active member twice.\<close>

theorem reachable_tenancy:
  assumes "deployment_ok D" and "reachable D w"
  shows "(\<forall>x\<in>set (organisations (db w)). live x \<longrightarrow>
      length (filter (\<lambda>m. mem_organisation_id m = org_id x \<and> mem_role m = OWNER \<and> mem_is_active m) (memberships (db w))) = 1) \<and>
    (\<forall>m\<in>set (memberships (db w)). mem_is_active m \<longrightarrow>
      (\<exists>x\<in>set (organisations (db w)). live x \<and> org_id x = mem_organisation_id m)) \<and>
    distinct (map mem_user_id (filter mem_is_active (memberships (db w))))"
proof -
  have inv: "saas_inv (db w)" using reachable_idle [OF assms(2,1)] by simp
  have "memberships_ok (db w)" using saas_invD(1) [OF inv] by (simp add: integrity_def)
  with saas_invD(2) [OF inv] show ?thesis
    by (fastforce simp: tenancy_def live_ids_def active_orgs_def owners_of_def memberships_ok_def)
qed

theorem reachable_tenancy_witness:
  "\<exists>x\<in>set (organisations (db founded)). live x \<and>
     length (filter (\<lambda>m. mem_organisation_id m = org_id x \<and> mem_role m = OWNER \<and> mem_is_active m) (memberships (db founded))) = 1"
  using reachable_tenancy [OF demo_deployment_ok founded_reachable] founded_rows
  by (cases "organisations (db founded)") auto

text \<open>Invites. In every reachable state no invite makes an owner, an address has at most one
  pending invite per organisation whatever its case, and no two invites share a token.\<close>

theorem reachable_invites:
  assumes "deployment_ok D" and "reachable D w"
  shows "(\<forall>v\<in>set (invites (db w)). inv_role v \<noteq> OWNER) \<and>
    distinct (map (\<lambda>v. (inv_organisation_id v, lower (inv_email v)))
      (filter (\<lambda>v. inv_status v = INVITE_PENDING) (invites (db w)))) \<and>
    distinct (map inv_token_hash (invites (db w)))"
proof -
  have inv: "saas_inv (db w)" using reachable_idle [OF assms(2,1)] by simp
  have "invites_ok (db w)" using saas_invD(1) [OF inv] by (simp add: integrity_def)
  with saas_invD(5) [OF inv] show ?thesis
    by (simp add: invites_ok_def invite_roles_def pending_def [abs_def])
qed

theorem reachable_invites_witness: "distinct (map inv_token_hash (invites (db founded)))"
  using reachable_invites [OF demo_deployment_ok founded_reachable] by blast

text \<open>C34: The outbox. From a consistent state, whatever runs, in any order: an event that waits or is
  being processed has attempts left; a failed one has none, or an erasure or the retention of personal
  data has scrubbed its payload; an event is locked exactly while it is being processed, and only such
  events are reserved by a worker; a finished invite event has lost address and token.\<close>

theorem outbox_lifecycle:
  assumes "deployment_ok D" and "saas_inv (db w)" and "\<not> in_tx w"
    and "d = db (serve_all (run_event D) es w)" and "e \<in> set (outbox_events d)"
  shows "(if obx_status e = OUTBOX_PENDING \<or> obx_status e = OUTBOX_PROCESSING
      then obx_attempts e < obx_max_attempts e
      else invite_event e \<longrightarrow> undeliverable (obx_payload_json e)) \<and>
    (obx_status e = OUTBOX_FAILED \<longrightarrow> obx_attempts e = obx_max_attempts e \<or>
      obx_attempts e < obx_max_attempts e \<and> privacy_marked (obx_payload_json e)) \<and>
    (obx_locked_at e \<noteq> None \<longleftrightarrow> obx_status e = OUTBOX_PROCESSING) \<and>
    (has_claim d (obx_id e) \<longrightarrow> obx_status e = OUTBOX_PROCESSING)"
proof -
  have inv: "outbox_inv d" using saas.serve_sequence assms(1-4) saas_invD(4) by blast
  with assms(5) have ok: "event_ok e" by (simp add: outbox_inv_def)
  have "has_claim d (obx_id e) \<longrightarrow> obx_status e = OUTBOX_PROCESSING"
    using inv assms(5) by (fastforce simp: outbox_inv_def claims_ok_def has_claim_def list_ex_iff)
  with ok show ?thesis by (cases "obx_status e") (auto simp: event_ok_def)
qed

theorem outbox_lifecycle_witness:
  "\<exists>e\<in>set (outbox_events (db (serve_all (run_event demo_deployment) [TenantRequest (GetMe bob)] demo_world))).
     obx_status e = OUTBOX_PROCESSING \<and> obx_attempts e < obx_max_attempts e"
proof -
  let ?d = "db (serve_all (run_event demo_deployment) [TenantRequest (GetMe bob)] demo_world)"
  have e: "map obx_status (outbox_events ?d) = [OUTBOX_PROCESSING]" by code_simp
  then have "hd (outbox_events ?d) \<in> set (outbox_events ?d)" by (cases "outbox_events ?d") simp_all
  with outbox_lifecycle [OF demo_deployment_ok _ _ refl this] e demo_saas_inv show ?thesis
    by (cases "outbox_events ?d") auto
qed



text \<open>the slug an organisation gets is made of lower-case letters, digits and hyphens only,
  is not empty, and normalising it again changes nothing.\<close>

theorem slug_normal_form:
  assumes "normalize_slug raw = Inr s"
  shows "slug_pattern_fullmatch s \<and> normalize_slug s = Inr s"
  using assms by (rule normalize_slug_ok)

theorem slug_normal_form_witness:
  "slug_pattern_fullmatch ''acme-1'' \<and> normalize_slug ''acme-1'' = Inr ''acme-1''"
  by (rule slug_normal_form [of "'' Acme-1 ''"]) code_simp

end
